(* ===== verification/Prelude.thy ===== *)
theory Prelude
  imports Main "HOL-Library.AList" "HOL-Library.Sublist" "HOL-Library.Char_ord" "HOL-Library.List_Lexorder"
begin

text \<open>
  Shared vocabulary of the development: the parts of the JavaScript language and its standard
  library that the modelled code uses (strings, the \<open>Map\<close> object, exceptions), the hint
  collections, and the generic lemmas the component theories build on.

  Conventions:
  \<^item> A JavaScript string is a \<open>string\<close>: a list of code units, restricted to the Latin-1 range
    0..255. Case folding and white space are exact on that range.
  \<^item> A \<open>Map\<close> is an association list in insertion order: \<open>set\<close> is \<^const>\<open>AList.update\<close>, which
    replaces in place and otherwise appends, \<open>delete\<close> is \<^const>\<open>AList.delete\<close>.
  \<^item> An \<open>unknown\<close>/JSON value of object type is an association list too.
  \<^item> Code that may throw over a state is an \<open>eff\<close>: a result (\<open>None\<close> when it threw) and
    the state at that point.
  \<^item> Integral numbers (counts, priorities, millisecond times) are \<open>int\<close>.
\<close>

named_theorems js_simps \<open>evaluation of the JavaScript string operations\<close>
named_theorems map_laws \<open>reading an insertion-ordered map after an update\<close>

type_synonym ('k, 'v) jsmap = "('k \<times> 'v) list"
type_synonym ('s, 'a) eff = "'s \<Rightarrow> 'a option \<times> 's"

section \<open>Strings\<close>

definition char_lower :: "char \<Rightarrow> char" where
  "char_lower c =
     (let n = (of_char c :: nat)
      in if (65 \<le> n \<and> n \<le> 90) \<or> (192 \<le> n \<and> n \<le> 222 \<and> n \<noteq> 215)
         then char_of (n + 32) else c)"

definition js_lower :: "string \<Rightarrow> string" where
  "js_lower s = map char_lower s"

definition js_space :: "char \<Rightarrow> bool" where
  "js_space c = (let n = (of_char c :: nat) in (9 \<le> n \<and> n \<le> 13) \<or> n = 32 \<or> n = 160)"

definition js_trim :: "string \<Rightarrow> string" where
  "js_trim s = rev (dropWhile js_space (rev (dropWhile js_space s)))"

definition starts_with :: "string \<Rightarrow> string \<Rightarrow> bool" where
  "starts_with s p = (take (length p) s = p)"

fun js_includes :: "string \<Rightarrow> string \<Rightarrow> bool" where
  "js_includes [] p = (p = [])"
| "js_includes (c # cs) p = (starts_with (c # cs) p \<or> js_includes cs p)"

text \<open>The code-unit classes \<open>[0-9]\<close>, \<open>[A-Z]\<close>, \<open>[a-z]\<close>.\<close>

definition is_digit :: "char \<Rightarrow> bool" where
  "is_digit c = (let n = (of_char c :: nat) in 48 \<le> n \<and> n \<le> 57)"

definition is_upper :: "char \<Rightarrow> bool" where
  "is_upper c = (let n = (of_char c :: nat) in 65 \<le> n \<and> n \<le> 90)"

definition is_lower :: "char \<Rightarrow> bool" where
  "is_lower c = (let n = (of_char c :: nat) in 97 \<le> n \<and> n \<le> 122)"

text \<open>\<open>s.split(c)\<close> for a separator of one code unit, and \<open>ts.join(sep)\<close>.\<close>

fun split_on :: "char \<Rightarrow> string \<Rightarrow> string list" where
  "split_on c [] = [[]]"
| "split_on c (x # xs) =
     (if x = c then [] # split_on c xs
      else (case split_on c xs of [] \<Rightarrow> [[x]] | t # ts \<Rightarrow> (x # t) # ts))"

fun join :: "string \<Rightarrow> string list \<Rightarrow> string" where
  "join sep [] = []"
| "join sep [t] = t"
| "join sep (t # u # ts) = t @ sep @ join sep (u # ts)"

text \<open>\<open>String(n)\<close> for an integral number.\<close>

fun nat_str :: "nat \<Rightarrow> string" where
  "nat_str n =
     (if n < 10 then [char_of (48 + n)] else nat_str (n div 10) @ [char_of (48 + n mod 10)])"

declare nat_str.simps [simp del]

definition int_str :: "int \<Rightarrow> string" where
  "int_str i = (if i < 0 then CHR ''-'' # nat_str (nat (- i)) else nat_str (nat i))"

lemma char_lower_idem [simp]: "char_lower (char_lower c) = char_lower c"
proof -
  have b: "(of_char c :: nat) < 256" by simp
  have m: "(of_char (char_of n :: char) :: nat) = n" if "n < 256" for n
    using that by (simp add: of_char_of)
  show ?thesis
  proof (cases "(65 \<le> (of_char c :: nat) \<and> (of_char c :: nat) \<le> 90)
      \<or> (192 \<le> (of_char c :: nat) \<and> (of_char c :: nat) \<le> 222 \<and> (of_char c :: nat) \<noteq> 215)")
    case True
    then have "(of_char c :: nat) + 32 < 256" by auto
    with True show ?thesis by (auto simp: char_lower_def Let_def m)
  next
    case False
    then have "char_lower c = c"
      unfolding char_lower_def Let_def by (simp only: if_not_P if_False)
    then show ?thesis by simp
  qed
qed

lemma js_lower_idem [simp]: "js_lower (js_lower s) = js_lower s"
  by (simp add: js_lower_def)

lemma js_lower_length [simp]: "length (js_lower s) = length s"
  by (simp add: js_lower_def)

lemma starts_with_prefix: "starts_with s p \<longleftrightarrow> prefix p s"
  by (auto simp: starts_with_def prefix_def) (metis append_take_drop_id)

lemma js_includes_iff: "js_includes s p \<longleftrightarrow> (\<exists>u v. s = u @ p @ v)"
proof (induction s)
  case Nil
  then show ?case by simp
next
  case (Cons c cs)
  have "(\<exists>u v. c # cs = u @ p @ v) \<longleftrightarrow> (\<exists>v. c # cs = p @ v) \<or> (\<exists>u v. cs = u @ p @ v)"
    by (auto simp: Cons_eq_append_conv)
  with Cons.IH show ?case
    by (simp add: starts_with_prefix prefix_def)
qed

lemma split_on_nonempty [simp]: "split_on c s \<noteq> []"
  by (induction c s rule: split_on.induct) (auto split: list.splits)

lemma join_split_on [simp]: "join [c] (split_on c s) = s"
proof (induction c s rule: split_on.induct)
  case (2 c x xs)
  then show ?case
    by (cases "split_on c xs") (auto split: list.splits, (metis join.simps append_Cons list.exhaust)+)
qed simp

lemma split_on_no_sep: "c \<notin> set t \<Longrightarrow> split_on c t = [t]"
  by (induction t) auto

lemma split_on_append_sep: "c \<notin> set t \<Longrightarrow> split_on c (t @ c # s) = t # split_on c s"
  by (induction t) auto

lemma split_on_join:
  "ts \<noteq> [] \<Longrightarrow> \<forall>t\<in>set ts. c \<notin> set t \<Longrightarrow> split_on c (join [c] ts) = ts"
  by (induction "[c]" ts rule: join.induct) (auto simp: split_on_no_sep split_on_append_sep)

lemma split_on_tokens: "t \<in> set (split_on c s) \<Longrightarrow> c \<notin> set t"
  by (induction c s arbitrary: t rule: split_on.induct) (auto split: if_splits list.splits)

lemma join_append:
  "xs \<noteq> [] \<Longrightarrow> ys \<noteq> [] \<Longrightarrow> join sep (xs @ ys) = join sep xs @ sep @ join sep ys"
  by (induction sep xs rule: join.induct) (auto simp: neq_Nil_conv)

lemma join_snoc: "ts \<noteq> [] \<Longrightarrow> join sep (ts @ [t]) = join sep ts @ sep @ t"
  by (simp add: join_append)

lemmas [js_simps] = js_lower_def js_trim_def starts_with_def char_lower_def js_space_def

section \<open>Maps in insertion order\<close>

text \<open>
  The contract of a key/value store: what a lookup returns after a write or a removal, and an
  invariant that every write keeps. Clients prove their lemmas against it once.
\<close>

locale key_store =
  fixes kempty :: "'m"
    and kget :: "'m \<Rightarrow> 'k \<Rightarrow> 'v option"
    and kset :: "'k \<Rightarrow> 'v \<Rightarrow> 'm \<Rightarrow> 'm"
    and kdel :: "'k \<Rightarrow> 'm \<Rightarrow> 'm"
    and kinv :: "'m \<Rightarrow> bool"
  assumes get_empty: "kget kempty k = None"
    and get_set: "kget (kset k v m) k' = (if k' = k then Some v else kget m k')"
    and get_del: "kget (kdel k m) k' = (if k' = k then None else kget m k')"
    and inv_empty: "kinv kempty"
    and inv_set: "kinv m \<Longrightarrow> kinv (kset k v m)"
    and inv_del: "kinv m \<Longrightarrow> kinv (kdel k m)"
begin

lemma get_set_same: "kget (kset k v m) k = Some v"
  by (simp add: get_set)

lemma get_set_other: "k' \<noteq> k \<Longrightarrow> kget (kset k v m) k' = kget m k'"
  by (simp add: get_set)

lemma get_fold_set_notin:
  "k \<notin> fst ` set kvs \<Longrightarrow> kget (fold (\<lambda>(a, b). kset a b) kvs m) k = kget m k"
  by (induction kvs arbitrary: m) (auto simp: get_set)

lemma inv_fold_set: "kinv m \<Longrightarrow> kinv (fold (\<lambda>(a, b). kset a b) kvs m)"
  by (induction kvs arbitrary: m) (auto intro: inv_set)

lemma get_fold_del: "kget (fold kdel ks m) k = (if k \<in> set ks then None else kget m k)"
  by (induction ks arbitrary: m) (auto simp: get_del)

end

abbreviation distinct_keys :: "('k, 'v) jsmap \<Rightarrow> bool" where
  "distinct_keys m \<equiv> distinct (map fst m)"

interpretation js: key_store "[]" "map_of" "AList.update" "AList.delete" distinct_keys
proof unfold_locales
  fix k k' :: 'a and v :: 'b and m :: "('a \<times> 'b) list"
  show "map_of (AList.update k v m) k' = (if k' = k then Some v else map_of m k')"
    by (simp add: update_conv')
  show "map_of (AList.delete k m) k' = (if k' = k then None else map_of m k')"
    by (simp add: delete_conv')
qed (auto simp: distinct_update distinct_delete)

lemmas [map_laws] = js.get_set js.get_del js.get_empty

lemma update_new: "k \<notin> fst ` set m \<Longrightarrow> AList.update k v m = m @ [(k, v)]"
  by (induction m) auto

lemma update_mem: "(a, b) \<in> set (AList.update k v m) \<Longrightarrow> (a, b) = (k, v) \<or> (a, b) \<in> set m"
  by (induction m) (auto split: if_splits)

lemma delete_mem: "x \<in> set (AList.delete k m) \<Longrightarrow> x \<in> set m"
  by (simp add: AList.delete_eq)

lemma length_filter_le_filter:
  "(\<And>x. P x \<Longrightarrow> Q x) \<Longrightarrow> length (filter P xs) \<le> length (filter Q xs)"
  by (induction xs) auto

section \<open>First match in a list\<close>

text \<open>The loops \<open>for (const x of xs) if (P x) return x\<close> are \<^const>\<open>List.find\<close>.\<close>

lemma find_Some_mem: "List.find P xs = Some x \<Longrightarrow> x \<in> set xs \<and> P x"
  by (auto simp: find_Some_iff)

lemma find_filter: "List.find P (filter Q xs) = List.find (\<lambda>x. Q x \<and> P x) xs"
  by (induction xs) auto

lemma find_None_all: "List.find P xs = None \<longleftrightarrow> (\<forall>x\<in>set xs. \<not> P x)"
  by (auto simp: find_None_iff)

end
