(* ===== verification/JsRegex.thy ===== *)
theory JsRegex
  imports Prelude
begin

text \<open>
  The regular expressions the program writes, as syntax trees with the backtracking semantics
  of JavaScript's \<open>RegExp\<close>: a matcher takes a cursor (the code unit before it and the rest of
  the input) and lists the cursors it can stop at, in the order in which backtracking tries them.
  \<open>rx_test\<close> is \<open>RegExp.prototype.test\<close> without the \<open>g\<close> flag, \<open>rx_match_all\<close> is
  \<open>String.prototype.match\<close> with it, \<open>rx_replace_all\<close> is \<open>String.prototype.replace\<close> with
  it and a replacement function. The language of a tree is defined independently
  (\<open>rx_lang\<close>), and the matcher is proved to compute it (\<open>rx_run_iff\<close>).
\<close>

type_synonym cursor = "char option \<times> string"

datatype rx =
    RClass "char \<Rightarrow> bool"
  | REps
  | RSeq rx rx
  | RAlt rx rx
  | RStar rx
  | RBol
  | REol
  | RWordB

definition last_of :: "char option \<Rightarrow> string \<Rightarrow> char option" where
  "last_of p u = (if u = [] then p else Some (last u))"

definition word_char :: "char \<Rightarrow> bool" where
  "word_char c = (let n = (of_char c :: nat)
     in (48 \<le> n \<and> n \<le> 57) \<or> (65 \<le> n \<and> n \<le> 90) \<or> (97 \<le> n \<and> n \<le> 122) \<or> n = 95)"

definition word_boundary :: "char option \<Rightarrow> string \<Rightarrow> bool" where
  "word_boundary p s =
     ((case p of None \<Rightarrow> False | Some c \<Rightarrow> word_char c)
      \<noteq> (case s of [] \<Rightarrow> False | c # _ \<Rightarrow> word_char c))"

text \<open>
  Iteration of a matcher. An iteration that consumes nothing is rejected, as the language
  specification does; the counter bounds the iterations by the length of the input.
\<close>

fun rx_star :: "nat \<Rightarrow> (cursor \<Rightarrow> cursor list) \<Rightarrow> cursor \<Rightarrow> cursor list" where
  "rx_star 0 f st = [st]"
| "rx_star (Suc n) f st =
     concat (map (\<lambda>st'. if length (snd st') < length (snd st) then rx_star n f st' else []) (f st))
     @ [st]"

primrec rx_run :: "rx \<Rightarrow> cursor \<Rightarrow> cursor list" where
  "rx_run (RClass P) st = (case snd st of [] \<Rightarrow> [] | c # cs \<Rightarrow> if P c then [(Some c, cs)] else [])"
| "rx_run REps st = [st]"
| "rx_run (RSeq a b) st = concat (map (rx_run b) (rx_run a st))"
| "rx_run (RAlt a b) st = rx_run a st @ rx_run b st"
| "rx_run (RStar a) st = rx_star (length (snd st)) (rx_run a) st"
| "rx_run RBol st = (if fst st = None then [st] else [])"
| "rx_run REol st = (if snd st = [] then [st] else [])"
| "rx_run RWordB st = (if word_boundary (fst st) (snd st) then [st] else [])"

fun rx_search :: "rx \<Rightarrow> char option \<Rightarrow> string \<Rightarrow> bool" where
  "rx_search r p [] = (rx_run r (p, []) \<noteq> [])"
| "rx_search r p (c # cs) = (rx_run r (p, c # cs) \<noteq> [] \<or> rx_search r (Some c) cs)"

definition rx_test :: "rx \<Rightarrow> string \<Rightarrow> bool" where
  "rx_test r s = rx_search r None s"

text \<open>
  All leftmost matches, each the first that backtracking finds; after an empty match the search
  goes on one code unit later. The counter is one more than the length of the input.
\<close>

fun rx_matches :: "nat \<Rightarrow> rx \<Rightarrow> cursor \<Rightarrow> string list" where
  "rx_matches 0 r st = []"
| "rx_matches (Suc n) r st =
     (case rx_run r st of
        [] \<Rightarrow> (case snd st of [] \<Rightarrow> [] | c # cs \<Rightarrow> rx_matches n r (Some c, cs))
      | st' # _ \<Rightarrow>
          take (length (snd st) - length (snd st')) (snd st)
          # (if length (snd st') < length (snd st) then rx_matches n r st'
             else (case snd st of [] \<Rightarrow> [] | c # cs \<Rightarrow> rx_matches n r (Some c, cs))))"

definition rx_match_all :: "rx \<Rightarrow> string \<Rightarrow> string list" where
  "rx_match_all r s = rx_matches (Suc (length s)) r (None, s)"

fun rx_subst :: "nat \<Rightarrow> rx \<Rightarrow> (string \<Rightarrow> string) \<Rightarrow> cursor \<Rightarrow> string" where
  "rx_subst 0 r f st = snd st"
| "rx_subst (Suc n) r f st =
     (case rx_run r st of
        [] \<Rightarrow> (case snd st of [] \<Rightarrow> [] | c # cs \<Rightarrow> c # rx_subst n r f (Some c, cs))
      | st' # _ \<Rightarrow>
          f (take (length (snd st) - length (snd st')) (snd st))
          @ (if length (snd st') < length (snd st) then rx_subst n r f st'
             else (case snd st of [] \<Rightarrow> [] | c # cs \<Rightarrow> c # rx_subst n r f (Some c, cs))))"

definition rx_replace_all :: "rx \<Rightarrow> (string \<Rightarrow> string) \<Rightarrow> string \<Rightarrow> string" where
  "rx_replace_all r f s = rx_subst (Suc (length s)) r f (None, s)"

text \<open>\<open>String.prototype.replace\<close> without the \<open>g\<close> flag: the leftmost match only.\<close>

fun rx_replace_from :: "rx \<Rightarrow> (string \<Rightarrow> string) \<Rightarrow> char option \<Rightarrow> string \<Rightarrow> string" where
  "rx_replace_from r f p s =
     (case rx_run r (p, s) of
        st' # _ \<Rightarrow> f (take (length s - length (snd st')) s) @ snd st'
      | [] \<Rightarrow> (case s of [] \<Rightarrow> [] | c # cs \<Rightarrow> c # rx_replace_from r f (Some c) cs))"

declare rx_replace_from.simps [simp del]

definition rx_replace_first :: "rx \<Rightarrow> (string \<Rightarrow> string) \<Rightarrow> string \<Rightarrow> string" where
  "rx_replace_first r f s = rx_replace_from r f None s"

section \<open>Derived forms\<close>

definition rx_ci :: "char \<Rightarrow> rx" where
  "rx_ci c = RClass (\<lambda>d. char_lower d = char_lower c)"

definition rx_chr :: "char \<Rightarrow> rx" where
  "rx_chr c = RClass (\<lambda>d. d = c)"

fun rx_lit :: "string \<Rightarrow> rx" where
  "rx_lit [] = REps"
| "rx_lit [c] = rx_chr c"
| "rx_lit (c # d # cs) = RSeq (rx_chr c) (rx_lit (d # cs))"

fun rx_lit_ci :: "string \<Rightarrow> rx" where
  "rx_lit_ci [] = REps"
| "rx_lit_ci [c] = rx_ci c"
| "rx_lit_ci (c # d # cs) = RSeq (rx_ci c) (rx_lit_ci (d # cs))"

fun rx_seq :: "rx list \<Rightarrow> rx" where
  "rx_seq [] = REps"
| "rx_seq [r] = r"
| "rx_seq (r # s # rs) = RSeq r (rx_seq (s # rs))"

text \<open>An alternative of no branch never matches.\<close>

fun rx_alt :: "rx list \<Rightarrow> rx" where
  "rx_alt [] = RClass (\<lambda>_. False)"
| "rx_alt [r] = r"
| "rx_alt (r # s # rs) = RAlt r (rx_alt (s # rs))"

definition rx_opt :: "rx \<Rightarrow> rx" where
  "rx_opt r = RAlt r REps"

definition rx_plus :: "rx \<Rightarrow> rx" where
  "rx_plus r = RSeq r (RStar r)"

fun rx_times :: "nat \<Rightarrow> rx \<Rightarrow> rx" where
  "rx_times 0 r = REps"
| "rx_times (Suc n) r = RSeq r (rx_times n r)"

text \<open>\<open>r{0,n}\<close>, greedy.\<close>

fun rx_upto :: "nat \<Rightarrow> rx \<Rightarrow> rx" where
  "rx_upto 0 r = REps"
| "rx_upto (Suc n) r = RAlt (RSeq r (rx_upto n r)) REps"

definition rx_range :: "nat \<Rightarrow> nat \<Rightarrow> rx \<Rightarrow> rx" where
  "rx_range lo hi r = RSeq (rx_times lo r) (rx_upto (hi - lo) r)"

definition cls :: "string \<Rightarrow> char \<Rightarrow> bool" where
  "cls cs c = (c \<in> set cs)"

text \<open>\<open>.\<close> excludes the line terminators; in the Latin-1 range these are LF and CR.\<close>

definition dot_char :: "char \<Rightarrow> bool" where
  "dot_char c = (let n = (of_char c :: nat) in n \<noteq> 10 \<and> n \<noteq> 13)"

section \<open>The language of an expression\<close>

text \<open>
  \<open>rx_lang r p u v\<close>: standing after \<open>p\<close>, the expression can consume \<open>u\<close> when \<open>v\<close>
  follows it.
\<close>

inductive rx_lang :: "rx \<Rightarrow> char option \<Rightarrow> string \<Rightarrow> string \<Rightarrow> bool" where
  lang_class: "P c \<Longrightarrow> rx_lang (RClass P) p [c] v"
| lang_eps: "rx_lang REps p [] v"
| lang_seq: "rx_lang a p u (w @ v) \<Longrightarrow> rx_lang b (last_of p u) w v \<Longrightarrow> rx_lang (RSeq a b) p (u @ w) v"
| lang_altl: "rx_lang a p u v \<Longrightarrow> rx_lang (RAlt a b) p u v"
| lang_altr: "rx_lang b p u v \<Longrightarrow> rx_lang (RAlt a b) p u v"
| lang_star_nil: "rx_lang (RStar a) p [] v"
| lang_star: "rx_lang a p u (w @ v) \<Longrightarrow> u \<noteq> [] \<Longrightarrow> rx_lang (RStar a) (last_of p u) w v
    \<Longrightarrow> rx_lang (RStar a) p (u @ w) v"
| lang_bol: "rx_lang RBol None [] v"
| lang_eol: "rx_lang REol p [] []"
| lang_wordb: "word_boundary p v \<Longrightarrow> rx_lang RWordB p [] v"

inductive_simps rx_lang_class [simp]: "rx_lang (RClass P) p u v"
inductive_simps rx_lang_eps [simp]: "rx_lang REps p u v"
inductive_simps rx_lang_seq: "rx_lang (RSeq a b) p u v"
inductive_simps rx_lang_alt [simp]: "rx_lang (RAlt a b) p u v"
inductive_simps rx_lang_bol [simp]: "rx_lang RBol p u v"
inductive_simps rx_lang_eol [simp]: "rx_lang REol p u v"
inductive_simps rx_lang_wordb [simp]: "rx_lang RWordB p u v"
inductive_cases rx_lang_starE: "rx_lang (RStar a) p u v"

lemma last_of_simps [simp]:
  "last_of p [] = p" "last_of p (u @ w) = last_of (last_of p u) w" "last_of p [c] = Some c"
  by (auto simp: last_of_def)

text \<open>A run that is correct: it stops exactly where its language says it can.\<close>

definition runs :: "(cursor \<Rightarrow> cursor list) \<Rightarrow> (char option \<Rightarrow> string \<Rightarrow> string \<Rightarrow> bool) \<Rightarrow> bool" where
  "runs f L \<longleftrightarrow> (\<forall>p s q v. (q, v) \<in> set (f (p, s)) \<longleftrightarrow> (\<exists>u. s = u @ v \<and> q = last_of p u \<and> L p u v))"

lemma runs_star_sound:
  assumes "runs (rx_run a) (rx_lang a)"
  shows "(q, v) \<in> set (rx_star n (rx_run a) (p, s)) \<Longrightarrow>
    \<exists>u. s = u @ v \<and> q = last_of p u \<and> rx_lang (RStar a) p u v"
proof (induction n arbitrary: p s)
  case 0
  then show ?case by (auto intro: lang_star_nil)
next
  case (Suc n)
  then consider "q = p \<and> v = s"
    | q1 s1 where "(q1, s1) \<in> set (rx_run a (p, s))" "length s1 < length s"
        "(q, v) \<in> set (rx_star n (rx_run a) (q1, s1))"
    by (auto split: if_splits)
  then show ?case
  proof cases
    case 1
    then show ?thesis by (auto intro: lang_star_nil)
  next
    case 2
    from 2(1) assms obtain u where u: "s = u @ s1" "q1 = last_of p u" "rx_lang a p u s1"
      unfolding runs_def by blast
    from Suc.IH [OF 2(3)] obtain w where w: "s1 = w @ v" "q = last_of q1 w"
      "rx_lang (RStar a) q1 w v" by blast
    from u w 2(2) have "rx_lang (RStar a) p (u @ w) v"
      by (auto intro: lang_star)
    with u w show ?thesis by (intro exI [of _ "u @ w"]) simp
  qed
qed

lemma runs_star_complete:
  assumes "runs (rx_run a) (rx_lang a)"
  shows "rx_lang r p u v \<Longrightarrow> r = RStar a \<Longrightarrow> length (u @ v) \<le> n \<Longrightarrow>
    (last_of p u, v) \<in> set (rx_star n (rx_run a) (p, u @ v))"
proof (induction arbitrary: n rule: rx_lang.induct)
  case (lang_star_nil b p v)
  then show ?case by (cases n) auto
next
  case (lang_star b p u w v)
  then obtain m where n: "n = Suc m" by (cases n) auto
  from lang_star.prems lang_star.hyps assms
  have "(last_of p u, w @ v) \<in> set (rx_run a (p, u @ w @ v))"
    unfolding runs_def by blast
  moreover from lang_star.prems lang_star.hyps(2) n have "length (w @ v) \<le> m"
    by (cases u) auto
  with lang_star have "(last_of (last_of p u) w, v) \<in> set (rx_star m (rx_run a) (last_of p u, w @ v))"
    by blast
  ultimately show ?case
    using lang_star.hyps(2) n by (auto intro!: bexI [of _ "(last_of p u, w @ v)"])
qed auto

lemma runsI:
  "(\<And>p s q v. (q, v) \<in> set (f (p, s)) \<longleftrightarrow> (\<exists>u. s = u @ v \<and> q = last_of p u \<and> L p u v)) \<Longrightarrow> runs f L"
  by (simp add: runs_def)

lemma runsD:
  "runs f L \<Longrightarrow> (q, v) \<in> set (f (p, s)) \<longleftrightarrow> (\<exists>u. s = u @ v \<and> q = last_of p u \<and> L p u v)"
  by (simp add: runs_def)

lemma runs_seq:
  assumes "runs (rx_run a) (rx_lang a)" and "runs (rx_run b) (rx_lang b)"
  shows "runs (rx_run (RSeq a b)) (rx_lang (RSeq a b))"
proof (rule runsI)
  fix p s q v
  have "(q, v) \<in> set (rx_run (RSeq a b) (p, s)) \<longleftrightarrow>
      (\<exists>p1 s1. (p1, s1) \<in> set (rx_run a (p, s)) \<and> (q, v) \<in> set (rx_run b (p1, s1)))"
    by force
  also have "\<dots> \<longleftrightarrow> (\<exists>u w. s = u @ w @ v \<and> q = last_of (last_of p u) w
      \<and> rx_lang a p u (w @ v) \<and> rx_lang b (last_of p u) w v)"
    by (simp only: runsD [OF assms(1)] runsD [OF assms(2)]) blast
  also have "\<dots> \<longleftrightarrow> (\<exists>u. s = u @ v \<and> q = last_of p u \<and> rx_lang (RSeq a b) p u v)"
    unfolding rx_lang_seq by (metis append.assoc last_of_simps(2))
  finally show "(q, v) \<in> set (rx_run (RSeq a b) (p, s)) \<longleftrightarrow>
      (\<exists>u. s = u @ v \<and> q = last_of p u \<and> rx_lang (RSeq a b) p u v)" .
qed

lemma runs_star:
  assumes "runs (rx_run a) (rx_lang a)"
  shows "runs (rx_run (RStar a)) (rx_lang (RStar a))"
proof (rule runsI, rule iffI)
  fix p s q v
  assume "(q, v) \<in> set (rx_run (RStar a) (p, s))"
  then show "\<exists>u. s = u @ v \<and> q = last_of p u \<and> rx_lang (RStar a) p u v"
    using runs_star_sound [OF assms] by simp
next
  fix p s q v
  assume "\<exists>u. s = u @ v \<and> q = last_of p u \<and> rx_lang (RStar a) p u v"
  then show "(q, v) \<in> set (rx_run (RStar a) (p, s))"
    using runs_star_complete [OF assms] by auto
qed

lemma rx_run_runs: "runs (rx_run r) (rx_lang r)"
proof (induction r)
  case (RClass P)
  show ?case
    by (rule runsI) (auto simp: Cons_eq_append_conv split: list.splits)
next
  case (RSeq a b)
  then show ?case by (rule runs_seq)
next
  case (RStar a)
  then show ?case by (rule runs_star)
qed (auto simp: runs_def)

text \<open>The matcher stops exactly at the ends of the words of the expression's language.\<close>

lemma rx_run_iff:
  "(q, v) \<in> set (rx_run r (p, s)) \<longleftrightarrow> (\<exists>u. s = u @ v \<and> q = last_of p u \<and> rx_lang r p u v)"
  using rx_run_runs unfolding runs_def by blast

lemma rx_run_nonempty:
  "rx_run r (p, s) \<noteq> [] \<longleftrightarrow> (\<exists>u v. s = u @ v \<and> rx_lang r p u v)"
proof -
  have "rx_run r (p, s) \<noteq> [] \<longleftrightarrow> (\<exists>q v. (q, v) \<in> set (rx_run r (p, s)))"
    by (metis list.set_intros(1) neq_Nil_conv surj_pair empty_iff empty_set)
  then show ?thesis by (auto simp: rx_run_iff)
qed

lemma rx_search_iff:
  "rx_search r p s \<longleftrightarrow> (\<exists>x u v. s = x @ u @ v \<and> rx_lang r (last_of p x) u v)"
proof (induction s arbitrary: p)
  case Nil
  then show ?case by (simp add: rx_run_nonempty)
next
  case (Cons c cs)
  have last: "last_of p (c # x) = last_of (Some c) x" for x
    by (simp add: last_of_def)
  have "(\<exists>x u v. c # cs = x @ u @ v \<and> rx_lang r (last_of p x) u v) \<longleftrightarrow>
      (\<exists>u v. c # cs = u @ v \<and> rx_lang r p u v)
      \<or> (\<exists>x u v. cs = x @ u @ v \<and> rx_lang r (last_of (Some c) x) u v)" (is "?l \<longleftrightarrow> ?r")
  proof
    assume ?l
    then obtain x u v where h: "c # cs = x @ u @ v" "rx_lang r (last_of p x) u v" by blast
    show ?r
    proof (cases x)
      case Nil
      with h show ?thesis by auto
    next
      case (Cons d y)
      with h last show ?thesis by auto
    qed
  next
    assume ?r
    then show ?l
    proof
      assume "\<exists>u v. c # cs = u @ v \<and> rx_lang r p u v"
      then show ?l by (metis append_Nil last_of_simps(1))
    next
      assume "\<exists>x u v. cs = x @ u @ v \<and> rx_lang r (last_of (Some c) x) u v"
      then show ?l by (metis append_Cons last)
    qed
  qed
  then show ?case
    by (simp only: rx_search.simps rx_run_nonempty Cons.IH)
qed

lemma rx_test_iff:
  "rx_test r s \<longleftrightarrow> (\<exists>x u v. s = x @ u @ v \<and> rx_lang r (last_of None x) u v)"
  by (simp add: rx_test_def rx_search_iff)

section \<open>Languages of the derived forms\<close>

lemma rx_lang_seqI: "rx_lang (RSeq a b) p u v \<longleftrightarrow>
    (\<exists>x y. u = x @ y \<and> rx_lang a p x (y @ v) \<and> rx_lang b (last_of p x) y v)"
  by (auto simp: rx_lang_seq)

lemma rx_lang_chr [simp]: "rx_lang (rx_chr c) p u v \<longleftrightarrow> u = [c]"
  by (auto simp: rx_chr_def)

lemma rx_lang_lit [simp]: "rx_lang (rx_lit s) p u v \<longleftrightarrow> u = s"
  by (induction s arbitrary: p u rule: rx_lit.induct) (auto simp: rx_lang_seqI)

lemma rx_lang_opt [simp]: "rx_lang (rx_opt r) p u v \<longleftrightarrow> rx_lang r p u v \<or> u = []"
  by (auto simp: rx_opt_def)

lemma rx_lang_star_class [simp]:
  "rx_lang (RStar (RClass P)) p u v \<longleftrightarrow> (\<forall>c\<in>set u. P c)"
proof
  have "rx_lang r p u v \<Longrightarrow> r = RStar (RClass P) \<Longrightarrow> \<forall>c\<in>set u. P c" for r
    by (induction rule: rx_lang.induct) auto
  then show "rx_lang (RStar (RClass P)) p u v \<Longrightarrow> \<forall>c\<in>set u. P c" by blast
next
  show "\<forall>c\<in>set u. P c \<Longrightarrow> rx_lang (RStar (RClass P)) p u v"
  proof (induction u arbitrary: p)
    case Nil
    then show ?case by (simp add: lang_star_nil)
  next
    case (Cons c u)
    then show ?case
      using lang_star [of "RClass P" p "[c]" u v] by simp
  qed
qed

lemma rx_lang_plus_class [simp]:
  "rx_lang (rx_plus (RClass P)) p u v \<longleftrightarrow> u \<noteq> [] \<and> (\<forall>c\<in>set u. P c)"
proof (cases u)
  case (Cons c cs)
  have "rx_lang (rx_plus (RClass P)) p (c # cs) v \<longleftrightarrow> P c \<and> (\<forall>c\<in>set cs. P c)"
    unfolding rx_plus_def rx_lang_seqI rx_lang_star_class rx_lang_class
    by (metis append_Cons append_Nil list.inject)
  with Cons show ?thesis by simp
qed (auto simp: rx_plus_def rx_lang_seqI)

lemma rx_lang_class_seq: "rx_lang (RSeq (RClass P) r) p u v \<longleftrightarrow> (\<exists>c w. u = c # w \<and> P c \<and> rx_lang r (Some c) w v)"
proof
  assume "rx_lang (RSeq (RClass P) r) p u v"
  then show "\<exists>c w. u = c # w \<and> P c \<and> rx_lang r (Some c) w v" by (auto simp: rx_lang_seqI)
next
  assume "\<exists>c w. u = c # w \<and> P c \<and> rx_lang r (Some c) w v"
  then obtain c w where c: "u = c # w" "P c" "rx_lang r (Some c) w v" by blast
  have "rx_lang (RClass P) p [c] (w @ v)" using c(2) by simp
  from lang_seq [OF this, of r] c show "rx_lang (RSeq (RClass P) r) p u v" by simp
qed

text \<open>Counted repetitions of a class.\<close>

lemma rx_lang_times_class [simp]:
  "rx_lang (rx_times n (RClass P)) p u v \<longleftrightarrow> length u = n \<and> (\<forall>c\<in>set u. P c)"
  by (induction n arbitrary: p u) (auto simp: rx_lang_class_seq length_Suc_conv)

lemma rx_lang_upto_class [simp]:
  "rx_lang (rx_upto n (RClass P)) p u v \<longleftrightarrow> length u \<le> n \<and> (\<forall>c\<in>set u. P c)"
proof (induction n arbitrary: p u)
  case (Suc n)
  then show ?case by (cases u) (auto simp: rx_lang_class_seq)
qed auto

lemma rx_lang_range_class:
  assumes "lo \<le> hi"
  shows "rx_lang (rx_range lo hi (RClass P)) p u v \<longleftrightarrow> lo \<le> length u \<and> length u \<le> hi \<and> (\<forall>c\<in>set u. P c)"
proof
  assume "rx_lang (rx_range lo hi (RClass P)) p u v"
  then show "lo \<le> length u \<and> length u \<le> hi \<and> (\<forall>c\<in>set u. P c)"
    using assms by (auto simp: rx_range_def rx_lang_seqI)
next
  assume u: "lo \<le> length u \<and> length u \<le> hi \<and> (\<forall>c\<in>set u. P c)"
  then have "u = take lo u @ drop lo u" "length (take lo u) = lo" "length (drop lo u) \<le> hi - lo" by auto
  moreover have "\<forall>c\<in>set (take lo u). P c" "\<forall>c\<in>set (drop lo u). P c"
    using u by (auto dest: in_set_takeD in_set_dropD)
  ultimately show "rx_lang (rx_range lo hi (RClass P)) p u v"
    unfolding rx_range_def rx_lang_seqI rx_lang_times_class rx_lang_upto_class by blast
qed

lemma rx_lang_alt_lits: "rx_lang (rx_alt (map rx_lit ss)) p u v \<longleftrightarrow> u \<in> set ss"
proof (induction ss)
  case (Cons s ss)
  then show ?case by (cases ss) auto
qed simp

lemma rx_lang_seqs:
  "rx_lang (rx_seq []) p u v \<longleftrightarrow> u = []"
  "rx_lang (rx_seq [r]) p u v \<longleftrightarrow> rx_lang r p u v"
  "rx_lang (rx_seq (r # s # rs)) p u v \<longleftrightarrow>
     (\<exists>x y. u = x @ y \<and> rx_lang r p x (y @ v) \<and> rx_lang (rx_seq (s # rs)) (last_of p x) y v)"
  by (simp_all add: rx_lang_seqI)

text \<open>A single class tests for membership.\<close>

lemma rx_test_class: "rx_test (RClass P) s \<longleftrightarrow> (\<exists>c\<in>set s. P c)"
  by (auto simp: rx_test_iff) (metis split_list append_Cons append_Nil)

text \<open>An expression anchored at both ends is matched against the whole string.\<close>

lemma rx_test_anchored:
  "rx_test (RSeq RBol (RSeq r REol)) s \<longleftrightarrow> rx_lang r None s []"
proof -
  have "last_of None x = None \<longleftrightarrow> x = []" for x
    by (simp add: last_of_def)
  then show ?thesis
    by (auto simp: rx_test_iff rx_lang_seqI)
qed

end
