(* ===== verification/Json.thy ===== *)
theory Json
  imports Prelude "HOL-Library.Multiset"
begin

text \<open>
  JSON values as the program handles them (\<open>Record<string, unknown>\<close> parameters, parsed files)
  and its two serialisers: \<open>JSON.stringify\<close> of the standard library and \<open>sortedJsonStringify\<close>
  of \<open>src/enforcement/normalize.ts\<close>, whose output is what payload hashes are taken of. The main
  results are that \<open>sortedJsonStringify\<close> does not depend on the order of the keys and that two
  values with the same text are the same value up to that order (\<open>sorted_json_unambiguous\<close>).
  Numbers are integral.
\<close>

datatype json =
    JUndef
  | JNull
  | JBool bool
  | JNum int
  | JStr string
  | JArr "json list"
  | JObj "(string \<times> json) list"

section \<open>Text of a string literal\<close>

definition hex_digit :: "nat \<Rightarrow> char" where
  "hex_digit n = (if n < 10 then char_of (48 + n) else char_of (87 + n))"

text \<open>The escapes of \<open>JSON.stringify\<close>.\<close>

definition quote_char :: "char \<Rightarrow> string" where
  "quote_char c =
     (let n = (of_char c :: nat)
      in if n = 34 then [CHR 0x5C, CHR 0x22]
         else if n = 92 then [CHR 0x5C, CHR 0x5C]
         else if n = 8 then [CHR 0x5C, CHR ''b'']
         else if n = 9 then [CHR 0x5C, CHR ''t'']
         else if n = 10 then [CHR 0x5C, CHR ''n'']
         else if n = 12 then [CHR 0x5C, CHR ''f'']
         else if n = 13 then [CHR 0x5C, CHR ''r'']
         else if n < 32 then [CHR 0x5C, CHR ''u'', CHR ''0'', CHR ''0'', hex_digit (n div 16), hex_digit (n mod 16)]
         else [c])"

definition js_quote :: "string \<Rightarrow> string" where
  "js_quote s = CHR 0x22 # concat (map quote_char s) @ [CHR 0x22]"

section \<open>Serialisers\<close>

text \<open>
  \<open>sortedJsonStringify\<close>: the members are serialised and put in the order of their keys
  (\<open>Object.keys(obj).sort()\<close> compares code units).
\<close>

primrec sortedJsonStringify :: "json \<Rightarrow> string" where
  "sortedJsonStringify JNull = ''null''"
| "sortedJsonStringify JUndef = ''null''"
| "sortedJsonStringify (JBool b) = (if b then ''true'' else ''false'')"
| "sortedJsonStringify (JNum i) = int_str i"
| "sortedJsonStringify (JStr s) = js_quote s"
| "sortedJsonStringify (JArr vs) = ''['' @ join '','' (map sortedJsonStringify vs) @ '']''"
| "sortedJsonStringify (JObj kvs) =
     (let members = map (map_prod id sortedJsonStringify) kvs
      in [CHR 0x7B]
         @ join '','' (map (\<lambda>(k, t). js_quote k @ '':'' @ t) (sort_key fst members))
         @ [CHR 0x7D])"

text \<open>
  Array-index keys come first, in ascending order, when the members of an object are listed;
  the others keep the order in which they were created.
\<close>

definition digit_val :: "char \<Rightarrow> nat" where
  "digit_val c = of_char c - 48"

definition decimal_val :: "string \<Rightarrow> nat" where
  "decimal_val s = foldl (\<lambda>n c. 10 * n + digit_val c) 0 s"

definition array_index :: "string \<Rightarrow> bool" where
  "array_index k \<longleftrightarrow> k \<noteq> [] \<and> (\<forall>c\<in>set k. is_digit c) \<and> (hd k = CHR ''0'' \<longrightarrow> length k = 1)
     \<and> decimal_val k < 4294967295"

definition own_order :: "(string \<times> 'a) list \<Rightarrow> (string \<times> 'a) list" where
  "own_order kvs =
     sort_key (decimal_val \<circ> fst) (filter (array_index \<circ> fst) kvs)
     @ filter (\<lambda>kv. \<not> array_index (fst kv)) kvs"

text \<open>\<open>JSON.stringify\<close>: \<open>undefined\<close> members are left out, \<open>undefined\<close> elements become null.\<close>

primrec json_stringify :: "json \<Rightarrow> string option" where
  "json_stringify JUndef = None"
| "json_stringify JNull = Some ''null''"
| "json_stringify (JBool b) = Some (if b then ''true'' else ''false'')"
| "json_stringify (JNum i) = Some (int_str i)"
| "json_stringify (JStr s) = Some (js_quote s)"
| "json_stringify (JArr vs) =
     Some (''['' @ join '','' (map (case_option ''null'' id) (map json_stringify vs)) @ '']'')"
| "json_stringify (JObj kvs) =
     (let members = own_order (map (map_prod id json_stringify) kvs)
      in Some ([CHR 0x7B]
         @ join '','' (concat (map (\<lambda>(k, t). case t of None \<Rightarrow> [] | Some t' \<Rightarrow> [js_quote k @ '':'' @ t']) members))
         @ [CHR 0x7D]))"

section \<open>Well-formed values and their canonical form\<close>

text \<open>The keys of an object are distinct, at every level.\<close>

fun json_ok :: "json \<Rightarrow> bool" where
  "json_ok (JArr vs) = list_all json_ok vs"
| "json_ok (JObj kvs) = (distinct (map fst kvs) \<and> list_all (\<lambda>kv. json_ok (snd kv)) kvs)"
| "json_ok _ = True"

text \<open>Keys in order at every level, \<open>undefined\<close> read as null.\<close>

primrec canon :: "json \<Rightarrow> json" where
  "canon JUndef = JNull"
| "canon JNull = JNull"
| "canon (JBool b) = JBool b"
| "canon (JNum i) = JNum i"
| "canon (JStr s) = JStr s"
| "canon (JArr vs) = JArr (map canon vs)"
| "canon (JObj kvs) = JObj (sort_key fst (map (map_prod id canon) kvs))"

fun canonical :: "json \<Rightarrow> bool" where
  "canonical JUndef = False"
| "canonical (JArr vs) = list_all canonical vs"
| "canonical (JObj kvs) = (sorted (map fst kvs) \<and> list_all (\<lambda>kv. canonical (snd kv)) kvs)"
| "canonical _ = True"

lemma insort_key_map_snd:
  "insort_key fst (k, f v) (map (map_prod id f) kvs) = map (map_prod id f) (insort_key fst (k, v) kvs)"
  by (induction kvs) auto

lemma sort_key_map_snd:
  "sort_key fst (map (map_prod id f) kvs) = map (map_prod id f) (sort_key fst kvs)"
proof (induction kvs)
  case (Cons kv kvs)
  obtain k v where kv: "kv = (k, v)" by (cases kv)
  have "sort_key fst (map (map_prod id f) (kv # kvs))
      = insort_key fst (k, f v) (sort_key fst (map (map_prod id f) kvs))"
    by (simp add: kv)
  also have "\<dots> = map (map_prod id f) (sort_key fst (kv # kvs))"
    by (simp only: Cons.IH insort_key_map_snd) (simp add: kv)
  finally show ?case .
qed simp

lemma map_fst_map_snd [simp]: "map fst (map (map_prod id f) kvs) = map fst kvs"
  by simp

lemma canonical_canon: "canonical (canon v)"
proof (induction v)
  case (JObj kvs)
  then have "\<And>kv. kv \<in> set kvs \<Longrightarrow> canonical (canon (snd kv))"
    by (metis prod.collapse snds.intros)
  then show ?case
    by (auto simp: list_all_iff)
qed (auto simp: list_all_iff)

lemma stringify_canon: "sortedJsonStringify (canon v) = sortedJsonStringify v"
proof (induction v)
  case (JArr vs)
  then have "map (sortedJsonStringify \<circ> canon) vs = map sortedJsonStringify vs" by simp
  then show ?case
    by (simp only: canon.simps sortedJsonStringify.simps map_map)
next
  case (JObj kvs)
  then have "map (map_prod id (sortedJsonStringify \<circ> canon)) kvs = map (map_prod id sortedJsonStringify) kvs"
    by (auto simp: map_prod_def intro: snds.intros)
  then have "map (map_prod id sortedJsonStringify) (map (map_prod id canon) kvs)
      = map (map_prod id sortedJsonStringify) kvs"
    by (simp add: map_prod.comp)
  then show ?case
    by (simp add: sort_key_map_snd [symmetric] Let_def del: map_map) (simp add: sort_key_map_snd sort_key_id_if_sorted)
qed auto

text \<open>Reordering the members of an object leaves its canonical form, hence its text, alone.\<close>

lemma canon_reorder:
  assumes "mset kvs = mset kvs'" and "distinct (map fst kvs)"
  shows "canon (JObj kvs) = canon (JObj kvs')"
proof -
  let ?m = "map (map_prod id canon)"
  have "set (?m kvs) = set (?m kvs')"
    using assms(1) by (metis mset_map set_mset_mset)
  moreover have "distinct (map fst kvs')"
    using assms by (metis distinct_count_atmost_1 mset_map set_mset_mset)
  ultimately have "sort_key fst (?m kvs) = sort_key fst (?m kvs')"
    using assms(2)
    by (intro map_sorted_distinct_set_unique [where f = fst])
       (auto simp: distinct_map sort_key_map_snd inj_on_def)
  then show ?thesis by simp
qed

section \<open>Unique readability\<close>

text \<open>What may follow a number: nothing, or a code unit that is not a digit.\<close>

definition stops :: "string \<Rightarrow> bool" where
  "stops xs \<longleftrightarrow> xs = [] \<or> \<not> is_digit (hd xs)"

lemma of_char_of_less [simp]: "n < 256 \<Longrightarrow> (of_char (char_of n :: char) :: nat) = n"
  by (simp add: of_char_of)

lemma decimal_val_snoc: "decimal_val (xs @ [c]) = 10 * decimal_val xs + digit_val c"
  by (simp add: decimal_val_def)

lemma nat_str_facts:
  "nat_str n \<noteq> [] \<and> (\<forall>c\<in>set (nat_str n). is_digit c) \<and> decimal_val (nat_str n) = n"
proof (induction n rule: nat_str.induct)
  case (1 n)
  show ?case
  proof (cases "n < 10")
    case True
    then show ?thesis
      by (subst (1 2 3) nat_str.simps) (simp add: is_digit_def decimal_val_def digit_val_def)
  next
    case False
    have dig: "is_digit (char_of (48 + n mod 10))" "digit_val (char_of (48 + n mod 10)) = n mod 10"
      by (auto simp: is_digit_def digit_val_def Let_def)
    have "nat_str n = nat_str (n div 10) @ [char_of (48 + n mod 10)]"
      using False by (subst nat_str.simps) simp
    with "1.IH" [OF False] dig show ?thesis
      by (auto simp: decimal_val_snoc)
  qed
qed

lemma digits_unique:
  assumes "xs @ a = ys @ b" "\<forall>c\<in>set xs. is_digit c" "\<forall>c\<in>set ys. is_digit c" "stops a" "stops b"
  shows "xs = ys \<and> a = b"
proof -
  have tw: "takeWhile is_digit (us @ v) = us" if "\<forall>c\<in>set us. is_digit c" "stops v" for us v
    using that by (cases v) (auto simp: stops_def takeWhile_append2)
  have "xs = ys"
    using tw [OF assms(2) assms(4)] tw [OF assms(3) assms(5)] assms(1) by metis
  with assms(1) show ?thesis by simp
qed

lemma nat_str_unique:
  "nat_str m @ a = nat_str n @ b \<Longrightarrow> stops a \<Longrightarrow> stops b \<Longrightarrow> m = n \<and> a = b"
  using digits_unique [of "nat_str m" a "nat_str n" b] nat_str_facts [of m] nat_str_facts [of n]
  by metis

lemma nat_str_hd: "nat_str n = c # cs \<Longrightarrow> is_digit c"
  using nat_str_facts [of n] by auto

lemma minus_not_digit [simp]: "\<not> is_digit (CHR ''-'')"
  by (simp add: is_digit_def)

lemma int_str_unique:
  assumes eq: "int_str i @ a = int_str j @ b" and st: "stops a" "stops b"
  shows "i = j \<and> a = b"
proof -
  have nh: "nat_str n @ x \<noteq> CHR ''-'' # y" for n x y
    using nat_str_facts [of n] nat_str_hd [of n] by (cases "nat_str n") auto
  show ?thesis
  proof (cases "i < 0"; cases "j < 0")
    assume "i < 0" "j < 0"
    with eq have "nat_str (nat (- i)) @ a = nat_str (nat (- j)) @ b"
      by (simp add: int_str_def)
    with st nat_str_unique have "nat (- i) = nat (- j) \<and> a = b" by blast
    with \<open>i < 0\<close> \<open>j < 0\<close> show ?thesis by auto
  next
    assume "\<not> i < 0" "\<not> j < 0"
    with eq have "nat_str (nat i) @ a = nat_str (nat j) @ b"
      by (simp add: int_str_def)
    with st nat_str_unique have "nat i = nat j \<and> a = b" by blast
    with \<open>\<not> i < 0\<close> \<open>\<not> j < 0\<close> show ?thesis by auto
  qed (use eq nh [of "nat j" b] nh [of "nat i" a] in \<open>auto simp: int_str_def, metis\<close>)
qed

text \<open>Reading back one escaped code unit.\<close>

definition hex_val :: "char \<Rightarrow> nat" where
  "hex_val c = (let n = of_char c in if n < 58 then n - 48 else n - 87)"

fun unquote1 :: "string \<Rightarrow> (char \<times> string) option" where
  "unquote1 [] = None"
| "unquote1 (c # cs) =
     (if c \<noteq> CHR 0x5C then Some (c, cs)
      else case cs of
        [] \<Rightarrow> None
      | e # r \<Rightarrow>
          if e = CHR ''b'' then Some (char_of (8::nat), r)
          else if e = CHR ''t'' then Some (char_of (9::nat), r)
          else if e = CHR ''n'' then Some (char_of (10::nat), r)
          else if e = CHR ''f'' then Some (char_of (12::nat), r)
          else if e = CHR ''r'' then Some (char_of (13::nat), r)
          else if e = CHR ''u'' then
            (case r of _ # _ # h # l # r' \<Rightarrow> Some (char_of (16 * hex_val h + hex_val l), r') | _ \<Rightarrow> None)
          else Some (e, r))"

lemma hex_val_digit: "n < 16 \<Longrightarrow> hex_val (hex_digit n) = n"
  by (auto simp: hex_val_def hex_digit_def Let_def)

lemma of_char_eqI: "(of_char c :: nat) = of_char d \<Longrightarrow> c = d"
  by (metis char_of_char)

lemma unquote1_quote: "unquote1 (quote_char c @ xs) = Some (c, xs)"
proof -
  let ?n = "of_char c :: nat"
  have bs: "?n \<noteq> 92 \<Longrightarrow> c \<noteq> CHR 0x5C" by auto
  have hx: "?n < 32 \<Longrightarrow> 16 * hex_val (hex_digit (?n div 16)) + hex_val (hex_digit (?n mod 16)) = ?n"
    by (subst (1 2) hex_val_digit) auto
  consider "?n = 34" | "?n = 92" | "?n = 8" | "?n = 9" | "?n = 10" | "?n = 12" | "?n = 13"
    | "?n < 32" "?n \<notin> {8, 9, 10, 12, 13}" | "?n \<ge> 32" "?n \<notin> {34, 92}"
    by force
  then show ?thesis
  proof cases
    case 1
    then have "c = CHR 0x22" by (intro of_char_eqI) simp
    then show ?thesis by (simp add: quote_char_def)
  next
    case 2
    then have "c = CHR 0x5C" by (intro of_char_eqI) simp
    then show ?thesis by (simp add: quote_char_def)
  next
    case 3
    then have c: "c = char_of (8::nat)" by (metis char_of_char)
    show ?thesis unfolding c by (simp add: quote_char_def)
  next
    case 4
    then have c: "c = char_of (9::nat)" by (metis char_of_char)
    show ?thesis unfolding c by (simp add: quote_char_def)
  next
    case 5
    then have c: "c = char_of (10::nat)" by (metis char_of_char)
    show ?thesis unfolding c by (simp add: quote_char_def)
  next
    case 6
    then have c: "c = char_of (12::nat)" by (metis char_of_char)
    show ?thesis unfolding c by (simp add: quote_char_def)
  next
    case 7
    then have c: "c = char_of (13::nat)" by (metis char_of_char)
    show ?thesis unfolding c by (simp add: quote_char_def)
  next
    case 8
    with hx show ?thesis by (simp add: quote_char_def Let_def)
  next
    case 9
    with bs show ?thesis by (simp add: quote_char_def Let_def)
  qed
qed

lemma quote_char_hd: "quote_char c \<noteq> [] \<and> hd (quote_char c) \<noteq> CHR 0x22"
proof (cases "(of_char c :: nat) = 34")
  case False
  then have "c \<noteq> CHR 0x22" by auto
  then show ?thesis by (simp add: quote_char_def Let_def)
qed (simp add: quote_char_def)

lemma quoted_unique:
  "concat (map quote_char s) @ CHR 0x22 # a = concat (map quote_char t) @ CHR 0x22 # b
    \<Longrightarrow> s = t \<and> a = b"
proof (induction s arbitrary: t)
  case Nil
  then show ?case
    using quote_char_hd by (cases t) (auto, (metis append_Cons list.sel(1) neq_Nil_conv)+)
next
  case (Cons c s)
  show ?case
  proof (cases t)
    case Nil
    with Cons.prems quote_char_hd [of c] show ?thesis
      by (cases "quote_char c") auto
  next
    case (Cons d t')
    with Cons.prems have "quote_char c @ concat (map quote_char s) @ CHR 0x22 # a
        = quote_char d @ concat (map quote_char t') @ CHR 0x22 # b"
      by simp
    then have "unquote1 (quote_char c @ concat (map quote_char s) @ CHR 0x22 # a)
        = unquote1 (quote_char d @ concat (map quote_char t') @ CHR 0x22 # b)"
      by (rule arg_cong)
    then have "c = d" and "concat (map quote_char s) @ CHR 0x22 # a
        = concat (map quote_char t') @ CHR 0x22 # b"
      by (simp_all add: unquote1_quote)
    with Cons.IH Cons show ?thesis by blast
  qed
qed

lemma js_quote_unique: "js_quote s @ a = js_quote t @ b \<Longrightarrow> s = t \<and> a = b"
  using quoted_unique [of s a t b] by (simp add: js_quote_def)


text \<open>
  A bracketed, comma-separated sequence can be read back when its elements can: \<open>M\<close> is the text
  of an element, \<open>d\<close> the closing bracket.
\<close>

lemma stops_Cons [simp]: "stops (c # cs) \<longleftrightarrow> \<not> is_digit c" "stops []"
  by (simp_all add: stops_def)

lemma join_Cons: "join sep (t # ts) = t @ (if ts = [] then [] else sep @ join sep ts)"
  by (cases ts) auto

definition readable :: "('a \<Rightarrow> string) \<Rightarrow> char \<Rightarrow> 'a set \<Rightarrow> 'a \<Rightarrow> bool" where
  "readable M d Y x \<longleftrightarrow> M x \<noteq> [] \<and> hd (M x) \<noteq> d
     \<and> (\<forall>y\<in>Y. M y \<noteq> [] \<and> hd (M y) \<noteq> d
          \<and> (\<forall>a b. M x @ a = M y @ b \<longrightarrow> stops a \<longrightarrow> stops b \<longrightarrow> x = y \<and> a = b))"

lemma readableI:
  "M x \<noteq> [] \<and> hd (M x) \<noteq> d \<Longrightarrow> (\<And>y. y \<in> Y \<Longrightarrow> M y \<noteq> [] \<and> hd (M y) \<noteq> d)
    \<Longrightarrow> (\<And>y a b. y \<in> Y \<Longrightarrow> M x @ a = M y @ b \<Longrightarrow> stops a \<Longrightarrow> stops b \<Longrightarrow> x = y \<and> a = b)
    \<Longrightarrow> readable M d Y x"
  unfolding readable_def by blast

lemma join_tail_stops: "\<not> is_digit d \<Longrightarrow> stops ((if ts = [] then [] else '','' @ join '','' ts) @ d # a)"
  by (auto simp: is_digit_def)

lemma join_unique:
  assumes "\<not> is_digit d" and "d \<noteq> CHR '',''"
    and "\<forall>x\<in>set xs. readable M d (set ys) x" and "\<forall>y\<in>set ys. M y \<noteq> [] \<and> hd (M y) \<noteq> d"
    and "join '','' (map M xs) @ d # a = join '','' (map M ys) @ d # b"
  shows "xs = ys \<and> a = b"
  using assms(3-)
proof (induction xs arbitrary: ys)
  case Nil
  then show ?case
  proof (cases ys)
    case (Cons y ys')
    with Nil.prems show ?thesis
      by (cases "M y") (auto simp: join_Cons)
  qed simp
next
  case (Cons x xs)
  show ?case
  proof (cases ys)
    case Nil
    with Cons.prems show ?thesis
      by (cases "M x") (auto simp: join_Cons readable_def)
  next
    case (Cons y ys')
    let ?tl = "\<lambda>zs e. (if map M zs = [] then [] else '','' @ join '','' (map M zs)) @ d # e"
    have "M x @ ?tl xs a = M y @ ?tl ys' b"
      using Cons.prems(3) unfolding Cons list.map join_Cons append_assoc .
    moreover have "\<forall>e f. M x @ e = M y @ f \<longrightarrow> stops e \<longrightarrow> stops f \<longrightarrow> x = y \<and> e = f"
      using Cons.prems(1) Cons by (simp add: readable_def)
    moreover have "stops (?tl xs a)" "stops (?tl ys' b)"
      by (rule join_tail_stops [OF assms(1)])+
    ultimately have xy: "x = y" and tl: "?tl xs a = ?tl ys' b"
      by blast+
    have "join '','' (map M xs) @ d # a = join '','' (map M ys') @ d # b"
      using tl assms(2) by (cases "xs = []"; cases "ys' = []") simp_all
    moreover have "\<forall>y\<in>set ys'. M y \<noteq> [] \<and> hd (M y) \<noteq> d"
      using Cons.prems(2) Cons by simp
    moreover have "\<forall>x\<in>set xs. readable M d (set ys') x"
    proof
      fix z
      assume "z \<in> set xs"
      then have "readable M d (set ys) z" using Cons.prems(1) by simp
      then show "readable M d (set ys') z"
        unfolding readable_def Cons by (meson list.set_intros(2))
    qed
    ultimately show ?thesis
      using Cons.IH [of ys'] xy Cons by blast
  qed
qed

abbreviation sjs :: "json \<Rightarrow> string" where
  "sjs \<equiv> sortedJsonStringify"

definition member_text :: "string \<times> json \<Rightarrow> string" where
  "member_text kv = js_quote (fst kv) @ '':'' @ sjs (snd kv)"

lemma sjs_obj_sorted:
  "sorted (map fst kvs) \<Longrightarrow> sjs (JObj kvs) = [CHR 0x7B] @ join '','' (map member_text kvs) @ [CHR 0x7D]"
proof -
  assume "sorted (map fst kvs)"
  then have "sort_key fst (map (map_prod id sjs) kvs) = map (map_prod id sjs) kvs"
    by (simp only: sort_key_map_snd sort_key_id_if_sorted)
  moreover have "(\<lambda>(k, t). js_quote k @ '':'' @ t) \<circ> map_prod id sjs = member_text"
    by (auto simp: member_text_def)
  ultimately show ?thesis
    by (simp only: sortedJsonStringify.simps Let_def map_map)
qed

lemma int_str_hd: "\<exists>c cs. int_str i = c # cs \<and> (is_digit c \<or> c = CHR ''-'')"
proof (cases "i < 0")
  case False
  with nat_str_facts [of "nat i"] nat_str_hd [of "nat i"] show ?thesis
    by (cases "nat_str (nat i)") (auto simp: int_str_def)
qed (simp add: int_str_def)

text \<open>The first code unit of a text tells the kind of the value.\<close>

fun kind_char :: "json \<Rightarrow> char \<Rightarrow> bool" where
  "kind_char JUndef c = (c = CHR ''n'')"
| "kind_char JNull c = (c = CHR ''n'')"
| "kind_char (JBool b) c = (c = (if b then CHR ''t'' else CHR ''f''))"
| "kind_char (JNum i) c = (is_digit c \<or> c = CHR ''-'')"
| "kind_char (JStr s) c = (c = CHR 0x22)"
| "kind_char (JArr vs) c = (c = CHR ''['')"
| "kind_char (JObj kvs) c = (c = CHR 0x7B)"

lemma sjs_hd: "\<exists>c cs. sjs v = c # cs \<and> kind_char v c"
  using int_str_hd by (cases v) (auto simp: js_quote_def)

lemma sjs_hd_not_bracket: "sjs v \<noteq> [] \<and> hd (sjs v) \<noteq> CHR '']'' \<and> hd (sjs v) \<noteq> CHR 0x7D"
  using sjs_hd [of v] by (cases v) (auto simp: is_digit_def)

lemma kind_char_disjoint:
  "kind_char v c \<Longrightarrow> kind_char w c \<Longrightarrow> canonical v \<Longrightarrow> canonical w \<Longrightarrow>
    (v = JNull \<and> w = JNull) \<or> (\<exists>b. v = JBool b \<and> w = JBool b) \<or> (\<exists>i j. v = JNum i \<and> w = JNum j)
    \<or> (\<exists>s t. v = JStr s \<and> w = JStr t) \<or> (\<exists>vs ws. v = JArr vs \<and> w = JArr ws)
    \<or> (\<exists>vs ws. v = JObj vs \<and> w = JObj ws)"
  by (cases v; cases w) (auto simp: is_digit_def split: if_splits)


lemma same_kind:
  assumes "sjs v @ a = sjs w @ b" and "canonical v" and "canonical w"
  shows "(v = JNull \<and> w = JNull) \<or> (\<exists>b. v = JBool b \<and> w = JBool b) \<or> (\<exists>i j. v = JNum i \<and> w = JNum j)
    \<or> (\<exists>s t. v = JStr s \<and> w = JStr t) \<or> (\<exists>vs ws. v = JArr vs \<and> w = JArr ws)
    \<or> (\<exists>vs ws. v = JObj vs \<and> w = JObj ws)"
proof -
  obtain c cs where v: "sjs v = c # cs" "kind_char v c" using sjs_hd by blast
  obtain d ds where w: "sjs w = d # ds" "kind_char w d" using sjs_hd by blast
  from v(1) w(1) assms(1) have "d = c" by simp
  with v(2) w(2) assms(2,3) show ?thesis
    using kind_char_disjoint by blast
qed

text \<open>
  A canonical value can be read back from its text, whatever non-digit follows it.
\<close>

lemma sjs_readable:
  "canonical v \<Longrightarrow> canonical w \<Longrightarrow> sjs v @ a = sjs w @ b \<Longrightarrow> stops a \<Longrightarrow> stops b \<Longrightarrow> v = w \<and> a = b"
proof (induction v arbitrary: w a b)
  case (JArr vs)
  obtain ws where w: "w = JArr ws"
    using same_kind [OF JArr.prems(3,1,2)] by blast
  have "\<forall>x\<in>set vs. readable sjs (CHR '']'') (set ws) x"
  proof (rule ballI, rule readableI)
    fix x y c d
    assume x: "x \<in> set vs" and y: "y \<in> set ws"
      and eq: "sjs x @ c = sjs y @ d" and st: "stops c" "stops d"
    have "canonical x" "canonical y"
      using JArr.prems(1,2) x y unfolding w by (auto simp: list_all_iff)
    then show "x = y \<and> c = d"
      using JArr.IH [OF x] eq st by blast
  qed (use sjs_hd_not_bracket in auto)
  moreover have "\<forall>y\<in>set ws. sjs y \<noteq> [] \<and> hd (sjs y) \<noteq> CHR '']''"
    using sjs_hd_not_bracket by blast
  moreover have "join '','' (map sjs vs) @ CHR '']'' # a = join '','' (map sjs ws) @ CHR '']'' # b"
    using JArr.prems(3) unfolding w by simp
  ultimately have "vs = ws \<and> a = b"
    by (rule join_unique [rotated 2]) (simp_all add: is_digit_def)
  with w show ?case by simp
next
  case (JObj kvs)
  obtain ks where w: "w = JObj ks"
    using same_kind [OF JObj.prems(3,1,2)] by blast
  have mt: "member_text kv \<noteq> [] \<and> hd (member_text kv) \<noteq> CHR 0x7D" for kv
    by (simp add: member_text_def js_quote_def)
  have "\<forall>x\<in>set kvs. readable member_text (CHR 0x7D) (set ks) x"
  proof (rule ballI, rule readableI)
    fix x y c d
    assume x: "x \<in> set kvs" and y: "y \<in> set ks"
      and eq: "member_text x @ c = member_text y @ d" and st: "stops c" "stops d"
    from eq have "fst x = fst y" and "sjs (snd x) @ c = sjs (snd y) @ d"
      using js_quote_unique [of "fst x" "'':'' @ sjs (snd x) @ c" "fst y" "'':'' @ sjs (snd y) @ d"]
      by (auto simp: member_text_def)
    moreover have "snd x \<in> Basic_BNFs.snds x" by (rule snds.intros)
    moreover have "canonical (snd x)" "canonical (snd y)"
      using JObj.prems(1,2) x y unfolding w by (auto simp: list_all_iff)
    ultimately have "snd x = snd y \<and> c = d"
      using JObj.IH [OF x] st by blast
    with \<open>fst x = fst y\<close> show "x = y \<and> c = d"
      by (simp_all add: prod_eq_iff)
  qed (use mt in auto)
  moreover have "\<forall>y\<in>set ks. member_text y \<noteq> [] \<and> hd (member_text y) \<noteq> CHR 0x7D"
    using mt by blast
  moreover have "join '','' (map member_text kvs) @ CHR 0x7D # a
      = join '','' (map member_text ks) @ CHR 0x7D # b"
    using JObj.prems(1,2,3) unfolding w by (simp add: sjs_obj_sorted del: sortedJsonStringify.simps)
  ultimately have "kvs = ks \<and> a = b"
    by (rule join_unique [rotated 2]) (simp_all add: is_digit_def)
  with w show ?case by simp
next
  case (JNum i)
  obtain j where w: "w = JNum j"
    using same_kind [OF JNum.prems(3,1,2)] by blast
  from JNum.prems(3-5) int_str_unique [of i a j b] show ?case unfolding w by simp
next
  case (JStr s)
  obtain t where w: "w = JStr t"
    using same_kind [OF JStr.prems(3,1,2)] by blast
  from JStr.prems(3) js_quote_unique [of s a t b] show ?case unfolding w by simp
next
  case (JBool c)
  have w: "w = JBool c"
    using same_kind [OF JBool.prems(3,1,2)] by blast
  from JBool.prems(3) show ?case unfolding w by simp
next
  case JNull
  have w: "w = JNull"
    using same_kind [OF JNull.prems(3,1,2)] by blast
  from JNull.prems(3) show ?case unfolding w by simp
qed simp

lemma sorted_json_eq_iff: "sjs v = sjs w \<longleftrightarrow> canon v = canon w"
proof
  assume "sjs v = sjs w"
  then have "sjs (canon v) @ [] = sjs (canon w) @ []" by (simp add: stringify_canon)
  from sjs_readable [OF canonical_canon canonical_canon this]
  show "canon v = canon w" by simp
next
  assume "canon v = canon w"
  then show "sjs v = sjs w" by (metis stringify_canon)
qed

end
