(* ===== verification/PolicyEngine.thy ===== *)
theory PolicyEngine
  imports JsRegex Json
begin

text \<open>
  The Cedar-style policy engine: the rule model of \<open>src/policy/types.ts\<close> and the class
  \<open>PolicyEngine\<close> of \<open>src/policy/engine.ts\<close>, with the override of its action-class evaluation in
  \<open>src/enforcement/pipeline.ts\<close>. A rule object is compared by identity in the rate-limit map, so
  a rule carries its identity (\<open>rule_id\<close>); a condition is a host function that may throw
  (\<open>None\<close>), and an evaluation in which one throws has no result. \<open>Date.now()\<close> is the argument
  \<open>now\<close>.
\<close>

section \<open>Rules and contexts\<close>

datatype effect = Permit | Forbid

datatype resource =
    RTool | RCommand | RChannel | RPrompt | RModel
  | RFile | RExternal | RPayment | RSystem | RCredential | RWeb | RMemory | RUnknown

record rule_context =
  ctx_agentId :: string
  ctx_channel :: string
  ctx_verified :: "bool option"
  ctx_userId :: "string option"
  ctx_sessionId :: "string option"
  ctx_metadata :: "(string \<times> json) list option"

record rate_limit =
  maxCalls :: int
  windowSeconds :: int

text \<open>\<open>string | RegExp\<close>.\<close>

datatype pattern = PStr string | PRegex rx

record rule =
  rule_id :: nat
  rule_effect :: effect
  rule_resource :: "resource option"
  rule_match :: "pattern option"
  rule_condition :: "(rule_context \<Rightarrow> bool option) option"
  rule_reason :: "string option"
  rule_tags :: "string list option"
  rule_rateLimit :: "rate_limit option"
  rule_action_class :: "string option"
  rule_intent_group :: "string option"
  rule_target_match :: "pattern option"
  rule_target_in :: "string list option"
  rule_priority :: "int option"

section \<open>Decisions\<close>

record rate_status =
  rs_limited :: bool
  rs_maxCalls :: int
  rs_windowSeconds :: int
  rs_currentCount :: int
  rs_oldestCallExpiresAt :: "int option"

record decision =
  dec_effect :: effect
  dec_reason :: "string option"
  dec_rule :: "rule option"
  dec_rateLimit :: "rate_status option"

section \<open>The engine\<close>

text \<open>
  Per rule, per \<open>agentId:resourceName\<close>, the times of the calls in the window. The key of the outer
  map is the rule object: its identity, with the rule itself beside it.
\<close>

type_synonym window_map = "(string, int list) jsmap"
type_synonym tracking = "(nat, rule \<times> window_map) jsmap"

record engine =
  eng_rules :: "rule list"
  eng_default :: effect
  eng_tracking :: tracking

definition new_engine :: "effect option \<Rightarrow> engine" where
  "new_engine defaultEffect =
     \<lparr>eng_rules = [], eng_default = (case defaultEffect of Some e \<Rightarrow> e | None \<Rightarrow> Permit), eng_tracking = []\<rparr>"

definition addRule :: "rule \<Rightarrow> engine \<Rightarrow> engine" where
  "addRule r eng = eng\<lparr>eng_rules := eng_rules eng @ [r]\<rparr>"

definition addRules :: "rule list \<Rightarrow> engine \<Rightarrow> engine" where
  "addRules rs eng = fold addRule rs eng"

definition clearRules :: "engine \<Rightarrow> engine" where
  "clearRules eng = eng\<lparr>eng_rules := [], eng_tracking := []\<rparr>"

subsection \<open>Matching\<close>

fun matchesPattern :: "pattern \<Rightarrow> string \<Rightarrow> bool" where
  "matchesPattern (PStr p) v = (p = ''*'' \<or> js_lower p = js_lower v)"
| "matchesPattern (PRegex r) v = rx_test r v"

definition target_ok :: "rule \<Rightarrow> string \<Rightarrow> bool" where
  "target_ok r target \<longleftrightarrow>
     (case rule_target_match r of None \<Rightarrow> True | Some p \<Rightarrow> matchesPattern p target)
     \<and> (case rule_target_in r of None \<Rightarrow> True
          | Some ts \<Rightarrow> list_ex (\<lambda>t. js_lower t = js_lower target) ts)"

text \<open>The loops that collect matching rules: the guards \<open>P\<close>, then the rule's condition.\<close>

fun collect_rules :: "(rule \<Rightarrow> bool) \<Rightarrow> rule_context \<Rightarrow> rule list \<Rightarrow> rule list option" where
  "collect_rules P ctx [] = Some []"
| "collect_rules P ctx (r # rs) =
     (if \<not> P r then collect_rules P ctx rs
      else case rule_condition r of
        None \<Rightarrow> map_option (Cons r) (collect_rules P ctx rs)
      | Some f \<Rightarrow>
          (case f ctx of
             None \<Rightarrow> None
           | Some ok \<Rightarrow> if ok then map_option (Cons r) (collect_rules P ctx rs)
                        else collect_rules P ctx rs))"

definition resource_guard :: "resource \<Rightarrow> string \<Rightarrow> string \<Rightarrow> rule \<Rightarrow> bool" where
  "resource_guard resource resourceName target r \<longleftrightarrow>
     rule_resource r = Some resource
     \<and> (case rule_match r of None \<Rightarrow> False | Some p \<Rightarrow> matchesPattern p resourceName)
     \<and> target_ok r target"

definition class_guard :: "string \<Rightarrow> string \<Rightarrow> rule \<Rightarrow> bool" where
  "class_guard actionClass target r \<longleftrightarrow> rule_action_class r = Some actionClass \<and> target_ok r target"

definition intent_guard :: "string \<Rightarrow> rule \<Rightarrow> bool" where
  "intent_guard intentGroup r \<longleftrightarrow> rule_intent_group r = Some intentGroup"

definition first_with :: "effect \<Rightarrow> rule list \<Rightarrow> rule option" where
  "first_with e rs = List.find (\<lambda>r. rule_effect r = e) rs"

definition rule_decision :: "rule \<Rightarrow> decision" where
  "rule_decision r =
     \<lparr>dec_effect = rule_effect r, dec_reason = rule_reason r, dec_rule = Some r, dec_rateLimit = None\<rparr>"

subsection \<open>Rate limits\<close>

definition tracking_key :: "rule_context \<Rightarrow> string \<Rightarrow> string" where
  "tracking_key ctx resourceName = ctx_agentId ctx @ '':'' @ resourceName"

definition in_window :: "int \<Rightarrow> int \<Rightarrow> int \<Rightarrow> bool" where
  "in_window windowMs now ts \<longleftrightarrow> now - ts < windowMs"

definition rule_windows :: "nat \<Rightarrow> tracking \<Rightarrow> window_map" where
  "rule_windows i m = (case map_of m i of None \<Rightarrow> [] | Some (_, wm) \<Rightarrow> wm)"

definition window_calls :: "nat \<Rightarrow> string \<Rightarrow> tracking \<Rightarrow> int list" where
  "window_calls i key m = (case map_of (rule_windows i m) key of None \<Rightarrow> [] | Some ts \<Rightarrow> ts)"

definition set_window :: "rule \<Rightarrow> string \<Rightarrow> int list \<Rightarrow> tracking \<Rightarrow> tracking" where
  "set_window r key ts m =
     AList.update (rule_id r) (r, AList.update key ts (rule_windows (rule_id r) m)) m"

text \<open>
  \<open>checkAndRecordRateLimit\<close>: (exceeded, currentCount, oldestCallExpiresAt) and the new map.
\<close>

definition checkAndRecordRateLimit ::
  "int \<Rightarrow> rule \<Rightarrow> rate_limit \<Rightarrow> string \<Rightarrow> rule_context \<Rightarrow> tracking \<Rightarrow> (bool \<times> int \<times> int option) \<times> tracking" where
  "checkAndRecordRateLimit now r rl resourceName ctx m =
     (let windowMs = windowSeconds rl * 1000;
          key = tracking_key ctx resourceName;
          fresh = filter (in_window windowMs now) (window_calls (rule_id r) key m)
      in if int (length fresh) \<ge> maxCalls rl
         then ((True, int (length fresh),
                if fresh = [] then None else Some (Min (set fresh) + windowMs)),
               set_window r key fresh m)
         else (let fresh' = fresh @ [now]
               in ((False, int (length fresh'), Some (Min (set fresh') + windowMs)),
                   set_window r key fresh' m)))"

definition rate_reason :: "rate_limit \<Rightarrow> string" where
  "rate_reason rl = ''Rate limit exceeded: '' @ int_str (maxCalls rl) @ '' calls per ''
     @ int_str (windowSeconds rl) @ ''s''"

definition permit_decision :: "int \<Rightarrow> rule \<Rightarrow> string \<Rightarrow> rule_context \<Rightarrow> tracking \<Rightarrow> decision \<times> tracking" where
  "permit_decision now r resourceName ctx m =
     (case rule_rateLimit r of
        None \<Rightarrow> (rule_decision r, m)
      | Some rl \<Rightarrow>
          (case checkAndRecordRateLimit now r rl resourceName ctx m of
             ((exceeded, current, oldest), m') \<Rightarrow>
               (let status = \<lparr>rs_limited = exceeded, rs_maxCalls = maxCalls rl,
                              rs_windowSeconds = windowSeconds rl, rs_currentCount = current,
                              rs_oldestCallExpiresAt = oldest\<rparr>
                in (if exceeded
                    then \<lparr>dec_effect = Forbid, dec_reason = Some (rate_reason rl), dec_rule = Some r,
                          dec_rateLimit = Some status\<rparr>
                    else \<lparr>dec_effect = Permit, dec_reason = rule_reason r, dec_rule = Some r,
                          dec_rateLimit = Some status\<rparr>, m'))))"

subsection \<open>Evaluation\<close>

definition default_decision :: "engine \<Rightarrow> decision" where
  "default_decision eng =
     \<lparr>dec_effect = eng_default eng,
      dec_reason = Some (if eng_default eng = Forbid then ''No matching rule; implicit deny''
                         else ''No matching rule; implicit permit''),
      dec_rule = None, dec_rateLimit = None\<rparr>"

definition evaluate ::
  "int \<Rightarrow> resource \<Rightarrow> string \<Rightarrow> rule_context \<Rightarrow> string option \<Rightarrow> (engine, decision) eff" where
  "evaluate now resource resourceName ctx target eng =
     (let effectiveTarget = (case target of Some t \<Rightarrow> t | None \<Rightarrow> resourceName)
      in case collect_rules (resource_guard resource resourceName effectiveTarget) ctx (eng_rules eng) of
           None \<Rightarrow> (None, eng)
         | Some matching \<Rightarrow>
             (case first_with Forbid matching of
                Some r \<Rightarrow> (Some (rule_decision r), eng)
              | None \<Rightarrow>
                  (case first_with Permit matching of
                     Some r \<Rightarrow>
                       (case permit_decision now r resourceName ctx (eng_tracking eng) of
                          (d, m) \<Rightarrow> (Some d, eng\<lparr>eng_tracking := m\<rparr>))
                   | None \<Rightarrow> (Some (default_decision eng), eng))))"

definition mapActionClassToResource :: "string \<Rightarrow> resource" where
  "mapActionClassToResource actionClass =
     (if actionClass = ''unknown_sensitive_action'' then RUnknown
      else let prefix = hd (split_on (CHR ''.'') actionClass)
           in if prefix = ''filesystem'' then RFile
              else if prefix = ''communication'' then RExternal
              else if prefix = ''payment'' then RPayment
              else if prefix = ''system'' then RSystem
              else if prefix = ''credential'' then RCredential
              else if prefix = ''browser'' then RWeb
              else if prefix = ''memory'' then RMemory
              else RUnknown)"

definition evaluateByActionClass ::
  "int \<Rightarrow> string \<Rightarrow> string \<Rightarrow> rule_context \<Rightarrow> (engine, decision) eff" where
  "evaluateByActionClass now actionClass resourceName ctx eng =
     (case collect_rules (class_guard actionClass resourceName) ctx (eng_rules eng) of
        None \<Rightarrow> (None, eng)
      | Some classRules \<Rightarrow>
          (case first_with Forbid classRules of
             Some r \<Rightarrow> (Some (rule_decision r), eng)
           | None \<Rightarrow>
               (case evaluate now (mapActionClassToResource actionClass) resourceName ctx None eng of
                  (None, eng') \<Rightarrow> (None, eng')
                | (Some res, eng') \<Rightarrow>
                    if dec_effect res = Forbid \<and> dec_rule res \<noteq> None then (Some res, eng')
                    else (case first_with Permit classRules of
                            Some r \<Rightarrow> (Some (rule_decision r), eng')
                          | None \<Rightarrow> (Some res, eng')))))"

definition evaluateByIntentGroup :: "string \<Rightarrow> rule_context \<Rightarrow> (engine, decision) eff" where
  "evaluateByIntentGroup intentGroup ctx eng =
     (case collect_rules (intent_guard intentGroup) ctx (eng_rules eng) of
        None \<Rightarrow> (None, eng)
      | Some matching \<Rightarrow>
          (case first_with Forbid matching of
             Some r \<Rightarrow> (Some (rule_decision r), eng)
           | None \<Rightarrow>
               (case first_with Permit matching of
                  Some r \<Rightarrow> (Some (rule_decision r), eng)
                | None \<Rightarrow> (Some \<lparr>dec_effect = Permit, dec_reason = Some ''No matching intent_group rule'',
                                dec_rule = None, dec_rateLimit = None\<rparr>, eng))))"

subsection \<open>Cleanup\<close>

definition clean_windows :: "int \<Rightarrow> int \<Rightarrow> window_map \<Rightarrow> window_map" where
  "clean_windows windowMs now wm =
     filter (\<lambda>(key, ts). ts \<noteq> []) (map (\<lambda>(key, ts). (key, filter (in_window windowMs now) ts)) wm)"

definition cleanup :: "int \<Rightarrow> engine \<Rightarrow> engine" where
  "cleanup now eng = eng\<lparr>eng_tracking :=
     concat (map (\<lambda>(i, r, wm).
       case rule_rateLimit r of
         None \<Rightarrow> [(i, r, wm)]
       | Some rl \<Rightarrow>
           (let wm' = clean_windows (windowSeconds rl * 1000) now wm
            in if wm' = [] then [] else [(i, r, wm')])) (eng_tracking eng))\<rparr>"

subsection \<open>The engine of the two-stage pipeline\<close>

definition ACTION_CLASS_PREFIXES :: "(string \<times> resource) list" where
  "ACTION_CLASS_PREFIXES = [(''communication.'', RChannel), (''command.'', RCommand),
     (''prompt.'', RPrompt), (''model.'', RModel)]"

text \<open>\<open>EnforcementPolicyEngine.evaluateByActionClass\<close>.\<close>

definition enforcement_evaluateByActionClass ::
  "int \<Rightarrow> string \<Rightarrow> string \<Rightarrow> rule_context \<Rightarrow> (engine, decision) eff" where
  "enforcement_evaluateByActionClass now action_class target ctx eng =
     (let resource = (case List.find (\<lambda>(prefix, res). starts_with action_class prefix) ACTION_CLASS_PREFIXES of
                        Some (_, res) \<Rightarrow> res | None \<Rightarrow> RTool)
      in evaluate now resource target ctx None eng)"

end
