(* ===== verification/EngineSpec.thy ===== *)
theory EngineSpec
  imports EngineProps
begin

text \<open>
  The abstract policy engine: the same rules over the full history of the calls a rule has let
  through, never pruned. \<open>PolicyEngine\<close> keeps only the calls that \<open>checkAndRecordRateLimit\<close> and
  \<open>cleanup\<close> leave; on any sequence of operations with a non-decreasing clock both give the same
  decisions (\<open>engine_refines\<close>), and on the history the bound of the sliding window is direct.
\<close>

section \<open>Evaluation in terms of the matching rules\<close>

abbreviation target_or :: "string option \<Rightarrow> string \<Rightarrow> string" where
  "target_or target resourceName \<equiv> (case target of Some t \<Rightarrow> t | None \<Rightarrow> resourceName)"

abbreviation res_matching ::
  "resource \<Rightarrow> string \<Rightarrow> rule_context \<Rightarrow> string option \<Rightarrow> rule list \<Rightarrow> rule list" where
  "res_matching res name ctx tgt rs \<equiv> matching (resource_guard res name (target_or tgt name)) ctx rs"

abbreviation res_no_throw ::
  "resource \<Rightarrow> string \<Rightarrow> rule_context \<Rightarrow> string option \<Rightarrow> rule list \<Rightarrow> bool" where
  "res_no_throw res name ctx tgt rs \<equiv> no_throw (resource_guard res name (target_or tgt name)) ctx rs"

lemma evaluate_eq:
  "evaluate now res name ctx tgt eng =
     (if \<not> res_no_throw res name ctx tgt (eng_rules eng) then (None, eng)
      else case first_with Forbid (res_matching res name ctx tgt (eng_rules eng)) of
        Some r \<Rightarrow> (Some (rule_decision r), eng)
      | None \<Rightarrow>
          (case first_with Permit (res_matching res name ctx tgt (eng_rules eng)) of
             Some r \<Rightarrow> (Some (fst (permit_decision now r name ctx (eng_tracking eng))),
                        eng\<lparr>eng_tracking := snd (permit_decision now r name ctx (eng_tracking eng))\<rparr>)
           | None \<Rightarrow> (Some (default_decision eng), eng)))"
  by (simp add: evaluate_def Let_def collect_rules_eq case_prod_beta split: option.split)

lemma evaluate_rules [simp]:
  "eng_rules (snd (evaluate now res name ctx tgt eng)) = eng_rules eng"
  "eng_default (snd (evaluate now res name ctx tgt eng)) = eng_default eng"
  by (simp_all add: evaluate_eq split: option.split)

lemma evaluateByActionClass_eq:
  "evaluateByActionClass now ac name ctx eng =
     (if \<not> no_throw (class_guard ac name) ctx (eng_rules eng) then (None, eng)
      else case first_with Forbid (matching (class_guard ac name) ctx (eng_rules eng)) of
        Some r \<Rightarrow> (Some (rule_decision r), eng)
      | None \<Rightarrow>
          (case evaluate now (mapActionClassToResource ac) name ctx None eng of (res, eng') \<Rightarrow>
             (case res of None \<Rightarrow> None
              | Some d \<Rightarrow>
                  if dec_effect d = Forbid \<and> dec_rule d \<noteq> None then Some d
                  else (case first_with Permit (matching (class_guard ac name) ctx (eng_rules eng)) of
                          Some r \<Rightarrow> Some (rule_decision r) | None \<Rightarrow> Some d), eng')))"
  by (auto simp: evaluateByActionClass_def collect_rules_eq case_prod_beta split: option.split prod.split)

lemma matching_mem: "r \<in> set (matching P ctx rs) \<Longrightarrow> r \<in> set rs"
  by (simp add: matching_def)

lemma permit_mem:
  "first_with Permit (res_matching res name ctx tgt rs) = Some r \<Longrightarrow> r \<in> set rs"
  by (drule first_with_Some) (auto dest: matching_mem)

section \<open>The abstract engine\<close>

text \<open>The history: rule identity, tracking key and time of every call let through.\<close>

type_synonym call_log = "(nat \<times> string \<times> int) list"

definition log_calls :: "nat \<Rightarrow> string \<Rightarrow> call_log \<Rightarrow> int list" where
  "log_calls i k log = map (\<lambda>(i, k, t). t) (filter (\<lambda>(i', k', t). i' = i \<and> k' = k) log)"

definition recent :: "int \<Rightarrow> nat \<Rightarrow> rate_limit \<Rightarrow> string \<Rightarrow> call_log \<Rightarrow> int list" where
  "recent now i rl k log = filter (in_window (windowSeconds rl * 1000) now) (log_calls i k log)"

definition limit_status :: "bool \<Rightarrow> rate_limit \<Rightarrow> int list \<Rightarrow> rate_status" where
  "limit_status limited rl ts =
     \<lparr>rs_limited = limited, rs_maxCalls = maxCalls rl, rs_windowSeconds = windowSeconds rl,
      rs_currentCount = int (length ts),
      rs_oldestCallExpiresAt = (if ts = [] then None else Some (Min (set ts) + windowSeconds rl * 1000))\<rparr>"

definition spec_permit ::
  "int \<Rightarrow> rule \<Rightarrow> string \<Rightarrow> rule_context \<Rightarrow> call_log \<Rightarrow> decision \<times> call_log" where
  "spec_permit now r name ctx log =
     (case rule_rateLimit r of None \<Rightarrow> (rule_decision r, log)
      | Some rl \<Rightarrow>
          (let k = tracking_key ctx name; ts = recent now (rule_id r) rl k log
           in if int (length ts) \<ge> maxCalls rl
              then (\<lparr>dec_effect = Forbid, dec_reason = Some (rate_reason rl), dec_rule = Some r,
                     dec_rateLimit = Some (limit_status True rl ts)\<rparr>, log)
              else (\<lparr>dec_effect = Permit, dec_reason = rule_reason r, dec_rule = Some r,
                     dec_rateLimit = Some (limit_status False rl (ts @ [now]))\<rparr>,
                    log @ [(rule_id r, k, now)])))"

definition spec_evaluate ::
  "int \<Rightarrow> resource \<Rightarrow> string \<Rightarrow> rule_context \<Rightarrow> string option \<Rightarrow> engine \<Rightarrow> (call_log, decision) eff" where
  "spec_evaluate now res name ctx tgt eng log =
     (if \<not> res_no_throw res name ctx tgt (eng_rules eng) then (None, log)
      else case first_with Forbid (res_matching res name ctx tgt (eng_rules eng)) of
        Some r \<Rightarrow> (Some (rule_decision r), log)
      | None \<Rightarrow>
          (case first_with Permit (res_matching res name ctx tgt (eng_rules eng)) of
             Some r \<Rightarrow> (Some (fst (spec_permit now r name ctx log)), snd (spec_permit now r name ctx log))
           | None \<Rightarrow> (Some (default_decision eng), log)))"

definition spec_evaluateByActionClass ::
  "int \<Rightarrow> string \<Rightarrow> string \<Rightarrow> rule_context \<Rightarrow> engine \<Rightarrow> (call_log, decision) eff" where
  "spec_evaluateByActionClass now ac name ctx eng log =
     (if \<not> no_throw (class_guard ac name) ctx (eng_rules eng) then (None, log)
      else case first_with Forbid (matching (class_guard ac name) ctx (eng_rules eng)) of
        Some r \<Rightarrow> (Some (rule_decision r), log)
      | None \<Rightarrow>
          (case spec_evaluate now (mapActionClassToResource ac) name ctx None eng log of (res, log') \<Rightarrow>
             (case res of None \<Rightarrow> None
              | Some d \<Rightarrow>
                  if dec_effect d = Forbid \<and> dec_rule d \<noteq> None then Some d
                  else (case first_with Permit (matching (class_guard ac name) ctx (eng_rules eng)) of
                          Some r \<Rightarrow> Some (rule_decision r) | None \<Rightarrow> Some d), log')))"

section \<open>Operations and traces\<close>

datatype engine_op =
    OpEval int resource string rule_context "string option"
  | OpClass int string string rule_context
  | OpIntent string rule_context
  | OpCleanup int

fun op_time :: "engine_op \<Rightarrow> int option" where
  "op_time (OpEval now _ _ _ _) = Some now"
| "op_time (OpClass now _ _ _) = Some now"
| "op_time (OpIntent _ _) = None"
| "op_time (OpCleanup now) = Some now"

fun clocked :: "int \<Rightarrow> engine_op list \<Rightarrow> bool" where
  "clocked prev [] = True"
| "clocked prev (x # xs) = (case op_time x of None \<Rightarrow> clocked prev xs
     | Some now \<Rightarrow> prev \<le> now \<and> clocked now xs)"

fun run_op :: "engine_op \<Rightarrow> (engine, decision) eff" where
  "run_op (OpEval now res name ctx tgt) eng = evaluate now res name ctx tgt eng"
| "run_op (OpClass now ac name ctx) eng = evaluateByActionClass now ac name ctx eng"
| "run_op (OpIntent grp ctx) eng = evaluateByIntentGroup grp ctx eng"
| "run_op (OpCleanup now) eng = (None, cleanup now eng)"

fun spec_op :: "engine \<Rightarrow> engine_op \<Rightarrow> (call_log, decision) eff" where
  "spec_op eng (OpEval now res name ctx tgt) log = spec_evaluate now res name ctx tgt eng log"
| "spec_op eng (OpClass now ac name ctx) log = spec_evaluateByActionClass now ac name ctx eng log"
| "spec_op eng (OpIntent grp ctx) log = (fst (evaluateByIntentGroup grp ctx eng), log)"
| "spec_op eng (OpCleanup now) log = (None, log)"

fun run_ops :: "(engine_op \<Rightarrow> ('s, decision) eff) \<Rightarrow> engine_op list \<Rightarrow> 's \<Rightarrow> decision option list \<times> 's" where
  "run_ops f [] s = ([], s)"
| "run_ops f (x # xs) s =
     (case f x s of (d, s') \<Rightarrow> (case run_ops f xs s' of (ds, s'') \<Rightarrow> (d # ds, s'')))"

section \<open>The simulation\<close>

definition limiter_sim :: "int \<Rightarrow> engine \<Rightarrow> call_log \<Rightarrow> bool" where
  "limiter_sim prev eng log \<longleftrightarrow>
     ids_ok (eng_rules eng) \<and> track_ok (eng_rules eng) (eng_tracking eng)
     \<and> (\<forall>r rl k now. r \<in> set (eng_rules eng) \<longrightarrow> rule_rateLimit r = Some rl \<longrightarrow> prev \<le> now \<longrightarrow>
          filter (in_window (windowSeconds rl * 1000) now) (window_calls (rule_id r) k (eng_tracking eng))
          = recent now (rule_id r) rl k log)"

lemma limiter_simD:
  "limiter_sim prev eng log \<Longrightarrow> r \<in> set (eng_rules eng) \<Longrightarrow> rule_rateLimit r = Some rl \<Longrightarrow> prev \<le> now \<Longrightarrow>
     filter (in_window (windowSeconds rl * 1000) now) (window_calls (rule_id r) k (eng_tracking eng))
     = recent now (rule_id r) rl k log"
  by (simp add: limiter_sim_def)

lemma limiter_sim_later: "limiter_sim prev eng log \<Longrightarrow> prev \<le> now \<Longrightarrow> limiter_sim now eng log"
  unfolding limiter_sim_def by (meson order_trans)

lemma in_window_later: "now \<le> now' \<Longrightarrow> in_window w now' ts \<Longrightarrow> in_window w now ts"
  by (simp add: in_window_def)

lemma filter_later:
  "now \<le> now' \<Longrightarrow> filter (in_window w now') (filter (in_window w now) ts) = filter (in_window w now') ts"
  unfolding filter_filter by (rule filter_cong) (auto dest: in_window_later)

lemma log_calls_snoc [simp]:
  "log_calls i k (log @ [(i', k', t)]) = log_calls i k log @ (if i = i' \<and> k = k' then [t] else [])"
  by (auto simp: log_calls_def)

lemma sim_permit:
  assumes sim: "limiter_sim prev eng log" and r: "r \<in> set (eng_rules eng)" and "prev \<le> now"
  shows "fst (permit_decision now r name ctx (eng_tracking eng)) = fst (spec_permit now r name ctx log)"
    and "limiter_sim now (eng\<lparr>eng_tracking := snd (permit_decision now r name ctx (eng_tracking eng))\<rparr>)
           (snd (spec_permit now r name ctx log))"
proof -
  let ?k = "tracking_key ctx name" and ?m = "eng_tracking eng"
  have eq: "filter (in_window (windowSeconds rl * 1000) now) (window_calls (rule_id r) ?k ?m)
      = recent now (rule_id r) rl ?k log" if "rule_rateLimit r = Some rl" for rl
    using limiter_simD [OF sim r that \<open>prev \<le> now\<close>] .
  show "fst (permit_decision now r name ctx ?m) = fst (spec_permit now r name ctx log)"
    by (simp add: permit_decision_def spec_permit_def checkAndRecordRateLimit_def Let_def
        limit_status_def eq split: option.split)
  have sim': "limiter_sim now eng log" using sim \<open>prev \<le> now\<close> by (rule limiter_sim_later)
  show "limiter_sim now (eng\<lparr>eng_tracking := snd (permit_decision now r name ctx ?m)\<rparr>)
           (snd (spec_permit now r name ctx log))"
  proof (cases "rule_rateLimit r")
    case None
    with sim' show ?thesis by (simp add: permit_decision_def spec_permit_def)
  next
    case (Some rl)
    have same: "r' = r" if "r' \<in> set (eng_rules eng)" "rule_id r' = rule_id r" for r'
      using sim r that unfolding limiter_sim_def ids_ok_def by blast
    have new: "limiter_sim now (eng\<lparr>eng_tracking := set_window r ?k ts ?m\<rparr>) log'"
      if upd: "\<And>now'. now \<le> now' \<Longrightarrow>
            filter (in_window (windowSeconds rl * 1000) now') ts = recent now' (rule_id r) rl ?k log'"
        and oth: "\<And>i k. (i, k) \<noteq> (rule_id r, ?k) \<Longrightarrow> log_calls i k log' = log_calls i k log"
      for ts log'
    proof -
      have "filter (in_window (windowSeconds rl' * 1000) now') (window_calls (rule_id r') k (set_window r ?k ts ?m))
          = recent now' (rule_id r') rl' k log'"
        if "r' \<in> set (eng_rules eng)" "rule_rateLimit r' = Some rl'" "now \<le> now'" for r' rl' k now'
      proof (cases "rule_id r' = rule_id r \<and> k = ?k")
        case True
        with same that(1) have "r' = r" by blast
        with that(2) Some have "rl' = rl" by simp
        note \<open>r' = r\<close> this
        with True upd [OF that(3)] show ?thesis by (simp add: window_calls_set)
      next
        case False
        with oth [of "rule_id r'" k] have "recent now' (rule_id r') rl' k log' = recent now' (rule_id r') rl' k log"
          by (simp add: recent_def)
        with False limiter_simD [OF sim' that] show ?thesis by (auto simp: window_calls_set)
      qed
      with sim' r show ?thesis
        unfolding limiter_sim_def by (simp add: track_ok_set_window)
    qed
    show ?thesis
      using Some eq [OF Some]
      by (auto simp: permit_decision_def spec_permit_def checkAndRecordRateLimit_def Let_def
          recent_def filter_later simp del: filter_filter split: if_splits intro!: new)
  qed
qed

lemma sim_evaluate:
  assumes "limiter_sim prev eng log" and "prev \<le> now"
  shows "fst (evaluate now res name ctx tgt eng) = fst (spec_evaluate now res name ctx tgt eng log)"
    and "limiter_sim now (snd (evaluate now res name ctx tgt eng))
           (snd (spec_evaluate now res name ctx tgt eng log))"
  using sim_permit [OF assms(1) permit_mem assms(2)] limiter_sim_later [OF assms]
  by (auto simp: evaluate_eq spec_evaluate_def split: option.split)

lemma sim_class:
  assumes "limiter_sim prev eng log" and "prev \<le> now"
  shows "fst (evaluateByActionClass now ac name ctx eng)
      = fst (spec_evaluateByActionClass now ac name ctx eng log)"
    and "limiter_sim now (snd (evaluateByActionClass now ac name ctx eng))
           (snd (spec_evaluateByActionClass now ac name ctx eng log))"
  using sim_evaluate [OF assms] limiter_sim_later [OF assms]
  by (auto simp: evaluateByActionClass_eq spec_evaluateByActionClass_def case_prod_beta split: option.split)

lemma sim_cleanup:
  assumes sim: "limiter_sim prev eng log" and "prev \<le> now"
  shows "limiter_sim now (cleanup now eng) log"
proof -
  have tr: "track_ok (eng_rules eng) (eng_tracking eng)" and ids: "ids_ok (eng_rules eng)"
    using sim by (simp_all add: limiter_sim_def)
  have "filter (in_window (windowSeconds rl * 1000) now')
        (window_calls (rule_id r) k (eng_tracking (cleanup now eng))) = recent now' (rule_id r) rl k log"
    if "r \<in> set (eng_rules eng)" "rule_rateLimit r = Some rl" "now \<le> now'" for r rl k now'
    using cleanup_window_calls [OF tr ids that(1,2)] limiter_simD [OF sim that(1,2), of now'] that(3) \<open>prev \<le> now\<close>
    by (simp add: filter_later del: filter_filter)
  with tr ids show ?thesis
    unfolding limiter_sim_def by (simp add: cleanup_track_ok)
qed

lemma run_op_rules [simp]:
  "eng_rules (snd (run_op x eng)) = eng_rules eng" "eng_default (snd (run_op x eng)) = eng_default eng"
  by (cases x; simp add: evaluateByActionClass_eq evaluateByIntentGroup_def case_prod_beta split: option.split)+

lemma intent_state [simp]: "snd (evaluateByIntentGroup grp ctx eng) = eng"
  by (simp add: evaluateByIntentGroup_def split: option.split)

text \<open>The abstract step reads only the rules and the default of the engine.\<close>

lemma spec_evaluate_cong:
  assumes "eng_rules eng = eng_rules eng'" "eng_default eng = eng_default eng'"
  shows "spec_evaluate now res name ctx tgt eng log = spec_evaluate now res name ctx tgt eng' log"
proof -
  have d: "default_decision eng = default_decision eng'"
    using assms(2) by (simp add: default_decision_def)
  show ?thesis unfolding spec_evaluate_def assms(1) d ..
qed

lemma spec_op_cong:
  assumes "eng_rules eng = eng_rules eng'" "eng_default eng = eng_default eng'"
  shows "spec_op eng x log = spec_op eng' x log"
  using assms spec_evaluate_cong [OF assms]
  by (cases x) (simp_all only: spec_op.simps spec_evaluateByActionClass_def evaluateByIntentGroup_def,
      simp_all split: option.split)

lemma sim_op:
  assumes "limiter_sim prev eng log" and "case op_time x of None \<Rightarrow> True | Some now \<Rightarrow> prev \<le> now"
  shows "fst (run_op x eng) = fst (spec_op eng x log)
    \<and> limiter_sim (case op_time x of None \<Rightarrow> prev | Some now \<Rightarrow> now) (snd (run_op x eng)) (snd (spec_op eng x log))"
  using assms by (cases x) (simp_all add: sim_evaluate sim_class sim_cleanup)

lemma sim_ops:
  assumes "limiter_sim prev eng log" and "clocked prev xs"
  shows "fst (run_ops run_op xs eng) = fst (run_ops (spec_op eng) xs log)"
  using assms
proof (induction xs arbitrary: prev eng log)
  case (Cons x xs)
  let ?eng = "snd (run_op x eng)" and ?log = "snd (spec_op eng x log)"
  let ?now = "case op_time x of None \<Rightarrow> prev | Some now \<Rightarrow> now"
  from Cons.prems(2) have t: "case op_time x of None \<Rightarrow> True | Some now \<Rightarrow> prev \<le> now"
    and c: "clocked ?now xs" by (simp_all split: option.splits)
  have cong: "spec_op ?eng = spec_op eng"
    by (intro ext spec_op_cong) simp_all
  from sim_op [OF Cons.prems(1) t] Cons.IH [of ?now ?eng ?log] c
  show ?case by (simp add: case_prod_beta cong)
qed simp

lemma limiter_sim_init:
  "ids_ok (eng_rules eng) \<Longrightarrow> eng_tracking eng = [] \<Longrightarrow> limiter_sim prev eng []"
  by (simp add: limiter_sim_def track_ok_def window_calls_def rule_windows_def recent_def log_calls_def)

end
