(* ===== verification/EngineTheorems.thy ===== *)
theory EngineTheorems
  imports EngineSpec
begin

text \<open>
  The properties of the policy engine, each with a run on concrete rules.
\<close>

section \<open>Sample rules\<close>

definition plain_rule :: "nat \<Rightarrow> effect \<Rightarrow> rule" where
  "plain_rule i e = \<lparr>rule_id = i, rule_effect = e, rule_resource = None, rule_match = None,
     rule_condition = None, rule_reason = None, rule_tags = None, rule_rateLimit = None,
     rule_action_class = None, rule_intent_group = None, rule_target_match = None,
     rule_target_in = None, rule_priority = None\<rparr>"

definition tool_rule :: "nat \<Rightarrow> effect \<Rightarrow> string \<Rightarrow> rule" where
  "tool_rule i e name = (plain_rule i e)\<lparr>rule_resource := Some RTool, rule_match := Some (PStr name)\<rparr>"

definition class_rule :: "nat \<Rightarrow> effect \<Rightarrow> string \<Rightarrow> rule" where
  "class_rule i e c = (plain_rule i e)\<lparr>rule_action_class := Some c\<rparr>"

definition a_context :: rule_context where
  "a_context = \<lparr>ctx_agentId = ''agent'', ctx_channel = ''default'', ctx_verified = None,
     ctx_userId = None, ctx_sessionId = None, ctx_metadata = None\<rparr>"

definition engine_of :: "rule list \<Rightarrow> engine" where
  "engine_of rs = addRules rs (new_engine (Some Forbid))"

definition limited_rule :: "nat \<Rightarrow> int \<Rightarrow> rule" where
  "limited_rule i n = (tool_rule i Permit ''read'')\<lparr>rule_rateLimit := Some \<lparr>maxCalls = n, windowSeconds = 1\<rparr>\<rparr>"

lemmas sample_defs = plain_rule_def tool_rule_def class_rule_def a_context_def engine_of_def
  limited_rule_def addRules_def addRule_def new_engine_def

section \<open>Helper facts\<close>

lemma first_with_split:
  assumes "first_with e (matching P ctx rs) = Some r"
  shows "\<exists>before after. rs = before @ r # after \<and> P r \<and> cond_holds ctx r \<and> rule_effect r = e
    \<and> (\<forall>q\<in>set before. \<not> (P q \<and> cond_holds ctx q \<and> rule_effect q = e))"
proof -
  have "List.find (\<lambda>q. (P q \<and> cond_holds ctx q) \<and> rule_effect q = e) rs = Some r"
    using assms unfolding first_with_def matching_def find_filter .
  then obtain i where i: "i < length rs" "(P (rs ! i) \<and> cond_holds ctx (rs ! i)) \<and> rule_effect (rs ! i) = e"
      "r = rs ! i" "\<forall>j<i. \<not> ((P (rs ! j) \<and> cond_holds ctx (rs ! j)) \<and> rule_effect (rs ! j) = e)"
    unfolding find_Some_iff by auto
  from i(1,3) have "rs = take i rs @ r # drop (Suc i) rs" by (simp add: id_take_nth_drop)
  moreover have "\<forall>q\<in>set (take i rs). \<not> (P q \<and> cond_holds ctx q \<and> rule_effect q = e)"
  proof
    fix q assume "q \<in> set (take i rs)"
    then obtain j where "j < i" "q = rs ! j" by (auto simp: in_set_conv_nth)
    with i(4) show "\<not> (P q \<and> cond_holds ctx q \<and> rule_effect q = e)" by blast
  qed
  ultimately show ?thesis using i(2,3) by blast
qed

lemma first_with_total:
  "r \<in> set (matching P ctx rs) \<Longrightarrow> rule_effect r = e \<Longrightarrow> \<exists>r0. first_with e (matching P ctx rs) = Some r0"
  using first_with_ex by blast

lemma first_with_None_mset:
  "mset rs = mset rs' \<Longrightarrow> first_with e (matching P ctx rs) = None \<longleftrightarrow> first_with e (matching P ctx rs') = None"
  unfolding first_with_None by (metis matching_mset mset_eq_setD)

lemma no_throw_mset: "mset rs = mset rs' \<Longrightarrow> no_throw P ctx rs \<longleftrightarrow> no_throw P ctx rs'"
  unfolding no_throw_def by (metis mset_eq_setD)

section \<open>Forbid wins\<close>

text \<open>
  C30. Cedar semantics of \<open>PolicyEngine.evaluate\<close>: when a rule with effect forbid matches the
  resource, its name and the target, the result is the decision of the first such rule in
  insertion order, whatever permit rules match, and no rate-limit state changes.
\<close>

theorem evaluate_forbid_wins:
  assumes "no_throw (resource_guard res name (target_or tgt name)) ctx (eng_rules eng)"
    and "r \<in> set (eng_rules eng)" and "rule_effect r = Forbid"
    and "resource_guard res name (target_or tgt name) r" and "cond_holds ctx r"
  shows "\<exists>before r0 after. eng_rules eng = before @ r0 # after \<and> rule_effect r0 = Forbid
    \<and> resource_guard res name (target_or tgt name) r0 \<and> cond_holds ctx r0
    \<and> (\<forall>q\<in>set before. \<not> (resource_guard res name (target_or tgt name) q \<and> cond_holds ctx q
                          \<and> rule_effect q = Forbid))
    \<and> evaluate now res name ctx tgt eng = (Some (rule_decision r0), eng)"
proof -
  have "r \<in> set (res_matching res name ctx tgt (eng_rules eng))"
    using assms by (simp add: matching_def)
  then obtain r0 where r0: "first_with Forbid (res_matching res name ctx tgt (eng_rules eng)) = Some r0"
    using first_with_total assms(3) by blast
  with assms(1) have "evaluate now res name ctx tgt eng = (Some (rule_decision r0), eng)"
    by (simp add: evaluate_eq)
  with first_with_split [OF r0] show ?thesis by blast
qed

theorem evaluate_forbid_wins_witness:
  "\<exists>before r0 after. eng_rules (engine_of [tool_rule 0 Permit ''*'', tool_rule 1 Forbid ''RM'']) = before @ r0 # after
    \<and> rule_effect r0 = Forbid
    \<and> evaluate 5 RTool ''rm'' a_context None (engine_of [tool_rule 0 Permit ''*'', tool_rule 1 Forbid ''RM''])
      = (Some (rule_decision r0), engine_of [tool_rule 0 Permit ''*'', tool_rule 1 Forbid ''RM''])"
proof -
  let ?r = "tool_rule 1 Forbid ''RM''" and ?eng = "engine_of [tool_rule 0 Permit ''*'', tool_rule 1 Forbid ''RM'']"
  have "matchesPattern (PStr ''RM'') ''rm''" by code_simp
  then have "resource_guard RTool ''rm'' (target_or None ''rm'') ?r" "cond_holds a_context ?r"
    "rule_effect ?r = Forbid" "?r \<in> set (eng_rules ?eng)"
    "no_throw (resource_guard RTool ''rm'' (target_or None ''rm'')) a_context (eng_rules ?eng)"
    by (simp_all add: resource_guard_def target_ok_def sample_defs cond_holds_def no_throw_def cond_throws_def)
  from evaluate_forbid_wins [OF this(5,4,3,1,2), of 5] show ?thesis by blast
qed

section \<open>The effect does not depend on the order of the rules\<close>

text \<open>
  When no matching permit rule carries a rate limit, the effect that \<open>PolicyEngine.evaluate\<close>
  gives (and whether it throws) is the same for every order of the rules.
\<close>

theorem evaluate_order_independent:
  assumes "mset (eng_rules eng) = mset (eng_rules eng')" and "eng_default eng = eng_default eng'"
    and "\<forall>r\<in>set (eng_rules eng). resource_guard res name (target_or tgt name) r \<longrightarrow> rule_rateLimit r = None"
  shows "map_option dec_effect (fst (evaluate now res name ctx tgt eng))
    = map_option dec_effect (fst (evaluate now' res name ctx tgt eng'))"
proof -
  let ?P = "resource_guard res name (target_or tgt name)"
  let ?ms = "\<lambda>eng. matching ?P ctx (eng_rules eng)"
  have set: "set (eng_rules eng) = set (eng_rules eng')" by (rule mset_eq_setD [OF assms(1)])
  have eff: "dec_effect (fst (permit_decision t r name ctx m)) = Permit"
    if "first_with Permit (?ms e) = Some r" "set (eng_rules e) = set (eng_rules eng)" for t r m e
    using first_with_Some [OF that(1)] that(2) assms(3)
    by (simp add: matching_def permit_decision_def)
  show ?thesis
proof (cases "no_throw ?P ctx (eng_rules eng)")
    case False
    with no_throw_mset [OF assms(1), of ?P ctx] show ?thesis by (simp add: evaluate_eq)
  next
    case nt: True
    note nt' = nt [unfolded no_throw_mset [OF assms(1), of ?P ctx]]
    show ?thesis
    proof (cases "first_with Forbid (?ms eng)")
      case (Some r)
      then obtain r' where "first_with Forbid (?ms eng') = Some r'"
        using first_with_None_mset [OF assms(1), of Forbid ?P ctx] by auto
      with Some nt nt' show ?thesis by (auto simp: evaluate_eq dest!: first_with_Some)
    next
      case None
      note n' = this [unfolded first_with_None_mset [OF assms(1), of Forbid ?P ctx]]
      show ?thesis
      proof (cases "first_with Permit (?ms eng)")
        case None': None
        note n'' = this [unfolded first_with_None_mset [OF assms(1), of Permit ?P ctx]]
        show ?thesis using nt nt' None n' None' n'' assms(2)
          by (simp add: evaluate_eq default_decision_def)
      next
        case (Some r)
        then obtain r' where r': "first_with Permit (?ms eng') = Some r'"
          using first_with_None_mset [OF assms(1), of Permit ?P ctx] by auto
        show ?thesis using nt nt' None n' Some r' eff [OF Some] eff [OF r'] set
          by (simp add: evaluate_eq)
      qed
    qed
  qed
qed

theorem evaluate_order_independent_witness:
  "map_option dec_effect (fst (evaluate 1 RTool ''rm'' a_context None (engine_of [tool_rule 0 Permit ''*'', tool_rule 1 Forbid ''rm''])))
   = map_option dec_effect (fst (evaluate 2 RTool ''rm'' a_context None (engine_of [tool_rule 1 Forbid ''rm'', tool_rule 0 Permit ''*''])))"
  by (rule evaluate_order_independent) (simp_all add: sample_defs)

section \<open>Evaluation by action class\<close>

text \<open>
  \<open>evaluateByActionClass\<close>: with no throwing condition, a matching class forbid decides; else a
  matching rule of the mapped resource that forbids (or is over its limit) decides; else a matching
  class permit decides, so an implicit deny never swallows it; else the resource evaluation decides.
\<close>

theorem class_evaluation_effect:
  assumes "no_throw (class_guard ac name) ctx (eng_rules eng)"
    and "fst (evaluate now (mapActionClassToResource ac) name ctx None eng) = Some d"
  shows "\<exists>d'. fst (evaluateByActionClass now ac name ctx eng) = Some d'
    \<and> dec_effect d' =
        (if \<exists>r\<in>set (eng_rules eng). class_guard ac name r \<and> cond_holds ctx r \<and> rule_effect r = Forbid then Forbid
         else if dec_effect d = Forbid \<and> dec_rule d \<noteq> None then Forbid
         else if \<exists>r\<in>set (eng_rules eng). class_guard ac name r \<and> cond_holds ctx r \<and> rule_effect r = Permit then Permit
         else dec_effect d)"
proof -
  have iff: "(\<exists>r\<in>set (eng_rules eng). class_guard ac name r \<and> cond_holds ctx r \<and> rule_effect r = e)
      \<longleftrightarrow> first_with e (matching (class_guard ac name) ctx (eng_rules eng)) \<noteq> None" for e
    unfolding first_with_None by (auto simp: matching_def)
  show ?thesis
    unfolding iff evaluateByActionClass_eq using assms
    by (auto simp: case_prod_beta dest: first_with_Some split: option.split)
qed

theorem class_evaluation_effect_witness:
  "\<exists>d'. fst (evaluateByActionClass 1 ''web.search'' ''q'' a_context (engine_of [class_rule 0 Permit ''web.search''])) = Some d'
     \<and> dec_effect d' = Permit"
proof -
  let ?eng = "engine_of [class_rule 0 Permit ''web.search'']"
  have "fst (evaluate 1 (mapActionClassToResource ''web.search'') ''q'' a_context None ?eng)
      = Some (default_decision ?eng)"
    by (simp add: evaluate_def sample_defs resource_guard_def first_with_def)
  from class_evaluation_effect [OF _ this] show ?thesis
    by (simp add: sample_defs no_throw_def cond_throws_def cond_holds_def class_guard_def target_ok_def
        default_decision_def)
qed

section \<open>The rate limiter\<close>

text \<open>
  C32. Refinement of the rate limiter: on any sequence of evaluations, class and intent-group
  evaluations and cleanups with a non-decreasing clock, the engine with its pruned per-window maps
  gives exactly the decisions of the engine over the full history of the calls, so neither the
  pruning nor the timing of the cleanups is observable.
\<close>

theorem engine_refines:
  assumes "ids_ok (eng_rules eng)" and "eng_tracking eng = []" and "clocked start ops"
  shows "fst (run_ops run_op ops eng) = fst (run_ops (spec_op eng) ops [])"
  using sim_ops [OF limiter_sim_init [OF assms(1,2)] assms(3)] .

theorem engine_refines_witness:
  "map (map_option dec_effect) (fst (run_ops (spec_op (engine_of [limited_rule 0 1]))
      [OpEval 0 RTool ''read'' a_context None, OpCleanup 10, OpEval 500 RTool ''read'' a_context None,
       OpCleanup 900, OpEval 1000 RTool ''read'' a_context None] []))
   = map (map_option dec_effect) (fst (run_ops run_op
      [OpEval 0 RTool ''read'' a_context None, OpCleanup 10, OpEval 500 RTool ''read'' a_context None,
       OpCleanup 900, OpEval 1000 RTool ''read'' a_context None] (engine_of [limited_rule 0 1])))"
  by (subst engine_refines [of _ 0]) (simp_all add: sample_defs ids_ok_def)

text \<open>
  The calls let through: the times of the evaluations whose decision is a permit by the rule, with
  the tracking key of the call. \<open>evaluateByActionClass\<close> counts when its decision carries a rate
  limit status, that is when it comes from the resource rule.
\<close>

fun limited_permit :: "rule \<Rightarrow> string \<Rightarrow> engine_op \<Rightarrow> decision option \<Rightarrow> int list" where
  "limited_permit r k (OpEval now res name ctx tgt) (Some d) =
     (if dec_effect d = Permit \<and> map_option rule_id (dec_rule d) = Some (rule_id r)
         \<and> tracking_key ctx name = k then [now] else [])"
| "limited_permit r k (OpClass now ac name ctx) (Some d) =
     (if dec_effect d = Permit \<and> map_option rule_id (dec_rule d) = Some (rule_id r)
         \<and> tracking_key ctx name = k \<and> dec_rateLimit d \<noteq> None then [now] else [])"
| "limited_permit r k _ _ = []"

definition limited_permits :: "rule \<Rightarrow> string \<Rightarrow> engine_op list \<Rightarrow> decision option list \<Rightarrow> int list" where
  "limited_permits r k ops ds = concat (map (\<lambda>(x, d). limited_permit r k x d) (zip ops ds))"

definition log_bounded :: "rule \<Rightarrow> rate_limit \<Rightarrow> int \<Rightarrow> call_log \<Rightarrow> bool" where
  "log_bounded r rl prev log \<longleftrightarrow> (\<forall>k. (\<forall>t\<in>set (log_calls (rule_id r) k log). t \<le> prev)
     \<and> (\<forall>T. int (length (filter (\<lambda>t. T - windowSeconds rl * 1000 < t \<and> t \<le> T) (log_calls (rule_id r) k log)))
           \<le> max 0 (maxCalls rl)))"

lemma log_bounded_later: "log_bounded r rl prev log \<Longrightarrow> prev \<le> now \<Longrightarrow> log_bounded r rl now log"
  unfolding log_bounded_def by force

lemma spec_permit_bounded:
  assumes b: "log_bounded r rl prev log" and "prev \<le> now" and rl: "rule_rateLimit r = Some rl"
    and ids: "ids_ok rs" "r \<in> set rs" "r' \<in> set rs"
  shows "log_bounded r rl now (snd (spec_permit now r' name ctx log))"
proof (cases "r' = r \<and> \<not> int (length (recent now (rule_id r) rl (tracking_key ctx name) log)) \<ge> maxCalls rl")
  case True
  let ?k = "tracking_key ctx name" and ?w = "windowSeconds rl * 1000"
  let ?log = "log @ [(rule_id r, ?k, now)]"
  have st: "snd (spec_permit now r' name ctx log) = ?log"
    using True rl by (simp add: spec_permit_def Let_def)
  have old: "\<forall>t\<in>set (log_calls (rule_id r) k log). t \<le> now" for k
    using log_bounded_later [OF b \<open>prev \<le> now\<close>] by (simp add: log_bounded_def)
  have "int (length (filter (\<lambda>t. T - ?w < t \<and> t \<le> T) (log_calls (rule_id r) k ?log))) \<le> max 0 (maxCalls rl)"
    for k T
  proof (cases "k = ?k \<and> T - ?w < now \<and> now \<le> T")
    case False
    with b show ?thesis by (auto simp: log_bounded_def)
  next
    case k: True
    have "length (filter (\<lambda>t. T - ?w < t \<and> t \<le> T) (log_calls (rule_id r) ?k log))
        \<le> length (filter (in_window ?w now) (log_calls (rule_id r) ?k log))"
      by (rule length_filter_le_filter) (use k in \<open>simp add: in_window_def\<close>)
    with True k show ?thesis by (simp add: recent_def)
  qed
  with old st show ?thesis by (auto simp: log_bounded_def)
next
  case False
  have other: "rule_id r' \<noteq> rule_id r" if "r' \<noteq> r" using ids that unfolding ids_ok_def by blast
  have same: "log_calls (rule_id r) k (snd (spec_permit now r' name ctx log)) = log_calls (rule_id r) k log" for k
    using False rl other
    by (cases "r' = r") (simp_all add: spec_permit_def Let_def split: option.split)
  with log_bounded_later [OF b \<open>prev \<le> now\<close>] show ?thesis
    by (simp add: log_bounded_def)
qed

lemma spec_evaluate_log:
  assumes ids: "ids_ok (eng_rules eng)" "r \<in> set (eng_rules eng)" and rl: "rule_rateLimit r = Some rl"
  shows "\<exists>new. snd (spec_evaluate now res name ctx tgt eng log) = log @ new
    \<and> (\<forall>d. fst (spec_evaluate now res name ctx tgt eng log) = Some d \<longrightarrow> dec_effect d = Permit \<longrightarrow>
          map_option rule_id (dec_rule d) = Some (rule_id r) \<longrightarrow>
          subseq [now] (log_calls (rule_id r) (tracking_key ctx name) new))"
proof -
  let ?ms = "res_matching res name ctx tgt (eng_rules eng)"
  have dec: "rule_id q \<noteq> rule_id r" if "first_with Permit ?ms = Some q" "rule_rateLimit q = None" for q
    using permit_mem [OF that(1)] that(2) ids rl unfolding ids_ok_def by force
  show ?thesis
  proof (cases "res_no_throw res name ctx tgt (eng_rules eng) \<and> first_with Forbid ?ms = None")
    case True
    show ?thesis
    proof (cases "first_with Permit ?ms")
      case None
      with True show ?thesis by (simp add: spec_evaluate_def default_decision_def)
    next
      case (Some q)
      with True dec [OF Some] show ?thesis
        by (cases "rule_rateLimit q") (simp_all add: spec_evaluate_def spec_permit_def Let_def log_calls_def)
    qed
  next
    case False
    then show ?thesis
      by (cases "first_with Forbid ?ms") (auto simp: spec_evaluate_def dest: first_with_Some)
  qed
qed

lemma spec_evaluate_bounded:
  assumes "log_bounded r rl prev log" "prev \<le> now" "rule_rateLimit r = Some rl"
    and "ids_ok (eng_rules eng)" "r \<in> set (eng_rules eng)"
  shows "log_bounded r rl now (snd (spec_evaluate now res name ctx tgt eng log))"
  using log_bounded_later [OF assms(1,2)] spec_permit_bounded [OF assms permit_mem]
  by (auto simp: spec_evaluate_def split: option.split)

lemma class_through:
  "fst (spec_evaluateByActionClass now ac name ctx eng log) = Some d \<Longrightarrow> dec_rateLimit d \<noteq> None \<Longrightarrow>
     fst (spec_evaluate now (mapActionClassToResource ac) name ctx None eng log) = Some d
     \<and> snd (spec_evaluateByActionClass now ac name ctx eng log)
       = snd (spec_evaluate now (mapActionClassToResource ac) name ctx None eng log)"
  by (auto simp: spec_evaluateByActionClass_def case_prod_beta split: if_splits option.splits)

lemma class_log:
  "snd (spec_evaluateByActionClass now ac name ctx eng log) = log
   \<or> snd (spec_evaluateByActionClass now ac name ctx eng log)
     = snd (spec_evaluate now (mapActionClassToResource ac) name ctx None eng log)"
  by (auto simp: spec_evaluateByActionClass_def case_prod_beta split: option.split)

lemma spec_op_log:
  assumes ids: "ids_ok (eng_rules eng)" "r \<in> set (eng_rules eng)" and rl: "rule_rateLimit r = Some rl"
  shows "\<exists>new. snd (spec_op eng x log) = log @ new
    \<and> subseq (limited_permit r k x (fst (spec_op eng x log))) (log_calls (rule_id r) k new)"
proof (cases x)
  case (OpEval now res name ctx tgt)
  with spec_evaluate_log [OF assms, of now res name ctx tgt log] show ?thesis
    by (cases "fst (spec_evaluate now res name ctx tgt eng log)") auto
next
  case (OpClass now ac name ctx)
  let ?o = "spec_evaluateByActionClass now ac name ctx eng log"
  from spec_evaluate_log [OF assms, of now "mapActionClassToResource ac" name ctx None log] class_log [of now ac name ctx eng log]
  obtain new where new: "snd ?o = log @ new" by auto
  show ?thesis
  proof (cases "\<exists>d. fst ?o = Some d \<and> dec_rateLimit d \<noteq> None")
    case True
    then obtain d where d: "fst ?o = Some d" "dec_rateLimit d \<noteq> None" by blast
    from class_through [OF d] d spec_evaluate_log [OF assms, of now "mapActionClassToResource ac" name ctx None log]
    show ?thesis by (auto simp: OpClass)
  next
    case False
    then have "limited_permit r k x (fst (spec_op eng x log)) = []"
      by (cases "fst ?o") (auto simp: OpClass)
    with new show ?thesis by (simp add: OpClass)
  qed
qed auto

lemma spec_op_bounded:
  assumes "log_bounded r rl prev log" "rule_rateLimit r = Some rl"
    and "ids_ok (eng_rules eng)" "r \<in> set (eng_rules eng)"
    and "case op_time x of None \<Rightarrow> True | Some now \<Rightarrow> prev \<le> now"
  shows "log_bounded r rl (case op_time x of None \<Rightarrow> prev | Some now \<Rightarrow> now) (snd (spec_op eng x log))"
proof (cases x)
  case (OpClass now ac name ctx)
  with assms class_log [of now ac name ctx eng log] spec_evaluate_bounded [OF assms(1) _ assms(2,3,4)] log_bounded_later [OF assms(1)]
  show ?thesis by auto
qed (use assms in \<open>auto intro: spec_evaluate_bounded log_bounded_later\<close>)

lemma spec_ops_log:
  assumes "rule_rateLimit r = Some rl" "ids_ok (eng_rules eng)" "r \<in> set (eng_rules eng)"
    and "log_bounded r rl prev log" "clocked prev xs"
  shows "\<exists>new prev'. snd (run_ops (spec_op eng) xs log) = log @ new
    \<and> subseq (limited_permits r k xs (fst (run_ops (spec_op eng) xs log))) (log_calls (rule_id r) k new)
    \<and> log_bounded r rl prev' (log @ new)"
  using assms(4,5)
proof (induction xs arbitrary: prev log)
  case (Cons x xs)
  let ?now = "case op_time x of None \<Rightarrow> prev | Some now \<Rightarrow> now" and ?s = "spec_op eng x log"
  from Cons.prems(2) have t: "case op_time x of None \<Rightarrow> True | Some now \<Rightarrow> prev \<le> now"
    and c: "clocked ?now xs" by (simp_all split: option.splits)
  obtain n1 where n1: "snd ?s = log @ n1" "subseq (limited_permit r k x (fst ?s)) (log_calls (rule_id r) k n1)"
    using spec_op_log [OF assms(2,3,1)] by blast
  from Cons.IH [OF spec_op_bounded [OF Cons.prems(1) assms(1-3) t] c] n1
  obtain n2 prev' where n2: "snd (run_ops (spec_op eng) xs (log @ n1)) = (log @ n1) @ n2"
    "subseq (limited_permits r k xs (fst (run_ops (spec_op eng) xs (log @ n1)))) (log_calls (rule_id r) k n2)"
    "log_bounded r rl prev' ((log @ n1) @ n2)" by auto
  have "log_calls (rule_id r) k (n1 @ n2) = log_calls (rule_id r) k n1 @ log_calls (rule_id r) k n2"
    by (simp add: log_calls_def)
  with n1 n2 show ?case
    by (auto simp: case_prod_beta limited_permits_def intro!: exI [of _ "n1 @ n2"] exI [of _ prev'] list_emb_append_mono)
qed (auto simp: limited_permits_def)

text \<open>
  C31. The rate limit holds for the permits that are counted: for a rule with a limit of \<open>maxCalls\<close> per
  \<open>windowSeconds\<close>, in any sequence of evaluations, class decisions, intent-group decisions and cleanups from an
  empty tracking, with distinct ids of rules and a non-decreasing clock, and for every tracking key, at most
  \<open>maxCalls\<close> of the permits that evaluate gives by the rule, and that class decisions give by it with the limit
  in the decision, fall into any window of that length. A class rule permits without looking at its limit, and
  so does an intent group: these permits carry no limit and are not counted. No rule is added or cleared on the
  way.
\<close>

theorem rate_limit_bound:
  assumes "ids_ok (eng_rules eng)" and "eng_tracking eng = []" and "clocked start ops"
    and "r \<in> set (eng_rules eng)" and "rule_rateLimit r = Some rl"
  shows "int (length (filter (\<lambda>t. T - windowSeconds rl * 1000 < t \<and> t \<le> T)
      (limited_permits r k ops (fst (run_ops run_op ops eng))))) \<le> max 0 (maxCalls rl)"
proof -
  have "log_bounded r rl start []" by (simp add: log_bounded_def log_calls_def)
  from spec_ops_log [OF assms(5,1,4) this assms(3), of k]
  obtain new prev' where new: "subseq (limited_permits r k ops (fst (run_ops (spec_op eng) ops []))) (log_calls (rule_id r) k new)"
    "log_bounded r rl prev' new" by auto
  let ?F = "filter (\<lambda>t. T - windowSeconds rl * 1000 < t \<and> t \<le> T)"
  have "length (?F (limited_permits r k ops (fst (run_ops (spec_op eng) ops [])))) \<le> length (?F (log_calls (rule_id r) k new))"
    by (rule list_emb_length [OF subseq_filter [OF new(1)]])
  moreover have "int (length (?F (log_calls (rule_id r) k new))) \<le> max 0 (maxCalls rl)"
    using new(2) by (simp add: log_bounded_def)
  ultimately show ?thesis
    unfolding sim_ops [OF limiter_sim_init [OF assms(1,2)] assms(3)] by linarith
qed

theorem rate_limit_bound_witness:
  "int (length (filter (\<lambda>t. 999 - 1 * 1000 < t \<and> t \<le> 999)
     (limited_permits (limited_rule 0 1) ''agent:read''
       [OpEval 0 RTool ''read'' a_context None, OpEval 500 RTool ''read'' a_context None]
       (fst (run_ops run_op [OpEval 0 RTool ''read'' a_context None, OpEval 500 RTool ''read'' a_context None]
               (engine_of [limited_rule 0 1])))))) \<le> max 0 1"
  using rate_limit_bound [of "engine_of [limited_rule 0 1]" 0
      "[OpEval 0 RTool ''read'' a_context None, OpEval 500 RTool ''read'' a_context None]"
      "limited_rule 0 1" "\<lparr>maxCalls = 1, windowSeconds = 1\<rparr>" 999 "''agent:read''"]
  by (simp add: sample_defs ids_ok_def del: run_ops.simps)

end
