(* ===== verification/HitlPolicy.thy ===== *)
theory HitlPolicy
  imports Prelude
begin

text \<open>
  Human-in-the-loop policies: the types of \<open>src/hitl/types.ts\<close> and the matcher of
  \<open>src/hitl/matcher.ts\<close>. A value of these types has passed the TypeBox schema; the schema checks
  themselves are made by the library the source calls.
\<close>

section \<open>Types\<close>

datatype hitl_fallback = Deny | AutoApprove

record approval_config =
  ac_channel :: string
  ac_timeout :: int
  ac_fallback :: hitl_fallback

record hitl_policy =
  hp_name :: string
  hp_actions :: "string list"
  hp_approval :: approval_config

text \<open>\<open>TelegramConfig\<close> and \<open>SlackConfig\<close>, with the fields the source reads.\<close>

record telegram_config =
  tg_botToken :: "string option"
  tg_chatId :: "string option"

record slack_config =
  sl_botToken :: "string option"
  sl_channelId :: "string option"
  sl_signingSecret :: "string option"
  sl_interactionPort :: "int option"
  sl_interactionHost :: "string option"

record hitl_config =
  hc_version :: string
  hc_policies :: "hitl_policy list"
  hc_telegram :: "telegram_config option"
  hc_slack :: "slack_config option"

section \<open>Matching\<close>

text \<open>\<open>patternParts.every((seg, i) => seg === '*' || seg === actionParts[i])\<close>, lengths being equal.\<close>

definition segments_match :: "string list \<Rightarrow> string list \<Rightarrow> bool" where
  "segments_match ps as = list_all (\<lambda>(seg, a). seg = ''*'' \<or> seg = a) (zip ps as)"

definition matchesActionPattern :: "string \<Rightarrow> string \<Rightarrow> bool" where
  "matchesActionPattern pattern action =
     (if pattern = ''*'' then True
      else if pattern = action then True
      else let patternParts = split_on (CHR ''.'') pattern;
               actionParts = split_on (CHR ''.'') action
           in if length patternParts \<noteq> length actionParts then False
              else segments_match patternParts actionParts)"

text \<open>\<open>HitlCheckResult\<close>: the matched policy, or none when no approval is required.\<close>

record hitl_check =
  requiresApproval :: bool
  matchedPolicy :: "hitl_policy option"

fun check_policies :: "hitl_policy list \<Rightarrow> string \<Rightarrow> hitl_check" where
  "check_policies [] action_class = \<lparr>requiresApproval = False, matchedPolicy = None\<rparr>"
| "check_policies (policy # ps) action_class =
     (if list_ex (\<lambda>pattern. matchesActionPattern pattern action_class) (hp_actions policy)
      then \<lparr>requiresApproval = True, matchedPolicy = Some policy\<rparr>
      else check_policies ps action_class)"

definition checkAction :: "hitl_config \<Rightarrow> string \<Rightarrow> hitl_check" where
  "checkAction config action_class = check_policies (hc_policies config) action_class"

section \<open>Facts\<close>

text \<open>Segment-wise reading of a pattern, as its documentation gives it.\<close>

definition pattern_denotes :: "string \<Rightarrow> string \<Rightarrow> bool" where
  "pattern_denotes pattern action \<longleftrightarrow>
     pattern = ''*''
     \<or> list_all2 (\<lambda>seg a. seg = ''*'' \<or> seg = a)
         (split_on (CHR ''.'') pattern) (split_on (CHR ''.'') action)"

lemma matchesActionPattern_iff: "matchesActionPattern pattern action \<longleftrightarrow> pattern_denotes pattern action"
proof -
  show ?thesis
    by (auto simp: matchesActionPattern_def pattern_denotes_def segments_match_def list_all2_iff
        list_all_iff Let_def zip_same)
qed

lemma check_policies_cases:
  "(requiresApproval (check_policies ps ac) \<longleftrightarrow> matchedPolicy (check_policies ps ac) \<noteq> None)
   \<and> matchedPolicy (check_policies ps ac)
     = List.find (\<lambda>p. \<exists>pat\<in>set (hp_actions p). matchesActionPattern pat ac) ps"
  by (induction ps) (auto simp: list_ex_iff)

lemma checkAction_matched:
  "matchedPolicy (checkAction config ac)
     = List.find (\<lambda>p. \<exists>pat\<in>set (hp_actions p). matchesActionPattern pat ac) (hc_policies config)"
  "requiresApproval (checkAction config ac) \<longleftrightarrow> matchedPolicy (checkAction config ac) \<noteq> None"
  using check_policies_cases by (auto simp: checkAction_def)

end
