(* ===== verification/Approval.thy ===== *)
theory Approval
  imports HitlPolicy "HOL-Library.Word"
begin

text \<open>
  The approval manager, \<open>src/hitl/approval-manager.ts\<close>: the requests that wait for a human, the
  consumed tokens, the session approvals, and the promises and timers the requests hold. A promise
  is a number; settling it records its outcome once, as the host's promises do. A timer is armed
  with the token and the promise its callback captured. SHA-256 is a parameter (\<open>sha256\<close>), a fresh
  token of \<open>uuidv7\<close> is an argument of the operation that draws it.
\<close>

unbundle bit_operations_syntax

section \<open>Tokens\<close>

definition hexdig :: "nat \<Rightarrow> char" where
  "hexdig n = (if n < 10 then char_of (48 + n) else char_of (87 + n))"

definition hex_byte :: "8 word \<Rightarrow> string" where
  "hex_byte b = [hexdig (unat b div 16), hexdig (unat b mod 16)]"

definition to_hex :: "8 word list \<Rightarrow> string" where
  "to_hex bs = concat (map hex_byte bs)"

definition substr :: "nat \<Rightarrow> nat \<Rightarrow> string \<Rightarrow> string" where
  "substr a b s = take (b - a) (drop a s)"

text \<open>The 16 bytes of a UUID v7 from the 16 random ones and the time.\<close>

definition uuid_bytes :: "8 word list \<Rightarrow> int \<Rightarrow> 8 word list" where
  "uuid_bytes random now =
     (let bytes = random
            [0 := word_of_int (drop_bit 40 now AND 0xff), 1 := word_of_int (drop_bit 32 now AND 0xff),
             2 := word_of_int (drop_bit 24 now AND 0xff), 3 := word_of_int (drop_bit 16 now AND 0xff),
             4 := word_of_int (drop_bit 8 now AND 0xff), 5 := word_of_int (now AND 0xff)];
          bytes = bytes[6 := (bytes ! 6 AND 0x0f) OR 0x70];
          bytes = bytes[8 := (bytes ! 8 AND 0x3f) OR 0x80]
      in bytes)"

definition uuidv7 :: "8 word list \<Rightarrow> int \<Rightarrow> string" where
  "uuidv7 random now =
     (let hex = to_hex (uuid_bytes random now)
      in substr 0 8 hex @ ''-'' @ substr 8 12 hex @ ''-'' @ substr 12 16 hex @ ''-''
         @ substr 16 20 hex @ ''-'' @ drop 20 hex)"

definition computeBinding :: "(string \<Rightarrow> string) \<Rightarrow> string \<Rightarrow> string \<Rightarrow> string \<Rightarrow> string" where
  "computeBinding sha256 action_class target payload_hash =
     sha256 (action_class @ ''|'' @ target @ ''|'' @ payload_hash)"

section \<open>State\<close>

datatype outcome = Approved | Denied | Expired

datatype approval_mode = ModePerRequest | ModeSessionApproval

record approval_opts =
  ao_toolName :: string
  ao_agentId :: string
  ao_channelId :: string
  ao_policy :: hitl_policy
  ao_payload_hash :: "string option"
  ao_action_class :: "string option"
  ao_target :: "string option"
  ao_summary :: "string option"
  ao_session_id :: "string option"
  ao_mode :: "approval_mode option"

record pending_approval =
  pa_token :: string
  pa_toolName :: string
  pa_agentId :: string
  pa_channelId :: string
  pa_policyName :: string
  pa_fallback :: hitl_fallback
  pa_createdAt :: int
  pa_timeoutMs :: int
  pa_payload_hash :: string
  pa_action_class :: string
  pa_target :: string
  pa_summary :: string
  pa_binding :: string
  pa_resolve :: nat
  pa_timer :: nat

text \<open>An armed timer: when it is due and what its callback captured.\<close>

record timer =
  tm_due :: int
  tm_token :: string
  tm_promise :: nat

record manager =
  am_pending :: "(string, pending_approval) jsmap"
  am_consumed :: "string set"
  am_session :: "string set"
  am_timers :: "(nat, timer) jsmap"
  am_settled :: "(nat, outcome) jsmap"
  am_next :: nat

definition new_manager :: manager where
  "new_manager = \<lparr>am_pending = [], am_consumed = {}, am_session = {}, am_timers = [],
     am_settled = [], am_next = 0\<rparr>"

text \<open>Resolving a promise: only the first call has an effect.\<close>

definition settle :: "nat \<Rightarrow> outcome \<Rightarrow> manager \<Rightarrow> manager" where
  "settle p d s = (case map_of (am_settled s) p of
     Some _ \<Rightarrow> s | None \<Rightarrow> s\<lparr>am_settled := AList.update p d (am_settled s)\<rparr>)"

definition clearTimeout :: "nat \<Rightarrow> manager \<Rightarrow> manager" where
  "clearTimeout t s = s\<lparr>am_timers := AList.delete t (am_timers s)\<rparr>"

section \<open>Operations\<close>

definition request_token :: "string \<Rightarrow> string \<Rightarrow> approval_opts \<Rightarrow> string" where
  "request_token uuid action_class opts =
     (case (ao_mode opts, ao_session_id opts) of
        (Some ModeSessionApproval, Some sid) \<Rightarrow> if sid \<noteq> '''' then sid @ '':'' @ action_class else uuid
      | _ \<Rightarrow> uuid)"

abbreviation or_else :: "'a option \<Rightarrow> 'a \<Rightarrow> 'a" where
  "or_else x d \<equiv> (case x of Some v \<Rightarrow> v | None \<Rightarrow> d)"

definition createApprovalRequest ::
  "(string \<Rightarrow> string) \<Rightarrow> string \<Rightarrow> int \<Rightarrow> approval_opts \<Rightarrow> manager \<Rightarrow> (string \<times> nat) \<times> manager" where
  "createApprovalRequest sha256 uuid now opts s =
     (let payload_hash = or_else (ao_payload_hash opts) '''';
          action_class = or_else (ao_action_class opts) (ao_toolName opts);
          target = or_else (ao_target opts) '''';
          summary = or_else (ao_summary opts) '''';
          binding = computeBinding sha256 action_class target payload_hash;
          token = request_token uuid action_class opts;
          timeoutMs = ac_timeout (hp_approval (ao_policy opts)) * 1000;
          n = am_next s;
          tm = \<lparr>tm_due = now + timeoutMs, tm_token = token, tm_promise = n\<rparr>;
          entry = \<lparr>pa_token = token, pa_toolName = ao_toolName opts, pa_agentId = ao_agentId opts,
            pa_channelId = ao_channelId opts, pa_policyName = hp_name (ao_policy opts),
            pa_fallback = ac_fallback (hp_approval (ao_policy opts)), pa_createdAt = now,
            pa_timeoutMs = timeoutMs, pa_payload_hash = payload_hash, pa_action_class = action_class,
            pa_target = target, pa_summary = summary, pa_binding = binding,
            pa_resolve = n, pa_timer = n\<rparr>
      in ((token, n),
          s\<lparr>am_timers := AList.update n tm (am_timers s),
            am_pending := AList.update token entry (am_pending s),
            am_next := n + 1\<rparr>))"

text \<open>The callback of a timer that is still armed.\<close>

definition fire_timer :: "nat \<Rightarrow> manager \<Rightarrow> manager" where
  "fire_timer t s = (case map_of (am_timers s) t of
     None \<Rightarrow> s
   | Some tm \<Rightarrow>
       settle (tm_promise tm) Expired
         ((clearTimeout t s)\<lparr>am_pending := AList.delete (tm_token tm) (am_pending s),
            am_consumed := insert (tm_token tm) (am_consumed s)\<rparr>))"

text \<open>The tail of \<open>resolveApproval\<close> and \<open>cancel\<close>: stop the timer, consume the token, resolve.\<close>

definition close_request :: "string \<Rightarrow> pending_approval \<Rightarrow> outcome \<Rightarrow> manager \<Rightarrow> manager" where
  "close_request token entry d s =
     settle (pa_resolve entry) d
       ((clearTimeout (pa_timer entry) s)\<lparr>am_pending := AList.delete token (am_pending s),
          am_consumed := insert token (am_consumed s)\<rparr>)"

definition resolveApproval ::
  "string \<Rightarrow> outcome \<Rightarrow> string option \<Rightarrow> manager \<Rightarrow> bool \<times> manager" where
  "resolveApproval token d binding s =
     (case map_of (am_pending s) token of
        None \<Rightarrow> (False, s)
      | Some entry \<Rightarrow>
          if binding \<noteq> None \<and> binding \<noteq> Some (pa_binding entry) then (False, s)
          else (True, close_request token entry d s))"

definition cancel :: "string \<Rightarrow> manager \<Rightarrow> manager" where
  "cancel token s =
     (case map_of (am_pending s) token of
        None \<Rightarrow> s | Some entry \<Rightarrow> close_request token entry Expired s)"

definition isConsumed :: "string \<Rightarrow> manager \<Rightarrow> bool" where
  "isConsumed token s \<longleftrightarrow> token \<in> am_consumed s"

definition getPending :: "string \<Rightarrow> manager \<Rightarrow> pending_approval option" where
  "getPending token s = map_of (am_pending s) token"

definition pending_size :: "manager \<Rightarrow> nat" where
  "pending_size s = length (am_pending s)"

text \<open>\<open>Array.prototype.sort\<close> is stable, as \<^const>\<open>sort_key\<close> is.\<close>

definition listPending :: "manager \<Rightarrow> pending_approval list" where
  "listPending s = sort_key pa_createdAt (map snd (am_pending s))"

fun batchResolve :: "string list \<Rightarrow> outcome \<Rightarrow> manager \<Rightarrow> nat \<times> manager" where
  "batchResolve [] d s = (0, s)"
| "batchResolve (token # tokens) d s =
     (case resolveApproval token d None s of (ok, s') \<Rightarrow>
        (case batchResolve tokens d s' of (n, s'') \<Rightarrow> ((if ok then n + 1 else n), s'')))"

definition session_key :: "string \<Rightarrow> string \<Rightarrow> string" where
  "session_key channelId actionClass = channelId @ '':'' @ actionClass"

definition addSessionAutoApproval :: "string \<Rightarrow> string \<Rightarrow> manager \<Rightarrow> manager" where
  "addSessionAutoApproval channelId actionClass s =
     s\<lparr>am_session := insert (session_key channelId actionClass) (am_session s)\<rparr>"

definition isSessionAutoApproved :: "string \<Rightarrow> string \<Rightarrow> manager \<Rightarrow> bool" where
  "isSessionAutoApproved channelId actionClass s \<longleftrightarrow> session_key channelId actionClass \<in> am_session s"

definition clearSessionAutoApprovals :: "manager \<Rightarrow> nat \<times> manager" where
  "clearSessionAutoApprovals s = (card (am_session s), s\<lparr>am_session := {}\<rparr>)"

definition expire_entry :: "pending_approval \<Rightarrow> manager \<Rightarrow> manager" where
  "expire_entry entry s =
     settle (pa_resolve entry) Expired
       ((clearTimeout (pa_timer entry) s)\<lparr>am_consumed := insert (pa_token entry) (am_consumed s)\<rparr>)"

definition shutdown :: "manager \<Rightarrow> manager" where
  "shutdown s = (fold expire_entry (map snd (am_pending s)) s)\<lparr>am_pending := [], am_session := {}\<rparr>"

end
