(* ===== verification/Registry.thy ===== *)
theory Registry
  imports Prelude
begin

text \<open>
  The action registry, \<open>packages/action-registry/src/index.ts\<close>: the taxonomy of action classes
  with their default risk, approval mode, intent group and tool-name aliases. Each entry of the
  table is one definition, in the table's order; \<open>REGISTRY\<close> is the table.
\<close>

section \<open>Types\<close>

datatype risk_level = Low | Medium | High | Critical

datatype hitl_mode = HNone | PerRequest | SessionApproval

text \<open>Risk levels are ordered as the source lists them.\<close>

fun risk_rank :: "risk_level \<Rightarrow> nat" where
  "risk_rank Low = 0"
| "risk_rank Medium = 1"
| "risk_rank High = 2"
| "risk_rank Critical = 3"

lemma risk_rank_inj: "risk_rank a = risk_rank b \<longleftrightarrow> a = b"
  by (cases a; cases b) simp_all

instantiation risk_level :: linorder
begin

definition less_eq_risk_level :: "risk_level \<Rightarrow> risk_level \<Rightarrow> bool" where
  "less_eq_risk_level a b \<longleftrightarrow> risk_rank a \<le> risk_rank b"

definition less_risk_level :: "risk_level \<Rightarrow> risk_level \<Rightarrow> bool" where
  "less_risk_level a b \<longleftrightarrow> risk_rank a < risk_rank b"

instance
  by standard (auto simp: less_eq_risk_level_def less_risk_level_def risk_rank_inj)

end

lemma risk_order [simp]:
  "Low \<le> (r::risk_level)" "r \<le> Critical" "Medium \<le> High"
  by (cases r; simp add: less_eq_risk_level_def)+

fun risk_str :: "risk_level \<Rightarrow> string" where
  "risk_str Low = ''low''"
| "risk_str Medium = ''medium''"
| "risk_str High = ''high''"
| "risk_str Critical = ''critical''"

text \<open>\<open>IntentGroup\<close> is a union of string literals; it is kept as a string, as rules compare it.\<close>

record registry_entry =
  reg_class :: string
  reg_risk :: risk_level
  reg_mode :: hitl_mode
  reg_aliases :: "string list"
  reg_intent :: "string option"

section \<open>The taxonomy\<close>

definition ActionClass :: "(string \<times> string) list" where
  "ActionClass = [
    (''FilesystemRead'', ''filesystem.read''),
    (''FilesystemWrite'', ''filesystem.write''),
    (''FilesystemDelete'', ''filesystem.delete''),
    (''FilesystemList'', ''filesystem.list''),
    (''WebSearch'', ''web.search''),
    (''WebFetch'', ''web.fetch''),
    (''BrowserScrape'', ''browser.scrape''),
    (''WebPost'', ''web.post''),
    (''ShellExec'', ''shell.exec''),
    (''CommunicationEmail'', ''communication.email''),
    (''CommunicationSlack'', ''communication.slack''),
    (''CommunicationWebhook'', ''communication.webhook''),
    (''MemoryRead'', ''memory.read''),
    (''MemoryWrite'', ''memory.write''),
    (''CredentialRead'', ''credential.read''),
    (''CredentialWrite'', ''credential.write''),
    (''CredentialRotate'', ''credential.rotate''),
    (''CredentialList'', ''credential.list''),
    (''CodeExecute'', ''code.execute''),
    (''PaymentInitiate'', ''payment.initiate''),
    (''SystemRead'', ''system.read''),
    (''SystemService'', ''system.service''),
    (''PermissionsModify'', ''permissions.modify''),
    (''PermissionsElevate'', ''permissions.elevate''),
    (''ProcessSignal'', ''process.signal''),
    (''NetworkDiagnose'', ''network.diagnose''),
    (''NetworkScan'', ''network.scan''),
    (''SchedulingPersist'', ''scheduling.persist''),
    (''NetworkTransfer'', ''network.transfer''),
    (''NetworkShell'', ''network.shell''),
    (''ClusterRead'', ''cluster.read''),
    (''ClusterWrite'', ''cluster.write''),
    (''VcsRead'', ''vcs.read''),
    (''VcsWrite'', ''vcs.write''),
    (''VcsRemote'', ''vcs.remote''),
    (''PackageInstall'', ''package.install''),
    (''PackageRun'', ''package.run''),
    (''PackageRead'', ''package.read''),
    (''BuildCompile'', ''build.compile''),
    (''BuildTest'', ''build.test''),
    (''BuildLint'', ''build.lint''),
    (''ArchiveCreate'', ''archive.create''),
    (''ArchiveExtract'', ''archive.extract''),
    (''ArchiveRead'', ''archive.read''),
    (''UnknownSensitiveAction'', ''unknown_sensitive_action'')]"

section \<open>The table\<close>

definition reg_filesystem_read :: registry_entry where
  "reg_filesystem_read = \<lparr>
    reg_class = ''filesystem.read'', reg_risk = Low, reg_mode = HNone,
    reg_aliases = [''read'', ''read_file'', ''readfile'', ''read_files'', ''read_files_batch'', ''cat_file'',
      ''view_file'', ''open_file'', ''get_file_contents'', ''find_files'', ''find_file'',
      ''search_files'', ''grep_files'', ''grep_file'', ''grep'', ''search_in_files'',
      ''check_exists'', ''exists'', ''file_exists'', ''path_exists'', ''cat'', ''head'',
      ''tail'', ''less'', ''more'', ''diff'', ''find'', ''locate''],
    reg_intent = None\<rparr>"

definition reg_filesystem_write :: registry_entry where
  "reg_filesystem_write = \<lparr>
    reg_class = ''filesystem.write'', reg_risk = Medium, reg_mode = PerRequest,
    reg_aliases = [''write'', ''edit'', ''apply_patch'', ''write_file'', ''writefile'', ''create_file'',
      ''save_file'', ''update_file'', ''edit_file'', ''patch_file'', ''make_dir'', ''mkdir'',
      ''create_dir'', ''create_directory'', ''copy_file'', ''copy'', ''cp'', ''duplicate_file'',
      ''copy_file_to'', ''move_file'', ''mv'', ''move'', ''rename_file'', ''rename'', ''tee'',
      ''touch'', ''install''],
    reg_intent = None\<rparr>"

definition reg_filesystem_delete :: registry_entry where
  "reg_filesystem_delete = \<lparr>
    reg_class = ''filesystem.delete'', reg_risk = High, reg_mode = PerRequest,
    reg_aliases = [''delete_file'', ''deletefile'', ''remove_file'', ''rm_file'', ''unlink_file'', ''rm'',
      ''rm_rf'', ''unlink'', ''delete'', ''remove'', ''move_to_trash'', ''trash'', ''shred'',
      ''rmdir'', ''format'', ''empty_trash'', ''purge''],
    reg_intent = Some ''destructive_fs''\<rparr>"

definition reg_filesystem_list :: registry_entry where
  "reg_filesystem_list = \<lparr>
    reg_class = ''filesystem.list'', reg_risk = Low, reg_mode = HNone,
    reg_aliases = [''list'', ''list_files'', ''listfiles'', ''list_directory'', ''list_dir'',
      ''read_directory'', ''ls'', ''tree''],
    reg_intent = None\<rparr>"

definition reg_web_search :: registry_entry where
  "reg_web_search = \<lparr>
    reg_class = ''web.search'', reg_risk = Medium, reg_mode = PerRequest,
    reg_aliases = [''web_search'', ''x_search'', ''google_search'', ''bing_search'', ''duckduckgo_search'',
      ''ddg_search'', ''search_web'', ''web_research'', ''news_search''],
    reg_intent = None\<rparr>"

definition reg_web_fetch :: registry_entry where
  "reg_web_fetch = \<lparr>
    reg_class = ''web.fetch'', reg_risk = Medium, reg_mode = PerRequest,
    reg_aliases = [''fetch'', ''browser'', ''http_get'', ''web_fetch'', ''get_url'', ''fetch_url'',
      ''http_request'', ''curl'', ''wget'', ''download_url'', ''http_head'', ''head_url'',
      ''http_options''],
    reg_intent = Some ''data_exfiltration''\<rparr>"

definition reg_browser_scrape :: registry_entry where
  "reg_browser_scrape = \<lparr>
    reg_class = ''browser.scrape'', reg_risk = Medium, reg_mode = PerRequest,
    reg_aliases = [''scrape_page'', ''extract_page'', ''read_url''],
    reg_intent = None\<rparr>"

definition reg_web_post :: registry_entry where
  "reg_web_post = \<lparr>
    reg_class = ''web.post'', reg_risk = Medium, reg_mode = PerRequest,
    reg_aliases = [''http_post'', ''post_url'', ''web_post'', ''post_request'', ''submit_form'',
      ''http_put'', ''put_url'', ''web_put'', ''put_request'', ''http_patch'', ''patch_url'',
      ''web_patch'', ''patch_request'', ''http_delete'', ''delete_url'', ''web_delete'',
      ''delete_request''],
    reg_intent = Some ''web_access''\<rparr>"

definition reg_shell_exec :: registry_entry where
  "reg_shell_exec = \<lparr>
    reg_class = ''shell.exec'', reg_risk = High, reg_mode = PerRequest,
    reg_aliases = [''bash'', ''exec'', ''shell_exec'', ''run_command'', ''execute_command'',
      ''run_terminal_cmd'', ''terminal_exec'', ''cmd'', ''unsafe_admin_exec''],
    reg_intent = None\<rparr>"

definition reg_communication_email :: registry_entry where
  "reg_communication_email = \<lparr>
    reg_class = ''communication.email'', reg_risk = High, reg_mode = PerRequest,
    reg_aliases = [''send_email'', ''email_send'', ''send_mail'', ''compose_email'', ''email''],
    reg_intent = Some ''external_send''\<rparr>"

definition reg_communication_slack :: registry_entry where
  "reg_communication_slack = \<lparr>
    reg_class = ''communication.slack'', reg_risk = Medium, reg_mode = PerRequest,
    reg_aliases = [''send_slack'', ''slack_message'', ''slack_send'', ''post_slack'', ''post_message''],
    reg_intent = Some ''external_send''\<rparr>"

definition reg_communication_webhook :: registry_entry where
  "reg_communication_webhook = \<lparr>
    reg_class = ''communication.webhook'', reg_risk = Medium, reg_mode = PerRequest,
    reg_aliases = [''message'', ''call_webhook'', ''webhook'', ''trigger_webhook'', ''post_webhook'',
      ''send_notification''],
    reg_intent = Some ''external_send''\<rparr>"

definition reg_memory_read :: registry_entry where
  "reg_memory_read = \<lparr>
    reg_class = ''memory.read'', reg_risk = Low, reg_mode = HNone,
    reg_aliases = [''memory_get'', ''memory_search'', ''read_memory'', ''get_memory'', ''recall'',
      ''retrieve_memory''],
    reg_intent = None\<rparr>"

definition reg_memory_write :: registry_entry where
  "reg_memory_write = \<lparr>
    reg_class = ''memory.write'', reg_risk = Medium, reg_mode = HNone,
    reg_aliases = [''memory_set'', ''write_memory'', ''set_memory'', ''store_memory'', ''save_memory'',
      ''remember''],
    reg_intent = None\<rparr>"

definition reg_credential_read :: registry_entry where
  "reg_credential_read = \<lparr>
    reg_class = ''credential.read'', reg_risk = High, reg_mode = PerRequest,
    reg_aliases = [''read_secret'', ''get_secret'', ''get_credential'', ''retrieve_secret'',
      ''read_credential''],
    reg_intent = Some ''credential_access''\<rparr>"

definition reg_credential_write :: registry_entry where
  "reg_credential_write = \<lparr>
    reg_class = ''credential.write'', reg_risk = Critical, reg_mode = PerRequest,
    reg_aliases = [''write_secret'', ''set_secret'', ''set_credential'', ''store_secret'', ''create_secret''],
    reg_intent = Some ''credential_access''\<rparr>"

definition reg_credential_rotate :: registry_entry where
  "reg_credential_rotate = \<lparr>
    reg_class = ''credential.rotate'', reg_risk = Critical, reg_mode = PerRequest,
    reg_aliases = [''rotate_secret'', ''rotate_credential''],
    reg_intent = Some ''credential_access''\<rparr>"

definition reg_credential_list :: registry_entry where
  "reg_credential_list = \<lparr>
    reg_class = ''credential.list'', reg_risk = High, reg_mode = PerRequest,
    reg_aliases = [''list_secrets'', ''list_credentials'', ''list_credential_keys''],
    reg_intent = Some ''credential_access''\<rparr>"

definition reg_code_execute :: registry_entry where
  "reg_code_execute = \<lparr>
    reg_class = ''code.execute'', reg_risk = High, reg_mode = PerRequest,
    reg_aliases = [''code_execution'', ''run_code'', ''execute_code'', ''eval_code'', ''python'',
      ''javascript'', ''node_exec'', ''code_runner'', ''docker_run'', ''docker_exec'',
      ''docker''],
    reg_intent = None\<rparr>"

definition reg_payment_initiate :: registry_entry where
  "reg_payment_initiate = \<lparr>
    reg_class = ''payment.initiate'', reg_risk = Critical, reg_mode = PerRequest,
    reg_aliases = [''pay'', ''payment'', ''initiate_payment'', ''create_payment'', ''charge'',
      ''stripe_payment''],
    reg_intent = Some ''payment''\<rparr>"

definition reg_system_read :: registry_entry where
  "reg_system_read = \<lparr>
    reg_class = ''system.read'', reg_risk = Low, reg_mode = HNone,
    reg_aliases = [''session_status'', ''sessions_list'', ''sessions_history'', ''sessions_spawn'',
      ''sessions_send'', ''sessions_yield'', ''subagents'', ''agents_list'', ''nodes'',
      ''image'', ''cron'', ''gateway'', ''get_system_info'', ''system_info'', ''get_env_var'',
      ''get_env'', ''read_env'', ''env_var'', ''get_hostname'', ''get_platform'', ''get_arch'',
      ''get_os_info'', ''uname'', ''ps'', ''top'', ''htop'', ''df'', ''du'', ''free'',
      ''hostname'', ''uptime'', ''lsof'', ''id'', ''whoami'', ''echo'', ''printf''],
    reg_intent = None\<rparr>"

definition reg_system_service :: registry_entry where
  "reg_system_service = \<lparr>
    reg_class = ''system.service'', reg_risk = Critical, reg_mode = PerRequest,
    reg_aliases = [''systemctl'', ''service'', ''init'', ''reboot'', ''shutdown'', ''virsh'',
      ''systemctl_unit_action''],
    reg_intent = None\<rparr>"

definition reg_permissions_modify :: registry_entry where
  "reg_permissions_modify = \<lparr>
    reg_class = ''permissions.modify'', reg_risk = High, reg_mode = PerRequest,
    reg_aliases = [''chmod'', ''chown'', ''chgrp'', ''umask'', ''chmod_path'', ''chown_path''],
    reg_intent = None\<rparr>"

definition reg_permissions_elevate :: registry_entry where
  "reg_permissions_elevate = \<lparr>
    reg_class = ''permissions.elevate'', reg_risk = Critical, reg_mode = PerRequest,
    reg_aliases = [''sudo'', ''su'', ''doas'', ''passwd''],
    reg_intent = None\<rparr>"

definition reg_process_signal :: registry_entry where
  "reg_process_signal = \<lparr>
    reg_class = ''process.signal'', reg_risk = High, reg_mode = PerRequest,
    reg_aliases = [''kill'', ''pkill'', ''killall'', ''kill_process'', ''pkill_pattern''],
    reg_intent = None\<rparr>"

definition reg_network_diagnose :: registry_entry where
  "reg_network_diagnose = \<lparr>
    reg_class = ''network.diagnose'', reg_risk = Low, reg_mode = HNone,
    reg_aliases = [''ping'', ''traceroute'', ''nslookup'', ''dig'', ''netstat'', ''ss''],
    reg_intent = None\<rparr>"

definition reg_network_scan :: registry_entry where
  "reg_network_scan = \<lparr>
    reg_class = ''network.scan'', reg_risk = High, reg_mode = PerRequest,
    reg_aliases = [''nmap''],
    reg_intent = None\<rparr>"

definition reg_scheduling_persist :: registry_entry where
  "reg_scheduling_persist = \<lparr>
    reg_class = ''scheduling.persist'', reg_risk = High, reg_mode = PerRequest,
    reg_aliases = [''crontab'', ''at'', ''batch'', ''atq'', ''atrm'', ''crontab_list'',
      ''crontab_install_from_file'', ''crontab_remove''],
    reg_intent = None\<rparr>"

definition reg_network_transfer :: registry_entry where
  "reg_network_transfer = \<lparr>
    reg_class = ''network.transfer'', reg_risk = High, reg_mode = PerRequest,
    reg_aliases = [''rsync'', ''scp'', ''sftp''],
    reg_intent = Some ''data_exfiltration''\<rparr>"

definition reg_network_shell :: registry_entry where
  "reg_network_shell = \<lparr>
    reg_class = ''network.shell'', reg_risk = High, reg_mode = PerRequest,
    reg_aliases = [''ssh'', ''mosh'', ''telnet''],
    reg_intent = None\<rparr>"

definition reg_cluster_read :: registry_entry where
  "reg_cluster_read = \<lparr>
    reg_class = ''cluster.read'', reg_risk = Low, reg_mode = PerRequest,
    reg_aliases = [''kubectl_get''],
    reg_intent = None\<rparr>"

definition reg_cluster_write :: registry_entry where
  "reg_cluster_write = \<lparr>
    reg_class = ''cluster.write'', reg_risk = High, reg_mode = PerRequest,
    reg_aliases = [''kubectl'', ''kubectl_apply'', ''kubectl_delete'', ''kubectl_rollout'', ''docker_push''],
    reg_intent = None\<rparr>"

definition reg_vcs_read :: registry_entry where
  "reg_vcs_read = \<lparr>
    reg_class = ''vcs.read'', reg_risk = Low, reg_mode = HNone,
    reg_aliases = [''git_status'', ''git-status'', ''git.status'', ''show_status'', ''git_log'', ''git-log'',
      ''git.log'', ''log_commits'', ''view_history'', ''git_diff'', ''git-diff'', ''git.diff'',
      ''view_diff'', ''show_diff''],
    reg_intent = None\<rparr>"

definition reg_vcs_write :: registry_entry where
  "reg_vcs_write = \<lparr>
    reg_class = ''vcs.write'', reg_risk = Medium, reg_mode = PerRequest,
    reg_aliases = [''git_commit'', ''git-commit'', ''git.commit'', ''commit_changes'', ''git_add'',
      ''git-add'', ''git.add'', ''stage_file'', ''stage_files'', ''git_merge'', ''git-merge'',
      ''git.merge'', ''merge_branch'', ''git_checkout'', ''git-checkout'', ''git.checkout'',
      ''checkout_branch'', ''switch_branch'', ''git_branch'', ''git-branch'', ''git.branch'',
      ''create_branch'', ''git_reset'', ''git-reset'', ''git.reset'', ''reset_head'',
      ''undo_commit''],
    reg_intent = None\<rparr>"

definition reg_vcs_remote :: registry_entry where
  "reg_vcs_remote = \<lparr>
    reg_class = ''vcs.remote'', reg_risk = Medium, reg_mode = PerRequest,
    reg_aliases = [''git_clone'', ''git-clone'', ''git.clone'', ''clone_repo'', ''git_push'', ''git-push'',
      ''git.push'', ''push_commits'', ''git_pull'', ''git-pull'', ''git.pull'',
      ''pull_changes'', ''git_fetch'', ''git-fetch'', ''git.fetch'', ''fetch_remote''],
    reg_intent = None\<rparr>"

definition reg_package_install :: registry_entry where
  "reg_package_install = \<lparr>
    reg_class = ''package.install'', reg_risk = Medium, reg_mode = PerRequest,
    reg_aliases = [''install_package'', ''npm_install'', ''pip_install'', ''pip3_install'', ''yarn_add'',
      ''apt_install'', ''brew_install'', ''add_package'', ''apt'', ''apt-get'', ''yum'',
      ''dnf'', ''dpkg'', ''snap'', ''brew'', ''pacman''],
    reg_intent = None\<rparr>"

definition reg_package_run :: registry_entry where
  "reg_package_run = \<lparr>
    reg_class = ''package.run'', reg_risk = Medium, reg_mode = PerRequest,
    reg_aliases = [''npm_run_script'', ''npm_run'', ''yarn_run'', ''pnpm_run'', ''run_script'', ''make_run''],
    reg_intent = None\<rparr>"

definition reg_package_read :: registry_entry where
  "reg_package_read = \<lparr>
    reg_class = ''package.read'', reg_risk = Low, reg_mode = HNone,
    reg_aliases = [''pip_list'', ''pip3_list'', ''pip_freeze'', ''npm_list'', ''list_packages''],
    reg_intent = None\<rparr>"

definition reg_build_compile :: registry_entry where
  "reg_build_compile = \<lparr>
    reg_class = ''build.compile'', reg_risk = Medium, reg_mode = PerRequest,
    reg_aliases = [''run_compiler'', ''compile'', ''build'', ''npm_run_build'', ''make'', ''tsc'', ''javac'',
      ''gcc'', ''cargo_build'', ''go_build'', ''mvn_compile'', ''gradle_build''],
    reg_intent = None\<rparr>"

definition reg_build_test :: registry_entry where
  "reg_build_test = \<lparr>
    reg_class = ''build.test'', reg_risk = Low, reg_mode = HNone,
    reg_aliases = [''run_tests'', ''run_test'', ''npm_test'', ''npm_run_test'', ''yarn_test'', ''pytest'',
      ''jest'', ''vitest'', ''mocha'', ''go_test'', ''cargo_test'', ''mvn_test'',
      ''gradle_test''],
    reg_intent = None\<rparr>"

definition reg_build_lint :: registry_entry where
  "reg_build_lint = \<lparr>
    reg_class = ''build.lint'', reg_risk = Low, reg_mode = HNone,
    reg_aliases = [''run_linter'', ''run_formatter'', ''run_typecheck'', ''eslint'', ''prettier'',
      ''pylint'', ''flake8'', ''mypy'', ''cargo_clippy'', ''golangci_lint'', ''rubocop''],
    reg_intent = None\<rparr>"

definition reg_archive_create :: registry_entry where
  "reg_archive_create = \<lparr>
    reg_class = ''archive.create'', reg_risk = Medium, reg_mode = PerRequest,
    reg_aliases = [''archive_create'', ''create_archive'', ''tar_create'', ''tar_czf'', ''tar_compress'',
      ''zip_create'', ''create_zip'', ''compress'', ''compress_files'', ''gzip'', ''bzip2'',
      ''zstd_compress'', ''tar'', ''zip'', ''xz'', ''7z''],
    reg_intent = None\<rparr>"

definition reg_archive_extract :: registry_entry where
  "reg_archive_extract = \<lparr>
    reg_class = ''archive.extract'', reg_risk = Medium, reg_mode = PerRequest,
    reg_aliases = [''archive_extract'', ''extract_archive'', ''unarchive'', ''tar_extract'', ''tar_xzf'',
      ''tar_decompress'', ''unzip'', ''gunzip'', ''bunzip2'', ''decompress'', ''extract_files'',
      ''zstd_decompress'', ''unxz''],
    reg_intent = None\<rparr>"

definition reg_archive_read :: registry_entry where
  "reg_archive_read = \<lparr>
    reg_class = ''archive.read'', reg_risk = Low, reg_mode = HNone,
    reg_aliases = [''archive_list'', ''archive_read'', ''list_archive'', ''read_archive'', ''tar_list'',
      ''tar_tf'', ''zip_list'', ''list_zip'', ''inspect_archive'', ''peek_archive''],
    reg_intent = None\<rparr>"

definition reg_unknown_sensitive_action :: registry_entry where
  "reg_unknown_sensitive_action = \<lparr>
    reg_class = ''unknown_sensitive_action'', reg_risk = Critical, reg_mode = PerRequest,
    reg_aliases = [],
    reg_intent = None\<rparr>"

definition REGISTRY :: "registry_entry list" where
  "REGISTRY = [
    reg_filesystem_read, reg_filesystem_write, reg_filesystem_delete, reg_filesystem_list,
    reg_web_search, reg_web_fetch, reg_browser_scrape, reg_web_post, reg_shell_exec,
    reg_communication_email, reg_communication_slack, reg_communication_webhook,
    reg_memory_read, reg_memory_write, reg_credential_read, reg_credential_write,
    reg_credential_rotate, reg_credential_list, reg_code_execute, reg_payment_initiate,
    reg_system_read, reg_system_service, reg_permissions_modify, reg_permissions_elevate,
    reg_process_signal, reg_network_diagnose, reg_network_scan, reg_scheduling_persist,
    reg_network_transfer, reg_network_shell, reg_cluster_read, reg_cluster_write, reg_vcs_read,
    reg_vcs_write, reg_vcs_remote, reg_package_install, reg_package_run, reg_package_read,
    reg_build_compile, reg_build_test, reg_build_lint, reg_archive_create, reg_archive_extract,
    reg_archive_read, reg_unknown_sensitive_action]"

text \<open>The aliases of each entry, without unfolding the entry itself.\<close>

lemmas reg_alias_eqs =
  arg_cong [OF reg_filesystem_read_def, of reg_aliases, unfolded registry_entry.select_convs]
  arg_cong [OF reg_filesystem_write_def, of reg_aliases, unfolded registry_entry.select_convs]
  arg_cong [OF reg_filesystem_delete_def, of reg_aliases, unfolded registry_entry.select_convs]
  arg_cong [OF reg_filesystem_list_def, of reg_aliases, unfolded registry_entry.select_convs]
  arg_cong [OF reg_web_search_def, of reg_aliases, unfolded registry_entry.select_convs]
  arg_cong [OF reg_web_fetch_def, of reg_aliases, unfolded registry_entry.select_convs]
  arg_cong [OF reg_browser_scrape_def, of reg_aliases, unfolded registry_entry.select_convs]
  arg_cong [OF reg_web_post_def, of reg_aliases, unfolded registry_entry.select_convs]
  arg_cong [OF reg_shell_exec_def, of reg_aliases, unfolded registry_entry.select_convs]
  arg_cong [OF reg_communication_email_def, of reg_aliases, unfolded registry_entry.select_convs]
  arg_cong [OF reg_communication_slack_def, of reg_aliases, unfolded registry_entry.select_convs]
  arg_cong [OF reg_communication_webhook_def, of reg_aliases, unfolded registry_entry.select_convs]
  arg_cong [OF reg_memory_read_def, of reg_aliases, unfolded registry_entry.select_convs]
  arg_cong [OF reg_memory_write_def, of reg_aliases, unfolded registry_entry.select_convs]
  arg_cong [OF reg_credential_read_def, of reg_aliases, unfolded registry_entry.select_convs]
  arg_cong [OF reg_credential_write_def, of reg_aliases, unfolded registry_entry.select_convs]
  arg_cong [OF reg_credential_rotate_def, of reg_aliases, unfolded registry_entry.select_convs]
  arg_cong [OF reg_credential_list_def, of reg_aliases, unfolded registry_entry.select_convs]
  arg_cong [OF reg_code_execute_def, of reg_aliases, unfolded registry_entry.select_convs]
  arg_cong [OF reg_payment_initiate_def, of reg_aliases, unfolded registry_entry.select_convs]
  arg_cong [OF reg_system_read_def, of reg_aliases, unfolded registry_entry.select_convs]
  arg_cong [OF reg_system_service_def, of reg_aliases, unfolded registry_entry.select_convs]
  arg_cong [OF reg_permissions_modify_def, of reg_aliases, unfolded registry_entry.select_convs]
  arg_cong [OF reg_permissions_elevate_def, of reg_aliases, unfolded registry_entry.select_convs]
  arg_cong [OF reg_process_signal_def, of reg_aliases, unfolded registry_entry.select_convs]
  arg_cong [OF reg_network_diagnose_def, of reg_aliases, unfolded registry_entry.select_convs]
  arg_cong [OF reg_network_scan_def, of reg_aliases, unfolded registry_entry.select_convs]
  arg_cong [OF reg_scheduling_persist_def, of reg_aliases, unfolded registry_entry.select_convs]
  arg_cong [OF reg_network_transfer_def, of reg_aliases, unfolded registry_entry.select_convs]
  arg_cong [OF reg_network_shell_def, of reg_aliases, unfolded registry_entry.select_convs]
  arg_cong [OF reg_cluster_read_def, of reg_aliases, unfolded registry_entry.select_convs]
  arg_cong [OF reg_cluster_write_def, of reg_aliases, unfolded registry_entry.select_convs]
  arg_cong [OF reg_vcs_read_def, of reg_aliases, unfolded registry_entry.select_convs]
  arg_cong [OF reg_vcs_write_def, of reg_aliases, unfolded registry_entry.select_convs]
  arg_cong [OF reg_vcs_remote_def, of reg_aliases, unfolded registry_entry.select_convs]
  arg_cong [OF reg_package_install_def, of reg_aliases, unfolded registry_entry.select_convs]
  arg_cong [OF reg_package_run_def, of reg_aliases, unfolded registry_entry.select_convs]
  arg_cong [OF reg_package_read_def, of reg_aliases, unfolded registry_entry.select_convs]
  arg_cong [OF reg_build_compile_def, of reg_aliases, unfolded registry_entry.select_convs]
  arg_cong [OF reg_build_test_def, of reg_aliases, unfolded registry_entry.select_convs]
  arg_cong [OF reg_build_lint_def, of reg_aliases, unfolded registry_entry.select_convs]
  arg_cong [OF reg_archive_create_def, of reg_aliases, unfolded registry_entry.select_convs]
  arg_cong [OF reg_archive_extract_def, of reg_aliases, unfolded registry_entry.select_convs]
  arg_cong [OF reg_archive_read_def, of reg_aliases, unfolded registry_entry.select_convs]
  arg_cong [OF reg_unknown_sensitive_action_def, of reg_aliases, unfolded registry_entry.select_convs]

lemmas reg_class_eqs =
  arg_cong [OF reg_filesystem_read_def, of reg_class, unfolded registry_entry.select_convs]
  arg_cong [OF reg_filesystem_write_def, of reg_class, unfolded registry_entry.select_convs]
  arg_cong [OF reg_filesystem_delete_def, of reg_class, unfolded registry_entry.select_convs]
  arg_cong [OF reg_filesystem_list_def, of reg_class, unfolded registry_entry.select_convs]
  arg_cong [OF reg_web_search_def, of reg_class, unfolded registry_entry.select_convs]
  arg_cong [OF reg_web_fetch_def, of reg_class, unfolded registry_entry.select_convs]
  arg_cong [OF reg_browser_scrape_def, of reg_class, unfolded registry_entry.select_convs]
  arg_cong [OF reg_web_post_def, of reg_class, unfolded registry_entry.select_convs]
  arg_cong [OF reg_shell_exec_def, of reg_class, unfolded registry_entry.select_convs]
  arg_cong [OF reg_communication_email_def, of reg_class, unfolded registry_entry.select_convs]
  arg_cong [OF reg_communication_slack_def, of reg_class, unfolded registry_entry.select_convs]
  arg_cong [OF reg_communication_webhook_def, of reg_class, unfolded registry_entry.select_convs]
  arg_cong [OF reg_memory_read_def, of reg_class, unfolded registry_entry.select_convs]
  arg_cong [OF reg_memory_write_def, of reg_class, unfolded registry_entry.select_convs]
  arg_cong [OF reg_credential_read_def, of reg_class, unfolded registry_entry.select_convs]
  arg_cong [OF reg_credential_write_def, of reg_class, unfolded registry_entry.select_convs]
  arg_cong [OF reg_credential_rotate_def, of reg_class, unfolded registry_entry.select_convs]
  arg_cong [OF reg_credential_list_def, of reg_class, unfolded registry_entry.select_convs]
  arg_cong [OF reg_code_execute_def, of reg_class, unfolded registry_entry.select_convs]
  arg_cong [OF reg_payment_initiate_def, of reg_class, unfolded registry_entry.select_convs]
  arg_cong [OF reg_system_read_def, of reg_class, unfolded registry_entry.select_convs]
  arg_cong [OF reg_system_service_def, of reg_class, unfolded registry_entry.select_convs]
  arg_cong [OF reg_permissions_modify_def, of reg_class, unfolded registry_entry.select_convs]
  arg_cong [OF reg_permissions_elevate_def, of reg_class, unfolded registry_entry.select_convs]
  arg_cong [OF reg_process_signal_def, of reg_class, unfolded registry_entry.select_convs]
  arg_cong [OF reg_network_diagnose_def, of reg_class, unfolded registry_entry.select_convs]
  arg_cong [OF reg_network_scan_def, of reg_class, unfolded registry_entry.select_convs]
  arg_cong [OF reg_scheduling_persist_def, of reg_class, unfolded registry_entry.select_convs]
  arg_cong [OF reg_network_transfer_def, of reg_class, unfolded registry_entry.select_convs]
  arg_cong [OF reg_network_shell_def, of reg_class, unfolded registry_entry.select_convs]
  arg_cong [OF reg_cluster_read_def, of reg_class, unfolded registry_entry.select_convs]
  arg_cong [OF reg_cluster_write_def, of reg_class, unfolded registry_entry.select_convs]
  arg_cong [OF reg_vcs_read_def, of reg_class, unfolded registry_entry.select_convs]
  arg_cong [OF reg_vcs_write_def, of reg_class, unfolded registry_entry.select_convs]
  arg_cong [OF reg_vcs_remote_def, of reg_class, unfolded registry_entry.select_convs]
  arg_cong [OF reg_package_install_def, of reg_class, unfolded registry_entry.select_convs]
  arg_cong [OF reg_package_run_def, of reg_class, unfolded registry_entry.select_convs]
  arg_cong [OF reg_package_read_def, of reg_class, unfolded registry_entry.select_convs]
  arg_cong [OF reg_build_compile_def, of reg_class, unfolded registry_entry.select_convs]
  arg_cong [OF reg_build_test_def, of reg_class, unfolded registry_entry.select_convs]
  arg_cong [OF reg_build_lint_def, of reg_class, unfolded registry_entry.select_convs]
  arg_cong [OF reg_archive_create_def, of reg_class, unfolded registry_entry.select_convs]
  arg_cong [OF reg_archive_extract_def, of reg_class, unfolded registry_entry.select_convs]
  arg_cong [OF reg_archive_read_def, of reg_class, unfolded registry_entry.select_convs]
  arg_cong [OF reg_unknown_sensitive_action_def, of reg_class, unfolded registry_entry.select_convs]

lemmas reg_entry_defs =
  reg_filesystem_read_def
  reg_filesystem_write_def
  reg_filesystem_delete_def
  reg_filesystem_list_def
  reg_web_search_def
  reg_web_fetch_def
  reg_browser_scrape_def
  reg_web_post_def
  reg_shell_exec_def
  reg_communication_email_def
  reg_communication_slack_def
  reg_communication_webhook_def
  reg_memory_read_def
  reg_memory_write_def
  reg_credential_read_def
  reg_credential_write_def
  reg_credential_rotate_def
  reg_credential_list_def
  reg_code_execute_def
  reg_payment_initiate_def
  reg_system_read_def
  reg_system_service_def
  reg_permissions_modify_def
  reg_permissions_elevate_def
  reg_process_signal_def
  reg_network_diagnose_def
  reg_network_scan_def
  reg_scheduling_persist_def
  reg_network_transfer_def
  reg_network_shell_def
  reg_cluster_read_def
  reg_cluster_write_def
  reg_vcs_read_def
  reg_vcs_write_def
  reg_vcs_remote_def
  reg_package_install_def
  reg_package_run_def
  reg_package_read_def
  reg_build_compile_def
  reg_build_test_def
  reg_build_lint_def
  reg_archive_create_def
  reg_archive_extract_def
  reg_archive_read_def
  reg_unknown_sensitive_action_def

end
