(* ===== verification/Normalize.thy ===== *)
theory Normalize
  imports Registry JsRegex Json
begin

text \<open>
  Action normalisation, \<open>src/enforcement/normalize.ts\<close>: from a tool name and its parameters to an
  action class, a risk, an approval mode and a target. The alias index is built by inserting the
  registry's aliases one by one, as the module does at load time; lookups are reduced to a search
  of the registry by \<open>alias_index_lookup\<close>.
\<close>

section \<open>The alias index\<close>

definition ALIAS_INDEX :: "(string, registry_entry) jsmap" where
  "ALIAS_INDEX =
     fold (\<lambda>entry m. fold (\<lambda>alias m. AList.update alias entry m) (reg_aliases entry) m) REGISTRY []"

definition UNKNOWN_ENTRY :: registry_entry where
  "UNKNOWN_ENTRY = last REGISTRY"

definition getRegistryEntry :: "string \<Rightarrow> registry_entry" where
  "getRegistryEntry toolName =
     (case map_of ALIAS_INDEX (js_lower toolName) of Some e \<Rightarrow> e | None \<Rightarrow> UNKNOWN_ENTRY)"

definition normalizeActionClass :: "string \<Rightarrow> string" where
  "normalizeActionClass toolName = reg_class (getRegistryEntry toolName)"

section \<open>Shell metacharacters\<close>

definition SHELL_METACHAR_RE :: rx where
  "SHELL_METACHAR_RE = RClass (cls (CHR 0x5C # ('';|&><`$()[]'' @ [CHR 0x7B, CHR 0x7D])))"

definition containsShellMetachars :: "string \<Rightarrow> bool" where
  "containsShellMetachars v = rx_test SHELL_METACHAR_RE v"

definition hasShellMetacharsInParams :: "(string \<times> json) list \<Rightarrow> bool" where
  "hasShellMetacharsInParams params =
     list_ex (\<lambda>val. case val of JStr s \<Rightarrow> containsShellMetachars s | _ \<Rightarrow> False) (map snd params)"

section \<open>Target extraction\<close>

definition TARGET_PARAM_KEYS :: "string list" where
  "TARGET_PARAM_KEYS = [''command'', ''cmd'', ''script'', ''file_path'', ''path'', ''file'', ''repo_url'',
     ''package_name'', ''query'', ''input'', ''args'', ''url'', ''destination'', ''to'', ''recipient'', ''email'']"

definition TARGET_KEYS_BY_CLASS :: "(string \<times> string list) list" where
  "TARGET_KEYS_BY_CLASS = [
     (''filesystem.read'', [''file_path'', ''path'', ''file'']),
     (''filesystem.write'', [''file_path'', ''path'', ''file'', ''destination'', ''url'', ''to'', ''recipient'', ''email'']),
     (''filesystem.delete'', [''file_path'', ''path'', ''file'']),
     (''filesystem.list'', [''file_path'', ''path'', ''file'']),
     (''system.read'', [''variable_name'', ''name'', ''key'']),
     (''vcs.read'', [''path'', ''file_path'', ''branch'', ''ref'', ''revision'']),
     (''vcs.write'', [''path'', ''file_path'', ''working_dir'']),
     (''vcs.remote'', [''repo_url'', ''url'', ''remote_url'', ''remote'']),
     (''package.install'', [''package_name'', ''package'', ''name'']),
     (''package.run'', [''script'', ''script_name'', ''name'', ''package_name'']),
     (''package.read'', [''package_name'', ''package'', ''name'']),
     (''build.compile'', [''target'', ''path'', ''file_path'', ''working_dir'']),
     (''build.test'', [''target'', ''path'', ''working_dir'']),
     (''build.lint'', [''target'', ''path'', ''file_path'', ''working_dir'']),
     (''archive.create'', [''output_path'', ''destination'', ''archive_path'', ''path'', ''file_path'']),
     (''archive.extract'', [''destination'', ''output_dir'', ''archive_path'', ''path'', ''file_path'']),
     (''archive.read'', [''archive_path'', ''path'', ''file_path'']),
     (''shell.exec'', [''command'', ''cmd'', ''script'']),
     (''code.execute'', [''code'', ''script'', ''command''])]"

fun first_param :: "string list \<Rightarrow> (string \<times> json) list \<Rightarrow> string" where
  "first_param [] params = ''''"
| "first_param (key # keys) params =
     (case map_of params key of
        Some (JStr v) \<Rightarrow> if v \<noteq> '''' then v else first_param keys params
      | _ \<Rightarrow> first_param keys params)"

definition extractTarget :: "string \<Rightarrow> (string \<times> json) list \<Rightarrow> string" where
  "extractTarget actionClass params =
     (let keys = (case map_of TARGET_KEYS_BY_CLASS actionClass of Some ks \<Rightarrow> ks | None \<Rightarrow> TARGET_PARAM_KEYS)
      in first_param keys params)"

section \<open>Telemetry prefix\<close>

text \<open>The four redactions of \<open>sanitizeCommandPrefix\<close>, in order, then the first 40 code units.\<close>

definition rx_space :: rx where
  "rx_space = RClass js_space"

definition rx_nonspace :: rx where
  "rx_nonspace = RClass (\<lambda>c. \<not> js_space c)"

definition rx_upper_num :: rx where
  "rx_upper_num = RClass (\<lambda>c. is_upper c \<or> is_digit c \<or> c = CHR ''_'')"

definition rx_dollar_open :: rx where
  "rx_dollar_open = RSeq (rx_chr (CHR ''$'')) (rx_opt (rx_chr (CHR 0x7B)))"

definition rx_env_prefix :: rx where
  "rx_env_prefix = rx_seq [rx_dollar_open,
     rx_alt (map rx_lit [''AWS'', ''GCP'', ''GOOGLE'', ''AZURE'', ''GITHUB'', ''GITLAB'', ''STRIPE'', ''OPENAI'',
       ''ANTHROPIC'', ''HEROKU'', ''TWILIO'', ''SENDGRID'', ''SLACK'', ''DISCORD'', ''TELEGRAM'', ''NPM'',
       ''DOCKER'', ''KUBE'', ''VAULT'', ''CIRCLECI'', ''TRAVIS'', ''DATADOG'']),
     rx_chr (CHR ''_''), rx_plus rx_upper_num, rx_opt (rx_chr (CHR 0x7D))]"

definition rx_env_suffix :: rx where
  "rx_env_suffix = rx_seq [rx_dollar_open, RClass is_upper, RStar rx_upper_num, rx_chr (CHR ''_''),
     rx_alt (map rx_lit [''TOKEN'', ''KEY'', ''SECRET'', ''PASSWORD'', ''PASS'', ''CREDENTIAL'', ''CREDENTIALS'']),
     rx_opt (rx_chr (CHR 0x7D))]"

definition rx_assign_tail :: rx where
  "rx_assign_tail = rx_seq [RClass (cls ''=:''), RStar rx_space, rx_plus rx_nonspace]"

definition rx_assignment :: rx where
  "rx_assignment = rx_seq [RWordB,
     rx_alt [rx_lit_ci ''token'', rx_lit_ci ''key'', rx_lit_ci ''secret'', rx_lit_ci ''password'',
       rx_lit_ci ''passwd'', rx_lit_ci ''pass'',
       rx_seq [rx_lit_ci ''api'', rx_opt (rx_chr (CHR ''_'')), rx_lit_ci ''key''],
       rx_seq [rx_lit_ci ''auth'', rx_opt (RSeq (rx_opt (rx_chr (CHR ''_''))) (rx_lit_ci ''token''))],
       rx_lit_ci ''credential''],
     RStar rx_space, rx_assign_tail]"

definition rx_bearer :: rx where
  "rx_bearer = rx_seq [RWordB, rx_lit_ci ''Bearer'', rx_plus rx_space, rx_plus rx_nonspace]"

definition sanitizeCommandPrefix :: "string \<Rightarrow> string" where
  "sanitizeCommandPrefix cmd =
     (let s1 = rx_replace_all rx_env_prefix (\<lambda>_. ''[REDACTED]'') cmd;
          s2 = rx_replace_all rx_env_suffix (\<lambda>_. ''[REDACTED]'') s1;
          s3 = rx_replace_all rx_assignment
                 (\<lambda>m. rx_replace_first (RSeq rx_assign_tail REol) (\<lambda>_. ''=[REDACTED]'') m) s2;
          s4 = rx_replace_all rx_bearer (\<lambda>_. ''Bearer [REDACTED]'') s3
      in take 40 s4)"

section \<open>Normalisation\<close>

record normalized_action =
  na_class :: string
  na_risk :: risk_level
  na_mode :: hitl_mode
  na_target :: string
  na_intent :: "string option"

definition normalize_action :: "string \<Rightarrow> (string \<times> json) list \<Rightarrow> normalized_action" where
  "normalize_action toolName params =
     (let entry = getRegistryEntry toolName;
          action_class = reg_class entry;
          risk = reg_risk entry;
          target = extractTarget (reg_class entry) params;
          (action_class, risk) =
            (if action_class = ''filesystem.write''
                \<and> (starts_with target ''http://'' \<or> starts_with target ''https://'')
             then (let webPostEntry = (case map_of ALIAS_INDEX ''http_post'' of
                                         Some e \<Rightarrow> e | None \<Rightarrow> UNKNOWN_ENTRY)
                   in (reg_class webPostEntry, reg_risk webPostEntry))
             else (action_class, risk));
          (action_class, risk) =
            (if action_class = ''filesystem.write'' \<and> js_includes target ''@''
             then (''communication.external.send'', High)
             else (action_class, risk));
          risk = (if hasShellMetacharsInParams params then Critical else risk)
      in \<lparr>na_class = action_class, na_risk = risk, na_mode = reg_mode entry,
          na_target = target, na_intent = reg_intent entry\<rparr>)"

section \<open>Facts about the index\<close>

lemma lookup_insert_aliases:
  "map_of (fold (\<lambda>alias m. AList.update alias e m) as m) k = (if k \<in> set as then Some e else map_of m k)"
  by (induction as arbitrary: m) (auto simp: js.get_set)

lemma lookup_insert_entries:
  "map_of (fold (\<lambda>entry m. fold (\<lambda>alias m. AList.update alias entry m) (reg_aliases entry) m) es m) k
   = (case List.find (\<lambda>e. k \<in> set (reg_aliases e)) (rev es) of Some e \<Rightarrow> Some e | None \<Rightarrow> map_of m k)"
proof (induction es rule: rev_induct)
  case (snoc e es)
  then show ?case by (simp add: lookup_insert_aliases)
qed simp

text \<open>The last entry that lists an alias is the one the index returns.\<close>

lemma alias_index_lookup:
  "map_of ALIAS_INDEX k = List.find (\<lambda>e. k \<in> set (reg_aliases e)) (rev REGISTRY)"
  by (simp add: ALIAS_INDEX_def lookup_insert_entries split: option.splits)

lemma getRegistryEntry_mem: "getRegistryEntry n \<in> set REGISTRY"
proof (cases "map_of ALIAS_INDEX (js_lower n)")
  case None
  then show ?thesis by (simp add: getRegistryEntry_def UNKNOWN_ENTRY_def REGISTRY_def)
next
  case (Some e)
  then show ?thesis
    by (auto simp: getRegistryEntry_def alias_index_lookup dest!: find_Some_mem)
qed

lemma getRegistryEntry_lower: "getRegistryEntry (js_lower n) = getRegistryEntry n"
  by (simp add: getRegistryEntry_def)

end
