(* ===== verification/Pipeline.thy ===== *)
theory Pipeline
  imports Approval Normalize PolicyEngine
begin

text \<open>
  The two-stage pipeline: \<open>src/enforcement/pipeline.ts\<close>, the capability gate
  \<open>src/enforcement/stage1-capability.ts\<close>, the context builder \<open>src/enforcement/build-context.ts\<close>,
  the hashes of \<open>src/envelope.ts\<close> and the decision types of \<open>src/enforcement/decision.ts\<close>.

  A stage is an asynchronous function of the context that may reject; it is an \<open>eff\<close> over the
  state it works on. The listener of the emitter is one too, since a throwing listener throws out
  of \<open>emit\<close>. \<open>Date.now()\<close>, SHA-256 and \<open>localeCompare\<close> are parameters; the wall-clock latency of a
  result is not modelled.
\<close>

section \<open>Contexts and decisions\<close>

record pipeline_context =
  px_action_class :: string
  px_target :: string
  px_payload_hash :: string
  px_approval_id :: "string option"
  px_session_id :: "string option"
  px_hitl_mode :: hitl_mode
  px_rule_context :: rule_context
  px_sourceTrustLevel :: "string option"
  px_source :: "string option"
  px_risk :: "risk_level option"
  px_intent_group :: "string option"

record cee_decision =
  ce_effect :: effect
  ce_reason :: string
  ce_stage :: "string option"
  ce_priority :: "int option"
  ce_rule :: "string option"

definition cee :: "effect \<Rightarrow> string \<Rightarrow> string \<Rightarrow> cee_decision" where
  "cee e reason stage =
     \<lparr>ce_effect = e, ce_reason = reason, ce_stage = Some stage, ce_priority = None, ce_rule = None\<rparr>"

type_synonym 's stage = "pipeline_context \<Rightarrow> ('s, cee_decision) eff"

text \<open>The test \<open>!s\<close> of an optional string.\<close>

fun falsy_str :: "string option \<Rightarrow> bool" where
  "falsy_str None = True"
| "falsy_str (Some s) = (s = '''')"

section \<open>The orchestrator\<close>

record process_env =
  env_force_active :: "string option"
  env_npm_lifecycle_event :: "string option"

definition isInstallPhase :: "process_env \<Rightarrow> bool" where
  "isInstallPhase env =
     (if env_force_active env = Some ''1'' then False
      else or_else (env_npm_lifecycle_event env) '''' \<in> {''install'', ''preinstall'', ''postinstall'', ''prepare''})"

text \<open>\<open>finish\<close>: emit the execution event, then return the decision.\<close>

definition finish :: "(cee_decision \<Rightarrow> ('s, unit) eff) \<Rightarrow> cee_decision \<Rightarrow> ('s, cee_decision) eff" where
  "finish emit d s = (case emit d s of (None, s') \<Rightarrow> (None, s') | (Some _, s') \<Rightarrow> (Some d, s'))"

definition pipeline_body ::
  "process_env \<Rightarrow> 's stage \<Rightarrow> 's stage \<Rightarrow> (cee_decision \<Rightarrow> ('s, unit) eff) \<Rightarrow> 's stage" where
  "pipeline_body env stage1 stage2 emit ctx s =
     (if isInstallPhase env
      then finish emit (cee Permit ''install_phase_bypass'' ''pipeline'') s
      else if px_hitl_mode ctx \<noteq> HNone \<and> falsy_str (px_approval_id ctx)
      then finish emit (cee Forbid ''pending_hitl_approval'' ''hitl'') s
      else case stage1 ctx s of
        (None, s1) \<Rightarrow> (None, s1)
      | (Some d1, s1) \<Rightarrow>
          if ce_effect d1 = Forbid then finish emit d1 s1
          else (case stage2 ctx s1 of
                  (None, s2) \<Rightarrow> (None, s2)
                | (Some d2, s2) \<Rightarrow> finish emit d2 s2))"

definition runPipeline ::
  "process_env \<Rightarrow> 's stage \<Rightarrow> 's stage \<Rightarrow> (cee_decision \<Rightarrow> ('s, unit) eff) \<Rightarrow> 's stage" where
  "runPipeline env stage1 stage2 emit ctx s =
     (case pipeline_body env stage1 stage2 emit ctx s of
        (Some d, s') \<Rightarrow> (Some d, s')
      | (None, s') \<Rightarrow> finish emit (cee Forbid ''pipeline_error'' ''pipeline'') s')"

section \<open>Stage 1\<close>

record capability =
  cap_approval_id :: string
  cap_binding :: string
  cap_action_class :: string
  cap_target :: string
  cap_session_id :: "string option"
  cap_issued_at :: int
  cap_expires_at :: int

definition determineSourceTrustLevel :: "string option \<Rightarrow> string" where
  "determineSourceTrustLevel source =
     (if source = Some ''user'' then ''user''
      else if source = Some ''agent'' \<or> source = None then ''agent''
      else ''untrusted'')"

text \<open>
  \<open>validateCapability\<close>: the seven checks in order. \<open>getCapability\<close> may throw (\<open>None\<close>), which the
  catch clause turns into a forbid; nothing else in the body can.
\<close>

definition validateCapability ::
  "(string \<Rightarrow> string) \<Rightarrow> int \<Rightarrow> manager \<Rightarrow> (string \<Rightarrow> capability option option)
     \<Rightarrow> pipeline_context \<Rightarrow> cee_decision" where
  "validateCapability sha256 now approvalManager getCapability ctx =
     (let effectiveTrustLevel = (case px_sourceTrustLevel ctx of
            Some l \<Rightarrow> l | None \<Rightarrow> determineSourceTrustLevel (px_source ctx))
      in if effectiveTrustLevel = ''untrusted''
            \<and> (px_risk ctx = Some High \<or> px_risk ctx = Some Critical)
         then (cee Forbid ''untrusted_source_high_risk'' ''stage1-trust'')
                \<lparr>ce_rule := Some (''trust:untrusted+'' @ (case px_risk ctx of Some r \<Rightarrow> risk_str r | None \<Rightarrow> ''''))\<rparr>
         else if px_hitl_mode ctx = HNone
         then cee Permit ''hitl_mode none; capability gate bypassed'' ''stage1''
         else case px_approval_id ctx of
           None \<Rightarrow> cee Forbid ''approval_id required'' ''stage1''
         | Some approval_id \<Rightarrow>
             if approval_id = '''' then cee Forbid ''approval_id required'' ''stage1''
             else (case getCapability approval_id of
                 None \<Rightarrow> cee Forbid ''stage1_error'' ''stage1''
               | Some None \<Rightarrow> cee Forbid ''capability not found'' ''stage1''
               | Some (Some capability) \<Rightarrow>
                   if now > cap_expires_at capability
                   then cee Forbid ''capability expired'' ''stage1''
                   else if computeBinding sha256 (px_action_class ctx) (px_target ctx) (px_payload_hash ctx)
                           \<noteq> cap_binding capability
                   then cee Forbid ''payload binding mismatch'' ''stage1''
                   else if isConsumed approval_id approvalManager
                   then cee Forbid ''capability already consumed'' ''stage1''
                   else if cap_session_id capability \<noteq> None \<and> cap_session_id capability \<noteq> px_session_id ctx
                   then cee Forbid ''session scope mismatch'' ''stage1''
                   else cee Permit ''capability valid'' ''stage1''))"

section \<open>Hashes and the context builder\<close>

text \<open>
  \<open>Object.keys(params).sort((a, b) => a.localeCompare(b))\<close>: a stable sort by a comparison the host
  defines, given as the parameter \<open>locale_le\<close> (is \<open>a\<close> not after \<open>b\<close>). The copied object lists its
  keys in own-property order.
\<close>

fun insort_by :: "('a \<Rightarrow> 'a \<Rightarrow> bool) \<Rightarrow> 'a \<Rightarrow> 'a list \<Rightarrow> 'a list" where
  "insort_by le x [] = [x]"
| "insort_by le x (y # ys) = (if le x y then x # y # ys else y # insort_by le x ys)"

definition sort_by :: "('a \<Rightarrow> 'a \<Rightarrow> bool) \<Rightarrow> 'a list \<Rightarrow> 'a list" where
  "sort_by le xs = foldr (insort_by le) xs []"

definition sorted_params :: "(string \<Rightarrow> string \<Rightarrow> bool) \<Rightarrow> (string \<times> json) list \<Rightarrow> (string \<times> json) list" where
  "sorted_params locale_le params =
     fold (\<lambda>k m. AList.update k (or_else (map_of params k) JUndef) m) (sort_by locale_le (map fst params)) []"

definition payload_object :: "(string \<Rightarrow> string \<Rightarrow> bool) \<Rightarrow> string \<Rightarrow> (string \<times> json) list \<Rightarrow> json" where
  "payload_object locale_le toolName params =
     JObj [(''tool'', JStr toolName), (''params'', JObj (sorted_params locale_le params))]"

definition computePayloadHash ::
  "(string \<Rightarrow> string) \<Rightarrow> (string \<Rightarrow> string \<Rightarrow> bool) \<Rightarrow> string \<Rightarrow> (string \<times> json) list \<Rightarrow> string" where
  "computePayloadHash sha256 locale_le toolName params =
     sha256 (or_else (json_stringify (payload_object locale_le toolName params)) ''undefined'')"

definition computeContextHash :: "(string \<Rightarrow> string) \<Rightarrow> string \<Rightarrow> string \<Rightarrow> string \<Rightarrow> string" where
  "computeContextHash sha256 action_class target summary =
     sha256 (action_class @ ''|'' @ target @ ''|'' @ summary)"

definition buildPipelineContext ::
  "(string \<Rightarrow> string) \<Rightarrow> (string \<Rightarrow> string \<Rightarrow> bool) \<Rightarrow> string \<Rightarrow> (string \<times> json) list option
     \<Rightarrow> rule_context \<Rightarrow> string option \<Rightarrow> pipeline_context" where
  "buildPipelineContext sha256 locale_le toolName params_opt identity approval_id =
     (let params = or_else params_opt [];
          normalized = normalize_action toolName params;
          payload_hash = computePayloadHash sha256 locale_le toolName params
      in \<lparr>px_action_class = na_class normalized, px_target = na_target normalized,
          px_payload_hash = payload_hash, px_approval_id = approval_id,
          px_session_id = ctx_sessionId identity, px_hitl_mode = na_mode normalized,
          px_rule_context = identity, px_sourceTrustLevel = None, px_source = None,
          px_risk = Some (na_risk normalized), px_intent_group = na_intent normalized\<rparr>)"

section \<open>Structured decisions\<close>

datatype structured_outcome = OPermit | OForbid | OAskUser

record capability_info =
  ci_id :: string
  ci_expiresAt :: int
  ci_scope :: "string list"

record structured_decision =
  sd_outcome :: structured_outcome
  sd_reason :: string
  sd_ruleId :: "string option"
  sd_stage :: "string option"
  sd_capability :: "capability_info option"

definition fromCeeDecision :: "cee_decision \<Rightarrow> string option \<Rightarrow> capability_info option \<Rightarrow> structured_decision" where
  "fromCeeDecision d ruleId capability =
     \<lparr>sd_outcome = (case ce_effect d of Permit \<Rightarrow> OPermit | Forbid \<Rightarrow> OForbid),
      sd_reason = ce_reason d, sd_ruleId = ruleId, sd_stage = ce_stage d,
      sd_capability = (if ce_effect d = Permit then capability else None)\<rparr>"

definition askUser :: "string \<Rightarrow> string option \<Rightarrow> structured_decision" where
  "askUser reason ruleId = \<lparr>sd_outcome = OAskUser, sd_reason = reason, sd_ruleId = ruleId,
     sd_stage = None, sd_capability = None\<rparr>"

definition forbidDecision :: "string \<Rightarrow> string option \<Rightarrow> structured_decision" where
  "forbidDecision reason stage = \<lparr>sd_outcome = OForbid, sd_reason = reason, sd_ruleId = None,
     sd_stage = stage, sd_capability = None\<rparr>"

end
