(* ===== verification/ApprovalProps.thy ===== *)
theory ApprovalProps
  imports Approval
begin

text \<open>
  The approval manager as a state machine: its operations and the host's timers as steps, the
  reachable states, and the invariants that make an approval settle exactly once, settle for the
  right reason and never be replayed.
\<close>

section \<open>Steps\<close>

datatype manager_op =
    MCreate string int approval_opts
  | MResolve string outcome "string option"
  | MCancel string
  | MBatch "string list" outcome
  | MTimer nat
  | MAddSession string string
  | MClearSession
  | MShutdown

fun run_manager :: "(string \<Rightarrow> string) \<Rightarrow> manager_op \<Rightarrow> manager \<Rightarrow> manager" where
  "run_manager sha256 (MCreate uuid now opts) s = snd (createApprovalRequest sha256 uuid now opts s)"
| "run_manager sha256 (MResolve token d b) s = snd (resolveApproval token d b s)"
| "run_manager sha256 (MCancel token) s = cancel token s"
| "run_manager sha256 (MBatch tokens d) s = snd (batchResolve tokens d s)"
| "run_manager sha256 (MTimer t) s = fire_timer t s"
| "run_manager sha256 (MAddSession c a) s = addSessionAutoApproval c a s"
| "run_manager sha256 MClearSession s = snd (clearSessionAutoApprovals s)"
| "run_manager sha256 MShutdown s = shutdown s"

inductive manager_reach :: "(string \<Rightarrow> string) \<Rightarrow> manager \<Rightarrow> bool" for sha256 where
  reach_new: "manager_reach sha256 new_manager"
| reach_step: "manager_reach sha256 s \<Longrightarrow> manager_reach sha256 (run_manager sha256 x s)"

section \<open>Reading the state after an update\<close>

lemma settle_fields [simp]:
  "am_pending (settle p d s) = am_pending s" "am_timers (settle p d s) = am_timers s"
  "am_consumed (settle p d s) = am_consumed s" "am_session (settle p d s) = am_session s"
  "am_next (settle p d s) = am_next s"
  by (simp_all add: settle_def split: option.split)

lemma settle_get [simp]:
  "map_of (am_settled (settle p d s)) q
     = (if q = p \<and> map_of (am_settled s) p = None then Some d else map_of (am_settled s) q)"
  by (auto simp: settle_def map_laws split: option.split)

lemma settle_keeps [simp]:
  "map_of (am_settled s) p = Some d \<Longrightarrow> map_of (am_settled (settle q d' s)) p = Some d"
  by auto

lemma clearTimeout_fields [simp]:
  "am_pending (clearTimeout t s) = am_pending s" "am_settled (clearTimeout t s) = am_settled s"
  "am_consumed (clearTimeout t s) = am_consumed s" "am_session (clearTimeout t s) = am_session s"
  "am_next (clearTimeout t s) = am_next s"
  "map_of (am_timers (clearTimeout t s)) u = (if u = t then None else map_of (am_timers s) u)"
  by (simp_all add: clearTimeout_def map_laws)

lemma close_request_fields [simp]:
  "map_of (am_pending (close_request token e d s)) k = (if k = token then None else map_of (am_pending s) k)"
  "map_of (am_timers (close_request token e d s)) u = (if u = pa_timer e then None else map_of (am_timers s) u)"
  "am_consumed (close_request token e d s) = insert token (am_consumed s)"
  "am_next (close_request token e d s) = am_next s"
  "map_of (am_settled (close_request token e d s)) q
     = (if q = pa_resolve e \<and> map_of (am_settled s) q = None then Some d else map_of (am_settled s) q)"
  by (auto simp: close_request_def map_laws)

section \<open>No approval waits for ever\<close>

text \<open>
  Promises and timers are numbered by their request. Every timer and every pending entry belongs to
  a request made before; the promise of a request is settled or its timer is armed.
\<close>

definition wait_inv :: "manager \<Rightarrow> bool" where
  "wait_inv s \<longleftrightarrow>
     (\<forall>t tm. map_of (am_timers s) t = Some tm \<longrightarrow> tm_promise tm = t \<and> t < am_next s)
     \<and> (\<forall>k e. map_of (am_pending s) k = Some e \<longrightarrow> pa_token e = k \<and> pa_timer e = pa_resolve e \<and> pa_resolve e < am_next s)
     \<and> (\<forall>p<am_next s. map_of (am_settled s) p \<noteq> None \<or> map_of (am_timers s) p \<noteq> None)
     \<and> (\<forall>p d. map_of (am_settled s) p = Some d \<longrightarrow> p < am_next s)
     \<and> distinct_keys (am_pending s)"

lemma wait_new: "wait_inv new_manager"
  by (simp add: wait_inv_def new_manager_def)

lemma wait_create: "wait_inv s \<Longrightarrow> wait_inv (snd (createApprovalRequest sha256 uuid now opts s))"
  by (auto simp: wait_inv_def createApprovalRequest_def Let_def map_laws distinct_update less_Suc_eq
      dest: less_imp_neq)

lemma pending_close_distinct:
  "distinct_keys (am_pending s) \<Longrightarrow> distinct_keys (am_pending (close_request token e d s))"
  by (simp add: close_request_def distinct_delete)

lemma wait_close:
  assumes "wait_inv s" and "map_of (am_pending s) token = Some e"
  shows "wait_inv (close_request token e d s)"
  using assms pending_close_distinct [of s token e d] unfolding wait_inv_def
  by (simp split: if_split_asm)

lemma wait_resolve: "wait_inv s \<Longrightarrow> wait_inv (snd (resolveApproval token d b s))"
  by (simp add: resolveApproval_def wait_close split: option.split)

lemma wait_cancel: "wait_inv s \<Longrightarrow> wait_inv (cancel token s)"
  by (simp add: cancel_def wait_close split: option.split)

lemma wait_batch: "wait_inv s \<Longrightarrow> wait_inv (snd (batchResolve tokens d s))"
proof (induction tokens arbitrary: s)
  case (Cons t ts)
  from Cons.IH [OF wait_resolve [OF Cons.prems, of t d None]] show ?case
    by (simp add: case_prod_beta)
qed simp

lemma wait_timer: "wait_inv s \<Longrightarrow> wait_inv (fire_timer t s)"
  unfolding wait_inv_def
  by (auto simp: fire_timer_def map_laws distinct_delete simp del: map_of_eq_Some_iff split: option.splits if_splits)

text \<open>\<open>shutdown\<close> settles and disarms entry by entry; the entries themselves are read from the start.\<close>

definition timers_inv :: "manager \<Rightarrow> bool" where
  "timers_inv s \<longleftrightarrow>
     (\<forall>t tm. map_of (am_timers s) t = Some tm \<longrightarrow> tm_promise tm = t \<and> t < am_next s)
     \<and> (\<forall>p<am_next s. map_of (am_settled s) p \<noteq> None \<or> map_of (am_timers s) p \<noteq> None)
     \<and> (\<forall>p d. map_of (am_settled s) p = Some d \<longrightarrow> p < am_next s)"

lemma timers_shutdown:
  "timers_inv s \<Longrightarrow> \<forall>e\<in>set es. pa_timer e = pa_resolve e \<and> pa_resolve e < am_next s \<Longrightarrow>
   timers_inv (fold expire_entry es s)"
proof (induction es arbitrary: s)
  case (Cons e es)
  have "timers_inv (expire_entry e s)"
    using Cons.prems unfolding timers_inv_def by (auto simp: expire_entry_def split: if_splits)
  moreover have "am_next (expire_entry e s) = am_next s" by (simp add: expire_entry_def)
  ultimately show ?case using Cons by simp
qed simp

lemma wait_shutdown:
  assumes "wait_inv s"
  shows "wait_inv (shutdown s)"
proof -
  have "timers_inv s" using assms by (simp add: timers_inv_def wait_inv_def)
  moreover have "\<forall>e\<in>set (map snd (am_pending s)). pa_timer e = pa_resolve e \<and> pa_resolve e < am_next s"
    using assms by (auto simp: wait_inv_def)
  ultimately show ?thesis
    using timers_shutdown [of s "map snd (am_pending s)"]
    by (simp add: wait_inv_def timers_inv_def shutdown_def)
qed

lemma wait_step: "wait_inv s \<Longrightarrow> wait_inv (run_manager sha256 x s)"
proof (cases x)
  case (MAddSession c a)
  then show "wait_inv s \<Longrightarrow> ?thesis" by (simp add: addSessionAutoApproval_def wait_inv_def)
next
  case MClearSession
  then show "wait_inv s \<Longrightarrow> ?thesis" by (simp add: clearSessionAutoApprovals_def wait_inv_def)
qed (simp_all add: wait_create wait_resolve wait_cancel wait_batch wait_timer wait_shutdown)

lemma reach_wait: "manager_reach sha256 s \<Longrightarrow> wait_inv s"
  by (induction rule: manager_reach.induct) (auto intro: wait_new wait_step)

lemma expire_keeps:
  "map_of (am_settled s) p = Some d \<Longrightarrow> map_of (am_settled (fold expire_entry es s)) p = Some d"
proof (induction es arbitrary: s)
  case (Cons e es)
  have "map_of (am_settled (expire_entry e s)) p = Some d"
    using Cons.prems by (simp add: expire_entry_def del: settle_get)
  from Cons.IH [OF this] show ?case by simp
qed simp

text \<open>
  C37. No approval waits for ever and none is settled twice: in every reachable state of the manager,
  whatever tokens are reused, the promise of every request made is settled, or its timer is armed
  and firing it settles the promise as expired; and no operation changes a settled outcome.
\<close>

theorem approval_always_settles:
  assumes "manager_reach sha256 s" and "p < am_next s"
  shows "(case map_of (am_settled s) p of
      None \<Rightarrow> map_of (am_timers s) p \<noteq> None \<and> map_of (am_settled (fire_timer p s)) p = Some Expired
    | Some d \<Rightarrow> map_of (am_settled (run_manager sha256 x s)) p = Some d)"
proof -
  have inv: "wait_inv s" using assms(1) by (rule reach_wait)
  have cr: "map_of (am_settled (close_request k e d' s)) p = Some d" if "map_of (am_settled s) p = Some d" for k e d' d s
    using that by simp
  have res: "map_of (am_settled (snd (resolveApproval k d' b s))) p = Some d"
    if "map_of (am_settled s) p = Some d" for k d' b d s
    using that by (simp add: resolveApproval_def split: option.split)
  have bat: "map_of (am_settled (snd (batchResolve ks d' s))) p = Some d"
    if "map_of (am_settled s) p = Some d" for ks d' d s
    using that by (induction ks arbitrary: s) (simp_all add: res case_prod_beta)
  have exp: "map_of (am_settled (fold expire_entry es s)) p = Some d"
    if "map_of (am_settled s) p = Some d" for es d s
    using that by (rule expire_keeps)
  show ?thesis
  proof (cases "map_of (am_settled s) p")
    case None
    with inv assms(2) obtain tm where "map_of (am_timers s) p = Some tm" "tm_promise tm = p"
      unfolding wait_inv_def by fastforce
    with None show ?thesis by (simp add: fire_timer_def)
  next
    case (Some d)
    then show ?thesis
      by (cases x) (simp_all add: res bat exp createApprovalRequest_def Let_def cancel_def fire_timer_def
          addSessionAutoApproval_def clearSessionAutoApprovals_def shutdown_def del: settle_get split: option.split)
  qed
qed

definition sample_opts :: approval_opts where
  "sample_opts = \<lparr>ao_toolName = ''rm'', ao_agentId = ''a'', ao_channelId = ''c'',
     ao_policy = \<lparr>hp_name = ''p'', hp_actions = [''*''],
        hp_approval = \<lparr>ac_channel = ''slack'', ac_timeout = 60, ac_fallback = Deny\<rparr>\<rparr>,
     ao_payload_hash = None, ao_action_class = Some ''filesystem.delete'', ao_target = None,
     ao_summary = None, ao_session_id = None, ao_mode = None\<rparr>"

lemma reach_one: "manager_reach sha256 (run_manager sha256 (MCreate uuid now opts) new_manager)"
  by (intro reach_step reach_new)

theorem approval_always_settles_witness:
  "case map_of (am_settled (run_manager id (MCreate ''t1'' 0 sample_opts) new_manager)) 0 of
      None \<Rightarrow> map_of (am_timers (run_manager id (MCreate ''t1'' 0 sample_opts) new_manager)) 0 \<noteq> None
        \<and> map_of (am_settled (fire_timer 0 (run_manager id (MCreate ''t1'' 0 sample_opts) new_manager))) 0 = Some Expired
    | Some d \<Rightarrow> map_of (am_settled (run_manager id MShutdown (run_manager id (MCreate ''t1'' 0 sample_opts) new_manager))) 0 = Some d"
  by (rule approval_always_settles [OF reach_one])
     (simp add: createApprovalRequest_def new_manager_def Let_def)

section \<open>Approval only by the operator\<close>

text \<open>The entries are as \<open>createApprovalRequest\<close> made them: their binding is that of their fields.\<close>

definition bound_inv :: "(string \<Rightarrow> string) \<Rightarrow> manager \<Rightarrow> bool" where
  "bound_inv sha256 s \<longleftrightarrow> (\<forall>(k, e)\<in>set (am_pending s).
     pa_binding e = computeBinding sha256 (pa_action_class e) (pa_target e) (pa_payload_hash e))"

lemma bound_close: "bound_inv sha256 s \<Longrightarrow> bound_inv sha256 (close_request k e d s)"
  by (auto simp: bound_inv_def close_request_def dest!: delete_mem)

lemma bound_resolve: "bound_inv sha256 s \<Longrightarrow> bound_inv sha256 (snd (resolveApproval k d b s))"
  by (simp add: resolveApproval_def bound_close split: option.split)

lemma bound_batch: "bound_inv sha256 s \<Longrightarrow> bound_inv sha256 (snd (batchResolve ks d s))"
proof (induction ks arbitrary: s)
  case (Cons k ks)
  from Cons.IH [OF bound_resolve [OF Cons.prems, of k d None]] show ?case
    by (simp add: case_prod_beta)
qed simp

lemma bound_create: "bound_inv sha256 s \<Longrightarrow> bound_inv sha256 (snd (createApprovalRequest sha256 uuid now opts s))"
  by (auto simp: bound_inv_def createApprovalRequest_def Let_def dest!: update_mem)

lemma reach_bound: "manager_reach sha256 s \<Longrightarrow> bound_inv sha256 s"
proof (induction rule: manager_reach.induct)
  case (reach_step s x)
  then show ?case
  proof (cases x)
    case (MTimer t)
    with reach_step.IH show ?thesis
      by (auto simp: fire_timer_def bound_inv_def dest!: delete_mem split: option.split)
  next
    case (MCancel k)
    with reach_step.IH show ?thesis by (simp add: cancel_def bound_close split: option.split)
  next
    case MShutdown
    then show ?thesis by (simp add: shutdown_def bound_inv_def)
  next
    case (MAddSession c a)
    with reach_step.IH show ?thesis by (simp add: addSessionAutoApproval_def bound_inv_def)
  next
    case MClearSession
    with reach_step.IH show ?thesis by (simp add: clearSessionAutoApprovals_def bound_inv_def)
  qed (simp_all add: bound_create bound_resolve bound_batch)
qed (simp add: bound_inv_def new_manager_def)

lemma close_settles: "map_of (am_settled s) p = None \<Longrightarrow>
    map_of (am_settled (close_request k e d s)) p = Some d' \<Longrightarrow> p = pa_resolve e \<and> d = d'"
  by (auto split: if_splits)

lemma resolve_settles:
  assumes "map_of (am_settled s) p = None" and "map_of (am_settled (snd (resolveApproval k d b s))) p = Some d'"
  shows "\<exists>e. map_of (am_pending s) k = Some e \<and> pa_resolve e = p \<and> d = d' \<and> (b = None \<or> b = Some (pa_binding e))"
  using assms close_settles
  by (auto simp: resolveApproval_def simp del: close_request_fields split: option.splits if_splits)

lemma batch_settles:
  "map_of (am_settled s) p = None \<Longrightarrow> map_of (am_settled (snd (batchResolve ks d s))) p = Some d' \<Longrightarrow>
   \<exists>k e. k \<in> set ks \<and> map_of (am_pending s) k = Some e \<and> pa_resolve e = p \<and> d = d'"
proof (induction ks arbitrary: s)
  case (Cons k ks)
  let ?s = "snd (resolveApproval k d None s)"
  show ?case
  proof (cases "map_of (am_settled ?s) p")
    case None
    with Cons.IH [of ?s] Cons.prems(2)
    obtain k' e where k': "k' \<in> set ks" "map_of (am_pending ?s) k' = Some e" "pa_resolve e = p" "d = d'"
      by (auto simp: case_prod_beta)
    from k'(2) have "map_of (am_pending s) k' = Some e"
      by (simp add: resolveApproval_def split: option.splits if_splits)
    with k' show ?thesis by auto
  next
    case (Some d'')
    have "map_of (am_settled (snd (batchResolve ks d ?s))) p = Some d''"
    proof -
      have "map_of (am_settled s') p = Some d'' \<Longrightarrow> map_of (am_settled (snd (batchResolve ks d s'))) p = Some d''" for s'
        by (induction ks arbitrary: s') (simp_all add: case_prod_beta resolveApproval_def split: option.split)
      then show ?thesis using Some .
    qed
    with Cons.prems(2) have "d'' = d'" by (simp add: case_prod_beta)
    with resolve_settles [OF Cons.prems(1) Some] show ?thesis by auto
  qed
qed simp


definition one_request :: manager where
  "one_request = run_manager id (MCreate ''t1'' 0 sample_opts) new_manager"


section \<open>Replay\<close>

text \<open>
  A request is fresh when the token it is given is neither pending nor consumed: always so for a
  \<open>uuidv7\<close> token that repeats no earlier one, not for a reused \<open>session_id:action_class\<close> token.
\<close>

fun fresh_op :: "manager_op \<Rightarrow> manager \<Rightarrow> bool" where
  "fresh_op (MCreate uuid now opts) s =
     (let token = request_token uuid (or_else (ao_action_class opts) (ao_toolName opts)) opts
      in map_of (am_pending s) token = None \<and> token \<notin> am_consumed s)"
| "fresh_op _ s = True"

inductive fresh_steps :: "(string \<Rightarrow> string) \<Rightarrow> manager \<Rightarrow> manager \<Rightarrow> bool" for sha256 where
  fresh_refl: "fresh_steps sha256 s s"
| fresh_step: "fresh_steps sha256 s s' \<Longrightarrow> fresh_op x s' \<Longrightarrow> fresh_steps sha256 s (run_manager sha256 x s')"

definition used_dead :: "manager \<Rightarrow> bool" where
  "used_dead s \<longleftrightarrow> (\<forall>k\<in>am_consumed s. map_of (am_pending s) k = None)"

lemma close_dead: "used_dead s \<Longrightarrow> used_dead (close_request k e d s)"
  by (simp add: used_dead_def)

lemma resolve_dead: "used_dead s \<Longrightarrow> used_dead (snd (resolveApproval k d b s)) \<and> am_consumed s \<subseteq> am_consumed (snd (resolveApproval k d b s))"
  by (auto simp: resolveApproval_def close_dead split: option.split)

lemma batch_dead: "used_dead s \<Longrightarrow> used_dead (snd (batchResolve ks d s)) \<and> am_consumed s \<subseteq> am_consumed (snd (batchResolve ks d s))"
proof (induction ks arbitrary: s)
  case (Cons k ks)
  from resolve_dead [OF Cons.prems, of k d None] Cons.IH [of "snd (resolveApproval k d None s)"]
  show ?case by (auto simp: case_prod_beta)
qed simp

lemma expire_consumed: "am_consumed s \<subseteq> am_consumed (fold expire_entry es s)"
proof (induction es arbitrary: s)
  case (Cons e es)
  have "am_consumed s \<subseteq> am_consumed (expire_entry e s)" by (auto simp: expire_entry_def)
  with Cons.IH [of "expire_entry e s"] show ?case by auto
qed simp

lemma fresh_step_dead:
  assumes "used_dead s" and "fresh_op x s"
  shows "used_dead (run_manager sha256 x s) \<and> am_consumed s \<subseteq> am_consumed (run_manager sha256 x s)"
proof (cases x)
  case (MCreate uuid now opts)
  with assms show ?thesis
    by (auto simp: used_dead_def createApprovalRequest_def Let_def map_laws simp del: map_of_eq_Some_iff)
next
  case (MCancel k)
  with assms show ?thesis by (auto simp: cancel_def close_dead split: option.split)
next
  case (MTimer t)
  with assms show ?thesis by (auto simp: fire_timer_def used_dead_def map_laws split: option.split)
next
  case MShutdown
  then show ?thesis using expire_consumed by (auto simp: shutdown_def used_dead_def)
qed (use assms resolve_dead batch_dead in \<open>auto simp: addSessionAutoApproval_def clearSessionAutoApprovals_def used_dead_def\<close>)

lemma fresh_steps_dead:
  "fresh_steps sha256 s s' \<Longrightarrow> used_dead s \<Longrightarrow> used_dead s' \<and> am_consumed s \<subseteq> am_consumed s'"
proof (induction rule: fresh_steps.induct)
  case (fresh_step s s' x)
  with fresh_step_dead [of s' x sha256] show ?case by blast
qed simp

text \<open>
  An approval token is used once: as long as new requests draw fresh tokens, a token that
  \<open>resolveApproval\<close> has resolved is reported consumed in every later state and can never be resolved
  again, whatever the operations in between.
\<close>

theorem token_resolved_once:
  assumes "fresh_steps sha256 new_manager s" and "fst (resolveApproval token d b s)"
    and "fresh_steps sha256 (snd (resolveApproval token d b s)) s'"
  shows "isConsumed token s' \<and> resolveApproval token d' b' s' = (False, s')"
proof -
  have "used_dead new_manager" by (simp add: used_dead_def new_manager_def)
  with fresh_steps_dead [OF assms(1)] have "used_dead s" by blast
  with resolve_dead have dead: "used_dead (snd (resolveApproval token d b s))" by blast
  have "token \<in> am_consumed (snd (resolveApproval token d b s))"
    using assms(2) by (auto simp: resolveApproval_def split: option.splits if_splits)
  with fresh_steps_dead [OF assms(3) dead] have "token \<in> am_consumed s'" "used_dead s'" by blast+
  then show ?thesis by (simp add: isConsumed_def resolveApproval_def used_dead_def)
qed

theorem token_resolved_once_witness:
  "isConsumed ''t1'' (snd (resolveApproval ''t1'' Approved None one_request))
   \<and> resolveApproval ''t1'' Approved None (snd (resolveApproval ''t1'' Approved None one_request))
     = (False, snd (resolveApproval ''t1'' Approved None one_request))"
proof (rule token_resolved_once [OF _ _ fresh_refl])
  show "fresh_steps id new_manager one_request"
    unfolding one_request_def
    by (rule fresh_step [OF fresh_refl]) (simp add: new_manager_def Let_def)
  show "fst (resolveApproval ''t1'' Approved None one_request)"
    by (simp add: one_request_def createApprovalRequest_def new_manager_def Let_def resolveApproval_def
        request_token_def sample_opts_def)
qed

section \<open>The binding\<close>

lemma split_at_bar: "c \<notin> set a \<Longrightarrow> c \<notin> set a' \<Longrightarrow> a @ c # x = a' @ c # x' \<Longrightarrow> a = a' \<and> x = x'"
proof (induction a arbitrary: a')
  case Nil
  then show ?case by (cases a') auto
next
  case (Cons y a)
  then show ?case by (cases a') auto
qed

lemma split_at_bar_last: "c \<notin> set h \<Longrightarrow> c \<notin> set h' \<Longrightarrow> x @ c # h = x' @ c # h' \<Longrightarrow> x = x' \<and> h = h'"
  using split_at_bar [of c "rev h" "rev h'" "rev x" "rev x'"]
  by (metis append.assoc append_Cons append_Nil rev.simps(2) rev_append rev_is_rev_conv set_rev)

lemma binding_message_inj:
  assumes "CHR ''|'' \<notin> set a" "CHR ''|'' \<notin> set a'" "CHR ''|'' \<notin> set h" "CHR ''|'' \<notin> set h'"
    and "a @ ''|'' @ t @ ''|'' @ h = a' @ ''|'' @ t' @ ''|'' @ h'"
  shows "a = a' \<and> t = t' \<and> h = h'"
proof -
  from assms(5) have "a @ CHR ''|'' # (t @ CHR ''|'' # h) = a' @ CHR ''|'' # (t' @ CHR ''|'' # h')" by simp
  with split_at_bar [OF assms(1,2)] have "a = a'" "t @ CHR ''|'' # h = t' @ CHR ''|'' # h'" by blast+
  with split_at_bar_last [OF assms(3,4)] show ?thesis by blast
qed

end
