(* ===== verification/Adapter.thy ===== *)
theory Adapter
  imports Pipeline
begin

text \<open>
  The file authority adapter, \<open>src/adapter/file-adapter.ts\<close> with the types of
  \<open>src/adapter/types.ts\<close>: the capabilities it issues, and the watcher of the policy bundle as a state
  machine. Reading the file, the JSON parser and the TypeBox schema check are the environment: a read
  has an outcome, and \<open>check_schema\<close> is a parameter.
\<close>

section \<open>Capabilities\<close>

record issue_opts =
  io_action_class :: string
  io_target :: string
  io_payload_hash :: string
  io_session_id :: "string option"
  io_ttl_seconds :: "int option"

record adapter =
  ad_ttl :: "int option"
  ad_capabilities :: "(string, capability) jsmap"

definition DEFAULT_TTL_SECONDS :: int where
  "DEFAULT_TTL_SECONDS = 3600"

definition issueCapability ::
  "(string \<Rightarrow> string) \<Rightarrow> string \<Rightarrow> int \<Rightarrow> issue_opts \<Rightarrow> adapter \<Rightarrow> capability \<times> adapter" where
  "issueCapability sha256 approval_id now opts ad =
     (let binding = computeBinding sha256 (io_action_class opts) (io_target opts) (io_payload_hash opts);
          ttlMs = or_else (io_ttl_seconds opts) (or_else (ad_ttl ad) DEFAULT_TTL_SECONDS) * 1000;
          capability = \<lparr>cap_approval_id = approval_id, cap_binding = binding,
            cap_action_class = io_action_class opts, cap_target = io_target opts,
            cap_session_id = io_session_id opts, cap_issued_at = now, cap_expires_at = now + ttlMs\<rparr>
      in (capability, ad\<lparr>ad_capabilities := AList.update approval_id capability (ad_capabilities ad)\<rparr>))"

definition getCapability :: "adapter \<Rightarrow> string \<Rightarrow> capability option" where
  "getCapability ad i = map_of (ad_capabilities ad) i"

section \<open>The bundle watcher\<close>

text \<open>
  The outcome of one \<open>readBundle\<close>: the file is missing and the default bundle could or could not be
  written, it could not be read or parsed, or it was parsed.
\<close>

datatype read_outcome = ReadMissing bool | ReadFailed | ReadParsed json

definition DEFAULT_EMPTY_BUNDLE :: json where
  "DEFAULT_EMPTY_BUNDLE = JObj [(''version'', JNum 0), (''rules'', JArr [])]"

fun readBundle :: "(json \<Rightarrow> bool) \<Rightarrow> read_outcome \<Rightarrow> json option" where
  "readBundle check_schema (ReadMissing created) = (if created then Some DEFAULT_EMPTY_BUNDLE else None)"
| "readBundle check_schema ReadFailed = None"
| "readBundle check_schema (ReadParsed raw) = (if check_schema raw then Some raw else None)"

fun bundle_version :: "json \<Rightarrow> int" where
  "bundle_version (JObj kvs) = (case map_of kvs ''version'' of Some (JNum v) \<Rightarrow> v | _ \<Rightarrow> 0)"
| "bundle_version _ = 0"

text \<open>
  \<open>currentVersion\<close>, \<open>stopped\<close>, whether the debounce timer is armed, the reads in flight, and the
  bundles passed to \<open>onUpdate\<close>.
\<close>

record watch_state =
  w_version :: int
  w_stopped :: bool
  w_timer :: bool
  w_reads :: nat
  w_updates :: "json list"

definition watch_start :: "(json \<Rightarrow> bool) \<Rightarrow> read_outcome \<Rightarrow> watch_state" where
  "watch_start check_schema r =
     (case readBundle check_schema r of
        Some initial \<Rightarrow> \<lparr>w_version = bundle_version initial, w_stopped = False, w_timer = False,
                         w_reads = 0, w_updates = [initial]\<rparr>
      | None \<Rightarrow> \<lparr>w_version = - 1, w_stopped = False, w_timer = False, w_reads = 0, w_updates = []\<rparr>)"

datatype watch_event = WChange | WTimer | WReadDone read_outcome | WStop

text \<open>\<open>reload\<close> after its read: the version check and the update are one uninterrupted step.\<close>

definition watch_apply :: "json option \<Rightarrow> watch_state \<Rightarrow> watch_state" where
  "watch_apply b s =
     (case b of None \<Rightarrow> s
      | Some bundle \<Rightarrow>
          if bundle_version bundle \<le> w_version s then s
          else s\<lparr>w_version := bundle_version bundle, w_updates := w_updates s @ [bundle]\<rparr>)"

fun watch_step :: "(json \<Rightarrow> bool) \<Rightarrow> watch_event \<Rightarrow> watch_state \<Rightarrow> watch_state" where
  "watch_step check_schema WChange s = (if w_stopped s then s else s\<lparr>w_timer := True\<rparr>)"
| "watch_step check_schema WTimer s =
     (if w_timer s then s\<lparr>w_timer := False, w_reads := w_reads s + 1\<rparr> else s)"
| "watch_step check_schema (WReadDone r) s =
     (if w_reads s = 0 then s
      else watch_apply (readBundle check_schema r) (s\<lparr>w_reads := w_reads s - 1\<rparr>))"
| "watch_step check_schema WStop s =
     (if w_stopped s then s else s\<lparr>w_stopped := True, w_timer := False\<rparr>)"

definition watch_run :: "(json \<Rightarrow> bool) \<Rightarrow> read_outcome \<Rightarrow> watch_event list \<Rightarrow> watch_state" where
  "watch_run check_schema r es = fold (watch_step check_schema) es (watch_start check_schema r)"

end
