(* ===== verification/GateProps.thy ===== *)
theory GateProps
  imports PipelineProps
begin

text \<open>
  The capability gate against the store of issued capabilities. What the gate needs of the store is
  the locale \<open>capability_issuer\<close>; the file adapter is an instance. A permit through the gate is for
  the very action, target and payload some capability was issued for.
\<close>

section \<open>The interface\<close>

locale capability_issuer =
  fixes sha256 :: "string \<Rightarrow> string"
    and lookup :: "'st \<Rightarrow> string \<Rightarrow> capability option"
    and issue :: "string \<Rightarrow> int \<Rightarrow> issue_opts \<Rightarrow> 'st \<Rightarrow> capability \<times> 'st"
    and ttl :: "'st \<Rightarrow> issue_opts \<Rightarrow> int"
  assumes lookup_issue:
    "lookup (snd (issue i now opts st)) j = (if j = i then Some (fst (issue i now opts st)) else lookup st j)"
    and issue_binding:
    "cap_binding (fst (issue i now opts st))
       = computeBinding sha256 (io_action_class opts) (io_target opts) (io_payload_hash opts)"
    and issue_session: "cap_session_id (fst (issue i now opts st)) = io_session_id opts"
    and issue_expires: "cap_expires_at (fst (issue i now opts st)) = now + ttl st opts * 1000"
    and ttl_issue: "ttl (snd (issue i now opts st)) opts' = ttl st opts'"
begin

definition issue_all :: "(string \<times> int \<times> issue_opts) list \<Rightarrow> 'st \<Rightarrow> 'st" where
  "issue_all log st = fold (\<lambda>(i, now, opts) st. snd (issue i now opts st)) log st"

lemma issue_all_snoc: "issue_all (log @ [(i, now, opts)]) st = snd (issue i now opts (issue_all log st))"
  by (simp add: issue_all_def)

lemma ttl_issue_all: "ttl (issue_all log st) opts = ttl st opts"
proof (induction log rule: rev_induct)
  case (snoc x log)
  then show ?case by (cases x) (simp add: issue_all_snoc ttl_issue)
qed (simp add: issue_all_def)

lemma lookup_issued:
  assumes "\<And>i. lookup st i = None" and "lookup (issue_all log st) i = Some c"
  shows "\<exists>now opts. (i, now, opts) \<in> set log
    \<and> cap_binding c = computeBinding sha256 (io_action_class opts) (io_target opts) (io_payload_hash opts)
    \<and> cap_session_id c = io_session_id opts \<and> cap_expires_at c = now + ttl st opts * 1000"
  using assms(2)
proof (induction log rule: rev_induct)
  case Nil
  with assms(1) show ?case by (simp add: issue_all_def)
next
  case (snoc x log)
  obtain j now opts where x: "x = (j, now, opts)" by (cases x)
  show ?case
  proof (cases "i = j")
    case True
    with snoc.prems x have "c = fst (issue j now opts (issue_all log st))"
      by (simp add: issue_all_snoc lookup_issue)
    with True x show ?thesis by (auto simp: issue_binding issue_session issue_expires ttl_issue_all)
  next
    case False
    with snoc.prems x have "lookup (issue_all log st) i = Some c" by (simp add: issue_all_snoc lookup_issue)
    with snoc.IH show ?thesis by auto
  qed
qed

end

section \<open>What a permit of the gate means\<close>

lemma validate_permit:
  assumes "ce_effect (validateCapability sha256 now mgr get ctx) = Permit" and "px_hitl_mode ctx \<noteq> HNone"
  shows "\<exists>i c. px_approval_id ctx = Some i \<and> get i = Some (Some c) \<and> now \<le> cap_expires_at c
    \<and> cap_binding c = computeBinding sha256 (px_action_class ctx) (px_target ctx) (px_payload_hash ctx)
    \<and> \<not> isConsumed i mgr \<and> (cap_session_id c = None \<or> cap_session_id c = px_session_id ctx)"
  using assms unfolding validateCapability_def cee_def
  by (auto simp: Let_def split: if_splits option.splits)

text \<open>No collision among the messages at hand.\<close>

definition binding_message :: "string \<Rightarrow> string \<Rightarrow> string \<Rightarrow> string" where
  "binding_message a t h = a @ ''|'' @ t @ ''|'' @ h"

definition no_collision :: "(string \<Rightarrow> string) \<Rightarrow> string \<Rightarrow> string set \<Rightarrow> bool" where
  "no_collision sha256 m ms \<longleftrightarrow> (\<forall>m'\<in>ms. sha256 m' = sha256 m \<longrightarrow> m' = m)"

abbreviation opts_message :: "issue_opts \<Rightarrow> string" where
  "opts_message opts \<equiv> binding_message (io_action_class opts) (io_target opts) (io_payload_hash opts)"

abbreviation no_bar :: "string \<Rightarrow> bool" where
  "no_bar s \<equiv> CHR ''|'' \<notin> set s"

context capability_issuer
begin

lemma gate_permit_issued:
  assumes "\<And>i. lookup st i = None"
    and permit: "ce_effect (validateCapability sha256 now mgr (\<lambda>i. Some (lookup (issue_all log st) i)) ctx) = Permit"
    and "px_hitl_mode ctx \<noteq> HNone"
    and bars: "no_bar (px_action_class ctx)" "no_bar (px_payload_hash ctx)"
      "\<forall>(i, t, opts)\<in>set log. no_bar (io_action_class opts) \<and> no_bar (io_payload_hash opts)"
    and coll: "no_collision sha256 (binding_message (px_action_class ctx) (px_target ctx) (px_payload_hash ctx))
        ((\<lambda>(i, t, opts). opts_message opts) ` set log)"
  shows "\<exists>i t opts. (i, t, opts) \<in> set log \<and> px_approval_id ctx = Some i
    \<and> io_action_class opts = px_action_class ctx \<and> io_target opts = px_target ctx
    \<and> io_payload_hash opts = px_payload_hash ctx \<and> now \<le> t + ttl st opts * 1000
    \<and> (io_session_id opts = None \<or> io_session_id opts = px_session_id ctx)"
proof -
  from validate_permit [OF permit assms(3)] obtain i c where c: "px_approval_id ctx = Some i"
    "lookup (issue_all log st) i = Some c" "now \<le> cap_expires_at c"
    "cap_binding c = computeBinding sha256 (px_action_class ctx) (px_target ctx) (px_payload_hash ctx)"
    "cap_session_id c = None \<or> cap_session_id c = px_session_id ctx" by auto
  from lookup_issued [OF assms(1) c(2)] obtain t opts where o: "(i, t, opts) \<in> set log"
    "cap_binding c = computeBinding sha256 (io_action_class opts) (io_target opts) (io_payload_hash opts)"
    "cap_session_id c = io_session_id opts" "cap_expires_at c = t + ttl st opts * 1000" by blast
  have "opts_message opts \<in> (\<lambda>(i, t, opts). opts_message opts) ` set log" using o(1) by force
  with coll have "sha256 (opts_message opts)
        = sha256 (binding_message (px_action_class ctx) (px_target ctx) (px_payload_hash ctx)) \<Longrightarrow>
      opts_message opts = binding_message (px_action_class ctx) (px_target ctx) (px_payload_hash ctx)"
    unfolding no_collision_def by blast
  moreover have "sha256 (opts_message opts)
      = sha256 (binding_message (px_action_class ctx) (px_target ctx) (px_payload_hash ctx))"
    using c(4) o(2) by (simp add: computeBinding_def binding_message_def)
  ultimately have "opts_message opts = binding_message (px_action_class ctx) (px_target ctx) (px_payload_hash ctx)" .
  moreover have "no_bar (io_action_class opts)" "no_bar (io_payload_hash opts)" using bars(3) o(1) by auto
  ultimately have "io_action_class opts = px_action_class ctx \<and> io_target opts = px_target ctx
      \<and> io_payload_hash opts = px_payload_hash ctx"
    unfolding binding_message_def using binding_message_inj bars(1,2) by blast
  with c o show ?thesis by auto
qed

end

section \<open>The file adapter\<close>

definition new_adapter :: "int option \<Rightarrow> adapter" where
  "new_adapter ttl = \<lparr>ad_ttl = ttl, ad_capabilities = []\<rparr>"

definition adapter_ttl :: "adapter \<Rightarrow> issue_opts \<Rightarrow> int" where
  "adapter_ttl ad opts = or_else (io_ttl_seconds opts) (or_else (ad_ttl ad) DEFAULT_TTL_SECONDS)"

interpretation fa: capability_issuer sha256 getCapability "issueCapability sha256" adapter_ttl
  by unfold_locales (simp_all add: getCapability_def issueCapability_def Let_def adapter_ttl_def map_laws split: option.split)

definition issue_log :: "(string \<Rightarrow> string) \<Rightarrow> int option \<Rightarrow> (string \<times> int \<times> issue_opts) list \<Rightarrow> adapter" where
  "issue_log sha256 ttl log =
     fold (\<lambda>(i, now, opts) ad. snd (issueCapability sha256 i now opts ad)) log (new_adapter ttl)"

text \<open>
  C33. A capability authorises one action: when approval is required and the gate of stage 1 permits
  over the capabilities the file adapter has issued, the approval id is that of a capability issued
  for exactly the context's action class, target and payload hash, not yet expired, not consumed, and
  of the same session when it has one. The hypotheses: SHA-256 does not collide on the messages at
  hand, and action classes and payload hashes (dotted names and hex digests) contain no bar.
\<close>

theorem gate_binds_action:
  assumes "ce_effect (validateCapability sha256 now mgr (\<lambda>i. Some (getCapability (issue_log sha256 ttl log) i)) ctx) = Permit"
    and "px_hitl_mode ctx \<noteq> HNone"
    and "no_bar (px_action_class ctx)" and "no_bar (px_payload_hash ctx)"
    and "\<forall>(i, t, opts)\<in>set log. no_bar (io_action_class opts) \<and> no_bar (io_payload_hash opts)"
    and "no_collision sha256 (binding_message (px_action_class ctx) (px_target ctx) (px_payload_hash ctx))
        ((\<lambda>(i, t, opts). opts_message opts) ` set log)"
  shows "\<exists>i t opts. (i, t, opts) \<in> set log \<and> px_approval_id ctx = Some i \<and> \<not> isConsumed i mgr
    \<and> io_action_class opts = px_action_class ctx \<and> io_target opts = px_target ctx
    \<and> io_payload_hash opts = px_payload_hash ctx
    \<and> now \<le> t + adapter_ttl (new_adapter ttl) opts * 1000
    \<and> (io_session_id opts = None \<or> io_session_id opts = px_session_id ctx)"
proof -
  have log: "issue_log sha256 ttl log = fa.issue_all sha256 log (new_adapter ttl)"
    by (simp add: issue_log_def fa.issue_all_def)
  have "\<not> isConsumed i mgr" if "px_approval_id ctx = Some i" for i
    using validate_permit [OF assms(1,2)] that by auto
  with fa.gate_permit_issued [of "new_adapter ttl", OF _ assms(1) [unfolded log] assms(2-6)]
  show ?thesis by (auto simp: getCapability_def new_adapter_def)
qed

definition sample_issue :: issue_opts where
  "sample_issue = \<lparr>io_action_class = ''filesystem.delete'', io_target = ''/tmp/x'', io_payload_hash = ''ab'',
     io_session_id = None, io_ttl_seconds = Some 30\<rparr>"

definition sample_context :: pipeline_context where
  "sample_context = (plain_context PerRequest)\<lparr>px_action_class := ''filesystem.delete'', px_target := ''/tmp/x'',
     px_payload_hash := ''ab'', px_approval_id := Some ''u1''\<rparr>"

lemmas gate_sample_defs = sample_issue_def sample_context_def plain_context_def

theorem gate_binds_action_witness:
  "\<exists>i t opts. (i, t, opts) \<in> set [(''u1'', 0, sample_issue)] \<and> px_approval_id sample_context = Some i
    \<and> \<not> isConsumed i new_manager
    \<and> io_action_class opts = px_action_class sample_context \<and> io_target opts = px_target sample_context
    \<and> io_payload_hash opts = px_payload_hash sample_context
    \<and> 100 \<le> t + adapter_ttl (new_adapter None) opts * 1000
    \<and> (io_session_id opts = None \<or> io_session_id opts = px_session_id sample_context)"
proof (rule gate_binds_action)
  show "ce_effect (validateCapability id 100 new_manager
      (\<lambda>i. Some (getCapability (issue_log id None [(''u1'', 0, sample_issue)]) i)) sample_context) = Permit"
    by (simp add: validateCapability_def issue_log_def issueCapability_def getCapability_def new_adapter_def
        gate_sample_defs computeBinding_def isConsumed_def new_manager_def cee_def Let_def)
  show "no_collision id (binding_message (px_action_class sample_context) (px_target sample_context)
      (px_payload_hash sample_context)) ((\<lambda>(i, t, opts). opts_message opts) ` set [(''u1'', 0, sample_issue)])"
    by (simp add: no_collision_def)
qed (simp_all add: gate_sample_defs)

end
