(* ===== verification/PayloadProps.thy ===== *)
theory PayloadProps
  imports GateProps
begin

text \<open>
  The hashes that bind an approval to a payload, and the versions of the watched bundle.
\<close>

section \<open>Sorting by a host comparison\<close>

definition total_order_on :: "('a \<Rightarrow> 'a \<Rightarrow> bool) \<Rightarrow> 'a set \<Rightarrow> bool" where
  "total_order_on le A \<longleftrightarrow>
     (\<forall>x\<in>A. \<forall>y\<in>A. le x y \<or> le y x)
     \<and> (\<forall>x\<in>A. \<forall>y\<in>A. le x y \<and> le y x \<longrightarrow> x = y)
     \<and> (\<forall>x\<in>A. \<forall>y\<in>A. \<forall>z\<in>A. le x y \<and> le y z \<longrightarrow> le x z)"

lemma insort_by_mset [simp]: "mset (insort_by le x ys) = add_mset x (mset ys)"
  by (induction ys) auto

lemma sort_by_mset [simp]: "mset (sort_by le xs) = mset xs"
  by (induction xs) (auto simp: sort_by_def)

lemma insort_by_set [simp]: "set (insort_by le x ys) = insert x (set ys)"
  by (metis insort_by_mset set_mset_add_mset_insert set_mset_mset)

lemma sort_by_set [simp]: "set (sort_by le xs) = set xs"
  by (metis sort_by_mset set_mset_mset)

lemma insort_by_sorted:
  assumes "total_order_on le A" and "x \<in> A" and "set ys \<subseteq> A" and "sorted_wrt le ys"
  shows "sorted_wrt le (insort_by le x ys)"
  using assms(3,4)
proof (induction ys)
  case (Cons y ys)
  show ?case
  proof (cases "le x y")
    case True
    have "le x z" if "z \<in> set ys" for z
    proof -
      from that Cons.prems have "le y z" "y \<in> A" "z \<in> A" by auto
      with True assms(1,2) show ?thesis unfolding total_order_on_def by blast
    qed
    with True Cons.prems show ?thesis by simp
  next
    case False
    with assms(1,2) Cons.prems have "le y x" unfolding total_order_on_def by (metis list.set_intros(1) subsetD)
    with False Cons show ?thesis by simp
  qed
qed simp

lemma sort_by_sorted: "total_order_on le A \<Longrightarrow> set xs \<subseteq> A \<Longrightarrow> sorted_wrt le (sort_by le xs)"
proof (induction xs)
  case (Cons x xs)
  then have "sorted_wrt le (sort_by le xs)" "x \<in> A" "set (sort_by le xs) \<subseteq> A" by auto
  from insort_by_sorted [OF Cons.prems(1) this(2,3,1)] show ?case by (simp add: sort_by_def)
qed (simp add: sort_by_def)

lemma sorted_unique:
  assumes "total_order_on le A"
  shows "set xs \<subseteq> A \<Longrightarrow> mset xs = mset ys \<Longrightarrow> sorted_wrt le xs \<Longrightarrow> sorted_wrt le ys \<Longrightarrow> xs = ys"
proof (induction xs arbitrary: ys)
  case (Cons x xs)
  then obtain y ys' where ys: "ys = y # ys'" by (cases ys) auto
  have "set (x # xs) = set ys" by (rule mset_eq_setD [OF Cons.prems(2)])
  then have m: "x \<in> set (y # ys')" "y \<in> set (x # xs)" using ys by auto
  have "x = y"
  proof (rule ccontr)
    assume "x \<noteq> y"
    with m Cons.prems(3,4) ys have "le x y" "le y x" by auto
    moreover have "x \<in> A" "y \<in> A" using Cons.prems(1) m(2) by auto
    ultimately show False using assms \<open>x \<noteq> y\<close> unfolding total_order_on_def by blast
  qed
  with Cons ys show ?case by simp
qed simp

lemma sort_by_cong:
  assumes "total_order_on le (set xs)" and "mset xs = mset ys"
  shows "sort_by le xs = sort_by le ys"
  by (rule sorted_unique [OF assms(1)])
     (use assms sort_by_sorted [OF assms(1)] mset_eq_setD [OF assms(2)] in auto)

section \<open>The payload hash\<close>

text \<open>
  \<open>computePayloadHash\<close> does not depend on the order in which the parameters were inserted: two
  parameter objects with the same members give the same hash, when \<open>localeCompare\<close> orders their
  keys totally.
\<close>

theorem payload_hash_order_independent:
  assumes "mset params = mset params'" and "distinct (map fst params)"
    and "total_order_on locale_le (set (map fst params))"
  shows "computePayloadHash sha256 locale_le toolName params = computePayloadHash sha256 locale_le toolName params'"
proof -
  have keys: "mset (map fst params) = mset (map fst params')" using assms(1) by simp
  have d: "distinct (map fst params')" using assms(2) mset_eq_imp_distinct_iff [OF keys] by simp
  have map: "map_of params = map_of params'"
    using map_of_eqI [of params params'] assms(2) d mset_eq_setD [OF assms(1)]
    by (metis assms(1) map_of_inject_set mset_eq_setD)
  show ?thesis
    unfolding computePayloadHash_def payload_object_def sorted_params_def map sort_by_cong [OF assms(3) keys] ..
qed

definition code_le :: "string \<Rightarrow> string \<Rightarrow> bool" where
  "code_le a b \<longleftrightarrow> a \<le> b"

theorem payload_hash_order_independent_witness:
  "computePayloadHash id code_le ''tool'' [(''b'', JNum 1), (''a'', JNum 2)]
   = computePayloadHash id code_le ''tool'' [(''a'', JNum 2), (''b'', JNum 1)]"
proof (rule payload_hash_order_independent)
  show "total_order_on code_le (set (map fst [(''b'', JNum 1), (''a'', JNum 2)]))"
    unfolding total_order_on_def code_le_def by auto
qed simp_all

section \<open>The canonical serialiser\<close>

text \<open>
  C39. \<open>sortedJsonStringify\<close> is an unambiguous canonical form: two values have the same text exactly
  when they are equal up to the order of the members of their objects at every level, an
  \<open>undefined\<close> counting as null. So a digest of the text depends on all of the value and only on it.
\<close>

theorem sorted_json_canonical:
  "sortedJsonStringify v = sortedJsonStringify w \<longleftrightarrow> canon v = canon w"
  by (rule sorted_json_eq_iff)

section \<open>The bundle watcher\<close>

definition watch_ok :: "watch_state \<Rightarrow> bool" where
  "watch_ok s \<longleftrightarrow> sorted_wrt (<) (map bundle_version (w_updates s))
     \<and> (\<forall>b\<in>set (w_updates s). bundle_version b \<le> w_version s)"

lemma watch_apply_ok: "watch_ok s \<Longrightarrow> watch_ok (watch_apply b s)"
  by (cases b) (auto simp: watch_ok_def watch_apply_def sorted_wrt_append intro: le_less_trans)

lemma watch_step_ok: "watch_ok s \<Longrightarrow> watch_ok (watch_step chk e s)"
  by (cases e) (auto simp: watch_ok_def intro!: watch_apply_ok [unfolded watch_ok_def])

lemma watch_start_ok: "watch_ok (watch_start chk r)"
  by (simp add: watch_start_def watch_ok_def split: option.split)

text \<open>
  The watcher of the policy bundle delivers strictly increasing versions: whatever changes,
  timers, stops and overlapping reads happen, each bundle passed to \<open>onUpdate\<close> has a greater version
  than every bundle before it, and each one but a default bundle has passed the schema check.
\<close>

theorem bundle_versions_increase:
  "sorted_wrt (<) (map bundle_version (w_updates (watch_run chk r es)))
   \<and> (\<forall>b\<in>set (w_updates (watch_run chk r es)). chk b \<or> b = DEFAULT_EMPTY_BUNDLE)"
proof -
  let ?ok = "{b. chk b \<or> b = DEFAULT_EMPTY_BUNDLE}"
  have run: "watch_ok (fold (watch_step chk) es s)" if "watch_ok s" for s
    using that by (induction es arbitrary: s) (simp_all add: watch_step_ok)
  have read: "chk b \<or> b = DEFAULT_EMPTY_BUNDLE" if "readBundle chk x = Some b" for x b
    using that by (cases x) (auto split: if_splits)
  have app: "set (w_updates (watch_apply b s)) \<subseteq> set (w_updates s) \<union> set_option b" for b s
    by (cases b) (auto simp: watch_apply_def)
  have rd: "set_option (readBundle chk x) \<subseteq> ?ok" for x
    using read by (cases "readBundle chk x") auto
  have step: "set (w_updates (watch_step chk e s)) \<subseteq> ?ok" if "set (w_updates s) \<subseteq> ?ok" for e s
  proof (cases e)
    case (WReadDone x)
    with that rd [of x] app [of "readBundle chk x" "s\<lparr>w_reads := w_reads s - 1\<rparr>"] show ?thesis
      by (simp split del: if_split) (simp split: if_split, blast)
  qed (use that in simp_all)
  have chk: "set (w_updates (fold (watch_step chk) es s)) \<subseteq> ?ok" if "set (w_updates s) \<subseteq> ?ok" for s
    using that by (induction es arbitrary: s) (simp_all add: step)
  have start: "set (w_updates (watch_start chk r)) \<subseteq> ?ok"
    using rd [of r] by (auto simp: watch_start_def split: option.split)
  show ?thesis
    using run [OF watch_start_ok] chk [OF start] unfolding watch_run_def watch_ok_def by blast
qed

definition has_version :: "json \<Rightarrow> bool" where
  "has_version b \<longleftrightarrow> 0 \<le> bundle_version b"

theorem bundle_versions_increase_witness:
  "sorted_wrt (<) (map bundle_version (w_updates (watch_run has_version (ReadMissing True)
      [WChange, WTimer, WReadDone (ReadParsed (JObj [(''version'', JNum 2)]))])))"
  using bundle_versions_increase [of has_version "ReadMissing True"
      "[WChange, WTimer, WReadDone (ReadParsed (JObj [(''version'', JNum 2)]))]"] by blast

end
