(* ===== verification/AutoPermit.thy ===== *)
theory AutoPermit
  imports JsRegex Json
begin

text \<open>
  Automatic permits: the records of \<open>src/models/auto-permit.ts\<close>, the derivation of a pattern from an
  approved command (\<open>src/auto-permits/pattern-derivation.ts\<close>), the matcher of
  \<open>src/auto-permits/matcher.ts\<close>, the validation of a store file
  (\<open>src/auto-permits/validation.ts\<close>), its loading and saving (\<open>src/auto-permits/store.ts\<close>) and its
  location (\<open>src/auto-permits/config.ts\<close>).

  \<open>escapeRegex\<close> escapes every character that is special in a regular expression, so the expression
  compiled from an escaped text denotes that text: it is \<^const>\<open>rx_lit\<close>, and the compilation
  cannot fail. TypeBox schema checks are parameters.
\<close>

section \<open>Records\<close>

datatype derivation_method = MDefault | MExact

record auto_permit =
  ap_pattern :: string
  ap_method :: derivation_method
  ap_createdAt :: int
  ap_originalCommand :: string
  ap_intentHint :: "string option"
  ap_created_by :: "string option"
  ap_created_at :: "string option"
  ap_derived_from :: "string option"

section \<open>Tokens\<close>

text \<open>
  \<open>tokenize\<close>: the flags are \<open>inDouble\<close> and \<open>inSingle\<close>, then \<open>current\<close>. Quotes are stripped, an
  unquoted space ends a token.
\<close>

fun tokenize_from :: "bool \<Rightarrow> bool \<Rightarrow> string \<Rightarrow> string \<Rightarrow> string list" where
  "tokenize_from inDouble inSingle current [] = (if current \<noteq> [] then [current] else [])"
| "tokenize_from inDouble inSingle current (ch # cs) =
     (if ch = CHR 0x22 \<and> \<not> inSingle then tokenize_from (\<not> inDouble) inSingle current cs
      else if ch = CHR 0x27 \<and> \<not> inDouble then tokenize_from inDouble (\<not> inSingle) current cs
      else if ch = CHR '' '' \<and> \<not> inDouble \<and> \<not> inSingle
      then (if current \<noteq> [] then current # tokenize_from inDouble inSingle [] cs
            else tokenize_from inDouble inSingle current cs)
      else tokenize_from inDouble inSingle (current @ [ch]) cs)"

definition tokenize :: "string \<Rightarrow> string list" where
  "tokenize command = tokenize_from False False [] command"

section \<open>Patterns\<close>

text \<open>The compiled form of \<open>^prefix( .+)?$\<close> and of \<open>^text$\<close>.\<close>

definition rx_any_args :: rx where
  "rx_any_args = rx_opt (RSeq (rx_chr (CHR '' '')) (rx_plus (RClass dot_char)))"

definition compilePatternRegex :: "string \<Rightarrow> rx option" where
  "compilePatternRegex pattern =
     (if pattern = [] then None
      else let tokens = split_on (CHR '' '') pattern
           in if hd tokens = [] then None
              else if last tokens = ''*''
              then Some (RSeq RBol (RSeq (RSeq (rx_lit (join '' '' (butlast tokens))) rx_any_args) REol))
              else Some (RSeq RBol (RSeq (rx_lit (join '' '' tokens)) REol)))"

definition normalizeCommand :: "string \<Rightarrow> string" where
  "normalizeCommand command = join '' '' (tokenize (js_trim command))"

definition pattern_matches :: "string \<Rightarrow> string \<Rightarrow> bool" where
  "pattern_matches pattern normalized =
     (case compilePatternRegex pattern of None \<Rightarrow> False | Some r \<Rightarrow> rx_test r normalized)"

text \<open>\<open>FileAutoPermitChecker.matchCommand\<close>; the cache of compiled expressions is not observable.\<close>

definition matchCommand :: "auto_permit list \<Rightarrow> string \<Rightarrow> auto_permit option" where
  "matchCommand rules command =
     (if command = [] then None
      else let normalized = normalizeCommand command
           in if normalized = [] then None
              else List.find (\<lambda>rule. pattern_matches (ap_pattern rule) normalized) rules)"

section \<open>Validation of a pattern\<close>

definition MAX_PATTERN_LENGTH :: nat where
  "MAX_PATTERN_LENGTH = 200"

definition METACHAR_RE :: rx where
  "METACHAR_RE = RClass (cls (''|;&><`$'' @ [CHR 0x0A, CHR 0x0D]))"

definition VALID_TOKEN_RE :: rx where
  "VALID_TOKEN_RE = RSeq RBol (RSeq (rx_plus (RClass (\<lambda>c. \<not> js_space c \<and> c \<noteq> CHR ''*''))) REol)"

definition wildcard_misplaced :: "string list \<Rightarrow> bool" where
  "wildcard_misplaced tokens = (''*'' \<in> set (butlast tokens))"

definition validatePattern :: "string \<Rightarrow> string list" where
  "validatePattern pattern =
     (if js_trim pattern = [] then [''Pattern must not be empty'']
      else let tokens = split_on (CHR '' '') pattern
           in (if pattern \<noteq> js_trim pattern then [''Pattern must not have leading or trailing whitespace''] else [])
            @ (if length pattern > MAX_PATTERN_LENGTH
               then [''Pattern must not exceed '' @ nat_str MAX_PATTERN_LENGTH @ '' characters''] else [])
            @ (if [] \<in> set tokens then [''Pattern must not contain consecutive spaces''] else [])
            @ (if \<not> rx_test VALID_TOKEN_RE (hd tokens)
               then [''Binary (first token) must be a non-empty string without spaces or wildcards''] else [])
            @ (if wildcard_misplaced tokens then [''Wildcard (*) must only appear as the last token''] else []))"

section \<open>Derivation\<close>

record derive_opts =
  do_command :: string
  do_method :: "derivation_method option"
  do_toolName :: "string option"

record derived_pattern =
  dp_pattern :: string
  dp_method :: derivation_method
  dp_binary :: string
  dp_firstPositional :: "string option"
  dp_originalCommand :: string
  dp_tokenCount :: nat
  dp_derivedAt :: int

definition first_positional :: "string list \<Rightarrow> string option" where
  "first_positional tokens = List.find (\<lambda>tok. \<not> starts_with tok ''-'') (tl tokens)"

definition command_pattern :: "derivation_method \<Rightarrow> string list \<Rightarrow> string" where
  "command_pattern m tokens =
     (case m of
        MDefault \<Rightarrow>
          (if length tokens = 1 then hd tokens
           else case first_positional tokens of
             Some p \<Rightarrow> hd tokens @ '' '' @ p @ '' *''
           | None \<Rightarrow> hd tokens @ '' *'')
      | MExact \<Rightarrow> join '' '' tokens)"

text \<open>A \<open>PatternDerivationError\<close> is \<open>Inl\<close> of its message.\<close>

definition derivePattern :: "int \<Rightarrow> derive_opts \<Rightarrow> string + derived_pattern" where
  "derivePattern now opts =
     (case do_toolName opts of
        Some name \<Rightarrow>
          (let toolName = js_trim name
           in if toolName = [] then Inl ''Tool name must not be empty''
              else if \<not> rx_test VALID_TOKEN_RE toolName
              then Inl ''Tool name must be a single token without spaces or wildcard characters''
              else if rx_test METACHAR_RE toolName
              then Inl ''Tool name contains shell metacharacters - pattern derivation refused''
              else let pattern = toolName @ '' *''; errors = validatePattern pattern
                   in if errors \<noteq> []
                      then Inl (''Derived tool-name pattern failed validation: '' @ join ''; '' errors)
                      else Inr \<lparr>dp_pattern = pattern, dp_method = MDefault, dp_binary = toolName,
                             dp_firstPositional = None, dp_originalCommand = do_command opts,
                             dp_tokenCount = 1, dp_derivedAt = now\<rparr>)
      | None \<Rightarrow>
          (let m = (case do_method opts of Some m \<Rightarrow> m | None \<Rightarrow> MDefault);
               command = js_trim (do_command opts)
           in if rx_test METACHAR_RE command
              then Inl ''Command contains shell metacharacters - pattern derivation is not safe for compound shell expressions''
              else let tokens = tokenize command
                   in if tokens = [] then Inl ''Command must not be empty after tokenisation''
                      else let pattern = command_pattern m tokens; errors = validatePattern pattern
                           in if errors \<noteq> []
                              then Inl (''Derived pattern failed validation: '' @ join ''; '' errors)
                              else Inr \<lparr>dp_pattern = pattern, dp_method = m, dp_binary = hd tokens,
                                     dp_firstPositional = first_positional tokens,
                                     dp_originalCommand = do_command opts,
                                     dp_tokenCount = length tokens, dp_derivedAt = now\<rparr>))"

section \<open>The store file\<close>

text \<open>
  The checks of TypeBox on an entry and on the envelope, and their messages, are parameters:
  \<open>check_entry\<close> gives the record of a valid entry, \<open>check_file\<close> the fields of a valid envelope.
\<close>

record permit_file =
  pf_version :: int
  pf_rules :: "json list"
  pf_checksum :: "string option"

record permit_validation =
  pv_envelopeValid :: bool
  pv_envelopeErrors :: "string list"
  pv_rules :: "auto_permit list"
  pv_skipped :: nat
  pv_entryErrors :: "(nat \<times> string list) list"
  pv_version :: int
  pv_checksum :: "string option"
  pv_isLegacy :: bool
  pv_checksumMismatch :: bool

fun sort_entries ::
  "(json \<Rightarrow> auto_permit option) \<Rightarrow> (json \<Rightarrow> string list) \<Rightarrow> nat \<Rightarrow> json list
     \<Rightarrow> auto_permit list \<times> (nat \<times> string list) list" where
  "sort_entries check_entry entry_errors i [] = ([], [])"
| "sort_entries check_entry entry_errors i (entry # es) =
     (case sort_entries check_entry entry_errors (i + 1) es of (rules, errors) \<Rightarrow>
        (case check_entry entry of
           Some r \<Rightarrow> (r # rules, errors)
         | None \<Rightarrow> (rules, (i, entry_errors entry) # errors)))"

definition buildRulesResult ::
  "(string \<Rightarrow> string) \<Rightarrow> (json \<Rightarrow> auto_permit option) \<Rightarrow> (json \<Rightarrow> string list)
     \<Rightarrow> json list \<Rightarrow> int \<Rightarrow> string option \<Rightarrow> bool \<Rightarrow> permit_validation" where
  "buildRulesResult sha256 check_entry entry_errors rawRules version checksum isLegacy =
     (case sort_entries check_entry entry_errors 0 rawRules of (rules, entryErrors) \<Rightarrow>
        (let checksumMismatch =
               (case checksum of None \<Rightarrow> False
                | Some c \<Rightarrow> c \<noteq> sha256 (case json_stringify (JArr rawRules) of Some t \<Rightarrow> t | None \<Rightarrow> ''''))
         in \<lparr>pv_envelopeValid = True, pv_envelopeErrors = [], pv_rules = rules,
             pv_skipped = length rawRules - length rules, pv_entryErrors = entryErrors,
             pv_version = version, pv_checksum = checksum, pv_isLegacy = isLegacy,
             pv_checksumMismatch = checksumMismatch\<rparr>))"

definition validateAutoPermitContent ::
  "(string \<Rightarrow> string) \<Rightarrow> (json \<Rightarrow> auto_permit option) \<Rightarrow> (json \<Rightarrow> string list)
     \<Rightarrow> (json \<Rightarrow> permit_file option) \<Rightarrow> (json \<Rightarrow> string list) \<Rightarrow> json \<Rightarrow> permit_validation" where
  "validateAutoPermitContent sha256 check_entry entry_errors check_file file_errors parsed =
     (case parsed of
        JArr entries \<Rightarrow> buildRulesResult sha256 check_entry entry_errors entries 0 None True
      | _ \<Rightarrow>
          (case check_file parsed of
             None \<Rightarrow> \<lparr>pv_envelopeValid = False, pv_envelopeErrors = file_errors parsed, pv_rules = [],
                      pv_skipped = 0, pv_entryErrors = [], pv_version = 0, pv_checksum = None,
                      pv_isLegacy = False, pv_checksumMismatch = False\<rparr>
           | Some f \<Rightarrow> buildRulesResult sha256 check_entry entry_errors (pf_rules f) (pf_version f)
                         (pf_checksum f) False))"

record load_result =
  lr_rules :: "auto_permit list"
  lr_skipped :: nat
  lr_path :: string
  lr_found :: bool
  lr_version :: int
  lr_checksum :: "string option"
  lr_validationErrors :: "string list"
  lr_parseError :: "string option"

text \<open>
  Reading the file has one of four outcomes: it does not exist, it cannot be read (the function
  throws, \<open>None\<close>), it is no JSON (with the text of the parser's error), or it was parsed.
\<close>

datatype file_read = FileMissing | FileError | FileBadJson string | FileJson json

definition load_errors :: "string \<Rightarrow> permit_validation \<Rightarrow> string list" where
  "load_errors storePath v =
     (let tag = ''[auto-permits] '' @ storePath
      in map (\<lambda>e. tag @ '' envelope: '' @ e) (pv_envelopeErrors v)
       @ concat (map (\<lambda>(index, errors). map (\<lambda>e. tag @ '' rules['' @ nat_str index @ '']: '' @ e) errors) (pv_entryErrors v))
       @ (if pv_checksumMismatch v
          then [tag @ '': checksum mismatch - file may have been modified externally''] else []))"

definition loadAutoPermitRulesFromFile ::
  "(json \<Rightarrow> permit_validation) \<Rightarrow> string \<Rightarrow> file_read \<Rightarrow> load_result option" where
  "loadAutoPermitRulesFromFile validate storePath r =
     (case r of
        FileMissing \<Rightarrow> Some \<lparr>lr_rules = [], lr_skipped = 0, lr_path = storePath, lr_found = False,
          lr_version = 0, lr_checksum = None, lr_validationErrors = [], lr_parseError = None\<rparr>
      | FileError \<Rightarrow> None
      | FileBadJson err \<Rightarrow>
          (let parseError = ''[auto-permits] '' @ storePath @ '': invalid JSON - '' @ err
           in Some \<lparr>lr_rules = [], lr_skipped = 0, lr_path = storePath, lr_found = True,
                lr_version = 0, lr_checksum = None, lr_validationErrors = [parseError],
                lr_parseError = Some parseError\<rparr>)
      | FileJson parsed \<Rightarrow>
          (let v = validate parsed
           in Some \<lparr>lr_rules = pv_rules v, lr_skipped = pv_skipped v, lr_path = storePath, lr_found = True,
                lr_version = pv_version v, lr_checksum = pv_checksum v,
                lr_validationErrors = load_errors storePath v, lr_parseError = None\<rparr>))"

text \<open>What \<open>saveAutoPermitRules\<close> writes: the envelope with the checksum of the rules.\<close>

definition opt_member :: "string \<Rightarrow> string option \<Rightarrow> (string \<times> json) list" where
  "opt_member k x = (case x of None \<Rightarrow> [] | Some s \<Rightarrow> [(k, JStr s)])"

definition auto_permit_json :: "auto_permit \<Rightarrow> json" where
  "auto_permit_json r = JObj ([(''pattern'', JStr (ap_pattern r)),
       (''method'', JStr (case ap_method r of MDefault \<Rightarrow> ''default'' | MExact \<Rightarrow> ''exact'')),
       (''createdAt'', JNum (ap_createdAt r)), (''originalCommand'', JStr (ap_originalCommand r))]
     @ opt_member ''intentHint'' (ap_intentHint r) @ opt_member ''created_by'' (ap_created_by r)
     @ opt_member ''created_at'' (ap_created_at r) @ opt_member ''derived_from'' (ap_derived_from r))"

definition saveAutoPermitRules :: "(string \<Rightarrow> string) \<Rightarrow> auto_permit list \<Rightarrow> int \<Rightarrow> json" where
  "saveAutoPermitRules sha256 rules nextVersion =
     (let raw = JArr (map auto_permit_json rules);
          checksum = sha256 (case json_stringify raw of Some t \<Rightarrow> t | None \<Rightarrow> '''')
      in JObj [(''version'', JNum nextVersion), (''rules'', raw), (''checksum'', JStr checksum)])"

section \<open>Store location\<close>

definition DEFAULT_AUTO_PERMIT_STORE_PATH :: string where
  "DEFAULT_AUTO_PERMIT_STORE_PATH = ''data/auto-permits.json''"

definition RULES_FILE_PATH :: string where
  "RULES_FILE_PATH = ''data/rules.json''"

datatype storage_mode = Separate | InRules

definition resolveAutoPermitStoreConfig :: "string option \<Rightarrow> storage_mode \<times> string" where
  "resolveAutoPermitStoreConfig envVar =
     (let path = (case map_option js_trim envVar of
                    Some p \<Rightarrow> if p \<noteq> [] then p else DEFAULT_AUTO_PERMIT_STORE_PATH
                  | None \<Rightarrow> DEFAULT_AUTO_PERMIT_STORE_PATH)
      in (if path = RULES_FILE_PATH then InRules else Separate, path))"

end
