(* ===== verification/AutoPermitProps.thy ===== *)
theory AutoPermitProps
  imports AutoPermit
begin

text \<open>
  What automatic permits match: the language of a stored pattern, the shape of the derived patterns,
  and that a command approved with "Approve Always" is matched by the pattern derived from it.
\<close>

section \<open>The language of a pattern\<close>

lemma rx_any_args_lang:
  "rx_lang rx_any_args p u v \<longleftrightarrow> u = [] \<or> (\<exists>a. u = CHR '' '' # a \<and> a \<noteq> [] \<and> (\<forall>c\<in>set a. dot_char c))"
  unfolding rx_any_args_def rx_lang_opt rx_lang_seqI rx_lang_chr rx_lang_plus_class by auto

text \<open>A pattern that ends in the token \<open>*\<close> matches its prefix, alone or followed by arguments on one line.\<close>

lemma wildcard_pattern_matches:
  assumes "pattern \<noteq> []" "hd (split_on (CHR '' '') pattern) \<noteq> []" "last (split_on (CHR '' '') pattern) = ''*''"
  shows "pattern_matches pattern n \<longleftrightarrow>
    (let pre = join '' '' (butlast (split_on (CHR '' '') pattern))
     in n = pre \<or> (\<exists>a. n = pre @ '' '' @ a \<and> a \<noteq> [] \<and> (\<forall>c\<in>set a. dot_char c)))"
  using assms
  by (simp add: pattern_matches_def compilePatternRegex_def Let_def rx_test_anchored)
     (auto simp: rx_lang_seqI rx_any_args_lang)

lemma exact_pattern_matches:
  assumes "pattern \<noteq> []" "hd (split_on (CHR '' '') pattern) \<noteq> []" "last (split_on (CHR '' '') pattern) \<noteq> ''*''"
  shows "pattern_matches pattern n \<longleftrightarrow> n = pattern"
  using assms by (simp add: pattern_matches_def compilePatternRegex_def Let_def rx_test_anchored)

definition denotes :: "string \<Rightarrow> string \<Rightarrow> bool" where
  "denotes pattern n \<longleftrightarrow>
     (let tokens = split_on (CHR '' '') pattern; pre = join '' '' (butlast tokens)
      in hd tokens \<noteq> []
         \<and> (if last tokens = ''*''
            then n = pre \<or> (\<exists>a. n = pre @ '' '' @ a \<and> a \<noteq> [] \<and> (\<forall>c\<in>set a. dot_char c))
            else n = pattern))"

lemma match_command_eq:
  "matchCommand rules command =
     (if normalizeCommand command = [] then None
      else List.find (\<lambda>rule. denotes (ap_pattern rule) (normalizeCommand command)) rules)"
proof -
  have p: "pattern_matches pat n \<longleftrightarrow> denotes pat n" for pat n
  proof (cases "pat = [] \<or> hd (split_on (CHR '' '') pat) = []")
    case True
    then show ?thesis
      by (auto simp: pattern_matches_def compilePatternRegex_def denotes_def Let_def)
  next
    case False
    then show ?thesis
      using wildcard_pattern_matches [of pat n] exact_pattern_matches [of pat n]
      by (auto simp: denotes_def Let_def)
  qed
  have "normalizeCommand [] = []" by (simp add: normalizeCommand_def tokenize_def js_trim_def)
  then show ?thesis by (auto simp: matchCommand_def Let_def p)
qed

text \<open>
  The language of a stored pattern: \<open>matchCommand\<close> returns the first stored rule whose pattern is
  the normalised command itself or ends in the token \<open>*\<close> after a prefix which is the normalised
  command, or which the normalised command extends by a space and further text on the same line.
\<close>

theorem match_command_semantics:
  "matchCommand rules command =
     (if normalizeCommand command = [] then None
      else List.find (\<lambda>rule. denotes (ap_pattern rule) (normalizeCommand command)) rules)"
  by (rule match_command_eq)

section \<open>Derivation\<close>

lemma valid_token_iff: "rx_test VALID_TOKEN_RE t \<longleftrightarrow> t \<noteq> [] \<and> (\<forall>c\<in>set t. \<not> js_space c \<and> c \<noteq> CHR ''*'')"
  unfolding VALID_TOKEN_RE_def rx_test_anchored rx_lang_plus_class by simp

lemma space_is_space: "js_space (CHR '' '')"
  by code_simp

lemma valid_token_no_space: "rx_test VALID_TOKEN_RE t \<Longrightarrow> CHR '' '' \<notin> set t"
  using space_is_space by (auto simp: valid_token_iff)

lemma validatePattern_Nil:
  "validatePattern pattern = [] \<Longrightarrow>
     js_trim pattern \<noteq> [] \<and> pattern = js_trim pattern \<and> length pattern \<le> MAX_PATTERN_LENGTH
     \<and> [] \<notin> set (split_on (CHR '' '') pattern)
     \<and> rx_test VALID_TOKEN_RE (hd (split_on (CHR '' '') pattern))
     \<and> ''*'' \<notin> set (butlast (split_on (CHR '' '') pattern))"
  by (auto simp: validatePattern_def Let_def wildcard_misplaced_def split: if_splits)

lemma split_star: "split_on (CHR '' '') (s @ '' *'') = split_on (CHR '' '') s @ [''*'']"
  by (induction s) (auto split: list.splits)

lemma hd_split_denotes: "validatePattern p = [] \<Longrightarrow> hd (split_on (CHR '' '') p) \<noteq> []"
  by (auto dest!: validatePattern_Nil simp: valid_token_iff)

text \<open>A valid pattern matches its own text.\<close>

lemma denotes_self:
  assumes "validatePattern p = []"
  shows "denotes p p"
proof (cases "last (split_on (CHR '' '') p) = ''*''")
  case True
  let ?ts = "split_on (CHR '' '') p"
  have "butlast ?ts \<noteq> []"
  proof
    assume "butlast ?ts = []"
    then have "hd ?ts = ''*''" using True by (metis append_butlast_last_id append_Nil list.sel(1) split_on_nonempty)
    with validatePattern_Nil [OF assms] show False by (simp add: valid_token_iff)
  qed
  then have "join '' '' (butlast ?ts @ [last ?ts]) = join '' '' (butlast ?ts) @ '' '' @ last ?ts"
    by (rule join_snoc)
  moreover have "butlast ?ts @ [last ?ts] = ?ts" by (rule append_butlast_last_id) simp
  ultimately have "p = join '' '' (butlast ?ts) @ '' '' @ ''*''"
    unfolding True by (metis join_split_on)
  moreover have "dot_char (CHR ''*'')" by code_simp
  ultimately show ?thesis
    using True hd_split_denotes [OF assms] unfolding denotes_def Let_def by auto
qed (use hd_split_denotes [OF assms] in \<open>simp add: denotes_def Let_def\<close>)

lemma denotes_binary:
  assumes "CHR '' '' \<notin> set b" and "b \<noteq> ''*''"
    and "pattern = b \<or> (\<exists>rest. pattern = b @ '' '' @ rest)" and "denotes pattern n"
  shows "n = b \<or> prefix (b @ '' '') n"
proof (cases "pattern = b")
  case True
  with assms(1,2,4) show ?thesis by (simp add: denotes_def Let_def split_on_no_sep)
next
  case False
  with assms(3) obtain rest where p: "pattern = b @ CHR '' '' # rest" by auto
  with split_on_append_sep [OF assms(1), of rest]
  have s: "split_on (CHR '' '') pattern = b # split_on (CHR '' '') rest" by simp
  obtain w ws where w: "split_on (CHR '' '') rest = w # ws" by (meson list.exhaust split_on_nonempty)
  have "join '' '' (b # butlast (w # ws)) = b \<or> prefix (b @ '' '') (join '' '' (b # butlast (w # ws)))"
    by (cases "butlast (w # ws)") (auto simp: prefix_def)
  with assms(4) show ?thesis
    unfolding denotes_def Let_def s w by (auto simp: p prefix_def split: if_splits)
qed

lemma tokenize_from_tokens:
  "t \<in> set (tokenize_from d s cur cs) \<Longrightarrow> t \<noteq> [] \<and> set t \<subseteq> set cur \<union> set cs"
proof (induction d s cur cs arbitrary: t rule: tokenize_from.induct)
  case (2 d s cur ch cs)
  consider "ch = CHR 0x22 \<and> \<not> s" | "\<not> (ch = CHR 0x22 \<and> \<not> s)" "ch = CHR 0x27 \<and> \<not> d"
    | "\<not> (ch = CHR 0x22 \<and> \<not> s)" "\<not> (ch = CHR 0x27 \<and> \<not> d)" "ch = CHR '' '' \<and> \<not> d \<and> \<not> s"
    | "\<not> (ch = CHR 0x22 \<and> \<not> s)" "\<not> (ch = CHR 0x27 \<and> \<not> d)" "\<not> (ch = CHR '' '' \<and> \<not> d \<and> \<not> s)"
    by blast
  then show ?case
  proof cases
    case 1
    with "2.prems" have "t \<in> set (tokenize_from (\<not> d) s cur cs)" by simp
    from "2.IH"(1) [OF 1 this] show ?thesis by auto
  next
    case a: 2
    with "2.prems" have "t \<in> set (tokenize_from d (\<not> s) cur cs)" by simp
    from "2.IH"(2) [OF a this] show ?thesis by auto
  next
    case 3
    show ?thesis
    proof (cases "cur = []")
      case True
      with 3 "2.prems" have "t \<in> set (tokenize_from d s cur cs)" by simp
      from "2.IH"(4) [OF 3 _ this] True show ?thesis by auto
    next
      case False
      with 3 "2.prems" have "t = cur \<or> t \<in> set (tokenize_from d s [] cs)" by simp
      with "2.IH"(3) [OF 3 False] False show ?thesis by auto
    qed
  next
    case 4
    with "2.prems" have "t \<in> set (tokenize_from d s (cur @ [ch]) cs)"
      by (simp only: tokenize_from.simps if_False)
    from "2.IH"(5) [OF 4 this] show ?thesis by auto
  qed
qed (auto split: if_splits)

lemma tokenize_tokens: "t \<in> set (tokenize c) \<Longrightarrow> t \<noteq> [] \<and> set t \<subseteq> set c"
  unfolding tokenize_def using tokenize_from_tokens by fastforce

lemma join_chars: "set (join sep ts) \<subseteq> set sep \<union> (\<Union>t\<in>set ts. set t)"
  by (induction sep ts rule: join.induct) auto

lemma join_nonempty: "ts \<noteq> [] \<Longrightarrow> \<forall>t\<in>set ts. t \<noteq> [] \<Longrightarrow> join sep ts \<noteq> []"
  by (cases ts; cases "tl ts") auto

lemma dot_char_iff: "dot_char x \<longleftrightarrow> x \<noteq> CHR 0x0A \<and> x \<noteq> CHR 0x0D"
proof -
  have n: "(10::nat) = of_char (CHR 0x0A)" "(13::nat) = of_char (CHR 0x0D)" by simp_all
  show ?thesis unfolding dot_char_def Let_def n of_char_eq_iff by simp
qed

lemma metachar_dot: "\<not> rx_test METACHAR_RE c \<Longrightarrow> x \<in> set c \<Longrightarrow> dot_char x"
  unfolding METACHAR_RE_def rx_test_class cls_def dot_char_iff by auto

lemma derived_command:
  assumes "derivePattern now opts = Inr d" and "do_toolName opts = None"
  shows "\<not> rx_test METACHAR_RE (js_trim (do_command opts)) \<and> tokenize (js_trim (do_command opts)) \<noteq> []
    \<and> validatePattern (dp_pattern d) = [] \<and> dp_binary d = hd (tokenize (js_trim (do_command opts)))
    \<and> dp_pattern d = command_pattern (dp_method d) (tokenize (js_trim (do_command opts)))"
  using assms by (auto simp: derivePattern_def Let_def split: if_splits option.splits)

lemma denotes_prefix:
  assumes v: "validatePattern (q @ '' *'') = []" and n: "n = q \<or> (\<exists>a. n = q @ '' '' @ a \<and> a \<noteq> [] \<and> (\<forall>c\<in>set a. dot_char c))"
  shows "denotes (q @ '' *'') n"
  using hd_split_denotes [OF v] n unfolding denotes_def Let_def split_star by simp

text \<open>The command's second token is no flag, or there is no positional argument to pick.\<close>

definition positional_first :: "string list \<Rightarrow> bool" where
  "positional_first tokens \<longleftrightarrow> first_positional tokens = None
     \<or> (\<exists>b p rest. tokens = b # p # rest \<and> first_positional tokens = Some p)"

lemma command_pattern_head:
  assumes "tokens \<noteq> []"
  shows "command_pattern m tokens = hd tokens \<or> (\<exists>rest. command_pattern m tokens = hd tokens @ '' '' @ rest)"
proof (cases tokens)
  case (Cons b ts)
  then show ?thesis
    by (cases m; cases ts; cases "first_positional tokens") (auto simp: command_pattern_def)
qed (use assms in simp)

lemma command_pattern_denotes:
  assumes v: "validatePattern (command_pattern m tokens) = []" and "tokens \<noteq> []"
    and m: "m = MExact \<or> positional_first tokens"
    and tok: "\<forall>t\<in>set tokens. t \<noteq> []" and dot: "\<forall>t\<in>set tokens. \<forall>c\<in>set t. dot_char c"
  shows "denotes (command_pattern m tokens) (join '' '' tokens)"
proof (cases "m = MExact \<or> length tokens = 1")
  case True
  then have "command_pattern m tokens = join '' '' tokens"
    using \<open>tokens \<noteq> []\<close> by (cases tokens; cases m) (auto simp: command_pattern_def)
  with denotes_self [OF v] show ?thesis by simp
next
  case False
  then have m: "m = MDefault" and pf: "positional_first tokens" using m by (cases m; simp)+
  from False \<open>tokens \<noteq> []\<close> obtain b t ts where ts: "tokens = b # t # ts"
    by (cases tokens; cases "tl tokens") auto
  have sp: "dot_char (CHR '' '')" by code_simp
  have rest: "join '' '' xs \<noteq> [] \<and> (\<forall>c\<in>set (join '' '' xs). dot_char c)" if "xs \<noteq> []" "set xs \<subseteq> set tokens" for xs
  proof
    show "join '' '' xs \<noteq> []" using that tok by (intro join_nonempty) auto
    show "\<forall>c\<in>set (join '' '' xs). dot_char c"
    proof
      fix c assume "c \<in> set (join '' '' xs)"
      with join_chars [of "'' ''" xs] have "c = CHR '' '' \<or> (\<exists>t\<in>set xs. c \<in> set t)" by auto
      with sp dot that(2) show "dot_char c" by blast
    qed
  qed
  show ?thesis
  proof (cases "first_positional tokens")
    case None
    then have cp: "command_pattern m tokens = b @ '' *''" using m ts by (simp add: command_pattern_def)
    have "join '' '' tokens = b @ '' '' @ join '' '' (t # ts)" using ts by simp
    with denotes_prefix [of b "join '' '' tokens"] v rest [of "t # ts"] ts show ?thesis unfolding cp by auto
  next
    case (Some p)
    with pf ts have p: "p = t" by (auto simp: positional_first_def)
    then have cp: "command_pattern m tokens = (b @ '' '' @ t) @ '' *''"
      using m ts Some by (simp add: command_pattern_def)
    have n: "join '' '' tokens = (if ts = [] then b @ '' '' @ t else (b @ '' '' @ t) @ '' '' @ join '' '' ts)"
      using ts by (cases ts) simp_all
    show ?thesis
      unfolding cp by (rule denotes_prefix [OF v [unfolded cp]]) (use n rest [of ts] ts in auto)
  qed
qed

text \<open>
  C38. A derived pattern is safe to store: when \<open>derivePattern\<close> accepts a command (no tool name given),
  the command has no shell metacharacter, the pattern is valid, every command text the pattern
  matches starts with the approved binary (when that is one word), and, for the exact method or when
  no flag stands between the binary and the first positional argument, the pattern matches the
  approved command itself.
\<close>

theorem derived_pattern_safe:
  assumes "derivePattern now opts = Inr d" and "do_toolName opts = None"
  shows "\<not> rx_test METACHAR_RE (js_trim (do_command opts))
    \<and> validatePattern (dp_pattern d) = []
    \<and> (CHR '' '' \<notin> set (dp_binary d) \<longrightarrow> (\<forall>n. denotes (dp_pattern d) n \<longrightarrow>
          n = dp_binary d \<or> prefix (dp_binary d @ '' '') n))
    \<and> (dp_method d = MExact \<or> positional_first (tokenize (js_trim (do_command opts))) \<longrightarrow>
        denotes (dp_pattern d) (normalizeCommand (do_command opts)))"
proof -
  let ?c = "js_trim (do_command opts)"
  from derived_command [OF assms] have d: "\<not> rx_test METACHAR_RE ?c" "tokenize ?c \<noteq> []"
    "validatePattern (dp_pattern d) = []" "dp_binary d = hd (tokenize ?c)"
    "dp_pattern d = command_pattern (dp_method d) (tokenize ?c)" by blast+
  have tok: "\<forall>t\<in>set (tokenize ?c). t \<noteq> []" using tokenize_tokens by blast
  have dot: "\<forall>t\<in>set (tokenize ?c). \<forall>c\<in>set t. dot_char c"
  proof (intro ballI)
    fix t c assume "t \<in> set (tokenize ?c)" "c \<in> set t"
    with tokenize_tokens have "c \<in> set ?c" by blast
    with metachar_dot [OF d(1)] show "dot_char c" .
  qed
  from command_pattern_denotes [OF d(3) [unfolded d(5)] d(2) _ tok dot]
  have self: "dp_method d = MExact \<or> positional_first (tokenize ?c) \<Longrightarrow> denotes (dp_pattern d) (normalizeCommand (do_command opts))"
    unfolding normalizeCommand_def d(5) .
  have bin: "n = dp_binary d \<or> prefix (dp_binary d @ '' '') n"
    if "CHR '' '' \<notin> set (dp_binary d)" "denotes (dp_pattern d) n" for n
  proof (rule denotes_binary [OF that(1) _ _ that(2)])
    show head: "dp_pattern d = dp_binary d \<or> (\<exists>rest. dp_pattern d = dp_binary d @ '' '' @ rest)"
      unfolding d(4,5) by (rule command_pattern_head [OF d(2)])
    have "hd (split_on (CHR '' '') (dp_pattern d)) = dp_binary d"
      using head
    proof
      assume "\<exists>rest. dp_pattern d = dp_binary d @ '' '' @ rest"
      then obtain rest where "dp_pattern d = dp_binary d @ CHR '' '' # rest" by auto
      then show ?thesis by (simp only: split_on_append_sep [OF that(1)] list.sel)
    qed (simp only: split_on_no_sep [OF that(1)] list.sel)
    moreover have "rx_test VALID_TOKEN_RE (hd (split_on (CHR '' '') (dp_pattern d)))"
      using validatePattern_Nil [OF d(3)] by (elim conjE)
    ultimately have "rx_test VALID_TOKEN_RE (dp_binary d)" by (simp only:)
    moreover have "\<not> rx_test VALID_TOKEN_RE ''*''" by (simp add: valid_token_iff)
    ultimately show "dp_binary d \<noteq> ''*''" by metis
  qed
  from bin have "CHR '' '' \<notin> set (dp_binary d) \<longrightarrow> (\<forall>n. denotes (dp_pattern d) n \<longrightarrow>
      n = dp_binary d \<or> prefix (dp_binary d @ '' '') n)" by iprover
  with d(1,3) self show ?thesis by iprover
qed

definition sample_derive :: derive_opts where
  "sample_derive = \<lparr>do_command = ''git commit -m fix'', do_method = None, do_toolName = None\<rparr>"

theorem derived_pattern_safe_witness:
  "\<exists>d. derivePattern 7 sample_derive = Inr d \<and> dp_pattern d = ''git commit *'' \<and> validatePattern (dp_pattern d) = []"
proof -
  have "map_sum id dp_pattern (derivePattern 7 sample_derive) = Inr ''git commit *''" by code_simp
  then obtain d where d: "derivePattern 7 sample_derive = Inr d" "dp_pattern d = ''git commit *''"
    by (cases "derivePattern 7 sample_derive") auto
  from derived_pattern_safe [OF d(1)] d show ?thesis by (simp add: sample_derive_def)
qed

text \<open>
  A flag before the first positional argument: the derived pattern does not match the approved
  command, and matches another one.
\<close>

lemma derived_pattern_skips_flag:
  "map_sum id dp_pattern (derivePattern 0 \<lparr>do_command = ''git -C dir commit'', do_method = None, do_toolName = None\<rparr>)
     = Inr ''git dir *''
   \<and> \<not> pattern_matches ''git dir *'' (normalizeCommand ''git -C dir commit'')
   \<and> pattern_matches ''git dir *'' (normalizeCommand ''git dir clean'')"
  by code_simp

text \<open>The exact method keeps a final \<open>*\<close> of the command, which the matcher reads as a wildcard.\<close>

lemma exact_pattern_wildcard:
  "map_sum id dp_pattern (derivePattern 0 \<lparr>do_command = ''ls *'', do_method = Some MExact, do_toolName = None\<rparr>)
     = Inr ''ls *''
   \<and> pattern_matches ''ls *'' (normalizeCommand ''ls -R secrets'')"
  by code_simp

text \<open>The matcher does not look at shell metacharacters in the arguments.\<close>

lemma wildcard_matches_compound:
  "pattern_matches ''git commit *'' (normalizeCommand ''git commit -m x && rm -rf dir'')"
  by code_simp

end
