(* ===== verification/Stage2.thy ===== *)
theory Stage2
  imports Pipeline AutoPermit
begin

text \<open>
  Stage 2 of the pipeline, \<open>src/enforcement/stage2-policy.ts\<close>: the evaluator over one enforcement
  engine, and the combined evaluator over the Cedar engine, the engine of the JSON rules and the two
  kinds of automatic approval. The engines are the state. The checkers of automatic approvals are
  functions of the caller (\<open>None\<close> when it passes none).
\<close>

section \<open>One engine\<close>

definition matched_priority :: "decision \<Rightarrow> int option" where
  "matched_priority result = (case dec_rule result of None \<Rightarrow> None | Some r \<Rightarrow> rule_priority r)"

definition staged :: "effect \<Rightarrow> string \<Rightarrow> string \<Rightarrow> int option \<Rightarrow> cee_decision" where
  "staged e reason stage priority = (cee e reason stage)\<lparr>ce_priority := priority\<rparr>"

definition effect_str :: "effect \<Rightarrow> string" where
  "effect_str e = (case e of Permit \<Rightarrow> ''permit'' | Forbid \<Rightarrow> ''forbid'')"

definition stage2_error :: cee_decision where
  "stage2_error = cee Forbid ''stage2_error'' ''stage2''"

definition createStage2 :: "int \<Rightarrow> engine stage" where
  "createStage2 now ctx eng =
     (case enforcement_evaluateByActionClass now (px_action_class ctx) (px_target ctx) (px_rule_context ctx) eng of
        (None, eng') \<Rightarrow> (Some stage2_error, eng')
      | (Some result, eng') \<Rightarrow>
          if dec_effect result = Forbid
          then (Some (staged Forbid (or_else (dec_reason result) ''forbid'') ''stage2'' (matched_priority result)), eng')
          else
            (let pass = cee (dec_effect result) (or_else (dec_reason result) (effect_str (dec_effect result))) ''stage2''
             in case px_intent_group ctx of
                  None \<Rightarrow> (Some pass, eng')
                | Some g \<Rightarrow>
                    (case evaluateByIntentGroup g (px_rule_context ctx) eng' of
                       (None, eng'') \<Rightarrow> (Some stage2_error, eng'')
                     | (Some ig, eng'') \<Rightarrow>
                         if dec_effect ig = Forbid
                         then (Some (staged Forbid (or_else (dec_reason ig) ''forbid'') ''stage2'' (matched_priority ig)), eng'')
                         else (Some pass, eng''))))"

definition createEnforcementEngine :: "rule list \<Rightarrow> engine" where
  "createEnforcementEngine rules =
     (let eng = new_engine None in if rules \<noteq> [] then addRules rules eng else eng)"

section \<open>The combined evaluator\<close>

definition HITL_PRIORITY_THRESHOLD :: int where
  "HITL_PRIORITY_THRESHOLD = 100"

definition IMPLICIT_DENY_PRIORITY :: int where
  "IMPLICIT_DENY_PRIORITY = 0"

definition isHitlGatedDecision :: "decision \<Rightarrow> bool" where
  "isHitlGatedDecision result =
     (case dec_rule result of
        None \<Rightarrow> True
      | Some r \<Rightarrow> (case rule_priority r of None \<Rightarrow> False | Some p \<Rightarrow> p < HITL_PRIORITY_THRESHOLD))"

definition toStagedForbid :: "decision \<Rightarrow> string \<Rightarrow> cee_decision" where
  "toStagedForbid result stage =
     staged Forbid (or_else (dec_reason result) ''forbid'') stage
       (case matched_priority result of
          Some p \<Rightarrow> Some p
        | None \<Rightarrow> if dec_rule result = None then Some IMPLICIT_DENY_PRIORITY else None)"

text \<open>The state: the Cedar engine and the JSON engine, if one is configured.\<close>

record engines =
  cedar :: engine
  jsonEng :: "engine option"

definition EXEC_ACTION_CLASSES :: "string list" where
  "EXEC_ACTION_CLASSES = [''shell.exec'', ''code.execute'', ''unknown_sensitive_action'']"

definition auto_command :: "string \<Rightarrow> pipeline_context \<Rightarrow> string" where
  "auto_command toolName ctx =
     (if px_action_class ctx \<in> set EXEC_ACTION_CLASSES then px_target ctx else toolName)"

text \<open>
  One evaluation of an engine inside the combined stage: a forbid is returned at once when it is
  unconditional (\<open>Inl\<close>), else the first one is kept (\<open>Inr\<close>).
\<close>

definition gate_result ::
  "decision \<Rightarrow> string \<Rightarrow> cee_decision option \<Rightarrow> cee_decision + cee_decision option" where
  "gate_result result stage pending =
     (if dec_effect result = Forbid
      then if isHitlGatedDecision result
           then Inr (case pending of None \<Rightarrow> Some (toStagedForbid result stage) | Some p \<Rightarrow> Some p)
           else Inl (toStagedForbid result stage)
      else Inr pending)"

definition cedar_part :: "int \<Rightarrow> pipeline_context \<Rightarrow> (engines, cee_decision + cee_decision option) eff" where
  "cedar_part now ctx es =
     (case evaluateByActionClass now (px_action_class ctx) (px_target ctx) (px_rule_context ctx) (cedar es) of
        (None, c) \<Rightarrow> (None, es\<lparr>cedar := c\<rparr>)
      | (Some result, c) \<Rightarrow> (Some (gate_result result ''cedar'' None), es\<lparr>cedar := c\<rparr>))"

definition json_part ::
  "int \<Rightarrow> string \<Rightarrow> pipeline_context \<Rightarrow> cee_decision option \<Rightarrow> (engines, cee_decision + cee_decision option) eff" where
  "json_part now toolName ctx pending es =
     (case jsonEng es of
        None \<Rightarrow> (Some (Inr pending), es)
      | Some j \<Rightarrow>
          (case evaluateByActionClass now (px_action_class ctx) (px_target ctx) (px_rule_context ctx) j of
             (None, j1) \<Rightarrow> (None, es\<lparr>jsonEng := Some j1\<rparr>)
           | (Some r1, j1) \<Rightarrow>
               (case gate_result r1 ''json-rules'' pending of
                  Inl d \<Rightarrow> (Some (Inl d), es\<lparr>jsonEng := Some j1\<rparr>)
                | Inr pending1 \<Rightarrow>
                    (case evaluate now RTool toolName (px_rule_context ctx) (Some (px_target ctx)) j1 of
                       (None, j2) \<Rightarrow> (None, es\<lparr>jsonEng := Some j2\<rparr>)
                     | (Some r2, j2) \<Rightarrow>
                         (Some (gate_result r2 ''json-rules'' pending1), es\<lparr>jsonEng := Some j2\<rparr>)))))"

text \<open>The loop over the engines for the intent group: the first forbid of a rule ends it.\<close>

fun intent_loop ::
  "string \<Rightarrow> rule_context \<Rightarrow> (engine \<times> string) list \<Rightarrow> (cee_decision + cee_decision option) option" where
  "intent_loop g rctx [] = Some (Inr None)"
| "intent_loop g rctx ((eng, engStage) # rest) =
     (case fst (evaluateByIntentGroup g rctx eng) of
        None \<Rightarrow> None
      | Some ig \<Rightarrow>
          if dec_effect ig \<noteq> Forbid \<or> dec_rule ig = None then intent_loop g rctx rest
          else if isHitlGatedDecision ig then Some (Inr (Some (toStagedForbid ig engStage)))
          else Some (Inl (toStagedForbid ig engStage)))"

definition intent_engines :: "engines \<Rightarrow> (engine \<times> string) list" where
  "intent_engines es = (cedar es, ''cedar'')
     # (case jsonEng es of None \<Rightarrow> [] | Some j \<Rightarrow> [(j, ''json-rules'')])"

definition intent_part :: "pipeline_context \<Rightarrow> cee_decision option \<Rightarrow> (engines, cee_decision + cee_decision option) eff" where
  "intent_part ctx pending es =
     (case px_intent_group ctx of
        None \<Rightarrow> (Some (Inr pending), es)
      | Some g \<Rightarrow>
          if pending \<noteq> None then (Some (Inr pending), es)
          else (intent_loop g (px_rule_context ctx) (intent_engines es), es))"

definition all_passed :: cee_decision where
  "all_passed = cee Permit ''all_policies_passed'' ''stage2''"

text \<open>The engines in turn; a throw anywhere is \<open>stage2_error\<close>.\<close>

definition engines_part :: "int \<Rightarrow> string \<Rightarrow> engines stage" where
  "engines_part now toolName ctx es =
     (case cedar_part now ctx es of
        (None, es1) \<Rightarrow> (Some stage2_error, es1)
      | (Some (Inl d), es1) \<Rightarrow> (Some d, es1)
      | (Some (Inr p1), es1) \<Rightarrow>
          (case json_part now toolName ctx p1 es1 of
             (None, es2) \<Rightarrow> (Some stage2_error, es2)
           | (Some (Inl d), es2) \<Rightarrow> (Some d, es2)
           | (Some (Inr p2), es2) \<Rightarrow>
               (case intent_part ctx p2 es2 of
                  (None, es3) \<Rightarrow> (Some stage2_error, es3)
                | (Some (Inl d), es3) \<Rightarrow> (Some d, es3)
                | (Some (Inr None), es3) \<Rightarrow> (Some all_passed, es3)
                | (Some (Inr (Some d)), es3) \<Rightarrow> (Some d, es3))))"

definition createCombinedStage2 ::
  "int \<Rightarrow> string \<Rightarrow> (string \<Rightarrow> string \<Rightarrow> bool) option \<Rightarrow> (string \<Rightarrow> auto_permit option) option
     \<Rightarrow> engines stage" where
  "createCombinedStage2 now toolName autoPermit autoPermitRules ctx es =
     (if (case autoPermit of None \<Rightarrow> False
          | Some isAuto \<Rightarrow> isAuto (ctx_channel (px_rule_context ctx)) (px_action_class ctx))
      then (Some (cee Permit ''session_auto_approved'' ''stage2''), es)
      else case (case autoPermitRules of None \<Rightarrow> None
                 | Some matcher \<Rightarrow>
                     if auto_command toolName ctx = '''' then None
                     else matcher (auto_command toolName ctx)) of
        Some matched \<Rightarrow>
          (Some ((cee Permit ''auto_permit_rule'' ''auto-permit'')\<lparr>ce_rule := Some (ap_pattern matched)\<rparr>), es)
      | None \<Rightarrow> engines_part now toolName ctx es)"

end
