(* ===== verification/HitlDispatch.thy ===== *)
theory HitlDispatch
  imports Stage2 Adapter
begin

text \<open>
  HITL dispatch, \<open>src/enforcement/hitl-dispatch.ts\<close>. The function waits for the operator in the
  middle, so it is two steps: \<open>runWithHitl\<close> up to the promise of the approval request, and
  \<open>resumeWithHitl\<close> from the decision on. In between any other code may run on the state. The manager
  and \<open>issueCapability\<close> are operations of the caller's state.
\<close>

definition UNCONDITIONAL_FORBID_PRIORITY :: int where
  "UNCONDITIONAL_FORBID_PRIORITY = 100"

record 's dispatch_opts =
  ho_config :: hitl_config
  ho_create :: "approval_opts \<Rightarrow> 's \<Rightarrow> (string \<times> nat) \<times> 's"
  ho_issue :: "string \<Rightarrow> string \<Rightarrow> string \<Rightarrow> string option \<Rightarrow> ('s, capability) eff"
  ho_agentId :: string
  ho_channelId :: string

text \<open>Where the first step stops: with a result, or waiting on a promise with the first decision kept.\<close>

datatype dispatch = Finished cee_decision | Waiting nat cee_decision

definition hitl_request :: "'s dispatch_opts \<Rightarrow> pipeline_context \<Rightarrow> hitl_policy \<Rightarrow> approval_opts" where
  "hitl_request opts ctx policy =
     \<lparr>ao_toolName = px_action_class ctx, ao_agentId = ho_agentId opts, ao_channelId = ho_channelId opts,
      ao_policy = policy, ao_payload_hash = Some (px_payload_hash ctx),
      ao_action_class = Some (px_action_class ctx), ao_target = Some (px_target ctx), ao_summary = None,
      ao_session_id = px_session_id ctx, ao_mode = None\<rparr>"

definition hitl_gated :: "cee_decision \<Rightarrow> bool" where
  "hitl_gated d = (case ce_priority d of None \<Rightarrow> False | Some p \<Rightarrow> p < UNCONDITIONAL_FORBID_PRIORITY)"

definition runWithHitl ::
  "process_env \<Rightarrow> 's stage \<Rightarrow> 's stage \<Rightarrow> (cee_decision \<Rightarrow> ('s, unit) eff) \<Rightarrow> 's dispatch_opts
     \<Rightarrow> pipeline_context \<Rightarrow> ('s, dispatch) eff" where
  "runWithHitl env stage1 stage2 emit opts ctx s =
     (case runPipeline env stage1 stage2 emit (ctx\<lparr>px_hitl_mode := HNone\<rparr>) s of
        (None, s1) \<Rightarrow> (None, s1)
      | (Some d, s1) \<Rightarrow>
          if ce_effect d = Permit then (Some (Finished d), s1)
          else if \<not> hitl_gated d then (Some (Finished d), s1)
          else (let chk = checkAction (ho_config opts) (px_action_class ctx)
                in case matchedPolicy chk of
                     None \<Rightarrow> (Some (Finished d), s1)
                   | Some policy \<Rightarrow>
                       if \<not> requiresApproval chk then (Some (Finished d), s1)
                       else (case ho_create opts (hitl_request opts ctx policy) s1 of
                               ((token, promise), s2) \<Rightarrow> (Some (Waiting promise d), s2))))"

text \<open>The wrapped stage 2 of the re-run: a releasable forbid becomes a permit.\<close>

definition approvedStage2 :: "'s stage \<Rightarrow> 's stage" where
  "approvedStage2 stage2 ctx s =
     (case stage2 ctx s of
        (None, s') \<Rightarrow> (None, s')
      | (Some d, s') \<Rightarrow>
          (Some (if ce_effect d = Forbid \<and> hitl_gated d then cee Permit ''hitl_approved'' ''hitl'' else d), s'))"

definition resumeWithHitl ::
  "process_env \<Rightarrow> 's stage \<Rightarrow> 's stage \<Rightarrow> (cee_decision \<Rightarrow> ('s, unit) eff) \<Rightarrow> 's dispatch_opts
     \<Rightarrow> pipeline_context \<Rightarrow> cee_decision \<Rightarrow> outcome \<Rightarrow> ('s, cee_decision) eff" where
  "resumeWithHitl env stage1 stage2 emit opts ctx firstResult decision s =
     (if decision = Approved
      then (case ho_issue opts (px_action_class ctx) (px_target ctx) (px_payload_hash ctx) (px_session_id ctx) s of
              (None, s') \<Rightarrow> (None, s')
            | (Some capability, s') \<Rightarrow>
                runPipeline env stage1 (approvedStage2 stage2) emit
                  (ctx\<lparr>px_hitl_mode := PerRequest, px_approval_id := Some (cap_approval_id capability)\<rparr>) s')
      else (Some (cee Forbid (ce_reason firstResult) ''hitl''), s))"

end
