(* ===== verification/Sensitive.thy ===== *)
theory Sensitive
  imports JsRegex
begin

text \<open>
  Detection of sensitive data: \<open>src/enforcement/pii-classifier.ts\<close> and its wrapper
  \<open>src/enforcement/classify-payload.ts\<close>. The patterns are the source's, as syntax trees.
\<close>

datatype pii_category = Ssn | CreditCard | Iban | PrivateKey | Credential

record pii_result =
  pr_hasPii :: bool
  pr_categories :: "pii_category list"

section \<open>Patterns\<close>

abbreviation rx_digit :: rx where
  "rx_digit \<equiv> RClass is_digit"

abbreviation rx_space :: rx where
  "rx_space \<equiv> RClass js_space"

definition SSN_RE :: rx where
  "SSN_RE = rx_seq [RWordB, rx_times 3 rx_digit, rx_chr CHR ''-'', rx_times 2 rx_digit, rx_chr CHR ''-'',
     rx_times 4 rx_digit, RWordB]"

definition rx_sep :: rx where
  "rx_sep = rx_opt (RClass (cls '' -''))"

definition CC_CANDIDATE_RE :: rx where
  "CC_CANDIDATE_RE = rx_seq [RWordB,
     rx_alt
       [rx_seq [rx_times 4 rx_digit, rx_sep, rx_times 4 rx_digit, rx_sep, rx_times 4 rx_digit, rx_sep,
          rx_times 4 rx_digit],
        rx_seq [rx_times 4 rx_digit, rx_sep, rx_times 6 rx_digit, rx_sep, rx_times 5 rx_digit],
        rx_times 13 rx_digit],
     RWordB]"

definition upper_digit :: "char \<Rightarrow> bool" where
  "upper_digit c \<longleftrightarrow> is_upper c \<or> is_digit c"

definition IBAN_RE :: rx where
  "IBAN_RE = rx_seq [RWordB, rx_times 2 (RClass is_upper), rx_times 2 rx_digit,
     rx_alt
       [rx_range 11 30 (RClass upper_digit),
        RSeq (rx_plus (RSeq rx_space (rx_times 4 (RClass upper_digit))))
             (rx_opt (RSeq rx_space (rx_range 1 4 (RClass upper_digit))))],
     RWordB]"

definition PRIVATE_KEY_RE :: rx where
  "PRIVATE_KEY_RE = rx_seq [rx_lit ''-----BEGIN '',
     rx_opt (rx_alt [rx_lit ''RSA '', rx_lit ''EC '', rx_lit ''OPENSSH '']),
     rx_lit ''PRIVATE KEY-----'']"

definition CREDENTIAL_RE :: rx where
  "CREDENTIAL_RE = rx_seq [RWordB,
     rx_alt [rx_lit_ci ''password'', rx_lit_ci ''passwd'', rx_lit_ci ''secret'',
       rx_seq [rx_lit_ci ''api'', rx_opt (RClass (cls ''_-'')), rx_lit_ci ''key''],
       rx_seq [rx_lit_ci ''access'', rx_opt (RClass (cls ''_-'')), rx_lit_ci ''token''],
       rx_seq [rx_lit_ci ''auth'', rx_opt (RClass (cls ''_-'')), rx_lit_ci ''token'']],
     RStar rx_space, RClass (cls '':=''), RStar rx_space, rx_plus (RClass (\<lambda>c. \<not> js_space c))]"

section \<open>Luhn checksum\<close>

text \<open>\<open>parseInt(d, 10)\<close> of one digit.\<close>

definition digit_of :: "char \<Rightarrow> nat" where
  "digit_of c = of_char c - 48"

definition luhn_digit :: "bool \<Rightarrow> nat \<Rightarrow> nat" where
  "luhn_digit alt n = (if alt then (let m = n * 2 in if m > 9 then m - 9 else m) else n)"

text \<open>The loop runs from the last digit to the first.\<close>

fun luhn_loop :: "bool \<Rightarrow> nat \<Rightarrow> string \<Rightarrow> nat" where
  "luhn_loop alt acc [] = acc"
| "luhn_loop alt acc (d # ds) = luhn_loop (\<not> alt) (acc + luhn_digit alt (digit_of d)) ds"

definition luhnCheck :: "string \<Rightarrow> bool" where
  "luhnCheck digits \<longleftrightarrow> luhn_loop False 0 (rev digits) mod 10 = 0"

section \<open>Detectors\<close>

definition strip_sep :: "string \<Rightarrow> string" where
  "strip_sep m = filter (\<lambda>c. c \<noteq> CHR '' '' \<and> c \<noteq> CHR ''-'') m"

definition card_ok :: "string \<Rightarrow> bool" where
  "card_ok m \<longleftrightarrow> (let digits = strip_sep m
     in 13 \<le> length digits \<and> length digits \<le> 19 \<and> luhnCheck digits)"

definition detectCreditCard :: "string \<Rightarrow> bool" where
  "detectCreditCard text \<longleftrightarrow> list_ex card_ok (rx_match_all CC_CANDIDATE_RE text)"

definition detectSensitiveData :: "string \<Rightarrow> pii_result" where
  "detectSensitiveData text =
     (let categories =
            (if rx_test SSN_RE text then [Ssn] else [])
            @ (if detectCreditCard text then [CreditCard] else [])
            @ (if rx_test IBAN_RE text then [Iban] else [])
            @ (if rx_test PRIVATE_KEY_RE text then [PrivateKey] else [])
            @ (if rx_test CREDENTIAL_RE text then [Credential] else [])
      in \<lparr>pr_hasPii = (length categories > 0), pr_categories = categories\<rparr>)"

text \<open>\<open>classifyPayload\<close>: the detectors, then the patterns of the caller.\<close>

record payload_classification =
  pc_hasPii :: bool
  pc_categories :: "pii_category list"
  pc_customMatched :: bool

definition classifyPayload :: "string \<Rightarrow> rx list option \<Rightarrow> payload_classification" where
  "classifyPayload text customPatterns =
     (let pii = detectSensitiveData text;
          customMatched = (case customPatterns of None \<Rightarrow> False | Some ps \<Rightarrow> list_ex (\<lambda>re. rx_test re text) ps)
      in \<lparr>pc_hasPii = (pr_hasPii pii \<or> customMatched), pc_categories = pr_categories pii,
          pc_customMatched = customMatched\<rparr>)"

section \<open>The checksum catches single-digit errors\<close>

lemma luhn_loop_acc: "luhn_loop alt acc ds = acc + luhn_loop alt 0 ds"
proof (induction ds arbitrary: alt acc)
  case (Cons d ds)
  show ?case
    using Cons.IH [of "\<not> alt" "acc + luhn_digit alt (digit_of d)"]
      Cons.IH [of "\<not> alt" "luhn_digit alt (digit_of d)"] by simp
qed simp

lemma luhn_loop_append:
  "luhn_loop alt 0 (xs @ ys) = luhn_loop alt 0 xs + luhn_loop (if even (length xs) then alt else \<not> alt) 0 ys"
proof (induction xs arbitrary: alt)
  case (Cons x xs)
  then show ?case
    using luhn_loop_acc [of "\<not> alt" "luhn_digit alt (digit_of x)" "xs @ ys"]
      luhn_loop_acc [of "\<not> alt" "luhn_digit alt (digit_of x)" xs] by simp
qed simp

lemma digit_of_less: "is_digit c \<Longrightarrow> digit_of c < 10"
  unfolding is_digit_def digit_of_def Let_def by arith

lemma digit_of_inj:
  assumes "is_digit c" and "is_digit d" and "digit_of c = digit_of d"
  shows "c = d"
proof -
  from assms have "(of_char c :: nat) = of_char d"
    unfolding is_digit_def digit_of_def Let_def by arith
  then show ?thesis by (rule of_char_eq_iff [THEN iffD1])
qed

lemma luhn_digit_less: "n < 10 \<Longrightarrow> luhn_digit alt n < 10"
  unfolding luhn_digit_def Let_def by (cases alt) (simp_all, arith)

lemma luhn_digit_inj: "m < 10 \<Longrightarrow> n < 10 \<Longrightarrow> luhn_digit alt m = luhn_digit alt n \<Longrightarrow> m = n"
  by (auto simp: luhn_digit_def Let_def split: if_splits) presburger+

text \<open>Changing one digit moves the sum by less than ten and not by zero.\<close>

lemma luhn_sum_change:
  assumes "is_digit c" and "is_digit d" and "c \<noteq> d"
  shows "luhn_loop alt 0 (xs @ c # ys) mod 10 \<noteq> luhn_loop alt 0 (xs @ d # ys) mod 10"
proof -
  define b where "b = (if even (length xs) then alt else \<not> alt)"
  define k where "k = luhn_loop alt 0 xs + luhn_loop (\<not> b) 0 ys"
  have sum: "luhn_loop alt 0 (xs @ e # ys) = k + luhn_digit b (digit_of e)" for e
    using luhn_loop_acc [of "\<not> b" "luhn_digit b (digit_of e)" ys]
    by (simp add: luhn_loop_append b_def k_def)
  have ne: "luhn_digit b (digit_of c) \<noteq> luhn_digit b (digit_of d)"
    using luhn_digit_inj digit_of_less digit_of_inj assms by blast
  have lt: "luhn_digit b (digit_of c) < 10" "luhn_digit b (digit_of d) < 10"
    using assms by (simp_all add: luhn_digit_less digit_of_less)
  have step: "(k + m) mod 10 \<noteq> (k + n) mod 10" if "m < 10" "n < 10" "m \<noteq> n" for m n :: nat
  proof -
    have "(k + m) mod 10 \<noteq> (k + n) mod 10" if "m < n" "n < 10" for m n :: nat
      using that mod_eq_dvd_iff_nat [of "k + m" "k + n" 10] by (auto dest: dvd_imp_le)
    from this [of m n] this [of n m] that show ?thesis by fastforce
  qed
  show ?thesis
    unfolding sum by (rule step [OF lt ne])
qed

end
