(* ===== verification/Rules.thy ===== *)
theory Rules
  imports Sensitive PolicyEngine Normalize
begin

text \<open>
  The rule sets the plugin ships and the files rules come from: \<open>src/policy/rules/default.ts\<close> and
  \<open>src/policy/rules/index.ts\<close>, the install mode of \<open>src/policy/mode.ts\<close> with the start-up part of
  \<open>src/index.ts\<close> that reads it, the manifest of \<open>src/policy/exporter.ts\<close>, and the validation of
  bundles in \<open>src/policy/bundle.ts\<close> and \<open>src/policy/loader.ts\<close>. A rule object's identity is its
  position in the literal. The TypeBox schemas are written out as predicates on JSON values; the
  text of the library's own error messages is a parameter.
\<close>

section \<open>Default rules\<close>

definition default_rule :: "nat \<Rightarrow> string \<Rightarrow> effect \<Rightarrow> int \<Rightarrow> string \<Rightarrow> string list \<Rightarrow> rule" where
  "default_rule i ac e p reason tags =
     \<lparr>rule_id = i, rule_effect = e, rule_resource = None, rule_match = None, rule_condition = None,
      rule_reason = Some reason, rule_tags = Some tags, rule_rateLimit = None,
      rule_action_class = Some ac, rule_intent_group = None, rule_target_match = None,
      rule_target_in = None, rule_priority = Some p\<rparr>"

text \<open>The condition of the card-data rule: it looks at \<open>ctx.metadata?.payload\<close>.\<close>

definition card_condition :: "rule_context \<Rightarrow> bool option" where
  "card_condition ctx =
     Some (case ctx_metadata ctx of
        None \<Rightarrow> False
      | Some md \<Rightarrow>
          (case map_of md ''payload'' of
             Some (JStr payload) \<Rightarrow>
               if length payload = 0 then False
               else CreditCard \<in> set (pr_categories (detectSensitiveData payload))
           | _ \<Rightarrow> False))"

definition card_rule :: rule where
  "card_rule =
     \<lparr>rule_id = 5, rule_effect = Forbid, rule_resource = None, rule_match = None,
      rule_condition = Some card_condition,
      rule_reason = Some ''Action payload contains card data; human-in-the-loop approval required'',
      rule_tags = Some [''pii'', ''card-data'', ''hitl''], rule_rateLimit = None,
      rule_action_class = None, rule_intent_group = Some ''external_send'', rule_target_match = None,
      rule_target_in = None, rule_priority = Some 90\<rparr>"

definition DEFAULT_RULES :: "rule list" where
  "DEFAULT_RULES =
    [default_rule 0 ''filesystem.read'' Permit 10 ''Filesystem read operations are permitted for all agents''
       [''filesystem'', ''read-only''],
     default_rule 1 ''payment.initiate'' Forbid 90 ''Payment initiation requires human-in-the-loop approval''
       [''payment'', ''hitl''],
     default_rule 2 ''credential.read'' Forbid 90 ''Credential reads require human-in-the-loop approval''
       [''credential'', ''hitl''],
     default_rule 3 ''credential.write'' Forbid 90 ''Credential write operations require human-in-the-loop approval''
       [''credential'', ''hitl''],
     default_rule 4 ''credential.rotate'' Forbid 90 ''Credential rotation requires human-in-the-loop approval''
       [''credential'', ''hitl''],
     card_rule,
     default_rule 6 ''filesystem.delete'' Forbid 90 ''Filesystem delete operations require human-in-the-loop approval''
       [''filesystem'', ''destructive'', ''hitl''],
     default_rule 7 ''shell.exec'' Forbid 90 ''Shell execution requires human-in-the-loop approval''
       [''system'', ''security'', ''hitl''],
     default_rule 8 ''code.execute'' Forbid 100 ''Arbitrary code execution is unconditionally forbidden''
       [''system'', ''security''],
     default_rule 9 ''unknown_sensitive_action'' Forbid 100 ''Unknown sensitive actions are unconditionally forbidden''
       [''security'']]"

definition CRITICAL_ACTION_CLASSES :: "string list" where
  "CRITICAL_ACTION_CLASSES =
     [''shell.exec'', ''code.execute'', ''payment.initiate'', ''credential.read'', ''credential.write'',
      ''credential.rotate'']"

definition OPEN_MODE_RULES :: "rule list" where
  "OPEN_MODE_RULES =
     filter (\<lambda>r. case rule_action_class r of None \<Rightarrow> False | Some ac \<Rightarrow> ac \<in> set CRITICAL_ACTION_CLASSES)
       DEFAULT_RULES"

definition mergeRules :: "rule list \<Rightarrow> rule list \<Rightarrow> rule list" where
  "mergeRules agentSpecificRules baseRules = agentSpecificRules @ baseRules"

definition allRules :: "rule list" where
  "allRules = mergeRules [] DEFAULT_RULES"

section \<open>Install mode\<close>

datatype claw_mode = OpenMode | ClosedMode

text \<open>\<open>String(v)\<close>: an array joins its elements, an object has a fixed text.\<close>

primrec js_String :: "json \<Rightarrow> string" where
  "js_String JUndef = ''undefined''"
| "js_String JNull = ''null''"
| "js_String (JBool b) = (if b then ''true'' else ''false'')"
| "js_String (JNum i) = int_str i"
| "js_String (JStr s) = s"
| "js_String (JArr vs) =
     join '','' (map (\<lambda>p. if fst p = JNull \<or> fst p = JUndef then '''' else snd p)
       (map (\<lambda>v. (v, js_String v)) vs))"
| "js_String (JObj kvs) = ''[object Object]''"

definition resolveModeValue :: "json \<Rightarrow> claw_mode" where
  "resolveModeValue rawValue =
     (let raw = (case rawValue of
            JStr s \<Rightarrow> Some (js_lower (js_trim s))
          | JUndef \<Rightarrow> None | JNull \<Rightarrow> None
          | v \<Rightarrow> Some (js_lower (js_trim (js_String v))))
      in if raw = Some ''closed'' then ClosedMode
         else if raw = Some ''open'' \<or> raw = None \<or> raw = Some '''' then OpenMode
         else OpenMode)"

definition resolveMode :: "string option \<Rightarrow> claw_mode" where
  "resolveMode env = resolveModeValue (case env of None \<Rightarrow> JUndef | Some s \<Rightarrow> JStr s)"

definition modeToDefaultEffect :: "claw_mode \<Rightarrow> effect" where
  "modeToDefaultEffect m = (if m = OpenMode then Permit else Forbid)"

text \<open>
  \<open>resolveInitialMode\<close>: \<open>file\<close> is the content of \<open>data/mode.json\<close> (\<open>None\<close>: there is none,
  \<open>Some None\<close>: reading failed), \<open>json_parse\<close> the parser of the standard library.
\<close>

definition resolveInitialMode ::
  "(string \<Rightarrow> json option) \<Rightarrow> string option \<Rightarrow> string option option \<Rightarrow> claw_mode" where
  "resolveInitialMode json_parse env file =
     (let envMode = resolveMode env
      in case file of
           None \<Rightarrow> envMode
         | Some None \<Rightarrow> envMode
         | Some (Some text) \<Rightarrow>
             (let raw = js_trim text
              in if length raw = 0 then envMode
                 else case json_parse raw of
                   None \<Rightarrow> envMode
                 | Some parsed \<Rightarrow>
                     resolveModeValue
                       (case parsed of
                          JStr s \<Rightarrow> JStr s
                        | JObj kvs \<Rightarrow> (case map_of kvs ''mode'' of Some v \<Rightarrow> v | None \<Rightarrow> JUndef)
                        | _ \<Rightarrow> JUndef)))"

definition activeRules :: "claw_mode \<Rightarrow> rule list" where
  "activeRules m = (if m = OpenMode then OPEN_MODE_RULES else allRules)"

text \<open>The engine the plugin starts with.\<close>

definition startup_engine :: "claw_mode \<Rightarrow> engine" where
  "startup_engine m = addRules (activeRules m) (new_engine (Some (modeToDefaultEffect m)))"

end
