(* ===== verification/Identity.thy ===== *)
theory Identity
  imports PolicyEngine
begin

text \<open>
  The identity registry, \<open>src/identity.ts\<close>, with the view of a claim the handlers use
  (\<open>resolveIdentity\<close> of \<open>src/index.ts\<close>), and the coverage map of \<open>src/policy/coverage.ts\<close>. Both are
  \<open>Map\<close> objects of the host.
\<close>

section \<open>Registry\<close>

record registered_agent =
  ra_agentId :: string
  ra_allowedChannels :: "string list"
  ra_role :: "string option"

type_synonym registry = "(string, registered_agent) jsmap"

text \<open>\<open>register\<close>: the errors are thrown, and leave the map as it was.\<close>

definition register :: "registered_agent \<Rightarrow> registry \<Rightarrow> string + registry" where
  "register agent m =
     (if ra_agentId agent = '''' then Inl ''agentId is required''
      else if length (ra_allowedChannels agent) = 0 then Inl ''allowedChannels must be a non-empty array''
      else Inr (AList.update (ra_agentId agent) agent m))"

text \<open>\<open>registerMany\<close>: entries before the first bad one stay registered.\<close>

fun registerMany :: "registered_agent list \<Rightarrow> registry \<Rightarrow> string option \<times> registry" where
  "registerMany [] m = (None, m)"
| "registerMany (a # as) m =
     (case register a m of Inl e \<Rightarrow> (Some e, m) | Inr m' \<Rightarrow> registerMany as m')"

definition unregister :: "string \<Rightarrow> registry \<Rightarrow> bool \<times> registry" where
  "unregister agentId m = (map_of m agentId \<noteq> None, AList.delete agentId m)"

definition get_agent :: "string \<Rightarrow> registry \<Rightarrow> registered_agent option" where
  "get_agent agentId m = map_of m agentId"

definition list_agents :: "registry \<Rightarrow> registered_agent list" where
  "list_agents m = map snd m"

record verification =
  vf_verified :: bool
  vf_agent :: "registered_agent option"

definition verify :: "string \<Rightarrow> string \<Rightarrow> registry \<Rightarrow> verification" where
  "verify agentId channel m =
     (if length m = 0 then \<lparr>vf_verified = True, vf_agent = None\<rparr>
      else case map_of m agentId of
        None \<Rightarrow> \<lparr>vf_verified = False, vf_agent = None\<rparr>
      | Some registered \<Rightarrow>
          (let channelAllowed = (channel \<in> set (ra_allowedChannels registered))
           in \<lparr>vf_verified = channelAllowed, vf_agent = (if channelAllowed then Some registered else None)\<rparr>))"

text \<open>\<open>buildRuleContext\<close> without extras, as every caller in the plugin calls it.\<close>

definition buildRuleContext :: "string \<Rightarrow> string \<Rightarrow> registry \<Rightarrow> rule_context" where
  "buildRuleContext agentId channel m =
     \<lparr>ctx_agentId = agentId, ctx_channel = channel, ctx_verified = Some (vf_verified (verify agentId channel m)),
      ctx_userId = None, ctx_sessionId = None, ctx_metadata = None\<rparr>"

section \<open>The view of a claim\<close>

record resolved_identity =
  id_verified :: bool
  id_agentId :: string
  id_channel :: string
  id_auditAgentId :: string
  id_auditChannel :: string

definition resolveIdentity :: "string option \<Rightarrow> string option \<Rightarrow> registry \<Rightarrow> resolved_identity" where
  "resolveIdentity agentId channelId m =
     (let claimedAgent = (case agentId of Some a \<Rightarrow> a | None \<Rightarrow> ''unknown'');
          claimedChannel = (case channelId of Some c \<Rightarrow> (if c = '''' then ''default'' else c) | None \<Rightarrow> ''default'');
          verified = vf_verified (verify claimedAgent claimedChannel m)
      in \<lparr>id_verified = verified, id_agentId = claimedAgent, id_channel = claimedChannel,
          id_auditAgentId = (if verified then claimedAgent else ''unverified:'' @ claimedAgent),
          id_auditChannel = (if verified then claimedChannel else ''unverified:'' @ claimedChannel)\<rparr>)"

section \<open>Coverage map\<close>

datatype coverage_state = CPermit | CForbid | CRateLimited

record coverage_cell =
  cc_state :: coverage_state
  cc_hitCount :: nat
  cc_lastHitAt :: int
  cc_rateLimit :: "rate_limit option"

type_synonym coverage = "(string, coverage_cell) jsmap"

definition resource_str :: "resource \<Rightarrow> string" where
  "resource_str r = (case r of
     RTool \<Rightarrow> ''tool'' | RCommand \<Rightarrow> ''command'' | RChannel \<Rightarrow> ''channel'' | RPrompt \<Rightarrow> ''prompt''
   | RModel \<Rightarrow> ''model'' | RFile \<Rightarrow> ''file'' | RExternal \<Rightarrow> ''external'' | RPayment \<Rightarrow> ''payment''
   | RSystem \<Rightarrow> ''system'' | RCredential \<Rightarrow> ''credential'' | RWeb \<Rightarrow> ''web'' | RMemory \<Rightarrow> ''memory''
   | RUnknown \<Rightarrow> ''unknown'')"

definition cellKey :: "resource \<Rightarrow> string \<Rightarrow> string" where
  "cellKey r name = resource_str r @ ''::'' @ name"

definition record_hit :: "int \<Rightarrow> resource \<Rightarrow> string \<Rightarrow> coverage_state \<Rightarrow> rule option \<Rightarrow> coverage \<Rightarrow> coverage" where
  "record_hit now r name st matchedRule m =
     (let key = cellKey r name;
          existing = map_of m key;
          hitCount = (case existing of None \<Rightarrow> 0 | Some c \<Rightarrow> cc_hitCount c) + 1;
          ruleLimit = (case matchedRule of None \<Rightarrow> None | Some rl \<Rightarrow> rule_rateLimit rl);
          rateLimit = (case ruleLimit of Some l \<Rightarrow> Some l
                       | None \<Rightarrow> (case existing of None \<Rightarrow> None | Some c \<Rightarrow> cc_rateLimit c))
      in AList.update key \<lparr>cc_state = st, cc_hitCount = hitCount, cc_lastHitAt = now, cc_rateLimit = rateLimit\<rparr> m)"

definition get_cell :: "resource \<Rightarrow> string \<Rightarrow> coverage \<Rightarrow> coverage_cell option" where
  "get_cell r name m = map_of m (cellKey r name)"

text \<open>\<open>key.slice(0, key.indexOf('::'))\<close> and \<open>key.slice(sep + 2)\<close>: the parts around the first \<open>::\<close>.\<close>

fun split_key :: "string \<Rightarrow> string \<times> string" where
  "split_key [] = ([], [])"
| "split_key [c] = ([], [])"
| "split_key (c # d # cs) =
     (if c = CHR '':'' \<and> d = CHR '':'' then ([], cs)
      else (case split_key (d # cs) of (a, b) \<Rightarrow> (c # a, b)))"

definition entries :: "coverage \<Rightarrow> ((string \<times> string) \<times> coverage_cell) list" where
  "entries m = map (\<lambda>(key, cell). (split_key key, cell)) m"

definition reset_coverage :: "coverage \<Rightarrow> coverage" where
  "reset_coverage m = []"

end
