(* ===== verification/Budget.thy ===== *)
theory Budget
  imports Prelude Complex_Main
begin

text \<open>
  The token budget: the price table of \<open>src/budget/pricing.ts\<close> and the tracker of
  \<open>src/budget/tracker.ts\<close>. Costs are exact rationals where the source has doubles. The log is the
  list of the entries written to it; a failed write is caught by the source and changes nothing else,
  so it only leaves the log as it was. \<open>JSON.parse\<close> of a log line is a parameter. Model names that
  are members of every object (\<open>toString\<close>, \<open>constructor\<close>) are outside the model: the table lookup of
  the source finds the inherited member for them.
\<close>

section \<open>Prices\<close>

record model_pricing =
  mp_input :: rat
  mp_output :: rat

definition PRICING :: "(string \<times> model_pricing) list" where
  "PRICING =
    [(''claude-opus-4-6'', \<lparr>mp_input = 15, mp_output = 75\<rparr>),
     (''claude-sonnet-4-6'', \<lparr>mp_input = 3, mp_output = 15\<rparr>),
     (''claude-haiku-4-5'', \<lparr>mp_input = 4 / 5, mp_output = 4\<rparr>),
     (''claude-3-5-sonnet'', \<lparr>mp_input = 3, mp_output = 15\<rparr>),
     (''claude-3-5-haiku'', \<lparr>mp_input = 4 / 5, mp_output = 4\<rparr>),
     (''claude-3-opus'', \<lparr>mp_input = 15, mp_output = 75\<rparr>),
     (''claude-3-sonnet'', \<lparr>mp_input = 3, mp_output = 15\<rparr>),
     (''claude-3-haiku'', \<lparr>mp_input = 1 / 4, mp_output = 5 / 4\<rparr>),
     (''default'', \<lparr>mp_input = 3, mp_output = 15\<rparr>)]"

text \<open>The loop over the keys: the longest key that is a prefix, the first of several.\<close>

fun best_key :: "string \<Rightarrow> string option \<Rightarrow> string list \<Rightarrow> string option" where
  "best_key model best [] = best"
| "best_key model best (key # keys) =
     (if key = ''default'' then best_key model best keys
      else if starts_with model key \<and> (case best of None \<Rightarrow> True | Some b \<Rightarrow> length b < length key)
      then best_key model (Some key) keys
      else best_key model best keys)"

definition price_of :: "string \<Rightarrow> model_pricing" where
  "price_of key = (case map_of PRICING key of Some p \<Rightarrow> p | None \<Rightarrow> \<lparr>mp_input = 0, mp_output = 0\<rparr>)"

definition resolvePricing :: "string \<Rightarrow> model_pricing" where
  "resolvePricing model =
     (case map_of PRICING model of
        Some exact \<Rightarrow> exact
      | None \<Rightarrow>
          (case best_key model None (map fst PRICING) of
             Some k \<Rightarrow> price_of k
           | None \<Rightarrow> price_of ''default''))"

definition estimateCost :: "string \<Rightarrow> int \<Rightarrow> int \<Rightarrow> rat" where
  "estimateCost model inputTokens outputTokens =
     (let pricing = resolvePricing model
      in (of_int inputTokens / 1000000) * mp_input pricing
         + (of_int outputTokens / 1000000) * mp_output pricing)"

section \<open>Tracker\<close>

record budget_entry =
  be_ts :: string
  be_session_id :: string
  be_model :: string
  be_tokens :: int
  be_cost :: rat

record tracker =
  bt_sessionId :: string
  bt_model :: string
  bt_dailyTokenLimit :: int
  bt_warnAt :: int
  bt_dailyCostLimit :: "rat option"
  bt_hardLimitEnabled :: bool
  bt_trackedDay :: string
  bt_dailyTokens :: int
  bt_dailyCost :: rat
  bt_log :: "budget_entry list"

text \<open>
  The totals of the day from the lines of the log. \<open>parse_line\<close> gives the timestamp, if the entry has
  one, and its token and cost members; \<open>None\<close> for a malformed line.
\<close>

type_synonym parsed_line = "(string option \<times> int option \<times> rat option) option"

fun add_line :: "(string \<Rightarrow> parsed_line) \<Rightarrow> string \<Rightarrow> string \<Rightarrow> int \<times> rat \<Rightarrow> int \<times> rat" where
  "add_line parse_line day line (tokens, cost) =
     (if js_trim line = '''' then (tokens, cost)
      else case parse_line line of
        None \<Rightarrow> (tokens, cost)
      | Some (ts, t, c) \<Rightarrow>
          if (case ts of None \<Rightarrow> False | Some s \<Rightarrow> starts_with s day)
          then (tokens + (case t of None \<Rightarrow> 0 | Some n \<Rightarrow> n), cost + (case c of None \<Rightarrow> 0 | Some r \<Rightarrow> r))
          else (tokens, cost))"

definition readTodayTotals :: "(string \<Rightarrow> parsed_line) \<Rightarrow> string \<Rightarrow> string option \<Rightarrow> int \<times> rat" where
  "readTodayTotals parse_line day file =
     (case file of
        None \<Rightarrow> (0, 0)
      | Some text \<Rightarrow> fold (add_line parse_line day) (split_on (CHR 0x0A) text) (0, 0))"

record tracker_options =
  to_model :: "string option"
  to_dailyTokenLimit :: "int option"
  to_warnAt :: "int option"
  to_dailyCostLimit :: "rat option"
  to_hardLimitEnabled :: "bool option"

definition new_tracker ::
  "(string \<Rightarrow> parsed_line) \<Rightarrow> string option \<Rightarrow> string \<Rightarrow> string \<Rightarrow> tracker_options \<Rightarrow> tracker" where
  "new_tracker parse_line file uuid now opts =
     (let day = take 10 now;
          totals = readTodayTotals parse_line day file
      in \<lparr>bt_sessionId = uuid,
          bt_model = (case to_model opts of Some m \<Rightarrow> m | None \<Rightarrow> ''claude-sonnet-4-6''),
          bt_dailyTokenLimit = (case to_dailyTokenLimit opts of Some n \<Rightarrow> n | None \<Rightarrow> 100000),
          bt_warnAt = (case to_warnAt opts of Some n \<Rightarrow> n | None \<Rightarrow> 80000),
          bt_dailyCostLimit = to_dailyCostLimit opts,
          bt_hardLimitEnabled = (case to_hardLimitEnabled opts of Some b \<Rightarrow> b | None \<Rightarrow> False),
          bt_trackedDay = day, bt_dailyTokens = fst totals, bt_dailyCost = snd totals, bt_log = []\<rparr>)"

record budget_check =
  bc_exceeded :: bool
  bc_dailyTokens :: int
  bc_dailyCost :: rat
  bc_dailyTokenLimit :: int
  bc_dailyCostLimit :: "rat option"

definition budget_check :: "tracker \<Rightarrow> budget_check" where
  "budget_check t =
     (let tokenExceeded = (bt_dailyTokens t \<ge> bt_dailyTokenLimit t);
          costExceeded = (case bt_dailyCostLimit t of None \<Rightarrow> False | Some l \<Rightarrow> bt_dailyCost t \<ge> l);
          exceeded = (bt_hardLimitEnabled t \<and> (tokenExceeded \<or> costExceeded))
      in \<lparr>bc_exceeded = exceeded, bc_dailyTokens = bt_dailyTokens t, bc_dailyCost = bt_dailyCost t,
          bc_dailyTokenLimit = bt_dailyTokenLimit t, bc_dailyCostLimit = bt_dailyCostLimit t\<rparr>)"

text \<open>\<open>append\<close>; \<open>written\<close> says whether the write to the log succeeded.\<close>

definition budget_append ::
  "string \<Rightarrow> bool \<Rightarrow> int \<Rightarrow> int \<Rightarrow> string option \<Rightarrow> tracker \<Rightarrow> tracker" where
  "budget_append now written inputTokens outputTokens model t =
     (let resolvedModel = (case model of Some m \<Rightarrow> m | None \<Rightarrow> bt_model t);
          tokens = inputTokens + outputTokens;
          cost = estimateCost resolvedModel inputTokens outputTokens;
          entry = \<lparr>be_ts = now, be_session_id = bt_sessionId t, be_model = resolvedModel,
                   be_tokens = tokens, be_cost = cost\<rparr>
      in t\<lparr>bt_dailyTokens := bt_dailyTokens t + tokens, bt_dailyCost := bt_dailyCost t + cost,
           bt_log := (if written then bt_log t @ [entry] else bt_log t)\<rparr>)"

text \<open>
  The environment variables \<open>createBudgetTracker\<close> reads, parsed by \<open>parseInt\<close> and \<open>parseFloat\<close>; a
  setting that is no number (\<open>NaN\<close>, a limit that is never reached) is outside the model.
\<close>

definition budget_options ::
  "(string \<Rightarrow> int) \<Rightarrow> (string \<Rightarrow> rat) \<Rightarrow> (string \<Rightarrow> string option) \<Rightarrow> tracker_options" where
  "budget_options parse_int parse_float env =
     \<lparr>to_model = Some (case env ''OPENAUTH_BUDGET_MODEL'' of Some m \<Rightarrow> m | None \<Rightarrow> ''claude-sonnet-4-6''),
      to_dailyTokenLimit = Some (case env ''OPENAUTH_BUDGET_DAILY_LIMIT'' of Some s \<Rightarrow> parse_int s | None \<Rightarrow> 100000),
      to_warnAt = Some (case env ''OPENAUTH_BUDGET_WARN_AT'' of Some s \<Rightarrow> parse_int s | None \<Rightarrow> 80000),
      to_dailyCostLimit = map_option parse_float (env ''OPENAUTH_BUDGET_DAILY_COST_LIMIT''),
      to_hardLimitEnabled = Some (env ''OPENAUTH_BUDGET_HARD_LIMIT'' = Some ''1'')\<rparr>"

definition createBudgetTracker ::
  "(string \<Rightarrow> int) \<Rightarrow> (string \<Rightarrow> rat) \<Rightarrow> (string \<Rightarrow> parsed_line) \<Rightarrow> (string \<Rightarrow> string option)
     \<Rightarrow> string option \<Rightarrow> string \<Rightarrow> string \<Rightarrow> tracker" where
  "createBudgetTracker parse_int parse_float parse_line env file uuid now =
     new_tracker parse_line file uuid now (budget_options parse_int parse_float env)"

section \<open>The longest prefix\<close>

lemma best_key_Some:
  "best_key model best keys = Some k \<Longrightarrow> best = Some k \<or> (k \<in> set keys \<and> k \<noteq> ''default'' \<and> prefix k model)"
  by (induction model best keys rule: best_key.induct) (auto simp: starts_with_prefix split: if_splits)

lemma best_key_keeps: "\<exists>r. best_key model (Some b) keys = Some r \<and> length b \<le> length r"
proof (induction keys arbitrary: b)
  case (Cons key keys)
  from Cons.IH [of b] Cons.IH [of key] show ?case by (auto intro: order_trans)
qed simp

lemma best_key_longest:
  "k \<in> set keys \<Longrightarrow> k \<noteq> ''default'' \<Longrightarrow> starts_with model k \<Longrightarrow>
    \<exists>r. best_key model best keys = Some r \<and> length k \<le> length r"
proof (induction keys arbitrary: best)
  case (Cons key keys)
  show ?case
  proof (cases "k = key")
    case True
    show ?thesis
    proof (cases best)
      case None
      with True Cons.prems best_key_keeps [of model key keys] show ?thesis by simp
    next
      case (Some b)
      with True Cons.prems best_key_keeps [of model key keys] best_key_keeps [of model b keys]
      show ?thesis by auto
    qed
  next
    case False
    with Cons show ?thesis by simp
  qed
qed simp

lemma price_of_exact: "map_of PRICING model = Some p \<Longrightarrow> price_of model = p"
  by (simp add: price_of_def)

lemma resolve_pricing_key: "\<exists>k. resolvePricing model = price_of k"
proof (cases "map_of PRICING model")
  case None
  then show ?thesis
    by (cases "best_key model None (map fst PRICING)") (auto simp only: resolvePricing_def option.case)
next
  case (Some p)
  then show ?thesis by (auto simp: resolvePricing_def dest: price_of_exact [symmetric])
qed

definition price_keys :: "string set" where
  "price_keys = fst ` set PRICING"

text \<open>
  The price of a model is that of its own entry when the table has one, else that of the longest
  entry whose name is a prefix of the model's, else the default entry.
\<close>

theorem resolve_pricing_longest:
  "(model \<in> price_keys \<longrightarrow> resolvePricing model = price_of model)
   \<and> (model \<notin> price_keys \<longrightarrow>
        (\<exists>k. resolvePricing model = price_of k
           \<and> (if \<exists>k'\<in>price_keys - {''default''}. prefix k' model
              then k \<in> price_keys - {''default''} \<and> prefix k model
                 \<and> (\<forall>k'\<in>price_keys - {''default''}. prefix k' model \<longrightarrow> length k' \<le> length k)
              else k = ''default'')))"
proof (intro conjI impI)
  assume "model \<in> price_keys"
  then obtain p where "map_of PRICING model = Some p"
    unfolding price_keys_def by (metis domIff dom_map_of_conv_image_fst option.exhaust)
  then show "resolvePricing model = price_of model"
    by (simp add: resolvePricing_def price_of_exact)
next
  assume "model \<notin> price_keys"
  then have none: "map_of PRICING model = None"
    unfolding price_keys_def by (simp only: map_of_eq_None_iff not_False_eq_True)
  let ?best = "best_key model None (map fst PRICING)"
  have keys: "set (map fst PRICING) = price_keys" by (simp only: price_keys_def set_map)
  have longest: "\<exists>r. ?best = Some r \<and> length k \<le> length r" if "k \<in> price_keys - {''default''}" "prefix k model" for k
    using best_key_longest [of k "map fst PRICING" model None] that by (simp only: keys starts_with_prefix) blast
  show "\<exists>k. resolvePricing model = price_of k
      \<and> (if \<exists>k'\<in>price_keys - {''default''}. prefix k' model
         then k \<in> price_keys - {''default''} \<and> prefix k model
            \<and> (\<forall>k'\<in>price_keys - {''default''}. prefix k' model \<longrightarrow> length k' \<le> length k)
         else k = ''default'')"
  proof (cases ?best)
    case None
    then have "\<not> (\<exists>k'\<in>price_keys - {''default''}. prefix k' model)" using longest by fastforce
    moreover have "resolvePricing model = price_of ''default''"
      by (simp only: resolvePricing_def none None option.case)
    ultimately show ?thesis by auto
  next
    case (Some k)
    have "k \<in> price_keys - {''default''} \<and> prefix k model"
      using best_key_Some [OF Some] by (simp only: keys) blast
    moreover have "resolvePricing model = price_of k"
      by (simp only: resolvePricing_def none Some option.case)
    moreover have "\<forall>k'\<in>price_keys - {''default''}. prefix k' model \<longrightarrow> length k' \<le> length k"
      using longest Some by fastforce
    ultimately show ?thesis by auto
  qed
qed

lemma resolve_pricing_longest_witness:
  "resolvePricing ''claude-3-5-haiku'' = price_of ''claude-3-5-haiku''"
  by (rule resolve_pricing_longest [THEN conjunct1, THEN mp]) (simp add: price_keys_def PRICING_def)

section \<open>The daily limit\<close>

definition append_all :: "(string \<times> bool \<times> int \<times> int \<times> string option) list \<Rightarrow> tracker \<Rightarrow> tracker" where
  "append_all es t = fold (\<lambda>(now, w, i, j, m). budget_append now w i j m) es t"

lemma budget_append_fields:
  "bt_dailyTokens (budget_append now w i j m t) = bt_dailyTokens t + (i + j)"
  "bt_dailyCost (budget_append now w i j m t)
     = bt_dailyCost t + estimateCost (case m of Some m \<Rightarrow> m | None \<Rightarrow> bt_model t) i j"
  "bt_dailyTokenLimit (budget_append now w i j m t) = bt_dailyTokenLimit t"
  "bt_dailyCostLimit (budget_append now w i j m t) = bt_dailyCostLimit t"
  "bt_hardLimitEnabled (budget_append now w i j m t) = bt_hardLimitEnabled t"
  "bt_model (budget_append now w i j m t) = bt_model t"
  by (simp_all add: budget_append_def Let_def split: option.split)

lemma price_nonneg: "0 \<le> mp_input (price_of k) \<and> 0 \<le> mp_output (price_of k)"
  by (simp add: price_of_def PRICING_def)

lemma estimateCost_nonneg:
  assumes "0 \<le> i" and "0 \<le> j"
  shows "0 \<le> estimateCost m i j"
proof -
  obtain k where k: "resolvePricing m = price_of k" using resolve_pricing_key by blast
  show ?thesis
    unfolding estimateCost_def k Let_def using assms price_nonneg [of k] by (intro add_nonneg_nonneg mult_nonneg_nonneg) auto
qed

text \<open>
  The tracker adds up exactly the tokens of the recorded calls, never forgets any (whatever the
  time of a call, so also across midnight), and once the limit is reached with the hard limit on, every
  later check reports it exceeded.
\<close>

theorem budget_limit_sticky:
  assumes "\<forall>(now, w, i, j, m) \<in> set es. 0 \<le> i \<and> 0 \<le> j"
  shows "bt_dailyTokens (append_all es t) = bt_dailyTokens t + sum_list (map (\<lambda>(_, _, i, j, _). i + j) es)
     \<and> bt_dailyCost t \<le> bt_dailyCost (append_all es t)
     \<and> (bc_exceeded (budget_check t) \<longrightarrow> bc_exceeded (budget_check (append_all es t)))"
  using assms
proof (induction es arbitrary: t)
  case Nil
  then show ?case by (simp add: append_all_def)
next
  case (Cons e es)
  obtain now w i j m where e: "e = (now, w, i, j, m)" by (cases e)
  let ?t = "budget_append now w i j m t"
  have nn: "0 \<le> i" "0 \<le> j" using Cons.prems e by auto
  have fields: "bt_dailyTokens ?t = bt_dailyTokens t + (i + j)" "bt_dailyCost t \<le> bt_dailyCost ?t"
    using estimateCost_nonneg [OF nn] by (simp_all add: budget_append_fields)
  have "bc_exceeded (budget_check t) \<longrightarrow> bc_exceeded (budget_check ?t)"
    using fields nn by (auto simp: budget_check_def Let_def budget_append_fields split: option.splits)
  with Cons.IH [of ?t] Cons.prems fields show ?case
    by (auto simp: append_all_def e)
qed

lemma budget_limit_sticky_witness:
  "bc_exceeded (budget_check (append_all [(''2026-01-02T00:00:00Z'', True, 5, 0, None)]
     (new_tracker (\<lambda>_. None) None ''s'' ''2026-01-01T10:00:00Z''
        \<lparr>to_model = None, to_dailyTokenLimit = Some 0, to_warnAt = None, to_dailyCostLimit = None,
         to_hardLimitEnabled = Some True\<rparr>)))"
  by (rule budget_limit_sticky [THEN conjunct2, THEN conjunct2, THEN mp])
    (simp_all add: budget_check_def new_tracker_def readTodayTotals_def Let_def)

end
