(* ===== verification/Retry.thy ===== *)
theory Retry
  imports HitlPolicy Complex_Main
begin

text \<open>
  Outbound calls of the HITL channels: the circuit breaker and the retry loop of
  \<open>src/hitl/retry.ts\<close>, the channel settings of \<open>src/hitl/config.ts\<close> and the policy file reader of
  \<open>src/hitl/parser.ts\<close>. \<open>Date.now()\<close> and \<open>Math.random()\<close> are arguments; delays are exact rationals
  where the source has doubles. The replies of a remote service are an argument of the loop, one per
  attempt. The YAML and JSON readers and the schema check are parameters.
\<close>

section \<open>Circuit breaker\<close>

datatype circuit_state = CbClosed | CbOpen

record breaker =
  cb_state :: circuit_state
  cb_openedAt :: "int option"
  cb_cooldownMs :: int

definition new_breaker :: "int option \<Rightarrow> breaker" where
  "new_breaker cooldownMs =
     \<lparr>cb_state = CbClosed, cb_openedAt = None,
      cb_cooldownMs = (case cooldownMs of Some c \<Rightarrow> c | None \<Rightarrow> 60000)\<rparr>"

definition isOpen :: "int \<Rightarrow> breaker \<Rightarrow> bool \<times> breaker" where
  "isOpen now b =
     (if cb_state b \<noteq> CbOpen then (False, b)
      else if (case cb_openedAt b of None \<Rightarrow> False | Some t \<Rightarrow> now - t \<ge> cb_cooldownMs b)
      then (False, b\<lparr>cb_state := CbClosed, cb_openedAt := None\<rparr>)
      else (True, b))"

definition trip :: "int \<Rightarrow> breaker \<Rightarrow> breaker" where
  "trip now b = (if cb_state b = CbOpen then b else b\<lparr>cb_state := CbOpen, cb_openedAt := Some now\<rparr>)"

section \<open>Retry loop\<close>

record retry_options =
  ro_maxRetries :: int
  ro_baseDelayMs :: rat
  ro_maxDelayMs :: rat
  ro_jitterFactor :: rat

definition RETRY_DEFAULTS :: retry_options where
  "RETRY_DEFAULTS = \<lparr>ro_maxRetries = 4, ro_baseDelayMs = 500, ro_maxDelayMs = 30000, ro_jitterFactor = 1 / 4\<rparr>"

text \<open>\<open>Math.round\<close> rounds halves up.\<close>

definition js_round :: "rat \<Rightarrow> int" where
  "js_round r = \<lfloor>r + 1 / 2\<rfloor>"

definition computeBackoff :: "rat \<Rightarrow> nat \<Rightarrow> rat \<Rightarrow> rat \<Rightarrow> rat \<Rightarrow> int" where
  "computeBackoff random attempt baseDelayMs maxDelayMs jitterFactor =
     (let exp = min (baseDelayMs * 2 ^ attempt) maxDelayMs;
          jitter = exp * jitterFactor * (2 * random - 1)
      in max 0 (js_round (exp + jitter)))"

text \<open>One attempt: the request throws, or a reply with its status arrives.\<close>

datatype 'r attempt_result = Threw | Reply int 'r

text \<open>How a call ends: an error, of the request or of \<open>parse\<close>; the parsed reply; or the fallback.\<close>

datatype 't call_result = CallThrew | Parsed 't | Fallback 't

text \<open>
  The loop from a given attempt, with the number of requests made and the delays slept so far. \<open>parse\<close>
  is asynchronous and may reject, where it gives \<open>None\<close>. Other calls may share the breaker while this one
  sleeps and waits for a reply: \<open>other i\<close> is what they make of it from the reply before until that of
  attempt \<open>i\<close>.
\<close>

function retry_loop ::
  "(nat \<Rightarrow> 'r attempt_result) \<Rightarrow> ('r \<Rightarrow> 't option) \<Rightarrow> 't \<Rightarrow> retry_options \<Rightarrow> (nat \<Rightarrow> rat) \<Rightarrow> (nat \<Rightarrow> int)
     \<Rightarrow> (nat \<Rightarrow> breaker \<Rightarrow> breaker) \<Rightarrow> nat \<Rightarrow> int list \<Rightarrow> breaker
     \<Rightarrow> 't call_result \<times> nat \<times> int list \<times> breaker" where
  "retry_loop fn parse fallback opts random clock other attempt slept b =
     (case fn attempt of
        Threw \<Rightarrow> (CallThrew, attempt + 1, slept, other attempt b)
      | Reply status r \<Rightarrow>
          if status \<noteq> 429
          then (case parse r of Some x \<Rightarrow> Parsed x | None \<Rightarrow> CallThrew, attempt + 1, slept, other attempt b)
          else if int attempt \<ge> ro_maxRetries opts
          then (Fallback fallback, attempt + 1, slept, trip (clock attempt) (other attempt b))
          else retry_loop fn parse fallback opts random clock other (attempt + 1)
                 (slept @ [computeBackoff (random attempt) attempt (ro_baseDelayMs opts) (ro_maxDelayMs opts)
                             (ro_jitterFactor opts)])
                 (other attempt b))"
  by pat_completeness auto

termination
  by (relation "measure (\<lambda>(_, _, _, opts, _, _, _, attempt, _, _). nat (ro_maxRetries opts - int attempt))") auto

definition withRetry ::
  "int \<Rightarrow> (nat \<Rightarrow> 'r attempt_result) \<Rightarrow> ('r \<Rightarrow> 't option) \<Rightarrow> 't \<Rightarrow> retry_options \<Rightarrow> (nat \<Rightarrow> rat) \<Rightarrow> (nat \<Rightarrow> int)
     \<Rightarrow> (nat \<Rightarrow> breaker \<Rightarrow> breaker) \<Rightarrow> breaker \<Rightarrow> 't call_result \<times> nat \<times> int list \<times> breaker" where
  "withRetry now fn parse fallback opts random clock other b =
     (case isOpen now b of
        (True, b') \<Rightarrow> (Fallback fallback, 0, [], b')
      | (False, b') \<Rightarrow> retry_loop fn parse fallback opts random clock other 0 [] b')"

section \<open>Channel settings\<close>

record resolved_telegram =
  rt_botToken :: string
  rt_chatId :: string

record resolved_slack =
  rs_botToken :: string
  rs_channelId :: string
  rs_signingSecret :: string
  rs_interactionPort :: int
  rs_interactionHost :: string

text \<open>\<open>a ?? b?.field\<close> and the test \<open>!s\<close>.\<close>

fun first_defined :: "'a option \<Rightarrow> 'a option \<Rightarrow> 'a option" where
  "first_defined (Some a) _ = Some a"
| "first_defined None b = b"

definition truthy :: "string option \<Rightarrow> bool" where
  "truthy s \<longleftrightarrow> s \<noteq> None \<and> s \<noteq> Some ''''"

definition resolveTelegramConfig ::
  "(string \<Rightarrow> string option) \<Rightarrow> telegram_config option \<Rightarrow> resolved_telegram option" where
  "resolveTelegramConfig env policyConfig =
     (let botToken = first_defined (env ''TELEGRAM_BOT_TOKEN'') (Option.bind policyConfig tg_botToken);
          chatId = first_defined (env ''TELEGRAM_CHAT_ID'') (Option.bind policyConfig tg_chatId)
      in if \<not> truthy botToken \<or> \<not> truthy chatId then None
         else Some \<lparr>rt_botToken = the botToken, rt_chatId = the chatId\<rparr>)"

definition DEFAULT_INTERACTION_PORT :: int where
  "DEFAULT_INTERACTION_PORT = 3201"

definition DEFAULT_INTERACTION_HOST :: string where
  "DEFAULT_INTERACTION_HOST = ''0.0.0.0''"

definition resolveSlackConfig ::
  "(string \<Rightarrow> int) \<Rightarrow> (string \<Rightarrow> string option) \<Rightarrow> slack_config option \<Rightarrow> resolved_slack option" where
  "resolveSlackConfig parse_int env policyConfig =
     (let botToken = first_defined (env ''SLACK_BOT_TOKEN'') (Option.bind policyConfig sl_botToken);
          channelId = first_defined (env ''SLACK_CHANNEL_ID'') (Option.bind policyConfig sl_channelId);
          signingSecret = first_defined (env ''SLACK_SIGNING_SECRET'') (Option.bind policyConfig sl_signingSecret)
      in if \<not> truthy botToken \<or> \<not> truthy channelId \<or> \<not> truthy signingSecret then None
         else Some \<lparr>rs_botToken = the botToken, rs_channelId = the channelId, rs_signingSecret = the signingSecret,
             rs_interactionPort =
               (if truthy (env ''SLACK_INTERACTION_PORT'') then parse_int (the (env ''SLACK_INTERACTION_PORT''))
                else case Option.bind policyConfig sl_interactionPort of
                       Some p \<Rightarrow> p | None \<Rightarrow> DEFAULT_INTERACTION_PORT),
             rs_interactionHost =
               (case first_defined (env ''SLACK_INTERACTION_HOST'') (Option.bind policyConfig sl_interactionHost) of
                  Some h \<Rightarrow> h | None \<Rightarrow> DEFAULT_INTERACTION_HOST)\<rparr>)"

section \<open>Policy files\<close>

text \<open>\<open>HitlPolicyParseError\<close> (unreadable or not in the format) and \<open>HitlPolicyValidationError\<close>.\<close>

datatype policy_error = PolicyParseError string | PolicyValidationError string "string list"

definition deserialise ::
  "(string \<Rightarrow> string) \<Rightarrow> (string \<Rightarrow> 'j option) \<Rightarrow> (string \<Rightarrow> 'j option) \<Rightarrow> string \<Rightarrow> string \<Rightarrow> 'j option" where
  "deserialise extname yaml_parse json_parse filePath content =
     (let ext = js_lower (extname filePath)
      in if ext = ''.yaml'' \<or> ext = ''.yml'' then yaml_parse content else json_parse content)"

definition validateHitlPolicyConfig ::
  "('j \<Rightarrow> hitl_config option) \<Rightarrow> ('j \<Rightarrow> string list) \<Rightarrow> string \<Rightarrow> 'j \<Rightarrow> policy_error + hitl_config" where
  "validateHitlPolicyConfig check_schema schema_errors filePath raw =
     (case check_schema raw of
        None \<Rightarrow> Inl (PolicyValidationError filePath (schema_errors raw))
      | Some c \<Rightarrow> Inr c)"

definition findUnknownSensitiveActionMatches :: "hitl_config \<Rightarrow> string list" where
  "findUnknownSensitiveActionMatches config =
     map hp_name (filter (\<lambda>p. list_ex (\<lambda>pat. matchesActionPattern pat ''unknown_sensitive_action'') (hp_actions p))
       (hc_policies config))"

definition parseHitlPolicyFile ::
  "(string \<Rightarrow> string) \<Rightarrow> (string \<Rightarrow> 'j option) \<Rightarrow> (string \<Rightarrow> 'j option) \<Rightarrow> ('j \<Rightarrow> hitl_config option)
     \<Rightarrow> ('j \<Rightarrow> string list) \<Rightarrow> string \<Rightarrow> string option \<Rightarrow> policy_error + hitl_config" where
  "parseHitlPolicyFile extname yaml_parse json_parse check_schema schema_errors filePath content =
     (case content of
        None \<Rightarrow> Inl (PolicyParseError filePath)
      | Some text \<Rightarrow>
          (case deserialise extname yaml_parse json_parse filePath text of
             None \<Rightarrow> Inl (PolicyParseError filePath)
           | Some raw \<Rightarrow> validateHitlPolicyConfig check_schema schema_errors filePath raw))"

declare retry_loop.simps [simp del]

section \<open>Bounds of the loop\<close>

lemma computeBackoff_bounds:
  assumes "0 \<le> random" "random \<le> 1" "0 \<le> jf" "0 \<le> base" "0 \<le> maxd"
  shows "0 \<le> computeBackoff random attempt base maxd jf
    \<and> computeBackoff random attempt base maxd jf \<le> js_round (maxd * (1 + jf))"
proof -
  define e where "e = min (base * 2 ^ attempt) maxd"
  have e: "0 \<le> e" "e \<le> maxd" using assms by (auto simp: e_def)
  have "jf * (2 * random - 1) \<le> jf * 1" using assms by (intro mult_left_mono) auto
  then have "e * (1 + jf * (2 * random - 1)) \<le> e * (1 + jf)" using e by (intro mult_left_mono) auto
  also have "\<dots> \<le> maxd * (1 + jf)" using e assms by (intro mult_right_mono) auto
  finally have "e + e * jf * (2 * random - 1) \<le> maxd * (1 + jf)" by (simp add: algebra_simps)
  then have "js_round (e + e * jf * (2 * random - 1)) \<le> js_round (maxd * (1 + jf))"
    unfolding js_round_def by (intro floor_mono) simp
  moreover have "0 \<le> js_round (maxd * (1 + jf))"
    unfolding js_round_def using assms by (simp add: add_nonneg_nonneg)
  ultimately show ?thesis by (simp add: computeBackoff_def Let_def flip: e_def)
qed

definition limited :: "'r attempt_result \<Rightarrow> bool" where
  "limited a \<longleftrightarrow> (\<exists>r. a = Reply 429 r)"

text \<open>The last of \<open>n\<close> requests was rate limited and the retries are used up.\<close>

definition exhausted :: "(nat \<Rightarrow> 'r attempt_result) \<Rightarrow> int \<Rightarrow> nat \<Rightarrow> bool" where
  "exhausted fn maxR n \<longleftrightarrow> 0 < n \<and> limited (fn (n - 1)) \<and> int (n - 1) \<ge> maxR"

text \<open>How the loop ends after \<open>n\<close> requests.\<close>

definition retry_end ::
  "(nat \<Rightarrow> 'r attempt_result) \<Rightarrow> ('r \<Rightarrow> 't option) \<Rightarrow> 't \<Rightarrow> int \<Rightarrow> 't call_result \<Rightarrow> nat \<Rightarrow> bool" where
  "retry_end fn parse fb maxR res n \<longleftrightarrow>
     (case res of
        CallThrew \<Rightarrow> fn (n - 1) = Threw \<or> (\<exists>s r. fn (n - 1) = Reply s r \<and> s \<noteq> 429 \<and> parse r = None)
      | Parsed x \<Rightarrow> (\<exists>s r. fn (n - 1) = Reply s r \<and> s \<noteq> 429 \<and> parse r = Some x)
      | Fallback x \<Rightarrow> x = fb \<and> exhausted fn maxR n)"

text \<open>The breaker afterwards: what the other calls made of it, and tripped when the retries are used up.\<close>

definition breaker_end ::
  "(nat \<Rightarrow> 'r attempt_result) \<Rightarrow> int \<Rightarrow> (nat \<Rightarrow> int) \<Rightarrow> (nat \<Rightarrow> breaker \<Rightarrow> breaker) \<Rightarrow> nat \<Rightarrow> nat \<Rightarrow> breaker \<Rightarrow> breaker" where
  "breaker_end fn maxR clock other a n b =
     (if exhausted fn maxR n then trip (clock (n - 1)) (fold other [a..<n] b) else fold other [a..<n] b)"

lemma trip_open: "cb_state (trip now b) = CbOpen"
  by (simp add: trip_def)

lemma retry_loop_end:
  assumes "retry_loop fn parse fb opts random clock other a slept b = (res, n, slept', b')"
  shows "a < n \<and> (\<forall>i. a \<le> i \<and> i < n - 1 \<longrightarrow> limited (fn i) \<and> int i < ro_maxRetries opts)
    \<and> retry_end fn parse fb (ro_maxRetries opts) res n
    \<and> b' = breaker_end fn (ro_maxRetries opts) clock other a n b
    \<and> slept' = slept @ map (\<lambda>i. computeBackoff (random i) i (ro_baseDelayMs opts) (ro_maxDelayMs opts)
        (ro_jitterFactor opts)) [a..<n - 1]"
  using assms
proof (induction fn parse fb opts random clock other a slept b rule: retry_loop.induct)
  case (1 fn parse fb opts random clock other a slept b)
  note ends = retry_end_def breaker_end_def exhausted_def limited_def
  show ?case
  proof (cases "fn a")
    case Threw
    with 1(2) show ?thesis by (subst (asm) retry_loop.simps) (auto simp: ends)
  next
    case (Reply status r)
    show ?thesis
    proof (cases "status = 429 \<and> int a < ro_maxRetries opts")
      case False
      with 1(2) Reply show ?thesis
        by (subst (asm) retry_loop.simps) (auto simp: ends split: if_splits option.splits)
    next
      case True
      let ?d = "computeBackoff (random a) a (ro_baseDelayMs opts) (ro_maxDelayMs opts) (ro_jitterFactor opts)"
      from 1(2) True Reply
      have rec: "retry_loop fn parse fb opts random clock other (a + 1) (slept @ [?d]) (other a b) = (res, n, slept', b')"
        by (subst (asm) retry_loop.simps) simp
      from 1(1) [OF Reply _ _ rec] True
      have ih: "a + 1 < n" "\<forall>i. a + 1 \<le> i \<and> i < n - 1 \<longrightarrow> limited (fn i) \<and> int i < ro_maxRetries opts"
        "retry_end fn parse fb (ro_maxRetries opts) res n"
        "b' = breaker_end fn (ro_maxRetries opts) clock other (a + 1) n (other a b)"
        "slept' = (slept @ [?d]) @ map (\<lambda>i. computeBackoff (random i) i (ro_baseDelayMs opts) (ro_maxDelayMs opts)
          (ro_jitterFactor opts)) [a + 1..<n - 1]" by auto
      have "limited (fn a)" using Reply True by (simp add: limited_def)
      then have "\<forall>i. a \<le> i \<and> i < n - 1 \<longrightarrow> limited (fn i) \<and> int i < ro_maxRetries opts"
        using ih(2) True by (metis Suc_eq_plus1 Suc_leI le_neq_implies_less)
      moreover have "[a..<n - 1] = a # [a + 1..<n - 1]" "[a..<n] = a # [a + 1..<n]"
        using ih(1) by (simp_all add: upt_conv_Cons)
      ultimately show ?thesis using ih by (simp add: breaker_end_def)
    qed
  qed
qed

text \<open>
  C40. A retried call always ends, after at most one request more than the retries allow. Every request but the
  last was rate limited. The call gives the fallback exactly when the breaker was open, without a request, or
  the retries are used up, the last request being rate limited, too; otherwise it ends with the parsed first
  reply that is no rate limit, or with the error of the request or of parsing the reply. The breaker is tripped
  exactly when the retries are used up; else it is as \<open>isOpen\<close> and the other calls that share it left it.
  Between the requests the call sleeps as many times as it retries, each time for a delay between zero and the
  cap plus its jitter.
\<close>

theorem retry_outcome:
  assumes "withRetry now fn parse fb opts random clock other b = (res, n, slept, b')"
    and "\<forall>i. 0 \<le> random i \<and> random i \<le> 1" and "0 \<le> ro_baseDelayMs opts" "0 \<le> ro_maxDelayMs opts"
    "0 \<le> ro_jitterFactor opts"
  shows "n \<le> nat (max 0 (ro_maxRetries opts)) + 1 \<and> length slept = n - 1
    \<and> (\<forall>d\<in>set slept. 0 \<le> d \<and> d \<le> js_round (ro_maxDelayMs opts * (1 + ro_jitterFactor opts)))
    \<and> (\<forall>i < n - 1. limited (fn i))
    \<and> (n = 0 \<longleftrightarrow> fst (isOpen now b))
    \<and> (if n = 0 then res = Fallback fb else retry_end fn parse fb (ro_maxRetries opts) res n)
    \<and> (res = Fallback fb \<longleftrightarrow> n = 0 \<or> exhausted fn (ro_maxRetries opts) n)
    \<and> b' = breaker_end fn (ro_maxRetries opts) clock other 0 n (snd (isOpen now b))
    \<and> (res = Fallback fb \<longrightarrow> cb_state b' = CbOpen)"
proof (cases "fst (isOpen now b)")
  case True
  with assms(1) have "res = Fallback fb" "n = 0" "slept = []" "b' = b" "isOpen now b = (True, b)"
    by (auto simp: withRetry_def isOpen_def split: if_splits)
  with True show ?thesis by (auto simp: isOpen_def breaker_end_def exhausted_def split: if_splits)
next
  case False
  then have "retry_loop fn parse fb opts random clock other 0 [] (snd (isOpen now b)) = (res, n, slept, b')"
    using assms(1) by (cases "isOpen now b") (auto simp: withRetry_def)
  from retry_loop_end [OF this]
  have fin: "0 < n" "\<forall>i < n - 1. limited (fn i) \<and> int i < ro_maxRetries opts"
      "retry_end fn parse fb (ro_maxRetries opts) res n"
      "b' = breaker_end fn (ro_maxRetries opts) clock other 0 n (snd (isOpen now b))"
      "slept = map (\<lambda>i. computeBackoff (random i) i (ro_baseDelayMs opts) (ro_maxDelayMs opts)
        (ro_jitterFactor opts)) [0..<n - 1]" by auto
  have "n \<le> nat (max 0 (ro_maxRetries opts)) + 1"
  proof (cases "n \<le> 1")
    case False
    then have "n - 2 < n - 1" by simp
    with fin(2) have "int (n - 2) < ro_maxRetries opts" by blast
    then show ?thesis by simp
  qed simp
  moreover have "\<forall>d\<in>set slept. 0 \<le> d \<and> d \<le> js_round (ro_maxDelayMs opts * (1 + ro_jitterFactor opts))"
    unfolding fin(5) using computeBackoff_bounds assms(2-5) by auto
  moreover have ended: "res = Fallback fb \<longleftrightarrow> exhausted fn (ro_maxRetries opts) n"
    using fin(3) by (cases res) (auto simp: retry_end_def exhausted_def limited_def)
  moreover have "res = Fallback fb \<longrightarrow> cb_state b' = CbOpen"
    unfolding ended fin(4) by (simp add: breaker_end_def trip_open)
  ultimately show ?thesis using fin False by auto
qed

lemma retry_outcome_witness:
  "fst (snd (withRetry 0 (\<lambda>i. if i < 2 then Reply 429 () else Reply 200 ()) (\<lambda>_. Some True) False RETRY_DEFAULTS
     (\<lambda>_. 1 / 2) int (\<lambda>_ b. b) (new_breaker None))) \<le> 5"
proof -
  let ?w = "withRetry 0 (\<lambda>i. if i < 2 then Reply 429 () else Reply 200 ()) (\<lambda>_. Some True) False RETRY_DEFAULTS
     (\<lambda>_. 1 / 2) int (\<lambda>_ b. b) (new_breaker None)"
  obtain res n slept b' where w: "?w = (res, n, slept, b')" by (metis prod_cases4)
  from retry_outcome [OF w] have "n \<le> 5" by (simp add: RETRY_DEFAULTS_def)
  with w show ?thesis by simp
qed

end
