(* ===== verification/Plugin.thy ===== *)
theory Plugin
  imports Rules Identity Budget Retry Stage2 HitlDispatch
begin

text \<open>
  The plugin, \<open>src/index.ts\<close>: its state and the handler of the \<open>before_tool_call\<close> hook, from the
  budget to the answer the host gets. The handler waits twice, for the message to the operator to be
  sent and for the operator, so it is three steps: up to the message (\<open>before_tool_call\<close>), from
  the result of sending it (\<open>dispatch_sent\<close>), and from the operator's decision (\<open>resolveHitlDecision\<close>).
  Other handlers may run in between; the short waits for the audit file are not such points here. Console output, the text of the messages and the chat events
  of the host are left out; the feature flags are \<open>src/features.ts\<close>.
\<close>

section \<open>Feature flags\<close>

record feature_flags =
  ff_approveAlwaysEnabled :: bool
  ff_approveAlwaysAutoConfirm :: bool
  ff_hitlMinimal :: bool

definition resolveFeatureFlags :: "(string \<Rightarrow> string option) \<Rightarrow> feature_flags" where
  "resolveFeatureFlags env =
     (let on = (\<lambda>k. map_option js_trim (env k) = Some ''1'')
      in \<lparr>ff_approveAlwaysEnabled = (\<not> on ''CLAWTHORITY_DISABLE_APPROVE_ALWAYS''),
          ff_approveAlwaysAutoConfirm = on ''CLAWTHORITY_APPROVE_ALWAYS_AUTO_CONFIRM'',
          ff_hitlMinimal = on ''CLAWTHORITY_HITL_MINIMAL''\<rparr>)"

section \<open>State\<close>

text \<open>The fields every entry about a tool call has (\<open>auditBase\<close>), and the kinds of entry.\<close>

record audit_base =
  ab_toolName :: string
  ab_actionClass :: string
  ab_agentId :: string
  ab_channel :: string
  ab_verified :: bool
  ab_mode :: claw_mode

datatype audit_entry =
    PolicyEntry "string option" string "string option" "int option" audit_base
  | HitlEntry string string string string string string int bool
  | UnclassifiedEntry string string string bool
  | AutoPermitEntry string string string audit_base
  | PermitAddedEntry string derivation_method string string string int "string option"
  | PermitSkippedEntry string string string string string string "string option"

text \<open>
  \<open>cedarEngineRef\<close> and \<open>jsonRulesEngineRef\<close> (\<open>pl_engines\<close>), the rules of \<open>autoPermitCheckerRef\<close>,
  \<open>hitlConfigRef\<close>, \<open>approvalManager\<close>, \<open>approveAlwaysTokens\<close>, \<open>coverageMap\<close>, \<open>budgetTracker\<close>, the
  identity registry and the entries of \<open>hitlAuditLogger\<close> (\<open>None\<close>: no logger yet).
\<close>

record plugin =
  pl_mode :: claw_mode
  pl_engines :: engines
  pl_checker :: "auto_permit list option"
  pl_hitl :: "hitl_config option"
  pl_manager :: manager
  pl_always :: "string set"
  pl_coverage :: coverage
  pl_budget :: "tracker option"
  pl_identities :: registry
  pl_audit :: "audit_entry list option"

text \<open>What a step reads from its surroundings.\<close>

record world =
  wd_sha256 :: "string \<Rightarrow> string"
  wd_env :: "string \<Rightarrow> string option"
  wd_process :: process_env
  wd_features :: feature_flags
  wd_now :: int
  wd_iso :: string
  wd_uuid :: string
  wd_log_written :: bool

definition audit :: "audit_entry \<Rightarrow> plugin \<Rightarrow> plugin" where
  "audit e s = (case pl_audit s of None \<Rightarrow> s | Some es \<Rightarrow> s\<lparr>pl_audit := Some (es @ [e])\<rparr>)"

section \<open>The call\<close>

record tool_call =
  tc_toolName :: string
  tc_params :: "json option"
  tc_source :: "string option"
  tc_agentId :: "string option"
  tc_channelId :: "string option"
  tc_intent_hint :: "json option"

text \<open>
  The hint of the agent: printable ASCII, tabs and newlines, trimmed, at most 500 code units, or none.
\<close>

definition hint_char :: "char \<Rightarrow> bool" where
  "hint_char c = (let n = (of_char c :: nat) in (32 \<le> n \<and> n \<le> 126) \<or> n = 9 \<or> n = 10)"

definition sanitizeIntentHint :: "json option \<Rightarrow> string option" where
  "sanitizeIntentHint raw =
     (case raw of
        Some (JStr s) \<Rightarrow>
          (let h = take 500 (js_trim (filter hint_char s)) in if h = '''' then None else Some h)
      | _ \<Rightarrow> None)"

definition normalizedParams :: "json option \<Rightarrow> (string \<times> json) list" where
  "normalizedParams params = (case params of Some (JObj kvs) \<Rightarrow> kvs | _ \<Rightarrow> [])"

text \<open>\<open>Math.max(1, Math.round(length / 4))\<close>.\<close>

definition estimate_tokens :: "json option \<Rightarrow> int" where
  "estimate_tokens params =
     (let paramJson = (case params of None \<Rightarrow> '''' | Some p \<Rightarrow> or_else (json_stringify p) '''')
      in max 1 ((int (length paramJson) + 2) div 4))"

definition buildHitlSummary :: "string \<Rightarrow> string \<Rightarrow> string \<Rightarrow> string option" where
  "buildHitlSummary toolName action_class target =
     (if action_class \<noteq> ''unknown_sensitive_action'' then None
      else let targetText = js_trim target
           in if length targetText > 0
              then Some (''Unregistered tool '' @ [CHR 0x22] @ toolName @ [CHR 0x22] @ '' wants approval for: ''
                     @ (if length targetText > 120 then take 119 targetText @ ''...'' else targetText))
              else Some (''Unregistered tool '' @ [CHR 0x22] @ toolName @ [CHR 0x22]
                     @ '' wants approval, but no target or command was provided.''))"

section \<open>Dispatch to a channel\<close>

datatype channel_kind = ViaTelegram | ViaSlack | ViaConsole

record wait_ctx =
  wt_kind :: channel_kind
  wt_token :: string
  wt_promise :: nat
  wt_policy :: hitl_policy
  wt_toolName :: string
  wt_action_class :: string
  wt_target :: string
  wt_identity :: resolved_identity

text \<open>
  Where a step stops: with the answer to the host (\<open>Some reason\<close> blocks), while the request is sent, or
  waiting for the operator.
\<close>

datatype call_step = Answer "string option" | Sending wait_ctx | Awaiting wait_ctx

definition logHitlDecision ::
  "string \<Rightarrow> string \<Rightarrow> string \<Rightarrow> resolved_identity \<Rightarrow> hitl_policy \<Rightarrow> plugin \<Rightarrow> plugin" where
  "logHitlDecision d token toolName identity policy =
     audit (HitlEntry d token toolName (id_auditAgentId identity) (id_auditChannel identity) (hp_name policy)
              (ac_timeout (hp_approval policy)) (id_verified identity))"

definition fallback_entry :: "hitl_policy \<Rightarrow> string" where
  "fallback_entry policy =
     (if ac_fallback (hp_approval policy) = Deny then ''fallback-deny'' else ''fallback-auto-approve'')"

text \<open>The answer of the fallback: a block with the given reason, or the call goes on.\<close>

definition fallback_answer :: "hitl_policy \<Rightarrow> string \<Rightarrow> call_step" where
  "fallback_answer policy reason =
     Answer (if ac_fallback (hp_approval policy) = Deny then Some reason else None)"

definition hitl_opts ::
  "hitl_policy \<Rightarrow> string \<Rightarrow> resolved_identity \<Rightarrow> string \<Rightarrow> string \<Rightarrow> approval_opts" where
  "hitl_opts policy toolName identity target action_class =
     \<lparr>ao_toolName = toolName, ao_agentId = id_auditAgentId identity, ao_channelId = id_auditChannel identity,
      ao_policy = policy, ao_payload_hash = None, ao_action_class = Some action_class, ao_target = Some target,
      ao_summary = buildHitlSummary toolName action_class target, ao_session_id = None, ao_mode = None\<rparr>"

definition open_request ::
  "world \<Rightarrow> channel_kind \<Rightarrow> hitl_policy \<Rightarrow> string \<Rightarrow> resolved_identity \<Rightarrow> string \<Rightarrow> string
     \<Rightarrow> plugin \<Rightarrow> call_step \<times> plugin" where
  "open_request w kind policy toolName identity target action_class s =
     (case createApprovalRequest (wd_sha256 w) (wd_uuid w) (wd_now w)
             (hitl_opts policy toolName identity target action_class) (pl_manager s) of
        ((token, promise), m) \<Rightarrow>
          (Sending \<lparr>wt_kind = kind, wt_token = token, wt_promise = promise, wt_policy = policy,
             wt_toolName = toolName, wt_action_class = action_class, wt_target = target,
             wt_identity = identity\<rparr>,
           s\<lparr>pl_manager := m\<rparr>))"

definition unconfigured ::
  "string \<Rightarrow> hitl_policy \<Rightarrow> string \<Rightarrow> resolved_identity \<Rightarrow> plugin \<Rightarrow> call_step \<times> plugin" where
  "unconfigured name policy toolName identity s =
     (fallback_answer policy (''HITL approval required but '' @ name @ '' not configured''),
      logHitlDecision (fallback_entry policy) '''' toolName identity policy s)"

definition dispatchHitlChannel ::
  "world \<Rightarrow> hitl_policy \<Rightarrow> string \<Rightarrow> resolved_identity \<Rightarrow> string \<Rightarrow> string \<Rightarrow> plugin \<Rightarrow> call_step \<times> plugin" where
  "dispatchHitlChannel w policy toolName identity target action_class s =
     (let channel = ac_channel (hp_approval policy)
      in if channel = ''telegram''
         then (case resolveTelegramConfig (wd_env w) (Option.bind (pl_hitl s) hc_telegram) of
                 None \<Rightarrow> unconfigured ''Telegram'' policy toolName identity s
               | Some _ \<Rightarrow> open_request w ViaTelegram policy toolName identity target action_class s)
         else if channel = ''slack''
         then (case resolveSlackConfig (\<lambda>_. 0) (wd_env w) (Option.bind (pl_hitl s) hc_slack) of
                 None \<Rightarrow> unconfigured ''Slack'' policy toolName identity s
               | Some _ \<Rightarrow> open_request w ViaSlack policy toolName identity target action_class s)
         else if channel = ''console''
         then open_request w ViaConsole policy toolName identity target action_class s
         else (Answer None, s))"

text \<open>The result of sending: whether the service took the message, or the choice made at the console.\<close>

datatype console_choice = ApprovedOnce | ApprovedAlways | ChoseDeny

datatype send_result = SendOk | SendFailed | ConsoleChoice console_choice

definition unreachable_tag :: "channel_kind \<Rightarrow> string" where
  "unreachable_tag k = (case k of ViaTelegram \<Rightarrow> ''telegram-unreachable'' | _ \<Rightarrow> ''slack-unreachable'')"

definition unreachable_reason :: "channel_kind \<Rightarrow> string" where
  "unreachable_reason k = (case k of ViaTelegram \<Rightarrow> ''HITL: Telegram unreachable - fail closed''
     | _ \<Rightarrow> ''HITL: Slack unreachable - fail closed'')"

text \<open>
  The choice to always approve at the console also starts the deferred write of the stored pattern, an
  operation of its own on the rules file; the maps from tokens to message ids only serve the
  confirmation messages and are left out.
\<close>

definition dispatch_sent :: "wait_ctx \<Rightarrow> send_result \<Rightarrow> plugin \<Rightarrow> call_step \<times> plugin" where
  "dispatch_sent wt r s =
     (case r of
        SendFailed \<Rightarrow>
          (fallback_answer (wt_policy wt) (unreachable_reason (wt_kind wt)),
           logHitlDecision (unreachable_tag (wt_kind wt)) (wt_token wt) (wt_toolName wt) (wt_identity wt)
             (wt_policy wt) (s\<lparr>pl_manager := cancel (wt_token wt) (pl_manager s)\<rparr>))
      | SendOk \<Rightarrow> (Awaiting wt, s)
      | ConsoleChoice c \<Rightarrow>
          (let s1 = (if c = ApprovedAlways
                     then s\<lparr>pl_always := insert (wt_token wt) (pl_always s),
                            pl_manager := addSessionAutoApproval (id_auditChannel (wt_identity wt))
                              (wt_action_class wt) (pl_manager s)\<rparr>
                     else s);
               d = (if c = ChoseDeny then Denied else Approved)
           in (Awaiting wt, s1\<lparr>pl_manager := snd (resolveApproval (wt_token wt) d None (pl_manager s1))\<rparr>)))"

text \<open>From the outcome of the promise on.\<close>

definition resolveHitlDecision :: "wait_ctx \<Rightarrow> outcome \<Rightarrow> plugin \<Rightarrow> call_step \<times> plugin" where
  "resolveHitlDecision wt d s =
     (let log = (\<lambda>tag. logHitlDecision tag (wt_token wt) (wt_toolName wt) (wt_identity wt) (wt_policy wt))
      in case d of
           Approved \<Rightarrow> (Answer None, log ''approved'' (s\<lparr>pl_always := pl_always s - {wt_token wt}\<rparr>))
         | Denied \<Rightarrow>
             (Answer (Some (''HITL DENIED: operator denied '' @ wt_toolName wt @ '' ('' @ wt_action_class wt @ '')'')),
              log ''denied'' s)
         | Expired \<Rightarrow>
             (fallback_answer (wt_policy wt) ''HITL: Approval timed out - denied by policy fallback'',
              log (fallback_entry (wt_policy wt)) s))"

section \<open>The handler\<close>

text \<open>Budget: count the call, then check; \<open>Some\<close> is the reason of a block.\<close>

definition budget_step :: "world \<Rightarrow> tool_call \<Rightarrow> plugin \<Rightarrow> string option \<times> plugin" where
  "budget_step w call s =
     (case pl_budget s of
        None \<Rightarrow> (None, s)
      | Some t \<Rightarrow>
          (let t' = budget_append (wd_iso w) (wd_log_written w) (estimate_tokens (tc_params call)) 0 None t
           in (if bc_exceeded (budget_check t') then Some ''daily_budget_exceeded'' else None,
               s\<lparr>pl_budget := Some t'\<rparr>)))"

text \<open>The stages over the plugin's state, and the listener of the emitter of the call.\<close>

definition plugin_stage1 :: "world \<Rightarrow> plugin stage" where
  "plugin_stage1 w ctx s =
     (Some (validateCapability (wd_sha256 w) (wd_now w) (pl_manager s) (\<lambda>_. Some None) ctx), s)"

definition plugin_stage2 :: "world \<Rightarrow> string \<Rightarrow> plugin stage" where
  "plugin_stage2 w toolName ctx s =
     (case createCombinedStage2 (wd_now w) toolName
             (if ff_approveAlwaysEnabled (wd_features w)
              then Some (\<lambda>ch ac. isSessionAutoApproved ch ac (pl_manager s)) else None)
             (map_option matchCommand (pl_checker s)) ctx (pl_engines s) of
        (d, es) \<Rightarrow> (d, s\<lparr>pl_engines := es\<rparr>))"

definition listener :: "world \<Rightarrow> audit_base \<Rightarrow> string \<Rightarrow> cee_decision \<Rightarrow> (plugin, unit) eff" where
  "listener w base target d s =
     (Some (),
      if ce_effect d = Permit \<and> ce_stage d = Some ''auto-permit''
      then (let patternLabel = or_else (ce_rule d) ''unknown'';
                matchedRule = Option.bind (pl_checker s) (\<lambda>rules. matchCommand rules target)
            in audit (AutoPermitEntry patternLabel
                        (case matchedRule of None \<Rightarrow> ''unknown''
                         | Some r \<Rightarrow> (case ap_method r of MDefault \<Rightarrow> ''default'' | MExact \<Rightarrow> ''exact''))
                        target base)
                 (s\<lparr>pl_coverage := record_hit (wd_now w) RCommand patternLabel CPermit None (pl_coverage s)\<rparr>))
      else if ce_effect d = Permit \<and> ce_reason d = ''session_auto_approved'' then s
      else if ce_effect d \<noteq> Forbid \<or> ce_reason d = ''pipeline_error'' then s
      else if hitl_gated d then s
      else audit (PolicyEntry (ce_stage d) (ce_reason d) (ce_rule d) (ce_priority d) base) s)"

definition call_identity :: "tool_call \<Rightarrow> plugin \<Rightarrow> resolved_identity" where
  "call_identity call s = resolveIdentity (tc_agentId call) (tc_channelId call) (pl_identities s)"

definition call_context :: "world \<Rightarrow> tool_call \<Rightarrow> plugin \<Rightarrow> pipeline_context" where
  "call_context w call s =
     (let identity = call_identity call s;
          params = normalizedParams (tc_params call);
          na = normalize_action (tc_toolName call) params
      in \<lparr>px_action_class = na_class na, px_target = na_target na,
          px_payload_hash = wd_sha256 w (sortedJsonStringify (JObj params)),
          px_approval_id = None, px_session_id = None, px_hitl_mode = HNone,
          px_rule_context = buildRuleContext (id_agentId identity) (id_channel identity) (pl_identities s),
          px_sourceTrustLevel = None, px_source = tc_source call, px_risk = Some (na_risk na),
          px_intent_group = na_intent na\<rparr>)"

definition call_base :: "tool_call \<Rightarrow> string \<Rightarrow> plugin \<Rightarrow> audit_base" where
  "call_base call action_class s =
     (let identity = call_identity call s
      in \<lparr>ab_toolName = tc_toolName call, ab_actionClass = action_class, ab_agentId = id_auditAgentId identity,
          ab_channel = id_auditChannel identity, ab_verified = id_verified identity, ab_mode = pl_mode s\<rparr>)"

definition toolIsRegistered :: "string \<Rightarrow> bool" where
  "toolIsRegistered toolName \<longleftrightarrow>
     (let ac = reg_class (getRegistryEntry toolName) in ac \<noteq> '''' \<and> ac \<noteq> ''unknown_sensitive_action'')"

text \<open>The forbid of an unregistered tool names the tool.\<close>

definition name_tool :: "string \<Rightarrow> string \<Rightarrow> cee_decision \<Rightarrow> cee_decision" where
  "name_tool toolName action_class d =
     (let q = [CHR 0x27]
      in if ce_effect d = Forbid \<and> action_class = ''unknown_sensitive_action''
            \<and> \<not> starts_with (ce_reason d) (''tool '' @ q @ toolName @ q)
         then d\<lparr>ce_reason := ''tool '' @ q @ toolName @ q @ '' is not registered: '' @ ce_reason d\<rparr>
         else d)"

text \<open>The policy of the class, if the configuration has one that requires approval.\<close>

definition call_policy :: "plugin \<Rightarrow> string \<Rightarrow> hitl_policy option" where
  "call_policy s action_class =
     (case pl_hitl s of
        None \<Rightarrow> None
      | Some c \<Rightarrow>
          (let r = checkAction c action_class in if requiresApproval r then matchedPolicy r else None))"

definition ask_operator ::
  "world \<Rightarrow> tool_call \<Rightarrow> resolved_identity \<Rightarrow> pipeline_context \<Rightarrow> hitl_policy \<Rightarrow> plugin \<Rightarrow> call_step \<times> plugin" where
  "ask_operator w call identity ctx policy s =
     (if isSessionAutoApproved (id_auditChannel identity) (px_action_class ctx) (pl_manager s)
      then (Answer None, s)
      else dispatchHitlChannel w policy (tc_toolName call) identity (px_target ctx) (px_action_class ctx) s)"

text \<open>What happens to the decision of the pipeline: a block, a question to the operator, or a pass.\<close>

definition handle_decision ::
  "world \<Rightarrow> tool_call \<Rightarrow> resolved_identity \<Rightarrow> audit_base \<Rightarrow> pipeline_context \<Rightarrow> cee_decision
     \<Rightarrow> plugin \<Rightarrow> call_step \<times> plugin" where
  "handle_decision w call identity base ctx d s =
     (if ce_effect d = Forbid
      then if ce_reason d = ''untrusted_source_high_risk'' then (Answer (Some ''untrusted_source_high_risk''), s)
           else if hitl_gated d
           then (case call_policy s (px_action_class ctx) of
                   Some policy \<Rightarrow> ask_operator w call identity ctx policy s
                 | None \<Rightarrow>
                     (Answer (Some (ce_reason d)),
                      audit (PolicyEntry (Some ''hitl-gated'') (ce_reason d) (ce_rule d) (ce_priority d) base) s))
           else (Answer (Some (ce_reason d)), s)
      else (case call_policy s (px_action_class ctx) of
              Some policy \<Rightarrow> ask_operator w call identity ctx policy s
            | None \<Rightarrow> (Answer None, s)))"

text \<open>\<open>beforeToolCallHandler\<close> up to the first wait. \<open>runPipeline\<close> does not throw, the listener does not.\<close>

definition before_tool_call :: "world \<Rightarrow> tool_call \<Rightarrow> plugin \<Rightarrow> call_step \<times> plugin" where
  "before_tool_call w call s0 =
     (case budget_step w call s0 of
        (Some reason, s) \<Rightarrow> (Answer (Some reason), s)
      | (None, s) \<Rightarrow>
          (let identity = call_identity call s;
               toolName = tc_toolName call;
               s1 = (if toolIsRegistered toolName then s
                     else audit (UnclassifiedEntry toolName (id_auditAgentId identity) (id_auditChannel identity)
                                   (id_verified identity)) s);
               ctx = call_context w call s;
               base = call_base call (px_action_class ctx) s
           in case runPipeline (wd_process w) (plugin_stage1 w) (plugin_stage2 w toolName)
                     (listener w base (px_target ctx)) ctx s1 of
                (None, s2) \<Rightarrow> (Answer (Some ''error''), s2)
              | (Some d0, s2) \<Rightarrow>
                  (let s3 = s2\<lparr>pl_coverage := record_hit (wd_now w) RTool toolName
                                 (if ce_effect d0 = Permit then CPermit else CForbid) None (pl_coverage s2)\<rparr>;
                       d = name_tool toolName (px_action_class ctx) d0
                   in handle_decision w call identity base ctx d s3)))"

end
