(* ===== verification/Stage2Props.thy ===== *)
theory Stage2Props
  imports Stage2 AutoPermitProps EngineTheorems
begin

text \<open>
  Properties of the combined stage 2: a permit is an automatic approval or no engine forbade, and an
  unconditional forbid is never turned into a releasable one by a HITL-gated forbid before it. What
  the stage needs of the automatic permits is the locale \<open>permit_checker\<close>.
\<close>

section \<open>The interface of the automatic permits\<close>

locale permit_checker =
  fixes rules :: "auto_permit list"
    and check :: "string \<Rightarrow> auto_permit option"
    and meaning :: "string \<Rightarrow> string \<Rightarrow> bool"
  assumes check_stored: "check cmd = Some r \<Longrightarrow> r \<in> set rules"
    and check_meaning: "check cmd = Some r \<Longrightarrow> meaning (ap_pattern r) cmd"
    and check_complete: "cmd \<noteq> [] \<Longrightarrow> r \<in> set rules \<Longrightarrow> meaning (ap_pattern r) cmd \<Longrightarrow> check cmd \<noteq> None"
begin

lemma auto_permit_origin:
  assumes "createCombinedStage2 now toolName autoPermit (Some check) ctx es = (Some d, es')"
    and "ce_stage d = Some ''auto-permit''" and "ce_effect d = Permit"
    and "\<And>d. fst (engines_part now toolName ctx es) = Some d \<Longrightarrow> ce_stage d \<noteq> Some ''auto-permit''"
  shows "\<exists>r\<in>set rules. ce_rule d = Some (ap_pattern r) \<and> meaning (ap_pattern r) (auto_command toolName ctx)
    \<and> es' = es"
  using assms check_stored check_meaning
  by (auto simp: createCombinedStage2_def cee_def split: if_splits option.splits)

end

definition command_meaning :: "string \<Rightarrow> string \<Rightarrow> bool" where
  "command_meaning pattern cmd \<longleftrightarrow> normalizeCommand cmd \<noteq> [] \<and> denotes pattern (normalizeCommand cmd)"


interpretation mc: permit_checker rules "matchCommand rules" command_meaning
  by unfold_locales
     (auto simp: match_command_eq command_meaning_def find_None_all dest: find_Some_mem split: if_splits)

section \<open>Where a permit comes from\<close>

lemma gate_result_permit: "gate_result r st p = Inr None \<Longrightarrow> dec_effect r = Permit \<and> p = None"
  by (cases "dec_effect r") (auto simp: gate_result_def split: if_splits option.splits)

lemma class_rules [simp]:
  "eng_rules (snd (evaluateByActionClass now ac name ctx eng)) = eng_rules eng"
  by (simp add: evaluateByActionClass_eq case_prod_beta split: option.split)

lemma intent_group_rules:
  "eng_rules eng = eng_rules eng' \<Longrightarrow>
     fst (evaluateByIntentGroup g ctx eng) = fst (evaluateByIntentGroup g ctx eng')"
  by (simp add: evaluateByIntentGroup_def split: option.split)

lemma intent_group_rule:
  "fst (evaluateByIntentGroup g ctx eng) = Some d \<Longrightarrow> dec_effect d = Forbid \<Longrightarrow> dec_rule d \<noteq> None"
  by (auto simp: evaluateByIntentGroup_def split: option.splits dest: first_with_Some)

lemma intent_loop_permit:
  "intent_loop g ctx es = Some (Inr None) \<Longrightarrow> (e, st) \<in> set es \<Longrightarrow>
     \<exists>d. fst (evaluateByIntentGroup g ctx e) = Some d \<and> dec_effect d = Permit"
proof (induction g ctx es rule: intent_loop.induct)
  case (2 g ctx eng stg rest)
  from "2.prems"(1) obtain ig where ig: "fst (evaluateByIntentGroup g ctx eng) = Some ig"
    by (auto split: option.splits)
  with "2.prems"(1) have skip: "dec_effect ig \<noteq> Forbid \<or> dec_rule ig = None"
    by (auto split: if_splits)
  then have permit: "dec_effect ig = Permit"
    using intent_group_rule [OF ig] by (cases "dec_effect ig") auto
  from "2.prems" ig skip have "(e, st) = (eng, stg) \<or> intent_loop g ctx rest = Some (Inr None) \<and> (e, st) \<in> set rest"
    by auto
  with ig permit "2.IH" [OF ig skip] show ?case by blast
qed simp

text \<open>What each engine says about the call.\<close>

definition class_permits :: "int \<Rightarrow> pipeline_context \<Rightarrow> engine \<Rightarrow> bool" where
  "class_permits now ctx eng \<longleftrightarrow>
     (\<exists>d. fst (evaluateByActionClass now (px_action_class ctx) (px_target ctx) (px_rule_context ctx) eng) = Some d
          \<and> dec_effect d = Permit)"

definition tool_permits :: "int \<Rightarrow> string \<Rightarrow> pipeline_context \<Rightarrow> engine \<Rightarrow> bool" where
  "tool_permits now toolName ctx eng \<longleftrightarrow>
     (\<exists>d. fst (evaluate now RTool toolName (px_rule_context ctx) (Some (px_target ctx))
                (snd (evaluateByActionClass now (px_action_class ctx) (px_target ctx) (px_rule_context ctx) eng))) = Some d
          \<and> dec_effect d = Permit)"

definition group_permits :: "pipeline_context \<Rightarrow> engine \<Rightarrow> bool" where
  "group_permits ctx eng \<longleftrightarrow>
     (\<forall>g. px_intent_group ctx = Some g \<longrightarrow>
        (\<exists>d. fst (evaluateByIntentGroup g (px_rule_context ctx) eng) = Some d \<and> dec_effect d = Permit))"

lemma group_permits_rules: "eng_rules eng = eng_rules eng' \<Longrightarrow> group_permits ctx eng \<longleftrightarrow> group_permits ctx eng'"
  unfolding group_permits_def using intent_group_rules [of eng eng'] by simp

lemma cedar_part_permit:
  assumes "cedar_part now ctx es = (Some (Inr None), es1)"
  shows "class_permits now ctx (cedar es) \<and> eng_rules (cedar es1) = eng_rules (cedar es) \<and> jsonEng es1 = jsonEng es"
proof -
  let ?e = "evaluateByActionClass now (px_action_class ctx) (px_target ctx) (px_rule_context ctx) (cedar es)"
  obtain r c where e: "?e = (Some r, c)" using assms by (auto simp: cedar_part_def split: option.splits prod.splits)
  have "eng_rules c = eng_rules (cedar es)" using class_rules [of now _ _ _ "cedar es"] e by (metis snd_conv)
  with assms e show ?thesis
    by (auto simp: cedar_part_def class_permits_def dest: gate_result_permit)
qed

lemma json_part_permit:
  assumes "json_part now toolName ctx p es = (Some (Inr None), es1)"
  shows "p = None \<and> cedar es1 = cedar es
    \<and> (\<forall>j. jsonEng es = Some j \<longrightarrow> class_permits now ctx j \<and> tool_permits now toolName ctx j
          \<and> (\<exists>j1. jsonEng es1 = Some j1 \<and> eng_rules j1 = eng_rules j))"
proof (cases "jsonEng es")
  case None
  with assms show ?thesis by (auto simp: json_part_def)
next
  case (Some j)
  let ?c = "evaluateByActionClass now (px_action_class ctx) (px_target ctx) (px_rule_context ctx) j"
  let ?t = "evaluate now RTool toolName (px_rule_context ctx) (Some (px_target ctx)) (snd ?c)"
  obtain r1 j1 where c: "?c = (Some r1, j1)"
    using assms Some by (auto simp: json_part_def split: option.splits prod.splits)
  obtain p1 where p1: "gate_result r1 ''json-rules'' p = Inr p1"
    using assms Some c by (auto simp: json_part_def split: sum.splits)
  obtain r2 j2 where t: "?t = (Some r2, j2)"
    using assms Some c p1 by (auto simp: json_part_def split: option.splits prod.splits)
  with assms Some c p1 have g2: "gate_result r2 ''json-rules'' p1 = Inr None" and es1: "es1 = es\<lparr>jsonEng := Some j2\<rparr>"
    by (auto simp: json_part_def)
  from gate_result_permit [OF g2] have "dec_effect r2 = Permit" "p1 = None" by auto
  moreover from this p1 have "dec_effect r1 = Permit" "p = None" by (auto dest: gate_result_permit)
  moreover have "eng_rules j2 = eng_rules j"
    using class_rules [of now _ _ _ j] c t evaluate_rules(1) by (metis snd_conv)
  ultimately show ?thesis using Some c t es1 by (auto simp: class_permits_def tool_permits_def)
qed

lemma intent_part_permit:
  assumes "intent_part ctx p es = (Some (Inr None), es1)"
  shows "p = None \<and> group_permits ctx (cedar es) \<and> (\<forall>j. jsonEng es = Some j \<longrightarrow> group_permits ctx j)"
proof (cases "px_intent_group ctx")
  case None
  with assms show ?thesis by (auto simp: intent_part_def group_permits_def)
next
  case (Some g)
  with assms have "p = None" and l: "intent_loop g (px_rule_context ctx) (intent_engines es) = Some (Inr None)"
    by (auto simp: intent_part_def split: if_splits)
  have "(cedar es, ''cedar'') \<in> set (intent_engines es)" by (simp add: intent_engines_def)
  moreover have "(j, ''json-rules'') \<in> set (intent_engines es)" if "jsonEng es = Some j" for j
    using that by (simp add: intent_engines_def)
  ultimately show ?thesis
    using \<open>p = None\<close> Some intent_loop_permit [OF l] by (auto simp: group_permits_def)
qed

text \<open>An automatic approval: of the session, or by a stored pattern.\<close>

definition auto_approved ::
  "(string \<Rightarrow> string \<Rightarrow> bool) option \<Rightarrow> auto_permit list option \<Rightarrow> string \<Rightarrow> pipeline_context \<Rightarrow> bool" where
  "auto_approved autoPermit rules toolName ctx \<longleftrightarrow>
     (\<exists>isAuto. autoPermit = Some isAuto \<and> isAuto (ctx_channel (px_rule_context ctx)) (px_action_class ctx))
     \<or> (\<exists>rs. rules = Some rs \<and> auto_command toolName ctx \<noteq> []
            \<and> (\<exists>r\<in>set rs. command_meaning (ap_pattern r) (auto_command toolName ctx)))"

lemma combined_not_auto:
  assumes "\<not> auto_approved autoPermit rules toolName ctx"
  shows "createCombinedStage2 now toolName autoPermit (map_option matchCommand rules) ctx es
    = engines_part now toolName ctx es"
proof -
  have "matchCommand rs (auto_command toolName ctx) = None" if "rules = Some rs" "auto_command toolName ctx \<noteq> []" for rs
  proof (cases "matchCommand rs (auto_command toolName ctx)")
    case (Some r)
    with mc.check_stored [OF Some] mc.check_meaning [OF Some] assms that show ?thesis
      by (auto simp: auto_approved_def)
  qed simp
  with assms show ?thesis
    by (auto simp: createCombinedStage2_def auto_approved_def split: option.split)
qed

text \<open>A property of the forbids that an evaluation returns or keeps.\<close>

definition res_ok :: "(cee_decision \<Rightarrow> bool) \<Rightarrow> cee_decision + cee_decision option \<Rightarrow> bool" where
  "res_ok Q x = (case x of Inl d \<Rightarrow> Q d | Inr None \<Rightarrow> True | Inr (Some d) \<Rightarrow> Q d)"

lemma res_ok_simps [simp]:
  "res_ok Q (Inl d) = Q d" "res_ok Q (Inr None)" "res_ok Q (Inr (Some d)) = Q d"
  by (simp_all add: res_ok_def)

definition is_forbid :: "cee_decision \<Rightarrow> bool" where
  "is_forbid d \<longleftrightarrow> ce_effect d = Forbid"

lemma staged_forbid [simp]: "is_forbid (toStagedForbid r st)" "is_forbid stage2_error"
  by (simp_all add: is_forbid_def stage2_error_def toStagedForbid_def staged_def cee_def)

lemma gate_ok: "res_ok is_forbid (Inr p) \<Longrightarrow> res_ok is_forbid (gate_result r st p)"
  by (cases p) (simp_all add: gate_result_def)

lemma cedar_part_ok: "cedar_part now ctx es = (Some x, es1) \<Longrightarrow> res_ok is_forbid x"
  by (auto simp: cedar_part_def intro!: gate_ok split: option.splits prod.splits)

lemma json_part_ok:
  assumes "json_part now toolName ctx p es = (Some x, es1)" and "res_ok is_forbid (Inr p)"
  shows "res_ok is_forbid x"
proof (cases "jsonEng es")
  case None
  with assms show ?thesis by (auto simp: json_part_def)
next
  case (Some j)
  let ?c = "evaluateByActionClass now (px_action_class ctx) (px_target ctx) (px_rule_context ctx) j"
  obtain r1 j1 where c: "?c = (Some r1, j1)"
    using assms(1) Some by (auto simp: json_part_def split: option.splits prod.splits)
  have ok1: "res_ok is_forbid (gate_result r1 ''json-rules'' p)" by (rule gate_ok [OF assms(2)])
  show ?thesis
  proof (cases "gate_result r1 ''json-rules'' p")
    case (Inl d)
    with assms(1) Some c ok1 show ?thesis by (auto simp: json_part_def)
  next
    case (Inr p1)
    with assms(1) Some c obtain r2 where "x = gate_result r2 ''json-rules'' p1"
      by (auto simp: json_part_def split: option.splits prod.splits)
    with ok1 Inr gate_ok show ?thesis by simp
  qed
qed

lemma intent_loop_ok: "intent_loop g rc l = Some x \<Longrightarrow> res_ok is_forbid x"
  by (induction g rc l rule: intent_loop.induct) (auto split: option.splits if_splits)

lemma intent_part_ok:
  "intent_part ctx p es = (Some x, es1) \<Longrightarrow> res_ok is_forbid (Inr p) \<Longrightarrow> res_ok is_forbid x"
  by (auto simp: intent_part_def dest: intent_loop_ok split: option.splits if_splits)

lemma engines_part_permit:
  assumes "engines_part now toolName ctx es = (Some d, es')" and "ce_effect d = Permit"
  shows "\<exists>p1 es1 p2. cedar_part now ctx es = (Some (Inr p1), es1)
    \<and> (\<exists>es2. json_part now toolName ctx p1 es1 = (Some (Inr p2), es2)
        \<and> intent_part ctx p2 es2 = (Some (Inr None), es'))"
proof -
  have nf: "\<not> is_forbid d" using assms(2) by (simp add: is_forbid_def)
  obtain x1 es1 where c: "cedar_part now ctx es = (x1, es1)" by (cases "cedar_part now ctx es")
  have "\<exists>p1. x1 = Some (Inr p1)"
    using assms(1) c nf by (auto simp: engines_part_def dest: cedar_part_ok split: option.splits sum.splits)
  then obtain p1 where p1: "x1 = Some (Inr p1)" by blast
  have ok1: "res_ok is_forbid (Inr p1)" using cedar_part_ok c p1 by blast
  obtain x2 es2 where j: "json_part now toolName ctx p1 es1 = (x2, es2)" by (cases "json_part now toolName ctx p1 es1")
  have "\<exists>p2. x2 = Some (Inr p2)"
    using assms(1) c p1 j nf by (auto simp: engines_part_def dest: json_part_ok [OF _ ok1] split: option.splits sum.splits)
  then obtain p2 where p2: "x2 = Some (Inr p2)" by blast
  have ok2: "res_ok is_forbid (Inr p2)" using json_part_ok [OF _ ok1] j p2 by blast
  obtain x3 es3 where i: "intent_part ctx p2 es2 = (x3, es3)" by (cases "intent_part ctx p2 es2")
  have "x3 = Some (Inr None) \<and> es3 = es'"
    using assms(1) c p1 j p2 i nf
    by (auto simp: engines_part_def dest: intent_part_ok [OF _ ok2] split: option.splits sum.splits)
  with c p1 j p2 i show ?thesis by blast
qed

text \<open>
  Where a permit of the combined stage 2 comes from: the session or a stored automatic permit
  approved the call, or neither engine forbade it: the class evaluation of both engines, the tool
  evaluation of the JSON engine and, for an action of an intent group, the group evaluation of both
  all gave a permit and none threw.
\<close>

theorem combined_permit_origin:
  assumes "createCombinedStage2 now toolName autoPermit (map_option matchCommand rules) ctx es = (Some d, es')"
    and "ce_effect d = Permit"
  shows "auto_approved autoPermit rules toolName ctx
    \<or> (class_permits now ctx (cedar es) \<and> group_permits ctx (cedar es)
       \<and> (\<forall>j. jsonEng es = Some j \<longrightarrow>
            class_permits now ctx j \<and> tool_permits now toolName ctx j \<and> group_permits ctx j))"
proof (cases "auto_approved autoPermit rules toolName ctx")
  case False
  with assms(1) have "engines_part now toolName ctx es = (Some d, es')" by (simp add: combined_not_auto)
  from engines_part_permit [OF this assms(2)] obtain p1 es1 p2 es2 where
    c: "cedar_part now ctx es = (Some (Inr p1), es1)"
    and j: "json_part now toolName ctx p1 es1 = (Some (Inr p2), es2)"
    and i: "intent_part ctx p2 es2 = (Some (Inr None), es')" by blast
  from intent_part_permit [OF i] have "p2 = None" and ig: "group_permits ctx (cedar es2)"
    "\<And>j. jsonEng es2 = Some j \<Longrightarrow> group_permits ctx j" by auto
  from json_part_permit [OF j [unfolded \<open>p2 = None\<close>]] have "p1 = None" and jp: "cedar es2 = cedar es1"
    "\<And>k. jsonEng es1 = Some k \<Longrightarrow> class_permits now ctx k \<and> tool_permits now toolName ctx k
        \<and> (\<exists>j1. jsonEng es2 = Some j1 \<and> eng_rules j1 = eng_rules k)" by auto
  from cedar_part_permit [OF c [unfolded \<open>p1 = None\<close>]] have cp: "class_permits now ctx (cedar es)"
    "eng_rules (cedar es1) = eng_rules (cedar es)" "jsonEng es1 = jsonEng es" by auto
  have "group_permits ctx k" if "jsonEng es = Some k" for k
    using jp(2) [of k] ig(2) cp(3) that group_permits_rules by metis
  with cp jp ig(1) show ?thesis using group_permits_rules [of "cedar es1" "cedar es"] by simp
qed simp

definition empty_engines :: engines where
  "empty_engines = \<lparr>cedar = new_engine None, jsonEng = None\<rparr>"

definition read_context :: pipeline_context where
  "read_context = \<lparr>px_action_class = ''filesystem.read'', px_target = ''f'', px_payload_hash = ''h'',
     px_approval_id = None, px_session_id = None, px_hitl_mode = HNone, px_rule_context = a_context,
     px_sourceTrustLevel = None, px_source = None, px_risk = Some Low, px_intent_group = None\<rparr>"

theorem combined_permit_origin_witness:
  "auto_approved None None ''read'' read_context
    \<or> (class_permits 0 read_context (cedar empty_engines) \<and> group_permits read_context (cedar empty_engines)
       \<and> (\<forall>j. jsonEng empty_engines = Some j \<longrightarrow>
            class_permits 0 read_context j \<and> tool_permits 0 ''read'' read_context j \<and> group_permits read_context j))"
proof (rule combined_permit_origin)
  have "evaluateByActionClass 0 ''filesystem.read'' ''f'' a_context (new_engine None)
      = (Some (default_decision (new_engine None)), new_engine None)"
    by (simp add: evaluateByActionClass_def evaluate_def new_engine_def first_with_def default_decision_def)
  then show "createCombinedStage2 0 ''read'' None (map_option matchCommand None) read_context empty_engines
      = (Some all_passed, empty_engines)"
    by (simp add: createCombinedStage2_def engines_part_def cedar_part_def json_part_def intent_part_def
        empty_engines_def read_context_def gate_result_def default_decision_def new_engine_def)
qed (simp add: all_passed_def cee_def)

section \<open>Unconditional forbids\<close>

definition unconditional :: "decision \<Rightarrow> bool" where
  "unconditional d \<longleftrightarrow> dec_effect d = Forbid \<and> \<not> isHitlGatedDecision d"

text \<open>What HITL dispatch may release: a forbid with a priority below the threshold.\<close>

definition releasable :: "cee_decision \<Rightarrow> bool" where
  "releasable d \<longleftrightarrow> (\<exists>p. ce_priority d = Some p \<and> p < HITL_PRIORITY_THRESHOLD)"

lemma unconditional_not_releasable: "unconditional r \<Longrightarrow> \<not> releasable (toStagedForbid r st)"
  by (auto simp: unconditional_def isHitlGatedDecision_def releasable_def toStagedForbid_def staged_def
      matched_priority_def split: option.splits)

lemma stage2_error_not_releasable: "\<not> releasable stage2_error"
  by (simp add: releasable_def stage2_error_def cee_def)

lemma gate_unconditional: "unconditional r \<Longrightarrow> gate_result r st p = Inl (toStagedForbid r st)"
  by (simp add: gate_result_def unconditional_def)

lemma gate_Inl: "gate_result r st p = Inl d \<Longrightarrow> unconditional r \<and> d = toStagedForbid r st"
  by (auto simp: gate_result_def unconditional_def split: if_splits)

abbreviation class_decision :: "int \<Rightarrow> pipeline_context \<Rightarrow> engine \<Rightarrow> decision option \<times> engine" where
  "class_decision now ctx eng \<equiv>
     evaluateByActionClass now (px_action_class ctx) (px_target ctx) (px_rule_context ctx) eng"

abbreviation tool_decision :: "int \<Rightarrow> string \<Rightarrow> pipeline_context \<Rightarrow> engine \<Rightarrow> decision option \<times> engine" where
  "tool_decision now toolName ctx eng \<equiv>
     evaluate now RTool toolName (px_rule_context ctx) (Some (px_target ctx)) (snd (class_decision now ctx eng))"

lemma json_part_unconditional:
  assumes "jsonEng es = Some j" and "unconditional d0"
    and "fst (class_decision now ctx j) = Some d0 \<or> fst (tool_decision now toolName ctx j) = Some d0"
  shows "case fst (json_part now toolName ctx p es) of
      None \<Rightarrow> True | Some (Inl d) \<Rightarrow> is_forbid d \<and> \<not> releasable d | Some (Inr q) \<Rightarrow> False"
proof (cases "class_decision now ctx j")
  case (Pair r1 j1)
  show ?thesis
  proof (cases r1)
    case None
    with Pair assms(1) show ?thesis by (simp add: json_part_def)
  next
    case r: (Some d1)
    show ?thesis
    proof (cases "gate_result d1 ''json-rules'' p")
      case (Inl d)
      with Pair r assms(1) gate_Inl [OF Inl] show ?thesis
        by (simp add: json_part_def unconditional_not_releasable)
    next
      case (Inr p1)
      then have "\<not> unconditional d1" using gate_unconditional by auto
      with assms(2,3) Pair r have "fst (tool_decision now toolName ctx j) = Some d0" by auto
      with Pair r Inr assms(1,2) show ?thesis
        by (auto simp: json_part_def gate_unconditional unconditional_not_releasable split: prod.split option.split)
    qed
  qed
qed

lemma combined_unconditional:
  assumes "\<not> auto_approved autoPermit rules toolName ctx" and "unconditional d0"
    and "fst (class_decision now ctx (cedar es)) = Some d0
      \<or> (\<exists>j. jsonEng es = Some j \<and>
          (fst (class_decision now ctx j) = Some d0 \<or> fst (tool_decision now toolName ctx j) = Some d0))"
  shows "\<exists>d es'. createCombinedStage2 now toolName autoPermit (map_option matchCommand rules) ctx es = (Some d, es')
    \<and> ce_effect d = Forbid \<and> \<not> releasable d"
proof -
  note er = stage2_error_not_releasable
  have fb: "ce_effect (toStagedForbid r st) = Forbid" "ce_effect stage2_error = Forbid" for r st
    using staged_forbid by (auto simp: is_forbid_def)
  obtain r c where rc: "class_decision now ctx (cedar es) = (r, c)" by (cases "class_decision now ctx (cedar es)")
  show ?thesis
    unfolding combined_not_auto [OF assms(1)]
  proof (cases "r = None \<or> (\<exists>d. r = Some d \<and> unconditional d)")
    case True
    with rc show "\<exists>d es'. engines_part now toolName ctx es = (Some d, es') \<and> ce_effect d = Forbid \<and> \<not> releasable d"
      by (auto simp: engines_part_def cedar_part_def gate_unconditional unconditional_not_releasable er fb)
  next
    case False
    then obtain d1 where r: "r = Some d1" "\<not> unconditional d1" by auto
    with assms(2,3) rc obtain j where j: "jsonEng es = Some j"
      "fst (class_decision now ctx j) = Some d0 \<or> fst (tool_decision now toolName ctx j) = Some d0" by auto
    obtain p1 where p1: "gate_result d1 ''cedar'' None = Inr p1"
      using gate_Inl r(2) by (cases "gate_result d1 ''cedar'' None") auto
    have cp: "cedar_part now ctx es = (Some (Inr p1), es\<lparr>cedar := c\<rparr>)" using rc r p1 by (simp add: cedar_part_def)
    from json_part_unconditional [of "es\<lparr>cedar := c\<rparr>", OF _ assms(2) j(2), of p1] j(1)
    show "\<exists>d es'. engines_part now toolName ctx es = (Some d, es') \<and> ce_effect d = Forbid \<and> \<not> releasable d"
      by (auto simp: engines_part_def cp er fb is_forbid_def split: option.splits sum.splits prod.splits)
  qed
qed

text \<open>
  An unconditional forbid of a rule stands: unless the call is automatically approved, when the
  class evaluation of the Cedar engine, or the class or tool evaluation of the JSON engine, gives a
  forbid of a rule with no priority or priority 100 and above, the combined stage 2 forbids with a
  decision that HITL dispatch cannot release, also when a releasable forbid was found before it.
\<close>

theorem unconditional_forbid_stands:
  assumes "\<not> auto_approved autoPermit rules toolName ctx" and "unconditional d0"
    and "fst (class_decision now ctx (cedar es)) = Some d0
      \<or> (\<exists>j. jsonEng es = Some j \<and>
          (fst (class_decision now ctx j) = Some d0 \<or> fst (tool_decision now toolName ctx j) = Some d0))"
  shows "\<exists>d es'. createCombinedStage2 now toolName autoPermit (map_option matchCommand rules) ctx es = (Some d, es')
    \<and> ce_effect d = Forbid \<and> \<not> releasable d"
  by (rule combined_unconditional [OF assms])

definition hard_forbid :: rule where
  "hard_forbid = (class_rule 0 Forbid ''filesystem.read'')\<lparr>rule_priority := Some 100\<rparr>"

definition hard_engines :: engines where
  "hard_engines = \<lparr>cedar = engine_of [hard_forbid], jsonEng = None\<rparr>"

theorem unconditional_forbid_stands_witness:
  "\<exists>d es'. createCombinedStage2 0 ''read'' None (map_option matchCommand None) read_context hard_engines = (Some d, es')
    \<and> ce_effect d = Forbid \<and> \<not> releasable d"
proof (rule unconditional_forbid_stands)
  show "unconditional (rule_decision hard_forbid)"
    by (simp add: unconditional_def isHitlGatedDecision_def hard_forbid_def class_rule_def plain_rule_def
        HITL_PRIORITY_THRESHOLD_def)
  show "fst (class_decision 0 read_context (cedar hard_engines)) = Some (rule_decision hard_forbid)
      \<or> (\<exists>j. jsonEng hard_engines = Some j \<and> (fst (class_decision 0 read_context j) = Some (rule_decision hard_forbid)
          \<or> fst (tool_decision 0 ''read'' read_context j) = Some (rule_decision hard_forbid)))"
    by (simp add: hard_engines_def sample_defs hard_forbid_def read_context_def evaluateByActionClass_def
        class_guard_def target_ok_def first_with_def)
qed (simp add: auto_approved_def)

section \<open>Unconditional forbids that do not stand\<close>

text \<open>
  Two unconditional forbids the evaluator does not report: one of an intent group, once a releasable
  forbid is pending, and one that comes after a releasable forbid among the rules of one engine.
\<close>

definition gated_forbid :: rule where
  "gated_forbid = (class_rule 1 Forbid ''filesystem.read'')\<lparr>rule_priority := Some 90\<rparr>"

definition group_forbid :: rule where
  "group_forbid = (plain_rule 2 Forbid)\<lparr>rule_intent_group := Some ''data_exfiltration'', rule_priority := Some 100\<rparr>"

lemmas stage_eval_simps = createCombinedStage2_def engines_part_def cedar_part_def json_part_def intent_part_def
  evaluateByActionClass_def evaluateByIntentGroup_def class_guard_def intent_guard_def target_ok_def
  first_with_def sample_defs read_context_def gate_result_def isHitlGatedDecision_def toStagedForbid_def
  staged_def matched_priority_def cee_def HITL_PRIORITY_THRESHOLD_def releasable_def

lemma intent_forbid_skipped:
  "map_option (\<lambda>d. (ce_effect d, ce_priority d)) (fst (createCombinedStage2 0 ''read'' None None
     (read_context\<lparr>px_intent_group := Some ''data_exfiltration''\<rparr>)
     \<lparr>cedar = engine_of [gated_forbid, group_forbid], jsonEng = None\<rparr>)) = Some (Forbid, Some 90)"
  by (simp add: stage_eval_simps gated_forbid_def group_forbid_def)

lemma later_forbid_hidden:
  "map_option (\<lambda>d. (ce_effect d, ce_priority d)) (fst (createCombinedStage2 0 ''read'' None None
     read_context \<lparr>cedar = engine_of [gated_forbid, hard_forbid], jsonEng = None\<rparr>)) = Some (Forbid, Some 90)"
  by (simp add: stage_eval_simps gated_forbid_def hard_forbid_def)

end
