(* ===== verification/NormalizeProps.thy ===== *)
theory NormalizeProps
  imports Normalize
begin

text \<open>
  Properties of action normalisation: the shell-metacharacter test as a statement about
  characters, the reclassification rules as a table, the fail-closed classification of unknown
  tools, and the aliases of the critical entries of the registry.
\<close>

section \<open>Looking up concrete names\<close>

lemmas find_alias_simps = rev.simps append.simps find.simps reg_alias_eqs list.set insert_iff empty_iff
  list.inject list.distinct char.inject simp_thms if_True if_False

lemma lookup_http_post: "map_of ALIAS_INDEX ''http_post'' = Some reg_web_post"
  unfolding alias_index_lookup REGISTRY_def by (simp only: find_alias_simps)

lemma web_post_class: "reg_class reg_web_post = ''web.post''"
  by (simp add: reg_web_post_def)

lemma web_post_risk: "reg_risk reg_web_post = Medium"
  by (simp add: reg_web_post_def)

lemma fs_write_unique: "e \<in> set REGISTRY \<Longrightarrow> reg_class e = ''filesystem.write'' \<Longrightarrow> e = reg_filesystem_write"
  unfolding REGISTRY_def list.set insert_iff empty_iff
  by (elim disjE; simp only: reg_class_eqs list.inject char.inject simp_thms)

lemma fs_write_risk: "reg_risk reg_filesystem_write = Medium"
  by (simp add: reg_filesystem_write_def)

section \<open>Shell metacharacters\<close>

definition metachars :: "char set" where
  "metachars = {CHR 0x5C, CHR '';'', CHR ''|'', CHR ''&'', CHR ''>'', CHR ''<'', CHR 0x60, CHR ''$'',
     CHR ''('', CHR '')'', CHR ''['', CHR '']'', CHR 0x7B, CHR 0x7D}"

lemma containsShellMetachars_iff: "containsShellMetachars v \<longleftrightarrow> (\<exists>c\<in>set v. c \<in> metachars)"
  unfolding containsShellMetachars_def SHELL_METACHAR_RE_def rx_test_class
  by (auto simp: cls_def metachars_def)

lemma hasShellMetachars_iff:
  "hasShellMetacharsInParams params
   \<longleftrightarrow> (\<exists>k s c. (k, JStr s) \<in> set params \<and> c \<in> set s \<and> c \<in> metachars)"
proof -
  have v: "(case v of JStr s \<Rightarrow> containsShellMetachars s | _ \<Rightarrow> False)
      \<longleftrightarrow> (\<exists>s. v = JStr s \<and> (\<exists>c\<in>set s. c \<in> metachars))" for v
    by (cases v) (simp_all add: containsShellMetachars_iff)
  show ?thesis
  proof
    assume "hasShellMetacharsInParams params"
    then obtain x s where "x \<in> set params" "snd x = JStr s" "\<exists>c\<in>set s. c \<in> metachars"
      unfolding hasShellMetacharsInParams_def list_ex_iff v by auto
    then show "\<exists>k s c. (k, JStr s) \<in> set params \<and> c \<in> set s \<and> c \<in> metachars"
      by (metis prod.collapse)
  next
    assume "\<exists>k s c. (k, JStr s) \<in> set params \<and> c \<in> set s \<and> c \<in> metachars"
    then obtain k s where "(k, JStr s) \<in> set params" "\<exists>c\<in>set s. c \<in> metachars" by blast
    then have "JStr s \<in> set (map snd params)" by force
    with \<open>\<exists>c\<in>set s. c \<in> metachars\<close> show "hasShellMetacharsInParams params"
      unfolding hasShellMetacharsInParams_def list_ex_iff v by blast
  qed
qed

section \<open>The reclassification rules\<close>

definition is_url :: "string \<Rightarrow> bool" where
  "is_url t \<longleftrightarrow> prefix ''http://'' t \<or> prefix ''https://'' t"

lemma normalize_action_class:
  "na_class (normalize_action n ps) =
     (let e = getRegistryEntry n; t = extractTarget (reg_class e) ps
      in if reg_class e \<noteq> ''filesystem.write'' then reg_class e
         else if is_url t then ''web.post''
         else if CHR ''@'' \<in> set t then ''communication.external.send''
         else ''filesystem.write'')"
proof -
  have at: "js_includes t ''@'' \<longleftrightarrow> CHR ''@'' \<in> set t" for t
    unfolding js_includes_iff in_set_conv_decomp by simp
  show ?thesis
    by (simp add: normalize_action_def Let_def lookup_http_post web_post_class is_url_def at
        starts_with_prefix)
qed

text \<open>
  Classification of a call: \<open>normalize_action\<close> resolves the tool's registry entry; a
  \<open>filesystem.write\<close> whose target is an HTTP(S) URL becomes \<open>web.post\<close>, one whose target contains
  \<open>@\<close> becomes \<open>communication.external.send\<close>; every other class stays, and the approval mode and
  intent group are always those of the registry entry of the tool.
\<close>

theorem normalize_classification:
  "na_class (normalize_action n ps) =
     (let e = getRegistryEntry n; t = extractTarget (reg_class e) ps
      in if reg_class e \<noteq> ''filesystem.write'' then reg_class e
         else if is_url t then ''web.post''
         else if CHR ''@'' \<in> set t then ''communication.external.send''
         else ''filesystem.write'')
   \<and> na_mode (normalize_action n ps) = reg_mode (getRegistryEntry n)
   \<and> na_intent (normalize_action n ps) = reg_intent (getRegistryEntry n)"
  by (simp add: normalize_action_class) (simp add: normalize_action_def Let_def case_prod_beta)

text \<open>
  The risk is never below the registry's: \<open>normalize_action\<close> gives at least the risk of the
  tool's registry entry, and it gives \<open>critical\<close> exactly when the entry is critical or some string
  parameter contains a shell metacharacter.
\<close>

theorem normalize_risk:
  "reg_risk (getRegistryEntry n) \<le> na_risk (normalize_action n ps)
   \<and> (na_risk (normalize_action n ps) = Critical \<longleftrightarrow>
       reg_risk (getRegistryEntry n) = Critical
       \<or> (\<exists>k s c. (k, JStr s) \<in> set ps \<and> c \<in> set s \<and> c \<in> metachars))"
proof -
  let ?e = "getRegistryEntry n"
  have fs: "reg_risk ?e = Medium" if "reg_class ?e = ''filesystem.write''"
    using fs_write_unique [OF getRegistryEntry_mem that] fs_write_risk by simp
  have post: "reg_risk (case map_of ALIAS_INDEX ''http_post'' of Some e \<Rightarrow> e | None \<Rightarrow> UNKNOWN_ENTRY) = Medium"
    by (simp add: lookup_http_post web_post_risk)
  show ?thesis
  proof (cases "hasShellMetacharsInParams ps")
    case True
    then show ?thesis
      unfolding hasShellMetachars_iff [symmetric] by (simp add: normalize_action_def Let_def case_prod_beta)
  next
    case False
    then show ?thesis
      unfolding hasShellMetachars_iff [symmetric]
      by (cases "reg_class ?e = ''filesystem.write''")
         (simp_all add: normalize_action_def Let_def case_prod_beta post fs)
  qed
qed

section \<open>Unknown tools\<close>

lemma unknown_tool_normalized:
  assumes "\<forall>e\<in>set REGISTRY. js_lower n \<notin> set (reg_aliases e)"
  shows "na_class (normalize_action n ps) = ''unknown_sensitive_action''
    \<and> na_risk (normalize_action n ps) = Critical
    \<and> na_mode (normalize_action n ps) = PerRequest"
proof -
  have "map_of ALIAS_INDEX (js_lower n) = None"
    unfolding alias_index_lookup find_None_all using assms by simp
  then have "getRegistryEntry n = reg_unknown_sensitive_action"
    by (simp add: getRegistryEntry_def UNKNOWN_ENTRY_def REGISTRY_def)
  then show ?thesis
    by (simp add: normalize_action_def Let_def case_prod_beta reg_unknown_sensitive_action_def)
qed

text \<open>
  Fail closed: a tool name that is no alias of the registry, in any letter case, is classified
  \<open>unknown_sensitive_action\<close> with critical risk and per-request approval, whatever its parameters.
\<close>

theorem unknown_tool_fail_closed:
  assumes "\<forall>e\<in>set REGISTRY. js_lower n \<notin> set (reg_aliases e)"
  shows "na_class (normalize_action n ps) = ''unknown_sensitive_action''
    \<and> na_risk (normalize_action n ps) = Critical
    \<and> na_mode (normalize_action n ps) = PerRequest"
  by (rule unknown_tool_normalized [OF assms])

theorem unknown_tool_fail_closed_witness:
  "na_class (normalize_action ''frobnicate'' []) = ''unknown_sensitive_action''
    \<and> na_risk (normalize_action ''frobnicate'' []) = Critical
    \<and> na_mode (normalize_action ''frobnicate'' []) = PerRequest"
proof (rule unknown_tool_fail_closed)
  have low: "js_lower ''frobnicate'' = ''frobnicate''" by code_simp
  show "\<forall>e\<in>set REGISTRY. js_lower ''frobnicate'' \<notin> set (reg_aliases e)"
    unfolding low REGISTRY_def list.set
    by (simp only: ball_simps reg_alias_eqs list.set insert_iff empty_iff list.inject char.inject
        simp_thms)
qed

section \<open>Critical aliases\<close>

lemma critical_lookup:
  "\<forall>a\<in>set (reg_aliases reg_credential_write). map_of ALIAS_INDEX a = Some reg_credential_write"
  "\<forall>a\<in>set (reg_aliases reg_credential_rotate). map_of ALIAS_INDEX a = Some reg_credential_rotate"
  "\<forall>a\<in>set (reg_aliases reg_payment_initiate). map_of ALIAS_INDEX a = Some reg_payment_initiate"
  "\<forall>a\<in>set (reg_aliases reg_system_service). map_of ALIAS_INDEX a = Some reg_system_service"
  "\<forall>a\<in>set (reg_aliases reg_permissions_elevate). map_of ALIAS_INDEX a = Some reg_permissions_elevate"
  unfolding alias_index_lookup REGISTRY_def by (simp_all only: ball_simps list.set find_alias_simps)

lemma registry_risks:
  "e \<in> set REGISTRY \<Longrightarrow> reg_risk e = Critical \<Longrightarrow>
     e = reg_credential_write \<or> e = reg_credential_rotate \<or> e = reg_payment_initiate
     \<or> e = reg_system_service \<or> e = reg_permissions_elevate \<or> e = reg_unknown_sensitive_action"
  unfolding REGISTRY_def list.set insert_iff empty_iff
  by (elim disjE) (simp_all only: reg_entry_defs registry_entry.select_convs risk_level.distinct simp_thms)

text \<open>
  No alias of a critical entry of the registry is shadowed by another entry: a tool called by any
  alias of a critical entry, in any letter case, resolves to an entry of that very class, with
  critical risk and per-request approval.
\<close>

theorem critical_alias_not_shadowed:
  assumes "e \<in> set REGISTRY" and "reg_risk e = Critical" and "js_lower n \<in> set (reg_aliases e)"
  shows "na_class (normalize_action n ps) = reg_class e
    \<and> na_risk (normalize_action n ps) = Critical \<and> na_mode (normalize_action n ps) = PerRequest"
proof -
  have mode: "reg_mode e = PerRequest" and cl: "reg_class e \<noteq> ''filesystem.write''"
    using registry_risks [OF assms(1,2)]
    by (elim disjE; simp only: reg_entry_defs registry_entry.select_convs reg_class_eqs list.inject char.inject simp_thms)+
  have "map_of ALIAS_INDEX (js_lower n) = Some e"
    using registry_risks [OF assms(1,2)] assms(3) critical_lookup
    by (elim disjE) (simp_all add: reg_unknown_sensitive_action_def)
  then have "getRegistryEntry n = e" by (simp add: getRegistryEntry_def)
  with mode cl assms(2) show ?thesis
    by (simp add: normalize_action_def Let_def case_prod_beta)
qed

theorem critical_alias_not_shadowed_witness:
  "na_class (normalize_action ''SuDo'' []) = reg_class reg_permissions_elevate
    \<and> na_risk (normalize_action ''SuDo'' []) = Critical \<and> na_mode (normalize_action ''SuDo'' []) = PerRequest"
proof (rule critical_alias_not_shadowed)
  have low: "js_lower ''SuDo'' = ''sudo''" by code_simp
  show "js_lower ''SuDo'' \<in> set (reg_aliases reg_permissions_elevate)"
    unfolding low by (simp add: reg_permissions_elevate_def)
qed (simp_all add: REGISTRY_def reg_permissions_elevate_def)

end
