(* ===== verification/PluginProps.thy ===== *)
theory PluginProps
  imports Plugin Stage2Props NormalizeProps PipelineProps
begin

text \<open>
  What the \<open>before_tool_call\<close> handler guarantees, end to end: from the event the host delivers to
  the answer, over every result of sending the request, every outcome of it, and anything other
  handlers do to the plugin's state while this one waits.
\<close>

section \<open>Runs of the handler\<close>

text \<open>What happened on the way to the answer.\<close>

datatype trail = AtOnce | AfterSend send_result | AfterOperator send_result outcome

inductive answers :: "world \<Rightarrow> tool_call \<Rightarrow> plugin \<Rightarrow> string option \<Rightarrow> trail \<Rightarrow> bool" where
  at_once: "before_tool_call w call s = (Answer a, s1) \<Longrightarrow> answers w call s a AtOnce"
| after_send: "before_tool_call w call s = (Sending wt, s1) \<Longrightarrow> dispatch_sent wt r s2 = (Answer a, s3)
    \<Longrightarrow> answers w call s a (AfterSend r)"
| after_operator: "before_tool_call w call s = (Sending wt, s1) \<Longrightarrow> dispatch_sent wt r s2 = (Awaiting wt', s3)
    \<Longrightarrow> resolveHitlDecision wt' d s4 = (Answer a, s5) \<Longrightarrow> answers w call s a (AfterOperator r d)"

inductive_cases answersE: "answers w call s a t"

section \<open>The pipeline never throws\<close>

text \<open>The state the pipeline starts in, and its run.\<close>

definition call_start :: "world \<Rightarrow> tool_call \<Rightarrow> plugin \<Rightarrow> plugin" where
  "call_start w call s0 =
     (let s = snd (budget_step w call s0); identity = call_identity call s
      in if toolIsRegistered (tc_toolName call) then s
         else audit (UnclassifiedEntry (tc_toolName call) (id_auditAgentId identity) (id_auditChannel identity)
                       (id_verified identity)) s)"

definition call_ctx :: "world \<Rightarrow> tool_call \<Rightarrow> plugin \<Rightarrow> pipeline_context" where
  "call_ctx w call s0 = call_context w call (snd (budget_step w call s0))"

definition call_run :: "world \<Rightarrow> tool_call \<Rightarrow> plugin \<Rightarrow> cee_decision option \<times> plugin" where
  "call_run w call s0 =
     (let s = snd (budget_step w call s0); ctx = call_ctx w call s0
      in runPipeline (wd_process w) (plugin_stage1 w) (plugin_stage2 w (tc_toolName call))
           (listener w (call_base call (px_action_class ctx) s) (px_target ctx)) ctx (call_start w call s0))"

lemma engines_part_total: "\<exists>d es'. engines_part now toolName ctx es = (Some d, es')"
  by (auto simp: engines_part_def split: prod.split option.split sum.split)

lemma combined_total: "\<exists>d es'. createCombinedStage2 now toolName a r ctx es = (Some d, es')"
  using engines_part_total by (auto simp: createCombinedStage2_def split: option.split)

lemma stage2_total: "\<exists>d es'. plugin_stage2 w toolName ctx s = (Some d, s\<lparr>pl_engines := es'\<rparr>)"
  unfolding plugin_stage2_def
  by (metis (no_types, lifting) combined_total case_prod_conv)

lemma listener_Some: "listener w base t d s = (Some (), snd (listener w base t d s))"
  by (simp add: listener_def)

lemma finish_listener: "finish (listener w base t) d s = (Some d, snd (listener w base t d s))"
  by (subst finish_def, subst listener_Some) simp

text \<open>
  The pipeline ends with one event for its decision: of the install phase, of stage 1 (whose
  check for an approval the context switches off), or of stage 2.
\<close>

lemma plugin_pipeline:
  assumes "px_hitl_mode ctx = HNone"
  shows "runPipeline env (plugin_stage1 w) (plugin_stage2 w toolName) (listener w base t) ctx s =
    (let emitted = (\<lambda>d s. (Some d, snd (listener w base t d s)));
         d1 = validateCapability (wd_sha256 w) (wd_now w) (pl_manager s) (\<lambda>_. Some None) ctx
     in if isInstallPhase env then emitted (cee Permit ''install_phase_bypass'' ''pipeline'') s
        else if ce_effect d1 = Forbid then emitted d1 s
        else (case plugin_stage2 w toolName ctx s of
                (Some d2, s') \<Rightarrow> emitted d2 s' | (None, s') \<Rightarrow> (None, s')))"
proof -
  obtain d es' where "plugin_stage2 w toolName ctx s = (Some d, s\<lparr>pl_engines := es'\<rparr>)"
    using stage2_total by blast
  then show ?thesis
    using assms by (simp add: runPipeline_def pipeline_body_def finish_listener plugin_stage1_def Let_def)
qed

lemma call_ctx_fields:
  "px_hitl_mode (call_ctx w call s) = HNone"
  "px_source (call_ctx w call s) = tc_source call"
  "px_sourceTrustLevel (call_ctx w call s) = None"
  "px_action_class (call_ctx w call s) = na_class (normalize_action (tc_toolName call) (normalizedParams (tc_params call)))"
  "px_target (call_ctx w call s) = na_target (normalize_action (tc_toolName call) (normalizedParams (tc_params call)))"
  "px_risk (call_ctx w call s) = Some (na_risk (normalize_action (tc_toolName call) (normalizedParams (tc_params call))))"
  "ctx_metadata (px_rule_context (call_ctx w call s)) = None"
  by (simp_all add: call_ctx_def call_context_def Let_def buildRuleContext_def)

lemma call_run_total: "\<exists>d s'. call_run w call s = (Some d, s')"
proof -
  obtain d es' where "plugin_stage2 w (tc_toolName call) (call_ctx w call s) (call_start w call s)
      = (Some d, (call_start w call s)\<lparr>pl_engines := es'\<rparr>)"
    using stage2_total by blast
  then show ?thesis
    by (simp add: call_run_def Let_def plugin_pipeline [OF call_ctx_fields(1)])
qed

text \<open>The state \<open>handle_decision\<close> works in.\<close>

definition call_handled :: "world \<Rightarrow> tool_call \<Rightarrow> plugin \<Rightarrow> plugin" where
  "call_handled w call s0 =
     (let s2 = snd (call_run w call s0); d = the (fst (call_run w call s0))
      in s2\<lparr>pl_coverage := record_hit (wd_now w) RTool (tc_toolName call)
              (if ce_effect d = Permit then CPermit else CForbid) None (pl_coverage s2)\<rparr>)"

lemma before_tool_call_eq:
  assumes "call_run w call s0 = (Some d0, s2)"
  shows "before_tool_call w call s0 =
    (case budget_step w call s0 of
       (Some reason, s) \<Rightarrow> (Answer (Some reason), s)
     | (None, s) \<Rightarrow>
         handle_decision w call (call_identity call s) (call_base call (px_action_class (call_ctx w call s0)) s)
           (call_ctx w call s0) (name_tool (tc_toolName call) (px_action_class (call_ctx w call s0)) d0)
           (call_handled w call s0))"
proof (cases "budget_step w call s0")
  case (Pair r s)
  show ?thesis
  proof (cases r)
    case (Some reason)
    with Pair show ?thesis by (simp add: before_tool_call_def)
  next
    case None
    with Pair have s: "snd (budget_step w call s0) = s" by simp
    have run: "runPipeline (wd_process w) (plugin_stage1 w) (plugin_stage2 w (tc_toolName call))
        (listener w (call_base call (px_action_class (call_context w call s)) s) (px_target (call_context w call s)))
        (call_context w call s)
        (if toolIsRegistered (tc_toolName call) then s
         else audit (UnclassifiedEntry (tc_toolName call) (id_auditAgentId (call_identity call s))
                       (id_auditChannel (call_identity call s)) (id_verified (call_identity call s))) s) = (Some d0, s2)"
      using assms by (simp only: call_run_def call_start_def call_ctx_def Let_def s)
    show ?thesis
      unfolding call_handled_def assms call_ctx_def s
      by (simp only: before_tool_call_def Pair None Let_def run prod.case option.case fst_conv snd_conv option.sel)
  qed
qed

section \<open>Steps after the pipeline\<close>

lemma name_tool_fields [simp]:
  "ce_effect (name_tool t ac d) = ce_effect d" "ce_priority (name_tool t ac d) = ce_priority d"
  "hitl_gated (name_tool t ac d) = hitl_gated d"
  by (simp_all add: name_tool_def hitl_gated_def Let_def)

definition channel_known :: "hitl_policy \<Rightarrow> bool" where
  "channel_known p \<longleftrightarrow> ac_channel (hp_approval p) \<in> {''telegram'', ''slack'', ''console''}"

text \<open>Whether the channel of the policy can be asked: the console always, Telegram and Slack when configured.\<close>

definition channel_ready :: "world \<Rightarrow> plugin \<Rightarrow> hitl_policy \<Rightarrow> bool" where
  "channel_ready w s p \<longleftrightarrow>
     (let channel = ac_channel (hp_approval p)
      in (channel = ''telegram'' \<and> resolveTelegramConfig (wd_env w) (Option.bind (pl_hitl s) hc_telegram) \<noteq> None)
         \<or> (channel = ''slack'' \<and> resolveSlackConfig (\<lambda>_. 0) (wd_env w) (Option.bind (pl_hitl s) hc_slack) \<noteq> None)
         \<or> channel = ''console'')"

definition auto_fallback :: "hitl_policy \<Rightarrow> bool" where
  "auto_fallback p \<longleftrightarrow> ac_fallback (hp_approval p) = AutoApprove"

lemma fallback_answer_None: "fallback_answer p r = Answer a \<Longrightarrow> a = None \<longleftrightarrow> auto_fallback p"
  by (cases "ac_fallback (hp_approval p)") (auto simp: fallback_answer_def auto_fallback_def)

lemma fallback_answer_ex: "\<exists>a. fallback_answer p r = Answer a"
  by (simp add: fallback_answer_def)

lemma open_request_Sending:
  "\<exists>wt s'. open_request w k p t i tg ac s = (Sending wt, s') \<and> wt_policy wt = p \<and> wt_action_class wt = ac
     \<and> wt_target wt = tg \<and> wt_toolName wt = t"
  by (simp add: open_request_def split: prod.split)

lemma dispatch_cases:
  "(\<exists>wt s'. dispatchHitlChannel w p t i tg ac s = (Sending wt, s') \<and> wt_policy wt = p \<and> wt_action_class wt = ac
       \<and> wt_target wt = tg \<and> wt_toolName wt = t \<and> channel_ready w s p)
   \<or> (\<exists>a s'. dispatchHitlChannel w p t i tg ac s = (Answer a, s') \<and> \<not> channel_ready w s p
       \<and> (a = None \<longrightarrow> \<not> channel_known p \<or> auto_fallback p))"
proof -
  have un: "\<exists>a s'. unconfigured n p t i s = (Answer a, s') \<and> (a = None \<longrightarrow> auto_fallback p)" for n
    by (cases "ac_fallback (hp_approval p)") (simp_all add: unconfigured_def fallback_answer_def auto_fallback_def)
  have op: "\<exists>wt s'. open_request w k p t i tg ac s = (Sending wt, s') \<and> wt_policy wt = p \<and> wt_action_class wt = ac
     \<and> wt_target wt = tg \<and> wt_toolName wt = t" for k
    by (rule open_request_Sending)
  show ?thesis
    unfolding dispatchHitlChannel_def Let_def channel_known_def channel_ready_def
    using un [of "''Telegram''"] un [of "''Slack''"] op [of ViaTelegram] op [of ViaSlack] op [of ViaConsole]
    by (simp split: option.split)
qed

lemma sent_Answer:
  "dispatch_sent wt r s = (Answer a, s') \<Longrightarrow> r = SendFailed \<and> (a = None \<longrightarrow> auto_fallback (wt_policy wt))"
  by (auto simp: dispatch_sent_def Let_def dest: fallback_answer_None split: send_result.splits)

lemma sent_Awaiting: "dispatch_sent wt r s = (Awaiting wt', s') \<Longrightarrow> wt' = wt"
  using fallback_answer_ex [of "wt_policy wt" "unreachable_reason (wt_kind wt)"]
  by (auto simp: dispatch_sent_def Let_def split: send_result.splits)

lemma resolve_Answer:
  "resolveHitlDecision wt d s = (Answer a, s') \<Longrightarrow>
     a = None \<longleftrightarrow> d = Approved \<or> (d = Expired \<and> auto_fallback (wt_policy wt))"
  by (cases d) (auto simp: resolveHitlDecision_def Let_def dest: fallback_answer_None)

lemma sent_resolved:
  "dispatch_sent wt r s = (Awaiting wt', s') \<Longrightarrow> resolveHitlDecision wt' d s4 = (Answer None, s5) \<Longrightarrow>
     d = Approved \<or> (d = Expired \<and> auto_fallback (wt_policy wt))"
  using sent_Awaiting resolve_Answer by blast

lemma ask_cases:
  "(ask_operator w call i ctx p s = (Answer None, s)
      \<and> isSessionAutoApproved (id_auditChannel i) (px_action_class ctx) (pl_manager s))
   \<or> (ask_operator w call i ctx p s
        = dispatchHitlChannel w p (tc_toolName call) i (px_target ctx) (px_action_class ctx) s)"
  by (simp add: ask_operator_def)

text \<open>
  How a call that a policy covers can end without a block. Nobody is asked, at once: the session was
  approved, the policy names a channel the plugin does not know, or its channel is not configured and its
  fallback is auto-approve. Or its channel is configured, and sending failed and the fallback is auto-approve,
  the operator approved, or the request expired and the fallback is auto-approve.
\<close>

definition released ::
  "trail \<Rightarrow> bool \<Rightarrow> bool \<Rightarrow> hitl_policy \<Rightarrow> bool" where
  "released t session ready p \<longleftrightarrow>
     (case t of
        AtOnce \<Rightarrow> session \<or> \<not> channel_known p \<or> (\<not> ready \<and> auto_fallback p)
      | AfterSend r \<Rightarrow> ready \<and> r = SendFailed \<and> auto_fallback p
      | AfterOperator r d \<Rightarrow> ready \<and> (d = Approved \<or> (d = Expired \<and> auto_fallback p)))"

lemma handle_release:
  assumes "handle_decision w call i base ctx d s = st"
    and "((\<exists>s1. st = (Answer None, s1)) \<and> t = AtOnce)
      \<or> (\<exists>wt s1 r s2 s3. st = (Sending wt, s1) \<and> dispatch_sent wt r s2 = (Answer None, s3) \<and> t = AfterSend r)
      \<or> (\<exists>wt s1 r s2 wt' s3 d s4 s5. st = (Sending wt, s1) \<and> dispatch_sent wt r s2 = (Awaiting wt', s3)
           \<and> resolveHitlDecision wt' d s4 = (Answer None, s5) \<and> t = AfterOperator r d)"
  shows "(ce_effect d = Permit \<or> hitl_gated d)
    \<and> (case call_policy s (px_action_class ctx) of
         None \<Rightarrow> ce_effect d = Permit \<and> t = AtOnce
       | Some p \<Rightarrow> released t (isSessionAutoApproved (id_auditChannel i) (px_action_class ctx) (pl_manager s))
           (channel_ready w s p) p)"
proof (cases "call_policy s (px_action_class ctx)")
  case None
  with assms show ?thesis
    by (cases "ce_effect d") (auto simp: handle_decision_def split: if_splits)
next
  case (Some p)
  let ?ask = "ask_operator w call i ctx p s"
  have "(\<exists>s1. st = (Answer None, s1)) \<or> (\<exists>wt s1. st = (Sending wt, s1))" using assms(2) by blast
  then have st: "(ce_effect d = Permit \<or> hitl_gated d) \<and> st = ?ask"
    using assms(1) Some by (cases "ce_effect d") (auto simp: handle_decision_def split: if_splits)
  have "released t (isSessionAutoApproved (id_auditChannel i) (px_action_class ctx) (pl_manager s))
      (channel_ready w s p) p"
    using ask_cases [of w call i ctx p s]
  proof
    assume "?ask = (Answer None, s) \<and> isSessionAutoApproved (id_auditChannel i) (px_action_class ctx) (pl_manager s)"
    with st assms(2) show ?thesis by (auto simp: released_def)
  next
    assume "?ask = dispatchHitlChannel w p (tc_toolName call) i (px_target ctx) (px_action_class ctx) s"
    with dispatch_cases [of w p "tc_toolName call" i "px_target ctx" "px_action_class ctx" s] st assms(2)
    show ?thesis
      by (auto simp: released_def dest: sent_Answer sent_resolved)
  qed
  with st Some show ?thesis by simp
qed

lemma answers_None:
  assumes "answers w call s None t"
  shows "fst (budget_step w call s) = None
    \<and> (\<exists>d s'. call_run w call s = (Some d, s')
        \<and> (ce_effect d = Permit \<or> hitl_gated d)
        \<and> (case call_policy (call_handled w call s) (px_action_class (call_ctx w call s)) of
             None \<Rightarrow> ce_effect d = Permit \<and> t = AtOnce
           | Some p \<Rightarrow> released t (isSessionAutoApproved
                 (id_auditChannel (call_identity call (snd (budget_step w call s))))
                 (px_action_class (call_ctx w call s)) (pl_manager (call_handled w call s)))
               (channel_ready w (call_handled w call s) p) p))"
proof -
  obtain d s2 where run: "call_run w call s = (Some d, s2)" using call_run_total by blast
  obtain b sb where b: "budget_step w call s = (b, sb)" by (cases "budget_step w call s")
  let ?h = "handle_decision w call (call_identity call sb) (call_base call (px_action_class (call_ctx w call s)) sb)
    (call_ctx w call s) (name_tool (tc_toolName call) (px_action_class (call_ctx w call s)) d) (call_handled w call s)"
  have eq: "before_tool_call w call s = (case b of Some reason \<Rightarrow> (Answer (Some reason), sb) | None \<Rightarrow> ?h)"
    using before_tool_call_eq [OF run] b by simp
  have bn: "b = None"
    using assms eq by (cases b) (auto elim: answersE)
  have eq': "?h = before_tool_call w call s" using eq bn by simp
  have "((\<exists>s1. ?h = (Answer None, s1)) \<and> t = AtOnce)
      \<or> (\<exists>wt s1 r s2 s3. ?h = (Sending wt, s1) \<and> dispatch_sent wt r s2 = (Answer None, s3) \<and> t = AfterSend r)
      \<or> (\<exists>wt s1 r s2 wt' s3 d s4 s5. ?h = (Sending wt, s1) \<and> dispatch_sent wt r s2 = (Awaiting wt', s3)
           \<and> resolveHitlDecision wt' d s4 = (Answer None, s5) \<and> t = AfterOperator r d)"
    using assms unfolding eq' by (elim answersE) blast+
  from handle_release [OF refl this] show ?thesis using run b bn by (simp split: option.splits)
qed

section \<open>Properties\<close>

text \<open>
  C1. A call is let through only when its budget is not exhausted and the pipeline permitted it or
  forbade it with a releasable forbid. When no HITL policy covers its class, only a permit lets it through,
  at once. When a policy does, exactly these endings are left: at once, nobody being asked, when its channel
  and class are approved for the session, when the policy names a channel the plugin does not know, or when
  its channel is not configured and its fallback is auto-approve; and otherwise, its channel being configured,
  after the operator approved, or, its fallback being auto-approve, after sending failed or the request expired.
\<close>

theorem call_let_through:
  assumes "answers w call s None t"
  shows "fst (budget_step w call s) = None
    \<and> (\<exists>d s'. call_run w call s = (Some d, s')
        \<and> (ce_effect d = Permit \<or> hitl_gated d)
        \<and> (case call_policy (call_handled w call s) (px_action_class (call_ctx w call s)) of
             None \<Rightarrow> ce_effect d = Permit \<and> t = AtOnce
           | Some p \<Rightarrow> released t (isSessionAutoApproved
                 (id_auditChannel (call_identity call (snd (budget_step w call s))))
                 (px_action_class (call_ctx w call s)) (pl_manager (call_handled w call s)))
               (channel_ready w (call_handled w call s) p) p))"
  by (rule answers_None [OF assms])

definition idle_plugin :: plugin where
  "idle_plugin = \<lparr>pl_mode = ClosedMode, pl_engines = \<lparr>cedar = startup_engine ClosedMode, jsonEng = None\<rparr>,
     pl_checker = None, pl_hitl = None, pl_manager = new_manager, pl_always = {}, pl_coverage = [],
     pl_budget = None, pl_identities = [], pl_audit = None\<rparr>"

definition quiet_world :: world where
  "quiet_world = \<lparr>wd_sha256 = id, wd_env = (\<lambda>_. None),
     wd_process = \<lparr>env_force_active = None, env_npm_lifecycle_event = None\<rparr>,
     wd_features = resolveFeatureFlags (\<lambda>_. None), wd_now = 0, wd_iso = '''', wd_uuid = ''u'', wd_log_written = True\<rparr>"

definition simple_call :: "string \<Rightarrow> string option \<Rightarrow> tool_call" where
  "simple_call name source = \<lparr>tc_toolName = name, tc_params = None, tc_source = source, tc_agentId = None,
     tc_channelId = None, tc_intent_hint = None\<rparr>"

text \<open>What a run has to satisfy to end in a block.\<close>

lemma answers_blocked:
  assumes "answers w call s a t" and "call_run w call s = (Some d, s')"
    and "ce_effect d = Forbid" and "\<not> hitl_gated d"
  shows "a \<noteq> None"
proof
  assume "a = None"
  with answers_None [of w call s t] assms show False by simp
qed

lemma gated_releasable: "hitl_gated d = releasable d"
  by (auto simp: hitl_gated_def releasable_def UNCONDITIONAL_FORBID_PRIORITY_def HITL_PRIORITY_THRESHOLD_def
      split: option.splits)

lemma stage1_untrusted:
  "px_sourceTrustLevel ctx = None \<Longrightarrow> determineSourceTrustLevel (px_source ctx) = ''untrusted'' \<Longrightarrow>
    px_risk ctx \<in> {Some High, Some Critical} \<Longrightarrow>
    ce_effect (validateCapability sha now m g ctx) = Forbid \<and> \<not> hitl_gated (validateCapability sha now m g ctx)"
  by (auto simp: validateCapability_def Let_def cee_def hitl_gated_def)

lemma stage1_not_gated: "\<not> hitl_gated (validateCapability sha now m g ctx)"
proof -
  have "ce_priority (validateCapability sha now m g ctx) = None"
    by (auto simp: validateCapability_def Let_def cee_def split: option.splits)
  then show ?thesis by (simp add: hitl_gated_def)
qed

lemma call_run_stage1:
  assumes "\<not> isInstallPhase (wd_process w)"
    and "ce_effect (validateCapability (wd_sha256 w) (wd_now w) (pl_manager (call_start w call s)) (\<lambda>_. Some None)
           (call_ctx w call s)) = Forbid" (is "ce_effect ?d1 = Forbid")
  shows "\<exists>s'. call_run w call s = (Some ?d1, s')"
  using assms by (simp add: call_run_def Let_def plugin_pipeline [OF call_ctx_fields(1)])

lemma call_run_stage2:
  assumes "\<not> isInstallPhase (wd_process w)"
    and "plugin_stage2 w (tc_toolName call) (call_ctx w call s) (call_start w call s) = (Some d2, s2)"
    and "ce_effect d2 = Forbid" and "\<not> hitl_gated d2"
  shows "\<exists>d s'. call_run w call s = (Some d, s') \<and> ce_effect d = Forbid \<and> \<not> hitl_gated d"
  using assms stage1_not_gated
  by (simp add: call_run_def Let_def plugin_pipeline [OF call_ctx_fields(1)])

text \<open>
  C3. Outside the install phase, a call of an untrusted source whose normalised risk is high or critical
  is always blocked, whatever rules, approvals and operators say.
\<close>

theorem untrusted_high_risk_blocked:
  assumes "answers w call s a t" and "\<not> isInstallPhase (wd_process w)"
    and "determineSourceTrustLevel (tc_source call) = ''untrusted''"
    and "na_risk (normalize_action (tc_toolName call) (normalizedParams (tc_params call))) \<in> {High, Critical}"
  shows "a \<noteq> None"
proof -
  have "px_risk (call_ctx w call s) \<in> {Some High, Some Critical}"
    using assms(4) by (auto simp: call_ctx_fields)
  note d = stage1_untrusted [OF call_ctx_fields(3) _ this, unfolded call_ctx_fields, OF assms(3)]
  from call_run_stage1 [OF assms(2)] d answers_blocked [OF assms(1)] show ?thesis by blast
qed

text \<open>An automatic approval the plugin would apply to the call in stage 2.\<close>

definition call_auto_approved :: "world \<Rightarrow> tool_call \<Rightarrow> plugin \<Rightarrow> bool" where
  "call_auto_approved w call s \<longleftrightarrow>
     auto_approved
       (if ff_approveAlwaysEnabled (wd_features w)
        then Some (\<lambda>ch ac. isSessionAutoApproved ch ac (pl_manager (call_start w call s))) else None)
       (pl_checker (call_start w call s)) (tc_toolName call) (call_ctx w call s)"

lemma call_unconditional_blocked:
  assumes "answers w call s a t" and "\<not> isInstallPhase (wd_process w)"
    and "\<not> call_auto_approved w call s" and "unconditional d0"
    and "fst (class_decision (wd_now w) (call_ctx w call s) (cedar (pl_engines (call_start w call s)))) = Some d0
      \<or> (\<exists>j. jsonEng (pl_engines (call_start w call s)) = Some j \<and>
          (fst (class_decision (wd_now w) (call_ctx w call s) j) = Some d0
           \<or> fst (tool_decision (wd_now w) (tc_toolName call) (call_ctx w call s) j) = Some d0))"
  shows "a \<noteq> None"
proof -
  from combined_unconditional [OF assms(3) [unfolded call_auto_approved_def] assms(4,5)]
  obtain d es' where d: "ce_effect d = Forbid" "\<not> hitl_gated d"
    "plugin_stage2 w (tc_toolName call) (call_ctx w call s) (call_start w call s)
      = (Some d, (call_start w call s)\<lparr>pl_engines := es'\<rparr>)"
    by (auto simp: plugin_stage2_def gated_releasable)
  from call_run_stage2 [OF assms(2) d(3,1,2)] answers_blocked [OF assms(1)] show ?thesis by blast
qed

text \<open>
  C2. Outside the install phase, a call that no session approval and no stored pattern covers is blocked
  when the class evaluation of the shipped rules, or the class or tool evaluation of the operator's rules,
  ends in an unconditional forbid (no priority, or 100 and above): no HITL policy, fallback, unknown channel
  or operator can release it.
\<close>

theorem unconditional_forbid_blocks_call:
  assumes "answers w call s a t" and "\<not> isInstallPhase (wd_process w)"
    and "\<not> call_auto_approved w call s" and "unconditional d0"
    and "fst (class_decision (wd_now w) (call_ctx w call s) (cedar (pl_engines (call_start w call s)))) = Some d0
      \<or> (\<exists>j. jsonEng (pl_engines (call_start w call s)) = Some j \<and>
          (fst (class_decision (wd_now w) (call_ctx w call s) j) = Some d0
           \<or> fst (tool_decision (wd_now w) (tc_toolName call) (call_ctx w call s) j) = Some d0))"
  shows "a \<noteq> None"
  by (rule call_unconditional_blocked [OF assms])

lemma audit_fields [simp]:
  "pl_engines (audit e s) = pl_engines s" "pl_manager (audit e s) = pl_manager s"
  "pl_checker (audit e s) = pl_checker s" "pl_hitl (audit e s) = pl_hitl s"
  "pl_identities (audit e s) = pl_identities s" "pl_mode (audit e s) = pl_mode s"
  by (simp_all add: audit_def split: option.split)

lemma budget_fields:
  "pl_engines (snd (budget_step w call s)) = pl_engines s"
  "pl_manager (snd (budget_step w call s)) = pl_manager s"
  "pl_checker (snd (budget_step w call s)) = pl_checker s"
  "pl_audit (snd (budget_step w call s)) = pl_audit s"
  by (simp_all add: budget_step_def Let_def split: option.split)

lemma call_start_fields [simp]:
  "pl_engines (call_start w call s) = pl_engines s" "pl_manager (call_start w call s) = pl_manager s"
  "pl_checker (call_start w call s) = pl_checker s"
  by (simp_all add: call_start_def Let_def budget_fields)

text \<open>The class evaluation of the full default rules for the two hard classes.\<close>

lemma default_rule_guards:
  "class_guard ac name (default_rule i c e p reason tags) \<longleftrightarrow> c = ac"
  "\<not> class_guard ac name card_rule"
  "rule_condition (default_rule i c e p reason tags) = None"
  "rule_effect (default_rule i c e p reason tags) = e"
  "rule_priority (default_rule i c e p reason tags) = Some p"
  by (simp_all add: class_guard_def default_rule_def card_rule_def target_ok_def)

lemma collect_default:
  "collect_rules (class_guard ac name) ctx (default_rule i c e p reason tags # rs) =
     (if c = ac then map_option (Cons (default_rule i c e p reason tags)) (collect_rules (class_guard ac name) ctx rs)
      else collect_rules (class_guard ac name) ctx rs)"
  "collect_rules (class_guard ac name) ctx (card_rule # rs) = collect_rules (class_guard ac name) ctx rs"
  by (simp_all add: default_rule_guards)

text \<open>The shipped rules of closed mode, with only rules without an action class before them.\<close>

definition closed_baseline :: "engine \<Rightarrow> bool" where
  "closed_baseline eng \<longleftrightarrow>
     (\<exists>J. eng_rules eng = J @ activeRules ClosedMode \<and> (\<forall>r\<in>set J. rule_action_class r = None))"

lemma collect_skip:
  "\<forall>r\<in>set J. rule_action_class r = None \<Longrightarrow>
     collect_rules (class_guard ac name) ctx (J @ rs) = collect_rules (class_guard ac name) ctx rs"
  by (induction J) (simp_all add: class_guard_def)

lemma hard_class_decision:
  assumes "closed_baseline eng" and "ac \<in> {''code.execute'', ''unknown_sensitive_action''}"
  shows "\<exists>d. fst (evaluateByActionClass now ac name ctx eng) = Some d \<and> unconditional d"
proof -
  have "\<exists>r. collect_rules (class_guard ac name) ctx DEFAULT_RULES = Some [r]
      \<and> rule_effect r = Forbid \<and> rule_priority r = Some 100"
  proof (cases "ac = ''code.execute''")
    case True
    show ?thesis unfolding True DEFAULT_RULES_def by (simp add: collect_default default_rule_guards del: collect_rules.simps(2))
  next
    case False
    then have ac: "ac = ''unknown_sensitive_action''" using assms(2) by blast
    show ?thesis unfolding ac DEFAULT_RULES_def by (simp add: collect_default default_rule_guards del: collect_rules.simps(2))
  qed
  then obtain r where r: "collect_rules (class_guard ac name) ctx DEFAULT_RULES = Some [r]"
    "rule_effect r = Forbid" "rule_priority r = Some 100" by blast
  obtain J where J: "eng_rules eng = J @ DEFAULT_RULES" "\<forall>r\<in>set J. rule_action_class r = None"
    using assms(1) by (auto simp: closed_baseline_def activeRules_def allRules_def mergeRules_def)
  have "fst (evaluateByActionClass now ac name ctx eng) = Some (rule_decision r)"
    unfolding evaluateByActionClass_def J(1) collect_skip [OF J(2)] r(1) by (simp add: first_with_def r(2))
  moreover have "unconditional (rule_decision r)"
    using r(2,3) by (simp add: unconditional_def isHitlGatedDecision_def HITL_PRIORITY_THRESHOLD_def rule_decision_def)
  ultimately show ?thesis by blast
qed

lemma closed_mode_blocked:
  assumes "answers w call s a t" and "\<not> isInstallPhase (wd_process w)"
    and "\<not> call_auto_approved w call s"
    and "closed_baseline (cedar (pl_engines s))"
    and "na_class (normalize_action (tc_toolName call) (normalizedParams (tc_params call)))
           \<in> {''code.execute'', ''unknown_sensitive_action''}"
  shows "a \<noteq> None"
proof -
  have "px_action_class (call_ctx w call s) \<in> {''code.execute'', ''unknown_sensitive_action''}"
    using assms(5) by (simp only: call_ctx_fields)
  from hard_class_decision [OF assms(4) this, of "wd_now w" "px_target (call_ctx w call s)"
      "px_rule_context (call_ctx w call s)"] obtain d0 where
    "fst (class_decision (wd_now w) (call_ctx w call s) (cedar (pl_engines (call_start w call s)))) = Some d0"
    "unconditional d0" by auto
  then show ?thesis using call_unconditional_blocked [OF assms(1-3)] by blast
qed

text \<open>
  C4. In closed mode with the shipped rules, outside the install phase, every call whose tool is
  unregistered or executes code is blocked, unless a session approval or a stored pattern covers it,
  whatever the operator's rules permit; rules without an action class that the hot reload put before the
  shipped ones change nothing.
\<close>

theorem closed_mode_hard_classes_blocked:
  assumes "answers w call s a t" and "\<not> isInstallPhase (wd_process w)"
    and "\<not> call_auto_approved w call s"
    and "closed_baseline (cedar (pl_engines s))"
    and "na_class (normalize_action (tc_toolName call) (normalizedParams (tc_params call)))
           \<in> {''code.execute'', ''unknown_sensitive_action''}"
  shows "a \<noteq> None"
  by (rule closed_mode_blocked [OF assms])

text \<open>An unregistered tool in closed mode.\<close>

lemma unregistered_call:
  "na_class (normalize_action ''launch_missiles'' []) = ''unknown_sensitive_action''"
  "na_risk (normalize_action ''launch_missiles'' []) = Critical"
proof -
  have low: "js_lower ''launch_missiles'' = ''launch_missiles''" by code_simp
  have "\<forall>e\<in>set REGISTRY. js_lower ''launch_missiles'' \<notin> set (reg_aliases e)"
    unfolding low REGISTRY_def list.set
    by (simp only: ball_simps reg_alias_eqs list.set insert_iff empty_iff list.inject char.inject simp_thms)
  from unknown_tool_normalized [OF this, of "[]"]
  show "na_class (normalize_action ''launch_missiles'' []) = ''unknown_sensitive_action''"
    "na_risk (normalize_action ''launch_missiles'' []) = Critical" by simp_all
qed

lemma quiet_not_install: "\<not> isInstallPhase (wd_process quiet_world)"
  by (simp add: isInstallPhase_def quiet_world_def)

lemma run_exists:
  assumes "\<And>wt s'. before_tool_call w call s \<noteq> (Sending wt, s')" "\<And>wt s'. before_tool_call w call s \<noteq> (Awaiting wt, s')"
  shows "\<exists>a. answers w call s a AtOnce"
proof -
  obtain st s' where st: "before_tool_call w call s = (st, s')" by (cases "before_tool_call w call s")
  with assms obtain a where "st = Answer a" by (cases st) auto
  with st have "answers w call s a AtOnce" by (auto intro: at_once)
  then show ?thesis ..
qed

lemma no_policy_answers:
  assumes "pl_hitl s = None" and "pl_budget s = None"
  shows "\<exists>a. answers w call s a AtOnce"
proof -
  obtain d s2 where run: "call_run w call s = (Some d, s2)" using call_run_total by blast
  have b: "budget_step w call s = (None, s)" using assms(2) by (simp add: budget_step_def)
  have "pl_hitl s2 = None"
  proof -
    have l: "pl_hitl (snd (listener w' base t d s)) = pl_hitl s" for w' base t d s
      by (simp add: listener_def Let_def)
    have "pl_hitl (call_start w call s) = None" using assms b by (simp add: call_start_def Let_def)
    then show ?thesis
      using run stage2_total [of w "tc_toolName call" "call_ctx w call s" "call_start w call s"] l
      by (auto simp: call_run_def Let_def plugin_pipeline [OF call_ctx_fields(1)] split: if_splits)
  qed
  then have "call_policy (call_handled w call s) ac = None" for ac
    by (simp add: call_policy_def call_handled_def run Let_def)
  then have "\<exists>a s'. before_tool_call w call s = (Answer a, s')"
    unfolding before_tool_call_eq [OF run] b by (simp add: handle_decision_def)
  then show ?thesis by (auto intro: at_once)
qed

lemma idle_facts:
  "pl_hitl idle_plugin = None" "pl_budget idle_plugin = None"
  "\<not> call_auto_approved quiet_world (simple_call ''launch_missiles'' src) idle_plugin"
  "eng_rules (cedar (pl_engines idle_plugin)) = activeRules ClosedMode"
proof -
  have "fold addRule rs e = e\<lparr>eng_rules := eng_rules e @ rs\<rparr>" for rs e
    by (induction rs arbitrary: e) (simp_all add: addRule_def)
  then show "eng_rules (cedar (pl_engines idle_plugin)) = activeRules ClosedMode"
    by (simp add: idle_plugin_def startup_engine_def addRules_def new_engine_def)
qed (simp_all add: idle_plugin_def call_auto_approved_def auto_approved_def isSessionAutoApproved_def new_manager_def)

lemma idle_closed: "closed_baseline (cedar (pl_engines idle_plugin))"
  unfolding closed_baseline_def idle_facts(4) by (intro exI [of _ "[]"]) simp

lemma closed_mode_hard_classes_blocked_witness:
  "\<exists>reason. answers quiet_world (simple_call ''launch_missiles'' None) idle_plugin (Some reason) AtOnce"
proof -
  obtain a where a: "answers quiet_world (simple_call ''launch_missiles'' None) idle_plugin a AtOnce"
    using no_policy_answers idle_facts by blast
  have "a \<noteq> None"
    by (rule closed_mode_hard_classes_blocked [OF a quiet_not_install idle_facts(3) idle_closed])
      (simp add: simple_call_def normalizedParams_def unregistered_call)
  with a show ?thesis by auto
qed

section \<open>The trail of a block\<close>

text \<open>The run ends with the event of its decision.\<close>

lemma call_run_listener:
  assumes "call_run w call s = (Some d, s')"
  shows "\<exists>es'. s' = snd (listener w (call_base call (px_action_class (call_ctx w call s)) (snd (budget_step w call s)))
    (px_target (call_ctx w call s)) d ((call_start w call s)\<lparr>pl_engines := es'\<rparr>))"
proof -
  let ?l = "listener w (call_base call (px_action_class (call_ctx w call s)) (snd (budget_step w call s)))
    (px_target (call_ctx w call s))"
  let ?d1 = "validateCapability (wd_sha256 w) (wd_now w) (pl_manager (call_start w call s)) (\<lambda>_. Some None)
    (call_ctx w call s)"
  have same: "x = x\<lparr>pl_engines := pl_engines x\<rparr>" for x :: plugin by simp
  obtain d2 es2 where s2: "plugin_stage2 w (tc_toolName call) (call_ctx w call s) (call_start w call s)
      = (Some d2, (call_start w call s)\<lparr>pl_engines := es2\<rparr>)"
    using stage2_total by blast
  have "(Some d, s') = (if isInstallPhase (wd_process w)
       then (Some (cee Permit ''install_phase_bypass'' ''pipeline''),
             snd (?l (cee Permit ''install_phase_bypass'' ''pipeline'') (call_start w call s)))
     else if ce_effect ?d1 = Forbid then (Some ?d1, snd (?l ?d1 (call_start w call s)))
     else (Some d2, snd (?l d2 ((call_start w call s)\<lparr>pl_engines := es2\<rparr>))))"
    unfolding assms [symmetric] call_run_def Let_def plugin_pipeline [OF call_ctx_fields(1)] s2 by simp
  then have "s' = snd (?l d (call_start w call s))
      \<or> s' = snd (?l d ((call_start w call s)\<lparr>pl_engines := es2\<rparr>))"
    by (simp only: prod.inject option.inject split: if_splits) blast+
  then show ?thesis using same [of "call_start w call s"] by metis
qed

definition block_entry :: "audit_entry \<Rightarrow> bool" where
  "block_entry e = (case e of PolicyEntry _ _ _ _ _ \<Rightarrow> True | HitlEntry _ _ _ _ _ _ _ _ \<Rightarrow> True | _ \<Rightarrow> False)"

definition logged_block :: "audit_entry list \<Rightarrow> plugin \<Rightarrow> bool" where
  "logged_block es s \<longleftrightarrow> (\<exists>new e. pl_audit s = Some (es @ new @ [e]) \<and> block_entry e)"

lemma audit_Some: "pl_audit s = Some es \<Longrightarrow> pl_audit (audit e s) = Some (es @ [e])"
  by (simp add: audit_def)

lemma logged_now: "pl_audit s = Some (es @ new) \<Longrightarrow> block_entry e \<Longrightarrow> logged_block es (audit e s)"
  by (auto simp: logged_block_def audit_def)

lemma start_audit: "pl_audit s = Some es \<Longrightarrow> \<exists>new. pl_audit (call_start w call s) = Some (es @ new)"
  by (simp add: call_start_def Let_def audit_def budget_fields)

lemma listener_audit:
  assumes "pl_audit s = Some (es @ new)"
  shows "\<exists>new'. pl_audit (snd (listener w base t d s)) = Some (es @ new')"
    "ce_effect d = Forbid \<Longrightarrow> \<not> hitl_gated d \<Longrightarrow> ce_reason d \<noteq> ''pipeline_error'' \<Longrightarrow>
       logged_block es (snd (listener w base t d s))"
  using assms by (simp_all add: listener_def Let_def audit_def logged_block_def block_entry_def)

lemma dispatch_audit:
  assumes "dispatchHitlChannel w p t i tg ac s = (Answer (Some reason), s')" and "pl_audit s = Some (es @ new)"
  shows "logged_block es s'"
proof -
  have "open_request w k p t i tg ac s \<noteq> (Answer (Some reason), s')" for k
    using open_request_Sending [of w k p t i tg ac s] by auto
  then show ?thesis
    using assms logged_now [OF assms(2)]
    by (auto simp: dispatchHitlChannel_def Let_def unconfigured_def logHitlDecision_def block_entry_def
        split: if_splits option.splits)
qed

lemma ask_blocked:
  "ask_operator w call i ctx p s = (Answer (Some reason), s') \<Longrightarrow>
     dispatchHitlChannel w p (tc_toolName call) i (px_target ctx) (px_action_class ctx) s = (Answer (Some reason), s')"
  by (simp add: ask_operator_def split: if_splits)

lemma handle_audit:
  assumes "handle_decision w call i base ctx d s = (Answer (Some reason), s')" and "pl_audit s = Some (es @ new)"
    and "ce_effect d = Forbid \<Longrightarrow> \<not> hitl_gated d \<Longrightarrow> logged_block es s"
    and "ce_reason d = ''untrusted_source_high_risk'' \<Longrightarrow> logged_block es s"
  shows "logged_block es s'"
proof (cases "ce_effect d")
  case Permit
  with assms(1) obtain p where "ask_operator w call i ctx p s = (Answer (Some reason), s')"
    by (auto simp: handle_decision_def split: option.splits)
  from dispatch_audit [OF ask_blocked [OF this] assms(2)] show ?thesis .
next
  case Forbid
  have "logged_block es s'" if "hitl_gated d" "ce_reason d \<noteq> ''untrusted_source_high_risk''"
  proof (cases "call_policy s (px_action_class ctx)")
    case None
    with assms(1) Forbid that show ?thesis
      using logged_now [OF assms(2)] by (auto simp: handle_decision_def block_entry_def)
  next
    case (Some p)
    with assms(1) Forbid that have "ask_operator w call i ctx p s = (Answer (Some reason), s')"
      by (simp add: handle_decision_def)
    from dispatch_audit [OF ask_blocked [OF this] assms(2)] show ?thesis .
  qed
  with assms Forbid show ?thesis
    by (cases "hitl_gated d") (auto simp: handle_decision_def split: if_splits)
qed

text \<open>
  The operator's answer, or the failure to reach one, is always recorded.
\<close>

lemma later_answers_audited:
  "dispatch_sent wt r s = (Answer a, s') \<Longrightarrow> pl_audit s = Some es \<Longrightarrow> logged_block es s'"
  "resolveHitlDecision wt d s = (Answer a, s') \<Longrightarrow> pl_audit s = Some es \<Longrightarrow> logged_block es s'"
  by (auto simp: dispatch_sent_def resolveHitlDecision_def Let_def logHitlDecision_def logged_block_def
      audit_def block_entry_def split: send_result.splits outcome.splits)

text \<open>
  Every block the handler decides at once after the budget leaves an entry in the audit log: a policy
  entry, or the HITL entry of the fallback; provided the reason of the decision is not one of the two
  strings the handler reserves for its own blocks.
\<close>

theorem block_audited:
  assumes "before_tool_call w call s = (Answer (Some reason), s')"
    and "fst (budget_step w call s) = None" and "pl_audit s = Some es"
    and "call_run w call s = (Some d, s2)"
    and "ce_reason d \<noteq> ''pipeline_error''"
    and "ce_reason d = ''untrusted_source_high_risk'' \<Longrightarrow> ce_effect d = Forbid \<and> \<not> hitl_gated d"
  shows "logged_block es s'"
proof -
  let ?ac = "px_action_class (call_ctx w call s)" and ?h = "call_handled w call s"
  obtain sb where b: "budget_step w call s = (None, sb)" using assms(2) by (cases "budget_step w call s") auto
  obtain es' where s2: "s2 = snd (listener w (call_base call ?ac sb) (px_target (call_ctx w call s)) d
      ((call_start w call s)\<lparr>pl_engines := es'\<rparr>))"
    using call_run_listener [OF assms(4)] b by auto
  obtain new where "pl_audit (call_start w call s) = Some (es @ new)" using start_audit [OF assms(3)] by blast
  then have start: "pl_audit ((call_start w call s)\<lparr>pl_engines := es'\<rparr>) = Some (es @ new)" by simp
  have h: "pl_audit ?h = pl_audit s2" by (simp add: call_handled_def assms(4) Let_def)
  obtain new' where new': "pl_audit ?h = Some (es @ new')" using listener_audit(1) [OF start] h s2 by metis
  have logged: "ce_effect d = Forbid \<Longrightarrow> \<not> hitl_gated d \<Longrightarrow> logged_block es ?h"
    using listener_audit(2) [OF start _ _ assms(5)] h s2 by (simp add: logged_block_def)
  have name: "ce_reason (name_tool t ac d) = ''untrusted_source_high_risk'' \<Longrightarrow>
      ce_reason d = ''untrusted_source_high_risk''" for t ac
    by (auto simp: name_tool_def Let_def split: if_splits)
  have "handle_decision w call (call_identity call sb) (call_base call ?ac sb) (call_ctx w call s)
      (name_tool (tc_toolName call) ?ac d) ?h = (Answer (Some reason), s')"
    using assms(1) unfolding before_tool_call_eq [OF assms(4)] b by simp
  from handle_audit [OF this new'] logged name assms(6) show ?thesis by (metis name_tool_fields(1,3))
qed

text \<open>A forbidden call of the shipped rules, with a logger.\<close>

definition logging_plugin :: plugin where
  "logging_plugin = idle_plugin\<lparr>pl_audit := Some []\<rparr>"

text \<open>In the install phase everything is permitted.\<close>

definition install_world :: world where
  "install_world = quiet_world\<lparr>wd_process := \<lparr>env_force_active = None, env_npm_lifecycle_event = Some ''install''\<rparr>\<rparr>"

lemma install_phase: "isInstallPhase (wd_process install_world)" by code_simp

lemma install_run:
  assumes "pl_hitl s = None" and "pl_budget s = None"
  shows "answers install_world call s None AtOnce"
proof -
  obtain a where a: "answers install_world call s a AtOnce" using no_policy_answers [OF assms] by blast
  have b: "budget_step install_world call s = (None, s)" using assms(2) by (simp add: budget_step_def)
  have "pl_hitl (call_start install_world call s) = None"
    using assms b by (simp add: call_start_def Let_def audit_def split: option.split)
  then obtain s2 where run: "call_run install_world call s = (Some (cee Permit ''install_phase_bypass'' ''pipeline''), s2)"
    and h: "pl_hitl s2 = None"
    by (simp add: call_run_def Let_def plugin_pipeline [OF call_ctx_fields(1)] install_phase listener_def cee_def)
  have "call_policy (call_handled install_world call s) ac = None" for ac
    by (simp add: call_policy_def call_handled_def run Let_def h)
  then have "\<exists>s'. before_tool_call install_world call s = (Answer None, s')"
    unfolding before_tool_call_eq [OF run] b by (simp add: handle_decision_def name_tool_def Let_def cee_def)
  then show ?thesis by (auto intro: at_once)
qed

lemma call_let_through_witness:
  "fst (budget_step install_world (simple_call ''read_file'' None) idle_plugin) = None
    \<and> (\<exists>d s'. call_run install_world (simple_call ''read_file'' None) idle_plugin = (Some d, s')
        \<and> (ce_effect d = Permit \<or> hitl_gated d)
        \<and> (case call_policy (call_handled install_world (simple_call ''read_file'' None) idle_plugin)
                 (px_action_class (call_ctx install_world (simple_call ''read_file'' None) idle_plugin)) of
             None \<Rightarrow> ce_effect d = Permit \<and> AtOnce = AtOnce
           | Some p \<Rightarrow> released AtOnce (isSessionAutoApproved
                 (id_auditChannel (call_identity (simple_call ''read_file'' None)
                    (snd (budget_step install_world (simple_call ''read_file'' None) idle_plugin))))
                 (px_action_class (call_ctx install_world (simple_call ''read_file'' None) idle_plugin))
                 (pl_manager (call_handled install_world (simple_call ''read_file'' None) idle_plugin)))
               (channel_ready install_world (call_handled install_world (simple_call ''read_file'' None) idle_plugin) p) p))"
  by (rule call_let_through [OF install_run]) (simp_all add: idle_facts)

lemma untrusted_high_risk_blocked_witness:
  "\<exists>reason. answers quiet_world (simple_call ''launch_missiles'' (Some ''evil'')) idle_plugin (Some reason) AtOnce"
proof -
  obtain a where a: "answers quiet_world (simple_call ''launch_missiles'' (Some ''evil'')) idle_plugin a AtOnce"
    using no_policy_answers idle_facts by blast
  have "a \<noteq> None"
    by (rule untrusted_high_risk_blocked [OF a quiet_not_install])
      (simp_all add: simple_call_def normalizedParams_def unregistered_call determineSourceTrustLevel_def)
  with a show ?thesis by auto
qed

lemma unconditional_forbid_blocks_call_witness:
  "\<exists>reason. answers quiet_world (simple_call ''launch_missiles'' (Some ''user'')) idle_plugin (Some reason) AtOnce"
proof -
  let ?c = "simple_call ''launch_missiles'' (Some ''user'')"
  obtain a where a: "answers quiet_world ?c idle_plugin a AtOnce"
    using no_policy_answers idle_facts by blast
  have ac: "px_action_class (call_ctx quiet_world ?c idle_plugin) \<in> {''code.execute'', ''unknown_sensitive_action''}"
    by (simp add: call_ctx_fields simple_call_def normalizedParams_def unregistered_call)
  from hard_class_decision [OF idle_closed this, of "wd_now quiet_world" "px_target (call_ctx quiet_world ?c idle_plugin)"
      "px_rule_context (call_ctx quiet_world ?c idle_plugin)"]
  obtain d0 where d0: "fst (class_decision (wd_now quiet_world) (call_ctx quiet_world ?c idle_plugin)
      (cedar (pl_engines (call_start quiet_world ?c idle_plugin)))) = Some d0" "unconditional d0" by auto
  have "a \<noteq> None"
    by (rule unconditional_forbid_blocks_call [OF a quiet_not_install idle_facts(3) d0(2)]) (rule disjI1, rule d0(1))
  with a show ?thesis by auto
qed

lemma block_audited_witness:
  "\<exists>s'. snd (before_tool_call quiet_world (simple_call ''launch_missiles'' (Some ''evil'')) logging_plugin) = s'
     \<and> logged_block [] s'"
proof -
  let ?c = "simple_call ''launch_missiles'' (Some ''evil'')"
  have untrusted: "determineSourceTrustLevel (px_source (call_ctx quiet_world ?c logging_plugin)) = ''untrusted''"
    "px_risk (call_ctx quiet_world ?c logging_plugin) \<in> {Some High, Some Critical}"
    "px_sourceTrustLevel (call_ctx quiet_world ?c logging_plugin) = None"
    by (simp_all add: call_ctx_fields simple_call_def normalizedParams_def unregistered_call determineSourceTrustLevel_def)
  define d where "d = validateCapability (wd_sha256 quiet_world) (wd_now quiet_world)
    (pl_manager (call_start quiet_world ?c logging_plugin)) (\<lambda>_. Some None) (call_ctx quiet_world ?c logging_plugin)"
  have d: "ce_effect d = Forbid" "\<not> hitl_gated d" "ce_reason d = ''untrusted_source_high_risk''"
    using untrusted unfolding d_def by (auto simp: validateCapability_def Let_def cee_def hitl_gated_def)
  obtain s2 where run: "call_run quiet_world ?c logging_plugin = (Some d, s2)"
    using call_run_stage1 [OF quiet_not_install] d(1) unfolding d_def by blast
  have b: "budget_step quiet_world ?c logging_plugin = (None, logging_plugin)"
    by (simp add: budget_step_def logging_plugin_def idle_plugin_def)
  have gated: "\<not> hitl_gated (name_tool t ac d)" for t ac using d(2) by simp
  have "\<exists>reason s'. before_tool_call quiet_world ?c logging_plugin = (Answer (Some reason), s')"
    unfolding before_tool_call_eq [OF run] b using gated d(1) by (simp add: handle_decision_def)
  then obtain reason s' where step: "before_tool_call quiet_world ?c logging_plugin = (Answer (Some reason), s')"
    by blast
  have "logged_block [] s'"
    by (rule block_audited [OF step _ _ run]) (simp_all add: b d, simp add: logging_plugin_def)
  with step show ?thesis by simp
qed

section \<open>Two gaps\<close>

text \<open>A policy whose channel the plugin does not know releases the call without asking anyone.\<close>

lemma unknown_channel_releases:
  "\<not> channel_known p \<Longrightarrow> dispatchHitlChannel w p t i tg ac s = (Answer None, s)"
  by (simp add: dispatchHitlChannel_def channel_known_def Let_def)

text \<open>No call of the handler carries the payload the card-data rule looks at.\<close>

lemma card_rule_never_fires:
  "card_condition (px_rule_context (call_ctx w call s)) = Some False"
  by (simp add: card_condition_def call_ctx_fields)

end
