(* ===== verification/Uuid.thy ===== *)
theory Uuid
  imports Approval
begin

text \<open>
  The layout of the tokens \<open>uuidv7\<close> makes, read back from the text: the version and variant digits
  and the time stamp, on 8-bit words.
\<close>

definition hexdig_val :: "char \<Rightarrow> int" where
  "hexdig_val c = (let n = (of_char c :: nat) in int (if n < 58 then n - 48 else n - 87))"

definition hex_value :: "string \<Rightarrow> int" where
  "hex_value s = foldl (\<lambda>n c. 16 * n + hexdig_val c) 0 s"

lemma hexdig_val [simp]: "n < 16 \<Longrightarrow> hexdig_val (hexdig n) = int n"
proof -
  assume n: "n < 16"
  have m: "(of_char (char_of k :: char) :: nat) = k" if "k < 256" for k
    using that by (simp add: of_char_of)
  show ?thesis using n by (simp add: hexdig_val_def hexdig_def Let_def m)
qed

lemma hex_byte_value: "foldl (\<lambda>n c. 16 * n + hexdig_val c) a (hex_byte b @ t) = foldl (\<lambda>n c. 16 * n + hexdig_val c) (256 * a + uint b) t"
proof -
  have b: "unat b < 256" using unsigned_less [of b, where 'a = nat] by simp
  define x y where "x = int (unat b div 16)" and "y = int (unat b mod 16)"
  have "int (unat b) = 16 * x + y"
    unfolding x_def y_def using mult_div_mod_eq [of 16 "unat b"] by linarith
  then have "uint b = 16 * x + y" by (simp only: uint_nat)
  then have "16 * (16 * a + int (unat b div 16)) + int (unat b mod 16) = 256 * a + uint b"
    unfolding x_def [symmetric] y_def [symmetric] by simp
  note eq = this
  have "unat b div 16 < 16" using b by simp
  then have "foldl (\<lambda>n c. 16 * n + hexdig_val c) a (hex_byte b @ t)
      = foldl (\<lambda>n c. 16 * n + hexdig_val c) (16 * (16 * a + int (unat b div 16)) + int (unat b mod 16)) t"
    by (simp add: hex_byte_def)
  then show ?thesis by (simp only: eq)
qed

lemma byte_of: "uint (word_of_int (drop_bit k (now::int) AND 0xff) :: 8 word) = (now div 2 ^ k) mod 256"
proof -
  have "drop_bit k now AND 0xff = (now div 2 ^ k) mod 256"
    using take_bit_eq_mask [of 8 "drop_bit k now"] by (simp add: drop_bit_eq_div take_bit_eq_mod mask_eq_exp_minus_1 mult.commute)
  then show ?thesis by (simp add: uint_word_of_int)
qed

lemma byte_step: "0 \<le> M \<Longrightarrow> 256 * ((now::int) div 2 ^ (k + 8) mod M) + now div 2 ^ k mod 256 = now div 2 ^ k mod (256 * M)"
proof -
  assume M: "0 \<le> M"
  have "now div 2 ^ (k + 8) = now div 2 ^ k div 256"
    by (simp add: power_add zdiv_zmult2_eq)
  with zmod_zmult2_eq [OF M, of "now div 2 ^ k" 256] show ?thesis by simp
qed

lemma bytes48: "256 * (256 * (256 * (256 * (256 * (now div 2 ^ 40 mod 256) + now div 2 ^ 32 mod 256) + now div 2 ^ 24 mod 256)
   + now div 2 ^ 16 mod 256) + now div 2 ^ 8 mod 256) + now mod 256 = (now::int) mod 2 ^ 48"
  using byte_step [of 256 now 32] byte_step [of "256 * 256" now 24] byte_step [of "256 * (256 * 256)" now 16]
   byte_step [of "256 * (256 * (256 * 256))" now 8] byte_step [of "256 * (256 * (256 * (256 * 256)))" now 0]
  by simp

lemma nibble: "unat (w :: 8 word) div 16 = unat (drop_bit 4 w)"
proof -
  have "unat (drop_bit 4 w) = drop_bit 4 (unat w)" by (rule unat_drop_bit_eq)
  then show ?thesis by (simp add: drop_bit_eq_div)
qed

lemma hexdig_values:
  "hexdig 7 = CHR ''7''" "hexdig 8 = CHR ''8''" "hexdig 9 = CHR ''9''" "hexdig 10 = CHR ''a''" "hexdig 11 = CHR ''b''"
  by code_simp+

lemma version_digit: "hexdig (unat ((b AND 0x0f OR 0x70) :: 8 word) div 16) = CHR ''7''"
proof -
  have "drop_bit 4 (b AND 0x0f OR 0x70) = (7 :: 8 word)"
    unfolding drop_bit_and drop_bit_or by (simp add: drop_bit_eq_div)
  then show ?thesis unfolding nibble by (simp add: hexdig_values)
qed

lemma variant_digit: "hexdig (unat ((b AND 0x3f OR 0x80) :: 8 word) div 16) \<in> set ''89ab''"
proof -
  have "drop_bit 4 (b AND 0x3f OR 0x80) = ((drop_bit 4 b AND 3) OR 8 :: 8 word)"
    unfolding drop_bit_and drop_bit_or by (simp add: drop_bit_eq_div)
  moreover obtain n :: nat where n: "n < 4" "drop_bit 4 b AND 3 = (of_nat n :: 8 word)"
  proof
    have m: "drop_bit 4 b AND 3 = take_bit 2 (drop_bit 4 b)"
      by (simp add: take_bit_eq_mask mask_eq_exp_minus_1)
    show "unat (drop_bit 4 b AND 3) < 4"
      unfolding m unsigned_take_bit_eq using take_bit_nat_less_exp [of 2 "unat (drop_bit 4 b)"] by simp
    show "drop_bit 4 b AND 3 = (of_nat (unat (drop_bit 4 b AND 3)) :: 8 word)" by simp
  qed
  moreover have "n = 0 \<or> n = 1 \<or> n = 2 \<or> n = 3" using n(1) by auto
  ultimately show ?thesis unfolding nibble by (elim disjE) (simp_all add: hexdig_values)
qed

lemma uuid_parts:
  assumes "length r = 16"
  shows "\<exists>b7 rest. uuid_bytes r now = [word_of_int (drop_bit 40 now AND 0xff), word_of_int (drop_bit 32 now AND 0xff),
     word_of_int (drop_bit 24 now AND 0xff), word_of_int (drop_bit 16 now AND 0xff),
     word_of_int (drop_bit 8 now AND 0xff), word_of_int (now AND 0xff),
     (r ! 6 AND 0x0f) OR 0x70, b7, (r ! 8 AND 0x3f) OR 0x80] @ rest \<and> length rest = 7"
proof -
  obtain b0 b1 b2 b3 b4 b5 b6 b7 b8 rest where "r = [b0,b1,b2,b3,b4,b5,b6,b7,b8] @ rest" "length rest = 7"
    using assms by (auto simp: numeral_eq_Suc length_Suc_conv)
  then show ?thesis by (simp add: uuid_bytes_def Let_def numeral_eq_Suc)
qed

lemma to_hex_length: "length (to_hex bs) = 2 * length bs"
  by (induction bs) (simp_all add: to_hex_def hex_byte_def)

text \<open>
  \<open>uuidv7\<close> makes a UUID version 7: 36 characters, version digit 7, variant digit 8 to b, and the
  first twelve hexadecimal digits read as the time in milliseconds modulo \<open>2 ^ 48\<close>, whatever the
  random bytes are.
\<close>

theorem uuidv7_layout:
  assumes "length random = 16"
  shows "length (uuidv7 random now) = 36 \<and> uuidv7 random now ! 14 = CHR ''7''
    \<and> uuidv7 random now ! 19 \<in> set ''89ab''
    \<and> hex_value (take 8 (uuidv7 random now) @ take 4 (drop 9 (uuidv7 random now))) = now mod 2 ^ 48"
proof -
  obtain b7 rest where u: "uuid_bytes random now = [word_of_int (drop_bit 40 now AND 0xff), word_of_int (drop_bit 32 now AND 0xff),
     word_of_int (drop_bit 24 now AND 0xff), word_of_int (drop_bit 16 now AND 0xff),
     word_of_int (drop_bit 8 now AND 0xff), word_of_int (now AND 0xff),
     (random ! 6 AND 0x0f) OR 0x70, b7, (random ! 8 AND 0x3f) OR 0x80] @ rest" "length rest = 7"
    using uuid_parts [OF assms] by blast
  let ?hs = "map (\<lambda>k. hex_byte (word_of_int (drop_bit k now AND 0xff))) [40, 32, 24, 16, 8, 0]"
  obtain h0 h1 h2 h3 h4 h5 h6 h7 h8 h9 h10 h11 where h: "concat ?hs = [h0,h1,h2,h3,h4,h5,h6,h7,h8,h9,h10,h11]"
    by (simp add: hex_byte_def)
  have hx: "to_hex (uuid_bytes random now) = [h0,h1,h2,h3,h4,h5,h6,h7,h8,h9,h10,h11]
      @ hex_byte ((random ! 6 AND 0x0f) OR 0x70) @ hex_byte b7 @ hex_byte ((random ! 8 AND 0x3f) OR 0x80) @ to_hex rest"
    unfolding h [symmetric] by (simp add: u to_hex_def)
  have val: "hex_value [h0,h1,h2,h3,h4,h5,h6,h7,h8,h9,h10,h11] = now mod 2 ^ 48"
    unfolding h [symmetric] hex_value_def list.map concat.simps hex_byte_value byte_of
    using hex_byte_value [of _ _ "[]"] byte_step [of 1 now 40] bytes48 [of now] by simp
  have l: "length (to_hex rest) = 14" using u(2) by (simp add: to_hex_length)
  have sh: "uuidv7 random now = [h0,h1,h2,h3,h4,h5,h6,h7,CHR ''-'',h8,h9,h10,h11,CHR ''-'']
      @ hex_byte ((random ! 6 AND 0x0f) OR 0x70) @ hex_byte b7 @ ''-''
      @ hex_byte ((random ! 8 AND 0x3f) OR 0x80) @ take 2 (to_hex rest) @ ''-'' @ drop 2 (to_hex rest)"
    unfolding uuidv7_def Let_def hx by (simp add: substr_def hex_byte_def)
  show ?thesis unfolding sh using val l version_digit variant_digit by (simp add: hex_byte_def)
qed

theorem uuidv7_layout_witness:
  "length (uuidv7 (replicate 16 0xff) 1) = 36 \<and> uuidv7 (replicate 16 0xff) 1 ! 14 = CHR ''7''
    \<and> uuidv7 (replicate 16 0xff) 1 ! 19 \<in> set ''89ab''
    \<and> hex_value (take 8 (uuidv7 (replicate 16 0xff) 1) @ take 4 (drop 9 (uuidv7 (replicate 16 0xff) 1))) = 1 mod 2 ^ 48"
  by (rule uuidv7_layout) simp

end
