(* ===== verification/Bundle.thy ===== *)
theory Bundle
  imports Rules Pipeline
begin

text \<open>
  Policy bundles: the validation of \<open>src/policy/bundle.ts\<close>, the loader of \<open>src/policy/loader.ts\<close>
  and the manifest of the built-in rules, \<open>src/policy/exporter.ts\<close>. The TypeBox schemas are
  predicates on JSON values; SHA-256, \<open>JSON.parse\<close>, the validity of a regular expression's source
  and the text of the schema errors are parameters.
\<close>

section \<open>Schemas\<close>

text \<open>An optional member, a string of a minimal length, an array of strings, a number with a minimum.\<close>

definition optional_member :: "(json \<Rightarrow> bool) \<Rightarrow> string \<Rightarrow> (string \<times> json) list \<Rightarrow> bool" where
  "optional_member P k kvs \<longleftrightarrow> (case map_of kvs k of None \<Rightarrow> True | Some v \<Rightarrow> P v)"

definition required_member :: "(json \<Rightarrow> bool) \<Rightarrow> string \<Rightarrow> (string \<times> json) list \<Rightarrow> bool" where
  "required_member P k kvs \<longleftrightarrow> (case map_of kvs k of None \<Rightarrow> False | Some v \<Rightarrow> P v)"

fun is_str :: "nat \<Rightarrow> json \<Rightarrow> bool" where
  "is_str n (JStr s) = (n \<le> length s)"
| "is_str n _ = False"

fun is_num :: "int \<Rightarrow> json \<Rightarrow> bool" where
  "is_num n (JNum i) = (n \<le> i)"
| "is_num n _ = False"

fun is_arr :: "(json \<Rightarrow> bool) \<Rightarrow> json \<Rightarrow> bool" where
  "is_arr P (JArr vs) = list_all P vs"
| "is_arr P _ = False"

fun is_obj :: "((string \<times> json) list \<Rightarrow> bool) \<Rightarrow> json \<Rightarrow> bool" where
  "is_obj P (JObj kvs) = P kvs"
| "is_obj P _ = False"

definition is_effect :: "json \<Rightarrow> bool" where
  "is_effect v \<longleftrightarrow> v = JStr ''permit'' \<or> v = JStr ''forbid''"

definition TRateLimit :: "json \<Rightarrow> bool" where
  "TRateLimit = is_obj (\<lambda>r. required_member (is_num 1) ''maxCalls'' r \<and> required_member (is_num 1) ''windowSeconds'' r)"

definition TBundleRule :: "json \<Rightarrow> bool" where
  "TBundleRule = is_obj (\<lambda>r.
     required_member is_effect ''effect'' r \<and> optional_member (is_str 1) ''resource'' r
     \<and> optional_member (is_str 1) ''action_class'' r \<and> optional_member (is_str 1) ''intent_group'' r
     \<and> optional_member (is_str 0) ''match'' r \<and> optional_member (is_str 0) ''reason'' r
     \<and> optional_member (is_arr (is_str 0)) ''tags'' r \<and> optional_member TRateLimit ''rateLimit'' r)"

definition TBundle :: "json \<Rightarrow> bool" where
  "TBundle = is_obj (\<lambda>b. required_member (is_num 1) ''version'' b \<and> required_member (is_arr TBundleRule) ''rules'' b
     \<and> required_member (is_str 0) ''checksum'' b)"

definition TLoadedRule :: "json \<Rightarrow> bool" where
  "TLoadedRule = is_obj (\<lambda>r.
     required_member is_effect ''effect'' r \<and> required_member (is_str 1) ''resource'' r
     \<and> required_member (is_str 0) ''match'' r \<and> optional_member (is_str 0) ''reason'' r
     \<and> optional_member (is_arr (is_str 0)) ''tags'' r \<and> optional_member TRateLimit ''rateLimit'' r
     \<and> optional_member (is_str 0) ''action_class'' r \<and> optional_member (is_str 0) ''intent_group'' r
     \<and> optional_member (is_str 0) ''target_match'' r \<and> optional_member (is_arr (is_str 0)) ''target_in'' r)"

definition TLoadedBundle :: "json \<Rightarrow> bool" where
  "TLoadedBundle = is_obj (\<lambda>b. required_member (is_num 1) ''version'' b
     \<and> optional_member (is_arr TLoadedRule) ''rules'' b \<and> optional_member (is_str 0) ''checksum'' b)"

section \<open>Validation\<close>

text \<open>Members of values that passed a schema.\<close>

fun obj_members :: "json \<Rightarrow> (string \<times> json) list" where
  "obj_members (JObj kvs) = kvs"
| "obj_members _ = []"

definition has_member :: "string \<Rightarrow> json \<Rightarrow> bool" where
  "has_member k v \<longleftrightarrow> map_of (obj_members v) k \<noteq> None"

fun num_of :: "json option \<Rightarrow> int" where
  "num_of (Some (JNum i)) = i"
| "num_of _ = 0"

fun arr_of :: "json option \<Rightarrow> json list" where
  "arr_of (Some (JArr vs)) = vs"
| "arr_of _ = []"

fun str_of :: "json option \<Rightarrow> string" where
  "str_of (Some (JStr s)) = s"
| "str_of _ = ''''"

definition rule_addressed :: "json \<Rightarrow> bool" where
  "rule_addressed r \<longleftrightarrow> has_member ''action_class'' r \<or> has_member ''resource'' r \<or> has_member ''intent_group'' r"

text \<open>The loop over the rules: the index of the first rule without an addressee.\<close>

fun bad_rule :: "nat \<Rightarrow> json list \<Rightarrow> nat option" where
  "bad_rule i [] = None"
| "bad_rule i (r # rs) = (if rule_addressed r then bad_rule (i + 1) rs else Some i)"

text \<open>\<open>BundleValidationResult\<close>: \<open>None\<close> is \<open>valid: true\<close>, \<open>Some e\<close> is the error of an invalid bundle.\<close>

definition validateBundle ::
  "(string \<Rightarrow> string) \<Rightarrow> (json \<Rightarrow> string) \<Rightarrow> json \<Rightarrow> int \<Rightarrow> string option" where
  "validateBundle sha256 schema_errors bundle currentVersion =
     (if \<not> TBundle bundle then Some (''Schema validation failed: '' @ schema_errors bundle)
      else let kvs = obj_members bundle;
               version = num_of (map_of kvs ''version'');
               rules = arr_of (map_of kvs ''rules'')
           in case bad_rule 0 rules of
                Some i \<Rightarrow> Some (''Rule at index '' @ nat_str i
                            @ '' must have either action_class, resource, or intent_group'')
              | None \<Rightarrow>
                  if version \<le> currentVersion
                  then Some (''Bundle version '' @ int_str version @ '' must be greater than current version ''
                             @ int_str currentVersion)
                  else let expected = sha256 (or_else (json_stringify (JArr rules)) ''undefined'')
                       in if str_of (map_of kvs ''checksum'') \<noteq> expected
                          then Some (''Checksum mismatch: expected '' @ expected @ '', got ''
                                     @ str_of (map_of kvs ''checksum''))
                          else None)"

section \<open>Loading\<close>

text \<open>The first rule whose \<open>target_match\<close> does not compile.\<close>

fun bad_target :: "(string \<Rightarrow> bool) \<Rightarrow> nat \<Rightarrow> json list \<Rightarrow> (nat \<times> string) option" where
  "bad_target regex_ok i [] = None"
| "bad_target regex_ok i (r # rs) =
     (case map_of (obj_members r) ''target_match'' of
        None \<Rightarrow> bad_target regex_ok (i + 1) rs
      | Some t \<Rightarrow> if regex_ok (str_of (Some t)) then bad_target regex_ok (i + 1) rs
                  else Some (i, str_of (Some t)))"

text \<open>\<open>loadPolicyFile\<close>: \<open>raw\<close> is the text of the file, or \<open>None\<close> when it cannot be read.\<close>

definition loadPolicyFile ::
  "(string \<Rightarrow> json option) \<Rightarrow> (string \<Rightarrow> bool) \<Rightarrow> (json \<Rightarrow> string) \<Rightarrow> string \<Rightarrow> string option
     \<Rightarrow> string + json" where
  "loadPolicyFile json_parse regex_ok schema_errors filePath raw =
     (case raw of
        None \<Rightarrow> Inl (''Failed to read policy file: '' @ filePath)
      | Some text \<Rightarrow>
          (case json_parse text of
             None \<Rightarrow> Inl (''Failed to parse policy file as JSON: '' @ filePath)
           | Some parsed \<Rightarrow>
               if \<not> TLoadedBundle parsed
               then Inl (''Policy validation failed ('' @ filePath @ ''): '' @ schema_errors parsed)
               else (case bad_target regex_ok 0 (arr_of (map_of (obj_members parsed) ''rules'')) of
                       Some (i, t) \<Rightarrow>
                         Inl (''Policy validation failed ('' @ filePath @ ''): rules['' @ nat_str i
                              @ ''].target_match is not a valid regex: '' @ [CHR 0x22] @ t @ [CHR 0x22])
                     | None \<Rightarrow> Inr parsed)))"

section \<open>The exported manifest\<close>

record exported_rule =
  ex_effect :: effect
  ex_resource :: "resource option"
  ex_match :: "string option"
  ex_matchIsRegExp :: bool
  ex_hasCondition :: bool
  ex_reason :: "string option"
  ex_tags :: "string list option"
  ex_rateLimit :: "rate_limit option"
  ex_action_class :: "string option"
  ex_priority :: "int option"

text \<open>\<open>rx_source\<close> is the \<open>source\<close> property of a regular expression.\<close>

definition serializeRule :: "(rx \<Rightarrow> string) \<Rightarrow> rule \<Rightarrow> exported_rule" where
  "serializeRule rx_source r =
     \<lparr>ex_effect = rule_effect r, ex_resource = rule_resource r,
      ex_match = map_option (\<lambda>m. case m of PStr s \<Rightarrow> s | PRegex x \<Rightarrow> rx_source x) (rule_match r),
      ex_matchIsRegExp = (case rule_match r of Some (PRegex _) \<Rightarrow> True | _ \<Rightarrow> False),
      ex_hasCondition = (rule_condition r \<noteq> None),
      ex_reason = rule_reason r, ex_tags = rule_tags r, ex_rateLimit = rule_rateLimit r,
      ex_action_class = rule_action_class r, ex_priority = rule_priority r\<rparr>"

record manifest =
  mf_schemaVersion :: string
  mf_generatedAt :: string
  mf_ruleCount :: nat
  mf_rules :: "exported_rule list"

definition exportBuiltinRules :: "(rx \<Rightarrow> string) \<Rightarrow> string \<Rightarrow> manifest" where
  "exportBuiltinRules rx_source now =
     (let rules = map (serializeRule rx_source) allRules
      in \<lparr>mf_schemaVersion = ''1.0.0'', mf_generatedAt = now, mf_ruleCount = length rules, mf_rules = rules\<rparr>)"

section \<open>Facts\<close>

lemma bad_rule_None: "bad_rule i rs = None \<longleftrightarrow> (\<forall>r\<in>set rs. rule_addressed r)"
  by (induction rs arbitrary: i) auto

text \<open>
  validateBundle accepts a bundle exactly when it has the schema, each of its rules names an
  action class, a resource or an intent group, its version is above the current one, and its checksum
  is the hash of the serialised rules. An accepted bundle is not accepted again at its own version.
\<close>

theorem validate_bundle_iff:
  "validateBundle sha256 schema_errors bundle currentVersion = None \<longleftrightarrow>
     (\<exists>kvs version rules checksum.
        bundle = JObj kvs \<and> TBundle bundle
        \<and> map_of kvs ''version'' = Some (JNum version) \<and> currentVersion < version
        \<and> map_of kvs ''rules'' = Some (JArr rules) \<and> (\<forall>r\<in>set rules. rule_addressed r)
        \<and> map_of kvs ''checksum'' = Some (JStr checksum)
        \<and> checksum = sha256 (or_else (json_stringify (JArr rules)) ''undefined''))"
  (is "?l \<longleftrightarrow> ?r")
proof (cases "TBundle bundle")
  case True
  then obtain kvs version rules checksum where b: "bundle = JObj kvs"
      "map_of kvs ''version'' = Some (JNum version)" "map_of kvs ''rules'' = Some (JArr rules)"
      "map_of kvs ''checksum'' = Some (JStr checksum)"
    unfolding TBundle_def required_member_def
    by (elim is_obj.elims(2) is_num.elims(2) is_arr.elims(2) is_str.elims(2))
      (auto split: option.splits elim!: is_num.elims(2) is_arr.elims(2) is_str.elims(2))
  have "validateBundle sha256 schema_errors bundle currentVersion = None \<longleftrightarrow>
      (\<forall>r\<in>set rules. rule_addressed r) \<and> currentVersion < version
      \<and> checksum = sha256 (or_else (json_stringify (JArr rules)) ''undefined'')"
    using True bad_rule_None [of 0 rules] by (auto simp: validateBundle_def b Let_def split: option.splits)
  then show ?thesis using True b by auto
next
  case False
  then show ?thesis by (auto simp: validateBundle_def)
qed

lemma validate_bundle_iff_witness:
  "validateBundle (\<lambda>_. ''h'') (\<lambda>_. '''')
     (JObj [(''version'', JNum 2),
            (''rules'', JArr [JObj [(''effect'', JStr ''forbid''), (''action_class'', JStr ''shell.exec'')]]),
            (''checksum'', JStr ''h'')]) 1 = None"
  by (subst validate_bundle_iff)
    (simp add: TBundle_def TBundleRule_def required_member_def optional_member_def is_effect_def rule_addressed_def
      has_member_def)

end
