(* ===== verification/SensitiveProps.thy ===== *)
theory SensitiveProps
  imports Sensitive
begin

text \<open>
  What the detectors find: the checksum rejects every single-digit error, and a card number that
  stands alone in a text is reported exactly when its checksum holds.
\<close>

section \<open>Candidates\<close>

definition digit_count :: "string \<Rightarrow> nat" where
  "digit_count s = length (filter is_digit s)"

lemma digit_count_simps [simp]:
  "digit_count [] = 0"
  "digit_count (c # s) = (if is_digit c then 1 else 0) + digit_count s"
  "digit_count (s @ t) = digit_count s + digit_count t"
  by (simp_all add: digit_count_def)

lemma digit_count_all: "\<forall>c\<in>set s. is_digit c \<Longrightarrow> digit_count s = length s"
  by (simp add: digit_count_def)

lemma digit_count_0: "digit_count s = 0 \<longleftrightarrow> (\<forall>c\<in>set s. \<not> is_digit c)"
  by (simp add: digit_count_def filter_empty_conv)

lemma digit_word: "is_digit c \<Longrightarrow> word_char c"
  by (simp add: is_digit_def word_char_def Let_def)

lemma sep_not_digit: "\<not> is_digit CHR '' ''" "\<not> is_digit CHR ''-''"
  by (simp_all add: is_digit_def)

lemma rx_lang_sep [simp]: "rx_lang rx_sep p u v \<longleftrightarrow> u \<in> {[], '' '', ''-''}"
  by (auto simp: rx_sep_def cls_def)

definition sep :: "string \<Rightarrow> bool" where
  "sep s \<longleftrightarrow> s \<in> {[], '' '', ''-''}"

definition digits_of_length :: "nat \<Rightarrow> string \<Rightarrow> bool" where
  "digits_of_length n g \<longleftrightarrow> length g = n \<and> (\<forall>c\<in>set g. is_digit c)"

lemma digits_count: "digits_of_length n g \<Longrightarrow> digit_count g = n"
  by (simp add: digits_of_length_def digit_count_all)

lemma sep_count: "sep s \<Longrightarrow> digit_count s = 0"
  by (auto simp: sep_def sep_not_digit)

text \<open>Expressions whose language does not depend on the context, and sequences of them.\<close>

definition plain :: "rx \<Rightarrow> (string \<Rightarrow> bool) \<Rightarrow> bool" where
  "plain r P \<longleftrightarrow> (\<forall>p u v. rx_lang r p u v \<longleftrightarrow> P u)"

definition seq_of :: "(string \<Rightarrow> bool) list \<Rightarrow> string \<Rightarrow> bool" where
  "seq_of Ps u \<longleftrightarrow> (\<exists>us. u = concat us \<and> list_all2 (\<lambda>P w. P w) Ps us)"

lemma seq_of_simps:
  "seq_of [] u \<longleftrightarrow> u = []"
  "seq_of (P # Ps) u \<longleftrightarrow> (\<exists>x y. u = x @ y \<and> P x \<and> seq_of Ps y)"
proof -
  show "seq_of [] u \<longleftrightarrow> u = []" by (auto simp: seq_of_def)
  show "seq_of (P # Ps) u \<longleftrightarrow> (\<exists>x y. u = x @ y \<and> P x \<and> seq_of Ps y)"
    unfolding seq_of_def by (auto simp: list_all2_Cons1) (metis concat.simps(2))+
qed

lemma seq_of_ConsI: "P x \<Longrightarrow> seq_of Ps y \<Longrightarrow> seq_of (P # Ps) (x @ y)"
  by (auto simp: seq_of_simps)

lemma seq_of_singleI: "P x \<Longrightarrow> seq_of [P] x"
  by (auto simp: seq_of_simps)

lemma plain_seq: "list_all2 plain rs Ps \<Longrightarrow> plain (rx_seq rs) (seq_of Ps)"
proof (induction rs arbitrary: Ps rule: rx_seq.induct)
  case 1
  then show ?case by (simp add: plain_def seq_of_simps)
next
  case (2 r)
  then show ?case by (auto simp: plain_def seq_of_simps list_all2_Cons1)
next
  case (3 r s rs)
  from 3(2) obtain P Qs where Ps: "Ps = P # Qs" "plain r P" "list_all2 plain (s # rs) Qs"
    by (auto simp: list_all2_Cons1)
  from 3(1) [OF Ps(3)] Ps(2) show ?case
    by (simp add: Ps(1) plain_def seq_of_simps rx_lang_seqI)
qed

abbreviation D :: "nat \<Rightarrow> string \<Rightarrow> bool" where
  "D \<equiv> digits_of_length"

lemma plain_digits: "plain (rx_times n rx_digit) (D n)"
  by (simp add: plain_def digits_of_length_def)

lemma plain_sep: "plain rx_sep sep"
  by (simp add: plain_def sep_def)

text \<open>A candidate starts and ends with a digit and has 13, 15 or 16 of them.\<close>

definition candidate :: "string \<Rightarrow> bool" where
  "candidate u \<longleftrightarrow> seq_of [D 4, sep, D 4, sep, D 4, sep, D 4] u \<or> seq_of [D 4, sep, D 6, sep, D 5] u \<or> D 13 u"

lemma plain_candidate:
  "plain (rx_alt
       [rx_seq [rx_times 4 rx_digit, rx_sep, rx_times 4 rx_digit, rx_sep, rx_times 4 rx_digit, rx_sep,
          rx_times 4 rx_digit],
        rx_seq [rx_times 4 rx_digit, rx_sep, rx_times 6 rx_digit, rx_sep, rx_times 5 rx_digit],
        rx_times 13 rx_digit]) candidate"
proof -
  have alt: "plain (rx_alt [r, s, t]) (\<lambda>u. P u \<or> Q u \<or> R u)" if "plain r P" "plain s Q" "plain t R" for r s t P Q R
    using that by (simp add: plain_def)
  have eq: "candidate = (\<lambda>u. seq_of [D 4, sep, D 4, sep, D 4, sep, D 4] u \<or> seq_of [D 4, sep, D 6, sep, D 5] u \<or> D 13 u)"
    by (rule ext) (simp only: candidate_def)
  show ?thesis
    by (subst eq, intro alt plain_seq plain_digits)
      (simp_all only: list.rel_inject simp_thms plain_digits plain_sep list.rel_intros)
qed

lemma cc_lang:
  "rx_lang CC_CANDIDATE_RE p u v \<longleftrightarrow>
     candidate u \<and> word_boundary p (u @ v) \<and> word_boundary (last_of p u) v"
  unfolding CC_CANDIDATE_RE_def rx_seq.simps rx_lang_seqI [of RWordB] rx_lang_seqI [of "rx_alt _"]
    plain_candidate [unfolded plain_def rx_seq.simps, rule_format] rx_lang_wordb
  by auto

lemma D_ends:
  assumes "D n g" and "n > 0"
  shows "g \<noteq> []" "is_digit (hd g)" "is_digit (last g)"
  using assms by (auto simp: digits_of_length_def)

lemma candidate_ends:
  assumes "candidate u"
  shows "u \<noteq> [] \<and> is_digit (hd u) \<and> is_digit (last u) \<and> digit_count u \<in> {13, 15, 16}"
proof -
  have step: "u \<noteq> [] \<and> is_digit (hd u) \<and> is_digit (last u)"
    if "u = a @ w @ z" "D m a" "D n z" "m > 0" "n > 0" for a w z m n
    using that D_ends [OF that(2,4)] D_ends [OF that(3,5)] by simp
  consider
      (a) a s1 b s2 c s3 d where "u = a @ (s1 @ b @ s2 @ c @ s3) @ d" "sep s1" "sep s2" "sep s3"
        "D 4 a" "D 4 b" "D 4 c" "D 4 d"
    | (b) a s1 b s2 c where "u = a @ (s1 @ b @ s2) @ c" "sep s1" "sep s2" "D 4 a" "D 6 b" "D 5 c"
    | (c) "D 13 u"
    using assms unfolding candidate_def seq_of_simps by auto
  then show ?thesis
  proof cases
    case a
    with step [OF a(1) a(5) a(8)] show ?thesis by (simp add: digits_count sep_count)
  next
    case b
    with step [OF b(1) b(4) b(6)] show ?thesis by (simp add: digits_count sep_count)
  next
    case c
    with D_ends [OF c] show ?thesis by (simp add: digits_count)
  qed
qed

section \<open>Matches in a text\<close>

lemma cc_no_match:
  assumes "s = [] \<or> \<not> is_digit (hd s)"
  shows "rx_run CC_CANDIDATE_RE (p, s) = []"
proof (rule ccontr)
  assume "rx_run CC_CANDIDATE_RE (p, s) \<noteq> []"
  then obtain u v where u: "s = u @ v" "candidate u"
    by (auto simp: rx_run_nonempty cc_lang)
  with candidate_ends [OF u(2)] assms show False by auto
qed

lemma last_of_Cons: "last_of p (c # s) = last_of (Some c) s"
  by (simp add: last_of_def)

lemma cc_matches_skip:
  "\<forall>c\<in>set pre. \<not> is_digit c \<Longrightarrow>
    rx_matches (length pre + n) CC_CANDIDATE_RE (p, pre @ t) = rx_matches n CC_CANDIDATE_RE (last_of p pre, t)"
proof (induction pre arbitrary: p)
  case (Cons c pre)
  then show ?case by (simp add: cc_no_match last_of_Cons)
qed (simp add: last_of_def)

lemma cc_matches_none:
  assumes "\<forall>c\<in>set s. \<not> is_digit c" and "n > length s"
  shows "rx_matches n CC_CANDIDATE_RE (p, s) = []"
proof -
  from assms(2) obtain k where "n = length s + Suc k"
    by (metis less_iff_Suc_add add_Suc_right)
  with cc_matches_skip [OF assms(1), of "Suc k" p "[]"] show ?thesis by (simp add: cc_no_match)
qed

text \<open>A candidate that is a prefix of a number followed by no digit.\<close>

lemma candidate_unique:
  assumes m: "m = w @ q" "D 4 q" "digit_count m = 16"
    and post: "\<forall>c\<in>set post. \<not> is_digit c"
    and u: "m @ post = u @ v" "candidate u" "word_boundary (last_of p u) v"
  shows "u = m"
proof -
  note e = candidate_ends [OF u(2)]
  from u(1) consider x where "u = m @ x" "post = x @ v" | x where "m = u @ x" "v = x @ post"
    by (auto simp: append_eq_append_conv2)
  then show ?thesis
  proof cases
    case 1
    show ?thesis
    proof (cases "x = []")
      case False
      then have "last u \<in> set post" using 1 by simp
      with e post show ?thesis by blast
    qed (simp add: 1)
  next
    case 2
    show ?thesis
    proof (cases "digit_count u = 16")
      case True
      with 2 m(3) have "\<forall>c\<in>set x. \<not> is_digit c" by (simp flip: digit_count_0)
      moreover have "x \<noteq> [] \<Longrightarrow> is_digit (last x)"
        using 2 m(1) D_ends [OF m(2)] by (metis last_appendR zero_less_numeral)
      ultimately have "x = []" using last_in_set by blast
      with 2 show ?thesis by simp
    next
      case False
      with e 2 m(3) have dc: "digit_count x \<in> {1, 3}" by auto
      from m(1) have "suffix q m" by (simp add: suffix_def)
      moreover from 2 have "suffix x m" by (simp add: suffix_def)
      moreover have "length q = 4" using m(2) by (simp add: digits_of_length_def)
      ultimately have suffixes: "suffix q m" "suffix x m" "length q = 4" .
      have "length x < 4"
      proof (rule ccontr)
        assume "\<not> length x < 4"
        then have "suffix q x" using suffix_length_suffix [OF suffixes(1,2)] suffixes(3) by linarith
        then obtain y where "x = y @ q" by (auto simp: suffix_def)
        with dc digits_count [OF m(2)] show False by auto
      qed
      then have "suffix x q" using suffix_length_suffix [OF suffixes(2,1)] suffixes(3) by linarith
      then obtain y where y: "q = y @ x" by (auto simp: suffix_def)
      from dc obtain c x' where x: "x = c # x'" by (cases x) auto
      with y m(2) have "is_digit c" by (auto simp: digits_of_length_def)
      moreover have "last_of p u = Some (last u)" using e by (simp add: last_of_def)
      ultimately have "\<not> word_boundary (last_of p u) v"
        using e x 2 by (simp add: word_boundary_def digit_word)
      with u(3) show ?thesis by contradiction
    qed
  qed
qed

lemma all_eq_hd: "xs \<noteq> [] \<Longrightarrow> \<forall>x\<in>set xs. x = a \<Longrightarrow> \<exists>ys. xs = a # ys"
  by (cases xs) auto

text \<open>A number of sixteen digits that stands alone is the one match of the text.\<close>

lemma cc_match_alone:
  assumes m: "m = w @ q" "D 4 q" "digit_count m = 16" "candidate m"
    and pre: "\<forall>c\<in>set pre. \<not> is_digit c" "pre \<noteq> [] \<longrightarrow> \<not> word_char (last pre)"
    and post: "\<forall>c\<in>set post. \<not> is_digit c" "post \<noteq> [] \<longrightarrow> \<not> word_char (hd post)"
  shows "rx_match_all CC_CANDIDATE_RE (pre @ m @ post) = [m]"
proof -
  let ?r = CC_CANDIDATE_RE and ?p = "last_of None pre"
  note e = candidate_ends [OF m(4)]
  have bol: "word_boundary ?p (m @ post)"
    using e pre(2) digit_word by (cases m) (auto simp: word_boundary_def last_of_def split: option.splits)
  have eol: "word_boundary (last_of ?p m) post"
    using e post(2) digit_word
    by (cases post) (auto simp: word_boundary_def last_of_def split: option.splits)
  have run: "\<exists>rest. rx_run ?r (?p, m @ post) = (last_of ?p m, post) # rest"
  proof (rule all_eq_hd)
    from bol eol m(4) show "rx_run ?r (?p, m @ post) \<noteq> []"
      by (auto simp: rx_run_nonempty cc_lang)
    show "\<forall>x\<in>set (rx_run ?r (?p, m @ post)). x = (last_of ?p m, post)"
    proof
      fix x
      assume "x \<in> set (rx_run ?r (?p, m @ post))"
      then obtain u v where u: "x = (last_of ?p u, v)" "m @ post = u @ v" "rx_lang ?r ?p u v"
        using rx_run_iff [of "fst x" "snd x" ?r ?p "m @ post"] by (metis prod.collapse)
      then have "candidate u" "word_boundary (last_of ?p u) v" by (simp_all add: cc_lang)
      from candidate_unique [OF m(1-3) post(1) u(2) this] have "u = m" .
      with u show "x = (last_of ?p m, post)" by simp
    qed
  qed
  then obtain rest where run: "rx_run ?r (?p, m @ post) = (last_of ?p m, post) # rest" by blast
  have "rx_match_all ?r (pre @ m @ post)
      = rx_matches (length pre + Suc (length m + length post)) ?r (None, pre @ m @ post)"
    by (simp add: rx_match_all_def)
  also have "\<dots> = rx_matches (Suc (length m + length post)) ?r (?p, m @ post)"
    by (rule cc_matches_skip [OF pre(1)])
  also have "\<dots> = m # rx_matches (length m + length post) ?r (last_of ?p m, post)"
    using run e by simp
  also have "\<dots> = [m]"
    using cc_matches_none [OF post(1), of "length m + length post"] e by (cases m) simp_all
  finally show ?thesis .
qed

section \<open>Properties\<close>

text \<open>
  The Luhn check detects every error in a single digit: a number that passes it does not pass
  any more when one of its digits is replaced by another.
\<close>

theorem luhn_single_error:
  assumes "is_digit c" and "is_digit d" and "c \<noteq> d" and "luhnCheck (xs @ c # ys)"
  shows "\<not> luhnCheck (xs @ d # ys)"
  using luhn_sum_change [OF assms(1-3), of False "rev ys" "rev xs"] assms(4)
  by (simp add: luhnCheck_def)

lemma luhn_single_error_witness:
  "luhnCheck (''41111111'' @ CHR ''1'' # ''1111111'') \<and> \<not> luhnCheck (''41111111'' @ CHR ''7'' # ''1111111'')"
proof -
  have "luhnCheck (''41111111'' @ CHR ''1'' # ''1111111'')" by code_simp
  with luhn_single_error [of "CHR ''1''" "CHR ''7''" "''41111111''" "''1111111''"] show ?thesis
    by (simp add: is_digit_def)
qed

lemma strip_sep_append: "strip_sep (a @ b) = strip_sep a @ strip_sep b"
  by (simp add: strip_sep_def)

lemma strip_sep_digits: "D n g \<Longrightarrow> strip_sep g = g"
  by (auto simp: strip_sep_def digits_of_length_def is_digit_def intro!: filter_True)

lemma strip_sep_sep: "sep s \<Longrightarrow> strip_sep s = []"
  by (auto simp: strip_sep_def sep_def)

text \<open>
  A card number that stands alone in a text, four groups of four digits with or without a space
  or a dash between them, is reported by detectCreditCard exactly when its sixteen digits
  pass the Luhn check.
\<close>

theorem card_detection:
  assumes groups: "digits_of_length 4 a" "digits_of_length 4 b" "digits_of_length 4 c" "digits_of_length 4 d"
    and seps: "sep s1" "sep s2" "sep s3"
    and pre: "\<forall>x\<in>set pre. \<not> is_digit x" "pre \<noteq> [] \<longrightarrow> \<not> word_char (last pre)"
    and post: "\<forall>x\<in>set post. \<not> is_digit x" "post \<noteq> [] \<longrightarrow> \<not> word_char (hd post)"
  shows "detectCreditCard (pre @ (a @ s1 @ b @ s2 @ c @ s3 @ d) @ post) \<longleftrightarrow> luhnCheck (a @ b @ c @ d)"
proof -
  let ?m = "a @ s1 @ b @ s2 @ c @ s3 @ d"
  have cand: "candidate ?m"
    unfolding candidate_def using groups seps by (intro disjI1 seq_of_ConsI seq_of_singleI)
  have "rx_match_all CC_CANDIDATE_RE (pre @ ?m @ post) = [?m]"
    by (rule cc_match_alone [of ?m "a @ s1 @ b @ s2 @ c @ s3" d])
      (use groups seps cand pre post in \<open>simp_all add: digits_count sep_count\<close>)
  moreover have "strip_sep ?m = a @ b @ c @ d"
    using groups seps by (simp add: strip_sep_append strip_sep_digits strip_sep_sep)
  moreover have "length (a @ b @ c @ d) = 16" using groups by (simp add: digits_of_length_def)
  ultimately show ?thesis
    by (simp add: detectCreditCard_def card_ok_def)
qed

lemma card_detection_witness:
  "detectCreditCard (''card '' @ (''4111'' @ '' '' @ ''1111'' @ '' '' @ ''1111'' @ '' '' @ ''1111'') @ '', thanks'')
   \<and> \<not> detectCreditCard ('''' @ (''4111'' @ '''' @ ''1111'' @ '''' @ ''1111'' @ '''' @ ''1112'') @ '''')"
proof
  have "luhnCheck (''4111'' @ ''1111'' @ ''1111'' @ ''1111'')" by code_simp
  then show "detectCreditCard (''card '' @ (''4111'' @ '' '' @ ''1111'' @ '' '' @ ''1111'' @ '' '' @ ''1111'') @ '', thanks'')"
    by (subst card_detection) (simp_all add: digits_of_length_def sep_def is_digit_def word_char_def)
  have "\<not> luhnCheck (''4111'' @ ''1111'' @ ''1111'' @ ''1112'')" by code_simp
  then show "\<not> detectCreditCard ('''' @ (''4111'' @ '''' @ ''1111'' @ '''' @ ''1111'' @ '''' @ ''1112'') @ '''')"
    by (subst card_detection) (simp_all add: digits_of_length_def sep_def is_digit_def word_char_def)
qed

text \<open>A group of four digits before a card number, separated by a dash, hides it.\<close>

lemma card_hidden_by_group:
  "detectCreditCard ''4111-1111-1111-1111'' \<and> \<not> detectCreditCard ''1234-4111-1111-1111-1111''"
  by code_simp

end
