(* ===== verification/IdentityProps.thy ===== *)
theory IdentityProps
  imports Identity
begin

text \<open>
  What the identity registry and the coverage map promise: a claim is verified exactly by the last
  registration of its agent, and the coverage map is the summary of the recorded history.
\<close>

section \<open>Claims\<close>

lemma register_ok:
  "register a m = Inr m' \<Longrightarrow>
    m' = AList.update (ra_agentId a) a m \<and> ra_agentId a \<noteq> '''' \<and> ra_allowedChannels a \<noteq> []"
  by (auto simp: register_def split: if_splits)

lemma registerMany_ok:
  "registerMany as m = (None, m') \<Longrightarrow>
    m' = fold (\<lambda>a. AList.update (ra_agentId a) a) as m"
  by (induction as arbitrary: m) (auto dest: register_ok split: sum.splits)

lemma update_not_Nil: "AList.update k v m \<noteq> []"
  by (induction m) auto

lemma fold_update_not_Nil: "as \<noteq> [] \<Longrightarrow> fold (\<lambda>a. AList.update (f a) a) as m \<noteq> []"
proof (induction as arbitrary: m)
  case (Cons a as)
  then show ?case by (cases "as = []") (simp_all add: update_not_Nil)
qed simp

lemma map_of_fold_update:
  "map_of (fold (\<lambda>a. AList.update (f a) a) as m) k =
     (case List.find (\<lambda>a. f a = k) (rev as) of Some a \<Rightarrow> Some a | None \<Rightarrow> map_of m k)"
proof (induction as arbitrary: m)
  case (Cons a as)
  have "List.find P (xs @ [x]) = (case List.find P xs of Some y \<Rightarrow> Some y | None \<Rightarrow> if P x then Some x else None)"
    for P :: "'a \<Rightarrow> bool" and xs x
    by (induction xs) auto
  with Cons show ?case by (simp add: js.get_set split: option.split)
qed simp

text \<open>
  After a successful bulk registration into an empty registry, a claim is verified exactly when
  the last entry of its agent lists the claimed channel; an agent without an entry is not verified.
  The audit names carry the prefix exactly for the claims that are not verified, and the rule context
  carries the same flag.
\<close>

theorem identity_verified_iff:
  assumes "registerMany as [] = (None, m)" and "as \<noteq> []"
    and "i = resolveIdentity (Some agent) (Some channel) m" and "channel \<noteq> ''''"
  shows "(id_verified i \<longleftrightarrow>
            (\<exists>a. List.find (\<lambda>a. ra_agentId a = agent) (rev as) = Some a \<and> channel \<in> set (ra_allowedChannels a)))
      \<and> id_auditAgentId i = (if id_verified i then agent else ''unverified:'' @ agent)
      \<and> id_auditChannel i = (if id_verified i then channel else ''unverified:'' @ channel)
      \<and> ctx_verified (buildRuleContext (id_agentId i) (id_channel i) m) = Some (id_verified i)"
proof -
  have m: "m = fold (\<lambda>a. AList.update (ra_agentId a) a) as []"
    using registerMany_ok assms(1) by blast
  have ne: "length m \<noteq> 0" unfolding m using fold_update_not_Nil [OF assms(2)] by simp
  have "map_of m agent = List.find (\<lambda>a. ra_agentId a = agent) (rev as)"
    unfolding m map_of_fold_update by (simp split: option.split)
  then have "vf_verified (verify agent channel m) \<longleftrightarrow>
      (\<exists>a. List.find (\<lambda>a. ra_agentId a = agent) (rev as) = Some a \<and> channel \<in> set (ra_allowedChannels a))"
    using ne by (auto simp: verify_def Let_def split: option.splits)
  then show ?thesis
    using assms(3,4) by (auto simp: resolveIdentity_def buildRuleContext_def Let_def)
qed

lemma identity_verified_iff_witness:
  "id_auditAgentId (resolveIdentity (Some ''bot'') (Some ''mail'')
     (snd (registerMany [\<lparr>ra_agentId = ''bot'', ra_allowedChannels = [''chat''], ra_role = None\<rparr>] [])))
   = ''unverified:bot''"
  by (subst identity_verified_iff
      [of "[\<lparr>ra_agentId = ''bot'', ra_allowedChannels = [''chat''], ra_role = None\<rparr>]"
        "[(''bot'', \<lparr>ra_agentId = ''bot'', ra_allowedChannels = [''chat''], ra_role = None\<rparr>)]"
        _ "''bot''" "''mail''", THEN conjunct2, THEN conjunct1])
    (simp_all add: register_def resolveIdentity_def verify_def Let_def)

section \<open>Coverage keys\<close>

lemma resource_str_no_colon: "CHR '':'' \<notin> set (resource_str r)"
  by (cases r) (simp_all add: resource_str_def)

lemma resource_str_inj: "resource_str r = resource_str r' \<longleftrightarrow> r = r'"
  by (cases r; cases r') (simp_all add: resource_str_def)

lemma split_key_append: "CHR '':'' \<notin> set a \<Longrightarrow> split_key (a @ ''::'' @ b) = (a, b)"
proof (induction a)
  case (Cons c a)
  then show ?case by (cases a) auto
qed simp

lemma split_cellKey: "split_key (cellKey r name) = (resource_str r, name)"
  unfolding cellKey_def by (rule split_key_append [OF resource_str_no_colon])

lemma cellKey_inj: "cellKey r n = cellKey r' n' \<longleftrightarrow> r = r' \<and> n = n'"
  by (metis split_cellKey prod.inject resource_str_inj)

section \<open>The map as a summary of its history\<close>

text \<open>A recorded call: its time, resource, name, outcome and matched rule.\<close>

type_synonym hit = "int \<times> resource \<times> string \<times> coverage_state \<times> rule option"

definition record_all :: "hit list \<Rightarrow> coverage" where
  "record_all hs = fold (\<lambda>(now, r, n, st, rl). record_hit now r n st rl) hs []"

definition hits_of :: "resource \<Rightarrow> string \<Rightarrow> hit list \<Rightarrow> hit list" where
  "hits_of r n hs = filter (\<lambda>(_, r', n', _, _). r' = r \<and> n' = n) hs"

definition hit_limit :: "hit \<Rightarrow> rate_limit option" where
  "hit_limit = (\<lambda>(_, _, _, _, rl). case rl of None \<Rightarrow> None | Some x \<Rightarrow> rule_rateLimit x)"

definition last_limit :: "hit list \<Rightarrow> rate_limit option" where
  "last_limit hs = (case List.find (\<lambda>h. hit_limit h \<noteq> None) (rev hs) of None \<Rightarrow> None | Some h \<Rightarrow> hit_limit h)"

definition summary :: "hit list \<Rightarrow> coverage_cell option" where
  "summary hs = (if hs = [] then None else
     (case last hs of (now, _, _, st, _) \<Rightarrow>
        Some \<lparr>cc_state = st, cc_hitCount = length hs, cc_lastHitAt = now, cc_rateLimit = last_limit hs\<rparr>))"

lemma last_limit_snoc:
  "last_limit (hs @ [h]) = (case hit_limit h of Some l \<Rightarrow> Some l | None \<Rightarrow> last_limit hs)"
  by (auto simp: last_limit_def split: option.split)

lemma record_all_snoc:
  "record_all (hs @ [(now, r, n, st, rl)]) = record_hit now r n st rl (record_all hs)"
  by (simp add: record_all_def)

lemma summary_snoc:
  "summary (hs @ [(now, r, n, st, rl)]) =
     Some \<lparr>cc_state = st, cc_hitCount = length hs + 1, cc_lastHitAt = now,
           cc_rateLimit = (case hit_limit (now, r, n, st, rl) of Some l \<Rightarrow> Some l | None \<Rightarrow> last_limit hs)\<rparr>"
  by (simp add: summary_def last_limit_snoc)

lemma get_cell_record:
  "get_cell r n (record_hit now r n st rl m) =
     Some \<lparr>cc_state = st,
           cc_hitCount = (case get_cell r n m of None \<Rightarrow> 0 | Some c \<Rightarrow> cc_hitCount c) + 1,
           cc_lastHitAt = now,
           cc_rateLimit = (case hit_limit (now, r, n, st, rl) of Some l \<Rightarrow> Some l
             | None \<Rightarrow> (case get_cell r n m of None \<Rightarrow> None | Some c \<Rightarrow> cc_rateLimit c))\<rparr>"
  unfolding get_cell_def record_hit_def Let_def hit_limit_def by (simp add: js.get_set)

lemma get_cell_record_other:
  "\<not> (r' = r \<and> n' = n) \<Longrightarrow> get_cell r n (record_hit now r' n' st rl m) = get_cell r n m"
  by (auto simp: get_cell_def record_hit_def Let_def js.get_set cellKey_inj)

lemma summary_fields:
  "(case summary hs of None \<Rightarrow> 0 | Some c \<Rightarrow> cc_hitCount c) = length hs"
  "(case summary hs of None \<Rightarrow> None | Some c \<Rightarrow> cc_rateLimit c) = last_limit hs"
  by (simp_all add: summary_def last_limit_def split: prod.split)

lemma get_cell_summary: "get_cell r n (record_all hs) = summary (hits_of r n hs)"
proof (induction hs rule: rev_induct)
  case Nil
  then show ?case by (simp add: get_cell_def record_all_def hits_of_def summary_def)
next
  case (snoc h hs)
  obtain now r' n' st rl where h: "h = (now, r', n', st, rl)" by (cases h)
  show ?case
  proof (cases "r' = r \<and> n' = n")
    case True
    then have "hits_of r n (hs @ [h]) = hits_of r n hs @ [(now, r, n, st, rl)]"
      by (simp add: hits_of_def h)
    with True show ?thesis
      by (simp only: h record_all_snoc summary_snoc get_cell_record snoc.IH summary_fields conj_absorb simp_thms)
  next
    case False
    then have "hits_of r n (hs @ [h]) = hits_of r n hs" by (auto simp: hits_of_def h)
    with get_cell_record_other [OF False] show ?thesis
      by (simp only: h record_all_snoc snoc.IH)
  qed
qed

lemma record_all_keys:
  "distinct_keys (record_all hs) \<and> fst ` set (record_all hs) = (\<lambda>(_, r, n, _, _). cellKey r n) ` set hs"
proof (induction hs rule: rev_induct)
  case Nil
  then show ?case by (simp add: record_all_def)
next
  case (snoc h hs)
  obtain now r n st rl where h: "h = (now, r, n, st, rl)" by (cases h)
  from snoc show ?case
    unfolding h record_all_snoc
    by (simp add: record_hit_def Let_def distinct_update dom_update [unfolded dom_map_of_conv_image_fst])
qed

text \<open>
  The coverage map is the summary of the recorded calls: the cell of a pair holds the outcome and
  the time of its last call, the number of its calls and the last rate limit a matched rule of it had,
  a pair that was never recorded has no cell, and entries lists exactly the recorded pairs, each once,
  under their own resource and name.
\<close>

theorem coverage_summary:
  "get_cell r n (record_all hs) = summary (hits_of r n hs)
   \<and> set (entries (record_all hs))
       = {((resource_str r', n'), c) | r' n' c. get_cell r' n' (record_all hs) = Some c}
   \<and> distinct (map fst (entries (record_all hs)))"
proof (intro conjI)
  let ?m = "record_all hs"
  note keys = record_all_keys [of hs]
  show "get_cell r n ?m = summary (hits_of r n hs)" by (rule get_cell_summary)
  have key: "\<exists>r n. k = cellKey r n" if "(k, c) \<in> set ?m" for k c
  proof -
    have "k \<in> fst ` set ?m" using that by force
    with keys show ?thesis by auto
  qed
  show "set (entries ?m) = {((resource_str r', n'), c) | r' n' c. get_cell r' n' ?m = Some c}" (is "?L = ?R")
  proof
    show "?L \<subseteq> ?R"
    proof
      fix x
      assume "x \<in> ?L"
      then obtain k c where kc: "(k, c) \<in> set ?m" "x = (split_key k, c)"
        by (auto simp: entries_def)
      from key [OF kc(1)] obtain r' n' where k: "k = cellKey r' n'" by blast
      from kc(1) keys have "get_cell r' n' ?m = Some c"
        unfolding get_cell_def k [symmetric] by (intro map_of_is_SomeI) simp_all
      with kc(2) show "x \<in> ?R" by (auto simp: k split_cellKey)
    qed
    show "?R \<subseteq> ?L"
    proof
      fix x
      assume "x \<in> ?R"
      then obtain r' n' c where x: "x = ((resource_str r', n'), c)" "get_cell r' n' ?m = Some c" by blast
      then have "(cellKey r' n', c) \<in> set ?m" by (simp add: get_cell_def map_of_SomeD)
      then show "x \<in> ?L"
        unfolding entries_def x(1) split_cellKey [symmetric] by force
    qed
  qed
  have "inj_on split_key (fst ` set ?m)"
    unfolding keys [THEN conjunct2] by (auto simp: inj_on_def split_cellKey cellKey_inj resource_str_inj)
  then show "distinct (map fst (entries ?m))"
    using keys [THEN conjunct1] distinct_map [of split_key "map fst ?m"]
    by (simp add: entries_def comp_def case_prod_unfold)
qed

end
