(* ===== verification/PermitStore.thy ===== *)
theory PermitStore
  imports AutoPermit
begin

text \<open>
  The schemas of the auto-permit store (\<open>AutoPermitSchema\<close> of \<open>src/models/auto-permit.ts\<close>,
  \<open>AutoPermitFileSchema\<close> of \<open>src/auto-permits/validation.ts\<close>) as decoders of JSON values: a value
  that passes the check gives the record of its declared members; members the schema does not name
  are allowed and ignored. With them, what the plugin saves is what it loads.
\<close>

section \<open>Schemas\<close>

text \<open>A required text of a least length, and an optional one: \<open>None\<close> fails the check.\<close>

definition text_member :: "nat \<Rightarrow> string \<Rightarrow> (string \<times> json) list \<Rightarrow> string option" where
  "text_member n k kvs =
     (case map_of kvs k of Some (JStr s) \<Rightarrow> if n \<le> length s then Some s else None | _ \<Rightarrow> None)"

definition optional_text :: "nat \<Rightarrow> string \<Rightarrow> (string \<times> json) list \<Rightarrow> string option option" where
  "optional_text n k kvs =
     (case map_of kvs k of
        None \<Rightarrow> Some None
      | Some v \<Rightarrow> map_option Some (text_member n k kvs))"

definition method_member :: "(string \<times> json) list \<Rightarrow> derivation_method option" where
  "method_member kvs =
     (case map_of kvs ''method'' of
        Some (JStr s) \<Rightarrow> if s = ''default'' then Some MDefault else if s = ''exact'' then Some MExact else None
      | _ \<Rightarrow> None)"

definition created_member :: "(string \<times> json) list \<Rightarrow> int option" where
  "created_member kvs = (case map_of kvs ''createdAt'' of Some (JNum i) \<Rightarrow> if 0 \<le> i then Some i else None | _ \<Rightarrow> None)"

definition AutoPermitSchema :: "json \<Rightarrow> auto_permit option" where
  "AutoPermitSchema v =
     (case v of
        JObj kvs \<Rightarrow>
          (case (text_member 1 ''pattern'' kvs, method_member kvs, created_member kvs,
                 text_member 1 ''originalCommand'' kvs, optional_text 0 ''intentHint'' kvs,
                 optional_text 1 ''created_by'' kvs, optional_text 1 ''created_at'' kvs,
                 optional_text 1 ''derived_from'' kvs) of
             (Some p, Some m, Some c, Some cmd, Some hint, Some by, Some at, Some from) \<Rightarrow>
               Some \<lparr>ap_pattern = p, ap_method = m, ap_createdAt = c, ap_originalCommand = cmd,
                 ap_intentHint = hint, ap_created_by = by, ap_created_at = at, ap_derived_from = from\<rparr>
           | _ \<Rightarrow> None)
      | _ \<Rightarrow> None)"

definition AutoPermitFileSchema :: "json \<Rightarrow> permit_file option" where
  "AutoPermitFileSchema v =
     (case v of
        JObj kvs \<Rightarrow>
          (case (map_of kvs ''version'', map_of kvs ''rules'', optional_text 0 ''checksum'' kvs) of
             (Some (JNum n), Some (JArr rs), Some c) \<Rightarrow>
               Some \<lparr>pf_version = n, pf_rules = rs, pf_checksum = c\<rparr>
           | _ \<Rightarrow> None)
      | _ \<Rightarrow> None)"

text \<open>\<open>validateAutoPermitContent\<close> with the schemas; the messages of TypeBox are parameters.\<close>

definition validate_store ::
  "(string \<Rightarrow> string) \<Rightarrow> (json \<Rightarrow> string list) \<Rightarrow> json \<Rightarrow> permit_validation" where
  "validate_store sha256 messages =
     validateAutoPermitContent sha256 AutoPermitSchema messages AutoPermitFileSchema messages"

definition load_store ::
  "(string \<Rightarrow> string) \<Rightarrow> (json \<Rightarrow> string list) \<Rightarrow> string \<Rightarrow> file_read \<Rightarrow> load_result option" where
  "load_store sha256 messages = loadAutoPermitRulesFromFile (validate_store sha256 messages)"

section \<open>What is saved is loaded\<close>

text \<open>The records the schema accepts.\<close>

definition storable :: "auto_permit \<Rightarrow> bool" where
  "storable r \<longleftrightarrow> ap_pattern r \<noteq> '''' \<and> 0 \<le> ap_createdAt r \<and> ap_originalCommand r \<noteq> ''''
     \<and> ap_created_by r \<noteq> Some '''' \<and> ap_created_at r \<noteq> Some '''' \<and> ap_derived_from r \<noteq> Some ''''"

text \<open>Reading the members of a saved record.\<close>

lemma permit_members:
  assumes "auto_permit_json r = JObj kvs"
  shows "map_of kvs ''pattern'' = Some (JStr (ap_pattern r))"
    "map_of kvs ''method'' = Some (JStr (case ap_method r of MDefault \<Rightarrow> ''default'' | MExact \<Rightarrow> ''exact''))"
    "map_of kvs ''createdAt'' = Some (JNum (ap_createdAt r))"
    "map_of kvs ''originalCommand'' = Some (JStr (ap_originalCommand r))"
    "map_of kvs ''intentHint'' = map_option JStr (ap_intentHint r)"
    "map_of kvs ''created_by'' = map_option JStr (ap_created_by r)"
    "map_of kvs ''created_at'' = map_option JStr (ap_created_at r)"
    "map_of kvs ''derived_from'' = map_option JStr (ap_derived_from r)"
  using assms by (auto simp: auto_permit_json_def opt_member_def split: option.split)

lemma optional_text_saved:
  assumes "map_of kvs k = map_option JStr x"
  shows "optional_text n k kvs = (case x of None \<Rightarrow> Some None | Some s \<Rightarrow> if n \<le> length s then Some (Some s) else None)"
  using assms by (auto simp: optional_text_def text_member_def split: option.splits)

lemma AutoPermitSchema_saved:
  "AutoPermitSchema (auto_permit_json r) = (if storable r then Some r else None)"
proof -
  obtain kvs where k: "auto_permit_json r = JObj kvs" by (simp add: auto_permit_json_def)
  note m = permit_members [OF k]
  have one: "(1 \<le> length s) = (s \<noteq> '''')" for s :: string by (cases s) auto
  have meth: "method_member kvs = Some (ap_method r)"
    by (simp add: method_member_def m split: derivation_method.split)
  have created: "created_member kvs = (if 0 \<le> ap_createdAt r then Some (ap_createdAt r) else None)"
    by (simp add: created_member_def m)
  have texts: "text_member 1 ''pattern'' kvs = (if ap_pattern r \<noteq> '''' then Some (ap_pattern r) else None)"
    "text_member 1 ''originalCommand'' kvs = (if ap_originalCommand r \<noteq> '''' then Some (ap_originalCommand r) else None)"
    unfolding text_member_def m one by simp_all
  note opts = m(5-8) [THEN optional_text_saved]
  show ?thesis
    unfolding AutoPermitSchema_def k json.case meth created texts opts one storable_def
    by (cases r) (auto split: option.splits)
qed

lemma sort_entries_saved:
  "\<forall>r\<in>set rs. storable r \<Longrightarrow> sort_entries AutoPermitSchema msg i (map auto_permit_json rs) = (rs, [])"
  by (induction rs arbitrary: i) (simp_all add: AutoPermitSchema_saved)

lemma file_schema_saved:
  "AutoPermitFileSchema (saveAutoPermitRules sha256 rs v) =
     Some \<lparr>pf_version = v, pf_rules = map auto_permit_json rs,
       pf_checksum = Some (sha256 (case json_stringify (JArr (map auto_permit_json rs)) of Some t \<Rightarrow> t | None \<Rightarrow> ''''))\<rparr>"
  by (simp add: AutoPermitFileSchema_def saveAutoPermitRules_def Let_def optional_text_def text_member_def)

lemma load_saved_store:
  assumes "\<forall>r\<in>set rs. storable r"
  shows "load_store sha256 messages path (FileJson (saveAutoPermitRules sha256 rs v)) =
    Some \<lparr>lr_rules = rs, lr_skipped = 0, lr_path = path, lr_found = True, lr_version = v,
      lr_checksum = Some (sha256 (case json_stringify (JArr (map auto_permit_json rs)) of Some t \<Rightarrow> t | None \<Rightarrow> '''')),
      lr_validationErrors = [], lr_parseError = None\<rparr>"
proof -
  have obj: "\<exists>kvs. saveAutoPermitRules sha256 rs v = JObj kvs" by (simp add: saveAutoPermitRules_def Let_def)
  then have "validate_store sha256 messages (saveAutoPermitRules sha256 rs v) =
      buildRulesResult sha256 AutoPermitSchema messages (map auto_permit_json rs) v
        (Some (sha256 (case json_stringify (JArr (map auto_permit_json rs)) of Some t \<Rightarrow> t | None \<Rightarrow> ''''))) False"
    using file_schema_saved [of sha256 rs v]
    by (auto simp: validate_store_def validateAutoPermitContent_def)
  then show ?thesis
    by (simp add: load_store_def loadAutoPermitRulesFromFile_def Let_def buildRulesResult_def
        sort_entries_saved [OF assms] load_errors_def)
qed

text \<open>
  Saving the auto-permit store and loading it again gives the same rules and version, with a checksum
  that fits and no complaints.
\<close>

theorem permit_store_roundtrip:
  assumes "\<forall>r\<in>set rs. storable r"
  shows "map_option (\<lambda>res. (lr_rules res, lr_version res, lr_skipped res, lr_validationErrors res))
      (load_store sha256 messages path (FileJson (saveAutoPermitRules sha256 rs v))) = Some (rs, v, 0, [])"
  by (simp add: load_saved_store [OF assms])

definition sample_permit :: auto_permit where
  "sample_permit = \<lparr>ap_pattern = ''git commit *'', ap_method = MDefault, ap_createdAt = 7,
     ap_originalCommand = ''git commit -m x'', ap_intentHint = None, ap_created_by = Some ''telegram'',
     ap_created_at = Some ''1970'', ap_derived_from = Some ''git commit -m x''\<rparr>"

lemma permit_store_roundtrip_witness:
  "map_option (\<lambda>res. (lr_rules res, lr_version res, lr_skipped res, lr_validationErrors res))
      (load_store id (\<lambda>_. []) ''p'' (FileJson (saveAutoPermitRules id [sample_permit] 3)))
    = Some ([sample_permit], 3, 0, [])"
  by (rule permit_store_roundtrip) (simp add: storable_def sample_permit_def)

text \<open>A rule whose original command is empty is dropped when the store is loaded.\<close>

lemma empty_command_dropped:
  "ap_originalCommand r = '''' \<Longrightarrow> AutoPermitSchema (auto_permit_json r) = None"
  by (simp add: AutoPermitSchema_saved storable_def)

end
