(* ===== verification/RuleFiles.thy ===== *)
theory RuleFiles
  imports Plugin PermitStore
begin

text \<open>
  Where the plugin's rules come from while it runs: the operator's rule file
  (\<open>loadJsonRules\<close> of \<open>src/index.ts\<close>), the stored patterns (\<open>loadAutoPermitRules\<close>,
  \<open>persistAutoPermitPattern\<close>, \<open>revokeAutoPermitForTelegram\<close>), and the hot reload of
  \<open>src/watcher.ts\<close>. Files are values: what a read of them gives. The loaders run without being
  interrupted here; \<open>persistAutoPermitPattern\<close>, which reads and then writes, is two steps.

  A record of a rule file is the JSON value it is in the file. Members that address a rule
  (\<open>effect\<close>, \<open>resource\<close>, \<open>action_class\<close>, \<open>intent_group\<close>) may have any value: with one no evaluation
  compares equal to, the rule never matches, and it is left out of the loaded rules. The other
  members have their declared types. The regular expression compiler is a parameter.
\<close>

section \<open>Records of a rule file\<close>

definition rule_member :: "string \<Rightarrow> (string \<times> json) list \<Rightarrow> json" where
  "rule_member k kvs = (case map_of kvs k of Some v \<Rightarrow> v | None \<Rightarrow> JUndef)"

text \<open>Reading a member of \<open>null\<close> or \<open>undefined\<close> throws; other values have the members of an object.\<close>

fun record_members :: "json \<Rightarrow> (string \<times> json) list option" where
  "record_members JNull = None"
| "record_members JUndef = None"
| "record_members (JObj kvs) = Some kvs"
| "record_members _ = Some []"

fun json_text :: "json \<Rightarrow> string option" where
  "json_text (JStr s) = Some s"
| "json_text _ = None"

fun json_int :: "json \<Rightarrow> int option" where
  "json_int (JNum i) = Some i"
| "json_int _ = None"

fun json_texts :: "json \<Rightarrow> string list option" where
  "json_texts (JArr vs) = Some (map (\<lambda>v. case v of JStr s \<Rightarrow> s | _ \<Rightarrow> '''') vs)"
| "json_texts _ = None"

fun effect_of :: "json \<Rightarrow> effect option" where
  "effect_of (JStr s) = (if s = ''permit'' then Some Permit else if s = ''forbid'' then Some Forbid else None)"
| "effect_of _ = None"

definition RESOURCES :: "(string \<times> resource) list" where
  "RESOURCES = [(''tool'', RTool), (''command'', RCommand), (''channel'', RChannel), (''prompt'', RPrompt),
     (''model'', RModel), (''file'', RFile), (''external'', RExternal), (''payment'', RPayment),
     (''system'', RSystem), (''credential'', RCredential), (''web'', RWeb), (''memory'', RMemory),
     (''unknown'', RUnknown)]"

fun resource_of :: "json \<Rightarrow> resource option" where
  "resource_of (JStr s) = map_of RESOURCES s"
| "resource_of _ = None"

text \<open>The array in a rule file: the file itself or its member \<open>rules\<close>.\<close>

fun rules_array :: "json \<Rightarrow> json list option" where
  "rules_array (JArr vs) = Some vs"
| "rules_array (JObj kvs) = (case map_of kvs ''rules'' of Some (JArr vs) \<Rightarrow> Some vs | _ \<Rightarrow> None)"
| "rules_array _ = None"

definition blank_rule :: "nat \<Rightarrow> effect \<Rightarrow> (string \<times> json) list \<Rightarrow> rule" where
  "blank_rule i e kvs =
     \<lparr>rule_id = i, rule_effect = e, rule_resource = None, rule_match = None, rule_condition = None,
      rule_reason = json_text (rule_member ''reason'' kvs), rule_tags = json_texts (rule_member ''tags'' kvs),
      rule_rateLimit = None, rule_action_class = None, rule_intent_group = None,
      rule_target_match = None, rule_target_in = None, rule_priority = json_int (rule_member ''priority'' kvs)\<rparr>"

section \<open>\<open>loadJsonRules\<close>\<close>

definition PATTERN_META :: rx where
  "PATTERN_META = RClass (cls ([CHR 0x5C] @ ''^$.|?*+()[]{}''))"

definition match_pattern :: "(string \<Rightarrow> rx option) \<Rightarrow> string \<Rightarrow> pattern" where
  "match_pattern compile m =
     (if rx_test PATTERN_META m
      then (case compile m of Some r \<Rightarrow> PRegex r | None \<Rightarrow> PStr m)
      else PStr (js_lower m))"

text \<open>
  One record: \<open>None\<close> when the translation throws, \<open>Some None\<close> for a rule that can never match.
\<close>

definition cedar_rule ::
  "(string \<Rightarrow> rx option) \<Rightarrow> nat \<Rightarrow> (string \<times> json) list \<Rightarrow> rule option option" where
  "cedar_rule compile i kvs =
     (let mem = (\<lambda>k. rule_member k kvs);
          make = (\<lambda>f. case effect_of (mem ''effect'') of
                    None \<Rightarrow> None | Some e \<Rightarrow> Some (f (blank_rule i e kvs)))
      in if mem ''intent_group'' \<noteq> JUndef
         then Some (case json_text (mem ''intent_group'') of
                None \<Rightarrow> None | Some g \<Rightarrow> make (\<lambda>r. r\<lparr>rule_intent_group := Some g\<rparr>))
         else if mem ''action_class'' \<noteq> JUndef
         then Some (case json_text (mem ''action_class'') of
                None \<Rightarrow> None | Some ac \<Rightarrow> make (\<lambda>r. r\<lparr>rule_action_class := Some ac\<rparr>))
         else if mem ''resource'' = JUndef \<or> mem ''match'' = JUndef then None
         else (case json_text (mem ''match'') of
                None \<Rightarrow> None
              | Some m \<Rightarrow>
                  Some (case resource_of (mem ''resource'') of
                     None \<Rightarrow> None
                   | Some res \<Rightarrow> make (\<lambda>r. r\<lparr>rule_resource := Some res,
                                             rule_match := Some (match_pattern compile m)\<rparr>))))"

fun cedar_rules ::
  "(string \<Rightarrow> rx option) \<Rightarrow> nat \<Rightarrow> (string \<times> json) list list \<Rightarrow> rule list option" where
  "cedar_rules compile i [] = Some []"
| "cedar_rules compile i (kvs # recs) =
     (case cedar_rule compile i kvs of
        None \<Rightarrow> None
      | Some r \<Rightarrow>
          map_option (\<lambda>rs. case r of None \<Rightarrow> rs | Some x \<Rightarrow> x # rs) (cedar_rules compile (i + 1) recs))"

definition permits_shell :: "(string \<times> json) list \<Rightarrow> bool" where
  "permits_shell kvs \<longleftrightarrow> rule_member ''effect'' kvs = JStr ''permit''
     \<and> rule_member ''action_class'' kvs = JStr ''shell.exec''"

definition permit_rule :: "nat \<Rightarrow> auto_permit \<Rightarrow> rule option" where
  "permit_rule i permit =
     map_option (\<lambda>compiled.
       \<lparr>rule_id = i, rule_effect = Permit, rule_resource = Some RTool, rule_match = Some (PStr ''*''),
        rule_condition = None, rule_reason = Some (''auto-permit: '' @ ap_pattern permit),
        rule_tags = Some [''auto-permit''], rule_rateLimit = None, rule_action_class = None,
        rule_intent_group = None, rule_target_match = Some (PRegex compiled), rule_target_in = None,
        rule_priority = Some 50\<rparr>)
       (compilePatternRegex (ap_pattern permit))"

fun permit_rules :: "nat \<Rightarrow> auto_permit list \<Rightarrow> rule list" where
  "permit_rules i [] = []"
| "permit_rules i (p # ps) =
     (case permit_rule i p of None \<Rightarrow> permit_rules i ps | Some r \<Rightarrow> r # permit_rules (i + 1) ps)"

text \<open>
  The rules of a file and of the store (\<open>None\<close>: reading the store threw, which is caught where it is
  read). \<open>None\<close> when the file is rejected.
\<close>

definition json_rules ::
  "(string \<Rightarrow> rx option) \<Rightarrow> storage_mode \<Rightarrow> load_result option \<Rightarrow> json \<Rightarrow> rule list option" where
  "json_rules compile mode store parsed =
     (case rules_array parsed of
        None \<Rightarrow> None
      | Some vs \<Rightarrow>
          if list_ex (\<lambda>v. record_members v = None) vs then None
          else let recs = map (\<lambda>v. the (record_members v)) vs
               in if list_ex permits_shell recs then None
                  else (case cedar_rules compile 0 recs of
                     None \<Rightarrow> None
                   | Some rs \<Rightarrow>
                       Some (rs @ (if mode = Separate
                                   then (case store of
                                           None \<Rightarrow> []
                                         | Some res \<Rightarrow>
                                             if lr_found res then permit_rules (length recs) (lr_rules res) else [])
                                   else []))))"

definition loadJsonRules ::
  "(string \<Rightarrow> rx option) \<Rightarrow> storage_mode \<Rightarrow> load_result option \<Rightarrow> file_read \<Rightarrow> plugin \<Rightarrow> plugin" where
  "loadJsonRules compile mode store file s =
     (case file of
        FileJson parsed \<Rightarrow>
          (case json_rules compile mode store parsed of
             None \<Rightarrow> s
           | Some rs \<Rightarrow> s\<lparr>pl_engines := (pl_engines s)\<lparr>jsonEng := Some (addRules rs (new_engine None))\<rparr>\<rparr>)
      | _ \<Rightarrow> s)"

section \<open>The files\<close>

text \<open>
  The active rule file and the store, with the store's mode and path. In the mode \<open>InRules\<close> the store
  is \<open>data/rules.json\<close>; \<open>rf_shared\<close> says that this is also the active rule file (no bundle and no
  override by \<open>CLAWTHORITY_RULES_FILE\<close>).
\<close>

record rule_files =
  rf_rules :: file_read
  rf_store :: file_read
  rf_mode :: storage_mode
  rf_path :: string
  rf_shared :: bool

text \<open>SHA-256, the messages of TypeBox, and \<open>new RegExp\<close>.\<close>

record loaders =
  ld_sha256 :: "string \<Rightarrow> string"
  ld_messages :: "json \<Rightarrow> string list"
  ld_compile :: "string \<Rightarrow> rx option"

definition read_store :: "loaders \<Rightarrow> rule_files \<Rightarrow> load_result option" where
  "read_store l f = load_store (ld_sha256 l) (ld_messages l) (rf_path f) (rf_store f)"

definition write_store :: "json \<Rightarrow> rule_files \<Rightarrow> rule_files" where
  "write_store content f =
     (let f' = f\<lparr>rf_store := FileJson content\<rparr>
      in if rf_shared f then f'\<lparr>rf_rules := FileJson content\<rparr> else f')"

definition reloadJsonRules :: "loaders \<Rightarrow> rule_files \<Rightarrow> plugin \<Rightarrow> plugin" where
  "reloadJsonRules l f s = loadJsonRules (ld_compile l) (rf_mode f) (read_store l f) (rf_rules f) s"

definition loadAutoPermitRules :: "loaders \<Rightarrow> rule_files \<Rightarrow> plugin \<Rightarrow> plugin" where
  "loadAutoPermitRules l f s =
     (case read_store l f of
        None \<Rightarrow> s
      | Some result \<Rightarrow> if \<not> lr_found result then s else s\<lparr>pl_checker := Some (lr_rules result)\<rparr>)"

section \<open>Storing a pattern\<close>

definition is_exec :: "string \<Rightarrow> bool" where
  "is_exec actionClass \<longleftrightarrow> actionClass \<in> {''shell.exec'', ''code.execute''}"

definition derive_for :: "int \<Rightarrow> string \<Rightarrow> string \<Rightarrow> string \<Rightarrow> string + derived_pattern" where
  "derive_for now command toolName actionClass =
     (if is_exec actionClass
      then derivePattern now \<lparr>do_command = command, do_method = None, do_toolName = None\<rparr>
      else derivePattern now \<lparr>do_command = toolName, do_method = None, do_toolName = Some toolName\<rparr>)"

text \<open>What \<open>persistAutoPermitPattern\<close> holds between its read of the store and its write.\<close>

record persist_job =
  pj_derived :: derived_pattern
  pj_command :: string
  pj_channel :: string
  pj_operatorId :: "string option"
  pj_agentId :: "string option"
  pj_existing :: load_result

definition persist_read ::
  "loaders \<Rightarrow> int \<Rightarrow> string \<Rightarrow> string \<Rightarrow> string \<Rightarrow> string \<Rightarrow> string option \<Rightarrow> string option
     \<Rightarrow> rule_files \<Rightarrow> plugin \<Rightarrow> persist_job option \<times> plugin" where
  "persist_read l now command toolName actionClass channel operatorId agentId f s =
     (case derive_for now command toolName actionClass of
        Inl reason \<Rightarrow>
          (None, audit (PermitSkippedEntry reason (if is_exec actionClass then command else toolName) toolName
                          actionClass channel (or_else agentId ''unknown'') operatorId) s)
      | Inr d \<Rightarrow>
          (case read_store l f of
             None \<Rightarrow> (None, s)
           | Some existing \<Rightarrow>
               (Some \<lparr>pj_derived = d, pj_command = command, pj_channel = channel, pj_operatorId = operatorId,
                  pj_agentId = agentId, pj_existing = existing\<rparr>, s)))"

text \<open>A save fails before the rename, after it (setting the mode of the file), or not at all.\<close>

datatype save_result = SaveFailed | SavedOnly | Saved

definition new_permit :: "int \<Rightarrow> string \<Rightarrow> persist_job \<Rightarrow> auto_permit" where
  "new_permit now stamp j =
     \<lparr>ap_pattern = dp_pattern (pj_derived j), ap_method = dp_method (pj_derived j), ap_createdAt = now,
      ap_originalCommand = pj_command j, ap_intentHint = None,
      ap_created_by = Some (or_else (pj_operatorId j) (pj_channel j)), ap_created_at = Some stamp,
      ap_derived_from = Some (pj_command j)\<rparr>"

definition persist_write ::
  "loaders \<Rightarrow> int \<Rightarrow> string \<Rightarrow> save_result \<Rightarrow> persist_job \<Rightarrow> rule_files \<Rightarrow> plugin \<Rightarrow> rule_files \<times> plugin" where
  "persist_write l now stamp saved j f s =
     (let nextVersion = lr_version (pj_existing j) + 1;
          f' = write_store (saveAutoPermitRules (ld_sha256 l) (lr_rules (pj_existing j) @ [new_permit now stamp j])
                              nextVersion) f
      in case saved of
           SaveFailed \<Rightarrow> (f, s)
         | SavedOnly \<Rightarrow> (f', s)
         | Saved \<Rightarrow>
             (f', audit (PermitAddedEntry (dp_pattern (pj_derived j)) (dp_method (pj_derived j)) (pj_command j)
                           (pj_channel j) (or_else (pj_agentId j) ''unknown'') nextVersion (pj_operatorId j))
                    (loadAutoPermitRules l f' s)))"

section \<open>Revoking a stored pattern\<close>

text \<open>The answers of \<open>revokeAutoPermitForTelegram\<close>, without their texts.\<close>

datatype revoke_answer =
    RevokeUsage | RevokeNothing | RevokeNoMatch string | RevokeFailed
  | Revoked nat string int nat

definition find_index :: "('a \<Rightarrow> bool) \<Rightarrow> 'a list \<Rightarrow> int" where
  "find_index P xs =
     (let n = length (takeWhile (\<lambda>x. \<not> P x) xs) in if n = length xs then - 1 else int n)"

definition revoke_index :: "string \<Rightarrow> auto_permit list \<Rightarrow> int" where
  "revoke_index selector rules =
     (if selector \<noteq> '''' \<and> list_all is_digit selector
      then foldl (\<lambda>n c. n * 10 + int (of_char c - 48)) 0 selector - 1
      else find_index (\<lambda>r. ap_pattern r = selector) rules)"

definition remove_at :: "nat \<Rightarrow> 'a list \<Rightarrow> 'a list" where
  "remove_at i xs = take i xs @ drop (i + 1) xs"

definition revokeAutoPermit ::
  "loaders \<Rightarrow> save_result \<Rightarrow> string \<Rightarrow> rule_files \<Rightarrow> plugin \<Rightarrow> revoke_answer \<times> rule_files \<times> plugin" where
  "revokeAutoPermit l saved args f s =
     (let selector = js_trim args
      in if length selector = 0 then (RevokeUsage, f, s)
         else case read_store l f of
           None \<Rightarrow> (RevokeFailed, f, s)
         | Some existing \<Rightarrow>
             if lr_rules existing = [] then (RevokeNothing, f, s)
             else let index = revoke_index selector (lr_rules existing)
                  in if index < 0 \<or> int (length (lr_rules existing)) \<le> index
                     then (RevokeNoMatch selector, f, s)
                     else let i = nat index;
                              nextVersion = lr_version existing + 1;
                              f' = write_store (saveAutoPermitRules (ld_sha256 l)
                                     (remove_at i (lr_rules existing)) nextVersion) f
                          in case saved of
                               SaveFailed \<Rightarrow> (RevokeFailed, f, s)
                             | SavedOnly \<Rightarrow> (RevokeFailed, f', s)
                             | Saved \<Rightarrow>
                                 (let s1 = reloadJsonRules l f' (loadAutoPermitRules l f' s)
                                  in case clearSessionAutoApprovals (pl_manager s1) of
                                       (cleared, m) \<Rightarrow>
                                         (Revoked (i + 1) (ap_pattern (lr_rules existing ! i)) nextVersion cleared,
                                          f', s1\<lparr>pl_manager := m\<rparr>)))"

end
