(* ===== verification/RuleFilesProps.thy ===== *)
theory RuleFilesProps
  imports RuleFiles PluginProps AutoPermitProps
begin

text \<open>
  What loading, storing and revoking rules guarantee: an always-approved call is permitted from then
  on, a revoked one is not, the operator's rule file is taken whole or not at all; and two gaps
  of the store.
\<close>

section \<open>Loaded stores\<close>

lemma member_checks:
  "text_member n k kvs = Some x \<Longrightarrow> n \<le> length x"
  "optional_text n k kvs = Some (Some x) \<Longrightarrow> n \<le> length x"
  "created_member kvs = Some i \<Longrightarrow> 0 \<le> i"
  by (auto simp: text_member_def optional_text_def created_member_def
      split: json.splits option.splits if_splits)

lemma AutoPermitSchema_storable:
  assumes "AutoPermitSchema v = Some r"
  shows "storable r"
proof -
  from assms obtain kvs where v: "v = JObj kvs" by (auto simp: AutoPermitSchema_def split: json.splits)
  show ?thesis
    using assms unfolding v AutoPermitSchema_def storable_def
    by (auto split: option.splits dest!: member_checks)
qed

lemma sort_entries_storable:
  "sort_entries AutoPermitSchema msg i vs = (rs, es) \<Longrightarrow> r \<in> set rs \<Longrightarrow> storable r"
  by (induction vs arbitrary: i rs es) (auto split: prod.splits option.splits dest: AutoPermitSchema_storable)

lemma build_storable: "r \<in> set (pv_rules (buildRulesResult sha AutoPermitSchema msg vs v c b)) \<Longrightarrow> storable r"
  using sort_entries_storable [of msg 0 vs _ _ r] by (auto simp: buildRulesResult_def Let_def split: prod.splits)

lemma read_store_storable:
  "read_store l f = Some ex \<Longrightarrow> r \<in> set (lr_rules ex) \<Longrightarrow> storable r"
  by (auto simp: read_store_def load_store_def loadAutoPermitRulesFromFile_def validate_store_def
      validateAutoPermitContent_def Let_def dest: build_storable split: file_read.splits json.splits option.splits)

lemma load_after_save:
  assumes "\<forall>r\<in>set rs. storable r"
  shows "loadAutoPermitRules l (write_store (saveAutoPermitRules (ld_sha256 l) rs v) f) s = s\<lparr>pl_checker := Some rs\<rparr>"
  by (simp add: loadAutoPermitRules_def read_store_def write_store_def Let_def load_saved_store [OF assms])

section \<open>Always approve\<close>

text \<open>Tool names that are one plain word.\<close>

definition plain_word :: "string \<Rightarrow> bool" where
  "plain_word t \<longleftrightarrow> t \<noteq> '''' \<and> (\<forall>c\<in>set t. \<not> js_space c \<and> c \<noteq> CHR 0x22 \<and> c \<noteq> CHR 0x27)"

lemma plain_tokenize:
  "\<forall>c\<in>set t. \<not> js_space c \<and> c \<noteq> CHR 0x22 \<and> c \<noteq> CHR 0x27 \<Longrightarrow>
    tokenize_from False False cur t = (if cur @ t = [] then [] else [cur @ t])"
  by (induction t arbitrary: cur) (use space_is_space in auto)

lemma plain_trim: "\<forall>c\<in>set t. \<not> js_space c \<Longrightarrow> js_trim t = t"
proof -
  assume a: "\<forall>c\<in>set t. \<not> js_space c"
  then have "dropWhile js_space t = t" "dropWhile js_space (rev t) = rev t"
    by (auto simp: dropWhile_eq_self_iff hd_rev)
  then show ?thesis by (simp add: js_trim_def)
qed

lemma plain_normalized: "plain_word t \<Longrightarrow> normalizeCommand t = t"
  by (simp add: normalizeCommand_def plain_word_def plain_trim tokenize_def plain_tokenize)

lemma derived_tool:
  assumes "derivePattern now \<lparr>do_command = c, do_method = None, do_toolName = Some tool\<rparr> = Inr d" and "plain_word tool"
  shows "dp_pattern d = tool @ '' *'' \<and> validatePattern (tool @ '' *'') = [] \<and> denotes (dp_pattern d) (normalizeCommand tool)"
proof -
  have t: "js_trim tool = tool" using assms(2) by (simp add: plain_word_def plain_trim)
  have d: "dp_pattern d = tool @ '' *''" "validatePattern (tool @ '' *'') = []"
    using assms(1) by (auto simp: derivePattern_def Let_def t split: if_splits)
  show ?thesis
    unfolding d(1) plain_normalized [OF assms(2)] using d(2) denotes_prefix [OF d(2), of tool] by simp
qed

text \<open>The text stage 2 matches against the stored patterns.\<close>

definition stage2_text :: "string \<Rightarrow> string \<Rightarrow> string \<Rightarrow> string" where
  "stage2_text toolName target actionClass = (if is_exec actionClass then target else toolName)"

text \<open>The calls whose stored pattern covers them.\<close>

definition coverable :: "string \<Rightarrow> string \<Rightarrow> string \<Rightarrow> bool" where
  "coverable command toolName actionClass \<longleftrightarrow>
     (if is_exec actionClass then positional_first (tokenize (js_trim command)) else plain_word toolName)"

lemma derived_covers:
  assumes "derive_for now command tool ac = Inr d" and "coverable command tool ac"
  shows "denotes (dp_pattern d) (normalizeCommand (stage2_text tool command ac))
    \<and> normalizeCommand (stage2_text tool command ac) \<noteq> [] \<and> stage2_text tool command ac \<noteq> ''''
    \<and> dp_pattern d \<noteq> ''''"
proof (cases "is_exec ac")
  case True
  let ?o = "\<lparr>do_command = command, do_method = None, do_toolName = None\<rparr>"
  have d: "derivePattern now ?o = Inr d" using assms(1) True by (simp add: derive_for_def)
  note c = derived_command [OF d, simplified]
  have den: "denotes (dp_pattern d) (normalizeCommand command)"
  proof -
    have pf: "positional_first (tokenize (js_trim command))" using assms(2) True by (simp add: coverable_def)
    have tok: "\<forall>t\<in>set (tokenize (js_trim command)). t \<noteq> []" using tokenize_tokens by blast
    have dot: "\<forall>t\<in>set (tokenize (js_trim command)). \<forall>x\<in>set t. dot_char x"
      using tokenize_tokens metachar_dot [of "js_trim command"] c by blast
    have "dp_pattern d = command_pattern (dp_method d) (tokenize (js_trim command))" using c by blast
    with command_pattern_denotes [OF _ _ _ tok dot, of "dp_method d"] c pf show ?thesis
      unfolding normalizeCommand_def by metis
  qed
  have ne: "normalizeCommand command \<noteq> []"
    unfolding normalizeCommand_def using c tokenize_tokens by (intro join_nonempty) blast+
  then have "command \<noteq> ''''" by (auto simp: normalizeCommand_def js_trim_def tokenize_def)
  moreover have "dp_pattern d \<noteq> ''''" using c by (auto dest!: validatePattern_Nil simp: js_trim_def)
  ultimately show ?thesis using den ne True by (simp add: stage2_text_def)
next
  case False
  have d: "derivePattern now \<lparr>do_command = tool, do_method = None, do_toolName = Some tool\<rparr> = Inr d"
    using assms False by (simp add: derive_for_def)
  have p: "plain_word tool" using assms False by (simp add: coverable_def)
  have txt2: "stage2_text tool command ac = tool" using False by (simp add: stage2_text_def)
  have ne: "tool \<noteq> ''''" using p by (simp add: plain_word_def)
  have "dp_pattern d \<noteq> ''''" using derived_tool [OF d p] by simp
  with derived_tool [OF d p] ne show ?thesis unfolding txt2 by (metis plain_normalized [OF p])
qed

lemma auto_command_text: "px_action_class ctx \<noteq> ''unknown_sensitive_action'' \<Longrightarrow>
    auto_command tool ctx = stage2_text tool (px_target ctx) (px_action_class ctx)"
  by (auto simp: auto_command_def EXEC_ACTION_CLASSES_def stage2_text_def is_exec_def)

lemma stored_command_permitted:
  assumes "pl_checker s = Some rules" and "r \<in> set rules" and "denotes (ap_pattern r) (normalizeCommand (auto_command tool ctx))"
    and "normalizeCommand (auto_command tool ctx) \<noteq> []" and "auto_command tool ctx \<noteq> ''''"
  shows "\<exists>d. plugin_stage2 w tool ctx s = (Some d, s) \<and> ce_effect d = Permit"
proof -
  obtain m where "matchCommand rules (auto_command tool ctx) = Some m"
    unfolding match_command_eq using assms(2-4)
    by (cases "List.find (\<lambda>rule. denotes (ap_pattern rule) (normalizeCommand (auto_command tool ctx))) rules")
      (auto simp: find_None_iff)
  then show ?thesis
    using assms(1,5) by (simp add: plugin_stage2_def createCombinedStage2_def cee_def)
qed

lemma persist_read_job:
  assumes "persist_read l now command tool ac channel op agent f s = (Some j, s1)"
  shows "derive_for now command tool ac = Inr (pj_derived j) \<and> pj_command j = command
    \<and> read_store l f = Some (pj_existing j) \<and> pj_channel j = channel \<and> pj_operatorId j = op \<and> s1 = s"
  using assms by (auto simp: persist_read_def split: sum.splits option.splits)

lemma persist_write_rules:
  assumes "persist_write l t stamp Saved j f s = (f', s')"
    and "\<forall>r\<in>set (lr_rules (pj_existing j)). storable r" and "storable (new_permit t stamp j)"
  shows "pl_checker s' = Some (lr_rules (pj_existing j) @ [new_permit t stamp j])"
proof -
  have "\<forall>r\<in>set (lr_rules (pj_existing j) @ [new_permit t stamp j]). storable r" using assms(2,3) by simp
  from load_after_save [OF this, of l "lr_version (pj_existing j) + 1" f s] assms(1)
  show ?thesis by (auto simp: persist_write_def Let_def audit_def split: option.splits)
qed

text \<open>
  C22. Approve Always works: once the pattern of a call has been derived and saved, stage 2 permits every
  further call of the same tool, class and target, whatever the engines say, for every class but the
  catch-all one. For commands the first argument must not be a flag before the first positional one, for
  other tools the name must be one plain word; what was approved must not be an empty text.
\<close>

theorem approve_always_effective:
  assumes "persist_read l now command tool ac channel op agent f s = (Some j, s1)"
    and "persist_write l t stamp Saved j f2 s2 = (f3, s3)"
    and "ac \<noteq> ''unknown_sensitive_action''" and "coverable command tool ac"
    and "command \<noteq> ''''" and "channel \<noteq> ''''" and "op \<noteq> Some ''''" and "stamp \<noteq> ''''" and "0 \<le> t"
    and "px_action_class ctx = ac" and "px_target ctx = command"
  shows "\<exists>d. plugin_stage2 w tool ctx s3 = (Some d, s3) \<and> ce_effect d = Permit"
proof -
  note j = persist_read_job [OF assms(1)]
  have cov: "denotes (dp_pattern (pj_derived j)) (normalizeCommand (stage2_text tool command ac))"
    "normalizeCommand (stage2_text tool command ac) \<noteq> []" "stage2_text tool command ac \<noteq> ''''"
    "dp_pattern (pj_derived j) \<noteq> ''''"
    using derived_covers [OF _ assms(4)] j by blast+
  have new: "storable (new_permit t stamp j)"
    using assms(5-9) cov(4) j by (auto simp: storable_def new_permit_def split: option.splits)
  have old: "\<forall>r\<in>set (lr_rules (pj_existing j)). storable r" using read_store_storable j by blast
  have cmd: "auto_command tool ctx = stage2_text tool command ac"
    using auto_command_text [of ctx tool] assms(3,10,11) by simp
  show ?thesis
    by (rule stored_command_permitted [OF persist_write_rules [OF assms(2) old new], of "new_permit t stamp j"])
      (use cov in \<open>simp_all add: cmd new_permit_def\<close>)
qed

definition plain_loaders :: loaders where
  "plain_loaders = \<lparr>ld_sha256 = id, ld_messages = (\<lambda>_. []), ld_compile = (\<lambda>_. None)\<rparr>"

definition no_files :: rule_files where
  "no_files = \<lparr>rf_rules = FileMissing, rf_store = FileMissing, rf_mode = Separate, rf_path = ''p'', rf_shared = False\<rparr>"

definition file_context :: "string \<Rightarrow> string \<Rightarrow> pipeline_context" where
  "file_context ac target = \<lparr>px_action_class = ac, px_target = target, px_payload_hash = '''', px_approval_id = None,
     px_session_id = None, px_hitl_mode = HNone,
     px_rule_context = \<lparr>ctx_agentId = ''a'', ctx_channel = ''c'', ctx_verified = None, ctx_userId = None,
       ctx_sessionId = None, ctx_metadata = None\<rparr>,
     px_sourceTrustLevel = None, px_source = None, px_risk = None, px_intent_group = None\<rparr>"

lemma approve_always_effective_witness:
  "\<exists>j s1 f3 s3 d. persist_read plain_loaders 1 ''notes.txt'' ''write_file'' ''filesystem.write'' ''slack'' None None
       no_files idle_plugin = (Some j, s1)
     \<and> persist_write plain_loaders 2 ''now'' Saved j no_files idle_plugin = (f3, s3)
     \<and> plugin_stage2 quiet_world ''write_file'' (file_context ''filesystem.write'' ''notes.txt'') s3 = (Some d, s3)
     \<and> ce_effect d = Permit"
proof -
  have "map_sum id dp_pattern (derive_for 1 ''notes.txt'' ''write_file'' ''filesystem.write'') = Inr ''write_file *''"
    by code_simp
  then obtain d where d: "derive_for 1 ''notes.txt'' ''write_file'' ''filesystem.write'' = Inr d"
    by (cases "derive_for 1 ''notes.txt'' ''write_file'' ''filesystem.write''") auto
  obtain ex where ex: "read_store plain_loaders no_files = Some ex"
    by (simp add: read_store_def load_store_def loadAutoPermitRulesFromFile_def no_files_def)
  obtain j where r: "persist_read plain_loaders 1 ''notes.txt'' ''write_file'' ''filesystem.write'' ''slack'' None None
      no_files idle_plugin = (Some j, idle_plugin)"
    by (simp add: persist_read_def d ex)
  obtain f3 s3 where w: "persist_write plain_loaders 2 ''now'' Saved j no_files idle_plugin = (f3, s3)"
    by (cases "persist_write plain_loaders 2 ''now'' Saved j no_files idle_plugin")
  have "plain_word ''write_file''" by code_simp
  then have cov: "coverable ''notes.txt'' ''write_file'' ''filesystem.write''"
    by (simp add: coverable_def is_exec_def)
  have "\<exists>d. plugin_stage2 quiet_world ''write_file'' (file_context ''filesystem.write'' ''notes.txt'') s3 = (Some d, s3)
      \<and> ce_effect d = Permit"
    by (rule approve_always_effective [OF r w _ cov]) (simp_all add: file_context_def)
  with r w show ?thesis by blast
qed

text \<open>
  For the catch-all class the pattern is derived from the tool's name and matched against the call's
  target, so the approved call is not covered.
\<close>

lemma unknown_tool_not_covered:
  "map_sum id dp_pattern (derive_for 1 ''rm x'' ''launch'' ''unknown_sensitive_action'') = Inr ''launch *''
   \<and> auto_command ''launch'' (file_context ''unknown_sensitive_action'' ''rm x'') = ''rm x''
   \<and> \<not> pattern_matches ''launch *'' (normalizeCommand ''rm x'')"
  by code_simp

text \<open>An approval of a tool call without a target saves a rule that the next load drops.\<close>

lemma empty_target_not_stored:
  "pj_command j = '''' \<Longrightarrow> AutoPermitSchema (auto_permit_json (new_permit t stamp j)) = None"
  by (simp add: empty_command_dropped new_permit_def)

section \<open>Two saves at once\<close>

text \<open>
  Two patterns saved by jobs that read the store before either wrote it: the first is lost, from the
  store and from the checker.
\<close>

lemma concurrent_save_lost:
  assumes "persist_write l t1 n1 Saved j1 f s = (f1, s1)" and "persist_write l t2 n2 Saved j2 f1 s1 = (f2, s2)"
    and "pj_existing j1 = ex" and "pj_existing j2 = ex"
    and "\<forall>r\<in>set (lr_rules ex). storable r" and "storable (new_permit t2 n2 j2)"
  shows "pl_checker s2 = Some (lr_rules ex @ [new_permit t2 n2 j2])"
  using persist_write_rules [OF assms(2)] assms(4-6) by simp

section \<open>Revoking\<close>

lemma remove_at_set: "set (remove_at i xs) \<subseteq> set xs"
  unfolding remove_at_def using set_take_subset [of i xs] set_drop_subset [of "i + 1" xs] by auto

lemma loadJson_fields [simp]:
  "pl_checker (reloadJsonRules l f s) = pl_checker s" "pl_manager (reloadJsonRules l f s) = pl_manager s"
  "cedar (pl_engines (reloadJsonRules l f s)) = cedar (pl_engines s)" "pl_hitl (reloadJsonRules l f s) = pl_hitl s"
  by (simp_all add: reloadJsonRules_def loadJsonRules_def split: file_read.split option.split)

text \<open>The successful branch.\<close>

definition revoked_files :: "loaders \<Rightarrow> nat \<Rightarrow> load_result \<Rightarrow> rule_files \<Rightarrow> rule_files" where
  "revoked_files l i ex f =
     write_store (saveAutoPermitRules (ld_sha256 l) (remove_at i (lr_rules ex)) (lr_version ex + 1)) f"

lemma revoke_Saved:
  assumes "read_store l f = Some ex" and "js_trim args \<noteq> ''''"
    and "revoke_index (js_trim args) (lr_rules ex) = int i" and "i < length (lr_rules ex)"
  shows "revokeAutoPermit l Saved args f s =
    (let f' = revoked_files l i ex f; s1 = reloadJsonRules l f' (loadAutoPermitRules l f' s)
     in (Revoked (i + 1) (ap_pattern (lr_rules ex ! i)) (lr_version ex + 1) (card (am_session (pl_manager s1))),
         f', s1\<lparr>pl_manager := (pl_manager s1)\<lparr>am_session := {}\<rparr>\<rparr>))"
proof -
  have "lr_rules ex \<noteq> []" using assms(4) by auto
  with assms show ?thesis
    by (simp add: revokeAutoPermit_def Let_def clearSessionAutoApprovals_def revoked_files_def)
qed

lemma revoke_Revoked:
  assumes "revokeAutoPermit l saved args f s = (Revoked n p v c, f', s')"
  shows "\<exists>ex i. saved = Saved \<and> read_store l f = Some ex \<and> js_trim args \<noteq> ''''
    \<and> revoke_index (js_trim args) (lr_rules ex) = int i \<and> i < length (lr_rules ex)"
proof (cases "read_store l f")
  case None
  with assms show ?thesis by (simp add: revokeAutoPermit_def Let_def split: if_splits)
next
  case (Some ex)
  define i where "i = revoke_index (js_trim args) (lr_rules ex)"
  have "js_trim args \<noteq> ''''" "0 \<le> i" "i < int (length (lr_rules ex))" "saved = Saved"
    using assms Some
    by (cases saved; simp add: revokeAutoPermit_def Let_def i_def [symmetric] split: if_splits)+
  moreover from this have "revoke_index (js_trim args) (lr_rules ex) = int (nat i)" "nat i < length (lr_rules ex)"
    by (simp_all add: i_def)
  ultimately show ?thesis using Some by blast
qed

text \<open>
  A revocation that succeeds removes exactly the selected rule from the store and from the rules in use,
  raises the version of the store by one, and clears every session approval, so no call is permitted by a
  session approval afterwards.
\<close>

theorem revoke_effective:
  assumes "revokeAutoPermit l saved args f s = (Revoked n p v cleared, f', s')"
  shows "\<exists>ex. read_store l f = Some ex \<and> 0 < n \<and> n \<le> length (lr_rules ex)
    \<and> ap_pattern (lr_rules ex ! (n - 1)) = p \<and> v = lr_version ex + 1
    \<and> pl_checker s' = Some (remove_at (n - 1) (lr_rules ex))
    \<and> map_option lr_rules (read_store l f') = Some (remove_at (n - 1) (lr_rules ex))
    \<and> map_option lr_version (read_store l f') = Some v
    \<and> (\<forall>ch ac. \<not> isSessionAutoApproved ch ac (pl_manager s'))"
proof -
  from revoke_Revoked [OF assms] obtain ex i where ex: "saved = Saved" "read_store l f = Some ex"
    "js_trim args \<noteq> []" "revoke_index (js_trim args) (lr_rules ex) = int i" "i < length (lr_rules ex)" by blast
  let ?rs = "remove_at i (lr_rules ex)" and ?f = "revoked_files l i ex f"
  let ?s1 = "reloadJsonRules l ?f (loadAutoPermitRules l ?f s)"
  have "i + 1 = n \<and> ap_pattern (lr_rules ex ! i) = p \<and> lr_version ex + 1 = v \<and> ?f = f'
      \<and> ?s1\<lparr>pl_manager := (pl_manager ?s1)\<lparr>am_session := {}\<rparr>\<rparr> = s'"
    using assms unfolding ex(1) revoke_Saved [OF ex(2-5)] Let_def
    unfolding prod.inject revoke_answer.inject by iprover
  note r = this [THEN conjunct1, symmetric] this [THEN conjunct2, THEN conjunct1, symmetric]
    this [THEN conjunct2, THEN conjunct2, THEN conjunct1, symmetric]
    this [THEN conjunct2, THEN conjunct2, THEN conjunct2, THEN conjunct1, symmetric]
    this [THEN conjunct2, THEN conjunct2, THEN conjunct2, THEN conjunct2, symmetric]
  have st: "\<forall>x\<in>set ?rs. storable x"
    by (intro ballI, rule read_store_storable [OF ex(2)], erule subsetD [OF remove_at_set])
  have load: "read_store l ?f = load_store (ld_sha256 l) (ld_messages l) (rf_path f)
      (FileJson (saveAutoPermitRules (ld_sha256 l) ?rs (lr_version ex + 1)))"
    by (simp add: read_store_def write_store_def revoked_files_def Let_def)
  have "loadAutoPermitRules l ?f s = s\<lparr>pl_checker := Some ?rs\<rparr>"
    unfolding revoked_files_def by (rule load_after_save [OF st])
  then have checker: "pl_checker s' = Some ?rs" using r(5) by simp
  have sess: "\<not> isSessionAutoApproved ch ac (pl_manager s')" for ch ac
    using r(5) by (simp add: isSessionAutoApproved_def)
  have reads: "map_option lr_rules (read_store l f') = Some ?rs" "map_option lr_version (read_store l f') = Some v"
    unfolding r(4) load load_saved_store [OF st] using r(3) by simp_all
  have n: "0 < n" "n \<le> length (lr_rules ex)" "n - 1 = i" using r(1) ex(5) by simp_all
  show ?thesis
    unfolding n(3) using ex(2) n(1,2) r(2,3) checker reads sess by blast
qed

lemma revoke_effective_witness:
  "\<exists>cleared f' s'. revokeAutoPermit plain_loaders Saved ''1''
      (no_files\<lparr>rf_store := FileJson (saveAutoPermitRules id [sample_permit] 3)\<rparr>) idle_plugin
        = (Revoked 1 ''git commit *'' 4 cleared, f', s')
    \<and> pl_checker s' = Some []"
proof -
  let ?f = "no_files\<lparr>rf_store := FileJson (saveAutoPermitRules id [sample_permit] 3)\<rparr>"
  have st: "\<forall>x\<in>set [sample_permit]. storable x" by (simp add: storable_def sample_permit_def)
  obtain ex where ex: "read_store plain_loaders ?f = Some ex" "lr_rules ex = [sample_permit]" "lr_version ex = 3"
    using load_saved_store [OF st, of id "\<lambda>_. []" "''p''" 3]
    by (simp add: read_store_def plain_loaders_def no_files_def)
  have i: "revoke_index (js_trim ''1'') [sample_permit] = 0" "length (js_trim ''1'') \<noteq> 0" by code_simp+
  have pat: "ap_pattern sample_permit = CHR ''g'' # ''it commit *''" by (simp add: sample_permit_def)
  have "revokeAutoPermit plain_loaders Saved ''1'' ?f idle_plugin =
    (let f' = revoked_files plain_loaders 0 ex ?f; s1 = reloadJsonRules plain_loaders f' (loadAutoPermitRules plain_loaders f' idle_plugin)
     in (Revoked (0 + 1) (ap_pattern (lr_rules ex ! 0)) (lr_version ex + 1) (card (am_session (pl_manager s1))),
         f', s1\<lparr>pl_manager := (pl_manager s1)\<lparr>am_session := {}\<rparr>\<rparr>))"
    by (rule revoke_Saved [OF ex(1)]) (use i ex(2) in simp_all)
  then obtain cleared f' s' where r: "revokeAutoPermit plain_loaders Saved ''1'' ?f idle_plugin
      = (Revoked 1 ''git commit *'' 4 cleared, f', s')"
    by (simp add: Let_def ex(2,3) pat)
  from revoke_effective [OF r] ex have "pl_checker s' = Some []" by (auto simp: remove_at_def)
  with r show ?thesis by blast
qed

section \<open>Rule files\<close>

text \<open>A record that can be translated: it does not permit \<open>shell.exec\<close> and says what it applies to.\<close>

definition record_ok :: "json \<Rightarrow> bool" where
  "record_ok v \<longleftrightarrow>
     (case record_members v of
        None \<Rightarrow> False
      | Some kvs \<Rightarrow> \<not> permits_shell kvs \<and>
          (rule_member ''intent_group'' kvs \<noteq> JUndef \<or> rule_member ''action_class'' kvs \<noteq> JUndef
           \<or> (rule_member ''resource'' kvs \<noteq> JUndef \<and> json_text (rule_member ''match'' kvs) \<noteq> None)))"

lemma cedar_rule_None:
  "cedar_rule compile i kvs = None \<longleftrightarrow> cedar_rule compile j kvs = None"
  by (auto simp: cedar_rule_def Let_def split: option.split)

lemma cedar_rules_None:
  "cedar_rules compile i recs = None \<longleftrightarrow> (\<exists>kvs\<in>set recs. cedar_rule compile 0 kvs = None)"
proof (induction recs arbitrary: i)
  case (Cons a recs)
  from Cons.IH show ?case
    using cedar_rule_None [of compile i a 0] by (cases "cedar_rule compile i a") auto
qed simp

lemma record_ok_iff:
  "record_members v = Some kvs \<Longrightarrow> record_ok v \<longleftrightarrow> \<not> permits_shell kvs \<and> cedar_rule compile 0 kvs \<noteq> None"
  by (auto simp: record_ok_def cedar_rule_def Let_def split: option.splits)

lemma json_rules_None:
  "json_rules compile mode store parsed = None \<longleftrightarrow>
     \<not> (\<exists>vs. rules_array parsed = Some vs \<and> (\<forall>v\<in>set vs. record_ok v))"
proof (cases "rules_array parsed")
  case (Some vs)
  show ?thesis
  proof (cases "\<exists>v\<in>set vs. record_members v = None")
    case True
    then obtain v where v: "v \<in> set vs" "record_members v = None" by blast
    then have "\<not> record_ok v" by (simp add: record_ok_def)
    with v Some show ?thesis by (auto simp: json_rules_def list_ex_iff)
  next
    case False
    let ?recs = "map (\<lambda>v. the (record_members v)) vs"
    have "(\<forall>v\<in>set vs. record_ok v) \<longleftrightarrow>
        (\<forall>v\<in>set vs. \<not> permits_shell (the (record_members v)) \<and> cedar_rule compile 0 (the (record_members v)) \<noteq> None)"
      using False record_ok_iff [where compile = compile] by (metis option.collapse)
    moreover have "json_rules compile mode store parsed = None \<longleftrightarrow>
        list_ex permits_shell ?recs \<or> cedar_rules compile 0 ?recs = None"
      using False Some by (simp add: json_rules_def list_ex_iff Let_def split: option.split)
    ultimately show ?thesis
      unfolding cedar_rules_None by (auto simp: Some list_ex_iff)
  qed
qed (simp add: json_rules_def)

text \<open>
  A rule file is taken whole or not at all: it replaces the operator's engine exactly when it holds an
  array of records each of which says what it applies to and none of which permits \<open>shell.exec\<close>;
  otherwise, as when it is missing or unreadable, the rules in use stay as they were.
\<close>


theorem rule_file_all_or_nothing:
  "loadJsonRules compile mode store f s =
     (case f of
        FileJson parsed \<Rightarrow>
          (if \<exists>vs. rules_array parsed = Some vs \<and> list_all record_ok vs
           then s\<lparr>pl_engines := (pl_engines s)
                   \<lparr>jsonEng := Some (addRules (the (json_rules compile mode store parsed)) (new_engine None))\<rparr>\<rparr>
           else s)
      | _ \<Rightarrow> s)"
proof (cases f)
  case (FileJson parsed)
  then show ?thesis
    using json_rules_None [of compile mode store parsed]
    by (cases "json_rules compile mode store parsed") (auto simp: loadJsonRules_def list_all_iff)
qed (simp_all add: loadJsonRules_def)

text \<open>
  Where the store is the rule file itself, saving a pattern leaves a file that no longer loads: the
  operator's own records are gone and the stored ones are no rules.
\<close>

lemma store_is_no_rule_file:
  assumes "rs \<noteq> []"
  shows "json_rules compile mode store (saveAutoPermitRules sha256 rs v) = None"
proof -
  obtain r rs' where rs: "rs = r # rs'" using assms by (cases rs) auto
  have "\<not> record_ok (auto_permit_json r)"
    by (simp add: record_ok_def auto_permit_json_def rule_member_def opt_member_def split: option.split)
  then show ?thesis
    unfolding json_rules_None by (simp add: rs saveAutoPermitRules_def Let_def)
qed

end
