(* ===== verification/HotReload.thy ===== *)
theory HotReload
  imports RuleFiles
begin

text \<open>
  The hot reload of rules and mode, \<open>src/watcher.ts\<close>, as \<open>activate\<close> of \<open>src/index.ts\<close> sets it up:
  the cache of rule modules, the debounced watchers on the rule modules, the rule file, the bundle
  and \<open>data/mode.json\<close>, and the rebuilt engine. What a read of a file or an import gives is an
  argument of the event. A rebuilt rule object has a new identity, taken from a counter.
\<close>

section \<open>Reading\<close>

text \<open>JavaScript truth of a JSON value.\<close>

fun json_true :: "json \<Rightarrow> bool" where
  "json_true JUndef = False"
| "json_true JNull = False"
| "json_true (JBool b) = b"
| "json_true (JNum i) = (i \<noteq> 0)"
| "json_true (JStr s) = (s \<noteq> '''')"
| "json_true _ = True"

definition ui_rate :: "json \<Rightarrow> rate_limit option" where
  "ui_rate v =
     (case v of
        JObj kvs \<Rightarrow>
          (case (json_int (rule_member ''maxCalls'' kvs), json_int (rule_member ''windowSeconds'' kvs)) of
             (Some m, Some w) \<Rightarrow> Some \<lparr>maxCalls = m, windowSeconds = w\<rparr> | _ \<Rightarrow> None)
      | _ \<Rightarrow> None)"

definition ui_kept :: "(string \<times> json) list \<Rightarrow> bool" where
  "ui_kept kvs \<longleftrightarrow> json_true (rule_member ''effect'' kvs) \<and> json_true (rule_member ''resource'' kvs)
     \<and> json_true (rule_member ''match'' kvs)"

text \<open>A kept record as a rule; one whose effect or resource is none of the engine's never matches.\<close>

definition ui_rule :: "nat \<Rightarrow> (string \<times> json) list \<Rightarrow> rule option" where
  "ui_rule i kvs =
     (case (effect_of (rule_member ''effect'' kvs), resource_of (rule_member ''resource'' kvs),
            json_text (rule_member ''match'' kvs)) of
        (Some e, Some res, Some m) \<Rightarrow>
          Some \<lparr>rule_id = i, rule_effect = e, rule_resource = Some res, rule_match = Some (PStr m),
            rule_condition = None,
            rule_reason = (if json_true (rule_member ''reason'' kvs) then json_text (rule_member ''reason'' kvs) else None),
            rule_tags = json_texts (rule_member ''tags'' kvs),
            rule_rateLimit = ui_rate (rule_member ''rateLimit'' kvs),
            rule_action_class = None, rule_intent_group = None, rule_target_match = None,
            rule_target_in = None, rule_priority = None\<rparr>
      | _ \<Rightarrow> None)"

fun ui_rules :: "nat \<Rightarrow> (string \<times> json) list list \<Rightarrow> rule list" where
  "ui_rules i [] = []"
| "ui_rules i (kvs # recs) =
     (if ui_kept kvs
      then (case ui_rule i kvs of None \<Rightarrow> ui_rules i recs | Some r \<Rightarrow> r # ui_rules (i + 1) recs)
      else ui_rules i recs)"

text \<open>\<open>loadJsonRules\<close> of the watcher: any failure gives no rules.\<close>

definition watch_json :: "nat \<Rightarrow> file_read \<Rightarrow> rule list" where
  "watch_json i f =
     (case f of
        FileJson parsed \<Rightarrow>
          (case rules_array parsed of
             None \<Rightarrow> []
           | Some vs \<Rightarrow>
               if list_ex (\<lambda>v. record_members v = None) vs then []
               else ui_rules i (map (\<lambda>v. the (record_members v)) vs))
      | _ \<Rightarrow> [])"

text \<open>\<open>loadModeFile\<close>: \<open>text\<close> is the content of the file, \<open>None\<close> when it is missing or unreadable.\<close>

definition loadModeFile :: "(string \<Rightarrow> json option) \<Rightarrow> string option \<Rightarrow> claw_mode option" where
  "loadModeFile json_parse content =
     (case content of
        None \<Rightarrow> None
      | Some txt \<Rightarrow>
          (let raw = js_trim txt
           in if length raw = 0 then None
              else case json_parse raw of
                None \<Rightarrow> None
              | Some parsed \<Rightarrow>
                  Some (resolveModeValue
                    (case parsed of
                       JStr m \<Rightarrow> JStr m
                     | JObj kvs \<Rightarrow> (case map_of kvs ''mode'' of Some v \<Rightarrow> v | None \<Rightarrow> JUndef)
                     | _ \<Rightarrow> JUndef))))"

section \<open>State\<close>

text \<open>
  \<open>ruleCache\<close>, \<open>currentMode\<close>, the counter of rule identities, the pending timers (that of the rule
  modules with the changed file), whether the watchers run, and the plugin.
\<close>

record hot =
  hr_cache :: "(string, rule list) jsmap"
  hr_currentMode :: claw_mode
  hr_next :: nat
  hr_ts :: "string option"
  hr_json :: bool
  hr_bundle :: bool
  hr_mode :: bool
  hr_running :: bool
  hr_plugin :: plugin

definition syncCurrentMode :: "hot \<Rightarrow> hot" where
  "syncCurrentMode h = h\<lparr>hr_currentMode := pl_mode (hr_plugin h)\<rparr>"

definition buildMergedFromCache :: "hot \<Rightarrow> rule list" where
  "buildMergedFromCache h =
     mergeRules (concat (map snd (filter (\<lambda>(name, rs). name \<noteq> ''default'') (hr_cache h))))
       (case map_of (hr_cache h) ''default'' of Some rs \<Rightarrow> rs | None \<Rightarrow> [])"

text \<open>The new engine with the options of the mode, and the reset of the coverage map.\<close>

definition rebuildEngine :: "rule list \<Rightarrow> hot \<Rightarrow> hot" where
  "rebuildEngine rules h =
     (let p = hr_plugin h
      in h\<lparr>hr_plugin := p\<lparr>pl_engines := (pl_engines p)
             \<lparr>cedar := addRules rules (new_engine (Some (modeToDefaultEffect (pl_mode p))))\<rparr>\<rparr>\<rparr>)"

definition resetCoverage :: "hot \<Rightarrow> hot" where
  "resetCoverage h = h\<lparr>hr_plugin := (hr_plugin h)\<lparr>pl_coverage := reset_coverage (pl_coverage (hr_plugin h))\<rparr>\<rparr>"

definition getBaseRules :: "hot \<Rightarrow> rule list" where
  "getBaseRules h = activeRules (pl_mode (hr_plugin h))"

text \<open>Reading the rule file into the cache.\<close>

definition cacheJson :: "file_read \<Rightarrow> hot \<Rightarrow> rule list \<times> hot" where
  "cacheJson f h =
     (let jsonRules = watch_json (hr_next h) f
      in (jsonRules, h\<lparr>hr_cache := AList.update ''json'' jsonRules (hr_cache h),
                       hr_next := hr_next h + length jsonRules\<rparr>))"

text \<open>
  \<open>importFreshRules\<close> for the one known module: \<open>imported\<close> is its default export and its export for open
  mode (\<open>None\<close>: the import threw, or the export used is no array). The result says whether the module was
  reloaded.
\<close>

definition importFreshRules ::
  "(claw_mode \<Rightarrow> rule list option) \<Rightarrow> string \<Rightarrow> hot \<Rightarrow> ((rule list \<times> bool) option) \<times> hot" where
  "importFreshRules imported changedStem h =
     (if changedStem \<noteq> ''default'' then (Some (buildMergedFromCache h, False), h)
      else case imported (hr_currentMode h) of
        None \<Rightarrow> (None, h)
      | Some fresh \<Rightarrow>
          (let h' = h\<lparr>hr_cache := AList.update ''default'' fresh (hr_cache h)\<rparr>
           in (Some (buildMergedFromCache h', True), h')))"

section \<open>Reloads\<close>

definition reload :: "(claw_mode \<Rightarrow> rule list option) \<Rightarrow> file_read \<Rightarrow> string \<Rightarrow> hot \<Rightarrow> hot" where
  "reload imported f changedStem h =
     (case importFreshRules imported changedStem (syncCurrentMode h) of
        (None, h1) \<Rightarrow> h1
      | (Some (rules, reloaded), h1) \<Rightarrow>
          if \<not> reloaded then h1
          else case cacheJson f h1 of
            (jsonRules, h2) \<Rightarrow> resetCoverage (rebuildEngine (jsonRules @ rules) h2))"

definition reloadJson :: "file_read \<Rightarrow> hot \<Rightarrow> hot" where
  "reloadJson f h =
     (case cacheJson f (syncCurrentMode h) of
        (jsonRules, h1) \<Rightarrow> resetCoverage (rebuildEngine (jsonRules @ getBaseRules h1) h1))"

definition reloadMode :: "(string \<Rightarrow> json option) \<Rightarrow> string option \<Rightarrow> file_read \<Rightarrow> hot \<Rightarrow> hot" where
  "reloadMode json_parse content f h =
     (case loadModeFile json_parse content of
        None \<Rightarrow> h
      | Some mode \<Rightarrow>
          (let h0 = syncCurrentMode (h\<lparr>hr_plugin := (hr_plugin h)\<lparr>pl_mode := mode\<rparr>\<rparr>)
           in case cacheJson f h0 of
                (jsonRules, h1) \<Rightarrow>
                  (let baseRules = getBaseRules h1;
                       h2 = h1\<lparr>hr_cache := AList.update ''default'' baseRules (hr_cache h1)\<rparr>
                   in resetCoverage (rebuildEngine (jsonRules @ baseRules) h2))))"

section \<open>The watcher\<close>

text \<open>\<open>startRulesWatcher\<close>: the compiled rules go into the cache, the rule file into the engine when it has rules.\<close>

definition startRulesWatcher :: "file_read \<Rightarrow> plugin \<Rightarrow> hot" where
  "startRulesWatcher f p =
     (let h = syncCurrentMode \<lparr>hr_cache = [(''default'', activeRules (pl_mode p))], hr_currentMode = OpenMode,
                hr_next = 10, hr_ts = None, hr_json = False, hr_bundle = False, hr_mode = False,
                hr_running = True, hr_plugin = p\<rparr>
      in if watch_json (hr_next h) f = [] then h
         else case cacheJson f h of (jsonRules, h1) \<Rightarrow> rebuildEngine (jsonRules @ getBaseRules h1) h1)"

text \<open>
  File events arm the timer of their watcher; a timer that fires runs its reload with the contents found
  then; \<open>HStop\<close> clears the timers and closes the watchers.
\<close>

datatype hot_event =
    HModuleChanged string | HJsonChanged | HBundleChanged | HModeChanged
  | HModuleTimer "claw_mode \<Rightarrow> rule list option" file_read
  | HJsonTimer file_read | HBundleTimer file_read
  | HModeTimer "string option" file_read
  | HStop

fun hot_step :: "(string \<Rightarrow> json option) \<Rightarrow> hot_event \<Rightarrow> hot \<Rightarrow> hot" where
  "hot_step jp (HModuleChanged stem) h = (if hr_running h then h\<lparr>hr_ts := Some stem\<rparr> else h)"
| "hot_step jp HJsonChanged h = (if hr_running h then h\<lparr>hr_json := True\<rparr> else h)"
| "hot_step jp HBundleChanged h = (if hr_running h then h\<lparr>hr_bundle := True\<rparr> else h)"
| "hot_step jp HModeChanged h = (if hr_running h then h\<lparr>hr_mode := True\<rparr> else h)"
| "hot_step jp (HModuleTimer imported f) h =
     (case hr_ts h of None \<Rightarrow> h | Some stem \<Rightarrow> reload imported f stem (h\<lparr>hr_ts := None\<rparr>))"
| "hot_step jp (HJsonTimer f) h = (if hr_json h then reloadJson f (h\<lparr>hr_json := False\<rparr>) else h)"
| "hot_step jp (HBundleTimer f) h = (if hr_bundle h then reloadJson f (h\<lparr>hr_bundle := False\<rparr>) else h)"
| "hot_step jp (HModeTimer content f) h =
     (if hr_mode h then reloadMode jp content f (h\<lparr>hr_mode := False\<rparr>) else h)"
| "hot_step jp HStop h = h\<lparr>hr_ts := None, hr_json := False, hr_bundle := False, hr_mode := False, hr_running := False\<rparr>"

definition hot_run :: "(string \<Rightarrow> json option) \<Rightarrow> hot_event list \<Rightarrow> hot \<Rightarrow> hot" where
  "hot_run jp es h = fold (hot_step jp) es h"

end
