(* ===== verification/HotReloadProps.thy ===== *)
theory HotReloadProps
  imports HotReload PluginProps
begin

text \<open>
  What the hot reload keeps: whatever the sequence of file changes, timers and calls, the engine in use
  has the default effect of the current mode and ends with the shipped rules of that mode, or with those a
  rule module that was reloaded exports for it, with only rules without an action class before them; so the
  guarantees of closed mode hold at every moment, as long as the rule modules are not edited.
\<close>

section \<open>Rules of the operator's file\<close>

definition classless :: "rule list \<Rightarrow> bool" where
  "classless rs \<longleftrightarrow> (\<forall>r\<in>set rs. rule_action_class r = None)"

lemma ui_rule_class: "ui_rule i kvs = Some r \<Longrightarrow> rule_action_class r = None"
  by (auto simp: ui_rule_def split: option.splits)

lemma ui_rules_in: "r \<in> set (ui_rules i recs) \<Longrightarrow> rule_action_class r = None"
proof (induction recs arbitrary: i)
  case (Cons kvs recs)
  then show ?case
    using ui_rule_class [of i kvs]
    by (cases "ui_rule i kvs") (auto split: if_splits)
qed simp

lemma ui_rules_class: "classless (ui_rules i recs)" "classless []"
  using ui_rules_in by (auto simp: classless_def)

lemma watch_json_class: "classless (watch_json i f)"
  by (simp add: watch_json_def ui_rules_class split: file_read.split option.split)

lemma classless_append: "classless (xs @ ys) \<longleftrightarrow> classless xs \<and> classless ys"
  by (auto simp: classless_def)

section \<open>The invariant\<close>

text \<open>
  What a rule module exports for each mode, or nothing when its import fails. The baselines of a mode: the
  rules compiled into the plugin, and those of the modules that were imported so far.
\<close>

type_synonym rule_module = "claw_mode \<Rightarrow> rule list option"

definition baseline :: "rule_module list \<Rightarrow> claw_mode \<Rightarrow> rule list \<Rightarrow> bool" where
  "baseline ms mode B \<longleftrightarrow> B = activeRules mode \<or> (\<exists>imported\<in>set ms. imported mode = Some B)"

definition mode_engine :: "rule_module list \<Rightarrow> plugin \<Rightarrow> bool" where
  "mode_engine ms p \<longleftrightarrow> eng_default (cedar (pl_engines p)) = modeToDefaultEffect (pl_mode p)
     \<and> (\<exists>J B. eng_rules (cedar (pl_engines p)) = J @ B \<and> classless J \<and> baseline ms (pl_mode p) B)"

lemma baseline_shipped: "baseline ms mode (activeRules mode)"
  by (simp add: baseline_def)

lemma mode_engine_more: "mode_engine ms p \<Longrightarrow> mode_engine (ms @ ms') p"
  unfolding mode_engine_def baseline_def by auto

definition cache_ok :: "(string, rule list) jsmap \<Rightarrow> bool" where
  "cache_ok c \<longleftrightarrow> (\<forall>(name, rs)\<in>set c. name \<noteq> ''default'' \<longrightarrow> classless rs)"

lemma update_set: "set (AList.update k v al) \<subseteq> insert (k, v) (set al)"
  by (induction al) auto

lemma cache_ok_update:
  "cache_ok c \<Longrightarrow> k = ''default'' \<or> classless rs \<Longrightarrow> cache_ok (AList.update k rs c)"
  using update_set [of k rs c] by (fastforce simp: cache_ok_def)

lemma merged_others: "cache_ok c \<Longrightarrow> classless (concat (map snd (filter (\<lambda>(name, rs). name \<noteq> ''default'') c)))"
  by (auto simp: cache_ok_def classless_def)

lemma addRules_fields [simp]:
  "eng_rules (addRules rs e) = eng_rules e @ rs" "eng_default (addRules rs e) = eng_default e"
proof -
  have "fold addRule rs e = e\<lparr>eng_rules := eng_rules e @ rs\<rparr>"
    by (induction rs arbitrary: e) (simp_all add: addRule_def)
  then show "eng_rules (addRules rs e) = eng_rules e @ rs" "eng_default (addRules rs e) = eng_default e"
    by (simp_all add: addRules_def)
qed

lemma new_engine_fields [simp]: "eng_rules (new_engine d) = []" "eng_default (new_engine (Some e)) = e"
  by (simp_all add: new_engine_def)

text \<open>A rebuild from rules that end in a baseline of the mode.\<close>

lemma rebuild_mode:
  "classless J \<Longrightarrow> baseline ms (pl_mode (hr_plugin h)) B \<Longrightarrow> mode_engine ms (hr_plugin (rebuildEngine (J @ B) h))"
  by (auto simp: mode_engine_def rebuildEngine_def Let_def)

lemma hot_fields [simp]:
  "hr_cache (rebuildEngine rs h) = hr_cache h" "hr_cache (resetCoverage h) = hr_cache h"
  "hr_cache (syncCurrentMode h) = hr_cache h" "hr_plugin (syncCurrentMode h) = hr_plugin h"
  "hr_currentMode (syncCurrentMode h) = pl_mode (hr_plugin h)"
  by (simp_all add: rebuildEngine_def resetCoverage_def syncCurrentMode_def Let_def)

lemma resetCoverage_mode [simp]: "mode_engine ms (hr_plugin (resetCoverage h)) = mode_engine ms (hr_plugin h)"
  by (simp add: mode_engine_def resetCoverage_def)

lemma cacheJson_fields:
  assumes "cacheJson f h = (rs, h')" and "cache_ok (hr_cache h)"
  shows "classless rs \<and> hr_plugin h' = hr_plugin h \<and> cache_ok (hr_cache h') \<and> hr_currentMode h' = hr_currentMode h"
  using assms watch_json_class [of "hr_next h" f] cache_ok_update [of "hr_cache h" "''json''"]
  by (auto simp: cacheJson_def Let_def)

definition hot_inv :: "rule_module list \<Rightarrow> hot \<Rightarrow> bool" where
  "hot_inv ms h \<longleftrightarrow> mode_engine ms (hr_plugin h) \<and> cache_ok (hr_cache h)"

lemma hot_inv_more: "hot_inv ms h \<Longrightarrow> hot_inv (ms @ ms') h"
  by (simp add: hot_inv_def mode_engine_more)

lemma reloadJson_inv: "hot_inv ms h \<Longrightarrow> hot_inv ms (reloadJson f h)"
proof -
  assume inv: "hot_inv ms h"
  obtain rs h1 where c: "cacheJson f (syncCurrentMode h) = (rs, h1)" by (cases "cacheJson f (syncCurrentMode h)")
  from cacheJson_fields [OF c] inv have h1: "classless rs" "cache_ok (hr_cache h1)" by (simp_all add: hot_inv_def)
  show ?thesis
    unfolding hot_inv_def reloadJson_def c prod.case resetCoverage_mode hot_fields getBaseRules_def
    using rebuild_mode [OF h1(1) baseline_shipped] h1(2) by blast
qed

lemma reloadMode_inv: "hot_inv ms h \<Longrightarrow> hot_inv ms (reloadMode jp content f h)"
proof (cases "loadModeFile jp content")
  case (Some mode)
  assume inv: "hot_inv ms h"
  let ?h0 = "syncCurrentMode (h\<lparr>hr_plugin := (hr_plugin h)\<lparr>pl_mode := mode\<rparr>\<rparr>)"
  obtain rs h1 where c: "cacheJson f ?h0 = (rs, h1)" by (cases "cacheJson f ?h0")
  from cacheJson_fields [OF c] inv have h1: "classless rs" "cache_ok (hr_cache h1)" by (simp_all add: hot_inv_def)
  define h2 where "h2 = h1\<lparr>hr_cache := AList.update ''default'' (getBaseRules h1) (hr_cache h1)\<rparr>"
  have base: "getBaseRules h1 = activeRules (pl_mode (hr_plugin h2))" by (simp add: getBaseRules_def h2_def)
  have ok: "cache_ok (hr_cache h2)" using cache_ok_update [OF h1(2)] by (simp add: h2_def)
  have "reloadMode jp content f h = resetCoverage (rebuildEngine (rs @ activeRules (pl_mode (hr_plugin h2))) h2)"
    unfolding reloadMode_def Some option.case Let_def c prod.case h2_def by (simp add: getBaseRules_def)
  with rebuild_mode [OF h1(1) baseline_shipped, where h = h2] ok show ?thesis by (simp add: hot_inv_def)
qed (simp add: reloadMode_def)

text \<open>
  A changed rule module: what it exports for the current mode becomes the baseline, whatever that is; when its
  import fails, or another file changed, everything stays.
\<close>

lemma reload_inv:
  assumes inv: "hot_inv ms h"
  shows "hot_inv (ms @ [imported]) (reload imported f stem h)"
proof (cases "stem = ''default'' \<and> imported (pl_mode (hr_plugin h)) \<noteq> None")
  case True
  then obtain B where imp: "imported (pl_mode (hr_plugin h)) = Some B" by auto
  let ?h1 = "(syncCurrentMode h)\<lparr>hr_cache := AList.update ''default'' B (hr_cache h)\<rparr>"
  obtain oth where merged: "buildMergedFromCache ?h1 = oth @ B" and oth: "classless oth"
    using merged_others [of "hr_cache ?h1"] cache_ok_update [of "hr_cache h" "''default''"] inv
    by (simp add: buildMergedFromCache_def mergeRules_def update_conv' hot_inv_def)
  have ok: "cache_ok (hr_cache ?h1)" using cache_ok_update [of "hr_cache h" "''default''"] inv by (simp add: hot_inv_def)
  obtain rs h2 where c: "cacheJson f ?h1 = (rs, h2)" by (cases "cacheJson f ?h1")
  from cacheJson_fields [OF c ok] have h2: "classless rs" "cache_ok (hr_cache h2)" "hr_plugin h2 = hr_plugin h"
    by simp_all
  have "reload imported f stem h = resetCoverage (rebuildEngine (rs @ buildMergedFromCache ?h1) h2)"
    using True imp c by (simp add: reload_def importFreshRules_def Let_def)
  moreover have "mode_engine (ms @ [imported]) (hr_plugin (rebuildEngine ((rs @ oth) @ B) h2))"
    by (rule rebuild_mode) (use h2 oth imp in \<open>simp_all add: classless_append baseline_def\<close>)
  ultimately show ?thesis using h2 by (simp add: hot_inv_def merged)
next
  case False
  then have "reload imported f stem h = syncCurrentMode h"
    by (auto simp: reload_def importFreshRules_def)
  with hot_inv_more [OF inv] show ?thesis by (simp add: hot_inv_def)
qed

lemma timer_inv [simp]:
  "hot_inv ms (h\<lparr>hr_ts := a\<rparr>) = hot_inv ms h" "hot_inv ms (h\<lparr>hr_json := b\<rparr>) = hot_inv ms h"
  "hot_inv ms (h\<lparr>hr_bundle := b\<rparr>) = hot_inv ms h" "hot_inv ms (h\<lparr>hr_mode := b\<rparr>) = hot_inv ms h"
  "hot_inv ms (h\<lparr>hr_running := b\<rparr>) = hot_inv ms h"
  by (simp_all add: hot_inv_def)

text \<open>The rule modules an event imports.\<close>

fun event_modules :: "hot_event \<Rightarrow> rule_module list" where
  "event_modules (HModuleTimer imported f) = [imported]"
| "event_modules _ = []"

lemma hot_step_inv: "hot_inv ms h \<Longrightarrow> hot_inv (ms @ event_modules e) (hot_step jp e h)"
  by (cases e) (auto simp: reload_inv reloadJson_inv reloadMode_inv hot_inv_more split: option.split)

text \<open>
  Reachable states, with the rule modules that were imported on the way, whatever they export: from a plugin
  whose engine is that of its mode, by file events and timers, and by anything the handlers do that leaves the
  mode and the rules of the engine alone.
\<close>

inductive hot_reach :: "(string \<Rightarrow> json option) \<Rightarrow> rule_module list \<Rightarrow> hot \<Rightarrow> bool" for jp where
  hot_start: "eng_rules (cedar (pl_engines p)) = activeRules (pl_mode p) \<Longrightarrow>
    eng_default (cedar (pl_engines p)) = modeToDefaultEffect (pl_mode p) \<Longrightarrow>
    hot_reach jp [] (startRulesWatcher f p)"
| hot_event: "hot_reach jp ms h \<Longrightarrow> hot_reach jp (ms @ event_modules e) (hot_step jp e h)"
| hot_other: "hot_reach jp ms h \<Longrightarrow> pl_mode p = pl_mode (hr_plugin h) \<Longrightarrow>
    eng_rules (cedar (pl_engines p)) = eng_rules (cedar (pl_engines (hr_plugin h))) \<Longrightarrow>
    eng_default (cedar (pl_engines p)) = eng_default (cedar (pl_engines (hr_plugin h))) \<Longrightarrow>
    hot_reach jp ms (h\<lparr>hr_plugin := p\<rparr>)"

lemma start_inv:
  assumes "eng_rules (cedar (pl_engines p)) = activeRules (pl_mode p)"
    and "eng_default (cedar (pl_engines p)) = modeToDefaultEffect (pl_mode p)"
  shows "hot_inv ms (startRulesWatcher f p)"
proof -
  let ?h = "syncCurrentMode \<lparr>hr_cache = [(''default'', activeRules (pl_mode p))], hr_currentMode = OpenMode,
    hr_next = 10, hr_ts = None, hr_json = False, hr_bundle = False, hr_mode = False, hr_running = True, hr_plugin = p\<rparr>"
  have p: "hr_plugin ?h = p" "cache_ok (hr_cache ?h)" by (simp_all add: cache_ok_def)
  have me: "mode_engine ms p"
    unfolding mode_engine_def assms using baseline_shipped ui_rules_class(2) by (metis append_Nil)
  obtain rs h1 where c: "cacheJson f ?h = (rs, h1)" by (cases "cacheJson f ?h")
  from cacheJson_fields [OF c p(2)] have h1: "classless rs" "cache_ok (hr_cache h1)" by simp_all
  show ?thesis
    unfolding startRulesWatcher_def Let_def c prod.case getBaseRules_def
    using me p h1 rebuild_mode [OF h1(1) baseline_shipped, where h = h1] by (simp add: hot_inv_def)
qed

lemma hot_reach_inv: "hot_reach jp ms h \<Longrightarrow> hot_inv ms h"
proof (induction rule: hot_reach.induct)
  case (hot_start p f)
  then show ?case by (rule start_inv)
next
  case (hot_event ms h e)
  then show ?case by (simp add: hot_step_inv)
next
  case (hot_other ms h p)
  then show ?case by (simp add: hot_inv_def mode_engine_def)
qed

text \<open>
  C21. At every reachable moment of the hot reload the engine has the default effect of the current mode, and
  its rules are a baseline of that mode behind rules without an action class: the baseline is the list of rules
  compiled into the plugin for the mode, or exactly what a rule module that was imported on the way exports for
  it, whatever the modules export. So no order of file changes, mode switches, failed reads and calls, and
  nothing in the operator's rule file, drops, reorders or replaces a rule of the baseline.
\<close>

theorem hot_reload_keeps_baseline:
  assumes "hot_reach jp ms h"
  shows "eng_default (cedar (pl_engines (hr_plugin h))) = modeToDefaultEffect (pl_mode (hr_plugin h))
    \<and> (\<exists>J B. eng_rules (cedar (pl_engines (hr_plugin h))) = J @ B \<and> classless J
         \<and> (B = activeRules (pl_mode (hr_plugin h)) \<or> (\<exists>imported\<in>set ms. imported (pl_mode (hr_plugin h)) = Some B)))"
  using hot_reach_inv [OF assms] by (simp add: hot_inv_def mode_engine_def baseline_def)

text \<open>From closed to open mode by a change of the mode file, with a rule file in place.\<close>

definition ui_file :: file_read where
  "ui_file = FileJson (JArr [JObj [(''effect'', JStr ''forbid''), (''resource'', JStr ''prompt''), (''match'', JStr ''x'')]])"

lemma hot_reload_keeps_baseline_witness:
  "\<exists>h. hot_reach (\<lambda>_. Some (JStr ''open'')) [] h \<and> pl_mode (hr_plugin h) = OpenMode
    \<and> eng_default (cedar (pl_engines (hr_plugin h))) = Permit
    \<and> (\<exists>J. eng_rules (cedar (pl_engines (hr_plugin h))) = J @ activeRules OpenMode)"
proof -
  let ?jp = "\<lambda>_ :: string. Some (JStr ''open'')"
  let ?h = "hot_step ?jp (HModeTimer (Some ''x'') FileMissing) (hot_step ?jp HModeChanged (startRulesWatcher FileMissing idle_plugin))"
  have "hot_reach ?jp [] (startRulesWatcher FileMissing idle_plugin)"
    by (intro hot_start idle_facts) (simp_all add: idle_plugin_def startup_engine_def)
  from hot_event [OF hot_event [OF this, of HModeChanged], of "HModeTimer (Some ''x'') FileMissing"]
  have "hot_reach ?jp [] ?h" by simp
  moreover have "loadModeFile ?jp (Some ''x'') = Some OpenMode" by code_simp
  then have "pl_mode (hr_plugin ?h) = OpenMode"
    by (simp add: startRulesWatcher_def watch_json_def syncCurrentMode_def reloadMode_def Let_def cacheJson_def
        resetCoverage_def rebuildEngine_def)
  ultimately show ?thesis using hot_reload_keeps_baseline [of ?jp "[]" ?h] by (auto simp: modeToDefaultEffect_def)
qed

section \<open>A gap\<close>

text \<open>
  A change of the rule module rebuilds the engine from the cache, where the previous content of the rule
  file counts as an agent's rules: a rule the operator has removed stays in force.
\<close>

lemma removed_rule_survives:
  assumes "hr_cache h = [(''default'', d), (''json'', old)]" and "imported (pl_mode (hr_plugin h)) = Some fresh"
  shows "eng_rules (cedar (pl_engines (hr_plugin (reload imported FileMissing ''default'' h)))) = old @ fresh"
  using assms by (simp add: reload_def importFreshRules_def Let_def cacheJson_def watch_json_def
      buildMergedFromCache_def mergeRules_def resetCoverage_def rebuildEngine_def syncCurrentMode_def)

text \<open>
  A change of the rule file rebuilds the engine from the compiled rules, not from the cache: the rules of a
  module that was reloaded are gone from the engine until it changes again.
\<close>

lemma json_change_drops_module:
  "eng_rules (cedar (pl_engines (hr_plugin (reloadJson FileMissing h)))) = activeRules (pl_mode (hr_plugin h))"
  by (simp add: reloadJson_def cacheJson_def watch_json_def Let_def getBaseRules_def resetCoverage_def
      rebuildEngine_def syncCurrentMode_def)

text \<open>An import that gives the rules the plugin was shipped with, or fails.\<close>

definition shipped :: "rule_module \<Rightarrow> bool" where
  "shipped imported \<longleftrightarrow> (\<forall>m. imported m = None \<or> imported m = Some (activeRules m))"

text \<open>
  So a call of an unregistered or code-executing tool is blocked at every moment in closed mode, as long as the
  rule modules are not edited.
\<close>

lemma closed_mode_at_any_time:
  assumes "hot_reach jp ms h" and "\<forall>imported\<in>set ms. shipped imported" and "pl_mode (hr_plugin h) = ClosedMode"
    and "answers w call (hr_plugin h) a t" and "\<not> isInstallPhase (wd_process w)"
    and "\<not> call_auto_approved w call (hr_plugin h)"
    and "na_class (normalize_action (tc_toolName call) (normalizedParams (tc_params call)))
           \<in> {''code.execute'', ''unknown_sensitive_action''}"
  shows "a \<noteq> None"
proof -
  have "B = activeRules m" if "baseline ms m B" for m B
    using that assms(2) unfolding baseline_def shipped_def by (metis option.distinct(1) option.inject)
  moreover have "mode_engine ms (hr_plugin h)" using hot_reach_inv [OF assms(1)] by (simp add: hot_inv_def)
  ultimately have "closed_baseline (cedar (pl_engines (hr_plugin h)))"
    using assms(3) by (auto simp: mode_engine_def closed_baseline_def classless_def)
  then show ?thesis using closed_mode_blocked [OF assms(4-6)] assms(7) by blast
qed

end
