(* ===== verification/Channels.thy ===== *)
theory Channels
  imports Approval Json JsRegex
begin

text \<open>
  The channels through which an operator answers: the buttons of the messages, the listener of
  \<open>src/hitl/telegram.ts\<close> (callback data, text commands, the polling loop), the interaction server of
  \<open>src/hitl/slack.ts\<close> (signature, payload, actions). The HMAC, \<open>URLSearchParams\<close> and \<open>JSON.parse\<close> are parameters; a response of the Bot API is an argument.
\<close>

section \<open>Tokens and buttons\<close>

text \<open>\<open>[\w.:-]\<close>, and six to 128 of them.\<close>

definition token_char :: "char \<Rightarrow> bool" where
  "token_char c \<longleftrightarrow> word_char c \<or> c \<in> set ''.:-''"

definition token_ok :: "string \<Rightarrow> bool" where
  "token_ok t \<longleftrightarrow> 6 \<le> length t \<and> length t \<le> 128 \<and> list_all token_char t"

datatype telegram_command =
    TgApprove | TgApproveOnce | TgApproveAlways | TgDeny | TgConfirmAlways | TgCancelAlways

text \<open>The alternatives of \<open>CALLBACK_DATA_RE\<close> in their order.\<close>

definition CALLBACK_COMMANDS :: "(string \<times> telegram_command) list" where
  "CALLBACK_COMMANDS =
     [(''confirm_approve_always'', TgConfirmAlways), (''cancel_approve_always'', TgCancelAlways),
      (''approve_always'', TgApproveAlways), (''approve_once'', TgApproveOnce), (''approve'', TgApprove),
      (''deny'', TgDeny)]"

definition TOKEN_RE :: rx where
  "TOKEN_RE = rx_range 6 128 (RClass token_char)"

definition CALLBACK_DATA_RE :: rx where
  "CALLBACK_DATA_RE =
     RSeq RBol (RSeq (rx_seq [rx_alt (map (rx_lit \<circ> fst) CALLBACK_COMMANDS), rx_chr (CHR '':''), TOKEN_RE]) REol)"

text \<open>The groups of a match: the first alternative whose name, a colon and a token make up the text.\<close>

fun parse_prefixed :: "(string \<times> 'c) list \<Rightarrow> string \<Rightarrow> ('c \<times> string) option" where
  "parse_prefixed [] data = None"
| "parse_prefixed ((name, c) # cs) data =
     (let rest = drop (length name + 1) data
      in if starts_with data (name @ '':'') \<and> token_ok rest then Some (c, rest) else parse_prefixed cs data)"

definition parse_callback :: "string \<Rightarrow> (telegram_command \<times> string) option" where
  "parse_callback = parse_prefixed CALLBACK_COMMANDS"

text \<open>The buttons: of a request, and of the question whether to save a pattern.\<close>

definition telegram_keyboard :: "bool \<Rightarrow> string \<Rightarrow> (string \<times> string) list" where
  "telegram_keyboard showApproveAlways token =
     [(''Approve Once'', ''approve_once:'' @ token)]
     @ (if showApproveAlways then [(''Approve Always'', ''approve_always:'' @ token)] else [])
     @ [(''Deny'', ''deny:'' @ token)]"

definition confirm_keyboard :: "string \<Rightarrow> (string \<times> string) list" where
  "confirm_keyboard token =
     [(''Save'', ''confirm_approve_always:'' @ token), (''Cancel'', ''cancel_approve_always:'' @ token)]"

section \<open>Text commands\<close>

definition COMMAND_COMMANDS :: "(string \<times> telegram_command) list" where
  "COMMAND_COMMANDS = [(''approve_always'', TgApproveAlways), (''approve'', TgApprove), (''deny'', TgDeny)]"

definition BOT_NAME_RE :: rx where
  "BOT_NAME_RE = rx_opt (RSeq (rx_chr (CHR ''@'')) (rx_plus (RClass word_char)))"

definition COMMAND_RE :: rx where
  "COMMAND_RE =
     RSeq RBol (RSeq (rx_seq [rx_chr (CHR ''/''), rx_alt (map (rx_lit \<circ> fst) COMMAND_COMMANDS), BOT_NAME_RE,
       rx_plus (RClass js_space), TOKEN_RE]) REol)"

text \<open>What follows the name of a command: \<open>@bot\<close> may; \<open>None\<close> for an \<open>@\<close> without a name.\<close>

definition skip_bot :: "string \<Rightarrow> string option" where
  "skip_bot s =
     (case s of
        c # r \<Rightarrow> if c = CHR ''@'' then (if takeWhile word_char r = [] then None else Some (dropWhile word_char r))
                 else Some s
      | [] \<Rightarrow> Some s)"

definition command_token :: "string \<Rightarrow> string option" where
  "command_token s =
     (case skip_bot s of
        None \<Rightarrow> None
      | Some r \<Rightarrow>
          (let t = dropWhile js_space r in if takeWhile js_space r \<noteq> [] \<and> token_ok t then Some t else None))"

fun parse_named :: "(string \<times> 'c) list \<Rightarrow> string \<Rightarrow> ('c \<times> string) option" where
  "parse_named [] s = None"
| "parse_named ((name, c) # cs) s =
     (if starts_with s (CHR ''/'' # name)
      then (case command_token (drop (length name + 1) s) of Some t \<Rightarrow> Some (c, t) | None \<Rightarrow> parse_named cs s)
      else parse_named cs s)"

definition parse_command :: "string \<Rightarrow> (telegram_command \<times> string) option" where
  "parse_command = parse_named COMMAND_COMMANDS"

text \<open>\<open>TEXT_COMMAND_RE\<close>: its two groups, the second trimmed as its only use does.\<close>

definition name_char :: "char \<Rightarrow> bool" where
  "name_char c \<longleftrightarrow> is_lower (char_lower c) \<or> c = CHR ''_''"

definition TEXT_COMMAND_RE :: rx where
  "TEXT_COMMAND_RE =
     RSeq RBol (RSeq (rx_seq [rx_chr (CHR ''/''), rx_plus (RClass name_char), BOT_NAME_RE,
       rx_opt (RSeq (rx_plus (RClass js_space)) (rx_plus (RClass dot_char)))]) REol)"

definition command_args :: "string \<Rightarrow> string option" where
  "command_args r =
     (let sp = takeWhile js_space r; t = dropWhile js_space r
      in if r = [] then Some ''''
         else if t = [] then (if 2 \<le> length sp \<and> dot_char (last sp) then Some '''' else None)
         else if sp \<noteq> [] \<and> list_all dot_char t then Some (js_trim t) else None)"

definition text_command :: "string \<Rightarrow> (string \<times> string) option" where
  "text_command s =
     (case s of
        [] \<Rightarrow> None
      | c # r \<Rightarrow>
          (let name = takeWhile name_char r
           in if c \<noteq> CHR ''/'' \<or> name = [] then None
              else Option.bind (skip_bot (dropWhile name_char r)) (\<lambda>rest.
                map_option (Pair name) (command_args rest))))"

datatype management_command = MgHelp | MgApprovals | MgApproveAlwaysList | MgRevoke

definition parseManagementCommand :: "string \<Rightarrow> (management_command \<times> string) option" where
  "parseManagementCommand s =
     (case text_command s of
        None \<Rightarrow> None
      | Some (nm, args) \<Rightarrow>
          (let name = js_lower nm
           in if name \<in> {''help'', ''start''} then Some (MgHelp, args)
              else if name \<in> {''approvals'', ''pending''} then Some (MgApprovals, args)
              else if name \<in> {''approve_always'', ''always'', ''auto_approvals'', ''auto_permits''} \<and> length args = 0
              then Some (MgApproveAlwaysList, args)
              else if name \<in> {''revoke'', ''revoke_approve_always''} then Some (MgRevoke, args)
              else None))"

section \<open>The Telegram listener\<close>

record telegram_user =
  tu_id :: int
  tu_username :: "string option"
  tu_firstName :: "string option"

record telegram_message =
  tm_text :: "string option"
  tm_chat :: "int option"
  tm_from :: "telegram_user option"

record callback_query =
  cq_id :: string
  cq_data :: "string option"
  cq_from :: "telegram_user option"

record telegram_update =
  up_id :: int
  up_message :: "telegram_message option"
  up_callback :: "callback_query option"

record management_request =
  mg_command :: management_command
  mg_args :: string
  mg_chatId :: int
  mg_rawText :: string
  mg_from :: "telegram_user option"

text \<open>
  What an update makes the listener call: \<open>onCommand\<close>, with the query to answer when it was a button,
  \<open>onManagementCommand\<close>, or nothing.
\<close>

datatype update_call =
    OnCommand telegram_command string "telegram_user option" "string option"
  | OnManagement management_request
  | NoCall

definition read_update :: "telegram_update \<Rightarrow> update_call" where
  "read_update u =
     (case up_callback u of
        Some q \<Rightarrow>
          (case cq_data q of
             None \<Rightarrow> NoCall
           | Some data \<Rightarrow>
               if data = '''' then NoCall
               else (case parse_callback data of
                       None \<Rightarrow> NoCall
                     | Some (command, token) \<Rightarrow> OnCommand command token (cq_from q) (Some (cq_id q))))
      | None \<Rightarrow>
          (case map_option js_trim (Option.bind (up_message u) tm_text) of
             None \<Rightarrow> NoCall
           | Some txt \<Rightarrow>
               if txt = '''' then NoCall
               else (case parse_command txt of
                       Some (command, token) \<Rightarrow> OnCommand command token None None
                     | None \<Rightarrow>
                         (case (parseManagementCommand txt, Option.bind (up_message u) tm_chat) of
                            (Some (command, args), Some chatId) \<Rightarrow>
                              OnManagement \<lparr>mg_command = command, mg_args = args, mg_chatId = chatId,
                                mg_rawText = txt, mg_from = Option.bind (up_message u) tm_from\<rparr>
                          | _ \<Rightarrow> NoCall))))"

text \<open>
  One round of the polling loop. \<open>PollRefused\<close> is an HTTP error with its status, \<open>PollEmpty\<close> a body that is
  not ok or has no result. A round gives the wait before the next one and the new offset. The
  handlers do not throw; the listener's answers to the chat are left out.
\<close>

datatype poll_response = PollRefused int | PollEmpty | PollThrew | PollUpdates "telegram_update list"

record telegram_listener =
  tl_running :: bool
  tl_offset :: int

definition poll_round ::
  "(update_call \<Rightarrow> 's \<Rightarrow> 's) \<Rightarrow> poll_response \<Rightarrow> telegram_listener \<Rightarrow> 's \<Rightarrow> int \<times> telegram_listener \<times> 's" where
  "poll_round handle response l s =
     (if \<not> tl_running l then (0, l, s)
      else case response of
        PollRefused status \<Rightarrow> (if status = 429 \<or> status = 409 then 30000 else 5000, l, s)
      | PollEmpty \<Rightarrow> (5000, l, s)
      | PollThrew \<Rightarrow> (5000, l, s)
      | PollUpdates us \<Rightarrow>
          (0, fold (\<lambda>u l. l\<lparr>tl_offset := up_id u + 1\<rparr>) us l, fold (\<lambda>u. handle (read_update u)) us s))"

definition start_listener :: "telegram_listener \<Rightarrow> telegram_listener" where
  "start_listener l = l\<lparr>tl_running := True\<rparr>"

definition stop_listener :: "telegram_listener \<Rightarrow> telegram_listener" where
  "stop_listener l = l\<lparr>tl_running := False\<rparr>"

section \<open>The Slack interaction server\<close>

datatype slack_command = SlApprove | SlApproveAlways | SlDeny

definition ACTION_COMMANDS :: "(string \<times> slack_command) list" where
  "ACTION_COMMANDS = [(''approve'', SlApprove), (''approve_always'', SlApproveAlways), (''deny'', SlDeny)]"

text \<open>\<open>parseInt(s, 10)\<close>: white space, a sign, and the longest run of digits, or \<open>NaN\<close> (\<open>None\<close>).\<close>

definition digits_value :: "string \<Rightarrow> int" where
  "digits_value ds = foldl (\<lambda>n c. n * 10 + int (of_char c - 48)) 0 ds"

definition parseInt :: "string \<Rightarrow> int option" where
  "parseInt s =
     (let t = dropWhile js_space s;
          neg = (t \<noteq> [] \<and> hd t = CHR ''-'');
          ds = takeWhile is_digit (if t \<noteq> [] \<and> hd t \<in> set ''+-'' then tl t else t)
      in if ds = [] then None else Some (if neg then - digits_value ds else digits_value ds))"

definition verifySlackSignature ::
  "(string \<Rightarrow> string \<Rightarrow> string) \<Rightarrow> int \<Rightarrow> string \<Rightarrow> string \<Rightarrow> string \<Rightarrow> string \<Rightarrow> bool" where
  "verifySlackSignature hmac now_ms signingSecret timestamp body signature =
     (case parseInt timestamp of
        None \<Rightarrow> False
      | Some ts \<Rightarrow>
          if \<bar>now_ms div 1000 - ts\<bar> > 300 then False
          else signature = ''v0='' @ hmac signingSecret (''v0:'' @ timestamp @ '':'' @ body))"

record http_request =
  rq_method :: string
  rq_url :: string
  rq_timestamp :: "string option"
  rq_signature :: "string option"
  rq_body :: string

text \<open>
  The loop over the actions: one that is \<open>null\<close> throws and ends it; a value that is not a text matches
  nothing.
\<close>

fun slack_actions :: "json list \<Rightarrow> (slack_command \<times> string) list" where
  "slack_actions [] = []"
| "slack_actions (v # vs) =
     (case v of
        JNull \<Rightarrow> []
      | JUndef \<Rightarrow> []
      | JObj kvs \<Rightarrow>
          (case map_of kvs ''value'' of
             Some (JStr value) \<Rightarrow>
               (case parse_prefixed ACTION_COMMANDS value of
                  Some call \<Rightarrow> call # slack_actions vs | None \<Rightarrow> slack_actions vs)
           | _ \<Rightarrow> slack_actions vs)
      | _ \<Rightarrow> slack_actions vs)"

definition payload_actions ::
  "(string \<Rightarrow> string option) \<Rightarrow> (string \<Rightarrow> json option) \<Rightarrow> string \<Rightarrow> (slack_command \<times> string) list" where
  "payload_actions form_payload json_parse body =
     (case form_payload body of
        None \<Rightarrow> []
      | Some txt \<Rightarrow>
          if txt = '''' then []
          else (case json_parse txt of
                  Some (JObj kvs) \<Rightarrow>
                    if map_of kvs ''type'' \<noteq> Some (JStr ''block_actions'') then []
                    else (case map_of kvs ''actions'' of Some (JArr vs) \<Rightarrow> slack_actions vs | _ \<Rightarrow> [])
                | _ \<Rightarrow> []))"

text \<open>The status of the answer and the calls of \<open>onAction\<close> in their order.\<close>

definition handleRequest ::
  "(string \<Rightarrow> string \<Rightarrow> string) \<Rightarrow> (string \<Rightarrow> string option) \<Rightarrow> (string \<Rightarrow> json option) \<Rightarrow> string \<Rightarrow> int
     \<Rightarrow> http_request \<Rightarrow> int \<times> (slack_command \<times> string) list" where
  "handleRequest hmac form_payload json_parse signingSecret now_ms rq =
     (if rq_method rq \<noteq> ''POST'' \<or> rq_url rq \<noteq> ''/slack/interactions'' then (404, [])
      else case (rq_timestamp rq, rq_signature rq) of
        (Some timestamp, Some signature) \<Rightarrow>
          if timestamp = '''' \<or> signature = ''''
             \<or> \<not> verifySlackSignature hmac now_ms signingSecret timestamp (rq_body rq) signature
          then (401, [])
          else (200, payload_actions form_payload json_parse (rq_body rq))
      | _ \<Rightarrow> (401, []))"

end
