(* ===== verification/ChannelsProps.thy ===== *)
theory ChannelsProps
  imports Channels Uuid
begin

text \<open>
  The parsers of the channels accept exactly what their regular expressions match; a text read as a button is
  the name of a command, a colon and a token; Slack actions run only for signed, recent requests;
  the polling loop handles an update once.
\<close>

section \<open>Languages\<close>

lemma token_lang: "rx_lang TOKEN_RE p u v \<longleftrightarrow> token_ok u"
  by (auto simp: TOKEN_RE_def rx_lang_range_class token_ok_def list_all_iff)

section \<open>Buttons\<close>

lemma starts_with_append: "starts_with data p \<longleftrightarrow> (\<exists>r. data = p @ r)"
  by (auto simp: starts_with_prefix prefix_def)

lemma parse_prefixed_sound:
  "parse_prefixed cs data = Some (c, t) \<Longrightarrow> \<exists>n. (n, c) \<in> set cs \<and> data = n @ '':'' @ t \<and> token_ok t"
  by (induction cs data rule: parse_prefixed.induct) (auto simp: Let_def starts_with_append split: if_splits)

text \<open>Names without a colon, all different: at most one alternative applies.\<close>

lemma parse_prefixed_iff:
  assumes "\<forall>(n, c)\<in>set cs. CHR '':'' \<notin> set n" and "distinct (map fst cs)"
  shows "parse_prefixed cs data = Some (c, t) \<longleftrightarrow> (\<exists>n. (n, c) \<in> set cs \<and> data = n @ '':'' @ t \<and> token_ok t)"
  using assms
proof (induction cs)
  case (Cons e cs)
  obtain n d where e: "e = (n, d)" by (cases e)
  have other: "data \<noteq> m @ '':'' @ t'" if "starts_with data (n @ '':'')" "(m, x) \<in> set cs" for m x t'
  proof
    assume d: "data = m @ '':'' @ t'"
    from that(1) obtain r where "data = n @ CHR '':'' # r" by (auto simp: starts_with_append)
    with d have "n @ CHR '':'' # r = m @ CHR '':'' # t'" by simp
    then have "split_on (CHR '':'') (n @ CHR '':'' # r) = split_on (CHR '':'') (m @ CHR '':'' # t')" by simp
    then have "n = m" using Cons.prems(1) that(2) by (auto simp: e split_on_append_sep)
    then show False using Cons.prems(2) that(2) by (force simp: e)
  qed
  show ?case
  proof (cases "starts_with data (n @ '':'')")
    case True
    then obtain r where r: "data = n @ CHR '':'' # r" by (auto simp: starts_with_append)
    have no: "parse_prefixed cs data = None" using other [OF True] parse_prefixed_sound [of cs data]
      by (cases "parse_prefixed cs data") fastforce+
    have "(\<exists>m. (m, c) \<in> set (e # cs) \<and> data = m @ '':'' @ t \<and> token_ok t) \<longleftrightarrow> c = d \<and> t = r \<and> token_ok r"
      using other [OF True] r by (auto simp: e)
    then show ?thesis using True no by (auto simp: e r Let_def)
  next
    case False
    then have "(\<exists>m. (m, c) \<in> set (e # cs) \<and> data = m @ '':'' @ t \<and> token_ok t)
        \<longleftrightarrow> (\<exists>m. (m, c) \<in> set cs \<and> data = m @ '':'' @ t \<and> token_ok t)"
      by (auto simp: e starts_with_append)
    then show ?thesis using False Cons by (simp add: e)
  qed
qed simp

lemma callback_names: "\<forall>(n, c)\<in>set CALLBACK_COMMANDS. CHR '':'' \<notin> set n" "distinct (map fst CALLBACK_COMMANDS)"
  by (simp_all add: CALLBACK_COMMANDS_def)

lemma action_names: "\<forall>(n, c)\<in>set ACTION_COMMANDS. CHR '':'' \<notin> set n" "distinct (map fst ACTION_COMMANDS)"
  by (simp_all add: ACTION_COMMANDS_def)

lemmas parse_callback_iff = parse_prefixed_iff [OF callback_names, folded parse_callback_def]
lemmas parse_action_iff = parse_prefixed_iff [OF action_names]

lemma rx_test_seq: "rx_test (RSeq RBol (RSeq (rx_seq rs) REol)) s \<longleftrightarrow> rx_lang (rx_seq rs) None s []"
  by (rule rx_test_anchored)

lemma callback_regex: "rx_test CALLBACK_DATA_RE data \<longleftrightarrow> parse_callback data \<noteq> None"
proof -
  have "rx_test CALLBACK_DATA_RE data \<longleftrightarrow> (\<exists>n t. n \<in> fst ` set CALLBACK_COMMANDS \<and> data = n @ '':'' @ t \<and> token_ok t)"
    unfolding CALLBACK_DATA_RE_def rx_test_seq rx_lang_seqs rx_lang_alt_lits rx_lang_chr token_lang map_map [symmetric]
    by auto
  also have "\<dots> \<longleftrightarrow> (\<exists>c t. parse_callback data = Some (c, t))"
    unfolding parse_callback_iff by force
  finally show ?thesis by auto
qed

section \<open>Text commands\<close>

definition bot_name :: "string \<Rightarrow> bool" where
  "bot_name u \<longleftrightarrow> u = [] \<or> (\<exists>w. u = CHR ''@'' # w \<and> w \<noteq> [] \<and> list_all word_char w)"

lemma bot_lang: "rx_lang BOT_NAME_RE p u v \<longleftrightarrow> bot_name u"
  by (auto simp: BOT_NAME_RE_def bot_name_def rx_chr_def rx_lang_class_seq list_all_iff)

lemma plus_class: "rx_lang (rx_plus (RClass P)) p u v \<longleftrightarrow> u \<noteq> [] \<and> list_all P u"
  by (simp add: list_all_iff)

lemma space_not_word: "js_space c \<Longrightarrow> \<not> word_char c \<and> \<not> token_char c \<and> c \<noteq> CHR ''@'' \<and> \<not> name_char c"
  by (auto simp: js_space_def word_char_def token_char_def name_char_def is_lower_def char_lower_def Let_def)

lemma not_name: "\<not> name_char (CHR ''@'')" "\<not> name_char (CHR '':'')" "\<not> word_char (CHR ''@'')"
  by code_simp+

lemma take_drop_all: "list_all P u \<Longrightarrow> (case r of [] \<Rightarrow> True | c # _ \<Rightarrow> \<not> P c) \<Longrightarrow>
    takeWhile P (u @ r) = u \<and> dropWhile P (u @ r) = r"
  by (induction u) (auto split: list.splits)

lemma skip_bot_decomp: "skip_bot s = Some r \<Longrightarrow> \<exists>u. bot_name u \<and> s = u @ r"
proof (cases "\<exists>q. s = CHR ''@'' # q")
  case True
  assume a: "skip_bot s = Some r"
  obtain q where q: "s = CHR ''@'' # q" using True by blast
  with a have "takeWhile word_char q \<noteq> []" "r = dropWhile word_char q" by (auto simp: skip_bot_def split: if_splits)
  with q show ?thesis
    by (intro exI [of _ "CHR ''@'' # takeWhile word_char q"])
      (auto simp: bot_name_def list_all_iff dest: set_takeWhileD)
next
  case False
  assume "skip_bot s = Some r"
  with False have "s = r" by (auto simp: skip_bot_def split: list.splits if_splits)
  then show ?thesis by (intro exI [of _ "[]"]) (simp add: bot_name_def)
qed

lemma skip_bot_iff:
  assumes "r = [] \<or> \<not> word_char (hd r)" and "r = [] \<or> hd r \<noteq> CHR ''@''"
  shows "skip_bot s = Some r \<longleftrightarrow> (\<exists>u. bot_name u \<and> s = u @ r)"
proof
  assume "skip_bot s = Some r"
  then show "\<exists>u. bot_name u \<and> s = u @ r" by (rule skip_bot_decomp)
next
  assume "\<exists>u. bot_name u \<and> s = u @ r"
  then obtain u where u: "bot_name u" "s = u @ r" by blast
  show "skip_bot s = Some r"
  proof (cases u)
    case Nil
    then show ?thesis using assms u by (cases r) (auto simp: skip_bot_def)
  next
    case (Cons c w)
    then have w: "c = CHR ''@''" "w \<noteq> []" "list_all word_char w" using u by (auto simp: bot_name_def)
    then have "takeWhile word_char (w @ r) = w \<and> dropWhile word_char (w @ r) = r"
      using assms by (intro take_drop_all) (auto split: list.split)
    then show ?thesis using w u Cons by (simp add: skip_bot_def)
  qed
qed

lemma token_head: "token_ok t \<Longrightarrow> t \<noteq> [] \<and> \<not> js_space (hd t)"
  using space_not_word by (cases t) (auto simp: token_ok_def)

lemma command_token_iff:
  "command_token s = Some t \<longleftrightarrow>
     (\<exists>u w. s = u @ w @ t \<and> bot_name u \<and> w \<noteq> [] \<and> list_all js_space w \<and> token_ok t)"
proof
  assume a: "command_token s = Some t"
  then obtain r where r: "skip_bot s = Some r" "t = dropWhile js_space r" "takeWhile js_space r \<noteq> []" "token_ok t"
    by (auto simp: command_token_def Let_def split: option.splits if_splits)
  from skip_bot_decomp [OF r(1)] obtain u where u: "bot_name u" "s = u @ r" by blast
  have "s = u @ takeWhile js_space r @ t" using u r(2) by simp
  moreover have "list_all js_space (takeWhile js_space r)" by (auto simp: list_all_iff dest: set_takeWhileD)
  ultimately show "\<exists>u w. s = u @ w @ t \<and> bot_name u \<and> w \<noteq> [] \<and> list_all js_space w \<and> token_ok t"
    using u(1) r(3,4) by blast
next
  assume "\<exists>u w. s = u @ w @ t \<and> bot_name u \<and> w \<noteq> [] \<and> list_all js_space w \<and> token_ok t"
  then obtain u w where w: "s = u @ w @ t" "bot_name u" "w \<noteq> []" "list_all js_space w" "token_ok t" by blast
  have "js_space (hd w)" using w(3,4) by (cases w) auto
  then have "skip_bot s = Some (w @ t)"
    using w space_not_word [of "hd w"] by (subst skip_bot_iff) auto
  moreover have "takeWhile js_space (w @ t) = w \<and> dropWhile js_space (w @ t) = t"
    using w(4) token_head [OF w(5)] by (intro take_drop_all) (auto split: list.split)
  ultimately show "command_token s = Some t" using w by (simp add: command_token_def)
qed

text \<open>Commands whose names are made of letters and underscores.\<close>

lemma parse_named_sound:
  "parse_named cs s = Some (c, t) \<Longrightarrow>
    \<exists>n r. (n, c) \<in> set cs \<and> s = CHR ''/'' # n @ r \<and> command_token r = Some t"
  by (induction cs s rule: parse_named.induct)
    (auto simp: starts_with_append split: if_splits option.splits)

lemma command_rest: "command_token r = Some t \<Longrightarrow> r \<noteq> [] \<and> \<not> name_char (hd r)"
proof -
  assume "command_token r = Some t"
  then obtain u w where w: "r = u @ w @ t" "bot_name u" "w \<noteq> []" "list_all js_space w"
    by (auto simp: command_token_iff)
  then show ?thesis
    using space_not_word [of "hd w"] not_name by (cases u; cases w) (auto simp: bot_name_def)
qed

lemma parse_named_iff:
  assumes "\<forall>(n, c)\<in>set cs. list_all name_char n" and "distinct (map fst cs)"
  shows "parse_named cs s = Some (c, t) \<longleftrightarrow>
     (\<exists>n r. (n, c) \<in> set cs \<and> s = CHR ''/'' # n @ r \<and> command_token r = Some t)"
  using assms
proof (induction cs)
  case (Cons e cs)
  obtain n d where e: "e = (n, d)" by (cases e)
  have name: "takeWhile name_char (m @ q) = m" if "list_all name_char m" "command_token q = Some x" for m q x
    using take_drop_all [OF that(1), of q] command_rest [OF that(2)] by (cases q) auto
  show ?case
  proof (cases "\<exists>r x. s = CHR ''/'' # n @ r \<and> command_token r = Some x")
    case True
    then obtain r x where r: "s = CHR ''/'' # n @ r" "command_token r = Some x" by blast
    have uniq: "m = n \<and> q = r" if "(m, k) \<in> set (e # cs)" "s = CHR ''/'' # m @ q" "command_token q = Some y" for m k q y
    proof -
      have "list_all name_char m" "list_all name_char n" using Cons.prems(1) that(1) by (auto simp: e)
      then have "takeWhile name_char (m @ q) = m" "takeWhile name_char (n @ r) = n" using name that r by blast+
      then show ?thesis using r(1) that(2) by simp
    qed
    have "(\<exists>m q. (m, c) \<in> set (e # cs) \<and> s = CHR ''/'' # m @ q \<and> command_token q = Some t)
        \<longleftrightarrow> c = d \<and> t = x" (is "?l \<longleftrightarrow> ?r")
    proof
      assume ?l
      then obtain m q where m: "(m, c) \<in> set (e # cs)" "s = CHR ''/'' # m @ q" "command_token q = Some t" by blast
      from uniq [OF m] m(1,3) r(2) Cons.prems(2) show ?r by (force simp: e)
    next
      assume ?r
      with r show ?l by (auto simp: e)
    qed
    then show ?thesis using r by (auto simp: e starts_with_append)
  next
    case False
    then have "parse_named (e # cs) s = parse_named cs s"
      by (auto simp: e starts_with_append split: option.split)
    with False Cons show ?thesis by (auto simp: e)
  qed
qed simp

lemma command_names: "\<forall>(n, c)\<in>set COMMAND_COMMANDS. list_all name_char n" "distinct (map fst COMMAND_COMMANDS)"
  by code_simp+

lemmas parse_command_iff = parse_named_iff [OF command_names, folded parse_command_def]

lemma command_regex: "rx_test COMMAND_RE s \<longleftrightarrow> parse_command s \<noteq> None"
proof -
  have "rx_test COMMAND_RE s \<longleftrightarrow> (\<exists>n r t. n \<in> fst ` set COMMAND_COMMANDS \<and> s = CHR ''/'' # n @ r \<and> command_token r = Some t)"
    unfolding COMMAND_RE_def rx_test_seq rx_lang_seqs rx_lang_alt_lits rx_lang_chr token_lang map_map [symmetric]
      bot_lang plus_class command_token_iff by simp blast
  also have "\<dots> \<longleftrightarrow> (\<exists>c t. parse_command s = Some (c, t))"
    unfolding parse_command_iff by force
  finally show ?thesis by auto
qed

definition spaced_args :: "string \<Rightarrow> bool" where
  "spaced_args r \<longleftrightarrow> r = [] \<or>
     (\<exists>sp a. r = sp @ a \<and> sp \<noteq> [] \<and> list_all js_space sp \<and> a \<noteq> [] \<and> list_all dot_char a)"

lemma command_args_iff: "command_args r \<noteq> None \<longleftrightarrow> spaced_args r"
proof (cases "dropWhile js_space r = []")
  case True
  then have sp: "takeWhile js_space r = r" "list_all js_space r"
    by (auto simp: list_all_iff takeWhile_eq_all_conv)
  have "command_args r \<noteq> None \<longleftrightarrow> r = [] \<or> (2 \<le> length r \<and> dot_char (last r))"
    using True by (auto simp: command_args_def sp(1) Let_def)
  also have "\<dots> \<longleftrightarrow> spaced_args r"
  proof
    assume "r = [] \<or> 2 \<le> length r \<and> dot_char (last r)"
    then show "spaced_args r"
    proof
      assume r: "2 \<le> length r \<and> dot_char (last r)"
      then have "r = butlast r @ [last r]" "butlast r \<noteq> []" by (cases r rule: rev_cases; force)+
      moreover have "list_all js_space (butlast r)" using sp(2) by (auto simp: list_all_iff dest: in_set_butlastD)
      moreover have "list_all dot_char [last r]" using r by simp
      ultimately show ?thesis unfolding spaced_args_def by blast
    qed (simp add: spaced_args_def)
  next
    assume "spaced_args r"
    then show "r = [] \<or> 2 \<le> length r \<and> dot_char (last r)"
    proof (unfold spaced_args_def, elim disjE exE conjE)
      fix s a assume "r = s @ a" "s \<noteq> []" "a \<noteq> []" "list_all dot_char a"
      then show ?thesis by (cases s; cases a) (auto simp: list_all_iff)
    qed simp
  qed
  finally show ?thesis .
next
  case False
  then have ne: "r \<noteq> []" by auto
  show ?thesis
  proof
    assume "command_args r \<noteq> None"
    then have "takeWhile js_space r \<noteq> []" "list_all dot_char (dropWhile js_space r)"
      using False ne by (auto simp: command_args_def Let_def split: if_splits)
    moreover have "list_all js_space (takeWhile js_space r)" by (auto simp: list_all_iff dest: set_takeWhileD)
    moreover have "r = takeWhile js_space r @ dropWhile js_space r" by simp
    ultimately show "spaced_args r" using False unfolding spaced_args_def by blast
  next
    assume "spaced_args r"
    with ne obtain sp a where a: "r = sp @ a" "sp \<noteq> []" "list_all js_space sp" "list_all dot_char a"
      by (auto simp: spaced_args_def)
    then have "dropWhile js_space r = dropWhile js_space a" by (simp add: list_all_iff)
    with a(4) have "list_all dot_char (dropWhile js_space r)" by (auto simp: list_all_iff dest: set_dropWhileD)
    moreover have "takeWhile js_space r \<noteq> []" using a by (cases sp) auto
    ultimately show "command_args r \<noteq> None" using False ne by (simp add: command_args_def Let_def)
  qed
qed

lemma spaced_head: "spaced_args r \<Longrightarrow> r = [] \<or> js_space (hd r)"
proof (unfold spaced_args_def, elim disjE exE conjE)
  fix sp a assume "r = sp @ a" "sp \<noteq> []" "list_all js_space sp"
  then show ?thesis by (cases sp) auto
qed simp

lemma text_command_iff:
  "text_command s \<noteq> None \<longleftrightarrow> (\<exists>nm u r. s = CHR ''/'' # nm @ u @ r \<and> nm \<noteq> [] \<and> list_all name_char nm
     \<and> bot_name u \<and> spaced_args r)"
proof
  assume "text_command s \<noteq> None"
  then obtain q rest where q: "s = CHR ''/'' # q" "takeWhile name_char q \<noteq> []"
      "skip_bot (dropWhile name_char q) = Some rest" "command_args rest \<noteq> None"
    by (auto simp: text_command_def Let_def split: list.splits if_splits Option.bind_splits)
  from skip_bot_decomp [OF q(3)] obtain u where u: "bot_name u" "dropWhile name_char q = u @ rest" by blast
  have "s = CHR ''/'' # takeWhile name_char q @ u @ rest" using q(1) u(2) by (metis takeWhile_dropWhile_id)
  moreover have "list_all name_char (takeWhile name_char q)" by (auto simp: list_all_iff dest: set_takeWhileD)
  ultimately show "\<exists>nm u r. s = CHR ''/'' # nm @ u @ r \<and> nm \<noteq> [] \<and> list_all name_char nm
     \<and> bot_name u \<and> spaced_args r"
    using q(2,4) u(1) command_args_iff by blast
next
  assume "\<exists>nm u r. s = CHR ''/'' # nm @ u @ r \<and> nm \<noteq> [] \<and> list_all name_char nm
     \<and> bot_name u \<and> spaced_args r"
  then obtain nm u r where s: "s = CHR ''/'' # nm @ u @ r" "nm \<noteq> []" "list_all name_char nm" "bot_name u"
      "spaced_args r" by blast
  note hd = spaced_head [OF s(5)]
  have "takeWhile name_char (nm @ u @ r) = nm \<and> dropWhile name_char (nm @ u @ r) = u @ r"
    using s(3,4) hd not_name(1) space_not_word [of "hd r"]
    by (intro take_drop_all) (auto simp: bot_name_def split: list.split)
  moreover have "skip_bot (u @ r) = Some r"
    using s(4) hd space_not_word [of "hd r"] by (subst skip_bot_iff) auto
  ultimately show "text_command s \<noteq> None"
    using s(1,2) command_args_iff [of r] s(5) by (auto simp: text_command_def)
qed

lemma text_command_regex: "rx_test TEXT_COMMAND_RE s \<longleftrightarrow> text_command s \<noteq> None"
proof -
  have opt: "rx_lang (rx_opt (RSeq (rx_plus (RClass js_space)) (rx_plus (RClass dot_char)))) p r v \<longleftrightarrow> spaced_args r" for p r v
    unfolding rx_lang_opt rx_lang_seqI plus_class spaced_args_def by blast
  show ?thesis
    unfolding TEXT_COMMAND_RE_def rx_test_seq rx_lang_seqs rx_lang_chr bot_lang plus_class opt text_command_iff
    by simp blast
qed

section \<open>What a button and a command do\<close>

fun callback_name :: "telegram_command \<Rightarrow> string" where
  "callback_name TgConfirmAlways = ''confirm_approve_always''"
| "callback_name TgCancelAlways = ''cancel_approve_always''"
| "callback_name TgApproveAlways = ''approve_always''"
| "callback_name TgApproveOnce = ''approve_once''"
| "callback_name TgApprove = ''approve''"
| "callback_name TgDeny = ''deny''"

lemma callback_name_in: "(n, c) \<in> set CALLBACK_COMMANDS \<longleftrightarrow> n = callback_name c"
  by (cases c) (auto simp: CALLBACK_COMMANDS_def)

lemma hexdig_token: "n < 16 \<Longrightarrow> token_char (hexdig n)"
proof -
  assume n: "n < 16"
  have m: "(of_char (char_of k :: char) :: nat) = k" if "k < 256" for k
    using that by (simp add: of_char_of)
  show ?thesis using n by (simp add: token_char_def hexdig_def word_char_def Let_def m)
qed

lemma to_hex_token: "list_all token_char (to_hex bs)"
proof (induction bs)
  case (Cons b bs)
  have "unat b < 256" using unsigned_less [of b, where 'a = nat] by simp
  then have "unat b div 16 < 16" "unat b mod 16 < 16" by simp_all
  then have "list_all token_char (hex_byte b)" by (simp add: hex_byte_def hexdig_token)
  then show ?case using Cons by (simp add: to_hex_def)
qed (simp add: to_hex_def)

lemma uuid_token_ok: "length random = 16 \<Longrightarrow> token_ok (uuidv7 random now)"
proof -
  assume r: "length random = 16"
  have "list_all token_char (substr a b (to_hex bs))" for a b bs
    using to_hex_token [of bs] by (auto simp: substr_def list_all_iff dest!: in_set_takeD in_set_dropD)
  moreover have "list_all token_char (drop a (to_hex bs))" for a bs
    using to_hex_token [of bs] by (auto simp: list_all_iff dest!: in_set_dropD)
  moreover have "token_char (CHR ''-'')" by code_simp
  ultimately have "list_all token_char (uuidv7 random now)" by (simp add: uuidv7_def Let_def)
  moreover have "length (uuidv7 random now) = 36"
    using r by (simp add: uuidv7_def Let_def substr_def to_hex_length uuid_bytes_def)
  ultimately show ?thesis by (simp add: token_ok_def)
qed

lemma parse_callback_name: "parse_callback data = Some (c, t) \<longleftrightarrow> data = callback_name c @ '':'' @ t \<and> token_ok t"
  by (simp add: parse_callback_iff callback_name_in)

text \<open>
  A session token whose session id has a character outside the token alphabet has buttons the listener
  ignores.
\<close>

lemma odd_session_unanswerable:
  "CHR ''/'' \<in> set t \<Longrightarrow> parse_callback (callback_name c @ '':'' @ t) = None
    \<and> parse_command (''/approve '' @ t) = None"
proof
  assume t: "CHR ''/'' \<in> set t"
  have "\<not> token_char (CHR ''/'')" by code_simp
  then have no: "\<not> token_ok t" using t by (auto simp: token_ok_def list_all_iff)
  have "\<exists>k x. parse_callback d = Some (k, x) \<and> d = callback_name k @ CHR '':'' # x \<and> token_ok x"
    if "parse_callback d \<noteq> None" for d
    using that parse_callback_iff by (cases "parse_callback d") (auto simp: callback_name_in)
  moreover have "t = x" if "callback_name c @ CHR '':'' # t = callback_name k @ CHR '':'' # x" for k x
    using that by (cases c; cases k) auto
  ultimately show "parse_callback (callback_name c @ '':'' @ t) = None" using no
    by (metis append_Cons append_Nil)
  show "parse_command (''/approve '' @ t) = None"
  proof (rule ccontr)
    assume "parse_command (''/approve '' @ t) \<noteq> None"
    then obtain n c' r x where x: "''/approve '' @ t = CHR ''/'' # n @ r" "(n, c') \<in> set COMMAND_COMMANDS"
        "command_token r = Some x"
      using parse_command_iff by (cases "parse_command (''/approve '' @ t)") auto
    then have "r = '' '' @ t" by (auto simp: COMMAND_COMMANDS_def)
    with x(3) obtain u w where u: "'' '' @ t = u @ w @ x" "bot_name u" "w \<noteq> []" "list_all js_space w" "token_ok x"
      by (auto simp: command_token_iff)
    then have "u = []" by (cases u) (auto simp: bot_name_def)
    moreover have "\<not> js_space (CHR ''/'')" by code_simp
    ultimately have "CHR ''/'' \<in> set x"
      using u t by (cases w) (auto simp: list_all_iff)
    then show False using u(5) \<open>\<not> token_char (CHR ''/'')\<close> by (auto simp: token_ok_def list_all_iff)
  qed
qed

section \<open>Slack\<close>

text \<open>The names of the commands in the values of the buttons, as \<open>ACTION_VALUE_RE\<close> has them.\<close>

fun action_name :: "slack_command \<Rightarrow> string" where
  "action_name SlApprove = ''approve''"
| "action_name SlApproveAlways = ''approve_always''"
| "action_name SlDeny = ''deny''"

lemma action_name_in: "(n, c) \<in> set ACTION_COMMANDS \<longleftrightarrow> n = action_name c"
  by (cases c) (auto simp: ACTION_COMMANDS_def)

lemma parse_action_name: "parse_prefixed ACTION_COMMANDS v = Some (c, t) \<longleftrightarrow> v = action_name c @ '':'' @ t \<and> token_ok t"
  by (simp add: parse_action_iff action_name_in)

lemma slack_actions_values:
  "(c, t) \<in> set (slack_actions vs) \<Longrightarrow> token_ok t
     \<and> (\<exists>members. JObj members \<in> set vs \<and> map_of members ''value'' = Some (JStr (action_name c @ '':'' @ t)))"
proof (induction vs)
  case (Cons v vs)
  then show ?case
    by (cases v) (auto split: json.split_asm option.split_asm simp: parse_action_name)
qed simp

text \<open>The body carries an action: its payload is of block actions, one of which has the value of the button.\<close>

definition carries_action ::
  "(string \<Rightarrow> string option) \<Rightarrow> (string \<Rightarrow> json option) \<Rightarrow> string \<Rightarrow> string \<Rightarrow> bool" where
  "carries_action form_payload json_parse body val \<longleftrightarrow>
     (\<exists>txt kvs vs members. form_payload body = Some txt \<and> json_parse txt = Some (JObj kvs)
        \<and> map_of kvs ''type'' = Some (JStr ''block_actions'') \<and> map_of kvs ''actions'' = Some (JArr vs)
        \<and> JObj members \<in> set vs \<and> map_of members ''value'' = Some (JStr val))"

lemma payload_carries:
  assumes "(c, t) \<in> set (payload_actions form_payload json_parse body)"
  shows "token_ok t \<and> carries_action form_payload json_parse body (action_name c @ '':'' @ t)"
proof -
  obtain payload where p1: "form_payload body = Some payload" "payload \<noteq> ''''"
    using assms by (cases "form_payload body") (auto simp: payload_actions_def split: if_split_asm)
  obtain kvs where p2: "json_parse payload = Some (JObj kvs)"
    using assms p1 by (cases "json_parse payload"; cases "the (json_parse payload)") (auto simp: payload_actions_def)
  have p3: "map_of kvs ''type'' = Some (JStr ''block_actions'')"
    using assms p1 p2 by (auto simp: payload_actions_def split: if_split_asm)
  obtain vs where p4: "map_of kvs ''actions'' = Some (JArr vs)" "(c, t) \<in> set (slack_actions vs)"
    using assms p1 p2 p3 by (cases "map_of kvs ''actions''"; cases "the (map_of kvs ''actions'')") (auto simp: payload_actions_def)
  from slack_actions_values [OF p4(2)] p1 p2 p3 p4(1) show ?thesis unfolding carries_action_def by blast
qed

text \<open>
  C27. The interaction server runs an action only for a POST to its path whose signature is the HMAC of
  the time stamp and the body under the signing secret, with a time stamp at most 300 seconds away from
  the clock; and only one that the body carries: its payload is of block actions, and one of these has as its
  value the name of the command, a colon and the token, which is well-formed.
\<close>

theorem slack_action_authentic:
  assumes "handleRequest hmac form_payload json_parse secret now_ms rq = (status, calls)"
    and "(command, token) \<in> set calls"
  shows "\<exists>timestamp ts. status = 200 \<and> rq_method rq = ''POST'' \<and> rq_url rq = ''/slack/interactions''
    \<and> rq_timestamp rq = Some timestamp \<and> parseInt timestamp = Some ts \<and> \<bar>now_ms div 1000 - ts\<bar> \<le> 300
    \<and> rq_signature rq = Some (''v0='' @ hmac secret (''v0:'' @ timestamp @ '':'' @ rq_body rq))
    \<and> token_ok token
    \<and> carries_action form_payload json_parse (rq_body rq) (action_name command @ '':'' @ token)"
proof -
  have "token_ok token \<and> carries_action form_payload json_parse (rq_body rq) (action_name command @ '':'' @ token)"
    if "(command, token) \<in> set (payload_actions form_payload json_parse (rq_body rq))"
    using that by (rule payload_carries)
  moreover have "calls \<noteq> []" using assms(2) by auto
  then obtain timestamp signature where rq: "rq_timestamp rq = Some timestamp" "rq_signature rq = Some signature"
    "rq_method rq = ''POST''" "rq_url rq = ''/slack/interactions''" "status = 200"
    "verifySlackSignature hmac now_ms secret timestamp (rq_body rq) signature"
    "calls = payload_actions form_payload json_parse (rq_body rq)"
    using assms(1) unfolding handleRequest_def by (simp split: if_split_asm option.split_asm)
  moreover from rq(6) obtain ts where "parseInt timestamp = Some ts" "\<bar>now_ms div 1000 - ts\<bar> \<le> 300"
    "signature = ''v0='' @ hmac secret (''v0:'' @ timestamp @ '':'' @ rq_body rq)"
    unfolding verifySlackSignature_def by (auto split: if_split_asm option.split_asm)
  ultimately show ?thesis using assms(2) by blast
qed

definition signed_deny :: http_request where
  "signed_deny = \<lparr>rq_method = ''POST'', rq_url = ''/slack/interactions'', rq_timestamp = Some ''1000'',
     rq_signature = Some ''v0=x'', rq_body = ''b''\<rparr>"

definition deny_payload :: json where
  "deny_payload = JObj [(''type'', JStr ''block_actions''),
     (''actions'', JArr [JObj [(''value'', JStr ''deny:abcdef'')]])]"

theorem slack_action_authentic_witness:
  "handleRequest (\<lambda>_ _. ''x'') (\<lambda>_. Some ''p'') (\<lambda>_. Some deny_payload) ''s'' 1200000 signed_deny
     = (200, [(SlDeny, ''abcdef'')]) \<and> \<bar>1200000 div 1000 - (1000::int)\<bar> \<le> 300"
proof -
  have "handleRequest (\<lambda>_ _. ''x'') (\<lambda>_. Some ''p'') (\<lambda>_. Some deny_payload) ''s'' 1200000 signed_deny
     = (200, [(SlDeny, ''abcdef'')])" by code_simp
  moreover from slack_action_authentic [OF this, of SlDeny "''abcdef''"] obtain ts
    where "parseInt ''1000'' = Some ts" "\<bar>1200000 div 1000 - ts\<bar> \<le> 300" by (auto simp: signed_deny_def)
  moreover have "parseInt ''1000'' = Some 1000" by code_simp
  ultimately show ?thesis by simp
qed

section \<open>The polling loop\<close>

text \<open>
  What the Bot API documents of \<open>getUpdates\<close>: it returns updates with identifiers from the offset on, in
  increasing order.
\<close>

definition served :: "int \<Rightarrow> poll_response \<Rightarrow> bool" where
  "served offset response \<longleftrightarrow>
     (case response of
        PollUpdates us \<Rightarrow> sorted_wrt (\<lambda>u v. up_id u < up_id v) us \<and> (\<forall>u\<in>set us. offset \<le> up_id u)
      | _ \<Rightarrow> True)"

text \<open>The updates a round hands on, and rounds of the loop: these and what the handler was called with.\<close>

definition round_updates :: "poll_response \<Rightarrow> telegram_listener \<Rightarrow> telegram_update list" where
  "round_updates response l = (case response of PollUpdates us \<Rightarrow> if tl_running l then us else [] | _ \<Rightarrow> [])"

inductive polled :: "telegram_listener \<Rightarrow> telegram_update list \<Rightarrow> update_call list \<Rightarrow> bool" where
  poll_start: "polled \<lparr>tl_running = True, tl_offset = 0\<rparr> [] []"
| poll_go: "polled l us calls \<Longrightarrow> served (tl_offset l) response \<Longrightarrow>
    poll_round (\<lambda>c s. s @ [c]) response l calls = (wait, l', calls') \<Longrightarrow>
    polled l' (us @ round_updates response l) calls'"
| poll_switch: "polled l us calls \<Longrightarrow> polled (l\<lparr>tl_running := b\<rparr>) us calls"

lemma poll_offset: "tl_offset (fold (\<lambda>u l. l\<lparr>tl_offset := up_id u + 1\<rparr>) us l)
    = (if us = [] then tl_offset l else up_id (last us) + 1)"
  by (induction us arbitrary: l) auto

lemma poll_handles: "fold (\<lambda>u s. s @ [f u]) us s = s @ map f us"
  by (induction us arbitrary: s) auto

lemma poll_round_fields:
  assumes "poll_round (\<lambda>c s. s @ [c]) response l calls = (wait, l', calls')"
  shows "tl_offset l' = (if round_updates response l = [] then tl_offset l else up_id (last (round_updates response l)) + 1)
    \<and> calls' = calls @ map read_update (round_updates response l)"
  using assms by (cases response) (auto simp: poll_round_def poll_offset poll_handles round_updates_def split: if_splits)

lemma increasing_last:
  "sorted_wrt (\<lambda>u v. up_id u < up_id v) us \<Longrightarrow> u \<in> set us \<Longrightarrow> up_id u \<le> up_id (last us)"
proof (induction us)
  case (Cons a us)
  then show ?case by (cases "us = []") (auto intro: order_less_imp_le)
qed simp

lemma polled_inv:
  "polled l us calls \<Longrightarrow> sorted_wrt (\<lambda>u v. up_id u < up_id v) us \<and> (\<forall>u\<in>set us. up_id u < tl_offset l)
    \<and> calls = map read_update us"
proof (induction rule: polled.induct)
  case (poll_go l us calls response wait l' calls')
  let ?vs = "round_updates response l"
  note f = poll_round_fields [OF poll_go.hyps(3)]
  have srt: "sorted_wrt (\<lambda>u v. up_id u < up_id v) ?vs" "\<forall>u\<in>set ?vs. tl_offset l \<le> up_id u"
    using poll_go.hyps(2) by (auto simp: served_def round_updates_def split: poll_response.splits)
  have "\<forall>u\<in>set (us @ ?vs). up_id u < tl_offset l'"
  proof
    fix u assume u: "u \<in> set (us @ ?vs)"
    show "up_id u < tl_offset l'"
    proof (cases "?vs = []")
      case True
      then show ?thesis using u f poll_go.IH by simp
    next
      case False
      then have "tl_offset l \<le> up_id (last ?vs)" using srt(2) by simp
      moreover have "up_id u < tl_offset l \<or> up_id u \<le> up_id (last ?vs)"
        using u poll_go.IH increasing_last [OF srt(1)] by auto
      ultimately show ?thesis using f False by auto
    qed
  qed
  moreover have "sorted_wrt (\<lambda>u v. up_id u < up_id v) (us @ ?vs)"
    using poll_go.IH srt by (fastforce simp: sorted_wrt_append)
  ultimately show ?case using f poll_go.IH by simp
qed auto

text \<open>
  The listener handles every update at most once and in the order of the identifiers, over any number
  of rounds, failed requests, stops and restarts, as long as \<open>getUpdates\<close> answers as documented: no
  command of an operator runs twice because of the polling.
\<close>

theorem updates_handled_once:
  assumes "polled l us calls"
  shows "distinct (map up_id us) \<and> sorted (map up_id us) \<and> calls = map read_update us"
proof -
  have s: "sorted_wrt (<) (map up_id us)" using polled_inv [OF assms] by (simp add: sorted_wrt_map)
  then show ?thesis using polled_inv [OF assms] by (simp add: strict_sorted_iff)
qed

definition text_update :: "int \<Rightarrow> telegram_update" where
  "text_update i = \<lparr>up_id = i, up_message = Some \<lparr>tm_text = Some ''/deny abcdef'', tm_chat = Some 1, tm_from = None\<rparr>,
     up_callback = None\<rparr>"

theorem updates_handled_once_witness:
  "\<exists>l calls. polled l [text_update 7, text_update 9] calls
    \<and> calls = map read_update [text_update 7, text_update 9]"
proof -
  let ?l = "\<lparr>tl_running = True, tl_offset = 0\<rparr>" and ?r = "PollUpdates [text_update 7, text_update 9]"
  obtain w l calls where r: "poll_round (\<lambda>c s. s @ [c]) ?r ?l [] = (w, l, calls)"
    by (cases "poll_round (\<lambda>c s. s @ [c]) ?r ?l []")
  have "polled l ([] @ round_updates ?r ?l) calls"
    by (rule poll_go [OF poll_start _ r]) (simp add: served_def text_update_def)
  then have p: "polled l [text_update 7, text_update 9] calls" by (simp add: round_updates_def)
  with updates_handled_once [OF p] show ?thesis by blast
qed

end
