(* ===== verification/Operator.thy ===== *)
theory Operator
  imports Channels RuleFiles
begin

text \<open>
  What \<open>src/index.ts\<close> does with an operator's answers: the Telegram command handler with the two-step
  confirmation of stored patterns, the Slack action handler, the choice at the console
  (\<open>src/hitl/console.ts\<close>), the management commands and \<open>deactivate\<close>; and the host, the plugin
  together with the rule files, the pending confirmations and the saves under way, as a machine whose
  events are the operator's commands, the timers, the steps of tool calls and the file accesses.
  A confirmation's timer is armed exactly while the confirmation is pending: every path that removes the
  entry clears it, and its callback removes the entry. Edited and sent messages are left out, the marks
  at the start of an answer to the operator too.
\<close>

section \<open>State\<close>

record confirmation =
  cf_pattern :: string
  cf_method :: derivation_method
  cf_operatorId :: "string option"
  cf_agentId :: string

datatype settled_confirmation = SettledSaved | SettledCancelled

text \<open>A call of \<open>persistAutoPermitPattern\<close> that waits for the store to be read.\<close>

record persist_call =
  pc_command :: string
  pc_toolName :: string
  pc_actionClass :: string
  pc_channel :: string
  pc_operatorId :: "string option"
  pc_agentId :: "string option"

text \<open>
  \<open>pendingApproveAlwaysConfirmations\<close>, \<open>settledApproveAlwaysConfirmations\<close>, the saves before and after
  their read of the store, and the tool calls whose message is being sent or that wait for the operator.
\<close>

record host =
  ho_plugin :: plugin
  ho_files :: rule_files
  ho_confirm :: "(string, confirmation) jsmap"
  ho_settled :: "(string, settled_confirmation) jsmap"
  ho_calls :: "persist_call list"
  ho_jobs :: "persist_job list"
  ho_sending :: "wait_ctx list"
  ho_awaiting :: "wait_ctx list"

definition ho_manager :: "host \<Rightarrow> manager" where
  "ho_manager h = pl_manager (ho_plugin h)"

definition set_manager :: "manager \<Rightarrow> host \<Rightarrow> host" where
  "set_manager m h = h\<lparr>ho_plugin := (ho_plugin h)\<lparr>pl_manager := m\<rparr>\<rparr>"

text \<open>The start of \<open>persistAutoPermitPattern\<close>: a failing derivation is logged at once.\<close>

definition start_persist :: "loaders \<Rightarrow> int \<Rightarrow> persist_call \<Rightarrow> host \<Rightarrow> host" where
  "start_persist l now c h =
     (case derive_for now (pc_command c) (pc_toolName c) (pc_actionClass c) of
        Inl _ \<Rightarrow>
          h\<lparr>ho_plugin := snd (persist_read l now (pc_command c) (pc_toolName c) (pc_actionClass c) (pc_channel c)
                               (pc_operatorId c) (pc_agentId c) (ho_files h) (ho_plugin h))\<rparr>
      | Inr _ \<Rightarrow> h\<lparr>ho_calls := ho_calls h @ [c]\<rparr>)"

text \<open>
  What every always-approval does for its pending request: the token is remembered, the channel and class
  are approved for the session, and a pattern is saved unless there is nothing to derive one from.
\<close>

definition register_always ::
  "loaders \<Rightarrow> int \<Rightarrow> string \<Rightarrow> string \<Rightarrow> string \<Rightarrow> persist_call \<Rightarrow> host \<Rightarrow> host" where
  "register_always l now token channelId actionClass c h =
     (let p = ho_plugin h;
          h1 = h\<lparr>ho_plugin := p\<lparr>pl_always := insert token (pl_always p),
                               pl_manager := addSessionAutoApproval channelId actionClass (pl_manager p)\<rparr>\<rparr>
      in if length (pc_command c) > 0 \<or> \<not> is_exec actionClass then start_persist l now c h1 else h1)"

definition pending_call :: "pending_approval \<Rightarrow> string \<Rightarrow> string option \<Rightarrow> string \<Rightarrow> persist_call" where
  "pending_call p channel operatorId agentId =
     \<lparr>pc_command = pa_target p, pc_toolName = pa_toolName p, pc_actionClass = pa_action_class p,
      pc_channel = channel, pc_operatorId = operatorId, pc_agentId = Some agentId\<rparr>"

section \<open>Telegram commands\<close>

definition operator_id :: "telegram_user option \<Rightarrow> string option" where
  "operator_id user =
     map_option (\<lambda>u. case tu_username u of
        Some name \<Rightarrow> int_str (tu_id u) @ ''@'' @ name | None \<Rightarrow> int_str (tu_id u)) user"

text \<open>The answer when no confirmation is pending.\<close>

definition settled_answer :: "string \<Rightarrow> string \<Rightarrow> host \<Rightarrow> string" where
  "settled_answer cancelled token h =
     (case map_of (ho_settled h) token of
        Some SettledSaved \<Rightarrow> ''Pattern already saved''
      | Some SettledCancelled \<Rightarrow> cancelled
      | None \<Rightarrow> if isConsumed token (ho_manager h) then ''Already decided'' else ''No pending pattern confirmation'')"

definition tg_confirm ::
  "loaders \<Rightarrow> int \<Rightarrow> string \<Rightarrow> string option \<Rightarrow> host \<Rightarrow> string option \<times> host" where
  "tg_confirm l now token operatorId h =
     (case map_of (ho_confirm h) token of
        None \<Rightarrow> (Some (settled_answer ''Pattern confirmation was cancelled'' token h), h)
      | Some conf \<Rightarrow>
          (let h1 = h\<lparr>ho_confirm := AList.delete token (ho_confirm h),
                      ho_settled := AList.update token SettledSaved (ho_settled h)\<rparr>;
               h2 = (case getPending token (ho_manager h1) of
                       None \<Rightarrow> h1
                     | Some p \<Rightarrow> register_always l now token (pa_channelId p) (pa_action_class p)
                                   (pending_call p ''telegram'' operatorId (cf_agentId conf)) h1)
           in case resolveApproval token Approved None (ho_manager h2) of
                (resolved, m) \<Rightarrow>
                  (Some (if \<not> resolved \<and> \<not> isConsumed token m then ''Unknown or expired approval''
                         else ''Pattern saved; request approved''),
                   set_manager m h2)))"

definition tg_cancel :: "string \<Rightarrow> host \<Rightarrow> string option \<times> host" where
  "tg_cancel token h =
     (case map_of (ho_confirm h) token of
        None \<Rightarrow> (Some (settled_answer ''Pattern confirmation already cancelled'' token h), h)
      | Some conf \<Rightarrow>
          (Some ''Pattern confirmation cancelled'',
           h\<lparr>ho_confirm := AList.delete token (ho_confirm h),
             ho_settled := AList.update token SettledCancelled (ho_settled h)\<rparr>))"

text \<open>The pattern the confirmation message shows, unless confirmations are switched off.\<close>

definition shown_pattern :: "feature_flags \<Rightarrow> int \<Rightarrow> pending_approval \<Rightarrow> derived_pattern option" where
  "shown_pattern flags now p =
     (let hasDerivableInput = (if is_exec (pa_action_class p) then length (pa_target p) > 0
                               else length (pa_toolName p) > 0)
      in if hasDerivableInput \<and> \<not> ff_approveAlwaysAutoConfirm flags
         then (case derive_for now (pa_target p) (pa_toolName p) (pa_action_class p) of
                 Inr d \<Rightarrow> Some d | Inl _ \<Rightarrow> None)
         else None)"

text \<open>\<open>approve_always\<close>: \<open>True\<close> when the handler returns to wait for the confirmation.\<close>

definition tg_always ::
  "loaders \<Rightarrow> feature_flags \<Rightarrow> int \<Rightarrow> string \<Rightarrow> string option \<Rightarrow> host \<Rightarrow> bool \<times> host" where
  "tg_always l flags now token operatorId h =
     (let h1 = h\<lparr>ho_confirm := AList.delete token (ho_confirm h),
                 ho_settled := AList.delete token (ho_settled h)\<rparr>
      in case getPending token (ho_manager h1) of
           None \<Rightarrow> (False, h1)
         | Some p \<Rightarrow>
             (case shown_pattern flags now p of
                Some d \<Rightarrow>
                  (True, h1\<lparr>ho_confirm := AList.update token
                     \<lparr>cf_pattern = dp_pattern d, cf_method = dp_method d, cf_operatorId = operatorId,
                      cf_agentId = pa_agentId p\<rparr> (ho_confirm h1)\<rparr>)
              | None \<Rightarrow>
                  (False, register_always l now token (pa_channelId p) (pa_action_class p)
                            (pending_call p ''telegram'' operatorId (pa_agentId p)) h1)))"

text \<open>The end of the handler: the request is decided.\<close>

definition tg_decide :: "outcome \<Rightarrow> string \<Rightarrow> host \<Rightarrow> string option \<times> host" where
  "tg_decide d token h =
     (let h1 = h\<lparr>ho_confirm := AList.delete token (ho_confirm h)\<rparr>
      in if isConsumed token (ho_manager h1) then (Some ''Already decided'', h1)
         else (None, set_manager (snd (resolveApproval token d None (ho_manager h1))) h1))"

definition onCommand ::
  "loaders \<Rightarrow> feature_flags \<Rightarrow> int \<Rightarrow> telegram_command \<Rightarrow> string \<Rightarrow> telegram_user option
     \<Rightarrow> host \<Rightarrow> string option \<times> host" where
  "onCommand l flags now command token user h =
     (if command = TgConfirmAlways then tg_confirm l now token (operator_id user) h
      else if command = TgCancelAlways then tg_cancel token h
      else if command = TgApproveAlways \<and> ff_approveAlwaysEnabled flags
      then (case tg_always l flags now token (operator_id user) h of
              (waits, h1) \<Rightarrow> if waits then (None, h1) else tg_decide Approved token h1)
      else tg_decide (if command = TgDeny then Denied else Approved) token h)"

section \<open>Slack actions and the console\<close>

definition onAction ::
  "loaders \<Rightarrow> feature_flags \<Rightarrow> int \<Rightarrow> slack_command \<Rightarrow> string \<Rightarrow> host \<Rightarrow> host" where
  "onAction l flags now command token h =
     (let h1 = (if command = SlApproveAlways \<and> ff_approveAlwaysEnabled flags
                then (case getPending token (ho_manager h) of
                        None \<Rightarrow> h
                      | Some p \<Rightarrow> register_always l now token (pa_channelId p) (pa_action_class p)
                                    (pending_call p ''slack'' None (pa_agentId p)) h)
                else h)
      in set_manager (snd (resolveApproval token (if command = SlDeny then Denied else Approved) None
                             (ho_manager h1))) h1)"

text \<open>The answers typed at the console until a valid one; \<open>None\<close> when the input ends first.\<close>

fun ask_console :: "bool \<Rightarrow> string list \<Rightarrow> console_choice option" where
  "ask_console showApproveAlways [] = None"
| "ask_console showApproveAlways (answer # answers) =
     (let ch = js_trim answer
      in if ch = ''1'' then Some ApprovedOnce
         else if ch = ''2'' \<and> showApproveAlways then Some ApprovedAlways
         else if ch = ''3'' then Some ChoseDeny
         else ask_console showApproveAlways answers)"

text \<open>
  The handler of a tool call after its message is sent, with the save the console's second choice starts.
\<close>

definition call_sent :: "loaders \<Rightarrow> int \<Rightarrow> wait_ctx \<Rightarrow> send_result \<Rightarrow> host \<Rightarrow> call_step \<times> host" where
  "call_sent l now wt r h =
     (case dispatch_sent wt r (ho_plugin h) of
        (step, p) \<Rightarrow>
          (let h1 = h\<lparr>ho_plugin := p\<rparr>
           in (step,
               if r = ConsoleChoice ApprovedAlways \<and> (length (wt_target wt) > 0 \<or> \<not> is_exec (wt_action_class wt))
               then start_persist l now
                      \<lparr>pc_command = wt_target wt, pc_toolName = wt_toolName wt, pc_actionClass = wt_action_class wt,
                       pc_channel = ''console'', pc_operatorId = None,
                       pc_agentId = Some (id_auditAgentId (wt_identity wt))\<rparr> h1
               else h1)))"

section \<open>Management commands\<close>

definition formatDuration :: "int \<Rightarrow> string" where
  "formatDuration ms =
     (let seconds = max 0 (- (- ms div 1000));
          minutes = seconds div 60; remSeconds = seconds mod 60;
          hours = minutes div 60; remMinutes = minutes mod 60
      in if seconds < 60 then int_str seconds @ ''s''
         else if minutes < 60
         then (if remSeconds > 0 then int_str minutes @ ''m '' @ int_str remSeconds @ ''s'' else int_str minutes @ ''m'')
         else (if remMinutes > 0 then int_str hours @ ''h '' @ int_str remMinutes @ ''m'' else int_str hours @ ''h''))"

definition formatHitlTarget :: "string \<Rightarrow> string" where
  "formatHitlTarget target =
     (let targetText = js_trim target
      in if length targetText = 0 then ''(no target)''
         else if length targetText > 160 then take 159 targetText @ ''...'' else targetText)"

definition newline :: string where
  "newline = [CHR 0x0A]"

definition formatTelegramHelp :: string where
  "formatTelegramHelp = join newline
     [''OpenClaw HITL commands'', '''', ''/help - show this help'',
      ''/approvals - list pending HITL approval requests'', ''/approve TOKEN - approve a request once'',
      ''/deny TOKEN - deny a request'',
      ''/approve_always TOKEN - approve a request and remember the pattern'',
      ''/approve_always - list saved approve-always rules'',
      ''/revoke N - revoke approve-always rule number N from /approve_always'',
      ''/revoke PATTERN - revoke a saved approve-always rule by exact pattern'']"

definition pending_lines :: "int \<Rightarrow> nat \<times> pending_approval \<Rightarrow> string list" where
  "pending_lines now e =
     (case e of (i, p) \<Rightarrow>
        ['''', int_str (int i + 1) @ ''. '' @ pa_token p, ''Tool: '' @ pa_toolName p,
         ''Action: '' @ pa_action_class p, ''Policy: '' @ pa_policyName p,
         ''Target: '' @ formatHitlTarget (pa_target p),
         ''Expires in: '' @ formatDuration (pa_createdAt p + pa_timeoutMs p - now),
         ''Approve: /approve '' @ pa_token p, ''Deny: /deny '' @ pa_token p])"

definition formatPendingApprovals :: "int \<Rightarrow> manager \<Rightarrow> string" where
  "formatPendingApprovals now m =
     (let pending = listPending m
      in if length pending = 0 then ''No pending HITL approvals.''
         else join newline ((''Pending HITL approvals ('' @ int_str (int (length pending)) @ '')'')
                # concat (map (pending_lines now) (List.enumerate 0 pending))))"

text \<open>\<open>toISO\<close> is \<open>Date.prototype.toISOString\<close>.\<close>

definition permit_lines :: "(int \<Rightarrow> string) \<Rightarrow> nat \<times> auto_permit \<Rightarrow> string list" where
  "permit_lines toISO e =
     (case e of (i, r) \<Rightarrow>
        ['''', int_str (int i + 1) @ ''. '' @ ap_pattern r, ''From: '' @ formatHitlTarget (ap_originalCommand r),
         ''Method: '' @ (case ap_method r of MDefault \<Rightarrow> ''default'' | MExact \<Rightarrow> ''exact''),
         ''Created: '' @ or_else (ap_created_at r) (toISO (ap_createdAt r)),
         ''By: '' @ or_else (ap_created_by r) ''unknown'', ''Revoke: /revoke '' @ int_str (int i + 1)])"

definition formatAutoPermits :: "(int \<Rightarrow> string) \<Rightarrow> auto_permit list \<Rightarrow> string" where
  "formatAutoPermits toISO rules =
     (if length rules = 0 then ''No saved approve-always rules.''
      else join newline ((''Saved approve-always rules ('' @ int_str (int (length rules)) @ '')'')
             # concat (map (permit_lines toISO) (List.enumerate 0 rules))))"

text \<open>What a management command answers; the answer of a revocation is its outcome.\<close>

datatype management_answer = PlainAnswer string | RevokeAnswer revoke_answer | CommandFailed

definition handleManagementCommand ::
  "loaders \<Rightarrow> (int \<Rightarrow> string) \<Rightarrow> int \<Rightarrow> save_result \<Rightarrow> string \<Rightarrow> management_request
     \<Rightarrow> host \<Rightarrow> management_answer option \<times> host" where
  "handleManagementCommand l toISO now saved configuredChatId request h =
     (if int_str (mg_chatId request) \<noteq> configuredChatId then (None, h)
      else case mg_command request of
        MgHelp \<Rightarrow> (Some (PlainAnswer formatTelegramHelp), h)
      | MgApprovals \<Rightarrow> (Some (PlainAnswer (formatPendingApprovals now (ho_manager h))), h)
      | MgApproveAlwaysList \<Rightarrow>
          (case read_store l (ho_files h) of
             None \<Rightarrow> (Some CommandFailed, h)
           | Some result \<Rightarrow> (Some (PlainAnswer (formatAutoPermits toISO (lr_rules result))), h))
      | MgRevoke \<Rightarrow>
          (case revokeAutoPermit l saved (mg_args request) (ho_files h) (ho_plugin h) of
             (answer, f, p) \<Rightarrow> (Some (RevokeAnswer answer), h\<lparr>ho_files := f, ho_plugin := p\<rparr>)))"

section \<open>Deactivation\<close>

text \<open>\<open>deactivate\<close>, from the point on where the interaction server has stopped.\<close>

definition deactivate :: "host \<Rightarrow> host" where
  "deactivate h =
     (let p = ho_plugin h
      in h\<lparr>ho_confirm := [], ho_settled := [],
           ho_plugin := p\<lparr>pl_manager := shutdown (pl_manager p), pl_hitl := None, pl_audit := None\<rparr>\<rparr>)"

section \<open>The host\<close>

text \<open>
  The events: a Telegram command or a management command, a Slack action, the time-out of a confirmation,
  the read and the write of the \<open>i\<close>th save, a tool call and its two later steps (for the \<open>i\<close>th call
  whose message is being sent, or that waits), the timer of a request, a change of the store seen by its
  watcher, deactivation. A message is sent or not; at the console the operator types answers.
\<close>

datatype sent = MessageSent bool | ConsoleInput "string list"

datatype host_event =
    EvTelegram telegram_command string "telegram_user option"
  | EvManage management_request save_result
  | EvSlack slack_command string
  | EvConfirmTimeout string
  | EvRead nat
  | EvWrite nat string save_result
  | EvCall tool_call
  | EvSent nat sent
  | EvDecided nat outcome
  | EvTimer nat
  | EvStoreChanged rule_files
  | EvDeactivate

text \<open>The result of sending, for a call on its kind of channel; \<open>None\<close> when there is none yet.\<close>

definition sent_result :: "feature_flags \<Rightarrow> wait_ctx \<Rightarrow> sent \<Rightarrow> send_result option" where
  "sent_result flags wt r =
     (case r of
        MessageSent ok \<Rightarrow> if wt_kind wt = ViaConsole then None else Some (if ok then SendOk else SendFailed)
      | ConsoleInput answers \<Rightarrow>
          if wt_kind wt = ViaConsole
          then map_option ConsoleChoice (ask_console (ff_approveAlwaysEnabled flags) answers) else None)"

definition host_call :: "world \<Rightarrow> tool_call \<Rightarrow> host \<Rightarrow> host" where
  "host_call w call h =
     (case before_tool_call w call (ho_plugin h) of
        (step, p) \<Rightarrow>
          h\<lparr>ho_plugin := p,
            ho_sending := ho_sending h @ (case step of Sending wt \<Rightarrow> [wt] | _ \<Rightarrow> [])\<rparr>)"

definition host_sent :: "loaders \<Rightarrow> world \<Rightarrow> nat \<Rightarrow> sent \<Rightarrow> host \<Rightarrow> host" where
  "host_sent l w i r h =
     (if i < length (ho_sending h)
      then (case sent_result (wd_features w) (ho_sending h ! i) r of
              None \<Rightarrow> h
            | Some result \<Rightarrow>
                (case call_sent l (wd_now w) (ho_sending h ! i) result (h\<lparr>ho_sending := remove_at i (ho_sending h)\<rparr>) of
                   (step, h1) \<Rightarrow>
                     h1\<lparr>ho_awaiting := ho_awaiting h1 @ (case step of Awaiting wt \<Rightarrow> [wt] | _ \<Rightarrow> [])\<rparr>))
      else h)"

text \<open>A waiting call goes on with the outcome its promise was settled with.\<close>

definition host_decided :: "nat \<Rightarrow> outcome \<Rightarrow> host \<Rightarrow> host" where
  "host_decided i d h =
     (if i < length (ho_awaiting h) \<and> map_of (am_settled (ho_manager h)) (wt_promise (ho_awaiting h ! i)) = Some d
      then h\<lparr>ho_plugin := snd (resolveHitlDecision (ho_awaiting h ! i) d (ho_plugin h)),
             ho_awaiting := remove_at i (ho_awaiting h)\<rparr>
      else h)"

definition host_read :: "loaders \<Rightarrow> int \<Rightarrow> nat \<Rightarrow> host \<Rightarrow> host" where
  "host_read l now i h =
     (if i < length (ho_calls h)
      then let c = ho_calls h ! i
           in case persist_read l now (pc_command c) (pc_toolName c) (pc_actionClass c) (pc_channel c)
                     (pc_operatorId c) (pc_agentId c) (ho_files h) (ho_plugin h) of
                (job, p) \<Rightarrow>
                  h\<lparr>ho_calls := remove_at i (ho_calls h), ho_plugin := p,
                    ho_jobs := ho_jobs h @ (case job of Some j \<Rightarrow> [j] | None \<Rightarrow> [])\<rparr>
      else h)"

definition host_write :: "loaders \<Rightarrow> int \<Rightarrow> nat \<Rightarrow> string \<Rightarrow> save_result \<Rightarrow> host \<Rightarrow> host" where
  "host_write l now i stamp saved h =
     (if i < length (ho_jobs h)
      then case persist_write l now stamp saved (ho_jobs h ! i) (ho_files h) (ho_plugin h) of
             (f, p) \<Rightarrow> h\<lparr>ho_jobs := remove_at i (ho_jobs h), ho_files := f, ho_plugin := p\<rparr>
      else h)"

text \<open>The loaders, \<open>toISOString\<close> and the configured chat.\<close>

record settings =
  st_loaders :: loaders
  st_iso :: "int \<Rightarrow> string"
  st_chatId :: string

definition host_step :: "settings \<Rightarrow> world \<times> host_event \<Rightarrow> host \<Rightarrow> host" where
  "host_step st we h =
     (case we of (w, e) \<Rightarrow>
        (let l = st_loaders st; flags = wd_features w; now = wd_now w
         in case e of
              EvTelegram command token user \<Rightarrow> snd (onCommand l flags now command token user h)
            | EvManage request saved \<Rightarrow> snd (handleManagementCommand l (st_iso st) now saved (st_chatId st) request h)
            | EvSlack command token \<Rightarrow> onAction l flags now command token h
            | EvConfirmTimeout token \<Rightarrow> h\<lparr>ho_confirm := AList.delete token (ho_confirm h)\<rparr>
            | EvRead i \<Rightarrow> host_read l now i h
            | EvWrite i stamp saved \<Rightarrow> host_write l now i stamp saved h
            | EvCall call \<Rightarrow> host_call w call h
            | EvSent i r \<Rightarrow> host_sent l w i r h
            | EvDecided i d \<Rightarrow> host_decided i d h
            | EvTimer t \<Rightarrow> set_manager (fire_timer t (ho_manager h)) h
            | EvStoreChanged f \<Rightarrow>
                h\<lparr>ho_files := f, ho_plugin := reloadJsonRules l f (loadAutoPermitRules l f (ho_plugin h))\<rparr>
            | EvDeactivate \<Rightarrow> deactivate h))"

definition host_run :: "settings \<Rightarrow> (world \<times> host_event) list \<Rightarrow> host \<Rightarrow> host" where
  "host_run st es h = fold (host_step st) es h"

text \<open>The Telegram listener's calls as events of the host.\<close>

definition telegram_event :: "save_result \<Rightarrow> update_call \<Rightarrow> host_event option" where
  "telegram_event saved c =
     (case c of
        OnCommand command token user query \<Rightarrow> Some (EvTelegram command token user)
      | OnManagement request \<Rightarrow> Some (EvManage request saved)
      | NoCall \<Rightarrow> None)"

end
