(* ===== verification/OperatorProps.thy ===== *)
theory OperatorProps
  imports Operator PluginProps RuleFilesProps ChannelsProps ApprovalProps
begin

text \<open>
  The host drives the approval manager through its operations only, and through which ones is a function
  of the event and the state (\<open>host_ops\<close>); from that: who can approve a request, where a session approval
  comes from, and that a pattern is saved only after the operator confirmed it.
\<close>

section \<open>The manager under the plugin's steps\<close>

lemma listener_manager [simp]: "pl_manager (snd (listener w base t d s)) = pl_manager s"
  by (simp add: listener_def Let_def)

lemma call_handled_manager [simp]: "pl_manager (call_handled w call s) = pl_manager s"
proof -
  obtain d es' where "plugin_stage2 w (tc_toolName call) (call_ctx w call s) (call_start w call s)
      = (Some d, (call_start w call s)\<lparr>pl_engines := es'\<rparr>)"
    using stage2_total by blast
  then show ?thesis
    by (simp add: call_handled_def call_run_def Let_def plugin_pipeline [OF call_ctx_fields(1)])
qed

lemma logHitl_manager [simp]: "pl_manager (logHitlDecision d tok t i p s) = pl_manager s"
  by (simp add: logHitlDecision_def)

definition wait_opts :: "wait_ctx \<Rightarrow> approval_opts" where
  "wait_opts wt = hitl_opts (wt_policy wt) (wt_toolName wt) (wt_identity wt) (wt_target wt) (wt_action_class wt)"

definition call_ops :: "world \<Rightarrow> call_step \<Rightarrow> manager_op list" where
  "call_ops w step = (case step of Sending wt \<Rightarrow> [MCreate (wd_uuid w) (wd_now w) (wait_opts wt)] | _ \<Rightarrow> [])"

abbreviation run_ops :: "(string \<Rightarrow> string) \<Rightarrow> manager_op list \<Rightarrow> manager \<Rightarrow> manager" where
  "run_ops sha256 xs m \<equiv> fold (run_manager sha256) xs m"

lemma open_request_manager:
  "open_request w k p t i tg ac s = (step, s') \<Longrightarrow> pl_manager s' = run_ops (wd_sha256 w) (call_ops w step) (pl_manager s)"
  by (auto simp: open_request_def call_ops_def wait_opts_def split: prod.splits)

lemma unconfigured_manager:
  "unconfigured n p t i s = (step, s') \<Longrightarrow> pl_manager s' = run_ops (wd_sha256 w) (call_ops w step) (pl_manager s)"
  by (auto simp: unconfigured_def fallback_answer_def call_ops_def)

lemma dispatch_manager:
  "dispatchHitlChannel w p t i tg ac s = (step, s') \<Longrightarrow>
     pl_manager s' = run_ops (wd_sha256 w) (call_ops w step) (pl_manager s)"
  unfolding dispatchHitlChannel_def Let_def
  by (auto simp: call_ops_def [of w "Answer None"] dest: open_request_manager unconfigured_manager
      split: if_split_asm option.split_asm)

lemma handle_manager:
  "handle_decision w call i base ctx d s = (step, s') \<Longrightarrow>
     pl_manager s' = run_ops (wd_sha256 w) (call_ops w step) (pl_manager s)"
proof -
  have ask: "ask_operator w call i ctx p s = (step, s') \<Longrightarrow>
      pl_manager s' = run_ops (wd_sha256 w) (call_ops w step) (pl_manager s)" for p
    using dispatch_manager by (auto simp: ask_operator_def call_ops_def split: if_split_asm)
  show "handle_decision w call i base ctx d s = (step, s') \<Longrightarrow> ?thesis"
    unfolding handle_decision_def
    by (auto simp: call_ops_def [of w "Answer x" for x] dest: ask split: if_split_asm option.split_asm)
qed

lemma before_tool_call_manager:
  assumes "before_tool_call w call s = (step, s')"
  shows "pl_manager s' = run_ops (wd_sha256 w) (call_ops w step) (pl_manager s)"
proof -
  obtain d s2 where r: "call_run w call s = (Some d, s2)" using call_run_total by blast
  obtain b s1 where b: "budget_step w call s = (b, s1)" by (cases "budget_step w call s")
  have m: "pl_manager s1 = pl_manager s" using budget_fields(2) [of w call s] b by simp
  show ?thesis
  proof (cases b)
    case (Some reason)
    with assms b m show ?thesis by (auto simp: before_tool_call_def call_ops_def)
  next
    case None
    with assms b have "handle_decision w call (call_identity call s1) (call_base call (px_action_class (call_ctx w call s)) s1)
        (call_ctx w call s) (name_tool (tc_toolName call) (px_action_class (call_ctx w call s)) d) (call_handled w call s)
        = (step, s')"
      unfolding before_tool_call_eq [OF r] by simp
    from handle_manager [OF this] show ?thesis by simp
  qed
qed

lemma persist_manager [simp]:
  "pl_manager (snd (persist_read l now cmd t ac ch op ag f s)) = pl_manager s"
  by (simp add: persist_read_def split: sum.split option.split)

lemma loadAutoPermit_manager [simp]: "pl_manager (loadAutoPermitRules l f s) = pl_manager s"
  by (simp add: loadAutoPermitRules_def split: option.split)

lemma persist_write_manager:
  "persist_write l t stamp saved j f s = (f', s') \<Longrightarrow> pl_manager s' = pl_manager s"
  by (auto simp: persist_write_def Let_def split: save_result.splits)

section \<open>The operations of an event\<close>

definition pending_key :: "pending_approval \<Rightarrow> manager_op" where
  "pending_key p = MAddSession (pa_channelId p) (pa_action_class p)"

definition decide_ops :: "outcome \<Rightarrow> string \<Rightarrow> manager \<Rightarrow> manager_op list" where
  "decide_ops d token m = (if isConsumed token m then [] else [MResolve token d None])"

definition telegram_ops ::
  "feature_flags \<Rightarrow> int \<Rightarrow> telegram_command \<Rightarrow> string \<Rightarrow> host \<Rightarrow> manager_op list" where
  "telegram_ops flags now command token h =
     (let pending = getPending token (ho_manager h)
      in if command = TgConfirmAlways
         then (if map_of (ho_confirm h) token = None then []
               else (case pending of Some p \<Rightarrow> [pending_key p] | None \<Rightarrow> []) @ [MResolve token Approved None])
         else if command = TgCancelAlways then []
         else if command = TgApproveAlways \<and> ff_approveAlwaysEnabled flags
         then (case pending of
                 None \<Rightarrow> decide_ops Approved token (ho_manager h)
               | Some p \<Rightarrow> if shown_pattern flags now p \<noteq> None then []
                           else pending_key p # decide_ops Approved token (ho_manager h))
         else decide_ops (if command = TgDeny then Denied else Approved) token (ho_manager h))"

definition slack_ops :: "feature_flags \<Rightarrow> slack_command \<Rightarrow> string \<Rightarrow> host \<Rightarrow> manager_op list" where
  "slack_ops flags command token h =
     (if command = SlApproveAlways \<and> ff_approveAlwaysEnabled flags
      then (case getPending token (ho_manager h) of Some p \<Rightarrow> [pending_key p] | None \<Rightarrow> []) else [])
     @ [MResolve token (if command = SlDeny then Denied else Approved) None]"

fun sent_ops :: "wait_ctx \<Rightarrow> send_result \<Rightarrow> manager_op list" where
  "sent_ops wt SendOk = []"
| "sent_ops wt SendFailed = [MCancel (wt_token wt)]"
| "sent_ops wt (ConsoleChoice c) =
     (if c = ApprovedAlways then [MAddSession (id_auditChannel (wt_identity wt)) (wt_action_class wt)] else [])
     @ [MResolve (wt_token wt) (if c = ChoseDeny then Denied else Approved) None]"

definition host_ops :: "settings \<Rightarrow> world \<times> host_event \<Rightarrow> host \<Rightarrow> manager_op list" where
  "host_ops st we h =
     (case we of (w, e) \<Rightarrow>
        (case e of
           EvTelegram command token user \<Rightarrow> telegram_ops (wd_features w) (wd_now w) command token h
         | EvManage request saved \<Rightarrow>
             (case fst (handleManagementCommand (st_loaders st) (st_iso st) (wd_now w) saved (st_chatId st) request h) of
                Some (RevokeAnswer (Revoked n p v c)) \<Rightarrow> [MClearSession] | _ \<Rightarrow> [])
         | EvSlack command token \<Rightarrow> slack_ops (wd_features w) command token h
         | EvCall call \<Rightarrow> call_ops w (fst (before_tool_call w call (ho_plugin h)))
         | EvSent i r \<Rightarrow>
             (if i < length (ho_sending h)
              then (case sent_result (wd_features w) (ho_sending h ! i) r of
                      None \<Rightarrow> [] | Some result \<Rightarrow> sent_ops (ho_sending h ! i) result)
              else [])
         | EvTimer t \<Rightarrow> [MTimer t]
         | EvDeactivate \<Rightarrow> [MShutdown]
         | _ \<Rightarrow> []))"

lemma set_manager_get [simp]: "ho_manager (set_manager m h) = m"
  by (simp add: set_manager_def ho_manager_def)

lemma start_persist_manager [simp]: "ho_manager (start_persist l now c h) = ho_manager h"
  by (simp add: start_persist_def ho_manager_def split: sum.split)

lemma register_manager [simp]:
  "ho_manager (register_always l now token ch ac c h) = addSessionAutoApproval ch ac (ho_manager h)"
proof -
  have "ho_manager (h\<lparr>ho_plugin := (ho_plugin h)\<lparr>pl_always := x, pl_manager := m\<rparr>\<rparr>) = m" for x m
    by (simp add: ho_manager_def)
  then show ?thesis by (simp add: register_always_def Let_def) (simp add: ho_manager_def)
qed

lemma ho_manager_other [simp]:
  "ho_manager (h\<lparr>ho_confirm := c\<rparr>) = ho_manager h" "ho_manager (h\<lparr>ho_settled := d\<rparr>) = ho_manager h"
  "ho_manager (h\<lparr>ho_confirm := c, ho_settled := d\<rparr>) = ho_manager h"
  "ho_manager (h\<lparr>ho_sending := ws\<rparr>) = ho_manager h" "ho_manager (h\<lparr>ho_awaiting := ws\<rparr>) = ho_manager h"
  by (simp_all add: ho_manager_def)

lemma pending_session [simp]: "getPending token (addSessionAutoApproval ch ac m) = getPending token m"
  "isConsumed token (addSessionAutoApproval ch ac m) = isConsumed token m"
  by (simp_all add: getPending_def isConsumed_def addSessionAutoApproval_def)

lemma tg_decide_manager:
  "ho_manager (snd (tg_decide d token h)) = run_ops sha256 (decide_ops d token (ho_manager h)) (ho_manager h)"
  by (simp add: tg_decide_def decide_ops_def Let_def)

lemma onCommand_manager:
  "ho_manager (snd (onCommand l flags now command token user h))
     = run_ops sha256 (telegram_ops flags now command token h) (ho_manager h)"
proof -
  have confirm: "ho_manager (snd (tg_confirm l now token op h))
      = run_ops sha256 (telegram_ops flags now TgConfirmAlways token h) (ho_manager h)" for op
    by (simp add: tg_confirm_def telegram_ops_def Let_def pending_key_def case_prod_beta split: option.split)
  have cancel: "ho_manager (snd (tg_cancel token h)) = ho_manager h"
    by (simp add: tg_cancel_def split: option.split)
  have always: "ho_manager (snd (case tg_always l flags now token op h of
        (waits, h1) \<Rightarrow> if waits then (None, h1) else tg_decide Approved token h1))
      = run_ops sha256 (telegram_ops flags now TgApproveAlways token h) (ho_manager h)"
    if "ff_approveAlwaysEnabled flags" for op
    using that
    by (simp add: tg_always_def telegram_ops_def Let_def tg_decide_manager [of _ _ _ sha256] decide_ops_def
        pending_key_def split: option.split)
  show ?thesis
    using confirm cancel always tg_decide_manager [of _ token h sha256]
    by (cases command) (simp_all add: onCommand_def telegram_ops_def Let_def)
qed

lemma onAction_manager:
  "ho_manager (onAction l flags now command token h)
     = run_ops sha256 (slack_ops flags command token h) (ho_manager h)"
  by (simp add: onAction_def slack_ops_def Let_def pending_key_def split: option.split)

lemma call_sent_manager:
  "ho_manager (snd (call_sent l now wt r h)) = run_ops sha256 (sent_ops wt r) (ho_manager h)"
proof -
  obtain step p where d: "dispatch_sent wt r (ho_plugin h) = (step, p)"
    by (cases "dispatch_sent wt r (ho_plugin h)")
  have "pl_manager p = run_ops sha256 (sent_ops wt r) (pl_manager (ho_plugin h))"
    using d by (cases r) (auto simp: dispatch_sent_def Let_def split: if_split_asm)
  moreover have "ho_manager (h\<lparr>ho_plugin := p\<rparr>) = pl_manager p" by (simp add: ho_manager_def)
  ultimately show ?thesis
    by (simp add: call_sent_def d Let_def) (simp add: ho_manager_def)
qed

lemma resolveHitl_manager [simp]: "pl_manager (snd (resolveHitlDecision wt d s)) = pl_manager s"
  by (simp add: resolveHitlDecision_def Let_def split: outcome.split)

lemma revoke_manager:
  "revokeAutoPermit l saved args f s = (answer, f', s') \<Longrightarrow>
     pl_manager s' = (case answer of Revoked _ _ _ _ \<Rightarrow> (pl_manager s)\<lparr>am_session := {}\<rparr> | _ \<Rightarrow> pl_manager s)"
proof (cases "\<exists>n p v c. answer = Revoked n p v c")
  case True
  assume r: "revokeAutoPermit l saved args f s = (answer, f', s')"
  from True obtain n p v c where a: "answer = Revoked n p v c" by blast
  from revoke_Revoked [OF r [unfolded a]] obtain ex i where ex: "saved = Saved" "read_store l f = Some ex"
    "js_trim args \<noteq> []" "revoke_index (js_trim args) (lr_rules ex) = int i" "i < length (lr_rules ex)" by blast
  let ?s1 = "reloadJsonRules l (revoked_files l i ex f) (loadAutoPermitRules l (revoked_files l i ex f) s)"
  have "s' = ?s1\<lparr>pl_manager := (pl_manager ?s1)\<lparr>am_session := {}\<rparr>\<rparr>"
    using r unfolding ex(1) revoke_Saved [OF ex(2-5)] Let_def unfolding prod.inject by iprover
  then show ?thesis by (simp add: a)
next
  case False
  assume r: "revokeAutoPermit l saved args f s = (answer, f', s')"
  have "pl_manager s' = pl_manager s"
  proof (rule ccontr)
    assume ne: "pl_manager s' \<noteq> pl_manager s"
    with r False show False
      unfolding revokeAutoPermit_def Let_def
      by (auto split: if_split_asm option.split_asm save_result.split_asm prod.split_asm)
  qed
  with False show ?thesis by (cases answer) auto
qed

lemma manage_manager:
  "ho_manager (snd (handleManagementCommand l toISO now saved chat request h)) =
     run_ops sha256
       (case fst (handleManagementCommand l toISO now saved chat request h) of
          Some (RevokeAnswer (Revoked n p v c)) \<Rightarrow> [MClearSession] | _ \<Rightarrow> []) (ho_manager h)"
proof (cases "mg_command request = MgRevoke \<and> int_str (mg_chatId request) = chat")
  case True
  obtain answer f p where r: "revokeAutoPermit l saved (mg_args request) (ho_files h) (ho_plugin h) = (answer, f, p)"
    by (cases "revokeAutoPermit l saved (mg_args request) (ho_files h) (ho_plugin h)")
  show ?thesis
    using revoke_manager [OF r] True
    by (cases answer) (simp_all add: handleManagementCommand_def r ho_manager_def clearSessionAutoApprovals_def)
next
  case False
  have "snd (handleManagementCommand l toISO now saved chat request h) = h
      \<and> (\<forall>a. fst (handleManagementCommand l toISO now saved chat request h) \<noteq> Some (RevokeAnswer a))"
    using False by (cases "mg_command request") (auto simp: handleManagementCommand_def split: option.split)
  then show ?thesis
    by (cases "fst (handleManagementCommand l toISO now saved chat request h)")
      (auto split: management_answer.split revoke_answer.split)
qed

lemma host_sent_manager:
  "ho_manager (host_sent l w i r h) = run_ops sha256 (host_ops st (w, EvSent i r) h) (ho_manager h)"
proof (cases "i < length (ho_sending h) \<and> sent_result (wd_features w) (ho_sending h ! i) r \<noteq> None")
  case True
  then obtain result where res: "i < length (ho_sending h)" "sent_result (wd_features w) (ho_sending h ! i) r = Some result"
    by blast
  let ?h = "h\<lparr>ho_sending := remove_at i (ho_sending h)\<rparr>"
  obtain step h1 where c: "call_sent l (wd_now w) (ho_sending h ! i) result ?h = (step, h1)"
    by (cases "call_sent l (wd_now w) (ho_sending h ! i) result ?h")
  have "ho_manager h1 = run_ops sha256 (sent_ops (ho_sending h ! i) result) (ho_manager h)"
    using call_sent_manager [of l "wd_now w" "ho_sending h ! i" result ?h sha256] c by simp
  then show ?thesis using res c by (simp add: host_sent_def host_ops_def)
next
  case False
  then show ?thesis by (auto simp: host_sent_def host_ops_def)
qed

lemma host_manager_run:
  "ho_manager (host_step st (w, e) h) = run_ops (wd_sha256 w) (host_ops st (w, e) h) (ho_manager h)"
proof (cases e)
  case (EvCall call)
  obtain step p where c: "before_tool_call w call (ho_plugin h) = (step, p)"
    by (cases "before_tool_call w call (ho_plugin h)")
  show ?thesis
    using before_tool_call_manager [OF c]
    by (simp add: EvCall host_step_def host_ops_def host_call_def c Let_def ho_manager_def)
next
  case (EvSent i r)
  then show ?thesis using host_sent_manager by (simp add: host_step_def Let_def)
next
  case (EvManage request saved)
  then show ?thesis
    using manage_manager by (simp add: host_step_def host_ops_def Let_def)
next
  case (EvRead i)
  then show ?thesis
  proof (cases "i < length (ho_calls h)")
    case True
    let ?c = "ho_calls h ! i"
    obtain job p where r: "persist_read (st_loaders st) (wd_now w) (pc_command ?c) (pc_toolName ?c) (pc_actionClass ?c)
        (pc_channel ?c) (pc_operatorId ?c) (pc_agentId ?c) (ho_files h) (ho_plugin h) = (job, p)"
      using prod.exhaust by blast
    have "pl_manager p = pl_manager (ho_plugin h)"
      using persist_manager [of "st_loaders st" "wd_now w" "pc_command ?c"] r by (metis snd_conv persist_manager)
    then show ?thesis using True
      by (simp add: EvRead host_step_def host_ops_def host_read_def r Let_def ho_manager_def)
  qed (simp add: EvRead host_step_def host_ops_def host_read_def Let_def)
next
  case (EvWrite i stamp saved)
  then show ?thesis
    using persist_write_manager
    by (auto simp: host_step_def host_ops_def host_write_def Let_def ho_manager_def split: prod.split)
next
  case (EvDecided i d)
  then show ?thesis by (simp add: host_step_def host_ops_def host_decided_def Let_def) (simp add: ho_manager_def)
next
  case (EvStoreChanged f)
  then show ?thesis by (simp add: host_step_def host_ops_def Let_def ho_manager_def)
next
  case EvDeactivate
  then show ?thesis by (simp add: host_step_def host_ops_def Let_def ho_manager_def deactivate_def)
qed (simp_all add: host_step_def host_ops_def Let_def onCommand_manager onAction_manager)

text \<open>
  C23. The host is a client of the approval manager: whatever happens, an event changes the manager by
  running the manager's operations that \<open>host_ops\<close> gives for it, one after the other, and in no other way. So
  every guarantee of the manager holds in the running plugin.
\<close>

theorem host_simulates_manager:
  "ho_manager (host_step st (w, e) h) = fold (run_manager (wd_sha256 w)) (host_ops st (w, e) h) (ho_manager h)"
  by (rule host_manager_run)

section \<open>Where a session approval comes from\<close>

lemma session_op:
  "k \<in> am_session (run_manager sha256 x m) \<Longrightarrow>
     (k \<in> am_session m \<and> x \<noteq> MClearSession \<and> x \<noteq> MShutdown)
     \<or> (\<exists>c a. x = MAddSession c a \<and> k = session_key c a)"
proof (cases x)
  case (MBatch tokens d)
  have "am_session (snd (resolveApproval t d b m)) = am_session m" for t d b m
    by (simp add: resolveApproval_def close_request_def split: option.split)
  then have "am_session (snd (batchResolve tokens d m)) = am_session m"
    by (induction tokens arbitrary: m) (simp_all add: case_prod_beta)
  then show "k \<in> am_session (run_manager sha256 x m) \<Longrightarrow> ?thesis" by (simp add: MBatch)
next
  case (MResolve t d b)
  then show "k \<in> am_session (run_manager sha256 x m) \<Longrightarrow> ?thesis"
    by (cases "map_of (am_pending m) t") (auto simp: resolveApproval_def close_request_def split: if_splits)
qed (auto simp: close_request_def cancel_def fire_timer_def createApprovalRequest_def Let_def
      addSessionAutoApproval_def clearSessionAutoApprovals_def shutdown_def split: option.splits)

lemma session_ops:
  "k \<in> am_session (run_ops sha256 xs m) \<Longrightarrow>
     (k \<in> am_session m \<and> MClearSession \<notin> set xs \<and> MShutdown \<notin> set xs)
     \<or> (\<exists>c a. MAddSession c a \<in> set xs \<and> k = session_key c a)"
proof (induction xs arbitrary: m)
  case (Cons x xs)
  from Cons.IH [of "run_manager sha256 x m"] Cons.prems session_op [of k sha256 x m] show ?case by auto
qed simp

text \<open>The events that approve a channel and class for the session, written out over the state they meet.\<close>

definition always_pending :: "string \<Rightarrow> string \<Rightarrow> host \<Rightarrow> bool" where
  "always_pending k token h \<longleftrightarrow>
     (\<exists>p. getPending token (ho_manager h) = Some p \<and> k = session_key (pa_channelId p) (pa_action_class p))"

definition grants_session :: "world \<times> host_event \<Rightarrow> host \<Rightarrow> string \<Rightarrow> bool" where
  "grants_session we h k \<longleftrightarrow>
     (let enabled = ff_approveAlwaysEnabled (wd_features (fst we))
      in case snd we of
           EvTelegram command token user \<Rightarrow>
             always_pending k token h
             \<and> (command = TgConfirmAlways \<and> map_of (ho_confirm h) token \<noteq> None
                \<or> command = TgApproveAlways \<and> enabled
                  \<and> (\<exists>p. getPending token (ho_manager h) = Some p
                        \<and> shown_pattern (wd_features (fst we)) (wd_now (fst we)) p = None))
         | EvSlack command token \<Rightarrow> command = SlApproveAlways \<and> enabled \<and> always_pending k token h
         | EvSent i r \<Rightarrow>
             i < length (ho_sending h) \<and> wt_kind (ho_sending h ! i) = ViaConsole
             \<and> (\<exists>answers. r = ConsoleInput answers \<and> ask_console enabled answers = Some ApprovedAlways)
             \<and> k = session_key (id_auditChannel (wt_identity (ho_sending h ! i))) (wt_action_class (ho_sending h ! i))
         | _ \<Rightarrow> False)"

text \<open>The events that end all session approvals.\<close>

definition ends_session :: "settings \<Rightarrow> world \<times> host_event \<Rightarrow> host \<Rightarrow> bool" where
  "ends_session st we h \<longleftrightarrow>
     (case snd we of
        EvDeactivate \<Rightarrow> True
      | EvManage request saved \<Rightarrow>
          (\<exists>n p v c. fst (handleManagementCommand (st_loaders st) (st_iso st) (wd_now (fst we)) saved (st_chatId st) request h)
             = Some (RevokeAnswer (Revoked n p v c)))
      | _ \<Rightarrow> False)"

lemma decide_ops_session: "MAddSession c a \<notin> set (decide_ops d token m)"
  by (simp add: decide_ops_def)

lemma telegram_grants:
  "MAddSession c a \<in> set (telegram_ops (wd_features w) (wd_now w) command token h) \<Longrightarrow>
     grants_session (w, EvTelegram command token user) h (session_key c a)"
  by (cases "getPending token (ho_manager h)"; cases command)
    (simp_all add: telegram_ops_def Let_def grants_session_def always_pending_def pending_key_def decide_ops_session
      split: if_splits)

lemma slack_grants:
  "MAddSession c a \<in> set (slack_ops (wd_features w) command token h) \<Longrightarrow>
     grants_session (w, EvSlack command token) h (session_key c a)"
  by (cases "getPending token (ho_manager h)"; cases "command = SlApproveAlways \<and> ff_approveAlwaysEnabled (wd_features w)")
    (simp_all add: slack_ops_def grants_session_def always_pending_def pending_key_def)

lemma sent_ops_session:
  "MAddSession c a \<in> set (sent_ops wt result) \<Longrightarrow> result = ConsoleChoice ApprovedAlways
     \<and> c = id_auditChannel (wt_identity wt) \<and> a = wt_action_class wt"
  by (cases result) (simp_all split: if_splits)

lemma sent_grants:
  assumes "MAddSession c a \<in> set (host_ops st (w, EvSent i r) h)"
  shows "grants_session (w, EvSent i r) h (session_key c a)"
proof (cases "i < length (ho_sending h)")
  case True
  with assms obtain result where r: "sent_result (wd_features w) (ho_sending h ! i) r = Some result"
      "MAddSession c a \<in> set (sent_ops (ho_sending h ! i) result)"
    by (cases "sent_result (wd_features w) (ho_sending h ! i) r") (simp_all add: host_ops_def)
  with sent_ops_session [OF r(2)] True show ?thesis
    by (cases r) (simp_all add: sent_result_def grants_session_def split: if_splits)
qed (use assms in \<open>simp add: host_ops_def\<close>)

lemma host_grants:
  assumes "MAddSession c a \<in> set (host_ops st we h)"
  shows "grants_session we h (session_key c a)"
proof (cases we)
  case (Pair w e)
  show ?thesis
  proof (cases e)
    case (EvCall call)
    with assms show ?thesis
      by (cases "fst (before_tool_call w call (ho_plugin h))") (simp_all add: Pair host_ops_def call_ops_def)
  next
    case (EvManage request saved)
    with assms show ?thesis
      by (simp add: Pair host_ops_def split: option.splits management_answer.splits revoke_answer.splits)
  next
    case (EvTelegram command token user)
    with assms show ?thesis by (simp add: Pair host_ops_def telegram_grants)
  next
    case (EvSlack command token)
    with assms show ?thesis by (simp add: Pair host_ops_def slack_grants)
  next
    case (EvSent i r)
    with assms show ?thesis by (simp add: Pair sent_grants)
  qed (use assms in \<open>simp_all add: Pair host_ops_def\<close>)
qed

lemma host_ends:
  "ends_session st (w, e) h \<Longrightarrow> MClearSession \<in> set (host_ops st (w, e) h) \<or> MShutdown \<in> set (host_ops st (w, e) h)"
proof (cases e)
  case (EvManage request saved)
  assume "ends_session st (w, e) h"
  then obtain n p v c where "fst (handleManagementCommand (st_loaders st) (st_iso st) (wd_now w) saved (st_chatId st)
      request h) = Some (RevokeAnswer (Revoked n p v c))"
    unfolding EvManage ends_session_def by auto
  then show ?thesis by (simp add: EvManage host_ops_def)
next
  case EvDeactivate
  then show ?thesis by (simp add: host_ops_def)
qed (auto simp: ends_session_def)

lemma host_session:
  assumes "k \<in> am_session (ho_manager (host_step st (w, e) h))"
  shows "(k \<in> am_session (ho_manager h) \<and> \<not> ends_session st (w, e) h) \<or> grants_session (w, e) h k"
proof -
  have "k \<in> am_session (run_ops (wd_sha256 w) (host_ops st (w, e) h) (ho_manager h))"
    using assms by (simp add: host_manager_run)
  from session_ops [OF this] show ?thesis using host_grants [of _ _ st "(w, e)" h] host_ends [of st w e h] by blast
qed

text \<open>
  C24. Every session approval goes back to an operator: when a channel and class is approved for the
  session, some earlier event of the run was an always-approval for that channel and class, and no deactivation
  or successful revocation came after it. Such an event is, for a request that is pending, a confirmed pattern
  or an always-approval that needs no confirmation at Telegram, or the action at Slack; or it is the second choice
  at a console question the plugin has sent for that channel and class, which counts even when its request is no
  longer pending (\<open>late_console_choice_grants\<close>).
\<close>

theorem session_approval_traceback:
  assumes "isSessionAutoApproved c a (ho_manager (host_run st es h0))" and "am_session (ho_manager h0) = {}"
  shows "\<exists>es1 we es2. es = es1 @ we # es2 \<and> grants_session we (host_run st es1 h0) (session_key c a)
    \<and> (\<forall>es3 we' es4. es2 = es3 @ we' # es4 \<longrightarrow> \<not> ends_session st we' (host_run st (es1 @ we # es3) h0))"
  using assms
proof (induction es rule: rev_induct)
  case Nil
  then show ?case by (simp add: host_run_def isSessionAutoApproved_def)
next
  case (snoc we es)
  let ?k = "session_key c a"
  have run: "host_run st (es @ [we]) h0 = host_step st we (host_run st es h0)" by (simp add: host_run_def)
  obtain w e where we: "we = (w, e)" by (cases we)
  have "?k \<in> am_session (ho_manager (host_step st (w, e) (host_run st es h0)))"
    using snoc.prems(1) by (simp add: run isSessionAutoApproved_def we [symmetric])
  from host_session [OF this]
  consider "grants_session we (host_run st es h0) ?k"
    | "?k \<in> am_session (ho_manager (host_run st es h0))" "\<not> ends_session st we (host_run st es h0)"
    unfolding we by blast
  then show ?case
  proof cases
    case 1
    then show ?thesis by (intro exI [of _ es] exI [of _ we] exI [of _ "[]"]) simp
  next
    case 2
    with snoc.IH snoc.prems(2) obtain es1 we1 es2 where e: "es = es1 @ we1 # es2"
      "grants_session we1 (host_run st es1 h0) ?k"
      "\<forall>es3 we' es4. es2 = es3 @ we' # es4 \<longrightarrow> \<not> ends_session st we' (host_run st (es1 @ we1 # es3) h0)"
      by (auto simp: isSessionAutoApproved_def)
    have "\<not> ends_session st we' (host_run st (es1 @ we1 # es3) h0)" if "es2 @ [we] = es3 @ we' # es4" for es3 we' es4
    proof (cases es4 rule: rev_cases)
      case Nil
      with that 2(2) show ?thesis by (simp add: e(1))
    next
      case (snoc es5 x)
      with that have "es2 = es3 @ we' # es5" by simp
      with e(3) show ?thesis by blast
    qed
    then show ?thesis
      using e(1,2) by (intro exI [of _ es1] exI [of _ we1] exI [of _ "es2 @ [we]"]) simp
  qed
qed

section \<open>What a confirmation saves\<close>

lemma derive_time:
  "map_sum id (\<lambda>d. (dp_pattern d, dp_method d)) (derive_for now command tool ac)
     = map_sum id (\<lambda>d. (dp_pattern d, dp_method d)) (derive_for now' command tool ac)"
  by (auto simp: derive_for_def derivePattern_def Let_def split: option.split)

text \<open>The confirmation shows the pattern that saving for the request derives.\<close>

definition shows_pattern :: "pending_approval \<Rightarrow> confirmation \<Rightarrow> bool" where
  "shows_pattern p conf \<longleftrightarrow>
     map_sum id (\<lambda>d. (dp_pattern d, dp_method d)) (derive_for 0 (pa_target p) (pa_toolName p) (pa_action_class p))
       = Inr (cf_pattern conf, cf_method conf)
     \<and> (0 < length (pa_target p) \<or> \<not> is_exec (pa_action_class p))"

definition confirm_inv :: "host \<Rightarrow> bool" where
  "confirm_inv h \<longleftrightarrow> (\<forall>token conf. map_of (ho_confirm h) token = Some conf \<longrightarrow>
     (case getPending token (ho_manager h) of
        None \<Rightarrow> isConsumed token (ho_manager h) | Some p \<Rightarrow> shows_pattern p conf))"

text \<open>What an operation may do to another token's request: leave it, or close and consume it.\<close>

definition token_kept :: "string \<Rightarrow> manager \<Rightarrow> manager \<Rightarrow> bool" where
  "token_kept t m m' \<longleftrightarrow>
     (getPending t m' = getPending t m \<and> (isConsumed t m \<longrightarrow> isConsumed t m'))
     \<or> (getPending t m' = None \<and> isConsumed t m')"

lemma token_kept_trans: "token_kept t m m' \<Longrightarrow> token_kept t m' m'' \<Longrightarrow> token_kept t m m''"
  by (auto simp: token_kept_def)

lemma token_kept_refl [simp]: "token_kept t m m"
  by (simp add: token_kept_def)

fun simple_op :: "string \<Rightarrow> manager_op \<Rightarrow> bool" where
  "simple_op t (MCreate uuid now opts) \<longleftrightarrow>
     request_token uuid (or_else (ao_action_class opts) (ao_toolName opts)) opts \<noteq> t"
| "simple_op t (MBatch tokens d) \<longleftrightarrow> False"
| "simple_op t MShutdown \<longleftrightarrow> False"
| "simple_op t _ \<longleftrightarrow> True"

lemma token_kept_close: "token_kept t m (close_request k e d m)"
  by (simp add: token_kept_def getPending_def isConsumed_def)

lemma token_kept_op: "simple_op t x \<Longrightarrow> token_kept t m (run_manager sha256 x m)"
proof (cases x)
  case (MResolve k d b)
  then show ?thesis
    using token_kept_close by (simp add: resolveApproval_def split: option.split)
next
  case (MCancel k)
  then show ?thesis using token_kept_close by (simp add: cancel_def split: option.split)
next
  case (MTimer n)
  then show ?thesis
    by (simp add: fire_timer_def token_kept_def getPending_def isConsumed_def map_laws split: option.split)
next
  case (MCreate uuid now opts)
  assume "simple_op t x"
  then show ?thesis
    by (simp add: MCreate createApprovalRequest_def Let_def token_kept_def getPending_def isConsumed_def map_laws)
qed (simp_all add: token_kept_def getPending_def isConsumed_def addSessionAutoApproval_def clearSessionAutoApprovals_def)

lemma token_kept_ops: "\<forall>x\<in>set xs. simple_op t x \<Longrightarrow> token_kept t m (run_ops sha256 xs m)"
proof (induction xs arbitrary: m)
  case (Cons x xs)
  then have "token_kept t m (run_manager sha256 x m)" by (simp add: token_kept_op)
  moreover from Cons have "token_kept t (run_manager sha256 x m) (run_ops sha256 xs (run_manager sha256 x m))" by simp
  ultimately show ?case using token_kept_trans by simp
qed simp

text \<open>\<open>uuidv7\<close> gives a token that is neither pending nor consumed.\<close>

definition fresh_call :: "world \<times> host_event \<Rightarrow> host \<Rightarrow> bool" where
  "fresh_call we h \<longleftrightarrow>
     (\<forall>call. snd we = EvCall call \<longrightarrow>
        getPending (wd_uuid (fst we)) (ho_manager h) = None \<and> \<not> isConsumed (wd_uuid (fst we)) (ho_manager h))"

inductive host_reach :: "settings \<Rightarrow> host \<Rightarrow> bool" for st where
  host_start: "host_reach st \<lparr>ho_plugin = p, ho_files = f, ho_confirm = [], ho_settled = [], ho_calls = [], ho_jobs = [],
      ho_sending = [], ho_awaiting = []\<rparr>"
| host_event: "host_reach st h \<Longrightarrow> fresh_call we h \<Longrightarrow> host_reach st (host_step st we h)"

lemma simple_decide: "x \<in> set (decide_ops d token m) \<Longrightarrow> simple_op t x"
  by (auto simp: decide_ops_def split: if_splits)

lemma simple_telegram: "x \<in> set (telegram_ops flags now command token h) \<Longrightarrow> simple_op t x"
proof -
  assume "x \<in> set (telegram_ops flags now command token h)"
  then have "(\<exists>p. x = pending_key p) \<or> (\<exists>d. x = MResolve token d None)"
    by (cases "getPending token (ho_manager h)"; cases command)
      (simp_all add: telegram_ops_def Let_def decide_ops_def split: if_splits, blast+)
  then show ?thesis by (auto simp: pending_key_def)
qed

lemma simple_slack: "x \<in> set (slack_ops flags command token h) \<Longrightarrow> simple_op t x"
proof -
  assume "x \<in> set (slack_ops flags command token h)"
  then have "(\<exists>p. x = pending_key p) \<or> (\<exists>d. x = MResolve token d None)"
    by (cases "getPending token (ho_manager h)"; cases "command = SlApproveAlways \<and> ff_approveAlwaysEnabled flags")
      (simp_all add: slack_ops_def, blast+)
  then show ?thesis by (auto simp: pending_key_def)
qed

lemma simple_sent: "x \<in> set (sent_ops wt r) \<Longrightarrow> simple_op t x"
  by (cases r) (auto split: if_splits)

lemma simple_host:
  assumes "x \<in> set (host_ops st (w, e) h)" and "e \<noteq> EvDeactivate"
    and "\<And>call. e = EvCall call \<Longrightarrow> wd_uuid w \<noteq> t"
  shows "simple_op t x"
proof (cases e)
  case (EvCall call)
  then have "x \<in> set (call_ops w (fst (before_tool_call w call (ho_plugin h))))" using assms(1) by (simp add: host_ops_def)
  then show ?thesis using assms(3) [OF EvCall]
    by (cases "fst (before_tool_call w call (ho_plugin h))")
      (auto simp: call_ops_def wait_opts_def hitl_opts_def request_token_def)
next
  case (EvManage request saved)
  with assms(1) show ?thesis
    by (simp add: host_ops_def split: option.splits management_answer.splits revoke_answer.splits)
next
  case (EvSent i r)
  with assms(1) show ?thesis
    by (cases "i < length (ho_sending h)"; cases "sent_result (wd_features w) (ho_sending h ! i) r")
      (simp_all add: host_ops_def simple_sent)
next
  case (EvTelegram command token user)
  with assms(1) show ?thesis by (simp add: host_ops_def simple_telegram)
next
  case (EvSlack command token)
  with assms(1) show ?thesis by (simp add: host_ops_def simple_slack)
qed (use assms in \<open>simp_all add: host_ops_def\<close>)

lemma confirm_fields [simp]:
  "ho_confirm (set_manager m h) = ho_confirm h" "ho_confirm (start_persist l now c h) = ho_confirm h"
  by (simp_all add: set_manager_def start_persist_def split: sum.split)

lemma register_confirm [simp]: "ho_confirm (register_always l now token ch ac c h) = ho_confirm h"
  by (simp add: register_always_def Let_def)

definition new_confirmation :: "pending_approval \<Rightarrow> derived_pattern \<Rightarrow> telegram_user option \<Rightarrow> confirmation" where
  "new_confirmation p d user = \<lparr>cf_pattern = dp_pattern d, cf_method = dp_method d, cf_operatorId = operator_id user,
     cf_agentId = pa_agentId p\<rparr>"

text \<open>The tap that opens a confirmation.\<close>

definition asks_confirmation ::
  "world \<times> host_event \<Rightarrow> string \<Rightarrow> pending_approval \<Rightarrow> derived_pattern \<Rightarrow> telegram_user option \<Rightarrow> host \<Rightarrow> bool" where
  "asks_confirmation we token p d user h \<longleftrightarrow>
     snd we = EvTelegram TgApproveAlways token user \<and> ff_approveAlwaysEnabled (wd_features (fst we))
     \<and> getPending token (ho_manager h) = Some p
     \<and> shown_pattern (wd_features (fst we)) (wd_now (fst we)) p = Some d"

lemma tg_decide_confirm:
  "map_of (ho_confirm (snd (tg_decide d token h))) t = (if t = token then None else map_of (ho_confirm h) t)"
  by (simp add: tg_decide_def Let_def map_laws)

lemma tg_confirm_confirm:
  "map_of (ho_confirm (snd (tg_confirm l now token op h))) t = (if t = token then None else map_of (ho_confirm h) t)"
proof -
  have "ho_confirm (case x of None \<Rightarrow> h1 | Some p \<Rightarrow> register_always l now token (f p) (g p) (k p) h1) = ho_confirm h1"
    for x f g k h1 by (cases x) simp_all
  then show ?thesis by (simp add: tg_confirm_def Let_def case_prod_beta map_laws split: option.split)
qed

lemma tg_cancel_confirm:
  "map_of (ho_confirm (snd (tg_cancel token h))) t = (if t = token then None else map_of (ho_confirm h) t)"
  by (simp add: tg_cancel_def map_laws split: option.split)

lemma tg_always_confirm:
  assumes "tg_always l flags now token op h = (waits, h1)"
  shows "map_of (ho_confirm h1) t =
    (if t = token
     then (case getPending token (ho_manager h) of
             None \<Rightarrow> None
           | Some p \<Rightarrow> map_option (\<lambda>d. \<lparr>cf_pattern = dp_pattern d, cf_method = dp_method d, cf_operatorId = op,
               cf_agentId = pa_agentId p\<rparr>) (shown_pattern flags now p))
     else map_of (ho_confirm h) t)
    \<and> waits = (\<exists>p. getPending token (ho_manager h) = Some p \<and> shown_pattern flags now p \<noteq> None)"
proof (cases "getPending token (ho_manager h)")
  case None
  with assms show ?thesis by (auto simp: tg_always_def Let_def map_laws)
next
  case (Some p)
  with assms show ?thesis
    by (cases "shown_pattern flags now p") (auto simp: tg_always_def Let_def map_laws)
qed

lemma onCommand_confirm:
  assumes "map_of (ho_confirm (snd (onCommand l flags now command token user h))) t = Some conf"
  shows "map_of (ho_confirm h) t = Some conf
    \<or> (t = token \<and> command = TgApproveAlways \<and> ff_approveAlwaysEnabled flags
       \<and> (\<exists>p d. getPending token (ho_manager h) = Some p \<and> shown_pattern flags now p = Some d
            \<and> conf = new_confirmation p d user))"
proof (cases "command = TgApproveAlways \<and> ff_approveAlwaysEnabled flags")
  case True
  obtain waits h1 where a: "tg_always l flags now token (operator_id user) h = (waits, h1)"
    by (cases "tg_always l flags now token (operator_id user) h")
  note f = tg_always_confirm [OF a]
  from assms True a have m: "map_of (ho_confirm h1) t = Some conf"
    by (auto simp: onCommand_def tg_decide_confirm split: if_splits)
  show ?thesis
  proof (cases "t = token")
    case True
    with m f \<open>command = TgApproveAlways \<and> _\<close> show ?thesis
      by (cases "getPending token (ho_manager h)") (auto simp: new_confirmation_def)
  next
    case False
    with m f show ?thesis by simp
  qed
next
  case False
  with assms show ?thesis
    by (auto simp: onCommand_def tg_decide_confirm tg_confirm_confirm tg_cancel_confirm split: if_splits)
qed

lemma host_confirm:
  assumes "map_of (ho_confirm (host_step st we h)) t = Some conf"
  shows "snd we \<noteq> EvDeactivate
    \<and> (map_of (ho_confirm h) t = Some conf
       \<or> (\<exists>p d user. asks_confirmation we t p d user h \<and> conf = new_confirmation p d user))"
proof -
  obtain w e where we: "we = (w, e)" by (cases we)
  show ?thesis
  proof (cases e)
    case (EvTelegram command token user)
    with assms show ?thesis
      using onCommand_confirm [of "st_loaders st" "wd_features w" "wd_now w" command token user h t conf]
      by (auto simp: we host_step_def Let_def asks_confirmation_def)
  next
    case (EvManage request saved)
    have "ho_confirm (snd (handleManagementCommand l i n s c r h)) = ho_confirm h" for l i n s c r
      by (simp add: handleManagementCommand_def split: management_command.split option.split prod.split)
    with assms show ?thesis by (simp add: we EvManage host_step_def Let_def)
  next
    case (EvSlack command token)
    have "ho_confirm (onAction l f n command token h) = ho_confirm h" for l f n
      by (simp add: onAction_def Let_def split: option.split)
    with assms show ?thesis by (simp add: we EvSlack host_step_def Let_def)
  next
    case (EvConfirmTimeout token)
    with assms show ?thesis by (simp add: we host_step_def Let_def map_laws split: if_splits)
  next
    case (EvSent i r)
    have "ho_confirm (snd (call_sent l n wt x h')) = ho_confirm h'" for l n wt x h'
      by (simp add: call_sent_def Let_def split: prod.split)
    then have "ho_confirm (host_sent l w i r h) = ho_confirm h" for l
      by (simp add: host_sent_def case_prod_beta split: option.split)
    with assms show ?thesis by (simp add: we EvSent host_step_def Let_def)
  next
    case EvDeactivate
    with assms show ?thesis by (simp add: we host_step_def Let_def deactivate_def)
  qed (use assms in \<open>auto simp: we host_step_def Let_def host_call_def host_decided_def host_read_def host_write_def
      split: prod.splits if_splits\<close>)
qed

lemma shown_shows:
  "shown_pattern flags now p = Some d \<Longrightarrow> shows_pattern p (new_confirmation p d user)"
proof -
  assume a: "shown_pattern flags now p = Some d"
  then have "derive_for now (pa_target p) (pa_toolName p) (pa_action_class p) = Inr d"
    "0 < length (pa_target p) \<or> \<not> is_exec (pa_action_class p)"
    by (auto simp: shown_pattern_def Let_def split: if_splits sum.splits)
  with derive_time [of 0 "pa_target p" "pa_toolName p" "pa_action_class p" now]
  show ?thesis by (simp add: shows_pattern_def new_confirmation_def)
qed

lemma host_reach_confirm: "host_reach st h \<Longrightarrow> confirm_inv h"
proof (induction rule: host_reach.induct)
  case (host_event h we)
  obtain w e where we: "we = (w, e)" by (cases we)
  show ?case unfolding confirm_inv_def
  proof (intro allI impI)
    fix t conf
    assume t: "map_of (ho_confirm (host_step st we h)) t = Some conf"
    note c = host_confirm [OF t]
    show "case getPending t (ho_manager (host_step st we h)) of
        None \<Rightarrow> isConsumed t (ho_manager (host_step st we h)) | Some p \<Rightarrow> shows_pattern p conf"
    proof (cases "map_of (ho_confirm h) t = Some conf")
      case True
      with host_event.IH have inv: "case getPending t (ho_manager h) of
          None \<Rightarrow> isConsumed t (ho_manager h) | Some p \<Rightarrow> shows_pattern p conf" by (simp add: confirm_inv_def)
      have fresh: "wd_uuid w \<noteq> t" if "e = EvCall call" for call
      proof -
        from host_event.hyps(2) that have "getPending (wd_uuid w) (ho_manager h) = None"
          "\<not> isConsumed (wd_uuid w) (ho_manager h)" by (auto simp: fresh_call_def we)
        with inv show ?thesis by (cases "getPending t (ho_manager h)") auto
      qed
      have "e \<noteq> EvDeactivate" using c by (simp add: we)
      then have "\<forall>x\<in>set (host_ops st (w, e) h). simple_op t x"
        by (intro ballI simple_host [of _ st w e h]) (auto dest: fresh)
      from token_kept_ops [OF this, of "ho_manager h" "wd_sha256 w"]
      have "token_kept t (ho_manager h) (ho_manager (host_step st we h))" by (simp add: we host_manager_run)
      with inv show ?thesis by (auto simp: token_kept_def split: option.splits)
    next
      case False
      with c obtain p d user where a: "asks_confirmation we t p d user h" "conf = new_confirmation p d user" by blast
      then have "host_ops st we h = []" "getPending t (ho_manager h) = Some p"
        by (simp_all add: we asks_confirmation_def host_ops_def telegram_ops_def Let_def)
      then have "ho_manager (host_step st we h) = ho_manager h" by (simp add: we host_manager_run)
      with a shown_shows show ?thesis
        by (auto simp: asks_confirmation_def)
    qed
  qed
qed (simp add: confirm_inv_def)

text \<open>The manager after Save: the channel and class approved, the request closed.\<close>

lemma confirm_manager:
  assumes "map_of (ho_confirm h) token = Some conf" and "getPending token (ho_manager h) = Some p"
  shows "ho_manager (host_step st (w, EvTelegram TgConfirmAlways token user) h)
    = close_request token p Approved (addSessionAutoApproval (pa_channelId p) (pa_action_class p) (ho_manager h))"
proof -
  define h1 where "h1 = h\<lparr>ho_confirm := AList.delete token (ho_confirm h),
    ho_settled := AList.update token SettledSaved (ho_settled h)\<rparr>"
  define h2 where "h2 = register_always (st_loaders st) (wd_now w) token (pa_channelId p) (pa_action_class p)
    (pending_call p ''telegram'' (operator_id user) (cf_agentId conf)) h1"
  have "host_step st (w, EvTelegram TgConfirmAlways token user) h
      = set_manager (snd (resolveApproval token Approved None (ho_manager h2))) h2"
    using assms by (simp add: host_step_def Let_def onCommand_def tg_confirm_def h1_def h2_def case_prod_beta)
  moreover have "ho_manager h2 = addSessionAutoApproval (pa_channelId p) (pa_action_class p) (ho_manager h)"
    by (simp add: h2_def h1_def)
  moreover from this have "map_of (am_pending (ho_manager h2)) token = Some p"
    using assms(2) by (simp add: getPending_def addSessionAutoApproval_def)
  ultimately show ?thesis by (simp add: resolveApproval_def)
qed

lemma confirm_session:
  assumes "map_of (ho_confirm h) token = Some conf" and "getPending token (ho_manager h) = Some p"
  shows "isSessionAutoApproved (pa_channelId p) (pa_action_class p)
    (ho_manager (host_step st (w, EvTelegram TgConfirmAlways token user) h))"
  by (simp add: confirm_manager [OF assms] isSessionAutoApproved_def addSessionAutoApproval_def close_request_def)

lemma confirm_calls:
  assumes "map_of (ho_confirm h) token = Some conf" "getPending token (ho_manager h) = Some p" "shows_pattern p conf"
    and "derive_for (wd_now w) (pa_target p) (pa_toolName p) (pa_action_class p) = Inr d"
  shows "ho_calls (host_step st (w, EvTelegram TgConfirmAlways token user) h)
    = ho_calls h @ [pending_call p ''telegram'' (operator_id user) (cf_agentId conf)]"
proof -
  let ?c = "pending_call p ''telegram'' (operator_id user) (cf_agentId conf)"
  define h1 where "h1 = h\<lparr>ho_confirm := AList.delete token (ho_confirm h),
    ho_settled := AList.update token SettledSaved (ho_settled h)\<rparr>"
  define h2 where "h2 = register_always (st_loaders st) (wd_now w) token (pa_channelId p) (pa_action_class p) ?c h1"
  have h: "host_step st (w, EvTelegram TgConfirmAlways token user) h
      = set_manager (snd (resolveApproval token Approved None (ho_manager h2))) h2"
    using assms(1,2)
    by (simp add: host_step_def Let_def onCommand_def tg_confirm_def h1_def h2_def case_prod_beta)
  have "ho_calls h2 = ho_calls h @ [?c]"
    using assms(3,4)
    by (simp add: h2_def h1_def register_always_def Let_def start_persist_def pending_call_def shows_pattern_def)
  then show ?thesis by (simp add: h set_manager_def)
qed

text \<open>
  C25. Saving an always-approved pattern at Telegram does what the operator was shown: when Save is pressed
  for a confirmation whose request still waits, the request is closed and consumed, its channel and class
  are approved for the session, and the one save that starts derives exactly the pattern of the
  confirmation; Cancel and the time-out close the confirmation and change nothing else, so the request
  still waits. The property ends with the start of the save: what is written is \<open>approve_always_effective\<close> and
  \<open>concurrent_save_lost\<close>, and Save after the request is gone is \<open>late_save_reports_success\<close>.
\<close>

theorem confirmation_saves_shown_pattern:
  assumes "host_reach st h" and "map_of (ho_confirm h) token = Some conf"
    and "getPending token (ho_manager h) = Some p"
  shows "(let h' = host_step st (w, EvTelegram TgConfirmAlways token user) h
     in (\<exists>c d. ho_calls h' = ho_calls h @ [c] \<and> pc_command c = pa_target p \<and> pc_toolName c = pa_toolName p
           \<and> pc_actionClass c = pa_action_class p \<and> pc_operatorId c = operator_id user
           \<and> derive_for (wd_now w) (pc_command c) (pc_toolName c) (pc_actionClass c) = Inr d
           \<and> dp_pattern d = cf_pattern conf)
        \<and> isSessionAutoApproved (pa_channelId p) (pa_action_class p) (ho_manager h')
        \<and> getPending token (ho_manager h') = None \<and> isConsumed token (ho_manager h')
        \<and> map_of (ho_confirm h') token = None)
    \<and> (\<forall>e\<in>{EvTelegram TgCancelAlways token user, EvConfirmTimeout token}.
         (let h' = host_step st (w, e) h
          in ho_plugin h' = ho_plugin h \<and> ho_files h' = ho_files h \<and> ho_calls h' = ho_calls h
             \<and> ho_jobs h' = ho_jobs h \<and> map_of (ho_confirm h') token = None))"
proof -
  have sh: "shows_pattern p conf"
    using host_reach_confirm [OF assms(1), unfolded confirm_inv_def, rule_format, OF assms(2)] assms(3) by simp
  then obtain d where d: "derive_for (wd_now w) (pa_target p) (pa_toolName p) (pa_action_class p) = Inr d"
      "dp_pattern d = cf_pattern conf"
    using derive_time [of 0 "pa_target p" "pa_toolName p" "pa_action_class p" "wd_now w"]
    by (cases "derive_for (wd_now w) (pa_target p) (pa_toolName p) (pa_action_class p)")
      (auto simp: shows_pattern_def)
  let ?l = "st_loaders st" and ?op = "operator_id user"
  let ?h = "host_step st (w, EvTelegram TgConfirmAlways token user) h"
  let ?c = "pending_call p ''telegram'' ?op (cf_agentId conf)"
  have calls: "ho_calls ?h = ho_calls h @ [?c]" by (rule confirm_calls [OF assms(2,3) sh d(1)])
  have m: "ho_manager ?h = close_request token p Approved
      (addSessionAutoApproval (pa_channelId p) (pa_action_class p) (ho_manager h))"
    by (rule confirm_manager [OF assms(2,3)])
  have sess: "isSessionAutoApproved (pa_channelId p) (pa_action_class p) (ho_manager ?h)"
    by (rule confirm_session [OF assms(2,3)])
  have closed: "getPending token (ho_manager ?h) = None" "isConsumed token (ho_manager ?h)"
    by (simp_all add: m getPending_def isConsumed_def)
  have conf: "map_of (ho_confirm ?h) token = None"
    using tg_confirm_confirm [of ?l "wd_now w" token ?op h token] by (simp add: host_step_def Let_def onCommand_def)
  have "pc_command ?c = pa_target p" "pc_toolName ?c = pa_toolName p" "pc_actionClass ?c = pa_action_class p"
    "pc_operatorId ?c = ?op" by (simp_all add: pending_call_def)
  with calls d have first: "\<exists>c d. ho_calls ?h = ho_calls h @ [c] \<and> pc_command c = pa_target p
      \<and> pc_toolName c = pa_toolName p \<and> pc_actionClass c = pa_action_class p \<and> pc_operatorId c = ?op
      \<and> derive_for (wd_now w) (pc_command c) (pc_toolName c) (pc_actionClass c) = Inr d
      \<and> dp_pattern d = cf_pattern conf" by metis
  have "\<forall>e\<in>{EvTelegram TgCancelAlways token user, EvConfirmTimeout token}.
         (let h' = host_step st (w, e) h
          in ho_plugin h' = ho_plugin h \<and> ho_files h' = ho_files h \<and> ho_calls h' = ho_calls h
             \<and> ho_jobs h' = ho_jobs h \<and> map_of (ho_confirm h') token = None)"
    using assms(2) by (simp add: host_step_def Let_def onCommand_def tg_cancel_def map_laws)
  with first sess closed conf show ?thesis by (simp only: Let_def)
qed

text \<open>A host whose operator is asked for the tool call of a request.\<close>

definition asked :: pending_approval where
  "asked = \<lparr>pa_token = ''t'', pa_toolName = ''write_file'', pa_agentId = ''a'', pa_channelId = ''c'',
     pa_policyName = ''p'', pa_fallback = Deny, pa_createdAt = 0, pa_timeoutMs = 1000, pa_payload_hash = ''h'',
     pa_action_class = ''filesystem.write'', pa_target = ''notes.txt'', pa_summary = '''', pa_binding = ''b'',
     pa_resolve = 0, pa_timer = 0\<rparr>"

definition asked_host :: host where
  "asked_host = \<lparr>ho_plugin = idle_plugin\<lparr>pl_manager := new_manager\<lparr>am_pending := [(''t'', asked)]\<rparr>\<rparr>,
     ho_files = no_files,
     ho_confirm = [], ho_settled = [], ho_calls = [], ho_jobs = [], ho_sending = [], ho_awaiting = []\<rparr>"

definition asked_settings :: settings where
  "asked_settings = \<lparr>st_loaders = plain_loaders,
     st_iso = (\<lambda>_. ''''), st_chatId = ''1''\<rparr>"

definition pressed :: "telegram_command \<Rightarrow> world \<times> host_event" where
  "pressed c = (quiet_world, EvTelegram c ''t'' None)"

lemma asked_derived:
  "\<exists>d. shown_pattern (wd_features quiet_world) 0 asked = Some d"
proof -
  have "map_sum id dp_pattern (derive_for 0 ''notes.txt'' ''write_file'' ''filesystem.write'') = Inr ''write_file *''"
    by code_simp
  then obtain d where "derive_for 0 ''notes.txt'' ''write_file'' ''filesystem.write'' = Inr d"
    by (cases "derive_for 0 ''notes.txt'' ''write_file'' ''filesystem.write''") auto
  then show ?thesis
    by (simp add: shown_pattern_def Let_def asked_def quiet_world_def resolveFeatureFlags_def is_exec_def)
qed

lemma asked_pending: "getPending ''t'' (ho_manager asked_host) = Some asked"
  by (simp add: asked_host_def ho_manager_def getPending_def)

lemma asked_reach: "host_reach asked_settings (host_step asked_settings (pressed TgApproveAlways) asked_host)"
proof (rule host_reach.host_event)
  show "host_reach asked_settings asked_host" unfolding asked_host_def by (rule host_start)
qed (simp add: fresh_call_def pressed_def)

lemma asked_confirms:
  "\<exists>conf. map_of (ho_confirm (host_step asked_settings (pressed TgApproveAlways) asked_host)) ''t'' = Some conf
     \<and> getPending ''t'' (ho_manager (host_step asked_settings (pressed TgApproveAlways) asked_host)) = Some asked"
proof -
  obtain d where d: "shown_pattern (wd_features quiet_world) 0 asked = Some d" using asked_derived by blast
  have "ff_approveAlwaysEnabled (wd_features quiet_world)" "wd_now quiet_world = 0"
    by (simp_all add: quiet_world_def resolveFeatureFlags_def)
  then show ?thesis using d asked_pending
    by (simp add: pressed_def host_step_def Let_def onCommand_def tg_always_def ho_manager_def map_laws)
qed

lemma confirmation_saves_shown_pattern_witness:
  "\<exists>h. isSessionAutoApproved ''c'' ''filesystem.write'' (ho_manager (host_step asked_settings (pressed TgConfirmAlways) h))"
proof -
  obtain conf where c: "map_of (ho_confirm (host_step asked_settings (pressed TgApproveAlways) asked_host)) ''t'' = Some conf"
    "getPending ''t'' (ho_manager (host_step asked_settings (pressed TgApproveAlways) asked_host)) = Some asked"
    using asked_confirms by blast
  have ch: "pa_channelId asked = ''c''" "pa_action_class asked = ''filesystem.write''" by (simp_all add: asked_def)
  from confirmation_saves_shown_pattern [OF asked_reach c, of quiet_world None]
  show ?thesis unfolding pressed_def [symmetric] Let_def ch by blast
qed

text \<open>Save is pressed after Approve Always; the session approval goes back to that confirmation.\<close>

lemma session_approval_traceback_witness:
  "\<exists>es1 we es2. [pressed TgApproveAlways, pressed TgConfirmAlways] = es1 @ we # es2
     \<and> grants_session we (host_run asked_settings es1 asked_host) (session_key ''c'' ''filesystem.write'')
     \<and> (\<forall>es3 we' es4. es2 = es3 @ we' # es4 \<longrightarrow>
          \<not> ends_session asked_settings we' (host_run asked_settings (es1 @ we # es3) asked_host))"
proof (rule session_approval_traceback)
  obtain conf where c: "map_of (ho_confirm (host_step asked_settings (pressed TgApproveAlways) asked_host)) ''t'' = Some conf"
    "getPending ''t'' (ho_manager (host_step asked_settings (pressed TgApproveAlways) asked_host)) = Some asked"
    using asked_confirms by blast
  have "host_run asked_settings [pressed TgApproveAlways, pressed TgConfirmAlways] asked_host
      = host_step asked_settings (pressed TgConfirmAlways) (host_step asked_settings (pressed TgApproveAlways) asked_host)"
    by (simp add: host_run_def)
  moreover have "pa_channelId asked = ''c''" "pa_action_class asked = ''filesystem.write''" by (simp_all add: asked_def)
  ultimately show "isSessionAutoApproved ''c'' ''filesystem.write''
      (ho_manager (host_run asked_settings [pressed TgApproveAlways, pressed TgConfirmAlways] asked_host))"
    using confirm_session [OF c, of asked_settings quiet_world None] by (simp add: pressed_def)
  show "am_session (ho_manager asked_host) = {}"
    by (simp add: asked_host_def ho_manager_def new_manager_def)
qed


section \<open>Late answers\<close>

text \<open>
  Save pressed after the request expired or was answered elsewhere is answered as a success, though no
  pattern is derived and nothing changes but the confirmation.
\<close>

lemma late_save_reports_success:
  assumes "map_of (ho_confirm h) token = Some conf" and "getPending token (ho_manager h) = None"
    and "isConsumed token (ho_manager h)"
  shows "fst (tg_confirm l now token op h) = Some ''Pattern saved; request approved''
    \<and> ho_calls (snd (tg_confirm l now token op h)) = ho_calls h
    \<and> ho_manager (snd (tg_confirm l now token op h)) = ho_manager h"
  using assms by (auto simp: tg_confirm_def Let_def resolveApproval_def getPending_def set_manager_def ho_manager_def)

text \<open>
  The console's second choice approves the channel and class for the session even when the request has
  expired while the prompt was open.
\<close>

lemma late_console_choice_grants:
  "isSessionAutoApproved (id_auditChannel (wt_identity wt)) (wt_action_class wt)
     (ho_manager (snd (call_sent l now (wt\<lparr>wt_kind := ViaConsole\<rparr>) (ConsoleChoice ApprovedAlways) h)))"
  by (auto simp: call_sent_def dispatch_sent_def Let_def ho_manager_def isSessionAutoApproved_def
      addSessionAutoApproval_def resolveApproval_def close_request_def start_persist_def settle_def clearTimeout_def
      split: prod.splits option.splits sum.splits if_splits)

end
