(* ===== verification/Prompt.thy ===== *)
theory Prompt
  imports Plugin JsRegex
begin

text \<open>
  The \<open>before_prompt_build\<close> hook of \<open>src/index.ts\<close>: the patterns of prompt injection, the text of a
  message, the scan of the messages and the handler; and the \<open>before_model_resolve\<close> hook, which
  changes nothing. The language of the patterns is described without them as phrases of words.
\<close>

section \<open>Patterns\<close>

definition SPACES :: rx where
  "SPACES = rx_plus (RClass js_space)"

definition rx_words :: "string list \<Rightarrow> rx" where
  "rx_words ws = rx_alt (map rx_lit_ci ws)"

text \<open>\<open>instructions?\<close>: with and without the last letter.\<close>

definition INSTRUCTIONS :: rx where
  "INSTRUCTIONS = RSeq (rx_lit_ci ''instruction'') (rx_opt (rx_ci (CHR ''s'')))"

definition IGNORE_RE :: rx where
  "IGNORE_RE = rx_seq [rx_lit_ci ''ignore'', SPACES, rx_opt (RSeq (rx_lit_ci ''all'') SPACES),
     rx_words [''previous'', ''prior'', ''above''], SPACES, INSTRUCTIONS]"

definition NEW_RE :: rx where
  "NEW_RE = rx_seq [RWordB, rx_lit_ci ''new'', SPACES, INSTRUCTIONS, RStar (RClass js_space), rx_chr (CHR '':'')]"

definition FORGET_RE :: rx where
  "FORGET_RE = rx_seq [RWordB, rx_lit_ci ''forget'', SPACES,
     rx_alt [rx_lit_ci ''everything'', rx_lit_ci ''all'',
       rx_seq [rx_lit_ci ''your'', SPACES, rx_opt (RSeq (rx_lit_ci ''previous'') SPACES),
         rx_alt [INSTRUCTIONS, rx_lit_ci ''training'', rx_lit_ci ''context'',
           RSeq (rx_lit_ci ''rule'') (rx_opt (rx_ci (CHR ''s''))),
           RSeq (rx_lit_ci ''guideline'') (rx_opt (rx_ci (CHR ''s'')))]]]]"

definition IMPERATIVE_RE :: rx where
  "IMPERATIVE_RE = rx_seq [RWordB, rx_lit_ci ''you'', SPACES,
     rx_alt [rx_seq [rx_lit_ci ''must'', SPACES, rx_lit_ci ''now''],
       rx_seq [rx_lit_ci ''are'', SPACES, rx_lit_ci ''now'', SPACES, rx_lit_ci ''required'', SPACES, rx_lit_ci ''to''],
       rx_seq [rx_lit_ci ''will'', SPACES, rx_lit_ci ''immediately'']],
     SPACES]"

definition RESTRICTIONS :: rx where
  "RESTRICTIONS = RSeq (rx_lit_ci ''restriction'') (rx_opt (rx_ci (CHR ''s'')))"

definition ACT_RE :: rx where
  "ACT_RE = rx_seq [RWordB, rx_words [''act'', ''pretend'', ''respond'', ''behave''], SPACES,
     rx_alt [rx_seq [rx_lit_ci ''without'', SPACES, RSeq (rx_lit_ci ''an'') (rx_opt (rx_ci (CHR ''y''))), SPACES, RESTRICTIONS],
       rx_seq [rx_lit_ci ''as'', SPACES, rx_lit_ci ''if'', SPACES, rx_lit_ci ''you'', SPACES, rx_lit_ci ''have'',
         SPACES, rx_lit_ci ''no'', SPACES, RESTRICTIONS]]]"

definition INJECTION_PATTERNS :: "rx list" where
  "INJECTION_PATTERNS = [IGNORE_RE, NEW_RE, FORGET_RE, IMPERATIVE_RE, ACT_RE]"

section \<open>Detection\<close>

definition extractMessageText :: "json \<Rightarrow> string option" where
  "extractMessageText message =
     (case message of
        JStr s \<Rightarrow> Some s
      | JObj m \<Rightarrow>
          (case map_of m ''content'' of
             Some (JStr s) \<Rightarrow> Some s
           | _ \<Rightarrow> (case map_of m ''text'' of Some (JStr s) \<Rightarrow> Some s | _ \<Rightarrow> None))
      | _ \<Rightarrow> None)"

definition message_hit :: "json \<Rightarrow> bool" where
  "message_hit message =
     (case extractMessageText message of
        None \<Rightarrow> False
      | Some txt \<Rightarrow> list_ex (\<lambda>pattern. rx_test pattern txt) INJECTION_PATTERNS)"

definition detectPromptInjection :: "json list option \<Rightarrow> bool" where
  "detectPromptInjection messages =
     (case messages of None \<Rightarrow> False | Some ms \<Rightarrow> list_ex message_hit ms)"

section \<open>The hooks\<close>

record prompt_event =
  pe_prompt :: string
  pe_messages :: "json list option"
  pe_source :: "string option"

datatype prompt_answer = PromptPass | PromptBlock string | PromptContext string

text \<open>A condition of a rule that throws ends in the handler's catch, which changes nothing.\<close>

definition beforePromptBuild ::
  "int \<Rightarrow> string option \<Rightarrow> string option \<Rightarrow> prompt_event \<Rightarrow> plugin \<Rightarrow> prompt_answer \<times> plugin" where
  "beforePromptBuild now agentId channelId ev s =
     (if pe_source ev \<noteq> Some ''user'' \<and> detectPromptInjection (pe_messages ev)
      then (PromptBlock (''Prompt injection detected from source '' @ [CHR 0x27]
              @ (case pe_source ev of Some src \<Rightarrow> src | None \<Rightarrow> ''unknown'') @ [CHR 0x27]), s)
      else
        (let claimed = resolveIdentity agentId channelId (pl_identities s);
             ctx = buildRuleContext (id_agentId claimed) (id_channel claimed) (pl_identities s)
         in case evaluate now RPrompt (pe_prompt ev) ctx None (cedar (pl_engines s)) of
              (None, eng) \<Rightarrow> (PromptPass, s)
            | (Some d, eng) \<Rightarrow>
                (let s1 = s\<lparr>pl_engines := (pl_engines s)\<lparr>cedar := eng\<rparr>\<rparr>
                 in if dec_effect d = Forbid
                    then (PromptContext (''[POLICY WARNING] ''
                            @ (case dec_reason d of Some r \<Rightarrow> r | None \<Rightarrow> ''This prompt type is restricted by policy'')
                            @ ''.''), s1)
                    else (PromptPass, s1))))"

definition beforeModelResolve :: "string \<Rightarrow> plugin \<Rightarrow> string option \<times> plugin" where
  "beforeModelResolve prompt s = (None, s)"

end
