(* ===== verification/ManifestData.thy ===== *)
theory ManifestData
  imports Json
begin

text \<open>
  The manifests of the first-party tools, \<open>src/tools/*/manifest.ts\<close>, one definition each: the object
  literals as JSON values in the order of their members. Dashes and other signs outside Latin-1 in
  descriptions are written in ASCII.
\<close>

section \<open>Shapes\<close>

definition described :: "string \<Rightarrow> string \<Rightarrow> json" where
  "described t d = JObj [(''type'', JStr t), (''description'', JStr d)]"

definition typed :: "string \<Rightarrow> json" where
  "typed t = JObj [(''type'', JStr t)]"

definition texts :: "string list \<Rightarrow> json" where
  "texts ss = JArr (map JStr ss)"

definition strict_params :: "(string \<times> json) list \<Rightarrow> string list \<Rightarrow> json" where
  "strict_params props required =
     JObj [(''type'', JStr ''object''), (''properties'', JObj props), (''required'', texts required),
       (''additionalProperties'', JBool False)]"

definition strict_object :: "(string \<times> json) list \<Rightarrow> json" where
  "strict_object props = JObj [(''type'', JStr ''object''), (''properties'', JObj props), (''additionalProperties'', JBool False)]"

definition result_object :: "(string \<times> json) list \<Rightarrow> json" where
  "result_object props = JObj [(''type'', JStr ''object''), (''properties'', JObj props)]"

definition manifest ::
  "string \<Rightarrow> string \<Rightarrow> string \<Rightarrow> string \<Rightarrow> string \<Rightarrow> string option \<Rightarrow> json \<Rightarrow> json \<Rightarrow> json" where
  "manifest name version action_class risk_tier hitl_mode target params result =
     JObj ([(''name'', JStr name), (''version'', JStr version), (''action_class'', JStr action_class),
       (''risk_tier'', JStr risk_tier), (''default_hitl_mode'', JStr hitl_mode)]
       @ (case target of Some t \<Rightarrow> [(''target_field'', JStr t)] | None \<Rightarrow> [])
       @ [(''params'', params), (''result'', result)])"

section \<open>Manifests\<close>

definition appendFileManifest :: json where
  "appendFileManifest = manifest ''append_file'' ''1.0.0'' ''filesystem.write'' ''medium'' ''per_request'' None
    (strict_params
     [(''path'', described ''string'' ''Path to the file to append to.''),
      (''content'', described ''string'' ''UTF-8 text content to append to the file.'')]
     [''path'', ''content''])
    (result_object
     [(''path'', described ''string'' ''Absolute path of the file that was appended to.'')])"

definition archiveCreateManifest :: json where
  "archiveCreateManifest = manifest ''archive_create'' ''1.0.0'' ''archive.create'' ''medium'' ''per_request''
    (Some ''output_path'')
    (strict_params
     [(''output_path'', described ''string''
       ''Destination path for the archive file to create (e.g. /tmp/backup.tar.gz).''),
      (''sources'', JObj [(''type'', JStr ''array''), (''items'', typed ''string''), (''description'', JStr ''List of file or directory paths to include in the archive.'')])]
     [''output_path'', ''sources''])
    (result_object
     [(''output_path'', described ''string'' ''Absolute path to the created archive.''),
      (''size_bytes'', described ''number'' ''Size of the created archive in bytes.'')])"

definition archiveExtractManifest :: json where
  "archiveExtractManifest = manifest ''archive_extract'' ''1.0.0'' ''archive.extract'' ''medium''
    ''per_request'' (Some ''destination'')
    (strict_params
     [(''archive_path'', described ''string'' ''Path to the archive file to extract.''),
      (''destination'', described ''string'' ''Directory to extract the archive contents into.'')]
     [''archive_path'', ''destination''])
    (result_object
     [(''destination'', described ''string'' ''Absolute path to the directory where files were extracted.''),
      (''extracted_count'', described ''number'' ''Number of entries extracted from the archive.'')])"

definition archiveListManifest :: json where
  "archiveListManifest = manifest ''archive_list'' ''1.0.0'' ''archive.read'' ''low'' ''none'' (Some ''archive_path'')
    (strict_params
     [(''archive_path'', described ''string'' ''Path to the archive file whose contents should be listed.'')]
     [''archive_path''])
    (result_object
     [(''archive_path'', described ''string'' ''Absolute path to the archive file.''),
      (''entries'', JObj [(''type'', JStr ''array''), (''items'', typed ''string''), (''description'', JStr ''List of file and directory paths contained in the archive.'')])])"

definition callWebhookManifest :: json where
  "callWebhookManifest = manifest ''call_webhook'' ''1.1.0'' ''communication.webhook'' ''medium''
    ''per_request'' (Some ''url'')
    (strict_params
     [(''url'', described ''string'' ''Webhook endpoint URL.''),
      (''method'', JObj [(''type'', JStr ''string''), (''description'', JStr ''HTTP method to use. Defaults to POST.''),
        (''enum'', texts [''GET'', ''POST'', ''PUT'', ''PATCH'', ''DELETE''])]),
      (''payload'', JObj [(''type'', JStr ''object''), (''description'', JStr ''JSON payload to include in the request body (POST, PUT, PATCH). Ignored for GET and DELETE.''),
        (''additionalProperties'', JBool True)]),
      (''headers'', JObj [(''type'', JStr ''object''), (''description'', JStr ''Optional HTTP headers to include in the request.''),
        (''additionalProperties'', typed ''string'')])]
     [''url''])
    (result_object
     [(''status_code'', described ''number'' ''HTTP response status code from the webhook endpoint.''),
      (''response_body'', described ''string'' ''Response body returned by the webhook endpoint.''),
      (''content_type'', described ''string'' ''Value of the Content-Type response header, if present.'')])"

definition checkExistsManifest :: json where
  "checkExistsManifest = manifest ''check_exists'' ''1.0.0'' ''filesystem.read'' ''low'' ''none'' None
    (strict_params
     [(''path'', described ''string'' ''Absolute path to check for existence.'')]
     [''path''])
    (result_object
     [(''exists'', described ''boolean'' ''Whether the path exists in the filesystem.'')])"

definition chmodPathManifest :: json where
  "chmodPathManifest = manifest ''chmod_path'' ''1.0.0'' ''permissions.modify'' ''high'' ''per_request'' (Some ''path'')
    (strict_params
     [(''path'', JObj [(''type'', JStr ''string''), (''minLength'', JNum 1), (''description'', JStr ''Filesystem path to chmod. Passed verbatim to chmod via spawnSync.'')]),
      (''mode'', JObj [(''type'', JStr ''string''), (''minLength'', JNum 1), (''pattern'', JStr (''^[0-7]{3,4}$|^[ugoa]*[+''
        @ [CHR 0x5C] @ ''-=][rwxXst]+(,[ugoa]*[+'' @ [CHR 0x5C] @ ''-=][rwxXst]+)*$'')), (''description'', JStr ''Mode in numeric (e.g. \"755\", \"0644\") or symbolic (e.g. \"u+x\", \"go-w\", \"a=r,u+x\") form.'')]),
      (''recursive'', described ''boolean'' ''When true, pass -R to chmod for recursive application.'')]
     [''path'', ''mode''])
    (result_object
     [(''stdout'', described ''string'' ''Standard output from chmod.''),
      (''stderr'', described ''string'' ''Standard error from chmod.''),
      (''exit_code'', described ''number'' ''Exit code from chmod.'')])"

definition chownPathManifest :: json where
  "chownPathManifest = manifest ''chown_path'' ''1.0.0'' ''permissions.modify'' ''high'' ''per_request'' (Some ''path'')
    (strict_params
     [(''path'', JObj [(''type'', JStr ''string''), (''minLength'', JNum 1), (''description'', JStr ''Filesystem path to chown. Passed verbatim to chown via spawnSync.'')]),
      (''owner'', JObj [(''type'', JStr ''string''), (''minLength'', JNum 1), (''description'', JStr ''Owner spec. One of: \"user\", \"user:group\", \"user:\", \":group\". Identifiers are POSIX-portable names or numeric uid/gid.'')]),
      (''recursive'', described ''boolean'' ''When true, pass -R to chown for recursive application.'')]
     [''path'', ''owner''])
    (result_object
     [(''stdout'', described ''string'' ''Standard output from chown.''),
      (''stderr'', described ''string'' ''Standard error from chown.''),
      (''exit_code'', described ''number'' ''Exit code from chown.'')])"

definition copyFileManifest :: json where
  "copyFileManifest = manifest ''copy_file'' ''1.0.0'' ''filesystem.write'' ''medium'' ''per_request'' None
    (strict_params
     [(''from'', described ''string'' ''Path of the source file to copy.''),
      (''to'', described ''string'' ''Path of the destination file.'')]
     [''from'', ''to''])
    (result_object
     [(''from'', described ''string'' ''Absolute path of the source file.''),
      (''to'', described ''string'' ''Absolute path of the destination file.'')])"

definition createDirectoryManifest :: json where
  "createDirectoryManifest = manifest ''create_directory'' ''1.0.0'' ''filesystem.write'' ''medium''
    ''per_request'' None
    (strict_params
     [(''path'', described ''string''
       ''Path of the directory to create. Parent directories are created automatically.'')]
     [''path''])
    (result_object
     [(''path'', described ''string'' ''Absolute path of the created (or already existing) directory.'')])"

definition crontabInstallFromFileManifest :: json where
  "crontabInstallFromFileManifest = manifest ''crontab_install_from_file'' ''1.0.0'' ''scheduling.persist''
    ''high'' ''per_request'' (Some ''file_path'')
    (strict_params
     [(''file_path'', JObj [(''type'', JStr ''string''), (''minLength'', JNum 1), (''description'', JStr ''Path to the crontab file to install.'')]),
      (''replace_confirm'', JObj [(''type'', JStr ''boolean''), (''const'', JBool True), (''description'',
        JStr (''Mandatory confirmation flag. Must be exactly true. Acknowledges that this REPLACES the user'' @
        [CHR 0x27] @ ''s entire crontab.''))]),
      (''user'', JObj [(''type'', JStr ''string''), (''minLength'', JNum 1), (''maxLength'', JNum 32), (''pattern'',
        JStr ''^[a-z_][a-z0-9_-]*$''), (''description'', JStr ''Optional target username (-u <user>).'')])]
     [''file_path'', ''replace_confirm''])
    (result_object
     [(''stdout'', described ''string'' ''Standard output from crontab.''),
      (''stderr'', described ''string'' ''Standard error from crontab.''),
      (''exit_code'', described ''number'' ''Exit code from crontab.'')])"

definition crontabListManifest :: json where
  "crontabListManifest = manifest ''crontab_list'' ''1.0.0'' ''scheduling.persist'' ''high'' ''per_request''
    None
    (strict_params
     [(''user'', JObj [(''type'', JStr ''string''), (''minLength'', JNum 1), (''maxLength'', JNum 32), (''pattern'',
       JStr ''^[a-z_][a-z0-9_-]*$''), (''description'', JStr ''Optional username (POSIX-portable). Defaults to the calling user.'')])]
     [])
    (result_object
     [(''stdout'', described ''string'' ''Standard output from crontab.''),
      (''stderr'', described ''string'' ''Standard error from crontab.''),
      (''exit_code'', described ''number'' ''Exit code from crontab.'')])"

definition crontabRemoveManifest :: json where
  "crontabRemoveManifest = manifest ''crontab_remove'' ''1.0.0'' ''scheduling.persist'' ''high'' ''per_request''
    None
    (strict_params
     [(''user'', JObj [(''type'', JStr ''string''), (''minLength'', JNum 1), (''maxLength'', JNum 32), (''pattern'',
       JStr ''^[a-z_][a-z0-9_-]*$''), (''description'', JStr ''Optional target username. Defaults to the calling user when omitted.'')])]
     [])
    (result_object
     [(''stdout'', described ''string'' ''Standard output from crontab.''),
      (''stderr'', described ''string'' ''Standard error from crontab.''),
      (''exit_code'', described ''number'' ''Exit code from crontab.'')])"

definition deleteFileManifest :: json where
  "deleteFileManifest = manifest ''delete_file'' ''1.0.0'' ''filesystem.delete'' ''high'' ''per_request'' None
    (strict_params
     [(''path'', described ''string'' ''Path of the file or directory to delete.''),
      (''recursive'', described ''boolean''
        ''When true, recursively delete a non-empty directory and all its contents. Must be explicitly set to true to enable recursive deletion; omitting or setting false rejects non-empty directories.'')]
     [''path''])
    (result_object
     [(''path'', described ''string'' ''Absolute path of the deleted file or directory.'')])"

definition dockerPushManifest :: json where
  "dockerPushManifest = manifest ''docker_push'' ''1.0.0'' ''cluster.write'' ''high'' ''per_request'' (Some ''image'')
    (strict_params
     [(''image'', JObj [(''type'', JStr ''string''), (''minLength'', JNum 1), (''description'', JStr ''Docker image reference (e.g. \"myapp:1.0\", \"ghcr.io/team/app:tag\").'')]),
      (''registry'', JObj [(''type'', JStr ''string''), (''minLength'', JNum 1), (''description'', JStr ''Optional registry hostname. Prepended to the image when the image does not already begin with it.'')]),
      (''all_tags'', described ''boolean''
        ''When true, pass --all-tags to docker push. Mutually exclusive with a tagged image reference.'')]
     [''image''])
    (result_object
     [(''stdout'', described ''string'' ''Standard output from docker.''),
      (''stderr'', described ''string'' ''Standard error from docker.''),
      (''exit_code'', described ''number'' ''Exit code from docker.'')])"

definition dockerRunManifest :: json where
  "dockerRunManifest = manifest ''docker_run'' ''1.0.0'' ''code.execute'' ''high'' ''per_request'' (Some ''image'')
    (strict_params
     [(''image'', described ''string''
       ''Docker image reference to run (e.g. \"ubuntu:22.04\", \"node:20-alpine\", \"registry.example.com/my/image:tag\"). Must be a valid image reference.''),
      (''command'', JObj [(''type'', JStr ''array''), (''items'', typed ''string''), (''description'', JStr ''Command to run inside the container. When omitted, the image default entrypoint/command is used.'')]),
      (''working_dir'', described ''string''
        ''Host working directory for the docker command. Defaults to the current directory.''),
      (''volumes'', JObj [(''type'', JStr ''array''), (''items'', typed ''string''), (''description'', JStr ''Volume mount specifications (e.g. [\"/host/path:/container/path\", \"/data:/data:ro\"]). Each entry is passed as -v to docker run.'')]),
      (''env'', JObj [(''type'', JStr ''array''), (''items'', typed ''string''), (''description'', JStr ''Environment variable assignments (e.g. [\"FOO=bar\", \"DEBUG=1\"]). Each entry is passed as -e to docker run.'')]),
      (''ports'', JObj [(''type'', JStr ''array''), (''items'', typed ''string''), (''description'', JStr ''Port mapping specifications (e.g. [\"8080:80\", \"443:443\"]). Each entry is passed as -p to docker run.'')]),
      (''network'', described ''string''
        ''Network mode for the container (e.g. \"bridge\", \"host\", \"none\", \"container:<name>\"). Passed as --network to docker run.''),
      (''rm'', described ''boolean''
        ''When true (default), pass --rm to automatically remove the container after it exits.''),
      (''user'', described ''string''
        ''Username or UID (optionally with group: \"user:group\") to run as inside the container. Passed as --user to docker run.''),
      (''entrypoint'', described ''string''
        ''Override the image default entrypoint. Passed as --entrypoint to docker run.''),
      (''platform'', described ''string''
        ''Target platform for the container (e.g. \"linux/amd64\", \"linux/arm64\"). Passed as --platform to docker run.'')]
     [''image''])
    (result_object
     [(''stdout'', described ''string'' ''Standard output captured from the container.''),
      (''stderr'', described ''string'' ''Standard error captured from the container.''),
      (''exit_code'', described ''number''
        ''Container exit code. Non-zero indicates the container exited with an error.'')])"

definition editFileManifest :: json where
  "editFileManifest = manifest ''edit_file'' ''1.0.0'' ''filesystem.write'' ''medium'' ''per_request'' None
    (strict_object
     [(''path'', described ''string'' ''Path to the file to edit.''),
      (''old_string'', described ''string'' ''The string to find and replace in the file.''),
      (''new_string'', described ''string'' ''The string to replace old_string with.'')])
    (result_object
     [(''path'', described ''string'' ''Absolute path of the modified file.'')])"

definition fetchUrlManifest :: json where
  "fetchUrlManifest = manifest ''fetch_url'' ''1.0.0'' ''web.fetch'' ''medium'' ''per_request'' (Some ''url'')
    (strict_params
     [(''url'', described ''string'' ''URL to fetch (http or https).''),
      (''headers'', JObj [(''type'', JStr ''object''), (''description'', JStr ''Optional HTTP request headers.''),
        (''additionalProperties'', typed ''string'')]),
      (''allowed_domains'', JObj [(''type'', JStr ''array''), (''description'', JStr ''Optional domain allowlist. When provided, the request hostname must match one of the listed domains exactly or as a subdomain.''),
        (''items'', typed ''string'')])]
     [''url''])
    (result_object
     [(''status_code'', described ''number'' ''HTTP response status code.''),
      (''body'', described ''string'' ''Raw response body text.''),
      (''content_type'', described ''string'' ''Value of the Content-Type response header, if present.''),
      (''final_url'', described ''string'' ''Final URL after redirects.''),
      (''content_length'', described ''number'' ''Content-Length in bytes, if the header was present.'')])"

definition findFilesManifest :: json where
  "findFilesManifest = manifest ''find_files'' ''1.0.0'' ''filesystem.read'' ''low'' ''none'' None
    (strict_params
     [(''pattern'', described ''string''
       ''Glob pattern to match against file paths relative to the search root. Supports * (any chars except /), ** (any path depth), ? (single char), and {a,b} alternation. Example: \"**/*.ts\".''),
      (''path'', described ''string''
        ''Absolute path of the directory to search. Defaults to the current working directory.'')]
     [''pattern''])
    (result_object
     [(''paths'', JObj [(''type'', JStr ''array''), (''items'', typed ''string''), (''description'', JStr ''Array of absolute file paths whose relative path matches the pattern.'')])])"

definition getEnvVarManifest :: json where
  "getEnvVarManifest = manifest ''get_env_var'' ''1.0.0'' ''system.read'' ''low'' ''none'' (Some ''variable_name'')
    (strict_params
     [(''variable_name'', described ''string''
       ''Name of the environment variable to read. Must contain only letters, digits, and underscores, and must start with a letter or underscore.'')]
     [''variable_name''])
    (result_object
     [(''variable_name'', described ''string'' ''Name of the environment variable that was queried.''),
      (''found'', described ''boolean'' ''Whether the variable is set in the process environment.''),
      (''value'', JObj [(''type'', texts [''string'', ''null'']), (''description'', JStr (''The variable'' @
        [CHR 0x27] @ ''s value, or null if not set.''))])])"

definition getSystemInfoManifest :: json where
  "getSystemInfoManifest = manifest ''get_system_info'' ''1.0.0'' ''system.read'' ''low'' ''none'' None
    (strict_params
     []
     [])
    (result_object
     [(''platform'', described ''string'' ''Operating system platform identifier (e.g. linux, darwin, win32).''),
      (''arch'', described ''string'' ''CPU architecture (e.g. x64, arm64).''),
      (''os_release'', described ''string'' ''OS release/kernel version string.''),
      (''hostname'', described ''string'' ''Machine hostname.''),
      (''node_version'', described ''string'' ''Node.js runtime version string.''),
      (''total_memory'', described ''number'' ''Total system memory in bytes.''),
      (''free_memory'', described ''number'' ''Free system memory in bytes.''),
      (''uptime'', described ''number'' ''System uptime in seconds.'')])"

definition gitAddManifest :: json where
  "gitAddManifest = manifest ''git_add'' ''1.0.0'' ''vcs.write'' ''medium'' ''per_request'' None
    (strict_params
     [(''paths'', JObj [(''type'', JStr ''array''), (''items'', JObj [(''type'', JStr ''string''), (''minLength'',
       JNum 1)]), (''minItems'', JNum 1), (''description'', JStr ''File paths or glob patterns to stage for commit.'')])]
     [''paths''])
    (result_object
     [(''stagedPaths'', JObj [(''type'', JStr ''array''), (''items'', typed ''string''), (''description'', JStr ''The paths that were passed to git add.'')])])"

definition gitBranchManifest :: json where
  "gitBranchManifest = manifest ''git_branch'' ''1.0.0'' ''vcs.write'' ''medium'' ''per_request'' (Some ''name'')
    (strict_params
     [(''name'', JObj [(''type'', JStr ''string''), (''minLength'', JNum 1), (''description'', JStr ''Name of the new branch to create.'')]),
      (''from'', JObj [(''type'', JStr ''string''), (''minLength'', JNum 1), (''description'', JStr ''Optional starting point (branch name, tag, or commit hash). Defaults to HEAD.'')])]
     [''name''])
    (result_object
     [(''name'', described ''string'' ''The name of the branch that was created.''),
      (''message'', described ''string'' ''Human-readable status message.'')])"

definition gitCheckoutManifest :: json where
  "gitCheckoutManifest = manifest ''git_checkout'' ''1.0.0'' ''vcs.write'' ''medium'' ''per_request'' (Some ''ref'')
    (strict_params
     [(''ref'', JObj [(''type'', JStr ''string''), (''minLength'', JNum 1), (''description'', JStr ''Branch name or commit hash to check out.'')])]
     [''ref''])
    (result_object
     [(''ref'', described ''string'' ''The ref that was checked out.''),
      (''message'', described ''string'' ''Human-readable status message from git checkout.'')])"

definition gitCloneManifest :: json where
  "gitCloneManifest = manifest ''git_clone'' ''1.0.0'' ''vcs.remote'' ''medium'' ''per_request'' (Some ''url'')
    (strict_params
     [(''url'', JObj [(''type'', JStr ''string''), (''minLength'', JNum 1), (''description'', JStr ''URL of the remote repository to clone (https://, git@, ssh://, git://, or file://).'')]),
      (''path'', JObj [(''type'', JStr ''string''), (''minLength'', JNum 1), (''description'', JStr ''Local filesystem path where the repository will be cloned. Must not already exist.'')])]
     [''url'', ''path''])
    (result_object
     [(''url'', described ''string'' ''The remote URL that was cloned.''),
      (''path'', described ''string'' ''The local path where the repository was cloned.''),
      (''message'', described ''string'' ''Human-readable status message.'')])"

definition gitCommitManifest :: json where
  "gitCommitManifest = manifest ''git_commit'' ''1.0.0'' ''vcs.write'' ''medium'' ''per_request'' None
    (strict_params
     [(''message'', JObj [(''type'', JStr ''string''), (''minLength'', JNum 1), (''description'', JStr ''Commit message.'')]),
      (''files'', JObj [(''type'', JStr ''array''), (''items'', JObj [(''type'', JStr ''string''), (''minLength'',
        JNum 1)]), (''description'', JStr ''Specific files to include in the commit. When omitted, all staged changes are committed.'')]),
      (''author'', JObj [(''type'', JStr ''string''), (''minLength'', JNum 1), (''description'', JStr ''Override the commit author in \"Name <email>\" format. Passed as --author= to git.'')]),
      (''sign'', described ''boolean'' ''When true, GPG-sign the commit (-S flag).'')]
     [''message''])
    (result_object
     [(''hash'', described ''string'' ''SHA-1 hash of the newly created commit.'')])"

definition gitDiffManifest :: json where
  "gitDiffManifest = manifest ''git_diff'' ''1.0.0'' ''vcs.read'' ''low'' ''none'' None
    (strict_object
     [(''ref'', described ''string''
       ''Commit ref to diff against. Omit to diff working tree against the index.''),
      (''path'', described ''string'' ''Restrict diff output to this file path.'')])
    (result_object
     [(''diff'', described ''string'' ''Unified diff output. Empty string when there are no differences.'')])"

definition gitLogManifest :: json where
  "gitLogManifest = manifest ''git_log'' ''1.0.0'' ''vcs.read'' ''low'' ''none'' None
    (strict_object
     [(''limit'', described ''number'' ''Maximum number of commits to return.''),
      (''path'', described ''string'' ''Restrict history to commits that touch this file path.'')])
    (result_object
     [(''commits'', JObj [(''type'', JStr ''array''), (''items'', JObj [(''type'', JStr ''object''), (''properties'',
       JObj [(''hash'', typed ''string''), (''message'', typed ''string''), (''author'', typed ''string''), (''date'',
       typed ''string'')])]), (''description'', JStr ''Ordered list of commits (newest first).'')])])"

definition gitMergeManifest :: json where
  "gitMergeManifest = manifest ''git_merge'' ''1.0.0'' ''vcs.write'' ''medium'' ''per_request'' (Some ''branch'')
    (strict_params
     [(''branch'', JObj [(''type'', JStr ''string''), (''minLength'', JNum 1), (''description'', JStr ''Name of the branch to merge into the current branch.'')])]
     [''branch''])
    (result_object
     [(''merged'', described ''boolean'' ''Whether the merge completed without conflicts.''),
      (''message'', described ''string'' ''Human-readable status message from git merge.'')])"

definition gitPushManifest :: json where
  "gitPushManifest = manifest ''git_push'' ''1.0.0'' ''vcs.remote'' ''medium'' ''per_request'' (Some ''remote'')
    (strict_params
     [(''remote'', JObj [(''type'', JStr ''string''), (''minLength'', JNum 1), (''description'', JStr ''Name of the remote to push to (e.g. \"origin\"). Uses the configured tracking remote when omitted.'')]),
      (''branch'', JObj [(''type'', JStr ''string''), (''minLength'', JNum 1), (''description'', JStr ''Local branch to push. Uses the currently checked-out branch when omitted.'')])]
     [])
    (result_object
     [(''pushed'', described ''boolean'' ''Whether the push completed successfully.''),
      (''remote'', described ''string'' ''Remote that was pushed to.''),
      (''branch'', described ''string'' ''Branch that was pushed.''),
      (''message'', described ''string'' ''Human-readable status message from git push.'')])"

definition gitResetManifest :: json where
  "gitResetManifest = manifest ''git_reset'' ''1.0.0'' ''vcs.write'' ''medium'' ''per_request'' (Some ''ref'')
    (strict_params
     [(''mode'', JObj [(''type'', JStr ''string''), (''enum'', texts [''soft'', ''mixed'', ''hard'']), (''description'',
       JStr ''Reset mode: soft (HEAD only), mixed (HEAD + index), or hard (HEAD + index + working tree).'')]),
      (''ref'', JObj [(''type'', JStr ''string''), (''minLength'', JNum 1), (''description'', JStr ''Commit reference (branch name, tag, or commit hash) to reset to.'')])]
     [''mode'', ''ref''])
    (result_object
     [(''mode'', described ''string'' ''The reset mode that was applied.''),
      (''ref'', described ''string'' ''The commit reference that was reset to.''),
      (''message'', described ''string'' ''Human-readable status message from git reset.''),
      (''warning'', described ''string''
        ''Present only for hard resets. Warns that uncommitted changes have been permanently discarded.'')])"

definition gitStatusManifest :: json where
  "gitStatusManifest = manifest ''git_status'' ''1.0.0'' ''vcs.read'' ''low'' ''none'' None
    (strict_object
     [])
    (result_object
     [(''staged'', JObj [(''type'', JStr ''array''), (''items'', typed ''string''), (''description'', JStr ''Files with changes staged for commit.'')]),
      (''unstaged'', JObj [(''type'', JStr ''array''), (''items'', typed ''string''), (''description'', JStr ''Files with changes in the working tree not yet staged.'')]),
      (''untracked'', JObj [(''type'', JStr ''array''), (''items'', typed ''string''), (''description'', JStr ''Files not tracked by git.'')])])"

definition grepFilesManifest :: json where
  "grepFilesManifest = manifest ''grep_files'' ''1.0.0'' ''filesystem.read'' ''low'' ''none'' None
    (strict_params
     [(''pattern'', described ''string''
       ''Regular expression pattern to search for in file contents. Supports standard JavaScript regex syntax.''),
      (''path'', described ''string''
        ''Absolute path of the directory to search. Defaults to the current working directory.''),
      (''glob'', described ''string''
        ''Optional glob pattern to filter which files are searched. Supports * (any chars except /), ** (any path depth), ? (single char), and {a,b} alternation. When omitted, all files are searched.'')]
     [''pattern''])
    (result_object
     [(''matches'', JObj [(''type'', JStr ''array''), (''items'', JObj [(''type'', JStr ''object''), (''properties'',
       JObj [(''file'', typed ''string''), (''line'', typed ''number''), (''content'', typed ''string'')])]), (''description'',
       JStr ''Array of matches. Each entry has file (absolute path), line (1-based), and content (matched line text).'')])])"

definition httpDeleteManifest :: json where
  "httpDeleteManifest = manifest ''http_delete'' ''1.0.0'' ''web.post'' ''medium'' ''per_request'' (Some ''url'')
    (strict_params
     [(''url'', described ''string'' ''URL of the resource to delete.''),
      (''headers'', JObj [(''type'', JStr ''object''), (''description'', JStr ''Optional HTTP request headers as key-value pairs.''),
        (''additionalProperties'', typed ''string'')])]
     [''url''])
    (result_object
     [(''status_code'', described ''number'' ''HTTP response status code.''),
      (''body'', described ''string'' ''Response body as a UTF-8 string.'')])"

definition httpGetManifest :: json where
  "httpGetManifest = manifest ''http_get'' ''1.0.0'' ''web.fetch'' ''medium'' ''per_request'' (Some ''url'')
    (strict_params
     [(''url'', described ''string'' ''URL to send the GET request to.''),
      (''headers'', JObj [(''type'', JStr ''object''), (''description'', JStr ''Optional HTTP request headers as key-value pairs.''),
        (''additionalProperties'', typed ''string'')])]
     [''url''])
    (result_object
     [(''status_code'', described ''number'' ''HTTP response status code.''),
      (''body'', described ''string'' ''Response body as a UTF-8 string.''),
      (''content_type'', described ''string'' ''Value of the Content-Type response header.'')])"

definition httpPatchManifest :: json where
  "httpPatchManifest = manifest ''http_patch'' ''1.0.0'' ''web.post'' ''medium'' ''per_request'' (Some ''url'')
    (strict_params
     [(''url'', described ''string'' ''URL to send the PATCH request to.''),
      (''body'', described ''string'' ''Partial update payload to send. Serialise JSON before passing.''),
      (''headers'', JObj [(''type'', JStr ''object''), (''description'', JStr ''Optional HTTP request headers as key-value pairs.''),
        (''additionalProperties'', typed ''string'')])]
     [''url''])
    (result_object
     [(''status_code'', described ''number'' ''HTTP response status code.''),
      (''body'', described ''string'' ''Response body as a UTF-8 string.'')])"

definition httpPostManifest :: json where
  "httpPostManifest = manifest ''http_post'' ''1.0.0'' ''web.post'' ''medium'' ''per_request'' (Some ''url'')
    (strict_params
     [(''url'', described ''string'' ''URL to send the POST request to.''),
      (''body'', described ''string'' ''Request body to send. Serialise JSON before passing.''),
      (''headers'', JObj [(''type'', JStr ''object''), (''description'', JStr ''Optional HTTP request headers as key-value pairs.''),
        (''additionalProperties'', typed ''string'')])]
     [''url''])
    (result_object
     [(''status_code'', described ''number'' ''HTTP response status code.''),
      (''body'', described ''string'' ''Response body as a UTF-8 string.''),
      (''content_type'', described ''string'' ''Value of the Content-Type response header.'')])"

definition httpPutManifest :: json where
  "httpPutManifest = manifest ''http_put'' ''1.0.0'' ''web.post'' ''medium'' ''per_request'' (Some ''url'')
    (strict_params
     [(''url'', described ''string'' ''URL to send the PUT request to.''),
      (''body'', described ''string'' ''Request body to send. Serialise JSON before passing.''),
      (''headers'', JObj [(''type'', JStr ''object''), (''description'', JStr ''Optional HTTP request headers as key-value pairs.''),
        (''additionalProperties'', typed ''string'')])]
     [''url''])
    (result_object
     [(''status_code'', described ''number'' ''HTTP response status code.''),
      (''body'', described ''string'' ''Response body as a UTF-8 string.'')])"

definition killProcessManifest :: json where
  "killProcessManifest = manifest ''kill_process'' ''1.0.0'' ''process.signal'' ''high'' ''per_request'' (Some ''pid'')
    (strict_params
     [(''pid'', JObj [(''type'', JStr ''integer''), (''minimum'', JNum 0), (''description'', JStr ''Target process id. Must be a non-negative integer. Note: pid 1 (init) is structurally accepted; HITL approval is the gate against killing init.'')]),
      (''signal'', JObj [(''type'', JStr ''string''), (''enum'', texts [''TERM'', ''KILL'', ''HUP'', ''INT'',
        ''USR1'', ''USR2'']), (''description'', JStr ''Signal to deliver. Defaults to TERM if omitted. KILL must be explicitly specified.'')])]
     [''pid''])
    (result_object
     [(''stdout'', described ''string'' ''Standard output from kill.''),
      (''stderr'', described ''string'' ''Standard error from kill.''),
      (''exit_code'', described ''number'' ''Exit code from kill.'')])"

definition kubectlApplyManifest :: json where
  "kubectlApplyManifest = manifest ''kubectl_apply'' ''1.0.0'' ''cluster.write'' ''high'' ''per_request'' (Some ''manifest_path'')
    (strict_params
     [(''manifest_path'', JObj [(''type'', JStr ''string''), (''minLength'', JNum 1), (''description'', JStr ''Path to a manifest file or directory of manifests.'')]),
      (''namespace'', JObj [(''type'', JStr ''string''), (''minLength'', JNum 1), (''maxLength'', JNum 63), (''description'',
        JStr ''Optional namespace. Defaults to the namespace declared in the manifest.'')]),
      (''dry_run'', described ''boolean'' ''When true, pass --dry-run=client.'')]
     [''manifest_path''])
    (result_object
     [(''stdout'', described ''string'' ''Standard output from kubectl.''),
      (''stderr'', described ''string'' ''Standard error from kubectl.''),
      (''exit_code'', described ''number'' ''Exit code from kubectl.'')])"

definition kubectlDeleteManifest :: json where
  "kubectlDeleteManifest = manifest ''kubectl_delete'' ''1.0.0'' ''cluster.write'' ''high'' ''per_request''
    (Some ''name'')
    (strict_params
     [(''resource'', JObj [(''type'', JStr ''string''), (''minLength'', JNum 1), (''maxLength'', JNum 128), (''pattern'',
       JStr (''^[a-z][a-z0-9.'' @ [CHR 0x5C] @ ''-/]*$'')), (''description'', JStr ''Kubernetes resource type (e.g. \"pods\", \"deployments.apps\").'')]),
      (''name'', JObj [(''type'', JStr ''string''), (''minLength'', JNum 1), (''maxLength'', JNum 253), (''description'',
        JStr ''Resource name (DNS-1123 subdomain). Required.'')]),
      (''namespace'', JObj [(''type'', JStr ''string''), (''minLength'', JNum 1), (''maxLength'', JNum 63), (''description'',
        JStr ''Optional namespace (DNS-1123 label).'')]),
      (''grace_period'', JObj [(''type'', JStr ''integer''), (''minimum'', JNum 0), (''description'', JStr ''Optional grace period in seconds (--grace-period=<n>).'')])]
     [''resource'', ''name''])
    (result_object
     [(''stdout'', described ''string'' ''Standard output from kubectl.''),
      (''stderr'', described ''string'' ''Standard error from kubectl.''),
      (''exit_code'', described ''number'' ''Exit code from kubectl.'')])"

definition kubectlGetManifest :: json where
  "kubectlGetManifest = manifest ''kubectl_get'' ''1.0.0'' ''cluster.read'' ''low'' ''per_request'' (Some ''resource'')
    (strict_params
     [(''resource'', JObj [(''type'', JStr ''string''), (''minLength'', JNum 1), (''maxLength'', JNum 128), (''pattern'',
       JStr (''^[a-z][a-z0-9.'' @ [CHR 0x5C] @ ''-/]*$'')), (''description'', JStr ''Kubernetes resource type (e.g. \"pods\", \"deployments.apps\").'')]),
      (''name'', JObj [(''type'', JStr ''string''), (''minLength'', JNum 1), (''maxLength'', JNum 253), (''description'',
        JStr ''Optional resource name (DNS-1123 subdomain).'')]),
      (''namespace'', JObj [(''type'', JStr ''string''), (''minLength'', JNum 1), (''maxLength'', JNum 63), (''description'',
        JStr ''Optional namespace (DNS-1123 label). Defaults to the current kubectl context.'')]),
      (''output'', JObj [(''type'', JStr ''string''), (''enum'', texts [''yaml'', ''json'', ''wide'', ''name'']),
        (''description'', JStr ''Optional output format passed as -o.'')])]
     [''resource''])
    (result_object
     [(''stdout'', described ''string'' ''Standard output from kubectl.''),
      (''stderr'', described ''string'' ''Standard error from kubectl.''),
      (''exit_code'', described ''number'' ''Exit code from kubectl.'')])"

definition kubectlRolloutManifest :: json where
  "kubectlRolloutManifest = manifest ''kubectl_rollout'' ''1.0.0'' ''cluster.write'' ''high'' ''per_request''
    (Some ''name'')
    (strict_params
     [(''action'', JObj [(''type'', JStr ''string''), (''enum'', texts [''status'', ''restart'', ''undo'']), (''description'',
       JStr ''Rollout action: status, restart, or undo.'')]),
      (''resource'', JObj [(''type'', JStr ''string''), (''minLength'', JNum 1), (''maxLength'', JNum 128), (''pattern'',
        JStr (''^[a-z][a-z0-9.'' @ [CHR 0x5C] @ ''-/]*$'')), (''description'', JStr ''Kubernetes resource type (e.g. \"deployment\", \"daemonset\").'')]),
      (''name'', JObj [(''type'', JStr ''string''), (''minLength'', JNum 1), (''maxLength'', JNum 253), (''description'',
        JStr ''Resource name (DNS-1123 subdomain). Required.'')]),
      (''namespace'', JObj [(''type'', JStr ''string''), (''minLength'', JNum 1), (''maxLength'', JNum 63), (''description'',
        JStr ''Optional namespace (DNS-1123 label).'')])]
     [''action'', ''resource'', ''name''])
    (result_object
     [(''stdout'', described ''string'' ''Standard output from kubectl.''),
      (''stderr'', described ''string'' ''Standard error from kubectl.''),
      (''exit_code'', described ''number'' ''Exit code from kubectl.'')])"

definition listDirManifest :: json where
  "listDirManifest = manifest ''list_dir'' ''1.0.0'' ''filesystem.list'' ''low'' ''none'' None
    (strict_object
     [(''path'', described ''string'' ''Directory path to list.''),
      (''recursive'', described ''boolean''
        ''When true, recursively list all subdirectories. Defaults to false.'')])
    (result_object
     [(''entries'', JObj [(''type'', JStr ''array''), (''items'', typed ''string''), (''description'', JStr ''Array of file and directory names. In recursive mode, entries are relative paths (e.g. \"sub/file.txt\").'')])])"

definition listDirectoryManifest :: json where
  "listDirectoryManifest = manifest ''list_directory'' ''1.0.0'' ''filesystem.list'' ''low'' ''none'' None
    (strict_params
     [(''path'', described ''string'' ''Directory path to list.'')]
     [''path''])
    (result_object
     [(''path'', described ''string'' ''Absolute path of the directory that was listed.''),
      (''entries'', JObj [(''type'', JStr ''array''), (''items'', JObj [(''type'', JStr ''object''), (''properties'',
        JObj [(''name'', described ''string'' ''Name of the file or directory entry.''), (''type'', JObj [(''type'',
        JStr ''string''), (''enum'', texts [''file'', ''directory'']), (''description'', JStr ''Whether the entry is a file or a directory.'')]),
        (''size'', described ''number'' ''Size in bytes as reported by the filesystem.''), (''modified'',
        described ''string'' ''Last modification time as an ISO 8601 string.'')])]), (''description'', JStr ''Immediate children of the directory with basic metadata.'')])])"

definition listSecretsManifest :: json where
  "listSecretsManifest = manifest ''list_secrets'' ''1.0.0'' ''credential.list'' ''high'' ''per_request'' None
    (strict_object
     [(''store'', described ''string''
       ''Secret store identifier (e.g. \"env\"). Uses the default store when omitted.'')])
    (result_object
     [(''keys'', JObj [(''type'', JStr ''array''), (''items'', typed ''string''), (''description'', JStr ''Names of secrets present in the store. Values are never returned.'')])])"

definition makeDirManifest :: json where
  "makeDirManifest = manifest ''make_dir'' ''1.0.0'' ''filesystem.write'' ''medium'' ''per_request'' None
    (strict_params
     [(''path'', described ''string'' ''Path of the directory to create.'')]
     [''path''])
    (result_object
     [(''path'', described ''string'' ''Absolute path of the created (or already existing) directory.'')])"

definition makeRunManifest :: json where
  "makeRunManifest = manifest ''make_run'' ''1.0.0'' ''package.run'' ''medium'' ''per_request'' (Some ''target'')
    (strict_params
     [(''target'', described ''string''
       ''Name of the Make target to execute. Must be defined in the Makefile. Use an empty string or omit to run the default target.''),
      (''working_dir'', described ''string''
        ''Directory to run make in. Defaults to the current working directory. Equivalent to `make -C <working_dir>`.''),
      (''makefile'', described ''string''
        ''Path to the Makefile to use. Defaults to the standard \"Makefile\" in the working directory. Passed as `-f <makefile>` to make.''),
      (''jobs'', JObj [(''type'', JStr ''number''), (''description'', JStr ''Number of parallel jobs to run (passed as -j<n>). When set to 0, runs with unlimited parallelism (-j).''),
        (''minimum'', JNum 0)]),
      (''validate_target'', described ''boolean''
        ''When true (default), verify that the target exists in the Makefile before invoking make. Set to false to skip pre-flight validation.'')]
     [])
    (result_object
     [(''stdout'', described ''string'' ''Standard output captured from make.''),
      (''stderr'', described ''string'' ''Standard error captured from make.''),
      (''exit_code'', described ''number'' ''Process exit code. Non-zero indicates the build failed.'')])"

definition moveFileManifest :: json where
  "moveFileManifest = manifest ''move_file'' ''1.0.0'' ''filesystem.write'' ''medium'' ''per_request'' None
    (strict_params
     [(''from'', described ''string'' ''Path of the source file to move.''),
      (''to'', described ''string'' ''Path of the destination file.'')]
     [''from'', ''to''])
    (result_object
     [(''from'', described ''string'' ''Absolute path of the source file (now removed).''),
      (''to'', described ''string'' ''Absolute path of the destination file.'')])"

definition npmInstallManifest :: json where
  "npmInstallManifest = manifest ''npm_install'' ''1.0.0'' ''package.install'' ''medium'' ''per_request'' (Some ''packages'')
    (strict_params
     [(''packages'', JObj [(''type'', JStr ''array''), (''items'', typed ''string''), (''description'', JStr ''Package names to install (e.g. [\"lodash\", \"typescript@5\"]). Installs from package.json when omitted.'')]),
      (''working_dir'', described ''string''
        ''Directory to run npm install in. Defaults to the current working directory.''),
      (''flags'', JObj [(''type'', JStr ''array''), (''items'', typed ''string''), (''description'', JStr ''Additional npm install flags (e.g. [\"--save-dev\", \"--global\", \"--package-lock-only\"]).'')])]
     [])
    (result_object
     [(''stdout'', described ''string'' ''Standard output from npm install.''),
      (''stderr'', described ''string'' ''Standard error from npm install.''),
      (''exit_code'', described ''number'' ''Process exit code. Non-zero indicates npm reported an error.'')])"

definition npmRunManifest :: json where
  "npmRunManifest = manifest ''npm_run'' ''1.0.0'' ''package.run'' ''medium'' ''per_request'' (Some ''script'')
    (strict_params
     [(''script'', described ''string''
       ''Name of the npm script to execute (must be defined in package.json \"scripts\").''),
      (''working_dir'', described ''string''
        ''Directory to run the script in. Defaults to the current working directory.''),
      (''args'', JObj [(''type'', JStr ''array''), (''items'', typed ''string''), (''description'', JStr ''Additional arguments to pass after `--` to the script.'')]),
      (''silent'', described ''boolean'' ''When true, pass `--silent` to suppress npm lifecycle output.'')]
     [''script''])
    (result_object
     [(''stdout'', described ''string'' ''Standard output captured from the script.''),
      (''stderr'', described ''string'' ''Standard error captured from the script.''),
      (''exit_code'', described ''number'' ''Process exit code. Non-zero indicates the script failed.'')])"

definition npmRunBuildManifest :: json where
  "npmRunBuildManifest = manifest ''npm_run_build'' ''1.0.0'' ''build.compile'' ''medium'' ''per_request'' None
    (strict_params
     [(''working_dir'', described ''string''
       ''Directory to run the build in. Defaults to the current working directory.''),
      (''script'', described ''string'' ''npm script name to use for the build step. Defaults to \"build\".'')]
     [])
    (result_object
     [(''stdout'', described ''string'' ''Standard output captured from the build process.''),
      (''stderr'', described ''string'' ''Standard error captured from the build process.''),
      (''exit_code'', described ''number'' ''Process exit code. Non-zero indicates a build failure.'')])"

definition pipInstallManifest :: json where
  "pipInstallManifest = manifest ''pip_install'' ''1.0.0'' ''package.install'' ''medium'' ''per_request'' (Some ''packages'')
    (strict_params
     [(''packages'', JObj [(''type'', JStr ''array''), (''items'', typed ''string''), (''description'', JStr ''Package specifications to install (e.g. [\"requests\", \"django==4.2.0\", \"flask>=2.0,<3.0\", \"requests[security]\"]). At least one of \"packages\" or \"requirements\" must be provided.'')]),
      (''requirements'', described ''string''
        ''Path to a requirements.txt file. Resolved relative to working_dir when not absolute. Passed as `-r <path>` to pip.''),
      (''working_dir'', described ''string''
        ''Directory to run pip install in. Defaults to the current working directory.''),
      (''upgrade'', described ''boolean''
        ''When true, pass --upgrade to upgrade already-installed packages to the newest available version.''),
      (''user'', described ''boolean''
        ''When true, pass --user to install into the user site-packages directory instead of the system directory.''),
      (''index_url'', described ''string''
        ''Base URL of the Python Package Index. Overrides the default https://pypi.org/simple. Passed as --index-url <url>.''),
      (''extra_index_url'', described ''string''
        ''Extra URL of a package index to search in addition to the primary index. Passed as --extra-index-url <url>.'')]
     [])
    (result_object
     [(''stdout'', described ''string'' ''Standard output captured from pip.''),
      (''stderr'', described ''string'' ''Standard error captured from pip.''),
      (''exit_code'', described ''number'' ''Process exit code. Non-zero indicates pip reported an error.'')])"

definition pipListManifest :: json where
  "pipListManifest = manifest ''pip_list'' ''1.0.0'' ''package.read'' ''low'' ''none'' None
    (strict_params
     [(''format'', described ''string''
       ''Output format: \"columns\" (default), \"freeze\" (requirements.txt style), or \"json\".''),
      (''working_dir'', described ''string''
        ''Directory context for resolving the Python environment. Optional.'')]
     [])
    (result_object
     [(''packages'', JObj [(''type'', JStr ''array''), (''description'', JStr ''List of installed packages, each with name and version fields.''),
       (''items'', JObj [(''type'', JStr ''object''), (''properties'', JObj [(''name'', typed ''string''), (''version'',
       typed ''string'')])])])])"

definition pkillPatternManifest :: json where
  "pkillPatternManifest = manifest ''pkill_pattern'' ''1.0.0'' ''process.signal'' ''high'' ''per_request''
    (Some ''pattern'')
    (strict_params
     [(''pattern'', JObj [(''type'', JStr ''string''), (''minLength'', JNum 1), (''maxLength'', JNum 256), (''pattern'',
       JStr (''^[a-zA-Z0-9._'' @ [CHR 0x5C] @ ''-/^$+*?()|'' @ [CHR 0x5C] @ ''['' @ [CHR 0x5C] @ ''] ]+$'')), (''description'',
       JStr ''Process-name pattern. Passed verbatim to pkill. Allowed characters: letters, digits, hyphens, dots, underscores, slashes, spaces, and a curated set of regex metacharacters (^ $ + * ? ( ) | [ ]).'')]),
      (''signal'', JObj [(''type'', JStr ''string''), (''enum'', texts [''TERM'', ''KILL'', ''HUP'', ''INT'',
        ''USR1'', ''USR2'']), (''description'', JStr ''Signal to deliver. Defaults to TERM.'')]),
      (''full_match'', described ''boolean''
        ''When true, pass -f to pkill so the pattern matches against the full command line rather than the process name.'')]
     [''pattern''])
    (result_object
     [(''stdout'', described ''string'' ''Standard output from pkill.''),
      (''stderr'', described ''string'' ''Standard error from pkill.''),
      (''exit_code'', described ''number'' ''Exit code from pkill.'')])"

definition postMessageManifest :: json where
  "postMessageManifest = manifest ''post_message'' ''1.0.0'' ''communication.slack'' ''medium'' ''per_request''
    None
    (strict_params
     [(''platform'', JObj [(''type'', JStr ''string''), (''description'', JStr ''Target communication platform. Currently only \"slack\" is supported.''),
       (''enum'', texts [''slack''])]),
      (''message'', described ''string'' ''Message text to post. Supports platform-native formatting.''),
      (''channel'', described ''string''
        ''Channel or recipient (e.g. \"#general\" or Slack channel ID \"C01234ABCDE\").''),
      (''thread_ts'', described ''string'' ''Timestamp of the parent message to reply in a thread. Optional.'')]
     [''platform'', ''message'', ''channel''])
    (result_object
     [(''message_id'', described ''string''
       ''Unique message identifier returned by the platform (Slack message timestamp).''),
      (''posted'', described ''boolean'' ''Whether the message was successfully posted.'')])"

definition pytestManifest :: json where
  "pytestManifest = manifest ''pytest'' ''1.0.0'' ''build.test'' ''low'' ''none'' (Some ''test_paths'')
    (strict_params
     [(''test_paths'', JObj [(''type'', JStr ''array''), (''items'', typed ''string''), (''description'', JStr ''Paths to test files or directories to collect and run. When omitted, pytest discovers tests from the current directory.'')]),
      (''working_dir'', described ''string''
        ''Directory to run pytest in. Defaults to the current working directory.''),
      (''markers'', described ''string''
        ''Marker expression for test selection (passed as -m). Example: \"unit and not slow\".''),
      (''keyword'', described ''string''
        ''Keyword expression for test selection (passed as -k). Example: \"test_login or test_logout\".''),
      (''verbose'', described ''boolean'' ''When true, pass -v to increase verbosity.''),
      (''collect_only'', described ''boolean''
        ''When true, pass --collect-only to list discovered tests without executing them.''),
      (''args'', JObj [(''type'', JStr ''array''), (''items'', typed ''string''), (''description'', JStr ''Additional arguments to pass verbatim to pytest.'')])]
     [])
    (result_object
     [(''stdout'', described ''string'' ''Standard output from pytest.''),
      (''stderr'', described ''string'' ''Standard error from pytest.''),
      (''exit_code'', described ''number''
        ''Process exit code. 0 = all tests passed, 1 = test failures, 2 = interrupted, 3 = internal error, 4 = usage error, 5 = no tests collected.'')])"

definition readFileManifest :: json where
  "readFileManifest = manifest ''read_file'' ''1.0.0'' ''filesystem.read'' ''low'' ''none'' None
    (strict_params
     [(''path'', described ''string'' ''Path to the file to read.'')]
     [''path''])
    (result_object
     [(''content'', described ''string'' ''UTF-8 text content of the file.'')])"

definition readFilesBatchManifest :: json where
  "readFilesBatchManifest = manifest ''read_files_batch'' ''1.0.0'' ''filesystem.read'' ''low'' ''none'' None
    (strict_params
     [(''paths'', JObj [(''type'', JStr ''array''), (''items'', typed ''string''), (''description'', JStr ''List of file paths to read.'')])]
     [''paths''])
    (result_object
     [(''results'', described ''object''
       ''Mapping of each requested path to its read result. Each value is either { status: \"ok\", content: string } or { status: \"error\", code: string, message: string }.'')])"

definition readSecretManifest :: json where
  "readSecretManifest = manifest ''read_secret'' ''1.0.0'' ''credential.read'' ''high'' ''per_request'' (Some ''key'')
    (strict_params
     [(''key'', described ''string'' ''Name or identifier of the secret to retrieve.''),
      (''store'', described ''string''
        ''Secret store identifier (e.g. \"vault\", \"aws-secrets-manager\"). Uses the default store when omitted.'')]
     [''key''])
    (result_object
     [(''value'', described ''string'' ''The secret value retrieved from the store.'')])"

definition rebootManifest :: json where
  "rebootManifest = manifest ''reboot'' ''1.0.0'' ''system.service'' ''critical'' ''per_request'' None
    (strict_params
     [(''confirm'', JObj [(''type'', JStr ''boolean''), (''const'', JBool True), (''description'', JStr ''Mandatory confirmation flag. Must be exactly true. Structural barrier against accidental host reboots.'')])]
     [''confirm''])
    (result_object
     [(''stdout'', described ''string'' ''Standard output captured from the reboot binary.''),
      (''stderr'', described ''string'' ''Standard error captured from the reboot binary.''),
      (''exit_code'', described ''number''
        ''Exit code from the reboot binary. May be unobservable in practice - the host is going down.'')])"

definition rotateSecretManifest :: json where
  "rotateSecretManifest = manifest ''rotate_secret'' ''1.0.0'' ''credential.rotate'' ''critical''
    ''per_request'' (Some ''key'')
    (strict_params
     [(''key'', described ''string'' ''Name or identifier of the secret to rotate.''),
      (''store'', described ''string''
        ''Secret store identifier (e.g. \"vault\", \"aws-secrets-manager\"). Uses the default store when omitted.'')]
     [''key''])
    (result_object
     [(''rotated'', described ''boolean'' ''Whether the secret was successfully rotated.''),
      (''key'', described ''string'' ''The key whose value was rotated.'')])"

definition runCodeManifest :: json where
  "runCodeManifest = manifest ''run_code'' ''1.0.0'' ''code.execute'' ''high'' ''per_request'' None
    (strict_params
     [(''language'', described ''string''
       ''Programming language to execute the code in (e.g. \"python\", \"javascript\", \"bash\").''),
      (''code'', described ''string'' ''Source code to execute.''),
      (''timeout_ms'', described ''number''
        ''Maximum execution time in milliseconds. Uses a safe default when omitted.'')]
     [''language'', ''code''])
    (result_object
     [(''stdout'', described ''string'' ''Standard output captured from code execution.''),
      (''stderr'', described ''string'' ''Standard error captured from code execution.''),
      (''exit_code'', described ''number'' ''Process exit code. Non-zero indicates a runtime error.'')])"

definition runLinterManifest :: json where
  "runLinterManifest = manifest ''run_linter'' ''1.0.0'' ''build.lint'' ''low'' ''none'' None
    (strict_params
     [(''working_dir'', described ''string''
       ''Directory to run the linter in. Defaults to the current working directory.''),
      (''paths'', JObj [(''type'', JStr ''array''), (''items'', typed ''string''), (''description'', JStr ''File or directory paths to lint. Lints the entire project when omitted.'')]),
      (''fix'', described ''boolean'' ''Auto-fix violations when the linter supports it. Defaults to false.'')]
     [])
    (result_object
     [(''violations'', described ''number'' ''Total number of lint violations found.''),
      (''stdout'', described ''string'' ''Standard output captured from the linter.''),
      (''stderr'', described ''string'' ''Standard error captured from the linter.'')])"

definition runTestsManifest :: json where
  "runTestsManifest = manifest ''run_tests'' ''1.0.0'' ''build.test'' ''low'' ''none'' None
    (strict_params
     [(''working_dir'', described ''string''
       ''Directory to run tests in. Defaults to the current working directory.''),
      (''pattern'', described ''string''
        ''Test file glob pattern or test name filter. Runs the full suite when omitted.''),
      (''runner'', described ''string''
        ''Test runner to invoke (e.g. \"vitest\", \"jest\", \"pytest\"). Inferred from package.json when omitted.'')]
     [])
    (result_object
     [(''passed'', described ''number'' ''Number of tests that passed.''),
      (''failed'', described ''number'' ''Number of tests that failed.''),
      (''total'', described ''number'' ''Total number of tests executed.''),
      (''stdout'', described ''string'' ''Standard output captured from the test runner.''),
      (''stderr'', described ''string'' ''Standard error captured from the test runner.'')])"

definition scrapePageManifest :: json where
  "scrapePageManifest = manifest ''scrape_page'' ''1.0.0'' ''browser.scrape'' ''medium'' ''per_request'' (Some ''url'')
    (strict_params
     [(''url'', described ''string'' ''URL to scrape (http or https).''),
      (''selectors'', JObj [(''type'', JStr ''array''), (''description'', JStr ''Optional CSS selectors to extract content from the page. Each selector returns the count and text of matched elements.''),
        (''items'', typed ''string'')]),
      (''headers'', JObj [(''type'', JStr ''object''), (''description'', JStr ''Optional HTTP request headers.''),
        (''additionalProperties'', typed ''string'')]),
      (''allowed_domains'', JObj [(''type'', JStr ''array''), (''description'', JStr ''Optional domain allowlist. When provided, the request hostname must match one of the listed domains exactly or as a subdomain.''),
        (''items'', typed ''string'')])]
     [''url''])
    (result_object
     [(''url'', described ''string'' ''Final URL after redirects.''),
      (''title'', described ''string'' ''Page title from the <title> tag, or an empty string if not found.''),
      (''text'', described ''string'' ''Trimmed plain text of the entire page body.''),
      (''elements'', JObj [(''type'', JStr ''array''), (''description'', JStr ''Selector results, one entry per requested CSS selector.''),
        (''items'', JObj [(''type'', JStr ''object''), (''properties'', JObj [(''selector'', described
        ''string'' ''CSS selector that was evaluated.''), (''count'', described ''number''
        ''Number of elements matched.''), (''texts'', JObj [(''type'', JStr ''array''), (''description'', JStr ''Trimmed text content of each matched element.''),
        (''items'', typed ''string'')])])])])])"

definition searchWebManifest :: json where
  "searchWebManifest = manifest ''search_web'' ''1.0.0'' ''web.search'' ''medium'' ''per_request'' (Some ''query'')
    (strict_params
     [(''query'', described ''string'' ''Search query string to submit to the search provider.''),
      (''limit'', described ''number'' ''Maximum number of results to return. Defaults to 10.'')]
     [''query''])
    (result_object
     [(''results'', JObj [(''type'', JStr ''array''), (''description'', JStr ''Ranked list of search results.''),
       (''items'', JObj [(''type'', JStr ''object''), (''properties'', JObj [(''rank'', described ''number''
       ''1-based rank position.''), (''title'', described ''string'' ''Page title.''), (''url'', described
       ''string'' ''URL of the result.''), (''snippet'', described ''string''
       ''Short text excerpt from the page.'')])])]),
      (''query'', described ''string'' ''The search query that was submitted.''),
      (''provider'', described ''string'' ''Search provider used (google or bing).'')])"

definition sendEmailManifest :: json where
  "sendEmailManifest = manifest ''send_email'' ''1.0.0'' ''communication.email'' ''high'' ''per_request'' None
    (strict_params
     [(''to'', described ''string''
       ''Recipient email address. Use a comma-separated list for multiple recipients.''),
      (''subject'', described ''string'' ''Email subject line.''),
      (''body'', described ''string'' ''Email body content (plain text or HTML).''),
      (''from'', described ''string'' ''Sender email address. Uses the configured default when omitted.''),
      (''cc'', described ''string'' ''CC recipient email addresses as a comma-separated list. Optional.'')]
     [''to'', ''subject'', ''body''])
    (result_object
     [(''message_id'', described ''string'' ''Unique message identifier assigned by the mail server.''),
      (''sent'', described ''boolean'' ''Whether the email was accepted for delivery.'')])"

definition sendNotificationManifest :: json where
  "sendNotificationManifest = manifest ''send_notification'' ''1.0.0'' ''communication.webhook'' ''medium''
    ''per_request'' (Some ''url'')
    (strict_params
     [(''platform'', JObj [(''type'', JStr ''string''), (''description'', JStr ''Target notification platform. Controls webhook payload formatting. Supported: \"slack\", \"discord\", \"teams\", \"generic\".''),
       (''enum'', texts [''slack'', ''discord'', ''teams'', ''generic''])]),
      (''message'', described ''string'' ''Notification message text to deliver.''),
      (''url'', described ''string'' ''Webhook URL for the target platform (http or https).'')]
     [''platform'', ''message'', ''url''])
    (result_object
     [(''delivered'', described ''boolean'' ''Whether the notification was successfully delivered.''),
      (''status_code'', described ''number'' ''HTTP response status code from the webhook endpoint.'')])"

definition sendSlackManifest :: json where
  "sendSlackManifest = manifest ''send_slack'' ''1.0.0'' ''communication.slack'' ''medium'' ''per_request'' None
    (strict_params
     [(''channel'', described ''string''
       ''Slack channel ID (e.g. \"C01234ABCDE\") or name (e.g. \"#general\").''),
      (''text'', described ''string'' ''Message text to post. Supports Slack mrkdwn formatting.''),
      (''thread_ts'', described ''string'' ''Timestamp of the parent message to reply in a thread. Optional.''),
      (''username'', described ''string'' ''Bot display name override shown in the channel. Optional.'')]
     [''channel'', ''text''])
    (result_object
     [(''ts'', described ''string'' ''Timestamp of the posted message, used as a unique message identifier.''),
      (''channel'', described ''string'' ''Channel ID where the message was posted.'')])"

definition sendWebhookManifest :: json where
  "sendWebhookManifest = manifest ''send_webhook'' ''1.0.0'' ''communication.webhook'' ''medium''
    ''per_request'' (Some ''url'')
    (strict_params
     [(''url'', described ''string'' ''Webhook endpoint URL (http or https).''),
      (''payload'', JObj [(''type'', JStr ''object''), (''description'', JStr ''JSON payload to POST to the webhook endpoint.''),
        (''additionalProperties'', JBool True)]),
      (''headers'', JObj [(''type'', JStr ''object''), (''description'', JStr ''Optional HTTP headers to include in the request.''),
        (''additionalProperties'', typed ''string'')])]
     [''url'', ''payload''])
    (result_object
     [(''status_code'', described ''number'' ''HTTP response status code from the webhook endpoint.''),
      (''response_body'', described ''string'' ''Response body returned by the webhook endpoint.''),
      (''content_type'', described ''string'' ''Value of the Content-Type response header, if present.'')])"

definition shutdownManifest :: json where
  "shutdownManifest = manifest ''shutdown'' ''1.0.0'' ''system.service'' ''critical'' ''per_request'' (Some ''mode'')
    (strict_params
     [(''mode'', JObj [(''type'', JStr ''string''), (''enum'', texts [''poweroff'', ''reboot'', ''cancel'']), (''description'',
       JStr ''Shutdown mode. \"poweroff\" powers off the host, \"reboot\" reboots, \"cancel\" cancels a pending shutdown (no time accepted in cancel mode).'')]),
      (''time'', JObj [(''type'', JStr ''string''), (''pattern'', JStr (''^now$|^'' @ [CHR 0x5C] @ ''+'' @ [CHR
        0x5C] @ ''d{1,4}$|^([01]?'' @ [CHR 0x5C] @ ''d|2[0-3]):[0-5]'' @ [CHR 0x5C] @ ''d$'')), (''description'',
        JStr ''Schedule expression. One of: \"now\", \"+<minutes>\" (e.g. \"+5\"), \"HH:MM\" (24-hour absolute). Defaults to \"now\". Must NOT be supplied when mode is \"cancel\".'')])]
     [''mode''])
    (result_object
     [(''stdout'', described ''string'' ''Standard output captured from the shutdown binary.''),
      (''stderr'', described ''string'' ''Standard error captured from the shutdown binary.''),
      (''exit_code'', described ''number'' ''Exit code from the shutdown binary.'')])"

definition storeSecretManifest :: json where
  "storeSecretManifest = manifest ''store_secret'' ''1.0.0'' ''credential.write'' ''critical'' ''per_request''
    (Some ''key'')
    (strict_params
     [(''key'', described ''string'' ''Name or identifier of the secret to store.''),
      (''value'', described ''string'' ''Secret value to persist in the credential file.''),
      (''path'', described ''string''
        ''Absolute or relative path to the JSON credential file. The file must contain a flat object mapping string keys to string values. Created if it does not exist.'')]
     [''key'', ''value''])
    (result_object
     [(''stored'', described ''boolean'' ''Whether the secret was successfully stored in the credential file.'')])"

definition systemctlUnitActionManifest :: json where
  "systemctlUnitActionManifest = manifest ''systemctl_unit_action'' ''1.0.0'' ''system.service'' ''critical''
    ''per_request'' (Some ''unit'')
    (strict_params
     [(''unit'', JObj [(''type'', JStr ''string''), (''minLength'', JNum 1), (''maxLength'', JNum 256), (''pattern'',
       JStr ''^[a-zA-Z0-9._@-]+$''), (''description'', JStr ''Systemd unit name (e.g. \"nginx.service\", \"user@1000.service\"). Must contain only letters, digits, and the characters \".\", \"_\", \"@\", \"-\".'')]),
      (''action'', JObj [(''type'', JStr ''string''), (''enum'', texts [''start'', ''stop'', ''restart'',
        ''reload'', ''enable'', ''disable'', ''mask'', ''unmask'', ''status'', ''is-active'', ''is-enabled'']),
        (''description'', JStr (''Lifecycle verb to apply to the unit. One of: ${SYSTEMCTL_ACTIONS.join('' @
        [CHR 0x27] @ '', '' @ [CHR 0x27] @ '')}.''))])]
     [''unit'', ''action''])
    (result_object
     [(''stdout'', described ''string'' ''Standard output captured from systemctl.''),
      (''stderr'', described ''string'' ''Standard error captured from systemctl.''),
      (''exit_code'', described ''number''
        ''systemctl exit code. Some actions (is-active, is-enabled) carry meaningful state in the exit code (0 = active/enabled).'')])"

definition unsafeAdminExecManifest :: json where
  "unsafeAdminExecManifest = JObj [(''name'', JStr ''unsafe_admin_exec''), (''version'', JStr ''1.0.0''), (''action_class'',
    JStr ''shell.exec''),
    (''risk_tier'', JStr ''high''), (''default_hitl_mode'', JStr ''per_request''),
    (''unsafe_admin'', JBool True), (''target_field'', JStr ''command''), (''params'',
    (strict_params
     [(''command'', described ''string'' ''Shell command to execute.''),
      (''justification'', described ''string''
        ''Human-readable reason for this invocation. Must be at least 20 characters. Recorded verbatim in the audit trail.''),
      (''working_dir'', described ''string'' ''Working directory for command execution. Optional.'')]
     [''command'', ''justification''])),
    (''result'', result_object
     [(''stdout'', described ''string'' ''Standard output captured from the command.''),
      (''stderr'', described ''string'' ''Standard error captured from the command.''),
      (''exit_code'', described ''number'' ''Process exit code. -1 when the process was signalled.'')])]"

definition webhookManifest :: json where
  "webhookManifest = manifest ''webhook'' ''1.0.0'' ''communication.webhook'' ''medium'' ''per_request'' (Some ''url'')
    (strict_params
     [(''url'', described ''string'' ''Webhook endpoint URL (http or https).''),
      (''payload'', JObj [(''type'', JStr ''object''), (''description'', JStr ''JSON payload to POST to the webhook endpoint.''),
        (''additionalProperties'', JBool True)]),
      (''headers'', JObj [(''type'', JStr ''object''), (''description'', JStr ''Optional HTTP headers to include in the request.''),
        (''additionalProperties'', typed ''string'')]),
      (''max_retries'', described ''number''
        ''Maximum number of retry attempts on transient network failures. Defaults to 3. Set to 0 to disable retries.'')]
     [''url'', ''payload''])
    (result_object
     [(''status_code'', described ''number'' ''HTTP response status code from the webhook endpoint.''),
      (''response_body'', described ''string'' ''Response body returned by the webhook endpoint.''),
      (''content_type'', described ''string'' ''Value of the Content-Type response header, if present.''),
      (''attempts'', described ''number'' ''Total number of attempts made (1 means no retries were needed).'')])"

definition writeFileManifest :: json where
  "writeFileManifest = manifest ''write_file'' ''1.0.0'' ''filesystem.write'' ''medium'' ''per_request'' None
    (strict_params
     [(''path'', described ''string'' ''Path to the file to write.''),
      (''content'', described ''string'' ''UTF-8 text content to write to the file.'')]
     [''path'', ''content''])
    (result_object
     [(''path'', described ''string'' ''Absolute path of the written file.'')])"

definition writeSecretManifest :: json where
  "writeSecretManifest = manifest ''write_secret'' ''1.0.0'' ''credential.write'' ''critical'' ''per_request''
    (Some ''key'')
    (strict_params
     [(''key'', described ''string'' ''Name or identifier of the secret to store.''),
      (''value'', described ''string'' ''Secret value to persist in the store.''),
      (''store'', described ''string''
        ''Secret store identifier (e.g. \"vault\", \"aws-secrets-manager\"). Uses the default store when omitted.'')]
     [''key'', ''value''])
    (result_object
     [(''written'', described ''boolean'' ''Whether the secret was successfully written to the store.'')])"

end
