(* ===== verification/Manifest.thy ===== *)
theory Manifest
  imports ManifestData Registry JsRegex
begin

text \<open>
  The validators of tool manifests: \<open>src/validation/skill-manifest-validator.ts\<close> (the F-05 schema and the
  rules that need the action registry) and \<open>src/validation/skill-activation-validator.ts\<close> (the list of
  first-party manifests and the check before activation). \<open>Date.parse\<close> and the local midnight are
  parameters; the warnings on the console are left out.
\<close>

section \<open>The F-05 schema\<close>

record validation =
  vr_valid :: bool
  vr_errors :: "string list"

definition outcome_of :: "string list \<Rightarrow> validation" where
  "outcome_of errors = \<lparr>vr_valid = (errors = []), vr_errors = errors\<rparr>"

definition VALID_RISK_TIERS :: "string set" where
  "VALID_RISK_TIERS = {''low'', ''medium'', ''high'', ''critical''}"

definition VALID_HITL_MODES :: "string set" where
  "VALID_HITL_MODES = {''none'', ''per_request'', ''session_approval''}"

definition EXEC_WRAPPER_TOOL_NAMES :: "string set" where
  "EXEC_WRAPPER_TOOL_NAMES = {''exec'', ''bash'', ''shell_exec'', ''run_command'', ''execute_command'',
     ''run_terminal_cmd'', ''terminal_exec'', ''cmd'', ''sh'', ''zsh''}"

text \<open>Member access on an object; an array has none of the members asked for.\<close>

definition member :: "json \<Rightarrow> string \<Rightarrow> json" where
  "member v k = (case v of JObj kvs \<Rightarrow> (case map_of kvs k of Some x \<Rightarrow> x | None \<Rightarrow> JUndef) | _ \<Rightarrow> JUndef)"

definition is_object :: "json \<Rightarrow> bool" where
  "is_object v = (case v of JObj kvs \<Rightarrow> True | JArr vs \<Rightarrow> True | _ \<Rightarrow> False)"

definition nonempty_text :: "json \<Rightarrow> bool" where
  "nonempty_text v = (case v of JStr s \<Rightarrow> js_trim s \<noteq> '''' | _ \<Rightarrow> False)"

definition text_in :: "string set \<Rightarrow> json \<Rightarrow> bool" where
  "text_in A v = (case v of JStr s \<Rightarrow> s \<in> A | _ \<Rightarrow> False)"

definition DATE_PATTERN :: rx where
  "DATE_PATTERN = RSeq RBol (RSeq (rx_seq [rx_times 4 (RClass is_digit), rx_chr (CHR ''-''),
     rx_times 2 (RClass is_digit), rx_chr (CHR ''-''), rx_times 2 (RClass is_digit)]) REol)"

text \<open>\<open>Date.parse\<close> (\<open>None\<close> for an invalid date), \<open>setHours(0,0,0,0)\<close>, the time, and the mode.\<close>

record validator_env =
  ve_parseDate :: "string \<Rightarrow> int option"
  ve_midnight :: "int \<Rightarrow> int"
  ve_now :: int
  ve_openMode :: bool

definition isValidDateString :: "validator_env \<Rightarrow> string \<Rightarrow> bool" where
  "isValidDateString env s \<longleftrightarrow> rx_test DATE_PATTERN s \<and> ve_parseDate env s \<noteq> None"

definition isDeadlinePast :: "validator_env \<Rightarrow> string \<Rightarrow> bool" where
  "isDeadlinePast env dateStr =
     (case ve_parseDate env dateStr of
        None \<Rightarrow> False
      | Some d \<Rightarrow> ve_midnight env d < ve_midnight env (ve_now env))"

definition validateJsonSchemaObject :: "json \<Rightarrow> string \<Rightarrow> bool \<Rightarrow> string list" where
  "validateJsonSchemaObject v field strict =
     (if \<not> is_object v then [field @ '': must be an object with type \"object\" and a properties map.'']
      else (if member v ''type'' \<noteq> JStr ''object'' then [field @ ''.type: must be the string \"object\".''] else [])
        @ (case member v ''properties'' of
             JObj _ \<Rightarrow> [] | _ \<Rightarrow> [field @ ''.properties: must be a non-null, non-array object.''])
        @ (if strict \<and> member v ''additionalProperties'' \<noteq> JBool False
           then [field @ ''.additionalProperties: must be false to prevent unexpected parameter injection.'']
           else []))"

definition legacy_errors :: "validator_env \<Rightarrow> json \<Rightarrow> string list" where
  "legacy_errors env m =
     (case member m ''unsafe_legacy'' of
        JUndef \<Rightarrow> []
      | JBool True \<Rightarrow>
          (case member m ''until'' of
             JStr until \<Rightarrow>
               if js_trim until = ''''
               then [''until: required when unsafe_legacy is true; must be a YYYY-MM-DD date string.'']
               else if \<not> isValidDateString env until
               then [''until: \"'' @ until @ ''\" is not a valid YYYY-MM-DD date.'']
               else []
           | _ \<Rightarrow> [''until: required when unsafe_legacy is true; must be a YYYY-MM-DD date string.''])
      | _ \<Rightarrow> [''unsafe_legacy: must be the boolean true when present.''])"

definition validateToolManifest :: "validator_env \<Rightarrow> json \<Rightarrow> validation" where
  "validateToolManifest env m =
     (if \<not> is_object m then \<lparr>vr_valid = False, vr_errors = [''Manifest must be a non-null object.'']\<rparr>
      else outcome_of
        ((if nonempty_text (member m ''name'') then [] else [''name: must be a non-empty string.''])
         @ (if nonempty_text (member m ''version'') then [] else [''version: must be a non-empty string.''])
         @ (if nonempty_text (member m ''action_class'') then [] else [''action_class: must be a non-empty string.''])
         @ (if text_in VALID_RISK_TIERS (member m ''risk_tier'') then []
            else [''risk_tier: must be one of \"low\", \"medium\", \"high\", \"critical\".''])
         @ (if text_in VALID_HITL_MODES (member m ''default_hitl_mode'') then []
            else [''default_hitl_mode: must be one of \"none\", \"per_request\", \"session_approval\".''])
         @ validateJsonSchemaObject (member m ''params'') ''params'' True
         @ validateJsonSchemaObject (member m ''result'') ''result'' False
         @ legacy_errors env m
         @ (if member m ''unsafe_admin'' \<in> {JUndef, JBool True} then []
            else [''unsafe_admin: must be the boolean true when present.''])))"

section \<open>Rules of the registry\<close>

fun hitl_mode_str :: "hitl_mode \<Rightarrow> string" where
  "hitl_mode_str HNone = ''none''"
| "hitl_mode_str PerRequest = ''per_request''"
| "hitl_mode_str SessionApproval = ''session_approval''"

definition text_of :: "json \<Rightarrow> string" where
  "text_of v = (case v of JStr s \<Rightarrow> s | _ \<Rightarrow> '''')"

definition registered :: "string \<Rightarrow> registry_entry option" where
  "registered actionClass = List.find (\<lambda>e. reg_class e = actionClass) REGISTRY"

definition reserved_name :: "string \<Rightarrow> string list" where
  "reserved_name name =
     (if js_lower name \<in> EXEC_WRAPPER_TOOL_NAMES
      then [''name: \"'' @ name @ ''\" is a reserved exec wrapper tool name and cannot be registered as a skill manifest.'']
      else [])"

definition alignment :: "json \<Rightarrow> registry_entry \<Rightarrow> string list" where
  "alignment m e =
     (let ac = text_of (member m ''action_class''); risk = text_of (member m ''risk_tier'');
          mode = text_of (member m ''default_hitl_mode'')
      in (if risk \<noteq> risk_str (reg_risk e)
          then [''risk_tier: \"'' @ risk @ ''\" does not match the registry default \"'' @ risk_str (reg_risk e)
                @ ''\" for action_class \"'' @ ac @ ''\".''] else [])
         @ (if mode \<noteq> hitl_mode_str (reg_mode e)
            then [''default_hitl_mode: \"'' @ mode @ ''\" does not match the registry default \"''
                  @ hitl_mode_str (reg_mode e) @ ''\" for action_class \"'' @ ac @ ''\".''] else []))"

definition unregistered_class :: "string \<Rightarrow> string list" where
  "unregistered_class ac = [''action_class: \"'' @ ac @ ''\" is not a registered action class.'']"

definition validate_admin :: "json \<Rightarrow> validation" where
  "validate_admin m =
     (let ac = text_of (member m ''action_class'')
      in case registered ac of
           None \<Rightarrow> \<lparr>vr_valid = False, vr_errors = unregistered_class ac\<rparr>
         | Some e \<Rightarrow>
             (let reserved = reserved_name (text_of (member m ''name''))
              in if reserved \<noteq> [] then \<lparr>vr_valid = False, vr_errors = reserved\<rparr> else outcome_of (alignment m e)))"

definition validate_class :: "json \<Rightarrow> validation" where
  "validate_class m =
     (let ac = text_of (member m ''action_class''); entry = registered ac
      in outcome_of
           ((case entry of None \<Rightarrow> unregistered_class ac | Some _ \<Rightarrow> [])
            @ (if ac = ''shell.exec''
               then [''action_class: \"shell.exec\" is not permitted in skill manifests. Use a more specific registered action class.'']
               else [])
            @ reserved_name (text_of (member m ''name''))
            @ (case entry of None \<Rightarrow> [] | Some e \<Rightarrow> alignment m e)))"

definition validate_legacy :: "validator_env \<Rightarrow> json \<Rightarrow> string \<Rightarrow> validation" where
  "validate_legacy env m until =
     (if isDeadlinePast env until \<and> \<not> ve_openMode env
      then \<lparr>vr_valid = False,
             vr_errors = [''unsafe_legacy: deadline \"'' @ until @ ''\" has passed for \"'' @ text_of (member m ''name'')
               @ ''\". Legacy mode is no longer permitted in CLOSED mode. Migrate to a supported action_class.'']\<rparr>
      else \<lparr>vr_valid = True, vr_errors = []\<rparr>)"

definition validate_manifest :: "validator_env \<Rightarrow> json \<Rightarrow> validation" where
  "validate_manifest env m =
     (let schema = validateToolManifest env m
      in if \<not> vr_valid schema then schema
         else case (member m ''unsafe_legacy'', member m ''until'') of
           (JBool True, JStr until) \<Rightarrow> validate_legacy env m until
         | _ \<Rightarrow> if member m ''unsafe_admin'' = JBool True then validate_admin m else validate_class m)"

section \<open>Activation\<close>

definition FIRST_PARTY_MANIFESTS :: "json list" where
  "FIRST_PARTY_MANIFESTS =
    [gitAddManifest, gitBranchManifest, gitCheckoutManifest, gitCloneManifest, gitCommitManifest,
     gitDiffManifest, gitLogManifest, gitMergeManifest, gitPushManifest, gitResetManifest, gitStatusManifest,
     appendFileManifest, checkExistsManifest, copyFileManifest, createDirectoryManifest, deleteFileManifest,
     editFileManifest, findFilesManifest, grepFilesManifest, listDirManifest, listDirectoryManifest,
     makeDirManifest, moveFileManifest, readFileManifest, readFilesBatchManifest, writeFileManifest,
     fetchUrlManifest, httpDeleteManifest, httpGetManifest, httpPatchManifest, httpPostManifest,
     httpPutManifest, scrapePageManifest, searchWebManifest, callWebhookManifest, sendEmailManifest,
     sendSlackManifest, sendWebhookManifest, webhookManifest, readSecretManifest, writeSecretManifest,
     rotateSecretManifest, listSecretsManifest, storeSecretManifest, getEnvVarManifest, getSystemInfoManifest,
     unsafeAdminExecManifest, npmInstallManifest, npmRunManifest, npmRunBuildManifest, pipInstallManifest,
     pipListManifest, pytestManifest, dockerRunManifest, makeRunManifest, runCodeManifest, runLinterManifest,
     runTestsManifest, archiveCreateManifest, archiveExtractManifest, archiveListManifest]"
text \<open>The failures, one line each; the message of the error that aborts the activation.\<close>

definition failure_line :: "json \<Rightarrow> validation \<Rightarrow> string" where
  "failure_line m r = ''\"'' @ text_of (member m ''name'') @ ''\": '' @ join ''; '' (vr_errors r)"

definition validateSkillManifestsForActivation :: "validator_env \<Rightarrow> bool \<Rightarrow> json list \<Rightarrow> string + unit" where
  "validateSkillManifestsForActivation env allowUnsafeLegacy manifests =
     (let failures = (if allowUnsafeLegacy then []
                      else [failure_line m (validate_manifest env m). m \<leftarrow> manifests,
                              \<not> vr_valid (validate_manifest env m)])
      in if failures \<noteq> []
         then Inl (''[OpenAuthority] Skill manifest validation failed - activation aborted:'' @ [CHR 0x0A]
                @ join [CHR 0x0A] (map (\<lambda>f. ''  - '' @ f) failures))
         else Inr ())"

end
