(* ===== verification/ManifestProps.thy ===== *)
theory ManifestProps
  imports Manifest NormalizeProps
begin

text \<open>
  What the manifest validators accept, that every first-party manifest is accepted whatever the time,
  the mode and the settings, and how the manifests fit the classes the plugin gives to their tools.
\<close>

section \<open>Accepted manifests\<close>

lemma outcome_valid [simp]: "vr_valid (outcome_of es) \<longleftrightarrow> es = []" "vr_errors (outcome_of es) = es"
  by (simp_all add: outcome_of_def)

text \<open>What a manifest outside the legacy mode must declare.\<close>

definition declares :: "json \<Rightarrow> registry_entry \<Rightarrow> bool" where
  "declares m e \<longleftrightarrow>
     member m ''action_class'' = JStr (reg_class e) \<and> member m ''risk_tier'' = JStr (risk_str (reg_risk e))
     \<and> member m ''default_hitl_mode'' = JStr (hitl_mode_str (reg_mode e))"

definition closed_params :: "json \<Rightarrow> bool" where
  "closed_params m \<longleftrightarrow>
     member (member m ''params'') ''type'' = JStr ''object''
     \<and> member (member m ''params'') ''additionalProperties'' = JBool False
     \<and> (\<exists>ps. member (member m ''params'') ''properties'' = JObj ps)"

lemma registered_class: "registered ac = Some e \<Longrightarrow> e \<in> set REGISTRY \<and> reg_class e = ac"
  by (auto simp: registered_def find_Some_iff)

lemma schema_valid:
  assumes "vr_valid (validateToolManifest env m)"
  shows "nonempty_text (member m ''name'') \<and> nonempty_text (member m ''action_class'')
    \<and> text_in VALID_RISK_TIERS (member m ''risk_tier'') \<and> text_in VALID_HITL_MODES (member m ''default_hitl_mode'')
    \<and> closed_params m \<and> legacy_errors env m = []"
  using assms
  by (auto simp: validateToolManifest_def validateJsonSchemaObject_def closed_params_def split: if_splits json.splits)

lemma aligned:
  assumes "alignment m e = []" "registered (text_of (member m ''action_class'')) = Some e"
    "vr_valid (validateToolManifest env m)"
  shows "declares m e"
  using assms schema_valid [OF assms(3)] registered_class [OF assms(2)]
  by (auto simp: alignment_def Let_def declares_def text_in_def nonempty_text_def text_of_def split: if_splits json.splits)

lemma accepted_safe:
  assumes "vr_valid (validate_manifest env m)" and "member m ''unsafe_legacy'' = JUndef"
  shows "closed_params m \<and> js_lower (text_of (member m ''name'')) \<notin> EXEC_WRAPPER_TOOL_NAMES
    \<and> (\<exists>e\<in>set REGISTRY. declares m e \<and> (reg_class e = ''shell.exec'' \<longrightarrow> member m ''unsafe_admin'' = JBool True))"
proof -
  have schema: "vr_valid (validateToolManifest env m)"
    using assms(1) by (auto simp: validate_manifest_def Let_def split: if_splits)
  have v: "vr_valid (if member m ''unsafe_admin'' = JBool True then validate_admin m else validate_class m)"
    using assms schema by (simp add: validate_manifest_def Let_def)
  obtain e where e: "registered (text_of (member m ''action_class'')) = Some e" "alignment m e = []"
    "reserved_name (text_of (member m ''name'')) = []"
    "text_of (member m ''action_class'') = ''shell.exec'' \<longrightarrow> member m ''unsafe_admin'' = JBool True"
    using v by (auto simp: validate_admin_def validate_class_def unregistered_class_def Let_def split: if_splits option.splits)
  have d: "declares m e" by (rule aligned [OF e(2,1) schema])
  then have "text_of (member m ''action_class'') = reg_class e" by (simp add: declares_def text_of_def)
  with e(4) have "reg_class e = ''shell.exec'' \<longrightarrow> member m ''unsafe_admin'' = JBool True" by simp
  moreover have "js_lower (text_of (member m ''name'')) \<notin> EXEC_WRAPPER_TOOL_NAMES"
    using e(3) by (simp add: reserved_name_def split: if_splits)
  ultimately show ?thesis using d registered_class [OF e(1)] schema_valid [OF schema] by blast
qed

text \<open>
  An accepted manifest is safe to register: outside the legacy mode its action class is registered
  with exactly the declared risk and approval mode, its name is not that of a shell wrapper, its
  parameters are a closed object, and it is of the class of shell commands only when it declares itself
  an unsafe admin tool.
\<close>

theorem accepted_manifest_safe:
  assumes "vr_valid (validate_manifest env m)" and "member m ''unsafe_legacy'' = JUndef"
  shows "closed_params m \<and> js_lower (text_of (member m ''name'')) \<notin> EXEC_WRAPPER_TOOL_NAMES
    \<and> (\<exists>e\<in>set REGISTRY. declares m e \<and> (reg_class e = ''shell.exec'' \<longrightarrow> member m ''unsafe_admin'' = JBool True))"
  by (rule accepted_safe [OF assms])

section \<open>The first-party manifests\<close>

text \<open>A manifest of the usual shape is judged by its name, version, class, risk and mode alone.\<close>

definition plainly_valid :: "string \<Rightarrow> string \<Rightarrow> string \<Rightarrow> string \<Rightarrow> string \<Rightarrow> bool" where
  "plainly_valid n v ac risk mode \<longleftrightarrow>
     js_trim n \<noteq> '''' \<and> js_trim v \<noteq> '''' \<and> js_trim ac \<noteq> '''' \<and> ac \<noteq> ''shell.exec''
     \<and> js_lower n \<notin> EXEC_WRAPPER_TOOL_NAMES
     \<and> (case registered ac of None \<Rightarrow> False | Some e \<Rightarrow> risk = risk_str (reg_risk e) \<and> mode = hitl_mode_str (reg_mode e))"

lemma member_manifest:
  "member (manifest n v ac risk mode t ps rs) ''name'' = JStr n"
  "member (manifest n v ac risk mode t ps rs) ''version'' = JStr v"
  "member (manifest n v ac risk mode t ps rs) ''action_class'' = JStr ac"
  "member (manifest n v ac risk mode t ps rs) ''risk_tier'' = JStr risk"
  "member (manifest n v ac risk mode t ps rs) ''default_hitl_mode'' = JStr mode"
  "member (manifest n v ac risk mode t ps rs) ''params'' = ps"
  "member (manifest n v ac risk mode t ps rs) ''result'' = rs"
  "member (manifest n v ac risk mode t ps rs) ''unsafe_legacy'' = JUndef"
  "member (manifest n v ac risk mode t ps rs) ''unsafe_admin'' = JUndef"
  "is_object (manifest n v ac risk mode t ps rs)"
  by (simp_all add: manifest_def member_def is_object_def split: option.split)

lemma risk_str_tier: "risk_str r \<in> VALID_RISK_TIERS" "hitl_mode_str h \<in> VALID_HITL_MODES"
  by (cases r; simp add: VALID_RISK_TIERS_def) (cases h; simp add: VALID_HITL_MODES_def)

lemma closed_shape:
  "validateJsonSchemaObject (strict_params ps rq) ''params'' True = []"
  "validateJsonSchemaObject (strict_object ps) ''params'' True = []"
  "validateJsonSchemaObject (result_object rs) ''result'' False = []"
  by (simp_all add: validateJsonSchemaObject_def strict_params_def strict_object_def result_object_def
      is_object_def member_def)

lemma plainly_accepted:
  assumes "plainly_valid n v ac risk mode" and "validateJsonSchemaObject ps ''params'' True = []"
    and "validateJsonSchemaObject rs ''result'' False = []"
  shows "vr_valid (validate_manifest env (manifest n v ac risk mode t ps rs))"
  using assms risk_str_tier
  by (auto simp: validate_manifest_def validateToolManifest_def validate_class_def member_manifest plainly_valid_def
      nonempty_text_def text_in_def legacy_errors_def text_of_def reserved_name_def alignment_def Let_def
      split: option.splits)

section \<open>Evaluation on the list\<close>

lemma registered_table:
  "registered ''archive.create'' = Some reg_archive_create"
  "registered ''archive.extract'' = Some reg_archive_extract"
  "registered ''archive.read'' = Some reg_archive_read"
  "registered ''browser.scrape'' = Some reg_browser_scrape"
  "registered ''build.compile'' = Some reg_build_compile"
  "registered ''build.lint'' = Some reg_build_lint"
  "registered ''build.test'' = Some reg_build_test"
  "registered ''code.execute'' = Some reg_code_execute"
  "registered ''communication.email'' = Some reg_communication_email"
  "registered ''communication.slack'' = Some reg_communication_slack"
  "registered ''communication.webhook'' = Some reg_communication_webhook"
  "registered ''credential.list'' = Some reg_credential_list"
  "registered ''credential.read'' = Some reg_credential_read"
  "registered ''credential.rotate'' = Some reg_credential_rotate"
  "registered ''credential.write'' = Some reg_credential_write"
  "registered ''filesystem.delete'' = Some reg_filesystem_delete"
  "registered ''filesystem.list'' = Some reg_filesystem_list"
  "registered ''filesystem.read'' = Some reg_filesystem_read"
  "registered ''filesystem.write'' = Some reg_filesystem_write"
  "registered ''package.install'' = Some reg_package_install"
  "registered ''package.read'' = Some reg_package_read"
  "registered ''package.run'' = Some reg_package_run"
  "registered ''shell.exec'' = Some reg_shell_exec"
  "registered ''system.read'' = Some reg_system_read"
  "registered ''vcs.read'' = Some reg_vcs_read"
  "registered ''vcs.remote'' = Some reg_vcs_remote"
  "registered ''vcs.write'' = Some reg_vcs_write"
  "registered ''web.fetch'' = Some reg_web_fetch"
  "registered ''web.post'' = Some reg_web_post"
  "registered ''web.search'' = Some reg_web_search"
  "registered ''cluster.read'' = Some reg_cluster_read"
  "registered ''cluster.write'' = Some reg_cluster_write"
  "registered ''permissions.modify'' = Some reg_permissions_modify"
  "registered ''process.signal'' = Some reg_process_signal"
  "registered ''scheduling.persist'' = Some reg_scheduling_persist"
  "registered ''system.service'' = Some reg_system_service"
  unfolding registered_def REGISTRY_def by (simp_all add: reg_class_eqs)

lemma reg_values:
  "reg_risk reg_archive_create = Medium" "reg_mode reg_archive_create = PerRequest"
  "reg_risk reg_archive_extract = Medium" "reg_mode reg_archive_extract = PerRequest"
  "reg_risk reg_archive_read = Low" "reg_mode reg_archive_read = HNone"
  "reg_risk reg_browser_scrape = Medium" "reg_mode reg_browser_scrape = PerRequest"
  "reg_risk reg_build_compile = Medium" "reg_mode reg_build_compile = PerRequest"
  "reg_risk reg_build_lint = Low" "reg_mode reg_build_lint = HNone"
  "reg_risk reg_build_test = Low" "reg_mode reg_build_test = HNone"
  "reg_risk reg_code_execute = High" "reg_mode reg_code_execute = PerRequest"
  "reg_risk reg_communication_email = High" "reg_mode reg_communication_email = PerRequest"
  "reg_risk reg_communication_slack = Medium" "reg_mode reg_communication_slack = PerRequest"
  "reg_risk reg_communication_webhook = Medium" "reg_mode reg_communication_webhook = PerRequest"
  "reg_risk reg_credential_list = High" "reg_mode reg_credential_list = PerRequest"
  "reg_risk reg_credential_read = High" "reg_mode reg_credential_read = PerRequest"
  "reg_risk reg_credential_rotate = Critical" "reg_mode reg_credential_rotate = PerRequest"
  "reg_risk reg_credential_write = Critical" "reg_mode reg_credential_write = PerRequest"
  "reg_risk reg_filesystem_delete = High" "reg_mode reg_filesystem_delete = PerRequest"
  "reg_risk reg_filesystem_list = Low" "reg_mode reg_filesystem_list = HNone"
  "reg_risk reg_filesystem_read = Low" "reg_mode reg_filesystem_read = HNone"
  "reg_risk reg_filesystem_write = Medium" "reg_mode reg_filesystem_write = PerRequest"
  "reg_risk reg_package_install = Medium" "reg_mode reg_package_install = PerRequest"
  "reg_risk reg_package_read = Low" "reg_mode reg_package_read = HNone"
  "reg_risk reg_package_run = Medium" "reg_mode reg_package_run = PerRequest"
  "reg_risk reg_shell_exec = High" "reg_mode reg_shell_exec = PerRequest"
  "reg_risk reg_system_read = Low" "reg_mode reg_system_read = HNone"
  "reg_risk reg_vcs_read = Low" "reg_mode reg_vcs_read = HNone"
  "reg_risk reg_vcs_remote = Medium" "reg_mode reg_vcs_remote = PerRequest"
  "reg_risk reg_vcs_write = Medium" "reg_mode reg_vcs_write = PerRequest"
  "reg_risk reg_web_fetch = Medium" "reg_mode reg_web_fetch = PerRequest"
  "reg_risk reg_web_post = Medium" "reg_mode reg_web_post = PerRequest"
  "reg_risk reg_web_search = Medium" "reg_mode reg_web_search = PerRequest"
  "reg_risk reg_cluster_read = Low" "reg_mode reg_cluster_read = PerRequest"
  "reg_risk reg_cluster_write = High" "reg_mode reg_cluster_write = PerRequest"
  "reg_risk reg_permissions_modify = High" "reg_mode reg_permissions_modify = PerRequest"
  "reg_risk reg_process_signal = High" "reg_mode reg_process_signal = PerRequest"
  "reg_risk reg_scheduling_persist = High" "reg_mode reg_scheduling_persist = PerRequest"
  "reg_risk reg_system_service = Critical" "reg_mode reg_system_service = PerRequest"
  by (simp_all add: reg_entry_defs)

definition good_name :: "string \<Rightarrow> bool" where
  "good_name n \<longleftrightarrow> js_trim n \<noteq> '''' \<and> js_lower n = n \<and> n \<notin> EXEC_WRAPPER_TOOL_NAMES"

definition good_class :: "string \<Rightarrow> string \<Rightarrow> string \<Rightarrow> bool" where
  "good_class ac risk mode \<longleftrightarrow> js_trim ac \<noteq> '''' \<and> ac \<noteq> ''shell.exec''
     \<and> (\<exists>e. registered ac = Some e \<and> risk = risk_str (reg_risk e) \<and> mode = hitl_mode_str (reg_mode e))"

lemma names_good:
  "good_name ''git_add''" "good_name ''git_branch''" "good_name ''git_checkout''" "good_name ''git_clone''"
  "good_name ''git_commit''" "good_name ''git_diff''" "good_name ''git_log''" "good_name ''git_merge''"
  "good_name ''git_push''" "good_name ''git_reset''" "good_name ''git_status''" "good_name ''append_file''"
  "good_name ''check_exists''" "good_name ''copy_file''" "good_name ''create_directory''"
  "good_name ''delete_file''" "good_name ''edit_file''" "good_name ''find_files''" "good_name ''grep_files''"
  "good_name ''list_dir''" "good_name ''list_directory''" "good_name ''make_dir''" "good_name ''move_file''"
  "good_name ''read_file''" "good_name ''read_files_batch''" "good_name ''write_file''"
  "good_name ''fetch_url''" "good_name ''http_delete''" "good_name ''http_get''" "good_name ''http_patch''"
  "good_name ''http_post''" "good_name ''http_put''" "good_name ''scrape_page''" "good_name ''search_web''"
  "good_name ''call_webhook''" "good_name ''send_email''" "good_name ''send_slack''"
  "good_name ''send_webhook''" "good_name ''webhook''" "good_name ''read_secret''" "good_name ''write_secret''"
  "good_name ''rotate_secret''" "good_name ''list_secrets''" "good_name ''store_secret''"
  "good_name ''get_env_var''" "good_name ''get_system_info''" "good_name ''unsafe_admin_exec''"
  "good_name ''npm_install''" "good_name ''npm_run''" "good_name ''npm_run_build''" "good_name ''pip_install''"
  "good_name ''pip_list''" "good_name ''pytest''" "good_name ''docker_run''" "good_name ''make_run''"
  "good_name ''run_code''" "good_name ''run_linter''" "good_name ''run_tests''" "good_name ''archive_create''"
  "good_name ''archive_extract''" "good_name ''archive_list''"
  by code_simp+

lemma other_names_good:
  "good_name ''chmod_path''" "good_name ''chown_path''" "good_name ''crontab_install_from_file''"
  "good_name ''crontab_list''" "good_name ''crontab_remove''" "good_name ''docker_push''" "good_name ''kill_process''"
  "good_name ''kubectl_apply''" "good_name ''kubectl_delete''" "good_name ''kubectl_get''"
  "good_name ''kubectl_rollout''" "good_name ''pkill_pattern''" "good_name ''post_message''" "good_name ''reboot''"
  "good_name ''send_notification''" "good_name ''shutdown''" "good_name ''systemctl_unit_action''"
  by code_simp+

lemma classes_good:
  "good_class ''archive.create'' ''medium'' ''per_request''"
  "good_class ''archive.extract'' ''medium'' ''per_request''" "good_class ''archive.read'' ''low'' ''none''"
  "good_class ''browser.scrape'' ''medium'' ''per_request''"
  "good_class ''build.compile'' ''medium'' ''per_request''" "good_class ''build.lint'' ''low'' ''none''"
  "good_class ''build.test'' ''low'' ''none''" "good_class ''code.execute'' ''high'' ''per_request''"
  "good_class ''communication.email'' ''high'' ''per_request''"
  "good_class ''communication.slack'' ''medium'' ''per_request''"
  "good_class ''communication.webhook'' ''medium'' ''per_request''"
  "good_class ''credential.list'' ''high'' ''per_request''"
  "good_class ''credential.read'' ''high'' ''per_request''"
  "good_class ''credential.rotate'' ''critical'' ''per_request''"
  "good_class ''credential.write'' ''critical'' ''per_request''"
  "good_class ''filesystem.delete'' ''high'' ''per_request''" "good_class ''filesystem.list'' ''low'' ''none''"
  "good_class ''filesystem.read'' ''low'' ''none''" "good_class ''filesystem.write'' ''medium'' ''per_request''"
  "good_class ''package.install'' ''medium'' ''per_request''" "good_class ''package.read'' ''low'' ''none''"
  "good_class ''package.run'' ''medium'' ''per_request''" "good_class ''system.read'' ''low'' ''none''"
  "good_class ''vcs.read'' ''low'' ''none''" "good_class ''vcs.remote'' ''medium'' ''per_request''"
  "good_class ''vcs.write'' ''medium'' ''per_request''" "good_class ''web.fetch'' ''medium'' ''per_request''"
  "good_class ''web.post'' ''medium'' ''per_request''" "good_class ''web.search'' ''medium'' ''per_request''"
  "good_class ''cluster.read'' ''low'' ''per_request''" "good_class ''cluster.write'' ''high'' ''per_request''"
  "good_class ''permissions.modify'' ''high'' ''per_request''"
  "good_class ''process.signal'' ''high'' ''per_request''"
  "good_class ''scheduling.persist'' ''high'' ''per_request''"
  "good_class ''system.service'' ''critical'' ''per_request''"
  by (simp_all add: good_class_def registered_table reg_values js_trim_def js_space_def of_char_of)


lemmas first_party_defs =
  gitAddManifest_def gitBranchManifest_def gitCheckoutManifest_def gitCloneManifest_def gitCommitManifest_def
  gitDiffManifest_def gitLogManifest_def gitMergeManifest_def gitPushManifest_def gitResetManifest_def
  gitStatusManifest_def appendFileManifest_def checkExistsManifest_def copyFileManifest_def
  createDirectoryManifest_def deleteFileManifest_def editFileManifest_def findFilesManifest_def
  grepFilesManifest_def listDirManifest_def listDirectoryManifest_def makeDirManifest_def moveFileManifest_def
  readFileManifest_def readFilesBatchManifest_def writeFileManifest_def fetchUrlManifest_def
  httpDeleteManifest_def httpGetManifest_def httpPatchManifest_def httpPostManifest_def httpPutManifest_def
  scrapePageManifest_def searchWebManifest_def callWebhookManifest_def sendEmailManifest_def
  sendSlackManifest_def sendWebhookManifest_def webhookManifest_def readSecretManifest_def
  writeSecretManifest_def rotateSecretManifest_def listSecretsManifest_def storeSecretManifest_def
  getEnvVarManifest_def getSystemInfoManifest_def unsafeAdminExecManifest_def npmInstallManifest_def
  npmRunManifest_def npmRunBuildManifest_def pipInstallManifest_def pipListManifest_def pytestManifest_def
  dockerRunManifest_def makeRunManifest_def runCodeManifest_def runLinterManifest_def runTestsManifest_def
  archiveCreateManifest_def archiveExtractManifest_def archiveListManifest_def

text \<open>The manifests of the tools that the list of first-party manifests leaves out.\<close>

definition OTHER_MANIFESTS :: "json list" where
  "OTHER_MANIFESTS =
    [chmodPathManifest, chownPathManifest, crontabInstallFromFileManifest, crontabListManifest,
     crontabRemoveManifest, dockerPushManifest, killProcessManifest, kubectlApplyManifest,
     kubectlDeleteManifest, kubectlGetManifest, kubectlRolloutManifest, pkillPatternManifest,
     postMessageManifest, rebootManifest, sendNotificationManifest, shutdownManifest,
     systemctlUnitActionManifest]"

lemmas other_defs =
  chmodPathManifest_def chownPathManifest_def crontabInstallFromFileManifest_def crontabListManifest_def
  crontabRemoveManifest_def dockerPushManifest_def killProcessManifest_def kubectlApplyManifest_def
  kubectlDeleteManifest_def kubectlGetManifest_def kubectlRolloutManifest_def pkillPatternManifest_def
  postMessageManifest_def rebootManifest_def sendNotificationManifest_def shutdownManifest_def
  systemctlUnitActionManifest_def

text \<open>Manifests of the usual shape with a good name and class.\<close>

lemma versions_good: "js_trim ''1.0.0'' \<noteq> []" "js_trim ''1.1.0'' \<noteq> []"
  by (simp_all add: js_trim_def js_space_def of_char_of)

lemma plain_accepted:
  assumes "good_name n" "js_trim v \<noteq> []" "good_class ac risk mode" "validateJsonSchemaObject ps ''params'' True = []"
  shows "vr_valid (validate_manifest env (manifest n v ac risk mode t ps (result_object rs)))"
proof (rule plainly_accepted)
  show "plainly_valid n v ac risk mode"
    using assms(1-3) by (auto simp: plainly_valid_def good_name_def good_class_def)
qed (simp_all add: assms closed_shape)

lemma admin_accepted: "vr_valid (validate_manifest env unsafeAdminExecManifest)"
proof -
  have n: "js_trim ''unsafe_admin_exec'' \<noteq> ''''" "js_trim ''1.0.0'' \<noteq> ''''" "js_trim ''shell.exec'' \<noteq> ''''"
    by (simp_all add: js_trim_def js_space_def of_char_of)
  have r: "reserved_name ''unsafe_admin_exec'' = []"
    using names_good by (simp add: reserved_name_def good_name_def)
  show ?thesis
    unfolding unsafeAdminExecManifest_def
    by (simp add: validate_manifest_def validateToolManifest_def validate_admin_def member_def nonempty_text_def
        text_in_def legacy_errors_def text_of_def alignment_def Let_def closed_shape is_object_def n r registered_table
        reg_values VALID_RISK_TIERS_def VALID_HITL_MODES_def)
qed

lemma first_party_accepted: "list_all (\<lambda>m. vr_valid (validate_manifest env m)) FIRST_PARTY_MANIFESTS"
  unfolding FIRST_PARTY_MANIFESTS_def list.pred_inject(2) first_party_defs
  by (intro conjI list.pred_inject(1) admin_accepted [unfolded unsafeAdminExecManifest_def] plain_accepted names_good versions_good
      classes_good closed_shape)

lemma others_accepted: "list_all (\<lambda>m. vr_valid (validate_manifest env m)) OTHER_MANIFESTS"
  unfolding OTHER_MANIFESTS_def list.pred_inject(2) other_defs
  by (intro conjI list.pred_inject(1) plain_accepted other_names_good versions_good classes_good closed_shape)

section \<open>The classes the plugin gives to the tools\<close>

lemma tool_lookup1:
  "map_of ALIAS_INDEX ''git_add'' = Some reg_vcs_write"
  "map_of ALIAS_INDEX ''git_branch'' = Some reg_vcs_write"
  "map_of ALIAS_INDEX ''git_checkout'' = Some reg_vcs_write"
  "map_of ALIAS_INDEX ''git_clone'' = Some reg_vcs_remote"
  "map_of ALIAS_INDEX ''git_commit'' = Some reg_vcs_write"
  "map_of ALIAS_INDEX ''git_diff'' = Some reg_vcs_read"
  "map_of ALIAS_INDEX ''git_log'' = Some reg_vcs_read"
  "map_of ALIAS_INDEX ''git_merge'' = Some reg_vcs_write"
  "map_of ALIAS_INDEX ''git_push'' = Some reg_vcs_remote"
  "map_of ALIAS_INDEX ''git_reset'' = Some reg_vcs_write"
  "map_of ALIAS_INDEX ''git_status'' = Some reg_vcs_read"
  "map_of ALIAS_INDEX ''check_exists'' = Some reg_filesystem_read"
  "map_of ALIAS_INDEX ''copy_file'' = Some reg_filesystem_write"
  "map_of ALIAS_INDEX ''create_directory'' = Some reg_filesystem_write"
  "map_of ALIAS_INDEX ''delete_file'' = Some reg_filesystem_delete"
  unfolding alias_index_lookup REGISTRY_def by (simp_all only: find_alias_simps)

lemma tool_lookup2:
  "map_of ALIAS_INDEX ''edit_file'' = Some reg_filesystem_write"
  "map_of ALIAS_INDEX ''find_files'' = Some reg_filesystem_read"
  "map_of ALIAS_INDEX ''grep_files'' = Some reg_filesystem_read"
  "map_of ALIAS_INDEX ''list_dir'' = Some reg_filesystem_list"
  "map_of ALIAS_INDEX ''list_directory'' = Some reg_filesystem_list"
  "map_of ALIAS_INDEX ''make_dir'' = Some reg_filesystem_write"
  "map_of ALIAS_INDEX ''move_file'' = Some reg_filesystem_write"
  "map_of ALIAS_INDEX ''read_file'' = Some reg_filesystem_read"
  "map_of ALIAS_INDEX ''read_files_batch'' = Some reg_filesystem_read"
  "map_of ALIAS_INDEX ''write_file'' = Some reg_filesystem_write"
  "map_of ALIAS_INDEX ''fetch_url'' = Some reg_web_fetch"
  "map_of ALIAS_INDEX ''http_delete'' = Some reg_web_post"
  "map_of ALIAS_INDEX ''http_get'' = Some reg_web_fetch"
  "map_of ALIAS_INDEX ''http_patch'' = Some reg_web_post"
  "map_of ALIAS_INDEX ''http_post'' = Some reg_web_post"
  unfolding alias_index_lookup REGISTRY_def by (simp_all only: find_alias_simps)

lemma tool_lookup3:
  "map_of ALIAS_INDEX ''http_put'' = Some reg_web_post"
  "map_of ALIAS_INDEX ''scrape_page'' = Some reg_browser_scrape"
  "map_of ALIAS_INDEX ''search_web'' = Some reg_web_search"
  "map_of ALIAS_INDEX ''call_webhook'' = Some reg_communication_webhook"
  "map_of ALIAS_INDEX ''send_email'' = Some reg_communication_email"
  "map_of ALIAS_INDEX ''send_slack'' = Some reg_communication_slack"
  "map_of ALIAS_INDEX ''webhook'' = Some reg_communication_webhook"
  "map_of ALIAS_INDEX ''read_secret'' = Some reg_credential_read"
  "map_of ALIAS_INDEX ''write_secret'' = Some reg_credential_write"
  "map_of ALIAS_INDEX ''rotate_secret'' = Some reg_credential_rotate"
  "map_of ALIAS_INDEX ''list_secrets'' = Some reg_credential_list"
  "map_of ALIAS_INDEX ''store_secret'' = Some reg_credential_write"
  "map_of ALIAS_INDEX ''get_env_var'' = Some reg_system_read"
  "map_of ALIAS_INDEX ''get_system_info'' = Some reg_system_read"
  "map_of ALIAS_INDEX ''unsafe_admin_exec'' = Some reg_shell_exec"
  unfolding alias_index_lookup REGISTRY_def by (simp_all only: find_alias_simps)

lemma tool_lookup4:
  "map_of ALIAS_INDEX ''npm_install'' = Some reg_package_install"
  "map_of ALIAS_INDEX ''npm_run'' = Some reg_package_run"
  "map_of ALIAS_INDEX ''npm_run_build'' = Some reg_build_compile"
  "map_of ALIAS_INDEX ''pip_install'' = Some reg_package_install"
  "map_of ALIAS_INDEX ''pip_list'' = Some reg_package_read"
  "map_of ALIAS_INDEX ''pytest'' = Some reg_build_test"
  "map_of ALIAS_INDEX ''docker_run'' = Some reg_code_execute"
  "map_of ALIAS_INDEX ''make_run'' = Some reg_package_run"
  "map_of ALIAS_INDEX ''run_code'' = Some reg_code_execute"
  "map_of ALIAS_INDEX ''run_linter'' = Some reg_build_lint"
  "map_of ALIAS_INDEX ''run_tests'' = Some reg_build_test"
  "map_of ALIAS_INDEX ''archive_create'' = Some reg_archive_create"
  "map_of ALIAS_INDEX ''archive_extract'' = Some reg_archive_extract"
  "map_of ALIAS_INDEX ''archive_list'' = Some reg_archive_read"
  unfolding alias_index_lookup REGISTRY_def by (simp_all only: find_alias_simps)

lemma tool_unknown:
  "map_of ALIAS_INDEX ''append_file'' = None" "map_of ALIAS_INDEX ''send_webhook'' = None"
  unfolding alias_index_lookup REGISTRY_def by (simp_all only: find_alias_simps)

definition fits :: "json \<Rightarrow> bool" where
  "fits m \<longleftrightarrow> declares m (getRegistryEntry (text_of (member m ''name'')))"

lemma fits_manifest:
  "fits (manifest n v ac risk mode t ps rs) \<longleftrightarrow>
     reg_class (getRegistryEntry n) = ac \<and> risk_str (reg_risk (getRegistryEntry n)) = risk
     \<and> hitl_mode_str (reg_mode (getRegistryEntry n)) = mode"
  by (auto simp: fits_def declares_def member_manifest text_of_def)

lemma fits_admin:
  "fits unsafeAdminExecManifest \<longleftrightarrow>
     reg_class (getRegistryEntry ''unsafe_admin_exec'') = ''shell.exec''
     \<and> risk_str (reg_risk (getRegistryEntry ''unsafe_admin_exec'')) = ''high''
     \<and> hitl_mode_str (reg_mode (getRegistryEntry ''unsafe_admin_exec'')) = ''per_request''"
  by (auto simp: fits_def declares_def member_def text_of_def unsafeAdminExecManifest_def)

lemmas names_lower = names_good [unfolded good_name_def, THEN conjunct2, THEN conjunct1]

lemma tools_fit:
  "fits gitAddManifest" "fits gitBranchManifest" "fits gitCheckoutManifest" "fits gitCloneManifest"
  "fits gitCommitManifest" "fits gitDiffManifest" "fits gitLogManifest" "fits gitMergeManifest"
  "fits gitPushManifest" "fits gitResetManifest" "fits gitStatusManifest" "fits checkExistsManifest"
  "fits copyFileManifest" "fits createDirectoryManifest" "fits deleteFileManifest" "fits editFileManifest"
  "fits findFilesManifest" "fits grepFilesManifest" "fits listDirManifest" "fits listDirectoryManifest"
  "fits makeDirManifest" "fits moveFileManifest" "fits readFileManifest" "fits readFilesBatchManifest"
  "fits writeFileManifest" "fits fetchUrlManifest" "fits httpDeleteManifest" "fits httpGetManifest"
  "fits httpPatchManifest" "fits httpPostManifest" "fits httpPutManifest" "fits scrapePageManifest"
  "fits searchWebManifest" "fits callWebhookManifest" "fits sendEmailManifest" "fits sendSlackManifest"
  "fits webhookManifest" "fits readSecretManifest" "fits writeSecretManifest" "fits rotateSecretManifest"
  "fits listSecretsManifest" "fits storeSecretManifest" "fits getEnvVarManifest" "fits getSystemInfoManifest"
  "fits unsafeAdminExecManifest" "fits npmInstallManifest" "fits npmRunManifest" "fits npmRunBuildManifest"
  "fits pipInstallManifest" "fits pipListManifest" "fits pytestManifest" "fits dockerRunManifest"
  "fits makeRunManifest" "fits runCodeManifest" "fits runLinterManifest" "fits runTestsManifest"
  "fits archiveCreateManifest" "fits archiveExtractManifest" "fits archiveListManifest"
  unfolding fits_admin
  unfolding first_party_defs fits_manifest getRegistryEntry_def
  by (simp_all add: names_lower tool_lookup1 tool_lookup2 tool_lookup3 tool_lookup4 reg_class_eqs reg_values)

lemma unfit:
  "getRegistryEntry ''append_file'' = UNKNOWN_ENTRY" "getRegistryEntry ''send_webhook'' = UNKNOWN_ENTRY"
  "\<not> fits appendFileManifest" "\<not> fits sendWebhookManifest"
proof -
  show e: "getRegistryEntry ''append_file'' = UNKNOWN_ENTRY" "getRegistryEntry ''send_webhook'' = UNKNOWN_ENTRY"
    by (simp_all add: getRegistryEntry_def names_lower tool_unknown)
  have u: "reg_class UNKNOWN_ENTRY = ''unknown_sensitive_action''"
    by (simp add: UNKNOWN_ENTRY_def REGISTRY_def reg_class_eqs)
  show "\<not> fits appendFileManifest" "\<not> fits sendWebhookManifest"
    unfolding appendFileManifest_def sendWebhookManifest_def fits_manifest e u by simp_all
qed

lemma first_party_flags:
  "list_all (\<lambda>m. member m ''unsafe_legacy'' = JUndef
     \<and> (member m ''unsafe_admin'' = JBool True \<longrightarrow> member m ''action_class'' = JStr ''shell.exec'')) FIRST_PARTY_MANIFESTS"
proof -
  have a: "member unsafeAdminExecManifest ''unsafe_legacy'' = JUndef"
    "member unsafeAdminExecManifest ''action_class'' = JStr ''shell.exec''"
    by (simp_all add: unsafeAdminExecManifest_def member_def)
  show ?thesis
    unfolding FIRST_PARTY_MANIFESTS_def list.pred_inject a
    unfolding first_party_defs member_manifest by simp
qed

lemma other_flags:
  "list_all (\<lambda>m. member m ''unsafe_legacy'' = JUndef \<and> member m ''unsafe_admin'' = JUndef) OTHER_MANIFESTS"
  unfolding OTHER_MANIFESTS_def list.pred_inject other_defs member_manifest by simp

lemma names_distinct: "distinct (map (\<lambda>m. text_of (member m ''name'')) (FIRST_PARTY_MANIFESTS @ OTHER_MANIFESTS))"
proof -
  have a: "text_of (member unsafeAdminExecManifest ''name'') = ''unsafe_admin_exec''"
    by (simp add: unsafeAdminExecManifest_def member_def text_of_def)
  have t: "text_of (member (manifest n v ac risk mode t ps rs) ''name'') = n" for n v ac risk mode t ps rs
    by (simp add: member_manifest text_of_def)
  show ?thesis
    unfolding FIRST_PARTY_MANIFESTS_def OTHER_MANIFESTS_def append.simps list.map a
    unfolding first_party_defs other_defs t by code_simp
qed

lemma registered_well:
  assumes "vr_valid (validate_manifest env m)" "member m ''unsafe_legacy'' = JUndef"
    and "member m ''unsafe_admin'' = JBool True \<longrightarrow> member m ''action_class'' = JStr ''shell.exec''"
  shows "closed_params m \<and> (\<exists>e\<in>set REGISTRY. declares m e
      \<and> (reg_class e = ''shell.exec'') = (member m ''unsafe_admin'' = JBool True))"
proof -
  from accepted_safe [OF assms(1,2)] obtain e where "closed_params m" "e \<in> set REGISTRY" "declares m e"
    "reg_class e = ''shell.exec'' \<longrightarrow> member m ''unsafe_admin'' = JBool True" by blast
  with assms(3) show ?thesis by (auto simp: declares_def)
qed

text \<open>
  C29. The manifests of all 78 tools are good ones. The list the plugin checks when it is activated, of 61
  manifests, passes this check at any time, in either mode and whether or not unsafe manifests are allowed. And
  each manifest of a tool, of the list or of the 17 the list leaves out, is accepted by the validator, has closed
  parameters, and declares a registered class with the class's risk and approval mode, that of shell commands just
  for the manifest that declares itself an unsafe admin tool.
\<close>

theorem first_party_manifests_valid:
  "validateSkillManifestsForActivation env allow FIRST_PARTY_MANIFESTS = Inr ()
   \<and> list_all (\<lambda>m. vr_valid (validate_manifest env m) \<and> closed_params m
        \<and> (\<exists>e\<in>set REGISTRY. declares m e
             \<and> (reg_class e = ''shell.exec'') = (member m ''unsafe_admin'' = JBool True)))
      (FIRST_PARTY_MANIFESTS @ OTHER_MANIFESTS)
   \<and> length (FIRST_PARTY_MANIFESTS @ OTHER_MANIFESTS) = 78
   \<and> distinct (map (\<lambda>m. text_of (member m ''name'')) (FIRST_PARTY_MANIFESTS @ OTHER_MANIFESTS))"
proof (intro conjI)
  have "[failure_line m (validate_manifest env m). m \<leftarrow> FIRST_PARTY_MANIFESTS, \<not> vr_valid (validate_manifest env m)] = []"
    using first_party_accepted [of env] by (simp add: list_all_iff)
  then show "validateSkillManifestsForActivation env allow FIRST_PARTY_MANIFESTS = Inr ()"
    by (simp add: validateSkillManifestsForActivation_def)
next
  show "list_all (\<lambda>m. vr_valid (validate_manifest env m) \<and> closed_params m
        \<and> (\<exists>e\<in>set REGISTRY. declares m e
             \<and> (reg_class e = ''shell.exec'') = (member m ''unsafe_admin'' = JBool True)))
      (FIRST_PARTY_MANIFESTS @ OTHER_MANIFESTS)"
    unfolding list_all_iff
  proof
    fix m assume m: "m \<in> set (FIRST_PARTY_MANIFESTS @ OTHER_MANIFESTS)"
    then have v: "vr_valid (validate_manifest env m)"
      using first_party_accepted [of env] others_accepted [of env] by (auto simp: list_all_iff)
    have f: "member m ''unsafe_legacy'' = JUndef"
      "member m ''unsafe_admin'' = JBool True \<longrightarrow> member m ''action_class'' = JStr ''shell.exec''"
      using m first_party_flags other_flags by (auto simp: list_all_iff)
    show "vr_valid (validate_manifest env m) \<and> closed_params m
        \<and> (\<exists>e\<in>set REGISTRY. declares m e
             \<and> (reg_class e = ''shell.exec'') = (member m ''unsafe_admin'' = JBool True))"
      using v registered_well [OF v f] by blast
  qed
  show "length (FIRST_PARTY_MANIFESTS @ OTHER_MANIFESTS) = 78"
    by (simp add: FIRST_PARTY_MANIFESTS_def OTHER_MANIFESTS_def)
qed (rule names_distinct)

text \<open>
  The manifests and the classification of calls agree: for every first-party manifest but two, the
  registry entry the normaliser finds for its tool has the class, risk and approval mode the manifest
  declares; \<open>append_file\<close> and \<open>send_webhook\<close> have no alias in the registry, so their calls are
  treated as unknown sensitive actions.
\<close>

theorem manifests_fit_normaliser:
  "filter (\<lambda>m. \<not> declares m (getRegistryEntry (text_of (member m ''name'')))) FIRST_PARTY_MANIFESTS
     = [appendFileManifest, sendWebhookManifest]
   \<and> getRegistryEntry ''append_file'' = UNKNOWN_ENTRY \<and> getRegistryEntry ''send_webhook'' = UNKNOWN_ENTRY"
  unfolding fits_def [symmetric] FIRST_PARTY_MANIFESTS_def by (simp add: tools_fit unfit)

lemma accepted_manifest_safe_witness:
  "closed_params gitAddManifest
    \<and> js_lower (text_of (member gitAddManifest ''name'')) \<notin> EXEC_WRAPPER_TOOL_NAMES
    \<and> (\<exists>e\<in>set REGISTRY. declares gitAddManifest e
         \<and> (reg_class e = ''shell.exec'' \<longrightarrow> member gitAddManifest ''unsafe_admin'' = JBool True))"
proof (rule accepted_manifest_safe)
  have "gitAddManifest \<in> set FIRST_PARTY_MANIFESTS" by (simp add: FIRST_PARTY_MANIFESTS_def)
  then show "vr_valid (validate_manifest \<lparr>ve_parseDate = (\<lambda>_. None), ve_midnight = id, ve_now = 0, ve_openMode = False\<rparr>
      gitAddManifest)"
    using first_party_accepted by (simp add: list_all_iff)
qed (simp add: gitAddManifest_def member_manifest)

end
