(* ===== verification/ToolGate.thy ===== *)
theory ToolGate
  imports Normalize
begin

text \<open>
  Gates on tool names and parameters, \<open>src/validation/\<close>: the gate for third-party tools
  (\<open>mcp-tool-gate.ts\<close>), the planner of compound operations (\<open>compound-operation-handler.ts\<close>), the
  registry of edge-case handlers (\<open>edge-case-registry.ts\<close>) and the metacharacter validator
  (\<open>shell-metachar-validator.ts\<close>). The arrow sign as a separator is left out, as it is outside Latin-1.
\<close>

section \<open>The gate for third-party tools\<close>

datatype gate_effect = GatePermit | GateForbid

datatype gate_reason = RegisteredTool | ExecWrapperBlocked | OperatorAllowlisted | UnregisteredTool

record gate_decision =
  gd_effect :: gate_effect
  gd_actionClass :: string
  gd_risk :: risk_level
  gd_hitlMode :: hitl_mode
  gd_reason :: gate_reason
  gd_registered :: bool
  gd_allowlisted :: bool

record gate_context =
  gx_agentId :: string
  gx_channel :: string
  gx_verified :: "bool option"

record gate_entry =
  ge_ts :: string
  ge_effect :: gate_effect
  ge_match :: string
  ge_reason :: gate_reason
  ge_context :: gate_context
  ge_actionClass :: string

text \<open>The gate keeps its allowlist in lower case; \<open>None\<close> when it has no logger.\<close>

record tool_gate =
  tg_allowlist :: "string set"
  tg_log :: "gate_entry list option"

definition new_gate :: "string list option \<Rightarrow> bool \<Rightarrow> tool_gate" where
  "new_gate allowlist logging =
     \<lparr>tg_allowlist = (case allowlist of None \<Rightarrow> {} | Some names \<Rightarrow> set (map js_lower names)),
      tg_log = (if logging then Some [] else None)\<rparr>"

definition unknown_entry :: registry_entry where
  "unknown_entry =
     (case List.find (\<lambda>e. reg_class e = ''unknown_sensitive_action'') REGISTRY of Some e \<Rightarrow> e | None \<Rightarrow> UNKNOWN_ENTRY)"

definition decided :: "gate_effect \<Rightarrow> registry_entry \<Rightarrow> gate_reason \<Rightarrow> bool \<Rightarrow> bool \<Rightarrow> gate_decision" where
  "decided effect e reason inRegistry allowlisted =
     \<lparr>gd_effect = effect, gd_actionClass = reg_class e, gd_risk = reg_risk e, gd_hitlMode = reg_mode e,
      gd_reason = reason, gd_registered = inRegistry, gd_allowlisted = allowlisted\<rparr>"

definition gate_decide :: "string set \<Rightarrow> string \<Rightarrow> gate_decision" where
  "gate_decide allowlist toolName =
     (let lowerName = js_lower toolName
      in case map_of ALIAS_INDEX lowerName of
           Some e \<Rightarrow>
             if reg_class e = ''shell.exec'' then decided GateForbid e ExecWrapperBlocked True False
             else decided GatePermit e RegisteredTool True False
         | None \<Rightarrow>
             if lowerName \<in> allowlist then decided GatePermit unknown_entry OperatorAllowlisted False True
             else decided GateForbid unknown_entry UnregisteredTool False False)"

definition evaluate_gate ::
  "string \<Rightarrow> string \<Rightarrow> gate_context \<Rightarrow> tool_gate \<Rightarrow> gate_decision \<times> tool_gate" where
  "evaluate_gate now toolName context g =
     (let d = gate_decide (tg_allowlist g) toolName
      in (d, g\<lparr>tg_log := map_option (\<lambda>log. log @ [\<lparr>ge_ts = now, ge_effect = gd_effect d, ge_match = toolName,
                          ge_reason = gd_reason d, ge_context = context, ge_actionClass = gd_actionClass d\<rparr>])
                        (tg_log g)\<rparr>))"

section \<open>Compound operations\<close>

text \<open>\<open>SEPARATOR_RE\<close> without the arrow sign, and \<open>split\<close> by it; the counter is the length of the text.\<close>

definition SEPARATOR_RE :: rx where
  "SEPARATOR_RE = rx_seq [RStar (RClass js_space), rx_alt [rx_lit ''->'', rx_lit ''&&'', rx_chr (CHR '';'')],
     RStar (RClass js_space)]"

definition EXEC_WRAPPER_NAMES :: "string set" where
  "EXEC_WRAPPER_NAMES = {''bash'', ''shell_exec'', ''run_command'', ''execute_command'', ''run_terminal_cmd'',
     ''terminal_exec'', ''cmd'', ''exec'', ''sh'', ''zsh''}"

fun rx_split :: "rx \<Rightarrow> string \<Rightarrow> cursor \<Rightarrow> string list" where
  "rx_split r piece (p, []) = [piece]"
| "rx_split r piece (p, c # cs) =
     (case rx_run r (p, c # cs) of
        [] \<Rightarrow> rx_split r (piece @ [c]) (Some c, cs)
      | (q, rest) # _ \<Rightarrow>
          if length rest < length (c # cs) then piece # rx_split r [] (q, rest)
          else rx_split r (piece @ [c]) (Some c, cs))"

definition js_split_rx :: "rx \<Rightarrow> string \<Rightarrow> string list" where
  "js_split_rx r s = rx_split r [] (None, s)"

record operation_step =
  os_stepIndex :: nat
  os_toolName :: string
  os_actionClass :: string
  os_risk :: risk_level
  os_hitlMode :: hitl_mode

record operation_plan =
  op_input :: string
  op_steps :: "operation_step list"
  op_valid :: bool
  op_errors :: "string list"

definition step_label :: "nat \<Rightarrow> string" where
  "step_label i = ''Step '' @ int_str (int i + 1) @ '': ''"

definition plan_step :: "nat \<Rightarrow> string \<Rightarrow> string + operation_step" where
  "plan_step i raw =
     (let toolName = js_trim raw
      in if toolName = '''' then Inl (step_label i @ ''empty step name is not allowed.'')
         else let lowerName = js_lower toolName
              in if lowerName \<in> EXEC_WRAPPER_NAMES
                 then Inl (step_label i @ ''\"'' @ toolName @ ''\" is a forbidden exec wrapper tool. ''
                        @ ''Compound operations must decompose into fine-grained tool calls only.'')
                 else case map_of ALIAS_INDEX lowerName of
                        None \<Rightarrow> Inl (step_label i @ ''\"'' @ toolName
                                 @ ''\" is not a registered tool alias in the action taxonomy.'')
                      | Some e \<Rightarrow>
                          if reg_class e = ''shell.exec''
                          then Inl (step_label i @ ''\"'' @ toolName @ ''\" resolves to shell.exec, which is not permitted ''
                                 @ ''in compound operations. Use a fine-grained registered tool instead.'')
                          else Inr \<lparr>os_stepIndex = i, os_toolName = toolName, os_actionClass = reg_class e,
                                    os_risk = reg_risk e, os_hitlMode = reg_mode e\<rparr>)"

definition plan :: "string \<Rightarrow> operation_plan" where
  "plan input =
     (let trimmed = js_trim input
      in if trimmed = ''''
         then \<lparr>op_input = input, op_steps = [], op_valid = False,
               op_errors = [''Input compound operation string must not be empty.'']\<rparr>
         else let rs = map (\<lambda>(i, raw). plan_step i raw) (List.enumerate 0 (js_split_rx SEPARATOR_RE trimmed));
                  steps = [s. Inr s \<leftarrow> rs]; errors = [e. Inl e \<leftarrow> rs]
              in \<lparr>op_input = input, op_steps = steps, op_valid = (errors = [] \<and> steps \<noteq> []), op_errors = errors\<rparr>)"

text \<open>The answer of the planner as an edge-case handler; the plan attached to it is \<open>plan\<close> of the command.\<close>

section \<open>Edge cases\<close>

datatype edge_case_type = CompoundOperation | ShellPipeline | OneOffOperation

record edge_context =
  ec_type :: edge_case_type
  ec_command :: string
  ec_metadata :: "(string \<times> json) list"

datatype edge_decision = EdgePermit | EdgeForbid | EdgeDefer

record edge_result =
  er_handled :: bool
  er_decision :: edge_decision
  er_reason :: string

definition edge_result :: "bool \<Rightarrow> edge_decision \<Rightarrow> string \<Rightarrow> edge_result" where
  "edge_result handled decision reason = \<lparr>er_handled = handled, er_decision = decision, er_reason = reason\<rparr>"

definition compound_handle :: "edge_context \<Rightarrow> edge_result" where
  "compound_handle context =
     (let p = plan (ec_command context)
      in if \<not> op_valid p
         then edge_result True EdgeForbid
                (case op_errors p of e # _ \<Rightarrow> e | [] \<Rightarrow> ''Compound operation failed taxonomy validation.'')
         else edge_result True EdgePermit (''Compound operation decomposed into ''
                @ int_str (int (length (op_steps p))) @ '' fine-grained step(s).''))"

text \<open>Handlers work on a state of their own, one for all of them.\<close>

type_synonym 's edge_handler = "edge_context \<Rightarrow> 's \<Rightarrow> edge_result \<times> 's"
type_synonym 's edge_registry = "(edge_case_type, 's edge_handler) jsmap"

definition register_edge :: "edge_case_type \<Rightarrow> 's edge_handler \<Rightarrow> 's edge_registry \<Rightarrow> 's edge_registry" where
  "register_edge t h m = AList.update t h m"

definition edge_type_str :: "edge_case_type \<Rightarrow> string" where
  "edge_type_str t =
     (case t of CompoundOperation \<Rightarrow> ''compound-operation'' | ShellPipeline \<Rightarrow> ''shell-pipeline''
      | OneOffOperation \<Rightarrow> ''one-off-operation'')"

definition dispatch_edge :: "'s edge_registry \<Rightarrow> edge_context \<Rightarrow> 's \<Rightarrow> edge_result \<times> 's" where
  "dispatch_edge m context s =
     (case map_of m (ec_type context) of
        None \<Rightarrow> (edge_result False EdgeDefer (''No handler registered for edge case type: ''
                  @ edge_type_str (ec_type context)), s)
      | Some h \<Rightarrow> h context s)"

definition has_edge :: "edge_case_type \<Rightarrow> 's edge_registry \<Rightarrow> bool" where
  "has_edge t m \<longleftrightarrow> map_of m t \<noteq> None"

definition unregister_edge :: "edge_case_type \<Rightarrow> 's edge_registry \<Rightarrow> bool \<times> 's edge_registry" where
  "unregister_edge t m = (has_edge t m, AList.delete t m)"

definition registeredTypes :: "'s edge_registry \<Rightarrow> edge_case_type list" where
  "registeredTypes m = map fst m"

section \<open>The metacharacter validator\<close>

definition DEFAULT_SHELL_METACHAR_PATTERN :: rx where
  "DEFAULT_SHELL_METACHAR_PATTERN =
     RClass (\<lambda>c. c \<in> set '';|&><$(){}[]'' \<or> c = CHR 0x60 \<or> c = CHR 0x5C)"

record metachar_result =
  mr_triggered :: bool
  mr_risk :: "risk_level option"
  mr_matchedParams :: "string list"

definition validate_metachars :: "rx option \<Rightarrow> (string \<times> json) list \<Rightarrow> metachar_result" where
  "validate_metachars pattern params =
     (let p = (case pattern of Some p \<Rightarrow> p | None \<Rightarrow> DEFAULT_SHELL_METACHAR_PATTERN);
          matched = [k. (k, JStr v) \<leftarrow> params, rx_test p v]
      in \<lparr>mr_triggered = (matched \<noteq> []), mr_risk = (if matched \<noteq> [] then Some Critical else None),
          mr_matchedParams = matched\<rparr>)"

end
