(* ===== verification/ToolGateProps.thy ===== *)
theory ToolGateProps
  imports ToolGate NormalizeProps
begin

text \<open>
  The gate for third-party tools agrees with the normaliser of the plugin and never lets a shell wrapper
  through; the planner of compound operations accepts exactly the sequences of registered tools that are
  not shell wrappers, and reads back a sequence that was written with any of its separators.
\<close>

section \<open>The gate\<close>

lemma unknown_entry_eq: "unknown_entry = UNKNOWN_ENTRY"
  by (simp add: unknown_entry_def UNKNOWN_ENTRY_def REGISTRY_def reg_class_eqs)

text \<open>
  The gate for third-party tools agrees with the normaliser: for every tool name its decision carries
  the class, risk and approval mode the plugin itself gives to that tool; a registered tool is permitted
  unless it is of the class of shell commands, which no allowlist can override, and an unregistered one
  exactly when the operator's allowlist holds its name in some case.
\<close>

theorem gate_agrees_with_normaliser:
  "let d = fst (evaluate_gate now toolName context (new_gate (Some names) logging)); e = getRegistryEntry toolName
   in gd_actionClass d = reg_class e \<and> gd_risk d = reg_risk e \<and> gd_hitlMode d = reg_mode e
      \<and> gd_registered d = (map_of ALIAS_INDEX (js_lower toolName) \<noteq> None)
      \<and> (gd_effect d = GatePermit) =
          (if gd_registered d then reg_class e \<noteq> ''shell.exec'' else (\<exists>n\<in>set names. js_lower n = js_lower toolName))"
proof (cases "map_of ALIAS_INDEX (js_lower toolName)")
  case None
  then show ?thesis
    by (auto simp: evaluate_gate_def gate_decide_def new_gate_def decided_def unknown_entry_eq getRegistryEntry_def Let_def
        intro: rev_image_eqI [OF _ sym])
next
  case (Some e)
  then show ?thesis
    by (auto simp: evaluate_gate_def gate_decide_def new_gate_def decided_def getRegistryEntry_def Let_def)
qed

section \<open>Compound operations\<close>

text \<open>
  The names of shell wrappers are aliases of the class of shell commands, except \<open>sh\<close> and \<open>zsh\<close>, which
  are no aliases at all: for these the gate follows the allowlist.
\<close>

lemma wrapper_is_shell:
  "n \<in> EXEC_WRAPPER_NAMES \<Longrightarrow>
     map_of ALIAS_INDEX n = (if n \<in> {''sh'', ''zsh''} then None else Some reg_shell_exec)"
  unfolding EXEC_WRAPPER_NAMES_def alias_index_lookup REGISTRY_def insert_iff
  by (elim disjE; simp only: find_alias_simps)

lemma allowlisted_shell_permitted:
  "gd_effect (fst (evaluate_gate now ''sh'' context (new_gate (Some [''sh'']) logging))) = GatePermit"
proof -
  have "map_of ALIAS_INDEX ''sh'' = None" using wrapper_is_shell [of "''sh''"] by (simp add: EXEC_WRAPPER_NAMES_def)
  moreover have "js_lower ''sh'' = ''sh''" by code_simp
  ultimately show ?thesis by (simp add: evaluate_gate_def gate_decide_def new_gate_def decided_def Let_def)
qed

definition step_ok :: "string \<Rightarrow> bool" where
  "step_ok raw \<longleftrightarrow>
     js_trim raw \<noteq> ''''
     \<and> (\<exists>e. map_of ALIAS_INDEX (js_lower (js_trim raw)) = Some e \<and> reg_class e \<noteq> ''shell.exec'')"

lemma plan_step_ok: "(\<exists>s. plan_step i raw = Inr s) \<longleftrightarrow> step_ok raw"
proof -
  have "reg_class reg_shell_exec = ''shell.exec''" by (simp only: reg_class_eqs)
  then show ?thesis
    using wrapper_is_shell [of "js_lower (js_trim raw)"]
    by (cases "map_of ALIAS_INDEX (js_lower (js_trim raw))")
      (auto simp: plan_step_def step_ok_def Let_def split: if_splits)
qed

definition step_of :: "nat \<Rightarrow> string \<Rightarrow> operation_step" where
  "step_of i raw =
     (let e = getRegistryEntry (js_trim raw)
      in \<lparr>os_stepIndex = i, os_toolName = js_trim raw, os_actionClass = reg_class e, os_risk = reg_risk e,
          os_hitlMode = reg_mode e\<rparr>)"

lemma plan_step_Inr: "step_ok raw \<Longrightarrow> plan_step i raw = Inr (step_of i raw)"
proof -
  assume ok: "step_ok raw"
  then obtain s where s: "plan_step i raw = Inr s" using plan_step_ok by blast
  with ok show ?thesis
    by (auto simp: plan_step_def step_ok_def step_of_def getRegistryEntry_def Let_def split: if_splits option.splits)
qed

lemma errors_nil: "[e. Inl e \<leftarrow> rs] = [] \<longleftrightarrow> (\<forall>r\<in>set rs. \<exists>s. r = Inr s)"
  by (induction rs) (auto split: sum.splits)

lemma results_valid:
  assumes "rs \<noteq> []"
  shows "([e. Inl e \<leftarrow> rs] = [] \<and> [s. Inr s \<leftarrow> rs] \<noteq> []) \<longleftrightarrow> (\<forall>r\<in>set rs. \<exists>s. r = Inr s)"
proof (cases "\<forall>r\<in>set rs. \<exists>s. r = Inr s")
  case True
  with errors_nil [of rs] have "[e. Inl e \<leftarrow> rs] = []" by blast
  moreover have "[s. Inr s \<leftarrow> rs] \<noteq> []" using True assms by (cases rs) auto
  ultimately show ?thesis using True by blast
next
  case False
  then have "[e. Inl e \<leftarrow> rs] \<noteq> []" unfolding errors_nil .
  with False show ?thesis by blast
qed

lemma rx_split_nonempty: "rx_split r piece st \<noteq> []"
proof (induction r piece st rule: rx_split.induct)
  case (2 r piece p c cs)
  show ?case
  proof (cases "rx_run r (p, c # cs)")
    case Nil
    with 2 show ?thesis by simp
  next
    case (Cons st sts)
    obtain q rest where "st = (q, rest)" by (cases st)
    with 2 Cons show ?thesis by (cases "length rest < length (c # cs)") simp_all
  qed
qed simp

lemma enumerate_all: "(\<forall>(i, x)\<in>set (List.enumerate n xs). P x) \<longleftrightarrow> (\<forall>x\<in>set xs. P x)"
  by (induction xs arbitrary: n) auto

definition pieces :: "string \<Rightarrow> string list" where
  "pieces input = js_split_rx SEPARATOR_RE (js_trim input)"

lemma plan_valid_iff: "op_valid (plan input) \<longleftrightarrow> js_trim input \<noteq> '''' \<and> list_all step_ok (pieces input)"
proof (cases "js_trim input = ''''")
  case False
  let ?ps = "List.enumerate 0 (pieces input)"
  let ?rs = "map (\<lambda>(i, raw). plan_step i raw) ?ps"
  have "?rs \<noteq> []" using rx_split_nonempty by (simp add: pieces_def js_split_rx_def enumerate_eq_zip)
  from results_valid [OF this] False
  have "op_valid (plan input) \<longleftrightarrow> (\<forall>(i, raw)\<in>set ?ps. step_ok raw)"
    by (simp add: plan_def Let_def pieces_def case_prod_beta plan_step_ok)
  also have "\<dots> \<longleftrightarrow> list_all step_ok (pieces input)" by (simp add: enumerate_all list_all_iff)
  finally show ?thesis using False by simp
qed (simp add: plan_def)

lemma plan_steps:
  assumes "op_valid (plan input)"
  shows "op_steps (plan input) = map (\<lambda>(i, raw). step_of i raw) (List.enumerate 0 (pieces input))
    \<and> op_errors (plan input) = []"
proof -
  let ?ps = "List.enumerate 0 (pieces input)"
  have ne: "js_trim input \<noteq> ''''" and ok: "list_all step_ok (pieces input)" using assms by (simp_all add: plan_valid_iff)
  have "\<forall>(i, raw)\<in>set ?ps. step_ok raw" using ok by (simp add: enumerate_all list_all_iff)
  then have "map (\<lambda>(i, raw). plan_step i raw) ?ps = map Inr (map (\<lambda>(i, raw). step_of i raw) ?ps)"
    by (auto simp: plan_step_Inr)
  note rs = this
  have all: "[s. Inr s \<leftarrow> map Inr ss] = ss" "[e. Inl e \<leftarrow> map Inr ss] = []" for ss :: "operation_step list"
    by (induction ss) auto
  have "op_steps (plan input) = [s. Inr s \<leftarrow> map (\<lambda>(i, raw). plan_step i raw) ?ps]"
    "op_errors (plan input) = [e. Inl e \<leftarrow> map (\<lambda>(i, raw). plan_step i raw) ?ps]"
    using ne by (simp_all add: plan_def Let_def pieces_def)
  then show ?thesis unfolding rs all by simp
qed

section \<open>Reading back a written sequence\<close>

text \<open>A name that holds no white space and no character that could end a separator.\<close>

definition step_name :: "string \<Rightarrow> bool" where
  "step_name n \<longleftrightarrow> n \<noteq> [] \<and> list_all (\<lambda>c. \<not> js_space c \<and> c \<notin> {CHR '';'', CHR ''&'', CHR ''>''}) n"

definition SEPARATORS :: "string list" where
  "SEPARATORS = [''->'', '' -> '', ''&&'', '' && '', '';'', ''; '', '' ; '']"

lemma sep_at_name:
  assumes "\<not> js_space c" "c \<notin> {CHR '';'', CHR ''&''}" "cs = [] \<or> hd cs \<noteq> CHR ''>''"
  shows "rx_run SEPARATOR_RE (p, c # cs) = []"
  using assms by (cases cs) (auto simp: SEPARATOR_RE_def rx_chr_def)

lemma sep_at_sep:
  assumes "sep \<in> set SEPARATORS" and "\<not> js_space c"
  shows "\<exists>q sts. rx_run SEPARATOR_RE (p, sep @ c # cs) = (q, c # cs) # sts"
  using assms unfolding SEPARATORS_def
  by (auto simp: SEPARATOR_RE_def rx_chr_def js_space_def of_char_of)

lemma split_name:
  assumes "list_all (\<lambda>c. \<not> js_space c \<and> c \<notin> {CHR '';'', CHR ''&'', CHR ''>''}) n" and "rest = [] \<or> hd rest \<noteq> CHR ''>''"
  shows "\<exists>q. rx_split SEPARATOR_RE piece (p, n @ rest) = rx_split SEPARATOR_RE (piece @ n) (q, rest)"
  using assms(1)
proof (induction n arbitrary: piece p)
  case (Cons c n)
  have "n @ rest = [] \<or> hd (n @ rest) \<noteq> CHR ''>''" using Cons.prems assms(2) by (cases n) auto
  then have "rx_run SEPARATOR_RE (p, c # n @ rest) = []" using Cons.prems by (intro sep_at_name) auto
  then have "rx_split SEPARATOR_RE piece (p, (c # n) @ rest) = rx_split SEPARATOR_RE (piece @ [c]) (Some c, n @ rest)"
    by simp
  moreover obtain q where "rx_split SEPARATOR_RE (piece @ [c]) (Some c, n @ rest)
      = rx_split SEPARATOR_RE ((piece @ [c]) @ n) (q, rest)"
    using Cons.IH [of "piece @ [c]" "Some c"] Cons.prems by auto
  ultimately show ?case by auto
qed auto

lemma split_join:
  assumes "sep \<in> set SEPARATORS" and "list_all step_name ns" and "ns \<noteq> []"
  shows "rx_split SEPARATOR_RE [] (p, join sep ns) = ns"
  using assms(2,3)
proof (induction ns arbitrary: p)
  case (Cons n ns)
  have n: "list_all (\<lambda>c. \<not> js_space c \<and> c \<notin> {CHR '';'', CHR ''&'', CHR ''>''}) n"
    using Cons.prems by (simp add: step_name_def)
  show ?case
  proof (cases ns)
    case Nil
    from split_name [OF n, of "[]" "[]" p] Nil show ?thesis by auto
  next
    case (Cons m ms)
    with Cons.prems obtain c cs where m: "m = c # cs" "\<not> js_space c" by (cases m) (auto simp: step_name_def)
    have rest: "join sep ns = c # tl (join sep ns)" using m Cons by (cases ms) auto
    have sep: "sep @ join sep ns = [] \<or> hd (sep @ join sep ns) \<noteq> CHR ''>''" "sep \<noteq> []"
      using assms(1) by (auto simp: SEPARATORS_def)
    obtain q where q: "rx_split SEPARATOR_RE [] (p, n @ sep @ join sep ns) = rx_split SEPARATOR_RE n (q, sep @ join sep ns)"
      using split_name [OF n sep(1), of "[]" p] by auto
    obtain q' sts where "rx_run SEPARATOR_RE (q, sep @ join sep ns) = (q', join sep ns) # sts"
      using sep_at_sep [OF assms(1) m(2), of q "tl (join sep ns)"] rest by metis
    then have "rx_split SEPARATOR_RE n (q, sep @ join sep ns) = n # rx_split SEPARATOR_RE [] (q', join sep ns)"
      using sep(2) by (cases sep) auto
    with q Cons Cons.IH Cons.prems show ?thesis by simp
  qed
qed simp

lemma trim_unspaced: "s \<noteq> [] \<Longrightarrow> \<not> js_space (hd s) \<Longrightarrow> \<not> js_space (last s) \<Longrightarrow> js_trim s = s"
proof -
  assume s: "s \<noteq> []" "\<not> js_space (hd s)" "\<not> js_space (last s)"
  then have "dropWhile js_space s = s" "dropWhile js_space (rev s) = rev s"
    by (simp_all add: dropWhile_eq_self_iff hd_rev)
  then show ?thesis by (simp add: js_trim_def)
qed

lemma name_ends: "step_name n \<Longrightarrow> n \<noteq> [] \<and> \<not> js_space (hd n) \<and> \<not> js_space (last n)"
  by (auto simp: step_name_def list_all_iff)

lemma join_ends:
  assumes "list_all step_name ns" and "ns \<noteq> []"
  shows "join sep ns \<noteq> [] \<and> \<not> js_space (hd (join sep ns)) \<and> \<not> js_space (last (join sep ns))"
  using assms by (induction sep ns rule: join.induct) (auto dest: name_ends)

text \<open>A registered tool that is not a shell wrapper.\<close>

definition fine_grained :: "string \<Rightarrow> bool" where
  "fine_grained n \<longleftrightarrow> (\<exists>e. map_of ALIAS_INDEX (js_lower n) = Some e \<and> reg_class e \<noteq> ''shell.exec'')"

lemma steps_of_names:
  assumes "\<forall>n\<in>set ns. js_trim n = n"
  shows "map os_toolName (map (\<lambda>(i, raw). step_of i raw) (List.enumerate k ns)) = ns
    \<and> map os_stepIndex (map (\<lambda>(i, raw). step_of i raw) (List.enumerate k ns)) = [k..<k + length ns]
    \<and> map os_actionClass (map (\<lambda>(i, raw). step_of i raw) (List.enumerate k ns)) = map normalizeActionClass ns"
  using assms by (induction ns arbitrary: k) (simp_all add: step_of_def Let_def normalizeActionClass_def upt_rec)

text \<open>
  A compound operation written with any of its separators is planned as it is written: the plan is
  valid exactly when every name is a registered tool that is not of the class of shell commands, and a
  valid plan lists the names in their order, each with the class, risk and approval mode the normaliser
  gives to it, and no error.
\<close>

theorem compound_plan_roundtrip:
  assumes "sep \<in> set SEPARATORS" and "list_all step_name ns" and "ns \<noteq> []"
  shows "op_valid (plan (join sep ns)) = list_all fine_grained ns
    \<and> (op_valid (plan (join sep ns)) \<longrightarrow>
         map os_toolName (op_steps (plan (join sep ns))) = ns
         \<and> map os_stepIndex (op_steps (plan (join sep ns))) = [0..<length ns]
         \<and> map os_actionClass (op_steps (plan (join sep ns))) = map normalizeActionClass ns
         \<and> op_errors (plan (join sep ns)) = [])"
proof -
  have trim: "js_trim (join sep ns) = join sep ns" using join_ends [OF assms(2,3)] by (simp add: trim_unspaced)
  have ps: "pieces (join sep ns) = ns" using split_join [OF assms] by (simp add: pieces_def trim js_split_rx_def)
  have names: "n \<in> set ns \<Longrightarrow> js_trim n = n \<and> n \<noteq> []" for n
    using assms(2) name_ends trim_unspaced by (auto simp: list_all_iff)
  have "list_all step_ok ns = list_all fine_grained ns"
    using names by (auto simp: list_all_iff step_ok_def fine_grained_def)
  then have valid: "op_valid (plan (join sep ns)) = list_all fine_grained ns"
    using join_ends [OF assms(2,3)] by (simp add: plan_valid_iff trim ps)
  from steps_of_names [of ns 0] names valid plan_steps [of "join sep ns"] show ?thesis by (auto simp: ps)
qed

lemma compound_plan_roundtrip_witness:
  "op_valid (plan (join '' -> '' [''git_clone'', ''npm_install'']))
    \<and> map os_actionClass (op_steps (plan (join '' -> '' [''git_clone'', ''npm_install''])))
        = map normalizeActionClass [''git_clone'', ''npm_install'']"
proof -
  have low: "js_lower ''git_clone'' = ''git_clone''" "js_lower ''npm_install'' = ''npm_install''" by code_simp+
  have "map_of ALIAS_INDEX ''git_clone'' = Some reg_vcs_remote" "map_of ALIAS_INDEX ''npm_install'' = Some reg_package_install"
    unfolding alias_index_lookup REGISTRY_def by (simp_all only: find_alias_simps)
  then have "list_all fine_grained [''git_clone'', ''npm_install'']"
    by (simp add: fine_grained_def low reg_class_eqs)
  moreover have "list_all step_name [''git_clone'', ''npm_install'']" by code_simp
  ultimately show ?thesis
    using compound_plan_roundtrip [of "'' -> ''" "[''git_clone'', ''npm_install'']"] by (simp add: SEPARATORS_def)
qed

section \<open>Metacharacters\<close>

text \<open>
  The metacharacter validator mirrors the rule of the normaliser: with its default pattern it raises
  the risk to critical exactly for the parameters for which the normaliser does, and names the
  parameters that hold a metacharacter, in their order.
\<close>

theorem metachar_validator_agrees:
  "mr_triggered (validate_metachars None params) = hasShellMetacharsInParams params
   \<and> mr_risk (validate_metachars None params) = (if hasShellMetacharsInParams params then Some Critical else None)
   \<and> mr_matchedParams (validate_metachars None params)
       = map fst (filter (\<lambda>(k, v). case v of JStr s \<Rightarrow> containsShellMetachars s | _ \<Rightarrow> False) params)"
proof -
  have p: "rx_test DEFAULT_SHELL_METACHAR_PATTERN s = containsShellMetachars s" for s
    by (auto simp: containsShellMetachars_iff DEFAULT_SHELL_METACHAR_PATTERN_def rx_test_class metachars_def)
  have m: "[k. (k, JStr v) \<leftarrow> params, rx_test DEFAULT_SHELL_METACHAR_PATTERN v]
      = map fst (filter (\<lambda>(k, v). case v of JStr s \<Rightarrow> containsShellMetachars s | _ \<Rightarrow> False) params)"
    unfolding p by (induction params) (auto split: json.split)
  have "(map fst (filter (\<lambda>(k, v). case v of JStr s \<Rightarrow> containsShellMetachars s | _ \<Rightarrow> False) params) \<noteq> [])
      = hasShellMetacharsInParams params"
    by (force simp: hasShellMetacharsInParams_def list_ex_iff filter_empty_conv)
  then show ?thesis unfolding validate_metachars_def Let_def option.case m by simp
qed

text \<open>An operation without a handler is deferred, never permitted; the last registered handler answers.\<close>

lemma edge_dispatch:
  "\<not> has_edge (ec_type c) m \<Longrightarrow> er_decision (fst (dispatch_edge m c s)) = EdgeDefer \<and> snd (dispatch_edge m c s) = s"
  "dispatch_edge (register_edge (ec_type c) h m) c s = h c s"
  "ec_type c \<noteq> t \<Longrightarrow> dispatch_edge (register_edge t h m) c s = dispatch_edge m c s"
  by (auto simp: dispatch_edge_def has_edge_def register_edge_def edge_result_def map_laws)

end
