(* ===== verification/Obfuscation.thy ===== *)
theory Obfuscation
  imports Manifest
begin

text \<open>
  The obfuscation detector \<open>src/validation/agent-obfuscation-detector.ts\<close>: the strictness of the schema,
  undeclared and polluting keys, the field rules and the declared types. The characters of OBF-003 (marks
  that turn the direction of text) lie outside Latin-1, so this rule matches no text of the model.
\<close>

section \<open>Violations and rules\<close>

datatype obfuscation_kind =
    SchemaMissingStrict | ExtraProperties | NullByte | ControlChars | PrototypePollution | EncodingPattern
  | OversizedValue | TypeConfusion

datatype obf_risk = ObfHigh | ObfCritical

record violation =
  vi_kind :: obfuscation_kind
  vi_field :: string
  vi_message :: string
  vi_risk :: obf_risk

record field_rule =
  fr_id :: string
  fr_description :: string
  fr_field :: string
  fr_when :: "json \<Rightarrow> bool"
  fr_kind :: obfuscation_kind
  fr_risk :: obf_risk

definition DEFAULT_MAX_STRING_LENGTH :: nat where
  "DEFAULT_MAX_STRING_LENGTH = 4096"

definition PROTOTYPE_POLLUTION_KEYS :: "string set" where
  "PROTOTYPE_POLLUTION_KEYS = {''__proto__'', ''constructor'', ''prototype'', ''__defineGetter__'',
     ''__defineSetter__'', ''__lookupGetter__'', ''__lookupSetter__''}"

text \<open>\<open>[\x01-\x08\x0b\x0c\x0e-\x1f\x7f]\<close>\<close>

definition control_char :: "char \<Rightarrow> bool" where
  "control_char c \<longleftrightarrow> (let n = (of_char c :: nat)
     in (1 \<le> n \<and> n \<le> 8) \<or> n = 11 \<or> n = 12 \<or> (14 \<le> n \<and> n \<le> 31) \<or> n = 127)"

definition CONTROL_CHAR_PATTERN :: rx where
  "CONTROL_CHAR_PATTERN = RClass control_char"

definition BIDI_OVERRIDE_PATTERN :: rx where
  "BIDI_OVERRIDE_PATTERN = RClass (\<lambda>c. False)"

definition text_when :: "(string \<Rightarrow> bool) \<Rightarrow> json \<Rightarrow> bool" where
  "text_when P v = (case v of JStr s \<Rightarrow> P s | _ \<Rightarrow> False)"

definition BUILT_IN_CEDAR_RULES :: "field_rule list" where
  "BUILT_IN_CEDAR_RULES =
     [\<lparr>fr_id = ''OBF-001'', fr_description = ''Null bytes are forbidden in string parameters.'', fr_field = ''*'',
       fr_when = text_when (\<lambda>s. CHR 0x00 \<in> set s), fr_kind = NullByte, fr_risk = ObfCritical\<rparr>,
      \<lparr>fr_id = ''OBF-002'', fr_description = ''Non-printable control characters are forbidden in string parameters.'',
       fr_field = ''*'', fr_when = text_when (rx_test CONTROL_CHAR_PATTERN), fr_kind = ControlChars, fr_risk = ObfHigh\<rparr>,
      \<lparr>fr_id = ''OBF-003'',
       fr_description = ''Unicode bidirectional text override characters are forbidden (encoding obfuscation / Trojan Source).'',
       fr_field = ''*'', fr_when = text_when (rx_test BIDI_OVERRIDE_PATTERN), fr_kind = EncodingPattern, fr_risk = ObfHigh\<rparr>]"

definition oversized_rule :: "nat \<Rightarrow> field_rule" where
  "oversized_rule limit =
     \<lparr>fr_id = ''OBF-004'',
      fr_description = ''String values exceeding '' @ int_str (int limit) @ '' characters are blocked.'', fr_field = ''*'',
      fr_when = text_when (\<lambda>s. length s > limit), fr_kind = OversizedValue, fr_risk = ObfHigh\<rparr>"

definition detector_rules :: "nat option \<Rightarrow> field_rule list option \<Rightarrow> field_rule list" where
  "detector_rules maxStringLength additionalRules =
     BUILT_IN_CEDAR_RULES
     @ [oversized_rule (case maxStringLength of Some n \<Rightarrow> n | None \<Rightarrow> DEFAULT_MAX_STRING_LENGTH)]
     @ (case additionalRules of Some rs \<Rightarrow> rs | None \<Rightarrow> [])"

section \<open>Types\<close>

definition typeConforms :: "json \<Rightarrow> string \<Rightarrow> bool" where
  "typeConforms v declaredType =
     (if declaredType = ''string'' then (case v of JStr _ \<Rightarrow> True | _ \<Rightarrow> False)
      else if declaredType \<in> {''number'', ''integer''} then (case v of JNum _ \<Rightarrow> True | _ \<Rightarrow> False)
      else if declaredType = ''boolean'' then (case v of JBool _ \<Rightarrow> True | _ \<Rightarrow> False)
      else if declaredType = ''null'' then v = JNull
      else if declaredType = ''array'' then (case v of JArr _ \<Rightarrow> True | _ \<Rightarrow> False)
      else if declaredType = ''object'' then (case v of JObj _ \<Rightarrow> True | _ \<Rightarrow> False)
      else True)"

definition type_name :: "json \<Rightarrow> string" where
  "type_name v =
     (case v of JArr _ \<Rightarrow> ''array'' | JNull \<Rightarrow> ''null'' | JUndef \<Rightarrow> ''undefined'' | JBool _ \<Rightarrow> ''boolean''
      | JNum _ \<Rightarrow> ''number'' | JStr _ \<Rightarrow> ''string'' | JObj _ \<Rightarrow> ''object'')"

text \<open>\<open>TStrictParamsSchema\<close>; TypeBox takes no array for an object.\<close>

definition strict_schema :: "json \<Rightarrow> bool" where
  "strict_schema schema \<longleftrightarrow>
     (\<exists>kvs. schema = JObj kvs) \<and> member schema ''type'' = JStr ''object''
     \<and> (case member schema ''properties'' of JObj _ \<Rightarrow> True | _ \<Rightarrow> False)
     \<and> member schema ''additionalProperties'' = JBool False"

definition declared :: "json \<Rightarrow> (string \<times> json) list" where
  "declared schema = (case member schema ''properties'' of JObj ps \<Rightarrow> ps | _ \<Rightarrow> [])"

definition declared_type :: "json \<Rightarrow> string \<Rightarrow> string option" where
  "declared_type schema key =
     (case map_of (declared schema) key of
        Some (JObj ms) \<Rightarrow> (case map_of ms ''type'' of Some (JStr t) \<Rightarrow> Some t | _ \<Rightarrow> None)
      | _ \<Rightarrow> None)"

section \<open>Detection\<close>

definition extra_properties :: "string \<Rightarrow> json \<Rightarrow> (string \<times> json) list \<Rightarrow> violation list" where
  "extra_properties tool schema params =
     [\<lparr>vi_kind = ExtraProperties, vi_field = k,
       vi_message = ''Tool \"'' @ tool @ ''\": unexpected parameter \"'' @ k
         @ ''\" is not declared in the schema (additionalProperties: false).'', vi_risk = ObfHigh\<rparr>.
      (k, v) \<leftarrow> params, map_of (declared schema) k = None]"

definition pollution_keys :: "string \<Rightarrow> (string \<times> json) list \<Rightarrow> violation list" where
  "pollution_keys tool params =
     [\<lparr>vi_kind = PrototypePollution, vi_field = k,
       vi_message = ''Tool \"'' @ tool @ ''\": parameter key \"'' @ k
         @ ''\" is a known prototype-pollution vector and is always forbidden (OBF-PP).'', vi_risk = ObfCritical\<rparr>.
      (k, v) \<leftarrow> params, k \<in> PROTOTYPE_POLLUTION_KEYS]"

definition field_violations :: "string \<Rightarrow> field_rule list \<Rightarrow> (string \<times> json) list \<Rightarrow> violation list" where
  "field_violations tool rules params =
     [\<lparr>vi_kind = fr_kind r, vi_field = k,
       vi_message = ''['' @ fr_id r @ ''] Tool \"'' @ tool @ ''\", field \"'' @ k @ ''\": '' @ fr_description r,
       vi_risk = fr_risk r\<rparr>.
      (k, v) \<leftarrow> params, r \<leftarrow> rules, (fr_field r = ''*'' \<or> fr_field r = k) \<and> fr_when r v]"

definition type_violations :: "string \<Rightarrow> json \<Rightarrow> (string \<times> json) list \<Rightarrow> violation list" where
  "type_violations tool schema params =
     concat (map (\<lambda>(k, v). case declared_type schema k of
         None \<Rightarrow> []
       | Some t \<Rightarrow>
           if typeConforms v t then []
           else [\<lparr>vi_kind = TypeConfusion, vi_field = k,
                  vi_message = ''[OBF-TC] Tool \"'' @ tool @ ''\", field \"'' @ k @ ''\": declared type is \"'' @ t
                    @ ''\" but received \"'' @ type_name v @ ''\".'', vi_risk = ObfHigh\<rparr>]) params)"

definition detect :: "field_rule list \<Rightarrow> string \<Rightarrow> (string \<times> json) list \<Rightarrow> json \<Rightarrow> bool \<times> violation list" where
  "detect rules tool params schema =
     (if \<not> strict_schema schema
      then (True, [\<lparr>vi_kind = SchemaMissingStrict, vi_field = ''schema'',
              vi_message = ''Tool \"'' @ tool @ ''\": schema must declare type \"object\", a properties map, ''
                @ ''and additionalProperties: false (F-05 requirement).'', vi_risk = ObfHigh\<rparr>])
      else let vs = extra_properties tool schema params @ pollution_keys tool params
                    @ field_violations tool rules params @ type_violations tool schema params
           in (vs \<noteq> [], vs))"

end
