(* ===== verification/ObfuscationProps.thy ===== *)
theory ObfuscationProps
  imports Obfuscation ManifestProps
begin

text \<open>
  What the obfuscation detector lets through, and that the manifests the plugin accepts always give it a
  schema it can check.
\<close>

text \<open>A parameter the detector has nothing against.\<close>

definition clean_text :: "nat \<Rightarrow> json \<Rightarrow> bool" where
  "clean_text limit v \<longleftrightarrow>
     (case v of JStr s \<Rightarrow> length s \<le> limit \<and> list_all (\<lambda>c. c \<noteq> CHR 0x00 \<and> \<not> control_char c) s | _ \<Rightarrow> True)"

definition clean_param :: "nat \<Rightarrow> field_rule list \<Rightarrow> json \<Rightarrow> string \<times> json \<Rightarrow> bool" where
  "clean_param limit extra schema kv \<longleftrightarrow>
     (case kv of (k, v) \<Rightarrow>
        map_of (declared schema) k \<noteq> None \<and> k \<notin> PROTOTYPE_POLLUTION_KEYS \<and> clean_text limit v
        \<and> list_all (\<lambda>r. (fr_field r = ''*'' \<or> fr_field r = k) \<longrightarrow> \<not> fr_when r v) extra
        \<and> (case declared_type schema k of None \<Rightarrow> True | Some t \<Rightarrow> typeConforms v t))"

definition quiet :: "field_rule list \<Rightarrow> string \<times> json \<Rightarrow> bool" where
  "quiet rules kv \<longleftrightarrow> list_all (\<lambda>r. (fr_field r = ''*'' \<or> fr_field r = fst kv) \<longrightarrow> \<not> fr_when r (snd kv)) rules"

lemma quiet_append: "quiet (a @ b) kv \<longleftrightarrow> quiet a kv \<and> quiet b kv"
  by (simp add: quiet_def)

lemma quiet_Cons: "quiet (r # r' # rs) kv \<longleftrightarrow> quiet [r] kv \<and> quiet (r' # rs) kv"
  by (simp add: quiet_def)

lemma quiet_any: "fr_field r = ''*'' \<Longrightarrow> quiet [r] kv \<longleftrightarrow> \<not> fr_when r (snd kv)"
  by (auto simp: quiet_def)

lemma quiet_oversized: "quiet [oversized_rule limit] kv \<longleftrightarrow> \<not> text_when (\<lambda>s. length s > limit) (snd kv)"
  by (simp add: quiet_any oversized_rule_def)

lemma quiet_built_in_rules: "quiet BUILT_IN_CEDAR_RULES kv
    \<longleftrightarrow> \<not> text_when (\<lambda>s. CHR 0x00 \<in> set s) (snd kv) \<and> \<not> text_when (\<lambda>s. \<exists>c\<in>set s. control_char c) (snd kv)"
  unfolding BUILT_IN_CEDAR_RULES_def quiet_Cons
  by (simp add: quiet_any CONTROL_CHAR_PATTERN_def BIDI_OVERRIDE_PATTERN_def rx_test_class text_when_def split: json.split)

lemma not_in_all: "x \<notin> A \<longleftrightarrow> (\<forall>c\<in>A. c \<noteq> x)"
  by blast

lemma quiet_built_in: "quiet (BUILT_IN_CEDAR_RULES @ [oversized_rule limit]) kv \<longleftrightarrow> clean_text limit (snd kv)"
  unfolding quiet_append quiet_built_in_rules quiet_oversized
  by (cases "snd kv")
    (simp_all add: text_when_def clean_text_def list_all_iff not_in_all ball_conj_distrib not_less conj_ac)

lemma field_violations_nil: "field_violations tool rules params = [] \<longleftrightarrow> list_all (quiet rules) params"
  by (simp add: field_violations_def quiet_def list_all_iff concat_eq_Nil_conv case_prod_beta) blast

lemma extra_nil: "extra_properties tool schema params = [] \<longleftrightarrow> list_all (\<lambda>kv. map_of (declared schema) (fst kv) \<noteq> None) params"
  by (induction params) (simp_all add: extra_properties_def case_prod_beta)

lemma pollution_nil: "pollution_keys tool params = [] \<longleftrightarrow> list_all (\<lambda>kv. fst kv \<notin> PROTOTYPE_POLLUTION_KEYS) params"
  by (induction params) (simp_all add: pollution_keys_def case_prod_beta)

lemma type_nil: "type_violations tool schema params = []
    \<longleftrightarrow> list_all (\<lambda>kv. case declared_type schema (fst kv) of None \<Rightarrow> True | Some t \<Rightarrow> typeConforms (snd kv) t) params"
  by (simp add: type_violations_def list_all_iff concat_eq_Nil_conv case_prod_beta split: option.split) blast

text \<open>
  The detector blocks exactly the calls with something to hide: a call passes, without any violation,
  when and only when the schema is closed and every parameter is declared, is no key that pollutes a
  prototype, holds no null byte, control character or oversized text, has the declared type, and
  breaks no additional rule; a call that is blocked has at least one violation.
\<close>

theorem obfuscation_passes_iff:
  "(detect (detector_rules (Some limit) (Some extra)) tool params schema = (False, []))
     = (strict_schema schema \<and> list_all (clean_param limit extra schema) params)
   \<and> fst (detect rules tool params schema) = (snd (detect rules tool params schema) \<noteq> [])"
proof
  have rules: "quiet (detector_rules (Some limit) (Some extra)) kv \<longleftrightarrow> clean_text limit (snd kv) \<and> quiet extra kv" for kv
    unfolding detector_rules_def option.case append_assoc [symmetric] quiet_append [where b = extra]
    by (simp only: quiet_built_in)
  have "clean_param limit extra schema kv \<longleftrightarrow> map_of (declared schema) (fst kv) \<noteq> None
      \<and> fst kv \<notin> PROTOTYPE_POLLUTION_KEYS \<and> quiet (detector_rules (Some limit) (Some extra)) kv
      \<and> (case declared_type schema (fst kv) of None \<Rightarrow> True | Some t \<Rightarrow> typeConforms (snd kv) t)" for kv
    unfolding rules by (simp add: clean_param_def quiet_def case_prod_beta)
  then show "(detect (detector_rules (Some limit) (Some extra)) tool params schema = (False, []))
     = (strict_schema schema \<and> list_all (clean_param limit extra schema) params)"
    by (auto simp: detect_def Let_def field_violations_nil extra_nil pollution_nil type_nil list_all_iff)
  show "fst (detect rules tool params schema) = (snd (detect rules tool params schema) \<noteq> [])"
    by (simp add: detect_def Let_def)
qed

text \<open>The manifests the plugin starts with, and any accepted one, give the detector a closed schema.\<close>

lemma closed_strict: "closed_params m \<Longrightarrow> strict_schema (member m ''params'')"
  by (auto simp: closed_params_def strict_schema_def member_def split: json.splits)

lemma first_party_schemas: "list_all (\<lambda>m. strict_schema (member m ''params'')) FIRST_PARTY_MANIFESTS"
proof -
  have "closed_params m" if "m \<in> set FIRST_PARTY_MANIFESTS" for m
    using schema_valid [of undefined m] first_party_accepted [of undefined] that
    by (auto simp: list_all_iff validate_manifest_def Let_def split: if_splits)
  then show ?thesis by (simp add: list_all_iff closed_strict)
qed

end
