(* ===== verification/Capability.thy ===== *)
theory Capability
  imports ToolGate Obfuscation
begin

text \<open>
  Requests for new capabilities, \<open>src/validation/\<close>: the records and the processor of RFCs
  (\<open>rfc-processor.ts\<close>), the handler of one-off operations (\<open>one-off-operation-handler.ts\<close>) and the handler
  of novel threats (\<open>novel-threat-handler.ts\<close>). Times are kept in milliseconds where the code keeps their
  ISO texts; \<open>toISO\<close> is \<open>toISOString\<close>. Random identifiers are arguments. The clock of a processor
  is the sequence of its readings, so that every call of \<open>clock()\<close> may give another time. An operation
  runs to its end before the next one starts.
\<close>

section \<open>Records of an RFC\<close>

definition RFC_SLA_DAYS :: int where
  "RFC_SLA_DAYS = 14"

datatype rfc_status = RfcOpen | RfcInReview | RfcApproved | RfcRejected | RfcImplemented

record capability_request =
  cr_proposedActionClass :: string
  cr_proposedAliases :: "string list"
  cr_riskLevel :: string

datatype rfc_event = RfcCreated | RfcStatusChanged | RfcNotificationSent | RfcSlaBreached

record rfc_audit =
  ra_ts :: int
  ra_event :: rfc_event
  ra_detail :: string
  ra_actor :: "string option"

datatype notification_type = Acknowledgment | StatusUpdate | SlaWarning | Resolution

record rfc_notification =
  rn_ts :: int
  rn_recipient :: string
  rn_type :: notification_type
  rn_message :: string

record rfc =
  rf_id :: string
  rf_title :: string
  rf_description :: string
  rf_requestor :: string
  rf_status :: rfc_status
  rf_createdAt :: int
  rf_updatedAt :: int
  rf_slaDeadline :: int
  rf_slaBreached :: bool
  rf_triggerContext :: "edge_context option"
  rf_capabilityRequest :: "capability_request option"
  rf_auditTrail :: "rfc_audit list"
  rf_notifications :: "rfc_notification list"

record rfc_submission =
  rs_title :: string
  rs_description :: string
  rs_requestor :: string
  rs_triggerContext :: "edge_context option"
  rs_capabilityRequest :: "capability_request option"

fun rfc_status_str :: "rfc_status \<Rightarrow> string" where
  "rfc_status_str RfcOpen = ''open''"
| "rfc_status_str RfcInReview = ''in_review''"
| "rfc_status_str RfcApproved = ''approved''"
| "rfc_status_str RfcRejected = ''rejected''"
| "rfc_status_str RfcImplemented = ''implemented''"

fun notification_type_str :: "notification_type \<Rightarrow> string" where
  "notification_type_str Acknowledgment = ''acknowledgment''"
| "notification_type_str StatusUpdate = ''status_update''"
| "notification_type_str SlaWarning = ''sla_warning''"
| "notification_type_str Resolution = ''resolution''"

definition isResolved :: "rfc_status \<Rightarrow> bool" where
  "isResolved status \<longleftrightarrow> status = RfcApproved \<or> status = RfcRejected \<or> status = RfcImplemented"

text \<open>A day of the UTC calendar has 86400 seconds.\<close>

definition addDays :: "int \<Rightarrow> int \<Rightarrow> int" where
  "addDays t days = t + days * 86400000"

section \<open>The processor\<close>

text \<open>\<open>notify\<close> answers with the text of the error it throws, if it throws one.\<close>

record rfc_processor =
  rp_store :: "(string, rfc) jsmap"
  rp_clock :: "nat \<Rightarrow> int"
  rp_reads :: nat
  rp_notify :: "(rfc_notification \<Rightarrow> rfc \<Rightarrow> string option) option"

definition new_processor ::
  "(nat \<Rightarrow> int) \<Rightarrow> (rfc_notification \<Rightarrow> rfc \<Rightarrow> string option) option \<Rightarrow> rfc_processor" where
  "new_processor clock notify = \<lparr>rp_store = [], rp_clock = clock, rp_reads = 0, rp_notify = notify\<rparr>"

definition read_clock :: "rfc_processor \<Rightarrow> int \<times> rfc_processor" where
  "read_clock p = (rp_clock p (rp_reads p), p\<lparr>rp_reads := rp_reads p + 1\<rparr>)"

definition rfc_appendAudit ::
  "rfc_event \<Rightarrow> string \<Rightarrow> string option \<Rightarrow> rfc \<Rightarrow> rfc_processor \<Rightarrow> rfc \<times> rfc_processor" where
  "rfc_appendAudit event detail actor r p =
     (case read_clock p of (ts, p1) \<Rightarrow>
        (r\<lparr>rf_auditTrail := rf_auditTrail r
             @ [\<lparr>ra_ts = ts, ra_event = event, ra_detail = detail, ra_actor = actor\<rparr>]\<rparr>, p1))"

definition dispatchNotification ::
  "string \<Rightarrow> notification_type \<Rightarrow> string \<Rightarrow> rfc \<Rightarrow> rfc_processor \<Rightarrow> rfc \<times> rfc_processor" where
  "dispatchNotification recipient type message r p =
     (case read_clock p of (ts, p1) \<Rightarrow>
        let n = \<lparr>rn_ts = ts, rn_recipient = recipient, rn_type = type, rn_message = message\<rparr>
        in case rfc_appendAudit RfcNotificationSent
                  (''Notification \"'' @ notification_type_str type @ ''\" sent to \"'' @ recipient @ ''\"'') (Some ''system'')
                  (r\<lparr>rf_notifications := rf_notifications r @ [n]\<rparr>) p1 of (r1, p2) \<Rightarrow>
             (case rp_notify p2 of
                None \<Rightarrow> (r1, p2)
              | Some notify \<Rightarrow>
                  (case notify n r1 of
                     None \<Rightarrow> (r1, p2)
                   | Some err \<Rightarrow> rfc_appendAudit RfcNotificationSent (''Notification delivery failed: '' @ err)
                                   (Some ''system'') r1 p2)))"

definition put_rfc :: "rfc \<Rightarrow> rfc_processor \<Rightarrow> rfc_processor" where
  "put_rfc r p = p\<lparr>rp_store := AList.update (rf_id r) r (rp_store p)\<rparr>"

definition getById :: "string \<Rightarrow> rfc_processor \<Rightarrow> rfc option" where
  "getById rid p = map_of (rp_store p) rid"

definition file_rfc ::
  "(int \<Rightarrow> string) \<Rightarrow> string \<Rightarrow> rfc_submission \<Rightarrow> rfc_processor \<Rightarrow> rfc \<times> rfc_processor" where
  "file_rfc toISO rid submission p =
     (case read_clock p of (now, p1) \<Rightarrow>
        let deadline = addDays now RFC_SLA_DAYS;
            r = \<lparr>rf_id = rid, rf_title = rs_title submission, rf_description = rs_description submission,
                 rf_requestor = rs_requestor submission, rf_status = RfcOpen, rf_createdAt = now, rf_updatedAt = now,
                 rf_slaDeadline = deadline, rf_slaBreached = False, rf_triggerContext = rs_triggerContext submission,
                 rf_capabilityRequest = rs_capabilityRequest submission, rf_auditTrail = [], rf_notifications = []\<rparr>
        in case rfc_appendAudit RfcCreated
                  (''RFC filed by '' @ rs_requestor submission @ '': \"'' @ rs_title submission @ ''\"'')
                  (Some (rs_requestor submission)) r p1 of (r1, p2) \<Rightarrow>
             (case dispatchNotification (rs_requestor submission) Acknowledgment
                     (''RFC '' @ rid @ '' received: \"'' @ rs_title submission @ ''\". SLA deadline: '' @ toISO deadline
                      @ ''. We will notify you of status changes.'') r1 (put_rfc r1 p2) of (r2, p3) \<Rightarrow>
                (r2, put_rfc r2 p3)))"

definition updateStatus ::
  "string \<Rightarrow> rfc_status \<Rightarrow> string option \<Rightarrow> rfc_processor \<Rightarrow> (string + rfc) \<times> rfc_processor" where
  "updateStatus rid status actor p =
     (case getById rid p of
        None \<Rightarrow> (Inl (''RFC not found: '' @ rid), p)
      | Some r \<Rightarrow>
          (case read_clock p of (now, p1) \<Rightarrow>
             (case rfc_appendAudit RfcStatusChanged
                     (''Status changed from \"'' @ rfc_status_str (rf_status r) @ ''\" to \"'' @ rfc_status_str status @ ''\"'')
                     actor (r\<lparr>rf_status := status, rf_updatedAt := now\<rparr>) p1 of (r1, p2) \<Rightarrow>
                (case dispatchNotification (rf_requestor r)
                        (if isResolved status then Resolution else StatusUpdate)
                        (''RFC '' @ rid @ '' (\"'' @ rf_title r @ ''\") status updated to \"'' @ rfc_status_str status @ ''\".'')
                        r1 p2 of (r2, p3) \<Rightarrow>
                   (Inr r2, p3\<lparr>rp_store := AList.update rid r2 (rp_store p3)\<rparr>)))))"

definition breach :: "(int \<Rightarrow> string) \<Rightarrow> int \<Rightarrow> rfc \<Rightarrow> rfc_processor \<Rightarrow> rfc \<times> rfc_processor" where
  "breach toISO now r p =
     (case rfc_appendAudit RfcSlaBreached
             (''SLA deadline '' @ toISO (rf_slaDeadline r) @ '' exceeded without resolution.'') (Some ''system'')
             (r\<lparr>rf_slaBreached := True, rf_updatedAt := now\<rparr>) p of (r1, p1) \<Rightarrow>
        dispatchNotification (rf_requestor r) SlaWarning
          (''RFC '' @ rf_id r @ '' (\"'' @ rf_title r @ ''\") has exceeded its 2-week SLA deadline. Deadline was ''
           @ toISO (rf_slaDeadline r) @ ''. Escalation required.'') r1 p1)"

definition overdue :: "int \<Rightarrow> rfc \<Rightarrow> bool" where
  "overdue now r \<longleftrightarrow> \<not> (rf_slaBreached r \<or> isResolved (rf_status r)) \<and> now > rf_slaDeadline r"

fun check_store ::
  "(int \<Rightarrow> string) \<Rightarrow> int \<Rightarrow> (string \<times> rfc) list \<Rightarrow> rfc_processor \<Rightarrow> (string \<times> rfc) list \<times> rfc_processor" where
  "check_store toISO now [] p = ([], p)"
| "check_store toISO now ((k, r) # rest) p =
     (case (if overdue now r then breach toISO now r p else (r, p)) of (r1, p1) \<Rightarrow>
        (case check_store toISO now rest p1 of (rest1, p2) \<Rightarrow> ((k, r1) # rest1, p2)))"

definition checkSLA :: "(int \<Rightarrow> string) \<Rightarrow> rfc_processor \<Rightarrow> rfc_processor" where
  "checkSLA toISO p =
     (case read_clock p of (now, p1) \<Rightarrow>
        (case check_store toISO now (rp_store p1) p1 of (store, p2) \<Rightarrow> p2\<lparr>rp_store := store\<rparr>))"

definition listAll :: "rfc_processor \<Rightarrow> rfc list" where
  "listAll p = map snd (rp_store p)"

definition listOpen :: "rfc_processor \<Rightarrow> rfc list" where
  "listOpen p = filter (\<lambda>r. \<not> isResolved (rf_status r)) (listAll p)"

definition listSLABreached :: "rfc_processor \<Rightarrow> rfc list" where
  "listSLABreached p = filter (\<lambda>r. rf_slaBreached r \<and> \<not> isResolved (rf_status r)) (listAll p)"

definition importRFC :: "rfc \<Rightarrow> rfc_processor \<Rightarrow> rfc_processor" where
  "importRFC r p = put_rfc r p"

section \<open>One-off operations\<close>

record hitl_routing =
  hr_metaTool :: string
  hr_requestId :: string
  hr_rfcId :: string
  hr_toolName :: string
  hr_reason :: string

record one_off_request =
  oq_requestId :: string
  oq_toolName :: string
  oq_description :: string
  oq_requestedAt :: int
  oq_rfcId :: string
  oq_actor :: "string option"

datatype one_off_event = OneOffReceived | OneOffRfcFiled | OneOffRouted

record one_off_audit =
  oa_ts :: int
  oa_event :: one_off_event
  oa_requestId :: string
  oa_detail :: string
  oa_actor :: "string option"

record one_off =
  oo_processor :: rfc_processor
  oo_requests :: "one_off_request list"
  oo_auditLog :: "one_off_audit list"

definition new_one_off :: "rfc_processor \<Rightarrow> one_off" where
  "new_one_off p = \<lparr>oo_processor = p, oo_requests = [], oo_auditLog = []\<rparr>"

definition one_off_appendAudit ::
  "int \<Rightarrow> one_off_event \<Rightarrow> string \<Rightarrow> string \<Rightarrow> string option \<Rightarrow> one_off \<Rightarrow> one_off" where
  "one_off_appendAudit ts event requestId detail actor s =
     s\<lparr>oo_auditLog := oo_auditLog s
         @ [\<lparr>oa_ts = ts, oa_event = event, oa_requestId = requestId, oa_detail = detail, oa_actor = actor\<rparr>]\<rparr>"

definition text_member :: "(string \<times> json) list \<Rightarrow> string \<Rightarrow> string option" where
  "text_member metadata k = (case map_of metadata k of Some (JStr s) \<Rightarrow> Some s | _ \<Rightarrow> None)"

definition one_off_submission :: "string \<Rightarrow> string \<Rightarrow> string option \<Rightarrow> rfc_submission" where
  "one_off_submission toolName description actor =
     \<lparr>rs_title = ''One-off operation: \"'' @ toolName @ ''\" not in taxonomy'',
      rs_description = ''Tool name: '' @ toolName @ [CHR 0x0A] @ ''Description: '' @ description @ [CHR 0x0A]
        @ ''Requested by: '' @ (case actor of Some a \<Rightarrow> a | None \<Rightarrow> ''unknown''),
      rs_requestor = (case actor of Some a \<Rightarrow> a | None \<Rightarrow> ''one-off-operation-handler''),
      rs_triggerContext = None,
      rs_capabilityRequest = Some \<lparr>cr_proposedActionClass = ''one-off.unclassified.'' @ js_lower toolName,
        cr_proposedAliases = [js_lower toolName], cr_riskLevel = ''high''\<rparr>\<rparr>"

text \<open>The branch of an unregistered tool: the RFC, the routing to the meta-tool and the request.\<close>

definition route_one_off ::
  "(int \<Rightarrow> string) \<Rightarrow> string \<Rightarrow> string \<Rightarrow> int \<Rightarrow> string \<Rightarrow> string \<Rightarrow> string option \<Rightarrow> one_off
     \<Rightarrow> (hitl_routing \<times> rfc) \<times> one_off" where
  "route_one_off toISO requestId newId ts toolName description actor s =
     (case file_rfc toISO newId (one_off_submission toolName description actor) (oo_processor s) of (r, p) \<Rightarrow>
        let s1 = one_off_appendAudit ts OneOffRfcFiled requestId
                   (''RFC '' @ rf_id r @ '' filed for one-off operation \"'' @ toolName @ ''\"'') actor (s\<lparr>oo_processor := p\<rparr>);
            routing = \<lparr>hr_metaTool = ''request_new_capability'', hr_requestId = requestId, hr_rfcId = rf_id r,
              hr_toolName = toolName,
              hr_reason = ''\"'' @ toolName @ ''\" is not registered in the action taxonomy. RFC '' @ rf_id r
                @ '' has been filed. Use request_new_capability to proceed.''\<rparr>;
            s2 = one_off_appendAudit ts OneOffRouted requestId
                   (''Routed to request_new_capability meta-tool for \"'' @ toolName @ ''\" (RFC: '' @ rf_id r @ '')'') actor s1
        in ((routing, r),
            s2\<lparr>oo_requests := oo_requests s2
                 @ [\<lparr>oq_requestId = requestId, oq_toolName = toolName, oq_description = description,
                     oq_requestedAt = ts, oq_rfcId = rf_id r, oq_actor = actor\<rparr>]\<rparr>))"

definition one_off_description :: "edge_context \<Rightarrow> string" where
  "one_off_description context =
     (case text_member (ec_metadata context) ''description'' of
        Some d \<Rightarrow> d
      | None \<Rightarrow> ''One-off operation: unregistered tool \"'' @ js_trim (ec_command context) @ ''\"'')"

definition one_off_received :: "string \<Rightarrow> int \<Rightarrow> edge_context \<Rightarrow> one_off \<Rightarrow> one_off" where
  "one_off_received requestId ts context s =
     one_off_appendAudit ts OneOffReceived requestId
       (''One-off operation request received: \"'' @ js_trim (ec_command context) @ ''\"'')
       (text_member (ec_metadata context) ''actor'') s"

definition one_off_handle ::
  "(int \<Rightarrow> string) \<Rightarrow> string \<Rightarrow> string \<Rightarrow> int \<Rightarrow> edge_context \<Rightarrow> one_off
     \<Rightarrow> (edge_result \<times> (hitl_routing \<times> rfc) option) \<times> one_off" where
  "one_off_handle toISO requestId newId ts context s =
     (let toolName = js_trim (ec_command context); lowerName = js_lower toolName;
          s1 = one_off_received requestId ts context s
      in case map_of ALIAS_INDEX lowerName of
           Some e \<Rightarrow>
             if reg_class e = ''shell.exec''
             then ((edge_result True EdgeForbid (''\"'' @ toolName @ ''\" is a forbidden exec wrapper tool (shell.exec). ''
                      @ ''One-off operations must never fall back to exec.''), None), s1)
             else ((edge_result True EdgeDefer (''\"'' @ toolName @ ''\" is a registered tool ('' @ reg_class e
                      @ ''). Not a one-off operation.''), None), s1)
         | None \<Rightarrow>
             (case route_one_off toISO requestId newId ts toolName (one_off_description context)
                     (text_member (ec_metadata context) ''actor'') s1 of
                ((routing, r), s2) \<Rightarrow> ((edge_result True EdgeForbid (hr_reason routing), Some (routing, r)), s2)))"

section \<open>Novel threats\<close>

record threat_pattern =
  tp_category :: string
  tp_description :: string
  tp_firstSeenAt :: int
  tp_lastSeenAt :: int
  tp_occurrences :: nat
  tp_threatIds :: "string list"

datatype threat_event = ThreatReceived | ToolCreationInitiated | CedarRuleRegistered

record threat_audit =
  ta_ts :: int
  ta_event :: threat_event
  ta_threatId :: string
  ta_detail :: string
  ta_actor :: string

datatype resolution_path = FineGrainedTool capability_request | CedarRule field_rule

record threat_submission =
  ts_path :: resolution_path
  ts_description :: string
  ts_category :: string
  ts_evidence :: "(string \<times> json) list"
  ts_reportedBy :: string

datatype threat_result = ThreatTool string rfc threat_audit | ThreatRule string field_rule threat_audit

record threat_handler =
  th_processor :: rfc_processor
  th_patterns :: "(string, threat_pattern) jsmap"
  th_cedarRules :: "field_rule list"
  th_auditLog :: "threat_audit list"

definition new_threat_handler :: "rfc_processor \<Rightarrow> threat_handler" where
  "new_threat_handler p = \<lparr>th_processor = p, th_patterns = [], th_cedarRules = [], th_auditLog = []\<rparr>"

definition threat_appendAudit :: "threat_audit \<Rightarrow> threat_handler \<Rightarrow> threat_handler" where
  "threat_appendAudit e s = s\<lparr>th_auditLog := th_auditLog s @ [e]\<rparr>"

definition trackPattern :: "string \<Rightarrow> string \<Rightarrow> string \<Rightarrow> int \<Rightarrow> threat_handler \<Rightarrow> threat_handler" where
  "trackPattern category description threatId ts s =
     s\<lparr>th_patterns := AList.update category
         (case map_of (th_patterns s) category of
            Some e \<Rightarrow> e\<lparr>tp_lastSeenAt := ts, tp_occurrences := tp_occurrences e + 1,
                       tp_threatIds := tp_threatIds e @ [threatId]\<rparr>
          | None \<Rightarrow> \<lparr>tp_category = category, tp_description = description, tp_firstSeenAt = ts, tp_lastSeenAt = ts,
                     tp_occurrences = 1, tp_threatIds = [threatId]\<rparr>) (th_patterns s)\<rparr>"

definition evidence_text :: "(string \<times> json) list \<Rightarrow> string" where
  "evidence_text evidence = (case json_stringify (JObj evidence) of Some t \<Rightarrow> t | None \<Rightarrow> ''undefined'')"

definition handleToolCreation ::
  "(int \<Rightarrow> string) \<Rightarrow> string \<Rightarrow> threat_submission \<Rightarrow> capability_request \<Rightarrow> string \<Rightarrow> int \<Rightarrow> threat_handler
     \<Rightarrow> threat_result \<times> threat_handler" where
  "handleToolCreation toISO newId sub req threatId ts s =
     (case file_rfc toISO newId
             \<lparr>rs_title = ''Novel threat: '' @ ts_description sub,
              rs_description = ''Category: '' @ ts_category sub @ [CHR 0x0A] @ ''Proposed action class: ''
                @ cr_proposedActionClass req @ [CHR 0x0A] @ ''Evidence: '' @ evidence_text (ts_evidence sub),
              rs_requestor = ts_reportedBy sub, rs_triggerContext = None, rs_capabilityRequest = Some req\<rparr>
             (th_processor s) of (r, p) \<Rightarrow>
        let e = \<lparr>ta_ts = ts, ta_event = ToolCreationInitiated, ta_threatId = threatId,
                 ta_detail = ''RFC '' @ rf_id r @ '' filed for fine-grained tool creation (''
                   @ cr_proposedActionClass req @ '')'', ta_actor = ts_reportedBy sub\<rparr>
        in (ThreatTool threatId r e, threat_appendAudit e (s\<lparr>th_processor := p\<rparr>)))"

definition handleCedarRule ::
  "threat_submission \<Rightarrow> field_rule \<Rightarrow> string \<Rightarrow> int \<Rightarrow> threat_handler \<Rightarrow> threat_result \<times> threat_handler" where
  "handleCedarRule sub r threatId ts s =
     (let e = \<lparr>ta_ts = ts, ta_event = CedarRuleRegistered, ta_threatId = threatId,
               ta_detail = ''Cedar rule \"'' @ fr_id r @ ''\" registered for threat category \"'' @ ts_category sub @ ''\"'',
               ta_actor = ts_reportedBy sub\<rparr>
      in (ThreatRule threatId r e, threat_appendAudit e (s\<lparr>th_cedarRules := th_cedarRules s @ [r]\<rparr>)))"

definition path_str :: "resolution_path \<Rightarrow> string" where
  "path_str path = (case path of FineGrainedTool _ \<Rightarrow> ''fine-grained-tool'' | CedarRule _ \<Rightarrow> ''cedar-rule'')"

definition handle_threat ::
  "(int \<Rightarrow> string) \<Rightarrow> string \<Rightarrow> string \<Rightarrow> int \<Rightarrow> threat_submission \<Rightarrow> threat_handler
     \<Rightarrow> threat_result \<times> threat_handler" where
  "handle_threat toISO threatId newId ts sub s =
     (let s1 = threat_appendAudit
                 \<lparr>ta_ts = ts, ta_event = ThreatReceived, ta_threatId = threatId,
                  ta_detail = ''Novel threat received: \"'' @ ts_description sub @ ''\" (category: '' @ ts_category sub
                    @ '', path: '' @ path_str (ts_path sub) @ '')'', ta_actor = ts_reportedBy sub\<rparr> s;
          s2 = trackPattern (ts_category sub) (ts_description sub) threatId ts s1
      in case ts_path sub of
           FineGrainedTool req \<Rightarrow> handleToolCreation toISO newId sub req threatId ts s2
         | CedarRule r \<Rightarrow> handleCedarRule sub r threatId ts s2)"

definition listPatterns :: "threat_handler \<Rightarrow> threat_pattern list" where
  "listPatterns s = map snd (th_patterns s)"

definition listCedarRules :: "threat_handler \<Rightarrow> field_rule list" where
  "listCedarRules s = th_cedarRules s"

end
