(* ===== verification/CapabilityProps.thy ===== *)
theory CapabilityProps
  imports Capability ObfuscationProps ToolGateProps
begin

text \<open>
  What the handlers of unregistered operations, novel threats and RFCs keep: histories that only grow,
  one-off operations that never run, and threat rules that take effect in the obfuscation detector.
\<close>

section \<open>Audit trails and notifications\<close>

lemma rfc_appendAudit_eq:
  "rfc_appendAudit event detail actor r p =
     (r\<lparr>rf_auditTrail := rf_auditTrail r
          @ [\<lparr>ra_ts = rp_clock p (rp_reads p), ra_event = event, ra_detail = detail, ra_actor = actor\<rparr>]\<rparr>,
      p\<lparr>rp_reads := rp_reads p + 1\<rparr>)"
  by (simp add: rfc_appendAudit_def read_clock_def)

text \<open>One RFC is a later state of another: its data stay, its histories are longer.\<close>

definition grows :: "rfc \<Rightarrow> rfc \<Rightarrow> bool" where
  "grows r r' \<longleftrightarrow>
     rf_id r' = rf_id r \<and> rf_title r' = rf_title r \<and> rf_requestor r' = rf_requestor r
     \<and> rf_createdAt r' = rf_createdAt r \<and> rf_slaDeadline r' = rf_slaDeadline r
     \<and> (rf_slaBreached r \<longrightarrow> rf_slaBreached r')
     \<and> (\<exists>es. rf_auditTrail r' = rf_auditTrail r @ es) \<and> (\<exists>ns. rf_notifications r' = rf_notifications r @ ns)"

lemma grows_refl: "grows r r"
  by (simp add: grows_def)

lemma grows_trans: "grows a b \<Longrightarrow> grows b c \<Longrightarrow> grows a c"
  by (force simp: grows_def)

definition events :: "rfc_event \<Rightarrow> rfc \<Rightarrow> nat" where
  "events e r = length (filter (\<lambda>a. ra_event a = e) (rf_auditTrail r))"

text \<open>
  An RFC as the processor keeps it: a deadline two weeks after the filing, an audit trail that starts with
  the only filing, one breach entry exactly when the deadline is marked as breached, and an entry for every
  notification.
\<close>

definition well_kept :: "rfc \<Rightarrow> bool" where
  "well_kept r \<longleftrightarrow>
     rf_slaDeadline r = addDays (rf_createdAt r) RFC_SLA_DAYS
     \<and> rf_auditTrail r \<noteq> [] \<and> ra_event (hd (rf_auditTrail r)) = RfcCreated \<and> events RfcCreated r = 1
     \<and> events RfcSlaBreached r = (if rf_slaBreached r then 1 else 0)
     \<and> length (rf_notifications r) \<le> events RfcNotificationSent r"

lemma dispatch_effect:
  "\<exists>es n. fst (dispatchNotification recipient type message r p)
        = r\<lparr>rf_notifications := rf_notifications r @ [n], rf_auditTrail := rf_auditTrail r @ es\<rparr>
      \<and> es \<noteq> [] \<and> list_all (\<lambda>e. ra_event e = RfcNotificationSent) es
      \<and> rn_recipient n = recipient \<and> rn_type n = type"
  by (simp add: dispatchNotification_def read_clock_def rfc_appendAudit_eq Let_def split: option.split) fastforce

lemma dispatch_store: "rp_store (snd (dispatchNotification recipient type message r p)) = rp_store p"
  by (simp add: dispatchNotification_def read_clock_def rfc_appendAudit_eq Let_def split: option.split)

lemma dispatch_status: "rf_status (fst (dispatchNotification recipient type message r p)) = rf_status r"
  using dispatch_effect [of recipient type message r p] by auto

lemma dispatch_grows: "grows r (fst (dispatchNotification recipient type message r p))"
  using dispatch_effect [of recipient type message r p] by (auto simp: grows_def)

lemma dispatch_kept: "well_kept r \<Longrightarrow> well_kept (fst (dispatchNotification recipient type message r p))"
proof -
  obtain es n where r': "fst (dispatchNotification recipient type message r p)
        = r\<lparr>rf_notifications := rf_notifications r @ [n], rf_auditTrail := rf_auditTrail r @ es\<rparr>"
    and es: "es \<noteq> []" "list_all (\<lambda>e. ra_event e = RfcNotificationSent) es"
    using dispatch_effect [of recipient type message r p] by blast
  from es(2) have "filter (\<lambda>a. ra_event a = RfcNotificationSent) es = es"
    "filter (\<lambda>a. ra_event a = RfcCreated) es = []" "filter (\<lambda>a. ra_event a = RfcSlaBreached) es = []"
    by (auto simp: list_all_iff filter_id_conv filter_empty_conv)
  moreover from es(1) have "Suc 0 \<le> length es" by (cases es) simp_all
  moreover assume "well_kept r"
  ultimately show ?thesis by (auto simp: r' well_kept_def events_def)
qed

lemma status_kept: "well_kept r \<Longrightarrow> well_kept (r\<lparr>rf_status := status, rf_updatedAt := now\<rparr>)"
  by (simp add: well_kept_def events_def)

lemma append_kept:
  "well_kept r \<Longrightarrow> event = RfcStatusChanged \<or> event = RfcNotificationSent \<Longrightarrow>
     well_kept (fst (rfc_appendAudit event detail actor r p))"
  by (auto simp: well_kept_def events_def rfc_appendAudit_eq)

lemma append_grows: "grows r (fst (rfc_appendAudit event detail actor r p))"
  by (simp add: grows_def rfc_appendAudit_eq)

lemma append_store: "rp_store (snd (rfc_appendAudit event detail actor r p)) = rp_store p"
  by (simp add: rfc_appendAudit_eq)

section \<open>The operations of the processor\<close>

lemma file_rfc_result:
  "case file_rfc toISO rid sub p of (r, q) \<Rightarrow>
     rp_store q = AList.update rid r (rp_store p) \<and> well_kept r \<and> rf_id r = rid \<and> rf_status r = RfcOpen
     \<and> \<not> rf_slaBreached r \<and> rf_capabilityRequest r = rs_capabilityRequest sub \<and> rf_requestor r = rs_requestor sub
     \<and> map rn_recipient (rf_notifications r) = [rs_requestor sub]
     \<and> map rn_type (rf_notifications r) = [Acknowledgment]"
proof -
  define r0 where "r0 = \<lparr>rf_id = rid, rf_title = rs_title sub, rf_description = rs_description sub,
                 rf_requestor = rs_requestor sub, rf_status = RfcOpen, rf_createdAt = rp_clock p (rp_reads p),
                 rf_updatedAt = rp_clock p (rp_reads p),
                 rf_slaDeadline = addDays (rp_clock p (rp_reads p)) RFC_SLA_DAYS, rf_slaBreached = False,
                 rf_triggerContext = rs_triggerContext sub,
                 rf_capabilityRequest = rs_capabilityRequest sub, rf_auditTrail = [], rf_notifications = []\<rparr>"
  define a where "a = rfc_appendAudit RfcCreated
                  (''RFC filed by '' @ rs_requestor sub @ '': \"'' @ rs_title sub @ ''\"'')
                  (Some (rs_requestor sub)) r0 (snd (read_clock p))"
  define b where "b = dispatchNotification (rs_requestor sub) Acknowledgment
                     (''RFC '' @ rid @ '' received: \"'' @ rs_title sub @ ''\". SLA deadline: ''
                      @ toISO (rf_slaDeadline r0) @ ''. We will notify you of status changes.'') (fst a)
                     (put_rfc (fst a) (snd a))"
  have filed: "file_rfc toISO rid sub p = (fst b, put_rfc (fst b) (snd b))"
    by (simp add: file_rfc_def read_clock_def Let_def a_def b_def r0_def rfc_appendAudit_eq split: prod.split)
  have kept: "well_kept (fst a)"
    by (simp add: a_def rfc_appendAudit_eq r0_def well_kept_def events_def)
  obtain es n where b: "fst b = (fst a)\<lparr>rf_notifications := rf_notifications (fst a) @ [n],
        rf_auditTrail := rf_auditTrail (fst a) @ es\<rparr>"
    and n: "rn_recipient n = rs_requestor sub" "rn_type n = Acknowledgment"
    using dispatch_effect [of "rs_requestor sub" Acknowledgment _ "fst a"] unfolding b_def by blast
  have "rp_store (snd b) = AList.update rid (fst a) (rp_store p)"
    unfolding b_def dispatch_store by (simp add: put_rfc_def a_def rfc_appendAudit_eq r0_def read_clock_def)
  then have "rp_store (put_rfc (fst b) (snd b)) = AList.update rid (fst b) (rp_store p)"
    by (simp add: put_rfc_def b a_def rfc_appendAudit_eq r0_def)
  moreover have "well_kept (fst b)" unfolding b_def by (rule dispatch_kept [OF kept])
  ultimately show ?thesis
    by (simp add: filed b n a_def rfc_appendAudit_eq r0_def)
qed

text \<open>A change of status and a breach, as what they make of one RFC.\<close>

lemma updateStatus_result:
  assumes "getById rid p = Some r"
  shows "\<exists>r'. fst (updateStatus rid status actor p) = Inr r'
           \<and> rp_store (snd (updateStatus rid status actor p)) = AList.update rid r' (rp_store p)
           \<and> grows r r' \<and> (well_kept r \<longrightarrow> well_kept r') \<and> rf_status r' = status"
proof -
  define now where "now = rp_clock p (rp_reads p)"
  define r0 where "r0 = r\<lparr>rf_status := status, rf_updatedAt := now\<rparr>"
  define a where "a = rfc_appendAudit RfcStatusChanged
          (''Status changed from \"'' @ rfc_status_str (rf_status r) @ ''\" to \"'' @ rfc_status_str status @ ''\"'')
          actor r0 (snd (read_clock p))"
  define b where "b = dispatchNotification (rf_requestor r) (if isResolved status then Resolution else StatusUpdate)
          (''RFC '' @ rid @ '' (\"'' @ rf_title r @ ''\") status updated to \"'' @ rfc_status_str status @ ''\".'')
          (fst a) (snd a)"
  have eq: "updateStatus rid status actor p = (Inr (fst b), (snd b)\<lparr>rp_store := AList.update rid (fst b) (rp_store (snd b))\<rparr>)"
    by (simp add: updateStatus_def assms read_clock_def a_def b_def r0_def now_def split: prod.split)
  have store: "rp_store (snd b) = rp_store p"
    unfolding b_def dispatch_store a_def append_store by (simp add: read_clock_def)
  have "grows r r0" by (simp add: r0_def grows_def)
  moreover have "grows r0 (fst a)" unfolding a_def by (rule append_grows)
  moreover have "grows (fst a) (fst b)" unfolding b_def by (rule dispatch_grows)
  ultimately have "grows r (fst b)" by (blast intro: grows_trans)
  moreover have "well_kept r \<longrightarrow> well_kept (fst b)"
    using status_kept append_kept dispatch_kept unfolding r0_def a_def b_def by simp
  moreover have "rf_status (fst b) = rf_status (fst a)" unfolding b_def by (rule dispatch_status)
  then have "rf_status (fst b) = status" by (simp add: a_def rfc_appendAudit_eq r0_def)
  ultimately show ?thesis by (simp add: eq store)
qed

lemma breach_result:
  assumes "\<not> rf_slaBreached r"
  shows "grows r (fst (breach toISO now r p))" "well_kept r \<Longrightarrow> well_kept (fst (breach toISO now r p))"
    "rf_slaBreached (fst (breach toISO now r p))" "rf_status (fst (breach toISO now r p)) = rf_status r"
    "rp_store (snd (breach toISO now r p)) = rp_store p"
    "map rn_type (rf_notifications (fst (breach toISO now r p))) = map rn_type (rf_notifications r) @ [SlaWarning]"
proof -
  define a where "a = rfc_appendAudit RfcSlaBreached
             (''SLA deadline '' @ toISO (rf_slaDeadline r) @ '' exceeded without resolution.'') (Some ''system'')
             (r\<lparr>rf_slaBreached := True, rf_updatedAt := now\<rparr>) p"
  have eq: "breach toISO now r p = dispatchNotification (rf_requestor r) SlaWarning
          (''RFC '' @ rf_id r @ '' (\"'' @ rf_title r @ ''\") has exceeded its 2-week SLA deadline. Deadline was ''
           @ toISO (rf_slaDeadline r) @ ''. Escalation required.'') (fst a) (snd a)"
    by (simp add: breach_def a_def split: prod.split)
  have "grows r (fst a)" by (simp add: a_def grows_def rfc_appendAudit_eq)
  then show "grows r (fst (breach toISO now r p))" unfolding eq using dispatch_grows grows_trans by blast
  have "well_kept r \<Longrightarrow> well_kept (fst a)"
    using assms by (auto simp: a_def rfc_appendAudit_eq well_kept_def events_def)
  then show "well_kept r \<Longrightarrow> well_kept (fst (breach toISO now r p))" unfolding eq by (blast intro: dispatch_kept)
  obtain es n where b: "fst (breach toISO now r p) = (fst a)\<lparr>rf_notifications := rf_notifications (fst a) @ [n],
        rf_auditTrail := rf_auditTrail (fst a) @ es\<rparr>" and n: "rn_type n = SlaWarning"
    using dispatch_effect [of "rf_requestor r" SlaWarning _ "fst a"] unfolding eq by blast
  show "rf_slaBreached (fst (breach toISO now r p))" "rf_status (fst (breach toISO now r p)) = rf_status r"
    "map rn_type (rf_notifications (fst (breach toISO now r p))) = map rn_type (rf_notifications r) @ [SlaWarning]"
    by (simp_all add: b n a_def rfc_appendAudit_eq)
  show "rp_store (snd (breach toISO now r p)) = rp_store p" unfolding eq dispatch_store by (simp add: a_def append_store)
qed

text \<open>The check of the deadlines goes through the store without moving an entry.\<close>

definition checked :: "int \<Rightarrow> rfc \<Rightarrow> rfc \<Rightarrow> bool" where
  "checked now r r' \<longleftrightarrow>
     grows r r' \<and> (well_kept r \<longrightarrow> well_kept r') \<and> rf_status r' = rf_status r
     \<and> rf_slaBreached r' = (rf_slaBreached r \<or> overdue now r)
     \<and> map rn_type (rf_notifications r') = map rn_type (rf_notifications r) @ (if overdue now r then [SlaWarning] else [])"

lemma check_store_checked:
  "list_all2 (\<lambda>(k, r) (k', r'). k' = k \<and> checked now r r') store (fst (check_store toISO now store p))"
proof (induction toISO now store p rule: check_store.induct)
  case (2 toISO now k r rest p)
  have "checked now r (fst (if overdue now r then breach toISO now r p else (r, p)))"
    using breach_result [of r toISO now p] by (auto simp: checked_def grows_refl overdue_def)
  then show ?case
    using 2 [OF prod.collapse]
    by (simp add: split_beta)
qed simp

lemma check_store_keeps: "rp_store (snd (check_store toISO now store p)) = rp_store p"
proof (induction toISO now store p rule: check_store.induct)
  case (2 toISO now k r rest p)
  have "rp_store (snd (if overdue now r then breach toISO now r p else (r, p))) = rp_store p"
    by (simp add: breach_result overdue_def)
  then show ?case using 2 [OF prod.collapse] by (simp add: split_beta)
qed simp

section \<open>Runs of the processor\<close>

datatype rfc_op = FileRfc string rfc_submission | ChangeStatus string rfc_status "string option" | CheckSla

fun run_rfc_op :: "(int \<Rightarrow> string) \<Rightarrow> rfc_op \<Rightarrow> rfc_processor \<Rightarrow> rfc_processor" where
  "run_rfc_op toISO (FileRfc rid sub) p = snd (file_rfc toISO rid sub p)"
| "run_rfc_op toISO (ChangeStatus rid status actor) p = snd (updateStatus rid status actor p)"
| "run_rfc_op toISO CheckSla p = checkSLA toISO p"

definition run_rfc :: "(int \<Rightarrow> string) \<Rightarrow> rfc_op list \<Rightarrow> rfc_processor \<Rightarrow> rfc_processor" where
  "run_rfc toISO ops p = fold (run_rfc_op toISO) ops p"

fun filed :: "rfc_op list \<Rightarrow> string list" where
  "filed [] = []"
| "filed (FileRfc rid sub # ops) = rid # filed ops"
| "filed (_ # ops) = filed ops"

lemma filed_append: "filed (xs @ ys) = filed xs @ filed ys"
  by (induction xs rule: filed.induct) simp_all

lemma all2_map_of:
  assumes "list_all2 (\<lambda>(k, r) (k', r'). k' = k \<and> R r r') xs ys"
  shows "map_of xs k = Some r \<Longrightarrow> \<exists>r'. map_of ys k = Some r' \<and> R r r'"
    "map_of ys k = Some r' \<Longrightarrow> \<exists>r. map_of xs k = Some r \<and> R r r'"
    "map fst ys = map fst xs"
  using assms by (induction rule: list_all2_induct) (auto split: if_splits)

lemma checkSLA_store:
  "list_all2 (\<lambda>(k, r) (k', r'). k' = k \<and> checked (rp_clock p (rp_reads p)) r r') (rp_store p) (rp_store (checkSLA toISO p))"
  using check_store_checked [of "rp_clock p (rp_reads p)" "rp_store p"]
  by (simp add: checkSLA_def read_clock_def split_beta)

text \<open>One operation; a filed identifier is new.\<close>

definition all_kept :: "rfc_processor \<Rightarrow> bool" where
  "all_kept p \<longleftrightarrow> (\<forall>rid r. getById rid p = Some r \<longrightarrow> well_kept r)"

definition carries_on :: "rfc_processor \<Rightarrow> rfc_processor \<Rightarrow> bool" where
  "carries_on p q \<longleftrightarrow> (\<forall>rid r. getById rid p = Some r \<longrightarrow> (\<exists>r'. getById rid q = Some r' \<and> grows r r'))"

lemma carries_on_refl: "carries_on p p"
  by (auto simp: carries_on_def grows_refl)

lemma carries_on_trans: "carries_on p q \<Longrightarrow> carries_on q s \<Longrightarrow> carries_on p s"
  unfolding carries_on_def by (meson grows_trans)

lemma run_rfc_op_step:
  assumes "\<And>rid sub. op = FileRfc rid sub \<Longrightarrow> getById rid p = None"
  shows "carries_on p (run_rfc_op toISO op p)" "all_kept p \<Longrightarrow> all_kept (run_rfc_op toISO op p)"
    "dom (map_of (rp_store (run_rfc_op toISO op p))) \<subseteq> dom (map_of (rp_store p)) \<union> set (filed [op])"
proof -
  have "carries_on p (run_rfc_op toISO op p) \<and> (all_kept p \<longrightarrow> all_kept (run_rfc_op toISO op p))
    \<and> dom (map_of (rp_store (run_rfc_op toISO op p))) \<subseteq> dom (map_of (rp_store p)) \<union> set (filed [op])"
  proof (cases op)
    case (FileRfc rid sub)
    with assms file_rfc_result [where toISO = toISO and rid = rid and sub = sub and p = p] show ?thesis
      by (auto simp: carries_on_def all_kept_def getById_def grows_refl update_conv' split_beta)
  next
    case (ChangeStatus rid status actor)
    show ?thesis
    proof (cases "getById rid p")
      case None
      then show ?thesis by (simp add: ChangeStatus updateStatus_def carries_on_refl)
    next
      case (Some r)
      from updateStatus_result [OF Some, of status actor] obtain r' where
        "rp_store (snd (updateStatus rid status actor p)) = AList.update rid r' (rp_store p)"
        "grows r r'" "well_kept r \<longrightarrow> well_kept r'" by blast
      with Some show ?thesis
        by (auto simp: ChangeStatus carries_on_def all_kept_def getById_def grows_refl update_conv' split: if_splits)
    qed
  next
    case CheckSla
    note store = all2_map_of [OF checkSLA_store [of p toISO]]
    show ?thesis
    proof (intro conjI impI)
      show "carries_on p (run_rfc_op toISO op p)"
        using store(1) by (force simp: CheckSla carries_on_def getById_def checked_def)
      show "all_kept (run_rfc_op toISO op p)" if "all_kept p"
        using that store(2) by (force simp: CheckSla all_kept_def getById_def checked_def)
      show "dom (map_of (rp_store (run_rfc_op toISO op p))) \<subseteq> dom (map_of (rp_store p)) \<union> set (filed [op])"
        using store(2) by (force simp: CheckSla dom_def)
    qed
  qed
  then show "carries_on p (run_rfc_op toISO op p)" "all_kept p \<Longrightarrow> all_kept (run_rfc_op toISO op p)"
    "dom (map_of (rp_store (run_rfc_op toISO op p))) \<subseteq> dom (map_of (rp_store p)) \<union> set (filed [op])" by blast+
qed

lemma run_rfc_step:
  assumes "distinct (filed ops)" "dom (map_of (rp_store p)) \<inter> set (filed ops) = {}"
  shows "carries_on p (run_rfc toISO ops p) \<and> (all_kept p \<longrightarrow> all_kept (run_rfc toISO ops p))
    \<and> dom (map_of (rp_store (run_rfc toISO ops p))) \<subseteq> dom (map_of (rp_store p)) \<union> set (filed ops)"
  using assms
proof (induction ops arbitrary: p)
  case (Cons op ops)
  let ?q = "run_rfc_op toISO op p"
  have split: "filed (op # ops) = filed [op] @ filed ops" using filed_append [of "[op]" ops] by simp
  have new: "getById rid p = None" if "op = FileRfc rid sub" for rid sub
    using Cons.prems(2) that by (auto simp: getById_def)
  have step: "carries_on p ?q" "all_kept p \<Longrightarrow> all_kept ?q"
    "dom (map_of (rp_store ?q)) \<subseteq> dom (map_of (rp_store p)) \<union> set (filed [op])"
    using run_rfc_op_step [of op p toISO] new by blast+
  have "dom (map_of (rp_store ?q)) \<inter> set (filed ops) = {}"
    using step(3) Cons.prems unfolding split by auto
  then have "carries_on ?q (run_rfc toISO ops ?q) \<and> (all_kept ?q \<longrightarrow> all_kept (run_rfc toISO ops ?q))
    \<and> dom (map_of (rp_store (run_rfc toISO ops ?q))) \<subseteq> dom (map_of (rp_store ?q)) \<union> set (filed ops)"
    using Cons.IH [of ?q] Cons.prems(1) unfolding split by simp
  with step carries_on_trans show ?case unfolding split by (fastforce simp: run_rfc_def)
qed (simp add: run_rfc_def carries_on_refl)

text \<open>
  The history of an RFC only grows: through any sequence of filings, changes of status and deadline
  checks, and whatever the clock and the deliveries of notifications do, an RFC once stored keeps its title,
  requestor and deadline, never loses an entry of its audit trail or a notification, and a deadline marked
  as breached stays marked; every stored RFC has its deadline two weeks after its filing, starts with its
  only filing entry, and has one breach entry exactly when its deadline is marked.
\<close>

theorem rfc_history_append_only:
  assumes "distinct (filed (before @ after))"
  shows "let p = run_rfc toISO before (new_processor clock notify); q = run_rfc toISO after p
         in all_kept q \<and> carries_on p q"
proof -
  let ?p = "run_rfc toISO before (new_processor clock notify)"
  have start: "all_kept (new_processor clock notify)" "rp_store (new_processor clock notify) = []"
    by (simp_all add: all_kept_def getById_def new_processor_def)
  from assms have "distinct (filed before)" "distinct (filed after)" "set (filed before) \<inter> set (filed after) = {}"
    by (auto simp: filed_append)
  with run_rfc_step [of before "new_processor clock notify" toISO] run_rfc_step [of after ?p toISO] start
  show ?thesis by (force simp: Let_def)
qed

definition sample_submission :: rfc_submission where
  "sample_submission = \<lparr>rs_title = ''t'', rs_description = ''d'', rs_requestor = ''r'', rs_triggerContext = None,
     rs_capabilityRequest = None\<rparr>"

theorem rfc_history_append_only_witness:
  "\<exists>r'. getById ''a'' (run_rfc (\<lambda>t. ''t'') [CheckSla, ChangeStatus ''a'' RfcApproved None]
            (run_rfc (\<lambda>t. ''t'') [FileRfc ''a'' sample_submission] (new_processor (\<lambda>n. int n) None))) = Some r'
        \<and> well_kept r'"
proof -
  have "getById ''a'' (run_rfc (\<lambda>t. ''t'') [FileRfc ''a'' sample_submission] (new_processor (\<lambda>n. int n) None)) \<noteq> None"
    using file_rfc_result [where toISO = "\<lambda>t. ''t''" and rid = "''a''" and sub = sample_submission
        and p = "new_processor (\<lambda>n. int n) None"]
    by (auto simp: run_rfc_def getById_def split_beta new_processor_def)
  with rfc_history_append_only [where toISO = "\<lambda>t. ''t''" and before = "[FileRfc ''a'' sample_submission]"
      and after = "[CheckSla, ChangeStatus ''a'' RfcApproved None]" and clock = "\<lambda>n. int n" and notify = None]
  show ?thesis by (fastforce simp: Let_def all_kept_def carries_on_def)
qed

text \<open>What a check of the deadlines finds: exactly the overdue RFCs are newly marked, each with one warning.\<close>

lemma checkSLA_marks_overdue:
  assumes "getById rid p = Some r"
  shows "\<exists>r'. getById rid (checkSLA toISO p) = Some r'
           \<and> rf_slaBreached r' = (rf_slaBreached r \<or> overdue (rp_clock p (rp_reads p)) r)
           \<and> map rn_type (rf_notifications r') = map rn_type (rf_notifications r)
               @ (if overdue (rp_clock p (rp_reads p)) r then [SlaWarning] else [])"
  using all2_map_of(1) [OF checkSLA_store [of p toISO], of rid r] assms
  by (auto simp: getById_def checked_def)

section \<open>One-off operations\<close>

lemma one_off_request: "rs_capabilityRequest (one_off_submission toolName description actor)
    = Some \<lparr>cr_proposedActionClass = ''one-off.unclassified.'' @ js_lower toolName,
        cr_proposedAliases = [js_lower toolName], cr_riskLevel = ''high''\<rparr>"
  by (simp add: one_off_submission_def)

lemma route_one_off_result:
  "\<exists>h r. fst (route_one_off toISO requestId newId ts toolName description actor s) = (h, r)
     \<and> hr_rfcId h = newId \<and> hr_toolName h = toolName
     \<and> getById newId (oo_processor (snd (route_one_off toISO requestId newId ts toolName description actor s))) = Some r
     \<and> well_kept r \<and> rf_status r = RfcOpen
     \<and> map_option cr_proposedAliases (rf_capabilityRequest r) = Some [js_lower toolName]
     \<and> map oq_rfcId (oo_requests (snd (route_one_off toISO requestId newId ts toolName description actor s)))
        = map oq_rfcId (oo_requests s) @ [newId]"
  using file_rfc_result [where toISO = toISO and rid = newId and sub = "one_off_submission toolName description actor"
      and p = "oo_processor s"]
  by (auto simp: route_one_off_def Let_def split_beta getById_def one_off_appendAudit_def one_off_request update_conv')

text \<open>
  A one-off operation never runs: the handler forbids every tool the registry does not know and every
  shell command, defers for the other registered tools, and answers permit for none. For an unknown tool
  it files exactly one open RFC that proposes the tool's name, routes the operator to the capability
  request with the identifier of that RFC, and records the request; for a known tool it files nothing.
\<close>

theorem one_off_never_permits:
  "let ((answer, routing), s') = one_off_handle toISO requestId newId ts context s;
       toolName = js_trim (ec_command context)
   in er_decision answer =
        (case map_of ALIAS_INDEX (js_lower toolName) of
           Some e \<Rightarrow> if reg_class e = ''shell.exec'' then EdgeForbid else EdgeDefer
         | None \<Rightarrow> EdgeForbid)
      \<and> (case routing of
           None \<Rightarrow> map_of ALIAS_INDEX (js_lower toolName) \<noteq> None
                   \<and> oo_processor s' = oo_processor s \<and> oo_requests s' = oo_requests s
         | Some (h, r) \<Rightarrow> map_of ALIAS_INDEX (js_lower toolName) = None
                   \<and> hr_rfcId h = newId \<and> hr_toolName h = toolName
                   \<and> getById newId (oo_processor s') = Some r \<and> well_kept r \<and> rf_status r = RfcOpen
                   \<and> map_option cr_proposedAliases (rf_capabilityRequest r) = Some [js_lower toolName]
                   \<and> map oq_rfcId (oo_requests s') = map oq_rfcId (oo_requests s) @ [newId])"
proof (cases "map_of ALIAS_INDEX (js_lower (js_trim (ec_command context)))")
  case None
  have "oo_requests (one_off_received requestId ts context s) = oo_requests s"
    by (simp add: one_off_received_def one_off_appendAudit_def)
  with route_one_off_result [of toISO requestId newId ts "js_trim (ec_command context)" "one_off_description context"
      "text_member (ec_metadata context) ''actor''" "one_off_received requestId ts context s"] None
  show ?thesis by (auto simp: one_off_handle_def Let_def edge_result_def split_beta)
next
  case (Some e)
  then show ?thesis by (simp add: one_off_handle_def Let_def edge_result_def one_off_received_def one_off_appendAudit_def)
qed

text \<open>\<open>sh\<close> is no alias of the registry, so the handler files a request for it instead of refusing it outright.\<close>

lemma shell_gets_request:
  assumes "ec_command context = ''sh''"
  shows "snd (fst (one_off_handle toISO requestId newId ts context s)) \<noteq> None"
proof -
  have "map_of ALIAS_INDEX ''sh'' = None" using wrapper_is_shell [of "''sh''"] by (simp add: EXEC_WRAPPER_NAMES_def)
  moreover have "js_lower (js_trim ''sh'') = ''sh''" by code_simp
  ultimately have "map_of ALIAS_INDEX (js_lower (js_trim (ec_command context))) = None" by (simp add: assms)
  then show ?thesis by (simp add: one_off_handle_def Let_def split_beta)
qed

section \<open>Novel threats\<close>

record submitted =
  sb_threatId :: string
  sb_newId :: string
  sb_ts :: int
  sb_submission :: threat_submission

definition run_threats :: "(int \<Rightarrow> string) \<Rightarrow> submitted list \<Rightarrow> threat_handler \<Rightarrow> threat_handler" where
  "run_threats toISO subs s =
     fold (\<lambda>x s. snd (handle_threat toISO (sb_threatId x) (sb_newId x) (sb_ts x) (sb_submission x) s)) subs s"

definition rule_of :: "submitted \<Rightarrow> field_rule list" where
  "rule_of x = (case ts_path (sb_submission x) of CedarRule r \<Rightarrow> [r] | FineGrainedTool _ \<Rightarrow> [])"

lemma handle_threat_rules:
  "th_cedarRules (snd (handle_threat toISO (sb_threatId x) (sb_newId x) (sb_ts x) (sb_submission x) s))
     = th_cedarRules s @ rule_of x"
  by (simp add: handle_threat_def handleToolCreation_def handleCedarRule_def threat_appendAudit_def trackPattern_def
      rule_of_def Let_def split_beta split: resolution_path.split)

lemma run_threats_rules: "th_cedarRules (run_threats toISO subs s) = th_cedarRules s @ concat (map rule_of subs)"
  unfolding run_threats_def by (induction subs arbitrary: s) (simp_all add: handle_threat_rules)

text \<open>The threats of a category are counted in the order of their receipt.\<close>

definition pattern_ids :: "string \<Rightarrow> threat_handler \<Rightarrow> string list" where
  "pattern_ids category s = (case map_of (th_patterns s) category of None \<Rightarrow> [] | Some t \<Rightarrow> tp_threatIds t)"

lemma handle_threat_patterns:
  "th_patterns (snd (handle_threat toISO threatId newId ts sub s))
     = th_patterns (trackPattern (ts_category sub) (ts_description sub) threatId ts s)"
  by (simp add: handle_threat_def handleToolCreation_def handleCedarRule_def threat_appendAudit_def trackPattern_def
      Let_def split_beta split: resolution_path.split)

lemma threats_in_receipt_order:
  "pattern_ids c (run_threats toISO subs s)
     = pattern_ids c s @ map sb_threatId (filter (\<lambda>x. ts_category (sb_submission x) = c) subs)"
  unfolding run_threats_def
proof (induction subs arbitrary: s)
  case (Cons x subs)
  show ?case
    by (simp add: Cons, simp add: pattern_ids_def handle_threat_patterns trackPattern_def update_conv' split: option.split)
qed simp

text \<open>
  A threat resolved by a rule stays blocked: once a rule was submitted, after any further submissions
  the detector that is built from the handler's rules blocks every call that holds a parameter the
  rule is about, for every tool and schema; and it blocks nothing on account of rules that nobody submitted.
\<close>

theorem submitted_rule_blocks:
  "let rules = listCedarRules (run_threats toISO subs (new_threat_handler p))
   in (\<forall>x \<in> set subs. \<forall>r k v. ts_path (sb_submission x) = CedarRule r \<and> fr_field r \<in> {''*'', k} \<and> fr_when r v
          \<and> (k, v) \<in> set params \<longrightarrow> fst (detect (detector_rules limit (Some rules)) tool params schema))
      \<and> set rules = {r. \<exists>x \<in> set subs. ts_path (sb_submission x) = CedarRule r}"
proof -
  define rules where "rules = listCedarRules (run_threats toISO subs (new_threat_handler p))"
  have rules: "set rules = {r. \<exists>x \<in> set subs. ts_path (sb_submission x) = CedarRule r}"
    by (force simp: rules_def listCedarRules_def run_threats_rules new_threat_handler_def rule_of_def
        split: resolution_path.splits)
  have "fst (detect (detector_rules limit (Some rules)) tool params schema)"
    if "r \<in> set rules" "fr_field r \<in> {''*'', k}" "fr_when r v" "(k, v) \<in> set params" for r k v
  proof -
    from that have "\<not> quiet (detector_rules limit (Some rules)) (k, v)"
      by (auto simp: quiet_def list_all_iff detector_rules_def)
    with that(4) have "field_violations tool (detector_rules limit (Some rules)) params \<noteq> []"
      by (auto simp: field_violations_nil list_all_iff)
    then show ?thesis by (simp add: detect_def Let_def)
  qed
  with rules show ?thesis unfolding rules_def [symmetric] Let_def by blast
qed

definition sample_rule :: field_rule where
  "sample_rule = \<lparr>fr_id = ''NTV-001'', fr_description = ''d'', fr_field = ''args'', fr_when = (\<lambda>v. v = JStr ''x''),
     fr_kind = EncodingPattern, fr_risk = ObfHigh\<rparr>"

definition sample_threat :: submitted where
  "sample_threat = \<lparr>sb_threatId = ''1'', sb_newId = ''2'', sb_ts = 0,
     sb_submission = \<lparr>ts_path = CedarRule sample_rule, ts_description = ''d'', ts_category = ''c'', ts_evidence = [],
       ts_reportedBy = ''r''\<rparr>\<rparr>"

theorem submitted_rule_blocks_witness:
  "fst (detect (detector_rules None
          (Some (listCedarRules (run_threats (\<lambda>t. '''') [sample_threat] (new_threat_handler (new_processor int None))))))
        ''t'' [(''args'', JStr ''x'')] (JObj []))"
  using submitted_rule_blocks [where subs = "[sample_threat]" and params = "[(''args'', JStr ''x'')]" and toISO = "\<lambda>t. ''''"
      and p = "new_processor int None" and limit = None and tool = "''t''" and schema = "JObj []"]
  by (simp add: Let_def sample_threat_def sample_rule_def)

end
