(* ===== verification/ToolRun.thy ===== *)
theory ToolRun
  imports Prelude
begin

text \<open>
  What the tools of \<open>src/tools/\<close> share: the machine they run on, \<open>spawnSync\<close>, the texts of a finished
  process and the functions of \<open>node:path\<close> they use. The machine answers a process by the whole history
  of processes started so far and tells of files by that history, so that a process may change both.
\<close>

section \<open>Processes\<close>

record proc_call =
  pc_command :: string
  pc_args :: "string list"
  pc_cwd :: "string option"

text \<open>\<open>status\<close> is null for a process ended by a signal, the outputs for one that did not start.\<close>

record proc_result =
  pr_status :: "int option"
  pr_stdout :: "string option"
  pr_stderr :: "string option"

record machine =
  mc_calls :: "proc_call list"
  mc_answer :: "proc_call list \<Rightarrow> proc_result"
  mc_exists :: "proc_call list \<Rightarrow> string \<Rightarrow> bool"
  mc_realpath :: "proc_call list \<Rightarrow> string \<Rightarrow> string option"
  mc_content :: "proc_call list \<Rightarrow> string \<Rightarrow> string"
  mc_cwd :: string

definition proc :: "string \<Rightarrow> string list \<Rightarrow> string option \<Rightarrow> proc_call" where
  "proc command args cwd = \<lparr>pc_command = command, pc_args = args, pc_cwd = cwd\<rparr>"

definition spawnSync :: "proc_call \<Rightarrow> machine \<Rightarrow> proc_result \<times> machine" where
  "spawnSync c m = (let calls = mc_calls m @ [c] in (mc_answer m calls, m\<lparr>mc_calls := calls\<rparr>))"

definition existsSync :: "string \<Rightarrow> machine \<Rightarrow> bool" where
  "existsSync path m = mc_exists m (mc_calls m) path"

definition realpathSync :: "string \<Rightarrow> machine \<Rightarrow> string option" where
  "realpathSync path m = mc_realpath m (mc_calls m) path"

definition readFileSync :: "string \<Rightarrow> machine \<Rightarrow> string" where
  "readFileSync path m = mc_content m (mc_calls m) path"

definition out_text :: "string option \<Rightarrow> string" where
  "out_text t = (case t of Some s \<Rightarrow> s | None \<Rightarrow> '''')"

definition out_trim :: "string option \<Rightarrow> string" where
  "out_trim t = js_trim (out_text t)"

text \<open>Errors carry the discriminant \<open>code\<close> and the message.\<close>

record tool_error =
  te_code :: string
  te_message :: string

definition tool_error :: "string \<Rightarrow> string \<Rightarrow> tool_error" where
  "tool_error code message = \<lparr>te_code = code, te_message = message\<rparr>"

type_synonym 'a tool = "machine \<Rightarrow> (tool_error + 'a) \<times> machine"

definition fails :: "string \<Rightarrow> string \<Rightarrow> 'a tool" where
  "fails code message m = (Inl (tool_error code message), m)"

text \<open>The result of the tools that hand on what the process gave.\<close>

record exec_result =
  xr_stdout :: string
  xr_stderr :: string
  xr_exit_code :: int

definition exec_result :: "proc_result \<Rightarrow> exec_result" where
  "exec_result r =
     \<lparr>xr_stdout = out_text (pr_stdout r), xr_stderr = out_text (pr_stderr r),
      xr_exit_code = (case pr_status r of Some n \<Rightarrow> n | None \<Rightarrow> 1)\<rparr>"

definition run_proc :: "string \<Rightarrow> string list \<Rightarrow> string option \<Rightarrow> exec_result tool" where
  "run_proc command args cwd m =
     (case spawnSync (proc command args cwd) m of (r, m1) \<Rightarrow> (Inr (exec_result r), m1))"

text \<open>\<open>a || b\<close> on texts, and a message put before the text of the process.\<close>

definition or_text :: "string \<Rightarrow> string \<Rightarrow> string" where
  "or_text a b = (if a \<noteq> '''' then a else b)"

definition failure_text :: "string \<Rightarrow> string \<Rightarrow> string" where
  "failure_text command err =
     (if err \<noteq> '''' then command @ '' failed: '' @ err else command @ '' exited with a non-zero status.'')"

section \<open>Paths\<close>

definition isAbsolute :: "string \<Rightarrow> bool" where
  "isAbsolute p = starts_with p ''/''"

fun norm_segs :: "bool \<Rightarrow> string list \<Rightarrow> string list \<Rightarrow> string list" where
  "norm_segs absolute [] acc = rev acc"
| "norm_segs absolute (s # ss) acc =
     (if s = '''' \<or> s = ''.'' then norm_segs absolute ss acc
      else if s = ''..''
      then (case acc of
              t # up \<Rightarrow> norm_segs absolute ss (if t = ''..'' then s # acc else up)
            | [] \<Rightarrow> norm_segs absolute ss (if absolute then [] else [s]))
      else norm_segs absolute ss (s # acc))"

definition path_normalize :: "string \<Rightarrow> string" where
  "path_normalize p =
     (if p = '''' then ''.''
      else let body = join ''/'' (norm_segs (isAbsolute p) (split_on (CHR ''/'') p) []);
               slash = last p = CHR ''/''
           in if body = '''' then (if isAbsolute p then ''/'' else if slash then ''./'' else ''.'')
              else (if isAbsolute p then ''/'' else '''') @ body @ (if slash then ''/'' else ''''))"

definition path_join :: "string \<Rightarrow> string \<Rightarrow> string" where
  "path_join a b =
     (if a = '''' \<and> b = '''' then ''.''
      else path_normalize (if a = '''' then b else if b = '''' then a else a @ ''/'' @ b))"

text \<open>\<open>path.resolve\<close>: the arguments from the last to the first, until one is absolute.\<close>

fun resolve_text :: "string \<Rightarrow> string list \<Rightarrow> string \<Rightarrow> string" where
  "resolve_text cwd [] acc = cwd @ ''/'' @ acc"
| "resolve_text cwd (p # ps) acc =
     (if p = '''' then resolve_text cwd ps acc
      else if isAbsolute p then p @ ''/'' @ acc
      else resolve_text cwd ps (p @ ''/'' @ acc))"

definition path_resolve :: "string \<Rightarrow> string list \<Rightarrow> string" where
  "path_resolve cwd ps = ''/'' @ join ''/'' (norm_segs True (split_on (CHR ''/'') (resolve_text cwd (rev ps) '''')) [])"

text \<open>\<open>options.cwd ?? process.cwd()\<close>, and a working directory taken relative to it.\<close>

definition effective_cwd :: "string option \<Rightarrow> machine \<Rightarrow> string" where
  "effective_cwd cwd m = (case cwd of Some d \<Rightarrow> d | None \<Rightarrow> mc_cwd m)"

definition against :: "string \<Rightarrow> string \<Rightarrow> machine \<Rightarrow> string" where
  "against base p m = (if isAbsolute p then p else path_resolve (mc_cwd m) [base, p])"

definition working_cwd :: "string option \<Rightarrow> string option \<Rightarrow> machine \<Rightarrow> string" where
  "working_cwd cwd working_dir m =
     (let base = effective_cwd cwd m in case working_dir of Some d \<Rightarrow> against base d m | None \<Rightarrow> base)"

section \<open>Laws\<close>

text \<open>No segment of a resolved path is empty or a dot segment.\<close>

definition plain_seg :: "string \<Rightarrow> bool" where
  "plain_seg s \<longleftrightarrow> s \<noteq> '''' \<and> s \<noteq> ''.'' \<and> s \<noteq> ''..''"

lemma norm_segs_plain: "list_all plain_seg acc \<Longrightarrow> list_all plain_seg (norm_segs True ss acc)"
proof (induction ss arbitrary: acc)
  case (Cons s ss)
  consider (skip) "s = '''' \<or> s = ''.''" | (up) "s \<noteq> ''''" "s \<noteq> ''.''" "s = ''..''" | (keep) "plain_seg s"
    unfolding plain_seg_def by blast
  then show ?case
  proof cases
    case skip
    then have "norm_segs True (s # ss) acc = norm_segs True ss acc" by (simp only: norm_segs.simps if_True)
    with Cons show ?thesis by (simp only:)
  next
    case up
    show ?thesis
    proof (cases acc)
      case Nil
      with up Cons show ?thesis by simp
    next
      case (Cons t rest)
      with Cons.prems have seg: "plain_seg t" "list_all plain_seg rest" by simp_all
      from seg(1) have "t \<noteq> ''..''" by (simp add: plain_seg_def)
      with up Cons seg Cons.IH [of rest] show ?thesis by simp
    qed
  next
    case keep
    then have "norm_segs True (s # ss) acc = norm_segs True ss (s # acc)" by (simp add: plain_seg_def)
    with Cons keep show ?thesis by simp
  qed
qed (simp add: list_all_rev)

lemma norm_segs_id: "list_all plain_seg ss \<Longrightarrow> norm_segs a ss acc = rev acc @ ss"
  by (induction ss arbitrary: acc) (simp_all add: plain_seg_def)

text \<open>A process that was run is the last one of the history.\<close>

lemma spawnSync_calls: "mc_calls (snd (spawnSync c m)) = mc_calls m @ [c]"
  by (simp add: spawnSync_def Let_def)

lemma run_proc_calls: "mc_calls (snd (run_proc command args cwd m)) = mc_calls m @ [proc command args cwd]"
  by (simp add: run_proc_def split_beta spawnSync_calls)

lemma fails_calls: "mc_calls (snd (fails code message m)) = mc_calls m"
  by (simp add: fails_def)

lemma fails_Inl: "fst (fails code message m) = Inl (tool_error code message)"
  by (simp add: fails_def)

end
