(* ===== verification/GitTools.thy ===== *)
theory GitTools
  imports ToolRun
begin

text \<open>
  The git tools of \<open>src/tools/\<close>: the arguments they hand to git, the checks before, and what they make of
  the answer. Each tool works on the machine of \<open>ToolRun\<close>.
\<close>

definition git :: "string list \<Rightarrow> string option \<Rightarrow> machine \<Rightarrow> proc_result \<times> machine" where
  "git args cwd m = spawnSync (proc ''git'' args (Some (effective_cwd cwd m))) m"

definition has_value :: "string option \<Rightarrow> bool" where
  "has_value t \<longleftrightarrow> t \<noteq> None \<and> t \<noteq> Some ''''"

definition given :: "string option \<Rightarrow> string list" where
  "given t = (case t of Some s \<Rightarrow> if s \<noteq> '''' then [s] else [] | None \<Rightarrow> [])"

definition under_dashes :: "string option \<Rightarrow> string list" where
  "under_dashes t = (case t of Some s \<Rightarrow> if s \<noteq> '''' then [''--'', s] else [] | None \<Rightarrow> [])"

definition mentions :: "string \<Rightarrow> string list \<Rightarrow> bool" where
  "mentions err words = list_ex (js_includes err) words"

section \<open>git add\<close>

definition isGlobPattern :: "string \<Rightarrow> bool" where
  "isGlobPattern p \<longleftrightarrow> CHR ''*'' \<in> set p \<or> CHR ''?'' \<in> set p \<or> CHR ''['' \<in> set p"

definition gitAdd :: "string list \<Rightarrow> string option \<Rightarrow> string list tool" where
  "gitAdd paths cwd m =
     (if paths = [] then (Inr [], m)
      else case List.find (\<lambda>p. \<not> isGlobPattern p \<and> \<not> existsSync (against (effective_cwd cwd m) p m) m) paths of
          Some p \<Rightarrow> fails ''path-not-found'' (''Path not found: '' @ p) m
        | None \<Rightarrow>
            (case git ([''add'', ''--''] @ paths) cwd m of (r, m1) \<Rightarrow>
               if pr_status r \<noteq> Some 0 then fails ''git-error'' (failure_text ''git add'' (out_trim (pr_stderr r))) m1
               else (Inr paths, m1)))"

section \<open>git branch, checkout, clone\<close>

record branch_result =
  br_name :: string
  br_message :: string

definition quoted :: "string \<Rightarrow> string" where
  "quoted s = [CHR 0x27] @ s @ [CHR 0x27]"

definition gitBranch :: "string \<Rightarrow> string option \<Rightarrow> string option \<Rightarrow> branch_result tool" where
  "gitBranch name origin cwd m =
     (case git ([''branch'', name] @ (case origin of Some f \<Rightarrow> [f] | None \<Rightarrow> [])) cwd m of (r, m1) \<Rightarrow>
        if pr_status r = Some 0
        then (Inr \<lparr>br_name = name,
                   br_message = ''Branch '' @ quoted name @ '' created''
                     @ (case origin of Some f \<Rightarrow> '' from '' @ quoted f | None \<Rightarrow> '''') @ ''.''\<rparr>, m1)
        else let err = out_trim (pr_stderr r)
             in if mentions err [''already exists'']
                then fails ''branch-already-exists'' (''Branch '' @ quoted name @ '' already exists.'') m1
                else if mentions err [''Not a valid object name'', ''not found'', ''unknown revision'']
                     \<or> (pr_status r = Some 128 \<and> origin \<noteq> None \<and> mentions err [''fatal''])
                then fails ''from-not-found''
                       (''Starting point not found: ''
                        @ quoted (case origin of Some f \<Rightarrow> f | None \<Rightarrow> ''undefined'') @ ''.'') m1
                else fails ''git-error'' (failure_text ''git branch'' err) m1)"

definition gitCheckout :: "string \<Rightarrow> string option \<Rightarrow> branch_result tool" where
  "gitCheckout ref cwd m =
     (case git [''checkout'', ref] cwd m of (r, m1) \<Rightarrow>
        let err = out_trim (pr_stderr r); out = out_trim (pr_stdout r)
        in if pr_status r = Some 0
           then (Inr \<lparr>br_name = ref, br_message = or_text err (or_text out (''Switched to '' @ quoted ref @ ''.''))\<rparr>, m1)
           else if mentions err [''Your local changes to the following files would be overwritten'',
                     ''local changes would be overwritten'', ''Please commit your changes or stash them'']
           then fails ''uncommitted-changes'' (''Cannot switch to '' @ quoted ref
                  @ '': uncommitted changes would be overwritten. Commit or stash them first.'') m1
           else if mentions err [''did not match any'', ''pathspec'']
                \<or> (pr_status r = Some 128 \<and> mentions err [''unknown revision'', ''not found''])
           then fails ''ref-not-found'' (''Ref not found: '' @ quoted ref) m1
           else fails ''git-error'' (failure_text ''git checkout'' err) m1)"

text \<open>The five patterns of \<open>isValidGitUrl\<close>: a scheme and a further character, or user, host and path.\<close>

definition scheme_url :: "string \<Rightarrow> string \<Rightarrow> bool" where
  "scheme_url scheme url \<longleftrightarrow>
     starts_with url scheme
     \<and> (case drop (length scheme) url of c # _ \<Rightarrow> c \<noteq> CHR 0x0A \<and> c \<noteq> CHR 0x0D | [] \<Rightarrow> False)"

definition isValidGitUrl :: "string \<Rightarrow> bool" where
  "isValidGitUrl url \<longleftrightarrow>
     scheme_url ''http://'' url \<or> scheme_url ''https://'' url
     \<or> (starts_with url ''git@''
        \<and> (let host = takeWhile (\<lambda>c. c \<noteq> CHR '':'') (drop 4 url) in host \<noteq> [] \<and> scheme_url (''git@'' @ host @ '':'') url))
     \<or> scheme_url ''ssh://'' url \<or> scheme_url ''git://'' url \<or> scheme_url ''file://'' url"

record clone_result =
  cl_url :: string
  cl_path :: string
  cl_message :: string

definition gitClone :: "string \<Rightarrow> string \<Rightarrow> string option \<Rightarrow> clone_result tool" where
  "gitClone url path cwd m =
     (if \<not> isValidGitUrl url
      then fails ''invalid-url'' (''Invalid git URL: \"'' @ url
             @ ''\". Expected https://, http://, git@, ssh://, git://, or file:// scheme.'') m
      else if existsSync path m
      then fails ''path-exists'' (''Destination path already exists: \"'' @ path
             @ ''\". Remove it or choose a different path.'') m
      else (case git [''clone'', url, path] cwd m of (r, m1) \<Rightarrow>
        let err = out_trim (pr_stderr r)
        in if pr_status r = Some 0
           then (Inr \<lparr>cl_url = url, cl_path = path,
                      cl_message = or_text err (''Cloned '' @ url @ '' into '' @ path @ ''.'')\<rparr>, m1)
           else fails ''git-error'' (failure_text ''git clone'' err) m1))"

section \<open>git commit\<close>

record commit_params =
  cp_message :: string
  cp_files :: "string list"
  cp_author :: "string option"
  cp_sign :: bool

definition getRepoRoot :: "string \<Rightarrow> machine \<Rightarrow> string option \<times> machine" where
  "getRepoRoot cwd m =
     (case spawnSync (proc ''git'' [''rev-parse'', ''--show-toplevel''] (Some cwd)) m of (r, m1) \<Rightarrow>
        if pr_status r \<noteq> Some 0 then (None, m1)
        else let raw = out_trim (pr_stdout r)
             in (Some (case realpathSync raw m1 of Some p \<Rightarrow> p | None \<Rightarrow> path_resolve (mc_cwd m1) [raw]), m1))"

definition resolveCanonical :: "string \<Rightarrow> string \<Rightarrow> machine \<Rightarrow> string" where
  "resolveCanonical p cwd m =
     (let abs = against cwd p m
      in case realpathSync abs m of Some q \<Rightarrow> q | None \<Rightarrow> path_resolve (mc_cwd m) [abs])"

definition inside :: "string \<Rightarrow> string \<Rightarrow> bool" where
  "inside root p \<longleftrightarrow> p = root \<or> starts_with p (root @ ''/'')"

definition commit_args :: "commit_params \<Rightarrow> string list" where
  "commit_args ps =
     [''commit''] @ (if cp_sign ps then [''-S''] else []) @ [''-m'', cp_message ps]
     @ (case cp_author ps of Some a \<Rightarrow> [''--author='' @ a] | None \<Rightarrow> [])
     @ (if cp_files ps \<noteq> [] then ''--'' # cp_files ps else [])"

definition commit :: "commit_params \<Rightarrow> string \<Rightarrow> string tool" where
  "commit ps cwd m =
     (case spawnSync (proc ''git'' (commit_args ps) (Some cwd)) m of (r, m1) \<Rightarrow>
        if pr_status r \<noteq> Some 0
        then let err = out_trim (pr_stderr r)
             in if mentions (out_text (pr_stdout r) @ err) [''nothing to commit'', ''nothing added to commit'']
                then fails ''nothing-to-commit'' ''Nothing to commit.'' m1
                else fails ''git-error'' (failure_text ''git commit'' err) m1
        else (case spawnSync (proc ''git'' [''rev-parse'', ''HEAD''] (Some cwd)) m1 of (h, m2) \<Rightarrow>
                (Inr (out_trim (pr_stdout h)), m2)))"

definition gitCommit :: "commit_params \<Rightarrow> string option \<Rightarrow> string tool" where
  "gitCommit ps cwd m =
     (let dir = effective_cwd cwd m
      in if cp_files ps = [] then commit ps dir m
         else (case getRepoRoot dir m of
             (None, m1) \<Rightarrow> fails ''git-error'' ''Not a git repository (or git rev-parse failed).'' m1
           | (Some root, m1) \<Rightarrow>
               (case List.find (\<lambda>f. \<not> inside root (resolveCanonical f dir m1)) (cp_files ps) of
                  Some f \<Rightarrow> fails ''path-out-of-bounds'' (''Path is outside the repository root: '' @ f) m1
                | None \<Rightarrow> commit ps dir m1)))"

section \<open>git diff, log, status\<close>

definition gitDiff :: "string option \<Rightarrow> string option \<Rightarrow> string option \<Rightarrow> string tool" where
  "gitDiff ref path cwd m =
     (case git ([''diff''] @ given ref @ under_dashes path) cwd m of (r, m1) \<Rightarrow>
        if pr_status r \<noteq> Some 0 then fails ''git-error'' (failure_text ''git diff'' (out_trim (pr_stderr r))) m1
        else (Inr (out_text (pr_stdout r)), m1))"

record commit_info =
  ci_hash :: string
  ci_message :: string
  ci_author :: string
  ci_date :: string

definition FIELD_SEP :: char where
  "FIELD_SEP = CHR 0x1F"

definition FORMAT :: string where
  "FORMAT = ''%H'' @ [FIELD_SEP] @ ''%s'' @ [FIELD_SEP] @ ''%an'' @ [FIELD_SEP] @ ''%aI''"

definition nth_text :: "string list \<Rightarrow> nat \<Rightarrow> string" where
  "nth_text ts i = (if i < length ts then ts ! i else '''')"

definition parse_commit :: "string \<Rightarrow> commit_info" where
  "parse_commit line =
     (let parts = split_on FIELD_SEP line
      in \<lparr>ci_hash = nth_text parts 0, ci_message = nth_text parts 1, ci_author = nth_text parts 2,
          ci_date = nth_text parts 3\<rparr>)"

definition parse_log :: "string \<Rightarrow> commit_info list" where
  "parse_log output = map parse_commit (filter (\<lambda>line. js_trim line \<noteq> '''') (split_on (CHR 0x0A) output))"

definition gitLog :: "int option \<Rightarrow> string option \<Rightarrow> string option \<Rightarrow> commit_info list tool" where
  "gitLog limit path cwd m =
     (case git ([''log'', ''--format='' @ FORMAT]
                @ (case limit of Some n \<Rightarrow> if n > 0 then [''-'' @ int_str n] else [] | None \<Rightarrow> [])
                @ under_dashes path) cwd m of (r, m1) \<Rightarrow>
        if pr_status r \<noteq> Some 0
        then let err = out_trim (pr_stderr r)
             in if mentions err [''does not have any commits yet''] then (Inr [], m1)
                else fails ''git-error'' (failure_text ''git log'' err) m1
        else (Inr (parse_log (out_text (pr_stdout r))), m1))"

record status_result =
  st_staged :: "string list"
  st_unstaged :: "string list"
  st_untracked :: "string list"

definition status_line :: "string \<Rightarrow> status_result \<Rightarrow> status_result" where
  "status_line line s =
     (if length line < 3 then s
      else let x = line ! 0; y = line ! 1; path = drop 3 line
           in if x = CHR ''?'' \<and> y = CHR ''?'' then s\<lparr>st_untracked := st_untracked s @ [path]\<rparr>
              else let s1 = (if x \<noteq> CHR '' '' \<and> x \<noteq> CHR ''?'' then s\<lparr>st_staged := st_staged s @ [path]\<rparr> else s)
                   in if y \<noteq> CHR '' '' \<and> y \<noteq> CHR ''?'' then s1\<lparr>st_unstaged := st_unstaged s1 @ [path]\<rparr> else s1)"

definition parse_status :: "string \<Rightarrow> status_result" where
  "parse_status output =
     fold status_line (split_on (CHR 0x0A) output) \<lparr>st_staged = [], st_unstaged = [], st_untracked = []\<rparr>"

definition gitStatus :: "string option \<Rightarrow> status_result tool" where
  "gitStatus cwd m =
     (case git [''status'', ''--porcelain''] cwd m of (r, m1) \<Rightarrow>
        if pr_status r \<noteq> Some 0 then fails ''git-error'' (failure_text ''git status'' (out_trim (pr_stderr r))) m1
        else (Inr (parse_status (out_text (pr_stdout r))), m1))"

section \<open>git merge, push, reset\<close>

text \<open>\<open>/Merge conflict in (.+)$/\<close>: the rest of the line behind the first occurrence; a dot matches no carriage return.\<close>

fun conflict_path :: "string \<Rightarrow> string option" where
  "conflict_path [] = None"
| "conflict_path (c # cs) =
     (if starts_with (c # cs) ''Merge conflict in ''
         \<and> (let rest = drop 18 (c # cs) in rest \<noteq> [] \<and> CHR 0x0D \<notin> set rest)
      then Some (drop 18 (c # cs)) else conflict_path cs)"

definition parseConflicts :: "string \<Rightarrow> string list" where
  "parseConflicts output =
     map (\<lambda>line. js_trim (case conflict_path line of Some p \<Rightarrow> p | None \<Rightarrow> line))
       (filter (\<lambda>line. js_includes line ''CONFLICT'' \<and> js_includes line ''Merge conflict in'')
         (split_on (CHR 0x0A) output))"

definition gitMerge ::
  "string \<Rightarrow> string option \<Rightarrow> machine \<Rightarrow> (tool_error \<times> string list option + string) \<times> machine" where
  "gitMerge branch cwd m =
     (case git [''merge'', branch] cwd m of (r, m1) \<Rightarrow>
        let err = out_trim (pr_stderr r); out = out_trim (pr_stdout r)
        in if pr_status r = Some 0 then (Inr (or_text out ''Merge successful.''), m1)
           else if mentions err [''not something we can merge'', ''not found'', ''invalid reference'',
                     ''doesn'' @ [CHR 0x27] @ ''t exist'']
                \<or> (pr_status r = Some 128 \<and> mentions err [''unknown revision''])
           then (Inl (tool_error ''branch-not-found'' (''Branch not found: '' @ branch), None), m1)
           else if pr_status r = Some 1
           then (Inl (tool_error ''merge-conflict'' ''Merge conflict detected; manual resolution required.'',
                      Some (parseConflicts (out @ [CHR 0x0A] @ err))), m1)
           else (Inl (tool_error ''git-error'' (failure_text ''git merge'' err), None), m1))"

record push_result =
  ps_remote :: string
  ps_branch :: string
  ps_message :: string

definition currentBranch :: "string \<Rightarrow> machine \<Rightarrow> string \<times> machine" where
  "currentBranch cwd m =
     (case spawnSync (proc ''git'' [''rev-parse'', ''--abbrev-ref'', ''HEAD''] (Some cwd)) m of (r, m1) \<Rightarrow>
        (if pr_status r = Some 0 then out_trim (pr_stdout r) else '''', m1))"

definition push_failure :: "string option \<Rightarrow> proc_result \<Rightarrow> tool_error" where
  "push_failure remote r =
     (let err = out_trim (pr_stderr r); low = js_lower err
      in if mentions err [''does not appear to be a git repository'', ''repository not found'']
            \<or> (pr_status r = Some 128 \<and> mentions low [''remote''] \<and> mentions low [''not found'', ''could not read''])
         then tool_error ''remote-not-found''
                (js_trim (case remote of
                            Some t \<Rightarrow> if t \<noteq> '''' then ''Remote not found: '' @ t @ ''. '' @ err else ''Remote not found. '' @ err
                          | None \<Rightarrow> ''Remote not found. '' @ err))
         else if mentions err [''Authentication failed'', ''Permission denied'', ''could not read Username'',
                   ''could not read Password'']
              \<or> mentions low [''authorization failed'', ''invalid username or password'']
         then tool_error ''auth-error'' (''Authentication failed: '' @ err)
         else if mentions err [''Updates were rejected'', ''[rejected]'', ''! [rejected]'', ''! [remote rejected]'']
         then tool_error ''rejected'' (''Push rejected: '' @ err)
         else tool_error ''git-error'' (failure_text ''git push'' err))"

definition gitPush :: "string option \<Rightarrow> string option \<Rightarrow> string option \<Rightarrow> push_result tool" where
  "gitPush remote branch cwd m =
     (let dir = effective_cwd cwd m
      in case (if has_value branch then (the branch, m) else currentBranch dir m) of (effectiveBranch, m1) \<Rightarrow>
        (case spawnSync (proc ''git'' ([''push''] @ given remote @ given branch) (Some dir)) m1 of (r, m2) \<Rightarrow>
           if pr_status r = Some 0
           then (Inr \<lparr>ps_remote = (if has_value remote then the remote else ''origin''), ps_branch = effectiveBranch,
                      ps_message = or_text (out_trim (pr_stderr r))
                        (or_text (out_trim (pr_stdout r)) ''Push successful.'')\<rparr>, m2)
           else (Inl (push_failure remote r), m2)))"

datatype reset_mode = Soft | Mixed | Hard

definition reset_mode_str :: "reset_mode \<Rightarrow> string" where
  "reset_mode_str mode = (case mode of Soft \<Rightarrow> ''soft'' | Mixed \<Rightarrow> ''mixed'' | Hard \<Rightarrow> ''hard'')"

record reset_result =
  rr_mode :: reset_mode
  rr_ref :: string
  rr_message :: string
  rr_warning :: "string option"

definition gitReset :: "reset_mode \<Rightarrow> string \<Rightarrow> string option \<Rightarrow> reset_result tool" where
  "gitReset mode ref cwd m =
     (case git [''reset'', ''--'' @ reset_mode_str mode, ref] cwd m of (r, m1) \<Rightarrow>
        let err = out_trim (pr_stderr r); out = out_trim (pr_stdout r)
        in if pr_status r = Some 0
           then (Inr \<lparr>rr_mode = mode, rr_ref = ref,
                      rr_message = or_text out (or_text err
                        (''Reset to '' @ quoted ref @ '' ('' @ reset_mode_str mode @ '').'')),
                      rr_warning = (if mode = Hard
                        then Some (''Hard reset permanently discards all uncommitted changes to tracked files. ''
                               @ ''Use `git reflog` to recover commits if needed.'') else None)\<rparr>, m1)
           else if mentions err [''unknown revision'', ''ambiguous argument'', ''not a valid object name'', ''bad revision'']
                \<or> (pr_status r = Some 128 \<and> mentions err [''fatal''])
           then fails ''invalid-ref'' (''Ref not found: '' @ quoted ref) m1
           else fails ''git-error'' (failure_text ''git reset'' err) m1)"

end
