(* ===== verification/GitToolsProps.thy ===== *)
theory GitToolsProps
  imports GitTools Json
begin

text \<open>
  What the git tools hand to git: which arguments git reads as options, that a commit stays inside the
  repository, and that the logs they read give back what git wrote.
\<close>

section \<open>Options\<close>

text \<open>
  The arguments a program reads as options: those that begin with a dash, up to a double dash. The argument
  after an option of \<open>V\<close> is its value.
\<close>

fun read_options :: "string set \<Rightarrow> string list \<Rightarrow> string list" where
  "read_options V [] = []"
| "read_options V [a] = (if starts_with a ''-'' \<and> a \<noteq> ''--'' then [a] else [])"
| "read_options V (a # b # rest) =
     (if a = ''--'' then []
      else if a \<in> V then a # read_options V rest
      else if starts_with a ''-'' then a # read_options V (b # rest)
      else read_options V (b # rest))"

definition dashed :: "string list \<Rightarrow> string list" where
  "dashed args = filter (\<lambda>a. starts_with a ''-'') (takeWhile (\<lambda>a. a \<noteq> ''--'') args)"

lemma read_options_dashed: "read_options {} args = dashed args"
  by (induction "{} :: string set" args rule: read_options.induct) (simp_all add: dashed_def)

text \<open>The processes a tool has started.\<close>

definition started :: "(machine \<Rightarrow> 'b \<times> machine) \<Rightarrow> machine \<Rightarrow> proc_call list" where
  "started t m = drop (length (mc_calls m)) (mc_calls (snd (t m)))"

lemma spawnSync_eq: "spawnSync c m = (mc_answer m (mc_calls m @ [c]), m\<lparr>mc_calls := mc_calls m @ [c]\<rparr>)"
  by (simp add: spawnSync_def Let_def)

lemmas git_tool_simps = git_def spawnSync_eq proc_def fails_def Let_def

lemma dashed_Cons: "dashed (a # as) = (if a = ''--'' then [] else if starts_with a ''-'' then a # dashed as else dashed as)"
  by (simp add: dashed_def)

lemma dashed_Nil: "dashed [] = []"
  by (simp add: dashed_def)

lemma starts_dash: "starts_with (c # s) ''-'' \<longleftrightarrow> c = CHR ''-''"
  by (simp add: starts_with_def)

lemma gitAdd_started: "list_all (\<lambda>c. pc_command c = ''git'' \<and> dashed (pc_args c) = []) (started (gitAdd paths cwd) m)"
  by (simp add: started_def gitAdd_def git_tool_simps dashed_Cons starts_dash split: option.split)

lemma gitStatus_started: "map pc_args (started (gitStatus cwd) m) = [[''status'', ''--porcelain'']]"
  by (simp add: started_def gitStatus_def git_tool_simps)

lemma gitLog_started:
  "map pc_args (started (gitLog limit path cwd) m)
     = [[''log'', ''--format='' @ FORMAT] @ (case limit of Some n \<Rightarrow> if n > 0 then [''-'' @ int_str n] else [] | None \<Rightarrow> [])
        @ under_dashes path]"
  by (simp add: started_def gitLog_def git_tool_simps)

lemma gitDiff_started: "map pc_args (started (gitDiff ref path cwd) m) = [''diff'' # given ref @ under_dashes path]"
  by (simp add: started_def gitDiff_def git_tool_simps)

lemma gitBranch_started:
  "map pc_args (started (gitBranch name origin cwd) m) = [[''branch'', name] @ (case origin of Some f \<Rightarrow> [f] | None \<Rightarrow> [])]"
  by (simp add: started_def gitBranch_def git_tool_simps)

lemma gitCheckout_started: "map pc_args (started (gitCheckout ref cwd) m) = [[''checkout'', ref]]"
  by (simp add: started_def gitCheckout_def git_tool_simps)

lemma gitReset_started: "map pc_args (started (gitReset mode ref cwd) m) = [[''reset'', ''--'' @ reset_mode_str mode, ref]]"
  by (simp add: started_def gitReset_def git_tool_simps)

lemma gitClone_started:
  "map pc_args (started (gitClone url path cwd) m)
     = (if isValidGitUrl url \<and> \<not> existsSync path m then [[''clone'', url, path]] else [])"
  by (simp add: started_def gitClone_def git_tool_simps)

lemma valid_url_not_option: "isValidGitUrl url \<Longrightarrow> \<not> starts_with url ''-''"
  by (auto simp: isValidGitUrl_def scheme_url_def starts_with_def Let_def) (cases url; simp)+

text \<open>The parameters of a commit never reach git as options: message, author and files are values.\<close>

definition commit_options :: "commit_params \<Rightarrow> string list" where
  "commit_options ps =
     (if cp_sign ps then [''-S''] else []) @ [''-m'']
     @ (case cp_author ps of Some a \<Rightarrow> [''--author='' @ a] | None \<Rightarrow> [])"

lemma commit_args_options: "read_options {''-m''} (commit_args ps) = commit_options ps"
  by (cases "cp_author ps"; cases "cp_files ps")
    (simp_all add: commit_args_def commit_options_def starts_with_def)

lemma getRepoRoot_calls:
  "mc_calls (snd (getRepoRoot cwd m)) = mc_calls m @ [proc ''git'' [''rev-parse'', ''--show-toplevel''] (Some cwd)]"
  by (simp add: getRepoRoot_def spawnSync_eq Let_def)

lemma commit_calls:
  "\<exists>cs. mc_calls (snd (commit ps cwd m)) = mc_calls m @ cs
        \<and> list_all (\<lambda>c. pc_args c = commit_args ps \<or> pc_args c = [''rev-parse'', ''HEAD'']) cs"
  by (auto simp: commit_def spawnSync_eq fails_def Let_def proc_def)

lemma gitCommit_started:
  "list_all (\<lambda>c. pc_args c = commit_args ps \<or> pc_args c = [''rev-parse'', ''--show-toplevel'']
        \<or> pc_args c = [''rev-parse'', ''HEAD'']) (started (gitCommit ps cwd) m)"
proof -
  define d where "d = effective_cwd cwd m"
  obtain root m1 where root: "getRepoRoot d m = (root, m1)" by (cases "getRepoRoot d m")
  have m1: "mc_calls m1 = mc_calls m @ [proc ''git'' [''rev-parse'', ''--show-toplevel''] (Some d)]"
    using getRepoRoot_calls [of d m] by (simp add: root)
  show ?thesis
  proof (cases "cp_files ps = []")
    case True
    with commit_calls [of ps d m] show ?thesis by (auto simp: started_def gitCommit_def Let_def d_def list_all_iff)
  next
    case files: False
    show ?thesis
    proof (cases root)
      case None
      with files root show ?thesis by (simp add: started_def gitCommit_def Let_def d_def [symmetric] fails_def m1 proc_def)
    next
      case (Some top)
      show ?thesis
      proof (cases "List.find (\<lambda>f. \<not> inside top (resolveCanonical f d m1)) (cp_files ps)")
        case None
        with files root Some commit_calls [of ps d m1] show ?thesis
          by (auto simp: started_def gitCommit_def Let_def d_def [symmetric] m1 proc_def list_all_iff)
      next
        case outside: (Some f)
        with files root Some show ?thesis
          by (simp add: started_def gitCommit_def Let_def d_def [symmetric] fails_def m1 proc_def)
      qed
    qed
  qed
qed

lemma int_str_positive: "n > 0 \<Longrightarrow> int_str n \<noteq> ''-''"
  using nat_str_hd [of "nat n" "CHR ''-''" "[]"] by (auto simp: int_str_def is_digit_def)

text \<open>
  Git never reads a parameter of these tools as an option: the paths of git_add, the path of git_diff and
  of git_log, the message, the author and the files of git_commit and the address of git_clone may be any
  text, and git still sees exactly the options the tool itself writes. (The same does not hold of the names
  git_branch, git_checkout, git_merge, git_push and git_reset are given, nor of the path of git_clone.)
\<close>

theorem git_options_fixed:
  "list_all (\<lambda>c. dashed (pc_args c) = []) (started (gitAdd paths cwd) m)
   \<and> list_all (\<lambda>c. read_options {''-m''} (pc_args c) \<in> {commit_options ps, [''--show-toplevel''], []})
       (started (gitCommit ps cwd) m)
   \<and> map (dashed \<circ> pc_args) (started (gitDiff None (Some path) cwd) m) = [[]]
   \<and> map (dashed \<circ> pc_args) (started (gitLog limit (Some path) cwd) m)
       = [(''--format='' @ FORMAT) # (case limit of Some n \<Rightarrow> if n > 0 then [''-'' @ int_str n] else [] | None \<Rightarrow> [])]
   \<and> list_all (\<lambda>c. dashed (pc_args c) = dashed [target]) (started (gitClone url target cwd) m)"
proof (intro conjI)
  show "list_all (\<lambda>c. dashed (pc_args c) = []) (started (gitAdd paths cwd) m)"
    using gitAdd_started [of paths cwd m] by (simp add: list_all_iff)
  have "read_options {''-m''} [''rev-parse'', ''--show-toplevel''] = [''--show-toplevel'']"
    "read_options {''-m''} [''rev-parse'', ''HEAD''] = []" by (simp_all add: starts_with_def)
  then show "list_all (\<lambda>c. read_options {''-m''} (pc_args c) \<in> {commit_options ps, [''--show-toplevel''], []})
       (started (gitCommit ps cwd) m)"
    using gitCommit_started [of ps cwd m] by (force simp: list_all_iff commit_args_options)
  show "map (dashed \<circ> pc_args) (started (gitDiff None (Some path) cwd) m) = [[]]"
    using gitDiff_started [of None "Some path" cwd m]
    by (auto simp: given_def under_dashes_def dashed_Cons dashed_Nil starts_dash map_eq_Cons_conv)
  show "map (dashed \<circ> pc_args) (started (gitLog limit (Some path) cwd) m)
       = [(''--format='' @ FORMAT) # (case limit of Some n \<Rightarrow> if n > 0 then [''-'' @ int_str n] else [] | None \<Rightarrow> [])]"
    using gitLog_started [of limit "Some path" cwd m]
    by (auto simp: under_dashes_def dashed_Cons dashed_Nil starts_dash map_eq_Cons_conv int_str_positive split: option.split)
  show "list_all (\<lambda>c. dashed (pc_args c) = dashed [target]) (started (gitClone url target cwd) m)"
    using gitClone_started [of url target cwd m] valid_url_not_option [of url]
    by (auto simp: dashed_Cons starts_dash list_all_iff split: if_splits)
qed

text \<open>What git reads from the other tools depends on the caller: names that begin with a dash are options.\<close>

lemma branch_can_delete:
  "map pc_args (started (gitBranch ''-D'' (Some ''main'') cwd) m) = [[''branch'', ''-D'', ''main'']]"
  by (simp add: gitBranch_started)

lemma clone_can_configure:
  "\<not> existsSync ''--config=core.sshCommand=x'' m \<Longrightarrow>
     map pc_args (started (gitClone ''ssh://h/r'' ''--config=core.sshCommand=x'' cwd) m)
       = [[''clone'', ''ssh://h/r'', ''--config=core.sshCommand=x'']]"
  by (simp add: gitClone_started isValidGitUrl_def scheme_url_def starts_with_def)

section \<open>Commits stay in the repository\<close>

lemma commit_args_not_revparse: "commit_args ps \<noteq> [''rev-parse'', x]"
  by (simp add: commit_args_def)

text \<open>
  C5. A commit of files names only files of the repository: whenever the tool starts the commit it was
  asked for, it has asked git for the repository root before, and every file, resolved against the working
  directory and through symbolic links as they are then, is the root or lies below it.
\<close>

theorem git_commit_inside:
  assumes "cp_files ps \<noteq> []" "commit_args ps \<in> set (map pc_args (started (gitCommit ps cwd) m))"
  shows "\<exists>root m1. getRepoRoot (effective_cwd cwd m) m = (Some root, m1)
           \<and> (\<forall>f\<in>set (cp_files ps). inside root (resolveCanonical f (effective_cwd cwd m) m1))"
proof -
  define d where "d = effective_cwd cwd m"
  obtain root m1 where root: "getRepoRoot d m = (root, m1)" by (cases "getRepoRoot d m")
  have m1: "mc_calls m1 = mc_calls m @ [proc ''git'' [''rev-parse'', ''--show-toplevel''] (Some d)]"
    using getRepoRoot_calls [of d m] by (simp add: root)
  have no_commit: "commit_args ps \<notin> set (map pc_args (started (\<lambda>m. (Inl e :: tool_error + string, m1)) m))" for e
    using commit_args_not_revparse [of ps] by (auto simp: started_def m1 proc_def)
  show ?thesis
  proof (cases root)
    case None
    with assms root no_commit show ?thesis
      by (simp add: gitCommit_def d_def [symmetric] started_def fails_def)
  next
    case (Some top)
    have "List.find (\<lambda>f. \<not> inside top (resolveCanonical f d m1)) (cp_files ps) = None"
    proof (rule ccontr)
      assume "\<not> ?thesis"
      with assms root Some no_commit show False
        by (auto simp: gitCommit_def d_def [symmetric] started_def fails_def)
    qed
    then have "\<forall>f\<in>set (cp_files ps). inside top (resolveCanonical f d m1)" by (simp add: find_None_iff)
    with root Some show ?thesis by (auto simp: d_def)
  qed
qed

text \<open>A machine on which every process succeeds, with one answer for all.\<close>

definition calm_machine :: "string \<Rightarrow> machine" where
  "calm_machine out =
     \<lparr>mc_calls = [], mc_answer = (\<lambda>_. \<lparr>pr_status = Some 0, pr_stdout = Some out, pr_stderr = Some ''''\<rparr>),
      mc_exists = (\<lambda>_ _. False), mc_realpath = (\<lambda>_ p. Some p), mc_content = (\<lambda>_ _. ''''), mc_cwd = ''/r''\<rparr>"

definition one_file :: commit_params where
  "one_file = \<lparr>cp_message = ''m'', cp_files = [''/r/a''], cp_author = None, cp_sign = False\<rparr>"

theorem git_commit_inside_witness:
  "\<exists>root m1. getRepoRoot ''/r'' (calm_machine ''/r'') = (Some root, m1) \<and> inside root (resolveCanonical ''/r/a'' ''/r'' m1)"
proof -
  have "commit_args one_file \<in> set (map pc_args (started (gitCommit one_file None) (calm_machine ''/r'')))"
    by (simp add: started_def gitCommit_def getRepoRoot_def commit_def one_file_def calm_machine_def effective_cwd_def
        spawnSync_eq proc_def out_trim_def out_text_def realpathSync_def resolveCanonical_def against_def isAbsolute_def
        inside_def js_trim_def js_space_def starts_with_def Let_def)
  from git_commit_inside [OF _ this] show ?thesis
    by (auto simp: one_file_def effective_cwd_def calm_machine_def)
qed

section \<open>Logs\<close>

definition print_commit :: "commit_info \<Rightarrow> string" where
  "print_commit c = join [FIELD_SEP] [ci_hash c, ci_message c, ci_author c, ci_date c]"

definition one_line :: "string \<Rightarrow> bool" where
  "one_line s \<longleftrightarrow> FIELD_SEP \<notin> set s \<and> CHR 0x0A \<notin> set s"

definition line_commit :: "commit_info \<Rightarrow> bool" where
  "line_commit c \<longleftrightarrow> one_line (ci_hash c) \<and> one_line (ci_message c) \<and> one_line (ci_author c) \<and> one_line (ci_date c)"

lemma parse_print_commit: "line_commit c \<Longrightarrow> parse_commit (print_commit c) = c"
  by (simp add: parse_commit_def print_commit_def split_on_append_sep split_on_no_sep line_commit_def one_line_def
      nth_text_def Let_def)

lemma trim_keeps: "c \<in> set s \<Longrightarrow> \<not> js_space c \<Longrightarrow> js_trim s \<noteq> ''''"
  by (auto simp: js_trim_def dropWhile_eq_Nil_conv) (metis dropWhile_append3 set_dropWhileD dropWhile_eq_Nil_conv in_set_conv_decomp)

lemma print_commit_line: "js_trim (print_commit c) \<noteq> ''''" "line_commit c \<Longrightarrow> CHR 0x0A \<notin> set (print_commit c)"
proof -
  have "FIELD_SEP \<in> set (print_commit c)" "\<not> js_space FIELD_SEP"
    by (simp_all add: print_commit_def FIELD_SEP_def js_space_def)
  then show "js_trim (print_commit c) \<noteq> ''''" by (rule trim_keeps)
  show "line_commit c \<Longrightarrow> CHR 0x0A \<notin> set (print_commit c)"
    by (auto simp: print_commit_def line_commit_def one_line_def FIELD_SEP_def)
qed

lemma split_lines:
  "list_all (\<lambda>t. CHR 0x0A \<notin> set t) ts \<Longrightarrow> split_on (CHR 0x0A) (concat (map (\<lambda>t. t @ [CHR 0x0A]) ts)) = ts @ ['''']"
  by (induction ts) (simp_all add: split_on_append_sep)

text \<open>
  The log comes back as git wrote it: the commits git_log returns for the output git prints in the
  requested format, one line each, are exactly the commits printed, in their order, if no field holds
  a line break or the separator.
\<close>

theorem git_log_roundtrip:
  assumes "list_all line_commit cs"
  shows "parse_log (concat (map (\<lambda>c. print_commit c @ [CHR 0x0A]) cs)) = cs"
proof -
  have "split_on (CHR 0x0A) (concat (map (\<lambda>c. print_commit c @ [CHR 0x0A]) cs)) = map print_commit cs @ ['''']"
    using split_lines [of "map print_commit cs"] assms print_commit_line(2)
    by (simp add: list_all_iff comp_def)
  moreover have "js_trim '''' = ''''" by (simp add: js_trim_def)
  moreover have "filter (\<lambda>line. js_trim line \<noteq> '''') (map print_commit cs) = map print_commit cs"
    using print_commit_line(1) by (simp add: filter_id_conv)
  ultimately show ?thesis
    using assms parse_print_commit by (simp add: parse_log_def list_all_iff map_idI)
qed

theorem git_log_roundtrip_witness:
  "parse_log (''a'' @ [CHR 0x1F] @ ''b'' @ [CHR 0x1F] @ ''c'' @ [CHR 0x1F] @ ''d'' @ [CHR 0x0A])
     = [\<lparr>ci_hash = ''a'', ci_message = ''b'', ci_author = ''c'', ci_date = ''d''\<rparr>]"
  using git_log_roundtrip [of "[\<lparr>ci_hash = ''a'', ci_message = ''b'', ci_author = ''c'', ci_date = ''d''\<rparr>]"]
  by (simp add: line_commit_def one_line_def print_commit_def FIELD_SEP_def)

text \<open>The author of a commit can be forged in the log by a subject that holds the separator.\<close>

lemma forged_author:
  "map ci_author (parse_log (print_commit \<lparr>ci_hash = ''h'', ci_message = ''s'' @ [FIELD_SEP] @ ''root'' @ [FIELD_SEP] @ ''now'',
       ci_author = ''eve'', ci_date = ''d''\<rparr>)) = [''root'']"
  by code_simp

section \<open>Status\<close>

text \<open>An entry of the porcelain output: two status characters, a space and the path.\<close>

definition status_entry :: "char \<times> char \<times> string \<Rightarrow> string" where
  "status_entry e = (case e of (x, y, path) \<Rightarrow> [x, y, CHR '' ''] @ path)"

lemma status_lines:
  "fold status_line (map status_entry es) s =
     \<lparr>st_staged = st_staged s @ [p. (x, y, p) \<leftarrow> es, x \<notin> {CHR '' '', CHR ''?''}],
      st_unstaged = st_unstaged s @ [p. (x, y, p) \<leftarrow> es, y \<notin> {CHR '' '', CHR ''?''}],
      st_untracked = st_untracked s @ [p. (x, y, p) \<leftarrow> es, x = CHR ''?'' \<and> y = CHR ''?'']\<rparr>"
  by (induction es arbitrary: s) (auto simp: status_line_def status_entry_def Let_def)

lemma git_status_classifies:
  assumes "list_all (\<lambda>(x, y, p). CHR 0x0A \<notin> set [x, y] \<and> CHR 0x0A \<notin> set p) es"
  shows "parse_status (concat (map (\<lambda>e. status_entry e @ [CHR 0x0A]) es)) =
    \<lparr>st_staged = [p. (x, y, p) \<leftarrow> es, x \<notin> {CHR '' '', CHR ''?''}],
     st_unstaged = [p. (x, y, p) \<leftarrow> es, y \<notin> {CHR '' '', CHR ''?''}],
     st_untracked = [p. (x, y, p) \<leftarrow> es, x = CHR ''?'' \<and> y = CHR ''?'']\<rparr>"
proof -
  have "split_on (CHR 0x0A) (concat (map (\<lambda>e. status_entry e @ [CHR 0x0A]) es)) = map status_entry es @ ['''']"
    using split_lines [of "map status_entry es"] assms
    by (simp add: list_all_iff comp_def status_entry_def case_prod_beta)
  then show ?thesis by (simp add: parse_status_def status_lines status_line_def [of "''''"])
qed

end
