(* ===== verification/HostTools.thy ===== *)
theory HostTools
  imports ToolRun JsRegex
begin

text \<open>
  The tools of \<open>src/tools/\<close> that start a program of the host: chmod, chown, crontab, kill, pkill, reboot,
  shutdown, systemctl, docker and kubectl. They check their parameters, write the arguments and hand on
  what the program gives. In messages the sign for at most is written out of ASCII characters.
\<close>

section \<open>Checks of texts\<close>

definition anchored :: "rx \<Rightarrow> rx" where
  "anchored r = RSeq RBol (RSeq r REol)"

definition SHELL_METACHARACTERS :: rx where
  "SHELL_METACHARACTERS =
     RClass (\<lambda>c. c \<in> set '';&|$(){}'' \<or> c = CHR 0x60 \<or> c = CHR 0x5C \<or> c = CHR 0x27 \<or> c = CHR 0x22)"

text \<open>Not empty and free of metacharacters once trimmed, and, with a pattern, matched by it.\<close>

definition clean_text_arg :: "string \<Rightarrow> bool" where
  "clean_text_arg s \<longleftrightarrow> (let t = js_trim s in t \<noteq> '''' \<and> \<not> rx_test SHELL_METACHARACTERS t)"

definition alnum :: "char \<Rightarrow> bool" where
  "alnum c \<longleftrightarrow> is_lower c \<or> is_upper c \<or> is_digit c"

definition lower_digit :: "char \<Rightarrow> bool" where
  "lower_digit c \<longleftrightarrow> is_lower c \<or> is_digit c"

section \<open>chmod and chown\<close>

definition NUMERIC_MODE :: rx where
  "NUMERIC_MODE = anchored (rx_range 3 4 (RClass (\<lambda>c. c \<in> set ''01234567'')))"

definition mode_clause :: rx where
  "mode_clause = rx_seq [RStar (RClass (\<lambda>c. c \<in> set ''ugoa'')), RClass (\<lambda>c. c \<in> set ''+-=''),
     rx_plus (RClass (\<lambda>c. c \<in> set ''rwxXst''))]"

definition SYMBOLIC_MODE :: rx where
  "SYMBOLIC_MODE = anchored (RSeq mode_clause (RStar (RSeq (rx_chr (CHR '','')) mode_clause)))"

definition validateMode :: "string \<Rightarrow> bool" where
  "validateMode mode \<longleftrightarrow> (let t = js_trim mode in t \<noteq> '''' \<and> (rx_test NUMERIC_MODE t \<or> rx_test SYMBOLIC_MODE t))"

definition recursive_flag :: "bool \<Rightarrow> string list" where
  "recursive_flag recursive = (if recursive then [''-R''] else [])"

definition chmodPath :: "string \<Rightarrow> string \<Rightarrow> bool \<Rightarrow> exec_result tool" where
  "chmodPath path mode recursive m =
     (if \<not> clean_text_arg path
      then fails ''invalid-path'' (''Invalid path for chmod: \"'' @ path
             @ ''\". Path must be a non-empty string with no shell metacharacters.'') m
      else if \<not> validateMode mode
      then fails ''invalid-mode'' (''Invalid chmod mode: \"'' @ mode
             @ ''\". Mode must be numeric (e.g. \"755\", \"0644\") or symbolic (e.g. \"u+x\", \"go-w\", \"a=r,u+x\").'') m
      else run_proc ''chmod'' (recursive_flag recursive @ [mode, path]) None m)"

definition ID_RE :: rx where
  "ID_RE = RAlt (RSeq (RClass (\<lambda>c. is_lower c \<or> c = CHR ''_''))
       (RStar (RClass (\<lambda>c. lower_digit c \<or> c = CHR ''_'' \<or> c = CHR ''-''))))
     (rx_plus (RClass is_digit))"

definition OWNER_SPEC :: rx where
  "OWNER_SPEC = anchored (RAlt (RSeq ID_RE (rx_opt (RSeq (rx_chr (CHR '':'')) (rx_opt ID_RE))))
     (RSeq (rx_chr (CHR '':'')) ID_RE))"

definition validateOwner :: "string \<Rightarrow> bool" where
  "validateOwner owner \<longleftrightarrow> clean_text_arg owner \<and> rx_test OWNER_SPEC (js_trim owner)"

definition chownPath :: "string \<Rightarrow> string \<Rightarrow> bool \<Rightarrow> exec_result tool" where
  "chownPath path owner recursive m =
     (if \<not> clean_text_arg path
      then fails ''invalid-path'' (''Invalid path for chown: \"'' @ path
             @ ''\". Path must be a non-empty string with no shell metacharacters.'') m
      else if \<not> validateOwner owner
      then fails ''invalid-owner'' (''Invalid chown owner: \"'' @ owner
             @ ''\". Owner must be one of: \"user\", \"user:group\", \"user:\", or \":group\" ''
             @ ''with POSIX-portable identifiers or numeric uid/gid.'') m
      else run_proc ''chown'' (recursive_flag recursive @ [owner, path]) None m)"

section \<open>crontab\<close>

definition POSIX_USERNAME :: rx where
  "POSIX_USERNAME = anchored (RSeq (RClass (\<lambda>c. is_lower c \<or> c = CHR ''_''))
     (RStar (RClass (\<lambda>c. lower_digit c \<or> c = CHR ''_'' \<or> c = CHR ''-''))))"

definition validateUser :: "string \<Rightarrow> bool" where
  "validateUser user \<longleftrightarrow>
     clean_text_arg user \<and> length (js_trim user) \<le> 32 \<and> rx_test POSIX_USERNAME (js_trim user)"

definition user_args :: "string option \<Rightarrow> string list" where
  "user_args user = (case user of Some u \<Rightarrow> [''-u'', u] | None \<Rightarrow> [])"

definition bad_user :: "string option \<Rightarrow> bool" where
  "bad_user user = (case user of Some u \<Rightarrow> \<not> validateUser u | None \<Rightarrow> False)"

definition invalid_user :: "string option \<Rightarrow> string \<Rightarrow> exec_result tool" where
  "invalid_user user hint =
     fails ''invalid-user'' (''Invalid crontab user: \"'' @ (case user of Some u \<Rightarrow> u | None \<Rightarrow> ''undefined'') @ ''\".'' @ hint)"

definition crontabInstallFromFile :: "string \<Rightarrow> bool \<Rightarrow> string option \<Rightarrow> exec_result tool" where
  "crontabInstallFromFile file_path replace_confirm user m =
     (if \<not> replace_confirm
      then fails ''replace-confirm-required'' (''crontab_install_from_file requires params.replace_confirm === true. ''
             @ ''This is a structural barrier acknowledging that the operation replaces the user'' @ [CHR 0x27]
             @ ''s entire crontab.'') m
      else if \<not> clean_text_arg file_path then fails ''invalid-file-path'' (''Invalid file_path: \"'' @ file_path @ ''\".'') m
      else if bad_user user then invalid_user user '''' m
      else run_proc ''crontab'' (user_args user @ [file_path]) None m)"

definition crontabList :: "string option \<Rightarrow> exec_result tool" where
  "crontabList user m =
     (if bad_user user then invalid_user user '' User must be a POSIX-portable name.'' m
      else run_proc ''crontab'' (''-l'' # user_args user) None m)"

definition crontabRemove :: "string option \<Rightarrow> exec_result tool" where
  "crontabRemove user m =
     (if bad_user user then invalid_user user '''' m
      else run_proc ''crontab'' (''-r'' # user_args user) None m)"

section \<open>kill and pkill\<close>

definition KILL_SIGNALS :: "string list" where
  "KILL_SIGNALS = [''TERM'', ''KILL'', ''HUP'', ''INT'', ''USR1'', ''USR2'']"

definition MAX_SAFE_INTEGER :: int where
  "MAX_SAFE_INTEGER = 9007199254740991"

definition validatePid :: "int \<Rightarrow> bool" where
  "validatePid pid \<longleftrightarrow> 0 \<le> pid \<and> pid \<le> MAX_SAFE_INTEGER"

definition signal_of :: "string option \<Rightarrow> string" where
  "signal_of signal = (case signal of Some s \<Rightarrow> s | None \<Rightarrow> ''TERM'')"

definition invalid_signal :: "string \<Rightarrow> exec_result tool" where
  "invalid_signal signal =
     fails ''invalid-signal'' (''Invalid signal: \"'' @ signal @ ''\". Signal must be one of: ''
       @ join '', '' KILL_SIGNALS @ ''.'')"

definition killProcess :: "int \<Rightarrow> string option \<Rightarrow> exec_result tool" where
  "killProcess pid signal m =
     (let s = signal_of signal
      in if \<not> validatePid pid
         then fails ''invalid-pid'' (''Invalid pid: '' @ int_str pid @ ''. Pid must be a non-negative safe integer.'') m
         else if s \<notin> set KILL_SIGNALS then invalid_signal s m
         else run_proc ''kill'' [''-'' @ s, int_str pid] None m)"

definition MAX_PATTERN_CHARS :: nat where
  "MAX_PATTERN_CHARS = 256"

definition PKILL_PATTERN :: rx where
  "PKILL_PATTERN = anchored (rx_plus (RClass (\<lambda>c. alnum c \<or> c \<in> set ''._-/^$+*?()|[] '')))"

definition validatePkillPattern :: "string \<Rightarrow> bool" where
  "validatePkillPattern pattern \<longleftrightarrow>
     (let t = js_trim pattern in t \<noteq> '''' \<and> length t \<le> MAX_PATTERN_CHARS \<and> rx_test PKILL_PATTERN t)"

definition pkillPattern :: "string \<Rightarrow> string option \<Rightarrow> bool \<Rightarrow> exec_result tool" where
  "pkillPattern pattern signal full_match m =
     (let s = signal_of signal
      in if \<not> validatePkillPattern pattern
         then fails ''invalid-pattern'' (''Invalid pkill pattern: \"'' @ pattern
                @ ''\". Pattern must be a non-empty string <=256 chars containing only ''
                @ ''letters, digits, and a curated set of regex metacharacters.'') m
         else if s \<notin> set KILL_SIGNALS then invalid_signal s m
         else run_proc ''pkill'' ([''-'' @ s] @ (if full_match then [''-f''] else []) @ [pattern]) None m)"

section \<open>reboot, shutdown and systemctl\<close>

definition reboot :: "bool \<Rightarrow> exec_result tool" where
  "reboot confirm m =
     (if \<not> confirm
      then fails ''confirm-required'' (''reboot requires params.confirm === true. ''
             @ ''This is a structural barrier against accidental host reboots.'') m
      else run_proc ''reboot'' [] None m)"

definition SHUTDOWN_MODES :: "string list" where
  "SHUTDOWN_MODES = [''poweroff'', ''reboot'', ''cancel'']"

definition SCHEDULE_PATTERN :: rx where
  "SCHEDULE_PATTERN = rx_alt [anchored (rx_lit ''now''),
     anchored (RSeq (rx_chr (CHR ''+'')) (rx_range 1 4 (RClass is_digit))),
     anchored (rx_seq [RAlt (RSeq (rx_opt (RClass (\<lambda>c. c \<in> set ''01''))) (RClass is_digit))
         (RSeq (rx_chr (CHR ''2'')) (RClass (\<lambda>c. c \<in> set ''0123''))),
       rx_chr (CHR '':''), RClass (\<lambda>c. c \<in> set ''012345''), RClass is_digit])]"

definition validateTime :: "string \<Rightarrow> bool" where
  "validateTime time \<longleftrightarrow> (let t = js_trim time in t \<noteq> '''' \<and> rx_test SCHEDULE_PATTERN t)"

definition shutdown_host :: "string \<Rightarrow> string option \<Rightarrow> exec_result tool" where
  "shutdown_host mode time m =
     (if mode \<notin> set SHUTDOWN_MODES
      then fails ''invalid-mode'' (''Invalid shutdown mode: \"'' @ mode @ ''\". Mode must be one of: ''
             @ join '', '' SHUTDOWN_MODES @ ''.'') m
      else if mode = ''cancel''
      then (if time \<noteq> None
            then fails ''time-not-allowed'' ''shutdown mode \"cancel\" does not accept a time argument.'' m
            else run_proc ''shutdown'' [''-c''] None m)
      else let effectiveTime = (case time of Some t \<Rightarrow> t | None \<Rightarrow> ''now'')
           in if \<not> validateTime effectiveTime
              then fails ''invalid-time'' (''Invalid shutdown time: \"'' @ (case time of Some t \<Rightarrow> t | None \<Rightarrow> ''undefined'')
                     @ ''\". Time must be one of: \"now\", \"+<minutes>\", or \"HH:MM\" (24-hour).'') m
              else run_proc ''shutdown'' [if mode = ''poweroff'' then ''-P'' else ''-r'', effectiveTime] None m)"

definition SYSTEMCTL_ACTIONS :: "string list" where
  "SYSTEMCTL_ACTIONS = [''start'', ''stop'', ''restart'', ''reload'', ''enable'', ''disable'', ''mask'', ''unmask'',
     ''status'', ''is-active'', ''is-enabled'']"

definition SYSTEMD_UNIT_NAME :: rx where
  "SYSTEMD_UNIT_NAME = anchored (rx_plus (RClass (\<lambda>c. alnum c \<or> c \<in> set ''._@-'')))"

definition MAX_UNIT_LENGTH :: nat where
  "MAX_UNIT_LENGTH = 256"

definition validateUnitName :: "string \<Rightarrow> bool" where
  "validateUnitName unit \<longleftrightarrow>
     (let t = js_trim unit in t \<noteq> '''' \<and> length t \<le> MAX_UNIT_LENGTH \<and> rx_test SYSTEMD_UNIT_NAME t)"

definition systemctlUnitAction :: "string \<Rightarrow> string \<Rightarrow> exec_result tool" where
  "systemctlUnitAction unit action m =
     (if action \<notin> set SYSTEMCTL_ACTIONS
      then fails ''invalid-action'' (''Invalid systemctl action: \"'' @ action @ ''\". Action must be one of: ''
             @ join '', '' SYSTEMCTL_ACTIONS @ ''.'') m
      else if \<not> validateUnitName unit
      then fails ''invalid-unit'' (''Invalid systemd unit name: \"'' @ unit
             @ ''\". Unit names must contain only letters, digits, and the characters \".\", \"_\", \"@\", \"-\".'') m
      else run_proc ''systemctl'' [action, unit] None m)"

section \<open>docker\<close>

definition DOCKER_IMAGE_REF :: rx where
  "DOCKER_IMAGE_REF = anchored (rx_seq [RClass alnum, RStar (RClass (\<lambda>c. alnum c \<or> c \<in> set ''._-/:'')),
     rx_opt (RSeq (rx_lit ''@sha256:'') (rx_plus (RClass (\<lambda>c. c \<in> set ''0123456789abcdefABCDEF''))))])"

definition validateImageRef :: "string \<Rightarrow> bool" where
  "validateImageRef ref \<longleftrightarrow> clean_text_arg ref \<and> rx_test DOCKER_IMAGE_REF (js_trim ref)"

definition validateVolumeSpec :: "string \<Rightarrow> bool" where
  "validateVolumeSpec spec \<longleftrightarrow>
     clean_text_arg spec
     \<and> (let t = js_trim spec; i = length (takeWhile (\<lambda>c. c \<noteq> CHR '':'') t)
        in i < length t \<and> i \<noteq> 0 \<and> i \<noteq> length t - 1)"

definition ENV_KEY_RE :: rx where
  "ENV_KEY_RE = anchored (RSeq (RClass (\<lambda>c. is_lower c \<or> is_upper c \<or> c = CHR ''_''))
     (RStar (RClass (\<lambda>c. alnum c \<or> c = CHR ''_''))))"

definition validateEnvSpec :: "string \<Rightarrow> bool" where
  "validateEnvSpec spec \<longleftrightarrow>
     (let t = js_trim spec; key = takeWhile (\<lambda>c. c \<noteq> CHR ''='') t; value = drop (length key + 1) t
      in t \<noteq> '''' \<and> rx_test ENV_KEY_RE key \<and> \<not> rx_test SHELL_METACHARACTERS value)"

definition PORT_SPEC_RE :: rx where
  "PORT_SPEC_RE = anchored (rx_plus (RClass (\<lambda>c. alnum c \<or> c \<in> set ''.:/_-'')))"

definition validatePortSpec :: "string \<Rightarrow> bool" where
  "validatePortSpec spec \<longleftrightarrow> clean_text_arg spec \<and> rx_test PORT_SPEC_RE (js_trim spec)"

record docker_params =
  dp_image :: string
  dp_command :: "string list"
  dp_working_dir :: "string option"
  dp_volumes :: "string list"
  dp_env :: "string list"
  dp_ports :: "string list"
  dp_network :: "string option"
  dp_rm :: bool
  dp_user :: "string option"
  dp_entrypoint :: "string option"
  dp_platform :: "string option"

definition with_option :: "string \<Rightarrow> string option \<Rightarrow> string list" where
  "with_option opt v = (case v of Some s \<Rightarrow> [opt, s] | None \<Rightarrow> [])"

definition each_option :: "string \<Rightarrow> string list \<Rightarrow> string list" where
  "each_option opt vs = concat (map (\<lambda>v. [opt, v]) vs)"

definition docker_options :: "docker_params \<Rightarrow> string list" where
  "docker_options ps =
     (if dp_rm ps then [''--rm''] else []) @ with_option ''--platform'' (dp_platform ps)
     @ with_option ''--network'' (dp_network ps) @ with_option ''--user'' (dp_user ps)
     @ with_option ''--entrypoint'' (dp_entrypoint ps) @ each_option ''-v'' (dp_volumes ps)
     @ each_option ''-e'' (dp_env ps) @ each_option ''-p'' (dp_ports ps)"

definition dockerRun :: "docker_params \<Rightarrow> string option \<Rightarrow> exec_result tool" where
  "dockerRun ps cwd m =
     (if \<not> validateImageRef (dp_image ps)
      then fails ''invalid-image-ref'' (''Invalid Docker image reference: \"'' @ dp_image ps
             @ ''\". Image references must be valid Docker names (e.g. \"ubuntu:22.04\", ''
             @ ''\"registry.example.com/my/image:tag\").'') m
      else case List.find (\<lambda>v. \<not> validateVolumeSpec v) (dp_volumes ps) of
        Some v \<Rightarrow> fails ''invalid-volume-spec'' (''Invalid volume mount specification: \"'' @ v
             @ ''\". Volume specs must be in the form \"hostPath:containerPath[:options]\".'') m
      | None \<Rightarrow>
      (case List.find (\<lambda>e. \<not> validateEnvSpec e) (dp_env ps) of
        Some e \<Rightarrow> fails ''invalid-env-spec'' (''Invalid environment variable specification: \"'' @ e
             @ ''\". Env specs must be in the form \"KEY=value\" or \"KEY\" (valid identifier characters).'') m
      | None \<Rightarrow>
      (case List.find (\<lambda>p. \<not> validatePortSpec p) (dp_ports ps) of
        Some p \<Rightarrow> fails ''invalid-port-spec'' (''Invalid port mapping specification: \"'' @ p
             @ ''\". Port specs must be in the form \"hostPort:containerPort\" or \"containerPort\".'') m
      | None \<Rightarrow> run_proc ''docker'' ([''run''] @ docker_options ps @ [dp_image ps] @ dp_command ps)
                  (Some (working_cwd cwd (dp_working_dir ps) m)) m)))"

definition DOCKER_REGISTRY :: rx where
  "DOCKER_REGISTRY = anchored (rx_seq [RClass alnum, RStar (RClass (\<lambda>c. alnum c \<or> c \<in> set ''.-'')),
     rx_opt (RSeq (rx_chr (CHR '':'')) (rx_range 1 5 (RClass is_digit))),
     rx_opt (RSeq (rx_chr (CHR ''/'')) (rx_plus (RClass (\<lambda>c. alnum c \<or> c \<in> set ''._-/''))))])"

definition validateRegistry :: "string \<Rightarrow> bool" where
  "validateRegistry r \<longleftrightarrow> clean_text_arg r \<and> rx_test DOCKER_REGISTRY (js_trim r)"

definition hasExplicitTag :: "string \<Rightarrow> bool" where
  "hasExplicitTag img \<longleftrightarrow> CHR '':'' \<in> set (last (split_on (CHR ''/'') img))"

definition effective_image :: "string \<Rightarrow> string option \<Rightarrow> string" where
  "effective_image img registry =
     (case registry of
        Some r \<Rightarrow> if starts_with img (r @ ''/'') then img else r @ ''/'' @ img
      | None \<Rightarrow> img)"

definition dockerPush :: "string \<Rightarrow> string option \<Rightarrow> bool \<Rightarrow> exec_result tool" where
  "dockerPush img registry all_tags m =
     (if \<not> validateImageRef img
      then fails ''invalid-image-ref'' (''Invalid Docker image reference: \"'' @ img @ ''\".'') m
      else if (case registry of Some r \<Rightarrow> \<not> validateRegistry r | None \<Rightarrow> False)
      then fails ''invalid-registry'' (''Invalid Docker registry: \"''
             @ (case registry of Some r \<Rightarrow> r | None \<Rightarrow> ''undefined'') @ ''\".'') m
      else if all_tags \<and> hasExplicitTag img
      then fails ''all-tags-with-tag'' (''--all-tags cannot be combined with a tagged image reference: \"'' @ img @ ''\".'') m
      else run_proc ''docker'' ([''push''] @ (if all_tags then [''--all-tags''] else [])
             @ [effective_image img registry]) None m)"

section \<open>kubectl\<close>

definition dns_label :: rx where
  "dns_label = RSeq (RClass lower_digit)
     (rx_opt (RSeq (rx_upto 61 (RClass (\<lambda>c. lower_digit c \<or> c = CHR ''-''))) (RClass lower_digit)))"

definition DNS_1123_LABEL :: rx where
  "DNS_1123_LABEL = anchored dns_label"

definition DNS_1123_SUBDOMAIN :: rx where
  "DNS_1123_SUBDOMAIN = anchored (RSeq dns_label (RStar (RSeq (rx_chr (CHR ''.'')) dns_label)))"

definition RESOURCE_TYPE :: rx where
  "RESOURCE_TYPE = anchored (RSeq (RClass is_lower) (RStar (RClass (\<lambda>c. lower_digit c \<or> c \<in> set ''.-/''))))"

definition validateNamespace :: "string \<Rightarrow> bool" where
  "validateNamespace s \<longleftrightarrow> clean_text_arg s \<and> length (js_trim s) \<le> 63 \<and> rx_test DNS_1123_LABEL (js_trim s)"

definition validateResourceName :: "string \<Rightarrow> bool" where
  "validateResourceName s \<longleftrightarrow> clean_text_arg s \<and> length (js_trim s) \<le> 253 \<and> rx_test DNS_1123_SUBDOMAIN (js_trim s)"

definition validateResourceType :: "string \<Rightarrow> bool" where
  "validateResourceType s \<longleftrightarrow> clean_text_arg s \<and> length (js_trim s) \<le> 128 \<and> rx_test RESOURCE_TYPE (js_trim s)"

definition bad_namespace :: "string option \<Rightarrow> bool" where
  "bad_namespace ns = (case ns of Some n \<Rightarrow> \<not> validateNamespace n | None \<Rightarrow> False)"

definition invalid_namespace :: "string option \<Rightarrow> exec_result tool" where
  "invalid_namespace ns =
     fails ''invalid-namespace'' (''Invalid kubectl namespace: \"'' @ (case ns of Some n \<Rightarrow> n | None \<Rightarrow> ''undefined'') @ ''\".'')"

definition invalid_resource :: "string \<Rightarrow> exec_result tool" where
  "invalid_resource r = fails ''invalid-resource'' (''Invalid kubectl resource type: \"'' @ r @ ''\".'')"

definition invalid_name :: "string \<Rightarrow> exec_result tool" where
  "invalid_name n = fails ''invalid-name'' (''Invalid kubectl resource name: \"'' @ n @ ''\".'')"

definition kubectlApply :: "string \<Rightarrow> string option \<Rightarrow> bool \<Rightarrow> exec_result tool" where
  "kubectlApply manifest_path ns dry_run m =
     (if \<not> clean_text_arg manifest_path
      then fails ''invalid-manifest-path'' (''Invalid kubectl apply manifest path: \"'' @ manifest_path @ ''\".'') m
      else if bad_namespace ns then invalid_namespace ns m
      else run_proc ''kubectl'' ([''apply'', ''-f'', manifest_path] @ with_option ''-n'' ns
             @ (if dry_run then [''--dry-run=client''] else [])) None m)"

definition kubectlDelete :: "string \<Rightarrow> string \<Rightarrow> string option \<Rightarrow> int option \<Rightarrow> exec_result tool" where
  "kubectlDelete resource name ns grace_period m =
     (if \<not> validateResourceType resource then invalid_resource resource m
      else if \<not> validateResourceName name then invalid_name name m
      else if bad_namespace ns then invalid_namespace ns m
      else if (case grace_period of Some g \<Rightarrow> g < 0 \<or> g > MAX_SAFE_INTEGER | None \<Rightarrow> False)
      then fails ''invalid-grace-period'' (''Invalid grace period: '' @ int_str (the grace_period)
             @ ''. grace_period must be a non-negative safe integer.'') m
      else run_proc ''kubectl'' ([''delete'', resource, name] @ with_option ''-n'' ns
             @ (case grace_period of Some g \<Rightarrow> [''--grace-period='' @ int_str g] | None \<Rightarrow> [])) None m)"

definition KUBECTL_GET_OUTPUTS :: "string list" where
  "KUBECTL_GET_OUTPUTS = [''yaml'', ''json'', ''wide'', ''name'']"

definition kubectlGet :: "string \<Rightarrow> string option \<Rightarrow> string option \<Rightarrow> string option \<Rightarrow> exec_result tool" where
  "kubectlGet resource name ns output m =
     (if \<not> validateResourceType resource then invalid_resource resource m
      else if (case name of Some n \<Rightarrow> \<not> validateResourceName n | None \<Rightarrow> False) then invalid_name (the name) m
      else if bad_namespace ns then invalid_namespace ns m
      else if (case output of Some f \<Rightarrow> f \<notin> set KUBECTL_GET_OUTPUTS | None \<Rightarrow> False)
      then fails ''invalid-output'' (''Invalid kubectl output format: \"'' @ the output @ ''\". Output must be one of: ''
             @ join '', '' KUBECTL_GET_OUTPUTS @ ''.'') m
      else run_proc ''kubectl'' ([''get'', resource] @ (case name of Some n \<Rightarrow> [n] | None \<Rightarrow> [])
             @ with_option ''-n'' ns @ with_option ''-o'' output) None m)"

definition ROLLOUT_ACTIONS :: "string list" where
  "ROLLOUT_ACTIONS = [''status'', ''restart'', ''undo'']"

definition kubectlRollout :: "string \<Rightarrow> string \<Rightarrow> string \<Rightarrow> string option \<Rightarrow> exec_result tool" where
  "kubectlRollout action resource name ns m =
     (if action \<notin> set ROLLOUT_ACTIONS
      then fails ''invalid-action'' (''Invalid kubectl rollout action: \"'' @ action @ ''\". Action must be one of: ''
             @ join '', '' ROLLOUT_ACTIONS @ ''.'') m
      else if \<not> validateResourceType resource then invalid_resource resource m
      else if \<not> validateResourceName name then invalid_name name m
      else if bad_namespace ns then invalid_namespace ns m
      else run_proc ''kubectl'' ([''rollout'', action, resource @ ''/'' @ name] @ with_option ''-n'' ns) None m)"

end
