(* ===== verification/PackageTools.thy ===== *)
theory PackageTools
  imports HostTools Json
begin

text \<open>
  The tools of \<open>src/tools/\<close> that install packages and run scripts: npm_install, npm_run, pip_install and
  make_run. \<open>JSON.parse\<close> is a parameter (\<open>None\<close> when it throws).
\<close>

text \<open>The part before the first character of a set and the rest.\<close>

definition before_char :: "(char \<Rightarrow> bool) \<Rightarrow> string \<Rightarrow> string" where
  "before_char P s = takeWhile (\<lambda>c. \<not> P c) s"

definition from_char :: "(char \<Rightarrow> bool) \<Rightarrow> string \<Rightarrow> string" where
  "from_char P s = dropWhile (\<lambda>c. \<not> P c) s"

section \<open>npm install\<close>

definition name_body :: "(char \<Rightarrow> bool) \<Rightarrow> rx" where
  "name_body P = RSeq (RClass alnum) (rx_opt (RSeq (RStar (RClass P)) (RClass alnum)))"

definition name_char_npm :: "char \<Rightarrow> bool" where
  "name_char_npm c \<longleftrightarrow> alnum c \<or> c \<in> set ''._-''"

definition NPM_BARE_NAME :: rx where
  "NPM_BARE_NAME = anchored (name_body name_char_npm)"

definition NPM_SCOPED_NAME :: rx where
  "NPM_SCOPED_NAME = anchored (rx_seq [rx_chr (CHR ''@''), name_body name_char_npm, rx_chr (CHR ''/''),
     name_body name_char_npm])"

definition split_at_sign :: "string \<Rightarrow> string \<times> string" where
  "split_at_sign s = (before_char (\<lambda>c. c = CHR ''@'') s, drop 1 (from_char (\<lambda>c. c = CHR ''@'') s))"

definition npm_parts :: "string \<Rightarrow> (string \<times> string) option" where
  "npm_parts t =
     (if starts_with t ''@''
      then (if CHR ''/'' \<notin> set t then None
            else let scope = before_char (\<lambda>c. c = CHR ''/'') t @ ''/'';
                     (name, version) = split_at_sign (drop (length scope) t)
                 in Some (scope @ name, version))
      else Some (split_at_sign t))"

definition validateNpmPackageSpec :: "string \<Rightarrow> bool" where
  "validateNpmPackageSpec spec \<longleftrightarrow>
     (let t = js_trim spec
      in t \<noteq> ''''
         \<and> (case npm_parts t of
              None \<Rightarrow> False
            | Some (name, version) \<Rightarrow>
                rx_test (if starts_with t ''@'' then NPM_SCOPED_NAME else NPM_BARE_NAME) name
                \<and> \<not> (version \<noteq> '''' \<and> rx_test SHELL_METACHARACTERS version)))"

definition npmInstall ::
  "string list \<Rightarrow> string option \<Rightarrow> string list \<Rightarrow> string option \<Rightarrow> exec_result tool" where
  "npmInstall packages working_dir flags cwd m =
     (let dir = working_cwd cwd working_dir m; packageJsonPath = path_join dir ''package.json''
      in if packages = [] \<and> \<not> existsSync packageJsonPath m
         then fails ''package-json-not-found'' (''package.json not found: '' @ packageJsonPath
                @ ''. Specify package names or run npm install from a directory with package.json.'') m
         else case List.find (\<lambda>s. \<not> validateNpmPackageSpec s) packages of
           Some s \<Rightarrow> fails ''invalid-package-spec'' (''Invalid npm package specification: \"'' @ s
                @ ''\". Package names must follow npm naming rules (lowercase letters, digits, hyphens, underscores, dots; ''
                @ ''scoped packages use @scope/name format).'') m
         | None \<Rightarrow> run_proc ''npm'' ([''install''] @ flags @ packages) (Some dir) m)"

section \<open>npm run\<close>

definition object_keys :: "json \<Rightarrow> string list" where
  "object_keys v = (case v of JObj kvs \<Rightarrow> map fst (own_order kvs) | JArr vs \<Rightarrow> map nat_str [0..<length vs] | _ \<Rightarrow> [])"

definition parsePackageJsonScripts :: "(string \<Rightarrow> json option) \<Rightarrow> string \<Rightarrow> string list" where
  "parsePackageJsonScripts json_parse content =
     (case json_parse content of
        Some (JObj kvs) \<Rightarrow> (case map_of kvs ''scripts'' of Some v \<Rightarrow> object_keys v | None \<Rightarrow> [])
      | _ \<Rightarrow> [])"

definition known_names :: "string list \<Rightarrow> string" where
  "known_names names = or_text (join '', '' names) ''(none)''"

definition npmRun ::
  "(string \<Rightarrow> json option) \<Rightarrow> string \<Rightarrow> string option \<Rightarrow> string list \<Rightarrow> bool \<Rightarrow> string option \<Rightarrow> exec_result tool" where
  "npmRun json_parse script working_dir args silent cwd m =
     (let dir = working_cwd cwd working_dir m; packageJsonPath = path_join dir ''package.json'';
          knownScripts = parsePackageJsonScripts json_parse (readFileSync packageJsonPath m)
      in if \<not> existsSync packageJsonPath m
         then fails ''package-json-not-found'' (''package.json not found: '' @ packageJsonPath) m
         else if script \<notin> set knownScripts
         then fails ''script-not-found'' (''Script \"'' @ script @ ''\" not found in '' @ packageJsonPath
                @ ''. Known scripts: '' @ known_names knownScripts) m
         else run_proc ''npm'' ([''run''] @ (if silent then [''--silent''] else []) @ [script]
                @ (if args \<noteq> [] then ''--'' # args else [])) (Some dir) m)"

section \<open>pip install\<close>

definition PYPI_NAME :: rx where
  "PYPI_NAME = anchored (name_body name_char_npm)"

definition EXTRAS_CLAUSE :: rx where
  "EXTRAS_CLAUSE = anchored (rx_seq [rx_chr (CHR ''[''),
     rx_plus (RClass (\<lambda>c. alnum c \<or> c \<in> set ''_,-'' \<or> js_space c)), rx_chr (CHR '']'')])"

definition VERSION_CLAUSE :: rx where
  "VERSION_CLAUSE = anchored (RSeq
     (rx_alt (map rx_lit [''==='', ''~='', ''=='', ''!='', ''>='', ''<='', ''>'', ''<'']))
     (rx_plus (RClass (\<lambda>c. alnum c \<or> c \<in> set ''._*+!''))))"

definition operator_char :: "char \<Rightarrow> bool" where
  "operator_char c \<longleftrightarrow> c \<in> set ''=!<>~''"

definition validatePackageSpec :: "string \<Rightarrow> bool" where
  "validatePackageSpec spec \<longleftrightarrow>
     (let t = js_trim spec; namePart = before_char operator_char t; versionPart = from_char operator_char t;
          coreName = before_char (\<lambda>c. c = CHR ''['') namePart; extrasPart = from_char (\<lambda>c. c = CHR ''['') namePart
      in t \<noteq> '''' \<and> rx_test PYPI_NAME coreName
         \<and> (extrasPart \<noteq> '''' \<longrightarrow> rx_test EXTRAS_CLAUSE extrasPart)
         \<and> (versionPart \<noteq> '''' \<longrightarrow>
              list_all (\<lambda>c. rx_test VERSION_CLAUSE (js_trim c)) (split_on (CHR '','') versionPart)))"

record pip_params =
  pp_packages :: "string list"
  pp_requirements :: "string option"
  pp_working_dir :: "string option"
  pp_upgrade :: bool
  pp_user :: bool
  pp_index_url :: "string option"
  pp_extra_index_url :: "string option"

definition requirements_path :: "pip_params \<Rightarrow> string \<Rightarrow> machine \<Rightarrow> string option" where
  "requirements_path ps dir m =
     (case pp_requirements ps of Some r \<Rightarrow> if js_trim r \<noteq> '''' then Some (against dir r m) else None | None \<Rightarrow> None)"

definition pip_options :: "pip_params \<Rightarrow> string option \<Rightarrow> string list" where
  "pip_options ps req =
     (if pp_upgrade ps then [''--upgrade''] else []) @ (if pp_user ps then [''--user''] else [])
     @ with_option ''--index-url'' (pp_index_url ps) @ with_option ''--extra-index-url'' (pp_extra_index_url ps)
     @ with_option ''-r'' req"

definition pipInstall :: "pip_params \<Rightarrow> string option \<Rightarrow> exec_result tool" where
  "pipInstall ps cwd m =
     (let dir = working_cwd cwd (pp_working_dir ps) m; req = requirements_path ps dir m
      in if pp_packages ps = [] \<and> req = None
         then fails ''no-packages-specified'' ''At least one of \"packages\" or \"requirements\" must be specified.'' m
         else case List.find (\<lambda>s. \<not> validatePackageSpec s) (pp_packages ps) of
           Some s \<Rightarrow> fails ''invalid-package-spec'' (''Invalid package specification: \"'' @ s
                @ ''\". Package names must follow PyPI naming rules (PEP 508).'') m
         | None \<Rightarrow>
             if (case req of Some p \<Rightarrow> \<not> existsSync p m | None \<Rightarrow> False)
             then fails ''requirements-file-not-found'' (''Requirements file not found: '' @ the req) m
             else run_proc ''pip'' ([''install''] @ pip_options ps req @ pp_packages ps) (Some dir) m)"

section \<open>make\<close>

definition resolveMakefilePath :: "string \<Rightarrow> string option \<Rightarrow> machine \<Rightarrow> string" where
  "resolveMakefilePath dir makefile m =
     (case makefile of
        Some p \<Rightarrow> against dir p m
      | None \<Rightarrow>
          (case List.find (\<lambda>p. existsSync p m) (map (path_join dir) [''GNUmakefile'', ''makefile'', ''Makefile'']) of
             Some p \<Rightarrow> p
           | None \<Rightarrow> path_join dir ''Makefile''))"

text \<open>
  The matches of \<open>TARGET_LINE\<close>, which is tried at the start of every line: a target character, then target
  characters and spaces up to a colon that is not followed by an equals sign. As no character of the run is
  a colon, a match ends at the end of the longest run.
\<close>

definition target_char :: "char \<Rightarrow> bool" where
  "target_char c \<longleftrightarrow> alnum c \<or> c \<in> set ''_.-/''"

definition run_char :: "char \<Rightarrow> bool" where
  "run_char c \<longleftrightarrow> target_char c \<or> js_space c"

definition target_match :: "bool \<Rightarrow> string \<Rightarrow> (string \<times> string) option" where
  "target_match atStart s =
     (case s of
        [] \<Rightarrow> None
      | c # _ \<Rightarrow>
          if \<not> (atStart \<and> target_char c) then None
          else (case dropWhile run_char s of
                  d # rest \<Rightarrow> if d = CHR '':'' \<and> \<not> starts_with rest ''='' then Some (takeWhile run_char s, rest) else None
                | [] \<Rightarrow> None))"

lemma target_match_rest: "target_match b s = Some (run, rest) \<Longrightarrow> \<exists>d. dropWhile run_char s = d # rest"
  by (cases s; cases "dropWhile run_char s") (simp_all only: target_match_def list.case simp_thms option.simps prod.inject list.inject split: if_splits, blast?)

lemma target_match_shorter:
  assumes "target_match b s = Some (run, rest)"
  shows "length rest < length s"
proof -
  obtain d where "dropWhile run_char s = d # rest" using target_match_rest [OF assms] by blast
  then show ?thesis using length_dropWhile_le [of run_char s] by simp
qed

function target_lines :: "bool \<Rightarrow> string \<Rightarrow> string list" where
  "target_lines atStart s =
     (case s of
        [] \<Rightarrow> []
      | c # cs \<Rightarrow>
          (case target_match atStart s of
             Some (run, rest) \<Rightarrow> js_trim run # target_lines False rest
           | None \<Rightarrow> target_lines (c = CHR 0x0A \<or> c = CHR 0x0D) cs))"
  by pat_completeness auto
termination
  by (relation "measure (length \<circ> snd)") (auto dest: target_match_shorter)

fun js_words :: "string \<Rightarrow> string list" where
  "js_words [] = [[]]"
| "js_words (c # cs) =
     (if js_space c then [] # js_words cs
      else (case js_words cs of [] \<Rightarrow> [[c]] | w # ws \<Rightarrow> (c # w) # ws))"

definition add_target :: "string \<Rightarrow> string list \<Rightarrow> string list" where
  "add_target name targets =
     (if name \<noteq> '''' \<and> \<not> starts_with name ''.'' \<and> CHR ''%'' \<notin> set name \<and> name \<notin> set targets then targets @ [name]
      else targets)"

definition parseMakefileTargets :: "string \<Rightarrow> string list" where
  "parseMakefileTargets content = fold add_target (concat (map js_words (target_lines True content))) []"

record make_params =
  mp_target :: "string option"
  mp_working_dir :: "string option"
  mp_makefile :: "string option"
  mp_jobs :: "int option"
  mp_validate_target :: bool

definition make_args :: "make_params \<Rightarrow> string \<Rightarrow> string list" where
  "make_args ps makefilePath =
     (if mp_makefile ps \<noteq> None then [''-f'', makefilePath] else [])
     @ (case mp_jobs ps of Some n \<Rightarrow> [if n = 0 then ''-j'' else ''-j'' @ int_str n] | None \<Rightarrow> [])
     @ (case mp_target ps of Some t \<Rightarrow> if t \<noteq> '''' then [t] else [] | None \<Rightarrow> [])"

definition makeRun :: "make_params \<Rightarrow> string option \<Rightarrow> exec_result tool" where
  "makeRun ps cwd m =
     (let dir = working_cwd cwd (mp_working_dir ps) m; makefilePath = resolveMakefilePath dir (mp_makefile ps) m;
          target = (case mp_target ps of Some t \<Rightarrow> t | None \<Rightarrow> '''');
          checked = mp_validate_target ps \<and> target \<noteq> '''';
          knownTargets = parseMakefileTargets (readFileSync makefilePath m)
      in if checked \<and> \<not> existsSync makefilePath m
         then fails ''makefile-not-found'' (''Makefile not found: '' @ makefilePath) m
         else if checked \<and> target \<notin> set knownTargets
         then fails ''target-not-found'' (''Target \"'' @ target @ ''\" not found in '' @ makefilePath
                @ ''. Known targets: '' @ known_names knownTargets) m
         else run_proc ''make'' (make_args ps makefilePath) (Some dir) m)"

end
