(* ===== verification/HostToolsProps.thy ===== *)
theory HostToolsProps
  imports PackageTools GitToolsProps
begin

text \<open>
  What the tools that start programs of the host let through: the checked names are never read as options,
  and docker takes nothing behind the image for itself. Where a check allows a leading dash, the program
  reads an option the tool does not mean.
\<close>

section \<open>Checked names\<close>

lemma trim_keeps_first: "\<not> js_space c \<Longrightarrow> \<exists>t. js_trim (c # s) = c # t"
proof -
  assume c: "\<not> js_space c"
  then have "js_trim (c # s) = rev (dropWhile js_space (rev s @ [c]))" by (simp add: js_trim_def)
  also have "\<dots> = c # rev (dropWhile js_space (rev s))"
    using c by (simp add: dropWhile_append3 [of js_space c "rev s" "[]"])
  finally show ?thesis by blast
qed

definition plain_start :: "(char \<Rightarrow> bool) \<Rightarrow> string \<Rightarrow> bool" where
  "plain_start P s \<longleftrightarrow> (case js_trim s of c # _ \<Rightarrow> P c | [] \<Rightarrow> False)"

lemma plain_start_not_dash: "plain_start P s \<Longrightarrow> \<not> P (CHR ''-'') \<Longrightarrow> \<not> starts_with s ''-''"
proof
  assume s: "plain_start P s" and P: "\<not> P (CHR ''-'')" and "starts_with s ''-''"
  then obtain w where "s = CHR ''-'' # w" by (cases s) (auto simp: starts_with_def)
  moreover have "\<not> js_space (CHR ''-'')" by (simp add: js_space_def)
  ultimately obtain t where "js_trim s = CHR ''-'' # t" using trim_keeps_first by blast
  with s P show False by (simp add: plain_start_def)
qed

lemma anchored_class_start: "rx_test (anchored (RSeq (RClass P) r)) (js_trim s) \<Longrightarrow> plain_start P s"
  by (auto simp: anchored_def rx_test_anchored rx_lang_class_seq plain_start_def split: list.split)

lemma not_alnum_dash: "\<not> alnum (CHR ''-'')" "\<not> lower_digit (CHR ''-'')" "\<not> is_lower (CHR ''-'')"
  "\<not> is_lower (CHR ''-'') \<and> CHR ''-'' \<noteq> CHR ''_''"
  by (simp_all add: alnum_def lower_digit_def is_lower_def is_upper_def is_digit_def)

lemma image_ref_plain: "validateImageRef s \<Longrightarrow> \<not> starts_with s ''-''"
  using plain_start_not_dash [of alnum s] anchored_class_start [of alnum _ s] not_alnum_dash(1)
  by (auto simp: validateImageRef_def DOCKER_IMAGE_REF_def)

lemma registry_plain: "validateRegistry s \<Longrightarrow> \<not> starts_with s ''-''"
  using plain_start_not_dash [of alnum s] anchored_class_start [of alnum _ s] not_alnum_dash(1)
  by (auto simp: validateRegistry_def DOCKER_REGISTRY_def)

lemma namespace_plain: "validateNamespace s \<Longrightarrow> \<not> starts_with s ''-''"
  using plain_start_not_dash [of lower_digit s] anchored_class_start [of lower_digit _ s] not_alnum_dash(2)
  by (auto simp: validateNamespace_def DNS_1123_LABEL_def dns_label_def)

lemma resource_type_plain: "validateResourceType s \<Longrightarrow> \<not> starts_with s ''-''"
  using plain_start_not_dash [of is_lower s] anchored_class_start [of is_lower _ s] not_alnum_dash(3)
  by (auto simp: validateResourceType_def RESOURCE_TYPE_def)

lemma resource_name_plain: "validateResourceName s \<Longrightarrow> \<not> starts_with s ''-''"
proof -
  assume "validateResourceName s"
  then have "rx_lang (RSeq dns_label (RStar (RSeq (rx_chr (CHR ''.'')) dns_label))) None (js_trim s) []"
    by (simp add: validateResourceName_def DNS_1123_SUBDOMAIN_def anchored_def rx_test_anchored)
  then obtain c w where "js_trim s = c # w" "lower_digit c"
    unfolding rx_lang_seqI dns_label_def rx_lang_class_seq by auto
  then have "plain_start lower_digit s" by (simp add: plain_start_def)
  then show ?thesis using plain_start_not_dash not_alnum_dash(2) by blast
qed

lemma username_plain: "validateUser s \<Longrightarrow> \<not> starts_with s ''-''"
  using plain_start_not_dash [of "\<lambda>c. is_lower c \<or> c = CHR ''_''" s]
    anchored_class_start [of "\<lambda>c. is_lower c \<or> c = CHR ''_''" _ s] not_alnum_dash(3)
  by (auto simp: validateUser_def POSIX_USERNAME_def)

text \<open>The part before a separator starts like the whole text.\<close>

lemma body_start:
  assumes "rx_test (anchored (name_body P)) (before_char Q t)"
  shows "\<exists>c w. t = c # w \<and> alnum c"
proof -
  from assms have "rx_lang (name_body P) None (before_char Q t) []" by (simp add: anchored_def rx_test_anchored)
  then obtain c w where "before_char Q t = c # w" "alnum c" by (auto simp: name_body_def rx_lang_class_seq)
  then show ?thesis by (cases t) (auto simp: before_char_def split: if_splits)
qed

lemma package_spec_plain: "validatePackageSpec s \<Longrightarrow> \<not> starts_with s ''-''"
proof -
  assume "validatePackageSpec s"
  then have "rx_test (anchored (name_body name_char_npm)) (before_char (\<lambda>c. c = CHR ''['') (before_char operator_char (js_trim s)))"
    by (simp add: validatePackageSpec_def PYPI_NAME_def Let_def)
  from body_start [OF this] obtain c w where "before_char operator_char (js_trim s) = c # w" "alnum c" by blast
  then have "plain_start alnum s" by (cases "js_trim s") (auto simp: plain_start_def before_char_def split: if_splits)
  then show ?thesis using plain_start_not_dash not_alnum_dash(1) by blast
qed

lemma npm_spec_plain: "validateNpmPackageSpec s \<Longrightarrow> \<not> starts_with s ''-''"
proof -
  assume valid: "validateNpmPackageSpec s"
  have "plain_start (\<lambda>c. alnum c \<or> c = CHR ''@'') s"
  proof (cases "starts_with (js_trim s) ''@''")
    case True
    then show ?thesis by (cases "js_trim s") (auto simp: plain_start_def starts_with_def)
  next
    case False
    with valid have "rx_test (anchored (name_body name_char_npm)) (before_char (\<lambda>c. c = CHR ''@'') (js_trim s))"
      by (simp add: validateNpmPackageSpec_def npm_parts_def split_at_sign_def NPM_BARE_NAME_def Let_def)
    from body_start [OF this] show ?thesis by (auto simp: plain_start_def)
  qed
  then show ?thesis using plain_start_not_dash [of "\<lambda>c. alnum c \<or> c = CHR ''@''" s] not_alnum_dash(1) by auto
qed

lemma starts_dash_append: "starts_with (a @ b) ''-'' \<longleftrightarrow> (if a = '''' then starts_with b ''-'' else starts_with a ''-'')"
  by (cases a) (simp_all add: starts_with_def)

section \<open>Options\<close>

lemma run_proc_started: "started (run_proc command args cwd) m = [proc command args cwd]"
  by (simp add: started_def run_proc_calls)

lemma fails_started: "started (fails code message) m = []"
  by (simp add: started_def fails_def)

lemma read_options_plain:
  "\<not> starts_with a ''-'' \<Longrightarrow> a \<notin> V \<Longrightarrow> read_options V (a # as) = read_options V as"
  by (cases as) (auto simp: starts_with_def)

lemma read_options_value: "a \<in> V \<Longrightarrow> a \<noteq> ''--'' \<Longrightarrow> read_options V (a # b # rest) = a # read_options V rest"
  by simp

lemma read_options_flag:
  "starts_with a ''-'' \<Longrightarrow> a \<noteq> ''--'' \<Longrightarrow> a \<notin> V \<Longrightarrow> read_options V (a # as) = a # read_options V as"
  by (cases as) simp_all

lemma read_plain_prefix:
  "list_all (\<lambda>a. \<not> starts_with a ''-'') as \<Longrightarrow> \<forall>v\<in>V. starts_with v ''-'' \<Longrightarrow>
     read_options V (as @ rest) = read_options V rest"
proof (induction as)
  case (Cons a as)
  then have "a \<notin> V" by auto
  with Cons show ?case by (simp add: read_options_plain)
qed simp

lemma read_options_all_plain:
  "list_all (\<lambda>a. \<not> starts_with a ''-'') as \<Longrightarrow> list_all (\<lambda>v. starts_with v ''-'') vs \<Longrightarrow>
     read_options (set vs) as = []"
proof (induction as)
  case (Cons a as)
  then have "a \<notin> set vs" by (auto simp: list_all_iff)
  with Cons show ?case by (simp add: read_options_plain)
qed simp

text \<open>An option with a value, if it is given, contributes itself and nothing of its value.\<close>

lemma read_with_option:
  "opt \<in> V \<Longrightarrow> opt \<noteq> ''--'' \<Longrightarrow> set (read_options V (with_option opt v @ as)) \<subseteq> insert opt (set (read_options V as))"
  by (cases v) (auto simp: with_option_def)

lemma read_option_given:
  "opt \<in> V \<Longrightarrow> opt \<noteq> ''--'' \<Longrightarrow>
     read_options V (with_option opt v @ as) = (if v = None then [] else [opt]) @ read_options V as"
  by (cases v) (simp_all add: with_option_def)

lemma read_flag_given:
  "starts_with f ''-'' \<Longrightarrow> f \<noteq> ''--'' \<Longrightarrow> f \<notin> V \<Longrightarrow>
     read_options V ((if b then [f] else []) @ as) = (if b then [f] else []) @ read_options V as"
  by (simp add: read_options_flag del: read_options.simps)

text \<open>
  What the programs that are started read as options. \<open>given opt v\<close> is the option itself when its parameter
  is there; its value is no option, whatever it is.
\<close>

definition given :: "string \<Rightarrow> 'a option \<Rightarrow> string list" where
  "given opt v = (if v = None then [] else [opt])"

definition when_set :: "string \<Rightarrow> bool \<Rightarrow> string list" where
  "when_set flag b = (if b then [flag] else [])"

definition reads :: "string set \<Rightarrow> string list \<Rightarrow> proc_call list \<Rightarrow> bool" where
  "reads V opts calls = list_all (\<lambda>c. read_options V (pc_args c) = opts) calls"

lemma read_given:
  "opt \<in> V \<Longrightarrow> opt \<noteq> ''--'' \<Longrightarrow> read_options V (with_option opt v @ as) = given opt v @ read_options V as"
  "opt \<in> V \<Longrightarrow> opt \<noteq> ''--'' \<Longrightarrow> read_options V (with_option opt v) = given opt v"
  using read_option_given [of opt V v as] read_option_given [of opt V v "[]"] by (simp_all add: given_def)

lemma reads_simps:
  "reads V opts []"
  "reads V opts [proc command args cwd] \<longleftrightarrow> read_options V args = opts"
  by (simp_all add: reads_def proc_def)

text \<open>A tool either fails before it starts anything or runs one process.\<close>

lemma started_if: "started (\<lambda>m. if P m then s m else t m) m = (if P m then started s m else started t m)"
  by (simp add: started_def)

lemmas tool_started = started_def run_proc_calls fails_calls invalid_user_def invalid_signal_def invalid_namespace_def
  invalid_resource_def invalid_name_def Let_def

lemma kubectlGet_options:
  "reads {''-n'', ''-o''} (given ''-n'' ns @ given ''-o'' fmt) (started (kubectlGet resource name ns fmt) m)"
proof -
  have "started (kubectlGet resource name ns fmt) m = []
    \<or> (started (kubectlGet resource name ns fmt) m
        = [proc ''kubectl'' ([''get'', resource] @ (case name of Some n \<Rightarrow> [n] | None \<Rightarrow> []) @ with_option ''-n'' ns
             @ with_option ''-o'' fmt) None]
       \<and> \<not> starts_with resource ''-'' \<and> list_all (\<lambda>n. \<not> starts_with n ''-'') (case name of Some n \<Rightarrow> [n] | None \<Rightarrow> []))"
    by (auto simp: kubectlGet_def tool_started resource_type_plain resource_name_plain split: option.split)
  moreover have "read_options {''-n'', ''-o''} ([''get'', resource] @ names @ with_option ''-n'' ns @ with_option ''-o'' fmt)
      = given ''-n'' ns @ given ''-o'' fmt"
    if "\<not> starts_with resource ''-''" "list_all (\<lambda>n. \<not> starts_with n ''-'') names" for names
    using read_plain_prefix [of "[''get'', resource] @ names" "{''-n'', ''-o''}" "with_option ''-n'' ns @ with_option ''-o'' fmt"]
      that read_given(1) [of "''-n''" "{''-n'', ''-o''}" ns "with_option ''-o'' fmt"] read_given(2) [of "''-o''" "{''-n'', ''-o''}" fmt]
    by (simp add: starts_with_def del: read_options.simps)
  ultimately show ?thesis by (auto simp: reads_simps)
qed

lemma kubectlDelete_options:
  "reads {''-n''} (given ''-n'' ns @ (case grace of Some g \<Rightarrow> [''--grace-period='' @ int_str g] | None \<Rightarrow> []))
     (started (kubectlDelete resource name ns grace) m)"
proof -
  have "started (kubectlDelete resource name ns grace) m = []
    \<or> (started (kubectlDelete resource name ns grace) m
        = [proc ''kubectl'' ([''delete'', resource, name] @ with_option ''-n'' ns
             @ (case grace of Some g \<Rightarrow> [''--grace-period='' @ int_str g] | None \<Rightarrow> [])) None]
       \<and> \<not> starts_with resource ''-'' \<and> \<not> starts_with name ''-'')"
    by (auto simp: kubectlDelete_def tool_started resource_type_plain resource_name_plain split: option.split)
  then show ?thesis
    by (cases ns; cases grace) (auto simp: reads_simps given_def with_option_def read_options_plain starts_with_def)
qed

lemma kubectlRollout_options: "reads {''-n''} (given ''-n'' ns) (started (kubectlRollout action resource name ns) m)"
proof -
  have "started (kubectlRollout action resource name ns) m = []
    \<or> (started (kubectlRollout action resource name ns) m
        = [proc ''kubectl'' ([''rollout'', action, resource @ ''/'' @ name] @ with_option ''-n'' ns) None]
       \<and> \<not> starts_with action ''-'' \<and> \<not> starts_with (resource @ ''/'' @ name) ''-'')"
    by (auto simp: kubectlRollout_def tool_started resource_type_plain ROLLOUT_ACTIONS_def starts_dash_append starts_dash
        split: option.split)
  moreover have "read_options {''-n''} ([''rollout'', action, r] @ with_option ''-n'' ns) = given ''-n'' ns"
    if "\<not> starts_with action ''-''" "\<not> starts_with r ''-''" for r
    using that read_plain_prefix [of "[''rollout'', action, r]" "{''-n''}" "with_option ''-n'' ns"]
      read_given(2) [of "''-n''" "{''-n''}" ns]
    by (simp add: starts_with_def del: read_options.simps)
  ultimately show ?thesis by (auto simp: reads_simps)
qed

lemma kubectlApply_options:
  "reads {''-f'', ''-n''} ([''-f''] @ given ''-n'' ns @ when_set ''--dry-run=client'' dry)
     (started (kubectlApply path ns dry) m)"
proof -
  have "started (kubectlApply path ns dry) m = []
    \<or> started (kubectlApply path ns dry) m
        = [proc ''kubectl'' ([''apply'', ''-f'', path] @ with_option ''-n'' ns
             @ (if dry then [''--dry-run=client''] else [])) None]"
    by (auto simp: kubectlApply_def tool_started split: option.split)
  then show ?thesis
    by (cases ns; cases dry) (auto simp: reads_simps given_def when_set_def with_option_def read_options_plain starts_with_def)
qed

lemma dockerPush_options: "reads {} (when_set ''--all-tags'' all_tags) (started (dockerPush img registry all_tags) m)"
proof -
  have "started (dockerPush img registry all_tags) m = []
    \<or> (started (dockerPush img registry all_tags) m
        = [proc ''docker'' ([''push''] @ (if all_tags then [''--all-tags''] else []) @ [effective_image img registry]) None]
       \<and> \<not> starts_with (effective_image img registry) ''-'')"
    by (auto simp: dockerPush_def tool_started effective_image_def starts_dash_append starts_dash
        dest: image_ref_plain registry_plain split: option.splits)
  then show ?thesis
    by (auto simp: reads_simps when_set_def read_options_plain starts_with_def)
qed

lemma npmInstall_options: "reads {} [] (started (npmInstall packages working_dir [] cwd) m)"
proof -
  have plain: "list_all (\<lambda>p. \<not> starts_with p ''-'') packages"
    if "List.find (\<lambda>s. \<not> validateNpmPackageSpec s) packages = None"
    using that npm_spec_plain by (simp add: find_None_iff list_all_iff)
  have "started (npmInstall packages working_dir [] cwd) m = []
    \<or> (\<exists>dir. started (npmInstall packages working_dir [] cwd) m = [proc ''npm'' (''install'' # packages) dir]
         \<and> list_all (\<lambda>p. \<not> starts_with p ''-'') packages)"
    using plain by (auto simp: npmInstall_def tool_started split: option.split)
  then show ?thesis
    using read_options_all_plain [of packages "[]"] by (auto simp: reads_simps read_options_plain starts_with_def)
qed

definition PIP_VALUES :: "string list" where
  "PIP_VALUES = [''--index-url'', ''--extra-index-url'', ''-r'']"

lemma pip_flags:
  "list_all (\<lambda>v. starts_with v ''-'') PIP_VALUES" "\<not> starts_with ''install'' ''-''" "''install'' \<notin> set PIP_VALUES"
  "''--upgrade'' \<notin> set PIP_VALUES" "''--user'' \<notin> set PIP_VALUES" "starts_with ''--upgrade'' ''-''"
  "starts_with ''--user'' ''-''" "''--index-url'' \<in> set PIP_VALUES" "''--extra-index-url'' \<in> set PIP_VALUES"
  "''-r'' \<in> set PIP_VALUES"
  by (simp_all add: PIP_VALUES_def starts_with_def)

text \<open>
  The options of \<open>pip install\<close>, one for each parameter that is given; a blank name of a requirements file
  counts as none.
\<close>

definition has_requirements :: "pip_params \<Rightarrow> bool" where
  "has_requirements ps = (case pp_requirements ps of Some r \<Rightarrow> js_trim r \<noteq> '''' | None \<Rightarrow> False)"

definition pip_given :: "pip_params \<Rightarrow> string list" where
  "pip_given ps =
     when_set ''--upgrade'' (pp_upgrade ps) @ when_set ''--user'' (pp_user ps)
     @ given ''--index-url'' (pp_index_url ps) @ given ''--extra-index-url'' (pp_extra_index_url ps)
     @ when_set ''-r'' (has_requirements ps)"

lemma pipInstall_options: "reads (set PIP_VALUES) (pip_given ps) (started (pipInstall ps cwd) m)"
proof -
  have plain: "list_all (\<lambda>p. \<not> starts_with p ''-'') (pp_packages ps)"
    if "List.find (\<lambda>s. \<not> validatePackageSpec s) (pp_packages ps) = None"
    using that package_spec_plain by (simp add: find_None_iff list_all_iff)
  have req: "requirements_path ps dir m \<noteq> None \<longleftrightarrow> has_requirements ps" for dir
    by (auto simp: requirements_path_def has_requirements_def split: option.split)
  have run: "started (pipInstall ps cwd) m = []
    \<or> (\<exists>at dir. started (pipInstall ps cwd) m
           = [proc ''pip'' ([''install''] @ pip_options ps (requirements_path ps at m) @ pp_packages ps) dir]
         \<and> list_all (\<lambda>p. \<not> starts_with p ''-'') (pp_packages ps))"
    using plain
    by (cases "List.find (\<lambda>s. \<not> validatePackageSpec s) (pp_packages ps)") (auto simp: pipInstall_def tool_started)

  have "read_options (set PIP_VALUES) ([''install''] @ pip_options ps req @ pp_packages ps) = pip_given ps"
    if "list_all (\<lambda>p. \<not> starts_with p ''-'') (pp_packages ps)" "req \<noteq> None \<longleftrightarrow> has_requirements ps" for req
    using read_options_all_plain [OF that(1), of PIP_VALUES] that(2) pip_flags
    by (cases req) (simp_all add: pip_options_def pip_given_def given_def when_set_def read_option_given read_flag_given
        read_options_plain del: read_options.simps)
  with run req show ?thesis by (auto simp: reads_simps)
qed

text \<open>Docker takes the options up to the first argument that is none, the image, and leaves the rest to the container.\<close>

fun split_args :: "string set \<Rightarrow> string list \<Rightarrow> string list \<times> string list" where
  "split_args V [] = ([], [])"
| "split_args V [a] = (if starts_with a ''-'' then ([a], []) else ([], [a]))"
| "split_args V (a # b # rest) =
     (if a \<in> V then (case split_args V rest of (os, ps) \<Rightarrow> (a # b # os, ps))
      else if starts_with a ''-'' then (case split_args V (b # rest) of (os, ps) \<Rightarrow> (a # os, ps))
      else ([], a # b # rest))"

definition DOCKER_VALUES :: "string list" where
  "DOCKER_VALUES = [''--platform'', ''--network'', ''--user'', ''--entrypoint'', ''-v'', ''-e'', ''-p'']"

lemma split_args_plain: "\<not> starts_with a ''-'' \<Longrightarrow> a \<notin> V \<Longrightarrow> split_args V (a # as) = ([], a # as)"
  by (cases as) auto

lemma split_args_flag:
  "starts_with f ''-'' \<Longrightarrow> f \<notin> V \<Longrightarrow>
     split_args V ((if b then [f] else []) @ as)
       = ((if b then [f] else []) @ fst (split_args V as), snd (split_args V as))"
  by (cases as) (auto split: prod.split)

lemma split_args_option:
  "opt \<in> V \<Longrightarrow>
     split_args V (with_option opt v @ as) = (with_option opt v @ fst (split_args V as), snd (split_args V as))"
  by (cases v) (auto simp: with_option_def split: prod.split)

lemma split_args_each:
  "opt \<in> V \<Longrightarrow>
     split_args V (each_option opt vs @ as) = (each_option opt vs @ fst (split_args V as), snd (split_args V as))"
  by (induction vs) (auto simp: each_option_def split: prod.split)

lemma docker_values:
  "''--rm'' \<notin> set DOCKER_VALUES" "starts_with ''--rm'' ''-''" "''--platform'' \<in> set DOCKER_VALUES"
  "''--network'' \<in> set DOCKER_VALUES" "''--user'' \<in> set DOCKER_VALUES" "''--entrypoint'' \<in> set DOCKER_VALUES"
  "''-v'' \<in> set DOCKER_VALUES" "''-e'' \<in> set DOCKER_VALUES" "''-p'' \<in> set DOCKER_VALUES"
  "list_all (\<lambda>v. starts_with v ''-'') DOCKER_VALUES"
  by (simp_all add: DOCKER_VALUES_def starts_with_def)

lemma docker_split:
  "\<not> starts_with img ''-'' \<Longrightarrow>
     split_args (set DOCKER_VALUES) (docker_options ps @ [img] @ command) = (docker_options ps, img # command)"
proof -
  assume img: "\<not> starts_with img ''-''"
  then have "img \<notin> set DOCKER_VALUES" using docker_values(10) by (auto simp: list_all_iff)
  with img show ?thesis
    by (simp add: docker_options_def split_args_flag split_args_option split_args_each split_args_plain docker_values)
qed

definition leaves_command :: "docker_params \<Rightarrow> proc_call \<Rightarrow> bool" where
  "leaves_command ps c \<longleftrightarrow>
     split_args (set DOCKER_VALUES) (tl (pc_args c)) = (docker_options ps, dp_image ps # dp_command ps)"

lemma dockerRun_options: "list_all (leaves_command ps) (started (dockerRun ps cwd) m)"
proof -
  have "started (dockerRun ps cwd) m = []
    \<or> (\<exists>dir. started (dockerRun ps cwd) m
             = [proc ''docker'' ([''run''] @ docker_options ps @ [dp_image ps] @ dp_command ps) dir]
         \<and> \<not> starts_with (dp_image ps) ''-'')"
    by (auto simp: dockerRun_def tool_started image_ref_plain split: option.split)
  then show ?thesis using docker_split [of "dp_image ps" ps "dp_command ps"] by (auto simp: leaves_command_def proc_def)
qed

text \<open>
  C6. The parameters the container, cluster and package tools check reach their programs as values: when
  kubectl, docker push, npm or pip is started, it reads as options exactly those of the parameters that are
  given, in the order the tool writes them, whatever the resource, the name, the namespace, the image, the
  registry and the packages are; and docker run reads exactly its options and leaves the image and everything
  behind it to the container. The flags of npm_install are the caller's own, so they are taken empty here.
\<close>

theorem host_tools_options:
  "reads {''-n'', ''-o''} (given ''-n'' ns @ given ''-o'' fmt) (started (kubectlGet resource name ns fmt) m)
   \<and> reads {''-f'', ''-n''} ([''-f''] @ given ''-n'' ns' @ when_set ''--dry-run=client'' dry)
       (started (kubectlApply path ns' dry) m)
   \<and> reads {''-n''} (given ''-n'' ns' @ (case grace of Some g \<Rightarrow> [''--grace-period='' @ int_str g] | None \<Rightarrow> []))
       (started (kubectlDelete resource obj ns' grace) m)
   \<and> reads {''-n''} (given ''-n'' ns') (started (kubectlRollout action resource obj ns') m)
   \<and> reads {} (when_set ''--all-tags'' all_tags) (started (dockerPush img registry all_tags) m)
   \<and> list_all (leaves_command dps) (started (dockerRun dps cwd) m)
   \<and> reads {} [] (started (npmInstall packages working_dir [] cwd) m)
   \<and> reads (set PIP_VALUES) (pip_given pps) (started (pipInstall pps cwd) m)"
  by (intro conjI kubectlGet_options kubectlApply_options kubectlDelete_options kubectlRollout_options
      dockerPush_options dockerRun_options npmInstall_options pipInstall_options)

section \<open>Where a leading dash is let through\<close>

lemma metachar_none: "list_all (\<lambda>c. alnum c \<or> c \<in> set ''-@/.='') w \<Longrightarrow> \<not> rx_test SHELL_METACHARACTERS w"
  unfolding SHELL_METACHARACTERS_def rx_test_class
  by (force simp: list_all_iff alnum_def is_lower_def is_upper_def is_digit_def)

text \<open>A crontab file named \<open>-r\<close> passes the check, and \<open>crontab -r\<close> removes the table it was to replace.\<close>

lemma install_can_remove: "map pc_args (started (crontabInstallFromFile ''-r'' True None) m) = [[''-r'']]"
proof -
  have "\<not> rx_test SHELL_METACHARACTERS ''-r''"
    by (rule metachar_none) (simp add: alnum_def is_lower_def)
  then have "clean_text_arg ''-r''"
    by (simp add: clean_text_arg_def js_trim_def js_space_def Let_def)
  then show ?thesis
    by (simp add: started_def crontabInstallFromFile_def run_proc_calls bad_user_def user_args_def proc_def)
qed

text \<open>Without the check of the target, a target is an option of make; \<open>--eval\<close> runs a makefile text.\<close>

lemma target_can_be_option:
  "mp_target ps = Some t \<Longrightarrow> \<not> mp_validate_target ps \<Longrightarrow> t \<noteq> '''' \<Longrightarrow>
     \<exists>pre. map pc_args (started (makeRun ps cwd) m) = [pre @ [t]]"
  by (auto simp: started_def makeRun_def run_proc_calls make_args_def proc_def Let_def)

text \<open>The pid 0 is accepted: the signal goes to every process of the plugin's own group.\<close>

lemma kill_own_group: "map pc_args (started (killProcess 0 None) m) = [[''-TERM'', [char_of (48 :: nat)]]]"
  by (simp add: started_def killProcess_def run_proc_calls validatePid_def MAX_SAFE_INTEGER_def signal_of_def
      KILL_SIGNALS_def proc_def int_str_def nat_str.simps Let_def)

text \<open>A pattern of pkill and a unit of systemctl may begin with a dash.\<close>

lemma test_class_word: "w \<noteq> [] \<Longrightarrow> list_all P w \<Longrightarrow> rx_test (anchored (rx_plus (RClass P))) w"
  by (simp add: anchored_def rx_test_anchored list_all_iff)

lemma pattern_can_be_option: "map pc_args (started (pkillPattern ''-uroot'' None False) m) = [[''-TERM'', ''-uroot'']]"
proof -
  have "rx_test PKILL_PATTERN ''-uroot''"
    unfolding PKILL_PATTERN_def by (rule test_class_word) (simp_all add: alnum_def is_lower_def)
  then have "validatePkillPattern ''-uroot''"
    by (simp add: validatePkillPattern_def MAX_PATTERN_CHARS_def js_trim_def js_space_def Let_def)
  then show ?thesis
    by (simp add: started_def pkillPattern_def run_proc_calls signal_of_def KILL_SIGNALS_def proc_def Let_def)
qed

lemma unit_can_be_option:
  "map pc_args (started (systemctlUnitAction ''-Hroot@host'' ''status'') m) = [[''status'', ''-Hroot@host'']]"
proof -
  have "rx_test SYSTEMD_UNIT_NAME ''-Hroot@host''"
    unfolding SYSTEMD_UNIT_NAME_def by (rule test_class_word) (simp_all add: alnum_def is_lower_def is_upper_def)
  then have "validateUnitName ''-Hroot@host''"
    by (simp add: validateUnitName_def MAX_UNIT_LENGTH_def js_trim_def js_space_def Let_def)
  then show ?thesis
    by (simp add: started_def systemctlUnitAction_def run_proc_calls SYSTEMCTL_ACTIONS_def proc_def)
qed

end
