(* ===== verification/AdminExec.thy ===== *)
theory AdminExec
  imports Approval Normalize Json ToolRun
begin

text \<open>
  The tool that runs any shell command, \<open>src/tools/unsafe_admin_exec/unsafe-admin-exec.ts\<close>, with the approval
  manager it takes its token from. The tool waits for the audit log between the check of the token and its
  use, so it is given in two parts, up to that wait and from it. The outcome of the process that is spawned
  is a parameter: a message when it cannot be spawned, otherwise the two outputs and the exit code (\<open>None\<close>
  when a signal ended it). The two times of the log entries are arguments.
\<close>

record admin_params =
  ap_command :: string
  ap_justification :: string
  ap_working_dir :: "string option"

record admin_options =
  xo_logged :: bool
  xo_agent :: string
  xo_channel :: string
  xo_approval_id :: "string option"

text \<open>What an invocation can change: the audit log, the manager (if there is one) and the commands that have run.\<close>

record admin_world =
  aw_log :: "json list"
  aw_manager :: "manager option"
  aw_ran :: "(string \<times> string option) list"

type_synonym shell = "string \<Rightarrow> string option \<Rightarrow> string + (string \<times> string \<times> int option)"

definition JUSTIFICATION_MIN_LENGTH :: nat where
  "JUSTIFICATION_MIN_LENGTH = 20"

definition admin_log :: "admin_options \<Rightarrow> (string \<times> json) list \<Rightarrow> admin_world \<Rightarrow> admin_world" where
  "admin_log opts entry w = (if xo_logged opts then w\<lparr>aw_log := aw_log w @ [JObj entry]\<rparr> else w)"

text \<open>What the entries have in common, up to the channel.\<close>

definition entry_start :: "string \<Rightarrow> string \<Rightarrow> admin_params \<Rightarrow> admin_options \<Rightarrow> (string \<times> json) list" where
  "entry_start ts event ps opts =
     [(''ts'', JStr ts), (''type'', JStr ''unsafe-admin-exec''), (''event'', JStr event),
      (''toolName'', JStr ''unsafe_admin_exec''),
      (''commandPrefix'', JStr (sanitizeCommandPrefix (ap_command ps)))]"

definition entry_agent :: "admin_options \<Rightarrow> (string \<times> json) list" where
  "entry_agent opts = [(''agentId'', JStr (xo_agent opts)), (''channel'', JStr (xo_channel opts))]"

definition entry_of :: "string \<Rightarrow> string \<Rightarrow> admin_params \<Rightarrow> admin_options \<Rightarrow> (string \<times> json) list \<Rightarrow> (string \<times> json) list" where
  "entry_of ts event ps opts extra = entry_start ts event ps opts @ entry_agent opts @ extra"

definition approval_token :: "admin_options \<Rightarrow> string" where
  "approval_token opts = (case xo_approval_id opts of Some t \<Rightarrow> t | None \<Rightarrow> '''')"

text \<open>The four gates and the entry for the attempt: everything up to the wait before the token is used.\<close>

definition refuse :: "string \<Rightarrow> string \<Rightarrow> admin_options \<Rightarrow> (string \<times> json) list \<Rightarrow> admin_world \<Rightarrow> tool_error option \<times> admin_world" where
  "refuse code message opts entry w = (Some (tool_error code message), admin_log opts entry w)"

definition admin_gates ::
  "string option \<Rightarrow> string \<Rightarrow> admin_params \<Rightarrow> admin_options \<Rightarrow> admin_world \<Rightarrow> tool_error option \<times> admin_world" where
  "admin_gates env ts ps opts w =
     (let why = (''justification'', JStr (ap_justification ps)); token = approval_token opts
      in if env \<noteq> Some ''1''
         then refuse ''disabled''
                ''unsafe_admin_exec is disabled. Set CLAWTHORITY_ENABLE_UNSAFE_ADMIN_EXEC=1 to enable.'' opts
                (entry_of ts ''disabled'' ps opts
                   [(''reason'', JStr ''CLAWTHORITY_ENABLE_UNSAFE_ADMIN_EXEC is not set to 1'')]) w
         else if length (ap_justification ps) < JUSTIFICATION_MIN_LENGTH
         then refuse ''invalid-justification''
                (''justification must be at least '' @ nat_str JUSTIFICATION_MIN_LENGTH @ '' characters.'') opts
                (entry_of ts ''invalid-justification'' ps opts
                   [(''reason'', JStr (''justification must be at least '' @ nat_str JUSTIFICATION_MIN_LENGTH @ '' characters''))]) w
         else if token = ''''
         then refuse ''hitl-required''
                ''unsafe_admin_exec requires a HITL approval token (approval_id) for every invocation.'' opts
                (entry_of ts ''hitl-required'' ps opts
                   [why, (''reason'', JStr ''HITL approval token is required for every invocation'')]) w
         else if (case aw_manager w of Some s \<Rightarrow> isConsumed token s | None \<Rightarrow> False)
         then refuse ''token-replayed'' ''Capability token has already been consumed and cannot be replayed.'' opts
                (entry_of ts ''token-replayed'' ps opts
                   [why, (''approvalId'', JStr token), (''reason'', JStr ''capability token has already been consumed'')]) w
         else (None, admin_log opts
                (entry_start ts ''exec-attempt'' ps opts
                 @ [(''workingDir'', case ap_working_dir ps of Some d \<Rightarrow> JStr d | None \<Rightarrow> JNull)]
                 @ entry_agent opts @ [why, (''approvalId'', JStr token)]) w))"

text \<open>From the wait on: the token is used up, whether or not the manager knows it, and the command runs.\<close>

definition consume_token :: "string \<Rightarrow> admin_world \<Rightarrow> admin_world" where
  "consume_token token w = w\<lparr>aw_manager := map_option (\<lambda>s. snd (resolveApproval token Approved None s)) (aw_manager w)\<rparr>"

record admin_result =
  ar_stdout :: string
  ar_stderr :: string
  ar_exit_code :: int

definition admin_run ::
  "shell \<Rightarrow> string \<Rightarrow> admin_params \<Rightarrow> admin_options \<Rightarrow> admin_world \<Rightarrow> (tool_error + admin_result) \<times> admin_world" where
  "admin_run sh ts ps opts w =
     (let token = approval_token opts; w = consume_token token w;
          w = w\<lparr>aw_ran := aw_ran w @ [(ap_command ps, ap_working_dir ps)]\<rparr>;
          rest = [(''justification'', JStr (ap_justification ps)), (''approvalId'', JStr token)]
      in case sh (ap_command ps) (ap_working_dir ps) of
           Inl message \<Rightarrow>
             (Inl (tool_error ''exec-error'' (''Command spawn failed: '' @ message)),
              admin_log opts (entry_of ts ''exec-error'' ps opts (rest @ [(''error'', JStr message)])) w)
         | Inr (out, err, code) \<Rightarrow>
             (let exit_code = (case code of Some n \<Rightarrow> n | None \<Rightarrow> -1)
              in (Inr \<lparr>ar_stdout = out, ar_stderr = err, ar_exit_code = exit_code\<rparr>,
                  admin_log opts (entry_of ts ''exec-complete'' ps opts
                    (rest @ [(''exitCode'', JNum exit_code), (''stdoutLength'', JNum (int (length out))),
                             (''stderrLength'', JNum (int (length err)))])) w)))"

text \<open>An invocation nothing comes between.\<close>

definition unsafeAdminExec ::
  "shell \<Rightarrow> string option \<Rightarrow> string \<Rightarrow> string \<Rightarrow> admin_params \<Rightarrow> admin_options \<Rightarrow> admin_world
     \<Rightarrow> (tool_error + admin_result) \<times> admin_world" where
  "unsafeAdminExec sh env ts ts' ps opts w =
     (case admin_gates env ts ps opts w of
        (Some e, w') \<Rightarrow> (Inl e, w')
      | (None, w') \<Rightarrow> admin_run sh ts' ps opts w')"

section \<open>What the gates let through\<close>

definition gates_open :: "string option \<Rightarrow> admin_params \<Rightarrow> admin_options \<Rightarrow> admin_world \<Rightarrow> bool" where
  "gates_open env ps opts w \<longleftrightarrow>
     env = Some ''1'' \<and> JUSTIFICATION_MIN_LENGTH \<le> length (ap_justification ps) \<and> approval_token opts \<noteq> ''''
     \<and> (case aw_manager w of Some s \<Rightarrow> \<not> isConsumed (approval_token opts) s | None \<Rightarrow> True)"

lemma admin_log_fields [simp]:
  "aw_manager (admin_log opts entry w) = aw_manager w" "aw_ran (admin_log opts entry w) = aw_ran w"
  "aw_log (admin_log opts entry w) = aw_log w @ (if xo_logged opts then [JObj entry] else [])"
  by (simp_all add: admin_log_def)

lemma admin_gates_none: "fst (admin_gates env ts ps opts w) = None \<longleftrightarrow> gates_open env ps opts w"
  by (auto simp: admin_gates_def gates_open_def refuse_def Let_def split: option.split)

lemma admin_gates_keep [simp]:
  "aw_manager (snd (admin_gates env ts ps opts w)) = aw_manager w" "aw_ran (snd (admin_gates env ts ps opts w)) = aw_ran w"
  by (simp_all add: admin_gates_def refuse_def Let_def)

definition log_event :: "json \<Rightarrow> string" where
  "log_event e = (case e of JObj kvs \<Rightarrow> (case map_of kvs ''event'' of Some (JStr s) \<Rightarrow> s | _ \<Rightarrow> '''') | _ \<Rightarrow> '''')"

definition new_entries :: "admin_world \<Rightarrow> admin_world \<Rightarrow> json list" where
  "new_entries w w' = drop (length (aw_log w)) (aw_log w')"

lemma log_event_entries [simp]:
  "log_event (JObj (entry_of ts event ps opts extra)) = event"
  "log_event (JObj (entry_start ts event ps opts @ extra)) = event"
  by (simp_all add: log_event_def entry_of_def entry_start_def)

lemma admin_gates_appends:
  "\<exists>e. aw_log (snd (admin_gates env ts ps opts w)) = aw_log w @ (if xo_logged opts then [e] else [])"
  by (auto simp: admin_gates_def refuse_def Let_def)

lemma admin_gates_logged:
  "xo_logged opts \<Longrightarrow> map log_event (new_entries w (snd (admin_gates env ts ps opts w)))
     = [case fst (admin_gates env ts ps opts w) of Some err \<Rightarrow> te_code err | None \<Rightarrow> ''exec-attempt'']"
  by (auto simp: admin_gates_def refuse_def tool_error_def new_entries_def Let_def)

lemma admin_run_fields:
  "aw_ran (snd (admin_run sh ts ps opts w)) = aw_ran w @ [(ap_command ps, ap_working_dir ps)]"
  "aw_manager (snd (admin_run sh ts ps opts w))
     = map_option (\<lambda>s. snd (resolveApproval (approval_token opts) Approved None s)) (aw_manager w)"
  by (auto simp: admin_run_def consume_token_def Let_def split: sum.split prod.split)

lemma admin_run_log:
  "aw_log (snd (admin_run sh ts ps opts w))
     = aw_log w @ (if xo_logged opts then [last (aw_log (snd (admin_run sh ts ps opts w)))] else [])"
  by (auto simp: admin_run_def consume_token_def Let_def split: sum.split prod.split)

end
