(* ===== verification/AdminExecProps.thy ===== *)
theory AdminExecProps
  imports AdminExec ApprovalProps
begin

text \<open>
  When the shell tool runs its command, what it writes about it, and what its token is worth: once a command
  has run on a token that was pending, no invocation that starts later runs anything with it; two that overlap can
  both run, and a token the manager has never issued is good for any number.
\<close>

abbreviation invoke where
  "invoke sh env ts ts' ps opts w \<equiv> snd (unsafeAdminExec sh env ts ts' ps opts w)"

lemma invoke_cases:
  "unsafeAdminExec sh env ts ts' ps opts w =
     (if gates_open env ps opts w then admin_run sh ts' ps opts (snd (admin_gates env ts ps opts w))
      else (Inl (the (fst (admin_gates env ts ps opts w))), snd (admin_gates env ts ps opts w)))"
  using admin_gates_none [of env ts ps opts w]
  by (cases "admin_gates env ts ps opts w"; cases "fst (admin_gates env ts ps opts w)") (auto simp: unsafeAdminExec_def)

lemma admin_run_event:
  "xo_logged opts \<Longrightarrow> log_event (last (aw_log (snd (admin_run sh ts ps opts w))))
     = (case sh (ap_command ps) (ap_working_dir ps) of Inl _ \<Rightarrow> ''exec-error'' | Inr _ \<Rightarrow> ''exec-complete'')"
  by (auto simp: admin_run_def consume_token_def Let_def split: sum.split prod.split)

definition refusal :: "string option \<Rightarrow> admin_params \<Rightarrow> admin_options \<Rightarrow> string" where
  "refusal env ps opts =
     (if env \<noteq> Some ''1'' then ''disabled''
      else if length (ap_justification ps) < JUSTIFICATION_MIN_LENGTH then ''invalid-justification''
      else if approval_token opts = '''' then ''hitl-required'' else ''token-replayed'')"

lemma refusal_code:
  "\<not> gates_open env ps opts w \<Longrightarrow> \<exists>e. fst (admin_gates env ts ps opts w) = Some e \<and> te_code e = refusal env ps opts"
  by (auto simp: admin_gates_def gates_open_def refusal_def refuse_def tool_error_def Let_def split: option.splits)

text \<open>
  C7. The shell tool runs its command exactly when it is enabled, the justification is long enough, a token is
  given and the manager has not used it up; then it runs it once and the token is resolved as approved.
  Otherwise nothing runs and the manager is as it was. With a log, every refusal leaves one entry with its
  code, and every run an entry for the attempt and one for its outcome.
\<close>

theorem admin_exec_gated:
  "aw_ran (invoke sh env ts ts' ps opts w)
     = aw_ran w @ (if gates_open env ps opts w then [(ap_command ps, ap_working_dir ps)] else [])
   \<and> aw_manager (invoke sh env ts ts' ps opts w)
       = (if gates_open env ps opts w
          then map_option (\<lambda>s. snd (resolveApproval (approval_token opts) Approved None s)) (aw_manager w)
          else aw_manager w)
   \<and> map log_event (new_entries w (invoke sh env ts ts' ps opts w))
       = (if \<not> xo_logged opts then []
          else if gates_open env ps opts w
          then [''exec-attempt'', case sh (ap_command ps) (ap_working_dir ps) of
                                    Inl _ \<Rightarrow> ''exec-error'' | Inr _ \<Rightarrow> ''exec-complete'']
          else [refusal env ps opts])"
proof (cases "gates_open env ps opts w")
  case True
  define w1 where "w1 = snd (admin_gates env ts ps opts w)"
  have first: "fst (admin_gates env ts ps opts w) = None" using True by (simp add: admin_gates_none)
  have "map log_event (new_entries w (snd (admin_run sh ts' ps opts w1)))
    = (if \<not> xo_logged opts then []
       else [''exec-attempt'', case sh (ap_command ps) (ap_working_dir ps) of
                                 Inl _ \<Rightarrow> ''exec-error'' | Inr _ \<Rightarrow> ''exec-complete''])"
  proof (cases "xo_logged opts")
    case logged: True
    have "map log_event (new_entries w w1) = [''exec-attempt'']"
      using admin_gates_logged [OF logged, of w env ts ps] first by (simp add: w1_def)
    then obtain e where e: "aw_log w1 = aw_log w @ [e]" "log_event e = ''exec-attempt''"
      using admin_gates_appends [of env ts ps opts w] by (auto simp: new_entries_def w1_def)
    obtain l where "aw_log (snd (admin_run sh ts' ps opts w1)) = aw_log w @ [e, l]"
      using admin_run_log [of sh ts' ps opts w1] e logged by auto
    with e logged show ?thesis
      using admin_run_event [OF logged, of sh ts' ps w1] by (simp add: new_entries_def)
  next
    case False
    then show ?thesis
      using admin_run_log [of sh ts' ps opts w1] admin_gates_appends [of env ts ps opts w]
      by (auto simp: new_entries_def w1_def)
  qed
  with True show ?thesis by (simp add: invoke_cases admin_run_fields w1_def)
next
  case False
  with refusal_code [OF False, of ts] show ?thesis
    using admin_gates_logged [of opts w env ts ps] admin_gates_appends [of env ts ps opts w]
    by (cases "xo_logged opts") (auto simp: invoke_cases new_entries_def)
qed

section \<open>Tokens\<close>

lemma resolve_pending:
  "map_of (am_pending s) token = Some e \<Longrightarrow>
     isConsumed token (snd (resolveApproval token d None s)) \<and> fst (resolveApproval token d None s)"
  by (simp add: resolveApproval_def close_request_def isConsumed_def settle_def split: option.split)

lemma consumed_closes:
  "aw_manager w = Some s \<Longrightarrow> isConsumed (approval_token opts) s \<Longrightarrow> \<not> gates_open env ps opts w"
  by (simp add: gates_open_def)

text \<open>
  What may happen between two invocations: an invocation is checked, one that was checked goes on and runs, or
  anything the plugin does to the manager.
\<close>

datatype admin_event =
    Checked "string option" string admin_params admin_options
  | Ran shell string admin_params admin_options
  | OnManager manager_op

fun admin_step :: "(string \<Rightarrow> string) \<Rightarrow> admin_event \<Rightarrow> admin_world \<Rightarrow> admin_world" where
  "admin_step sha256 (Checked env ts ps opts) w = snd (admin_gates env ts ps opts w)"
| "admin_step sha256 (Ran sh ts ps opts) w = snd (admin_run sh ts ps opts w)"
| "admin_step sha256 (OnManager x) w = w\<lparr>aw_manager := map_option (run_manager sha256 x) (aw_manager w)\<rparr>"

definition used_up :: "string \<Rightarrow> admin_world \<Rightarrow> bool" where
  "used_up token w \<longleftrightarrow> (\<exists>s. aw_manager w = Some s \<and> isConsumed token s)"

lemma resolve_consumed: "am_consumed s \<subseteq> am_consumed (snd (resolveApproval k d b s))"
  by (auto simp: resolveApproval_def split: option.split)

lemma batch_consumed: "am_consumed s \<subseteq> am_consumed (snd (batchResolve ks d s))"
proof (induction ks arbitrary: s)
  case (Cons k ks)
  from resolve_consumed [of s k d None] Cons.IH [of "snd (resolveApproval k d None s)"]
  show ?case by (auto simp: case_prod_beta)
qed simp

lemma run_manager_consumed: "am_consumed s \<subseteq> am_consumed (run_manager sha256 x s)"
proof (cases x)
  case (MCreate uuid now opts)
  then show ?thesis by (auto simp: createApprovalRequest_def Let_def)
next
  case (MCancel k)
  then show ?thesis by (auto simp: cancel_def split: option.split)
next
  case (MTimer t)
  then show ?thesis by (auto simp: fire_timer_def split: option.split)
next
  case MShutdown
  then show ?thesis using expire_consumed by (auto simp: shutdown_def)
qed (use resolve_consumed batch_consumed in \<open>auto simp: addSessionAutoApproval_def clearSessionAutoApprovals_def\<close>)

lemma admin_step_used: "used_up token w \<Longrightarrow> used_up token (admin_step sha256 e w)"
  using resolve_consumed [THEN subsetD] run_manager_consumed [THEN subsetD]
  by (cases e) (auto simp: used_up_def isConsumed_def admin_run_fields)

lemma admin_steps_used: "used_up token w \<Longrightarrow> used_up token (fold (admin_step sha256) es w)"
  by (induction es arbitrary: w) (simp_all add: admin_step_used)

lemma used_up_closed:
  "used_up token w \<Longrightarrow> approval_token opts = token \<Longrightarrow>
     aw_ran (invoke sh env ts ts' ps opts w) = aw_ran w
     \<and> (\<exists>e. fst (unsafeAdminExec sh env ts ts' ps opts w) = Inl e)"
  by (auto simp: used_up_def invoke_cases dest: consumed_closes)

text \<open>
  C8. A token that waits for an operator is good for one command: once an invocation with it has run its
  command, every invocation with it that starts afterwards is refused and runs nothing, whatever its command,
  its justification and its settings are, and whatever came in between: other invocations, in whole or in
  part, and any operations of the manager. (An invocation that had passed the check before the token was used
  is not stopped: \<open>waiting_invocations_both_run\<close>.)
\<close>

theorem pending_token_once:
  assumes "aw_manager w = Some s" "map_of (am_pending s) (approval_token opts) = Some e" "gates_open env ps opts w"
    and "w1 = invoke sh env ts ts' ps opts w" and "w2 = fold (admin_step sha256) es w1"
    and "approval_token opts' = approval_token opts"
  shows "aw_ran w1 = aw_ran w @ [(ap_command ps, ap_working_dir ps)]
    \<and> aw_ran (invoke sh' env' u u' ps' opts' w2) = aw_ran w2
    \<and> (\<exists>err. fst (unsafeAdminExec sh' env' u u' ps' opts' w2) = Inl err)"
proof -
  have "aw_manager w1 = Some (snd (resolveApproval (approval_token opts) Approved None s))"
    using assms(1,3,4) by (simp add: invoke_cases admin_run_fields)
  then have "used_up (approval_token opts) w1"
    using resolve_pending [OF assms(2), of Approved] by (simp add: used_up_def)
  from used_up_closed [OF admin_steps_used [OF this] assms(6)]
  show ?thesis using assms(3,4,5) by (simp add: invoke_cases [of sh] admin_run_fields)
qed

definition wiper :: admin_params where
  "wiper = \<lparr>ap_command = ''id'', ap_justification = replicate 20 CHR ''x'', ap_working_dir = None\<rparr>"

definition holder :: admin_options where
  "holder = \<lparr>xo_logged = True, xo_agent = ''a'', xo_channel = ''c'', xo_approval_id = Some ''t''\<rparr>"

definition one_pending :: manager where
  "one_pending = new_manager\<lparr>am_pending := [(''t'', \<lparr>pa_token = ''t'', pa_toolName = ''x'', pa_agentId = ''a'',
     pa_channelId = ''c'', pa_policyName = ''p'', pa_fallback = Deny, pa_createdAt = 0, pa_timeoutMs = 1,
     pa_payload_hash = '''', pa_action_class = ''x'', pa_target = '''', pa_summary = '''', pa_binding = '''',
     pa_resolve = 0, pa_timer = 0\<rparr>)]\<rparr>"

definition quiet_shell :: shell where
  "quiet_shell command dir = Inr ('''', '''', Some 0)"

definition held_world :: admin_world where
  "held_world = \<lparr>aw_log = [], aw_manager = Some one_pending, aw_ran = []\<rparr>"

theorem pending_token_once_witness:
  "aw_ran (invoke quiet_shell (Some ''1'') ''2'' ''3'' wiper holder
     (invoke quiet_shell (Some ''1'') ''0'' ''1'' wiper holder held_world)) = [(''id'', None)]"
  using pending_token_once [OF _ _ _ refl refl refl, of held_world one_pending holder _
      "Some ''1''" wiper quiet_shell "''0''" "''1''" quiet_shell "Some ''1''" "''2''" "''3''" wiper id "[]"]
  by (simp add: held_world_def one_pending_def holder_def approval_token_def gates_open_def wiper_def
      JUSTIFICATION_MIN_LENGTH_def isConsumed_def new_manager_def)

text \<open>A token the manager has never issued is neither pending nor consumed: it opens the gates, every time.\<close>

lemma unknown_token_reused:
  assumes "aw_manager w = Some s" "getPending (approval_token opts) s = None" "gates_open env ps opts w"
  shows "aw_manager (invoke sh env ts ts' ps opts w) = Some s \<and> gates_open env ps opts (invoke sh env ts ts' ps opts w)"
proof -
  have "aw_manager (invoke sh env ts ts' ps opts w) = Some s"
    using assms by (simp add: invoke_cases admin_run_fields resolveApproval_def getPending_def)
  with assms show ?thesis by (simp add: gates_open_def)
qed

text \<open>A token an operator has approved is consumed by that, and the tool refuses it as replayed.\<close>

lemma approved_token_refused:
  assumes "aw_manager w = Some s'" "resolveApproval (approval_token opts) Approved b s = (True, s')"
  shows "\<not> gates_open env ps opts w"
proof -
  have "isConsumed (approval_token opts) s'"
    using assms(2) by (auto simp: resolveApproval_def close_request_def isConsumed_def settle_def split: option.splits if_splits)
  with assms(1) show ?thesis by (rule consumed_closes)
qed

text \<open>
  The tool waits for the log between the check of the token and its use. Two invocations that are both
  checked before either goes on both run, with a single pending token.
\<close>

lemma waiting_invocations_both_run:
  assumes "gates_open env ps opts w" "gates_open env' ps' opts' w"
  shows "fst (admin_gates env ts ps opts w) = None
    \<and> fst (admin_gates env' u ps' opts' (snd (admin_gates env ts ps opts w))) = None
    \<and> aw_ran (snd (admin_run sh' u' ps' opts' (snd (admin_run sh ts' ps opts
        (snd (admin_gates env' u ps' opts' (snd (admin_gates env ts ps opts w))))))))
      = aw_ran w @ [(ap_command ps, ap_working_dir ps), (ap_command ps', ap_working_dir ps')]"
proof -
  have "gates_open env' ps' opts' (snd (admin_gates env ts ps opts w))" using assms(2) by (simp add: gates_open_def)
  with assms(1) show ?thesis by (simp add: admin_gates_none admin_run_fields)
qed

end
