(* ===== verification/Disk.thy ===== *)
theory Disk
  imports ToolRun "HOL-Library.AList"
begin

text \<open>
  The file system as the functions of \<open>node:fs\<close> the tools use see it: files, directories and symbolic links,
  under the lists of the segments of their paths. Each call may meet an error of the system, which
  \<open>dk_faults\<close> tells by the number of the call: its code and how far the call came. A call that writes may
  have written a part by then; the others leave the files as they were. Devices, sockets, hard links,
  owners and modes are left out (a denied access is an error of the system), and text is not encoded.
\<close>

datatype node = File string | Dir | Link string

record disk =
  dk_nodes :: "(string list, node) jsmap"
  dk_cwd :: string
  dk_faults :: "nat \<Rightarrow> (string \<times> nat) option"
  dk_time :: nat

definition node_at :: "(string list, node) jsmap \<Rightarrow> string list \<Rightarrow> node option" where
  "node_at ns p = (if p = [] then Some Dir else map_of ns p)"

section \<open>Resolving a path\<close>

definition MAX_LINKS :: nat where
  "MAX_LINKS = 40"

text \<open>
  The path a list of segments leads to from a directory, or the code of the error. Links in front of the last
  segment are followed, a link at the last one only when \<open>final\<close> holds. The last segment need not exist.
\<close>

function follow :: "nat \<Rightarrow> (string list, node) jsmap \<Rightarrow> bool \<Rightarrow> string list \<Rightarrow> string list \<Rightarrow> string + string list" where
  "follow links ns final here [] = Inr here"
| "follow links ns final here (s # ss) =
     (if s = '''' \<or> s = ''.'' then follow links ns final here ss
      else if s = ''..'' then follow links ns final (butlast here) ss
      else case node_at ns (here @ [s]) of
        None \<Rightarrow> if ss = [] then Inr (here @ [s]) else Inl ''ENOENT''
      | Some Dir \<Rightarrow> follow links ns final (here @ [s]) ss
      | Some (File _) \<Rightarrow> if ss = [] then Inr (here @ [s]) else Inl ''ENOTDIR''
      | Some (Link t) \<Rightarrow>
          if ss = [] \<and> \<not> final then Inr (here @ [s])
          else if links = 0 then Inl ''ELOOP''
          else follow (links - 1) ns final (if isAbsolute t then [] else here) (split_on (CHR ''/'') t @ ss))"
  by pat_completeness auto
termination
  by (relation "measures [\<lambda>(links, _, _, _, _). links, \<lambda>(_, _, _, _, ss). length ss]") auto

definition canon :: "bool \<Rightarrow> string \<Rightarrow> disk \<Rightarrow> string + string list" where
  "canon final path d =
     (if CHR 0x00 \<in> set path then Inl ''ERR_INVALID_ARG_VALUE''
      else if path = '''' then Inl ''ENOENT''
      else follow MAX_LINKS (dk_nodes d) final []
             (split_on (CHR ''/'') (if isAbsolute path then path else dk_cwd d @ ''/'' @ path)))"

section \<open>Calls\<close>

text \<open>One call: its error, if it meets one, and what it has done by then; otherwise what it does.\<close>

type_synonym 'a fs_call = "disk \<Rightarrow> (string + 'a) \<times> disk"

definition fs_call :: "(nat \<Rightarrow> disk \<Rightarrow> disk) \<Rightarrow> 'a fs_call \<Rightarrow> 'a fs_call" where
  "fs_call partly f d =
     (let d1 = d\<lparr>dk_time := Suc (dk_time d)\<rparr>
      in case dk_faults d (dk_time d) of
           Some (e, n) \<Rightarrow> (Inl e, partly n d1)
         | None \<Rightarrow> f d1)"

definition untouched :: "nat \<Rightarrow> disk \<Rightarrow> disk" where
  "untouched n d = d"

definition put_node :: "string list \<Rightarrow> node \<Rightarrow> disk \<Rightarrow> disk" where
  "put_node p x d = d\<lparr>dk_nodes := AList.update p x (dk_nodes d)\<rparr>"

definition del_node :: "string list \<Rightarrow> disk \<Rightarrow> disk" where
  "del_node p d = d\<lparr>dk_nodes := AList.delete p (dk_nodes d)\<rparr>"

text \<open>The node a path leads to.\<close>

definition at_path :: "bool \<Rightarrow> string \<Rightarrow> disk \<Rightarrow> string + string list \<times> node option" where
  "at_path final path d = (case canon final path d of Inl e \<Rightarrow> Inl e | Inr p \<Rightarrow> Inr (p, node_at (dk_nodes d) p))"

definition statSync :: "string \<Rightarrow> node fs_call" where
  "statSync path = fs_call untouched (\<lambda>d.
     (case at_path True path d of
        Inl e \<Rightarrow> Inl e | Inr (_, None) \<Rightarrow> Inl ''ENOENT'' | Inr (_, Some x) \<Rightarrow> Inr x, d))"

definition exists_path :: "string \<Rightarrow> disk \<Rightarrow> bool" where
  "exists_path path d = (case at_path True path d of Inr (_, Some _) \<Rightarrow> True | _ \<Rightarrow> False)"

definition read_text :: "string \<Rightarrow> string fs_call" where
  "read_text path = fs_call untouched (\<lambda>d.
     (case at_path True path d of
        Inl e \<Rightarrow> Inl e
      | Inr (_, Some (File s)) \<Rightarrow> Inr s
      | Inr (_, Some _) \<Rightarrow> Inl ''EISDIR''
      | Inr (_, None) \<Rightarrow> Inl ''ENOENT'', d))"

text \<open>The file a write goes to: an existing one or a new one.\<close>

definition write_target :: "string \<Rightarrow> disk \<Rightarrow> string + string list \<times> string" where
  "write_target path d =
     (case at_path True path d of
        Inl e \<Rightarrow> Inl e
      | Inr (p, Some (File s)) \<Rightarrow> Inr (p, s)
      | Inr (p, Some _) \<Rightarrow> Inl ''EISDIR''
      | Inr (p, None) \<Rightarrow> Inr (p, ''''))"

definition write_with :: "(string \<Rightarrow> string) \<Rightarrow> string \<Rightarrow> disk \<Rightarrow> disk" where
  "write_with new path d = (case write_target path d of Inl _ \<Rightarrow> d | Inr (p, s) \<Rightarrow> put_node p (File (new s)) d)"

definition outcome_of :: "string \<Rightarrow> disk \<Rightarrow> string + unit" where
  "outcome_of path d = (case write_target path d of Inl e \<Rightarrow> Inl e | Inr _ \<Rightarrow> Inr ())"

definition writeFileSync :: "string \<Rightarrow> string \<Rightarrow> unit fs_call" where
  "writeFileSync path content = fs_call
     (\<lambda>n. case n of 0 \<Rightarrow> untouched 0 | Suc k \<Rightarrow> write_with (\<lambda>_. take k content) path)
     (\<lambda>d. (outcome_of path d, write_with (\<lambda>_. content) path d))"

definition appendFileSync :: "string \<Rightarrow> string \<Rightarrow> unit fs_call" where
  "appendFileSync path content = fs_call
     (\<lambda>n. case n of 0 \<Rightarrow> untouched 0 | Suc k \<Rightarrow> write_with (\<lambda>s. s @ take k content) path)
     (\<lambda>d. (outcome_of path d, write_with (\<lambda>s. s @ content) path d))"

text \<open>\<open>mkdirSync\<close> with \<open>recursive\<close>: every prefix of the path in turn.\<close>

definition mkdir_one :: "string \<Rightarrow> disk \<Rightarrow> (string + unit) \<times> disk" where
  "mkdir_one path d =
     (case at_path True path d of
        Inr (_, Some Dir) \<Rightarrow> (Inr (), d)
      | _ \<Rightarrow>
          (case at_path False path d of
             Inl e \<Rightarrow> (Inl e, d)
           | Inr (p, None) \<Rightarrow> (Inr (), put_node p Dir d)
           | Inr (_, Some _) \<Rightarrow> (Inl ''EEXIST'', d)))"

fun mkdir_all :: "string list \<Rightarrow> disk \<Rightarrow> (string + unit) \<times> disk" where
  "mkdir_all [] d = (Inr (), d)"
| "mkdir_all (p # ps) d = (case mkdir_one p d of (Inl e, d') \<Rightarrow> (Inl e, d') | (Inr _, d') \<Rightarrow> mkdir_all ps d')"

definition path_prefixes :: "string \<Rightarrow> string list" where
  "path_prefixes path =
     (let ss = filter (\<lambda>s. s \<noteq> '''') (split_on (CHR ''/'') path)
      in map (\<lambda>n. (if isAbsolute path then ''/'' else '''') @ join ''/'' (take n ss)) [1..<Suc (length ss)])"

definition mkdirSync :: "string \<Rightarrow> unit fs_call" where
  "mkdirSync path = fs_call
     (\<lambda>n d. snd (mkdir_all (take n (path_prefixes path)) d))
     (mkdir_all (path_prefixes path))"

text \<open>A path lies below another; what lies below moves and goes with it.\<close>

definition below :: "string list \<Rightarrow> string list \<Rightarrow> bool" where
  "below p q \<longleftrightarrow> length p < length q \<and> take (length p) q = p"

definition del_tree :: "string list \<Rightarrow> disk \<Rightarrow> disk" where
  "del_tree p d = d\<lparr>dk_nodes := filter (\<lambda>(q, _). q \<noteq> p \<and> \<not> below p q) (dk_nodes d)\<rparr>"

definition move_tree :: "string list \<Rightarrow> string list \<Rightarrow> disk \<Rightarrow> disk" where
  "move_tree p q d =
     (let moved = map (\<lambda>(r, x). (q @ drop (length p) r, x)) (filter (\<lambda>(r, _). r = p \<or> below p r) (dk_nodes d));
          kept = filter (\<lambda>(r, _). r \<noteq> p \<and> \<not> below p r \<and> r \<noteq> q) (dk_nodes d)
      in d\<lparr>dk_nodes := moved @ kept\<rparr>)"

definition empty_dir :: "string list \<Rightarrow> disk \<Rightarrow> bool" where
  "empty_dir p d \<longleftrightarrow> list_all (\<lambda>(q, _). \<not> below p q) (dk_nodes d)"

definition rename_one :: "string \<Rightarrow> string \<Rightarrow> disk \<Rightarrow> (string + unit) \<times> disk" where
  "rename_one a b d =
     (case (at_path False a d, at_path False b d) of
        (Inl e, _) \<Rightarrow> (Inl e, d)
      | (_, Inl e) \<Rightarrow> (Inl e, d)
      | (Inr (_, None), _) \<Rightarrow> (Inl ''ENOENT'', d)
      | (Inr (p, Some x), Inr (q, y)) \<Rightarrow>
          if p = q then (Inr (), d)
          else if p = [] \<or> q = [] then (Inl ''EBUSY'', d)
          else if below p q then (Inl ''EINVAL'', d)
          else if x = Dir \<and> y \<noteq> None \<and> y \<noteq> Some Dir then (Inl ''ENOTDIR'', d)
          else if x \<noteq> Dir \<and> y = Some Dir then (Inl ''EISDIR'', d)
          else if y = Some Dir \<and> \<not> empty_dir q d then (Inl ''ENOTEMPTY'', d)
          else (Inr (), if x = Dir then move_tree p q d else put_node q x (del_node p d)))"

definition renameSync :: "string \<Rightarrow> string \<Rightarrow> unit fs_call" where
  "renameSync a b = fs_call untouched (rename_one a b)"

definition unlink_one :: "string \<Rightarrow> disk \<Rightarrow> (string + unit) \<times> disk" where
  "unlink_one path d =
     (case at_path False path d of
        Inl e \<Rightarrow> (Inl e, d)
      | Inr (_, None) \<Rightarrow> (Inl ''ENOENT'', d)
      | Inr (_, Some Dir) \<Rightarrow> (Inl ''EISDIR'', d)
      | Inr (p, Some _) \<Rightarrow> (Inr (), del_node p d))"

definition unlinkSync :: "string \<Rightarrow> unit fs_call" where
  "unlinkSync path = fs_call untouched (unlink_one path)"

text \<open>
  A copy onto the same file does nothing. A copy that fails after it has opened its destination removes the
  destination.
\<close>

definition copy_one :: "string \<Rightarrow> string \<Rightarrow> disk \<Rightarrow> (string + unit) \<times> disk" where
  "copy_one a b d =
     (case at_path True a d of
        Inl e \<Rightarrow> (Inl e, d)
      | Inr (_, None) \<Rightarrow> (Inl ''ENOENT'', d)
      | Inr (_, Some (File s)) \<Rightarrow> (outcome_of b d, write_with (\<lambda>_. s) b d)
      | Inr (_, Some _) \<Rightarrow> (Inl ''EISDIR'', d))"

definition copyFileSync :: "string \<Rightarrow> string \<Rightarrow> unit fs_call" where
  "copyFileSync a b = fs_call (\<lambda>n d. if n = 0 then d else snd (unlink_one b d)) (copy_one a b)"

definition rmdir_one :: "string \<Rightarrow> disk \<Rightarrow> (string + unit) \<times> disk" where
  "rmdir_one path d =
     (case at_path False path d of
        Inl e \<Rightarrow> (Inl e, d)
      | Inr (_, None) \<Rightarrow> (Inl ''ENOENT'', d)
      | Inr (p, Some Dir) \<Rightarrow>
          if p = [] then (Inl ''EBUSY'', d)
          else if empty_dir p d then (Inr (), del_node p d) else (Inl ''ENOTEMPTY'', d)
      | Inr (_, Some _) \<Rightarrow> (Inl ''ENOTDIR'', d))"

definition rmdirSync :: "string \<Rightarrow> unit fs_call" where
  "rmdirSync path = fs_call untouched (rmdir_one path)"

text \<open>\<open>rmSync\<close> with \<open>recursive\<close>: the deepest first; when it fails, some are gone.\<close>

definition rm_one :: "string \<Rightarrow> disk \<Rightarrow> (string + unit) \<times> disk" where
  "rm_one path d =
     (case at_path False path d of
        Inl e \<Rightarrow> (Inl e, d)
      | Inr (_, None) \<Rightarrow> (Inl ''ENOENT'', d)
      | Inr (p, Some _) \<Rightarrow> (Inr (), del_tree p d))"

definition rm_partly :: "string \<Rightarrow> nat \<Rightarrow> disk \<Rightarrow> disk" where
  "rm_partly path n d =
     (case at_path False path d of
        Inr (p, Some Dir) \<Rightarrow>
          fold (\<lambda>q. del_node q)
            (take n (sort_key (\<lambda>q. - int (length q)) (filter (below p) (map fst (dk_nodes d))))) d
      | _ \<Rightarrow> d)"

definition rmSync :: "string \<Rightarrow> unit fs_call" where
  "rmSync path = fs_call (rm_partly path) (rm_one path)"

text \<open>The names in a directory; their order is the system's, here that of the entries.\<close>

definition child_names :: "string list \<Rightarrow> disk \<Rightarrow> string list" where
  "child_names p d = map (\<lambda>(q, _). last q) (filter (\<lambda>(q, _). q \<noteq> [] \<and> butlast q = p) (dk_nodes d))"

definition readdirSync :: "string \<Rightarrow> string list fs_call" where
  "readdirSync path = fs_call untouched (\<lambda>d.
     (case at_path True path d of
        Inl e \<Rightarrow> Inl e
      | Inr (p, Some Dir) \<Rightarrow> Inr (child_names p d)
      | Inr (_, Some _) \<Rightarrow> Inl ''ENOTDIR''
      | Inr (_, None) \<Rightarrow> Inl ''ENOENT'', d))"

text \<open>\<open>path.dirname\<close> of a resolved path.\<close>

definition path_dirname :: "string \<Rightarrow> string" where
  "path_dirname path =
     (let up = join ''/'' (butlast (split_on (CHR ''/'') path)) in if up = '''' then ''/'' else up)"

end
