(* ===== verification/FileTools.thy ===== *)
theory FileTools
  imports Disk
begin

text \<open>
  The tools of \<open>src/tools/\<close> that read and write files: read_file, write_file, append_file, copy_file, move_file,
  make_dir, create_directory, edit_file, delete_file, check_exists, list_directory and read_files_batch.
\<close>

type_synonym 'a file_tool = "disk \<Rightarrow> (tool_error + 'a) \<times> disk"

definition stop_with :: "string \<Rightarrow> string \<Rightarrow> 'a file_tool" where
  "stop_with code message d = (Inl (tool_error code message), d)"

text \<open>A call whose errors end the tool with one error, and one whose missing path is an error of its own.\<close>

definition call_or :: "'a fs_call \<Rightarrow> string \<Rightarrow> ('a \<Rightarrow> 'b file_tool) \<Rightarrow> 'b file_tool" where
  "call_or f message k d = (case f d of (Inl _, d') \<Rightarrow> stop_with ''fs-error'' message d' | (Inr x, d') \<Rightarrow> k x d')"

definition stat_or :: "string \<Rightarrow> string \<Rightarrow> string \<Rightarrow> (node \<Rightarrow> 'b file_tool) \<Rightarrow> 'b file_tool" where
  "stat_or path missing failed k d =
     (case statSync path d of
        (Inl e, d') \<Rightarrow> if e = ''ENOENT'' then stop_with ''not-found'' missing d' else stop_with ''fs-error'' failed d'
      | (Inr x, d') \<Rightarrow> k x d')"

text \<open>A check that goes on when there is nothing at the path.\<close>

definition stat_new :: "string \<Rightarrow> string \<Rightarrow> (node option \<Rightarrow> 'b file_tool) \<Rightarrow> 'b file_tool" where
  "stat_new path failed k d =
     (case statSync path d of
        (Inl e, d') \<Rightarrow> if e = ''ENOENT'' then k None d' else stop_with ''fs-error'' failed d'
      | (Inr x, d') \<Rightarrow> k (Some x) d')"

fun isFile :: "node \<Rightarrow> bool" where
  "isFile (File _) = True"
| "isFile _ = False"

definition resolve_path :: "string \<Rightarrow> disk \<Rightarrow> string" where
  "resolve_path path d = path_resolve (dk_cwd d) [path]"

section \<open>Protected paths\<close>

definition FORBIDDEN_PATHS :: "string list" where
  "FORBIDDEN_PATHS =
     [''/'', ''/bin'', ''/boot'', ''/dev'', ''/etc'', ''/home'', ''/lib'', ''/lib64'', ''/opt'', ''/proc'', ''/root'', ''/run'',
      ''/sbin'', ''/srv'', ''/sys'', ''/tmp'', ''/usr'', ''/usr/bin'', ''/usr/lib'', ''/usr/local'', ''/usr/local/bin'',
      ''/usr/sbin'', ''/var'',
      ''/Applications'', ''/Library'', ''/Network'', ''/System'', ''/Users'', ''/Volumes'', ''/private'', ''/private/etc'',
      ''/private/tmp'', ''/private/var'',
      ''C:'' @ [CHR 0x5C], ''C:'' @ [CHR 0x5C] @ ''Windows'', ''C:'' @ [CHR 0x5C] @ ''Windows'' @ [CHR 0x5C] @ ''System32'']"

definition isForbidden :: "string \<Rightarrow> bool" where
  "isForbidden resolvedPath \<longleftrightarrow> path_normalize resolvedPath \<in> set FORBIDDEN_PATHS"

definition guard :: "string \<Rightarrow> string \<Rightarrow> 'a file_tool \<Rightarrow> 'a file_tool" where
  "guard message p t d = (if isForbidden p then stop_with ''forbidden'' (message @ p) d else t d)"

section \<open>Reading and writing\<close>

definition readFile :: "string \<Rightarrow> string file_tool" where
  "readFile path d =
     (let p = resolve_path path d
      in guard ''Reading from protected system path is not allowed: '' p
           (stat_or p (''File not found: '' @ p) (''Failed to access path: '' @ p) (\<lambda>x.
           if \<not> isFile x then stop_with ''not-a-file'' (''Path is not a file: '' @ p)
           else call_or (read_text p) (''Failed to read file: '' @ p) (\<lambda>content d. (Inr content, d)))) d)"

definition writeFile :: "string \<Rightarrow> string \<Rightarrow> string file_tool" where
  "writeFile path content d =
     (let p = resolve_path path d
      in guard ''Writing to protected system path is not allowed: '' p
           (stat_new p (''Failed to access path: '' @ p) (\<lambda>x.
           if x = Some Dir then stop_with ''not-a-file'' (''Path is not a file: '' @ p)
           else call_or (mkdirSync (path_dirname p)) (''Failed to create parent directory for: '' @ p) (\<lambda>_.
             call_or (writeFileSync p content) (''Failed to write file: '' @ p) (\<lambda>_ d. (Inr p, d))))) d)"

definition appendFile :: "string \<Rightarrow> string \<Rightarrow> string file_tool" where
  "appendFile path content d =
     (let p = resolve_path path d
      in guard ''Appending to protected system path is not allowed: '' p
           (stat_new p (''Failed to access path: '' @ p) (\<lambda>x.
           if x = Some Dir then stop_with ''not-a-file'' (''Path is not a file: '' @ p)
           else call_or (mkdirSync (path_dirname p)) (''Failed to create parent directory for: '' @ p) (\<lambda>_.
             call_or (appendFileSync p content) (''Failed to append to file: '' @ p) (\<lambda>_ d. (Inr p, d))))) d)"

section \<open>Copying and moving\<close>

definition copyFile :: "string \<Rightarrow> string \<Rightarrow> (string \<times> string) file_tool" where
  "copyFile origin target d =
     (let a = resolve_path origin d; b = resolve_path target d
      in stat_or a (''Source file not found: '' @ a) (''Failed to access source path: '' @ a) (\<lambda>x.
           if \<not> isFile x then stop_with ''not-a-file'' (''Source path exists but is not a file: '' @ a)
           else call_or (copyFileSync a b) (''Failed to copy file from '' @ a @ '' to '' @ b) (\<lambda>_ d. (Inr (a, b), d))) d)"

text \<open>Across devices a move is a copy and a deletion, and the copy is taken back when the deletion fails.\<close>

definition move_across :: "string \<Rightarrow> string \<Rightarrow> (string \<times> string) file_tool" where
  "move_across a b =
     call_or (copyFileSync a b) (''Failed to copy file during move from '' @ a @ '' to '' @ b) (\<lambda>_ d.
       (case unlinkSync a d of
          (Inr _, d1) \<Rightarrow> (Inr (a, b), d1)
        | (Inl _, d1) \<Rightarrow>
            stop_with ''fs-error'' (''Failed to delete source after copy during move: '' @ a) (snd (unlinkSync b d1))))"

definition moveFile :: "string \<Rightarrow> string \<Rightarrow> (string \<times> string) file_tool" where
  "moveFile origin target d =
     (let a = resolve_path origin d; b = resolve_path target d
      in stat_or a (''Source file not found: '' @ a) (''Failed to access source path: '' @ a) (\<lambda>x d.
           if \<not> isFile x then stop_with ''not-a-file'' (''Source path exists but is not a file: '' @ a) d
           else (case renameSync a b d of
                   (Inr _, d1) \<Rightarrow> (Inr (a, b), d1)
                 | (Inl e, d1) \<Rightarrow>
                     if e \<noteq> ''EXDEV''
                     then stop_with ''fs-error'' (''Failed to move file from '' @ a @ '' to '' @ b) d1
                     else move_across a b d1)) d)"

section \<open>Directories\<close>

definition make_dir_at :: "string \<Rightarrow> string file_tool" where
  "make_dir_at p =
     stat_new p (''Failed to access path: '' @ p) (\<lambda>x.
       case x of
         Some n \<Rightarrow> if n \<noteq> Dir then stop_with ''not-a-dir'' (''Path exists but is not a directory: '' @ p) else (\<lambda>d. (Inr p, d))
       | None \<Rightarrow> call_or (mkdirSync p) (''Failed to create directory: '' @ p) (\<lambda>_ d. (Inr p, d)))"

definition makeDir :: "string \<Rightarrow> string file_tool" where
  "makeDir path d = make_dir_at (resolve_path path d) d"

definition createDirectory :: "string \<Rightarrow> string file_tool" where
  "createDirectory path d =
     (let p = resolve_path path d
      in guard ''Creation at protected system path is not allowed: '' p
           (make_dir_at p) d)"

record dir_entry =
  de_name :: string
  de_directory :: bool
  de_size :: nat
  de_modified :: string

text \<open>
  The size of a directory and the times are the system's: \<open>info\<close> gives them by the path and the kind. The
  entries whose \<open>stat\<close> fails are left out.
\<close>

fun list_entries :: "(string \<Rightarrow> node \<Rightarrow> nat \<times> string) \<Rightarrow> string \<Rightarrow> string list \<Rightarrow> disk \<Rightarrow> dir_entry list \<times> disk" where
  "list_entries info p [] d = ([], d)"
| "list_entries info p (name # names) d =
     (case statSync (path_join p name) d of
        (Inl _, d1) \<Rightarrow> list_entries info p names d1
      | (Inr x, d1) \<Rightarrow>
          (case list_entries info p names d1 of (es, d2) \<Rightarrow>
             (\<lparr>de_name = name, de_directory = (x = Dir),
               de_size = (case x of File s \<Rightarrow> length s | _ \<Rightarrow> fst (info (path_join p name) x)),
               de_modified = snd (info (path_join p name) x)\<rparr> # es, d2)))"

definition listDirectory :: "(string \<Rightarrow> node \<Rightarrow> nat \<times> string) \<Rightarrow> string \<Rightarrow> (string \<times> dir_entry list) file_tool" where
  "listDirectory info path d =
     (let p = resolve_path path d
      in guard ''Listing protected system path is not allowed: '' p
           (stat_or p (''Directory not found: '' @ p) (''Failed to access path: '' @ p) (\<lambda>x.
           if x \<noteq> Dir then stop_with ''not-a-dir'' (''Path is not a directory: '' @ p)
           else call_or (readdirSync p) (''Failed to read directory: '' @ p) (\<lambda>names d.
             (case list_entries info p names d of (es, d') \<Rightarrow> (Inr (p, es), d'))))) d)"

section \<open>Deleting\<close>

definition delete_dir :: "string \<Rightarrow> string file_tool" where
  "delete_dir p d =
     (case rmdirSync p d of
        (Inr _, d1) \<Rightarrow> (Inr p, d1)
      | (Inl e, d1) \<Rightarrow>
          if e = ''ENOTEMPTY'' \<or> e = ''EEXIST'' then stop_with ''not-empty'' (''Directory is not empty: '' @ p) d1
          else stop_with ''fs-error'' (''Failed to delete directory: '' @ p) d1)"

definition deleteFile :: "string \<Rightarrow> bool \<Rightarrow> string file_tool" where
  "deleteFile path recursive d =
     (let p = resolve_path path d
      in guard ''Deletion of protected system path is not allowed: '' p
           (stat_or p (''Path not found: '' @ p) (''Failed to access path: '' @ p) (\<lambda>x.
           if x = Dir
           then (if recursive
                 then call_or (rmSync p) (''Failed to recursively delete directory: '' @ p) (\<lambda>_ d. (Inr p, d))
                 else delete_dir p)
           else call_or (unlinkSync p) (''Failed to delete file: '' @ p) (\<lambda>_ d. (Inr p, d)))) d)"

section \<open>Editing\<close>

text \<open>
  \<open>String.replace\<close> with two texts: the first place of the first, with the second put there. In the second,
  \<open>$$\<close> stands for a dollar, \<open>$&\<close> for the text replaced, a dollar and a backquote for what is in front of it
  and a dollar and a quote for what is behind it.
\<close>

fun substitution :: "string \<Rightarrow> string \<Rightarrow> string \<Rightarrow> string \<Rightarrow> string" where
  "substitution matched before after [] = []"
| "substitution matched before after [c] = [c]"
| "substitution matched before after (c # e # cs) =
     (if c = CHR ''$'' \<and> e = CHR ''$'' then CHR ''$'' # substitution matched before after cs
      else if c = CHR ''$'' \<and> e = CHR ''&'' then matched @ substitution matched before after cs
      else if c = CHR ''$'' \<and> e = CHR 0x60 then before @ substitution matched before after cs
      else if c = CHR ''$'' \<and> e = CHR 0x27 then after @ substitution matched before after cs
      else c # substitution matched before after (e # cs))"

fun split_first :: "string \<Rightarrow> string \<Rightarrow> (string \<times> string) option" where
  "split_first p [] = (if p = [] then Some ([], []) else None)"
| "split_first p (c # cs) =
     (if starts_with (c # cs) p then Some ([], drop (length p) (c # cs))
      else map_option (\<lambda>(a, b). (c # a, b)) (split_first p cs))"

definition replace_first :: "string \<Rightarrow> string \<Rightarrow> string \<Rightarrow> string" where
  "replace_first old new s =
     (case split_first old s of
        None \<Rightarrow> s
      | Some (before, after) \<Rightarrow> before @ substitution old before after new @ after)"

definition editFile :: "string \<Rightarrow> string \<Rightarrow> string \<Rightarrow> string file_tool" where
  "editFile path old_string new_string =
     stat_or path (''File not found: '' @ path) (''Failed to access path: '' @ path) (\<lambda>x.
       if \<not> isFile x then stop_with ''not-a-file'' (''Path is not a file: '' @ path)
       else call_or (read_text path) (''Failed to read file: '' @ path) (\<lambda>content.
         if \<not> js_includes content old_string then stop_with ''string-not-found'' (''String not found in file: '' @ path)
         else call_or (writeFileSync path (replace_first old_string new_string content))
           (''Failed to write file: '' @ path) (\<lambda>_ d. (Inr path, d))))"

section \<open>Other reads\<close>

definition checkExists :: "string \<Rightarrow> bool file_tool" where
  "checkExists path d = (Inr (exists_path (resolve_path path d) d), d)"

definition readOnePath :: "string \<Rightarrow> disk \<Rightarrow> (tool_error + string) \<times> disk" where
  "readOnePath path =
     stat_or path (''File not found: '' @ path) (''Failed to access path: '' @ path) (\<lambda>x.
       if \<not> isFile x then stop_with ''not-a-file'' (''Path is not a file: '' @ path)
       else call_or (read_text path) (''Failed to read file: '' @ path) (\<lambda>content d. (Inr content, d)))"

text \<open>
  The paths are read at the same time; as they only read, they are taken one after the other here. A later
  result for a path replaces an earlier one, and setting \<open>__proto__\<close> sets no key.
\<close>

fun readFilesBatch :: "string list \<Rightarrow> (string, tool_error + string) jsmap \<Rightarrow> disk
    \<Rightarrow> (string, tool_error + string) jsmap \<times> disk" where
  "readFilesBatch [] results d = (results, d)"
| "readFilesBatch (path # paths) results d =
     (case readOnePath path d of (r, d1) \<Rightarrow>
        readFilesBatch paths (if path = ''__proto__'' then results else AList.update path r results) d1)"

end
