(* ===== verification/FileToolsProps.thy ===== *)
theory FileToolsProps
  imports FileTools
begin

text \<open>
  What the file tools do to the disk: protected paths are refused before anything is called, what is written
  is read back, a move never loses its source, an edit replaces the first place of its text, and a deletion
  stays below its path, whatever errors of the system the calls meet.
\<close>

section \<open>Resolved paths\<close>

lemma norm_segs_sub: "set (norm_segs True ss acc) \<subseteq> set ss \<union> set acc"
proof (induction ss arbitrary: acc)
  case (Cons s ss)
  have IH: "set (norm_segs True ss b) \<subseteq> set (s # ss) \<union> set acc" if "set b \<subseteq> insert s (set acc)" for b
    using Cons.IH [of b] that by auto
  show ?case
    by (cases acc) (auto simp: subset_iff dest!: IH [THEN subsetD, rotated])
qed simp

definition clean_segs :: "string list \<Rightarrow> bool" where
  "clean_segs ss \<longleftrightarrow> list_all (\<lambda>s. plain_seg s \<and> CHR ''/'' \<notin> set s) ss"

lemma resolved_segs: "\<exists>ss. path_resolve cwd ps = ''/'' @ join ''/'' ss \<and> clean_segs ss"
proof -
  define ss where "ss = norm_segs True (split_on (CHR ''/'') (resolve_text cwd (rev ps) '''')) []"
  have "list_all plain_seg ss" unfolding ss_def by (rule norm_segs_plain) simp
  moreover have "CHR ''/'' \<notin> set s" if "s \<in> set ss" for s
    using that norm_segs_sub [of "split_on (CHR ''/'') (resolve_text cwd (rev ps) '''')" "[]"] split_on_tokens
    unfolding ss_def by fastforce
  ultimately show ?thesis by (auto simp: path_resolve_def ss_def clean_segs_def list_all_iff)
qed

lemma join_clean:
  assumes "clean_segs ss" "ss \<noteq> []"
  shows "split_on (CHR ''/'') (join ''/'' ss) = ss" "join ''/'' ss \<noteq> ''''" "last (join ''/'' ss) \<noteq> CHR ''/''"
proof -
  show split: "split_on (CHR ''/'') (join ''/'' ss) = ss"
    using assms by (intro split_on_join) (auto simp: clean_segs_def list_all_iff)
  have "ss \<noteq> [[]]" using assms(1) by (auto simp: clean_segs_def plain_seg_def)
  with split show "join ''/'' ss \<noteq> ''''" by auto
  obtain init t where ss: "ss = init @ [t]" using assms(2) by (cases ss rule: rev_cases) auto
  then have "t \<noteq> ''''" "CHR ''/'' \<notin> set t" using assms(1) by (auto simp: clean_segs_def plain_seg_def)
  moreover have "\<exists>u. join ''/'' ss = u @ t" using ss by (cases "init = []") (simp_all add: join_snoc)
  ultimately show "last (join ''/'' ss) \<noteq> CHR ''/''" by (metis last_appendR last_in_set)
qed

lemma normalize_clean: "clean_segs ss \<Longrightarrow> path_normalize (''/'' @ join ''/'' ss) = ''/'' @ join ''/'' ss"
proof (cases "ss = []")
  case False
  moreover assume ss: "clean_segs ss"
  moreover have "norm_segs True ([] # ss) [] = ss"
    using ss norm_segs_id [of ss True "[]"] by (simp add: clean_segs_def list_all_iff)
  ultimately show ?thesis
    using join_clean [OF ss False] by (simp add: path_normalize_def isAbsolute_def starts_with_def)
qed (simp add: path_normalize_def isAbsolute_def starts_with_def)

lemma normalize_resolved: "path_normalize (path_resolve cwd ps) = path_resolve cwd ps"
  using resolved_segs [of cwd ps] normalize_clean by auto

lemma forbidden_resolved: "isForbidden (resolve_path path d) \<longleftrightarrow> resolve_path path d \<in> set FORBIDDEN_PATHS"
  by (simp add: isForbidden_def resolve_path_def normalize_resolved)

section \<open>Protected paths\<close>

definition refused :: "(tool_error + 'a) \<times> disk \<Rightarrow> disk \<Rightarrow> bool" where
  "refused r d \<longleftrightarrow> (\<exists>message. r = (Inl (tool_error ''forbidden'' message), d))"

lemmas file_tool_simps = stat_or_def stat_new_def call_or_def stop_with_def delete_dir_def make_dir_at_def Let_def

lemma te_code_error: "te_code (tool_error code message) = code"
  by (simp add: tool_error_def)

text \<open>The codes a tool can fail with behind its guard.\<close>

definition codes_in :: "string list \<Rightarrow> 'a file_tool \<Rightarrow> bool" where
  "codes_in cs t \<longleftrightarrow> (\<forall>d e. fst (t d) = Inl e \<longrightarrow> te_code e \<in> set cs)"

named_theorems codes

lemma codes_ok [codes]: "codes_in cs (\<lambda>d. (Inr x, d))"
  by (simp add: codes_in_def)

lemma codes_stop [codes]: "code \<in> set cs \<Longrightarrow> codes_in cs (stop_with code message)"
  by (simp add: codes_in_def stop_with_def tool_error_def)

lemma codes_call [codes]: "''fs-error'' \<in> set cs \<Longrightarrow> (\<And>x. codes_in cs (k x)) \<Longrightarrow> codes_in cs (call_or f message k)"
  by (auto simp: codes_in_def call_or_def stop_with_def tool_error_def split: prod.splits sum.splits)

lemma codes_stat [codes]:
  "''fs-error'' \<in> set cs \<Longrightarrow> ''not-found'' \<in> set cs \<Longrightarrow> (\<And>x. codes_in cs (k x)) \<Longrightarrow> codes_in cs (stat_or p missing failed k)"
  by (auto simp: codes_in_def stat_or_def stop_with_def tool_error_def split: prod.splits sum.splits if_splits)

lemma codes_stat_new [codes]:
  "''fs-error'' \<in> set cs \<Longrightarrow> (\<And>x. codes_in cs (k x)) \<Longrightarrow> codes_in cs (stat_new p failed k)"
  by (auto simp: codes_in_def stat_new_def stop_with_def tool_error_def split: prod.splits sum.splits if_splits)

lemma codes_if [codes]: "codes_in cs t \<Longrightarrow> codes_in cs u \<Longrightarrow> codes_in cs (if b then t else u)"
  by simp

lemma codes_not_refused: "codes_in cs t \<Longrightarrow> ''forbidden'' \<notin> set cs \<Longrightarrow> \<not> refused (t d) d"
  unfolding codes_in_def refused_def by (metis fst_conv te_code_error)

lemma codes_delete_dir [codes]: "set [''fs-error'', ''not-empty''] \<subseteq> set cs \<Longrightarrow> codes_in cs (delete_dir p)"
  by (auto simp: codes_in_def delete_dir_def stop_with_def tool_error_def split: prod.splits sum.splits if_splits)

lemma codes_make_dir [codes]: "set [''fs-error'', ''not-a-dir''] \<subseteq> set cs \<Longrightarrow> codes_in cs (make_dir_at p)"
  unfolding make_dir_at_def by (intro codes) (auto split: option.split intro!: codes)

lemma codes_list [codes]: "codes_in cs (\<lambda>d. case list_entries info p names d of (es, d') \<Rightarrow> (Inr (p, es), d'))"
  by (auto simp: codes_in_def split: prod.splits)

lemma guarded:
  assumes "codes_in cs t" "''forbidden'' \<notin> set cs"
  shows "refused (guard message p t d) d \<longleftrightarrow> isForbidden p"
  using codes_not_refused [OF assms] by (auto simp: guard_def refused_def stop_with_def)

abbreviation all_codes :: "string list" where
  "all_codes \<equiv> [''fs-error'', ''not-found'', ''not-a-file'', ''not-a-dir'', ''not-empty'']"

text \<open>
  C9. The tools that read, write, append to, list, create and delete what a path leads to refuse it exactly when
  it resolves to a protected path, however it is spelled, and then they have called nothing and changed
  nothing.
\<close>

theorem protected_paths_refused:
  "(refused (readFile path d) d \<longleftrightarrow> resolve_path path d \<in> set FORBIDDEN_PATHS)
   \<and> (refused (writeFile path content d) d \<longleftrightarrow> resolve_path path d \<in> set FORBIDDEN_PATHS)
   \<and> (refused (appendFile path content d) d \<longleftrightarrow> resolve_path path d \<in> set FORBIDDEN_PATHS)
   \<and> (refused (createDirectory path d) d \<longleftrightarrow> resolve_path path d \<in> set FORBIDDEN_PATHS)
   \<and> (refused (listDirectory info path d) d \<longleftrightarrow> resolve_path path d \<in> set FORBIDDEN_PATHS)
   \<and> (refused (deleteFile path recursive d) d \<longleftrightarrow> resolve_path path d \<in> set FORBIDDEN_PATHS)"
  unfolding readFile_def writeFile_def appendFile_def createDirectory_def listDirectory_def deleteFile_def Let_def
    forbidden_resolved [symmetric]
  by (intro conjI; rule guarded [where cs = all_codes]; (intro codes; simp)?; simp?)

section \<open>Places and calls\<close>

text \<open>
  A walk ends where the last segment leads, or at nothing; so it passes no place that is a file or missing,
  and does not see what is put there.
\<close>

definition loose :: "node option \<Rightarrow> bool" where
  "loose x \<longleftrightarrow> (case x of None \<Rightarrow> True | Some (File _) \<Rightarrow> True | _ \<Rightarrow> False)"

lemma follow_skip: "s = '''' \<or> s = ''.'' \<Longrightarrow> follow links ns final here (s # ss) = follow links ns final here ss"
  by auto

lemma follow_up: "follow links ns final here (''..'' # ss) = follow links ns final (butlast here) ss"
  by simp

lemma follow_down:
  "plain_seg s \<Longrightarrow> follow links ns final here (s # ss) =
     (case node_at ns (here @ [s]) of
        None \<Rightarrow> if ss = [] then Inr (here @ [s]) else Inl ''ENOENT''
      | Some Dir \<Rightarrow> follow links ns final (here @ [s]) ss
      | Some (File _) \<Rightarrow> if ss = [] then Inr (here @ [s]) else Inl ''ENOTDIR''
      | Some (Link t) \<Rightarrow>
          if ss = [] \<and> \<not> final then Inr (here @ [s])
          else if links = 0 then Inl ''ELOOP''
          else follow (links - 1) ns final (if isAbsolute t then [] else here) (split_on (CHR ''/'') t @ ss))"
  by (simp add: plain_seg_def)

declare follow.simps(2) [simp del]

text \<open>
  Two trees of nodes are alike for a walk to \<open>p\<close> if they differ only at places that are files or missing in the
  first, and in the second \<open>p\<close> is a file if it differs.
\<close>

definition alike_for :: "string list \<Rightarrow> (string list, node) jsmap \<Rightarrow> (string list, node) jsmap \<Rightarrow> bool" where
  "alike_for p ns ns' \<longleftrightarrow>
     (\<forall>q. node_at ns' q = node_at ns q
        \<or> loose (node_at ns q) \<and> (q = p \<longrightarrow> (\<exists>c. node_at ns' q = Some (File c))))"

lemma follow_alike:
  "follow links ns final here ss = Inr p \<Longrightarrow> alike_for p ns ns' \<Longrightarrow> follow links ns' final here ss = Inr p"
proof (induction links ns final here ss rule: follow.induct)
  case (2 links ns final here s ss)
  consider (skip) "s = '''' \<or> s = ''.''" | (up) "s = ''..''" | (down) "plain_seg s"
    unfolding plain_seg_def by blast
  then show ?case
  proof cases
    case skip
    with 2 show ?thesis by (simp add: follow_skip)
  next
    case up
    with 2 show ?thesis by (simp add: follow_up)
  next
    case down
    then have s: "\<not> (s = '''' \<or> s = ''.'')" "s \<noteq> ''..''" by (auto simp: plain_seg_def)
    let ?q = "here @ [s]"
    consider (same) "node_at ns' ?q = node_at ns ?q"
      | (differs) "loose (node_at ns ?q)" "?q = p \<longrightarrow> (\<exists>c. node_at ns' ?q = Some (File c))"
      using "2.prems"(2) unfolding alike_for_def by blast
    then show ?thesis
    proof cases
      case differs
      with "2.prems"(1) have "ss = []" "?q = p"
        by (auto simp: follow_down [OF down] loose_def split: option.splits node.splits if_splits)
      with differs show ?thesis by (auto simp: follow_down [OF down])
    next
      case same
      show ?thesis
      proof (cases "node_at ns ?q")
        case None
        with same "2.prems"(1) show ?thesis by (simp add: follow_down [OF down] split: if_splits)
      next
        case (Some x)
        show ?thesis
        proof (cases x)
          case (File c)
          with same Some "2.prems"(1) show ?thesis by (simp add: follow_down [OF down] split: if_splits)
        next
          case Dir
          with Some "2.prems"(1) have "follow links ns final ?q ss = Inr p" by (simp add: follow_down [OF down])
          then have "follow links ns' final ?q ss = Inr p"
            using "2.IH"(3) [OF s Some Dir] "2.prems"(2) by blast
          with same Some Dir show ?thesis by (simp add: follow_down [OF down])
        next
          case (Link t)
          show ?thesis
          proof (cases "ss = [] \<and> \<not> final")
            case True
            with same Some Link "2.prems"(1) show ?thesis by (simp add: follow_down [OF down])
          next
            case False
            with Some Link "2.prems"(1) have links: "links \<noteq> 0"
              and walk: "follow (links - 1) ns final (if isAbsolute t then [] else here) (split_on (CHR ''/'') t @ ss) = Inr p"
              by (auto simp: follow_down [OF down] split: if_splits)
            have "follow (links - 1) ns' final (if isAbsolute t then [] else here) (split_on (CHR ''/'') t @ ss) = Inr p"
              using "2.IH"(4) [OF s Some Link False links walk "2.prems"(2)] .
            with same Some Link False links show ?thesis by (auto simp: follow_down [OF down])
          qed
        qed
      qed
    qed
  qed
qed simp

text \<open>When the walk that stops at a link ends elsewhere, the walk through links ends there too.\<close>

lemma follow_final:
  "follow links ns False here ss = Inr p \<Longrightarrow> (\<And>t. node_at ns p \<noteq> Some (Link t)) \<Longrightarrow>
     follow links ns True here ss = Inr p"
proof (induction links ns False here ss rule: follow.induct)
  case (2 links ns here s ss)
  consider (skip) "s = '''' \<or> s = ''.''" | (up) "s = ''..''" | (down) "plain_seg s"
    unfolding plain_seg_def by blast
  then show ?case
  proof cases
    case skip
    with 2 show ?thesis by (simp add: follow_skip)
  next
    case up
    with 2 show ?thesis by (simp add: follow_up)
  next
    case down
    then have s: "\<not> (s = '''' \<or> s = ''.'')" "s \<noteq> ''..''" by (auto simp: plain_seg_def)
    let ?q = "here @ [s]"
    show ?thesis
    proof (cases "node_at ns ?q")
      case None
      with "2.prems"(1) show ?thesis by (simp add: follow_down [OF down] split: if_splits)
    next
      case (Some x)
      show ?thesis
      proof (cases x)
        case (File c)
        with Some "2.prems"(1) show ?thesis by (simp add: follow_down [OF down] split: if_splits)
      next
        case Dir
        with Some "2.prems"(1) have "follow links ns False ?q ss = Inr p" by (simp add: follow_down [OF down])
        then have "follow links ns True ?q ss = Inr p" using "2.hyps"(3) [OF s Some Dir] "2.prems"(2) by blast
        with Some Dir show ?thesis by (simp add: follow_down [OF down])
      next
        case (Link t)
        with Some "2.prems" have ss: "ss \<noteq> []" by (auto simp: follow_down [OF down])
        with Some Link "2.prems"(1) have links: "links \<noteq> 0"
          and walk: "follow (links - 1) ns False (if isAbsolute t then [] else here) (split_on (CHR ''/'') t @ ss) = Inr p"
          by (auto simp: follow_down [OF down] split: if_splits)
        from ss have "\<not> (ss = [] \<and> \<not> False)" by simp
        from "2.hyps"(4) [OF s Some Link this links walk "2.prems"(2)] Some Link ss links
        show ?thesis by (auto simp: follow_down [OF down])
      qed
    qed
  qed
qed simp

lemma node_at_update: "p \<noteq> [] \<Longrightarrow> node_at (AList.update p x ns) q = (if q = p then Some x else node_at ns q)"
  by (simp add: node_at_def update_conv)

lemma node_at_delete: "p \<noteq> [] \<Longrightarrow> node_at (AList.delete p ns) q = (if q = p then None else node_at ns q)"
  by (auto simp: node_at_def delete_conv)

lemma loose_place: "loose (node_at ns p) \<Longrightarrow> p \<noteq> []"
  by (auto simp: loose_def node_at_def)

lemma put_node_fields [simp]:
  "dk_nodes (put_node p x d) = AList.update p x (dk_nodes d)" "dk_cwd (put_node p x d) = dk_cwd d"
  "dk_faults (put_node p x d) = dk_faults d" "dk_time (put_node p x d) = dk_time d"
  by (simp_all add: put_node_def)

lemma del_node_fields [simp]:
  "dk_nodes (del_node p d) = AList.delete p (dk_nodes d)" "dk_cwd (del_node p d) = dk_cwd d"
  "dk_faults (del_node p d) = dk_faults d" "dk_time (del_node p d) = dk_time d"
  by (simp_all add: del_node_def)

lemma canon_alike:
  "canon final path d = Inr p \<Longrightarrow> alike_for p (dk_nodes d) (dk_nodes d') \<Longrightarrow> dk_cwd d' = dk_cwd d \<Longrightarrow>
     canon final path d' = Inr p"
  unfolding canon_def by (cases "CHR 0x00 \<in> set path"; cases "path = []") (auto intro: follow_alike)

lemma canon_same: "dk_nodes d' = dk_nodes d \<Longrightarrow> dk_cwd d' = dk_cwd d \<Longrightarrow> canon final path d' = canon final path d"
  by (simp add: canon_def)

lemma canon_final:
  "canon False path d = Inr p \<Longrightarrow> (\<And>t. node_at (dk_nodes d) p \<noteq> Some (Link t)) \<Longrightarrow> canon True path d = Inr p"
  using follow_final [of MAX_LINKS "dk_nodes d" "[]" _ p] by (auto simp: canon_def split: if_splits)

lemma alike_put:
  assumes "loose (node_at (dk_nodes d) q)"
  shows "alike_for p (dk_nodes d) (dk_nodes (put_node q (File c) d))"
  using assms loose_place [OF assms] unfolding alike_for_def put_node_fields by (auto simp: node_at_update)

lemma at_path_iff:
  "at_path final path d = Inr (p, x) \<longleftrightarrow> canon final path d = Inr p \<and> node_at (dk_nodes d) p = x"
  by (auto simp: at_path_def split: sum.split)

lemma at_path_same: "dk_nodes d' = dk_nodes d \<Longrightarrow> dk_cwd d' = dk_cwd d \<Longrightarrow> at_path final path d' = at_path final path d"
  by (simp only: at_path_def canon_same [of d' d])

lemma write_target_at:
  "write_target path d = Inr (p, s) \<longleftrightarrow>
     canon True path d = Inr p \<and> (node_at (dk_nodes d) p = Some (File s) \<or> node_at (dk_nodes d) p = None \<and> s = '''')"
  by (auto simp: write_target_def at_path_def split: sum.splits option.splits node.splits)

lemma write_with_at:
  assumes "write_target path d = Inr (p, s)"
  shows "write_with new path d = put_node p (File (new s)) d"
    "at_path True path (write_with new path d) = Inr (p, Some (File (new s)))"
proof -
  from assms have at: "canon True path d = Inr p" "loose (node_at (dk_nodes d) p)"
    by (auto simp: write_target_at loose_def)
  show eq: "write_with new path d = put_node p (File (new s)) d" using assms by (simp add: write_with_def)
  have "canon True path (put_node p (File (new s)) d) = Inr p" using canon_alike [OF at(1) alike_put [OF at(2)]] by simp
  with loose_place [OF at(2)] show "at_path True path (write_with new path d) = Inr (p, Some (File (new s)))"
    unfolding eq at_path_iff by (simp add: node_at_update)
qed

section \<open>Writing and reading\<close>

text \<open>Directories that are made on the way are all that changes, and only where nothing was.\<close>

definition grown :: "disk \<Rightarrow> disk \<Rightarrow> bool" where
  "grown d d' \<longleftrightarrow> dk_cwd d' = dk_cwd d \<and> dk_faults d' = dk_faults d
     \<and> (\<forall>q. node_at (dk_nodes d') q = node_at (dk_nodes d) q
          \<or> node_at (dk_nodes d) q = None \<and> node_at (dk_nodes d') q = Some Dir)"

lemma grown_refl: "grown d d"
  by (simp add: grown_def)

lemma grown_trans: "grown d d' \<Longrightarrow> grown d' d'' \<Longrightarrow> grown d d''"
  unfolding grown_def by (metis option.distinct(1))

lemma grown_time: "grown d (d'\<lparr>dk_time := n\<rparr>) = grown d d'" "grown (d\<lparr>dk_time := n\<rparr>) d' = grown d d'"
  by (simp_all add: grown_def)

lemma grown_put_dir: "node_at (dk_nodes d) p = None \<Longrightarrow> grown d (put_node p Dir d)"
  by (cases "p = []") (auto simp: grown_def node_at_update, auto simp: node_at_def)

lemma grown_at_path:
  assumes "grown d d'" "at_path final path d = Inr (p, Some x)"
  shows "at_path final path d' = Inr (p, Some x)"
proof -
  have "alike_for p (dk_nodes d) (dk_nodes d')"
    using assms unfolding grown_def alike_for_def at_path_iff loose_def by (metis option.simps(3,4))
  then have "canon final path d' = Inr p"
    using assms canon_alike [of final path d p d'] by (auto simp: at_path_iff grown_def)
  moreover have "node_at (dk_nodes d') p = Some x"
    using assms unfolding grown_def at_path_iff by (metis option.distinct(1))
  ultimately show ?thesis by (simp add: at_path_iff)
qed

lemma mkdir_one_grown: "grown d (snd (mkdir_one path d))"
  by (auto simp: mkdir_one_def at_path_iff grown_refl grown_put_dir split: sum.split prod.split option.split node.split)

lemma mkdir_all_grown: "grown d (snd (mkdir_all ps d))"
proof (induction ps arbitrary: d)
  case (Cons p ps)
  obtain r d1 where one: "mkdir_one p d = (r, d1)" by (cases "mkdir_one p d")
  with mkdir_one_grown [of d p] have "grown d d1" by simp
  with one Cons [of d1] grown_trans show ?case by (cases r) auto
qed (simp add: grown_refl)

lemma mkdirSync_grown: "grown d (snd (mkdirSync path d))"
  using mkdir_all_grown [of "d\<lparr>dk_time := Suc (dk_time d)\<rparr>"]
  by (auto simp: mkdirSync_def fs_call_def grown_time Let_def split: option.split prod.split)

lemma statSync_disk: "snd (statSync path d) = d\<lparr>dk_time := Suc (dk_time d)\<rparr>"
  by (simp add: statSync_def fs_call_def untouched_def Let_def split: option.split prod.split)

lemma statSync_ok: "fst (statSync path d) = Inr x \<Longrightarrow> \<exists>p. at_path True path d = Inr (p, Some x)"
  using at_path_same [of "d\<lparr>dk_time := Suc (dk_time d)\<rparr>" d True path]
  by (auto simp: statSync_def fs_call_def Let_def split: option.splits prod.splits sum.splits)

text \<open>A tool that has succeeded has come through its calls.\<close>

lemma call_or_ok: "call_or f message k d = (Inr y, d') \<Longrightarrow> \<exists>x d1. f d = (Inr x, d1) \<and> k x d1 = (Inr y, d')"
  by (auto simp: call_or_def stop_with_def split: prod.splits sum.splits)

lemma call_end_ok:
  assumes "call_or f message (\<lambda>_ d. (Inr y, d)) d = (Inr z, d')"
  obtains x where "f d = (Inr x, d')" "z = y"
  using call_or_ok [OF assms] by blast

lemma stat_or_ok:
  "stat_or path missing failed k d = (Inr y, d') \<Longrightarrow>
     \<exists>x. fst (statSync path d) = Inr x \<and> k x (d\<lparr>dk_time := Suc (dk_time d)\<rparr>) = (Inr y, d')"
  using statSync_disk [of path d] by (auto simp: stat_or_def stop_with_def split: prod.splits sum.splits if_splits)

lemma stat_new_ok:
  "stat_new path failed k d = (Inr y, d') \<Longrightarrow> \<exists>x. k x (d\<lparr>dk_time := Suc (dk_time d)\<rparr>) = (Inr y, d')"
  using statSync_disk [of path d] by (auto simp: stat_new_def stop_with_def split: prod.splits sum.splits if_splits)

lemma guard_ok: "guard message p t d = (Inr y, d') \<Longrightarrow> \<not> isForbidden p \<and> t d = (Inr y, d')"
  by (auto simp: guard_def stop_with_def split: if_splits)

lemma fs_call_ok:
  "fs_call partly f d = (Inr x, d') \<Longrightarrow> f (d\<lparr>dk_time := Suc (dk_time d)\<rparr>) = (Inr x, d')"
  by (auto simp: fs_call_def Let_def split: option.splits prod.splits)

lemma write_ok:
  "(outcome_of path d, write_with new path d) = (Inr x, d') \<Longrightarrow>
     \<exists>p s. write_target path d = Inr (p, s) \<and> d' = put_node p (File (new s)) d"
  by (auto simp: outcome_of_def write_with_def split: sum.splits)

lemma writeFileSync_ok:
  assumes "writeFileSync path content d = (Inr x, d')"
  shows "\<exists>p. canon True path d = Inr p \<and> loose (node_at (dk_nodes d) p)
    \<and> d' = put_node p (File content) (d\<lparr>dk_time := Suc (dk_time d)\<rparr>)"
proof -
  from fs_call_ok [OF assms [unfolded writeFileSync_def]] obtain p s where
    "write_target path (d\<lparr>dk_time := Suc (dk_time d)\<rparr>) = Inr (p, s)" "d' = put_node p (File content) (d\<lparr>dk_time := Suc (dk_time d)\<rparr>)"
    using write_ok by blast
  then show ?thesis using canon_same [of "d\<lparr>dk_time := Suc (dk_time d)\<rparr>" d] by (auto simp: write_target_at loose_def)
qed

lemma appendFileSync_ok:
  assumes "appendFileSync path content d = (Inr x, d')" "at_path True path d = Inr (p, Some (File s))"
  shows "d' = put_node p (File (s @ content)) (d\<lparr>dk_time := Suc (dk_time d)\<rparr>)"
proof -
  have "write_target path (d\<lparr>dk_time := Suc (dk_time d)\<rparr>) = Inr (p, s)"
    using assms(2) canon_same [of "d\<lparr>dk_time := Suc (dk_time d)\<rparr>" d] by (simp add: write_target_at at_path_iff)
  then show ?thesis using fs_call_ok [OF assms(1) [unfolded appendFileSync_def]] by (simp add: outcome_of_def write_with_def)
qed

text \<open>What a successful write leaves.\<close>

lemma put_file_at:
  assumes "canon True path d = Inr p" "loose (node_at (dk_nodes d) p)"
  shows "at_path True path (put_node p (File c) (d\<lparr>dk_time := n\<rparr>)) = Inr (p, Some (File c))"
proof -
  let ?d = "put_node p (File c) (d\<lparr>dk_time := n\<rparr>)"
  have "canon True path ?d = Inr p"
    using canon_alike [OF assms(1) alike_put [OF assms(2)]] canon_same [of ?d "put_node p (File c) d"] by simp
  then show ?thesis using loose_place [OF assms(2)] by (simp add: at_path_iff node_at_update)
qed

definition only_changed :: "string list \<Rightarrow> disk \<Rightarrow> disk \<Rightarrow> bool" where
  "only_changed p d d' \<longleftrightarrow> dk_cwd d' = dk_cwd d \<and> dk_faults d' = dk_faults d
     \<and> (\<forall>q. q = p \<or> node_at (dk_nodes d') q = node_at (dk_nodes d) q
          \<or> node_at (dk_nodes d) q = None \<and> node_at (dk_nodes d') q = Some Dir)"

lemma only_changed_trans: "only_changed p d d' \<Longrightarrow> only_changed p d' d'' \<Longrightarrow> only_changed p d d''"
  unfolding only_changed_def by (metis option.distinct(1))

lemma grown_only_changed: "grown d d' \<Longrightarrow> only_changed p d d'"
  by (auto simp: grown_def only_changed_def)

lemma put_only_changed: "p \<noteq> [] \<Longrightarrow> only_changed p d (put_node p x (d\<lparr>dk_time := n\<rparr>))"
  by (simp add: only_changed_def node_at_update)

lemma writeFile_ok:
  assumes "writeFile path s d = (Inr q, d')"
  shows "q = resolve_path path d \<and> \<not> isForbidden q
    \<and> (\<exists>p. at_path True q d' = Inr (p, Some (File s)) \<and> only_changed p d d')"
proof -
  define q' where "q' = resolve_path path d"
  define d0 where "d0 = d\<lparr>dk_time := Suc (dk_time d)\<rparr>"
  from assms [unfolded writeFile_def Let_def, folded q'_def] guard_ok stat_new_ok obtain x where
    q': "\<not> isForbidden q'" and
    rest: "call_or (mkdirSync (path_dirname q')) (''Failed to create parent directory for: '' @ q') (\<lambda>_.
             call_or (writeFileSync q' s) (''Failed to write file: '' @ q') (\<lambda>_ d. (Inr q', d))) d0 = (Inr q, d')"
    unfolding d0_def by (auto simp: stop_with_def split: if_splits dest!: guard_ok stat_new_ok)
  from call_or_ok [OF rest] obtain u d1 where made: "mkdirSync (path_dirname q') d0 = (Inr u, d1)"
    and "call_or (writeFileSync q' s) (''Failed to write file: '' @ q') (\<lambda>_ d. (Inr q', d)) d1 = (Inr q, d')" by blast
  from this(2) obtain v where written: "writeFileSync q' s d1 = (Inr v, d')" and q: "q = q'" by (rule call_end_ok)
  from writeFileSync_ok [OF written] obtain p where p: "canon True q' d1 = Inr p" "loose (node_at (dk_nodes d1) p)"
    and d': "d' = put_node p (File s) (d1\<lparr>dk_time := Suc (dk_time d1)\<rparr>)" by blast
  have "grown d0 d1" using mkdirSync_grown [of d0 "path_dirname q'"] by (simp add: made)
  then have grown: "grown d d1" by (simp add: d0_def grown_time)
  have "only_changed p d d'"
    unfolding d' by (rule only_changed_trans [OF grown_only_changed [OF grown] put_only_changed [OF loose_place [OF p(2)]]])
  with put_file_at [OF p] q q' show ?thesis unfolding d' q'_def by blast
qed

lemma appendFile_ok:
  assumes "appendFile path t d = (Inr q, d')" "at_path True (resolve_path path d) d = Inr (p, Some (File s))"
  shows "q = resolve_path path d \<and> at_path True q d' = Inr (p, Some (File (s @ t))) \<and> only_changed p d d'"
proof -
  define q' where "q' = resolve_path path d"
  define d0 where "d0 = d\<lparr>dk_time := Suc (dk_time d)\<rparr>"
  from assms(1) [unfolded appendFile_def Let_def, folded q'_def] obtain x where
    rest: "call_or (mkdirSync (path_dirname q')) (''Failed to create parent directory for: '' @ q') (\<lambda>_.
             call_or (appendFileSync q' t) (''Failed to append to file: '' @ q') (\<lambda>_ d. (Inr q', d))) d0 = (Inr q, d')"
    unfolding d0_def by (auto simp: stop_with_def split: if_splits dest!: guard_ok stat_new_ok)
  from call_or_ok [OF rest] obtain u d1 where made: "mkdirSync (path_dirname q') d0 = (Inr u, d1)"
    and "call_or (appendFileSync q' t) (''Failed to append to file: '' @ q') (\<lambda>_ d. (Inr q', d)) d1 = (Inr q, d')" by blast
  from this(2) obtain v where written: "appendFileSync q' t d1 = (Inr v, d')" and q: "q = q'" by (rule call_end_ok)
  have "grown d0 d1" using mkdirSync_grown [of d0 "path_dirname q'"] by (simp add: made)
  then have grown: "grown d d1" by (simp add: d0_def grown_time)
  have at: "at_path True q' d1 = Inr (p, Some (File s))" using grown_at_path [OF grown] assms(2) by (simp add: q'_def)
  then have p: "canon True q' d1 = Inr p" "loose (node_at (dk_nodes d1) p)" by (auto simp: at_path_iff loose_def)
  have d': "d' = put_node p (File (s @ t)) (d1\<lparr>dk_time := Suc (dk_time d1)\<rparr>)" by (rule appendFileSync_ok [OF written at])
  have "only_changed p d d'"
    unfolding d' by (rule only_changed_trans [OF grown_only_changed [OF grown] put_only_changed [OF loose_place [OF p(2)]]])
  with put_file_at [OF p] q show ?thesis unfolding d' q'_def by blast
qed

text \<open>The next two calls meet no error of the system.\<close>

definition quiet_reads :: "disk \<Rightarrow> bool" where
  "quiet_reads d \<longleftrightarrow> dk_faults d (dk_time d) = None \<and> dk_faults d (Suc (dk_time d)) = None"

lemma readFile_at:
  assumes "quiet_reads d" "\<not> isForbidden (resolve_path path d)" "at_path True (resolve_path path d) d = Inr (p, Some (File s))"
  shows "fst (readFile path d) = Inr s"
proof -
  let ?p = "resolve_path path d" and ?d = "d\<lparr>dk_time := Suc (dk_time d)\<rparr>"
  have later: "at_path True ?p (d\<lparr>dk_time := n\<rparr>) = Inr (p, Some (File s))" for n
    using assms(3) at_path_same [of "d\<lparr>dk_time := n\<rparr>" d] by simp
  have "statSync ?p d = (Inr (File s), ?d)"
    using assms(1) later by (simp add: statSync_def fs_call_def quiet_reads_def Let_def)
  moreover have "fst (read_text ?p ?d) = Inr s"
    using assms(1) later by (simp add: read_text_def fs_call_def quiet_reads_def Let_def)
  ultimately show ?thesis
    using assms(2) by (cases "read_text ?p ?d") (simp add: readFile_def guard_def stat_or_def call_or_def Let_def)
qed

text \<open>
  C10. What is written is read back: when a write and then an append to a path have succeeded and reading meets
  no error of the system, reading gives the two texts one after the other; and of the rest of the disk nothing
  has changed but that directories may have been made where nothing was.
\<close>

theorem file_write_read:
  assumes "writeFile path s d = (Inr q, d1)" "appendFile path t d1 = (Inr q', d2)" "quiet_reads d2"
  shows "fst (readFile path d2) = Inr (s @ t)
    \<and> (\<exists>p. canon True (resolve_path path d) d2 = Inr p \<and> only_changed p d d2)"
proof -
  from writeFile_ok [OF assms(1)] obtain p where q: "q = resolve_path path d" "\<not> isForbidden q"
    and p: "at_path True q d1 = Inr (p, Some (File s))" "only_changed p d d1" by blast
  have same: "resolve_path path d1 = q" using p(2) q(1) by (simp add: resolve_path_def only_changed_def)
  with appendFile_ok [OF assms(2), of p s] p(1)
  have app: "at_path True q d2 = Inr (p, Some (File (s @ t)))" "only_changed p d1 d2" by auto
  have "resolve_path path d2 = q" using app(2) same by (simp add: resolve_path_def only_changed_def)
  then have "fst (readFile path d2) = Inr (s @ t)" using readFile_at [OF assms(3)] q(2) app(1) by blast
  moreover have "canon True q d2 = Inr p" using app(1) by (simp add: at_path_iff)
  ultimately show ?thesis using only_changed_trans [OF p(2) app(2)] q(1) by blast
qed

definition fresh_disk :: disk where
  "fresh_disk = \<lparr>dk_nodes = [], dk_cwd = ''/w'', dk_faults = (\<lambda>_. None), dk_time = 0\<rparr>"

lemma fresh_written: "fst (writeFile ''a'' ''x'' fresh_disk) = Inr ''/w/a''"
  by code_simp

lemma fresh_appended: "fst (appendFile ''a'' ''y'' (snd (writeFile ''a'' ''x'' fresh_disk))) = Inr ''/w/a''"
  by code_simp

lemma fresh_quiet: "quiet_reads (snd (appendFile ''a'' ''y'' (snd (writeFile ''a'' ''x'' fresh_disk))))"
  by code_simp

theorem file_write_read_witness:
  "fst (readFile ''a'' (snd (appendFile ''a'' ''y'' (snd (writeFile ''a'' ''x'' fresh_disk))))) = Inr ''xy''"
  using file_write_read [of "''a''" "''x''" fresh_disk "''/w/a''" "snd (writeFile ''a'' ''x'' fresh_disk)" "''y''" "''/w/a''"
      "snd (appendFile ''a'' ''y'' (snd (writeFile ''a'' ''x'' fresh_disk)))"]
    fresh_written fresh_appended fresh_quiet by (simp add: prod_eq_iff)

section \<open>Moving\<close>

lemma canon_elsewhere:
  assumes "loose (node_at (dk_nodes d) r)" "p \<noteq> r"
  shows "canon final path (put_node r (File c) d) = Inr p \<longleftrightarrow> canon final path d = Inr p"
proof
  let ?d = "put_node r (File c) d"
  assume at: "canon final path ?d = Inr p"
  have "loose (node_at (dk_nodes ?d) r)" using loose_place [OF assms(1)] by (simp add: node_at_update loose_def)
  then have "alike_for p (dk_nodes ?d) (dk_nodes d)"
    using assms(2) loose_place [OF assms(1)] by (auto simp: alike_for_def node_at_update)
  from canon_alike [OF at this] show "canon final path d = Inr p" by simp
next
  assume "canon final path d = Inr p"
  from canon_alike [OF this alike_put [OF assms(1)]] show "canon final path (put_node r (File c) d) = Inr p" by simp
qed

text \<open>A call that removes a path removes at most the place the path leads to.\<close>

lemma node_at_delete_other: "q \<noteq> p \<Longrightarrow> node_at (AList.delete q ns) p = node_at ns p"
  by (simp add: node_at_def delete_conv)

lemma unlink_keeps:
  assumes "canon False path d \<noteq> Inr p"
  shows "node_at (dk_nodes (snd (unlink_one path d))) p = node_at (dk_nodes d) p"
proof (cases "at_path False path d")
  case (Inr a)
  obtain q x where a: "a = (q, x)" by (cases a)
  with Inr assms have "q \<noteq> p" by (auto simp: at_path_iff)
  with Inr a show ?thesis
    by (cases x) (auto simp: unlink_one_def node_at_delete_other split: node.split)
qed (simp add: unlink_one_def)

lemma fs_call_cases:
  obtains e n where "fs_call partly f d = (Inl e, partly n (d\<lparr>dk_time := Suc (dk_time d)\<rparr>))"
  | "fs_call partly f d = f (d\<lparr>dk_time := Suc (dk_time d)\<rparr>)"
  by (cases "dk_faults d (dk_time d)") (auto simp: fs_call_def Let_def)

text \<open>Two disks with the same files.\<close>

definition same_files :: "disk \<Rightarrow> disk \<Rightarrow> bool" where
  "same_files d d' \<longleftrightarrow> dk_nodes d' = dk_nodes d \<and> dk_cwd d' = dk_cwd d"

lemma same_files_time: "same_files d (d\<lparr>dk_time := n\<rparr>)"
  by (simp add: same_files_def)

lemma same_files_at: "same_files d d' \<Longrightarrow> at_path final path d' = at_path final path d"
  "same_files d d' \<Longrightarrow> canon final path d' = canon final path d"
  using at_path_same [of d' d final path] canon_same [of d' d final path] by (simp_all add: same_files_def)

lemma unlinkSync_keeps:
  assumes "canon False path d \<noteq> Inr p"
  shows "node_at (dk_nodes (snd (unlinkSync path d))) p = node_at (dk_nodes d) p"
proof -
  let ?d = "d\<lparr>dk_time := Suc (dk_time d)\<rparr>"
  have "canon False path ?d \<noteq> Inr p" using assms same_files_at(2) [OF same_files_time] by auto
  from unlink_keeps [OF this] show ?thesis
    unfolding unlinkSync_def by (cases rule: fs_call_cases [of untouched "unlink_one path" d]) (auto simp: untouched_def)
qed

lemma unlink_file:
  assumes "at_path False path d = Inr (p, Some (File s))"
  shows "unlink_one path d = (Inr (), del_node p d)"
  using assms by (simp add: unlink_one_def)

text \<open>A copy writes the place the destination leads to, or removes the destination.\<close>

lemma copyFileSync_result:
  assumes src: "at_path True a d = Inr (p, Some (File s))" and "canon False b d \<noteq> Inr p" "canon True b d \<noteq> Inr p"
  shows "node_at (dk_nodes (snd (copyFileSync a b d))) p = Some (File s)
    \<and> (case fst (copyFileSync a b d) of
         Inr _ \<Rightarrow> \<exists>r. canon True b d = Inr r \<and> loose (node_at (dk_nodes d) r)
                   \<and> snd (copyFileSync a b d) = put_node r (File s) (d\<lparr>dk_time := Suc (dk_time d)\<rparr>)
       | Inl _ \<Rightarrow> True)"
proof -
  let ?d = "d\<lparr>dk_time := Suc (dk_time d)\<rparr>"
  note same = same_files_at [OF same_files_time]
  have at: "at_path True a ?d = Inr (p, Some (File s))" "canon False b ?d \<noteq> Inr p" "canon True b ?d = canon True b d"
    using src assms same by auto
  have p: "node_at (dk_nodes ?d) p = Some (File s)" using at(1) by (simp add: at_path_iff)
  show ?thesis
  proof (cases rule: fs_call_cases [of "\<lambda>n d. if n = 0 then d else snd (unlink_one b d)" "copy_one a b" d])
    case (1 e n)
    with p unlink_keeps [OF at(2)] show ?thesis by (auto simp: copyFileSync_def)
  next
    case 2
    show ?thesis
    proof (cases "write_target b ?d")
      case (Inl e)
      with 2 at p show ?thesis by (simp add: copyFileSync_def copy_one_def outcome_of_def write_with_def)
    next
      case (Inr rt)
      obtain r t where rt: "rt = (r, t)" by (cases rt)
      with Inr at(3) have r: "canon True b d = Inr r" "loose (node_at (dk_nodes d) r)" by (auto simp: write_target_at loose_def)
      with assms(3) have "r \<noteq> p" by auto
      with 2 at(1) Inr rt r p loose_place [OF r(2)] show ?thesis
        by (simp add: copyFileSync_def copy_one_def outcome_of_def write_with_def node_at_update)
    qed
  qed
qed

lemma rename_file:
  assumes "at_path False a d = Inr (p, Some (File s))" "canon False b d \<noteq> Inr p" "rename_one a b d = (r, d')"
  shows "case r of Inl _ \<Rightarrow> d' = d
    | Inr _ \<Rightarrow> node_at (dk_nodes d') p = None \<and> (\<exists>q. canon False b d = Inr q \<and> node_at (dk_nodes d') q = Some (File s))"
proof (cases "at_path False b d")
  case (Inr qy)
  obtain q y where qy: "qy = (q, y)" by (cases qy)
  with Inr have q: "canon False b d = Inr q" "q \<noteq> p" using assms(2) by (auto simp: at_path_iff)
  have p: "p \<noteq> []" using assms(1) by (auto simp: at_path_iff node_at_def)
  show ?thesis
    using assms(1,3) Inr qy q p
    by (auto simp: rename_one_def node_at_update node_at_delete split: if_splits)
qed (use assms in \<open>auto simp: rename_one_def\<close>)

definition moved_or_kept :: "string list \<Rightarrow> string \<Rightarrow> string \<Rightarrow> disk \<Rightarrow> (tool_error + 'a) \<times> disk \<Rightarrow> bool" where
  "moved_or_kept p s b d r \<longleftrightarrow>
     (case fst r of
        Inl _ \<Rightarrow> node_at (dk_nodes (snd r)) p = Some (File s)
      | Inr _ \<Rightarrow> node_at (dk_nodes (snd r)) p = None
          \<and> (\<exists>q. (canon False b d = Inr q \<or> canon True b d = Inr q) \<and> node_at (dk_nodes (snd r)) q = Some (File s)))"

lemma move_across_keeps:
  assumes src: "at_path False a d = Inr (p, Some (File s))" and b: "canon False b d \<noteq> Inr p" "canon True b d \<noteq> Inr p"
  shows "moved_or_kept p s b d (move_across a b d)"
proof -
  have "at_path True a d = Inr (p, Some (File s))"
    using src canon_final [of a d p] by (auto simp: at_path_iff)
  note copy = copyFileSync_result [OF this b]
  show ?thesis
  proof (cases "copyFileSync a b d")
    case (Pair c d1)
    show ?thesis
    proof (cases c)
      case (Inl e)
      with copy Pair show ?thesis by (simp add: move_across_def call_or_def stop_with_def moved_or_kept_def)
    next
      case (Inr u)
      with copy Pair obtain r where r: "canon True b d = Inr r" "loose (node_at (dk_nodes d) r)"
        and d1: "d1 = put_node r (File s) (d\<lparr>dk_time := Suc (dk_time d)\<rparr>)" and p1: "node_at (dk_nodes d1) p = Some (File s)" by auto
      have rp: "r \<noteq> p" and r0: "r \<noteq> []" using r b loose_place by auto
      let ?d = "d\<lparr>dk_time := Suc (dk_time d)\<rparr>"
      have walk: "canon False x d1 = Inr p \<longleftrightarrow> canon False x d = Inr p" for x
        using canon_elsewhere [of ?d r p False x s] r(2) rp same_files_at(2) [OF same_files_time [of d "Suc (dk_time d)"], of False x] d1 by simp
      have a1: "at_path False a d1 = Inr (p, Some (File s))" using src p1 walk by (simp add: at_path_iff)
      have b1: "canon False b d1 \<noteq> Inr p" using b walk by blast
      have r1: "node_at (dk_nodes d1) r = Some (File s)" using d1 r0 by (simp add: node_at_update)
      show ?thesis
      proof (cases rule: fs_call_cases [of untouched "unlink_one a" d1])
        case (1 e n)
        let ?d2 = "d1\<lparr>dk_time := Suc (dk_time d1)\<rparr>"
        have "canon False b ?d2 \<noteq> Inr p" using b1 same_files_at(2) [OF same_files_time] by auto
        from unlinkSync_keeps [OF this] 1 Pair Inr p1 show ?thesis
          by (simp add: move_across_def call_or_def stop_with_def moved_or_kept_def unlinkSync_def untouched_def)
      next
        case 2
        have "at_path False a (d1\<lparr>dk_time := Suc (dk_time d1)\<rparr>) = Inr (p, Some (File s))"
          using a1 same_files_at(1) [OF same_files_time] by auto
        from unlink_file [OF this] 2 have "unlinkSync a d1 = (Inr (), del_node p (d1\<lparr>dk_time := Suc (dk_time d1)\<rparr>))"
          by (simp add: unlinkSync_def)
        moreover have "p \<noteq> []" using src by (auto simp: at_path_iff node_at_def)
        ultimately show ?thesis using Pair Inr r(1) r1 rp
          by (auto simp: move_across_def call_or_def moved_or_kept_def node_at_delete)
      qed
    qed
  qed
qed

lemma moved_or_kept_same: "same_files d d' \<Longrightarrow> moved_or_kept p s b d' r = moved_or_kept p s b d r"
  by (cases "fst r") (simp_all add: moved_or_kept_def same_files_at(2) [of d d' _ b])

lemma stopped_kept:
  fixes e :: disk
  assumes "at_path False a d = Inr (p, Some (File s))" "same_files d e"
  shows "moved_or_kept p s b d (stop_with code message e :: (tool_error + string \<times> string) \<times> disk)"
  using assms by (simp add: moved_or_kept_def stop_with_def same_files_def at_path_iff)

lemma renamed_keeps:
  assumes "at_path False a d = Inr (p, Some (File s))" "canon False b d \<noteq> Inr p" "canon True b d \<noteq> Inr p"
    and same1: "same_files d d1"
  shows "moved_or_kept p s b d (case renameSync a b d1 of (Inr _, d2) \<Rightarrow> (Inr (a, b), d2)
      | (Inl e, d2) \<Rightarrow> if e \<noteq> ''EXDEV'' then stop_with ''fs-error'' message d2 else move_across a b d2)"
proof -
  have src: "at_path False a d1 = Inr (p, Some (File s))" and b: "canon False b d1 \<noteq> Inr p" "canon True b d1 \<noteq> Inr p"
    using assms same_files_at [OF same1] by simp_all
  have failed: "moved_or_kept p s b d (if e \<noteq> ''EXDEV'' then stop_with ''fs-error'' message d2 else move_across a b d2)"
    if "same_files d1 d2" for e and d2 :: disk
  proof -
    have same2: "same_files d d2" using same1 that by (simp add: same_files_def)
    have "moved_or_kept p s b d2 (move_across a b d2)"
      using src b same_files_at [OF that] by (intro move_across_keeps) simp_all
    with same2 stopped_kept [OF assms(1) same2] show ?thesis by (simp add: moved_or_kept_same [OF same2])
  qed
  show ?thesis
  proof (cases rule: fs_call_cases [of untouched "rename_one a b" d1])
    case (1 e n)
    with failed [OF same_files_time] show ?thesis by (simp add: renameSync_def untouched_def)
  next
    case 2
    let ?d = "d1\<lparr>dk_time := Suc (dk_time d1)\<rparr>"
    obtain r d2 where r: "rename_one a b ?d = (r, d2)" by (cases "rename_one a b ?d")
    have "at_path False a ?d = Inr (p, Some (File s))" "canon False b ?d \<noteq> Inr p"
      using src b same_files_at [OF same_files_time [of d1 "Suc (dk_time d1)"]] by simp_all
    note moved = rename_file [OF this r]
    have again: "canon False b ?d = canon False b d"
      using same_files_at(2) [OF same_files_time [of d1 "Suc (dk_time d1)"]] same_files_at(2) [OF same1] by simp
    show ?thesis
    proof (cases r)
      case (Inl e)
      with moved have "d2 = ?d" by simp
      with 2 r Inl failed [OF same_files_time] show ?thesis by (simp add: renameSync_def)
    next
      case (Inr u)
      with moved 2 r again show ?thesis by (auto simp: renameSync_def moved_or_kept_def)
    qed
  qed
qed

text \<open>
  C11. A move to a destination that does not lead to the file itself, directly or through a link, does not lose
  the file, whatever errors of the system its calls meet and on whatever devices the paths lie: when it fails,
  the file is where it was, and when it succeeds, the file is gone from there and its text is where the
  destination leads. (With a link to the file as the destination the text can be lost: \<open>move_onto_link_loses\<close>.)
\<close>

theorem move_keeps_file:
  assumes "at_path False (resolve_path origin d) d = Inr (p, Some (File s))"
    and "canon False (resolve_path target d) d \<noteq> Inr p" "canon True (resolve_path target d) d \<noteq> Inr p"
  shows "moved_or_kept p s (resolve_path target d) d (moveFile origin target d)"
proof -
  define a b where "a = resolve_path origin d" and "b = resolve_path target d"
  define d1 where "d1 = d\<lparr>dk_time := Suc (dk_time d)\<rparr>"
  have same1: "same_files d d1" by (simp add: d1_def same_files_time)
  note path = assms [folded a_def b_def]
  obtain r where stat: "statSync a d = (r, d1)" using statSync_disk [of a d] by (cases "statSync a d") (simp add: d1_def)
  show ?thesis
    using renamed_keeps [OF path same1] stopped_kept [OF path(1) same1] stat
    unfolding moveFile_def Let_def stat_or_def a_def [symmetric] b_def [symmetric]
    by (cases r) auto
qed

definition two_devices :: disk where
  "two_devices = \<lparr>dk_nodes = [([''w''], Dir), ([''w'', ''a''], File ''x''), ([''m''], Dir), ([''m'', ''l''], Link ''/w/a'')],
     dk_cwd = ''/w'', dk_faults = (\<lambda>n. if n = 1 then Some (''EXDEV'', 0) else None), dk_time = 0\<rparr>"

lemma two_devices_paths:
  "at_path False (resolve_path ''a'' two_devices) two_devices = Inr ([''w'', ''a''], Some (File ''x''))"
  "canon False (resolve_path ''/m/b'' two_devices) two_devices = Inr [''m'', ''b'']"
  "canon True (resolve_path ''/m/b'' two_devices) two_devices = Inr [''m'', ''b'']"
  by code_simp+

theorem move_keeps_file_witness:
  "moved_or_kept [''w'', ''a''] ''x'' (resolve_path ''/m/b'' two_devices) two_devices (moveFile ''a'' ''/m/b'' two_devices)"
  using move_keeps_file [of "''a''" two_devices "[''w'', ''a'']" "''x''" "''/m/b''"] two_devices_paths by simp

text \<open>A destination that is a link to the file on another device: the move succeeds and the text is lost.\<close>

lemma move_onto_link_loses:
  "fst (moveFile ''a'' ''/m/l'' two_devices) = Inr (''/w/a'', ''/m/l'')"
  "dk_nodes (snd (moveFile ''a'' ''/m/l'' two_devices)) = [([''w''], Dir), ([''m''], Dir), ([''m'', ''l''], Link ''/w/a'')]"
  by code_simp+

section \<open>Editing\<close>

lemma substitution_plain: "CHR ''$'' \<notin> set new \<Longrightarrow> substitution matched before after new = new"
  by (induction matched before after new rule: substitution.induct) auto

lemma split_first_includes: "js_includes s p \<longleftrightarrow> split_first p s \<noteq> None"
  by (induction s) (auto simp: starts_with_def split: option.split)

lemma split_first_parts: "split_first p s = Some (u, v) \<Longrightarrow> s = u @ p @ v"
proof (induction s arbitrary: u)
  case (Cons c cs)
  show ?case
  proof (cases "starts_with (c # cs) p")
    case True
    then have "take (length p) (c # cs) = p" by (simp add: starts_with_def)
    with append_take_drop_id [of "length p" "c # cs"] have "c # cs = p @ drop (length p) (c # cs)" by simp
    with True Cons.prems show ?thesis by auto
  qed (use Cons in auto)
qed (simp split: if_splits)

lemma split_first_first:
  "split_first p s = Some (u, v) \<Longrightarrow> k < length u \<Longrightarrow> \<not> starts_with (drop k s) p"
proof (induction s arbitrary: u k)
  case (Cons c cs)
  then show ?case by (cases k) (auto split: if_splits)
qed (simp split: if_splits)

text \<open>
  An edit that succeeds has found its old text in the file and replaced the first place of it, and nothing
  else of the disk has changed, provided the new text holds no dollar sign.
\<close>

theorem edit_replaces_first:
  assumes "editFile path old new d = (Inr q, d')" "CHR ''$'' \<notin> set new"
  shows "\<exists>p u v. at_path True path d = Inr (p, Some (File (u @ old @ v)))
    \<and> at_path True path d' = Inr (p, Some (File (u @ new @ v)))
    \<and> only_changed p d d' \<and> list_all (\<lambda>k. \<not> starts_with (drop k (u @ old @ v)) old) [0..<length u]"
proof -
  define d1 where "d1 = d\<lparr>dk_time := Suc (dk_time d)\<rparr>"
  from stat_or_ok [OF assms(1) [unfolded editFile_def]] obtain x where
    "(if \<not> isFile x then stop_with ''not-a-file'' (''Path is not a file: '' @ path)
      else call_or (read_text path) (''Failed to read file: '' @ path) (\<lambda>content.
         if \<not> js_includes content old then stop_with ''string-not-found'' (''String not found in file: '' @ path)
         else call_or (writeFileSync path (replace_first old new content))
           (''Failed to write file: '' @ path) (\<lambda>_ d. (Inr path, d)))) d1 = (Inr q, d')" unfolding d1_def by blast
  then have "call_or (read_text path) (''Failed to read file: '' @ path) (\<lambda>content.
         if \<not> js_includes content old then stop_with ''string-not-found'' (''String not found in file: '' @ path)
         else call_or (writeFileSync path (replace_first old new content))
           (''Failed to write file: '' @ path) (\<lambda>_ d. (Inr path, d))) d1 = (Inr q, d')"
    by (cases "isFile x") (simp_all add: stop_with_def)
  from call_or_ok [OF this] obtain content d2 where read: "read_text path d1 = (Inr content, d2)" and
    rest: "(if \<not> js_includes content old then stop_with ''string-not-found'' (''String not found in file: '' @ path)
         else call_or (writeFileSync path (replace_first old new content))
           (''Failed to write file: '' @ path) (\<lambda>_ d. (Inr path, d))) d2 = (Inr q, d')" by blast
  define d2' where "d2' = d1\<lparr>dk_time := Suc (dk_time d1)\<rparr>"
  have d2: "d2 = d2'" and found: "(case at_path True path d2' of Inl e \<Rightarrow> Inl e
      | Inr (_, Some (File s)) \<Rightarrow> Inr s | Inr (_, Some _) \<Rightarrow> Inl ''EISDIR'' | Inr (_, None) \<Rightarrow> Inl ''ENOENT'') = Inr content"
    using fs_call_ok [OF read [unfolded read_text_def]] unfolding d2'_def [symmetric] by (auto dest: sym)
  from found obtain p where p2: "at_path True path d2' = Inr (p, Some (File content))"
    by (auto split: sum.splits option.splits node.splits)
  have time: "d2' = d\<lparr>dk_time := dk_time d2'\<rparr>" by (simp add: d2'_def d1_def)
  have p: "at_path True path d = Inr (p, Some (File content))"
    using p2 at_path_same [of d d2' True path] time by (metis disk.select_convs(1,2) disk.surjective disk.update_convs(4))
  from rest have incl: "js_includes content old" by (auto simp: stop_with_def split: if_splits)
  then obtain u v where uv: "split_first old content = Some (u, v)" by (auto simp: split_first_includes)
  have new: "replace_first old new content = u @ new @ v" using uv assms(2) by (simp add: replace_first_def substitution_plain)
  from rest incl obtain w where written: "writeFileSync path (u @ new @ v) d2 = (Inr w, d')"
    unfolding new by (auto elim: call_end_ok)
  from writeFileSync_ok [OF written] obtain r where r: "canon True path d2 = Inr r" "loose (node_at (dk_nodes d2) r)"
    and d': "d' = put_node r (File (u @ new @ v)) (d2\<lparr>dk_time := Suc (dk_time d2)\<rparr>)" by blast
  from r(1) p2 d2 have "r = p" by (simp add: at_path_iff)
  with put_file_at [OF r] d' have after: "at_path True path d' = Inr (p, Some (File (u @ new @ v)))" by simp
  have "only_changed p d d'" using put_only_changed [OF loose_place [OF r(2)]] \<open>r = p\<close> d' d2 time
    by (simp add: only_changed_def d2'_def d1_def)
  moreover have "list_all (\<lambda>k. \<not> starts_with (drop k (u @ old @ v)) old) [0..<length u]"
    using split_first_parts [OF uv] split_first_first [OF uv] by (simp add: list_all_iff)
  ultimately show ?thesis using p after split_first_parts [OF uv] by blast
qed

definition one_text :: disk where
  "one_text = \<lparr>dk_nodes = [([''w''], Dir), ([''w'', ''a''], File ''x=1'')], dk_cwd = ''/w'', dk_faults = (\<lambda>_. None), dk_time = 0\<rparr>"

lemma one_text_edited: "fst (editFile ''a'' ''1'' ''2'' one_text) = Inr ''a''"
  by code_simp

theorem edit_replaces_first_witness:
  "\<exists>p u v. at_path True ''a'' one_text = Inr (p, Some (File (u @ ''1'' @ v)))
    \<and> at_path True ''a'' (snd (editFile ''a'' ''1'' ''2'' one_text)) = Inr (p, Some (File (u @ ''2'' @ v)))"
  using edit_replaces_first [of "''a''" "''1''" "''2''" one_text "''a''" "snd (editFile ''a'' ''1'' ''2'' one_text)"] one_text_edited
  by (auto simp: prod_eq_iff)

text \<open>With a dollar sign in the new text, something else is written: here the old text itself.\<close>

lemma edit_inserts_match: "replace_first ''PRICE'' ''US$&'' ''is PRICE'' = ''is USPRICE''"
  by code_simp

section \<open>Deleting\<close>

definition spared :: "string \<Rightarrow> disk \<Rightarrow> string list \<Rightarrow> bool" where
  "spared path d q \<longleftrightarrow> (case canon False path d of Inr p \<Rightarrow> q \<noteq> p \<and> \<not> below p q | Inl _ \<Rightarrow> True)"

definition spared_nodes :: "string \<Rightarrow> disk \<Rightarrow> disk \<Rightarrow> (string list, node) jsmap" where
  "spared_nodes path d d' = filter (\<lambda>(q, _). spared path d q) (dk_nodes d')"

text \<open>A deletion of one place: nothing, or a file, a link or an empty directory the path leads to.\<close>

definition removes_one :: "string \<Rightarrow> disk \<Rightarrow> disk \<Rightarrow> bool" where
  "removes_one path d d' \<longleftrightarrow> dk_nodes d' = dk_nodes d
     \<or> (\<exists>p x. at_path False path d = Inr (p, Some x) \<and> (x = Dir \<longrightarrow> empty_dir p d) \<and> dk_nodes d' = AList.delete p (dk_nodes d))"

lemma filter_delete: "\<not> P q \<Longrightarrow> filter (\<lambda>(r, _). P r) (AList.delete q ns) = filter (\<lambda>(r, _). P r) ns"
  by (auto simp: AList.delete_eq filter_id_conv intro!: filter_cong)

lemma removes_one_spares: "removes_one path d d' \<Longrightarrow> spared_nodes path d d' = spared_nodes path d d"
  by (auto simp: removes_one_def spared_nodes_def at_path_iff filter_delete spared_def)

lemma removes_nothing: "dk_nodes d' = dk_nodes d \<Longrightarrow> removes_one path d d'"
  by (simp add: removes_one_def)

lemma removes_time: "removes_one path (d\<lparr>dk_time := n\<rparr>) d' = removes_one path d d'"
  using same_files_at(1) [OF same_files_time [of d n], of False path] by (simp add: removes_one_def empty_dir_def)

lemma unlink_removes: "removes_one path d (snd (unlinkSync path d))"
proof (cases rule: fs_call_cases [of untouched "unlink_one path" d])
  case 2
  have "removes_one path e (snd (unlink_one path e))" for e
    by (cases "at_path False path e") (auto simp: unlink_one_def removes_one_def split: option.split node.split)
  from this [of "d\<lparr>dk_time := Suc (dk_time d)\<rparr>"] 2 show ?thesis by (simp add: unlinkSync_def removes_time)
qed (simp add: unlinkSync_def untouched_def removes_nothing)

lemma rmdir_removes: "removes_one path d (snd (rmdirSync path d))"
proof (cases rule: fs_call_cases [of untouched "rmdir_one path" d])
  case 2
  have "removes_one path e (snd (rmdir_one path e))" for e
    by (cases "at_path False path e") (auto simp: rmdir_one_def removes_one_def split: option.split node.split)
  from this [of "d\<lparr>dk_time := Suc (dk_time d)\<rparr>"] 2 show ?thesis by (simp add: rmdirSync_def removes_time)
qed (simp add: rmdirSync_def untouched_def removes_nothing)

lemma spared_time: "spared path (d\<lparr>dk_time := n\<rparr>) = spared path d"
  using same_files_at(2) [OF same_files_time [of d n], of False path] by (simp add: spared_def fun_eq_iff)

lemma rm_one_spares: "spared_nodes path d (snd (rm_one path d)) = spared_nodes path d d"
  by (auto simp: rm_one_def spared_nodes_def del_tree_def at_path_iff spared_def filter_filter
      split: sum.split option.split intro!: filter_cong)

lemma fold_del_spares:
  "list_all (\<lambda>q. \<not> P q) qs \<Longrightarrow> filter (\<lambda>(r, _). P r) (dk_nodes (fold del_node qs d)) = filter (\<lambda>(r, _). P r) (dk_nodes d)"
  by (induction qs arbitrary: d) (simp_all add: filter_delete)

lemma rm_partly_spares: "spared_nodes path d (rm_partly path n d) = spared_nodes path d d"
proof (cases "at_path False path d")
  case (Inr px)
  obtain p x where px: "px = (p, x)" by (cases px)
  have "list_all (\<lambda>q. \<not> spared path d q)
      (take n (sort_key (\<lambda>q. - int (length q)) (filter (below p) (map fst (dk_nodes d)))))"
    using Inr px by (auto simp: list_all_iff spared_def at_path_iff dest!: in_set_takeD)
  from fold_del_spares [OF this] show ?thesis
    using Inr px by (auto simp: rm_partly_def spared_nodes_def split: option.split node.split)
qed (simp add: rm_partly_def)

lemma rm_spares: "spared_nodes path d (snd (rmSync path d)) = spared_nodes path d d"
proof (cases rule: fs_call_cases [of "rm_partly path" "rm_one path" d])
  case (1 e n)
  with rm_partly_spares [of path "d\<lparr>dk_time := Suc (dk_time d)\<rparr>" n] show ?thesis
    by (simp add: rmSync_def spared_nodes_def spared_time)
next
  case 2
  with rm_one_spares [of path "d\<lparr>dk_time := Suc (dk_time d)\<rparr>"] show ?thesis
    by (simp add: rmSync_def spared_nodes_def spared_time)
qed

lemma guard_disk: "snd (guard message p t d) = (if isForbidden p then d else snd (t d))"
  by (simp add: guard_def stop_with_def)

text \<open>What \<open>stat\<close> and the end of a call add to the disk is time only.\<close>

lemma stat_or_disk:
  "\<exists>x. snd (stat_or path missing failed k d) = d\<lparr>dk_time := Suc (dk_time d)\<rparr>
     \<or> snd (stat_or path missing failed k d) = snd (k x (d\<lparr>dk_time := Suc (dk_time d)\<rparr>))"
  using statSync_disk [of path d] by (auto simp: stat_or_def stop_with_def split: prod.split sum.split)

lemma call_end_disk: "snd (call_or f message (\<lambda>_ d. (Inr y, d)) d) = snd (f d)"
  by (auto simp: call_or_def stop_with_def split: prod.split sum.split)

lemma delete_dir_disk: "snd (delete_dir p d) = snd (rmdirSync p d)"
  by (auto simp: delete_dir_def stop_with_def split: prod.split sum.split)

lemma delete_end:
  defines "k \<equiv> \<lambda>p recursive x. if x = Dir
      then (if recursive
            then call_or (rmSync p) (''Failed to recursively delete directory: '' @ p) (\<lambda>_ d. (Inr p, d))
            else delete_dir p)
      else call_or (unlinkSync p) (''Failed to delete file: '' @ p) (\<lambda>_ d. (Inr p, d))"
  shows "snd (k p recursive x e)
    = snd (if x \<noteq> Dir then unlinkSync p e else if recursive then rmSync p e else rmdirSync p e)"
  by (simp add: k_def call_end_disk delete_dir_disk)

lemma deleteFile_cases:
  fixes path d
  defines "p \<equiv> resolve_path path d" and "e \<equiv> d\<lparr>dk_time := Suc (dk_time d)\<rparr>"
  obtains "snd (deleteFile path recursive d) = d" | "snd (deleteFile path recursive d) = e"
  | "snd (deleteFile path recursive d) = snd (unlinkSync p e)"
  | "recursive" "snd (deleteFile path recursive d) = snd (rmSync p e)"
  | "\<not> recursive" "snd (deleteFile path recursive d) = snd (rmdirSync p e)"
proof (cases "isForbidden p")
  case True
  then have "snd (deleteFile path recursive d) = d" by (simp add: deleteFile_def guard_disk p_def Let_def)
  then show ?thesis by (rule that)
next
  case False
  have "\<exists>x. snd (deleteFile path recursive d) = e
     \<or> snd (deleteFile path recursive d)
       = snd (if x \<noteq> Dir then unlinkSync p e else if recursive then rmSync p e else rmdirSync p e)"
    unfolding deleteFile_def Let_def guard_disk p_def [symmetric] if_not_P [OF False]
      delete_end [symmetric] e_def by (rule stat_or_disk)
  then obtain x where "snd (deleteFile path recursive d) = e
     \<or> snd (deleteFile path recursive d)
       = snd (if x \<noteq> Dir then unlinkSync p e else if recursive then rmSync p e else rmdirSync p e)" by (elim exE)
  then show ?thesis using that by (cases "x = Dir"; cases recursive) (simp_all only: if_True if_False simp_thms, blast+)
qed

text \<open>
  C12. A deletion stays where it belongs, whatever errors of the system its calls meet: with the recursive
  flag everything but the path and what lies below it is as it was, also when the deletion stops half way;
  without the flag at most one file, link or empty directory is gone, the one the path leads to. Links at
  the end of the path are not followed.
\<close>

theorem delete_confined:
  "spared_nodes (resolve_path path d) d (snd (deleteFile path recursive d)) = spared_nodes (resolve_path path d) d d
   \<and> removes_one (resolve_path path d) d (snd (deleteFile path False d))"
proof -
  let ?p = "resolve_path path d" and ?e = "d\<lparr>dk_time := Suc (dk_time d)\<rparr>"
  have unlink: "removes_one ?p d (snd (unlinkSync ?p ?e))" and rmdir: "removes_one ?p d (snd (rmdirSync ?p ?e))"
    using unlink_removes [of ?p ?e] rmdir_removes [of ?p ?e] by (simp_all add: removes_time)
  have rm: "spared_nodes ?p d (snd (rmSync ?p ?e)) = spared_nodes ?p d d"
    using rm_spares [of ?p ?e] by (simp add: spared_nodes_def spared_time)
  have idle: "removes_one ?p d d" "removes_one ?p d ?e" by (simp_all add: removes_nothing)
  have "removes_one ?p d (snd (deleteFile path False d))"
    by (cases rule: deleteFile_cases [of path False d]) (use unlink rmdir idle in simp_all)
  moreover have "spared_nodes ?p d (snd (deleteFile path recursive d)) = spared_nodes ?p d d"
    by (cases rule: deleteFile_cases [of path recursive d])
      (use removes_one_spares [OF unlink] removes_one_spares [OF rmdir] removes_one_spares [OF idle(2)] rm in simp_all)
  ultimately show ?thesis by (rule conjI [rotated])
qed

end
