(* ===== verification/SecretTools.thy ===== *)
theory SecretTools
  imports Approval Json Disk JsRegex
begin

text \<open>
  The tools of \<open>src/tools/\<close> that handle credentials: read_secret, write_secret, rotate_secret, list_secrets,
  store_secret and get_env_var, the backends of \<open>src/tools/secrets/secret-backend.ts\<close> and the vaults of
  \<open>src/vault/\<close>. A tool waits for the log between its checks and the use of its token, so each is given in two
  parts, up to that wait and from it. \<open>JSON.parse\<close> is a parameter that gives the value or the text of its
  error, the messages of TypeBox are another, and a random value is an argument. The environment is taken as
  the variables that are set, without the members every object inherits; names and values end at a NUL, as
  they do for the system. The message of an error of the file system is its code.
\<close>

section \<open>The environment\<close>

record vault_world =
  vw_env :: "(string, string) jsmap"
  vw_disk :: disk

definition c_text :: "string \<Rightarrow> string" where
  "c_text s = takeWhile (\<lambda>c. c \<noteq> CHR 0x00) s"

definition env_get :: "string \<Rightarrow> vault_world \<Rightarrow> string option" where
  "env_get key w = map_of (vw_env w) (c_text key)"

text \<open>The system refuses an empty name and one with an equals sign, and the assignment says nothing of it.\<close>

definition env_set :: "string \<Rightarrow> string \<Rightarrow> vault_world \<Rightarrow> vault_world" where
  "env_set key val w =
     (let name = c_text key
      in if name = '''' \<or> CHR ''='' \<in> set name then w
         else w\<lparr>vw_env := AList.update name (c_text val) (vw_env w)\<rparr>)"

section \<open>Backends\<close>

datatype backend =
    EnvSecretBackend
  | MemorySecretBackend "(string, string) jsmap"
  | WritableFileSecretBackend string "(string, string) jsmap"
  | FileCredentialVault "(string, string) jsmap"
  | EnvCredentialVault

definition map_of_entries :: "(string \<times> string) list \<Rightarrow> (string, string) jsmap" where
  "map_of_entries kvs = fold (\<lambda>(k, v). AList.update k v) (own_order kvs) []"

definition memory_backend :: "(string \<times> string) list \<Rightarrow> backend" where
  "memory_backend initial = MemorySecretBackend (map_of_entries initial)"

fun backend_get :: "backend \<Rightarrow> string \<Rightarrow> vault_world \<Rightarrow> string option" where
  "backend_get EnvSecretBackend key w = env_get key w"
| "backend_get (MemorySecretBackend m) key w = map_of m key"
| "backend_get (WritableFileSecretBackend path m) key w = map_of m key"
| "backend_get (FileCredentialVault m) key w = map_of m key"
| "backend_get EnvCredentialVault key w = env_get key w"

definition backend_has :: "backend \<Rightarrow> string \<Rightarrow> vault_world \<Rightarrow> bool" where
  "backend_has b key w \<longleftrightarrow> backend_get b key w \<noteq> None"

fun backend_keys :: "backend \<Rightarrow> vault_world \<Rightarrow> string list option" where
  "backend_keys (FileCredentialVault m) w = Some (map fst m)"
| "backend_keys EnvCredentialVault w = Some (map fst (vw_env w))"
| "backend_keys _ w = None"

text \<open>\<open>JSON.stringify(obj, null, 2)\<close> of the whole store.\<close>

definition newline :: string where
  "newline = [CHR 0x0A]"

definition credentials_text :: "(string, string) jsmap \<Rightarrow> string" where
  "credentials_text m =
     (if m = [] then ''{}''
      else ''{'' @ newline
        @ join ('','' @ newline) (map (\<lambda>(k, v). ''  '' @ js_quote k @ '': '' @ js_quote v) (own_order m))
        @ newline @ ''}'')"

text \<open>
  \<open>set\<close>: the message of the error, if it throws, and what it leaves. The file backend has the new value in
  memory even when the file could not be written.
\<close>

fun backend_set :: "string \<Rightarrow> string \<Rightarrow> backend \<Rightarrow> vault_world \<Rightarrow> string option \<times> backend \<times> vault_world" where
  "backend_set key val EnvSecretBackend w = (None, EnvSecretBackend, env_set key val w)"
| "backend_set key val (MemorySecretBackend m) w = (None, MemorySecretBackend (AList.update key val m), w)"
| "backend_set key val (WritableFileSecretBackend path m) w =
     (let m = AList.update key val m
      in case writeFileSync path (credentials_text m) (vw_disk w) of
           (r, d) \<Rightarrow> (case r of Inl e \<Rightarrow> Some e | Inr _ \<Rightarrow> None, WritableFileSecretBackend path m, w\<lparr>vw_disk := d\<rparr>))"
| "backend_set key val (FileCredentialVault m) w =
     (Some ''[file-vault] write operations are not supported on a read-only file vault'', FileCredentialVault m, w)"
| "backend_set key val EnvCredentialVault w = (None, EnvCredentialVault, env_set key val w)"

text \<open>Reading a credential file.\<close>

type_synonym json_parser = "string \<Rightarrow> string + json"

definition isStringRecord :: "json \<Rightarrow> bool" where
  "isStringRecord v = (case v of JObj kvs \<Rightarrow> list_all (\<lambda>(_, x). case x of JStr _ \<Rightarrow> True | _ \<Rightarrow> False) kvs | _ \<Rightarrow> False)"

definition string_entries :: "json \<Rightarrow> (string \<times> string) list" where
  "string_entries v =
     (case v of JObj kvs \<Rightarrow> map (\<lambda>(k, x). (k, case x of JStr s \<Rightarrow> s | _ \<Rightarrow> '''')) kvs | _ \<Rightarrow> [])"

definition loadBackend :: "json_parser \<Rightarrow> string \<Rightarrow> vault_world \<Rightarrow> (string + backend) \<times> vault_world" where
  "loadBackend parse path w =
     (case read_text path (vw_disk w) of
        (r, d) \<Rightarrow>
          (case r of
             Inl _ \<Rightarrow> Inr (WritableFileSecretBackend path [])
           | Inr content \<Rightarrow>
               (case parse content of
                  Inl err \<Rightarrow> Inl (''[file-backend] invalid JSON in credential file at '' @ path @ '': '' @ err)
                | Inr v \<Rightarrow>
                    if isStringRecord v then Inr (WritableFileSecretBackend path (map_of_entries (string_entries v)))
                    else Inl (''[file-backend] credential file at '' @ path @ '' must be a flat object with string values'')),
           w\<lparr>vw_disk := d\<rparr>))"

definition loadVault ::
  "json_parser \<Rightarrow> (json \<Rightarrow> string) \<Rightarrow> string \<Rightarrow> vault_world \<Rightarrow> (tool_error + backend) \<times> vault_world" where
  "loadVault parse schema_errors path w =
     (case read_text path (vw_disk w) of
        (r, d) \<Rightarrow>
          (case r of
             Inl err \<Rightarrow> Inl (tool_error ''file-not-found''
               (''[file-vault] cannot read credential file at '' @ path @ '': '' @ err))
           | Inr content \<Rightarrow>
               (case parse content of
                  Inl err \<Rightarrow> Inl (tool_error ''invalid-json''
                    (''[file-vault] invalid JSON in credential file at '' @ path @ '': '' @ err))
                | Inr v \<Rightarrow>
                    if isStringRecord v then Inr (FileCredentialVault (map_of_entries (string_entries v)))
                    else Inl (tool_error ''invalid-schema''
                      (''[file-vault] credential file at '' @ path @ '' does not match expected schema:'' @ newline
                       @ schema_errors v))),
           w\<lparr>vw_disk := d\<rparr>))"

section \<open>What the tools share\<close>

record secret_options =
  so_logged :: bool
  so_agent :: string
  so_channel :: string
  so_approval_id :: "string option"
  so_allowlist :: "string list option"

text \<open>What a tool can change. \<open>sw_injected\<close> is the backend of the options, if there is one.\<close>

record secret_world =
  sw_log :: "json list"
  sw_manager :: "manager option"
  sw_injected :: "backend option"
  sw_vault :: vault_world

definition js_set :: "string list \<Rightarrow> string list" where
  "js_set xs = foldl (\<lambda>acc x. if x \<in> set acc then acc else acc @ [x]) [] xs"

definition ALLOWLIST_ENV_VAR :: string where
  "ALLOWLIST_ENV_VAR = ''CLAWTHORITY_SECRET_ALLOWLIST''"

definition resolveAllowlist :: "string list option \<Rightarrow> vault_world \<Rightarrow> string list" where
  "resolveAllowlist injected w =
     (case injected of
        Some keys \<Rightarrow> js_set keys
      | None \<Rightarrow>
          (case env_get ALLOWLIST_ENV_VAR w of
             Some val \<Rightarrow>
               if js_trim val \<noteq> ''''
               then js_set (filter (\<lambda>k. k \<noteq> '''') (map js_trim (split_on (CHR '','') val))) else []
           | None \<Rightarrow> []))"

definition isKeyAllowed :: "string \<Rightarrow> string list \<Rightarrow> bool" where
  "isKeyAllowed key allowlist \<longleftrightarrow> key \<in> set allowlist"

definition GENERATED_SECRET_BYTES :: nat where
  "GENERATED_SECRET_BYTES = 32"

definition generateSecretValue :: "8 word list \<Rightarrow> string" where
  "generateSecretValue random = to_hex (take GENERATED_SECRET_BYTES random)"

text \<open>Where a tool finds its secrets. The arrow of the name of an unknown store is written \<open>->\<close>.\<close>

datatype place = Injected | ProcessEnv | Opened backend

definition resolveBackend :: "string option \<Rightarrow> secret_world \<Rightarrow> place \<times> string" where
  "resolveBackend store w =
     (if sw_injected w \<noteq> None then (Injected, case store of Some s \<Rightarrow> s | None \<Rightarrow> ''injected'')
      else (ProcessEnv,
            case store of
              None \<Rightarrow> ''env''
            | Some s \<Rightarrow> if s = ''env'' then ''env'' else ''unknown('' @ s @ '')->env''))"

definition backend_at :: "place \<Rightarrow> secret_world \<Rightarrow> backend" where
  "backend_at p w =
     (case p of
        Injected \<Rightarrow> (case sw_injected w of Some b \<Rightarrow> b | None \<Rightarrow> EnvSecretBackend)
      | ProcessEnv \<Rightarrow> EnvSecretBackend
      | Opened b \<Rightarrow> b)"

definition get_at :: "place \<Rightarrow> string \<Rightarrow> secret_world \<Rightarrow> string option" where
  "get_at p key w = backend_get (backend_at p w) key (sw_vault w)"

definition has_at :: "place \<Rightarrow> string \<Rightarrow> secret_world \<Rightarrow> bool" where
  "has_at p key w = backend_has (backend_at p w) key (sw_vault w)"

definition set_at :: "place \<Rightarrow> string \<Rightarrow> string \<Rightarrow> secret_world \<Rightarrow> string option \<times> secret_world" where
  "set_at p key val w =
     (case backend_set key val (backend_at p w) (sw_vault w) of
        (e, b, v) \<Rightarrow> (e, w\<lparr>sw_injected := if p = Injected then Some b else sw_injected w, sw_vault := v\<rparr>))"

text \<open>Entries of the log: the event and the tool, what it is about, who calls, and the rest.\<close>

record secret_tool =
  st_type :: string
  st_name :: string

type_synonym members = "(string \<times> json) list"

definition secret_log :: "secret_tool \<Rightarrow> secret_options \<Rightarrow> members \<Rightarrow> string \<Rightarrow> string \<Rightarrow> members \<Rightarrow> secret_world \<Rightarrow> secret_world" where
  "secret_log tool opts about ts event rest w =
     (if so_logged opts
      then w\<lparr>sw_log := sw_log w @ [JObj
        ([(''ts'', JStr ts), (''type'', JStr (st_type tool)), (''event'', JStr event), (''toolName'', JStr (st_name tool))]
         @ about @ [(''agentId'', JStr (so_agent opts)), (''channel'', JStr (so_channel opts))] @ rest)]\<rparr>
      else w)"

definition about_key :: "string \<Rightarrow> string \<Rightarrow> members" where
  "about_key key name = [(''key'', JStr key), (''store'', JStr name)]"

definition secret_token :: "secret_options \<Rightarrow> string" where
  "secret_token opts = (case so_approval_id opts of Some t \<Rightarrow> t | None \<Rightarrow> '''')"

definition with_token :: "secret_options \<Rightarrow> members \<Rightarrow> members" where
  "with_token opts rest = (''approvalId'', JStr (secret_token opts)) # rest"

type_synonym 'a secret_step = "secret_world \<Rightarrow> (tool_error + 'a) \<times> secret_world"

definition refuse_secret :: "secret_tool \<Rightarrow> secret_options \<Rightarrow> members \<Rightarrow> string \<Rightarrow> string \<Rightarrow> members \<Rightarrow> string \<Rightarrow> 'a secret_step" where
  "refuse_secret tool opts about ts code rest message w =
     (Inl (tool_error code message), secret_log tool opts about ts code rest w)"

definition in_quotes :: "string \<Rightarrow> string" where
  "in_quotes s = [CHR 0x27] @ s @ [CHR 0x27]"

definition reason :: "string \<Rightarrow> string \<times> json" where
  "reason s = (''reason'', JStr s)"

text \<open>The first three gates of the tools that name a key, the last two of them for list_secrets as well.\<close>

definition key_gate :: "secret_tool \<Rightarrow> secret_options \<Rightarrow> string \<Rightarrow> string \<Rightarrow> string \<Rightarrow> 'a secret_step \<Rightarrow> 'a secret_step" where
  "key_gate tool opts key name ts go w =
     (if isKeyAllowed key (resolveAllowlist (so_allowlist opts) (sw_vault w)) then go w
      else refuse_secret tool opts (about_key key name) ts ''key-denied''
             [reason ''key is not in the configured allowlist'']
             (st_name tool @ '': key '' @ in_quotes key @ '' is not in the configured allowlist.'') w)"

definition token_gates :: "secret_tool \<Rightarrow> secret_options \<Rightarrow> members \<Rightarrow> string \<Rightarrow> 'a secret_step \<Rightarrow> 'a secret_step" where
  "token_gates tool opts about ts go w =
     (let token = secret_token opts
      in if token = ''''
         then refuse_secret tool opts about ts ''hitl-required''
                [reason ''HITL approval token is required for every invocation'']
                (st_name tool @ '' requires a HITL approval token (approval_id) for every invocation.'') w
         else if (case sw_manager w of Some s \<Rightarrow> isConsumed token s | None \<Rightarrow> False)
         then refuse_secret tool opts about ts ''token-replayed''
                (with_token opts [reason ''capability token has already been consumed''])
                ''Capability token has already been consumed and cannot be replayed.'' w
         else go w)"

definition use_token :: "secret_options \<Rightarrow> secret_world \<Rightarrow> secret_world" where
  "use_token opts w =
     w\<lparr>sw_manager := map_option (\<lambda>s. snd (resolveApproval (secret_token opts) Approved None s)) (sw_manager w)\<rparr>"

text \<open>The two parts of a tool with nothing between them.\<close>

definition then_use :: "'a secret_step \<Rightarrow> ('a \<Rightarrow> 'b secret_step) \<Rightarrow> 'b secret_step" where
  "then_use f g w = (case f w of (Inl e, w') \<Rightarrow> (Inl e, w') | (Inr x, w') \<Rightarrow> g x w')"

section \<open>read_secret\<close>

definition READ_SECRET :: secret_tool where
  "READ_SECRET = \<lparr>st_type = ''read-secret'', st_name = ''read_secret''\<rparr>"

definition readSecret_check :: "string \<Rightarrow> string \<Rightarrow> string option \<Rightarrow> secret_options \<Rightarrow> (place \<times> string) secret_step" where
  "readSecret_check ts key store opts w =
     (case resolveBackend store w of (p, name) \<Rightarrow>
        let about = about_key key name
        in key_gate READ_SECRET opts key name ts
             (token_gates READ_SECRET opts about ts
                (\<lambda>w. (Inr (p, name), secret_log READ_SECRET opts about ts ''read-attempt'' (with_token opts []) w))) w)"

definition readSecret_use :: "string \<Rightarrow> string \<Rightarrow> secret_options \<Rightarrow> place \<times> string \<Rightarrow> string secret_step" where
  "readSecret_use ts key opts found w =
     (let (p, name) = found; about = about_key key name; w = use_token opts w
      in case get_at p key w of
           None \<Rightarrow> refuse_secret READ_SECRET opts about ts ''not-found'' (with_token opts [])
                     (''read_secret: key '' @ in_quotes key @ '' not found in store '' @ in_quotes name @ ''.'') w
         | Some v \<Rightarrow> (Inr v, secret_log READ_SECRET opts about ts ''read-complete''
                     (with_token opts [(''valueLength'', JNum (int (length v)))]) w))"

definition readSecret :: "string \<Rightarrow> string \<Rightarrow> string \<Rightarrow> string option \<Rightarrow> secret_options \<Rightarrow> string secret_step" where
  "readSecret ts ts' key store opts = then_use (readSecret_check ts key store opts) (readSecret_use ts' key opts)"

section \<open>write_secret\<close>

definition WRITE_SECRET :: secret_tool where
  "WRITE_SECRET = \<lparr>st_type = ''write-secret'', st_name = ''write_secret''\<rparr>"

definition writeSecret_check ::
  "string \<Rightarrow> string \<Rightarrow> string \<Rightarrow> string option \<Rightarrow> secret_options \<Rightarrow> (place \<times> string) secret_step" where
  "writeSecret_check ts key val store opts w =
     (case resolveBackend store w of (p, name) \<Rightarrow>
        let about = about_key key name
        in key_gate WRITE_SECRET opts key name ts
             (token_gates WRITE_SECRET opts about ts
                (\<lambda>w. (Inr (p, name), secret_log WRITE_SECRET opts about ts ''write-attempt''
                   (with_token opts [(''valueLength'', JNum (int (length val)))]) w))) w)"

definition writeSecret_use :: "string \<Rightarrow> string \<Rightarrow> string \<Rightarrow> secret_options \<Rightarrow> place \<times> string \<Rightarrow> unit secret_step" where
  "writeSecret_use ts key val opts found w =
     (let (p, name) = found; about = about_key key name
      in case set_at p key val (use_token opts w) of
           (Some message, w) \<Rightarrow>
             refuse_secret WRITE_SECRET opts about ts ''write-error'' (with_token opts [(''error'', JStr message)])
               (''write_secret: backend write failed: '' @ message) w
         | (None, w) \<Rightarrow> (Inr (), secret_log WRITE_SECRET opts about ts ''write-complete''
               (with_token opts [(''valueLength'', JNum (int (length val)))]) w))"

definition writeSecret ::
  "string \<Rightarrow> string \<Rightarrow> string \<Rightarrow> string \<Rightarrow> string option \<Rightarrow> secret_options \<Rightarrow> unit secret_step" where
  "writeSecret ts ts' key val store opts =
     then_use (writeSecret_check ts key val store opts) (writeSecret_use ts' key val opts)"

section \<open>rotate_secret\<close>

definition ROTATE_SECRET :: secret_tool where
  "ROTATE_SECRET = \<lparr>st_type = ''rotate-secret'', st_name = ''rotate_secret''\<rparr>"

definition rotateSecret_check ::
  "string \<Rightarrow> string \<Rightarrow> string \<Rightarrow> string option \<Rightarrow> secret_options \<Rightarrow> (place \<times> string) secret_step" where
  "rotateSecret_check ts key newValue store opts w =
     (case resolveBackend store w of (p, name) \<Rightarrow>
        let about = about_key key name
        in key_gate ROTATE_SECRET opts key name ts
             (token_gates ROTATE_SECRET opts about ts
                (\<lambda>w. if \<not> has_at p key w
                  then refuse_secret ROTATE_SECRET opts about ts ''key-not-found''
                         (with_token opts [reason ''key does not exist in the store; rotation requires an existing key''])
                         (''rotate_secret: key '' @ in_quotes key @ '' does not exist in store '' @ in_quotes name
                          @ ''. Rotation requires an existing key.'') w
                  else (Inr (p, name), secret_log ROTATE_SECRET opts about ts ''rotate-attempt''
                         (with_token opts [(''newValueLength'', JNum (int (length newValue)))]) w))) w)"

definition rotateSecret_use :: "string \<Rightarrow> string \<Rightarrow> string \<Rightarrow> secret_options \<Rightarrow> place \<times> string \<Rightarrow> string secret_step" where
  "rotateSecret_use ts key newValue opts found w =
     (let (p, name) = found; about = about_key key name
      in case set_at p key newValue (use_token opts w) of
           (Some message, w) \<Rightarrow>
             refuse_secret ROTATE_SECRET opts about ts ''write-error'' (with_token opts [(''error'', JStr message)])
               (''rotate_secret: backend write failed: '' @ message) w
         | (None, w) \<Rightarrow> (Inr key, secret_log ROTATE_SECRET opts about ts ''rotate-complete''
               (with_token opts [(''newValueLength'', JNum (int (length newValue)))]) w))"

definition rotateSecret ::
  "string \<Rightarrow> string \<Rightarrow> string \<Rightarrow> string \<Rightarrow> string option \<Rightarrow> secret_options \<Rightarrow> string secret_step" where
  "rotateSecret ts ts' key newValue store opts =
     then_use (rotateSecret_check ts key newValue store opts) (rotateSecret_use ts' key newValue opts)"

section \<open>list_secrets\<close>

text \<open>No backend throws when it is asked for a key, so the error of the enumeration does not arise.\<close>

definition LIST_SECRETS :: secret_tool where
  "LIST_SECRETS = \<lparr>st_type = ''list-secrets'', st_name = ''list_secrets''\<rparr>"

definition listSecrets_check :: "string \<Rightarrow> string option \<Rightarrow> secret_options \<Rightarrow> (place \<times> string \<times> string list) secret_step" where
  "listSecrets_check ts store opts w =
     (case resolveBackend store w of (p, name) \<Rightarrow>
        let about = [(''store'', JStr name)]
        in token_gates LIST_SECRETS opts about ts
             (\<lambda>w. let allowlist = resolveAllowlist (so_allowlist opts) (sw_vault w)
                in (Inr (p, name, allowlist), secret_log LIST_SECRETS opts about ts ''list-attempt''
                     (with_token opts [(''allowlistSize'', JNum (int (length allowlist)))]) w)) w)"

definition listSecrets_use :: "string \<Rightarrow> secret_options \<Rightarrow> place \<times> string \<times> string list \<Rightarrow> string list secret_step" where
  "listSecrets_use ts opts found w =
     (let (p, name, allowlist) = found; w = use_token opts w; keys = filter (\<lambda>key. has_at p key w) allowlist
      in (Inr keys, secret_log LIST_SECRETS opts [(''store'', JStr name)] ts ''list-complete''
           (with_token opts [(''keyCount'', JNum (int (length keys))), (''keys'', JArr (map JStr keys))]) w))"

definition listSecrets :: "string \<Rightarrow> string \<Rightarrow> string option \<Rightarrow> secret_options \<Rightarrow> string list secret_step" where
  "listSecrets ts ts' store opts = then_use (listSecrets_check ts store opts) (listSecrets_use ts' opts)"

section \<open>store_secret\<close>

definition STORE_SECRET :: secret_tool where
  "STORE_SECRET = \<lparr>st_type = ''store-secret'', st_name = ''store_secret''\<rparr>"

text \<open>The error of a file that cannot be read as credentials has no code: it is not an error of the tool's own.\<close>

definition resolveFileBackend ::
  "json_parser \<Rightarrow> string option \<Rightarrow> secret_world \<Rightarrow> (string + (place \<times> string) option) \<times> secret_world" where
  "resolveFileBackend parse path w =
     (if sw_injected w \<noteq> None
      then (Inr (Some (Injected, case path of Some p \<Rightarrow> ''file:'' @ p | None \<Rightarrow> ''file:injected'')), w)
      else (case path of
              None \<Rightarrow> (Inr None, w)
            | Some p \<Rightarrow>
                (case loadBackend parse p (sw_vault w) of
                   (Inl message, v) \<Rightarrow> (Inl message, w\<lparr>sw_vault := v\<rparr>)
                 | (Inr b, v) \<Rightarrow> (Inr (Some (Opened b, ''file:'' @ p)), w\<lparr>sw_vault := v\<rparr>))))"

definition storeSecret_check ::
  "json_parser \<Rightarrow> string \<Rightarrow> string \<Rightarrow> string \<Rightarrow> string option \<Rightarrow> secret_options \<Rightarrow> (place \<times> string) secret_step" where
  "storeSecret_check parse ts key val path opts w =
     (case resolveFileBackend parse path w of
        (Inl message, w) \<Rightarrow> (Inl (tool_error '''' message), w)
      | (Inr None, w) \<Rightarrow>
          refuse_secret STORE_SECRET opts [(''key'', JStr key)] ts ''write-error''
            [reason ''no file path or injected backend provided'']
            ''store_secret requires either a \"path\" parameter pointing to a credential file or an injected backend.'' w
      | (Inr (Some (p, name)), w) \<Rightarrow>
          let about = about_key key name
          in key_gate STORE_SECRET opts key name ts
               (token_gates STORE_SECRET opts about ts
                  (\<lambda>w. (Inr (p, name), secret_log STORE_SECRET opts about ts ''store-attempt''
                     (with_token opts [(''valueLength'', JNum (int (length val)))]) w))) w)"

definition storeSecret_use :: "string \<Rightarrow> string \<Rightarrow> string \<Rightarrow> secret_options \<Rightarrow> place \<times> string \<Rightarrow> unit secret_step" where
  "storeSecret_use ts key val opts found w =
     (let (p, name) = found; about = about_key key name
      in case set_at p key val (use_token opts w) of
           (Some message, w) \<Rightarrow>
             refuse_secret STORE_SECRET opts about ts ''write-error'' (with_token opts [(''error'', JStr message)])
               (''store_secret: file write failed: '' @ message) w
         | (None, w) \<Rightarrow> (Inr (), secret_log STORE_SECRET opts about ts ''store-complete''
               (with_token opts [(''valueLength'', JNum (int (length val)))]) w))"

definition storeSecret ::
  "json_parser \<Rightarrow> string \<Rightarrow> string \<Rightarrow> string \<Rightarrow> string \<Rightarrow> string option \<Rightarrow> secret_options \<Rightarrow> unit secret_step" where
  "storeSecret parse ts ts' key val path opts =
     then_use (storeSecret_check parse ts key val path opts) (storeSecret_use ts' key val opts)"

section \<open>get_env_var\<close>

definition ENV_VAR_NAME_RE :: rx where
  "ENV_VAR_NAME_RE =
     RSeq RBol (RSeq (RClass (\<lambda>c. is_upper c \<or> is_lower c \<or> c = CHR ''_''))
       (RSeq (RStar (RClass (\<lambda>c. is_upper c \<or> is_lower c \<or> is_digit c \<or> c = CHR ''_''))) REol))"

definition isValidEnvVarName :: "string \<Rightarrow> bool" where
  "isValidEnvVarName name \<longleftrightarrow> name \<noteq> '''' \<and> rx_test ENV_VAR_NAME_RE name"

record env_var_result =
  ev_variable_name :: string
  ev_found :: bool
  ev_value :: "string option"

definition getEnvVar :: "string \<Rightarrow> vault_world \<Rightarrow> tool_error + env_var_result" where
  "getEnvVar variable_name w =
     (if \<not> isValidEnvVarName variable_name
      then Inl (tool_error ''invalid-name''
        (''Invalid environment variable name: '' @ js_quote variable_name @ ''. ''
         @ ''Names must start with a letter or underscore and contain only letters, digits, and underscores.''))
      else case env_get variable_name w of
        None \<Rightarrow> Inr \<lparr>ev_variable_name = variable_name, ev_found = False, ev_value = None\<rparr>
      | Some raw \<Rightarrow> Inr \<lparr>ev_variable_name = variable_name, ev_found = True, ev_value = Some raw\<rparr>)"

end
