(* ===== verification/SecretToolsProps.thy ===== *)
theory SecretToolsProps
  imports SecretTools FileToolsProps
begin

text \<open>
  Who reads and writes secrets: only allowlisted keys, only with a token that is not used up; a value that is
  written is read back, from the file it was stored in as well; and the log does not depend on the values, but
  for their lengths. The variables of the environment are open to get_env_var all the same.
\<close>

section \<open>The gates\<close>

definition token_open :: "secret_options \<Rightarrow> secret_world \<Rightarrow> bool" where
  "token_open opts w \<longleftrightarrow> secret_token opts \<noteq> ''''
     \<and> (case sw_manager w of Some s \<Rightarrow> \<not> isConsumed (secret_token opts) s | None \<Rightarrow> True)"

definition secret_open :: "string \<Rightarrow> secret_options \<Rightarrow> secret_world \<Rightarrow> bool" where
  "secret_open key opts w \<longleftrightarrow>
     isKeyAllowed key (resolveAllowlist (so_allowlist opts) (sw_vault w)) \<and> token_open opts w"

definition held :: "secret_world \<Rightarrow> backend option \<times> vault_world" where
  "held w = (sw_injected w, sw_vault w)"

abbreviation place_of :: "string option \<Rightarrow> secret_world \<Rightarrow> place" where
  "place_of store w \<equiv> fst (resolveBackend store w)"

lemma secret_log_fields [simp]:
  "sw_manager (secret_log tool opts about ts event rest w) = sw_manager w"
  "sw_injected (secret_log tool opts about ts event rest w) = sw_injected w"
  "sw_vault (secret_log tool opts about ts event rest w) = sw_vault w"
  by (simp_all add: secret_log_def)

lemma use_token_fields [simp]:
  "sw_log (use_token opts w) = sw_log w" "sw_injected (use_token opts w) = sw_injected w"
  "sw_vault (use_token opts w) = sw_vault w"
  "sw_manager (use_token opts w)
     = map_option (\<lambda>s. snd (resolveApproval (secret_token opts) Approved None s)) (sw_manager w)"
  by (simp_all add: use_token_def)

lemma held_eq [simp]: "held w = held w' \<longleftrightarrow> sw_injected w = sw_injected w' \<and> sw_vault w = sw_vault w'"
  by (simp add: held_def)

lemma at_cong:
  "held w = held w' \<Longrightarrow> get_at p key w = get_at p key w'"
  "held w = held w' \<Longrightarrow> has_at p key w = has_at p key w'"
  by (simp_all add: get_at_def has_at_def backend_at_def cong: place.case_cong)

lemma set_at_cong:
  assumes "held w = held w'"
  shows "fst (set_at p key val w) = fst (set_at p key val w')"
    "held (snd (set_at p key val w)) = held (snd (set_at p key val w'))"
proof -
  from assms have "backend_at p w = backend_at p w'" by (simp add: backend_at_def cong: place.case_cong)
  then show "fst (set_at p key val w) = fst (set_at p key val w')"
    "held (snd (set_at p key val w)) = held (snd (set_at p key val w'))"
    using assms by (simp_all add: set_at_def split: prod.split)
qed

lemma gates_pass:
  "secret_open key opts w \<Longrightarrow> key_gate tool opts key name ts (token_gates tool opts about ts go) w = go w"
  by (auto simp: secret_open_def token_open_def key_gate_def token_gates_def Let_def split: option.splits)

lemma gates_stop:
  assumes "\<not> secret_open key opts w"
  shows "\<exists>e. fst (key_gate tool opts key name ts (token_gates tool opts about ts go) w) = Inl e"
    "held (snd (key_gate tool opts key name ts (token_gates tool opts about ts go) w)) = held w"
  using assms
  by (auto simp: secret_open_def token_open_def key_gate_def token_gates_def refuse_secret_def Let_def split: option.splits)

lemma then_use_stop: "fst (f w) = Inl e \<Longrightarrow> then_use f g w = (Inl e, snd (f w))"
  by (cases "f w") (simp add: then_use_def)

lemma then_use_go: "f w = (Inr x, w') \<Longrightarrow> then_use f g w = g x w'"
  by (simp add: then_use_def)

lemma token_stop:
  assumes "\<not> token_open opts w"
  shows "\<exists>e. fst (token_gates tool opts about ts go w) = Inl e" "held (snd (token_gates tool opts about ts go w)) = held w"
  using assms by (auto simp: token_open_def token_gates_def refuse_secret_def Let_def split: option.splits)

lemma token_pass: "token_open opts w \<Longrightarrow> token_gates tool opts about ts go w = go w"
  by (auto simp: token_open_def token_gates_def Let_def split: option.splits)

lemma set_at_log [simp]:
  "sw_log (snd (set_at p key val w)) = sw_log w" "sw_manager (snd (set_at p key val w)) = sw_manager w"
  by (simp_all add: set_at_def split: prod.split)

text \<open>A tool whose first part is the two gates stops at them, or goes on from what is behind them.\<close>

lemma tool_shut:
  assumes "\<not> secret_open key opts w" "f w = key_gate tool opts key name ts (token_gates tool opts about ts go) w"
  shows "(\<exists>e. fst (then_use f g w) = Inl e) \<and> held (snd (then_use f g w)) = held w"
proof -
  from gates_stop [OF assms(1), of tool name ts about go] obtain e
    where e: "fst (f w) = Inl e" "held (snd (f w)) = held w" unfolding assms(2) by blast
  from then_use_stop [of f w e g, OF e(1)] e(2) show ?thesis by simp
qed

abbreviation backend_name :: "string option \<Rightarrow> secret_world \<Rightarrow> string" where
  "backend_name store w \<equiv> snd (resolveBackend store w)"

lemma readSecret_check_eq:
  "readSecret_check ts key store opts w
     = key_gate READ_SECRET opts key (backend_name store w) ts
         (token_gates READ_SECRET opts (about_key key (backend_name store w)) ts
            (\<lambda>w1. (Inr (resolveBackend store w), secret_log READ_SECRET opts (about_key key (backend_name store w)) ts
                    ''read-attempt'' (with_token opts []) w1))) w"
  by (simp add: readSecret_check_def split_beta Let_def)

lemma writeSecret_check_eq:
  "writeSecret_check ts key val store opts w
     = key_gate WRITE_SECRET opts key (backend_name store w) ts
         (token_gates WRITE_SECRET opts (about_key key (backend_name store w)) ts
            (\<lambda>w1. (Inr (resolveBackend store w), secret_log WRITE_SECRET opts (about_key key (backend_name store w)) ts
                    ''write-attempt'' (with_token opts [(''valueLength'', JNum (int (length val)))]) w1))) w"
  by (simp add: writeSecret_check_def split_beta Let_def)

lemma rotateSecret_check_eq:
  "rotateSecret_check ts key newValue store opts w
     = key_gate ROTATE_SECRET opts key (backend_name store w) ts
         (token_gates ROTATE_SECRET opts (about_key key (backend_name store w)) ts
            (\<lambda>w1. if \<not> has_at (place_of store w) key w1
                  then refuse_secret ROTATE_SECRET opts (about_key key (backend_name store w)) ts ''key-not-found''
                         (with_token opts [reason ''key does not exist in the store; rotation requires an existing key''])
                         (''rotate_secret: key '' @ in_quotes key @ '' does not exist in store ''
                          @ in_quotes (backend_name store w) @ ''. Rotation requires an existing key.'') w1
                  else (Inr (resolveBackend store w), secret_log ROTATE_SECRET opts
                         (about_key key (backend_name store w)) ts ''rotate-attempt''
                         (with_token opts [(''newValueLength'', JNum (int (length newValue)))]) w1))) w"
  unfolding rotateSecret_check_def Let_def split_beta prod.collapse by (rule refl)

lemma shut_tools:
  assumes "\<not> secret_open key opts w"
  shows "(\<exists>e. fst (readSecret ts ts' key store opts w) = Inl e) \<and> held (snd (readSecret ts ts' key store opts w)) = held w"
    and "(\<exists>e. fst (writeSecret ts ts' key val store opts w) = Inl e)
      \<and> held (snd (writeSecret ts ts' key val store opts w)) = held w"
    and "(\<exists>e. fst (rotateSecret ts ts' key val store opts w) = Inl e)
      \<and> held (snd (rotateSecret ts ts' key val store opts w)) = held w"
  unfolding readSecret_def writeSecret_def rotateSecret_def
  by (rule tool_shut [where f = "readSecret_check ts key store opts", OF assms readSecret_check_eq]
      tool_shut [where f = "writeSecret_check ts key val store opts", OF assms writeSecret_check_eq]
      tool_shut [where f = "rotateSecret_check ts key val store opts", OF assms rotateSecret_check_eq])+

text \<open>Behind open gates: the entry for the attempt, and the second part.\<close>

definition attempt :: "secret_tool \<Rightarrow> secret_options \<Rightarrow> string \<Rightarrow> string option \<Rightarrow> string \<Rightarrow> string \<Rightarrow> members \<Rightarrow> secret_world \<Rightarrow> secret_world" where
  "attempt tool opts key store ts event rest w =
     secret_log tool opts (about_key key (backend_name store w)) ts event (with_token opts rest) w"

lemma attempt_fields [simp]:
  "sw_manager (attempt tool opts key store ts event rest w) = sw_manager w"
  "sw_injected (attempt tool opts key store ts event rest w) = sw_injected w"
  "sw_vault (attempt tool opts key store ts event rest w) = sw_vault w"
  by (simp_all add: attempt_def)

lemma readSecret_open:
  "secret_open key opts w \<Longrightarrow> readSecret ts ts' key store opts w
     = readSecret_use ts' key opts (resolveBackend store w) (attempt READ_SECRET opts key store ts ''read-attempt'' [] w)"
  by (simp add: readSecret_def then_use_def readSecret_check_eq gates_pass attempt_def)

lemma writeSecret_open:
  "secret_open key opts w \<Longrightarrow> writeSecret ts ts' key val store opts w
     = writeSecret_use ts' key val opts (resolveBackend store w)
         (attempt WRITE_SECRET opts key store ts ''write-attempt'' [(''valueLength'', JNum (int (length val)))] w)"
  by (simp add: writeSecret_def then_use_def writeSecret_check_eq gates_pass attempt_def)

lemma rotateSecret_open:
  "secret_open key opts w \<Longrightarrow> has_at (place_of store w) key w \<Longrightarrow> rotateSecret ts ts' key newValue store opts w
     = rotateSecret_use ts' key newValue opts (resolveBackend store w)
         (attempt ROTATE_SECRET opts key store ts ''rotate-attempt'' [(''newValueLength'', JNum (int (length newValue)))] w)"
  by (simp add: rotateSecret_def then_use_def rotateSecret_check_eq gates_pass attempt_def)

lemma rotateSecret_missing:
  "secret_open key opts w \<Longrightarrow> \<not> has_at (place_of store w) key w \<Longrightarrow>
     (\<exists>e. fst (rotateSecret ts ts' key newValue store opts w) = Inl e)
     \<and> held (snd (rotateSecret ts ts' key newValue store opts w)) = held w"
  by (simp add: rotateSecret_def then_use_def rotateSecret_check_eq gates_pass refuse_secret_def)

lemma refuse_held [simp]: "held (snd (refuse_secret tool opts about ts code rest message w)) = held w"
  by (simp add: refuse_secret_def)

lemma read_access:
  "(fst (readSecret ts ts' key store opts w) = Inr v
      \<longleftrightarrow> secret_open key opts w \<and> get_at (place_of store w) key w = Some v)
   \<and> held (snd (readSecret ts ts' key store opts w)) = held w"
proof (cases "secret_open key opts w")
  case True
  let ?w = "use_token opts (attempt READ_SECRET opts key store ts ''read-attempt'' [] w)"
  have "get_at (place_of store w) key ?w = get_at (place_of store w) key w" by (rule at_cong(1)) simp
  with True show ?thesis
    by (auto simp: readSecret_open readSecret_use_def split_beta Let_def refuse_secret_def split: option.split)
next
  case False
  from shut_tools(1) [OF this, of ts ts' store] False show ?thesis by force
qed

text \<open>What a write leaves is what \<open>set\<close> leaves, whether or not it fails.\<close>

lemma write_uses:
  "held (snd (writeSecret_use ts key val opts (p, name) w)) = held (snd (set_at p key val w))"
  "held (snd (rotateSecret_use ts key val opts (p, name) w)) = held (snd (set_at p key val w))"
  "held (snd (storeSecret_use ts key val opts (p, name) w)) = held (snd (set_at p key val w))"
  "(fst (writeSecret_use ts key val opts (p, name) w) = Inr ()) = (fst (set_at p key val w) = None)"
  "(fst (storeSecret_use ts key val opts (p, name) w) = Inr ()) = (fst (set_at p key val w) = None)"
  using set_at_cong [of "use_token opts w" w p key val]
  by (auto dest: sym simp: writeSecret_use_def rotateSecret_use_def storeSecret_use_def refuse_secret_def Let_def split: prod.splits option.splits)

lemma write_access:
  "held (snd (writeSecret ts ts' key val store opts w))
     = (if secret_open key opts w then held (snd (set_at (place_of store w) key val w)) else held w)"
  "(fst (writeSecret ts ts' key val store opts w) = Inr ())
     = (secret_open key opts w \<and> fst (set_at (place_of store w) key val w) = None)"
proof -
  let ?w = "attempt WRITE_SECRET opts key store ts ''write-attempt'' [(''valueLength'', JNum (int (length val)))] w"
  note same = set_at_cong [of ?w w "place_of store w" key val]
  have "held ?w = held w" by simp
  note same = same [OF this]
  show "held (snd (writeSecret ts ts' key val store opts w))
     = (if secret_open key opts w then held (snd (set_at (place_of store w) key val w)) else held w)"
    using shut_tools(2) [of key opts w ts ts' val store] same write_uses(1) [of ts' key val opts "place_of store w" "backend_name store w" ?w]
    by (cases "secret_open key opts w") (simp_all only: writeSecret_open prod.collapse if_True if_False simp_thms)
  show "(fst (writeSecret ts ts' key val store opts w) = Inr ())
     = (secret_open key opts w \<and> fst (set_at (place_of store w) key val w) = None)"
    using shut_tools(2) [of key opts w ts ts' val store] same
      write_uses(4) [of ts' key val opts "place_of store w" "backend_name store w" ?w]
    by (cases "secret_open key opts w") (auto simp: writeSecret_open)
qed

lemma rotate_access:
  "held (snd (rotateSecret ts ts' key val store opts w))
     = (if secret_open key opts w \<and> has_at (place_of store w) key w
        then held (snd (set_at (place_of store w) key val w)) else held w)"
proof -
  let ?w = "attempt ROTATE_SECRET opts key store ts ''rotate-attempt'' [(''newValueLength'', JNum (int (length val)))] w"
  have "held ?w = held w" by simp
  note same = set_at_cong [OF this, of "place_of store w" key val]
  show ?thesis
    using shut_tools(3) [of key opts w ts ts' val store] same
      rotateSecret_missing [of key opts w store ts ts' val]
      write_uses(2) [of ts' key val opts "place_of store w" "backend_name store w" ?w]
    by (cases "secret_open key opts w"; cases "has_at (place_of store w) key w")
      (simp_all only: rotateSecret_open prod.collapse simp_thms if_True if_False)
qed

lemma list_access:
  "(fst (listSecrets ts ts' store opts w) = Inr keys \<longleftrightarrow> token_open opts w
      \<and> keys = filter (\<lambda>key. has_at (place_of store w) key w) (resolveAllowlist (so_allowlist opts) (sw_vault w)))
   \<and> held (snd (listSecrets ts ts' store opts w)) = held w"
proof (cases "token_open opts w")
  case True
  have same: "has_at p key (use_token opts (secret_log tool opts about ts event rest w)) = has_at p key w"
    for p key tool about ts event rest by (rule at_cong(2)) simp
  from True show ?thesis
    by (auto simp: listSecrets_def then_use_def listSecrets_check_def token_pass listSecrets_use_def split_beta Let_def same)
next
  case False
  from token_stop [OF this] obtain e where "fst (listSecrets_check ts store opts w) = Inl e" "held (snd (listSecrets_check ts store opts w)) = held w"
    unfolding listSecrets_check_def split_beta Let_def by blast
  with False show ?thesis
    using then_use_stop [of "listSecrets_check ts store opts" w e "listSecrets_use ts' opts"] by (simp add: listSecrets_def)
qed

text \<open>store_secret reads its file before the gates; that leaves every file and the environment as they were.\<close>

definition same_secrets :: "secret_world \<Rightarrow> secret_world \<Rightarrow> bool" where
  "same_secrets w w' \<longleftrightarrow> sw_injected w' = sw_injected w \<and> vw_env (sw_vault w') = vw_env (sw_vault w)
     \<and> dk_nodes (vw_disk (sw_vault w')) = dk_nodes (vw_disk (sw_vault w))"

lemma read_text_disk: "snd (read_text path d) = d\<lparr>dk_time := Suc (dk_time d)\<rparr>"
  by (simp add: read_text_def fs_call_def untouched_def Let_def split: option.split)

lemma loadBackend_world:
  "snd (loadBackend parse path v) = v\<lparr>vw_disk := (vw_disk v)\<lparr>dk_time := Suc (dk_time (vw_disk v))\<rparr>\<rparr>"
  using read_text_disk [of path "vw_disk v"] by (auto simp: loadBackend_def split: prod.split)

lemma resolveFileBackend_world:
  "\<exists>v. snd (resolveFileBackend parse path w) = w\<lparr>sw_vault := v\<rparr> \<and> vw_env v = vw_env (sw_vault w)
     \<and> dk_nodes (vw_disk v) = dk_nodes (vw_disk (sw_vault w))"
proof (cases "sw_injected w = None \<and> path \<noteq> None")
  case True
  then obtain p where path: "path = Some p" by auto
  let ?l = "loadBackend parse p (sw_vault w)"
  have "snd (resolveFileBackend parse path w) = w\<lparr>sw_vault := snd ?l\<rparr>"
    using True path by (cases ?l; cases "fst ?l") (auto simp: resolveFileBackend_def)
  then show ?thesis by (intro exI [of _ "snd ?l"]) (simp add: loadBackend_world)
next
  case False
  then have "snd (resolveFileBackend parse path w) = w\<lparr>sw_vault := sw_vault w\<rparr>"
    by (auto simp: resolveFileBackend_def split: option.split)
  then show ?thesis by blast
qed

lemma secret_open_vault:
  "vw_env v = vw_env (sw_vault w) \<Longrightarrow> secret_open key opts (w\<lparr>sw_vault := v\<rparr>) = secret_open key opts w"
  by (cases "so_allowlist opts") (simp_all add: secret_open_def token_open_def resolveAllowlist_def env_get_def)

text \<open>The gates of store_secret, and the tool as what it does with the backend it found.\<close>

abbreviation store_gates where
  "store_gates ts key val opts p name \<equiv>
     key_gate STORE_SECRET opts key name ts (token_gates STORE_SECRET opts (about_key key name) ts
       (\<lambda>w. (Inr (p, name), secret_log STORE_SECRET opts (about_key key name) ts ''store-attempt''
          (with_token opts [(''valueLength'', JNum (int (length val)))]) w)))"

lemma storeSecret_eq:
  "storeSecret parse ts ts' key val path opts w =
     (case resolveFileBackend parse path w of
        (Inl message, w1) \<Rightarrow> (Inl (tool_error '''' message), w1)
      | (Inr None, w1) \<Rightarrow>
          refuse_secret STORE_SECRET opts [(''key'', JStr key)] ts ''write-error''
            [reason ''no file path or injected backend provided'']
            ''store_secret requires either a \"path\" parameter pointing to a credential file or an injected backend.'' w1
      | (Inr (Some (p, name)), w1) \<Rightarrow> then_use (store_gates ts key val opts p name) (storeSecret_use ts' key val opts) w1)"
  unfolding storeSecret_def then_use_def storeSecret_check_def
  by (simp add: refuse_secret_def Let_def split: prod.split sum.split option.split)

text \<open>Where store_secret puts the value, if it found a place, and the world after it has looked.\<close>

definition store_place :: "json_parser \<Rightarrow> string option \<Rightarrow> secret_world \<Rightarrow> place option \<times> secret_world" where
  "store_place parse path w =
     (case resolveFileBackend parse path w of
        (Inr (Some (p, name)), w1) \<Rightarrow> (Some p, w1)
      | (_, w1) \<Rightarrow> (None, w1))"

lemma store_place_same: "same_secrets w (snd (store_place parse path w))"
  using resolveFileBackend_world [of parse path w]
  by (auto simp: store_place_def same_secrets_def split: prod.splits sum.splits option.splits)

lemma store_place_open: "secret_open key opts (snd (resolveFileBackend parse path w)) = secret_open key opts w"
  using resolveFileBackend_world [of parse path w] secret_open_vault by auto

lemma store_gated:
  "held (snd (then_use (store_gates ts key val opts p name) (storeSecret_use ts' key val opts) w))
     = (if secret_open key opts w then held (snd (set_at p key val w)) else held w)"
  "(fst (then_use (store_gates ts key val opts p name) (storeSecret_use ts' key val opts) w) = Inr ())
     = (secret_open key opts w \<and> fst (set_at p key val w) = None)"
proof -
  let ?w = "secret_log STORE_SECRET opts (about_key key name) ts ''store-attempt''
    (with_token opts [(''valueLength'', JNum (int (length val)))]) w"
  have "held ?w = held w" by simp
  note same = set_at_cong [OF this, of p key val]
  note uses = write_uses(3,5) [of ts' key val opts p name ?w]
  have go: "then_use (store_gates ts key val opts p name) (storeSecret_use ts' key val opts) w
      = storeSecret_use ts' key val opts (p, name) ?w" if "secret_open key opts w"
    by (rule then_use_go) (rule gates_pass [OF that])
  have stop: "(\<exists>e. fst (then_use (store_gates ts key val opts p name) (storeSecret_use ts' key val opts) w) = Inl e)
      \<and> held (snd (then_use (store_gates ts key val opts p name) (storeSecret_use ts' key val opts) w)) = held w"
    if "\<not> secret_open key opts w"
    by (rule tool_shut [where f = "store_gates ts key val opts p name", OF that refl])
  show "held (snd (then_use (store_gates ts key val opts p name) (storeSecret_use ts' key val opts) w))
     = (if secret_open key opts w then held (snd (set_at p key val w)) else held w)"
    using stop uses(1) same(2) by (cases "secret_open key opts w") (simp_all only: go if_True if_False simp_thms)
  show "(fst (then_use (store_gates ts key val opts p name) (storeSecret_use ts' key val opts) w) = Inr ())
     = (secret_open key opts w \<and> fst (set_at p key val w) = None)"
  proof (cases "secret_open key opts w")
    case True
    then show ?thesis using uses(2) same(1) by (simp only: go simp_thms)
  next
    case False
    with stop [OF False] show ?thesis by auto
  qed
qed

text \<open>What store_secret leaves and when it succeeds, in terms of the place it found.\<close>

definition store_leaves :: "string \<Rightarrow> string \<Rightarrow> secret_options \<Rightarrow> place option \<times> secret_world \<Rightarrow> backend option \<times> vault_world" where
  "store_leaves key val opts found =
     (case found of
        (Some p, w) \<Rightarrow> if secret_open key opts w then held (snd (set_at p key val w)) else held w
      | (None, w) \<Rightarrow> held w)"

definition store_succeeds :: "string \<Rightarrow> string \<Rightarrow> secret_options \<Rightarrow> place option \<times> secret_world \<Rightarrow> bool" where
  "store_succeeds key val opts found =
     (case found of
        (Some p, w) \<Rightarrow> secret_open key opts w \<and> fst (set_at p key val w) = None
      | (None, w) \<Rightarrow> False)"

lemma store_access:
  "held (snd (storeSecret parse ts ts' key val path opts w)) = store_leaves key val opts (store_place parse path w)
   \<and> (fst (storeSecret parse ts ts' key val path opts w) = Inr ()
      \<longleftrightarrow> store_succeeds key val opts (store_place parse path w))"
proof -
  obtain r w1 where r: "resolveFileBackend parse path w = (r, w1)" by (cases "resolveFileBackend parse path w")
  show ?thesis
  proof (cases r)
    case (Inl message)
    with r show ?thesis by (simp add: storeSecret_eq store_place_def store_leaves_def store_succeeds_def)
  next
    case (Inr found)
    show ?thesis
    proof (cases found)
      case None
      with r Inr show ?thesis
        by (simp add: storeSecret_eq store_place_def refuse_secret_def store_leaves_def store_succeeds_def)
    next
      case (Some x)
      obtain p name where "x = (p, name)" by (cases x)
      with r Inr Some store_gated [where ts = ts and ts' = ts' and key = key and val = val and opts = opts and p = p
            and name = name and w = w1] show ?thesis
        by (simp only: storeSecret_eq store_place_def store_leaves_def store_succeeds_def prod.case sum.case option.case simp_thms)
    qed
  qed
qed

lemma store_open:
  assumes "secret_open key opts w" "sw_injected w = None" "loadBackend parse path (sw_vault w) = (Inr b, v)"
  shows "storeSecret parse ts ts' key val (Some path) opts w
     = storeSecret_use ts' key val opts (Opened b, ''file:'' @ path)
         (secret_log STORE_SECRET opts (about_key key (''file:'' @ path)) ts ''store-attempt''
           (with_token opts [(''valueLength'', JNum (int (length val)))]) (w\<lparr>sw_vault := v\<rparr>))"
proof -
  have "vw_env v = vw_env (sw_vault w)"
    using loadBackend_world [of parse path "sw_vault w"] assms(3) by simp
  from secret_open_vault [OF this] assms(1) have "secret_open key opts (w\<lparr>sw_vault := v\<rparr>)" by simp
  with assms(2,3) show ?thesis
    by (simp add: storeSecret_def then_use_def storeSecret_check_def resolveFileBackend_def Let_def gates_pass)
qed

text \<open>
  C13. Secrets are read and changed only for keys of the allowlist and with a token that is given and not used
  up. read_secret returns exactly then a value, the one the backend has, and changes none; write_secret
  succeeds exactly then and when \<open>set\<close> of the backend gives no error, and leaves what \<open>set\<close> leaves, or
  everything as it was; rotate_secret leaves what \<open>set\<close> leaves for a key that is there, and everything as it was
  otherwise; list_secrets gives the keys of the allowlist the backend has, with an open token only. store_secret
  first looks for its place, the injected backend or the credential file, which changes no file, no variable
  and no backend; it succeeds exactly when it found a place, the gates are open and \<open>set\<close> there gives no error,
  and leaves what \<open>set\<close> leaves there, with the key and the value it was given, or everything as it was.
\<close>

theorem secrets_gated:
  "(fst (readSecret ts ts' key store opts w) = Inr v
      \<longleftrightarrow> secret_open key opts w \<and> get_at (place_of store w) key w = Some v)
   \<and> held (snd (readSecret ts ts' key store opts w)) = held w
   \<and> (fst (writeSecret ts ts' key val store opts w) = Inr ()
      \<longleftrightarrow> secret_open key opts w \<and> fst (set_at (place_of store w) key val w) = None)
   \<and> held (snd (writeSecret ts ts' key val store opts w))
      = (if secret_open key opts w then held (snd (set_at (place_of store w) key val w)) else held w)
   \<and> held (snd (rotateSecret ts ts' key val store opts w))
      = (if secret_open key opts w \<and> has_at (place_of store w) key w
         then held (snd (set_at (place_of store w) key val w)) else held w)
   \<and> (fst (listSecrets ts ts' store opts w) = Inr keys \<longleftrightarrow> token_open opts w
        \<and> keys = filter (\<lambda>key. has_at (place_of store w) key w) (resolveAllowlist (so_allowlist opts) (sw_vault w)))
   \<and> same_secrets w (snd (store_place parse path w))
   \<and> (fst (storeSecret parse ts ts' key val path opts w) = Inr ()
      \<longleftrightarrow> store_succeeds key val opts (store_place parse path w))
   \<and> held (snd (storeSecret parse ts ts' key val path opts w)) = store_leaves key val opts (store_place parse path w)"
  using read_access [of ts ts' key store opts w v] write_access [of ts ts' key val store opts w]
    rotate_access [of ts ts' key val store opts w] list_access [of ts ts' store opts w keys]
    store_place_same [of w parse path] store_access [of parse ts ts' key val path opts w]
  by (intro conjI) (simp_all only: simp_thms)

section \<open>A value that is written\<close>

text \<open>
  What a tool needs of a store: after a write that reports no error the value is there, when the store can keep
  it, and every name it takes for another one is as it was, even after an error.
\<close>

locale secret_store =
  fixes sget :: "string \<Rightarrow> 's \<Rightarrow> string option"
    and sset :: "string \<Rightarrow> string \<Rightarrow> 's \<Rightarrow> string option \<times> 's"
    and fits :: "string \<Rightarrow> string \<Rightarrow> bool"
    and same_name :: "string \<Rightarrow> string \<Rightarrow> bool"
  assumes get_set: "fst (sset key val s) = None \<Longrightarrow> fits key val \<Longrightarrow> sget key (snd (sset key val s)) = Some val"
    and get_other: "\<not> same_name key other \<Longrightarrow> sget other (snd (sset key val s)) = sget other s"
begin

lemma writes_elsewhere:
  "\<forall>(k, v)\<in>set kvs. \<not> same_name k key \<Longrightarrow> sget key (fold (\<lambda>(k, v) s. snd (sset k v s)) kvs s) = sget key s"
  by (induction kvs arbitrary: s) (auto simp: get_other)

text \<open>A value lasts until its name is written again.\<close>

lemma last_write:
  assumes "fst (sset key val s) = None" "fits key val" "\<forall>(k, v)\<in>set kvs. \<not> same_name k key"
  shows "sget key (fold (\<lambda>(k, v) s. snd (sset k v s)) kvs (snd (sset key val s))) = Some val"
  using writes_elsewhere [OF assms(3)] get_set [OF assms(1,2)] by simp

end

text \<open>What the environment can keep: no NUL, and a name that is not empty and has no equals sign.\<close>

definition plain_secret :: "string \<Rightarrow> string \<Rightarrow> bool" where
  "plain_secret key val \<longleftrightarrow> key \<noteq> '''' \<and> CHR ''='' \<notin> set key \<and> CHR 0x00 \<notin> set key \<and> CHR 0x00 \<notin> set val"

definition store_get :: "string \<Rightarrow> backend \<times> vault_world \<Rightarrow> string option" where
  "store_get key s = backend_get (fst s) key (snd s)"

definition store_set :: "string \<Rightarrow> string \<Rightarrow> backend \<times> vault_world \<Rightarrow> string option \<times> backend \<times> vault_world" where
  "store_set key val s = backend_set key val (fst s) (snd s)"

lemma c_text_plain: "CHR 0x00 \<notin> set s \<Longrightarrow> c_text s = s"
  by (induction s) (auto simp: c_text_def)

lemma env_get_set:
  "plain_secret key val \<Longrightarrow> env_get key (env_set key val w) = Some val"
  "c_text key \<noteq> c_text other \<Longrightarrow> env_get other (env_set key val w) = env_get other w"
  by (auto simp: env_get_def env_set_def plain_secret_def c_text_plain map_laws Let_def)

lemma env_get_cong: "env_get key (w\<lparr>vw_disk := d\<rparr>) = env_get key w"
  by (simp add: env_get_def)

lemma map_get_other: "c_text key \<noteq> c_text other \<Longrightarrow> map_of (AList.update key val m) other = map_of m other"
  by (auto simp: map_laws)

interpretation secrets: secret_store store_get store_set plain_secret "\<lambda>key other. c_text key = c_text other"
proof unfold_locales
  fix key val other :: string and s :: "backend \<times> vault_world"
  show "fst (store_set key val s) = None \<Longrightarrow> plain_secret key val \<Longrightarrow> store_get key (snd (store_set key val s)) = Some val"
    by (cases s; cases "fst s")
      (auto simp: store_get_def store_set_def env_get_set map_laws Let_def split: prod.splits)
  show "c_text key \<noteq> c_text other \<Longrightarrow> store_get other (snd (store_set key val s)) = store_get other s"
    by (cases s; cases "fst s")
      (auto simp: store_get_def store_set_def env_get_set map_get_other Let_def env_get_cong split: prod.splits)
qed

lemma held_store: "get_at p key w = store_get key (backend_at p w, sw_vault w)"
  by (simp add: get_at_def store_get_def)

lemma set_at_store:
  "p \<noteq> Opened b \<Longrightarrow> (\<And>x. p \<noteq> Opened x) \<Longrightarrow> p = Injected \<longrightarrow> sw_injected w \<noteq> None \<Longrightarrow>
     fst (set_at p key val w) = fst (store_set key val (backend_at p w, sw_vault w))
     \<and> get_at p other (snd (set_at p key val w)) = store_get other (snd (store_set key val (backend_at p w, sw_vault w)))"
  by (cases p) (auto simp: set_at_def store_set_def get_at_def store_get_def backend_at_def split: prod.splits)

lemma resolveBackend_place:
  "place_of store w = (if sw_injected w \<noteq> None then Injected else ProcessEnv)"
  by (simp add: resolveBackend_def)

lemma set_at_injected: "(sw_injected (snd (set_at (place_of store w) key val w)) = None) = (sw_injected w = None)"
  by (simp add: set_at_def resolveBackend_place split: prod.split)

text \<open>
  A secret that write_secret has stored is what read_secret gives, whatever store either names and whatever its
  token is, as long as the key is still allowed and the token is open, when the name and the value are such as
  the environment can keep; and every other secret is as it was.
\<close>

theorem secret_write_read:
  assumes "fst (writeSecret ts ts' key val store opts w) = Inr ()" "plain_secret key val"
    and "w1 = snd (writeSecret ts ts' key val store opts w)" "secret_open key opts' w1"
  shows "fst (readSecret u u' key store' opts' w1) = Inr val
    \<and> (c_text other = c_text key \<or> get_at (place_of store w) other w1 = get_at (place_of store w) other w)"
proof -
  let ?p = "place_of store w" and ?s = "(backend_at (place_of store w) w, sw_vault w)"
  from assms(1) have open1: "secret_open key opts w" "fst (set_at ?p key val w) = None" by (simp_all add: write_access(2))
  with assms(3) have w1: "held w1 = held (snd (set_at ?p key val w))" using write_access(1) [of ts ts' key val store opts w] by simp
  have place: "place_of store' w1 = ?p"
    using w1 set_at_injected [of store w key val] by (simp add: resolveBackend_place)
  have p: "\<And>x. ?p \<noteq> Opened x" "?p = Injected \<longrightarrow> sw_injected w \<noteq> None" by (simp_all add: resolveBackend_place)
  have at: "get_at ?p j w1 = store_get j (snd (store_set key val ?s))" for j
    using at_cong(1) [OF w1, of ?p j] set_at_store [OF p(1) p, of key val j] by simp
  have "fst (store_set key val ?s) = None" using open1(2) set_at_store [OF p(1) p, of key val] by simp
  from secrets.get_set [OF this assms(2)] at have "get_at ?p key w1 = Some val" by simp
  then have "fst (readSecret u u' key store' opts' w1) = Inr val"
    using read_access [of u u' key store' opts' w1 val] assms(4) place by simp
  moreover have "get_at ?p other w1 = get_at ?p other w" if "c_text other \<noteq> c_text key"
    using secrets.get_other [of key other val ?s] that at by (simp add: held_store)
  ultimately show ?thesis by blast
qed

definition bare_world :: secret_world where
  "bare_world = \<lparr>sw_log = [], sw_manager = None, sw_injected = None, sw_vault = \<lparr>vw_env = [], vw_disk = fresh_disk\<rparr>\<rparr>"

definition key_k :: secret_options where
  "key_k = \<lparr>so_logged = True, so_agent = ''a'', so_channel = ''c'', so_approval_id = Some ''t'', so_allowlist = Some [''k'']\<rparr>"

theorem secret_write_read_witness:
  "fst (readSecret ''2'' ''3'' ''k'' None key_k (snd (writeSecret ''0'' ''1'' ''k'' ''v'' (Some ''x'') key_k bare_world))) = Inr ''v''"
proof -
  have wrote: "fst (writeSecret ''0'' ''1'' ''k'' ''v'' (Some ''x'') key_k bare_world) = Inr ()" by code_simp
  have allowed: "secret_open ''k'' key_k (snd (writeSecret ''0'' ''1'' ''k'' ''v'' (Some ''x'') key_k bare_world))" by code_simp
  have "plain_secret ''k'' ''v''" by (simp add: plain_secret_def)
  from secret_write_read [OF wrote this refl allowed] show ?thesis by blast
qed

section \<open>Credential files\<close>

lemma string_entries_strings: "string_entries (JObj (map (\<lambda>(k, v). (k, JStr v)) kvs)) = kvs"
  by (induction kvs) (auto simp: string_entries_def)

lemma isStringRecord_strings: "isStringRecord (JObj (map (\<lambda>(k, v). (k, JStr v)) kvs))"
  by (induction kvs) (auto simp: isStringRecord_def)

lemma map_of_perm: "mset xs = mset ys \<Longrightarrow> distinct (map fst xs) \<Longrightarrow> map_of xs k = map_of ys k"
  by (metis map_of_eqI map_of_eq_Some_iff mset_eq_setD mset_map distinct_count_atmost_1 mset_eq_imp_distinct_iff option.exhaust not_None_eq)

lemma own_order_mset: "mset (own_order kvs) = mset kvs"
proof -
  have "filter (\<lambda>kv. \<not> array_index (fst kv)) kvs = filter (\<lambda>kv. \<not> (array_index \<circ> fst) kv) kvs" by simp
  then show ?thesis unfolding own_order_def mset_append mset_sort mset_filter by (simp add: multiset_partition [symmetric] o_def)
qed

lemma own_order_distinct: "distinct_keys (own_order kvs) = distinct_keys kvs"
  using own_order_mset [of kvs] by (metis mset_eq_imp_distinct_iff mset_map)

lemma map_of_own_order: "distinct_keys kvs \<Longrightarrow> map_of (own_order kvs) = map_of kvs"
  using map_of_perm [OF own_order_mset [of kvs]] own_order_distinct [of kvs] by auto

lemma fold_update_new:
  "distinct_keys (m @ kvs) \<Longrightarrow> fold (\<lambda>(k, v). AList.update k v) kvs m = m @ kvs"
proof (induction kvs arbitrary: m)
  case (Cons x kvs)
  obtain k v where x: "x = (k, v)" by (cases x)
  with Cons.prems have "AList.update k v m = m @ [x]" by (intro trans [OF update_new]) auto
  with Cons x show ?case by simp
qed simp

lemma map_of_entries_distinct: "distinct_keys kvs \<Longrightarrow> map_of_entries kvs = own_order kvs"
  using fold_update_new [of "[]" "own_order kvs"] by (simp add: map_of_entries_def own_order_distinct)

lemma map_of_entries_keys: "distinct_keys (map_of_entries kvs)"
  unfolding map_of_entries_def by (rule js.inv_fold_set) simp

lemma loaded_keys: "fst (loadBackend parse path v) = Inr (WritableFileSecretBackend path m) \<Longrightarrow> distinct_keys m"
  using map_of_entries_keys by (auto simp: loadBackend_def split: prod.splits sum.splits if_splits)

lemma read_written:
  assumes "at_path True path d = Inr (p, Some (File s))" "dk_faults d (dk_time d) = None"
  shows "fst (read_text path d) = Inr s"
  using assms at_path_same [of "d\<lparr>dk_time := Suc (dk_time d)\<rparr>" d] by (simp add: read_text_def fs_call_def Let_def)

text \<open>
  A secret that store_secret has put into a credential file is there when the file is read again, beside all
  that was in the file before, when \<open>JSON.parse\<close> gives back the members of the text that was written and reading
  meets no error of the system.
\<close>

theorem stored_secret_persists:
  assumes "loadBackend parse path (sw_vault w) = (Inr (WritableFileSecretBackend path m), v)" "sw_injected w = None"
    and "storeSecret parse ts ts' key val (Some path) opts w = (Inr (), w1)"
    and "parse (credentials_text (AList.update key val m))
       = Inr (JObj (map (\<lambda>(k, v). (k, JStr v)) (own_order (AList.update key val m))))"
    and "dk_faults (vw_disk (sw_vault w1)) (dk_time (vw_disk (sw_vault w1))) = None"
  shows "\<exists>m' v'. loadBackend parse path (sw_vault w1) = (Inr (WritableFileSecretBackend path m'), v')
    \<and> map_of m' = (map_of m)(key \<mapsto> val)"
proof -
  let ?m = "AList.update key val m" and ?b = "WritableFileSecretBackend path m"
  have "secret_open key opts w"
    using store_access [of parse ts ts' key val "Some path" opts w] store_place_open [of key opts parse "Some path" w] assms(3)
    by (auto simp: store_succeeds_def store_place_def split: prod.splits sum.splits option.splits)
  define w2 where "w2 = secret_log STORE_SECRET opts (about_key key (''file:'' @ path)) ts ''store-attempt''
    (with_token opts [(''valueLength'', JNum (int (length val)))]) (w\<lparr>sw_vault := v\<rparr>)"
  from store_open [OF \<open>secret_open key opts w\<close> assms(2,1)] assms(3)
  have use: "storeSecret_use ts' key val opts (Opened ?b, ''file:'' @ path) w2 = (Inr (), w1)" by (simp only: w2_def)
  have w2: "sw_vault w2 = v" by (simp add: w2_def)
  note uses = write_uses(3) [of ts' key val opts "Opened ?b" "''file:'' @ path" w2]
    write_uses(5) [of ts' key val opts "Opened ?b" "''file:'' @ path" w2]
  obtain r d1 where wr: "writeFileSync path (credentials_text ?m) (vw_disk v) = (r, d1)" by (cases "writeFileSync path (credentials_text ?m) (vw_disk v)")
  have set: "set_at (Opened ?b) key val w2 = (case r of Inl e \<Rightarrow> Some e | Inr _ \<Rightarrow> None, w2\<lparr>sw_injected := sw_injected w2, sw_vault := v\<lparr>vw_disk := d1\<rparr>\<rparr>)"
    using wr w2 by (simp add: set_at_def backend_at_def Let_def)
  with uses use obtain x where r: "r = Inr x" and disk: "vw_disk (sw_vault w1) = d1" by (cases r) auto
  from writeFileSync_ok [OF wr [unfolded r]] obtain p where
    "at_path True path d1 = Inr (p, Some (File (credentials_text ?m)))" using put_file_at by metis
  from read_written [OF this] assms(5) disk have "fst (read_text path d1) = Inr (credentials_text ?m)" by simp
  moreover have keys: "distinct_keys ?m" using loaded_keys [of parse path "sw_vault w" m] assms(1) by (simp add: distinct_update)
  ultimately have "fst (loadBackend parse path (sw_vault w1)) = Inr (WritableFileSecretBackend path (own_order (own_order ?m)))"
    using assms(4) disk by (simp add: loadBackend_def split_beta isStringRecord_strings string_entries_strings map_of_entries_distinct own_order_distinct)
  moreover have "map_of (own_order (own_order ?m)) = (map_of m)(key \<mapsto> val)"
    using keys by (simp add: map_of_own_order own_order_distinct update_conv')
  ultimately show ?thesis by (metis prod.collapse)
qed

definition parse_one :: json_parser where
  "parse_one s = (if s = credentials_text [(''k'', ''v'')] then Inr (JObj [(''k'', JStr ''v'')]) else Inl ''SyntaxError'')"

theorem stored_secret_persists_witness:
  "\<exists>m' v'. loadBackend parse_one ''/c'' (sw_vault (snd (storeSecret parse_one ''0'' ''1'' ''k'' ''v'' (Some ''/c'') key_k bare_world)))
      = (Inr (WritableFileSecretBackend ''/c'' m'), v') \<and> map_of m' ''k'' = Some ''v''"
proof -
  let ?r = "storeSecret parse_one ''0'' ''1'' ''k'' ''v'' (Some ''/c'') key_k bare_world"
  have stored: "fst ?r = Inr ()" by code_simp
  have empty: "fst (loadBackend parse_one ''/c'' (sw_vault bare_world)) = Inr (WritableFileSecretBackend ''/c'' [])" by code_simp
  have "dk_faults (vw_disk (sw_vault (snd ?r))) (dk_time (vw_disk (sw_vault (snd ?r)))) = None" by code_simp
  moreover have "parse_one (credentials_text (AList.update ''k'' ''v'' []))
      = Inr (JObj (map (\<lambda>(k, v). (k, JStr v)) (own_order (AList.update ''k'' ''v'' []))))"
    by (simp add: parse_one_def own_order_def)
  ultimately show ?thesis
    using stored_secret_persists [of parse_one "''/c''" bare_world "[]" "snd (loadBackend parse_one ''/c'' (sw_vault bare_world))"
        "''0''" "''1''" "''k''" "''v''" key_k "snd ?r"] stored empty
    by (auto simp: prod_eq_iff bare_world_def)
qed

section \<open>The log\<close>

text \<open>Worlds that differ in the values of secrets only, and in those not by their lengths.\<close>

definition same_lengths :: "(string \<Rightarrow> string option) \<Rightarrow> (string \<Rightarrow> string option) \<Rightarrow> bool" where
  "same_lengths f g \<longleftrightarrow> (\<forall>k. map_option length (f k) = map_option length (g k))"

fun backend_alike :: "backend \<Rightarrow> backend \<Rightarrow> bool" where
  "backend_alike EnvSecretBackend b = (b = EnvSecretBackend)"
| "backend_alike (MemorySecretBackend m) b = (case b of MemorySecretBackend m' \<Rightarrow> same_lengths (map_of m) (map_of m') | _ \<Rightarrow> False)"
| "backend_alike (WritableFileSecretBackend path m) b =
     (case b of WritableFileSecretBackend path' m' \<Rightarrow> path' = path \<and> same_lengths (map_of m) (map_of m') | _ \<Rightarrow> False)"
| "backend_alike (FileCredentialVault m) b = (case b of FileCredentialVault m' \<Rightarrow> same_lengths (map_of m) (map_of m') | _ \<Rightarrow> False)"
| "backend_alike EnvCredentialVault b = (b = EnvCredentialVault)"

definition alike :: "secret_options \<Rightarrow> secret_world \<Rightarrow> secret_world \<Rightarrow> bool" where
  "alike opts w w' \<longleftrightarrow> sw_log w' = sw_log w \<and> sw_manager w' = sw_manager w
     \<and> rel_option backend_alike (sw_injected w) (sw_injected w')
     \<and> same_lengths (map_of (vw_env (sw_vault w))) (map_of (vw_env (sw_vault w')))
     \<and> vw_disk (sw_vault w') = vw_disk (sw_vault w)
     \<and> resolveAllowlist (so_allowlist opts) (sw_vault w') = resolveAllowlist (so_allowlist opts) (sw_vault w)"

lemma alike_place: "alike opts w w' \<Longrightarrow> resolveBackend store w' = resolveBackend store w"
  by (cases "sw_injected w"; cases "sw_injected w'") (auto simp: alike_def resolveBackend_def)

lemma alike_open: "alike opts w w' \<Longrightarrow> secret_open key opts w' = secret_open key opts w"
  by (simp add: alike_def secret_open_def token_open_def)

lemma backend_alike_at: "alike opts w w' \<Longrightarrow> backend_alike (backend_at (place_of store w) w) (backend_at (place_of store w) w')"
  by (cases "sw_injected w"; cases "sw_injected w'") (auto simp: alike_def backend_at_def resolveBackend_place)

lemma alike_get:
  assumes "alike opts w w'"
  shows "map_option length (get_at (place_of store w) key w') = map_option length (get_at (place_of store w) key w)"
  using backend_alike_at [OF assms, of store] assms
  by (cases "backend_at (place_of store w) w"; cases "backend_at (place_of store w) w'")
    (auto simp: get_at_def alike_def same_lengths_def env_get_def)

lemma alike_has: "alike opts w w' \<Longrightarrow> has_at (place_of store w) key w' = has_at (place_of store w) key w"
  using alike_get [of opts w w' store key]
  by (cases "get_at (place_of store w) key w"; cases "get_at (place_of store w) key w'")
    (auto simp: has_at_def backend_has_def get_at_def)

lemma writeFileSync_error: "fst (writeFileSync path s d) = fst (writeFileSync path s' d)"
  by (auto simp: writeFileSync_def fs_call_def Let_def split: option.split)

lemma alike_set:
  assumes "alike opts w w'"
  shows "fst (set_at (place_of store w) key val' w') = fst (set_at (place_of store w) key val w)"
  using backend_alike_at [OF assms, of store] assms writeFileSync_error
  by (cases "backend_at (place_of store w) w"; cases "backend_at (place_of store w) w'")
    (auto simp: set_at_def alike_def Let_def split_beta, metis)

lemma gates_log:
  assumes "alike opts w w'" "\<not> secret_open key opts w"
  shows "sw_log (snd (key_gate tool opts key name ts (token_gates tool opts about ts go) w'))
    = sw_log (snd (key_gate tool opts key name ts (token_gates tool opts about ts go') w))"
  using assms by (auto simp: alike_def secret_open_def token_open_def key_gate_def token_gates_def refuse_secret_def
      secret_log_def Let_def split: option.splits)

lemma shut_log:
  assumes "alike opts w w'" "\<not> secret_open key opts w"
  shows "sw_log (snd (readSecret ts ts' key store opts w')) = sw_log (snd (readSecret ts ts' key store opts w))"
    "sw_log (snd (writeSecret ts ts' key val' store opts w')) = sw_log (snd (writeSecret ts ts' key val store opts w))"
    "sw_log (snd (rotateSecret ts ts' key val' store opts w')) = sw_log (snd (rotateSecret ts ts' key val store opts w))"
proof -
  have stop: "sw_log (snd (then_use f g x)) = sw_log (snd (f x))"
    if "f x = key_gate tool opts key name ts (token_gates tool opts about ts go) x" "\<not> secret_open key opts x"
    for f g x tool name about go
    using gates_stop(1) [OF that(2), of tool name ts about go] then_use_stop [of f x _ g] that(1) by (metis snd_conv)
  have shut: "\<not> secret_open key opts w'" using alike_open [OF assms(1)] assms(2) by simp
  show "sw_log (snd (readSecret ts ts' key store opts w')) = sw_log (snd (readSecret ts ts' key store opts w))"
    by (simp only: readSecret_def stop [of "readSecret_check ts key store opts", OF readSecret_check_eq shut]
        stop [of "readSecret_check ts key store opts", OF readSecret_check_eq assms(2)])
      (simp only: readSecret_check_eq alike_place [OF assms(1)], rule gates_log [OF assms(1,2)])
  show "sw_log (snd (writeSecret ts ts' key val' store opts w')) = sw_log (snd (writeSecret ts ts' key val store opts w))"
    by (simp only: writeSecret_def stop [of "writeSecret_check ts key val' store opts", OF writeSecret_check_eq shut]
        stop [of "writeSecret_check ts key val store opts", OF writeSecret_check_eq assms(2)])
      (simp only: writeSecret_check_eq alike_place [OF assms(1)], rule gates_log [OF assms(1,2)])
  show "sw_log (snd (rotateSecret ts ts' key val' store opts w')) = sw_log (snd (rotateSecret ts ts' key val store opts w))"
    by (simp only: rotateSecret_def stop [of "rotateSecret_check ts key val' store opts", OF rotateSecret_check_eq shut]
        stop [of "rotateSecret_check ts key val store opts", OF rotateSecret_check_eq assms(2)])
      (simp only: rotateSecret_check_eq alike_place [OF assms(1)], rule gates_log [OF assms(1,2)])
qed

lemma log_of:
  "sw_log (secret_log tool opts about ts event rest w) = sw_log w @ sw_log (secret_log tool opts about ts event rest (w\<lparr>sw_log := []\<rparr>))"
  by (simp add: secret_log_def)

lemma log_world:
  "sw_log (secret_log tool opts about ts event rest (w\<lparr>sw_log := l\<rparr>))
     = sw_log (secret_log tool opts about ts event rest (bare_world\<lparr>sw_log := l\<rparr>))"
  by (simp add: secret_log_def)

abbreviation entry where
  "entry tool opts about ts event rest \<equiv> sw_log (secret_log tool opts about ts event rest (bare_world\<lparr>sw_log := []\<rparr>))"

lemma log_entry: "sw_log (secret_log tool opts about ts event rest w) = sw_log w @ entry tool opts about ts event rest"
  by (subst log_of, subst log_world) (rule refl)

lemma attempt_log:
  "sw_log (attempt tool opts key store ts event rest w)
     = sw_log w @ entry tool opts (about_key key (backend_name store w)) ts event (with_token opts rest)"
  unfolding attempt_def by (rule log_entry)

lemma read_use_log:
  "sw_log (snd (readSecret_use ts key opts (p, name) w)) = sw_log w
     @ (case map_option length (get_at p key w) of
          None \<Rightarrow> entry READ_SECRET opts (about_key key name) ts ''not-found'' (with_token opts [])
        | Some n \<Rightarrow> entry READ_SECRET opts (about_key key name) ts ''read-complete'' (with_token opts [(''valueLength'', JNum (int n))]))"
proof -
  have "get_at p key (use_token opts w) = get_at p key w" by (rule at_cong(1)) simp
  then show ?thesis
    by (cases "get_at p key w") (simp_all add: readSecret_use_def refuse_secret_def Let_def log_entry [of _ _ _ _ _ _ "use_token opts w"])
qed

lemma write_use_log:
  "sw_log (snd (writeSecret_use ts key val opts (p, name) w)) = sw_log w
     @ (case fst (set_at p key val w) of
          None \<Rightarrow> entry WRITE_SECRET opts (about_key key name) ts ''write-complete''
                    (with_token opts [(''valueLength'', JNum (int (length val)))])
        | Some e \<Rightarrow> entry WRITE_SECRET opts (about_key key name) ts ''write-error'' (with_token opts [(''error'', JStr e)]))"
  "sw_log (snd (rotateSecret_use ts key val opts (p, name) w)) = sw_log w
     @ (case fst (set_at p key val w) of
          None \<Rightarrow> entry ROTATE_SECRET opts (about_key key name) ts ''rotate-complete''
                    (with_token opts [(''newValueLength'', JNum (int (length val)))])
        | Some e \<Rightarrow> entry ROTATE_SECRET opts (about_key key name) ts ''write-error'' (with_token opts [(''error'', JStr e)]))"
proof -
  let ?s = "set_at p key val (use_token opts w)"
  have e: "fst (set_at p key val w) = fst ?s" by (rule set_at_cong(1) [symmetric]) simp
  show "sw_log (snd (writeSecret_use ts key val opts (p, name) w)) = sw_log w
     @ (case fst (set_at p key val w) of
          None \<Rightarrow> entry WRITE_SECRET opts (about_key key name) ts ''write-complete''
                    (with_token opts [(''valueLength'', JNum (int (length val)))])
        | Some e \<Rightarrow> entry WRITE_SECRET opts (about_key key name) ts ''write-error'' (with_token opts [(''error'', JStr e)]))"
    unfolding e
    by (cases "fst ?s") (simp_all add: writeSecret_use_def refuse_secret_def Let_def split_beta log_entry [of _ _ _ _ _ _ "snd ?s"])
  show "sw_log (snd (rotateSecret_use ts key val opts (p, name) w)) = sw_log w
     @ (case fst (set_at p key val w) of
          None \<Rightarrow> entry ROTATE_SECRET opts (about_key key name) ts ''rotate-complete''
                    (with_token opts [(''newValueLength'', JNum (int (length val)))])
        | Some e \<Rightarrow> entry ROTATE_SECRET opts (about_key key name) ts ''write-error'' (with_token opts [(''error'', JStr e)]))"
    unfolding e
    by (cases "fst ?s") (simp_all add: rotateSecret_use_def refuse_secret_def Let_def split_beta log_entry [of _ _ _ _ _ _ "snd ?s"])
qed

lemma at_attempt:
  "get_at p key (attempt tool opts k store ts event rest w) = get_at p key w"
  "has_at p key (attempt tool opts k store ts event rest w) = has_at p key w"
  "fst (set_at p key val (attempt tool opts k store ts event rest w)) = fst (set_at p key val w)"
  by (rule at_cong(1), simp, rule at_cong(2), simp, rule set_at_cong(1), simp)

lemma open_log:
  assumes "secret_open key opts w"
  shows "sw_log (snd (readSecret ts ts' key store opts w)) = sw_log w
      @ entry READ_SECRET opts (about_key key (backend_name store w)) ts ''read-attempt'' (with_token opts [])
      @ (case map_option length (get_at (place_of store w) key w) of
          None \<Rightarrow> entry READ_SECRET opts (about_key key (backend_name store w)) ts' ''not-found'' (with_token opts [])
        | Some n \<Rightarrow> entry READ_SECRET opts (about_key key (backend_name store w)) ts' ''read-complete''
                      (with_token opts [(''valueLength'', JNum (int n))]))"
    "sw_log (snd (writeSecret ts ts' key val store opts w)) = sw_log w
      @ entry WRITE_SECRET opts (about_key key (backend_name store w)) ts ''write-attempt''
          (with_token opts [(''valueLength'', JNum (int (length val)))])
      @ (case fst (set_at (place_of store w) key val w) of
          None \<Rightarrow> entry WRITE_SECRET opts (about_key key (backend_name store w)) ts' ''write-complete''
                    (with_token opts [(''valueLength'', JNum (int (length val)))])
        | Some e \<Rightarrow> entry WRITE_SECRET opts (about_key key (backend_name store w)) ts' ''write-error''
                      (with_token opts [(''error'', JStr e)]))"
  using assms read_use_log [of ts' key opts "place_of store w" "backend_name store w"]
    write_use_log(1) [of ts' key val opts "place_of store w" "backend_name store w"]
  by (simp_all add: readSecret_open writeSecret_open at_attempt attempt_log)

lemma rotate_open_log:
  assumes "secret_open key opts w"
  shows "sw_log (snd (rotateSecret ts ts' key val store opts w)) = sw_log w
    @ (if has_at (place_of store w) key w
       then entry ROTATE_SECRET opts (about_key key (backend_name store w)) ts ''rotate-attempt''
              (with_token opts [(''newValueLength'', JNum (int (length val)))])
            @ (case fst (set_at (place_of store w) key val w) of
                None \<Rightarrow> entry ROTATE_SECRET opts (about_key key (backend_name store w)) ts' ''rotate-complete''
                          (with_token opts [(''newValueLength'', JNum (int (length val)))])
              | Some e \<Rightarrow> entry ROTATE_SECRET opts (about_key key (backend_name store w)) ts' ''write-error''
                            (with_token opts [(''error'', JStr e)]))
       else entry ROTATE_SECRET opts (about_key key (backend_name store w)) ts ''key-not-found''
              (with_token opts [reason ''key does not exist in the store; rotation requires an existing key'']))"
proof (cases "has_at (place_of store w) key w")
  case True
  with assms write_use_log(2) [of ts' key val opts "place_of store w" "backend_name store w"] show ?thesis
    by (simp add: rotateSecret_open at_attempt attempt_log)
next
  case False
  with assms show ?thesis
    by (simp add: rotateSecret_def then_use_def rotateSecret_check_eq gates_pass refuse_secret_def log_entry [of _ _ _ _ _ _ w])
qed

lemma list_log:
  assumes "alike opts w w'"
  shows "sw_log (snd (listSecrets ts ts' store opts w')) = sw_log (snd (listSecrets ts ts' store opts w))"
proof (cases "token_open opts w")
  case True
  with assms have True': "token_open opts w'" by (simp add: alike_def token_open_def)
  have at: "has_at p k (use_token opts (secret_log tool opts about ts event rest x)) = has_at p k x"
    for p k tool about ts event rest x by (rule at_cong(2)) simp
  have all: "sw_log (snd (listSecrets ts ts' store opts x)) = sw_log x
      @ entry LIST_SECRETS opts [(''store'', JStr (backend_name store x))] ts ''list-attempt''
          (with_token opts [(''allowlistSize'', JNum (int (length (resolveAllowlist (so_allowlist opts) (sw_vault x)))))])
      @ (let keys = filter (\<lambda>k. has_at (place_of store x) k x) (resolveAllowlist (so_allowlist opts) (sw_vault x))
         in entry LIST_SECRETS opts [(''store'', JStr (backend_name store x))] ts' ''list-complete''
              (with_token opts [(''keyCount'', JNum (int (length keys))), (''keys'', JArr (map JStr keys))]))"
    if "token_open opts x" for x
    using that by (simp add: listSecrets_def then_use_def listSecrets_check_def token_pass listSecrets_use_def split_beta Let_def at
        log_entry [of _ _ _ _ _ _ "use_token opts _"] log_entry [of _ _ _ _ _ _ x])
  show ?thesis
    using assms unfolding all [OF True] all [OF True'] alike_place [OF assms] alike_has [OF assms] by (simp add: alike_def)
next
  case False
  with assms have False': "\<not> token_open opts w'" by (simp add: alike_def token_open_def)
  have ends: "sw_log (snd (listSecrets ts ts' store opts x)) = sw_log (snd (listSecrets_check ts store opts x))"
    if shut: "\<not> token_open opts x" for x
  proof -
    from token_stop(1) [OF shut] obtain e where "fst (listSecrets_check ts store opts x) = Inl e"
      unfolding listSecrets_check_def split_beta Let_def by blast
    from then_use_stop [of "listSecrets_check ts store opts" x e "listSecrets_use ts' opts", OF this]
    show ?thesis by (simp add: listSecrets_def)
  qed
  show ?thesis
    using assms False False' unfolding ends [OF False] ends [OF False'] listSecrets_check_def alike_place [OF assms]
    by (auto simp: alike_def token_open_def token_gates_def refuse_secret_def secret_log_def Let_def split_beta split: option.splits)
qed

text \<open>store_secret finds the same place in both worlds, and writes the same entries.\<close>

lemma alike_resolve:
  assumes "alike opts w w'"
  shows "fst (resolveFileBackend parse path w') = fst (resolveFileBackend parse path w)"
    "alike opts (snd (resolveFileBackend parse path w)) (snd (resolveFileBackend parse path w'))"
proof -
  have load: "fst (loadBackend parse p (sw_vault w')) = fst (loadBackend parse p (sw_vault w))" for p
    using assms by (simp add: alike_def loadBackend_def split_beta)
  have none: "sw_injected w' = None \<longleftrightarrow> sw_injected w = None" using assms by (auto simp: alike_def)
  have found: "fst (resolveFileBackend parse path x) = (if sw_injected x \<noteq> None
      then Inr (Some (Injected, case path of Some p \<Rightarrow> ''file:'' @ p | None \<Rightarrow> ''file:injected''))
      else (case path of None \<Rightarrow> Inr None
            | Some p \<Rightarrow> (case fst (loadBackend parse p (sw_vault x)) of
                Inl message \<Rightarrow> Inl message | Inr b \<Rightarrow> Inr (Some (Opened b, ''file:'' @ p)))))" for x
    by (simp add: resolveFileBackend_def split: option.split prod.split sum.split)
  have tick: "alike opts (w\<lparr>sw_vault := snd (loadBackend parse p (sw_vault w))\<rparr>)
      (w'\<lparr>sw_vault := snd (loadBackend parse p (sw_vault w'))\<rparr>)" for p
    using assms by (cases "so_allowlist opts") (simp_all add: alike_def loadBackend_world resolveAllowlist_def env_get_def)
  have world: "snd (resolveFileBackend parse path x) = (if sw_injected x = None
      then (case path of None \<Rightarrow> x | Some p \<Rightarrow> x\<lparr>sw_vault := snd (loadBackend parse p (sw_vault x))\<rparr>) else x)" for x
    by (simp add: resolveFileBackend_def split: option.split prod.split sum.split)
  show "fst (resolveFileBackend parse path w') = fst (resolveFileBackend parse path w)"
    unfolding found load none by (rule refl)
  show "alike opts (snd (resolveFileBackend parse path w)) (snd (resolveFileBackend parse path w'))"
    unfolding world none using assms tick by (simp split: option.split)
qed

lemma resolve_place:
  "resolveFileBackend parse path w = (Inr (Some (p, name)), w1) \<Longrightarrow>
     (p = Injected \<and> sw_injected w1 \<noteq> None) \<or> (\<exists>b. p = Opened b)"
  by (auto simp: resolveFileBackend_def split: if_splits option.splits prod.splits sum.splits)

lemma alike_set_found:
  assumes "alike opts w w'" and "(p = Injected \<and> sw_injected w \<noteq> None) \<or> (\<exists>b. p = Opened b)"
  shows "fst (set_at p key val' w') = fst (set_at p key val w)"
proof (cases p)
  case Injected
  with assms(2) have "place_of None w = p" by (simp add: resolveBackend_place)
  with alike_set [OF assms(1), of None key val' val] show ?thesis by simp
next
  case (Opened b)
  have "vw_disk (sw_vault w') = vw_disk (sw_vault w)" using assms(1) by (simp add: alike_def)
  with Opened writeFileSync_error show ?thesis
    by (cases b) (auto simp: set_at_def backend_at_def Let_def split_beta, metis)
qed (use assms(2) in simp)

lemma store_use_log:
  "sw_log (snd (storeSecret_use ts key val opts (p, name) w)) = sw_log w
     @ (case fst (set_at p key val w) of
          None \<Rightarrow> entry STORE_SECRET opts (about_key key name) ts ''store-complete''
                    (with_token opts [(''valueLength'', JNum (int (length val)))])
        | Some e \<Rightarrow> entry STORE_SECRET opts (about_key key name) ts ''write-error'' (with_token opts [(''error'', JStr e)]))"
proof -
  let ?s = "set_at p key val (use_token opts w)"
  have e: "fst (set_at p key val w) = fst ?s" by (rule set_at_cong(1) [symmetric]) simp
  show ?thesis
    unfolding e
    by (cases "fst ?s") (simp_all add: storeSecret_use_def refuse_secret_def Let_def split_beta log_entry [of _ _ _ _ _ _ "snd ?s"])
qed

lemma store_gated_log:
  assumes "alike opts w w'" "length val' = length val"
    and "(p = Injected \<and> sw_injected w \<noteq> None) \<or> (\<exists>b. p = Opened b)"
  shows "sw_log (snd (then_use (store_gates ts key val' opts p name) (storeSecret_use ts' key val' opts) w'))
    = sw_log (snd (then_use (store_gates ts key val opts p name) (storeSecret_use ts' key val opts) w))"
proof (cases "secret_open key opts w")
  case True
  have all: "sw_log (snd (then_use (store_gates ts key v opts p name) (storeSecret_use ts' key v opts) x)) = sw_log x
      @ entry STORE_SECRET opts (about_key key name) ts ''store-attempt'' (with_token opts [(''valueLength'', JNum (int (length v)))])
      @ (case fst (set_at p key v x) of
          None \<Rightarrow> entry STORE_SECRET opts (about_key key name) ts' ''store-complete''
                    (with_token opts [(''valueLength'', JNum (int (length v)))])
        | Some e \<Rightarrow> entry STORE_SECRET opts (about_key key name) ts' ''write-error'' (with_token opts [(''error'', JStr e)]))"
    if "secret_open key opts x" for v x
  proof -
    let ?x = "secret_log STORE_SECRET opts (about_key key name) ts ''store-attempt''
      (with_token opts [(''valueLength'', JNum (int (length v)))]) x"
    have "then_use (store_gates ts key v opts p name) (storeSecret_use ts' key v opts) x
        = storeSecret_use ts' key v opts (p, name) ?x"
      by (rule then_use_go) (rule gates_pass [OF that])
    moreover have "fst (set_at p key v ?x) = fst (set_at p key v x)" by (rule set_at_cong(1)) simp
    ultimately show ?thesis by (simp only: store_use_log log_entry [of _ _ _ _ _ _ x] append_assoc)
  qed
  have True': "secret_open key opts w'" using True alike_open [OF assms(1)] by simp
  have log: "sw_log w' = sw_log w" using assms(1) by (simp add: alike_def)
  show ?thesis
    unfolding all [OF True] all [OF True'] by (simp only: alike_set_found [OF assms(1,3), of key val' val] assms(2) log)
next
  case False
  have shut: "\<not> secret_open key opts w'" using alike_open [OF assms(1)] False by simp
  have stop: "sw_log (snd (then_use (store_gates ts key v opts p name) g x)) = sw_log (snd (store_gates ts key v opts p name x))"
    if "\<not> secret_open key opts x" for v x and g :: "place \<times> string \<Rightarrow> unit secret_step"
    using gates_stop(1) [OF that] then_use_stop [of _ x _ g] by (metis snd_conv)
  show ?thesis unfolding stop [OF shut] stop [OF False] by (rule gates_log [OF assms(1) False])
qed

lemma store_log:
  assumes "alike opts w w'" "length val' = length val"
  shows "sw_log (snd (storeSecret parse ts ts' key val' path opts w')) = sw_log (snd (storeSecret parse ts ts' key val path opts w))"
proof -
  obtain r w1 where r: "resolveFileBackend parse path w = (r, w1)" by (cases "resolveFileBackend parse path w")
  obtain w1' where r': "resolveFileBackend parse path w' = (r, w1')" "alike opts w1 w1'"
    using alike_resolve [OF assms(1), of parse path] r by (metis fst_conv prod.collapse snd_conv)
  have log: "sw_log w1' = sw_log w1" using r'(2) by (simp add: alike_def)
  show ?thesis
  proof (cases r)
    case (Inl message)
    with r r' log show ?thesis by (simp add: storeSecret_eq)
  next
    case (Inr found)
    show ?thesis
    proof (cases found)
      case None
      with r r' Inr log show ?thesis
        by (simp add: storeSecret_eq refuse_secret_def log_entry [of _ _ _ _ _ _ w1] log_entry [of _ _ _ _ _ _ w1'])
    next
      case (Some x)
      obtain p name where x: "x = (p, name)" by (cases x)
      with resolve_place [of parse path w p name w1] r Inr Some
      have "(p = Injected \<and> sw_injected w1 \<noteq> None) \<or> (\<exists>b. p = Opened b)" by simp
      from store_gated_log [OF r'(2) assms(2) this] r r'(1) Inr Some x show ?thesis
        by (simp only: storeSecret_eq prod.case sum.case option.case)
    qed
  qed
qed

text \<open>
  C14. The values of secrets do not reach the log of the five tools that handle them: of two invocations in
  worlds that differ in the values of variables and of the injected backend only, and in the value that is
  written, with equal lengths, read_secret, write_secret, rotate_secret, list_secrets and store_secret write the
  very same entries. The two worlds have the same disk, so the same credential files.
\<close>

theorem secrets_not_logged:
  assumes "alike opts w w'" "length val' = length val"
  shows "sw_log (snd (readSecret ts ts' key store opts w')) = sw_log (snd (readSecret ts ts' key store opts w))
    \<and> sw_log (snd (writeSecret ts ts' key val' store opts w')) = sw_log (snd (writeSecret ts ts' key val store opts w))
    \<and> sw_log (snd (rotateSecret ts ts' key val' store opts w')) = sw_log (snd (rotateSecret ts ts' key val store opts w))
    \<and> sw_log (snd (listSecrets ts ts' store opts w')) = sw_log (snd (listSecrets ts ts' store opts w))
    \<and> sw_log (snd (storeSecret parse ts ts' key val' path opts w')) = sw_log (snd (storeSecret parse ts ts' key val path opts w))"
proof -
  note same = alike_place [OF assms(1), of store] alike_get [OF assms(1), of store] alike_set [OF assms(1), of store key val' val]
    alike_has [OF assms(1), of store] assms(2)
  have log: "sw_log w' = sw_log w" using assms(1) by (simp add: alike_def)
  note list = list_log [OF assms(1), of ts ts' store]
  note stored = store_log [OF assms, of parse ts ts' key path]
  show ?thesis
  proof (cases "secret_open key opts w")
    case True
    then have True': "secret_open key opts w'" using alike_open [OF assms(1)] by simp
    show ?thesis
      by (intro conjI list stored; simp only: open_log [OF True] open_log [OF True'] rotate_open_log [OF True]
          rotate_open_log [OF True'] same log)
  next
    case False
    with shut_log [OF assms(1) False] list stored show ?thesis by blast
  qed
qed

theorem secrets_not_logged_witness:
  "sw_log (snd (readSecret ''0'' ''1'' ''k'' None key_k (bare_world\<lparr>sw_injected := Some (MemorySecretBackend [(''k'', ''xy'')])\<rparr>)))
   = sw_log (snd (readSecret ''0'' ''1'' ''k'' None key_k (bare_world\<lparr>sw_injected := Some (MemorySecretBackend [(''k'', ''zw'')])\<rparr>)))"
  using secrets_not_logged [of key_k "bare_world\<lparr>sw_injected := Some (MemorySecretBackend [(''k'', ''zw'')])\<rparr>"
      "bare_world\<lparr>sw_injected := Some (MemorySecretBackend [(''k'', ''xy'')])\<rparr>" "''v''" "''v''" "''0''" "''1''" "''k''" None]
  by (simp add: alike_def same_lengths_def bare_world_def key_k_def resolveAllowlist_def)

section \<open>Ways around\<close>

text \<open>Every variable is open to get_env_var, which asks for no token and no allowlist.\<close>

lemma env_secrets_open:
  "isValidEnvVarName key \<Longrightarrow> get_at ProcessEnv key w = Some v \<Longrightarrow>
     getEnvVar key (sw_vault w) = Inr \<lparr>ev_variable_name = key, ev_found = True, ev_value = Some v\<rparr>"
  by (simp add: getEnvVar_def get_at_def backend_at_def)

text \<open>A name the system refuses is reported as written, and nothing is there.\<close>

lemma env_write_lost:
  "CHR ''='' \<in> set (c_text key) \<Longrightarrow> backend_set key val EnvSecretBackend w = (None, EnvSecretBackend, w)"
  by (simp add: env_set_def Let_def)

text \<open>A token the manager has never issued opens the gates any number of times.\<close>

lemma unknown_secret_token_reused:
  assumes "sw_manager w = Some s" "getPending (secret_token opts) s = None"
  shows "sw_manager (use_token opts w) = Some s"
  using assms by (simp add: resolveApproval_def getPending_def)

section \<open>Generated values\<close>

lemma secret_hex_length: "length (to_hex bs) = 2 * length bs"
  by (induction bs) (simp_all add: to_hex_def hex_byte_def)

lemma generated_length: "length random = GENERATED_SECRET_BYTES \<Longrightarrow> length (generateSecretValue random) = 64"
  by (simp add: generateSecretValue_def secret_hex_length GENERATED_SECRET_BYTES_def)

section \<open>Two stores at once\<close>

text \<open>
  store_secret reads its file before it waits for the log and writes the whole of it afterwards: of two
  invocations that are both checked before either goes on, the first value is lost, and both report success.
\<close>

definition key_kl :: secret_options where
  "key_kl = key_k\<lparr>so_allowlist := Some [''k'', ''l'']\<rparr>"

definition store_both :: "(tool_error + unit) \<times> (tool_error + unit) \<times> secret_world" where
  "store_both =
     (case storeSecret_check parse_one ''0'' ''k'' ''v'' (Some ''/c'') key_kl bare_world of
        (Inl e, w) \<Rightarrow> (Inl e, Inl e, w)
      | (Inr x, w) \<Rightarrow>
          (case storeSecret_check parse_one ''0'' ''l'' ''u'' (Some ''/c'') key_kl w of
             (Inl e, w) \<Rightarrow> (Inl e, Inl e, w)
           | (Inr y, w) \<Rightarrow>
               (case storeSecret_use ''1'' ''k'' ''v'' key_kl x w of
                  (r, w) \<Rightarrow> (case storeSecret_use ''1'' ''l'' ''u'' key_kl y w of (r', w) \<Rightarrow> (r, r', w)))))"

lemma interleaved_stores_lose:
  "fst store_both = Inr () \<and> fst (snd store_both) = Inr ()
   \<and> fst (read_text ''/c'' (vw_disk (sw_vault (snd (snd store_both))))) = Inr (credentials_text [(''l'', ''u'')])"
  by code_simp

end
