(* ===== verification/NetTools.thy ===== *)
theory NetTools
  imports Channels Rules HotReload ToolRun
begin

text \<open>
  The tools of \<open>src/tools/\<close> that call out over HTTP: fetch_url, http_get, http_post, http_put, http_patch, http_delete,
  call_webhook, send_webhook, webhook, send_notification, send_slack, post_message, scrape_page and search_web.
  The network answers a call of \<open>fetch\<close> by the history of calls: with a response, with an abort when the
  timer of the call ran out first, or with an error. \<open>URL\<close>, \<open>URLSearchParams\<close>, \<open>JSON.parse\<close> and the parser of pages are parameters.
  The body of a response may fail to arrive; that error, like a \<open>TypeError\<close>, is not one of the tool's own and has
  no code. The dash of messages is written \<open>-\<close>.
\<close>

section \<open>The network\<close>

record http_call =
  hc_url :: string
  hc_method :: string
  hc_headers :: "(string \<times> string) list"
  hc_body :: "string option"

record http_reply =
  hr_status :: int
  hr_text :: "string + string"
  hr_content_type :: "string option"
  hr_content_length :: "string option"
  hr_url :: string

datatype fetch_result = Replied http_reply | Aborted | Failed string

record network =
  nt_calls :: "http_call list"
  nt_answer :: "http_call list \<Rightarrow> fetch_result"

definition fetch :: "http_call \<Rightarrow> network \<Rightarrow> fetch_result \<times> network" where
  "fetch c n = (let calls = nt_calls n @ [c] in (nt_answer n calls, n\<lparr>nt_calls := calls\<rparr>))"

type_synonym 'a net_tool = "network \<Rightarrow> (tool_error + 'a) \<times> network"

definition REQUEST_TIMEOUT_MS :: nat where
  "REQUEST_TIMEOUT_MS = 30000"

definition stop_net :: "string \<Rightarrow> string \<Rightarrow> 'a net_tool" where
  "stop_net code message n = (Inl (tool_error code message), n)"

definition quoted :: "string \<Rightarrow> string" where
  "quoted s = [CHR 0x27] @ s @ [CHR 0x27]"

text \<open>A call with the messages of its two failures, and the body of its response.\<close>

definition request :: "http_call \<Rightarrow> string \<Rightarrow> string \<Rightarrow> (http_reply \<Rightarrow> 'a net_tool) \<Rightarrow> 'a net_tool" where
  "request c late broken k n =
     (case fetch c n of
        (Aborted, n) \<Rightarrow> stop_net ''timeout'' late n
      | (Failed cause, n) \<Rightarrow> stop_net ''network-error'' (broken @ '': '' @ cause) n
      | (Replied r, n) \<Rightarrow> k r n)"

definition with_text :: "http_reply \<Rightarrow> (string \<Rightarrow> 'a net_tool) \<Rightarrow> 'a net_tool" where
  "with_text r k n = (case hr_text r of Inl e \<Rightarrow> stop_net '''' e n | Inr s \<Rightarrow> k s n)"

definition after_ms :: string where
  "after_ms = '' timed out after '' @ nat_str REQUEST_TIMEOUT_MS @ ''ms.''"

definition http_scheme :: "string \<Rightarrow> bool" where
  "http_scheme url \<longleftrightarrow> starts_with url ''http://'' \<or> starts_with url ''https://''"

text \<open>A tool whose URL must be of one of the two schemes, and its one request.\<close>

definition with_scheme :: "string \<Rightarrow> string \<Rightarrow> 'a net_tool \<Rightarrow> 'a net_tool" where
  "with_scheme tool url go n =
     (if \<not> http_scheme url
      then stop_net ''invalid-url'' (tool @ '': invalid URL '' @ quoted url @ '' - only http and https schemes are supported.'') n
      else go n)"

definition one_request :: "string \<Rightarrow> string \<Rightarrow> http_call \<Rightarrow> (http_reply \<Rightarrow> 'a net_tool) \<Rightarrow> 'a net_tool" where
  "one_request tool doing c k =
     request c (tool @ '': request to '' @ quoted (hc_url c) @ after_ms)
       (tool @ '': network error while '' @ doing @ '' '' @ quoted (hc_url c)) k"

definition http_call :: "string \<Rightarrow> string \<Rightarrow> (string \<times> string) list \<Rightarrow> string option \<Rightarrow> http_call" where
  "http_call url verb headers body = \<lparr>hc_url = url, hc_method = verb, hc_headers = headers, hc_body = body\<rparr>"

section \<open>http_get, http_post, http_put, http_patch, http_delete\<close>

record http_result =
  hx_status_code :: int
  hx_body :: string
  hx_content_type :: "string option"

record status_result =
  sx_status_code :: int
  sx_body :: string

definition typed_result :: "http_reply \<Rightarrow> http_result net_tool" where
  "typed_result r = with_text r (\<lambda>s n.
     (Inr \<lparr>hx_status_code = hr_status r, hx_body = s, hx_content_type = hr_content_type r\<rparr>, n))"

definition plain_result :: "http_reply \<Rightarrow> status_result net_tool" where
  "plain_result r = with_text r (\<lambda>s n. (Inr \<lparr>sx_status_code = hr_status r, sx_body = s\<rparr>, n))"

definition httpGet :: "string \<Rightarrow> (string \<times> string) list \<Rightarrow> http_result net_tool" where
  "httpGet url headers =
     with_scheme ''http_get'' url (one_request ''http_get'' ''requesting'' (http_call url ''GET'' headers None) typed_result)"

definition httpPost :: "string \<Rightarrow> string option \<Rightarrow> (string \<times> string) list \<Rightarrow> http_result net_tool" where
  "httpPost url body headers = with_scheme ''http_post'' url (\<lambda>n.
     (let send = one_request ''http_post'' ''requesting'' (http_call url ''POST'' headers body) typed_result
      in case List.find (\<lambda>(key, _). js_lower key = ''content-type'') headers of
           None \<Rightarrow> send n
         | Some (_, v) \<Rightarrow>
             if starts_with (js_lower v) ''multipart/''
             then stop_net ''invalid-content-type''
                    (''http_post: content-type '' @ quoted v
                     @ '' is not supported - file uploads and multipart data are out of scope.'') n
             else send n))"

definition httpPut :: "string \<Rightarrow> string option \<Rightarrow> (string \<times> string) list \<Rightarrow> status_result net_tool" where
  "httpPut url body headers =
     with_scheme ''http_put'' url (one_request ''http_put'' ''requesting'' (http_call url ''PUT'' headers body) plain_result)"

definition httpPatch :: "string \<Rightarrow> string option \<Rightarrow> (string \<times> string) list \<Rightarrow> status_result net_tool" where
  "httpPatch url body headers =
     with_scheme ''http_patch'' url (one_request ''http_patch'' ''requesting'' (http_call url ''PATCH'' headers body) plain_result)"

definition httpDelete :: "string \<Rightarrow> (string \<times> string) list \<Rightarrow> status_result net_tool" where
  "httpDelete url headers =
     with_scheme ''http_delete'' url (one_request ''http_delete'' ''requesting'' (http_call url ''DELETE'' headers None) plain_result)"

section \<open>fetch_url and scrape_page\<close>

text \<open>\<open>new URL(url).hostname\<close> is a parameter, \<open>None\<close> when it throws.\<close>

type_synonym url_host = "string \<Rightarrow> string option"

definition ends_with :: "string \<Rightarrow> string \<Rightarrow> bool" where
  "ends_with s t \<longleftrightarrow> drop (length s - length t) s = t"

definition domain_allowed :: "string \<Rightarrow> string list \<Rightarrow> bool" where
  "domain_allowed host domains \<longleftrightarrow> list_ex (\<lambda>d. host = d \<or> ends_with host (''.'' @ d)) domains"

definition with_domain :: "url_host \<Rightarrow> string \<Rightarrow> string \<Rightarrow> string list option \<Rightarrow> 'a net_tool \<Rightarrow> 'a net_tool" where
  "with_domain hostname tool url domains go = with_scheme tool url (\<lambda>n.
     (case hostname url of
        None \<Rightarrow> stop_net ''invalid-url'' (tool @ '': invalid URL '' @ quoted url @ '' - could not parse hostname.'') n
      | Some host \<Rightarrow>
          if (case domains of None \<Rightarrow> False | Some ds \<Rightarrow> ds \<noteq> [] \<and> \<not> domain_allowed host ds)
          then stop_net ''domain-not-allowed''
                 (tool @ '': domain '' @ quoted host @ '' is not in the allowed_domains list.'') n
          else go n))"

record fetched =
  fu_status_code :: int
  fu_body :: string
  fu_content_type :: "string option"
  fu_final_url :: string
  fu_content_length :: "int option"

definition fetchUrl :: "url_host \<Rightarrow> string \<Rightarrow> (string \<times> string) list \<Rightarrow> string list option \<Rightarrow> fetched net_tool" where
  "fetchUrl hostname url headers domains =
     with_domain hostname ''fetch_url'' url domains
       (one_request ''fetch_url'' ''fetching'' (http_call url ''GET'' headers None) (\<lambda>r. with_text r (\<lambda>s n.
          (Inr \<lparr>fu_status_code = hr_status r, fu_body = s, fu_content_type = hr_content_type r,
                fu_final_url = or_text (hr_url r) url,
                fu_content_length = (case hr_content_length r of None \<Rightarrow> None | Some t \<Rightarrow> parseInt t)\<rparr>, n))))"

text \<open>A parsed page: the texts of its title and body, and the texts of the elements a selector matches.\<close>

record page =
  pg_title :: string
  pg_body :: string
  pg_select :: "string \<Rightarrow> string + string list"

record selector_result =
  sr_selector :: string
  sr_count :: nat
  sr_texts :: "string list"

record scraped =
  sp_url :: string
  sp_title :: string
  sp_text :: string
  sp_elements :: "selector_result list option"

fun select_all :: "page \<Rightarrow> string list \<Rightarrow> string + selector_result list" where
  "select_all p [] = Inr []"
| "select_all p (s # ss) =
     (case pg_select p s of
        Inl e \<Rightarrow> Inl e
      | Inr texts \<Rightarrow>
          (case select_all p ss of
             Inl e \<Rightarrow> Inl e
           | Inr rs \<Rightarrow> Inr (\<lparr>sr_selector = s, sr_count = length texts, sr_texts = map js_trim texts\<rparr> # rs)))"

definition scrapePage ::
  "url_host \<Rightarrow> (string \<Rightarrow> string + page) \<Rightarrow> string \<Rightarrow> string list option \<Rightarrow> (string \<times> string) list \<Rightarrow> string list option
     \<Rightarrow> scraped net_tool" where
  "scrapePage hostname load url selectors headers domains =
     with_domain hostname ''scrape_page'' url domains
       (one_request ''scrape_page'' ''fetching'' (http_call url ''GET'' headers None) (\<lambda>r n.
          (case hr_text r of
             Inl cause \<Rightarrow> stop_net ''parse-error''
               (''scrape_page: failed to read response body from '' @ quoted url @ '': '' @ cause) n
           | Inr html \<Rightarrow>
               (case load html of
                  Inl cause \<Rightarrow> stop_net ''parse-error''
                    (''scrape_page: failed to parse HTML from '' @ quoted url @ '': '' @ cause) n
                | Inr p \<Rightarrow>
                    (let base = \<lparr>sp_url = or_text (hr_url r) url, sp_title = js_trim (pg_title p),
                                 sp_text = js_trim (pg_body p), sp_elements = None\<rparr>
                     in case selectors of
                          None \<Rightarrow> (Inr base, n)
                        | Some ss \<Rightarrow>
                            if ss = [] then (Inr base, n)
                            else (case select_all p ss of
                                    Inl e \<Rightarrow> stop_net '''' e n
                                  | Inr rs \<Rightarrow> (Inr (base\<lparr>sp_elements := Some rs\<rparr>), n)))))))"

section \<open>Webhooks\<close>

definition has_content_type :: "(string \<times> string) list \<Rightarrow> bool" where
  "has_content_type headers \<longleftrightarrow> list_ex (\<lambda>(k, _). js_lower k = ''content-type'') headers"

definition json_headers :: "(string \<times> string) list \<Rightarrow> (string \<times> string) list" where
  "json_headers headers =
     (if has_content_type headers then headers else AList.update ''Content-Type'' ''application/json'' headers)"

definition payload_text :: "(string \<times> json) list \<Rightarrow> string option" where
  "payload_text payload = json_stringify (JObj payload)"

definition sendWebhook :: "string \<Rightarrow> (string \<times> json) list \<Rightarrow> (string \<times> string) list \<Rightarrow> http_result net_tool" where
  "sendWebhook url payload headers =
     with_scheme ''send_webhook'' url
       (one_request ''send_webhook'' ''posting to'' (http_call url ''POST'' (json_headers headers) (payload_text payload)) typed_result)"

definition BODY_METHODS :: "string list" where
  "BODY_METHODS = [''POST'', ''PUT'', ''PATCH'']"

definition callWebhook ::
  "string \<Rightarrow> string option \<Rightarrow> (string \<times> json) list option \<Rightarrow> (string \<times> string) list \<Rightarrow> http_result net_tool" where
  "callWebhook url verb payload headers =
     with_scheme ''call_webhook'' url
       (let verb = (case verb of Some v \<Rightarrow> v | None \<Rightarrow> ''POST'');
            c = (case payload of
                   Some p \<Rightarrow>
                     if verb \<in> set BODY_METHODS then http_call url verb (json_headers headers) (payload_text p)
                     else http_call url verb headers None
                 | None \<Rightarrow> http_call url verb headers None)
        in one_request ''call_webhook'' ''requesting'' c typed_result)"

text \<open>webhook: attempts with waits between them, until one gets a response.\<close>

definition DEFAULT_MAX_RETRIES :: int where
  "DEFAULT_MAX_RETRIES = 3"

definition BASE_BACKOFF_MS :: int where
  "BASE_BACKOFF_MS = 500"

record webhook_error =
  we_code :: string
  we_message :: string
  we_attempts :: int

record webhook_result =
  wr_status_code :: int
  wr_response_body :: string
  wr_content_type :: "string option"
  wr_attempts :: int

definition attemptPost :: "string \<Rightarrow> (string \<times> string) list \<Rightarrow> string option \<Rightarrow> http_reply net_tool" where
  "attemptPost url headers body =
     one_request ''webhook'' ''posting to'' (http_call url ''POST'' headers body) (\<lambda>r n. (Inr r, n))"

text \<open>The loop: the waits it made, and how it ended; \<open>None\<close> is the error that was never set.\<close>

function webhook_loop ::
  "string \<Rightarrow> (string \<times> string) list \<Rightarrow> string option \<Rightarrow> int \<Rightarrow> int \<Rightarrow> webhook_error option \<Rightarrow> network
     \<Rightarrow> (webhook_error option + webhook_result) \<times> int list \<times> network" where
  "webhook_loop url headers body attempt maxAttempts lastError n =
     (if attempt > maxAttempts then (Inl lastError, [], n)
      else
        let waits = (if attempt > 1 then [BASE_BACKOFF_MS * 2 ^ nat (attempt - 2)] else [])
        in case attemptPost url headers body n of
             (Inl e, n) \<Rightarrow>
               (case webhook_loop url headers body (attempt + 1) maxAttempts
                       (Some \<lparr>we_code = te_code e, we_message = te_message e, we_attempts = attempt\<rparr>) n of
                  (r, ws, n) \<Rightarrow> (r, waits @ ws, n))
           | (Inr r, n) \<Rightarrow>
               (case hr_text r of
                  Inl e \<Rightarrow> (Inl (Some \<lparr>we_code = '''', we_message = e, we_attempts = 0\<rparr>), waits, n)
                | Inr s \<Rightarrow> (Inr \<lparr>wr_status_code = hr_status r, wr_response_body = s,
                                 wr_content_type = hr_content_type r, wr_attempts = attempt\<rparr>, waits, n)))"
  by pat_completeness auto
termination
  by (relation "measure (\<lambda>(_, _, _, attempt, maxAttempts, _, _). nat (maxAttempts + 1 - attempt))") auto

declare webhook_loop.simps [simp del]

definition webhook ::
  "string \<Rightarrow> (string \<times> json) list \<Rightarrow> (string \<times> string) list \<Rightarrow> int option \<Rightarrow> network
     \<Rightarrow> (webhook_error option + webhook_result) \<times> int list \<times> network" where
  "webhook url payload headers max_retries n =
     (if \<not> http_scheme url
      then (Inl (Some \<lparr>we_code = ''invalid-url'',
              we_message = ''webhook: invalid URL '' @ quoted url @ '' - only http and https schemes are supported.'',
              we_attempts = 0\<rparr>), [], n)
      else webhook_loop url (json_headers headers) (payload_text payload) 1
             ((case max_retries of Some m \<Rightarrow> m | None \<Rightarrow> DEFAULT_MAX_RETRIES) + 1) None n)"

section \<open>send_notification\<close>

definition notify_platforms :: "string list" where
  "notify_platforms = [''slack'', ''discord'', ''teams'', ''generic'']"

definition buildPayload :: "string \<Rightarrow> string \<Rightarrow> (string \<times> json) list" where
  "buildPayload platform message =
     [(if platform = ''slack'' then ''text'' else if platform = ''discord'' then ''content''
       else if platform = ''teams'' then ''text'' else ''message'', JStr message)]"

definition sendNotification :: "string \<Rightarrow> string \<Rightarrow> string \<Rightarrow> int net_tool" where
  "sendNotification platform message url n =
     (if platform \<notin> set notify_platforms
      then stop_net ''unsupported-platform''
             (''send_notification: unsupported platform '' @ quoted platform @ '' - supported platforms are: ''
              @ join '', '' notify_platforms @ ''.'') n
      else case sendWebhook url (buildPayload platform message) [] n of
        (Inl e, n) \<Rightarrow>
          if te_code e = '''' then stop_net ''network-error'' (''send_notification: unexpected error: '' @ te_message e) n
          else if te_code e \<in> {''invalid-url'', ''timeout''} then stop_net (te_code e) (te_message e) n
          else stop_net ''network-error'' (te_message e) n
      | (Inr r, n) \<Rightarrow>
          if hx_status_code r < 200 \<or> hx_status_code r \<ge> 300
          then stop_net ''delivery-error''
                 (''send_notification: delivery failed - webhook returned HTTP '' @ int_str (hx_status_code r) @ ''.'') n
          else (Inr (hx_status_code r), n))"

section \<open>send_slack and post_message\<close>

text \<open>A member of a value, \<open>None\<close> where reading one throws.\<close>

definition field :: "string \<Rightarrow> json \<Rightarrow> json option" where
  "field k v =
     (case v of
        JNull \<Rightarrow> None | JUndef \<Rightarrow> None
      | JObj kvs \<Rightarrow> Some (case map_of kvs k of Some x \<Rightarrow> x | None \<Rightarrow> JUndef)
      | _ \<Rightarrow> Some JUndef)"

definition nullish :: "json \<Rightarrow> json \<Rightarrow> json" where
  "nullish a b = (if a = JUndef \<or> a = JNull then b else a)"

definition SLACK_API_URL :: string where
  "SLACK_API_URL = ''https://slack.com/api/chat.postMessage''"

definition slack_body :: "string \<Rightarrow> string \<Rightarrow> string option \<Rightarrow> string option \<Rightarrow> (string \<times> json) list" where
  "slack_body channel message thread username =
     [(''channel'', JStr channel), (''text'', JStr message)]
     @ (case thread of Some t \<Rightarrow> [(''thread_ts'', JStr t)] | None \<Rightarrow> [])
     @ (case username of Some u \<Rightarrow> [(''username'', JStr u)] | None \<Rightarrow> [])"

definition slack_answer :: "(string \<Rightarrow> json option) \<Rightarrow> int \<Rightarrow> string \<Rightarrow> tool_error + json \<times> json" where
  "slack_answer json_parse status t =
     (case json_parse t of
        None \<Rightarrow> Inl (tool_error ''slack-api-error''
          (''send_slack: unexpected non-JSON response from Slack API (status '' @ int_str status @ '').''))
      | Some v \<Rightarrow>
          (case (field ''ok'' v, field ''error'' v, field ''ts'' v, field ''channel'' v) of
             (Some ok, Some error, Some ts, Some channel) \<Rightarrow>
               if \<not> json_true ok
               then Inl (tool_error ''slack-api-error''
                 (''send_slack: Slack API error - '' @ js_String (nullish error (JStr ''unknown_error'')) @ ''.''))
               else Inr (ts, channel)
           | _ \<Rightarrow> Inl (tool_error '''' ''TypeError'')))"

definition sendSlack ::
  "(string \<Rightarrow> json option) \<Rightarrow> string option \<Rightarrow> string \<Rightarrow> string \<Rightarrow> string option \<Rightarrow> string option \<Rightarrow> string option
     \<Rightarrow> (json \<times> json) net_tool" where
  "sendSlack json_parse env_token channel message thread username given_token n =
     (let token = (case given_token of Some t \<Rightarrow> t | None \<Rightarrow> (case env_token of Some t \<Rightarrow> t | None \<Rightarrow> ''''))
      in if token = ''''
         then stop_net ''missing-token''
                ''send_slack: no bot token configured - set the SLACK_BOT_TOKEN environment variable.'' n
         else request
                (http_call SLACK_API_URL ''POST''
                   [(''Authorization'', ''Bearer '' @ token), (''Content-Type'', ''application/json; charset=utf-8'')]
                   (payload_text (slack_body channel message thread username)))
                (''send_slack: request'' @ after_ms) ''send_slack: network error while calling Slack API''
                (\<lambda>r. with_text r (\<lambda>t n. (slack_answer json_parse (hr_status r) t, n))) n)"

definition postMessage ::
  "(string \<Rightarrow> json option) \<Rightarrow> string option \<Rightarrow> string \<Rightarrow> string \<Rightarrow> string \<Rightarrow> string option \<Rightarrow> string option
     \<Rightarrow> json net_tool" where
  "postMessage json_parse env_token platform message channel thread given_token n =
     (if platform \<noteq> ''slack''
      then stop_net ''unsupported-platform''
             (''post_message: unsupported platform '' @ quoted platform @ '' - only '' @ quoted ''slack'' @ '' is supported.'') n
      else case sendSlack json_parse env_token channel message thread None given_token n of
        (Inl e, n) \<Rightarrow>
          if te_code e = '''' then stop_net ''platform-error'' (''post_message: unexpected error: '' @ te_message e) n
          else if te_code e \<in> {''missing-token'', ''timeout'', ''network-error''} then stop_net (te_code e) (te_message e) n
          else stop_net ''platform-error'' (te_message e) n
      | (Inr (ts, _), n) \<Rightarrow> (Inr ts, n))"

section \<open>search_web\<close>

definition DEFAULT_RESULT_LIMIT :: int where
  "DEFAULT_RESULT_LIMIT = 10"

definition MAX_RESULT_LIMIT :: int where
  "MAX_RESULT_LIMIT = 10"

text \<open>The settings: those of the options before those of the environment.\<close>

record search_settings =
  ss_provider :: "string option"
  ss_google_key :: "string option"
  ss_google_engine :: "string option"
  ss_bing_key :: "string option"

record search_result =
  rs_rank :: nat
  rs_title :: json
  rs_url :: json
  rs_snippet :: json

record search_outcome =
  se_results :: "search_result list"
  se_query :: string
  se_provider :: string

definition fetchWithTimeout :: "http_call \<Rightarrow> (http_reply \<Rightarrow> 'a net_tool) \<Rightarrow> 'a net_tool" where
  "fetchWithTimeout c = request c (''search_web: request'' @ after_ms) ''search_web: network error during search request''"

definition type_error :: "tool_error" where
  "type_error = tool_error '''' ''TypeError''"

text \<open>One item of the answer: its rank, and the three members with a default.\<close>

definition search_item :: "string \<Rightarrow> string \<Rightarrow> nat \<Rightarrow> json \<Rightarrow> search_result option" where
  "search_item title_key url_key i v =
     (case (field title_key v, field url_key v, field ''snippet'' v) of
        (Some t, Some u, Some s) \<Rightarrow>
          Some \<lparr>rs_rank = i + 1, rs_title = nullish t (JStr ''''), rs_url = nullish u (JStr ''''),
                rs_snippet = nullish s (JStr '''')\<rparr>
      | _ \<Rightarrow> None)"

fun search_items :: "string \<Rightarrow> string \<Rightarrow> nat \<Rightarrow> json list \<Rightarrow> search_result list option" where
  "search_items t u i [] = Some []"
| "search_items t u i (v # vs) =
     (case search_item t u i v of
        None \<Rightarrow> None
      | Some r \<Rightarrow> (case search_items t u (i + 1) vs of None \<Rightarrow> None | Some rs \<Rightarrow> Some (r # rs)))"

definition map_items :: "string \<Rightarrow> string \<Rightarrow> json \<Rightarrow> tool_error + search_result list" where
  "map_items t u v =
     (case nullish v (JArr []) of
        JArr vs \<Rightarrow> (case search_items t u 0 vs of Some rs \<Rightarrow> Inr rs | None \<Rightarrow> Inl type_error)
      | _ \<Rightarrow> Inl type_error)"

text \<open>\<open>data.error?.message ?? raw\<close>.\<close>

definition api_message :: "json \<Rightarrow> string \<Rightarrow> string option" where
  "api_message data raw =
     (case field ''error'' data of
        None \<Rightarrow> None
      | Some e \<Rightarrow> Some (js_String (nullish (case field ''message'' e of None \<Rightarrow> JUndef | Some m \<Rightarrow> m) (JStr raw))))"

definition provider_error :: "string \<Rightarrow> tool_error" where
  "provider_error message = tool_error ''provider-error'' message"

definition search_answer ::
  "(string \<Rightarrow> json option) \<Rightarrow> string \<Rightarrow> (json \<Rightarrow> tool_error + search_result list) \<Rightarrow> int \<Rightarrow> string
     \<Rightarrow> tool_error + search_result list" where
  "search_answer json_parse api items status raw =
     (case json_parse raw of
        None \<Rightarrow> Inl (provider_error
          (''search_web: '' @ api @ '' Search API returned non-JSON response (status '' @ int_str status @ '').''))
      | Some data \<Rightarrow>
          if status < 200 \<or> status \<ge> 300
          then (case api_message data raw of
                  None \<Rightarrow> Inl type_error
                | Some msg \<Rightarrow> Inl (provider_error
                    (''search_web: '' @ api @ '' Search API error ('' @ int_str status @ ''): '' @ msg)))
          else items data)"

definition google_items :: "json \<Rightarrow> tool_error + search_result list" where
  "google_items data =
     (case field ''items'' data of None \<Rightarrow> Inl type_error | Some v \<Rightarrow> map_items ''title'' ''link'' v)"

definition bing_items :: "json \<Rightarrow> tool_error + search_result list" where
  "bing_items data =
     (case field ''webPages'' data of
        None \<Rightarrow> Inl type_error
      | Some pages \<Rightarrow> map_items ''name'' ''url'' (case field ''value'' pages of None \<Rightarrow> JUndef | Some v \<Rightarrow> v))"

type_synonym form_encoder = "(string \<times> string) list \<Rightarrow> string"

definition searchGoogle ::
  "(string \<Rightarrow> json option) \<Rightarrow> form_encoder \<Rightarrow> string \<Rightarrow> int \<Rightarrow> string \<Rightarrow> string \<Rightarrow> search_result list net_tool" where
  "searchGoogle json_parse encode query limit key engine =
     fetchWithTimeout
       (http_call (''https://www.googleapis.com/customsearch/v1?''
          @ encode [(''key'', key), (''cx'', engine), (''q'', query), (''num'', int_str (min limit MAX_RESULT_LIMIT))])
          ''GET'' [] None)
       (\<lambda>r. with_text r (\<lambda>raw n. (search_answer json_parse ''Google'' google_items (hr_status r) raw, n)))"

definition searchBing ::
  "(string \<Rightarrow> json option) \<Rightarrow> form_encoder \<Rightarrow> string \<Rightarrow> int \<Rightarrow> string \<Rightarrow> search_result list net_tool" where
  "searchBing json_parse encode query limit key =
     fetchWithTimeout
       (http_call (''https://api.bing.microsoft.com/v7.0/search?''
          @ encode [(''q'', query), (''count'', int_str (min limit MAX_RESULT_LIMIT))])
          ''GET'' [(''Ocp-Apim-Subscription-Key'', key)] None)
       (\<lambda>r. with_text r (\<lambda>raw n. (search_answer json_parse ''Bing'' bing_items (hr_status r) raw, n)))"

definition missing_config :: "string \<Rightarrow> string \<Rightarrow> 'a net_tool" where
  "missing_config what var = stop_net ''missing-config''
     (''search_web: '' @ what @ '' not configured - set the '' @ var @ '' environment variable.'')"

text \<open>An empty text is as good as none.\<close>

definition setting :: "string option \<Rightarrow> string" where
  "setting v = (case v of Some s \<Rightarrow> s | None \<Rightarrow> '''')"

definition found_results :: "string \<Rightarrow> string \<Rightarrow> search_result list net_tool \<Rightarrow> search_outcome net_tool" where
  "found_results query provider f n =
     (case f n of
        (Inl e, n) \<Rightarrow> (Inl e, n)
      | (Inr rs, n) \<Rightarrow> (Inr \<lparr>se_results = rs, se_query = query, se_provider = provider\<rparr>, n))"

definition searchWeb ::
  "(string \<Rightarrow> json option) \<Rightarrow> form_encoder \<Rightarrow> search_settings \<Rightarrow> string \<Rightarrow> int option \<Rightarrow> search_outcome net_tool" where
  "searchWeb json_parse encode settings query limit n =
     (if js_trim query = '''' then stop_net ''invalid-query'' ''search_web: query must not be empty.'' n
      else
        let provider = (case ss_provider settings of Some p \<Rightarrow> p | None \<Rightarrow> ''google'');
            effectiveLimit = max 1 (min (case limit of Some l \<Rightarrow> l | None \<Rightarrow> DEFAULT_RESULT_LIMIT) MAX_RESULT_LIMIT);
            bing = setting (ss_bing_key settings); google = setting (ss_google_key settings);
            engine = setting (ss_google_engine settings)
        in if provider = ''bing''
           then if bing = '''' then missing_config ''Bing Search API key'' ''BING_SEARCH_API_KEY'' n
                else found_results query provider (searchBing json_parse encode query effectiveLimit bing) n
           else if google = '''' then missing_config ''Google Search API key'' ''GOOGLE_SEARCH_API_KEY'' n
           else if engine = '''' then missing_config ''Google Custom Search Engine ID'' ''GOOGLE_SEARCH_ENGINE_ID'' n
           else found_results query provider (searchGoogle json_parse encode query effectiveLimit google engine) n)"

end
