(* ===== verification/NetToolsProps.thy ===== *)
theory NetToolsProps
  imports NetTools
begin

text \<open>
  Which calls the HTTP tools make: the one their parameters describe, webhook the same one again, and none for a
  URL of another scheme or of a domain that is not allowed; how often webhook tries, how long it waits and what it
  returns; and how a redirect leaves the allowed domains all the same.
\<close>

section \<open>Calls\<close>

abbreviation quiet :: "('x \<Rightarrow> 'a net_tool) \<Rightarrow> bool" where
  "quiet k \<equiv> (\<forall>x n. nt_calls (snd (k x n)) = nt_calls n)"

lemma stop_net_calls [simp]: "nt_calls (snd (stop_net code message n)) = nt_calls n"
  by (simp add: stop_net_def)

lemma request_calls: "quiet k \<Longrightarrow> nt_calls (snd (request c late broken k n)) = nt_calls n @ [c]"
  by (simp add: request_def fetch_def Let_def split: fetch_result.split)

lemma one_request_calls: "quiet k \<Longrightarrow> nt_calls (snd (one_request tool doing c k n)) = nt_calls n @ [c]"
  by (simp add: one_request_def request_calls)

lemma with_scheme_calls:
  "nt_calls (snd (with_scheme tool url go n)) = (if http_scheme url then nt_calls (snd (go n)) else nt_calls n)"
  by (simp add: with_scheme_def)

text \<open>Where fetch_url and scrape_page may go.\<close>

definition may_fetch :: "url_host \<Rightarrow> string \<Rightarrow> string list option \<Rightarrow> bool" where
  "may_fetch hostname url domains \<longleftrightarrow> http_scheme url
     \<and> (case hostname url of
          None \<Rightarrow> False
        | Some host \<Rightarrow>
            (case domains of
               None \<Rightarrow> True
             | Some ds \<Rightarrow> ds = [] \<or> (\<exists>d. d \<in> set ds \<and> (host = d \<or> (\<exists>u. host = u @ ''.'' @ d)))))"

text \<open>A domain is allowed when it is listed or lies below one that is.\<close>

lemma ends_with_iff: "ends_with s t \<longleftrightarrow> (\<exists>u. s = u @ t)"
proof
  assume "ends_with s t"
  then have "s = take (length s - length t) s @ t" by (simp add: ends_with_def) (metis append_take_drop_id)
  then show "\<exists>u. s = u @ t" by blast
qed (auto simp: ends_with_def)

lemma domain_allowed_iff: "domain_allowed host domains \<longleftrightarrow> (\<exists>d\<in>set domains. host = d \<or> (\<exists>u. host = u @ ''.'' @ d))"
  by (auto simp: domain_allowed_def list_ex_iff ends_with_iff)

lemma with_domain_calls:
  "nt_calls (snd (with_domain hostname tool url domains go n))
     = (if may_fetch hostname url domains then nt_calls (snd (go n)) else nt_calls n)"
  by (auto simp: with_domain_def with_scheme_calls may_fetch_def domain_allowed_iff Bex_def split: option.split)

lemma typed_quiet: "quiet typed_result"
  by (simp add: typed_result_def with_text_def split: sum.split)

lemma plain_quiet: "quiet plain_result"
  by (simp add: plain_result_def with_text_def split: sum.split)

lemmas quiet_results = typed_quiet [rule_format] plain_quiet [rule_format]

definition multipart :: "(string \<times> string) list \<Rightarrow> bool" where
  "multipart headers \<longleftrightarrow>
     (case List.find (\<lambda>(key, _). js_lower key = ''content-type'') headers of
        None \<Rightarrow> False | Some (_, v) \<Rightarrow> starts_with (js_lower v) ''multipart/'')"

definition webhook_call :: "string \<Rightarrow> (string \<times> json) list \<Rightarrow> (string \<times> string) list \<Rightarrow> http_call" where
  "webhook_call url payload headers = http_call url ''POST'' (json_headers headers) (payload_text payload)"

lemma sendWebhook_calls:
  "nt_calls (snd (sendWebhook url payload headers n))
     = nt_calls n @ (if http_scheme url then [webhook_call url payload headers] else [])"
  by (simp add: sendWebhook_def with_scheme_calls one_request_calls quiet_results webhook_call_def)

lemma sendNotification_calls:
  "nt_calls (snd (sendNotification platform message url n))
     = nt_calls n @ (if platform \<in> set notify_platforms \<and> http_scheme url
                     then [webhook_call url (buildPayload platform message) []] else [])"
  using sendWebhook_calls [of url "buildPayload platform message" "[]" n]
  by (cases "sendWebhook url (buildPayload platform message) [] n") (auto simp: sendNotification_def split: sum.split)

text \<open>The one call of the Slack tools, and of call_webhook, whose body goes with POST, PUT and PATCH only.\<close>

definition slack_call :: "string \<Rightarrow> string \<Rightarrow> string \<Rightarrow> string option \<Rightarrow> string option \<Rightarrow> http_call" where
  "slack_call token channel message thread username =
     http_call SLACK_API_URL ''POST''
       [(''Authorization'', ''Bearer '' @ token), (''Content-Type'', ''application/json; charset=utf-8'')]
       (payload_text (slack_body channel message thread username))"

text \<open>The token that is given goes before that of the environment; an empty one is none.\<close>

definition slack_token :: "string option \<Rightarrow> string option \<Rightarrow> string" where
  "slack_token given_token env_token = setting (if given_token = None then env_token else given_token)"

lemma sendSlack_calls:
  "nt_calls (snd (sendSlack json_parse env channel message thread username given n))
     = nt_calls n @ (if slack_token given env = '''' then []
                     else [slack_call (slack_token given env) channel message thread username])"
proof -
  have q: "quiet (\<lambda>r. with_text r (\<lambda>t n. (slack_answer json_parse (hr_status r) t, n)))"
    by (simp add: with_text_def split: sum.split)
  have t: "(case given of Some t \<Rightarrow> t | None \<Rightarrow> (case env of Some t \<Rightarrow> t | None \<Rightarrow> '''')) = slack_token given env"
    by (simp add: slack_token_def setting_def split: option.split)
  show ?thesis unfolding sendSlack_def Let_def t by (simp add: request_calls [OF q] slack_call_def)
qed

lemma postMessage_calls:
  "nt_calls (snd (postMessage json_parse env platform message channel thread given n))
     = nt_calls n @ (if platform = ''slack'' \<and> slack_token given env \<noteq> ''''
                     then [slack_call (slack_token given env) channel message thread None] else [])"
  using sendSlack_calls [of json_parse env channel message thread None given n]
  by (cases "sendSlack json_parse env channel message thread None given n") (auto simp: postMessage_def split: sum.split)

definition hook_call :: "string \<Rightarrow> string option \<Rightarrow> (string \<times> json) list option \<Rightarrow> (string \<times> string) list \<Rightarrow> http_call" where
  "hook_call url verb payload headers =
     (let verb = (case verb of Some v \<Rightarrow> v | None \<Rightarrow> ''POST'')
      in case (payload, verb \<in> {''POST'', ''PUT'', ''PATCH''}) of
           (Some p, True) \<Rightarrow> http_call url verb (json_headers headers) (payload_text p)
         | _ \<Rightarrow> http_call url verb headers None)"

lemma callWebhook_calls:
  "nt_calls (snd (callWebhook url verb payload headers n))
     = nt_calls n @ (if http_scheme url then [hook_call url verb payload headers] else [])"
  by (cases verb; cases payload)
    (simp_all add: callWebhook_def with_scheme_calls one_request_calls quiet_results hook_call_def option.case
      BODY_METHODS_def Let_def)

text \<open>
  The one call of search_web: to the endpoint of the provider, Google unless it is Bing, when the query is not
  blank and the keys are there; between one and ten results are asked for.
\<close>

definition search_calls :: "form_encoder \<Rightarrow> search_settings \<Rightarrow> string \<Rightarrow> int option \<Rightarrow> http_call list" where
  "search_calls encode settings query limit =
     (let count = int_str (max 1 (min ((case limit of Some l \<Rightarrow> l | None \<Rightarrow> 10)) 10))
      in if js_trim query = '''' then []
         else if ss_provider settings = Some ''bing''
         then if setting (ss_bing_key settings) = '''' then []
              else [http_call (''https://api.bing.microsoft.com/v7.0/search?'' @ encode [(''q'', query), (''count'', count)])
                      ''GET'' [(''Ocp-Apim-Subscription-Key'', setting (ss_bing_key settings))] None]
         else if setting (ss_google_key settings) = '''' \<or> setting (ss_google_engine settings) = '''' then []
         else [http_call (''https://www.googleapis.com/customsearch/v1?''
                 @ encode [(''key'', setting (ss_google_key settings)), (''cx'', setting (ss_google_engine settings)),
                           (''q'', query), (''num'', count)]) ''GET'' [] None])"

lemma search_quiet: "quiet (\<lambda>r. with_text r (\<lambda>raw n. (search_answer json_parse api items (hr_status r) raw, n)))"
  by (simp add: with_text_def split: sum.split)

lemma found_calls: "nt_calls (snd (found_results query provider f n)) = nt_calls (snd (f n))"
  by (simp add: found_results_def split: prod.split sum.split)

lemma searchWeb_calls:
  "nt_calls (snd (searchWeb json_parse encode settings query limit n)) = nt_calls n @ search_calls encode settings query limit"
proof -
  have lim: "min (max 1 (min (case limit of Some l \<Rightarrow> l | None \<Rightarrow> DEFAULT_RESULT_LIMIT) MAX_RESULT_LIMIT)) MAX_RESULT_LIMIT
      = max 1 (min ((case limit of Some l \<Rightarrow> l | None \<Rightarrow> 10)) 10)"
    by (cases limit) (auto simp: DEFAULT_RESULT_LIMIT_def MAX_RESULT_LIMIT_def)
  have google: "nt_calls (snd (searchGoogle json_parse encode query l key engine n)) = nt_calls n
      @ [http_call (''https://www.googleapis.com/customsearch/v1?'' @ encode [(''key'', key), (''cx'', engine), (''q'', query),
           (''num'', int_str (min l MAX_RESULT_LIMIT))]) ''GET'' [] None]" for l key engine
    unfolding searchGoogle_def fetchWithTimeout_def by (rule request_calls [OF search_quiet])
  have bing: "nt_calls (snd (searchBing json_parse encode query l key n)) = nt_calls n
      @ [http_call (''https://api.bing.microsoft.com/v7.0/search?'' @ encode [(''q'', query),
           (''count'', int_str (min l MAX_RESULT_LIMIT))]) ''GET'' [(''Ocp-Apim-Subscription-Key'', key)] None]" for l key
    unfolding searchBing_def fetchWithTimeout_def by (rule request_calls [OF search_quiet])
  have p: "(case ss_provider settings of Some p \<Rightarrow> p | None \<Rightarrow> ''google'') = ''bing'' \<longleftrightarrow> ss_provider settings = Some ''bing''"
    by (cases "ss_provider settings") simp_all
  show ?thesis
    unfolding searchWeb_def Let_def search_calls_def p
    by (simp add: found_calls google bing lim missing_config_def)
qed

lemma scrape_calls:
  "nt_calls (snd (scrapePage hostname load url selectors headers domains n))
     = nt_calls n @ (if may_fetch hostname url domains then [http_call url ''GET'' headers None] else [])"
proof -
  let ?k = "\<lambda>r n. (case hr_text r of
             Inl cause \<Rightarrow> stop_net ''parse-error''
               (''scrape_page: failed to read response body from '' @ quoted url @ '': '' @ cause) n
           | Inr html \<Rightarrow>
               (case load html of
                  Inl cause \<Rightarrow> stop_net ''parse-error''
                    (''scrape_page: failed to parse HTML from '' @ quoted url @ '': '' @ cause) n
                | Inr p \<Rightarrow>
                    (let base = \<lparr>sp_url = or_text (hr_url r) url, sp_title = js_trim (pg_title p),
                                 sp_text = js_trim (pg_body p), sp_elements = None\<rparr>
                     in case selectors of
                          None \<Rightarrow> (Inr base, n)
                        | Some ss \<Rightarrow>
                            if ss = [] then (Inr base, n)
                            else (case select_all p ss of
                                    Inl e \<Rightarrow> stop_net '''' e n
                                  | Inr rs \<Rightarrow> (Inr (base\<lparr>sp_elements := Some rs\<rparr>), n)))))"
  have "quiet ?k" by (auto simp: Let_def split: sum.split option.split)
  from one_request_calls [OF this] show ?thesis by (simp only: scrapePage_def with_domain_calls if_distrib) simp
qed

text \<open>The check is of the URL that is asked for; the network follows redirects, and what comes back may be another domain's.\<close>

lemma redirect_leaves_domain:
  "fst (fetchUrl (\<lambda>_. Some ''a.org'') ''https://a.org/'' [] (Some [''a.org''])
     \<lparr>nt_calls = [], nt_answer = \<lambda>_. Replied \<lparr>hr_status = 200, hr_text = Inr ''x'', hr_content_type = None,
        hr_content_length = None, hr_url = ''http://b.net/''\<rparr>\<rparr>)
   = Inr \<lparr>fu_status_code = 200, fu_body = ''x'', fu_content_type = None, fu_final_url = ''http://b.net/'', fu_content_length = None\<rparr>"
  by (simp add: fetchUrl_def with_domain_def with_scheme_def http_scheme_def starts_with_def domain_allowed_def one_request_def
      request_def fetch_def with_text_def or_text_def Let_def)

section \<open>The attempts of webhook\<close>

text \<open>How many attempts it takes: up to the first that gets a response, or all that are allowed.\<close>

fun tries :: "nat \<Rightarrow> http_call \<Rightarrow> network \<Rightarrow> nat" where
  "tries 0 c n = 0"
| "tries (Suc m) c n = (case fetch c n of (Replied _, _) \<Rightarrow> 1 | (_, n') \<Rightarrow> Suc (tries m c n'))"

lemma tries_le: "tries m c n \<le> m"
  by (induction m c n rule: tries.induct) (auto split: prod.split fetch_result.split)

text \<open>The waits before \<open>k\<close> attempts, the first of them the attempt number \<open>a\<close>.\<close>

definition backoffs :: "int \<Rightarrow> nat \<Rightarrow> int list" where
  "backoffs a k = concat (map (\<lambda>i. if a + int i > 1 then [BASE_BACKOFF_MS * 2 ^ nat (a + int i - 2)] else []) [0..<k])"

lemma backoffs_Suc:
  "backoffs a (Suc k) = (if a > 1 then [BASE_BACKOFF_MS * 2 ^ nat (a - 2)] else []) @ backoffs (a + 1) k"
proof -
  have "[0..<Suc k] = 0 # map Suc [0..<k]" by (simp add: upt_conv_Cons map_Suc_upt del: upt_Suc)
  moreover have "a + int (Suc i) = a + 1 + int i" for i by simp
  ultimately show ?thesis unfolding backoffs_def by (simp only: list.map map_map o_def concat.simps) simp
qed

lemma backoffs_first: "backoffs 1 k = map (\<lambda>i. BASE_BACKOFF_MS * 2 ^ i) [0..<k - 1]"
proof (cases k)
  case (Suc j)
  have "[0..<Suc j] = 0 # map Suc [0..<j]" by (simp add: upt_conv_Cons map_Suc_upt del: upt_Suc)
  then show ?thesis by (simp add: Suc backoffs_def o_def del: upt_Suc)
qed (simp add: backoffs_def)

lemma backoffs_sum: "sum_list (map (\<lambda>i. BASE_BACKOFF_MS * 2 ^ i) [0..<j]) = BASE_BACKOFF_MS * (2 ^ j - 1)"
  by (induction j) (simp_all add: algebra_simps)

definition attempts_of :: "webhook_error option + webhook_result \<Rightarrow> int" where
  "attempts_of r =
     (case r of Inr x \<Rightarrow> wr_attempts x | Inl None \<Rightarrow> 0 | Inl (Some e) \<Rightarrow> we_attempts e)"

definition gave_up :: "webhook_error option + webhook_result \<Rightarrow> bool" where
  "gave_up r \<longleftrightarrow> (case r of Inr x \<Rightarrow> False | Inl None \<Rightarrow> True | Inl (Some e) \<Rightarrow> we_code e \<noteq> '''')"

definition settled :: "http_reply \<Rightarrow> webhook_error option + webhook_result \<Rightarrow> nat \<Rightarrow> bool" where
  "settled reply r k \<longleftrightarrow>
     (case hr_text reply of
        Inr s \<Rightarrow> r = Inr \<lparr>wr_status_code = hr_status reply, wr_response_body = s, wr_content_type = hr_content_type reply,
                        wr_attempts = int k\<rparr>
      | Inl e \<Rightarrow> r = Inl (Some \<lparr>we_code = '''', we_message = e, we_attempts = 0\<rparr>))"

lemma attemptPost_cases:
  "attemptPost url headers body n =
     (case fetch (http_call url ''POST'' headers body) n of
        (Replied r, n') \<Rightarrow> (Inr r, n')
      | (Aborted, n') \<Rightarrow> stop_net ''timeout'' (''webhook: request to '' @ quoted url @ after_ms) n'
      | (Failed cause, n') \<Rightarrow> stop_net ''network-error'' (''webhook: network error while posting to '' @ quoted url @ '': '' @ cause) n')"
  by (simp add: attemptPost_def one_request_def request_def http_call_def split: prod.split fetch_result.split)

lemma webhook_loop_tries:
  assumes "c = http_call url ''POST'' headers body" "k = tries m c n" "1 \<le> a"
  shows "webhook_loop url headers body a (a - 1 + int m) prev n = (r, ws, n') \<Longrightarrow>
      nt_calls n' = nt_calls n @ replicate k c \<and> ws = backoffs a k \<and> nt_answer n' = nt_answer n
      \<and> (case nt_answer n (nt_calls n') of
           Replied reply \<Rightarrow> if k = 0 then r = Inl prev else settled reply r (nat (a - 1) + k)
         | _ \<Rightarrow> if k = 0 then r = Inl prev
               else k = m \<and> gave_up r \<and> attempts_of r = a - 1 + int m)"
  using assms
proof (induction m arbitrary: a prev n k ws)
  case 0
  then show ?case by (auto simp: webhook_loop.simps backoffs_def split: fetch_result.split)
next
  case (Suc m)
  let ?n = "snd (fetch c n)"
  have fields: "nt_calls ?n = nt_calls n @ [c]" "nt_answer ?n = nt_answer n" "fst (fetch c n) = nt_answer n (nt_calls n @ [c])"
    by (simp_all add: fetch_def Let_def)
  have not: "\<not> a > a - 1 + int (Suc m)" by simp
  have later: "a + 1 - 1 + int m = a - 1 + int (Suc m)" by simp
  show ?case
  proof (cases "\<exists>reply. nt_answer n (nt_calls n @ [c]) = Replied reply")
    case True
    then obtain reply where reply: "nt_answer n (nt_calls n @ [c]) = Replied reply" by blast
    with fields have k: "k = 1" using Suc.prems(3) by (cases "fetch c n") simp
    have "attemptPost url headers body n = (Inr reply, ?n)"
      using reply fields Suc.prems(2) by (cases "fetch c n") (simp add: attemptPost_cases)
    with Suc.prems(1,4) not fields show ?thesis
      unfolding k by (auto simp: webhook_loop.simps [of url headers body a] backoffs_def settled_def reply Let_def split: sum.splits)
  next
    case False
    obtain e where post: "attemptPost url headers body n = (Inl e, ?n)" and code: "te_code e \<noteq> ''''"
      using False fields Suc.prems(2)
      by (cases "fetch c n"; cases "fst (fetch c n)") (auto simp: attemptPost_cases stop_net_def tool_error_def)
    have k: "k = Suc (tries m c ?n)"
      using False fields Suc.prems(3) by (cases "fetch c n"; cases "fst (fetch c n)") auto
    let ?last = "Some \<lparr>we_code = te_code e, we_message = te_message e, we_attempts = a\<rparr>"
    obtain ws' where loop: "webhook_loop url headers body (a + 1) (a - 1 + int (Suc m)) ?last ?n = (r, ws', n')"
      and ws: "ws = (if a > 1 then [BASE_BACKOFF_MS * 2 ^ nat (a - 2)] else []) @ ws'"
      using Suc.prems(1) not post by (subst (asm) webhook_loop.simps) (auto simp: Let_def split: prod.splits)
    have ih: "nt_calls n' = nt_calls ?n @ replicate (tries m c ?n) c \<and> ws' = backoffs (a + 1) (tries m c ?n) \<and> nt_answer n' = nt_answer ?n
      \<and> (case nt_answer ?n (nt_calls n') of
           Replied reply \<Rightarrow> if tries m c ?n = 0 then r = Inl ?last else settled reply r (nat (a + 1 - 1) + tries m c ?n)
         | _ \<Rightarrow> if tries m c ?n = 0 then r = Inl ?last
               else tries m c ?n = m \<and> gave_up r \<and> attempts_of r = a + 1 - 1 + int m)"
      by (rule Suc.IH) (use loop later Suc.prems(2,4) in simp_all)
    have zero: "m = 0" if "tries m c ?n = 0" using that by (cases m) (auto split: prod.splits fetch_result.splits)
    have k': "nt_answer n (nt_calls n') = nt_answer n (nt_calls n @ [c])" if "tries m c ?n = 0"
      using ih that fields by simp
    have "nat a = Suc (nat (a - 1))" using Suc.prems(4) by simp
    then show ?thesis
      using ih fields k ws False zero k' code Suc.prems(4)
      by (cases "tries m c ?n = 0")
        (auto simp: backoffs_Suc gave_up_def attempts_of_def nat_add_distrib algebra_simps split: fetch_result.splits)
  qed
qed

definition allowed_attempts :: "int option \<Rightarrow> nat" where
  "allowed_attempts max_retries = nat ((case max_retries of Some m \<Rightarrow> m | None \<Rightarrow> DEFAULT_MAX_RETRIES) + 1)"

text \<open>
  webhook posts the same request until it gets a response, at most once more than the retries it may make
  (four times without a setting); it waits 500 ms before the second attempt and twice as long before each
  further one; it returns the first response, whatever its status, with the number of attempts made, and an
  error only when every attempt has failed or the body of the response does not arrive. A URL of another scheme is
  refused without a call. (With a negative number of retries it makes no attempt and throws \<open>undefined\<close>.)
\<close>

theorem webhook_retries:
  "case webhook url payload headers max_retries n of (r, waits, n') \<Rightarrow>
     let c = webhook_call url payload headers; m = allowed_attempts max_retries; k = tries m c n
     in if http_scheme url
        then nt_calls n' = nt_calls n @ replicate k c \<and> k \<le> m
          \<and> waits = map (\<lambda>i. BASE_BACKOFF_MS * 2 ^ i) [0..<k - 1] \<and> sum_list waits = BASE_BACKOFF_MS * (2 ^ (k - 1) - 1)
          \<and> (if m = 0 then r = Inl None
             else case nt_answer n (nt_calls n') of
                    Replied reply \<Rightarrow> settled reply r k
                  | _ \<Rightarrow> k = m \<and> gave_up r \<and> attempts_of r = int m)
        else nt_calls n' = nt_calls n \<and> waits = [] \<and> gave_up r"
proof -
  obtain r waits n' where w: "webhook url payload headers max_retries n = (r, waits, n')" by (cases "webhook url payload headers max_retries n")
  let ?c = "webhook_call url payload headers" and ?m = "allowed_attempts max_retries"
  let ?k = "tries ?m ?c n"
  show ?thesis
  proof (cases "http_scheme url")
    case False
    then show ?thesis by (simp add: webhook_def gave_up_def)
  next
    case True
    show ?thesis
    proof (cases "?m = 0")
      case none: True
      then have "(case max_retries of Some m \<Rightarrow> m | None \<Rightarrow> DEFAULT_MAX_RETRIES) + 1 \<le> 0" by (simp add: allowed_attempts_def)
      with True none show ?thesis by (simp add: webhook_def webhook_loop.simps)
    next
      case False
      then have max: "(case max_retries of Some m \<Rightarrow> m | None \<Rightarrow> DEFAULT_MAX_RETRIES) + 1 = 1 - 1 + int ?m"
        by (simp add: allowed_attempts_def)
      have "webhook_loop url (json_headers headers) (payload_text payload) 1 (1 - 1 + int ?m) None n = (r, waits, n')"
        using w True unfolding webhook_def max by simp
      from webhook_loop_tries [OF webhook_call_def refl order_refl this]
      have loop: "nt_calls n' = nt_calls n @ replicate ?k ?c \<and> waits = backoffs 1 ?k
        \<and> (case nt_answer n (nt_calls n') of
           Replied reply \<Rightarrow> if ?k = 0 then r = Inl None else settled reply r (nat (1 - 1) + ?k)
         | _ \<Rightarrow> if ?k = 0 then r = Inl None else ?k = ?m \<and> gave_up r \<and> attempts_of r = 1 - 1 + int ?m)"
        by (elim conjE, intro conjI)
      have "?k \<noteq> 0" using False by (cases ?m) (auto split: prod.splits fetch_result.splits)
      with loop show ?thesis
        using True False w tries_le [of ?m ?c n]
        by (simp add: Let_def backoffs_first backoffs_sum split: fetch_result.splits)
    qed
  qed
qed

section \<open>All calls of the HTTP tools\<close>

lemma fetchUrl_calls:
  "nt_calls (snd (fetchUrl hostname url headers domains n))
     = nt_calls n @ (if may_fetch hostname url domains then [http_call url ''GET'' headers None] else [])"
proof -
  have "quiet (\<lambda>r. with_text r (\<lambda>s n.
      (Inr \<lparr>fu_status_code = hr_status r, fu_body = s, fu_content_type = hr_content_type r,
            fu_final_url = or_text (hr_url r) url,
            fu_content_length = (case hr_content_length r of None \<Rightarrow> None | Some t \<Rightarrow> parseInt t)\<rparr>, n)))"
    by (simp add: with_text_def split: sum.split)
  from one_request_calls [OF this] show ?thesis by (simp add: fetchUrl_def with_domain_calls)
qed

lemma httpPost_calls:
  "nt_calls (snd (httpPost url body headers n))
     = nt_calls n @ (if http_scheme url \<and> \<not> multipart headers then [http_call url ''POST'' headers body] else [])"
  by (auto simp: httpPost_def with_scheme_calls one_request_calls quiet_results multipart_def Let_def split: option.split)

lemma webhook_calls:
  "\<exists>k \<le> allowed_attempts max_retries. nt_calls (snd (snd (webhook url payload headers max_retries n)))
     = nt_calls n @ (if http_scheme url then replicate k (webhook_call url payload headers) else [])"
  using webhook_retries [of url payload headers max_retries n]
  by (auto simp: Let_def split: prod.splits if_splits)

text \<open>
  C15. The calls the HTTP tools hand to the network are exactly these. http_get, http_put, http_patch, http_delete,
  send_webhook and call_webhook make one call, with the URL, the method, the headers and the body they were given,
  when the URL is of http or https, and none otherwise; http_post likewise, but none with a multipart body;
  send_notification only for a known platform; fetch_url and scrape_page only when the URL has a host and the host
  is a listed domain or below one, or no domains are listed; webhook makes the same call at most once more than it
  may retry; send_slack and post_message call only Slack, with a token; search_web calls only its provider, with a
  query and keys. (These are the calls of the tools: that the network itself follows redirects out of the listed
  domains is \<open>redirect_leaves_domain\<close>.)
\<close>

theorem net_tools_confined:
  "nt_calls (snd (httpGet url headers n)) = nt_calls n @ (if http_scheme url then [http_call url ''GET'' headers None] else [])
   \<and> nt_calls (snd (httpPut url body headers n)) = nt_calls n @ (if http_scheme url then [http_call url ''PUT'' headers body] else [])
   \<and> nt_calls (snd (httpPatch url body headers n))
      = nt_calls n @ (if http_scheme url then [http_call url ''PATCH'' headers body] else [])
   \<and> nt_calls (snd (httpDelete url headers n))
      = nt_calls n @ (if http_scheme url then [http_call url ''DELETE'' headers None] else [])
   \<and> nt_calls (snd (httpPost url body headers n))
      = nt_calls n @ (if http_scheme url \<and> \<not> multipart headers then [http_call url ''POST'' headers body] else [])
   \<and> nt_calls (snd (fetchUrl hostname url headers domains n))
      = nt_calls n @ (if may_fetch hostname url domains then [http_call url ''GET'' headers None] else [])
   \<and> nt_calls (snd (scrapePage hostname load url selectors headers domains n))
      = nt_calls n @ (if may_fetch hostname url domains then [http_call url ''GET'' headers None] else [])
   \<and> nt_calls (snd (sendWebhook url payload headers n))
      = nt_calls n @ (if http_scheme url then [webhook_call url payload headers] else [])
   \<and> nt_calls (snd (sendNotification platform message url n))
      = nt_calls n @ (if platform \<in> set notify_platforms \<and> http_scheme url
                      then [webhook_call url (buildPayload platform message) []] else [])
   \<and> nt_calls (snd (callWebhook url verb opt_payload headers n))
      = nt_calls n @ (if http_scheme url then [hook_call url verb opt_payload headers] else [])
   \<and> (\<exists>k \<le> allowed_attempts max_retries. nt_calls (snd (snd (webhook url payload headers max_retries n)))
         = nt_calls n @ (if http_scheme url then replicate k (webhook_call url payload headers) else []))
   \<and> nt_calls (snd (sendSlack json_parse env channel message thread username given n))
      = nt_calls n @ (if slack_token given env = '''' then []
                      else [slack_call (slack_token given env) channel message thread username])
   \<and> nt_calls (snd (postMessage json_parse env platform message channel thread given n))
      = nt_calls n @ (if platform = ''slack'' \<and> slack_token given env \<noteq> ''''
                      then [slack_call (slack_token given env) channel message thread None] else [])
   \<and> nt_calls (snd (searchWeb json_parse encode settings query limit n)) = nt_calls n @ search_calls encode settings query limit"
  by (intro conjI sendWebhook_calls sendNotification_calls callWebhook_calls webhook_calls sendSlack_calls postMessage_calls
      searchWeb_calls scrape_calls fetchUrl_calls httpPost_calls)
    (simp_all add: httpGet_def httpPut_def httpPatch_def httpDelete_def with_scheme_calls one_request_calls quiet_results)

end
