(* ===== verification/MailTool.thy ===== *)
theory MailTool
  imports Channels ToolRun
begin

text \<open>
  send_email of \<open>src/tools/send_email/send-email.ts\<close>: the settings, the text of a mail, and the exchange with the SMTP
  server over a socket. The server is a parameter that answers a wait by what has been written so far: with the
  pieces of data it sends before it falls silent, or with an error of the socket. The outcome of connecting and
  of the TLS handshake, the time and the random part of a message id are parameters as well.
\<close>

section \<open>Settings\<close>

record email_params =
  em_to :: string
  em_subject :: string
  em_body :: string
  em_from :: "string option"
  em_cc :: "string option"

record smtp_settings =
  sm_host :: "string option"
  sm_port :: "int option"
  sm_user :: "string option"
  sm_pass :: "string option"
  sm_from :: "string option"
  sm_secure :: "bool option"

record smtp_envelope =
  sv_host :: string
  sv_port :: "int option"
  sv_secure :: bool
  sv_user :: "string option"
  sv_pass :: "string option"
  sv_from :: string
  sv_to :: "string list"
  sv_cc :: "string list"
  sv_subject :: string
  sv_body :: string
  sv_html :: bool

definition DEFAULT_SMTP_PORT :: int where
  "DEFAULT_SMTP_PORT = 587"

definition letter :: "char \<Rightarrow> bool" where
  "letter c \<longleftrightarrow> is_lower c \<or> is_upper c"

definition HTML_TAG_RE :: rx where
  "HTML_TAG_RE = RSeq (rx_chr (CHR ''<'')) (RSeq (RClass letter)
     (RSeq (RStar (RClass (\<lambda>c. letter c \<or> is_digit c))) (RClass (\<lambda>c. js_space c \<or> c = CHR ''>'' \<or> c = CHR ''/''))))"

definition isHtml :: "string \<Rightarrow> bool" where
  "isHtml body \<longleftrightarrow> rx_test HTML_TAG_RE body"

definition splitAddresses :: "string \<Rightarrow> string list" where
  "splitAddresses s = filter (\<lambda>a. a \<noteq> '''') (map js_trim (split_on (CHR '','') s))"

definition generateMessageId :: "int \<Rightarrow> string \<Rightarrow> string \<Rightarrow> string" where
  "generateMessageId ts rand host = ''<'' @ int_str ts @ ''.'' @ rand @ ''@'' @ host @ ''>''"

section \<open>The text of a mail\<close>

definition CRLF :: string where
  "CRLF = [CHR 0x0D, CHR 0x0A]"

text \<open>\<open>body.replace(/^\./gm, '..')\<close>: a dot at the start of the text or behind a line break is doubled.\<close>

fun dot_stuff :: "bool \<Rightarrow> string \<Rightarrow> string" where
  "dot_stuff at_start [] = []"
| "dot_stuff at_start (c # cs) =
     (if at_start \<and> c = CHR ''.'' then ''..'' else [c]) @ dot_stuff (c = CHR 0x0A \<or> c = CHR 0x0D) cs"

definition header_lines :: "smtp_envelope \<Rightarrow> string \<Rightarrow> string list" where
  "header_lines e messageId =
     [''Message-ID: '' @ messageId, ''From: '' @ sv_from e, ''To: '' @ join '', '' (sv_to e)]
     @ (if sv_cc e \<noteq> [] then [''Cc: '' @ join '', '' (sv_cc e)] else [])
     @ [''Subject: '' @ sv_subject e, ''MIME-Version: 1.0'',
        ''Content-Type: '' @ (if sv_html e then ''text/html'' else ''text/plain'') @ ''; charset=UTF-8'',
        ''Content-Transfer-Encoding: 8bit'']"

definition buildMimeMessage :: "smtp_envelope \<Rightarrow> string \<Rightarrow> string" where
  "buildMimeMessage e messageId =
     join CRLF (header_lines e messageId @ ['''', dot_stuff True (sv_body e), '''', ''.''])"

section \<open>The exchange\<close>

datatype smtp_event = Wrote string | Upgraded

datatype smtp_answer = Chunks "string list" | SocketError string

record smtp_world =
  sx_connect :: "string option"
  sx_tls :: "string option"
  sx_server :: "smtp_event list \<Rightarrow> smtp_answer"
  sx_hostname :: string

text \<open>Waiting for a line that ends a reply: three characters and a blank.\<close>

definition chomp :: "string \<Rightarrow> string" where
  "chomp line = (if line \<noteq> '''' \<and> last line = CHR 0x0D then butlast line else line)"

definition final_line :: "string \<Rightarrow> string option" where
  "final_line buf =
     List.find (\<lambda>line. 4 \<le> length line \<and> line ! 3 = CHR '' '') (map chomp (split_on (CHR 0x0A) buf))"

fun wait_chunks :: "int \<Rightarrow> string \<Rightarrow> string list \<Rightarrow> string + string" where
  "wait_chunks expected buf [] = Inl (''SMTP timeout waiting for '' @ int_str expected)"
| "wait_chunks expected buf (chunk # chunks) =
     (let buf = buf @ chunk
      in case final_line buf of
           None \<Rightarrow> wait_chunks expected buf chunks
         | Some line \<Rightarrow>
             (let code = parseInt (take 3 line)
              in if code = Some expected then Inr buf
                 else Inl (''SMTP '' @ (case code of Some c \<Rightarrow> int_str c | None \<Rightarrow> ''NaN'') @ '': '' @ js_trim buf)))"

definition waitForSmtpResponse :: "smtp_world \<Rightarrow> smtp_event list \<Rightarrow> int \<Rightarrow> string + string" where
  "waitForSmtpResponse x h expected =
     (case sx_server x h of SocketError e \<Rightarrow> Inl e | Chunks chunks \<Rightarrow> wait_chunks expected '''' chunks)"

text \<open>One exchange after another: what is written and the code that must come back.\<close>

fun exchanges :: "smtp_world \<Rightarrow> (string \<times> int) list \<Rightarrow> smtp_event list \<Rightarrow> (string + string) \<times> smtp_event list" where
  "exchanges x [] h = (Inr '''', h)"
| "exchanges x ((line, code) # rest) h =
     (let h = h @ [Wrote line]
      in case waitForSmtpResponse x h code of
           Inl e \<Rightarrow> (Inl e, h)
         | Inr buf \<Rightarrow> if rest = [] then (Inr buf, h) else exchanges x rest h)"

text \<open>\<open>btoa\<close>.\<close>

definition b64_char :: "nat \<Rightarrow> char" where
  "b64_char n =
     (if n < 26 then char_of (65 + n) else if n < 52 then char_of (71 + n) else if n < 62 then char_of (n - 4)
      else if n = 62 then CHR ''+'' else CHR ''/'')"

fun btoa :: "string \<Rightarrow> string" where
  "btoa [] = []"
| "btoa [a] = (let a = (of_char a :: nat) in [b64_char (a div 4), b64_char (a mod 4 * 16), CHR ''='', CHR ''=''])"
| "btoa [a, b] =
     (let a = (of_char a :: nat); b = of_char b
      in [b64_char (a div 4), b64_char (a mod 4 * 16 + b div 16), b64_char (b mod 16 * 4), CHR ''=''])"
| "btoa (a # b # c # rest) =
     (let a = (of_char a :: nat); b = of_char b; c = of_char c
      in [b64_char (a div 4), b64_char (a mod 4 * 16 + b div 16), b64_char (b mod 16 * 4 + c div 64), b64_char (c mod 64)]
         @ btoa rest)"

definition auth_lines :: "smtp_envelope \<Rightarrow> (string \<times> int) list" where
  "auth_lines e =
     (case (sv_user e, sv_pass e) of
        (Some user, Some pass) \<Rightarrow>
          if user \<noteq> '''' \<and> pass \<noteq> ''''
          then [(''AUTH LOGIN'' @ CRLF, 334), (btoa user @ CRLF, 334), (btoa pass @ CRLF, 235)] else []
      | _ \<Rightarrow> [])"

definition mail_lines :: "smtp_envelope \<Rightarrow> (string \<times> int) list" where
  "mail_lines e =
     (''MAIL FROM:<'' @ sv_from e @ ''>'' @ CRLF, 250)
     # map (\<lambda>addr. (''RCPT TO:<'' @ addr @ ''>'' @ CRLF, 250)) (sv_to e @ sv_cc e)
     @ [(''DATA'' @ CRLF, 354)]"

definition start_tls :: "smtp_world \<Rightarrow> smtp_event list \<Rightarrow> (string + string) \<times> smtp_event list" where
  "start_tls x h =
     (case exchanges x [(''STARTTLS'' @ CRLF, 220)] h of
        (Inl e, h) \<Rightarrow> (Inl e, h)
      | (Inr _, h) \<Rightarrow>
          (case sx_tls x of
             Some e \<Rightarrow> (Inl e, h)
           | None \<Rightarrow> exchanges x [(''EHLO '' @ sx_hostname x @ CRLF, 250)] (h @ [Upgraded])))"

text \<open>The greeting and EHLO, encryption where the server offers it, then the mail; the reply to QUIT does not matter.\<close>

definition smtp_open :: "smtp_world \<Rightarrow> smtp_envelope \<Rightarrow> (string + string) \<times> smtp_event list" where
  "smtp_open x e =
     (case sx_connect x of
        Some cause \<Rightarrow> (Inl (''network error connecting to SMTP server: '' @ cause), [])
      | None \<Rightarrow>
          (case waitForSmtpResponse x [] 220 of
             Inl err \<Rightarrow> (Inl err, [])
           | Inr _ \<Rightarrow>
               (case exchanges x [(''EHLO '' @ sx_hostname x @ CRLF, 250)] [] of
                  (Inl err, h) \<Rightarrow> (Inl err, h)
                | (Inr resp, h) \<Rightarrow>
                    if \<not> sv_secure e \<and> js_includes resp ''STARTTLS'' then start_tls x h else (Inr resp, h))))"

definition defaultSmtpSend :: "smtp_world \<Rightarrow> int \<Rightarrow> string \<Rightarrow> smtp_envelope \<Rightarrow> (string + string) \<times> smtp_event list" where
  "defaultSmtpSend x ts rand e =
     (let messageId = generateMessageId ts rand (sv_host e)
      in case smtp_open x e of
           (Inl err, h) \<Rightarrow> (Inl err, h)
         | (Inr _, h) \<Rightarrow>
             (case exchanges x (auth_lines e @ mail_lines e @ [(buildMimeMessage e messageId, 250)]) h of
                (Inl err, h) \<Rightarrow> (Inl err, h)
              | (Inr _, h) \<Rightarrow> (Inr messageId, h @ [Wrote (''QUIT'' @ CRLF)])))"

section \<open>send_email\<close>

definition or_env :: "'a option \<Rightarrow> 'a option \<Rightarrow> 'a option" where
  "or_env a b = (case a of Some x \<Rightarrow> Some x | None \<Rightarrow> b)"

definition or_text_env :: "string option \<Rightarrow> string option \<Rightarrow> string" where
  "or_text_env a b = (case or_env a b of Some s \<Rightarrow> s | None \<Rightarrow> [])"

text \<open>The environment's settings, as texts.\<close>

record smtp_env =
  ev_host :: "string option"
  ev_port :: "string option"
  ev_user :: "string option"
  ev_pass :: "string option"
  ev_from :: "string option"
  ev_secure :: "string option"

definition smtp_port :: "smtp_settings \<Rightarrow> smtp_env \<Rightarrow> int option" where
  "smtp_port s v =
     (case sm_port s of
        Some p \<Rightarrow> Some p
      | None \<Rightarrow> (case ev_port v of Some t \<Rightarrow> parseInt t | None \<Rightarrow> Some DEFAULT_SMTP_PORT))"

definition smtp_secure :: "smtp_settings \<Rightarrow> smtp_env \<Rightarrow> bool" where
  "smtp_secure s v =
     (case sm_secure s of Some b \<Rightarrow> b | None \<Rightarrow> ev_secure v = Some ''true'' \<or> smtp_port s v = Some 465)"

definition mail_envelope :: "string \<Rightarrow> string \<Rightarrow> smtp_settings \<Rightarrow> smtp_env \<Rightarrow> email_params \<Rightarrow> smtp_envelope" where
  "mail_envelope host sender s v ps =
     \<lparr>sv_host = host, sv_port = smtp_port s v, sv_secure = smtp_secure s v,
      sv_user = or_env (sm_user s) (ev_user v), sv_pass = or_env (sm_pass s) (ev_pass v),
      sv_from = sender, sv_to = splitAddresses (em_to ps),
      sv_cc = (case em_cc ps of Some c \<Rightarrow> if c = '''' then [] else splitAddresses c | None \<Rightarrow> []),
      sv_subject = em_subject ps, sv_body = em_body ps, sv_html = isHtml (em_body ps)\<rparr>"

definition mail_error :: "string \<Rightarrow> tool_error" where
  "mail_error message =
     (if js_includes message ''timed out'' \<or> js_includes message ''timeout''
      then tool_error ''timeout'' (''send_email: SMTP exchange timed out: '' @ message)
      else if starts_with message ''SMTP '' then tool_error ''smtp-error'' (''send_email: '' @ message)
      else tool_error ''network-error'' (''send_email: network error during SMTP delivery: '' @ message))"

text \<open>The transport is an argument, \<open>defaultSmtpSend\<close> without one; it gives a message id or the message of an error.\<close>

definition sendEmail ::
  "(smtp_envelope \<Rightarrow> (string + string) \<times> 's) \<Rightarrow> smtp_settings \<Rightarrow> smtp_env \<Rightarrow> email_params
     \<Rightarrow> (tool_error + string) \<times> 's option" where
  "sendEmail send s v ps =
     (let host = or_text_env (sm_host s) (ev_host v);
          sender = (case em_from ps of Some f \<Rightarrow> f | None \<Rightarrow> or_text_env (sm_from s) (ev_from v))
      in if host = []
         then (Inl (tool_error ''missing-config''
                ''send_email: no SMTP host configured - set the SMTP_HOST environment variable.''), None)
         else if sender = []
         then (Inl (tool_error ''missing-config''
                (''send_email: no sender address configured - ''
                 @ ''set the SMTP_FROM environment variable or provide a from parameter.'')), None)
         else (case send (mail_envelope host sender s v ps) of
                 (Inl message, st) \<Rightarrow> (Inl (mail_error message), Some st)
               | (Inr messageId, st) \<Rightarrow> (Inr messageId, Some st)))"

end
