(* ===== verification/MailToolProps.thy ===== *)
theory MailToolProps
  imports MailTool
begin

text \<open>
  The text of a mail: no body can end it early, since every dot behind a line break is doubled, and a receiver
  that takes the doubled dots away reads the body again. But the text is never ended at all: the last dot has no
  line break behind it, and a server that waits for the end of the mail waits for ever.
\<close>

section \<open>Dots behind line breaks\<close>

text \<open>Every dot behind a line feed has another dot, or nothing, behind it.\<close>

fun dots_ok :: "bool \<Rightarrow> string \<Rightarrow> bool" where
  "dots_ok fed [] = True"
| "dots_ok fed (c # cs) = ((fed \<and> c = CHR ''.'' \<longrightarrow> cs = [] \<or> hd cs = CHR ''.'') \<and> dots_ok (c = CHR 0x0A) cs)"

definition END_OF_DATA :: string where
  "END_OF_DATA = CRLF @ ''.'' @ CRLF"

lemma dots_ok_behind: "dots_ok fed (u @ c # t) \<Longrightarrow> dots_ok (c = CHR 0x0A) t"
  by (induction u arbitrary: fed) auto

lemma dots_ok_end: "dots_ok fed s \<Longrightarrow> \<not> js_includes s END_OF_DATA"
proof
  assume ok: "dots_ok fed s" and "js_includes s END_OF_DATA"
  then obtain u v where "s = u @ END_OF_DATA @ v" by (auto simp: js_includes_iff)
  then have "s = (u @ [CHR 0x0D]) @ CHR 0x0A # ''.'' @ CRLF @ v" by (simp add: END_OF_DATA_def CRLF_def)
  with ok have "dots_ok True (''.'' @ CRLF @ v)"
    using dots_ok_behind [of fed "u @ [CHR 0x0D]" "CHR 0x0A" "''.'' @ CRLF @ v"] by simp
  then show False by (simp add: CRLF_def)
qed

lemma dots_ok_line: "CHR 0x0A \<notin> set s \<Longrightarrow> dots_ok False (s @ t) = dots_ok False t"
  by (induction s) auto

lemma dots_ok_break: "dots_ok fed (CRLF @ t) = dots_ok True t"
  by (simp add: CRLF_def)

lemma dots_ok_weaken: "dots_ok True t \<Longrightarrow> dots_ok fed t"
  by (cases t) auto

lemma dots_ok_stuffed:
  "(fed \<longrightarrow> at_start) \<Longrightarrow> dots_ok fed (dot_stuff at_start s @ CRLF @ t) = dots_ok True t"
proof (induction at_start s arbitrary: fed rule: dot_stuff.induct)
  case (2 at_start c cs)
  show ?case
  proof (cases "c = CHR ''.''")
    case True
    with 2(1) [of False] have "dots_ok False (dot_stuff False cs @ CRLF @ t) = dots_ok True t" by simp
    with True 2(2) show ?thesis by (cases at_start) simp_all
  next
    case False
    with 2(1) [of "c = CHR 0x0A"] show ?thesis by simp
  qed
qed (simp add: CRLF_def)

text \<open>Lines that hold no line feed and begin with another character than a dot.\<close>

definition header_line :: "string \<Rightarrow> bool" where
  "header_line s \<longleftrightarrow> s \<noteq> '''' \<and> hd s \<noteq> CHR ''.'' \<and> CHR 0x0A \<notin> set s"

lemma dots_ok_header: "header_line s \<Longrightarrow> dots_ok True (s @ CRLF @ t) = dots_ok True t"
  by (cases s) (auto simp: header_line_def dots_ok_line dots_ok_break)

lemma dots_ok_headers:
  "list_all header_line ls \<Longrightarrow> ts \<noteq> [] \<Longrightarrow> dots_ok True (join CRLF (ls @ ts)) = dots_ok True (join CRLF ts)"
proof (induction ls)
  case (Cons l ls)
  then obtain u us where "ls @ ts = u # us" by (cases "ls @ ts") auto
  with Cons show ?case by (simp add: dots_ok_header)
qed simp

section \<open>The text of a mail\<close>

text \<open>The parts of the header that come from outside hold no line feed.\<close>

definition clean_fields :: "smtp_envelope \<Rightarrow> string \<Rightarrow> bool" where
  "clean_fields e messageId \<longleftrightarrow>
     list_all (\<lambda>s. CHR 0x0A \<notin> set s) (messageId # sv_from e # sv_subject e # sv_to e @ sv_cc e)"

lemma join_no_feed: "CHR 0x0A \<notin> set sep \<Longrightarrow> list_all (\<lambda>s. CHR 0x0A \<notin> set s) ss \<Longrightarrow> CHR 0x0A \<notin> set (join sep ss)"
  by (induction sep ss rule: join.induct) auto

lemma header_lines_clean: "clean_fields e messageId \<Longrightarrow> list_all header_line (header_lines e messageId)"
  using join_no_feed [of "'', ''" "sv_to e"] join_no_feed [of "'', ''" "sv_cc e"]
  by (auto simp: clean_fields_def header_lines_def header_line_def)

lemma mail_dots_ok: "clean_fields e messageId \<Longrightarrow> dots_ok True (buildMimeMessage e messageId)"
proof -
  assume clean: "clean_fields e messageId"
  have "dots_ok True (join CRLF ['''', dot_stuff True (sv_body e), '''', ''.''])"
    by (simp add: dots_ok_break dots_ok_stuffed)
  with dots_ok_headers [OF header_lines_clean [OF clean], of "['''', dot_stuff True (sv_body e), '''', ''.'']"]
  show ?thesis by (simp add: buildMimeMessage_def)
qed

text \<open>
  Whatever its body is, the text written for a mail does not hold the end of mail of RFC 5321 (a dot alone on
  a line), provided the fields of the header hold no line feed: no body can end the mail early and be read as
  commands by the server.
\<close>

theorem mail_body_no_end:
  assumes "clean_fields e messageId"
  shows "\<not> js_includes (buildMimeMessage e messageId) END_OF_DATA"
  by (rule dots_ok_end) (rule mail_dots_ok [OF assms])

definition test_mail :: smtp_envelope where
  "test_mail = \<lparr>sv_host = ''h'', sv_port = Some 25, sv_secure = False, sv_user = None, sv_pass = None, sv_from = ''a@b'',
     sv_to = [''c@d''], sv_cc = [], sv_subject = ''s'', sv_body = [CHR 0x0D, CHR 0x0A, CHR ''.'', CHR 0x0D, CHR 0x0A],
     sv_html = False\<rparr>"

theorem mail_body_no_end_witness: "\<not> js_includes (buildMimeMessage test_mail ''<1>'') END_OF_DATA"
  using mail_body_no_end [of test_mail "''<1>''"] by (simp add: clean_fields_def test_mail_def)

text \<open>A subject with line breaks can end it, and what follows is a command.\<close>

lemma subject_can_end:
  "js_includes (buildMimeMessage (test_mail\<lparr>sv_subject := END_OF_DATA @ ''QUIT''\<rparr>) ''<1>'') (END_OF_DATA @ ''QUIT'')"
  by code_simp

section \<open>What a receiver reads\<close>

text \<open>A receiver takes the first dot of a line away.\<close>

fun unstuff :: "bool \<Rightarrow> string \<Rightarrow> string" where
  "unstuff fed [] = []"
| "unstuff fed (c # cs) = (if fed \<and> c = CHR ''.'' then unstuff False cs else c # unstuff (c = CHR 0x0A) cs)"

text \<open>Line breaks are CR LF, and both stand in line breaks only.\<close>

fun crlf_only :: "string \<Rightarrow> bool" where
  "crlf_only [] = True"
| "crlf_only (c # cs) =
     (if c = CHR 0x0D then (case cs of d # ds \<Rightarrow> d = CHR 0x0A \<and> crlf_only ds | [] \<Rightarrow> False)
      else c \<noteq> CHR 0x0A \<and> crlf_only cs)"

lemma unstuff_stuff: "crlf_only s \<Longrightarrow> unstuff b (dot_stuff b s) = s"
proof (induction s arbitrary: b rule: crlf_only.induct)
  case (2 c cs)
  show ?case
  proof (cases "c = CHR 0x0D")
    case True
    with 2 obtain ds where "cs = CHR 0x0A # ds" "crlf_only ds" by (auto split: list.splits)
    with True 2 show ?thesis by simp
  next
    case False
    with 2 have "unstuff False (dot_stuff False cs) = cs" "c \<noteq> CHR 0x0A" by auto
    with False show ?thesis by simp
  qed
qed simp

section \<open>No mail is delivered\<close>

text \<open>
  A server of RFC 5321 is silent on a text written after DATA until the end of mail has come: it sends no final
  line of a reply.
\<close>

definition silent_until_end :: "smtp_world \<Rightarrow> bool" where
  "silent_until_end x \<longleftrightarrow> (\<forall>h m. js_includes m END_OF_DATA
     \<or> sx_server x (h @ [Wrote (''DATA'' @ CRLF), Wrote m]) = Chunks [])"

lemma exchanges_snoc:
  "ls \<noteq> [] \<Longrightarrow> exchanges x (ls @ [(m, c)]) h =
     (case exchanges x ls h of
        (Inl e, h') \<Rightarrow> (Inl e, h')
      | (Inr _, h') \<Rightarrow> exchanges x [(m, c)] h')"
  by (induction x ls h rule: exchanges.induct) (auto simp: Let_def split: sum.split)

lemma exchanges_history:
  "exchanges x ls h = (Inr b, h') \<Longrightarrow> h' = h @ map (Wrote \<circ> fst) ls"
  by (induction x ls h rule: exchanges.induct) (auto simp: Let_def split: sum.splits if_splits)

lemma mail_lines_last: "\<exists>ls. mail_lines e = ls @ [(''DATA'' @ CRLF, 354)]"
  by (simp add: mail_lines_def)

text \<open>
  C16. send_email never delivers a mail over its own transport to a server that keeps silent until the mail has
  ended, when the sender, the addresses, the subject and the generated id hold no line feed: the text that is
  written then never ends the mail, and the invocation fails, whatever the body and the settings are. (The tool
  does not check the fields; a subject with line feeds can end the mail: \<open>subject_can_end\<close>.)
\<close>

theorem mail_never_delivered:
  assumes "silent_until_end x"
    and "clean_fields (mail_envelope host sender s v ps) (generateMessageId ts rand host)"
    and "host = or_text_env (sm_host s) (ev_host v)"
    and "sender = (case em_from ps of Some f \<Rightarrow> f | None \<Rightarrow> or_text_env (sm_from s) (ev_from v))"
  shows "\<exists>err. fst (sendEmail (defaultSmtpSend x ts rand) s v ps) = Inl err"
proof -
  let ?e = "mail_envelope host sender s v ps" and ?id = "generateMessageId ts rand host"
  let ?m = "buildMimeMessage ?e ?id"
  have never: "fst (exchanges x (auth_lines ?e @ mail_lines ?e @ [(?m, 250)]) h) \<noteq> Inr b" for h b
  proof
    assume "fst (exchanges x (auth_lines ?e @ mail_lines ?e @ [(?m, 250)]) h) = Inr b"
    then obtain b' h' where all_but: "exchanges x (auth_lines ?e @ mail_lines ?e) h = (Inr b', h')"
      and sent: "fst (exchanges x [(?m, 250)] h') = Inr b"
      using exchanges_snoc [of "auth_lines ?e @ mail_lines ?e" x ?m 250 h]
      by (auto simp: mail_lines_def split: prod.splits sum.splits)
    obtain ls where "mail_lines ?e = ls @ [(''DATA'' @ CRLF, 354)]" using mail_lines_last by blast
    with exchanges_history [OF all_but] obtain g where "h' = g @ [Wrote (''DATA'' @ CRLF)]" by (simp add: comp_def)
    moreover have "\<not> js_includes ?m END_OF_DATA" by (rule dots_ok_end [OF mail_dots_ok [OF assms(2)]])
    ultimately have "sx_server x (h' @ [Wrote ?m]) = Chunks []" using assms(1) by (auto simp: silent_until_end_def)
    with sent show False by (simp add: waitForSmtpResponse_def Let_def)
  qed
  have id: "sv_host ?e = host" by (simp add: mail_envelope_def)
  have "\<exists>err. fst (defaultSmtpSend x ts rand ?e) = Inl err"
    using never unfolding defaultSmtpSend_def Let_def id
    by (cases "smtp_open x ?e"; cases "fst (smtp_open x ?e)") (auto split: prod.split sum.split, metis fst_conv)
  then show ?thesis
    using assms(3,4) by (auto simp: sendEmail_def Let_def split: prod.split)
qed

definition plain_server :: "smtp_event list \<Rightarrow> smtp_answer" where
  "plain_server h =
     (case rev h of
        [] \<Rightarrow> Chunks [''220 h'' @ CRLF]
      | Wrote m # before \<Rightarrow>
          if before \<noteq> [] \<and> hd before = Wrote (''DATA'' @ CRLF)
          then (if js_includes m END_OF_DATA then Chunks [''250 ok'' @ CRLF] else Chunks [])
          else if m = ''DATA'' @ CRLF then Chunks [''354 go'' @ CRLF] else Chunks [''250 ok'' @ CRLF]
      | Upgraded # _ \<Rightarrow> Chunks [])"

definition plain_world :: smtp_world where
  "plain_world = \<lparr>sx_connect = None, sx_tls = None, sx_server = plain_server, sx_hostname = ''c''\<rparr>"

definition plain_params :: email_params where
  "plain_params = \<lparr>em_to = ''c@d'', em_subject = ''s'', em_body = ''x'', em_from = Some ''a@b'', em_cc = None\<rparr>"

definition host_only :: smtp_settings where
  "host_only = \<lparr>sm_host = Some ''h'', sm_port = None, sm_user = None, sm_pass = None, sm_from = None, sm_secure = None\<rparr>"

definition bare_env :: smtp_env where
  "bare_env = \<lparr>ev_host = None, ev_port = None, ev_user = None, ev_pass = None, ev_from = None, ev_secure = None\<rparr>"

theorem mail_never_delivered_witness:
  "\<exists>err. fst (sendEmail (defaultSmtpSend plain_world 0 ''r'') host_only bare_env plain_params) = Inl err"
proof (rule mail_never_delivered)
  show "silent_until_end plain_world" by (simp add: silent_until_end_def plain_world_def plain_server_def)
  show "clean_fields (mail_envelope ''h'' ''a@b'' host_only bare_env plain_params) (generateMessageId 0 ''r'' ''h'')" by code_simp
qed (simp_all add: or_text_env_def or_env_def host_only_def plain_params_def)

text \<open>With the line break that is missing the same server takes the mail.\<close>

lemma ended_mail_taken:
  "let e = mail_envelope ''h'' ''a@b'' host_only bare_env plain_params
   in fst (exchanges plain_world (mail_lines e @ [(buildMimeMessage e ''<1>'' @ CRLF, 250)]) []) = Inr (''250 ok'' @ CRLF)"
  by code_simp

lemma mail_times_out:
  "fst (sendEmail (defaultSmtpSend plain_world 0 ''r'') host_only bare_env plain_params)
     = Inl (tool_error ''timeout'' ''send_email: SMTP exchange timed out: SMTP timeout waiting for 250'')"
  by code_simp

text \<open>Without an offer of STARTTLS the user and the password are sent in the clear.\<close>

lemma password_in_clear:
  "let s = host_only\<lparr>sm_user := Some ''u'', sm_pass := Some ''p''\<rparr>;
       x = plain_world\<lparr>sx_server := \<lambda>h.
             if h \<noteq> [] \<and> last h \<in> {Wrote (''AUTH LOGIN'' @ CRLF), Wrote (btoa ''u'' @ CRLF)}
             then Chunks [''334 '' @ CRLF] else if h \<noteq> [] \<and> last h = Wrote (btoa ''p'' @ CRLF) then Chunks [''235 '' @ CRLF]
             else plain_server h\<rparr>
   in case snd (sendEmail (defaultSmtpSend x 0 ''r'') s bare_env plain_params) of
        None \<Rightarrow> False
      | Some h \<Rightarrow> Upgraded \<notin> set h \<and> Wrote (btoa ''p'' @ CRLF) \<in> set h"
  by code_simp

end
