(* ===== verification/Explain.thy ===== *)
theory Explain
  imports JsRegex
begin

text \<open>
  How the program explains a command line to the operator (\<open>enforcement/command-explainer/patterns.ts\<close>):
  the tokeniser, the helpers the detectors share, and the detectors for development tools. A detector takes
  the words behind the name of the program and gives a summary, the effects and the warnings.
  Strings are of Latin-1 code units: where the messages of the code have a long dash, a curved apostrophe or
  an ellipsis, which lie outside, the model writes a hyphen, a straight apostrophe and three full stops.
\<close>

section \<open>Explanations and tokens\<close>

record explain_result =
  ex_summary :: string
  ex_effects :: "string list"
  ex_warnings :: "string list"

definition explained :: "string \<Rightarrow> string list \<Rightarrow> string list \<Rightarrow> explain_result" where
  "explained s es ws = \<lparr>ex_summary = s, ex_effects = es, ex_warnings = ws\<rparr>"

text \<open>The loop of \<open>tokenize\<close>: the characters left, the token read so far, and the two flags of open quotes.\<close>

fun split_words_from :: "string \<Rightarrow> string \<Rightarrow> bool \<Rightarrow> bool \<Rightarrow> string list" where
  "split_words_from [] current inDouble inSingle = (if current \<noteq> [] then [current] else [])"
| "split_words_from (ch # rest) current inDouble inSingle =
     (if ch = CHR 0x22 \<and> \<not> inSingle then split_words_from rest current (\<not> inDouble) inSingle
      else if ch = CHR 0x27 \<and> \<not> inDouble then split_words_from rest current inDouble (\<not> inSingle)
      else if ch = CHR '' '' \<and> \<not> inDouble \<and> \<not> inSingle
      then (if current \<noteq> [] then current # split_words_from rest [] inDouble inSingle
            else split_words_from rest current inDouble inSingle)
      else split_words_from rest (current @ [ch]) inDouble inSingle)"

definition split_words :: "string \<Rightarrow> string list" where
  "split_words command = split_words_from command [] False False"

definition positionalArgs :: "string list \<Rightarrow> string list" where
  "positionalArgs ts = filter (\<lambda>t. \<not> starts_with t ''-'') ts"

section \<open>The JavaScript the detectors use\<close>

text \<open>\<open>args[i]\<close>, \<open>x ?? y\<close>, the truth of a string that may be missing, and \<open>'${s}'\<close>.\<close>

definition arg :: "nat \<Rightarrow> string list \<Rightarrow> string option" where
  "arg i args = (if i < length args then Some (args ! i) else None)"

definition fallback :: "'a option \<Rightarrow> 'a \<Rightarrow> 'a" where
  "fallback x y = (case x of Some v \<Rightarrow> v | None \<Rightarrow> y)"

definition nonempty_word :: "string option \<Rightarrow> bool" where
  "nonempty_word x = (case x of Some s \<Rightarrow> s \<noteq> '''' | None \<Rightarrow> False)"

definition single_quoted :: "string \<Rightarrow> string" where
  "single_quoted s = [CHR 0x27] @ s @ [CHR 0x27]"

text \<open>\<open>args.some(a => names.includes(a))\<close>, \<open>findIndex\<close>, the word behind the first that satisfies a test.\<close>

definition has_any :: "string list \<Rightarrow> string list \<Rightarrow> bool" where
  "has_any names args = list_ex (\<lambda>a. a \<in> set names) args"

fun find_idx :: "('a \<Rightarrow> bool) \<Rightarrow> 'a list \<Rightarrow> nat option" where
  "find_idx P [] = None"
| "find_idx P (x # xs) = (if P x then Some 0 else map_option Suc (find_idx P xs))"

definition after_flag :: "string list \<Rightarrow> string list \<Rightarrow> string option" where
  "after_flag names args =
     (case find_idx (\<lambda>a. a \<in> set names) args of Some i \<Rightarrow> arg (Suc i) args | None \<Rightarrow> None)"

definition filter_i :: "(nat \<Rightarrow> 'a \<Rightarrow> bool) \<Rightarrow> 'a list \<Rightarrow> 'a list" where
  "filter_i P xs = map snd (filter (\<lambda>(i, x). P i x) (enumerate 0 xs))"

text \<open>\<open>paths.length > 0 ? paths.join(', ') : none\<close>.\<close>

definition listed :: "string list \<Rightarrow> string \<Rightarrow> string" where
  "listed paths none = (if paths \<noteq> [] then join '', '' paths else none)"

text \<open>The bundles of single letters, \<open>/^-[a-zA-Z]+$/\<close>.\<close>

definition ascii_letter :: "char \<Rightarrow> bool" where
  "ascii_letter c \<longleftrightarrow> is_upper c \<or> is_lower c"

definition FLAG_BUNDLE :: rx where
  "FLAG_BUNDLE = rx_seq [RBol, rx_chr (CHR ''-''), rx_plus (RClass ascii_letter), REol]"

definition NEGATIVE_NUMBER :: rx where
  "NEGATIVE_NUMBER = rx_seq [RBol, rx_chr (CHR ''-''), rx_plus (RClass is_digit), REol]"

section \<open>git\<close>

definition gitCommit_ex :: "string list \<Rightarrow> explain_result" where
  "gitCommit_ex args =
     (let flags = drop 1 args
      in explained ''Commits staged changes to the local repository'' [''Writes to .git'']
           (if has_any [''--amend''] flags then [''--amend rewrites history - avoid on shared branches''] else []))"

definition gitPush_ex :: "string list \<Rightarrow> explain_result" where
  "gitPush_ex args =
     (let rest = drop 1 args;
          warnings = (if has_any [''--force'', ''-f''] rest then [''Force push rewrites remote history''] else []);
          pos = positionalArgs rest;
          remote = arg 0 pos;
          branch = arg 1 pos;
          summary =
            (if nonempty_word remote \<and> nonempty_word branch
             then (''Pushes local commits to '' @ (fallback remote '''') @ ''/'' @ (fallback branch ''''))
             else if nonempty_word remote then (''Pushes local commits to '' @ (fallback remote ''''))
             else ''Pushes local commits to the remote repository'')
      in explained summary [''Modifies remote branch''] warnings)"

definition gitPull_ex :: "string list \<Rightarrow> explain_result" where
  "gitPull_ex args =
     (let rest = drop 1 args;
          pos = positionalArgs rest;
          remote = arg 0 pos;
          branch = arg 1 pos;
          summary =
            (if nonempty_word remote \<and> nonempty_word branch
             then (''Fetches and merges changes from '' @ (fallback remote '''') @ ''/'' @ (fallback branch ''''))
             else if nonempty_word remote then (''Fetches and merges changes from '' @ (fallback remote ''''))
             else ''Fetches and merges changes from the remote repository'')
      in explained summary [''Modifies local branch''] [])"

definition gitClone_ex :: "string list \<Rightarrow> explain_result" where
  "gitClone_ex args =
     (let url = fallback (arg 0 (positionalArgs (drop 1 args))) ''<url>''
      in explained (''Clones repository '' @ url @ '' to a local directory'') [''Creates a new directory''] [])"

definition gitReset_ex :: "string list \<Rightarrow> explain_result" where
  "gitReset_ex args =
     (let flags = drop 1 args
      in explained ''Resets the current HEAD to the specified state'' [''Modifies repository state'']
           (if has_any [''--hard''] flags then [''--hard discards all local uncommitted changes''] else []))"

definition gitMerge_ex :: "string list \<Rightarrow> explain_result" where
  "gitMerge_ex args =
     (let branch = fallback (arg 0 (positionalArgs (drop 1 args))) ''<branch>''
      in explained (''Merges '' @ branch @ '' into the current branch'') [''Modifies current branch''] [])"

definition gitExplain :: "string list \<Rightarrow> explain_result" where
  "gitExplain args =
     (let sub = arg 0 args in
      if sub = Some ''commit'' then gitCommit_ex args
      else if sub = Some ''push'' then gitPush_ex args
      else if sub = Some ''pull'' then gitPull_ex args
      else if sub = Some ''clone'' then gitClone_ex args
      else if sub = Some ''status'' then explained ''Shows the working tree status'' [] []
      else if sub = Some ''diff''
      then explained ''Shows changes between commits, branches, or the working tree'' [] []
      else if sub = Some ''log'' then explained ''Shows the commit log'' [] []
      else if sub = Some ''merge'' then gitMerge_ex args
      else if sub = Some ''reset'' then gitReset_ex args
      else if sub = Some ''checkout''
      then explained ''Switches branches or restores working tree files'' [''Modifies working tree''] []
      else if sub = Some ''add''
      then explained ''Stages changes for the next commit'' [''Modifies staging area''] []
      else if sub = Some ''stash''
      then explained ''Stashes local modifications away'' [''Writes to .git/refs/stash''] []
      else explained (js_trim (''Runs git '' @ (fallback sub ''''))) [] [])"

section \<open>npm, pip, pytest\<close>

definition npmInstall_ex :: "string list \<Rightarrow> explain_result" where
  "npmInstall_ex args =
     (let pkgs = positionalArgs (drop 1 args)
      in explained
           (if pkgs \<noteq> [] then (''Installs node packages: '' @ (join '', '' pkgs)) else ''Installs node dependencies'')
           [''Modifies node_modules'', ''Modifies package-lock.json''] [])"

definition npmRun_ex :: "string list \<Rightarrow> explain_result" where
  "npmRun_ex args =
     (let script = fallback (arg 0 (positionalArgs (drop 1 args))) ''<script>''
      in explained (''Runs the '' @ script @ '' npm script'') []
           [''Executes arbitrary shell commands defined in package.json''])"

definition npmExplain :: "string list \<Rightarrow> explain_result" where
  "npmExplain args =
     (let sub = arg 0 args in
      if sub \<in> {Some ''install'', Some ''i''} then npmInstall_ex args
      else if sub \<in> {Some ''run'', Some ''run-script''} then npmRun_ex args
      else if sub = Some ''publish''
      then explained ''Publishes the package to the npm registry'' [''Creates a remote package entry'']
             [''Publishes package to npm - version cannot be unpublished'']
      else if sub \<in> {Some ''uninstall'', Some ''rm'', Some ''remove''}
      then explained ''Uninstalls node packages'' [''Modifies node_modules'', ''Modifies package-lock.json''] []
      else if sub = Some ''ci''
      then explained ''Installs a clean dependency tree from package-lock.json'' [''Replaces node_modules''] []
      else if sub = Some ''audit''
      then explained ''Audits installed packages for known vulnerabilities'' [] []
      else explained (js_trim (''Runs npm '' @ (fallback sub ''''))) [] [])"

definition pipInstall_ex :: "string list \<Rightarrow> explain_result" where
  "pipInstall_ex args =
     (let rest = drop 1 args;
          pos = positionalArgs rest;
          effects = [''Installs packages into the Python environment'']
      in case find_idx (\<lambda>t. t = ''-r'' \<or> t = ''--requirement'') rest of
           Some reqIdx \<Rightarrow>
             (let reqFile = fallback (arg (Suc reqIdx) rest) ''<file>''
              in explained (''Installs Python packages from '' @ reqFile) effects [])
         | None \<Rightarrow>
             explained (if pos \<noteq> [] then (''Installs Python packages: '' @ (join '', '' pos))
                        else ''Installs Python packages'') effects [])"

definition pytestExplain :: "string list \<Rightarrow> explain_result" where
  "pytestExplain args =
     (let pos = positionalArgs args
      in explained (if pos \<noteq> [] then (''Runs tests in '' @ (join '', '' pos)) else ''Runs the test suite'') [] [])"

section \<open>docker\<close>

text \<open>\<open>hasRootVolumeMount\<close>: the loop over the words, each with the one behind it.\<close>

fun hasRootVolumeMount :: "string list \<Rightarrow> bool" where
  "hasRootVolumeMount [] = False"
| "hasRootVolumeMount (tok # rest) =
     (let mountSpec =
            (if (tok = ''-v'' \<or> tok = ''--volume'') \<and> rest \<noteq> [] then Some (hd rest)
             else if starts_with tok ''--volume='' then Some (drop (length ''--volume='') tok)
             else None)
      in (case mountSpec of Some s \<Rightarrow> starts_with s ''/:'' | None \<Rightarrow> False) \<or> hasRootVolumeMount rest)"

definition dockerRunExplain :: "string list \<Rightarrow> explain_result" where
  "dockerRunExplain args =
     (let rest = drop 1 args;
          image = fallback (arg 0 (positionalArgs rest)) ''<image>''
      in explained (''Runs a container from image '' @ image) [''Starts a container process'']
           ((if hasRootVolumeMount rest
             then [''Mounts host root filesystem into the container (full disk access)''] else [])
            @ (if has_any [''--privileged''] rest
               then [''Grants extended kernel capabilities to the container (privileged mode)''] else [])))"

definition dockerBuildExplain :: "string list \<Rightarrow> explain_result" where
  "dockerBuildExplain args =
     (let ctx = fallback (arg 0 (positionalArgs (drop 1 args))) ''.''
      in explained (''Builds a Docker image from context '' @ ctx)
           [''Writes image layers to the local Docker daemon''] [])"

fun inline_shell :: "string list \<Rightarrow> bool" where
  "inline_shell (tok # nxt # rest) =
     ((tok = ''bash'' \<or> tok = ''sh'') \<and> nxt = ''-c'' \<or> inline_shell (nxt # rest))"
| "inline_shell _ = False"

definition dockerExecExplain :: "string list \<Rightarrow> explain_result" where
  "dockerExecExplain args =
     (let rest = drop 1 args;
          container = fallback (arg 0 (positionalArgs rest)) ''<container>''
      in explained (''Executes a command in container '' @ container)
           (''Runs a process inside a running container''
            # (if inline_shell rest then [''Executes an inline shell script inside the container''] else []))
           [''Provides direct access to a running container environment''])"

definition dockerPushExplain :: "string list \<Rightarrow> explain_result" where
  "dockerPushExplain args =
     (let image = fallback (arg 0 (positionalArgs (drop 1 args))) ''<image>'';
          allTags = has_any [''-a'', ''--all-tags''] args
      in explained
           (if allTags then (''Pushes every tag of '' @ image @ '' to the registry'') else (''Pushes '' @ image @ '' to the registry''))
           [''Uploads a container image to a remote registry'']
           (''Image upload - secrets baked into the image (env vars, credentials, source code) become visible to anyone with registry read access''
            # (if allTags then [''--all-tags pushes every tag of the named repository''] else [])))"

definition dockerPsExplain :: "string list \<Rightarrow> explain_result" where
  "dockerPsExplain args =
     explained
       (if has_any [''-a'', ''--all''] args then ''Lists every container (running and stopped)''
        else ''Lists running containers'')
       [''Reads the local container engine state''] []"

definition dockerExplain :: "string list \<Rightarrow> explain_result" where
  "dockerExplain args =
     (let sub = arg 0 args in
      if sub = Some ''run'' then dockerRunExplain args
      else if sub = Some ''build'' then dockerBuildExplain args
      else if sub = Some ''exec'' then dockerExecExplain args
      else if sub = Some ''push'' then dockerPushExplain args
      else if sub = Some ''ps'' then dockerPsExplain args
      else explained (js_trim (''Runs docker '' @ (fallback sub ''''))) [] [])"

section \<open>make, cargo, go, eslint, prettier\<close>

definition makeExplain :: "string list \<Rightarrow> explain_result" where
  "makeExplain args =
     (let target = arg 0 (positionalArgs args)
      in explained
           (if nonempty_word target then (''Runs the '' @ single_quoted (fallback target '''') @ '' make target'')
            else ''Runs the default make target'')
           [''Executes commands defined in the Makefile''] [])"

definition cargoBuild :: "string list \<Rightarrow> explain_result" where
  "cargoBuild args =
     (let rest = drop 1 args
      in explained
           (if has_any [''--workspace'', ''--all''] rest then ''Compiles all Rust workspace members''
            else ''Compiles the Rust project'')
           [''Writes compiled artifacts to target/''] [])"

definition cargoTest :: "string list \<Rightarrow> explain_result" where
  "cargoTest args =
     (let flt = arg 0 (positionalArgs (drop 1 args))
      in explained
           (if nonempty_word flt then (''Compiles and runs Rust tests matching '' @ single_quoted (fallback flt ''''))
            else ''Compiles and runs the Rust test suite'')
           [''Writes test artifacts to target/''] [])"

definition cargoExplain :: "string list \<Rightarrow> explain_result" where
  "cargoExplain args =
     (let sub = arg 0 args in
      if sub = Some ''build'' then cargoBuild args
      else if sub = Some ''test'' then cargoTest args
      else explained (js_trim (''Runs cargo '' @ (fallback sub ''''))) [] [])"

definition goBuild :: "string list \<Rightarrow> explain_result" where
  "goBuild args =
     (let pkg = arg 0 (positionalArgs (drop 1 args))
      in explained
           (if nonempty_word pkg then (''Compiles Go packages in '' @ (fallback pkg ''''))
            else ''Compiles Go packages in the current module'')
           [''Writes compiled binary to the working directory''] [])"

definition goTest :: "string list \<Rightarrow> explain_result" where
  "goTest args =
     (let pkg = arg 0 (positionalArgs (drop 1 args))
      in explained
           (if nonempty_word pkg then (''Runs Go tests in '' @ (fallback pkg '''')) else ''Runs the Go test suite'') [] [])"

definition goExplain :: "string list \<Rightarrow> explain_result" where
  "goExplain args =
     (let sub = arg 0 args in
      if sub = Some ''build'' then goBuild args
      else if sub = Some ''test'' then goTest args
      else explained (js_trim (''Runs go '' @ (fallback sub ''''))) [] [])"

definition eslintExplain :: "string list \<Rightarrow> explain_result" where
  "eslintExplain args =
     (let fixMode = has_any [''--fix''] args;
          target = listed (positionalArgs args) ''the project''
      in explained
           (if fixMode then (''Lints and auto-fixes code in '' @ target) else (''Lints code in '' @ target))
           (if fixMode then [''Modifies source files in place''] else []) [])"

definition prettierExplain :: "string list \<Rightarrow> explain_result" where
  "prettierExplain args =
     (let writeMode = has_any [''--write''] args;
          checkMode = has_any [''--check''] args;
          target = listed (positionalArgs args) ''the project'';
          summary =
            (if writeMode then (''Formats source files in '' @ target)
             else if checkMode then (''Checks formatting of files in '' @ target)
             else (''Runs Prettier on '' @ target))
      in explained summary (if writeMode then [''Modifies source files in place''] else []) [])"

end
