(* ===== verification/ExplainSystem.thy ===== *)
theory ExplainSystem
  imports Explain
begin

text \<open>
  The detectors for commands that change the system (\<open>enforcement/command-explainer/patterns.ts\<close>): removal,
  copies and permissions of files, elevation of privilege, signals, diagnosis of the network and schedules.
\<close>

section \<open>Files\<close>

definition rm_recursive_arg :: "string \<Rightarrow> bool" where
  "rm_recursive_arg t \<longleftrightarrow>
     t = ''-r'' \<or> t = ''-R'' \<or> t = ''--recursive''
     \<or> rx_test FLAG_BUNDLE t \<and> (js_includes t ''r'' \<or> js_includes t ''R'')"

definition rm_force_arg :: "string \<Rightarrow> bool" where
  "rm_force_arg t \<longleftrightarrow> t = ''-f'' \<or> t = ''--force'' \<or> rx_test FLAG_BUNDLE t \<and> js_includes t ''f''"

definition rmExplain :: "string list \<Rightarrow> explain_result" where
  "rmExplain args =
     (let isRecursive = list_ex rm_recursive_arg args;
          isForce = list_ex rm_force_arg args;
          target = listed (positionalArgs args) ''files''
      in explained
           (if isRecursive then (''Recursively deletes '' @ target) else (''Deletes '' @ target))
           [''Removes files from the filesystem permanently'']
           ([''Deleted files cannot be recovered from the trash'']
            @ (if isRecursive then [''-r flag removes entire directory trees''] else [])
            @ (if isForce then [''-f flag suppresses confirmation prompts''] else [])))"

text \<open>\<open>pos.length > 1 ? pos[pos.length - 1] : none\<close>, the destination of cp, mv and scp.\<close>

definition last_of_many :: "string list \<Rightarrow> string \<Rightarrow> string" where
  "last_of_many pos none = (if length pos > 1 then pos ! (length pos - 1) else none)"

definition cpExplain :: "string list \<Rightarrow> explain_result" where
  "cpExplain args =
     (let isRecursive = has_any [''-r'', ''-R'', ''--recursive''] args;
          pos = positionalArgs args;
          src = fallback (arg 0 pos) ''<source>'';
          dst = last_of_many pos ''<destination>''
      in explained
           (if isRecursive then (''Recursively copies '' @ src @ '' to '' @ dst) else (''Copies '' @ src @ '' to '' @ dst))
           [''Creates or overwrites files at destination''] [])"

text \<open>
  \<open>isDeletionDestination\<close> of \<open>mvExplain\<close>:
  \<open>/^\/dev\/(null|zero|random|urandom)$/\<close>, \<open>/^\/tmp\/trash(\/|$)/\<close>, \<open>/^~?\/?\.Trash(\/|$)/\<close>.
\<close>

definition slash_or_end :: rx where
  "slash_or_end = RAlt (rx_chr (CHR ''/'')) REol"

definition isDeletionDestination :: "string \<Rightarrow> bool" where
  "isDeletionDestination path \<longleftrightarrow>
     rx_test (rx_seq [RBol, rx_lit ''/dev/'',
       rx_alt [rx_lit ''null'', rx_lit ''zero'', rx_lit ''random'', rx_lit ''urandom''], REol]) path
     \<or> rx_test (rx_seq [RBol, rx_lit ''/tmp/trash'', slash_or_end]) path
     \<or> rx_test (rx_seq [RBol, rx_opt (rx_chr (CHR ''~'')), rx_opt (rx_chr (CHR ''/'')), rx_lit ''.Trash'',
         slash_or_end]) path"

definition mvExplain :: "string list \<Rightarrow> explain_result" where
  "mvExplain args =
     (let pos = positionalArgs args;
          src = fallback (arg 0 pos) ''<source>'';
          dst = last_of_many pos ''<destination>''
      in if isDeletionDestination dst
         then explained (''Removes '' @ src @ '' (mv to '' @ dst @ '')'')
                [''Effectively deletes the source - destination discards content'']
                [''mv-as-deletion - operators may want to use `rm` instead so the intent is explicit in audit logs'']
         else explained (''Moves '' @ src @ '' to '' @ dst)
                [''Relocates or renames files on the filesystem'', ''May overwrite destination if it exists''] [])"

definition grepExplain :: "string list \<Rightarrow> explain_result" where
  "grepExplain args =
     (let isRecursive = has_any [''-r'', ''-R'', ''--recursive''] args;
          positional = positionalArgs args;
          pattern = fallback (arg 0 positional) ''<pattern>'';
          target = listed (drop 1 positional) (if isRecursive then ''.'' else ''stdin'')
      in explained
           (if isRecursive then (''Recursively searches for '' @ single_quoted pattern @ '' in '' @ target)
            else (''Searches for '' @ single_quoted pattern @ '' in '' @ target))
           [''Reads files and matches them against the pattern''] [])"

definition rmdirExplain :: "string list \<Rightarrow> explain_result" where
  "rmdirExplain args =
     (let target = listed (positionalArgs args) ''<directory>''
      in explained
           (if has_any [''-p'', ''--parents''] args
            then (''Removes empty directory '' @ target @ '' and its empty parent directories'')
            else (''Removes empty directory '' @ target))
           [''Removes a directory only if it contains no files''] [])"

definition unlinkExplain :: "string list \<Rightarrow> explain_result" where
  "unlinkExplain args =
     explained (''Removes the link '' @ (fallback (arg 0 (positionalArgs args)) ''<file>''))
       [''Removes a single file or symlink (does not recurse)'']
       [''Removed files cannot be recovered from the trash'']"

text \<open>\<open>hasFlag\<close> of \<open>shredExplain\<close>, where a long form is given.\<close>

definition shred_flag :: "char \<Rightarrow> string \<Rightarrow> string list \<Rightarrow> bool" where
  "shred_flag ch longForm args =
     list_ex (\<lambda>t. t = [CHR ''-'', ch] \<or> t = longForm \<or> rx_test FLAG_BUNDLE t \<and> js_includes t [ch]) args"

definition without_empty_parens :: "string \<Rightarrow> string" where
  "without_empty_parens s = rx_replace_first (rx_lit '' ()'') (\<lambda>_. '''') s"

definition shredExplain :: "string list \<Rightarrow> explain_result" where
  "shredExplain args =
     (let target = listed (positionalArgs args) ''<file>'';
          isUnlink = shred_flag (CHR ''u'') ''--remove'' args;
          isZero = shred_flag (CHR ''z'') ''--zero'' args;
          passes = (case after_flag [''-n'', ''--iterations''] args of Some n \<Rightarrow> (n @ ''-pass '') | None \<Rightarrow> '''')
      in explained
           (if isUnlink then without_empty_parens (''Overwrites and removes '' @ target @ '' ('' @ passes @ ''shred)'')
            else without_empty_parens (''Overwrites '' @ target @ '' in place ('' @ passes @ ''shred)''))
           ([''Repeatedly writes random data over the file contents to defeat recovery'']
            @ (if isUnlink then [''Removes the file after overwriting''] else [])
            @ (if isZero then [''Final pass writes zeros to hide the shred operation''] else []))
           [''shred relies on assumptions about the underlying filesystem - overwrite may not defeat recovery on COW / journaled / SSD-wear-levelled storage''])"

section \<open>Permissions and privilege\<close>

definition chmodExplain :: "string list \<Rightarrow> explain_result" where
  "chmodExplain args =
     (let pos = positionalArgs args;
          mode = fallback (arg 0 pos) ''<mode>'';
          path = fallback (arg 1 pos) ''<path>''
      in explained
           (if has_any [''-R'', ''--recursive''] args
            then (''Recursively changes permissions of '' @ path @ '' to '' @ mode)
            else (''Changes permissions of '' @ path @ '' to '' @ mode))
           [''Modifies file access permissions'']
           (if mode = ''777'' \<or> mode = ''0777''
            then [''World-writable permissions (777) are a security risk''] else []))"

definition chownExplain :: "string list \<Rightarrow> explain_result" where
  "chownExplain args =
     (let pos = positionalArgs args;
          ownerSpec = fallback (arg 0 pos) ''<owner>'';
          path = fallback (arg 1 pos) ''<path>''
      in explained
           (if has_any [''-R'', ''--recursive''] args
            then (''Recursively changes ownership of '' @ path @ '' to '' @ ownerSpec)
            else (''Changes ownership of '' @ path @ '' to '' @ ownerSpec))
           [''Modifies file ownership (user/group)'']
           ((if path = ''/'' \<or> starts_with path ''/etc'' \<or> starts_with path ''/usr''
             then [(''Modifying ownership under '' @ path @ '' can lock out system services'')] else [])
            @ (if ownerSpec = ''root'' \<or> starts_with ownerSpec ''root:''
               then [''Granting root ownership - file becomes editable only by root''] else [])))"

definition umaskExplain :: "string list \<Rightarrow> explain_result" where
  "umaskExplain args =
     (case arg 0 args of
        None \<Rightarrow> explained ''Shows the current umask'' [] []
      | Some msk \<Rightarrow>
          explained (''Sets the umask to '' @ msk) [''Changes default permission mask for new files'']
            (if msk = ''000''
             then [''umask 000 makes all newly-created files world-writable by default''] else []))"

text \<open>The loop of \<open>sudoExplain\<close> over the flags before the wrapped command.\<close>

fun sudo_flags :: "string \<Rightarrow> string list \<Rightarrow> string \<times> string list" where
  "sudo_flags targetUser [] = (targetUser, [])"
| "sudo_flags targetUser (a # rest) =
     (if \<not> starts_with a ''-'' then (targetUser, a # rest)
      else if a = ''-u'' \<or> a = ''--user''
      then (case rest of
              nxt # rest' \<Rightarrow> sudo_flags nxt rest'
            | [] \<Rightarrow> (targetUser, []))
      else sudo_flags targetUser rest)"

definition elevation_warnings :: "string \<Rightarrow> string \<Rightarrow> string list" where
  "elevation_warnings w targetUser =
     w # (if targetUser = ''root'' then [''Target user is root - full administrative access''] else [])"

definition sudoExplain :: "string list \<Rightarrow> explain_result" where
  "sudoExplain args =
     (case sudo_flags ''root'' args of (targetUser, cmd) \<Rightarrow>
      let wrappedCmd = js_trim (join '' '' cmd)
      in explained
           (if wrappedCmd \<noteq> '''' then (''Runs '' @ single_quoted wrappedCmd @ '' as '' @ targetUser)
            else (''Switches privilege to '' @ targetUser))
           [''Elevates privilege for the wrapped command'']
           (elevation_warnings ''Privilege elevation - wrapped command runs as a different user'' targetUser))"

definition suExplain :: "string list \<Rightarrow> explain_result" where
  "suExplain args =
     (let flags = filter (\<lambda>a. starts_with a ''-'' \<and> a \<noteq> ''-'') args;
          isLoginShell = (has_any [''-''] args \<or> has_any [''-l'', ''--login''] flags);
          cIdx = find_idx (\<lambda>a. a = ''-c'' \<or> a = ''--command'') args;
          wrappedCmd = (case cIdx of Some i \<Rightarrow> arg (Suc i) args | None \<Rightarrow> None);
          positional =
            filter_i (\<lambda>i a. \<not> starts_with a ''-'' \<and> a \<noteq> ''-''
              \<and> (case cIdx of Some c \<Rightarrow> i \<noteq> Suc c | None \<Rightarrow> True)) args;
          targetUser = fallback (arg 0 positional) ''root'';
          summary =
            (case wrappedCmd of
               Some w \<Rightarrow> (''Runs '' @ single_quoted w @ '' as '' @ targetUser)
             | None \<Rightarrow> if isLoginShell then (''Opens a login shell as '' @ targetUser)
                 else (''Switches user to '' @ targetUser))
      in explained summary [''Switches the current user / opens a privileged shell'']
           (elevation_warnings ''Privilege elevation - opens a shell as a different user'' targetUser))"

definition passwdExplain :: "string list \<Rightarrow> explain_result" where
  "passwdExplain args =
     (let target = arg 0 (positionalArgs args)
      in explained
           (case target of
              Some t \<Rightarrow> (''Changes the password for '' @ t)
            | None \<Rightarrow> ''Changes the current user's password'')
           [''Writes to /etc/shadow (or equivalent credential store)'']
           (''Credential change - affects authentication''
            # (if target = Some ''root'' \<or> target = None
               then [''Changing the root password - coordinate with operators before proceeding''] else [])))"

section \<open>Signals\<close>

text \<open>\<open>replace(/^SIG/i, '')\<close>, and \<open>toUpperCase\<close> on the letters of ASCII: the words it is compared with have no others.\<close>

definition strip_sig :: "string \<Rightarrow> string" where
  "strip_sig s = rx_replace_first (RSeq RBol (rx_lit_ci ''SIG'')) (\<lambda>_. '''') s"

definition UPPER_FLAG :: rx where
  "UPPER_FLAG = rx_seq [RBol, rx_chr (CHR ''-''), rx_plus (RClass is_upper), REol]"

definition to_upper :: "string \<Rightarrow> string" where
  "to_upper s = map (\<lambda>c. if is_lower c then char_of ((of_char c :: nat) - 32) else c) s"

text \<open>The loop of \<open>parseKillArgs\<close>: the signal read so far, and the words behind a double dash.\<close>

fun parse_kill :: "string option \<Rightarrow> string list \<Rightarrow> string option \<times> string list" where
  "parse_kill signal [] = (signal, [])"
| "parse_kill signal (a # rest) =
     (if a = ''--'' then (signal, rest)
      else if signal = None \<and> (a = ''-s'' \<or> a = ''--signal'') \<and> rest \<noteq> []
      then parse_kill (Some (strip_sig (hd rest))) (tl rest)
      else if signal = None \<and> starts_with a ''--signal=''
      then parse_kill (Some (strip_sig (drop (length ''--signal='') a))) rest
      else if signal = None \<and> rx_test UPPER_FLAG a
      then parse_kill (Some (strip_sig (drop 1 a))) rest
      else if signal = None \<and> rx_test NEGATIVE_NUMBER a then parse_kill (Some (drop 1 a)) rest
      else (case parse_kill signal rest of (s, targets) \<Rightarrow> (s, a # targets)))"

definition parseKillArgs :: "string list \<Rightarrow> string option \<times> string list" where
  "parseKillArgs args = parse_kill None args"

definition DESTRUCTIVE_SIGNALS :: "string list" where
  "DESTRUCTIVE_SIGNALS = [''9'', ''KILL'', ''11'', ''SEGV'']"

definition RELOAD_SIGNALS :: "string list" where
  "RELOAD_SIGNALS = [''1'', ''HUP'']"

definition killExplain :: "string list \<Rightarrow> explain_result" where
  "killExplain args =
     (if has_any [''-l'', ''-L''] args then explained ''Lists available signal names'' [] []
      else (case parseKillArgs args of (signal, targets) \<Rightarrow>
        let targetStr = listed targets ''<pid>'';
            signalLabel = fallback signal ''TERM''
        in explained (''Sends SIG'' @ signalLabel @ '' to '' @ targetStr)
             (if to_upper signalLabel \<in> set RELOAD_SIGNALS
              then [''Triggers a configuration reload (SIGHUP)'']
              else [(''Sends SIG'' @ signalLabel @ '' to the target process'')])
             ((if to_upper signalLabel \<in> set DESTRUCTIVE_SIGNALS
               then [(''SIG'' @ signalLabel @ '' cannot be caught or ignored - process exits immediately without cleanup'')]
               else [])
              @ (if has_any [''1''] targets
                 then [''Target is PID 1 (init) - killing it crashes the host''] else [])
              @ (if has_any [''-1''] targets
                 then [''Target is -1 - sends the signal to every process the caller can reach''] else []))))"

definition destructive_warning :: "string \<Rightarrow> string list" where
  "destructive_warning signalLabel =
     (if to_upper signalLabel \<in> set DESTRUCTIVE_SIGNALS
      then [(''SIG'' @ signalLabel @ '' cannot be caught or ignored - affected processes exit immediately without cleanup'')]
      else [])"

definition pkillExplain :: "string list \<Rightarrow> explain_result" where
  "pkillExplain args =
     (case parseKillArgs args of (signal, targets) \<Rightarrow>
        let pattern = (if targets \<noteq> [] then targets ! (length targets - 1) else ''<pattern>'');
            signalLabel = fallback signal ''TERM''
        in explained (''Sends SIG'' @ signalLabel @ '' to processes matching '' @ single_quoted pattern)
             [(''Sends SIG'' @ signalLabel @ '' to every process whose name matches the pattern'')]
             ([''Pattern matches by name - may target multiple processes'']
              @ destructive_warning signalLabel
              @ (if has_any [''-f'', ''--full''] args
                 then [''-f / --full matches against the full command line - broader than the process name alone'']
                 else [])))"

definition killallExplain :: "string list \<Rightarrow> explain_result" where
  "killallExplain args =
     (case parseKillArgs args of (signal, targets) \<Rightarrow>
        let name = fallback (arg 0 targets) ''<name>'';
            signalLabel = fallback signal ''TERM''
        in explained (''Sends SIG'' @ signalLabel @ '' to every process named '' @ single_quoted name)
             [(''Sends SIG'' @ signalLabel @ '' to every process matching the name'')]
             (''killall affects every running process with this name - may include unrelated instances''
              # destructive_warning signalLabel))"

section \<open>Network diagnostics\<close>

text \<open>\<open>looksInternal\<close>, with its regular expressions.\<close>

definition INTERNAL_SUFFIX :: rx where
  "INTERNAL_SUFFIX = rx_seq [rx_chr (CHR ''.''),
     rx_alt [rx_lit_ci ''internal'', rx_lit_ci ''local'', rx_lit_ci ''corp'', rx_lit_ci ''lan'', rx_lit_ci ''intranet'',
       rx_lit_ci ''home'', rx_lit_ci ''test'', rx_lit_ci ''localdomain''], REol]"

definition PRIVATE_172 :: rx where
  "PRIVATE_172 = rx_seq [RBol, rx_lit ''172.'',
     rx_alt [RSeq (rx_chr (CHR ''1'')) (RClass (cls ''6789'')), RSeq (rx_chr (CHR ''2'')) (RClass is_digit),
       RSeq (rx_chr (CHR ''3'')) (RClass (cls ''01''))], rx_chr (CHR ''.'')]"

definition looksInternal :: "string \<Rightarrow> bool" where
  "looksInternal host \<longleftrightarrow>
     host \<noteq> ''''
     \<and> (rx_test INTERNAL_SUFFIX host
        \<or> starts_with host ''10.'' \<or> starts_with host ''192.168.'' \<or> rx_test PRIVATE_172 host
        \<or> starts_with host ''169.254.''
        \<or> \<not> js_includes host ''.'')"

definition last_or :: "string list \<Rightarrow> string \<Rightarrow> string" where
  "last_or xs none = (if xs \<noteq> [] then xs ! (length xs - 1) else none)"

definition pingExplain :: "string list \<Rightarrow> explain_result" where
  "pingExplain args =
     (let host = last_or (positionalArgs args) ''<host>''
      in explained
           (case after_flag [''-c''] args of
              Some count \<Rightarrow> (''Sends '' @ count @ '' ICMP echo packets to '' @ host)
            | None \<Rightarrow> (''Sends ICMP echo packets to '' @ host))
           [''Sends ICMP echo requests over the network''] [])"

definition tracerouteExplain :: "string list \<Rightarrow> explain_result" where
  "tracerouteExplain args =
     (let host = last_or (positionalArgs args) ''<host>''
      in explained (''Traces the network path to '' @ host)
           [''Probes successive hops via TTL-incremented packets''] [])"

text \<open>
  \<open>dnsLookupExplain\<close>: the resolver is the last word that begins with an at sign, the others are the query;
  nslookup takes its second word for the resolver.
\<close>

definition dns_tokens :: "string list \<Rightarrow> string list" where
  "dns_tokens args = filter (\<lambda>a. \<not> starts_with a ''-'' \<and> \<not> starts_with a ''+'') args"

definition dns_query :: "string list \<Rightarrow> string list" where
  "dns_query args = filter (\<lambda>t. \<not> starts_with t ''@'') (dns_tokens args)"

definition dns_resolver :: "bool \<Rightarrow> string list \<Rightarrow> string option" where
  "dns_resolver is_nslookup args =
     (let ats = filter (\<lambda>t. starts_with t ''@'') (dns_tokens args);
          named = (if ats \<noteq> [] then Some (drop 1 (ats ! (length ats - 1))) else None)
      in if is_nslookup \<and> named = None \<and> length (dns_query args) \<ge> 2 then arg 1 (dns_query args) else named)"

definition dnsLookupExplain :: "bool \<Rightarrow> string list \<Rightarrow> explain_result" where
  "dnsLookupExplain is_nslookup args =
     (let resolver = dns_resolver is_nslookup args;
          name = fallback (arg 0 (dns_query args)) ''<name>'';
          recordType = (if is_nslookup then None else arg 1 (dns_query args));
          against = (case resolver of Some r \<Rightarrow> ('' against '' @ r) | None \<Rightarrow> '''');
          summary =
            (if is_nslookup then (''Resolves DNS for '' @ name)
             else (case recordType of
                     Some ty \<Rightarrow> (''Resolves '' @ ty @ '' records for '' @ name)
                   | None \<Rightarrow> (''Resolves DNS records for '' @ name))) @ against
      in explained summary [''Issues a DNS query'']
           (case resolver of
              Some r \<Rightarrow>
                if \<not> looksInternal r \<and> looksInternal name
                then [(''Querying internal name '' @ single_quoted name @ '' against external resolver '' @ r @ '' - leaks infrastructure detail'')]
                else []
            | None \<Rightarrow> []))"

text \<open>\<open>/-?l/.test(flags)\<close> and the like in \<open>netstatExplain\<close>.\<close>

definition dash_letter :: "char \<Rightarrow> string \<Rightarrow> bool" where
  "dash_letter c flags = rx_test (RSeq (rx_opt (rx_chr (CHR ''-''))) (rx_chr c)) flags"

definition netstatExplain :: "string \<Rightarrow> string list \<Rightarrow> explain_result" where
  "netstatExplain binary args =
     (let flags = concat (filter (\<lambda>a. starts_with a ''-'') args);
          parts =
            (if dash_letter (CHR ''l'') flags then [''listening'']
             else if dash_letter (CHR ''a'') flags then [''all''] else [])
            @ (if dash_letter (CHR ''t'') flags \<and> \<not> dash_letter (CHR ''u'') flags then [''TCP'']
               else if dash_letter (CHR ''u'') flags \<and> \<not> dash_letter (CHR ''t'') flags then [''UDP''] else [])
            @ [''sockets'']
            @ (if dash_letter (CHR ''p'') flags then [''with owning process''] else [])
      in explained (''Shows '' @ (join '' '' parts)) [(''Reads kernel socket state via '' @ binary)] [])"

definition nmapExplain :: "string list \<Rightarrow> explain_result" where
  "nmapExplain args =
     explained (''Scans '' @ (listed (positionalArgs args) ''<target>'') @ '' with nmap'')
       [''Sends probe packets to one or more remote hosts'']
       ([''Active port scan - may trigger IDS / IPS alerts on the destination network'',
         ''May violate the destination network's acceptable-use policy if not authorised'']
        @ (if has_any [''-sS''] args
           then [''-sS (SYN scan) requires raw-socket privileges and is detectable by stateful firewalls''] else [])
        @ (if has_any [''-sU''] args
           then [''-sU (UDP scan) is slow and noisy - increases the chance of detection''] else [])
        @ (if has_any [''-O''] args
           then [''-O (OS fingerprinting) sends a distinctive probe sequence - readily detected''] else [])
        @ (if has_any [''-A''] args
           then [''-A enables OS detection, version detection, script scanning and traceroute - high signature'']
           else [])
        @ (if has_any [''--script''] args
           then [''--script runs NSE scripts which may probe for vulnerabilities''] else []))"

section \<open>Schedules\<close>

definition crontabExplain :: "string list \<Rightarrow> explain_result" where
  "crontabExplain args =
     (let userIdx = find_idx (\<lambda>a. a = ''-u'') args;
          targetUser = (case userIdx of Some i \<Rightarrow> arg (Suc i) args | None \<Rightarrow> None);
          userSuffix = (case targetUser of Some u \<Rightarrow> ('' for user '' @ u) | None \<Rightarrow> '''');
          positional =
            filter_i (\<lambda>i a. \<not> starts_with a ''-''
              \<and> (case userIdx of Some u \<Rightarrow> i \<noteq> Suc u | None \<Rightarrow> True)) args
      in if has_any [''-l''] args
         then explained (''Lists the crontab'' @ userSuffix) [''Reads the user's crontab entries''] []
         else if has_any [''-r''] args
         then explained (''Removes the entire crontab'' @ userSuffix)
                [''Deletes every scheduled cron job for the user'']
                [''Destructive - every existing cron entry is removed without prompt'',
                 ''Persistence - recovery requires reinstalling each entry'']
         else if has_any [''-e''] args
         then explained (''Opens the crontab'' @ userSuffix @ '' in an editor'')
                [''Allows interactive modification of the user's scheduled jobs'']
                [''Interactive edit - content of the change cannot be inspected by the explainer'']
         else (case arg 0 positional of
                 Some f \<Rightarrow>
                   explained (''Installs crontab'' @ userSuffix @ '' from '' @ f)
                     [''Replaces the entire user crontab with the file contents'']
                     [''Destructive - every existing cron entry is replaced'',
                      ''Persistence - installed entries run unattended on the cron schedule'']
               | None \<Rightarrow> explained (''Runs crontab'' @ userSuffix) [] []))"

definition atExplain :: "string list \<Rightarrow> explain_result" where
  "atExplain args =
     (if has_any [''-l''] args then explained ''Lists scheduled at jobs'' [''Reads the at queue''] []
      else if has_any [''-c''] args
      then explained (''Shows the script for at job '' @ (fallback (after_flag [''-c''] args) ''<job-id>''))
             [''Reads a scheduled job definition''] []
      else if has_any [''-d''] args \<or> has_any [''-r''] args
      then (let idx = (\<lambda>f. find_idx (\<lambda>a. a = f) args);
                dIdx = (case (idx ''-d'', idx ''-r'') of
                          (Some d, Some r) \<Rightarrow> max d r | (Some d, None) \<Rightarrow> d | (None, Some r) \<Rightarrow> r
                        | (None, None) \<Rightarrow> 0);
                jid = fallback (arg (Suc dIdx) args) ''<job-id>''
            in explained (''Removes at job '' @ jid) [''Cancels a scheduled job'']
                 [''Persistence - the cancelled job will not run as previously scheduled''])
      else (let fIdx = find_idx (\<lambda>a. a = ''-f'') args;
                scr = (case fIdx of Some i \<Rightarrow> arg (Suc i) args | None \<Rightarrow> None);
                positional =
                  filter_i (\<lambda>i a. \<not> starts_with a ''-''
                    \<and> (case fIdx of Some f \<Rightarrow> i \<noteq> Suc f | None \<Rightarrow> True)) args;
                timeSpec = js_trim (join '' '' positional);
                summary =
                  (case scr of
                     Some f \<Rightarrow> if timeSpec \<noteq> '''' then (''Schedules '' @ f @ '' to run at '' @ single_quoted timeSpec)
                              else (''Schedules '' @ f @ '' to run later'')
                   | None \<Rightarrow> if timeSpec \<noteq> '''' then (''Schedules a job to run at '' @ single_quoted timeSpec)
                            else ''Schedules a job to run later'')
            in explained summary [''Adds a one-shot job to the at queue'']
                 [''Persistence - the scheduled job runs unattended at the chosen time'']))"

definition atqExplain :: "string list \<Rightarrow> explain_result" where
  "atqExplain _ = explained ''Lists scheduled at jobs'' [''Reads the at queue''] []"

definition atrmExplain :: "string list \<Rightarrow> explain_result" where
  "atrmExplain args =
     explained (''Removes at job '' @ (listed (positionalArgs args) ''<job-id>''))
       [''Cancels one or more scheduled jobs'']
       [''Persistence - cancelled jobs will not run as previously scheduled'']"

definition batchExplain :: "string list \<Rightarrow> explain_result" where
  "batchExplain _ =
     explained ''Schedules a job to run when system load drops''
       [''Adds a job to the batch queue (variant of at)'']
       [''Persistence - the scheduled job runs unattended once load conditions are met'']"

end
