(* ===== verification/ExplainUtils.thy ===== *)
theory ExplainUtils
  imports ExplainSystem
begin

text \<open>
  The detectors for utilities and services (\<open>enforcement/command-explainer/patterns.ts\<close>): reading and writing
  files, the state of the system, archives, transfers over the network; package managers, clusters, virtual
  machines and services, which dispatch on the first word or on the flags.
\<close>

section \<open>Reading files\<close>

definition catExplain :: "string list \<Rightarrow> explain_result" where
  "catExplain args =
     (let paths = positionalArgs args
      in if paths = [] then explained ''Reads stdin and prints to stdout'' [''Reads stdin''] []
         else explained
                (if length paths = 1 then (''Prints the contents of '' @ (paths ! 0))
                 else (''Concatenates and prints '' @ (join '', '' paths)))
                [''Reads from the local filesystem''] [])"

text \<open>The number of lines of head and tail, and the path: the first word that is not \<open>/^-?\d+$/\<close>.\<close>

definition NUMBER_WORD :: rx where
  "NUMBER_WORD = rx_seq [RBol, rx_opt (rx_chr (CHR ''-'')), rx_plus (RClass is_digit), REol]"

definition line_count :: "string list \<Rightarrow> string" where
  "line_count args =
     fallback (after_flag [''-n''] args)
       (case find (rx_test NEGATIVE_NUMBER) args of Some f \<Rightarrow> drop 1 f | None \<Rightarrow> ''10'')"

definition line_path :: "string list \<Rightarrow> string option" where
  "line_path args = find (\<lambda>a. \<not> rx_test NUMBER_WORD a) (positionalArgs args)"

definition headExplain :: "string list \<Rightarrow> explain_result" where
  "headExplain args =
     explained
       (case line_path args of
          Some p \<Rightarrow> (''Prints the first '' @ (line_count args) @ '' lines of '' @ p)
        | None \<Rightarrow> (''Prints the first '' @ (line_count args) @ '' lines from stdin''))
       [''Reads from the local filesystem''] []"

definition tailExplain :: "string list \<Rightarrow> explain_result" where
  "tailExplain args =
     (let isFollow = has_any [''-f'', ''--follow'', ''-F''] args;
          summary =
            (if isFollow
             then (case line_path args of
                     Some p \<Rightarrow> (''Streams '' @ p @ '' as new lines are appended (tail -f)'')
                   | None \<Rightarrow> ''Streams stdin as new content arrives (tail -f)'')
             else (case line_path args of
                     Some p \<Rightarrow> (''Prints the last '' @ (line_count args) @ '' lines of '' @ p)
                   | None \<Rightarrow> (''Prints the last '' @ (line_count args) @ '' lines from stdin'')))
      in explained summary [''Reads from the local filesystem'']
           (if isFollow then [''Long-running - the command does not return until interrupted''] else []))"

text \<open>The two pagers stand in the table itself.\<close>

definition lessExplain :: "string list \<Rightarrow> explain_result" where
  "lessExplain args =
     explained
       (case arg 0 (positionalArgs args) of
          Some p \<Rightarrow> (''Pages through '' @ p @ '' interactively'') | None \<Rightarrow> ''Pages through stdin interactively'')
       [''Reads from the local filesystem'']
       [''Long-running - interactive pager does not return until quit'']"

definition moreExplain :: "string list \<Rightarrow> explain_result" where
  "moreExplain args =
     explained
       (case arg 0 (positionalArgs args) of
          Some p \<Rightarrow> (''Pages through '' @ p) | None \<Rightarrow> ''Pages through stdin'')
       [''Reads from the local filesystem'']
       [''Long-running - interactive pager does not return until quit'']"

definition diffExplain :: "string list \<Rightarrow> explain_result" where
  "diffExplain args =
     (let paths = positionalArgs args;
          a = fallback (arg 0 paths) ''<file-a>'';
          b = fallback (arg 1 paths) ''<file-b>''
      in explained (''Compares '' @ a @ '' against '' @ b) [''Reads two files and reports differences''] [])"

definition findExplain :: "string list \<Rightarrow> explain_result" where
  "findExplain args =
     (let path = fallback (arg 0 (positionalArgs args)) ''.''
      in explained (''Searches the filesystem under '' @ path)
           [''Walks the filesystem looking for entries matching the predicate'']
           ((if has_any [''-delete''] args then [''-delete removes every file matching the predicate''] else [])
            @ (if has_any [''-exec''] args then [''-exec runs the supplied command for every match''] else [])))"

definition locateExplain :: "string list \<Rightarrow> explain_result" where
  "locateExplain args =
     (let pattern = fallback (arg 0 (positionalArgs args)) ''<pattern>''
      in explained (''Searches the locate index for '' @ single_quoted pattern) [''Reads the pre-built locate database''] [])"

definition treeExplain :: "string list \<Rightarrow> explain_result" where
  "treeExplain args =
     explained (''Lists the directory tree starting at '' @ (fallback (arg 0 (positionalArgs args)) ''.''))
       [''Walks and prints the directory hierarchy''] []"

text \<open>\<open>/^-[a-zA-Z]*l/\<close>.\<close>

definition LONG_LISTING :: rx where
  "LONG_LISTING = rx_seq [RBol, rx_chr (CHR ''-''), RStar (RClass ascii_letter), rx_chr (CHR ''l'')]"

definition lsExplain :: "string list \<Rightarrow> explain_result" where
  "lsExplain args =
     (let target = listed (positionalArgs args) ''.''
      in explained
           (if list_ex (rx_test LONG_LISTING) args \<or> has_any [''--long''] args
            then (''Lists '' @ target @ '' with file metadata'') else (''Lists '' @ target))
           [''Reads directory entries from the local filesystem''] [])"

section \<open>Writing\<close>

definition teeExplain :: "string list \<Rightarrow> explain_result" where
  "teeExplain args =
     (let target = listed (positionalArgs args) ''<file>'';
          isAppend = has_any [''-a'', ''--append''] args
      in explained
           (if isAppend then (''Reads stdin and appends to '' @ target) else (''Reads stdin and writes to '' @ target))
           [''Reads stdin and writes the same content to one or more files'']
           (if isAppend then [] else [''Existing file content at the target path is overwritten'']))"

definition touchExplain :: "string list \<Rightarrow> explain_result" where
  "touchExplain args =
     explained (''Creates or updates the timestamp of '' @ (listed (positionalArgs args) ''<file>''))
       [''Creates an empty file when the target does not exist; updates mtime/atime when it does''] []"

text \<open>The cut of echo and printf; the ellipsis is one character in the code and three in the model.\<close>

definition truncated60 :: "string \<Rightarrow> string" where
  "truncated60 s = (if length s > 60 then ((take 57 s) @ ''...'') else s)"

definition echoExplain :: "string list \<Rightarrow> explain_result" where
  "echoExplain args =
     (let t = join '' '' args
      in explained
           (if t \<noteq> '''' then (''Prints '' @ single_quoted (truncated60 t) @ '' to stdout'') else ''Prints to stdout'')
           [''Writes to stdout''] [])"

definition printfExplain :: "string list \<Rightarrow> explain_result" where
  "printfExplain args =
     (let fmt = fallback (arg 0 args) ''''
      in explained
           (if fmt \<noteq> '''' then (''Prints formatted output: '' @ single_quoted (truncated60 fmt)) else ''Prints formatted output'')
           [''Writes to stdout''] [])"

section \<open>The state of the system\<close>

definition staticReadOnlyExplain :: "string \<Rightarrow> string \<Rightarrow> explain_result" where
  "staticReadOnlyExplain summary effect = explained summary [effect] []"

definition unameExplain :: "string list \<Rightarrow> explain_result" where
  "unameExplain args =
     explained
       (if has_any [''-a'', ''--all''] args then ''Reports the full kernel and system identification''
        else ''Reports the kernel name'')
       [''Reads kernel / system metadata''] []"

definition psExplain :: "string list \<Rightarrow> explain_result" where
  "psExplain _ = staticReadOnlyExplain ''Lists running processes'' ''Reads kernel process state''"

definition topExplain :: "string list \<Rightarrow> explain_result" where
  "topExplain _ =
     explained ''Opens an interactive process monitor'' [''Continuously reads kernel process state'']
       [''Long-running - does not return until interrupted'']"

definition htopExplain :: "string list \<Rightarrow> explain_result" where
  "htopExplain _ =
     explained ''Opens htop, an interactive process monitor'' [''Continuously reads kernel process state'']
       [''Long-running - does not return until interrupted'']"

definition dfExplain :: "string list \<Rightarrow> explain_result" where
  "dfExplain _ =
     staticReadOnlyExplain ''Reports disk space usage by mounted filesystem'' ''Reads filesystem statistics''"

definition duExplain :: "string list \<Rightarrow> explain_result" where
  "duExplain args =
     staticReadOnlyExplain (''Reports disk usage for '' @ (fallback (arg 0 (positionalArgs args)) ''.''))
       ''Walks the filesystem and totals sizes''"

definition freeExplain :: "string list \<Rightarrow> explain_result" where
  "freeExplain _ = staticReadOnlyExplain ''Reports memory and swap usage'' ''Reads kernel memory statistics''"

definition hostnameExplain :: "string list \<Rightarrow> explain_result" where
  "hostnameExplain _ = staticReadOnlyExplain ''Reports the system hostname'' ''Reads the kernel hostname''"

definition uptimeExplain :: "string list \<Rightarrow> explain_result" where
  "uptimeExplain _ =
     staticReadOnlyExplain ''Reports system uptime and load averages'' ''Reads kernel uptime / load statistics''"

definition lsofExplain :: "string list \<Rightarrow> explain_result" where
  "lsofExplain _ = staticReadOnlyExplain ''Lists open files and sockets'' ''Reads kernel file-descriptor state''"

definition idExplain :: "string list \<Rightarrow> explain_result" where
  "idExplain args =
     staticReadOnlyExplain
       (case arg 0 (positionalArgs args) of
          Some u \<Rightarrow> (''Reports the user/group IDs for '' @ u) | None \<Rightarrow> ''Reports the current user/group IDs'')
       ''Reads user / group identity from the system''"

definition whoamiExplain :: "string list \<Rightarrow> explain_result" where
  "whoamiExplain _ =
     staticReadOnlyExplain ''Reports the effective username'' ''Reads the current process user identity''"

section \<open>Archives\<close>

datatype tar_mode = TarCreate | TarExtract | TarList | TarAppend | TarUpdate | TarUnknown

fun mode_letter :: "string \<Rightarrow> tar_mode option" where
  "mode_letter [] = None"
| "mode_letter (ch # rest) =
     (if ch = CHR ''c'' then Some TarCreate
      else if ch = CHR ''x'' then Some TarExtract
      else if ch = CHR ''t'' then Some TarList
      else if ch = CHR ''r'' then Some TarAppend
      else if ch = CHR ''u'' then Some TarUpdate
      else mode_letter rest)"

text \<open>The loop over the words: it stops at the first without a dash.\<close>

fun tar_bundles :: "string list \<Rightarrow> tar_mode" where
  "tar_bundles [] = TarUnknown"
| "tar_bundles (tok # rest) =
     (if starts_with tok ''--'' then tar_bundles rest
      else (case mode_letter (if starts_with tok ''-'' then drop 1 tok else tok) of
              Some m \<Rightarrow> m
            | None \<Rightarrow> if \<not> starts_with tok ''-'' then TarUnknown else tar_bundles rest))"

definition tarMode :: "string list \<Rightarrow> tar_mode" where
  "tarMode args =
     (if has_any [''--create''] args then TarCreate
      else if has_any [''--extract'', ''--get''] args then TarExtract
      else if has_any [''--list''] args then TarList
      else if has_any [''--append''] args then TarAppend
      else if has_any [''--update''] args then TarUpdate
      else tar_bundles args)"

definition LETTER_BUNDLE :: rx where
  "LETTER_BUNDLE = rx_seq [RBol, rx_opt (rx_chr (CHR ''-'')), rx_plus (RClass ascii_letter), REol]"

definition tarArchive :: "string list \<Rightarrow> string option" where
  "tarArchive args =
     (case after_flag [''-f'', ''--file''] args of
        Some f \<Rightarrow> Some f
      | None \<Rightarrow>
          (case find (\<lambda>a. starts_with a ''--file='') args of
             Some a \<Rightarrow> Some (drop (length ''--file='') a)
           | None \<Rightarrow>
               (case find_idx (\<lambda>a. rx_test LETTER_BUNDLE a \<and> js_includes a ''f'') args of
                  Some i \<Rightarrow>
                    (case arg 0 (positionalArgs (drop (Suc i) args)) of
                       Some nxt \<Rightarrow> Some nxt
                     | None \<Rightarrow> arg 0 (positionalArgs args))
                | None \<Rightarrow> arg 0 (positionalArgs args))))"

definition bomb_warning :: string where
  "bomb_warning = ''Decompression bombs - extremely large extracted output is possible from a small input''"

definition tarExplain :: "string list \<Rightarrow> explain_result" where
  "tarExplain args =
     (let archive = fallback (tarArchive args) ''<archive>''
      in case tarMode args of
           TarCreate \<Rightarrow>
             explained (''Creates archive '' @ archive)
               [''Reads files from the local filesystem and writes them into a single archive''] []
         | TarExtract \<Rightarrow>
             explained (''Extracts archive '' @ archive) [''Writes archive contents into the destination directory'']
               [''Path-traversal - crafted entries (../) can write outside the destination if --absolute-names is set or the implementation does not sanitise'',
                bomb_warning]
         | TarList \<Rightarrow> explained (''Lists the contents of '' @ archive) [''Reads archive metadata''] []
         | TarAppend \<Rightarrow> explained (''Appends to archive '' @ archive) [''Modifies an existing archive in place''] []
         | TarUpdate \<Rightarrow> explained (''Updates archive '' @ archive) [''Modifies an existing archive in place''] []
         | TarUnknown \<Rightarrow> explained ''Runs tar'' [] [])"

definition zipExplain :: "string list \<Rightarrow> explain_result" where
  "zipExplain args =
     (let positional = positionalArgs args;
          archive = fallback (arg 0 positional) ''<archive>'';
          files = drop 1 positional
      in explained
           (if files \<noteq> [] then (''Creates ZIP archive '' @ archive @ '' containing '' @ (join '', '' files))
            else (''Creates ZIP archive '' @ archive))
           [''Reads files from the local filesystem and writes them into a ZIP archive'']
           (if has_any [''-e'', ''--encrypt''] args
            then [''Encrypted ZIPs use weak ZipCrypto by default - prefer 7z / GPG for sensitive data''] else []))"

definition unzipExplain :: "string list \<Rightarrow> explain_result" where
  "unzipExplain args =
     (let archive = fallback (arg 0 (positionalArgs args)) ''<archive>''
      in explained
           (case after_flag [''-d''] args of
              Some dest \<Rightarrow> (''Extracts '' @ archive @ '' into '' @ dest)
            | None \<Rightarrow> (''Extracts '' @ archive @ '' into the current directory''))
           [''Writes archive contents to the local filesystem'']
           [''Path-traversal - crafted ZIP entries (../) can write outside the destination'', bomb_warning])"

definition decompressorExplain :: "string \<Rightarrow> string list \<Rightarrow> explain_result" where
  "decompressorExplain binary args =
     explained
       (case arg 0 (positionalArgs args) of
          Some target \<Rightarrow> (''Decompresses '' @ target) | None \<Rightarrow> (''Decompresses '' @ binary @ '' input''))
       [''Reads the compressed input and writes the decompressed output'']
       [''Decompression bomb - small input can produce arbitrarily large output'']"

definition compressExplain :: "string \<Rightarrow> string list \<Rightarrow> explain_result" where
  "compressExplain binary args =
     (let target = arg 0 (positionalArgs args)
      in if has_any [''-d'', ''--decompress'', ''--uncompress''] args
         then explained
                (case target of Some t \<Rightarrow> (''Decompresses '' @ t) | None \<Rightarrow> (''Decompresses '' @ binary @ '' input''))
                [''Reads the compressed input and writes the decompressed output'']
                [''Decompression bomb - small input can produce arbitrarily large output'']
         else explained
                (case target of Some t \<Rightarrow> (''Compresses '' @ t) | None \<Rightarrow> (''Compresses '' @ binary @ '' input''))
                [if has_any [''-k'', ''--keep''] args
                 then ''Compresses the input - original file retained because of -k / --keep''
                 else ''Compresses the input - original file is replaced by the compressed copy''] [])"

definition sevenZipExplain :: "string list \<Rightarrow> explain_result" where
  "sevenZipExplain args =
     (let sub = arg 0 args;
          archive = fallback (arg 0 (positionalArgs (drop 1 args))) ''<archive>''
      in if sub \<in> {Some ''a'', Some ''u''}
         then explained
                (if sub = Some ''u'' then (''Updates 7z archive '' @ archive) else (''Adds files to 7z archive '' @ archive))
                [''Reads files from the local filesystem and writes into a 7z archive''] []
         else if sub \<in> {Some ''x'', Some ''e''}
         then explained
                (if sub = Some ''x'' then (''Extracts 7z archive '' @ archive @ '' preserving paths'')
                 else (''Extracts 7z archive '' @ archive @ '' (flat - paths discarded)''))
                [''Writes archive contents to the local filesystem'']
                [''Path-traversal - crafted entries (../) can write outside the destination'', bomb_warning]
         else if sub \<in> {Some ''l'', Some ''t''}
         then explained (''Lists the contents of 7z archive '' @ archive) [''Reads archive metadata''] []
         else if sub = Some ''d''
         then explained (''Removes entries from 7z archive '' @ archive)
                [''Modifies an existing 7z archive in place''] []
         else explained (case sub of Some s \<Rightarrow> (''Runs 7z '' @ s) | None \<Rightarrow> ''Runs 7z'') [] [])"

definition mkdirExplain :: "string list \<Rightarrow> explain_result" where
  "mkdirExplain args =
     explained (''Creates directory '' @ (fallback (arg 0 (positionalArgs args)) ''<directory>''))
       [''Creates a new directory on the filesystem''] []"

section \<open>Transfers\<close>

text \<open>
  \<open>looksRemoteTransferTarget\<close>: \<open>/^rsync:\/\//i\<close>, \<open>/^sftp:\/\//i\<close>, \<open>/^[A-Za-z0-9._-]+@[A-Za-z0-9._-]+:/\<close> and
  \<open>/^[A-Za-z0-9_-]+\.[A-Za-z0-9._-]+:/\<close>.
\<close>

definition host_char :: "char \<Rightarrow> bool" where
  "host_char c \<longleftrightarrow> word_char c \<or> c = CHR ''.'' \<or> c = CHR ''-''"

definition label_char :: "char \<Rightarrow> bool" where
  "label_char c \<longleftrightarrow> word_char c \<or> c = CHR ''-''"

definition looksRemoteTransferTarget :: "string \<Rightarrow> bool" where
  "looksRemoteTransferTarget token \<longleftrightarrow>
     token \<noteq> ''''
     \<and> (rx_test (RSeq RBol (rx_lit_ci ''rsync://'')) token
        \<or> rx_test (RSeq RBol (rx_lit_ci ''sftp://'')) token
        \<or> rx_test (rx_seq [RBol, rx_plus (RClass host_char), rx_chr (CHR ''@''), rx_plus (RClass host_char),
            rx_chr (CHR '':'')]) token
        \<or> rx_test (rx_seq [RBol, rx_plus (RClass label_char), rx_chr (CHR ''.''), rx_plus (RClass host_char),
            rx_chr (CHR '':'')]) token)"

definition transfer_warnings :: "string \<Rightarrow> string \<Rightarrow> string list" where
  "transfer_warnings src dst =
     (if looksRemoteTransferTarget dst
      then [(''Destination '' @ dst @ '' is remote - local data is being uploaded over the network'')] else [])
     @ (if looksRemoteTransferTarget src \<and> \<not> looksRemoteTransferTarget dst
        then [(''Source '' @ src @ '' is remote - pulling data into the local filesystem'')] else [])"

definition rsyncExplain :: "string list \<Rightarrow> explain_result" where
  "rsyncExplain args =
     (let pos = positionalArgs args;
          src = fallback (arg 0 pos) ''<source>'';
          dst = fallback (arg 1 pos) ''<destination>''
      in explained (''Syncs files from '' @ src @ '' to '' @ dst) [''Modifies the destination filesystem'']
           ((if has_any [''--delete''] args
             then [''--delete removes files at destination absent in source''] else [])
            @ transfer_warnings src dst))"

fun post_request :: "string list \<Rightarrow> bool" where
  "post_request (t # nxt # rest) =
     ((t = ''-X'' \<or> t = ''--request'') \<and> nxt = ''POST'' \<or> post_request (nxt # rest))"
| "post_request _ = False"

definition curlExplain :: "string list \<Rightarrow> explain_result" where
  "curlExplain args =
     (let url = fallback (arg 0 (positionalArgs args)) ''<url>'';
          isPost = (post_request args \<or> has_any [''--data'', ''-d'', ''--data-raw'', ''--data-binary''] args);
          hasOutput = has_any [''-o'', ''--output'', ''-O''] args
      in explained
           (if isPost then (''Sends an HTTP POST request to '' @ url) else (''Fetches content from '' @ url))
           (''Makes a network request'' # (if hasOutput then [''Writes response to a local file''] else [])) [])"

definition wgetExplain :: "string list \<Rightarrow> explain_result" where
  "wgetExplain args =
     explained (''Downloads '' @ (fallback (arg 0 (positionalArgs args)) ''<url>''))
       [''Creates a local file from network content''] []"

definition sshExplain :: "string list \<Rightarrow> explain_result" where
  "sshExplain args =
     explained (''Opens a secure shell connection to '' @ (fallback (arg 0 (positionalArgs args)) ''<host>''))
       [''Establishes a remote network connection'']
       [''Grants interactive access to a remote system'']"

definition moshExplain :: "string list \<Rightarrow> explain_result" where
  "moshExplain args =
     explained (''Opens a mosh session to '' @ (fallback (arg 0 (positionalArgs args)) ''<host>''))
       [''Establishes a UDP-based remote terminal that persists across network changes'']
       [''Grants interactive access to a remote system'',
        ''Long-running session - mosh state outlives transient network failures'']"

definition telnetExplain :: "string list \<Rightarrow> explain_result" where
  "telnetExplain args =
     explained (''Opens a telnet connection to '' @ (fallback (arg 0 (positionalArgs args)) ''<host>''))
       [''Establishes an unencrypted remote terminal connection'']
       [''Grants interactive access to a remote system'',
        ''Telnet is unencrypted - credentials and session content cross the network in plaintext'']"

definition scpExplain :: "string list \<Rightarrow> explain_result" where
  "scpExplain args =
     (let pos = positionalArgs args;
          src = fallback (arg 0 pos) ''<source>'';
          dst = last_of_many pos ''<destination>''
      in explained (''Securely copies files from '' @ src @ '' to '' @ dst) [''Transfers files over a network connection'']
           (transfer_warnings src dst))"

text \<open>The host of sftp: the last word that is not the first occurrence of the port's word among them.\<close>

definition sftp_host :: "string list \<Rightarrow> string" where
  "sftp_host args =
     (let positional = positionalArgs args;
          skip = (case after_flag [''-P'', ''-p''] args of
                    Some w \<Rightarrow> find_idx (\<lambda>p. p = w) positional | None \<Rightarrow> None)
      in last_or (filter_i (\<lambda>i _. skip \<noteq> Some i) positional) ''<host>'')"

definition sftpExplain :: "string list \<Rightarrow> explain_result" where
  "sftpExplain args =
     (let host = sftp_host args;
          batchFile = after_flag [''-b''] args
      in explained
           (case batchFile of
              Some b \<Rightarrow> (''Runs sftp batch file '' @ b @ '' against '' @ host) | None \<Rightarrow> (''Opens an sftp session to '' @ host))
           [''Establishes an SFTP connection to a remote host'']
           (''Interactive or scripted file transfer - files in either direction cross the network''
            # (case batchFile of
                 Some _ \<Rightarrow> []
               | None \<Rightarrow> [''Interactive - content of the transfer cannot be inspected by the explainer''])))"

definition ncExplain :: "string list \<Rightarrow> explain_result" where
  "ncExplain args =
     (let pos = positionalArgs args;
          p0 = fallback (arg 0 pos) '''';
          p1 = fallback (arg 1 pos) '''';
          summary =
            (if has_any [''-l'', ''--listen''] args
             then (if nonempty_word (arg 0 pos) then (''Listens for incoming connections on port '' @ p0)
                   else ''Listens for incoming network connections'')
             else if nonempty_word (arg 0 pos) \<and> nonempty_word (arg 1 pos) then (''Opens a TCP connection to '' @ p0 @ '':'' @ p1)
             else if nonempty_word (arg 0 pos) then (''Opens a network connection to '' @ p0)
             else ''Opens a network connection'')
      in explained summary [''Establishes a network connection''] [])"

section \<open>Package managers\<close>

text \<open>\<open>pkgs.length > 0 ? `${verb}: ${pkgs}` : none\<close>, where \<open>pkgs\<close> is the packages joined by spaces.\<close>

definition naming :: "string \<Rightarrow> string \<Rightarrow> string \<Rightarrow> string" where
  "naming verb none pkgs = (if pkgs \<noteq> '''' then (verb @ '': '' @ pkgs) else none)"

definition runs_sub :: "string \<Rightarrow> string option \<Rightarrow> explain_result" where
  "runs_sub binary sub =
     explained (case sub of Some s \<Rightarrow> (''Runs '' @ binary @ '' '' @ s) | None \<Rightarrow> (''Runs '' @ binary)) [] []"

definition aptExplain :: "string list \<Rightarrow> explain_result" where
  "aptExplain args =
     (let sub = arg 0 args;
          pkgs = join '' '' (positionalArgs (drop 1 args));
          isAssumeYes = has_any [''-y'', ''--yes'', ''--assume-yes''] args
      in if sub = Some ''install''
         then explained (naming ''Installs apt packages'' ''Installs apt packages'' pkgs)
                [''Downloads and installs system packages from configured repositories'']
                [''New code from a remote repository will run with the privileges of the installer'']
         else if sub \<in> {Some ''remove'', Some ''purge''}
         then (let verb = (if sub = Some ''purge'' then ''Purges apt packages'' else ''Removes apt packages'')
               in explained (naming verb verb pkgs)
                    [if sub = Some ''purge'' then ''Removes packages and their configuration files''
                     else ''Removes installed packages (configuration files retained)'']
                    [''Service interruption possible if a removed package provides a running daemon''])
         else if sub = Some ''update''
         then explained ''Refreshes the apt package index''
                [''Downloads metadata from configured repositories - does not install anything''] []
         else if sub \<in> {Some ''upgrade'', Some ''dist-upgrade'', Some ''full-upgrade''}
         then explained
                (if sub = Some ''upgrade'' then ''Upgrades all upgradable packages''
                 else (''Upgrades all packages ('' @ (fallback sub '''') @ '')''))
                [''Downloads and installs newer package versions across the system'']
                (''Bulk operation - affects every upgradable package''
                 # (if isAssumeYes then [''-y / --yes accepts every prompt non-interactively''] else []))
         else if sub = Some ''autoremove''
         then explained ''Removes packages no longer required'' [''Removes orphaned dependencies'']
                [''Bulk operation - packages no longer flagged as required will be uninstalled'']
         else runs_sub ''apt'' sub)"

definition yumDnfExplain :: "string \<Rightarrow> string list \<Rightarrow> explain_result" where
  "yumDnfExplain binary args =
     (let sub = arg 0 args;
          pkgs = join '' '' (positionalArgs (drop 1 args));
          isAssumeYes = has_any [''-y'', ''--assumeyes''] args
      in if sub = Some ''install''
         then explained (naming (''Installs '' @ binary @ '' packages'') (''Installs '' @ binary @ '' packages'') pkgs)
                [''Downloads and installs RPM packages from configured repositories'']
                [''New code from a remote repository will run with the privileges of the installer'']
         else if sub \<in> {Some ''remove'', Some ''erase''}
         then explained (naming (''Removes '' @ binary @ '' packages'') (''Removes '' @ binary @ '' packages'') pkgs)
                [''Removes installed packages'']
                [''Service interruption possible if a removed package provides a running daemon'']
         else if sub \<in> {Some ''update'', Some ''upgrade''}
         then explained (naming (''Updates '' @ binary @ '' packages'') (''Updates all installed '' @ binary @ '' packages'') pkgs)
                [''Downloads and installs newer package versions'']
                ((if pkgs = '''' then [''Bulk operation - affects every upgradable package''] else [])
                 @ (if isAssumeYes then [''-y / --assumeyes accepts every prompt non-interactively''] else []))
         else if sub = Some ''check-update''
         then explained (''Checks '' @ binary @ '' for available updates'')
                [''Reads repository metadata - does not install anything''] []
         else runs_sub binary sub)"

definition dpkgExplain :: "string list \<Rightarrow> explain_result" where
  "dpkgExplain args =
     (let pkgs = join '' '' (positionalArgs args);
          interruption = ''Service interruption possible if a removed package provides a running daemon''
      in if has_any [''-i'', ''--install''] args
         then explained (naming ''Installs .deb files'' ''Installs .deb files'' pkgs)
                [''Installs a Debian package directly from a .deb file'']
                [''Bypasses the apt repository - package signature and dependency resolution are weaker than `apt install`'']
         else if has_any [''-r'', ''--remove''] args
         then explained (naming ''Removes packages'' ''Removes packages'' pkgs)
                [''Removes installed packages (configuration files retained)''] [interruption]
         else if has_any [''-P'', ''--purge''] args
         then explained (naming ''Purges packages'' ''Purges packages'' pkgs)
                [''Removes packages and their configuration files''] [interruption]
         else if has_any [''-l'', ''--list'', ''-L''] args
         then explained ''Lists installed Debian packages'' [''Reads the dpkg status database''] []
         else explained ''Runs dpkg'' [] [])"

definition snapExplain :: "string list \<Rightarrow> explain_result" where
  "snapExplain args =
     (let sub = arg 0 args;
          pkgs = join '' '' (positionalArgs (drop 1 args))
      in if sub = Some ''install''
         then explained (naming ''Installs snaps'' ''Installs snaps'' pkgs)
                [''Downloads and installs snap packages from the Snap Store'']
                [''Snaps can request system-wide interfaces - review the package's declared plugs'']
         else if sub = Some ''remove''
         then explained (naming ''Removes snaps'' ''Removes snaps'' pkgs) [''Removes installed snap packages''] []
         else if sub = Some ''refresh''
         then explained (naming ''Refreshes snaps'' ''Refreshes all installed snaps'' pkgs)
                [''Downloads and installs newer snap revisions'']
                (if pkgs = '''' then [''Bulk operation - affects every installed snap''] else [])
         else if sub = Some ''list''
         then explained ''Lists installed snaps'' [''Reads the snap registry''] []
         else runs_sub ''snap'' sub)"

definition brewExplain :: "string list \<Rightarrow> explain_result" where
  "brewExplain args =
     (let sub = arg 0 args;
          pkgs = join '' '' (positionalArgs (drop 1 args))
      in if sub = Some ''install''
         then explained (naming ''Installs brew packages'' ''Installs brew packages'' pkgs)
                [''Downloads and installs Homebrew formulae'']
                [''New code from a remote tap will run with the privileges of the installer'']
         else if sub \<in> {Some ''uninstall'', Some ''remove'', Some ''rm''}
         then explained (naming ''Uninstalls brew packages'' ''Uninstalls brew packages'' pkgs)
                [''Removes installed Homebrew formulae''] []
         else if sub = Some ''upgrade''
         then explained (naming ''Upgrades brew packages'' ''Upgrades all brew packages'' pkgs)
                [''Downloads and installs newer formula versions'']
                (if pkgs = '''' then [''Bulk operation - affects every installed formula''] else [])
         else if sub = Some ''update''
         then explained ''Refreshes the Homebrew formula index''
                [''Pulls the latest formula definitions from upstream''] []
         else if sub \<in> {Some ''list'', Some ''ls''}
         then explained ''Lists installed Homebrew formulae'' [''Reads the local Homebrew registry''] []
         else if sub = Some ''cleanup''
         then explained ''Removes old / unused Homebrew downloads''
                [''Frees disk space by removing old formula versions and caches''] []
         else runs_sub ''brew'' sub)"

text \<open>
  pacman: the first word that matches \<open>/^-[A-Z]/\<close>, and \<open>/y.*u|u.*y/i\<close> on it. The prefixes \<open>/^-S/\<close> and the like
  are read off the word.
\<close>

definition CAPITAL_FLAG :: rx where
  "CAPITAL_FLAG = rx_seq [RBol, rx_chr (CHR ''-''), RClass is_upper]"

definition SYNC_UPGRADE :: rx where
  "SYNC_UPGRADE =
     RAlt (rx_seq [rx_ci (CHR ''y''), RStar (RClass dot_char), rx_ci (CHR ''u'')])
          (rx_seq [rx_ci (CHR ''u''), RStar (RClass dot_char), rx_ci (CHR ''y'')])"

definition pacmanExplain :: "string list \<Rightarrow> explain_result" where
  "pacmanExplain args =
     (let flags = fallback (find (rx_test CAPITAL_FLAG) args) '''';
          pkgs = join '' '' (positionalArgs args)
      in if starts_with flags ''-S'' \<and> rx_test SYNC_UPGRADE flags
         then explained ''Synchronises and upgrades all packages''
                [''Refreshes the package database and upgrades every package'']
                [''Bulk operation - affects every installed package'']
         else if starts_with flags ''-S''
         then explained (naming ''Installs pacman packages'' ''Installs pacman packages'' pkgs)
                [''Downloads and installs packages from configured repositories'']
                [''New code from a remote repository will run with the privileges of the installer'']
         else if starts_with flags ''-R''
         then explained (naming ''Removes pacman packages'' ''Removes pacman packages'' pkgs)
                [''Removes installed packages'']
                [''Service interruption possible if a removed package provides a running daemon'']
         else if starts_with flags ''-Q''
         then explained ''Queries the local pacman database'' [''Reads installed-package metadata''] []
         else if starts_with flags ''-U''
         then explained (naming ''Installs local .pkg files'' ''Installs local .pkg files'' pkgs)
                [''Installs a package directly from a local archive'']
                [''Bypasses repository signature checks - package authenticity is weaker'']
         else explained ''Runs pacman'' [] [])"

section \<open>kubectl\<close>

fun kubectlNamespace :: "string list \<Rightarrow> string option" where
  "kubectlNamespace [] = None"
| "kubectlNamespace (a # rest) =
     (if (a = ''-n'' \<or> a = ''--namespace'') \<and> rest \<noteq> [] then Some (hd rest)
      else if starts_with a ''--namespace='' then Some (drop (length ''--namespace='') a)
      else kubectlNamespace rest)"

definition kubectlSuffix :: "string list \<Rightarrow> string" where
  "kubectlSuffix args = (case kubectlNamespace args of Some ns \<Rightarrow> ('' in namespace '' @ ns) | None \<Rightarrow> '''')"

text \<open>The words that are neither the flag of the namespace nor the word behind it (\<open>filtered\<close>).\<close>

definition namespace_flag :: "string list \<Rightarrow> nat \<Rightarrow> bool" where
  "namespace_flag args i \<longleftrightarrow> arg i args \<in> {Some ''-n'', Some ''--namespace''}"

definition without_namespace :: "string list \<Rightarrow> string list" where
  "without_namespace args =
     filter_i (\<lambda>i _. \<not> namespace_flag args i \<and> (i = 0 \<or> \<not> namespace_flag args (i - 1))) args"

definition kube_target :: "string list \<Rightarrow> string" where
  "kube_target positional =
     (case arg 1 positional of
        Some n \<Rightarrow> ((fallback (arg 0 positional) ''undefined'') @ '' '' @ n)
      | None \<Rightarrow> fallback (arg 0 positional) ''<resource>'')"

definition kubeApply :: "string list \<Rightarrow> explain_result" where
  "kubeApply args =
     explained
       (case after_flag [''-f'', ''--filename''] args of
          Some f \<Rightarrow> (''Applies the manifest at '' @ f @ (kubectlSuffix args))
        | None \<Rightarrow> (''Applies a manifest'' @ (kubectlSuffix args)))
       [''Creates or updates Kubernetes resources to match the manifest'']
       (''Cluster mutation - affects every resource referenced by the manifest''
        # (if has_any [''--prune''] args
           then [''--prune deletes existing resources not present in the manifest''] else [])
        @ (if has_any [''--force''] args
           then [''--force overrides conflict detection on already-managed resources''] else []))"

definition kubeDelete :: "string list \<Rightarrow> string list \<Rightarrow> explain_result" where
  "kubeDelete args positional =
     explained (''Deletes '' @ (kube_target positional) @ (kubectlSuffix args))
       [''Removes Kubernetes resources from the cluster'']
       (''Cluster mutation - deletion is generally not recoverable without a fresh manifest''
        # (if has_any [''--all''] args
           then [''--all deletes every resource of the named kind in the namespace''] else [])
        @ (if has_any [''--grace-period=0'', ''--force''] args
           then [''--force / --grace-period=0 skips graceful shutdown - pods terminate immediately''] else []))"

definition kubeExec :: "string list \<Rightarrow> string list \<Rightarrow> explain_result" where
  "kubeExec args positional =
     explained
       (case arg 0 positional of
          Some pod \<Rightarrow> (''Executes a command inside pod '' @ pod @ (kubectlSuffix args))
        | None \<Rightarrow> (''Executes a command inside a pod'' @ (kubectlSuffix args)))
       [''Runs a process inside a running container'']
       (''Provides direct access to a running pod environment''
        # (if has_any [''-it''] args \<or> has_any [''-i''] args \<and> has_any [''-t''] args
           then [''Interactive TTY - content of the session cannot be inspected by the explainer''] else []))"

definition kubeRollout :: "string list \<Rightarrow> string list \<Rightarrow> explain_result" where
  "kubeRollout args filtered =
     (let action = arg 1 args;
          target = kube_target (positionalArgs (drop 2 filtered))
      in if action = Some ''restart''
         then explained (''Restarts rollout of '' @ target @ (kubectlSuffix args))
                [''Triggers a rolling restart of the resource's pods'']
                [''Brief disruption while replacement pods come online'']
         else if action = Some ''undo''
         then explained (''Rolls back '' @ target @ (kubectlSuffix args))
                [''Reverts the resource to its previous revision'']
                [''Cluster mutation - running pods are replaced by the previous revision'']
         else if action = Some ''status''
         then explained (''Reports rollout status for '' @ target @ (kubectlSuffix args)) [''Reads cluster state''] []
         else explained
                (case action of
                   Some a \<Rightarrow> (''Runs kubectl rollout '' @ a @ (kubectlSuffix args))
                 | None \<Rightarrow> (''Runs kubectl rollout'' @ (kubectlSuffix args))) [] [])"

definition kube_replicas :: "string list \<Rightarrow> string option" where
  "kube_replicas args =
     (case find_idx (\<lambda>a. starts_with a ''--replicas'') args of
        None \<Rightarrow> None
      | Some i \<Rightarrow>
          if js_includes (args ! i) ''='' then arg 1 (split_on (CHR ''='') (args ! i)) else arg (Suc i) args)"

definition kubeScale :: "string list \<Rightarrow> string list \<Rightarrow> explain_result" where
  "kubeScale args positional =
     (let target = kube_target positional
      in explained
           (case kube_replicas args of
              Some n \<Rightarrow> (''Scales '' @ target @ '' to '' @ n @ '' replicas'' @ (kubectlSuffix args))
            | None \<Rightarrow> (''Scales '' @ target @ (kubectlSuffix args)))
           [''Adjusts the replica count for the resource'']
           (if kube_replicas args = Some ''0''
            then [''Scaling to 0 replicas takes the workload offline''] else []))"

definition kubectlExplain :: "string list \<Rightarrow> explain_result" where
  "kubectlExplain args =
     (let sub = arg 0 args;
          filtered = without_namespace args;
          positional = positionalArgs (drop 1 filtered)
      in if sub = Some ''apply'' then kubeApply args
         else if sub = Some ''delete'' then kubeDelete args positional
         else if sub \<in> {Some ''get'', Some ''describe''}
         then explained
                (if sub = Some ''get'' then (''Lists '' @ (kube_target positional) @ (kubectlSuffix args))
                 else (''Describes '' @ (kube_target positional) @ (kubectlSuffix args)))
                [''Reads cluster state''] []
         else if sub = Some ''logs''
         then explained
                (case arg 0 positional of
                   Some pod \<Rightarrow> (''Reads logs from pod '' @ pod @ (kubectlSuffix args))
                 | None \<Rightarrow> (''Reads pod logs'' @ (kubectlSuffix args)))
                [''Reads container logs from one or more pods'']
                [''Logs may contain credentials, request bodies, or other sensitive data'']
         else if sub = Some ''exec'' then kubeExec args positional
         else if sub = Some ''port-forward''
         then explained (''Forwards local ports to a pod'' @ (kubectlSuffix args))
                [''Opens a long-running tunnel from the local host to a pod inside the cluster'']
                [''Long-running session - the tunnel persists until the command is interrupted'',
                 ''Local services / browsers connecting to the forwarded port reach inside the cluster'']
         else if sub = Some ''rollout'' then kubeRollout args filtered
         else if sub = Some ''scale'' then kubeScale args positional
         else (case sub of
                 None \<Rightarrow> explained ''Runs kubectl'' [] []
               | Some s \<Rightarrow> explained (''Runs kubectl '' @ s @ (kubectlSuffix args)) [] []))"

section \<open>virsh\<close>

definition virshExplain :: "string list \<Rightarrow> explain_result" where
  "virshExplain args =
     (let sub = arg 0 args;
          domain = arg 0 (positionalArgs (drop 1 args));
          of_vm = (\<lambda>with none. case domain of Some d \<Rightarrow> with @ d | None \<Rightarrow> none)
      in if sub = Some ''list''
         then explained ''Lists virsh-managed domains'' [''Reads libvirt domain state''] []
         else if sub = Some ''start''
         then explained (of_vm ''Starts VM '' ''Starts a VM'') [''Boots a libvirt domain''] []
         else if sub = Some ''shutdown''
         then explained (of_vm ''Gracefully shuts down VM '' ''Gracefully shuts down a VM'')
                [''Sends an ACPI shutdown signal to the domain'']
                [''Active services on the VM will be interrupted'']
         else if sub = Some ''destroy''
         then explained (of_vm ''Forcibly stops VM '' ''Forcibly stops a VM'')
                [''Terminates the libvirt domain without graceful shutdown'']
                [''Forceful termination - running processes inside the VM are killed without cleanup'']
         else if sub = Some ''reboot''
         then explained (of_vm ''Reboots VM '' ''Reboots a VM'')
                [''Triggers a graceful reboot of the libvirt domain'']
                [''Active services on the VM will be briefly unavailable'']
         else if sub = Some ''undefine''
         then explained (of_vm ''Removes VM definition for '' ''Removes a VM definition'')
                [''Deletes the libvirt domain definition (the VM disk image is retained unless --remove-all-storage is used)'']
                (''Persistent - the VM will not auto-start at host boot after removal''
                 # (if has_any [''--remove-all-storage''] args
                    then [''--remove-all-storage also deletes the VM disk image - irreversible''] else []))
         else runs_sub ''virsh'' sub)"

section \<open>Services and the life of the host\<close>

definition host_down :: "string list" where
  "host_down = [''Host-level disruption - all connections drop'']"

definition systemctlExplain :: "string list \<Rightarrow> explain_result" where
  "systemctlExplain args =
     (let unit = arg 0 (positionalArgs (drop 1 args));
          unitLabel = (if nonempty_word unit then ('' '' @ (fallback unit '''')) else '''')
      in case arg 0 args of
           None \<Rightarrow> explained ''Runs systemctl'' [] []
         | Some sub \<Rightarrow>
             if sub = ''start''
             then explained (''Starts service'' @ unitLabel) [''Starts a system service''] []
             else if sub = ''stop''
             then explained (''Stops service'' @ unitLabel) [''Stops a running service'']
                    [''Active service users will be disconnected'']
             else if sub = ''restart''
             then explained (''Restarts service'' @ unitLabel) [''Stops then starts a service'']
                    [''Brief downtime during restart'']
             else if sub = ''reload''
             then explained (''Reloads configuration for service'' @ unitLabel) [''Triggers SIGHUP on the service''] []
             else if sub = ''enable''
             then explained (''Enables service'' @ unitLabel @ '' at boot'') [''Adds boot-time start hook'']
                    [''Persistent - survives reboot'']
             else if sub = ''disable''
             then explained (''Disables service'' @ unitLabel @ '' at boot'') [''Removes boot-time start hook'']
                    [''Persistent - survives reboot'']
             else if sub = ''mask''
             then explained (''Masks service'' @ unitLabel) [''Symlinks the unit file to /dev/null'']
                    [''Service cannot be started until unmasked'']
             else if sub = ''unmask''
             then explained (''Unmasks service'' @ unitLabel) [''Removes the /dev/null symlink''] []
             else if sub = ''daemon-reload''
             then explained ''Reloads systemd unit files'' [''Re-reads /etc/systemd/system/''] []
             else if sub = ''status'' then explained (''Shows status for service'' @ unitLabel) [] []
             else if sub \<in> {''reboot'', ''poweroff'', ''halt'', ''kexec'', ''suspend'', ''hibernate''}
             then explained
                    ((if sub = ''reboot'' then ''Reboots'' else if sub = ''poweroff'' then ''Powers off''
                      else if sub = ''halt'' then ''Halts'' else if sub = ''kexec'' then ''Kexec-restarts''
                      else if sub = ''suspend'' then ''Suspends'' else ''Hibernates'') @ '' the host'')
                    [''Terminates or pauses all running processes''] host_down
             else explained (''Runs systemctl '' @ sub @ unitLabel) [] [])"

definition serviceExplain :: "string list \<Rightarrow> explain_result" where
  "serviceExplain args =
     (case arg 0 args of
        None \<Rightarrow> explained ''Runs service'' [] []
      | Some unit \<Rightarrow>
          (case arg 1 args of
             None \<Rightarrow> explained (''Runs service '' @ unit) [] []
           | Some action \<Rightarrow>
               if action = ''start'' then explained (''Starts service '' @ unit) [''Starts a system service''] []
               else if action = ''stop''
               then explained (''Stops service '' @ unit) [''Stops a running service'']
                      [''Active service users will be disconnected'']
               else if action = ''restart''
               then explained (''Restarts service '' @ unit) [''Stops then starts a service'']
                      [''Brief downtime during restart'']
               else if action = ''reload''
               then explained (''Reloads configuration for service '' @ unit) [''Triggers SIGHUP on the service''] []
               else if action = ''status'' then explained (''Shows status for service '' @ unit) [] []
               else explained (''Runs service '' @ unit @ '' '' @ action) [] []))"

definition rebootExplain :: "string list \<Rightarrow> explain_result" where
  "rebootExplain _ = explained ''Reboots the host'' [''Terminates all running processes''] host_down"

definition shutdownExplain :: "string list \<Rightarrow> explain_result" where
  "shutdownExplain args =
     (let flags = filter (\<lambda>a. starts_with a ''-'') args;
          tm = arg 0 (positionalArgs args);
          verb = (if has_any [''-r''] flags then ''Reboots'' else ''Shuts down'')
      in if has_any [''-c''] flags
         then explained ''Cancels a pending shutdown'' [''Aborts the scheduled host shutdown''] []
         else explained
                (if nonempty_word tm then (verb @ '' the host (scheduled: '' @ (fallback tm '''') @ '')'') else (verb @ '' the host''))
                [''Terminates all running processes''] host_down)"

definition initExplain :: "string list \<Rightarrow> explain_result" where
  "initExplain args =
     (case arg 0 args of
        None \<Rightarrow> explained ''Runs init'' [] []
      | Some level \<Rightarrow>
          if level = ''0''
          then explained ''Switches to runlevel 0 - powers off the host'' [''Terminates all running processes''] host_down
          else if level = ''6''
          then explained ''Switches to runlevel 6 - reboots the host'' [''Terminates all running processes''] host_down
          else if level \<in> {''1'', ''S'', ''s''}
          then explained (''Switches to single-user mode (runlevel '' @ level @ '')'') [''Stops most system services'']
                 [''Network and multi-user services will be unavailable'']
          else explained (''Switches to runlevel '' @ level) [] [''Service availability may change''])"

end
