(* ===== verification/Explainer.thy ===== *)
theory Explainer
  imports ExplainUtils Plugin
begin

text \<open>
  The table of the command explainer and its entry points (\<open>enforcement/command-explainer/patterns.ts\<close>,
  \<open>hitl/command-explainer.ts\<close>), and what of an explanation goes into the message for the operator
  (\<open>dispatchHitlChannel\<close> in \<open>index.ts\<close>).
\<close>

section \<open>The table of rules\<close>

definition PIP_INSTALL :: rx where
  "PIP_INSTALL = rx_seq [RBol, rx_lit ''pip'', rx_opt (rx_chr (CHR ''3'')), rx_plus (RClass js_space),
     rx_lit ''install'', RWordB]"

definition NC_OR_NETCAT :: rx where
  "NC_OR_NETCAT = rx_seq [RBol, RAlt (rx_lit ''nc'') (rx_lit ''netcat''), RWordB]"

definition APT_OR_APT_GET :: rx where
  "APT_OR_APT_GET = rx_seq [RBol, rx_lit ''apt'', rx_opt (rx_lit ''-get''), RWordB]"

text \<open>\<open>{ match: /^name\b/, explain }\<close>.\<close>

definition word_rule :: "string \<Rightarrow> rx" where
  "word_rule w = rx_seq [RBol, rx_lit w, RWordB]"

definition word :: "string \<Rightarrow> (string list \<Rightarrow> explain_result) \<Rightarrow> rx \<times> (string list \<Rightarrow> explain_result)" where
  "word w f = (word_rule w, f)"

definition rules :: "(rx \<times> (string list \<Rightarrow> explain_result)) list" where
  "rules =
     [word ''git'' gitExplain,
      word ''npm'' npmExplain,
      (PIP_INSTALL, pipInstall_ex),
      word ''pytest'' pytestExplain,
      word ''docker'' dockerExplain,
      word ''make'' makeExplain,
      word ''cargo'' cargoExplain,
      word ''go'' goExplain,
      word ''eslint'' eslintExplain,
      word ''prettier'' prettierExplain,
      word ''rmdir'' rmdirExplain,
      word ''rm'' rmExplain,
      word ''cp'' cpExplain,
      word ''mv'' mvExplain,
      word ''chmod'' chmodExplain,
      word ''mkdir'' mkdirExplain,
      word ''rsync'' rsyncExplain,
      word ''unlink'' unlinkExplain,
      word ''shred'' shredExplain,
      word ''grep'' grepExplain,
      word ''curl'' curlExplain,
      word ''wget'' wgetExplain,
      word ''ssh'' sshExplain,
      word ''mosh'' moshExplain,
      word ''telnet'' telnetExplain,
      word ''scp'' scpExplain,
      word ''sftp'' sftpExplain,
      (NC_OR_NETCAT, ncExplain),
      word ''systemctl'' systemctlExplain,
      word ''service'' serviceExplain,
      word ''reboot'' rebootExplain,
      word ''shutdown'' shutdownExplain,
      word ''init'' initExplain,
      word ''chown'' chownExplain,
      word ''umask'' umaskExplain,
      word ''sudo'' sudoExplain,
      word ''su'' suExplain,
      word ''passwd'' passwdExplain,
      word ''kill'' killExplain,
      word ''pkill'' pkillExplain,
      word ''killall'' killallExplain,
      word ''ping'' pingExplain,
      word ''traceroute'' tracerouteExplain,
      word ''nslookup'' (dnsLookupExplain True),
      word ''dig'' (dnsLookupExplain False),
      word ''netstat'' (netstatExplain ''netstat''),
      word ''ss'' (netstatExplain ''ss''),
      word ''nmap'' nmapExplain,
      word ''crontab'' crontabExplain,
      word ''atq'' atqExplain,
      word ''atrm'' atrmExplain,
      word ''at'' atExplain,
      word ''batch'' batchExplain,
      (APT_OR_APT_GET, aptExplain),
      word ''yum'' (yumDnfExplain ''yum''),
      word ''dnf'' (yumDnfExplain ''dnf''),
      word ''dpkg'' dpkgExplain,
      word ''snap'' snapExplain,
      word ''brew'' brewExplain,
      word ''pacman'' pacmanExplain,
      word ''kubectl'' kubectlExplain,
      word ''virsh'' virshExplain,
      word ''cat'' catExplain,
      word ''head'' headExplain,
      word ''tail'' tailExplain,
      word ''less'' lessExplain,
      word ''more'' moreExplain,
      word ''diff'' diffExplain,
      word ''find'' findExplain,
      word ''locate'' locateExplain,
      word ''tree'' treeExplain,
      word ''ls'' lsExplain,
      word ''tee'' teeExplain,
      word ''touch'' touchExplain,
      word ''echo'' echoExplain,
      word ''printf'' printfExplain,
      word ''tar'' tarExplain,
      word ''unzip'' unzipExplain,
      word ''zip'' zipExplain,
      word ''gunzip'' (decompressorExplain ''gunzip''),
      word ''bunzip2'' (decompressorExplain ''bunzip2''),
      word ''unxz'' (decompressorExplain ''unxz''),
      word ''gzip'' (compressExplain ''gzip''),
      word ''bzip2'' (compressExplain ''bzip2''),
      word ''xz'' (compressExplain ''xz''),
      word ''7z'' sevenZipExplain,
      word ''uname'' unameExplain,
      word ''ps'' psExplain,
      word ''top'' topExplain,
      word ''htop'' htopExplain,
      word ''df'' dfExplain,
      word ''du'' duExplain,
      word ''free'' freeExplain,
      word ''hostname'' hostnameExplain,
      word ''uptime'' uptimeExplain,
      word ''lsof'' lsofExplain,
      word ''id'' idExplain,
      word ''whoami'' whoamiExplain]"

section \<open>Explanations\<close>

definition explain :: "string \<Rightarrow> explain_result" where
  "explain command =
     (case split_words (js_trim command) of
        [] \<Rightarrow> explained ''Runs an unrecognised command'' [] []
      | binary # args \<Rightarrow>
          (case find (\<lambda>r. rx_test (fst r) command) rules of
             Some r \<Rightarrow> snd r args
           | None \<Rightarrow> explained (''Runs '' @ binary) [] []))"

text \<open>\<open>s.split(/\s+/)\<close>.\<close>

function split_space :: "string \<Rightarrow> string list" where
  "split_space [] = [[]]"
| "split_space (c # cs) =
     (if js_space c then [] # split_space (dropWhile js_space cs)
      else (case split_space cs of [] \<Rightarrow> [[c]] | t # ts \<Rightarrow> (c # t) # ts))"
  by pat_completeness auto
termination
  by (relation "measure length") (auto simp: less_Suc_eq_le length_dropWhile_le)

definition firstSubcommand :: "string list \<Rightarrow> string option" where
  "firstSubcommand tokens = find (\<lambda>t. \<not> starts_with t ''-'') (drop 1 tokens)"

definition with_sub :: "string \<Rightarrow> string option \<Rightarrow> string" where
  "with_sub binary sub = (if nonempty_word sub then (binary @ ''.'' @ (fallback sub '''')) else binary)"

definition inferActionClass :: "string \<Rightarrow> string option \<Rightarrow> string" where
  "inferActionClass binary sub =
     (if binary \<in> {''git'', ''npm'', ''docker'', ''cargo'', ''go''} then with_sub binary sub
      else if binary \<in> {''pip'', ''pip3''} then ''python.install''
      else if binary = ''pytest'' then ''python.test''
      else if binary = ''make'' then ''build.make''
      else if binary = ''eslint'' then ''lint.eslint''
      else if binary = ''prettier'' then ''lint.prettier''
      else if binary = ''rm'' then ''fs.delete''
      else if binary = ''cp'' then ''fs.copy''
      else if binary = ''mv'' then ''fs.move''
      else if binary = ''chmod'' then ''fs.chmod''
      else if binary = ''chown'' then ''fs.chown''
      else if binary = ''mkdir'' then ''fs.mkdir''
      else if binary = ''rsync'' then ''fs.sync''
      else if binary \<in> {''curl'', ''wget''} then ''network.fetch''
      else if binary = ''ssh'' then ''network.ssh''
      else if binary = ''scp'' then ''network.scp''
      else if binary \<in> {''nc'', ''netcat''} then ''network.connect''
      else ''unknown'')"

record command_explanation =
  ce_summary :: string
  ce_effects :: "string list"
  ce_warnings :: "string list"
  ce_inferred_action_class :: string

definition explainCommand :: "string \<Rightarrow> command_explanation" where
  "explainCommand command =
     (let trimmed = js_trim command in
      if trimmed = ''''
      then \<lparr>ce_summary = ''Runs an unrecognised command'', ce_effects = [], ce_warnings = [],
             ce_inferred_action_class = ''unknown''\<rparr>
      else (let tokens = split_space trimmed;
                r = explain trimmed
            in \<lparr>ce_summary = ex_summary r, ce_effects = ex_effects r, ce_warnings = ex_warnings r,
                ce_inferred_action_class =
                  inferActionClass (hd tokens) (firstSubcommand tokens)\<rparr>))"

section \<open>What the operator sees\<close>

text \<open>
  The fields an explanation adds to the message (\<open>sharedOpts\<close> in \<open>dispatchHitlChannel\<close>): none of them when
  \<open>CLAWTHORITY_HITL_MINIMAL\<close> is on, and no summary that only repeats the name of the program.
\<close>

record message_opts =
  mo_summary :: "string option"
  mo_explanation :: "string option"
  mo_effects :: "string list option"
  mo_warnings :: "string list option"
  mo_intentHint :: "string option"

definition some_list :: "'a list \<Rightarrow> 'a list option" where
  "some_list xs = (if xs \<noteq> [] then Some xs else None)"

definition sharedOpts :: "bool \<Rightarrow> string \<Rightarrow> string \<Rightarrow> string \<Rightarrow> string option \<Rightarrow> message_opts" where
  "sharedOpts minimal toolName action_class target intentHint =
     (let plain = \<lparr>mo_summary = buildHitlSummary toolName action_class target, mo_explanation = None,
                   mo_effects = None, mo_warnings = None, mo_intentHint = None\<rparr>;
          e = explainCommand target
      in if minimal then plain
         else plain\<lparr>mo_explanation :=
                      (if ce_summary e \<noteq> (''Runs '' @ (hd (split_space (js_trim target))))
                          \<and> ce_summary e \<noteq> ''Runs an unrecognised command''
                       then Some (ce_summary e) else None),
                    mo_effects := some_list (ce_effects e),
                    mo_warnings := some_list (ce_warnings e),
                    mo_intentHint := intentHint\<rparr>)"

end
