(* ===== verification/Messages.thy ===== *)
theory Messages
  imports Channels Explainer
begin

text \<open>
  The messages the channels send: the request for an approval, its confirmation and the question whether to
  save a pattern at Telegram (\<open>hitl/telegram.ts\<close>), the blocks and the confirmation at Slack (\<open>hitl/slack.ts\<close>), the
  prompt of the console (\<open>hitl/console.ts\<close>). Pictographs in headings are left out; a bullet, a long dash and
  the ellipsis of a cut text are each written as one character, the middle dot. Timeouts are integers.
\<close>

record approval_message =
  am_token :: string
  am_toolName :: string
  am_agentId :: string
  am_policyName :: string
  am_timeoutSeconds :: int
  am_action_class :: "string option"
  am_target :: "string option"
  am_summary :: "string option"
  am_expires_at :: "string option"
  am_verified :: "bool option"
  am_showApproveAlways :: "bool option"
  am_riskLevel :: "string option"
  am_explanation :: "string option"
  am_effects :: "string list option"
  am_warnings :: "string list option"
  am_rawCommand :: "string option"
  am_intentHint :: "string option"

definition wide :: string where
  "wide = [CHR 0xB7]"

definition backslash :: char where
  "backslash = CHR 0x5C"

text \<open>\<open>if (field) lines.push(...)\<close>, and a list that is given and not empty.\<close>

definition if_given :: "string option \<Rightarrow> (string \<Rightarrow> 'a list) \<Rightarrow> 'a list" where
  "if_given x f = (case x of Some s \<Rightarrow> if s \<noteq> '''' then f s else [] | None \<Rightarrow> [])"

definition if_listed :: "string list option \<Rightarrow> (string list \<Rightarrow> 'a list) \<Rightarrow> 'a list" where
  "if_listed x f = (case x of Some ss \<Rightarrow> if ss \<noteq> [] then f ss else [] | None \<Rightarrow> [])"

definition cut_text :: "nat \<Rightarrow> string \<Rightarrow> string" where
  "cut_text n s = (if length s > n then take (n - 1) s @ wide else s)"

definition text_lines :: "string list \<Rightarrow> string" where
  "text_lines ls = join [CHR 0x0A] ls"

section \<open>Telegram\<close>

definition MARKDOWN_RESERVED :: "char list" where
  "MARKDOWN_RESERVED = ''_*[]()~`>#+-=|{}.!'' @ [backslash]"

definition escapeMarkdownV2 :: "string \<Rightarrow> string" where
  "escapeMarkdownV2 s = concat (map (\<lambda>c. if c \<in> set MARKDOWN_RESERVED then [backslash, c] else [c]) s)"

definition escapeCodeSpan :: "string \<Rightarrow> string" where
  "escapeCodeSpan s = concat (map (\<lambda>c. if c = CHR ''`'' \<or> c = backslash then [backslash, c] else [c]) s)"

definition MAX_COMMAND_LENGTH :: nat where
  "MAX_COMMAND_LENGTH = 500"

definition truncateCommand :: "string \<Rightarrow> string" where
  "truncateCommand s = cut_text MAX_COMMAND_LENGTH s"

definition telegram_fields :: "approval_message \<Rightarrow> string list" where
  "telegram_fields m =
     (if am_verified m = Some False
      then [''*UNVERIFIED AGENT* '' @ wide @ '' the identity claim '' @ [CHR 0x22] @ escapeMarkdownV2 (am_agentId m)
              @ [CHR 0x22] @ '' could not be verified'' @ [backslash] @ ''. Treat with caution'' @ [backslash] @ ''.'', []]
      else [])
     @ [''*HITL Approval Request*'', []]
     @ [(''*Tool:* `'' @ (escapeCodeSpan (am_toolName m)) @ ''`''), (''*Agent:* `'' @ (escapeCodeSpan (am_agentId m)) @ ''`''),
        (''*Policy:* '' @ (escapeMarkdownV2 (am_policyName m)))]
     @ if_given (am_riskLevel m) (\<lambda>s. [(''*Risk:* '' @ (escapeMarkdownV2 s))])
     @ [(''*Expires in:* '' @ (int_str (am_timeoutSeconds m)) @ ''s'')]
     @ if_given (am_action_class m) (\<lambda>s. [(''*Action Class:* `'' @ (escapeCodeSpan s) @ ''`'')])
     @ if_given (am_target m) (\<lambda>s. [(''*Target:* `'' @ (escapeCodeSpan s) @ ''`'')])
     @ if_given (am_summary m) (\<lambda>s. [[], (''*Summary:* '' @ (escapeMarkdownV2 s))])
     @ if_given (am_explanation m) (\<lambda>s. [[], ''*Explanation:*'', escapeMarkdownV2 (truncateCommand s)])
     @ if_listed (am_effects m) (\<lambda>es. [[], ''*Effects:*''] @ map (\<lambda>e. wide @ '' '' @ escapeMarkdownV2 e) es)
     @ if_listed (am_warnings m) (\<lambda>ws. [[], ''*Warnings:*''] @ map (\<lambda>w. wide @ '' '' @ escapeMarkdownV2 w) ws)
     @ if_given (am_intentHint m) (\<lambda>s. [[], ''*Why this is happening:*'', escapeMarkdownV2 (cut_text 200 s)])"

definition telegram_lines :: "approval_message \<Rightarrow> string list" where
  "telegram_lines m =
     telegram_fields m
     @ if_given (am_rawCommand m)
         (\<lambda>s. [[], ''*Command:*'', ''```'' @ [CHR 0x0A] @ cut_text 200 s @ [CHR 0x0A] @ ''```''])
     @ [[]]
     @ if_given (am_expires_at m) (\<lambda>s. [(''*Expires at:* '' @ (escapeMarkdownV2 s))])
     @ [(''*Approval ID:* `'' @ (escapeCodeSpan (am_token m)) @ ''`'')]"

definition telegram_text :: "approval_message \<Rightarrow> string" where
  "telegram_text m = text_lines (telegram_lines m)"

text \<open>The body of the request to the Bot API: \<open>JSON.stringify\<close> of this object.\<close>

definition keyboard_json :: "(string \<times> string) list \<Rightarrow> json" where
  "keyboard_json row =
     JObj [(''inline_keyboard'', JArr [JArr (map (\<lambda>(t, d). JObj [(''text'', JStr t), (''callback_data'', JStr d)]) row)])]"

definition send_message_body :: "resolved_telegram \<Rightarrow> string \<Rightarrow> (string \<times> string) list \<Rightarrow> json" where
  "send_message_body config t row =
     JObj [(''chat_id'', JStr (rt_chatId config)), (''text'', JStr t), (''parse_mode'', JStr ''MarkdownV2''),
           (''reply_markup'', keyboard_json row)]"

definition shows_always :: "approval_message \<Rightarrow> bool" where
  "shows_always m \<longleftrightarrow> am_showApproveAlways m \<noteq> Some False"

definition telegram_body :: "resolved_telegram \<Rightarrow> approval_message \<Rightarrow> json" where
  "telegram_body config m =
     send_message_body config (telegram_text m) (telegram_keyboard (shows_always m) (am_token m))"

text \<open>
  The result of sending. The requests go through \<open>withRetry\<close>; the answer of an attempt is its status and the
  \<open>message_id\<close> of its body. A body that is not JSON throws, as a request that fails does.
\<close>

record send_result =
  sr_ok :: bool
  sr_messageId :: "int option"

definition not_sent :: send_result where
  "not_sent = \<lparr>sr_ok = False, sr_messageId = None\<rparr>"

definition ok_status :: "int \<Rightarrow> bool" where
  "ok_status s \<longleftrightarrow> 200 \<le> s \<and> s \<le> 299"

type_synonym reply_body = "int \<times> int option option"

definition parse_sent :: "reply_body \<Rightarrow> send_result option" where
  "parse_sent r =
     (case r of (status, body) \<Rightarrow>
        if \<not> ok_status status then Some not_sent
        else map_option (\<lambda>mid. \<lparr>sr_ok = True, sr_messageId = mid\<rparr>) body)"

text \<open>
  Sending through \<open>withRetry\<close>: each request of the loop is the same, what arrives is a function of the body and
  the attempt. Any throw ends in the result for a failure.
\<close>

definition send_through ::
  "(json \<Rightarrow> nat \<Rightarrow> 'r attempt_result) \<Rightarrow> ('r \<Rightarrow> 't option) \<Rightarrow> 't \<Rightarrow> int \<Rightarrow> (nat \<Rightarrow> rat) \<Rightarrow> (nat \<Rightarrow> int)
     \<Rightarrow> (nat \<Rightarrow> breaker \<Rightarrow> breaker) \<Rightarrow> json \<Rightarrow> breaker \<Rightarrow> 't \<times> breaker" where
  "send_through api parse failed now random clock other body b =
     (case withRetry now (api body) parse failed RETRY_DEFAULTS random clock other b of
        (res, n, slept, b') \<Rightarrow>
          ((case res of
              Parsed r \<Rightarrow> r
            | Fallback r \<Rightarrow> r
            | CallThrew \<Rightarrow> failed), b'))"

definition sendApprovalRequest ::
  "(json \<Rightarrow> nat \<Rightarrow> reply_body attempt_result) \<Rightarrow> int \<Rightarrow> (nat \<Rightarrow> rat) \<Rightarrow> (nat \<Rightarrow> int) \<Rightarrow> (nat \<Rightarrow> breaker \<Rightarrow> breaker)
     \<Rightarrow> resolved_telegram \<Rightarrow> approval_message \<Rightarrow> breaker \<Rightarrow> send_result \<times> breaker" where
  "sendApprovalRequest api now random clock other config m b =
     send_through api parse_sent not_sent now random clock other (telegram_body config m) b"

text \<open>The confirmation, also when it replaces the request: the decision stands in capitals.\<close>

definition decision_text :: "string \<Rightarrow> string \<Rightarrow> string \<Rightarrow> string" where
  "decision_text token decision toolName =
     (''Action `'' @ (escapeCodeSpan token) @ ''` '') @ wide @ ('' *'' @ (to_upper decision) @ ''*'') @ [CHR 0x0A]
     @ (''Tool: `'' @ (escapeCodeSpan toolName) @ ''`'')"

definition sendConfirmation :: "resolved_telegram \<Rightarrow> string \<Rightarrow> string \<Rightarrow> string \<Rightarrow> json" where
  "sendConfirmation config token decision toolName =
     JObj [(''chat_id'', JStr (rt_chatId config)), (''text'', JStr (decision_text token decision toolName)),
           (''parse_mode'', JStr ''MarkdownV2'')]"

definition editMessageDecision :: "resolved_telegram \<Rightarrow> int \<Rightarrow> string \<Rightarrow> string \<Rightarrow> string \<Rightarrow> json" where
  "editMessageDecision config messageId token decision toolName =
     JObj [(''chat_id'', JStr (rt_chatId config)), (''message_id'', JNum messageId),
           (''text'', JStr (decision_text token decision toolName)), (''parse_mode'', JStr ''MarkdownV2'')]"

text \<open>The decisions \<open>resolveHitlDecision\<close> confirms, and the confirmation after a decision of the operator.\<close>

definition confirmed_decision :: "string \<Rightarrow> bool \<Rightarrow> bool \<Rightarrow> string" where
  "confirmed_decision decision approvedAlways fallback_deny =
     (if decision = ''approved'' then (if approvedAlways then ''approved always'' else ''approved'')
      else if decision = ''denied'' then ''denied''
      else if fallback_deny then ''expired (denied)'' else ''expired (auto-approved)'')"

definition confirm_lines :: "string \<Rightarrow> string \<Rightarrow> string \<Rightarrow> string list" where
  "confirm_lines token pattern originalCommand =
     [''*Approve Always '' @ wide @ '' Confirm Pattern*'', [],
      ''Save the following auto'' @ [backslash] @ ''-permit rule?'', [],
      (''*Pattern:* `'' @ (escapeCodeSpan pattern) @ ''`''),
      (''*Original command:* `'' @ (escapeCodeSpan (truncateCommand originalCommand)) @ ''`''), [],
      ''Future commands matching this pattern will be auto'' @ [backslash] @ ''-approved without human review''
        @ [backslash] @ ''.'', [],
      (''*Approval ID:* `'' @ (escapeCodeSpan token) @ ''`'')]"

definition confirmation_body :: "resolved_telegram \<Rightarrow> string \<Rightarrow> string \<Rightarrow> string \<Rightarrow> json" where
  "confirmation_body config token pattern originalCommand =
     send_message_body config (text_lines (confirm_lines token pattern originalCommand)) (confirm_keyboard token)"

definition sendApproveAlwaysConfirmation ::
  "(json \<Rightarrow> nat \<Rightarrow> reply_body attempt_result) \<Rightarrow> int \<Rightarrow> (nat \<Rightarrow> rat) \<Rightarrow> (nat \<Rightarrow> int) \<Rightarrow> (nat \<Rightarrow> breaker \<Rightarrow> breaker)
     \<Rightarrow> resolved_telegram \<Rightarrow> string \<Rightarrow> string \<Rightarrow> string \<Rightarrow> breaker \<Rightarrow> send_result \<times> breaker" where
  "sendApproveAlwaysConfirmation api now random clock other config token pattern originalCommand b =
     send_through api parse_sent not_sent now random clock other
       (confirmation_body config token pattern originalCommand) b"

definition editApproveAlwaysConfirmation :: "resolved_telegram \<Rightarrow> int \<Rightarrow> string \<Rightarrow> bool \<Rightarrow> string \<Rightarrow> json" where
  "editApproveAlwaysConfirmation config messageId token saved pattern =
     JObj [(''chat_id'', JStr (rt_chatId config)), (''message_id'', JNum messageId),
           (''text'', JStr (text_lines
              [(''*Approve Always Pattern '' @ (if saved then ''SAVED'' else ''CANCELLED'') @ ''*''),
               (''*Pattern:* `'' @ (escapeCodeSpan pattern) @ ''`''), (''*Approval ID:* `'' @ (escapeCodeSpan token) @ ''`'')])),
           (''parse_mode'', JStr ''MarkdownV2'')]"

text \<open>The replies of the listener: a management text that is cut, and the answer to a button.\<close>

definition sendTextMessage :: "int \<Rightarrow> string \<Rightarrow> json" where
  "sendTextMessage chatId t =
     JObj [(''chat_id'', JNum chatId),
           (''text'', JStr (if length t > 3900 then take 3897 t @ ''...'' else t)),
           (''disable_web_page_preview'', JBool True)]"

definition answerCallbackQuery :: "string \<Rightarrow> string option \<Rightarrow> json" where
  "answerCallbackQuery queryId alertText =
     JObj ([(''callback_query_id'', JStr queryId)]
       @ if_given alertText (\<lambda>t. [(''text'', JStr t), (''show_alert'', JBool True)]))"

section \<open>Slack\<close>

definition slack_cut :: "string \<Rightarrow> string" where
  "slack_cut s = cut_text 100 s"

definition mrkdwn :: "string \<Rightarrow> json" where
  "mrkdwn t = JObj [(''type'', JStr ''mrkdwn''), (''text'', JStr t)]"

definition plain_text :: "string \<Rightarrow> json" where
  "plain_text t = JObj [(''type'', JStr ''plain_text''), (''text'', JStr t)]"

definition slack_section :: "string \<Rightarrow> json" where
  "slack_section t = JObj [(''type'', JStr ''section''), (''text'', mrkdwn t)]"

definition fields_section :: "json list \<Rightarrow> json" where
  "fields_section fs = JObj [(''type'', JStr ''section''), (''fields'', JArr fs)]"

definition slack_context :: "json list \<Rightarrow> json" where
  "slack_context es = JObj [(''type'', JStr ''context''), (''elements'', JArr es)]"

definition labelled :: "string \<Rightarrow> string \<Rightarrow> string" where
  "labelled label s = label @ [CHR 0x0A] @ s"

definition core_fields :: "approval_message \<Rightarrow> json list" where
  "core_fields m =
     [mrkdwn (labelled ''*Tool:*'' (''`'' @ (slack_cut (am_toolName m)) @ ''`'')),
      mrkdwn (labelled ''*Agent:*'' (''`'' @ (slack_cut (am_agentId m)) @ ''`'')),
      mrkdwn (labelled ''*Policy:*'' (slack_cut (am_policyName m))),
      mrkdwn (labelled ''*Expires in:*'' ((int_str (am_timeoutSeconds m)) @ ''s''))]
     @ if_given (am_riskLevel m) (\<lambda>s. [mrkdwn (labelled ''*Risk:*'' (slack_cut s))])"

definition optional_fields :: "approval_message \<Rightarrow> json list" where
  "optional_fields m =
     if_given (am_action_class m)
       (\<lambda>s. [mrkdwn (labelled '':closed_lock_with_key: *Action Class:*'' (''`'' @ (slack_cut s) @ ''`''))])
     @ if_given (am_target m) (\<lambda>s. [mrkdwn (labelled '':dart: *Target:*'' (''`'' @ (slack_cut s) @ ''`''))])"

definition slack_button :: "string \<Rightarrow> string \<Rightarrow> string \<Rightarrow> string \<Rightarrow> json" where
  "slack_button label style action_id value =
     JObj ([(''type'', JStr ''button''), (''text'', plain_text label)]
       @ (if style \<noteq> '''' then [(''style'', JStr style)] else [])
       @ [(''action_id'', JStr action_id), (''value'', JStr value)])"

definition slack_actions_block :: "approval_message \<Rightarrow> json" where
  "slack_actions_block m =
     JObj [(''type'', JStr ''actions''), (''block_id'', JStr (''hitl_'' @ (am_token m))),
       (''elements'', JArr
         ([slack_button ''Approve'' ''primary'' ''hitl_approve'' (''approve:'' @ (am_token m))]
          @ (if shows_always m
             then [slack_button ''Approve Always'' '''' ''hitl_approve_always'' (''approve_always:'' @ (am_token m))] else [])
          @ [slack_button ''Deny'' ''danger'' ''hitl_deny'' (''deny:'' @ (am_token m))]))]"

definition slack_blocks :: "approval_message \<Rightarrow> json list" where
  "slack_blocks m =
     (if am_verified m = Some False
      then [slack_section ('':warning: *UNVERIFIED AGENT* '' @ wide @ '' the identity claim '' @ [CHR 0x22]
              @ slack_cut (am_agentId m) @ [CHR 0x22] @ '' could not be verified. Treat with caution.'')]
      else [])
     @ [JObj [(''type'', JStr ''header''), (''text'', plain_text ''HITL Approval Request'')]]
     @ [fields_section (core_fields m)]
     @ (if optional_fields m \<noteq> [] then [fields_section (optional_fields m)] else [])
     @ if_given (am_summary m) (\<lambda>s. [slack_section ('':clipboard: *Summary:* '' @ (cut_text 200 s))])
     @ if_given (am_explanation m) (\<lambda>s. [slack_section (labelled '':mag: *Explanation:*'' (cut_text 500 s))])
     @ if_given (am_rawCommand m) (\<lambda>s. [slack_context [mrkdwn ('':computer: *Command:* `'' @ (cut_text 200 s) @ ''`'')]])
     @ if_listed (am_effects m)
         (\<lambda>es. [slack_section (labelled ''*Effects:*'' (text_lines (map (\<lambda>e. wide @ '' '' @ e) es)))])
     @ if_listed (am_warnings m)
         (\<lambda>ws. [slack_section (labelled ''*Warnings:*'' (text_lines (map (\<lambda>w. ('':warning: '' @ w)) ws)))])
     @ if_given (am_intentHint m)
         (\<lambda>s. [slack_section (labelled '':thinking_face: *Why this is happening:*'' (cut_text 200 s))])
     @ [slack_context ([mrkdwn ('':key: *Approval ID:* `'' @ (am_token m) @ ''`'')]
          @ if_given (am_expires_at m) (\<lambda>s. [mrkdwn ('':stopwatch: *Expires at:* '' @ s)]))]
     @ [JObj [(''type'', JStr ''divider'')]]
     @ [slack_actions_block m]"

definition slack_post_body :: "resolved_slack \<Rightarrow> approval_message \<Rightarrow> json" where
  "slack_post_body config m =
     JObj [(''channel'', JStr (rs_channelId config)),
           (''text'', JStr (''HITL Approval Request '' @ wide @ ('' '' @ (am_token m)))),
           (''blocks'', JArr (slack_blocks m))]"

record slack_sent =
  ss_ok :: bool
  ss_messageTs :: "string option"

definition not_posted :: slack_sent where
  "not_posted = \<lparr>ss_ok = False, ss_messageTs = None\<rparr>"

text \<open>The answer of an attempt: its status, and of its body \<open>ok\<close> and \<open>ts\<close>.\<close>

definition parse_posted :: "int \<times> (bool \<times> string option) option \<Rightarrow> slack_sent option" where
  "parse_posted r =
     (case r of (status, body) \<Rightarrow>
        if \<not> ok_status status then Some not_posted
        else map_option (\<lambda>(ok, ts). if ok then \<lparr>ss_ok = True, ss_messageTs = ts\<rparr> else not_posted) body)"

definition sendSlackApprovalRequest ::
  "(json \<Rightarrow> nat \<Rightarrow> (int \<times> (bool \<times> string option) option) attempt_result) \<Rightarrow> int \<Rightarrow> (nat \<Rightarrow> rat) \<Rightarrow> (nat \<Rightarrow> int)
     \<Rightarrow> (nat \<Rightarrow> breaker \<Rightarrow> breaker) \<Rightarrow> resolved_slack \<Rightarrow> approval_message \<Rightarrow> breaker \<Rightarrow> slack_sent \<times> breaker" where
  "sendSlackApprovalRequest api now random clock other config m b =
     send_through api parse_posted not_posted now random clock other (slack_post_body config m) b"

definition slack_emoji :: "string \<Rightarrow> string" where
  "slack_emoji decision = (if decision = ''approved'' then '':white_check_mark:'' else '':x:'')"

definition sendSlackConfirmation :: "resolved_slack \<Rightarrow> string \<Rightarrow> string \<Rightarrow> string \<Rightarrow> string \<Rightarrow> json" where
  "sendSlackConfirmation config token decision toolName messageTs =
     JObj [(''channel'', JStr (rs_channelId config)), (''ts'', JStr messageTs),
           (''text'', JStr ((''Action '' @ token @ '' '') @ wide @ ('' '' @ (to_upper decision)))),
           (''blocks'', JArr [slack_section
              (((slack_emoji decision) @ '' Action `'' @ token @ ''` '') @ wide @ ('' *'' @ (to_upper decision) @ ''*'') @ [CHR 0x0A]
               @ (''Tool: `'' @ toolName @ ''`''))])]"

section \<open>The console\<close>

definition ansi :: "string \<Rightarrow> string \<Rightarrow> string" where
  "ansi code s = [CHR 0x1B] @ (''['' @ code @ ''m'') @ s @ [CHR 0x1B] @ ''[0m''"

definition ansi_rule :: string where
  "ansi_rule = ansi ''2'' (concat (replicate 68 wide))"

definition console_lines :: "approval_message \<Rightarrow> string list" where
  "console_lines m =
     [ansi_rule, []]
     @ (if am_verified m = Some False
        then [ansi ''33'' ''UNVERIFIED AGENT'' @ '' '' @ wide @ '' the identity claim ''
                @ ansi ''1'' ([CHR 0x22] @ am_agentId m @ [CHR 0x22])
                @ '' could not be verified. Treat with caution.'', []]
        else [])
     @ [ansi ''1'' ''HITL Approval Request'', []]
     @ [ansi ''1'' ''Tool:'' @ (''       '' @ (am_toolName m)), ansi ''1'' ''Agent:'' @ (''      '' @ (am_agentId m)),
        ansi ''1'' ''Policy:'' @ (''     '' @ (am_policyName m))]
     @ if_given (am_riskLevel m) (\<lambda>s. [ansi ''1'' ''Risk:'' @ (''       '' @ s)])
     @ [ansi ''1'' ''Expires in:'' @ ('' '' @ (int_str (am_timeoutSeconds m)) @ ''s'')]
     @ if_given (am_action_class m) (\<lambda>s. [ansi ''1'' ''Action Class:'' @ ('' '' @ s)])
     @ if_given (am_target m) (\<lambda>s. [ansi ''1'' ''Target:'' @ (''       '' @ s)])
     @ if_given (am_summary m) (\<lambda>s. [[], ansi ''1'' ''Summary:'' @ ('' '' @ s)])
     @ if_given (am_explanation m) (\<lambda>s. [[], ansi ''1'' ''Explanation:'', cut_text 500 s])
     @ if_listed (am_effects m) (\<lambda>es. [[], ansi ''1'' ''Effects:''] @ map (\<lambda>e. ''  '' @ wide @ ('' '' @ e)) es)
     @ if_listed (am_warnings m)
         (\<lambda>ws. [[], ansi ''33'' ''Warnings:''] @ map (\<lambda>w. ''  '' @ wide @ '' '' @ ansi ''33'' w) ws)
     @ if_given (am_intentHint m) (\<lambda>s. [[], ansi ''1'' ''Why this is happening:'' @ ('' '' @ (cut_text 200 s))])
     @ if_given (am_rawCommand m) (\<lambda>s. [[], ansi ''2'' (''Command: '' @ (cut_text 200 s))])
     @ [[]]
     @ if_given (am_expires_at m) (\<lambda>s. [ansi ''1'' ''Expires at:'' @ ('' '' @ s)])
     @ [ansi ''1'' ''Approval ID:'' @ '' '' @ ansi ''36'' (am_token m)]
     @ [[], ansi_rule]
     @ (if shows_always m
        then [''  '' @ ansi ''32'' ''[1] Approve Once'' @ ''   '' @ ansi ''1'' ''[2] Approve Always'' @ ''   ''
                @ ansi ''31'' ''[3] Deny'']
        else [''  '' @ ansi ''32'' ''[1] Approve Once'' @ ''   '' @ ansi ''31'' ''[3] Deny''])
     @ [ansi_rule, []]"

definition console_text :: "approval_message \<Rightarrow> string" where
  "console_text m = text_lines (console_lines m) @ [CHR 0x0A]"

section \<open>The message of the plugin\<close>

text \<open>
  What \<open>dispatchHitlChannel\<close> hands to each channel: the request, and the shared fields of the explained command.
\<close>

definition approval_message_of ::
  "bool \<Rightarrow> bool \<Rightarrow> string \<Rightarrow> string \<Rightarrow> string \<Rightarrow> string \<Rightarrow> int \<Rightarrow> bool \<Rightarrow> string \<Rightarrow> string \<Rightarrow> string \<Rightarrow> string option
     \<Rightarrow> approval_message" where
  "approval_message_of minimal alwaysEnabled token toolName agentId policyName timeout verified action_class target
     expires_at intentHint =
     (let o' = sharedOpts minimal toolName action_class target intentHint
      in \<lparr>am_token = token, am_toolName = toolName, am_agentId = agentId, am_policyName = policyName,
          am_timeoutSeconds = timeout, am_action_class = Some action_class, am_target = Some target,
          am_summary = mo_summary o', am_expires_at = Some expires_at, am_verified = Some verified,
          am_showApproveAlways = Some alwaysEnabled, am_riskLevel = None, am_explanation = mo_explanation o',
          am_effects = mo_effects o', am_warnings = mo_warnings o', am_rawCommand = Some target,
          am_intentHint = mo_intentHint o'\<rparr>)"

end
