(* ===== verification/ExplainerProps.thy ===== *)
theory ExplainerProps
  imports Explainer
begin

text \<open>
  The command explainer: reading a quoted command line back, which rule explains which program, what is
  always warned of, and what a command can hide from its explanation.
\<close>

section \<open>Tokens\<close>

text \<open>
  A command line as a careful caller writes it: words without blanks and quotes as they are, words without
  a double quote in double quotes, the others in single quotes.
\<close>

definition bare_char :: "char \<Rightarrow> bool" where
  "bare_char c \<longleftrightarrow> c \<noteq> CHR 0x22 \<and> c \<noteq> CHR 0x27 \<and> \<not> js_space c"

definition shell_word :: "string \<Rightarrow> string" where
  "shell_word w =
     (if list_all bare_char w then w
      else if CHR 0x22 \<notin> set w then [CHR 0x22] @ w @ [CHR 0x22]
      else [CHR 0x27] @ w @ [CHR 0x27])"

definition command_line :: "string list \<Rightarrow> string" where
  "command_line ws = join '' '' (map shell_word ws)"

definition quotable :: "string \<Rightarrow> bool" where
  "quotable w \<longleftrightarrow> w \<noteq> '''' \<and> (CHR 0x22 \<notin> set w \<or> CHR 0x27 \<notin> set w)"

lemma bare_charD: "bare_char c \<Longrightarrow> c \<noteq> CHR 0x22 \<and> c \<noteq> CHR 0x27 \<and> c \<noteq> CHR '' ''"
  by (auto simp: bare_char_def js_space_def)

lemma tokenize_bare:
  "list_all bare_char w \<Longrightarrow> split_words_from (w @ s) cur False False = split_words_from s (cur @ w) False False"
  by (induction w arbitrary: cur) (auto dest: bare_charD)

lemma tokenize_double:
  "CHR 0x22 \<notin> set w \<Longrightarrow> split_words_from (w @ s) cur True False = split_words_from s (cur @ w) True False"
  by (induction w arbitrary: cur) auto

lemma tokenize_single:
  "CHR 0x27 \<notin> set w \<Longrightarrow> split_words_from (w @ s) cur False True = split_words_from s (cur @ w) False True"
  by (induction w arbitrary: cur) auto

lemma tokenize_word:
  "quotable w \<Longrightarrow> split_words_from (shell_word w @ s) cur False False = split_words_from s (cur @ w) False False"
  by (auto simp: shell_word_def quotable_def tokenize_bare tokenize_double tokenize_single)

lemma tokenize_words:
  "list_all quotable ws \<Longrightarrow> ws \<noteq> [] \<Longrightarrow> split_words_from (command_line ws) [] False False = ws"
proof (induction ws)
  case (Cons w ws)
  then have w: "quotable w" "w \<noteq> []" by (auto simp: quotable_def)
  show ?case
  proof (cases ws)
    case Nil
    with w tokenize_word [of w "[]" "[]"] show ?thesis by (simp add: command_line_def)
  next
    case (Cons v vs)
    with w tokenize_word [of w "'' '' @ command_line ws" "[]"] Cons.IH Cons.prems
    show ?thesis by (simp add: command_line_def)
  qed
qed simp

text \<open>Trimming leaves such a line as it is, when its first and last words do not begin or end with blanks.\<close>

lemma js_trim_id:
  assumes "s = [] \<or> \<not> js_space (hd s) \<and> \<not> js_space (last s)"
  shows "js_trim s = s"
proof -
  have "dropWhile js_space s = s" "dropWhile js_space (rev s) = rev s"
    using assms by (auto simp: dropWhile_eq_self_iff hd_rev)
  then show ?thesis by (simp add: js_trim_def)
qed

lemma tokenize_no_empty: "'''' \<notin> set (split_words_from s cur d q)"
  by (induction s cur d q rule: split_words_from.induct) auto

section \<open>The rules and the names of programs\<close>

lemma rx_test_bol: "rx_test (RSeq RBol r) s \<longleftrightarrow> (\<exists>u v. s = u @ v \<and> rx_lang r None u v)"
proof -
  have "last_of None x = None \<longleftrightarrow> x = []" for x by (simp add: last_of_def)
  then show ?thesis by (auto simp: rx_test_iff rx_lang_seqI)
qed

text \<open>A line that begins with a name of word characters that nothing of the kind follows.\<close>

definition program_name :: "string \<Rightarrow> bool" where
  "program_name w \<longleftrightarrow> w \<noteq> '''' \<and> list_all word_char w"

definition ends_name :: "string \<Rightarrow> bool" where
  "ends_name rest \<longleftrightarrow> (case rest of [] \<Rightarrow> True | c # _ \<Rightarrow> \<not> word_char c)"

lemma name_unique:
  assumes "list_all word_char v" "list_all word_char w" "ends_name a" "ends_name b"
  shows "v @ a = w @ b \<longleftrightarrow> v = w \<and> a = b"
  using assms
proof (induction v arbitrary: w)
  case Nil
  then show ?case by (cases w) (auto simp: ends_name_def)
next
  case (Cons c v)
  then show ?case by (cases w) (auto simp: ends_name_def)
qed

lemma boundary_ends: "program_name w \<Longrightarrow> word_boundary (last_of None w) s \<longleftrightarrow> ends_name s"
  by (auto simp: word_boundary_def last_of_def program_name_def ends_name_def list_all_iff split: list.splits)

lemma lang_lit: "rx_lang (RSeq (rx_lit s) r) p u v \<longleftrightarrow> (\<exists>y. u = s @ y \<and> rx_lang r (last_of p s) y v)"
  by (simp add: rx_lang_seqI)

lemma word_rule_test: "rx_test (word_rule v) s \<longleftrightarrow> (\<exists>t. s = v @ t \<and> word_boundary (last_of None v) t)"
  by (simp add: word_rule_def rx_test_bol lang_lit)

lemma word_rule_iff:
  assumes "program_name v" "program_name w" "ends_name rest"
  shows "rx_test (word_rule v) (w @ rest) \<longleftrightarrow> w = v"
proof -
  have "rx_test (word_rule v) (w @ rest) \<longleftrightarrow> (\<exists>s. w @ rest = v @ s \<and> ends_name s)"
    using boundary_ends [OF assms(1)] by (simp add: word_rule_test)
  also have "\<dots> \<longleftrightarrow> w = v"
    using name_unique [of w v rest] assms by (auto simp: program_name_def)
  finally show ?thesis .
qed

lemma names: "program_name ''nc''" "program_name ''netcat''" "program_name ''apt''"
  by (simp_all add: program_name_def word_char_def)

lemma nc_rule_iff:
  assumes "program_name w" "ends_name rest"
  shows "rx_test NC_OR_NETCAT (w @ rest) \<longleftrightarrow> w = ''nc'' \<or> w = ''netcat''"
proof -
  have "rx_test NC_OR_NETCAT s \<longleftrightarrow> rx_test (word_rule ''nc'') s \<or> rx_test (word_rule ''netcat'') s" for s
    unfolding NC_OR_NETCAT_def word_rule_def rx_seq.simps rx_test_bol rx_lang_seqI rx_lang_alt by blast
  then show ?thesis using word_rule_iff [OF _ assms] names by simp
qed

lemma apt_rule_iff:
  assumes "program_name w" "ends_name rest"
  shows "rx_test APT_OR_APT_GET (w @ rest) \<longleftrightarrow> w = ''apt''"
proof
  assume "w = ''apt''"
  then have "rx_test (word_rule ''apt'') (w @ rest)" using word_rule_iff [OF names(3) assms] by simp
  then show "rx_test APT_OR_APT_GET (w @ rest)"
    unfolding APT_OR_APT_GET_def word_rule_def rx_seq.simps rx_test_bol rx_lang_seqI rx_lang_opt
    by (metis append_Nil2 last_of_simps(1) self_append_conv2)
next
  assume "rx_test APT_OR_APT_GET (w @ rest)"
  then obtain v where v: "w @ rest = ''apt'' @ v" "ends_name v \<or> (\<exists>t. v = CHR ''-'' # t)"
    by (auto simp: APT_OR_APT_GET_def rx_test_bol lang_lit rx_lang_seqI boundary_ends [OF names(3)])
  then have "ends_name v" by (auto simp: ends_name_def word_char_def)
  then show "w = ''apt''"
    using name_unique [of w "''apt''" rest v] v(1) assms names(3) by (simp add: program_name_def)
qed

text \<open>
  The dictionary that the table amounts to. The rule of pip and pip3 asks for the word install, too. Names
  with other characters do not occur: \<open>apt-get\<close> begins with the name apt.
\<close>

definition programs :: "(string list \<times> (string list \<Rightarrow> explain_result)) list" where
  "programs =
     [([''git''], gitExplain),
      ([''npm''], npmExplain),
      ([''pip'', ''pip3''], pipInstall_ex),
      ([''pytest''], pytestExplain),
      ([''docker''], dockerExplain),
      ([''make''], makeExplain),
      ([''cargo''], cargoExplain),
      ([''go''], goExplain),
      ([''eslint''], eslintExplain),
      ([''prettier''], prettierExplain),
      ([''rmdir''], rmdirExplain),
      ([''rm''], rmExplain),
      ([''cp''], cpExplain),
      ([''mv''], mvExplain),
      ([''chmod''], chmodExplain),
      ([''mkdir''], mkdirExplain),
      ([''rsync''], rsyncExplain),
      ([''unlink''], unlinkExplain),
      ([''shred''], shredExplain),
      ([''grep''], grepExplain),
      ([''curl''], curlExplain),
      ([''wget''], wgetExplain),
      ([''ssh''], sshExplain),
      ([''mosh''], moshExplain),
      ([''telnet''], telnetExplain),
      ([''scp''], scpExplain),
      ([''sftp''], sftpExplain),
      ([''nc'', ''netcat''], ncExplain),
      ([''systemctl''], systemctlExplain),
      ([''service''], serviceExplain),
      ([''reboot''], rebootExplain),
      ([''shutdown''], shutdownExplain),
      ([''init''], initExplain),
      ([''chown''], chownExplain),
      ([''umask''], umaskExplain),
      ([''sudo''], sudoExplain),
      ([''su''], suExplain),
      ([''passwd''], passwdExplain),
      ([''kill''], killExplain),
      ([''pkill''], pkillExplain),
      ([''killall''], killallExplain),
      ([''ping''], pingExplain),
      ([''traceroute''], tracerouteExplain),
      ([''nslookup''], (dnsLookupExplain True)),
      ([''dig''], (dnsLookupExplain False)),
      ([''netstat''], (netstatExplain ''netstat'')),
      ([''ss''], (netstatExplain ''ss'')),
      ([''nmap''], nmapExplain),
      ([''crontab''], crontabExplain),
      ([''atq''], atqExplain),
      ([''atrm''], atrmExplain),
      ([''at''], atExplain),
      ([''batch''], batchExplain),
      ([''apt''], aptExplain),
      ([''yum''], (yumDnfExplain ''yum'')),
      ([''dnf''], (yumDnfExplain ''dnf'')),
      ([''dpkg''], dpkgExplain),
      ([''snap''], snapExplain),
      ([''brew''], brewExplain),
      ([''pacman''], pacmanExplain),
      ([''kubectl''], kubectlExplain),
      ([''virsh''], virshExplain),
      ([''cat''], catExplain),
      ([''head''], headExplain),
      ([''tail''], tailExplain),
      ([''less''], lessExplain),
      ([''more''], moreExplain),
      ([''diff''], diffExplain),
      ([''find''], findExplain),
      ([''locate''], locateExplain),
      ([''tree''], treeExplain),
      ([''ls''], lsExplain),
      ([''tee''], teeExplain),
      ([''touch''], touchExplain),
      ([''echo''], echoExplain),
      ([''printf''], printfExplain),
      ([''tar''], tarExplain),
      ([''unzip''], unzipExplain),
      ([''zip''], zipExplain),
      ([''gunzip''], (decompressorExplain ''gunzip'')),
      ([''bunzip2''], (decompressorExplain ''bunzip2'')),
      ([''unxz''], (decompressorExplain ''unxz'')),
      ([''gzip''], (compressExplain ''gzip'')),
      ([''bzip2''], (compressExplain ''bzip2'')),
      ([''xz''], (compressExplain ''xz'')),
      ([''7z''], sevenZipExplain),
      ([''uname''], unameExplain),
      ([''ps''], psExplain),
      ([''top''], topExplain),
      ([''htop''], htopExplain),
      ([''df''], dfExplain),
      ([''du''], duExplain),
      ([''free''], freeExplain),
      ([''hostname''], hostnameExplain),
      ([''uptime''], uptimeExplain),
      ([''lsof''], lsofExplain),
      ([''id''], idExplain),
      ([''whoami''], whoamiExplain)]"

definition explainer_of :: "string \<Rightarrow> (string list \<Rightarrow> explain_result) option" where
  "explainer_of w = map_option snd (find (\<lambda>p. w \<in> set (fst p)) programs)"

lemma pip_rule:
  assumes "program_name w" "ends_name rest" "w \<notin> {''pip'', ''pip3''}"
  shows "\<not> rx_test PIP_INSTALL (w @ rest)"
proof
  assume "rx_test PIP_INSTALL (w @ rest)"
  then obtain y v where y: "w @ rest = ''pip'' @ y @ v"
      "rx_lang (RSeq (rx_opt (rx_chr (CHR ''3''))) (RSeq (rx_plus (RClass js_space)) (RSeq (rx_lit ''install'') RWordB)))
         (last_of None ''pip'') y v"
    unfolding PIP_INSTALL_def rx_seq.simps rx_test_bol lang_lit by auto
  obtain a b z where z: "y = a @ b @ z" "a = [] \<or> a = ''3''" "b \<noteq> []" "list_all js_space b"
    using y(2) unfolding rx_lang_seqI [of "rx_opt (rx_chr (CHR ''3''))"] rx_lang_seqI [of "rx_plus (RClass js_space)"]
    by (auto simp: list_all_iff)
  then obtain x where p: "w @ rest = x @ b @ z @ v" "x \<in> {''pip'', ''pip3''}"
    using y(1) by auto
  have "ends_name (b @ z @ v)" "program_name x"
    using p(2) z(3,4) by (cases b; auto simp: ends_name_def js_space_def word_char_def Let_def program_name_def)+
  with p assms name_unique [of w x rest "b @ z @ v"] show False
    by (auto simp: program_name_def)
qed

lemma find_both:
  "list_all2 (\<lambda>r p. (P r \<longleftrightarrow> Q p) \<and> snd r = snd p) rs ps \<Longrightarrow> map_option snd (find P rs) = map_option snd (find Q ps)"
  by (induction rule: list_all2_induct) auto

lemma rules_programs:
  assumes "program_name w" "ends_name rest" "w \<notin> {''pip'', ''pip3''}"
  shows "map_option snd (find (\<lambda>r. rx_test (fst r) (w @ rest)) rules) = explainer_of w"
proof -
  have n: "program_name v \<Longrightarrow> rx_test (word_rule v) (w @ rest) \<longleftrightarrow> w = v" for v
    using word_rule_iff assms by blast
  have "list_all2 (\<lambda>r p. (rx_test (fst r) (w @ rest) \<longleftrightarrow> w \<in> set (fst p)) \<and> snd r = snd p) rules programs"
    using pip_rule [OF assms] nc_rule_iff [OF assms(1,2)] apt_rule_iff [OF assms(1,2)] assms(3)
    by (simp add: rules_def programs_def word_def n program_name_def word_char_def)
  then show ?thesis unfolding explainer_of_def by (rule find_both)
qed

lemma tokenize_cur: "cur \<noteq> [] \<Longrightarrow> split_words_from s cur d q \<noteq> []"
  by (induction s cur d q rule: split_words_from.induct) auto

lemma word_char_plain: "word_char c \<Longrightarrow> bare_char c"
  by (auto simp: word_char_def bare_char_def js_space_def Let_def)

lemma trim_keeps_start:
  assumes "\<not> js_space c" shows "\<exists>s'. js_trim (c # s) = c # s'"
proof -
  have "\<exists>t'. dropWhile js_space (t @ [c]) = t' @ [c]" for t
    using assms by (induction t) auto
  then show ?thesis using assms by (auto simp: js_trim_def) (metis rev.simps(2) rev_rev_ident)
qed

lemma tokens_of_name:
  assumes "program_name w" shows "split_words (js_trim (w @ rest)) \<noteq> []"
proof -
  obtain c cs where w: "w = c # cs" "word_char c" using assms by (cases w) (auto simp: program_name_def)
  have c: "bare_char c" using w(2) by (rule word_char_plain)
  with trim_keeps_start [of c "cs @ rest"] obtain s' where "js_trim (w @ rest) = c # s'"
    unfolding w by (auto simp: bare_char_def)
  then show ?thesis using bare_charD [OF c] by (simp add: split_words_def tokenize_cur)
qed

lemma explain_named:
  assumes "program_name w" "ends_name rest" "w \<notin> {''pip'', ''pip3''}"
  shows "explain (w @ rest) =
    (let ts = split_words (js_trim (w @ rest))
     in case explainer_of w of Some f \<Rightarrow> f (tl ts) | None \<Rightarrow> explained (''Runs '' @ hd ts) [] [])"
proof -
  obtain b args where t: "split_words (js_trim (w @ rest)) = b # args"
    using tokens_of_name [OF assms(1)] by (metis list.exhaust)
  show ?thesis
    unfolding explain_def t rules_programs [OF assms, symmetric]
    by (cases "find (\<lambda>r. rx_test (fst r) (w @ rest)) rules") simp_all
qed

lemma shell_word_ends: "quotable w \<Longrightarrow> shell_word w \<noteq> [] \<and> \<not> js_space (hd (shell_word w)) \<and> \<not> js_space (last (shell_word w))"
  by (auto simp: shell_word_def quotable_def list_all_iff bare_char_def js_space_def Let_def)

lemma command_line_last:
  "list_all quotable ws \<Longrightarrow> ws \<noteq> [] \<Longrightarrow> command_line ws \<noteq> [] \<and> \<not> js_space (last (command_line ws))"
proof (induction ws)
  case (Cons w ws)
  then show ?case using shell_word_ends [of w]
    by (cases ws) (auto simp: command_line_def)
qed simp

lemma command_line_trim:
  assumes "list_all quotable ws" shows "js_trim (command_line ws) = command_line ws"
proof (cases ws)
  case (Cons w vs)
  with assms have "\<not> js_space (hd (command_line ws))"
    using shell_word_ends [of w] by (cases vs) (auto simp: command_line_def)
  then show ?thesis using js_trim_id command_line_last [of ws] assms Cons by blast
qed (simp add: command_line_def js_trim_def)

lemma name_quotable: "program_name w \<Longrightarrow> quotable w \<and> shell_word w = w"
  using word_char_plain by (auto simp: program_name_def quotable_def shell_word_def list_all_iff bare_char_def)

lemma command_line_name:
  assumes "program_name w"
  shows "\<exists>rest. command_line (w # ws) = w @ rest \<and> ends_name rest"
  using name_quotable [OF assms]
  by (cases ws) (auto simp: command_line_def ends_name_def word_char_def intro: exI [of _ "[]"])

lemma explain_line:
  assumes "program_name w" "w \<notin> {''pip'', ''pip3''}" "list_all quotable ws"
  shows "explain (command_line (w # ws)) =
    (case explainer_of w of Some f \<Rightarrow> f ws | None \<Rightarrow> explained (''Runs '' @ w) [] [])"
proof -
  obtain rest where r: "command_line (w # ws) = w @ rest" "ends_name rest"
    using command_line_name [OF assms(1)] by blast
  have q: "list_all quotable (w # ws)" using assms name_quotable by simp
  have "split_words (js_trim (w @ rest)) = w # ws"
    unfolding r(1) [symmetric] command_line_trim [OF q] split_words_def by (rule tokenize_words [OF q]) simp
  then show ?thesis
    unfolding r(1) explain_named [OF assms(1) r(2) assms(2)] by (simp add: Let_def split: option.split)
qed

section \<open>The commands of the table\<close>

text \<open>C17.  On a command line whose words are quoted as they need, the explainer is a dictionary: it reads back
  exactly the words and hands those behind the name of the program to the explainer the dictionary has for
  it, whatever the order and the regular expressions of the rules; another program is named. The name of the
  program is of word characters, so without a dash or a dot, and is not pip or pip3, whose rules look at the
  subcommand; a word is not empty and has not both kinds of quotes.\<close>

theorem explain_dispatch:
  assumes "program_name w" "w \<notin> {''pip'', ''pip3''}" "list_all quotable ws"
  shows "split_words (command_line (w # ws)) = w # ws
    \<and> explain (command_line (w # ws)) =
        (case explainer_of w of Some f \<Rightarrow> f ws | None \<Rightarrow> explained (''Runs '' @ w) [] [])"
proof -
  have "split_words (command_line (w # ws)) = w # ws"
    unfolding split_words_def using assms name_quotable by (intro tokenize_words) simp_all
  with explain_line [OF assms] show ?thesis by simp
qed

lemma explain_dispatch_witness:
  "explain (command_line [''git'', ''push'', ''my fork'', ''--force'']) =
     explained ''Pushes local commits to my fork'' [''Modifies remote branch''] [''Force push rewrites remote history'']"
  using explain_dispatch [of "''git''" "[''push'', ''my fork'', ''--force'']"]
  by (simp add: program_name_def word_char_def quotable_def explainer_of_def programs_def gitExplain_def
      gitPush_ex_def arg_def fallback_def nonempty_word_def has_any_def positionalArgs_def starts_with_def)

section \<open>What is always warned of\<close>

text \<open>The programs whose explanation has a warning with whatever arguments.\<close>

definition always_warned :: "string list" where
  "always_warned =
     [''rm'', ''unlink'', ''shred'', ''sudo'', ''su'', ''passwd'', ''pkill'', ''killall'', ''nmap'', ''atrm'',
      ''batch'', ''reboot'', ''ssh'', ''mosh'', ''telnet'', ''sftp'', ''unzip'', ''gunzip'', ''bunzip2'', ''unxz'',
      ''less'', ''more'', ''top'', ''htop'']"

lemmas warned_explainers = rmExplain_def unlinkExplain_def shredExplain_def sudoExplain_def suExplain_def
  passwdExplain_def pkillExplain_def killallExplain_def nmapExplain_def atrmExplain_def batchExplain_def
  rebootExplain_def host_down_def sshExplain_def moshExplain_def telnetExplain_def sftpExplain_def
  unzipExplain_def decompressorExplain_def lessExplain_def moreExplain_def topExplain_def htopExplain_def
  elevation_warnings_def explained_def Let_def

definition warns :: "(string list \<Rightarrow> explain_result) \<Rightarrow> bool" where
  "warns f \<longleftrightarrow> (\<forall>args. ex_warnings (f args) \<noteq> [])"

lemma always_warned_explainers:
  "list_all (\<lambda>w. program_name w \<and> w \<notin> {''pip'', ''pip3''}) always_warned"
  "list_all (\<lambda>w. \<exists>f. explainer_of w = Some f \<and> warns f) always_warned"
  by (simp_all add: always_warned_def program_name_def word_char_def explainer_of_def programs_def warns_def
      warned_explainers split: prod.split)

text \<open>C18.  Removal of files, change of user, signals by name, port scans, remote sessions and unpacking of archives
  never reach the operator without a warning: every command that begins with the name of such a program,
  with whatever behind it, is explained with at least one.\<close>

theorem dangerous_always_warned:
  assumes "w \<in> set always_warned" "ends_name rest"
  shows "ex_warnings (explain (w @ rest)) \<noteq> []"
proof -
  have w: "program_name w" "w \<notin> {''pip'', ''pip3''}" and "\<exists>f. explainer_of w = Some f \<and> warns f"
    using always_warned_explainers assms(1) unfolding list_all_iff by blast+
  then show ?thesis
    unfolding explain_named [OF w(1) assms(2) w(2)] by (auto simp: warns_def Let_def)
qed

lemma dangerous_always_warned_witness:
  "ex_warnings (explain (''sudo'' @ '' -u root rm -rf /srv'')) \<noteq> []"
  by (rule dangerous_always_warned) (simp_all add: always_warned_def ends_name_def word_char_def)

section \<open>Removal\<close>

text \<open>
  How rm reads its command line: a word that begins with a dash is an option, unless it is the dash alone, up to
  a double dash; what follows that and the other words are the names of what is to be deleted.
\<close>

definition flag_word :: "string \<Rightarrow> bool" where
  "flag_word w \<longleftrightarrow> starts_with w ''-'' \<and> w \<noteq> ''-''"

fun rm_flags :: "string list \<Rightarrow> string list" where
  "rm_flags [] = []"
| "rm_flags (w # ws) =
     (if w = ''--'' then [] else if flag_word w then w # rm_flags ws else rm_flags ws)"

fun rm_names :: "string list \<Rightarrow> string list" where
  "rm_names [] = []"
| "rm_names (w # ws) =
     (if w = ''--'' then ws else if flag_word w then rm_names ws else w # rm_names ws)"

text \<open>The option is given by its long name, or by its letter among those behind a single dash.\<close>

definition flag_given :: "string \<Rightarrow> string \<Rightarrow> string \<Rightarrow> bool" where
  "flag_given long letters w \<longleftrightarrow> w = long \<or> (\<not> starts_with w ''--'' \<and> list_ex (\<lambda>l. l \<in> set letters) (tl w))"

definition rm_takes_trees :: "string list \<Rightarrow> bool" where
  "rm_takes_trees ws \<longleftrightarrow> list_ex (flag_given ''--recursive'' ''rR'') (rm_flags ws)"

definition rm_forced :: "string list \<Rightarrow> bool" where
  "rm_forced ws \<longleftrightarrow> list_ex (flag_given ''--force'' ''f'') (rm_flags ws)"

text \<open>The options rm knows, the long ones in full (rm itself takes their beginnings as well).\<close>

definition RM_LONG :: "string list" where
  "RM_LONG = [''--force'', ''--interactive'', ''--one-file-system'', ''--no-preserve-root'', ''--preserve-root'',
     ''--recursive'', ''--dir'', ''--verbose'', ''--help'', ''--version'']"

definition rm_known :: "string \<Rightarrow> bool" where
  "rm_known w \<longleftrightarrow>
     (if starts_with w ''--''
      then w \<in> set RM_LONG \<or> starts_with w ''--interactive='' \<or> starts_with w ''--preserve-root=''
      else list_all (\<lambda>l. l \<in> set ''fiIrRdv'') (tl w))"

text \<open>What the explainer takes for such an option: the long word, or a bundle of letters, in any place.\<close>

definition rm_option :: "string \<Rightarrow> string \<Rightarrow> string \<Rightarrow> bool" where
  "rm_option long cs t \<longleftrightarrow>
     t = long
     \<or> (case t of c # ls \<Rightarrow> c = CHR ''-'' \<and> ls \<noteq> [] \<and> list_all ascii_letter ls \<and> list_ex (\<lambda>l. l \<in> set cs) ls
        | [] \<Rightarrow> False)"

lemma flag_bundle: "rx_test FLAG_BUNDLE t \<longleftrightarrow> (\<exists>ls. t = CHR ''-'' # ls \<and> ls \<noteq> [] \<and> list_all ascii_letter ls)"
  by (auto simp: FLAG_BUNDLE_def rx_test_bol rx_lang_seqI list_all_iff)

lemma includes_char: "js_includes t [c] \<longleftrightarrow> c \<in> set t"
  by (induction t) (auto simp: starts_with_def)

lemma option_letters: "ascii_letter (CHR ''r'')" "ascii_letter (CHR ''R'')" "ascii_letter (CHR ''f'')"
  by (simp_all add: ascii_letter_def is_lower_def is_upper_def)

lemma flag_letters:
  "CHR ''-'' \<notin> set cs \<Longrightarrow> rx_test FLAG_BUNDLE t \<and> (\<exists>c\<in>set cs. js_includes t [c]) \<longleftrightarrow>
     (case t of c # ls \<Rightarrow> c = CHR ''-'' \<and> ls \<noteq> [] \<and> list_all ascii_letter ls \<and> list_ex (\<lambda>l. l \<in> set cs) ls
      | [] \<Rightarrow> False)"
  unfolding flag_bundle includes_char by (cases t) (auto simp: list_ex_iff)

lemma rm_recursive_option: "rm_recursive_arg t \<longleftrightarrow> rm_option ''--recursive'' ''rR'' t"
proof -
  have "t = ''-r'' \<or> t = ''-R'' \<Longrightarrow> rm_option ''--recursive'' ''rR'' t"
    using option_letters by (auto simp: rm_option_def)
  then show ?thesis
    using flag_letters [of "''rR''" t] by (auto simp: rm_recursive_arg_def rm_option_def)
qed

lemma rm_force_option: "rm_force_arg t \<longleftrightarrow> rm_option ''--force'' ''f'' t"
proof -
  have "t = ''-f'' \<Longrightarrow> rm_option ''--force'' ''f'' t"
    using option_letters by (auto simp: rm_option_def)
  then show ?thesis
    using flag_letters [of "''f''" t] by (auto simp: rm_force_arg_def rm_option_def)
qed

lemma explain_rm: "list_all quotable ws \<Longrightarrow> explain (command_line (''rm'' # ws)) = rmExplain ws"
  using explain_line [of "''rm''" ws] by (simp add: program_name_def word_char_def explainer_of_def programs_def)

lemma starts_dash_iff: "starts_with w ''-'' \<longleftrightarrow> (\<exists>ls. w = CHR ''-'' # ls)"
  by (cases w) (auto simp: starts_with_def)

lemma starts_dashes_iff: "starts_with w ''--'' \<longleftrightarrow> (\<exists>ls. w = CHR ''-'' # CHR ''-'' # ls)"
  by (cases w; cases "tl w") (auto simp: starts_with_def)

lemma known_letters: "\<forall>l. l \<in> set ''fiIrRdv'' \<longrightarrow> ascii_letter l"
  by (simp add: ascii_letter_def is_lower_def is_upper_def)

text \<open>On a word that is a name or a known option, the two readings agree.\<close>

lemma rm_option_agrees:
  assumes "w \<noteq> ''-''" "flag_word w \<longrightarrow> rm_known w" and "starts_with long ''--''" "long \<noteq> ''--''"
  shows "rm_option long letters w \<longleftrightarrow> flag_word w \<and> flag_given long letters w"
proof (cases "starts_with w ''-''")
  case False
  with assms(3) show ?thesis by (auto simp: rm_option_def flag_word_def starts_dash_iff starts_dashes_iff split: list.split)
next
  case True
  then obtain ls where w: "w = CHR ''-'' # ls" "ls \<noteq> []" using assms(1) by (auto simp: starts_dash_iff)
  have flag: "flag_word w" using True assms(1) by (simp add: flag_word_def)
  show ?thesis
  proof (cases "starts_with w ''--''")
    case long: True
    then obtain v where "ls = CHR ''-'' # v" using w by (auto simp: starts_dashes_iff)
    moreover have "\<not> ascii_letter (CHR ''-'')" by (simp add: ascii_letter_def is_lower_def is_upper_def)
    ultimately show ?thesis using w flag long by (simp add: rm_option_def flag_given_def)
  next
    case False
    with assms(2) flag w have "list_all (\<lambda>l. l \<in> set ''fiIrRdv'') ls" by (simp add: rm_known_def)
    then have "list_all ascii_letter ls" using known_letters unfolding list_all_iff by blast
    with w flag False assms(3) show ?thesis by (auto simp: rm_option_def flag_given_def)
  qed
qed

lemma rm_flags_words: "rm_flags ws = filter flag_word (takeWhile (\<lambda>w. w \<noteq> ''--'') ws)"
  by (induction ws) simp_all

lemma rm_names_words: "''--'' \<notin> set ws \<Longrightarrow> ''-'' \<notin> set ws \<Longrightarrow> rm_names ws = positionalArgs ws"
  by (induction ws) (auto simp: positionalArgs_def flag_word_def)

lemma rm_seen:
  assumes "''-'' \<notin> set ws" "list_all rm_known (rm_flags ws)" "starts_with long ''--''" "long \<noteq> ''--''"
  shows "list_ex (flag_given long letters) (rm_flags ws)
    \<longleftrightarrow> list_ex (rm_option long letters) (takeWhile (\<lambda>w. w \<noteq> ''--'') ws)"
proof -
  have "rm_option long letters w \<longleftrightarrow> flag_word w \<and> flag_given long letters w"
    if "w \<in> set (takeWhile (\<lambda>w. w \<noteq> ''--'') ws)" for w
    using rm_option_agrees [of w long letters] assms that
    by (auto simp: rm_flags_words list_all_iff dest: set_takeWhileD)
  then show ?thesis unfolding rm_flags_words list_ex_iff by auto
qed

text \<open>C19.  A removal is shown for what it is. On a quoted command line of rm whose options are ones rm knows, the
  long ones in full, and where no word is a lone dash: whenever rm reads an option for whole trees the operator
  is warned of it, and whenever it reads an option that switches the prompts off the operator is warned of that.
  Without a double dash the warnings are given exactly then, and the summary names, in order, exactly the files
  rm is asked to delete, as whole trees exactly when it takes them. (With a double dash names that begin with a
  dash are left out: double_dash_hides; an abbreviated option is not seen: abbreviation_unwarned.)\<close>

theorem removal_shown:
  assumes "list_all quotable ws" "''-'' \<notin> set ws" "list_all rm_known (rm_flags ws)"
  defines "e == explain (command_line (''rm'' # ws))"
  defines "trees == ''-r flag removes entire directory trees'' \<in> set (ex_warnings e)"
    and "forced == ''-f flag suppresses confirmation prompts'' \<in> set (ex_warnings e)"
  shows "(rm_takes_trees ws \<longrightarrow> trees) \<and> (rm_forced ws \<longrightarrow> forced)
    \<and> (''--'' \<notin> set ws \<longrightarrow>
         (trees \<longleftrightarrow> rm_takes_trees ws) \<and> (forced \<longleftrightarrow> rm_forced ws)
         \<and> ex_summary e = (if rm_takes_trees ws then ''Recursively deletes '' else ''Deletes '')
             @ (if rm_names ws = [] then ''files'' else join '', '' (rm_names ws)))"
proof -
  have args: "rm_recursive_arg = rm_option ''--recursive'' ''rR''" "rm_force_arg = rm_option ''--force'' ''f''"
    using rm_recursive_option rm_force_option by blast+
  have shown: "trees \<longleftrightarrow> list_ex (rm_option ''--recursive'' ''rR'') ws" "forced \<longleftrightarrow> list_ex (rm_option ''--force'' ''f'') ws"
    "ex_summary e = (if list_ex (rm_option ''--recursive'' ''rR'') ws then ''Recursively deletes '' else ''Deletes '')
      @ (if positionalArgs ws = [] then ''files'' else join '', '' (positionalArgs ws))"
    unfolding trees_def forced_def e_def explain_rm [OF assms(1)]
    by (simp_all add: rmExplain_def explained_def listed_def Let_def args)
  have seen: "rm_takes_trees ws \<longleftrightarrow> list_ex (rm_option ''--recursive'' ''rR'') (takeWhile (\<lambda>w. w \<noteq> ''--'') ws)"
    "rm_forced ws \<longleftrightarrow> list_ex (rm_option ''--force'' ''f'') (takeWhile (\<lambda>w. w \<noteq> ''--'') ws)"
    unfolding rm_takes_trees_def rm_forced_def
    by (rule rm_seen [OF assms(2,3)]; simp add: starts_with_def)+
  have all: "''--'' \<notin> set ws \<Longrightarrow> takeWhile (\<lambda>w. w \<noteq> ''--'') ws = ws" by (simp add: takeWhile_eq_all_conv) blast
  have "rm_takes_trees ws \<longrightarrow> trees" "rm_forced ws \<longrightarrow> forced"
    unfolding seen shown list_ex_iff by (auto dest: set_takeWhileD)
  moreover have "(trees \<longleftrightarrow> rm_takes_trees ws) \<and> (forced \<longleftrightarrow> rm_forced ws)
      \<and> ex_summary e = (if rm_takes_trees ws then ''Recursively deletes '' else ''Deletes '')
             @ (if rm_names ws = [] then ''files'' else join '', '' (rm_names ws))" if "''--'' \<notin> set ws"
    unfolding shown seen all [OF that] rm_names_words [OF that assms(2)] by (intro conjI refl)
  ultimately show ?thesis by blast
qed

lemma removal_shown_witness:
  "''-r flag removes entire directory trees'' \<in> set (ex_warnings (explain (command_line [''rm'', ''old files'', ''-vfR''])))"
  using removal_shown [of "[''old files'', ''-vfR'']"]
  by (simp add: quotable_def rm_known_def flag_word_def starts_with_def rm_takes_trees_def flag_given_def)

text \<open>
  Behind a double dash a name that begins with a dash is taken for an option and hidden, and warned of; the
  abbreviation of a long option, which rm accepts, is not seen.
\<close>

lemma double_dash_hides:
  "explain ''rm -- -r'' = explained ''Recursively deletes files'' [''Removes files from the filesystem permanently'']
     [''Deleted files cannot be recovered from the trash'', ''-r flag removes entire directory trees'']"
  "rm_names [''--'', ''-r''] = [''-r'']" "\<not> rm_takes_trees [''--'', ''-r'']"
  by code_simp+

lemma abbreviation_unwarned:
  "explain ''rm --recurs /srv'' = explained ''Deletes /srv'' [''Removes files from the filesystem permanently'']
     [''Deleted files cannot be recovered from the trash'']"
  by code_simp

section \<open>What a command can hide\<close>

text \<open>
  Blanks other than the space part no words, so an option behind a tab is not seen; a quoted name, a path or
  a command behind another is explained by no rule or by the first command's.
\<close>

lemma tab_hides_recursion:
  "explain (''rm'' @ [CHR 0x09] @ ''-rf /srv'') =
     explained ''Deletes /srv'' [''Removes files from the filesystem permanently'']
       [''Deleted files cannot be recovered from the trash'']"
  by code_simp

lemma quoted_name_unwarned:
  "explain ([CHR 0x22] @ ''rm'' @ [CHR 0x22] @ '' -rf /srv'') = explained ''Runs rm'' [] []"
  "explain ''/bin/rm -rf /srv'' = explained ''Runs /bin/rm'' [] []"
  "explain ''cd /srv && rm -rf data'' = explained ''Runs cd'' [] []"
  by code_simp+

text \<open>An option before the subcommand takes its place, and the warnings go.\<close>

lemma global_option_unwarned:
  "explain ''git push --force'' =
     explained ''Pushes local commits to the remote repository'' [''Modifies remote branch'']
       [''Force push rewrites remote history'']"
  "explain ''git -C repo push --force'' = explained ''Runs git -C'' [] []"
  "explain ''kubectl -n prod delete deployment api'' = explained ''Runs kubectl -n in namespace prod'' [] []"
  by code_simp+

text \<open>Any word of minus l turns a signal into a list of signals, although kill reads it as a process then.\<close>

lemma kill_hidden: "''-l'' \<in> set args \<Longrightarrow> killExplain args = explained ''Lists available signal names'' [] []"
  by (auto simp: killExplain_def has_any_def list_ex_iff)

lemma kill_hidden_line: "explain ''kill -9 1 -l'' = explained ''Lists available signal names'' [] []"
  by code_simp

text \<open>sudo is explained, the command it wraps is not: none of the warnings of rm remain.\<close>

lemma sudo_unwrapped:
  "set (ex_warnings (explain ''sudo rm -rf /srv'')) \<inter> set (ex_warnings (explain ''rm -rf /srv'')) = {}"
  by code_simp

end
