(* ===== verification/MessagesProps.thy ===== *)
theory MessagesProps
  imports Messages ExplainerProps ChannelsProps
begin

text \<open>
  What the operator reads in the messages: a reader of the marked-up text that Telegram documents, and how far
  the fields an agent controls can disturb it; and that every button of a message is read back as what it stands
  for.
\<close>

section \<open>Reading MarkdownV2\<close>

text \<open>
  The part of MarkdownV2 the messages use: bold text between stars, code between backquotes, preformatted
  text between three of them, and characters behind a backslash, which stand for themselves. Elsewhere a
  reserved character is an error, for which the Bot API refuses the message (\<open>None\<close>).
\<close>

datatype look = LPlain | LBold | LCode | LPre

datatype md_mode = MText bool | MCode | MPre

definition prepend :: "'a list \<Rightarrow> 'a list option \<Rightarrow> 'a list option" where
  "prepend xs y = map_option ((@) xs) y"

lemma prepend_simps [simp]:
  "prepend [] y = y" "prepend a (prepend b y) = prepend (a @ b) y" "prepend a None = None"
  "prepend a (Some b) = Some (a @ b)"
  by (cases y; simp add: prepend_def)+

fun read_md :: "md_mode \<Rightarrow> string \<Rightarrow> (look \<times> char) list option" where
  "read_md m [] = (if m = MText False then Some [] else None)"
| "read_md (MText b) (c # s) =
     (if c = backslash
      then (case s of [] \<Rightarrow> None
            | d # s' \<Rightarrow> prepend [(if b then LBold else LPlain, d)] (read_md (MText b) s'))
      else if c = CHR ''`''
      then (if b then None
            else (case s of
                    d # e # s' \<Rightarrow> if d = CHR ''`'' \<and> e = CHR ''`'' then read_md MPre s' else read_md MCode s
                  | _ \<Rightarrow> read_md MCode s))
      else if c = CHR ''*'' then read_md (MText (\<not> b)) s
      else if c \<in> set MARKDOWN_RESERVED then None
      else prepend [(if b then LBold else LPlain, c)] (read_md (MText b) s))"
| "read_md MCode (c # s) =
     (if c = backslash
      then (case s of [] \<Rightarrow> None | d # s' \<Rightarrow> prepend [(LCode, d)] (read_md MCode s'))
      else if c = CHR ''`'' then read_md (MText False) s
      else prepend [(LCode, c)] (read_md MCode s))"
| "read_md MPre (c # s) =
     (if c = backslash
      then (case s of [] \<Rightarrow> None | d # s' \<Rightarrow> prepend [(LPre, d)] (read_md MPre s'))
      else (case s of
              d # e # s' \<Rightarrow>
                if c = CHR ''`'' \<and> d = CHR ''`'' \<and> e = CHR ''`'' then read_md (MText False) s'
                else prepend [(LPre, c)] (read_md MPre s)
            | _ \<Rightarrow> prepend [(LPre, c)] (read_md MPre s)))"

definition plain :: "string \<Rightarrow> (look \<times> char) list" where
  "plain s = map (Pair LPlain) s"

definition bold :: "string \<Rightarrow> (look \<times> char) list" where
  "bold s = map (Pair LBold) s"

definition coded :: "string \<Rightarrow> (look \<times> char) list" where
  "coded s = map (Pair LCode) s"

definition preformatted :: "string \<Rightarrow> (look \<times> char) list" where
  "preformatted s = map (Pair LPre) s"

text \<open>Text that is read the same whatever follows.\<close>

definition reads :: "string \<Rightarrow> (look \<times> char) list \<Rightarrow> bool" where
  "reads s out \<longleftrightarrow> (\<forall>rest. read_md (MText False) (s @ rest) = prepend out (read_md (MText False) rest))"

lemma reads_Nil: "reads [] []"
  by (simp add: reads_def)

lemma reads_append: "reads s a \<Longrightarrow> reads t b \<Longrightarrow> reads (s @ t) (a @ b)"
  by (simp add: reads_def)

lemma reads_char: "c \<notin> set MARKDOWN_RESERVED \<Longrightarrow> reads [c] (plain [c])"
  by (auto simp: reads_def plain_def MARKDOWN_RESERVED_def backslash_def)

lemma escape_Cons: "escapeMarkdownV2 (c # s) = (if c \<in> set MARKDOWN_RESERVED then [backslash, c] else [c]) @ escapeMarkdownV2 s"
  by (simp add: escapeMarkdownV2_def)

lemma reads_escaped: "reads (escapeMarkdownV2 s) (plain s)"
proof (induction s)
  case Nil
  then show ?case using reads_Nil by (simp add: escapeMarkdownV2_def plain_def)
next
  case (Cons c s)
  have "reads [backslash, c] (plain [c])"
    by (simp add: reads_def plain_def)
  then have "reads (if c \<in> set MARKDOWN_RESERVED then [backslash, c] else [c]) (plain [c])"
    using reads_char by simp
  from reads_append [OF this Cons.IH] show ?case
    by (simp add: escape_Cons plain_def)
qed

lemma code_Cons: "escapeCodeSpan (c # s) = (if c = CHR ''`'' \<or> c = backslash then [backslash, c] else [c]) @ escapeCodeSpan s"
  by (simp add: escapeCodeSpan_def)

lemma read_code: "read_md MCode (escapeCodeSpan s @ CHR ''`'' # rest) = prepend (coded s) (read_md (MText False) rest)"
proof (induction s)
  case Nil
  then show ?case by (simp add: escapeCodeSpan_def coded_def backslash_def)
next
  case (Cons c s)
  then show ?case
    by (auto simp: code_Cons coded_def backslash_def)
qed

lemma enter_code:
  "s \<noteq> [] \<Longrightarrow> read_md (MText False) (CHR ''`'' # escapeCodeSpan s @ rest) = read_md MCode (escapeCodeSpan s @ rest)"
  by (cases s) (auto simp: code_Cons backslash_def split: list.split)

lemma reads_code: "s \<noteq> [] \<Longrightarrow> reads (''`'' @ escapeCodeSpan s @ ''`'') (coded s)"
  using enter_code [of s] read_code [of s] by (simp add: reads_def)

lemma reads_plain: "list_all (\<lambda>c. c \<notin> set MARKDOWN_RESERVED) s \<Longrightarrow> reads s (plain s)"
proof (induction s)
  case Nil
  then show ?case using reads_Nil by (simp add: plain_def)
next
  case (Cons c s)
  then show ?case using reads_append [OF reads_char [of c] Cons.IH] by (simp add: plain_def)
qed

lemma read_bold:
  "list_all (\<lambda>c. c \<notin> set MARKDOWN_RESERVED) s \<Longrightarrow>
   read_md (MText True) (s @ CHR ''*'' # rest) = prepend (bold s) (read_md (MText False) rest)"
  by (induction s) (auto simp: bold_def MARKDOWN_RESERVED_def backslash_def)

lemma read_in_bold:
  "list_all (\<lambda>c. c \<notin> set MARKDOWN_RESERVED) s \<Longrightarrow>
   read_md (MText True) (s @ rest) = prepend (bold s) (read_md (MText True) rest)"
  by (induction s) (auto simp: bold_def MARKDOWN_RESERVED_def backslash_def)

lemma reads_bold: "list_all (\<lambda>c. c \<notin> set MARKDOWN_RESERVED) s \<Longrightarrow> reads (''*'' @ s @ ''*'') (bold s)"
  using read_bold [of s] by (simp add: reads_def backslash_def)

text \<open>Preformatted text is not escaped: it is read as it is when it has neither backquotes nor backslashes.\<close>

definition pre_safe :: "string \<Rightarrow> bool" where
  "pre_safe s \<longleftrightarrow> CHR ''`'' \<notin> set s \<and> backslash \<notin> set s"

lemma read_pre:
  "pre_safe s \<Longrightarrow>
   read_md MPre (s @ ''```'' @ rest) = prepend (preformatted s) (read_md (MText False) rest)"
proof (induction s)
  case Nil
  then show ?case by (simp add: preformatted_def backslash_def)
next
  case (Cons c s)
  then have c: "c \<noteq> CHR ''`''" "c \<noteq> backslash" "pre_safe s" by (auto simp: pre_safe_def)
  have "read_md MPre (c # s @ ''```'' @ rest) = prepend [(LPre, c)] (read_md MPre (s @ ''```'' @ rest))"
    using c(1,2) by (cases "s @ ''```'' @ rest"; cases "tl (s @ ''```'' @ rest)") auto
  with Cons.IH c(3) show ?case
    by (simp add: preformatted_def)
qed

lemma reads_pre: "pre_safe s \<Longrightarrow> reads (''```'' @ s @ ''```'') (preformatted s)"
  using read_pre [of s] by (simp add: reads_def backslash_def)

lemma reads_lines:
  "list_all2 reads ls outs \<Longrightarrow> reads (text_lines ls) (concat (map (\<lambda>x. x @ plain [CHR 0x0A]) (butlast outs)) @ (if outs = [] then [] else last outs))"
proof (induction rule: list_all2_induct)
  case Nil
  then show ?case using reads_Nil by (simp add: text_lines_def)
next
  case (Cons l ls out outs)
  have nl: "reads [CHR 0x0A] (plain [CHR 0x0A])"
    by (rule reads_char) (simp add: MARKDOWN_RESERVED_def backslash_def)
  show ?case
  proof (cases ls)
    case Nil
    with Cons show ?thesis by (simp add: text_lines_def)
  next
    case (Cons l2 ls2)
    with Cons.hyps obtain o2 outs2 where two: "outs = o2 # outs2" by (cases outs) auto
    have "text_lines (l # ls) = l @ [CHR 0x0A] @ text_lines ls"
      using Cons by (simp add: text_lines_def)
    then show ?thesis
      using reads_append [OF Cons.hyps(1) reads_append [OF nl Cons.IH]] by (simp add: two plain_def)
  qed
qed

section \<open>What Telegram shows\<close>

text \<open>Each line of the message as it is to be read: labels bold, identifiers as code, all else as it is.\<close>

definition code_field :: "string \<Rightarrow> string \<Rightarrow> (look \<times> char) list" where
  "code_field label s = bold label @ plain '' '' @ coded s"

definition text_field :: "string \<Rightarrow> string \<Rightarrow> (look \<times> char) list" where
  "text_field label s = bold label @ plain '' '' @ plain s"

definition bullet :: "string \<Rightarrow> (look \<times> char) list" where
  "bullet s = plain (wide @ '' '' @ s)"

definition fields_view :: "approval_message \<Rightarrow> (look \<times> char) list list" where
  "fields_view m =
     (if am_verified m = Some False
      then [bold ''UNVERIFIED AGENT'' @ plain ('' '' @ wide @ '' the identity claim '' @ [CHR 0x22] @ am_agentId m
              @ [CHR 0x22] @ '' could not be verified. Treat with caution.''), []]
      else [])
     @ [bold ''HITL Approval Request'', []]
     @ [code_field ''Tool:'' (am_toolName m), code_field ''Agent:'' (am_agentId m),
        text_field ''Policy:'' (am_policyName m)]
     @ if_given (am_riskLevel m) (\<lambda>s. [text_field ''Risk:'' s])
     @ [text_field ''Expires in:'' (int_str (am_timeoutSeconds m) @ ''s'')]
     @ if_given (am_action_class m) (\<lambda>s. [code_field ''Action Class:'' s])
     @ if_given (am_target m) (\<lambda>s. [code_field ''Target:'' s])
     @ if_given (am_summary m) (\<lambda>s. [[], text_field ''Summary:'' s])
     @ if_given (am_explanation m) (\<lambda>s. [[], bold ''Explanation:'', plain (truncateCommand s)])
     @ if_listed (am_effects m) (\<lambda>es. [[], bold ''Effects:''] @ map bullet es)
     @ if_listed (am_warnings m) (\<lambda>ws. [[], bold ''Warnings:''] @ map bullet ws)
     @ if_given (am_intentHint m) (\<lambda>s. [[], bold ''Why this is happening:'', plain (cut_text 200 s)])"

definition telegram_view :: "approval_message \<Rightarrow> (look \<times> char) list list" where
  "telegram_view m =
     fields_view m
     @ if_given (am_rawCommand m)
         (\<lambda>s. [[], bold ''Command:'', preformatted ([CHR 0x0A] @ cut_text 200 s @ [CHR 0x0A])])
     @ [[]]
     @ if_given (am_expires_at m) (\<lambda>s. [text_field ''Expires at:'' s])
     @ [code_field ''Approval ID:'' (am_token m)]"

definition view_text :: "(look \<times> char) list list \<Rightarrow> (look \<times> char) list" where
  "view_text outs = concat (map (\<lambda>x. x @ plain [CHR 0x0A]) (butlast outs)) @ (if outs = [] then [] else last outs)"

definition unreserved :: "string \<Rightarrow> bool" where
  "unreserved s \<longleftrightarrow> list_all (\<lambda>c. c \<notin> set MARKDOWN_RESERVED) s"

lemma unreserved_simps [simp]:
  "unreserved []"
  "unreserved (c # s) \<longleftrightarrow> c \<notin> set ''_*[]()~`>#+-=|{}.!'' \<and> c \<noteq> CHR 0x5C \<and> unreserved s"
  by (auto simp: unreserved_def MARKDOWN_RESERVED_def backslash_def)

lemma plain_append [simp]: "plain (a @ b) = plain a @ plain b"
  by (simp add: plain_def)

lemma code_line:
  assumes "unreserved l" "t \<noteq> []"
  shows "reads ((''*'' @ l @ ''* `'') @ escapeCodeSpan t @ ''`'') (code_field l t)"
proof -
  have "reads ((''*'' @ l @ ''*'') @ '' '' @ ''`'' @ escapeCodeSpan t @ ''`'') (bold l @ plain '' '' @ coded t)"
    using assms by (intro reads_append reads_bold reads_code reads_plain) (simp_all add: unreserved_def [symmetric])
  then show ?thesis by (simp add: code_field_def)
qed

lemma text_line:
  assumes "unreserved l" shows "reads ((''*'' @ l @ ''* '') @ escapeMarkdownV2 t) (text_field l t)"
proof -
  have "reads ((''*'' @ l @ ''*'') @ '' '' @ escapeMarkdownV2 t) (bold l @ plain '' '' @ plain t)"
    using assms by (intro reads_append reads_bold reads_escaped reads_plain) (simp_all add: unreserved_def [symmetric])
  then show ?thesis by (simp add: text_field_def)
qed

lemma head_line: "unreserved l \<Longrightarrow> reads (''*'' @ l @ ''*'') (bold l)"
  unfolding unreserved_def by (rule reads_bold)

lemma bullet_line: "reads (wide @ '' '' @ escapeMarkdownV2 e) (bullet e)"
proof -
  have "reads ((wide @ '' '') @ escapeMarkdownV2 e) (plain (wide @ '' '') @ plain e)"
    by (intro reads_append reads_escaped reads_plain) (simp add: unreserved_def [symmetric] wide_def)
  then show ?thesis by (simp add: bullet_def plain_def)
qed

lemma digits_unreserved: "list_all is_digit s \<Longrightarrow> unreserved s"
  by (induction s) (auto simp: is_digit_def)

lemma time_line:
  assumes "0 \<le> t" shows "reads (''*Expires in:* '' @ int_str t @ ''s'') (text_field ''Expires in:'' (int_str t @ ''s''))"
proof -
  have "unreserved (int_str t)" using assms nat_str_facts by (intro digits_unreserved) (simp add: int_str_def list_all_iff)
  moreover have "unreserved ''s''" by simp
  ultimately have "unreserved (int_str t @ ''s'')" unfolding unreserved_def by simp
  then have "reads ((''*'' @ ''Expires in:'' @ ''*'') @ '' '' @ int_str t @ ''s'') (bold ''Expires in:'' @ plain '' '' @ plain (int_str t @ ''s''))"
    unfolding unreserved_def by (intro reads_append reads_bold reads_plain) (simp_all add: unreserved_def [symmetric])
  then show ?thesis by (simp add: text_field_def)
qed

lemma banner_line:
  "reads (''*UNVERIFIED AGENT* '' @ wide @ '' the identity claim '' @ [CHR 0x22] @ escapeMarkdownV2 a @ [CHR 0x22]
      @ '' could not be verified'' @ [backslash] @ ''. Treat with caution'' @ [backslash] @ ''.'')
    (bold ''UNVERIFIED AGENT'' @ plain ('' '' @ wide @ '' the identity claim '' @ [CHR 0x22] @ a
      @ [CHR 0x22] @ '' could not be verified. Treat with caution.''))"
proof -
  have dot: "reads [backslash, CHR ''.''] (plain ''.'')"
    by (simp add: reads_def plain_def)
  have "reads ((''*'' @ ''UNVERIFIED AGENT'' @ ''*'') @ ('' '' @ wide @ '' the identity claim '' @ [CHR 0x22])
        @ escapeMarkdownV2 a @ ([CHR 0x22] @ '' could not be verified'') @ [backslash, CHR ''.'']
        @ '' Treat with caution'' @ [backslash, CHR ''.''])
      (bold ''UNVERIFIED AGENT'' @ plain ('' '' @ wide @ '' the identity claim '' @ [CHR 0x22])
        @ plain a @ plain ([CHR 0x22] @ '' could not be verified'') @ plain ''.'' @ plain '' Treat with caution'' @ plain ''.'')"
    by (intro reads_append reads_bold reads_escaped dot reads_plain) (simp_all add: unreserved_def [symmetric] wide_def)
  then show ?thesis by (simp add: plain_def)
qed

lemma given_lines:
  "(\<And>s. x = Some s \<Longrightarrow> s \<noteq> [] \<Longrightarrow> list_all2 P (f s) (g s)) \<Longrightarrow> list_all2 P (if_given x f) (if_given x g)"
  by (simp add: if_given_def split: option.split)

lemma listed_lines:
  "(\<And>ss. list_all2 P (f ss) (g ss)) \<Longrightarrow> list_all2 P (if_listed x f) (if_listed x g)"
  by (simp add: if_listed_def split: option.split)

lemma bullets: "list_all2 reads (map (\<lambda>e. wide @ '' '' @ escapeMarkdownV2 e) es) (map bullet es)"
  using bullet_line by (simp add: list.rel_map list.rel_refl)

lemma pre_line:
  assumes "pre_safe s"
  shows "reads (''```'' @ [CHR 0x0A] @ cut_text 200 s @ [CHR 0x0A] @ ''```'')
    (preformatted ([CHR 0x0A] @ cut_text 200 s @ [CHR 0x0A]))"
proof -
  have "pre_safe ([CHR 0x0A] @ cut_text 200 s @ [CHR 0x0A])"
    using assms by (auto simp: pre_safe_def backslash_def cut_text_def wide_def dest: in_set_takeD)
  from reads_pre [OF this] show ?thesis by simp
qed

text \<open>The labels the messages use.\<close>

lemmas label_lines =
  code_line [of "''Tool:''", simplified] code_line [of "''Agent:''", simplified]
  text_line [of "''Policy:''", simplified] text_line [of "''Risk:''", simplified]
  code_line [of "''Action Class:''", simplified] code_line [of "''Target:''", simplified]
  text_line [of "''Summary:''", simplified] head_line [of "''Explanation:''", simplified]
  head_line [of "''Effects:''", simplified] head_line [of "''Warnings:''", simplified]
  head_line [of "''Why this is happening:''", simplified] head_line [of "''Command:''", simplified]
  text_line [of "''Expires at:''", simplified] code_line [of "''Approval ID:''", simplified]
  head_line [of "''HITL Approval Request''", simplified]

definition named_message :: "approval_message \<Rightarrow> bool" where
  "named_message m \<longleftrightarrow>
     am_token m \<noteq> [] \<and> am_toolName m \<noteq> [] \<and> am_agentId m \<noteq> [] \<and> 0 \<le> am_timeoutSeconds m"

lemma telegram_fields_read:
  assumes "named_message m" shows "list_all2 reads (telegram_fields m) (fields_view m)"
  unfolding telegram_fields_def fields_view_def
  using assms
  by (intro list_all2_appendI given_lines listed_lines bullets)
     (simp_all add: named_message_def label_lines reads_Nil reads_escaped time_line [simplified] banner_line [simplified])

lemma telegram_lines_read:
  assumes "named_message m" "\<forall>s. am_rawCommand m = Some s \<longrightarrow> pre_safe s"
  shows "list_all2 reads (telegram_lines m) (telegram_view m)"
  unfolding telegram_lines_def telegram_view_def
  using assms telegram_fields_read
  by (intro list_all2_appendI given_lines)
     (simp_all add: named_message_def label_lines reads_Nil pre_line [simplified])

lemma view_reads: "list_all2 reads ls outs \<Longrightarrow> reads (text_lines ls) (view_text outs)"
  unfolding view_text_def by (rule reads_lines)

lemma view_read:
  assumes "list_all2 reads ls outs" shows "read_md (MText False) (text_lines ls) = Some (view_text outs)"
proof -
  have "reads (text_lines ls) (view_text outs)"
    by (rule view_reads [OF assms])
  then have "read_md (MText False) (text_lines ls @ []) = prepend (view_text outs) (read_md (MText False) [])"
    unfolding reads_def by blast
  then show ?thesis by simp
qed

text \<open>C20.  No field of a request can disturb the message at Telegram, but for the raw command: when this has
  neither backquotes nor backslashes, the token and the names of the tool and the agent are not empty and the
  time-out is not negative, the text the plugin sends is accepted, and the operator reads the labels in bold and
  every field, in its place, whatever marks it contains: the explanation up to 500 characters, the intent hint
  and the raw command up to 200, a longer one cut with an ellipsis, and all the others whole.\<close>

theorem telegram_shows_fields:
  assumes "am_token m \<noteq> ''''" "am_toolName m \<noteq> ''''" "am_agentId m \<noteq> ''''" "0 \<le> am_timeoutSeconds m"
    and "\<forall>s. am_rawCommand m = Some s \<longrightarrow> CHR ''`'' \<notin> set s \<and> backslash \<notin> set s"
  shows "read_md (MText False) (telegram_text m) = Some (view_text (telegram_view m))"
proof -
  have "named_message m" "\<forall>s. am_rawCommand m = Some s \<longrightarrow> pre_safe s"
    using assms by (simp_all add: named_message_def pre_safe_def)
  then show ?thesis unfolding telegram_text_def by (intro view_read telegram_lines_read)
qed

definition sample_message :: "string \<Rightarrow> string \<Rightarrow> approval_message" where
  "sample_message target raw =
     \<lparr>am_token = ''tok-1'', am_toolName = ''exec'', am_agentId = ''a*b_c'', am_policyName = ''p.1'',
      am_timeoutSeconds = 60, am_action_class = None, am_target = Some target, am_summary = None,
      am_expires_at = None, am_verified = None, am_showApproveAlways = None, am_riskLevel = None,
      am_explanation = None, am_effects = None, am_warnings = None, am_rawCommand = Some raw, am_intentHint = None\<rparr>"

lemma telegram_shows_fields_witness:
  "read_md (MText False) (telegram_text (sample_message ''x` *Warnings:* none'' ''rm -rf *''))
     = Some (view_text (telegram_view (sample_message ''x` *Warnings:* none'' ''rm -rf *'')))"
  by (rule telegram_shows_fields) (simp_all add: sample_message_def backslash_def)

text \<open>
  The raw command is put between the three backquotes as it is. A command that contains three of them ends
  the block and goes on in the text of the message: it can make the Bot API refuse the message, so that the
  policy's fallback decides instead of a human, and it can add labels of its own.
\<close>

lemma text_lines_append: "ls \<noteq> [] \<Longrightarrow> rs \<noteq> [] \<Longrightarrow> text_lines (ls @ rs) = text_lines ls @ [CHR 0x0A] @ text_lines rs"
  unfolding text_lines_def by (rule join_append)

lemma read_prefix:
  assumes "list_all2 reads ls outs" "ls \<noteq> []" "rs \<noteq> []"
  shows "\<exists>out. read_md (MText False) (text_lines (ls @ rs)) = prepend out (read_md (MText False) (text_lines rs))"
proof -
  have nl: "reads [CHR 0x0A] (plain [CHR 0x0A])" by (rule reads_plain) (simp add: unreserved_def [symmetric])
  have "reads (text_lines ls @ [CHR 0x0A]) (view_text outs @ plain [CHR 0x0A])"
    by (rule reads_append [OF view_reads [OF assms(1)] nl])
  then show ?thesis
    unfolding text_lines_append [OF assms(2,3)] reads_def append_assoc [symmetric] by blast
qed

lemma raw_command_refused:
  assumes "named_message m" "am_rawCommand m = Some (a @ ''```'' @ c # b)" "length (a @ ''```'' @ c # b) \<le> 200"
    and "pre_safe a" "c \<in> set ''_[]()~>#+-=|{}.!''"
  shows "read_md (MText False) (telegram_text m) = None"
proof -
  let ?raw = "a @ ''```'' @ c # b"
  define rest where "rest = [[]] @ if_given (am_expires_at m) (\<lambda>s. [''*Expires at:* '' @ escapeMarkdownV2 s])
    @ [''*Approval ID:* `'' @ escapeCodeSpan (am_token m) @ ''`'']"
  let ?top = "telegram_fields m @ [[], ''*Command:*'']"
  let ?line = "''```'' @ [CHR 0x0A] @ ?raw @ [CHR 0x0A] @ ''```''"
  have l: "telegram_lines m = ?top @ ?line # rest"
    using assms(2,3) by (simp add: telegram_lines_def if_given_def cut_text_def rest_def)
  have "list_all2 reads ?top (fields_view m @ [[], bold ''Command:''])"
    using telegram_fields_read [OF assms(1)] by (intro list_all2_appendI) (simp_all add: reads_Nil label_lines)
  then obtain out where o': "read_md (MText False) (telegram_text m) = prepend out (read_md (MText False) (text_lines (?line # rest)))"
    using read_prefix [of ?top _ "?line # rest"] unfolding telegram_text_def l by blast
  obtain t where "text_lines (?line # rest) = ''```'' @ ([CHR 0x0A] @ a) @ ''```'' @ c # t"
    by (simp add: text_lines_def rest_def)
  moreover have "reads (''```'' @ ([CHR 0x0A] @ a) @ ''```'') (preformatted ([CHR 0x0A] @ a))"
    using assms(4) by (intro reads_pre) (auto simp: pre_safe_def backslash_def)
  moreover have "read_md (MText False) (c # t) = None"
    using assms(5) by (auto simp: MARKDOWN_RESERVED_def backslash_def)
  ultimately have "read_md (MText False) (text_lines (?line # rest)) = None"
    unfolding reads_def by simp
  with o' show ?thesis by simp
qed

text \<open>A request that expires is confirmed in words with reserved characters, which Telegram refuses.\<close>

lemma expiry_unconfirmed:
  assumes "token \<noteq> []"
  shows "read_md (MText False) (decision_text token (confirmed_decision ''expired'' always deny) toolName) = None"
proof -
  have "reads (''Action '' @ (''`'' @ escapeCodeSpan token @ ''`'') @ '' '' @ wide @ '' '')
      (plain ''Action '' @ coded token @ plain '' '' @ plain wide @ plain '' '')"
    using assms by (intro reads_append reads_code reads_plain) (simp_all add: unreserved_def [symmetric] wide_def)
  then have "read_md (MText False) (decision_text token d toolName) =
      prepend (plain ''Action '' @ coded token @ plain '' '' @ plain wide @ plain '' '')
        (read_md (MText False) (''*'' @ to_upper d @ ''*'' @ [CHR 0x0A] @ ''Tool: `'' @ escapeCodeSpan toolName @ ''`''))" for d
    unfolding reads_def by (simp add: decision_text_def)
  moreover have "read_md (MText False) (''*'' @ to_upper (confirmed_decision ''expired'' always deny) @ s) = None" for s
  proof -
    have e: "to_upper ''expired (denied)'' = ''EXPIRED '' @ ''(DENIED)''"
        "to_upper ''expired (auto-approved)'' = ''EXPIRED '' @ ''(AUTO-APPROVED)''"
      by code_simp+
    have "read_md (MText True) (''EXPIRED '' @ CHR ''('' # r) = None" for r
      by (subst read_in_bold) (simp_all add: MARKDOWN_RESERVED_def backslash_def)
    then show ?thesis
      by (cases deny) (simp_all add: confirmed_decision_def e backslash_def)
  qed
  ultimately show ?thesis by simp
qed

section \<open>The buttons\<close>

text \<open>The texts under a key, anywhere in a JSON value, in their order.\<close>

fun texts_at :: "string \<Rightarrow> json \<Rightarrow> string list" where
  "texts_at k (JObj kvs) =
     concat (map (\<lambda>(n, v). (case v of JStr s \<Rightarrow> if n = k then [s] else [] | _ \<Rightarrow> []) @ texts_at k v) kvs)"
| "texts_at k (JArr vs) = concat (map (texts_at k) vs)"
| "texts_at k _ = []"

lemma keyboard_texts: "texts_at ''callback_data'' (keyboard_json row) = map snd row"
  by (induction row) (auto simp: keyboard_json_def)

lemma send_message_texts: "texts_at ''callback_data'' (send_message_body config t row) = map snd row"
  using keyboard_texts [of row] by (simp add: send_message_body_def) (simp add: keyboard_json_def)

lemma mrkdwn_values: "texts_at ''value'' (mrkdwn t) = []"
  by (simp add: mrkdwn_def)

lemma plain_text_values: "texts_at ''value'' (plain_text t) = []"
  by (simp add: plain_text_def)

lemma slack_block_values:
  "texts_at ''value'' (slack_section t) = []"
  "texts_at ''value'' (fields_section fs) = concat (map (texts_at ''value'') fs)"
  "texts_at ''value'' (slack_context es) = concat (map (texts_at ''value'') es)"
  "texts_at ''value'' (slack_button label style action_id v) = [v]"
  using plain_text_values [of label] mrkdwn_values [of t]
  by (simp_all add: slack_section_def fields_section_def slack_context_def slack_button_def)
    (simp_all add: plain_text_def mrkdwn_def)

definition answered :: "('c \<times> string) option list \<Rightarrow> 'c list \<Rightarrow> string \<Rightarrow> bool" where
  "answered read commands token \<longleftrightarrow> read = map (\<lambda>c. Some (c, token)) commands"

text \<open>The values of the buttons at Slack.\<close>

lemma slack_post_values:
  "texts_at ''value'' (slack_post_body config m)
     = [''approve:'' @ am_token m] @ (if shows_always m then [''approve_always:'' @ am_token m] else []) @ [''deny:'' @ am_token m]"
proof -
  have given: "concat (map (texts_at ''value'') (if_given x f)) = []"
    if "\<And>s. concat (map (texts_at ''value'') (f s)) = []" for x and f :: "string \<Rightarrow> json list"
    using that by (cases x) (auto simp: if_given_def)
  have listed: "concat (map (texts_at ''value'') (if_listed x f)) = []"
    if "\<And>s. concat (map (texts_at ''value'') (f s)) = []" for x and f :: "string list \<Rightarrow> json list"
    using that by (cases x) (auto simp: if_listed_def)
  have core: "concat (map (texts_at ''value'') (core_fields m)) = []"
    by (simp add: core_fields_def mrkdwn_values given)
  have optional: "concat (map (texts_at ''value'') (optional_fields m)) = []"
    by (simp add: optional_fields_def mrkdwn_values given)
  note fields = core optional
  have "concat (map (texts_at ''value'') (slack_blocks m)) = texts_at ''value'' (slack_actions_block m)"
    unfolding slack_blocks_def
    by (simp add: fields given listed slack_block_values mrkdwn_values plain_text_def)
  then show ?thesis
    by (simp add: slack_post_body_def slack_actions_block_def slack_block_values)
qed

text \<open>
  C26. Every button the plugin sends is read back as what it stands for. The data of the buttons of a request at
  Telegram, of the question whether to save a pattern there, and of a request at Slack are read by the listener
  and the interaction server as the commands of the buttons, in their order, each with the token of the request,
  for every well-formed token, as every UUID of the approval manager is; the button for approving for good is
  there exactly when the request asks for it. And nothing else is read as a button: a text is read as a command
  and a token exactly when it is the name of the command, a colon and the token, and the token is well-formed.
\<close>

theorem callback_roundtrip:
  assumes "token_ok (am_token m)" "token_ok token"
  shows "answered (map parse_callback (texts_at ''callback_data'' (telegram_body config m)))
      ([TgApproveOnce] @ (if shows_always m then [TgApproveAlways] else []) @ [TgDeny]) (am_token m)
    \<and> answered (map parse_callback (texts_at ''callback_data'' (confirmation_body config token pattern command)))
      [TgConfirmAlways, TgCancelAlways] token
    \<and> answered (map (parse_prefixed ACTION_COMMANDS) (texts_at ''value'' (slack_post_body slack m)))
      ([SlApprove] @ (if shows_always m then [SlApproveAlways] else []) @ [SlDeny]) (am_token m)
    \<and> (parse_callback data = Some (c, t) \<longleftrightarrow> data = callback_name c @ '':'' @ t \<and> token_ok t)
    \<and> (parse_prefixed ACTION_COMMANDS data = Some (a, t) \<longleftrightarrow> data = action_name a @ '':'' @ t \<and> token_ok t)
    \<and> (length random = 16 \<longrightarrow> token_ok (uuidv7 random now))"
  using assms uuid_token_ok parse_callback_name parse_action_name
  by (auto simp: answered_def telegram_body_def confirmation_body_def send_message_texts telegram_keyboard_def
      confirm_keyboard_def slack_post_values)

definition plain_request :: "string \<Rightarrow> approval_message" where
  "plain_request token = (sample_message '''' ''ls'')\<lparr>am_token := token, am_showApproveAlways := None\<rparr>"

theorem callback_roundtrip_witness:
  "map parse_callback (texts_at ''callback_data'' (telegram_body \<lparr>rt_botToken = ''b'', rt_chatId = ''c''\<rparr> (plain_request ''abcdef'')))
     = [Some (TgApproveOnce, ''abcdef''), Some (TgApproveAlways, ''abcdef''), Some (TgDeny, ''abcdef'')]"
proof -
  have "token_ok ''abcdef''" by code_simp
  then show ?thesis
    using callback_roundtrip [of "plain_request ''abcdef''" "''abcdef''" "\<lparr>rt_botToken = ''b'', rt_chatId = ''c''\<rparr>"]
    by (simp add: answered_def plain_request_def shows_always_def)
qed

section \<open>What Slack and the console show\<close>

text \<open>Slack: of two commands with the same beginning the operator sees the same, and approvals for good look refused.\<close>

lemma slack_tail_hidden:
  assumes "length a > 200" "length b > 200" "take 199 a = take 199 b"
  shows "slack_blocks (m\<lparr>am_target := Some a, am_rawCommand := Some a\<rparr>)
    = slack_blocks (m\<lparr>am_target := Some b, am_rawCommand := Some b\<rparr>)"
proof -
  have "take 99 a = take 99 b" using arg_cong [OF assms(3), of "take 99"] by (simp add: min_def)
  then show ?thesis
    using assms by (auto simp: slack_blocks_def optional_fields_def core_fields_def slack_actions_block_def
        shows_always_def if_given_def slack_cut_def cut_text_def)
qed

lemma approved_always_crossed:
  "slack_emoji (confirmed_decision ''approved'' True deny) = '':x:''"
  by (simp add: confirmed_decision_def slack_emoji_def)

end
