(* ===== verification/Spec2Isabelle.thy ===== *)
theory Spec2Isabelle
  imports EngineTheorems GateProps PayloadProps AutoPermitProps HitlDispatchProps PluginProps
    Uuid Bundle SensitiveProps IdentityProps PermitStore RuleFilesProps HotReloadProps ChannelsProps OperatorProps
    PromptProps ManifestProps ToolGateProps ObfuscationProps
    CapabilityProps GitToolsProps HostToolsProps AdminExecProps FileToolsProps SecretToolsProps NetToolsProps MailToolProps
    MessagesProps
begin

text \<open>
  Verification library of Clawthority, a plugin that decides which tool calls of an agent may run.

  \<^bold>\<open>The program.\<close>  The host calls the hooks of \<open>src/index.ts\<close>: \<open>before_tool_call\<close> before each tool call,
  \<open>before_prompt_build\<close> and \<open>before_model_resolve\<close> around prompts. A tool call is checked against the budget,
  normalised to an action class, its parameters are classified for sensitive data and hashed, and the
  pipeline is run: the capability gate, then a combined stage 2 of the rule engines and the automatic
  permits. A forbid with a priority below 100 may be handed to a human, who answers over Telegram, Slack or
  the console; the approval manager keeps the requests that wait. Rules come from the shipped sets, a rule
  file and the store of patterns an operator approved for good; watchers exchange them while the plugin runs.
  Beside the plugin stand the validators of \<open>src/validation/\<close> (manifests, third-party tools, obfuscation,
  requests for capabilities) and the tools of \<open>src/tools/\<close>, which check their own arguments.

  \<^bold>\<open>The theories, and the code they translate\<close>  (paths below the repository's \<open>src/\<close> unless they start with
  \<open>packages/\<close>; a theory whose name ends in \<open>Props\<close>, \<open>Spec\<close> or \<open>Theorems\<close> holds only specifications and proofs).
  \<^item> \<open>Prelude\<close>: strings, trimming, splitting, the JavaScript \<open>Map\<close> as an association list, results as sums.
    \<open>JsRegex\<close>: regular expressions as syntax trees with JavaScript's backtracking. \<open>Json\<close>: JSON values,
    their text, the sorted serialiser of \<open>envelope.ts\<close> and \<open>approval-manager.ts\<close>.
  \<^item> \<open>Registry\<close> (\<open>packages/action-registry\<close>), \<open>Normalize\<close> (\<open>enforcement/normalize.ts\<close>): the table of action
    classes, the targets, the reclassification by target and by metacharacters.
  \<^item> \<open>PolicyEngine\<close> (\<open>policy/engine.ts\<close>, \<open>policy/types.ts\<close>): rules, the evaluation methods and the sliding
    windows. \<open>EngineSpec\<close> is the abstract engine that keeps the full history of calls;
    \<open>EngineProps\<close> and \<open>EngineTheorems\<close> show that forbid wins, the bound of a rate limit and that the engine
    refines the abstract one.
  \<^item> \<open>Rules\<close> (\<open>policy/rules/*\<close>, \<open>policy/mode.ts\<close>), \<open>Bundle\<close> (\<open>policy/bundle.ts\<close>, \<open>loader.ts\<close>, \<open>exporter.ts\<close>),
    \<open>RuleFiles\<close> and \<open>PermitStore\<close> (\<open>loadJsonRules\<close>, \<open>loadAutoPermitRules\<close>, \<open>persistAutoPermitPattern\<close> and revocation
    in \<open>index.ts\<close>, \<open>models/auto-permit.ts\<close>), \<open>HotReload\<close> (\<open>watcher.ts\<close>): where rules come from. The
    watchers are an inductive step relation; the lemmas show that an approved pattern takes effect and
    that behind the operator's rules always stands a whole baseline of the mode, the compiled rules or what an
    imported rule module exports.
  \<^item> \<open>Pipeline\<close> (\<open>enforcement/pipeline.ts\<close>, \<open>stage1-capability.ts\<close>, \<open>build-context.ts\<close>, \<open>decision.ts\<close>),
    \<open>Adapter\<close> (\<open>adapter/file-adapter.ts\<close>), \<open>Stage2\<close> (\<open>stage2-policy.ts\<close>), \<open>AutoPermit\<close> (\<open>auto-permits/*\<close>): the two
    stages. \<open>GateProps\<close> states what the gate needs of the issuer of capabilities as the locale
    \<open>capability_issuer\<close>, \<open>Stage2Props\<close> what stage 2 needs of the permits as \<open>permit_checker\<close>; both are interpreted on
    the model.
  \<^item> \<open>Approval\<close>, \<open>Uuid\<close> (\<open>hitl/approval-manager.ts\<close>), \<open>HitlPolicy\<close> (\<open>hitl/types.ts\<close>, \<open>matcher.ts\<close>),
    \<open>HitlDispatch\<close> (\<open>enforcement/hitl-dispatch.ts\<close>), \<open>Retry\<close> (\<open>hitl/retry.ts\<close>, \<open>config.ts\<close>, \<open>parser.ts\<close>), \<open>Channels\<close>
    (\<open>hitl/telegram.ts\<close>, \<open>hitl/slack.ts\<close>), \<open>Operator\<close> (the callbacks of \<open>index.ts\<close>, \<open>hitl/console.ts\<close>): the human. The manager is
    a record with the pending requests, the armed timers and the settled promises; its operations and the
    timers are steps, and the invariants are proved over the reachable states. \<open>OperatorProps\<close> shows that the
    host drives it by its operations only, from which the properties of the manager carry over.
  \<^item> \<open>Plugin\<close> (\<open>index.ts\<close>): the state of the plugin and the handler, in three steps around its two waits (the
    classification and the operator); \<open>PluginProps\<close> holds the end to end properties. \<open>Budget\<close> (\<open>budget/*\<close>),
    \<open>Sensitive\<close> (\<open>enforcement/pii-classifier.ts\<close>, \<open>classify-payload.ts\<close>), \<open>Identity\<close> (\<open>identity.ts\<close>, \<open>policy/coverage.ts\<close>),
    \<open>Prompt\<close> (the prompt hooks) are the other parts the hooks call.
  \<^item> \<open>ManifestData\<close>, \<open>Manifest\<close> (\<open>tools/*/manifest.ts\<close>, \<open>validation/skill-*\<close>), \<open>ToolGate\<close> (\<open>validation/mcp-tool-gate.ts\<close>,
    \<open>edge-case-registry.ts\<close>, \<open>compound-operation-handler.ts\<close>, \<open>shell-metachar-validator.ts\<close>), \<open>Obfuscation\<close>
    (\<open>agent-obfuscation-detector.ts\<close>), \<open>Capability\<close> (\<open>rfc-processor.ts\<close>, \<open>one-off-operation-handler.ts\<close>,
    \<open>novel-threat-handler.ts\<close>): the validators.
  \<^item> \<open>ToolRun\<close> (the machine on which processes run), \<open>GitTools\<close>, \<open>HostTools\<close>, \<open>PackageTools\<close>, \<open>AdminExec\<close>
    (\<open>unsafe_admin_exec\<close>), \<open>Disk\<close> (the functions of \<open>node:fs\<close>), \<open>FileTools\<close>: the tools of \<open>tools/*\<close>. The lemmas show which
    arguments reach a program as options, that a commit stays inside its repository, which tokens let a
    command run, and what is on the disk after a file tool, whatever errors the calls meet.
  \<^item> \<open>SecretTools\<close> (\<open>tools/read_secret\<close>, \<open>write_secret\<close>, \<open>rotate_secret\<close>, \<open>list_secrets\<close>, \<open>store_secret\<close>, \<open>get_env_var\<close>,
    \<open>tools/secrets/secret-backend.ts\<close>, \<open>vault/*\<close>): backends and vaults over an environment and a disk. The locale
    \<open>secret_store\<close> states what a backend promises; it is interpreted on both. \<open>NetTools\<close> (\<open>tools/fetch_url\<close>,
    \<open>scrape_page\<close>, \<open>http_*\<close>, \<open>webhook\<close>, \<open>send_webhook\<close>, \<open>call_webhook\<close>, \<open>send_notification\<close>, \<open>send_slack\<close>, \<open>post_message\<close>,
    \<open>search_web\<close>): requests as lists of what is sent and waited for, against a network that answers by the history.
    \<open>MailTool\<close> (\<open>tools/send_email\<close>): the letter and the SMTP dialogue, against a server that is a function of what
    it has received.
  \<^item> \<open>Explain\<close>, \<open>ExplainSystem\<close>, \<open>ExplainUtils\<close>, \<open>Explainer\<close> (\<open>enforcement/command-explainer/patterns.ts\<close>,
    \<open>hitl/command-explainer.ts\<close>, the explained fields of \<open>dispatchHitlChannel\<close>): how a command line is explained to the
    operator, one definition per detector and the table of rules. \<open>ExplainerProps\<close> compares the table with a
    dictionary of programs, and shows what is always warned of and what a command can hide; for rm it has a reading
    of the options of its own, to which the warnings are compared.
  \<^item> \<open>Messages\<close> (the requests and confirmations of \<open>hitl/telegram.ts\<close>, \<open>hitl/slack.ts\<close>, \<open>hitl/console.ts\<close>): what
    the channels send. \<open>MessagesProps\<close> reads the marked-up text back with the syntax Telegram documents, and the
    buttons of every message with the listeners of \<open>Channels\<close>.

  \<^bold>\<open>How code became definitions.\<close>  An interface is a record of its fields, a union a datatype, a class the record
  of its private fields with one definition per method that returns the new record. A \<open>Map\<close> is an association
  list in the order of insertion. An exception is the left side of a sum, a missing value \<open>None\<close>. An \<open>async\<close>
  function is cut at the waits between which others run: the handler, \<open>runWithHitl\<close>,
  \<open>persistAutoPermitPattern\<close> and \<open>unsafe_admin_exec\<close> are two or three definitions each, and the state of the rest of the plugin may
  change between them.

  \<^bold>\<open>Parameters\<close>  (code that is not in the repository, or answers of the world): SHA-256 and HMAC, \<open>localeCompare\<close>, the
  messages of TypeBox, \<open>JSON.parse\<close>, the YAML parser and \<open>URLSearchParams\<close>, \<open>Date.now\<close>, \<open>Date.parse\<close>, local midnight, random numbers
  and UUIDs, compilation of operator's regular expressions, the results of sending a message and the answers of the
  Bot API, contents of files that are read, the answers of processes (a function of the history of
  processes), faults of the disk (a function of the call), sizes and times of directories, the parsers of URLs and pages, the answers of the network and of the
  SMTP server. No law is assumed
  of them except where a property names it as a hypothesis.

  \<^bold>\<open>Bounds and fuel.\<close>  The regular expression matcher is structural; a star counts the rest of the text and stops on an
  empty match, as JavaScript does. Loops over texts recurse on them with a bound of their length, which
  suffices since each turn consumes a character. \<open>withRetry\<close> has a measure, the attempts that are left. Links of the disk
  are followed 40 times and then refused with ELOOP, as Linux does.

  \<^bold>\<open>Abstractions.\<close>  Texts are lists of characters below 256, so that pictographs and dashes in messages are left out or
  replaced; costs are exact rationals and JSON numbers integers; console output is left out; waits for the
  audit file are no points of interleaving, except in \<open>AdminExec\<close>, where the wait stands between a check and its
  use; an operation of the RFC processor runs to its end; a call of \<open>node:fs\<close> that fails leaves the files
  as they were, except a write, which may leave a prefix of the content.

  \<^bold>\<open>Not modelled.\<close>  The sockets of the channels, the admin interface in \<open>ui/\<close>, the command line
  scripts and the end to end tests are input, output and glue. The watcher of the auto-permit store is a timer
  around a reload that is modelled. Tools that have a manifest only are modelled by it. The tools that search
  files and report on the host, the utilities of the command line and the validators of releases are listed in
  the manifest with their reasons.
\<close>

end
